(* ===== verification/Clowder_Prelude.thy ===== *)
theory Clowder_Prelude
  imports Main "HOL-Library.Word" "HOL-Library.Char_ord" "HOL-Library.List_Lexorder" "HOL-Library.Multiset"
begin

text \<open>
  The vocabulary every component of the Clowder model shares: what the sources use of Go's own
  library (decimal printing and parsing of integers, \<open>strings.Join\<close>, \<open>strings.Split\<close>,
  \<open>strings.HasSuffix\<close>, the zero value a Go map yields for an absent key, \<open>sort.Slice\<close>),
  with the lemmas about them, and the collections the component proofs draw on.

  Go strings are byte strings and are modelled by \<^typ>\<open>string\<close>; their \<open><\<close> is the bytewise
  lexicographic order, which is the order \<open>Char_ord\<close> and \<open>List_Lexorder\<close> give.
\<close>

named_theorems go_simps \<open>evaluation rules for the Go library functions\<close>
named_theorems frame_simps \<open>which parts of a state an operation leaves alone\<close>
named_theorems inv_intros \<open>operations preserve the invariant of their component\<close>

section \<open>Opaque values\<close>

text \<open>
  Values of third-party types the sources only carry from one place to another (probes'
  handlers, lifecycle hooks, auto-scaler triggers) are kept in their serialised form.
\<close>

type_synonym opaque = string

section \<open>Maps\<close>

text \<open>Reading a Go map of strings at an absent key yields the empty string.\<close>

type_synonym smap = "string \<rightharpoonup> string"

definition mget :: "('k \<rightharpoonup> string) \<Rightarrow> 'k \<Rightarrow> string" where
  "mget m k = (case m k of None \<Rightarrow> '''' | Some v \<Rightarrow> v)"

lemma mget_simps [simp, go_simps]:
  "m k = None \<Longrightarrow> mget m k = ''''"
  "m k = Some v \<Longrightarrow> mget m k = v"
  by (simp_all add: mget_def)

lemma mget_upd [simp, go_simps]: "mget (m(k \<mapsto> v)) k' = (if k' = k then v else mget m k')"
  by (simp add: mget_def)

lemma mget_empty [simp, go_simps]: "mget Map.empty k = ''''"
  by (simp add: mget_def)

text \<open>The last binding of a key wins when a list is folded into a map.\<close>

definition map_by :: "('a \<Rightarrow> 'k) \<Rightarrow> 'a list \<Rightarrow> 'k \<rightharpoonup> 'a" where
  "map_by key xs = foldl (\<lambda>m x. m(key x \<mapsto> x)) Map.empty xs"

lemma foldl_map_upd:
  "foldl (\<lambda>m x. m(key x \<mapsto> x)) m0 xs k =
     (case find (\<lambda>x. key x = k) (rev xs) of None \<Rightarrow> m0 k | Some x \<Rightarrow> Some x)"
  by (induction xs rule: rev_induct) auto

lemma map_by_eq: "map_by key xs k = find (\<lambda>x. key x = k) (rev xs)"
  by (simp add: map_by_def foldl_map_upd split: option.split)

lemma map_by_None [simp]: "map_by key xs k = None \<longleftrightarrow> k \<notin> key ` set xs"
  by (auto simp: map_by_eq find_None_iff)

lemma map_by_SomeD: "map_by key xs k = Some x \<Longrightarrow> x \<in> set xs \<and> key x = k"
  using nth_mem [of _ "rev xs"] by (fastforce simp: map_by_eq find_Some_iff)

lemma map_by_unique:
  assumes "inj_on key (set xs)" and "x \<in> set xs"
  shows "map_by key xs (key x) = Some x"
proof (cases "map_by key xs (key x)")
  case None
  with assms(2) show ?thesis by auto
next
  case (Some y)
  with assms map_by_SomeD [OF Some] show ?thesis by (auto dest: inj_onD)
qed

section \<open>Decimal numbers\<close>

text \<open>\<open>strconv.Itoa\<close> and the \<open>%d\<close> verb; \<open>strconv.Atoi\<close> for 64-bit integers.\<close>

fun digits :: "nat \<Rightarrow> string" where
  "digits n = (if n < 10 then [char_of (48 + n)] else digits (n div 10) @ [char_of (48 + n mod 10)])"

declare digits.simps [simp del, code]

definition itoa :: "int \<Rightarrow> string" where
  "itoa i = (if i < 0 then CHR ''-'' # digits (nat (- i)) else digits (nat i))"

definition is_digit :: "char \<Rightarrow> bool" where
  "is_digit c = (48 \<le> (of_char c :: nat) \<and> (of_char c :: nat) \<le> 57)"

definition digit_val :: "char \<Rightarrow> nat" where
  "digit_val c = of_char c - 48"

definition parse_digits :: "string \<Rightarrow> nat option" where
  "parse_digits s = (if s \<noteq> [] \<and> list_all is_digit s
     then Some (foldl (\<lambda>n c. n * 10 + digit_val c) 0 s) else None)"

definition atoi :: "string \<Rightarrow> int option" where
  "atoi s =
     (let (neg, ds) = (case s of [] \<Rightarrow> (False, [])
                       | c # cs \<Rightarrow> if c = CHR ''-'' then (True, cs)
                                   else if c = CHR ''+'' then (False, cs) else (False, s))
      in case parse_digits ds of None \<Rightarrow> None
         | Some n \<Rightarrow> (let i = (if neg then - int n else int n)
                     in if - (2 ^ 63) \<le> i \<and> i < 2 ^ 63 then Some i else None))"

lemma of_char_char_of_digit: "(n :: nat) < 10 \<Longrightarrow> (of_char (char_of (48 + n) :: char) :: nat) = 48 + n"
  by simp

lemma is_digit_char_of: "(n :: nat) < 10 \<Longrightarrow> is_digit (char_of (48 + n))"
  by (simp add: is_digit_def)

lemma digit_val_char_of: "(n :: nat) < 10 \<Longrightarrow> digit_val (char_of (48 + n)) = n"
  by (simp add: digit_val_def)

lemma digits_ne_Nil [simp]: "digits n \<noteq> []"
  by (subst digits.simps) simp

lemma digits_all_digits: "list_all is_digit (digits n)"
proof (induction n rule: digits.induct)
  case (1 n)
  then show ?case
    by (subst digits.simps) (auto intro: is_digit_char_of)
qed

lemma digits_val: "foldl (\<lambda>n c. n * 10 + digit_val c) 0 (digits n) = n"
proof (induction n rule: digits.induct)
  case (1 n)
  show ?case
  proof (cases "n < 10")
    case True
    then show ?thesis by (subst digits.simps) (simp add: digit_val_char_of)
  next
    case False
    then have "foldl (\<lambda>n c. n * 10 + digit_val c) 0 (digits (n div 10)) = n div 10"
      using "1.IH" by simp
    with False show ?thesis
      by (subst digits.simps) (simp add: digit_val_char_of)
  qed
qed

lemma parse_digits_digits [simp]: "parse_digits (digits n) = Some n"
  by (simp add: parse_digits_def digits_all_digits digits_val)

lemma digits_hd: "is_digit (hd (digits n))"
  using digits_all_digits [of n] digits_ne_Nil [of n] by (cases "digits n") auto

lemma not_digit_sign [simp]: "\<not> is_digit CHR ''-''" "\<not> is_digit CHR ''+''"
  by (simp_all add: is_digit_def)

lemma atoi_digits: "int n < 2 ^ 63 \<Longrightarrow> atoi (digits n) = Some (int n)"
  using digits_hd [of n] parse_digits_digits [of n]
  by (cases "digits n") (auto simp: atoi_def)

text \<open>Parsing what was printed gives the number back.\<close>

lemma atoi_itoa: "- (2 ^ 63) \<le> i \<Longrightarrow> i < 2 ^ 63 \<Longrightarrow> atoi (itoa i) = Some i"
proof (cases "i < 0")
  case True
  assume "- (2 ^ 63) \<le> i" and "i < 2 ^ 63"
  with True show ?thesis
    by (simp add: itoa_def atoi_def)
next
  case False
  assume "- (2 ^ 63) \<le> i" and "i < 2 ^ 63"
  with False show ?thesis
    using atoi_digits [of "nat i"] by (simp add: itoa_def)
qed

lemma itoa_inj: "- (2 ^ 63) \<le> i \<Longrightarrow> i < 2 ^ 63 \<Longrightarrow> - (2 ^ 63) \<le> j \<Longrightarrow> j < 2 ^ 63 \<Longrightarrow>
    itoa i = itoa j \<Longrightarrow> i = j"
  by (metis atoi_itoa option.inject)

section \<open>Strings\<close>

fun join :: "string \<Rightarrow> string list \<Rightarrow> string" where
  "join sep [] = ''''"
| "join sep [x] = x"
| "join sep (x # y # xs) = x @ sep @ join sep (y # xs)"

text \<open>\<open>strings.Split\<close> at a one-byte separator: never empty, \<open>[\"\"]\<close> for the empty string.\<close>

fun split_on :: "char \<Rightarrow> string \<Rightarrow> string list" where
  "split_on c [] = [[]]"
| "split_on c (x # xs) =
     (if x = c then [] # split_on c xs
      else (case split_on c xs of [] \<Rightarrow> [[x]] | y # ys \<Rightarrow> (x # y) # ys))"

lemma split_on_ne [simp]: "split_on c s \<noteq> []"
  by (cases s) (auto split: list.splits)

lemma join_split_on: "join [c] (split_on c s) = s"
proof (induction s)
  case Nil
  then show ?case by simp
next
  case (Cons x xs)
  obtain y ys where y: "split_on c xs = y # ys"
    by (meson list.exhaust split_on_ne)
  with Cons.IH show ?case by (cases ys) auto
qed

lemma split_on_sepfree: "c \<notin> set s \<Longrightarrow> split_on c s = [s]"
  by (induction s) auto

lemma split_on_append: "c \<notin> set s \<Longrightarrow> split_on c (s @ c # t) = s # split_on c t"
  by (induction s) auto

lemma split_on_join:
  "xs \<noteq> [] \<Longrightarrow> (\<forall>x \<in> set xs. c \<notin> set x) \<Longrightarrow> split_on c (join [c] xs) = xs"
  by (induction "[c]" xs rule: join.induct) (auto simp: split_on_sepfree split_on_append)

definition has_suffix :: "string \<Rightarrow> string \<Rightarrow> bool" where
  "has_suffix s suf = (length suf \<le> length s \<and> drop (length s - length suf) s = suf)"

lemma has_suffix_iff: "has_suffix s suf \<longleftrightarrow> (\<exists>p. s = p @ suf)"
  by (auto simp: has_suffix_def) (metis append_take_drop_id)

definition has_prefix :: "string \<Rightarrow> string \<Rightarrow> bool" where
  "has_prefix s pre = (take (length pre) s = pre)"

text \<open>
  Joining two parts with a separator that occurs in neither loses nothing: the two parts can be
  read back.
\<close>

lemma sep_join_inj:
  fixes c :: char
  assumes "c \<notin> set a" "c \<notin> set a'" "a @ c # b = a' @ c # b'"
  shows "a = a' \<and> b = b'"
proof -
  have "split_on c (a @ c # b) = split_on c (a' @ c # b')" using assms(3) by simp
  then have "a = a'" using assms(1,2) by (simp add: split_on_append)
  with assms(3) show ?thesis by simp
qed

section \<open>Membership loops\<close>

text \<open>The loops \<open>contains\<close>, \<open>isInServesList\<close> and their kin: scan a list for an element.\<close>

fun scan :: "('a \<Rightarrow> bool) \<Rightarrow> 'a list \<Rightarrow> bool" where
  "scan p [] = False"
| "scan p (x # xs) = (if p x then True else scan p xs)"

lemma scan_iff [simp]: "scan p xs \<longleftrightarrow> (\<exists>x \<in> set xs. p x)"
  by (induction xs) auto

section \<open>Sorting with a comparator\<close>

text \<open>
  \<open>sort.Slice\<close> and \<open>sort.Sort\<close> take a strict comparator. What they promise is a permutation of
  the slice in which no element is smaller than one before it; \<open>sort_slice\<close> is the insertion
  sort Go itself runs on short slices.
\<close>

fun insert_less :: "('a \<Rightarrow> 'a \<Rightarrow> bool) \<Rightarrow> 'a \<Rightarrow> 'a list \<Rightarrow> 'a list" where
  "insert_less lt x [] = [x]"
| "insert_less lt x (y # ys) = (if lt x y then x # y # ys else y # insert_less lt x ys)"

definition sort_slice :: "('a \<Rightarrow> 'a \<Rightarrow> bool) \<Rightarrow> 'a list \<Rightarrow> 'a list" where
  "sort_slice lt xs = foldl (\<lambda>acc x. insert_less lt x acc) [] xs"

definition go_sorted :: "('a \<Rightarrow> 'a \<Rightarrow> bool) \<Rightarrow> 'a list \<Rightarrow> bool" where
  "go_sorted lt xs = sorted_wrt (\<lambda>x y. \<not> lt y x) xs"

definition is_sort_of :: "('a \<Rightarrow> 'a \<Rightarrow> bool) \<Rightarrow> 'a list \<Rightarrow> 'a list \<Rightarrow> bool" where
  "is_sort_of lt xs ys = (mset ys = mset xs \<and> go_sorted lt ys)"

lemma mset_insert_less: "mset (insert_less lt x xs) = add_mset x (mset xs)"
  by (induction xs) auto

lemma set_insert_less [simp]: "set (insert_less lt x xs) = insert x (set xs)"
  by (induction xs) auto

lemma mset_foldl_insert_less:
  "mset (foldl (\<lambda>acc x. insert_less lt x acc) acc xs) = mset acc + mset xs"
  by (induction xs arbitrary: acc) (auto simp: mset_insert_less)

lemma mset_sort_slice [simp]: "mset (sort_slice lt xs) = mset xs"
  by (simp add: sort_slice_def mset_foldl_insert_less)

lemma set_sort_slice [simp]: "set (sort_slice lt xs) = set xs"
  by (metis mset_sort_slice set_mset_mset)

text \<open>The comparators of the sources compare a key; for these the result is sorted.\<close>

lemma go_sorted_insert_less:
  fixes key :: "'a \<Rightarrow> 'b :: linorder"
  assumes "\<And>a b. lt a b \<longleftrightarrow> key a < key b"
  shows "go_sorted lt xs \<Longrightarrow> go_sorted lt (insert_less lt x xs)"
  by (induction xs) (auto simp: go_sorted_def assms)

lemma go_sorted_sort_slice:
  fixes key :: "'a \<Rightarrow> 'b :: linorder"
  assumes key: "\<And>a b. lt a b \<longleftrightarrow> key a < key b"
  shows "go_sorted lt (sort_slice lt xs)"
proof -
  have "go_sorted lt acc \<Longrightarrow> go_sorted lt (foldl (\<lambda>acc x. insert_less lt x acc) acc xs)" for acc
    by (induction xs arbitrary: acc) (auto intro: go_sorted_insert_less [of lt, OF key])
  from this [of "[]"] show ?thesis by (simp add: sort_slice_def go_sorted_def)
qed

lemma is_sort_of_sort_slice:
  fixes key :: "'a \<Rightarrow> 'b :: linorder"
  assumes "\<And>a b. lt a b \<longleftrightarrow> key a < key b"
  shows "is_sort_of lt xs (sort_slice lt xs)"
  by (simp add: is_sort_of_def go_sorted_sort_slice [of lt, OF assms])

text \<open>When keys are distinct there is only one sorted permutation, whatever the algorithm.\<close>

lemma sorted_perm_unique:
  fixes key :: "'a \<Rightarrow> 'b :: linorder"
  assumes "mset ys = mset zs" "inj_on key (set ys)"
    "sorted (map key ys)" "sorted (map key zs)"
  shows "ys = zs"
proof -
  have s: "set zs = set ys" using assms(1) by (metis set_mset_mset)
  have "mset (map key ys) = mset (map key zs)" using assms(1) by simp
  with assms(3,4) have "map key ys = map key zs"
    by (metis properties_for_sort)
  with assms(2) s show ?thesis
    by (metis (no_types, lifting) map_inj_on Un_absorb)
qed

lemma go_sorted_key_iff:
  fixes key :: "'a \<Rightarrow> 'b :: linorder"
  assumes "\<And>a b. lt a b \<longleftrightarrow> key a < key b"
  shows "go_sorted lt xs \<longleftrightarrow> sorted (map key xs)"
  by (simp add: go_sorted_def sorted_map assms not_less)

lemma is_sort_of_unique:
  fixes key :: "'a \<Rightarrow> 'b :: linorder"
  assumes "\<And>a b. lt a b \<longleftrightarrow> key a < key b" "inj_on key (set xs)"
    "is_sort_of lt xs ys" "is_sort_of lt xs zs"
  shows "ys = zs"
proof (rule sorted_perm_unique [where key = key])
  show "mset ys = mset zs" using assms(3,4) by (simp add: is_sort_of_def)
  show "inj_on key (set ys)"
    using assms(2,3) by (metis is_sort_of_def set_mset_mset)
  show "sorted (map key ys)" "sorted (map key zs)"
    using assms(3,4) go_sorted_key_iff [of lt, OF assms(1)] by (auto simp: is_sort_of_def)
qed

text \<open>The same when the comparator compares the key only for the elements at hand.\<close>

lemma is_sort_of_unique_on:
  fixes key :: "'a \<Rightarrow> 'b :: linorder"
  assumes lt: "\<And>a b. a \<in> set xs \<Longrightarrow> b \<in> set xs \<Longrightarrow> lt a b \<longleftrightarrow> key a < key b"
    and "inj_on key (set xs)" "mset xs' = mset xs" "is_sort_of lt xs ys" "is_sort_of lt xs' zs"
  shows "ys = zs"
proof (rule sorted_perm_unique [where key = key])
  have sets: "set ys = set xs" "set zs = set xs"
    using assms(3-5) by (metis is_sort_of_def set_mset_mset)+
  have "sorted_wrt (\<lambda>x y. key x \<le> key y) us" if "go_sorted lt us" "set us = set xs" for us
    using that lt unfolding go_sorted_def by (metis (no_types, lifting) not_less sorted_wrt_mono_rel)
  then show "sorted (map key ys)" "sorted (map key zs)"
    using assms(4,5) sets by (auto simp: is_sort_of_def sorted_map)
  show "mset ys = mset zs" using assms(3-5) by (simp add: is_sort_of_def)
  show "inj_on key (set ys)" using assms(2) sets by simp
qed

text \<open>Comparing strings with the same or different tails when neither is a prefix of the other.\<close>

lemma append_less_append:
  fixes x y :: string
  assumes "\<nexists>z. y = x @ z" "\<nexists>z. x = y @ z"
  shows "x @ s < y @ t \<longleftrightarrow> x < y"
  using assms
proof (induction x arbitrary: y)
  case Nil
  then show ?case by simp
next
  case (Cons c x)
  show ?case
  proof (cases y)
    case Nil
    with Cons.prems show ?thesis by simp
  next
    case (Cons d y')
    show ?thesis
    proof (cases "c = d")
      case True
      with Cons Cons.prems have "x @ s < y' @ t \<longleftrightarrow> x < y'" by (intro Cons.IH) auto
      with True Cons show ?thesis by simp
    next
      case False
      with Cons show ?thesis by simp
    qed
  qed
qed

section \<open>Iterating over a Go map\<close>

text \<open>
  Go visits the keys of a map in an unspecified order. Where the sources range over a map, the
  model takes the keys in insertion order and an arbitrary rearrangement of them.
\<close>

definition go_iteration :: "('a list \<Rightarrow> 'a list) \<Rightarrow> bool" where
  "go_iteration iter = (\<forall>ks. mset (iter ks) = mset ks)"

lemma go_iteration_set: "go_iteration iter \<Longrightarrow> set (iter ks) = set ks"
  unfolding go_iteration_def by (metis set_mset_mset)

lemma go_iteration_distinct: "go_iteration iter \<Longrightarrow> distinct (iter ks) = distinct ks"
  unfolding go_iteration_def by (metis mset_eq_imp_distinct_iff)

lemma go_iteration_length: "go_iteration iter \<Longrightarrow> length (iter ks) = length ks"
  unfolding go_iteration_def by (metis size_mset)

lemma go_iteration_instances [simp]: "go_iteration (\<lambda>ks. ks)" "go_iteration rev"
  by (simp_all add: go_iteration_def)

section \<open>Fallible loops\<close>

text \<open>A Go loop whose body may return an error early, over a state.\<close>

fun for_err :: "('a \<Rightarrow> 's \<Rightarrow> 's \<times> 'e option) \<Rightarrow> 'a list \<Rightarrow> 's \<Rightarrow> 's \<times> 'e option" where
  "for_err body [] s = (s, None)"
| "for_err body (x # xs) s =
     (case body x s of (s', Some e) \<Rightarrow> (s', Some e) | (s', None) \<Rightarrow> for_err body xs s')"

lemma for_err_append:
  "for_err body (xs @ ys) s =
     (case for_err body xs s of (s', Some e) \<Rightarrow> (s', Some e) | (s', None) \<Rightarrow> for_err body ys s')"
  by (induction xs arbitrary: s) (auto split: prod.splits option.splits)

lemma for_err_invariant:
  assumes "\<And>x s. x \<in> set xs \<Longrightarrow> P s \<Longrightarrow> P (fst (body x s))"
  shows "P s \<Longrightarrow> P (fst (for_err body xs s))"
  using assms
proof (induction xs arbitrary: s)
  case Nil
  then show ?case by simp
next
  case (Cons x xs)
  obtain s1 r where b: "body x s = (s1, r)" by fastforce
  from Cons.prems have "P (fst (body x s))" by simp
  with b have "P s1" by simp
  with Cons b show ?case by (cases r) auto
qed

lemma for_err_cong [fundef_cong]:
  "xs = ys \<Longrightarrow> s = t \<Longrightarrow> (\<And>x u. x \<in> set ys \<Longrightarrow> f x u = g x u) \<Longrightarrow> for_err f xs s = for_err g ys t"
  by (induction xs arbitrary: s t ys) (auto split: prod.splits option.splits)

end
