(* ===== verification/Clowd_Errors.thy ===== *)
theory Clowd_Errors
  imports Clowder_Prelude
begin

text \<open>
  The errors of Clowder: \<open>controllers/cloud.redhat.com/errors/errors.go\<close>, the skip error of
  \<open>clowdenvironment_reconciliation.go\<close> and the cache-miss error of \<open>hashcache.go\<close>, as values of
  one datatype. \<open>WrapErr\<close> is \<open>fmt.Errorf\<close> with the \<open>%w\<close> verb, \<open>PlainErr\<close> an error with no
  cause, \<open>NotFound\<close> an API error whose reason is \<open>NotFound\<close>. The stack trace \<open>zap.Stack\<close>
  captures is a parameter of the constructors.

  The main facts: wrapping keeps the requeue flag of the wrapped error however deep it is,
  and the root stack is the innermost recorded one.
\<close>

record MissingDependency =
  md_Source :: string
  md_Details :: string

datatype goerr =
    ClowderError (ce_Stack: string) (ce_Msg: string) (ce_Cause: "goerr option") (ce_Requeue: bool)
  | SkippedError string
  | MissingDependencies "MissingDependency list"
  | ItemNotFoundError string
  | WrapErr string goerr
  | NotFound string
  | PlainErr string

definition MissingDependency_ToString :: "MissingDependency \<Rightarrow> string" where
  "MissingDependency_ToString m = ''source: '' @ md_Source m @ '', details: '' @ md_Details m"

definition MakeMissingDependencies :: "MissingDependency \<Rightarrow> goerr" where
  "MakeMissingDependencies m = MissingDependencies [m]"

definition MissingDependencies_Error :: "MissingDependency list \<Rightarrow> string" where
  "MissingDependencies_Error ms =
     ''Missing dependencies: ['' @ join ''; '' (map MissingDependency_ToString ms) @ '']''"

fun Error :: "goerr \<Rightarrow> string" where
  "Error (ClowderError st msg cause rq) =
     msg @ '': '' @ (case cause of None \<Rightarrow> '''' | Some e \<Rightarrow> Error e)"
| "Error (SkippedError s) = ''skipped because: '' @ s"
| "Error (MissingDependencies ms) = MissingDependencies_Error ms"
| "Error (ItemNotFoundError i) = ''item ['' @ i @ ''] not found''"
| "Error (WrapErr p e) = p @ Error e"
| "Error (NotFound s) = s"
| "Error (PlainErr s) = s"

text \<open>The \<open>Unwrap\<close> chain, and \<open>errors.As\<close> for a \<open>*ClowderError\<close> target along it.\<close>

fun Unwrap :: "goerr \<Rightarrow> goerr option" where
  "Unwrap (ClowderError st msg cause rq) = cause"
| "Unwrap (WrapErr p e) = Some e"
| "Unwrap _ = None"

fun AsClowderError :: "goerr \<Rightarrow> goerr option" where
  "AsClowderError (ClowderError st msg cause rq) = Some (ClowderError st msg cause rq)"
| "AsClowderError (WrapErr p e) = AsClowderError e"
| "AsClowderError _ = None"

fun IsNotFound :: "goerr \<Rightarrow> bool" where
  "IsNotFound (NotFound s) = True"
| "IsNotFound (ClowderError st msg (Some e) rq) = IsNotFound e"
| "IsNotFound (WrapErr p e) = IsNotFound e"
| "IsNotFound _ = False"

definition NewClowderError :: "string \<Rightarrow> string \<Rightarrow> goerr" where
  "NewClowderError stack msg = ClowderError stack msg None False"

definition Wrap :: "string \<Rightarrow> string \<Rightarrow> goerr \<Rightarrow> goerr" where
  "Wrap stack msg err =
     (case AsClowderError err of
        Some cerr \<Rightarrow> ClowderError stack msg (Some err) (ce_Requeue cerr)
      | None \<Rightarrow> ClowderError stack msg (Some err) False)"

definition NewSkippedError :: "string \<Rightarrow> goerr" where
  "NewSkippedError s = SkippedError s"

definition shouldSkipReconciliation :: "goerr option \<Rightarrow> bool" where
  "shouldSkipReconciliation err = (case err of Some (SkippedError s) \<Rightarrow> True | _ \<Rightarrow> False)"

lemma shouldSkipReconciliation_simps [simp]:
  "\<not> shouldSkipReconciliation None"
  "shouldSkipReconciliation (Some e) \<longleftrightarrow> (\<exists>s. e = SkippedError s)"
  by (cases e; simp add: shouldSkipReconciliation_def)+

text \<open>
  \<open>GetRootStack\<close> descends the whole \<open>Unwrap\<close> chain while a \<open>ClowderError\<close> remains in it, and takes
  the stack of the deepest one that has any.
\<close>

fun GetRootStack :: "goerr \<Rightarrow> string" where
  "GetRootStack err =
     (case AsClowderError err of
        None \<Rightarrow> ''''
      | Some cerr \<Rightarrow>
          (let stack = (case err of
                          ClowderError st msg (Some cause) rq \<Rightarrow> GetRootStack cause
                        | WrapErr p cause \<Rightarrow> GetRootStack cause
                        | _ \<Rightarrow> '''')
           in if stack = '''' then ce_Stack cerr else stack))"

declare GetRootStack.simps [simp del]

section \<open>Facts\<close>

text \<open>The stacks recorded along the chain, outermost first.\<close>

fun chain_stacks :: "goerr \<Rightarrow> string list" where
  "chain_stacks (ClowderError st msg cause rq) =
     st # (case cause of None \<Rightarrow> [] | Some e \<Rightarrow> chain_stacks e)"
| "chain_stacks (WrapErr p e) = chain_stacks e"
| "chain_stacks _ = []"

definition last_nonempty :: "string list \<Rightarrow> string" where
  "last_nonempty xs = (case filter (\<lambda>s. s \<noteq> '''') xs of [] \<Rightarrow> '''' | ys \<Rightarrow> last ys)"

lemma last_nonempty_Nil [simp]: "last_nonempty [] = []"
  by (simp add: last_nonempty_def)

lemma last_nonempty_Cons:
  "last_nonempty (x # xs) = (if last_nonempty xs = '''' then x else last_nonempty xs)"
proof (cases "filter (\<lambda>s. s \<noteq> '''') xs")
  case Nil
  then show ?thesis by (simp add: last_nonempty_def)
next
  case (Cons y ys)
  have "last (y # ys) \<in> set (filter (\<lambda>s. s \<noteq> '''') xs)" by (simp only: Cons last_in_set) simp
  then have "last (y # ys) \<noteq> ''''" by simp
  with Cons show ?thesis by (simp add: last_nonempty_def)
qed

lemma AsClowderError_None: "AsClowderError e = None \<Longrightarrow> chain_stacks e = []"
  by (induction e rule: AsClowderError.induct) auto

lemma AsClowderError_SomeD:
  "AsClowderError e = Some c \<Longrightarrow> \<exists>rest. chain_stacks e = ce_Stack c # rest"
  by (induction e rule: AsClowderError.induct) auto

lemma GetRootStack_eq: "GetRootStack e = last_nonempty (chain_stacks e)"
proof (induction e rule: GetRootStack.induct)
  case (1 err)
  show ?case
  proof (cases err)
    case (ClowderError st msg cause rq)
    with 1 show ?thesis
      by (subst GetRootStack.simps)
        (auto simp: last_nonempty_Cons Let_def split: option.splits)
  next
    case (WrapErr p e)
    show ?thesis
    proof (cases "AsClowderError e")
      case None
      with WrapErr AsClowderError_None [OF None] show ?thesis
        by (subst GetRootStack.simps) simp
    next
      case (Some c)
      with 1 WrapErr have IH: "GetRootStack e = last_nonempty (chain_stacks e)" by simp
      obtain rest where "chain_stacks e = ce_Stack c # rest"
        using AsClowderError_SomeD [OF Some] by blast
      with IH Some WrapErr show ?thesis
        by (subst GetRootStack.simps) (auto simp: last_nonempty_Cons Let_def)
    qed
  qed (subst GetRootStack.simps, simp)+
qed

text \<open>Whether the innermost-first chain asks for a requeue, as \<open>Wrap\<close> reads it.\<close>

definition requeue_of :: "goerr \<Rightarrow> bool" where
  "requeue_of e = (case AsClowderError e of Some c \<Rightarrow> ce_Requeue c | None \<Rightarrow> False)"

lemma requeue_of_Wrap [simp]: "requeue_of (Wrap st msg e) = requeue_of e"
  by (simp add: Wrap_def requeue_of_def split: option.splits)

lemma requeue_of_WrapErr [simp]: "requeue_of (WrapErr p e) = requeue_of e"
  by (simp add: requeue_of_def)

text \<open>A chain of wrappings: a list of messages around an error, outermost first.\<close>

datatype wrapping = Cerr string string | Ferr string

fun wrap_all :: "wrapping list \<Rightarrow> goerr \<Rightarrow> goerr" where
  "wrap_all [] e = e"
| "wrap_all (Cerr st msg # ws) e = Wrap st msg (wrap_all ws e)"
| "wrap_all (Ferr p # ws) e = WrapErr p (wrap_all ws e)"

fun wrap_text :: "wrapping list \<Rightarrow> string" where
  "wrap_text [] = ''''"
| "wrap_text (Cerr st msg # ws) = msg @ '': '' @ wrap_text ws"
| "wrap_text (Ferr p # ws) = p @ wrap_text ws"

lemma Error_Wrap [simp]: "Error (Wrap st msg e) = msg @ '': '' @ Error e"
  by (simp add: Wrap_def split: option.splits)

lemma IsNotFound_Wrap [simp]: "IsNotFound (Wrap st msg e) = IsNotFound e"
  by (simp add: Wrap_def split: option.splits)

lemma Wrap_not_skipped [simp]: "Wrap st msg e \<noteq> SkippedError s"
  by (simp add: Wrap_def split: option.splits)

text \<open>
  However many times an error is wrapped on its way up (by \<open>errors.Wrap\<close> or by
  \<open>fmt.Errorf\<close>), the requeue flag of the error at the bottom, its text as a suffix of the message,
  its being a not-found error and its root stack survive: the flag, the suffix and the kind are
  those of the bottom error, and the root stack is the innermost recorded one.
\<close>

theorem wrapping_keeps_diagnosis:
  "requeue_of (wrap_all ws e) = requeue_of e
   \<and> Error (wrap_all ws e) = wrap_text ws @ Error e
   \<and> IsNotFound (wrap_all ws e) = IsNotFound e
   \<and> GetRootStack (wrap_all ws e) = last_nonempty (chain_stacks (wrap_all ws e))"
  by (intro conjI GetRootStack_eq; induction ws rule: wrap_text.induct) simp_all

end
