(* ===== verification/Kube_Types.thy ===== *)
theory Kube_Types
  imports Clowd_Errors
begin

text \<open>
  The parts of the Kubernetes API objects the Clowder sources read or write: object metadata,
  conditions, environment variables, volumes, probes, containers, deployments, jobs, secrets and
  config maps. Only the fields the modelled sources touch are kept; Go pointers are options,
  \<open>map[string]string\<close> is a partial function, and a value of a third-party type that is only
  passed along is opaque. Each record comes with its Go zero value.
\<close>

record NamespacedName =
  nn_Name :: string
  nn_Namespace :: string

abbreviation NN :: "string \<Rightarrow> string \<Rightarrow> NamespacedName" where
  "NN name ns \<equiv> \<lparr>nn_Name = name, nn_Namespace = ns\<rparr>"

record OwnerReference =
  or_APIVersion :: string
  or_Kind :: string
  or_Name :: string
  or_UID :: string
  or_Controller :: "bool option"

record ObjectMeta =
  om_Name :: string
  om_Namespace :: string
  om_UID :: string
  om_Generation :: int
  om_Labels :: smap
  om_Annotations :: smap
  om_Finalizers :: "string list"
  om_DeletionTimestamp :: "int option"
  om_OwnerReferences :: "OwnerReference list"

definition ObjectMeta_zero :: ObjectMeta where
  "ObjectMeta_zero = \<lparr>om_Name = '''', om_Namespace = '''', om_UID = '''', om_Generation = 0,
     om_Labels = Map.empty, om_Annotations = Map.empty, om_Finalizers = [],
     om_DeletionTimestamp = None, om_OwnerReferences = []\<rparr>"

text \<open>\<open>metav1.Condition\<close>; the transition time is a Unix time.\<close>

record Condition =
  cond_Type :: string
  cond_Status :: string
  cond_Reason :: string
  cond_Message :: string
  cond_LastTransitionTime :: int

definition Condition_zero :: Condition where
  "Condition_zero = \<lparr>cond_Type = '''', cond_Status = '''', cond_Reason = '''', cond_Message = '''',
     cond_LastTransitionTime = 0\<rparr>"

abbreviation ConditionTrue :: string where "ConditionTrue \<equiv> ''True''"
abbreviation ConditionFalse :: string where "ConditionFalse \<equiv> ''False''"

section \<open>Pods\<close>

record KeySelector =
  ks_Name :: string
  ks_Key :: string
  ks_Optional :: "bool option"

record ObjectFieldSelector =
  ofs_APIVersion :: string
  ofs_FieldPath :: string

record EnvVarSource =
  evs_FieldRef :: "ObjectFieldSelector option"
  evs_ConfigMapKeyRef :: "KeySelector option"
  evs_SecretKeyRef :: "KeySelector option"

record EnvVar =
  ev_Name :: string
  ev_Value :: string
  ev_ValueFrom :: "EnvVarSource option"

record VolumeMount =
  vm_Name :: string
  vm_ReadOnly :: bool
  vm_MountPath :: string

record VolumeSource =
  vs_Name :: string
  vs_DefaultMode :: "int option"
  vs_Optional :: "bool option"

record Volume =
  vol_Name :: string
  vol_PersistentVolumeClaim :: "string option"
  vol_ConfigMap :: "VolumeSource option"
  vol_Secret :: "VolumeSource option"
  vol_Other :: opaque

definition Volume_zero :: Volume where
  "Volume_zero = \<lparr>vol_Name = '''', vol_PersistentVolumeClaim = None, vol_ConfigMap = None,
     vol_Secret = None, vol_Other = ''''\<rparr>"

text \<open>An HTTP probe has a path, a scheme and a port, and may have headers.\<close>

datatype ProbeHandler = HTTPGet string string int | HTTPGetHeaders string string int "(string \<times> string) list" | ExecAction "string list" | TCPSocket int | OtherHandler opaque

record Probe =
  pr_Handler :: ProbeHandler
  pr_InitialDelaySeconds :: int
  pr_TimeoutSeconds :: int
  pr_PeriodSeconds :: int
  pr_SuccessThreshold :: int
  pr_FailureThreshold :: int

definition Probe_zero :: Probe where
  "Probe_zero = \<lparr>pr_Handler = OtherHandler '''', pr_InitialDelaySeconds = 0, pr_TimeoutSeconds = 0,
     pr_PeriodSeconds = 0, pr_SuccessThreshold = 0, pr_FailureThreshold = 0\<rparr>"

type_synonym ResourceList = "string \<rightharpoonup> string"

record ResourceRequirements =
  rr_Limits :: ResourceList
  rr_Requests :: ResourceList

definition ResourceRequirements_zero :: ResourceRequirements where
  "ResourceRequirements_zero = \<lparr>rr_Limits = Map.empty, rr_Requests = Map.empty\<rparr>"

record ContainerPort =
  cp_Name :: string
  cp_ContainerPort :: int
  cp_Protocol :: string

record Container =
  ct_Name :: string
  ct_Image :: string
  ct_Command :: "string list"
  ct_Args :: "string list"
  ct_Ports :: "ContainerPort list"
  ct_Env :: "EnvVar list"
  ct_Resources :: ResourceRequirements
  ct_VolumeMounts :: "VolumeMount list"
  ct_LivenessProbe :: "Probe option"
  ct_ReadinessProbe :: "Probe option"
  ct_ImagePullPolicy :: string
  ct_TerminationMessagePath :: string
  ct_TerminationMessagePolicy :: string
  ct_Lifecycle :: "opaque option"
  ct_RestartPolicy :: "string option"

definition Container_zero :: Container where
  "Container_zero = \<lparr>ct_Name = '''', ct_Image = '''', ct_Command = [], ct_Args = [], ct_Ports = [], ct_Env = [],
     ct_Resources = ResourceRequirements_zero, ct_VolumeMounts = [], ct_LivenessProbe = None,
     ct_ReadinessProbe = None, ct_ImagePullPolicy = '''', ct_TerminationMessagePath = '''',
     ct_TerminationMessagePolicy = '''', ct_Lifecycle = None, ct_RestartPolicy = None\<rparr>"

record Toleration =
  tol_Key :: string
  tol_Operator :: string
  tol_Value :: string
  tol_Effect :: string

record AffinityTerm =
  at_Weight :: int
  at_MatchLabels :: smap
  at_TopologyKey :: string

record PodTemplate =
  pt_Labels :: smap
  pt_Annotations :: smap
  pt_Containers :: "Container list"
  pt_InitContainers :: "Container list"
  pt_Volumes :: "Volume list"
  pt_Tolerations :: "Toleration list"
  pt_TerminationGracePeriodSeconds :: "int option"
  pt_PodAntiAffinity :: "AffinityTerm list"
  pt_ServiceAccountName :: string
  pt_RestartPolicy :: string
  pt_SecurityContext :: bool
  pt_SchedulerName :: string
  pt_DNSPolicy :: string

definition PodTemplate_zero :: PodTemplate where
  "PodTemplate_zero = \<lparr>pt_Labels = Map.empty, pt_Annotations = Map.empty, pt_Containers = [],
     pt_InitContainers = [], pt_Volumes = [], pt_Tolerations = [],
     pt_TerminationGracePeriodSeconds = None, pt_PodAntiAffinity = [],
     pt_ServiceAccountName = '''', pt_RestartPolicy = '''', pt_SecurityContext = False,
     pt_SchedulerName = '''', pt_DNSPolicy = ''''\<rparr>"

record ServicePort =
  sp_Name :: string
  sp_Port :: int
  sp_Protocol :: string
  sp_AppProtocol :: "string option"
  sp_TargetPort :: int

section \<open>Workloads\<close>

record DeploymentStrategyK =
  ds_Type :: string
  ds_RollingUpdate :: "(string \<times> string) option"

record DeploymentStatusK =
  kds_ObservedGeneration :: int
  kds_AvailableReplicas :: int
  kds_UpdatedReplicas :: int
  kds_ReadyReplicas :: int
  kds_Conditions :: "(string \<times> string) list"

record KDeployment =
  kd_ObjectMeta :: ObjectMeta
  kd_Replicas :: "int option"
  kd_Selector :: smap
  kd_Strategy :: DeploymentStrategyK
  kd_ProgressDeadlineSeconds :: "int option"
  kd_Template :: PodTemplate
  kd_Status :: DeploymentStatusK

definition KDeployment_zero :: KDeployment where
  "KDeployment_zero = \<lparr>kd_ObjectMeta = ObjectMeta_zero, kd_Replicas = None, kd_Selector = Map.empty,
     kd_Strategy = \<lparr>ds_Type = '''', ds_RollingUpdate = None\<rparr>, kd_ProgressDeadlineSeconds = None,
     kd_Template = PodTemplate_zero,
     kd_Status = \<lparr>kds_ObservedGeneration = 0, kds_AvailableReplicas = 0, kds_UpdatedReplicas = 0,
       kds_ReadyReplicas = 0, kds_Conditions = []\<rparr>\<rparr>"

text \<open>The status the Strimzi kinds (\<open>Kafka\<close>, \<open>KafkaTopic\<close>, \<open>KafkaConnect\<close>) share; its conditions
  hold optional types and statuses.\<close>

record StrimziStatus =
  ss_ObservedGeneration :: "int option"
  ss_Conditions :: "(string option \<times> string option) list"

record StrimziObject =
  so_ObjectMeta :: ObjectMeta
  so_Status :: "StrimziStatus option"

text \<open>A job, and a cron job with the fields of its job template; the conditions of a job are known by
  their types.\<close>

record KJob =
  kj_ObjectMeta :: ObjectMeta
  kj_Parallelism :: "int option"
  kj_Completions :: "int option"
  kj_BackoffLimit :: "int option"
  kj_ActiveDeadlineSeconds :: "int option"
  kj_Template :: PodTemplate
  kj_ConditionTypes :: "string list"

definition KJob_zero :: KJob where
  "KJob_zero = \<lparr>kj_ObjectMeta = ObjectMeta_zero, kj_Parallelism = None, kj_Completions = None, kj_BackoffLimit = None,
     kj_ActiveDeadlineSeconds = None, kj_Template = PodTemplate_zero, kj_ConditionTypes = []\<rparr>"

record KCronJob =
  kc_ObjectMeta :: ObjectMeta
  kc_Schedule :: string
  kc_ConcurrencyPolicy :: string
  kc_StartingDeadlineSeconds :: "int option"
  kc_Suspend :: "bool option"
  kc_SuccessfulJobsHistoryLimit :: "int option"
  kc_FailedJobsHistoryLimit :: "int option"
  kc_JobLabels :: smap
  kc_ActiveDeadlineSeconds :: "int option"
  kc_Parallelism :: "int option"
  kc_Completions :: "int option"
  kc_Template :: PodTemplate

definition KCronJob_zero :: KCronJob where
  "KCronJob_zero = \<lparr>kc_ObjectMeta = ObjectMeta_zero, kc_Schedule = '''', kc_ConcurrencyPolicy = '''',
     kc_StartingDeadlineSeconds = None, kc_Suspend = None, kc_SuccessfulJobsHistoryLimit = None,
     kc_FailedJobsHistoryLimit = None, kc_JobLabels = Map.empty, kc_ActiveDeadlineSeconds = None,
     kc_Parallelism = None, kc_Completions = None, kc_Template = PodTemplate_zero\<rparr>"

section \<open>Configuration objects\<close>

text \<open>A config map or a secret, the two kinds the hash cache and the event handlers tell apart,
  or any other watched object.\<close>

datatype kkind = KConfigMap | KSecret | KOther

record KObject =
  ko_Kind :: kkind
  ko_ObjectMeta :: ObjectMeta
  ko_Data :: "string \<rightharpoonup> string"

definition KObject_zero :: KObject where
  "KObject_zero = \<lparr>ko_Kind = KOther, ko_ObjectMeta = ObjectMeta_zero, ko_Data = Map.empty\<rparr>"

abbreviation ko_Name :: "KObject \<Rightarrow> string" where "ko_Name o' \<equiv> om_Name (ko_ObjectMeta o')"
abbreviation ko_Namespace :: "KObject \<Rightarrow> string" where "ko_Namespace o' \<equiv> om_Namespace (ko_ObjectMeta o')"

record KSecretObj =
  sec_ObjectMeta :: ObjectMeta
  sec_Data :: "string \<rightharpoonup> string"
  sec_StringData :: "string \<rightharpoonup> string"
  sec_Type :: string

definition KSecretObj_zero :: KSecretObj where
  "KSecretObj_zero = \<lparr>sec_ObjectMeta = ObjectMeta_zero, sec_Data = Map.empty,
     sec_StringData = Map.empty, sec_Type = ''''\<rparr>"

section \<open>Reconciliation results\<close>

text \<open>\<open>ctrl.Result\<close>, of which the sources only set \<open>Requeue\<close>.\<close>

record CtrlResult =
  Requeue :: bool

abbreviation res_done :: CtrlResult where "res_done \<equiv> \<lparr>Requeue = False\<rparr>"
abbreviation res_requeue :: CtrlResult where "res_requeue \<equiv> \<lparr>Requeue = True\<rparr>"

end
