(* ===== verification/Crd_Types.thy ===== *)
theory Crd_Types
  imports Kube_Types
begin

text \<open>
  The custom resources of \<open>apis/cloud.redhat.com/v1alpha1\<close>: \<open>ClowdApp\<close>, \<open>ClowdAppRef\<close>,
  \<open>ClowdEnvironment\<close> and \<open>ClowdJobInvocation\<close>, with their methods. Integers of the API (ports,
  replica counts, generations) are only compared and copied, never added, so they are \<^typ>\<open>int\<close>.
  A nil slice that the sources tell from an empty one is an option.
\<close>

section \<open>Web services and pods of a ClowdApp\<close>

record TLS =
  tls_Enabled :: bool
  tls_Port :: int
  tls_PrivatePort :: int
  tls_H2CPort :: int
  tls_H2CPrivatePort :: int

definition TLS_zero :: TLS where
  "TLS_zero = \<lparr>tls_Enabled = False, tls_Port = 0, tls_PrivatePort = 0, tls_H2CPort = 0,
     tls_H2CPrivatePort = 0\<rparr>"

record PublicWebService =
  pub_Enabled :: bool
  pub_H2CEnabled :: bool
  pub_H2CTargetPort :: "int option"
  pub_TLS :: "bool option"
  pub_APIPath :: string
  pub_APIPaths :: "string list option"
  pub_WhitelistPaths :: "string list"
  pub_SessionAffinity :: bool

record PrivateWebService =
  priv_Enabled :: bool
  priv_H2CEnabled :: bool
  priv_H2CTargetPort :: "int option"
  priv_TLS :: "bool option"

record WebServices =
  ws_Public :: PublicWebService
  ws_Private :: PrivateWebService

definition WebServices_zero :: WebServices where
  "WebServices_zero = \<lparr>ws_Public = \<lparr>pub_Enabled = False, pub_H2CEnabled = False,
       pub_H2CTargetPort = None, pub_TLS = None, pub_APIPath = '''', pub_APIPaths = None,
       pub_WhitelistPaths = [], pub_SessionAffinity = False\<rparr>,
     ws_Private = \<lparr>priv_Enabled = False, priv_H2CEnabled = False, priv_H2CTargetPort = None,
       priv_TLS = None\<rparr>\<rparr>"

record InitContainer =
  ic_Name :: string
  ic_Image :: string
  ic_Command :: "string list"
  ic_Args :: "string list"
  ic_InheritEnv :: bool
  ic_Env :: "EnvVar list"

text \<open>The environment variables of a sidecar are of Clowder's own types.\<close>

record ConfigMapKeySelector =
  cmk_LocalObjectReference :: string
  cmk_Key :: string
  cmk_Optional :: "bool option"

record SecretKeySelector =
  sks_LocalObjectReference :: string
  sks_Key :: string
  sks_Optional :: "bool option"

record CrdEnvVarSource =
  ces_ConfigMapKeyRef :: "ConfigMapKeySelector option"
  ces_SecretKeyRef :: "SecretKeySelector option"
  ces_FieldRef :: "ObjectFieldSelector option"

record CrdEnvVar =
  cev_Name :: string
  cev_Value :: string
  cev_ValueFrom :: "CrdEnvVarSource option"

record Sidecar =
  sc_Name :: string
  sc_Enabled :: bool
  sc_Image :: string
  sc_ConfigMap :: string
  sc_EnvVars :: "CrdEnvVar list"
  sc_MemoryRequest :: string
  sc_MemoryLimit :: string
  sc_VolumeMounts :: "VolumeMount list"

record PodspecMetadata =
  pm_Annotations :: smap

record PodSpec =
  ps_Image :: string
  ps_InitContainers :: "InitContainer list"
  ps_Metadata :: PodspecMetadata
  ps_Command :: "string list"
  ps_Args :: "string list"
  ps_Env :: "EnvVar list"
  ps_Resources :: ResourceRequirements
  ps_LivenessProbe :: "Probe option"
  ps_ReadinessProbe :: "Probe option"
  ps_Volumes :: "Volume list"
  ps_VolumeMounts :: "VolumeMount list"
  ps_Lifecycle :: "opaque option"
  ps_TerminationGracePeriodSeconds :: "int option"
  ps_Sidecars :: "Sidecar list"
  ps_MachinePool :: string

definition PodSpec_zero :: PodSpec where
  "PodSpec_zero = \<lparr>ps_Image = '''', ps_InitContainers = [], ps_Metadata = \<lparr>pm_Annotations = Map.empty\<rparr>,
     ps_Command = [], ps_Args = [], ps_Env = [], ps_Resources = ResourceRequirements_zero,
     ps_LivenessProbe = None, ps_ReadinessProbe = None, ps_Volumes = [], ps_VolumeMounts = [],
     ps_Lifecycle = None, ps_TerminationGracePeriodSeconds = None, ps_Sidecars = [],
     ps_MachinePool = ''''\<rparr>"

record SimpleAutoScalerMetric =
  sam_ScaleAtValue :: string
  sam_ScaleAtUtilization :: int

record SimpleAutoScalerReplicas =
  sar_Min :: int
  sar_Max :: int

record AutoScalerSimple =
  as_Replicas :: SimpleAutoScalerReplicas
  as_RAM :: SimpleAutoScalerMetric
  as_CPU :: SimpleAutoScalerMetric

text \<open>A KEDA trigger: its type, its metadata (the map may be nil) and the rest, which is passed along.\<close>

record ScaleTrigger =
  trg_Type :: string
  trg_Metadata :: "smap option"
  trg_Rest :: opaque

record AutoScaler =
  asc_PollingInterval :: "int option"
  asc_CooldownPeriod :: "int option"
  asc_MaxReplicaCount :: "int option"
  asc_MinReplicaCount :: "int option"
  asc_Advanced :: "opaque option"
  asc_Triggers :: "ScaleTrigger list"
  asc_Fallback :: "opaque option"
  asc_ExternalHPA :: bool

record DeploymentMetadata =
  dm_Annotations :: smap

record Deployment =
  dep_Name :: string
  dep_MinReplicas :: "int option"
  dep_Replicas :: "int option"
  dep_Web :: bool
  dep_WebServices :: WebServices
  dep_PodSpec :: PodSpec
  dep_K8sAccessLevel :: string
  dep_AutoScaler :: "AutoScaler option"
  dep_AutoScalerSimple :: "AutoScalerSimple option"
  dep_DeploymentStrategy :: "string option"
  dep_Metadata :: DeploymentMetadata

definition Deployment_zero :: Deployment where
  "Deployment_zero = \<lparr>dep_Name = '''', dep_MinReplicas = None, dep_Replicas = None, dep_Web = False,
     dep_WebServices = WebServices_zero, dep_PodSpec = PodSpec_zero, dep_K8sAccessLevel = '''',
     dep_AutoScaler = None, dep_AutoScalerSimple = None, dep_DeploymentStrategy = None,
     dep_Metadata = \<lparr>dm_Annotations = Map.empty\<rparr>\<rparr>"

definition GetReplicaCount :: "Deployment \<Rightarrow> int option" where
  "GetReplicaCount d =
     (case dep_Replicas d of Some r \<Rightarrow> Some r
      | None \<Rightarrow> (case dep_MinReplicas d of Some m \<Rightarrow> Some m | None \<Rightarrow> Some 1))"

definition HasAutoScaler :: "Deployment \<Rightarrow> bool" where
  "HasAutoScaler d = (dep_AutoScaler d \<noteq> None \<or> dep_AutoScalerSimple d \<noteq> None)"

section \<open>ClowdApp\<close>

record DatabaseSpec =
  db_Version :: "int option"
  db_Name :: string
  db_SharedDBAppName :: string
  db_DBVolumeSize :: string
  db_DBResourceSize :: string

record Job =
  job_Name :: string
  job_Disabled :: bool
  job_Schedule :: string
  job_Parallelism :: "int option"
  job_Completions :: "int option"
  job_PodSpec :: PodSpec
  job_RestartPolicy :: string
  job_ConcurrencyPolicy :: string
  job_Suspend :: "bool option"
  job_SuccessfulJobsHistoryLimit :: "int option"
  job_FailedJobsHistoryLimit :: "int option"
  job_StartingDeadlineSeconds :: "int option"
  job_ActiveDeadlineSeconds :: "int option"

definition Job_zero :: Job where
  "Job_zero = \<lparr>job_Name = '''', job_Disabled = False, job_Schedule = '''', job_Parallelism = None,
     job_Completions = None, job_PodSpec = PodSpec_zero, job_RestartPolicy = '''',
     job_ConcurrencyPolicy = '''', job_Suspend = None, job_SuccessfulJobsHistoryLimit = None,
     job_FailedJobsHistoryLimit = None, job_StartingDeadlineSeconds = None,
     job_ActiveDeadlineSeconds = None\<rparr>"

record CyndiSpec =
  cy_Enabled :: bool
  cy_AppName :: string
  cy_AdditionalFilters :: "smap list"
  cy_InsightsOnly :: bool

text \<open>The configuration of a topic is ranged over, so it is kept with its keys in insertion order.\<close>

record KafkaTopicSpec =
  kt_Config :: "(string \<times> string) list"
  kt_Partitions :: int
  kt_Replicas :: int
  kt_TopicName :: string

record TestingSpec =
  ts_IqePlugin :: string

record ClowdAppSpec =
  app_Deployments :: "Deployment list"
  app_Jobs :: "Job list"
  app_EnvName :: string
  app_KafkaTopics :: "KafkaTopicSpec list"
  app_Database :: DatabaseSpec
  app_ObjectStore :: "string list"
  app_InMemoryDB :: bool
  app_SharedInMemoryDBAppName :: string
  app_FeatureFlags :: bool
  app_Dependencies :: "string list"
  app_OptionalDependencies :: "string list"
  app_Testing :: TestingSpec
  app_Cyndi :: CyndiSpec
  app_Disabled :: bool

definition ClowdAppSpec_zero :: ClowdAppSpec where
  "ClowdAppSpec_zero = \<lparr>app_Deployments = [], app_Jobs = [], app_EnvName = '''', app_KafkaTopics = [],
     app_Database = \<lparr>db_Version = None, db_Name = '''', db_SharedDBAppName = '''',
       db_DBVolumeSize = '''', db_DBResourceSize = ''''\<rparr>,
     app_ObjectStore = [], app_InMemoryDB = False, app_SharedInMemoryDBAppName = '''',
     app_FeatureFlags = False, app_Dependencies = [], app_OptionalDependencies = [],
     app_Testing = \<lparr>ts_IqePlugin = ''''\<rparr>,
     app_Cyndi = \<lparr>cy_Enabled = False, cy_AppName = '''', cy_AdditionalFilters = [],
       cy_InsightsOnly = False\<rparr>, app_Disabled = False\<rparr>"

record AppResourceStatus =
  ars_ManagedDeployments :: "32 word"
  ars_ReadyDeployments :: "32 word"

record ClowdAppStatus =
  ast_Deployments :: AppResourceStatus
  ast_Ready :: bool
  ast_Conditions :: "Condition list"
  ast_Generation :: int

record ClowdApp =
  app_APIVersion :: string
  app_Kind :: string
  app_ObjectMeta :: ObjectMeta
  app_Spec :: ClowdAppSpec
  app_Status :: ClowdAppStatus

definition ClowdApp_zero :: ClowdApp where
  "ClowdApp_zero = \<lparr>app_APIVersion = '''', app_Kind = '''', app_ObjectMeta = ObjectMeta_zero,
     app_Spec = ClowdAppSpec_zero,
     app_Status = \<lparr>ast_Deployments = \<lparr>ars_ManagedDeployments = 0, ars_ReadyDeployments = 0\<rparr>,
       ast_Ready = False, ast_Conditions = [], ast_Generation = 0\<rparr>\<rparr>"

abbreviation app_Name :: "ClowdApp \<Rightarrow> string" where "app_Name a \<equiv> om_Name (app_ObjectMeta a)"
abbreviation app_Namespace :: "ClowdApp \<Rightarrow> string" where "app_Namespace a \<equiv> om_Namespace (app_ObjectMeta a)"
abbreviation app_UID :: "ClowdApp \<Rightarrow> string" where "app_UID a \<equiv> om_UID (app_ObjectMeta a)"

abbreviation DeploymentsReady :: string where "DeploymentsReady \<equiv> ''DeploymentsReady''"
abbreviation ReconciliationSuccessful :: string where
  "ReconciliationSuccessful \<equiv> ''ReconciliationSuccessful''"
abbreviation ReconciliationFailed :: string where "ReconciliationFailed \<equiv> ''ReconciliationFailed''"
abbreviation JobInvocationComplete :: string where "JobInvocationComplete \<equiv> ''JobInvocationComplete''"

text \<open>\<open>GetLabels\<close> also writes the default label back into the object.\<close>

definition app_GetLabels :: "ClowdApp \<Rightarrow> ClowdApp \<times> smap" where
  "app_GetLabels i =
     (let ls = om_Labels (app_ObjectMeta i);
          ls' = (if ls ''app'' = None then ls(''app'' \<mapsto> app_Name i) else ls)
      in (i\<lparr>app_ObjectMeta := (app_ObjectMeta i)\<lparr>om_Labels := ls'\<rparr>\<rparr>, ls'))"

definition app_GetIdent :: "ClowdApp \<Rightarrow> string" where
  "app_GetIdent i = app_EnvName (app_Spec i) @ ''.'' @ app_Name i"

definition app_MakeOwnerReference :: "ClowdApp \<Rightarrow> OwnerReference" where
  "app_MakeOwnerReference i = \<lparr>or_APIVersion = app_APIVersion i, or_Kind = app_Kind i,
     or_Name = app_Name i, or_UID = app_UID i, or_Controller = Some True\<rparr>"

definition app_GetDeploymentNamespacedName :: "ClowdApp \<Rightarrow> Deployment \<Rightarrow> NamespacedName" where
  "app_GetDeploymentNamespacedName i d = NN (app_Name i @ ''-'' @ dep_Name d) (app_Namespace i)"

definition app_GetCronJobNamespacedName :: "ClowdApp \<Rightarrow> Job \<Rightarrow> NamespacedName" where
  "app_GetCronJobNamespacedName i j = NN (app_Name i @ ''-'' @ job_Name j) (app_Namespace i)"

text \<open>The readiness loop looks for a condition of the type, whatever its status.\<close>

definition has_condition_type :: "string \<Rightarrow> Condition list \<Rightarrow> bool" where
  "has_condition_type t cs = foldl (\<lambda>found c. if cond_Type c = t then True else found) False cs"

lemma has_condition_type_iff [simp]:
  "has_condition_type t cs \<longleftrightarrow> (\<exists>c \<in> set cs. cond_Type c = t)"
proof -
  have "foldl (\<lambda>found c. if cond_Type c = t then True else found) b cs
          \<longleftrightarrow> b \<or> (\<exists>c \<in> set cs. cond_Type c = t)" for b
    by (induction cs arbitrary: b) auto
  then show ?thesis by (simp add: has_condition_type_def)
qed

definition app_IsReady :: "ClowdApp \<Rightarrow> bool" where
  "app_IsReady i = (ast_Ready (app_Status i)
     \<and> has_condition_type ReconciliationSuccessful (ast_Conditions (app_Status i)))"

definition app_GetClowdSAName :: "ClowdApp \<Rightarrow> string" where
  "app_GetClowdSAName i = app_Name i @ ''-app''"

text \<open>\<open>SetObjectMeta\<close> with the options \<open>Name\<close> and \<open>Labels\<close> the deployment provider passes, and
  without options.\<close>

definition app_SetObjectMeta :: "ClowdApp \<Rightarrow> ObjectMeta \<Rightarrow> ClowdApp \<times> ObjectMeta" where
  "app_SetObjectMeta i om =
     (let (i', ls) = app_GetLabels i
      in (i', om\<lparr>om_Name := app_Name i, om_Namespace := app_Namespace i, om_Labels := ls,
              om_OwnerReferences := [app_MakeOwnerReference i]\<rparr>))"

definition om_Name_opt :: "string \<Rightarrow> ObjectMeta \<Rightarrow> ObjectMeta" where
  "om_Name_opt n om = om\<lparr>om_Name := n\<rparr>"

definition om_Labels_opt :: "smap \<Rightarrow> ObjectMeta \<Rightarrow> ObjectMeta" where
  "om_Labels_opt ls om = om\<lparr>om_Labels := ls\<rparr>"

section \<open>ClowdAppRef\<close>

record ClowdAppRefDeployment =
  rdep_Name :: string
  rdep_Hostname :: string
  rdep_Web :: bool
  rdep_WebServices :: WebServices

record ClowdAppRefRemoteEnvironment =
  re_Name :: string
  re_Port :: int
  re_PrivatePort :: int
  re_H2CPort :: int
  re_H2CPrivatePort :: int
  re_TLS :: TLS

record ClowdAppRefRemoteCluster =
  rc_Name :: string
  rc_Region :: string

record ClowdAppRefSpec =
  ref_EnvName :: string
  ref_RemoteEnvironment :: ClowdAppRefRemoteEnvironment
  ref_Deployments :: "ClowdAppRefDeployment list"
  ref_RemoteCluster :: ClowdAppRefRemoteCluster
  ref_Disabled :: bool
  ref_Serves :: "string list"

record ClowdAppRefStatus =
  rst_Ready :: bool
  rst_Conditions :: "Condition list"

record ClowdAppRef =
  ref_APIVersion :: string
  ref_Kind :: string
  ref_ObjectMeta :: ObjectMeta
  ref_Spec :: ClowdAppRefSpec
  ref_Status :: ClowdAppRefStatus

definition ClowdAppRef_zero :: ClowdAppRef where
  "ClowdAppRef_zero = \<lparr>ref_APIVersion = '''', ref_Kind = '''', ref_ObjectMeta = ObjectMeta_zero,
     ref_Spec = \<lparr>ref_EnvName = '''',
       ref_RemoteEnvironment = \<lparr>re_Name = '''', re_Port = 0, re_PrivatePort = 0, re_H2CPort = 0,
         re_H2CPrivatePort = 0, re_TLS = TLS_zero\<rparr>,
       ref_Deployments = [], ref_RemoteCluster = \<lparr>rc_Name = '''', rc_Region = ''''\<rparr>,
       ref_Disabled = False, ref_Serves = []\<rparr>,
     ref_Status = \<lparr>rst_Ready = False, rst_Conditions = []\<rparr>\<rparr>"

abbreviation ref_Name :: "ClowdAppRef \<Rightarrow> string" where "ref_Name r \<equiv> om_Name (ref_ObjectMeta r)"

definition ref_GetLabels :: "ClowdAppRef \<Rightarrow> ClowdAppRef \<times> smap" where
  "ref_GetLabels car =
     (let ls = om_Labels (ref_ObjectMeta car);
          ls' = (if mget ls ''app'' = '''' then ls(''app'' \<mapsto> ref_Name car) else ls)
      in (car\<lparr>ref_ObjectMeta := (ref_ObjectMeta car)\<lparr>om_Labels := ls'\<rparr>\<rparr>, [''app'' \<mapsto> mget ls' ''app'']))"

definition ref_GetIdent :: "ClowdAppRef \<Rightarrow> string" where
  "ref_GetIdent car = ref_Name car @ '':'' @ om_Namespace (ref_ObjectMeta car)"

definition ref_MakeOwnerReference :: "ClowdAppRef \<Rightarrow> OwnerReference" where
  "ref_MakeOwnerReference car = \<lparr>or_APIVersion = ref_APIVersion car, or_Kind = ref_Kind car,
     or_Name = ref_Name car, or_UID = om_UID (ref_ObjectMeta car), or_Controller = None\<rparr>"

definition ref_IsReady :: "ClowdAppRef \<Rightarrow> bool" where
  "ref_IsReady car = rst_Ready (ref_Status car)"

definition ref_SetObjectMeta :: "ClowdAppRef \<Rightarrow> ObjectMeta \<Rightarrow> ClowdAppRef \<times> ObjectMeta" where
  "ref_SetObjectMeta car om =
     (let (car', ls) = ref_GetLabels car
      in (car', om\<lparr>om_Name := ref_Name car, om_Namespace := om_Namespace (ref_ObjectMeta car),
                om_Labels := ls, om_OwnerReferences := [ref_MakeOwnerReference car]\<rparr>))"

definition ref_GetDeploymentNamespacedName ::
  "ClowdAppRef \<Rightarrow> ClowdAppRefDeployment \<Rightarrow> NamespacedName" where
  "ref_GetDeploymentNamespacedName car d =
     NN (ref_Name car @ ''-'' @ rdep_Name d) (om_Namespace (ref_ObjectMeta car))"

end
