(* ===== verification/Crd_Env.thy ===== *)
theory Crd_Env
  imports Crd_Types
begin

text \<open>
  The \<open>ClowdEnvironment\<close> and \<open>ClowdJobInvocation\<close> resources (\<open>clowdenvironment_types.go\<close>,
  \<open>clowdjobinvocation_types.go\<close>) with their methods, and the methods of \<open>ClowdApp\<close> that look up
  other resources. What the Kubernetes client lists or gets is a parameter.
\<close>

section \<open>Provider configuration\<close>

record WebImages =
  wi_Mocktitlements :: string
  wi_Keycloak :: string
  wi_Caddy :: string
  wi_CaddyGateway :: string
  wi_CaddyProxy :: string
  wi_MockBOP :: string

record GatewayCert =
  gc_Enabled :: bool
  gc_CertMode :: string
  gc_LocalCAConfigMap :: string
  gc_EmailAddress :: string

record WebConfig =
  web_Port :: int
  web_PrivatePort :: int
  web_H2CPort :: int
  web_H2CPrivatePort :: int
  web_AuthPort :: int
  web_APIPrefix :: string
  web_Mode :: string
  web_BOPURL :: string
  web_IngressClass :: string
  web_KeycloakVersion :: string
  web_KeycloakPVC :: bool
  web_Images :: WebImages
  web_TLS :: TLS
  web_GatewayCert :: GatewayCert

definition WebConfig_zero :: WebConfig where
  "WebConfig_zero = \<lparr>web_Port = 0, web_PrivatePort = 0, web_H2CPort = 0, web_H2CPrivatePort = 0,
     web_AuthPort = 0, web_APIPrefix = '''', web_Mode = '''', web_BOPURL = '''',
     web_IngressClass = '''', web_KeycloakVersion = '''', web_KeycloakPVC = False,
     web_Images = \<lparr>wi_Mocktitlements = '''', wi_Keycloak = '''', wi_Caddy = '''',
       wi_CaddyGateway = '''', wi_CaddyProxy = '''', wi_MockBOP = ''''\<rparr>,
     web_TLS = TLS_zero,
     web_GatewayCert = \<lparr>gc_Enabled = False, gc_CertMode = '''', gc_LocalCAConfigMap = '''',
       gc_EmailAddress = ''''\<rparr>\<rparr>"

record PrometheusConfig =
  pc_Deploy :: bool
  pc_AppInterfaceInternalURL :: string

record PrometheusGatewayConfig =
  pg_Deploy :: bool
  pg_Image :: string

record MetricsConfig =
  met_Port :: int
  met_Path :: string
  met_Mode :: string
  met_Prometheus :: PrometheusConfig
  met_PrometheusGateway :: PrometheusGatewayConfig

text \<open>A Strimzi value (JVM options, a JSON document) is opaque.\<close>

record StrimziResources =
  skr_Requests :: "opaque option"
  skr_Limits :: "opaque option"

record KafkaClusterConfig =
  kcc_Name :: string
  kcc_Namespace :: string
  kcc_ForceTLS :: bool
  kcc_Replicas :: int
  kcc_StorageSize :: string
  kcc_DeleteClaim :: bool
  kcc_Version :: string
  kcc_Config :: "(string \<times> string) list option"
  kcc_JVMOptions :: opaque
  kcc_Resources :: StrimziResources

record KafkaConnectClusterConfig =
  kco_Name :: string
  kco_Namespace :: string
  kco_Replicas :: int
  kco_Version :: string
  kco_Image :: string
  kco_Resources :: StrimziResources

record KafkaConfig =
  kaf_Mode :: string
  kaf_EnableLegacyStrimzi :: bool
  kaf_PVC :: bool
  kaf_Cluster :: KafkaClusterConfig
  kaf_Connect :: KafkaConnectClusterConfig
  kaf_ManagedSecretRef :: NamespacedName
  kaf_ManagedPrefix :: string
  kaf_TopicNamespace :: string
  kaf_ClusterAnnotation :: string
  kaf_ClusterName :: string
  kaf_Namespace :: string
  kaf_ConnectNamespace :: string
  kaf_ConnectClusterName :: string
  kaf_Suffix :: string
  kaf_KafkaConnectReplicaCount :: int

definition KafkaConfig_zero :: KafkaConfig where
  "KafkaConfig_zero = \<lparr>kaf_Mode = '''', kaf_EnableLegacyStrimzi = False, kaf_PVC = False,
     kaf_Cluster = \<lparr>kcc_Name = '''', kcc_Namespace = '''', kcc_ForceTLS = False, kcc_Replicas = 0,
       kcc_StorageSize = '''', kcc_DeleteClaim = False, kcc_Version = '''', kcc_Config = None,
       kcc_JVMOptions = '''', kcc_Resources = \<lparr>skr_Requests = None, skr_Limits = None\<rparr>\<rparr>,
     kaf_Connect = \<lparr>kco_Name = '''', kco_Namespace = '''', kco_Replicas = 0, kco_Version = '''',
       kco_Image = '''', kco_Resources = \<lparr>skr_Requests = None, skr_Limits = None\<rparr>\<rparr>,
     kaf_ManagedSecretRef = NN '''' '''', kaf_ManagedPrefix = '''', kaf_TopicNamespace = '''',
     kaf_ClusterAnnotation = '''', kaf_ClusterName = '''', kaf_Namespace = '''',
     kaf_ConnectNamespace = '''', kaf_ConnectClusterName = '''', kaf_Suffix = '''',
     kaf_KafkaConnectReplicaCount = 0\<rparr>"

record DatabaseConfig =
  dbc_Mode :: string
  dbc_CaBundleURL :: string
  dbc_PVC :: bool

record ObjectStoreConfig =
  osc_Mode :: string
  osc_Suffix :: string
  osc_PVC :: bool
  osc_MinioImage :: string

record FeatureFlagsImages =
  ffi_Unleash :: string
  ffi_UnleashEdge :: string

record FeatureFlagsConfig =
  ff_Mode :: string
  ff_PVC :: bool
  ff_CredentialRef :: NamespacedName
  ff_Hostname :: string
  ff_Port :: int
  ff_Images :: FeatureFlagsImages

record InMemoryDBConfig =
  imc_Mode :: string
  imc_Image :: string

record IqeUIToolConfig =
  iut_ImageBase :: string
  iut_DefaultImageTag :: string
  iut_Resources :: ResourceRequirements

record IqeUIConfig =
  iu_Selenium :: IqeUIToolConfig
  iu_Playwright :: IqeUIToolConfig

record IqeConfig =
  iqe_ImageBase :: string
  iqe_Resources :: ResourceRequirements
  iqe_VaultSecretRef :: NamespacedName
  iqe_UI :: IqeUIConfig

record TestingConfig =
  tc_Iqe :: IqeConfig
  tc_K8SAccessLevel :: string
  tc_ConfigAccess :: string

record TokenRefresherConfig =
  tr_Enabled :: bool
  tr_Image :: string

record OtelCollectorConfig =
  ot_Enabled :: bool
  ot_Image :: string
  ot_ConfigMap :: string
  ot_EnvVars :: "CrdEnvVar list"
  ot_MemoryRequest :: string
  ot_MemoryLimit :: string

record Sidecars =
  sd_TokenRefresher :: TokenRefresherConfig
  sd_OtelCollector :: OtelCollectorConfig

record ReverseProxyConfig =
  rp_Mode :: string
  rp_ProxyImage :: string
  rp_BucketPathPrefix :: string
  rp_SpaEntrypointPath :: string
  rp_AwsRegion :: string

record ProvidersConfig =
  pv_Database :: DatabaseConfig
  pv_InMemoryDB :: InMemoryDBConfig
  pv_Kafka :: KafkaConfig
  pv_LoggingMode :: string
  pv_Metrics :: MetricsConfig
  pv_ObjectStore :: ObjectStoreConfig
  pv_Web :: WebConfig
  pv_FeatureFlags :: FeatureFlagsConfig
  pv_ServiceMeshMode :: string
  pv_PullSecrets :: "NamespacedName list"
  pv_Testing :: TestingConfig
  pv_Sidecars :: Sidecars
  pv_AutoScalerMode :: string
  pv_OmitPullPolicy :: bool
  pv_ReverseProxy :: ReverseProxyConfig

definition IqeUIToolConfig_zero :: IqeUIToolConfig where
  "IqeUIToolConfig_zero = \<lparr>iut_ImageBase = '''', iut_DefaultImageTag = '''',
     iut_Resources = ResourceRequirements_zero\<rparr>"

definition ProvidersConfig_zero :: ProvidersConfig where
  "ProvidersConfig_zero = \<lparr>pv_Database = \<lparr>dbc_Mode = '''', dbc_CaBundleURL = '''', dbc_PVC = False\<rparr>,
     pv_InMemoryDB = \<lparr>imc_Mode = '''', imc_Image = ''''\<rparr>,
     pv_Kafka = KafkaConfig_zero, pv_LoggingMode = '''',
     pv_Metrics = \<lparr>met_Port = 0, met_Path = '''', met_Mode = '''',
       met_Prometheus = \<lparr>pc_Deploy = False, pc_AppInterfaceInternalURL = ''''\<rparr>,
       met_PrometheusGateway = \<lparr>pg_Deploy = False, pg_Image = ''''\<rparr>\<rparr>,
     pv_ObjectStore = \<lparr>osc_Mode = '''', osc_Suffix = '''', osc_PVC = False, osc_MinioImage = ''''\<rparr>,
     pv_Web = WebConfig_zero,
     pv_FeatureFlags = \<lparr>ff_Mode = '''', ff_PVC = False, ff_CredentialRef = NN '''' '''',
       ff_Hostname = '''', ff_Port = 0, ff_Images = \<lparr>ffi_Unleash = '''', ffi_UnleashEdge = ''''\<rparr>\<rparr>,
     pv_ServiceMeshMode = '''', pv_PullSecrets = [],
     pv_Testing = \<lparr>tc_Iqe = \<lparr>iqe_ImageBase = '''', iqe_Resources = ResourceRequirements_zero,
         iqe_VaultSecretRef = NN '''' '''',
         iqe_UI = \<lparr>iu_Selenium = IqeUIToolConfig_zero, iu_Playwright = IqeUIToolConfig_zero\<rparr>\<rparr>,
       tc_K8SAccessLevel = '''', tc_ConfigAccess = ''''\<rparr>,
     pv_Sidecars = \<lparr>sd_TokenRefresher = \<lparr>tr_Enabled = False, tr_Image = ''''\<rparr>,
       sd_OtelCollector = \<lparr>ot_Enabled = False, ot_Image = '''', ot_ConfigMap = '''', ot_EnvVars = [],
         ot_MemoryRequest = '''', ot_MemoryLimit = ''''\<rparr>\<rparr>,
     pv_AutoScalerMode = '''', pv_OmitPullPolicy = False,
     pv_ReverseProxy = \<lparr>rp_Mode = '''', rp_ProxyImage = '''', rp_BucketPathPrefix = '''',
       rp_SpaEntrypointPath = '''', rp_AwsRegion = ''''\<rparr>\<rparr>"

section \<open>ClowdEnvironment\<close>

record ClowdEnvironmentSpec =
  env_TargetNamespace :: string
  env_Providers :: ProvidersConfig
  env_ResourceDefaults :: ResourceRequirements
  env_ServiceConfigType :: string
  env_Disabled :: bool

record EnvResourceStatus =
  ers_ManagedDeployments :: "32 word"
  ers_ReadyDeployments :: "32 word"
  ers_ManagedTopics :: "32 word"
  ers_ReadyTopics :: "32 word"

record DeploymentInfo =
  di_Name :: string
  di_Hostname :: string
  di_Port :: int

record AppInfo =
  ai_Name :: string
  ai_Deployments :: "DeploymentInfo list"

record ClowdEnvironmentStatus =
  est_Conditions :: "Condition list"
  est_TargetNamespace :: string
  est_Ready :: bool
  est_Deployments :: EnvResourceStatus
  est_Apps :: "AppInfo list"
  est_Generation :: int
  est_Hostname :: string
  est_PrometheusServerAddress :: string

record ClowdEnvironment =
  env_APIVersion :: string
  env_Kind :: string
  env_ObjectMeta :: ObjectMeta
  env_Spec :: ClowdEnvironmentSpec
  env_Status :: ClowdEnvironmentStatus

definition ClowdEnvironment_zero :: ClowdEnvironment where
  "ClowdEnvironment_zero = \<lparr>env_APIVersion = '''', env_Kind = '''', env_ObjectMeta = ObjectMeta_zero,
     env_Spec = \<lparr>env_TargetNamespace = '''', env_Providers = ProvidersConfig_zero,
       env_ResourceDefaults = ResourceRequirements_zero, env_ServiceConfigType = '''',
       env_Disabled = False\<rparr>,
     env_Status = \<lparr>est_Conditions = [], est_TargetNamespace = '''', est_Ready = False,
       est_Deployments = \<lparr>ers_ManagedDeployments = 0, ers_ReadyDeployments = 0,
         ers_ManagedTopics = 0, ers_ReadyTopics = 0\<rparr>,
       est_Apps = [], est_Generation = 0, est_Hostname = '''', est_PrometheusServerAddress = ''''\<rparr>\<rparr>"

abbreviation env_Name :: "ClowdEnvironment \<Rightarrow> string" where "env_Name e \<equiv> om_Name (env_ObjectMeta e)"
abbreviation env_UID :: "ClowdEnvironment \<Rightarrow> string" where "env_UID e \<equiv> om_UID (env_ObjectMeta e)"
abbreviation env_Web :: "ClowdEnvironment \<Rightarrow> WebConfig" where
  "env_Web e \<equiv> pv_Web (env_Providers (env_Spec e))"
abbreviation env_Kafka :: "ClowdEnvironment \<Rightarrow> KafkaConfig" where
  "env_Kafka e \<equiv> pv_Kafka (env_Providers (env_Spec e))"

definition env_GetLabels :: "ClowdEnvironment \<Rightarrow> smap" where
  "env_GetLabels i = [''app'' \<mapsto> env_Name i]"

definition env_MakeOwnerReference :: "ClowdEnvironment \<Rightarrow> OwnerReference" where
  "env_MakeOwnerReference i = \<lparr>or_APIVersion = env_APIVersion i, or_Kind = env_Kind i,
     or_Name = env_Name i, or_UID = env_UID i, or_Controller = Some True\<rparr>"

definition env_GetClowdSAName :: "ClowdEnvironment \<Rightarrow> string" where
  "env_GetClowdSAName i = env_Name i @ ''-env''"

text \<open>\<open>rnd\<close> is the random suffix \<open>utils.RandStringLower(6)\<close> returns.\<close>

definition GenerateTargetNamespace :: "string \<Rightarrow> ClowdEnvironment \<Rightarrow> string" where
  "GenerateTargetNamespace rnd i = ''clowdenv-'' @ env_Name i @ ''-'' @ rnd"

definition env_IsReady :: "ClowdEnvironment \<Rightarrow> bool" where
  "env_IsReady i = (est_Ready (env_Status i)
     \<and> has_condition_type ReconciliationSuccessful (est_Conditions (env_Status i)))"

definition env_IsNodePort :: "ClowdEnvironment \<Rightarrow> bool" where
  "env_IsNodePort i = (env_ServiceConfigType (env_Spec i) = ''NodePort'')"

definition convert_kafka :: "KafkaConfig \<Rightarrow> KafkaConfig" where
  "convert_kafka k0 =
     (let k1 = (if kaf_ClusterName k0 \<noteq> ''''
                then k0\<lparr>kaf_Cluster := (kaf_Cluster k0)\<lparr>kcc_Name := kaf_ClusterName k0\<rparr>\<rparr> else k0);
          k2 = (if kaf_Namespace k1 \<noteq> ''''
                then k1\<lparr>kaf_Cluster := (kaf_Cluster k1)\<lparr>kcc_Namespace := kaf_Namespace k1\<rparr>\<rparr> else k1);
          k3 = (if kaf_ConnectNamespace k2 \<noteq> ''''
                then k2\<lparr>kaf_Connect := (kaf_Connect k2)\<lparr>kco_Namespace := kaf_ConnectNamespace k2\<rparr>\<rparr>
                else k2)
      in if kaf_ConnectClusterName k3 \<noteq> ''''
         then k3\<lparr>kaf_Connect := (kaf_Connect k3)\<lparr>kco_Name := kaf_ConnectClusterName k3\<rparr>\<rparr> else k3)"

definition ConvertDeprecatedKafkaSpec :: "ClowdEnvironment \<Rightarrow> ClowdEnvironment" where
  "ConvertDeprecatedKafkaSpec i =
     i\<lparr>env_Spec := (env_Spec i)\<lparr>env_Providers :=
        (env_Providers (env_Spec i))\<lparr>pv_Kafka := convert_kafka (env_Kafka i)\<rparr>\<rparr>\<rparr>"

text \<open>
  \<open>listApps\<close> is the client's listing of the ClowdApps whose \<open>spec.envName\<close> has the given value.
\<close>

definition GetAppsInEnv ::
  "(string \<Rightarrow> goerr + ClowdApp list) \<Rightarrow> string \<Rightarrow> ClowdEnvironment \<Rightarrow> goerr + ClowdApp list" where
  "GetAppsInEnv listApps stack i =
     (case listApps (env_Name i) of
        Inl err \<Rightarrow> Inl (Wrap stack ''could not list apps'' err)
      | Inr apps \<Rightarrow> Inr apps)"

text \<open>The namespaces of the apps and the target namespace go through a Go map used as a set, which
  is then ranged over.\<close>

definition namespace_set :: "ClowdApp list \<Rightarrow> string \<Rightarrow> string list" where
  "namespace_set apps target = rev (remdups (rev (map (\<lambda>a. app_Namespace a) apps @ [target])))"

definition env_GetNamespacesInEnv ::
  "(string list \<Rightarrow> string list) \<Rightarrow> (string \<Rightarrow> goerr + ClowdApp list) \<Rightarrow> string \<Rightarrow> ClowdEnvironment
    \<Rightarrow> goerr + string list" where
  "env_GetNamespacesInEnv iter listApps stack i =
     (case GetAppsInEnv listApps stack i of
        Inl err \<Rightarrow> Inl err
      | Inr apps \<Rightarrow>
          (let nss = iter (namespace_set apps (est_TargetNamespace (env_Status i)));
               kns = kcc_Namespace (kaf_Cluster (env_Kafka i))
           in Inr (if kns \<noteq> '''' then nss @ [kns] else nss)))"

text \<open>
  The cluster's ingress resource as \<open>GenerateHostname\<close> reads it: \<open>getIngress\<close> is its retrieval
  (the domain of its \<open>spec\<close>, if it has one), \<open>rnd\<close> the random identifier.
\<close>

definition GenerateHostname ::
  "(NamespacedName \<Rightarrow> goerr + string option) \<Rightarrow> string \<Rightarrow> ClowdEnvironment \<Rightarrow> bool \<Rightarrow> string" where
  "GenerateHostname getIngress rnd i random =
     (case getIngress (NN ''cluster'' '''') of
        Inl err \<Rightarrow> env_Name i
      | Inr None \<Rightarrow> env_Name i
      | Inr (Some domain) \<Rightarrow>
          (if domain \<noteq> '''' then
             (if random then ''ee-'' @ rnd @ ''.'' @ domain else env_Name i @ ''.'' @ domain)
           else env_Name i))"

section \<open>Looking up other resources from a ClowdApp\<close>

definition GetAppInSameEnv ::
  "(string \<Rightarrow> goerr + ClowdApp list) \<Rightarrow> ClowdApp \<Rightarrow> goerr + ClowdApp list" where
  "GetAppInSameEnv listApps app = listApps (app_EnvName (app_Spec app))"

definition GetAppForDBInSameEnv ::
  "(string \<Rightarrow> goerr + ClowdApp list) \<Rightarrow> ClowdApp \<Rightarrow> bool \<Rightarrow> goerr + ClowdApp" where
  "GetAppForDBInSameEnv listApps app inMem =
     (case GetAppInSameEnv listApps app of
        Inl err \<Rightarrow> Inl err
      | Inr appList \<Rightarrow>
          (let sharedName = (if inMem then app_SharedInMemoryDBAppName (app_Spec app)
                             else db_SharedDBAppName (app_Database (app_Spec app)));
               errorOut = (if inMem then ''could not get app for in memory db in env''
                           else ''could not get app for db in env'')
           in case find (\<lambda>a. app_Name a = sharedName) appList of
                Some iapp \<Rightarrow> Inr iapp
              | None \<Rightarrow> Inl (PlainErr errorOut)))"

definition GetOurEnv ::
  "(NamespacedName \<Rightarrow> goerr + ClowdEnvironment) \<Rightarrow> ClowdApp \<Rightarrow> goerr + ClowdEnvironment" where
  "GetOurEnv getEnv i = getEnv (NN (app_EnvName (app_Spec i)) '''')"

definition app_GetNamespacesInEnv ::
  "(string list \<Rightarrow> string list) \<Rightarrow> (NamespacedName \<Rightarrow> goerr + ClowdEnvironment)
    \<Rightarrow> (string \<Rightarrow> goerr + ClowdApp list) \<Rightarrow> string \<Rightarrow> ClowdApp \<Rightarrow> goerr + string list" where
  "app_GetNamespacesInEnv iter getEnv listApps stack i =
     (case GetOurEnv getEnv i of
        Inl err \<Rightarrow> Inl (Wrap stack ''get our env: '' err)
      | Inr env \<Rightarrow>
          (case GetAppsInEnv listApps stack env of
             Inl err \<Rightarrow> Inl (Wrap stack ''get apps in env: '' err)
           | Inr apps \<Rightarrow> Inr (iter (namespace_set apps (est_TargetNamespace (env_Status env))))))"

lemma namespace_set_mem [simp]:
  "set (namespace_set apps t) = insert t ((\<lambda>a. app_Namespace a) ` set apps)"
  "distinct (namespace_set apps t)"
  by (auto simp: namespace_set_def)

section \<open>ClowdJobInvocation\<close>

abbreviation JobInvoked :: string where "JobInvoked \<equiv> ''Invoked''"
abbreviation JobComplete :: string where "JobComplete \<equiv> ''Complete''"
abbreviation JobFailed :: string where "JobFailed \<equiv> ''Failed''"

record IqeToolSpec =
  its_Deploy :: bool
  its_ImageTag :: string

record IqeUISpec =
  ius_Enabled :: bool
  ius_Selenium :: IqeToolSpec
  ius_Playwright :: IqeToolSpec

record IqeJobSpec =
  ij_ImageTag :: string
  ij_IqePlugins :: string
  ij_UI :: IqeUISpec
  ij_Env :: "EnvVar list option"
  ij_Debug :: bool
  ij_Marker :: string
  ij_DynaconfEnvName :: string
  ij_Filter :: string
  ij_Requirements :: "string list option"
  ij_RequirementsPriority :: "string list option"
  ij_TestImportance :: "string list option"
  ij_LogLevel :: string
  ij_ParallelEnabled :: string
  ij_ParallelWorkerCount :: string
  ij_RpArgs :: string
  ij_IbutsuSource :: string

definition IqeJobSpec_zero :: IqeJobSpec where
  "IqeJobSpec_zero = \<lparr>ij_ImageTag = '''', ij_IqePlugins = '''',
     ij_UI = \<lparr>ius_Enabled = False, ius_Selenium = \<lparr>its_Deploy = False, its_ImageTag = ''''\<rparr>,
       ius_Playwright = \<lparr>its_Deploy = False, its_ImageTag = ''''\<rparr>\<rparr>,
     ij_Env = None, ij_Debug = False, ij_Marker = '''', ij_DynaconfEnvName = '''', ij_Filter = '''',
     ij_Requirements = None, ij_RequirementsPriority = None, ij_TestImportance = None,
     ij_LogLevel = '''', ij_ParallelEnabled = '''', ij_ParallelWorkerCount = '''', ij_RpArgs = '''',
     ij_IbutsuSource = ''''\<rparr>"

record ClowdJobInvocationSpec =
  cji_AppName :: string
  cji_Jobs :: "string list"
  cji_TestingIqe :: IqeJobSpec
  cji_RunOnNotReady :: bool
  cji_Disabled :: bool

text \<open>A nil \<open>JobMap\<close> is \<open>None\<close>.\<close>

record ClowdJobInvocationStatus =
  cst_Completed :: bool
  cst_Jobs :: "string list option"
  cst_JobMap :: "(string \<rightharpoonup> string) option"
  cst_Conditions :: "Condition list"

record ClowdJobInvocation =
  cji_APIVersion :: string
  cji_Kind :: string
  cji_ObjectMeta :: ObjectMeta
  cji_Spec :: ClowdJobInvocationSpec
  cji_Status :: ClowdJobInvocationStatus

definition ClowdJobInvocation_zero :: ClowdJobInvocation where
  "ClowdJobInvocation_zero = \<lparr>cji_APIVersion = '''', cji_Kind = '''', cji_ObjectMeta = ObjectMeta_zero,
     cji_Spec = \<lparr>cji_AppName = '''', cji_Jobs = [], cji_TestingIqe = IqeJobSpec_zero,
       cji_RunOnNotReady = False, cji_Disabled = False\<rparr>,
     cji_Status = \<lparr>cst_Completed = False, cst_Jobs = None, cst_JobMap = None, cst_Conditions = []\<rparr>\<rparr>"

abbreviation cji_Name :: "ClowdJobInvocation \<Rightarrow> string" where "cji_Name i \<equiv> om_Name (cji_ObjectMeta i)"
abbreviation cji_Namespace :: "ClowdJobInvocation \<Rightarrow> string" where
  "cji_Namespace i \<equiv> om_Namespace (cji_ObjectMeta i)"
abbreviation cji_UID :: "ClowdJobInvocation \<Rightarrow> string" where "cji_UID i \<equiv> om_UID (cji_ObjectMeta i)"

definition cji_GetLabels :: "ClowdJobInvocation \<Rightarrow> ClowdJobInvocation \<times> smap" where
  "cji_GetLabels i =
     (let ls = om_Labels (cji_ObjectMeta i);
          ls' = (if ls ''clowdjob'' = None then ls(''clowdjob'' \<mapsto> cji_Name i) else ls)
      in (i\<lparr>cji_ObjectMeta := (cji_ObjectMeta i)\<lparr>om_Labels := ls'\<rparr>\<rparr>, ls'))"

definition cji_MakeOwnerReference :: "ClowdJobInvocation \<Rightarrow> OwnerReference" where
  "cji_MakeOwnerReference i = \<lparr>or_APIVersion = cji_APIVersion i, or_Kind = cji_Kind i,
     or_Name = cji_Name i, or_UID = cji_UID i, or_Controller = Some True\<rparr>"

definition cji_GetClowdSAName :: "ClowdJobInvocation \<Rightarrow> string" where
  "cji_GetClowdSAName i = cji_Name i @ ''-cji''"

definition GetIQEName :: "ClowdJobInvocation \<Rightarrow> string" where
  "GetIQEName i = cji_Name i @ ''-iqe''"

text \<open>\<open>listJobs\<close> is the client's listing of the jobs of a namespace.\<close>

definition GetInvokedJobs ::
  "(string \<Rightarrow> goerr + KJob list) \<Rightarrow> ClowdJobInvocation \<Rightarrow> goerr + KJob list" where
  "GetInvokedJobs listJobs i = listJobs (cji_Namespace i)"

definition GenerateJobName :: "string \<Rightarrow> ClowdJobInvocation \<Rightarrow> string" where
  "GenerateJobName rnd i = cji_Name i @ ''-iqe-'' @ rnd"

definition cji_SetObjectMeta :: "ClowdJobInvocation \<Rightarrow> ObjectMeta \<Rightarrow> ClowdJobInvocation \<times> ObjectMeta" where
  "cji_SetObjectMeta i om =
     (let (i', ls) = cji_GetLabels i
      in (i', om\<lparr>om_Name := cji_Name i, om_Namespace := cji_Namespace i, om_Labels := ls,
              om_OwnerReferences := [cji_MakeOwnerReference i]\<rparr>))"

section \<open>The interface of the resources\<close>

text \<open>
  \<open>object.ClowdObject\<close>, the interface that lets an app and an environment be treated alike, as a
  sum with the methods the sources call through it.
\<close>

datatype ClowdObject = AppObject ClowdApp | EnvObject ClowdEnvironment

fun co_GetLabels :: "ClowdObject \<Rightarrow> smap" where
  "co_GetLabels (AppObject a) = snd (app_GetLabels a)"
| "co_GetLabels (EnvObject e) = env_GetLabels e"

fun co_GetClowdName :: "ClowdObject \<Rightarrow> string" where
  "co_GetClowdName (AppObject a) = app_Name a"
| "co_GetClowdName (EnvObject e) = env_Name e"

fun co_GetClowdNamespace :: "ClowdObject \<Rightarrow> string" where
  "co_GetClowdNamespace (AppObject a) = app_Namespace a"
| "co_GetClowdNamespace (EnvObject e) = est_TargetNamespace (env_Status e)"

fun co_GetUID :: "ClowdObject \<Rightarrow> string" where
  "co_GetUID (AppObject a) = app_UID a"
| "co_GetUID (EnvObject e) = env_UID e"

fun co_GetPrimaryLabel :: "ClowdObject \<Rightarrow> string" where
  "co_GetPrimaryLabel (AppObject a) = ''app''"
| "co_GetPrimaryLabel (EnvObject e) = ''env''"

fun co_MakeOwnerReference :: "ClowdObject \<Rightarrow> OwnerReference" where
  "co_MakeOwnerReference (AppObject a) = app_MakeOwnerReference a"
| "co_MakeOwnerReference (EnvObject e) = env_MakeOwnerReference e"

fun co_GetNamespacesInEnv ::
  "(string list \<Rightarrow> string list) \<Rightarrow> (NamespacedName \<Rightarrow> goerr + ClowdEnvironment)
    \<Rightarrow> (string \<Rightarrow> goerr + ClowdApp list) \<Rightarrow> string \<Rightarrow> ClowdObject \<Rightarrow> goerr + string list" where
  "co_GetNamespacesInEnv iter getEnv listApps stack (AppObject a) =
     app_GetNamespacesInEnv iter getEnv listApps stack a"
| "co_GetNamespacesInEnv iter getEnv listApps stack (EnvObject e) =
     env_GetNamespacesInEnv iter listApps stack e"

end
