(* ===== verification/Clowder_Config.thy ===== *)
theory Clowder_Config
  imports Clowder_Prelude
begin

text \<open>
  The operator's own configuration, \<open>controllers/cloud.redhat.com/clowderconfig/config.go\<close>: the
  structure, its zero value and \<open>getConfig\<close>. Reading the environment variable and the file, and
  parsing JSON, are parameters.
\<close>

record ConfigImages =
  ci_MBOP :: string
  ci_Caddy :: string
  ci_CaddyGateway :: string
  ci_CaddyProxy :: string
  ci_Keycloak :: string
  ci_Mocktitlements :: string
  ci_CaddyReverseProxy :: string
  ci_ObjectStoreMinio :: string
  ci_FeatureFlagsUnleash :: string
  ci_FeatureFlagsUnleashEdge :: string
  ci_TokenRefresher :: string
  ci_OtelCollector :: string
  ci_InMemoryDB :: string
  ci_PrometheusGateway :: string
  ci_ReverseProxy :: string

record ConfigDebugOptions =
  dbg_DebugLogging :: bool
  dbg_TriggerDiff :: bool
  dbg_CacheCreate :: bool
  dbg_CacheUpdate :: bool
  dbg_CacheApply :: bool
  dbg_PprofEnable :: bool
  dbg_PprofCPUFile :: string

record ConfigFeatures =
  feat_CreateServiceMonitor :: bool
  feat_DisableWebhooks :: bool
  feat_WatchStrimziResources :: bool
  feat_UseComplexStrimziTopicNames :: bool
  feat_EnableAuthSidecarHook :: bool
  feat_KedaResources :: bool
  feat_PerProviderMetrics :: bool
  feat_ReconciliationMetrics :: bool
  feat_EnableDependencyMetrics :: bool
  feat_DisableCloudWatchLogging :: bool
  feat_EnableExternalStrimzi :: bool
  feat_DisableRandomRoutes :: bool
  feat_DisableStrimziFinalizer :: bool

record ConfigSettings =
  set_ManagedKafkaEphemDeleteRegex :: string
  set_RestarterAnnotationName :: string

record ClowderConfig =
  cc_Images :: ConfigImages
  cc_DebugOptions :: ConfigDebugOptions
  cc_Features :: ConfigFeatures
  cc_Settings :: ConfigSettings

definition ClowderConfig_zero :: ClowderConfig where
  "ClowderConfig_zero = \<lparr>
     cc_Images = \<lparr>ci_MBOP = '''', ci_Caddy = '''', ci_CaddyGateway = '''', ci_CaddyProxy = '''',
       ci_Keycloak = '''', ci_Mocktitlements = '''', ci_CaddyReverseProxy = '''',
       ci_ObjectStoreMinio = '''', ci_FeatureFlagsUnleash = '''', ci_FeatureFlagsUnleashEdge = '''',
       ci_TokenRefresher = '''', ci_OtelCollector = '''', ci_InMemoryDB = '''',
       ci_PrometheusGateway = '''', ci_ReverseProxy = ''''\<rparr>,
     cc_DebugOptions = \<lparr>dbg_DebugLogging = False, dbg_TriggerDiff = False, dbg_CacheCreate = False,
       dbg_CacheUpdate = False, dbg_CacheApply = False, dbg_PprofEnable = False,
       dbg_PprofCPUFile = ''''\<rparr>,
     cc_Features = \<lparr>feat_CreateServiceMonitor = False, feat_DisableWebhooks = False,
       feat_WatchStrimziResources = False, feat_UseComplexStrimziTopicNames = False,
       feat_EnableAuthSidecarHook = False, feat_KedaResources = False,
       feat_PerProviderMetrics = False, feat_ReconciliationMetrics = False,
       feat_EnableDependencyMetrics = False, feat_DisableCloudWatchLogging = False,
       feat_EnableExternalStrimzi = False, feat_DisableRandomRoutes = False,
       feat_DisableStrimziFinalizer = False\<rparr>,
     cc_Settings = \<lparr>set_ManagedKafkaEphemDeleteRegex = '''', set_RestarterAnnotationName = ''''\<rparr>\<rparr>"

definition getConfig ::
  "(string \<Rightarrow> string) \<Rightarrow> (string \<Rightarrow> string option) \<Rightarrow> (string \<Rightarrow> ClowderConfig option) \<Rightarrow> ClowderConfig" where
  "getConfig getenv readFile unmarshal =
     (let path = getenv ''CLOWDER_CONFIG_PATH'';
          configPath = (if path \<noteq> '''' then path else ''/config/clowder_config.json'')
      in case readFile configPath of
           None \<Rightarrow> ClowderConfig_zero
         | Some jsonData \<Rightarrow>
             (case unmarshal jsonData of
                None \<Rightarrow> ClowderConfig_zero
              | Some clowderConfig \<Rightarrow>
                  (if set_RestarterAnnotationName (cc_Settings clowderConfig) = ''''
                   then clowderConfig\<lparr>cc_Settings :=
                     (cc_Settings clowderConfig)\<lparr>set_RestarterAnnotationName := ''qontract.recycle''\<rparr>\<rparr>
                   else clowderConfig)))"

text \<open>
  A configuration that was read has a restarter annotation name; one that could not be read is the
  zero value, whose annotation name is empty.
\<close>

lemma ClowderConfig_zero_restarter [simp]:
  "set_RestarterAnnotationName (cc_Settings ClowderConfig_zero) = ''''"
  by (simp add: ClowderConfig_zero_def)

lemma getConfig_restarter:
  "set_RestarterAnnotationName (cc_Settings (getConfig getenv readFile unmarshal)) = ''''
    \<longleftrightarrow> getConfig getenv readFile unmarshal = ClowderConfig_zero" (is "?l \<longleftrightarrow> ?r")
proof
  show ?l if ?r
    using that by simp
  show ?r if ?l
    using that by (auto simp: getConfig_def Let_def split: option.splits if_splits)
qed

end
