(* ===== verification/App_Config.thy ===== *)
theory App_Config
  imports Kube_Types
begin

text \<open>
  The configuration Clowder writes for an app: the types of
  \<open>controllers/cloud.redhat.com/config/types.go\<close> and the \<open>Populate\<close> methods of
  \<open>config/config.go\<close>, which fill a database or in-memory database configuration from the data of
  a secret. The V2 dependency endpoints, \<open>map[string]interface{}\<close> in Go, hold a map from
  deployment names to endpoints for every app, the only values the sources store there.
\<close>

record DatabaseCfg =
  dbcf_AdminPassword :: string
  dbcf_AdminUsername :: string
  dbcf_Hostname :: string
  dbcf_Name :: string
  dbcf_Password :: string
  dbcf_Port :: int
  dbcf_RdsCa :: "string option"
  dbcf_SslMode :: string
  dbcf_Username :: string

definition DatabaseCfg_zero :: DatabaseCfg where
  "DatabaseCfg_zero = \<lparr>dbcf_AdminPassword = '''', dbcf_AdminUsername = '''', dbcf_Hostname = '''',
     dbcf_Name = '''', dbcf_Password = '''', dbcf_Port = 0, dbcf_RdsCa = None, dbcf_SslMode = '''',
     dbcf_Username = ''''\<rparr>"

record DependencyEndpoint =
  de_ApiPath :: string
  de_ApiPaths :: "string list"
  de_App :: string
  de_H2CPort :: "int option"
  de_H2CTLSPort :: "int option"
  de_Hostname :: string
  de_Name :: string
  de_Port :: int
  de_TlsCAPath :: "string option"
  de_TlsPort :: "int option"

record PrivateDependencyEndpoint =
  pde_App :: string
  pde_H2CPort :: "int option"
  pde_H2CTLSPort :: "int option"
  pde_Hostname :: string
  pde_Name :: string
  pde_Port :: int
  pde_TlsCAPath :: "string option"
  pde_TlsPort :: "int option"

record DependencyEndpointV2 =
  v2_CaCertificate :: "string option"
  v2_Uri :: string

type_synonym V2Endpoints = "string \<rightharpoonup> (string \<rightharpoonup> DependencyEndpointV2)"

record DeploymentMetadataCfg =
  dmc_Image :: string
  dmc_Name :: string

record AppMetadata =
  am_Deployments :: "DeploymentMetadataCfg list"
  am_EnvName :: "string option"
  am_Name :: "string option"

record FeatureFlagsCfg =
  ffc_ClientAccessToken :: "string option"
  ffc_Hostname :: string
  ffc_Port :: int
  ffc_Scheme :: string

record InMemoryDBCfg =
  imdb_Hostname :: string
  imdb_Password :: "string option"
  imdb_Port :: int
  imdb_SslMode :: "bool option"
  imdb_Username :: "string option"

record KafkaSASLConfig =
  sasl_Password :: "string option"
  sasl_SaslMechanism :: "string option"
  sasl_SecurityProtocol :: "string option"
  sasl_Username :: "string option"

record BrokerConfig =
  br_Authtype :: "string option"
  br_Cacert :: "string option"
  br_Hostname :: string
  br_Port :: "int option"
  br_Sasl :: "KafkaSASLConfig option"
  br_SecurityProtocol :: "string option"

record TopicConfig =
  top_Name :: string
  top_RequestedName :: string

record KafkaCfg =
  kc_Brokers :: "BrokerConfig list"
  kc_Topics :: "TopicConfig list"

record CloudWatchConfig =
  cw_AccessKeyId :: string
  cw_LogGroup :: string
  cw_Region :: string
  cw_SecretAccessKey :: string

record LoggingCfg =
  lc_Cloudwatch :: "CloudWatchConfig option"
  lc_Type :: string

record ObjectStoreBucket =
  bk_AccessKey :: "string option"
  bk_Endpoint :: "string option"
  bk_Name :: string
  bk_Region :: "string option"
  bk_RequestedName :: string
  bk_SecretKey :: "string option"
  bk_Tls :: "bool option"

record ObjectStoreCfg =
  osf_AccessKey :: "string option"
  osf_Buckets :: "ObjectStoreBucket list"
  osf_Hostname :: string
  osf_Port :: int
  osf_SecretKey :: "string option"
  osf_Tls :: bool

record PrometheusGatewayCfg =
  pgc_Hostname :: string
  pgc_Port :: int

record AppConfig =
  cfg_BOPURL :: "string option"
  cfg_Database :: "DatabaseCfg option"
  cfg_DependencyEndpoints :: "V2Endpoints option"
  cfg_Endpoints :: "DependencyEndpoint list"
  cfg_FeatureFlags :: "FeatureFlagsCfg option"
  cfg_H2CPrivatePort :: "int option"
  cfg_H2CPublicPort :: "int option"
  cfg_HashCache :: "string option"
  cfg_Hostname :: "string option"
  cfg_InMemoryDb :: "InMemoryDBCfg option"
  cfg_Kafka :: "KafkaCfg option"
  cfg_Logging :: LoggingCfg
  cfg_Metadata :: "AppMetadata option"
  cfg_MetricsPath :: string
  cfg_MetricsPort :: int
  cfg_ObjectStore :: "ObjectStoreCfg option"
  cfg_PrivateDependencyEndpoints :: "V2Endpoints option"
  cfg_PrivateEndpoints :: "PrivateDependencyEndpoint list"
  cfg_PrivatePort :: "int option"
  cfg_PrometheusGateway :: "PrometheusGatewayCfg option"
  cfg_PublicPort :: "int option"
  cfg_TlsCAPath :: "string option"
  cfg_WebPort :: "int option"

definition AppConfig_zero :: AppConfig where
  "AppConfig_zero = \<lparr>cfg_BOPURL = None, cfg_Database = None, cfg_DependencyEndpoints = None,
     cfg_Endpoints = [], cfg_FeatureFlags = None, cfg_H2CPrivatePort = None, cfg_H2CPublicPort = None,
     cfg_HashCache = None, cfg_Hostname = None, cfg_InMemoryDb = None, cfg_Kafka = None,
     cfg_Logging = \<lparr>lc_Cloudwatch = None, lc_Type = ''''\<rparr>, cfg_Metadata = None,
     cfg_MetricsPath = '''', cfg_MetricsPort = 0, cfg_ObjectStore = None,
     cfg_PrivateDependencyEndpoints = None, cfg_PrivateEndpoints = [], cfg_PrivatePort = None,
     cfg_PrometheusGateway = None, cfg_PublicPort = None, cfg_TlsCAPath = None, cfg_WebPort = None\<rparr>"

section \<open>Populating a configuration from a secret\<close>

definition atoi_err :: "string \<Rightarrow> goerr" where
  "atoi_err s = PlainErr (''strconv.Atoi: parsing '' @ s @ '': invalid syntax'')"

definition DatabaseConfig_Populate :: "smap \<Rightarrow> DatabaseCfg \<Rightarrow> goerr + DatabaseCfg" where
  "DatabaseConfig_Populate data' dbc =
     (case atoi (mget data' ''port'') of
        None \<Rightarrow> Inl (atoi_err (mget data' ''port''))
      | Some port \<Rightarrow>
          Inr (dbc\<lparr>dbcf_Hostname := mget data' ''hostname'', dbcf_Name := mget data' ''name'',
                   dbcf_Password := mget data' ''password'', dbcf_AdminPassword := mget data' ''pgPass'',
                   dbcf_Port := port, dbcf_Username := mget data' ''username''\<rparr>))"

text \<open>\<open>strconv.ParseBool\<close>.\<close>

definition parseBool :: "string \<Rightarrow> bool option" where
  "parseBool s =
     (if s \<in> set [''1'', ''t'', ''T'', ''TRUE'', ''true'', ''True''] then Some True
      else if s \<in> set [''0'', ''f'', ''F'', ''FALSE'', ''false'', ''False''] then Some False
      else None)"

text \<open>The in-memory variant writes its fields one by one: a failure leaves the earlier ones set.\<close>

definition InMemoryDBConfig_Populate :: "smap \<Rightarrow> InMemoryDBCfg \<Rightarrow> InMemoryDBCfg \<times> goerr option" where
  "InMemoryDBConfig_Populate data' r =
     (case atoi (mget data' ''port'') of
        None \<Rightarrow> (r, Some (atoi_err (mget data' ''port'')))
      | Some port \<Rightarrow>
          (let r1 = r\<lparr>imdb_Port := port\<rparr>;
               r2 = (case data' ''username'' of
                       Some u \<Rightarrow> if u \<noteq> '''' then r1\<lparr>imdb_Username := Some u\<rparr> else r1 | None \<Rightarrow> r1);
               r3 = (case data' ''password'' of
                       Some p \<Rightarrow> if p \<noteq> '''' then r2\<lparr>imdb_Password := Some p\<rparr> else r2 | None \<Rightarrow> r2)
           in case parseBool (mget data' ''sslmode'') of
                None \<Rightarrow> (r3, Some (PlainErr (''strconv.ParseBool: parsing '' @ mget data' ''sslmode''
                                          @ '': invalid syntax'')))
              | Some sslMode \<Rightarrow>
                  (r3\<lparr>imdb_SslMode := Some sslMode, imdb_Hostname := mget data' ''hostname''\<rparr>, None)))"

text \<open>
  The data that describes a configuration under the keys \<open>Populate\<close> reads, and reading it back.
\<close>

definition database_secret_data :: "DatabaseCfg \<Rightarrow> smap" where
  "database_secret_data dbc = map_of [(''hostname'', dbcf_Hostname dbc), (''port'', itoa (dbcf_Port dbc)),
     (''username'', dbcf_Username dbc), (''password'', dbcf_Password dbc),
     (''pgPass'', dbcf_AdminPassword dbc), (''name'', dbcf_Name dbc)]"

lemma DatabaseConfig_Populate_roundtrip:
  assumes "- (2 ^ 63) \<le> dbcf_Port dbc" "dbcf_Port dbc < 2 ^ 63"
  shows "DatabaseConfig_Populate (database_secret_data dbc) d =
    Inr (d\<lparr>dbcf_Hostname := dbcf_Hostname dbc, dbcf_Name := dbcf_Name dbc,
           dbcf_Password := dbcf_Password dbc, dbcf_AdminPassword := dbcf_AdminPassword dbc,
           dbcf_Port := dbcf_Port dbc, dbcf_Username := dbcf_Username dbc\<rparr>)"
  using atoi_itoa [OF assms]
  by (simp add: DatabaseConfig_Populate_def database_secret_data_def)

lemma InMemoryDBConfig_Populate_ok:
  "(\<exists>r'. InMemoryDBConfig_Populate data' r = (r', None))
     \<longleftrightarrow> atoi (mget data' ''port'') \<noteq> None \<and> parseBool (mget data' ''sslmode'') \<noteq> None"
  by (auto simp: InMemoryDBConfig_Populate_def Let_def split: option.splits)

end
