(* ===== verification/Sizing.thy ===== *)
theory Sizing
  imports Kube_Types
begin

text \<open>
  T-shirt sizes: \<open>providers/sizing/sizingconfig\<close> (the tables) and \<open>providers/sizing/sizing.go\<close>.
  \<open>resource.MustParse\<close> is a parameter: it gives the canonical text of a quantity, or panics
  (\<open>None\<close>) on a text that is no quantity.

  The facts: every size an app may request has capacities in all tables, its limit is the
  capacity of a strictly larger size, and the limit quantities exceed the requested ones.
\<close>

abbreviation SizeXSmall :: string where "SizeXSmall \<equiv> ''x-small''"
abbreviation SizeSmall :: string where "SizeSmall \<equiv> ''small''"
abbreviation SizeMedium :: string where "SizeMedium \<equiv> ''medium''"
abbreviation SizeLarge :: string where "SizeLarge \<equiv> ''large''"
abbreviation SizeXLarge :: string where "SizeXLarge \<equiv> ''x-large''"
abbreviation DefaultSizeVol :: string where "DefaultSizeVol \<equiv> SizeXSmall"
abbreviation DefaultSizeCPURAM :: string where "DefaultSizeCPURAM \<equiv> SizeXSmall"

definition CPUSizeToCapacity :: smap where
  "CPUSizeToCapacity = map_of [(SizeXSmall, ''300m''), (SizeSmall, ''600m''), (SizeMedium, ''1200m''),
     (SizeLarge, ''1800m''), (SizeXLarge, ''2400m'')]"

definition LimitSizeToRequestSize :: smap where
  "LimitSizeToRequestSize = map_of [(SizeXSmall, SizeSmall), (SizeSmall, SizeMedium),
     (SizeMedium, SizeLarge), (SizeLarge, SizeXLarge)]"

definition RAMSizeToCapacity :: smap where
  "RAMSizeToCapacity = map_of [(SizeXSmall, ''512Mi''), (SizeSmall, ''1Gi''), (SizeMedium, ''2Gi''),
     (SizeLarge, ''3Gi''), (SizeXLarge, ''4Gi'')]"

definition VolSizeToCapacity :: smap where
  "VolSizeToCapacity = map_of [(SizeXSmall, ''1Gi''), (SizeSmall, ''2Gi''), (SizeMedium, ''3Gi''),
     (SizeLarge, ''5Gi'')]"

definition SizeIndex :: "string \<rightharpoonup> int" where
  "SizeIndex = map_of [(SizeXSmall, 0), (SizeSmall, 1), (SizeMedium, 2), (SizeLarge, 3),
     (SizeXLarge, 4)]"

definition useDefaultIfEmptySize :: "string \<Rightarrow> string \<Rightarrow> string" where
  "useDefaultIfEmptySize size' def = (if size' = '''' then def else size')"

definition GetDefaultSizeCPURAM :: string where
  "GetDefaultSizeCPURAM = DefaultSizeCPURAM"

definition GetDefaultSizeVol :: string where
  "GetDefaultSizeVol = DefaultSizeVol"

definition GetDefaultVolCapacity :: string where
  "GetDefaultVolCapacity = mget VolSizeToCapacity GetDefaultSizeVol"

definition GetResourceRequirementsForSize ::
  "(string \<Rightarrow> string option) \<Rightarrow> string \<Rightarrow> ResourceRequirements option" where
  "GetResourceRequirementsForSize mustParse tShirtSize =
     (let requestSize = useDefaultIfEmptySize tShirtSize GetDefaultSizeCPURAM;
          limitSize = mget LimitSizeToRequestSize requestSize
      in case (mustParse (mget RAMSizeToCapacity limitSize), mustParse (mget CPUSizeToCapacity limitSize),
               mustParse (mget RAMSizeToCapacity requestSize), mustParse (mget CPUSizeToCapacity requestSize)) of
           (Some lm, Some lc, Some rm, Some rc) \<Rightarrow>
             Some \<lparr>rr_Limits = [''memory'' \<mapsto> lm, ''cpu'' \<mapsto> lc],
                   rr_Requests = [''memory'' \<mapsto> rm, ''cpu'' \<mapsto> rc]\<rparr>
         | _ \<Rightarrow> None)"

definition GetDefaultResourceRequirements ::
  "(string \<Rightarrow> string option) \<Rightarrow> ResourceRequirements option" where
  "GetDefaultResourceRequirements mustParse =
     GetResourceRequirementsForSize mustParse GetDefaultSizeCPURAM"

definition GetVolCapacityForSize :: "string \<Rightarrow> string" where
  "GetVolCapacityForSize size' = mget VolSizeToCapacity (useDefaultIfEmptySize size' GetDefaultSizeVol)"

definition IsSizeLarger :: "string \<Rightarrow> string \<Rightarrow> bool" where
  "IsSizeLarger a b =
     ((case SizeIndex a of None \<Rightarrow> 0 | Some i \<Rightarrow> i) > (case SizeIndex b of None \<Rightarrow> 0 | Some i \<Rightarrow> i))"

section \<open>Facts\<close>

text \<open>The sizes the API lets an app request (the empty one stands for the default).\<close>

definition requestable :: "string list" where
  "requestable = ['''', SizeXSmall, SizeSmall, SizeMedium, SizeLarge]"

text \<open>
  What Kubernetes documents of quantities: a number with the suffix \<open>m\<close>, \<open>Mi\<close> or \<open>Gi\<close> parses, and
  the parsed quantity has the value the suffix gives it, here read in thousandths.
\<close>

definition quantity_laws :: "(string \<Rightarrow> 'q option) \<Rightarrow> ('q \<Rightarrow> nat) \<Rightarrow> bool" where
  "quantity_laws mustParse milli =
     (\<forall>n. map_option milli (mustParse (digits n @ ''m'')) = Some n
        \<and> map_option milli (mustParse (digits n @ ''Mi'')) = Some (n * 1000 * 2 ^ 20)
        \<and> map_option milli (mustParse (digits n @ ''Gi'')) = Some (n * 1000 * 2 ^ 30))"

lemma quantity_literals:
  assumes "quantity_laws mustParse milli"
  defines "rd \<equiv> \<lambda>s. map_option milli (mustParse s)"
  shows "rd ''300m'' = Some 300" "rd ''600m'' = Some 600" "rd ''1200m'' = Some 1200"
    "rd ''1800m'' = Some 1800" "rd ''2400m'' = Some 2400" "rd ''512Mi'' = Some (512 * 1000 * 2 ^ 20)"
    "rd ''1Gi'' = Some (1 * 1000 * 2 ^ 30)" "rd ''2Gi'' = Some (2 * 1000 * 2 ^ 30)"
    "rd ''3Gi'' = Some (3 * 1000 * 2 ^ 30)" "rd ''4Gi'' = Some (4 * 1000 * 2 ^ 30)"
proof -
  have q: "rd (digits n @ ''m'') = Some n" "rd (digits n @ ''Mi'') = Some (n * 1000 * 2 ^ 20)"
      "rd (digits n @ ''Gi'') = Some (n * 1000 * 2 ^ 30)" for n
    using assms(1) by (simp_all add: quantity_laws_def rd_def)
  have d: "digits 300 = ''300''" "digits 600 = ''600''" "digits 1200 = ''1200''"
      "digits 1800 = ''1800''" "digits 2400 = ''2400''" "digits 512 = ''512''"
      "digits (Suc 0) = ''1''" "digits 2 = ''2''" "digits 3 = ''3''" "digits 4 = ''4''"
    by (simp_all add: digits.simps char_of_def bit_0)
  show "rd ''300m'' = Some 300" "rd ''600m'' = Some 600" "rd ''1200m'' = Some 1200"
    "rd ''1800m'' = Some 1800" "rd ''2400m'' = Some 2400"
    using q(1) [of 300] q(1) [of 600] q(1) [of 1200] q(1) [of 1800] q(1) [of 2400]
    by (simp_all add: d)
  show "rd ''512Mi'' = Some (512 * 1000 * 2 ^ 20)" using q(2) [of 512] by (simp add: d)
  show "rd ''1Gi'' = Some (1 * 1000 * 2 ^ 30)" "rd ''2Gi'' = Some (2 * 1000 * 2 ^ 30)"
    "rd ''3Gi'' = Some (3 * 1000 * 2 ^ 30)" "rd ''4Gi'' = Some (4 * 1000 * 2 ^ 30)"
    using q(3) [of 1] q(3) [of 2] q(3) [of 3] q(3) [of 4] by (simp_all add: d)
qed

lemmas sizing_tables =
  CPUSizeToCapacity_def LimitSizeToRequestSize_def RAMSizeToCapacity_def VolSizeToCapacity_def
  SizeIndex_def useDefaultIfEmptySize_def GetDefaultSizeCPURAM_def GetDefaultSizeVol_def

text \<open>
  For every size an app may request, the resource requirements are defined (no quantity fails
  to parse), the limits of memory and CPU are strictly above the requests, the limit's size is
  larger than the requested one, and there is a volume capacity.
\<close>

theorem requestable_sizes_bounded:
  assumes "quantity_laws mustParse milli" and "sz \<in> set requestable"
  shows "\<exists>rr lm lc rm rc. GetResourceRequirementsForSize mustParse sz = Some rr
      \<and> rr_Limits rr ''memory'' = Some lm \<and> rr_Limits rr ''cpu'' = Some lc
      \<and> rr_Requests rr ''memory'' = Some rm \<and> rr_Requests rr ''cpu'' = Some rc
      \<and> milli rm < milli lm \<and> milli rc < milli lc
      \<and> IsSizeLarger (mget LimitSizeToRequestSize (useDefaultIfEmptySize sz GetDefaultSizeCPURAM)) sz
      \<and> GetVolCapacityForSize sz \<noteq> ''''"
proof -
  obtain c1 c2 c3 c4 c5 m1 m2 m3 m4 m5 where q:
    "mustParse ''300m'' = Some c1" "milli c1 = 300" "mustParse ''600m'' = Some c2" "milli c2 = 600"
    "mustParse ''1200m'' = Some c3" "milli c3 = 1200" "mustParse ''1800m'' = Some c4" "milli c4 = 1800"
    "mustParse ''2400m'' = Some c5" "milli c5 = 2400"
    "mustParse ''512Mi'' = Some m1" "milli m1 = 512 * 1000 * 2 ^ 20"
    "mustParse ''1Gi'' = Some m2" "milli m2 = 1 * 1000 * 2 ^ 30"
    "mustParse ''2Gi'' = Some m3" "milli m3 = 2 * 1000 * 2 ^ 30"
    "mustParse ''3Gi'' = Some m4" "milli m4 = 3 * 1000 * 2 ^ 30"
    "mustParse ''4Gi'' = Some m5" "milli m5 = 4 * 1000 * 2 ^ 30"
    using quantity_literals [OF assms(1)] unfolding map_option_eq_Some by blast
  consider "sz = ''''" | "sz = SizeXSmall" | "sz = SizeSmall" | "sz = SizeMedium" | "sz = SizeLarge"
    using assms(2) by (auto simp: requestable_def)
  then show ?thesis
    by cases (simp_all add: q GetResourceRequirementsForSize_def sizing_tables IsSizeLarger_def
        GetVolCapacityForSize_def)
qed

definition sample_parse :: "string \<Rightarrow> string option" where
  "sample_parse s = (if s = '''' then None else Some s)"

definition sample_milli :: "string \<Rightarrow> nat" where
  "sample_milli s =
     (let num = (\<lambda>t. case parse_digits t of Some n \<Rightarrow> n | None \<Rightarrow> 0)
      in if has_suffix s ''Mi'' then num (take (length s - 2) s) * 1000 * 2 ^ 20
         else if has_suffix s ''Gi'' then num (take (length s - 2) s) * 1000 * 2 ^ 30
         else num (butlast s))"

lemma quantity_laws_sample: "quantity_laws sample_parse sample_milli"
proof -
  have "\<not> has_suffix (digits n @ ''m'') ''Mi''" "\<not> has_suffix (digits n @ ''m'') ''Gi''" for n
    by (auto simp: has_suffix_iff dest: arg_cong [of _ _ last])
  moreover have "has_suffix (digits n @ ''Mi'') ''Mi''" "has_suffix (digits n @ ''Gi'') ''Gi''"
      "\<not> has_suffix (digits n @ ''Gi'') ''Mi''" for n
    by (auto simp: has_suffix_iff)
  ultimately show ?thesis
    by (simp add: quantity_laws_def sample_parse_def sample_milli_def Let_def butlast_append)
qed

theorem requestable_sizes_bounded_witness:
  "\<exists>rr lm lc rm rc. GetResourceRequirementsForSize sample_parse ''medium'' = Some rr
      \<and> rr_Limits rr ''memory'' = Some lm \<and> rr_Limits rr ''cpu'' = Some lc
      \<and> rr_Requests rr ''memory'' = Some rm \<and> rr_Requests rr ''cpu'' = Some rc
      \<and> sample_milli rm < sample_milli lm \<and> sample_milli rc < sample_milli lc
      \<and> IsSizeLarger (mget LimitSizeToRequestSize (useDefaultIfEmptySize ''medium'' GetDefaultSizeCPURAM))
          ''medium''
      \<and> GetVolCapacityForSize ''medium'' \<noteq> ''''"
  using requestable_sizes_bounded [OF quantity_laws_sample, of "''medium''"]
  by (simp add: requestable_def)

end
