(* ===== verification/Prov_Utils.thy ===== *)
theory Prov_Utils
  imports Crd_Env Clowder_Config App_Config Sizing
begin

text \<open>
  The helpers the providers share, \<open>providers/utils/utils.go\<close>: the choice of images, the local
  database deployment, the CA certificate volume, the API paths of a deployment and the TLS
  decision. \<open>LoadedConfig\<close> is passed as an argument. \<open>MakeLabeler\<close>, \<open>MakeService\<close> and \<open>MakePVC\<close> of
  \<open>rhc-osdk-utils\<close> are parameters.
\<close>

section \<open>Images\<close>

definition defaultImageCaddySideCar :: string where
  "defaultImageCaddySideCar = ''quay.io/redhat-services-prod/hcm-eng-prod-tenant/crc-caddy-plugin:0768503''"

definition defaultImageCaddyGateway :: string where
  "defaultImageCaddyGateway = defaultImageCaddySideCar"

definition defaultImageMBOP :: string where
  "defaultImageMBOP = ''quay.io/redhat-services-prod/hcc-fr-tenant/mbop/mbop:fbf8212''"

definition defaultImageMocktitlements :: string where
  "defaultImageMocktitlements =
     ''quay.io/redhat-services-prod/hcm-eng-prod-tenant/mocktitlements-master/mocktitlements-master:27dadf8''"

definition defaultKeyCloakVersion :: string where
  "defaultKeyCloakVersion = ''23.0.1''"

definition defaultImageCaddyProxy :: string where
  "defaultImageCaddyProxy = ''quay.io/redhat-services-prod/hcm-eng-prod-tenant/caddy-ubi:094d8a9''"

definition defaultImageKeyCloak :: string where
  "defaultImageKeyCloak = ''quay.io/keycloak/keycloak:'' @ defaultKeyCloakVersion"

definition defaultImageInMemoryDB :: string where
  "defaultImageInMemoryDB = ''registry.redhat.io/rhel10/valkey-8:10.0''"

definition GetDefaultDatabaseImage :: "string \<Rightarrow> int \<Rightarrow> bool \<Rightarrow> goerr + string" where
  "GetDefaultDatabaseImage stack version cyndi =
     (let images = (if cyndi then
            [(16, ''quay.io/redhat-services-prod/hcm-eng-prod-tenant/postgresql-rds-cyndi:d44b8d1''),
             (15, ''quay.io/cloudservices/postgresql-rds:cyndi-15-2318dee''),
             (14, ''quay.io/cloudservices/postgresql-rds:cyndi-14-2318dee''),
             (13, ''quay.io/cloudservices/postgresql-rds:cyndi-13-2318dee''),
             (12, ''quay.io/cloudservices/postgresql-rds:cyndi-12-2318dee'')]
          else
            [(16, ''quay.io/redhat-services-prod/hcm-eng-prod-tenant/postgresql-rds:d44b8d1''),
             (15, ''quay.io/cloudservices/postgresql-rds:15-2318dee''),
             (14, ''quay.io/cloudservices/postgresql-rds:14-2318dee''),
             (13, ''quay.io/cloudservices/postgresql-rds:13-2318dee''),
             (12, ''quay.io/cloudservices/postgresql-rds:12-2318dee'')])
      in case map_of images version of
           None \<Rightarrow> Inl (NewClowderError stack (''no default image for PostgreSQL version '' @ itoa version))
         | Some img \<Rightarrow> Inr img)"

definition GetInMemoryDBImage :: "ClowderConfig \<Rightarrow> ClowdEnvironment \<Rightarrow> string" where
  "GetInMemoryDBImage lc env =
     (if imc_Image (pv_InMemoryDB (env_Providers (env_Spec env))) \<noteq> ''''
      then imc_Image (pv_InMemoryDB (env_Providers (env_Spec env)))
      else if ci_InMemoryDB (cc_Images lc) \<noteq> '''' then ci_InMemoryDB (cc_Images lc)
      else defaultImageInMemoryDB)"

definition GetCaddyGatewayImage :: "ClowderConfig \<Rightarrow> ClowdEnvironment \<Rightarrow> string" where
  "GetCaddyGatewayImage lc env =
     (if wi_CaddyGateway (web_Images (env_Web env)) \<noteq> '''' then wi_CaddyGateway (web_Images (env_Web env))
      else if ci_CaddyGateway (cc_Images lc) \<noteq> '''' then ci_CaddyGateway (cc_Images lc)
      else defaultImageCaddyGateway)"

definition GetCaddyImage :: "ClowderConfig \<Rightarrow> ClowdEnvironment \<Rightarrow> string" where
  "GetCaddyImage lc env =
     (if wi_Caddy (web_Images (env_Web env)) \<noteq> '''' then wi_Caddy (web_Images (env_Web env))
      else if ci_Caddy (cc_Images lc) \<noteq> '''' then ci_Caddy (cc_Images lc)
      else defaultImageCaddySideCar)"

text \<open>The proxy image is guarded by the operator's \<open>Caddy\<close> image, not by its \<open>CaddyProxy\<close> image.\<close>

definition GetCaddyProxyImage :: "ClowderConfig \<Rightarrow> ClowdEnvironment \<Rightarrow> string" where
  "GetCaddyProxyImage lc env =
     (if wi_CaddyProxy (web_Images (env_Web env)) \<noteq> '''' then wi_CaddyProxy (web_Images (env_Web env))
      else if ci_Caddy (cc_Images lc) \<noteq> '''' then ci_CaddyProxy (cc_Images lc)
      else defaultImageCaddyProxy)"

definition GetKeycloakImage :: "ClowderConfig \<Rightarrow> ClowdEnvironment \<Rightarrow> string" where
  "GetKeycloakImage lc env =
     (if wi_Keycloak (web_Images (env_Web env)) \<noteq> '''' then wi_Keycloak (web_Images (env_Web env))
      else if ci_Keycloak (cc_Images lc) \<noteq> '''' then ci_Keycloak (cc_Images lc)
      else defaultImageKeyCloak)"

definition GetMocktitlementsImage :: "ClowderConfig \<Rightarrow> ClowdEnvironment \<Rightarrow> string" where
  "GetMocktitlementsImage lc env =
     (if wi_Mocktitlements (web_Images (env_Web env)) \<noteq> '''' then wi_Mocktitlements (web_Images (env_Web env))
      else if ci_Mocktitlements (cc_Images lc) \<noteq> '''' then ci_Mocktitlements (cc_Images lc)
      else defaultImageMocktitlements)"

definition GetMockBOPImage :: "ClowderConfig \<Rightarrow> ClowdEnvironment \<Rightarrow> string" where
  "GetMockBOPImage lc env =
     (if wi_MockBOP (web_Images (env_Web env)) \<noteq> '''' then wi_MockBOP (web_Images (env_Web env))
      else if ci_MBOP (cc_Images lc) \<noteq> '''' then ci_MBOP (cc_Images lc)
      else defaultImageMBOP)"

definition GetKeycloakVersion :: "ClowdEnvironment \<Rightarrow> string" where
  "GetKeycloakVersion env =
     (if web_KeycloakVersion (env_Web env) \<noteq> '''' then web_KeycloakVersion (env_Web env)
      else defaultKeyCloakVersion)"

text \<open>\<open>readFile\<close> reads a file of the container; \<open>None\<close> is an error, which the code clobbers.\<close>

definition GetClowderNamespace :: "(string \<Rightarrow> string option) \<Rightarrow> string" where
  "GetClowderNamespace readFile =
     (case readFile ''/var/run/secrets/kubernetes.io/serviceaccount/namespace'' of
        None \<Rightarrow> ''clowder-system'' | Some ns \<Rightarrow> ns)"

section \<open>The local database\<close>

definition db_probe :: "int \<Rightarrow> Probe" where
  "db_probe delay = \<lparr>pr_Handler = ExecAction [''psql'', ''-U'', ''$(POSTGRESQL_USER)'', ''-d'',
       ''$(POSTGRESQL_DATABASE)'', ''-c'', ''SELECT 1''],
     pr_InitialDelaySeconds = delay, pr_TimeoutSeconds = 2, pr_PeriodSeconds = 10,
     pr_SuccessThreshold = 1, pr_FailureThreshold = 3\<rparr>"

abbreviation plain_var :: "string \<Rightarrow> string \<Rightarrow> EnvVar" where
  "plain_var n v \<equiv> \<lparr>ev_Name = n, ev_Value = v, ev_ValueFrom = None\<rparr>"

definition local_db_container ::
  "NamespacedName \<Rightarrow> string \<Rightarrow> DatabaseCfg \<Rightarrow> string \<Rightarrow> ResourceRequirements \<Rightarrow> Container" where
  "local_db_container nn img cfg dbName requestResource = Container_zero\<lparr>
     ct_Name := nn_Name nn, ct_Image := img,
     ct_Env := [plain_var ''POSTGRESQL_USER'' (dbcf_Username cfg),
                plain_var ''POSTGRESQL_PASSWORD'' (dbcf_Password cfg),
                plain_var ''POSTGRESQL_ADMIN_PASSWORD'' (dbcf_AdminPassword cfg),
                plain_var ''POSTGRESQL_DATABASE'' dbName],
     ct_LivenessProbe := Some (db_probe 15), ct_ReadinessProbe := Some (db_probe 45),
     ct_Ports := [\<lparr>cp_Name = ''database'', cp_ContainerPort = 5432, cp_Protocol = ''TCP''\<rparr>],
     ct_Resources := requestResource,
     ct_VolumeMounts := [\<lparr>vm_Name = nn_Name nn, vm_ReadOnly = False,
                           vm_MountPath = ''/var/lib/pgsql/data''\<rparr>],
     ct_TerminationMessagePath := ''/dev/termination-log'',
     ct_TerminationMessagePolicy := ''File'',
     ct_ImagePullPolicy := ''IfNotPresent''\<rparr>"

text \<open>
  The default resources are computed before an override is looked at, so a quantity that does not
  parse panics (\<open>None\<close>) either way. An empty-directory volume has no claim.
\<close>

definition MakeLocalDB ::
  "(NamespacedName \<Rightarrow> smap \<Rightarrow> ClowdObject \<Rightarrow> KDeployment \<Rightarrow> KDeployment) \<Rightarrow> (string \<Rightarrow> string option)
    \<Rightarrow> KDeployment \<Rightarrow> NamespacedName \<Rightarrow> ClowdObject \<Rightarrow> smap \<Rightarrow> DatabaseCfg \<Rightarrow> string \<Rightarrow> bool \<Rightarrow> string
    \<Rightarrow> ResourceRequirements option \<Rightarrow> KDeployment option" where
  "MakeLocalDB makeLabeler mustParse dd nn baseResource extraLabels cfg img usePVC dbName res =
     (let labels = (co_GetLabels baseResource)(''service'' \<mapsto> ''db'') ++ extraLabels;
          dd1 = makeLabeler nn labels baseResource dd;
          volSource = (if usePVC then Volume_zero\<lparr>vol_PersistentVolumeClaim := Some (nn_Name nn)\<rparr>
                       else Volume_zero\<lparr>vol_Other := ''EmptyDir''\<rparr>);
          strategy = (if usePVC then \<lparr>ds_Type = ''Recreate'', ds_RollingUpdate = None\<rparr>
                      else \<lparr>ds_Type = ''RollingUpdate'', ds_RollingUpdate = Some (''25%'', ''25%'')\<rparr>)
      in case GetDefaultResourceRequirements mustParse of
           None \<Rightarrow> None
         | Some def \<Rightarrow>
             Some (dd1\<lparr>
               kd_Strategy := strategy,
               kd_Replicas := Some 1,
               kd_Selector := labels,
               kd_Template := (kd_Template dd1)\<lparr>
                 pt_Volumes := [volSource\<lparr>vol_Name := nn_Name nn\<rparr>],
                 pt_Labels := labels,
                 pt_Containers := [local_db_container nn img cfg dbName
                                     (case res of None \<Rightarrow> def | Some r \<Rightarrow> r)]\<rparr>\<rparr>))"

definition db_service_labels :: "ClowdObject \<Rightarrow> smap" where
  "db_service_labels baseResource = [''service'' \<mapsto> ''db'', ''app'' \<mapsto> co_GetClowdName baseResource]"

definition MakeLocalDBService ::
  "('s \<Rightarrow> NamespacedName \<Rightarrow> smap \<Rightarrow> ServicePort list \<Rightarrow> ClowdObject \<Rightarrow> bool \<Rightarrow> 's)
    \<Rightarrow> 's \<Rightarrow> NamespacedName \<Rightarrow> ClowdObject \<Rightarrow> smap \<Rightarrow> 's" where
  "MakeLocalDBService makeService s nn baseResource extraLabels =
     makeService s nn (db_service_labels baseResource ++ extraLabels)
       [\<lparr>sp_Name = ''database'', sp_Port = 5432, sp_Protocol = ''TCP'', sp_AppProtocol = None,
         sp_TargetPort = 5432\<rparr>] baseResource False"

definition MakeLocalDBPVC ::
  "('p \<Rightarrow> NamespacedName \<Rightarrow> smap \<Rightarrow> string \<Rightarrow> ClowdObject \<Rightarrow> 'p)
    \<Rightarrow> 'p \<Rightarrow> NamespacedName \<Rightarrow> ClowdObject \<Rightarrow> string \<Rightarrow> 'p" where
  "MakeLocalDBPVC makePVC pvc nn baseResource capacity =
     makePVC pvc nn (db_service_labels baseResource) capacity baseResource"

section \<open>Certificates, API paths, secrets\<close>

definition KubeLinterAnnotations :: smap where
  "KubeLinterAnnotations = map_of
     [(''ignore-check.kube-linter.io/no-liveness-probe'', ''probes not required on Job pods''),
      (''ignore-check.kube-linter.io/no-readiness-probe'', ''probes not required on Job pods'')]"

definition GetCACertDir :: string where
  "GetCACertDir = ''/cdapp/certs''"

definition GetServiceCACertPath :: "string option" where
  "GetServiceCACertPath = Some (GetCACertDir @ ''/service-ca.crt'')"

definition tls_ca_mount :: VolumeMount where
  "tls_ca_mount = \<lparr>vm_Name = ''tls-ca'', vm_ReadOnly = True, vm_MountPath = GetCACertDir\<rparr>"

definition mount_tls_ca :: "Container \<Rightarrow> Container" where
  "mount_tls_ca c = c\<lparr>ct_VolumeMounts := ct_VolumeMounts c @ [tls_ca_mount]\<rparr>"

definition AddCertVolume :: "PodTemplate \<Rightarrow> string \<Rightarrow> PodTemplate" where
  "AddCertVolume d dnn = d\<lparr>
     pt_Volumes := pt_Volumes d @ [Volume_zero\<lparr>vol_Name := ''tls-ca'',
       vol_ConfigMap := Some \<lparr>vs_Name = ''openshift-service-ca.crt'', vs_DefaultMode = None, vs_Optional = None\<rparr>\<rparr>],
     pt_Containers := map (\<lambda>c. if ct_Name c = dnn then mount_tls_ca c else c) (pt_Containers d),
     pt_InitContainers := map mount_tls_ca (pt_InitContainers d)\<rparr>"

text \<open>The argument is the result of \<open>GetWebServices\<close>.\<close>

definition GetAPIPaths :: "WebServices \<Rightarrow> string \<Rightarrow> string list" where
  "GetAPIPaths webServices defaultPath =
     (case pub_APIPaths (ws_Public webServices) of
        None \<Rightarrow> (let apiPath = pub_APIPath (ws_Public webServices);
                     apiPath' = (if apiPath = '''' then defaultPath else apiPath)
                 in [''/api/'' @ apiPath' @ ''/''])
      | Some paths \<Rightarrow> paths)"

record SecretEnvVar =
  sev_Name :: string
  sev_Key :: string

definition NewSecretEnvVar :: "string \<Rightarrow> string \<Rightarrow> SecretEnvVar" where
  "NewSecretEnvVar name key = \<lparr>sev_Name = name, sev_Key = key\<rparr>"

definition AppendEnvVarsFromSecret :: "EnvVar list \<Rightarrow> string \<Rightarrow> SecretEnvVar list \<Rightarrow> EnvVar list" where
  "AppendEnvVarsFromSecret envvars secName inputs =
     foldl (\<lambda>evs e. evs @ [\<lparr>ev_Name = sev_Name e, ev_Value = '''',
        ev_ValueFrom = Some \<lparr>evs_FieldRef = None, evs_ConfigMapKeyRef = None,
          evs_SecretKeyRef = Some \<lparr>ks_Name = secName, ks_Key = sev_Key e, ks_Optional = None\<rparr>\<rparr>\<rparr>]) envvars inputs"

section \<open>TLS\<close>

definition IsTLSConfiguredForEnv :: "TLS \<Rightarrow> bool" where
  "IsTLSConfiguredForEnv t = (tls_Port t \<noteq> 0 \<and> tls_PrivatePort t \<noteq> 0)"

definition IsPublicTLSEnabled :: "WebServices \<Rightarrow> TLS \<Rightarrow> bool" where
  "IsPublicTLSEnabled w t =
     (if \<not> IsTLSConfiguredForEnv t then False
      else (case pub_TLS (ws_Public w) of Some b \<Rightarrow> b | None \<Rightarrow> tls_Enabled t))"

definition IsPrivateTLSEnabled :: "WebServices \<Rightarrow> TLS \<Rightarrow> bool" where
  "IsPrivateTLSEnabled w t =
     (if \<not> IsTLSConfiguredForEnv t then False
      else (case priv_TLS (ws_Private w) of Some b \<Rightarrow> b | None \<Rightarrow> tls_Enabled t))"

definition IsAnyTLSEnabled :: "WebServices \<Rightarrow> TLS \<Rightarrow> bool" where
  "IsAnyTLSEnabled w t = (IsPublicTLSEnabled w t \<or> IsPrivateTLSEnabled w t)"

section \<open>Facts\<close>

lemma AppendEnvVarsFromSecret_names:
  "map ev_Name (AppendEnvVarsFromSecret evs sec inputs) = map ev_Name evs @ map sev_Name inputs"
  by (induction inputs arbitrary: evs) (auto simp: AppendEnvVarsFromSecret_def)

lemma GetAPIPaths_Nil_iff: "GetAPIPaths w d = [] \<longleftrightarrow> pub_APIPaths (ws_Public w) = Some []"
  by (auto simp: GetAPIPaths_def Let_def split: option.splits)

lemma IsAnyTLSEnabled_configured: "IsAnyTLSEnabled w t \<Longrightarrow> IsTLSConfiguredForEnv t"
  by (auto simp: IsAnyTLSEnabled_def IsPublicTLSEnabled_def IsPrivateTLSEnabled_def split: if_splits)

lemmas tls_defs = IsTLSConfiguredForEnv_def IsPublicTLSEnabled_def IsPrivateTLSEnabled_def
  IsAnyTLSEnabled_def

text \<open>
  The images other than the proxy's are never empty; the proxy's is empty exactly when the
  environment names none and the operator configures a Caddy image but no proxy image.
\<close>

lemma default_images_ne:
  "defaultImageInMemoryDB \<noteq> ''''" "defaultImageCaddyGateway \<noteq> ''''" "defaultImageCaddySideCar \<noteq> ''''"
  "defaultImageKeyCloak \<noteq> ''''" "defaultImageMocktitlements \<noteq> ''''" "defaultImageMBOP \<noteq> ''''"
  "defaultImageCaddyProxy \<noteq> ''''"
  by (simp_all add: defaultImageInMemoryDB_def defaultImageCaddyGateway_def
      defaultImageCaddySideCar_def defaultImageKeyCloak_def defaultImageMocktitlements_def
      defaultImageMBOP_def defaultImageCaddyProxy_def)

text \<open>
  Of the images chosen for an environment, those of the in-memory database, the Caddy gateway,
  the Caddy sidecar, Keycloak, the entitlements mock and the BOP mock are never empty; that of the
  Caddy proxy is empty exactly when the environment names none while the operator configures a
  Caddy image but no proxy image.
\<close>

theorem chosen_images_nonempty:
  "GetInMemoryDBImage lc env \<noteq> '''' \<and> GetCaddyGatewayImage lc env \<noteq> '''' \<and> GetCaddyImage lc env \<noteq> ''''
   \<and> GetKeycloakImage lc env \<noteq> '''' \<and> GetMocktitlementsImage lc env \<noteq> '''' \<and> GetMockBOPImage lc env \<noteq> ''''
   \<and> (GetCaddyProxyImage lc env = '''' \<longleftrightarrow>
        wi_CaddyProxy (web_Images (env_Web env)) = '''' \<and> ci_Caddy (cc_Images lc) \<noteq> ''''
        \<and> ci_CaddyProxy (cc_Images lc) = '''')"
  using default_images_ne
  by (simp add: GetInMemoryDBImage_def GetCaddyGatewayImage_def GetCaddyImage_def GetKeycloakImage_def
      GetMocktitlementsImage_def GetMockBOPImage_def GetCaddyProxyImage_def)

lemma GetDefaultDatabaseImage_ok_iff:
  "(\<exists>img. GetDefaultDatabaseImage stack v cyndi = Inr img) \<longleftrightarrow> v \<in> {12, 13, 14, 15, 16}"
  by (auto simp: GetDefaultDatabaseImage_def Let_def split: option.splits if_splits)

lemma mount_tls_ca_simps [simp]:
  "ct_Name (mount_tls_ca c) = ct_Name c"
  "ct_VolumeMounts (mount_tls_ca c) = ct_VolumeMounts c @ [tls_ca_mount]"
  by (simp_all add: mount_tls_ca_def)

lemma AddCertVolume_mounts:
  "\<forall>c \<in> set (pt_Containers (AddCertVolume d dnn)). ct_Name c = dnn \<longrightarrow> tls_ca_mount \<in> set (ct_VolumeMounts c)"
  "\<forall>c \<in> set (pt_InitContainers (AddCertVolume d dnn)). tls_ca_mount \<in> set (ct_VolumeMounts c)"
  "map ct_Name (pt_Containers (AddCertVolume d dnn)) = map ct_Name (pt_Containers d)"
  by (simp_all add: AddCertVolume_def ball_Un)

text \<open>A database on a claim is recreated, one without is rolled over; either has one container.\<close>

lemma MakeLocalDB_panics:
  "GetDefaultResourceRequirements mp = None \<Longrightarrow>
    MakeLocalDB lab mp dd nn base extra cfg img pvc dbName res = None"
  by (simp add: MakeLocalDB_def)

lemma MakeLocalDB_shape:
  assumes "MakeLocalDB lab mp dd nn base extra cfg img pvc dbName res = Some dd'"
  shows "ds_Type (kd_Strategy dd') = (if pvc then ''Recreate'' else ''RollingUpdate'')"
    and "map ct_Name (pt_Containers (kd_Template dd')) = [nn_Name nn]"
    and "map vol_PersistentVolumeClaim (pt_Volumes (kd_Template dd')) = [if pvc then Some (nn_Name nn) else None]"
    and "pt_Labels (kd_Template dd') = kd_Selector dd'"
proof -
  have "GetDefaultResourceRequirements mp \<noteq> None"
    using assms MakeLocalDB_panics by (metis option.distinct(1))
  then obtain def where def: "GetDefaultResourceRequirements mp = Some def" by blast
  have [simp]: "ct_Name (local_db_container nn img cfg dbName r) = nn_Name nn" for r
    by (simp add: local_db_container_def)
  note dd' = assms [unfolded MakeLocalDB_def Let_def def option.case option.inject, symmetric]
  show "ds_Type (kd_Strategy dd') = (if pvc then ''Recreate'' else ''RollingUpdate'')"
    "map ct_Name (pt_Containers (kd_Template dd')) = [nn_Name nn]"
    "map vol_PersistentVolumeClaim (pt_Volumes (kd_Template dd')) = [if pvc then Some (nn_Name nn) else None]"
    "pt_Labels (kd_Template dd') = kd_Selector dd'"
    by (simp_all only: dd') (simp_all add: Volume_zero_def)
qed

end
