(* ===== verification/Dependencies.thy ===== *)
theory Dependencies
  imports Prov_Utils
begin

text \<open>
  The dependencies provider, \<open>providers/dependencies/impl.go\<close>: it turns the dependencies an app
  names into endpoint configuration. The endpoint lists the code grows through pointers are a pair
  that is passed along; an index out of range (\<open>apiPaths[0]\<close>) is the result \<open>None\<close>. Listing apps
  and app references is a parameter. \<open>net.JoinHostPort\<close> and \<open>url.URL.String\<close> are Go's own.

  The facts: which dependencies are missing, which resource serves a dependency, what endpoints
  are produced, and that the V2 maps hold exactly the endpoints of the V1 lists.
\<close>

type_synonym EndpointLists = "DependencyEndpoint list \<times> PrivateDependencyEndpoint list"

definition anyNotZero :: "int list \<Rightarrow> bool" where
  "anyNotZero ints = scan (\<lambda>i. i \<noteq> 0) ints"

definition isInServesList :: "string \<Rightarrow> string list \<Rightarrow> bool" where
  "isInServesList appName serves = scan (\<lambda>name. name = appName) serves"

fun coalesceInt32 :: "int list \<Rightarrow> int" where
  "coalesceInt32 [] = 0"
| "coalesceInt32 (v # vals) = (if v \<noteq> 0 then v else coalesceInt32 vals)"

section \<open>Endpoints of one deployment\<close>

definition public_ports :: "bool \<Rightarrow> WebServices \<Rightarrow> WebConfig \<Rightarrow> int \<times> int \<times> int \<times> int \<times> bool" where
  "public_ports web ws ewc =
     (let tls = IsPublicTLSEnabled ws (web_TLS ewc);
          (port, tlsPort, en1) =
            (if web \<or> pub_Enabled (ws_Public ws)
             then (if tls then (web_Port ewc, tls_Port (web_TLS ewc), True) else (web_Port ewc, 0, False))
             else (0, 0, False));
          (h2cPort, h2cTLSPort, en2) =
            (if pub_H2CEnabled (ws_Public ws)
             then (let h = (if web_H2CPort ewc \<noteq> 0 then web_H2CPort ewc else 0)
                   in if tls \<and> tls_H2CPort (web_TLS ewc) \<noteq> 0
                      then (h, tls_H2CPort (web_TLS ewc), True) else (h, 0, en1))
             else (0, 0, en1))
      in (port, tlsPort, h2cPort, h2cTLSPort, en2))"

definition appendPublicDependencyEndpoint ::
  "string \<Rightarrow> bool \<Rightarrow> WebServices \<Rightarrow> string \<Rightarrow> string \<Rightarrow> WebConfig \<Rightarrow> string list
    \<Rightarrow> DependencyEndpoint list \<Rightarrow> DependencyEndpoint list option" where
  "appendPublicDependencyEndpoint deploymentName web ws hostname appName ewc apiPaths depConfig =
     (case public_ports web ws ewc of (port, tlsPort, h2cPort, h2cTLSPort, publicTLSEnabled) \<Rightarrow>
        if anyNotZero [port, tlsPort, h2cPort, h2cTLSPort]
        then (case apiPaths of
                [] \<Rightarrow> None
              | apiPath # _ \<Rightarrow>
                  Some (depConfig @ [\<lparr>de_ApiPath = apiPath, de_ApiPaths = apiPaths, de_App = appName,
                     de_H2CPort = Some h2cPort, de_H2CTLSPort = Some h2cTLSPort,
                     de_Hostname = hostname, de_Name = deploymentName, de_Port = port,
                     de_TlsCAPath = (if publicTLSEnabled then GetServiceCACertPath else None),
                     de_TlsPort = Some tlsPort\<rparr>]))
        else Some depConfig)"

definition private_ports :: "WebServices \<Rightarrow> WebConfig \<Rightarrow> int \<times> int \<times> int \<times> int \<times> bool" where
  "private_ports ws ewc =
     (let tls = IsPrivateTLSEnabled ws (web_TLS ewc);
          (port, tlsPort, en1) =
            (if priv_Enabled (ws_Private ws)
             then (if tls then (web_PrivatePort ewc, tls_PrivatePort (web_TLS ewc), True)
                   else (web_PrivatePort ewc, 0, False))
             else (0, 0, False));
          (h2cPort, h2cTLSPort, en2) =
            (if priv_H2CEnabled (ws_Private ws)
             then (let h = (if web_H2CPrivatePort ewc \<noteq> 0 then web_H2CPrivatePort ewc else 0)
                   in if tls \<and> tls_H2CPrivatePort (web_TLS ewc) \<noteq> 0
                      then (h, tls_H2CPrivatePort (web_TLS ewc), True) else (h, 0, en1))
             else (0, 0, en1))
      in (port, tlsPort, h2cPort, h2cTLSPort, en2))"

definition appendPrivateDependencyEndpoint ::
  "string \<Rightarrow> WebServices \<Rightarrow> string \<Rightarrow> string \<Rightarrow> WebConfig
    \<Rightarrow> PrivateDependencyEndpoint list \<Rightarrow> PrivateDependencyEndpoint list" where
  "appendPrivateDependencyEndpoint deploymentName ws hostname appName ewc privDepConfig =
     (case private_ports ws ewc of (port, tlsPort, h2cPort, h2cTLSPort, privateTLSEnabled) \<Rightarrow>
        if anyNotZero [port, tlsPort, h2cPort, h2cTLSPort]
        then privDepConfig @ [\<lparr>pde_App = appName, pde_H2CPort = Some h2cPort,
               pde_H2CTLSPort = Some h2cTLSPort, pde_Hostname = hostname, pde_Name = deploymentName,
               pde_Port = port,
               pde_TlsCAPath = (if privateTLSEnabled then GetServiceCACertPath else None),
               pde_TlsPort = Some tlsPort\<rparr>]
        else privDepConfig)"

definition configureAppDependencyEndpoints ::
  "Deployment \<Rightarrow> ClowdApp \<Rightarrow> WebConfig \<Rightarrow> EndpointLists \<Rightarrow> EndpointLists option" where
  "configureAppDependencyEndpoints d depApp ewc eps =
     (let serviceName = nn_Name (app_GetDeploymentNamespacedName depApp d);
          apiPaths = GetAPIPaths (dep_WebServices d) serviceName;
          hostname = serviceName @ ''.'' @ app_Namespace depApp @ ''.svc''
      in case appendPublicDependencyEndpoint (dep_Name d) (dep_Web d) (dep_WebServices d) hostname
                (app_Name depApp) ewc apiPaths (fst eps) of
           None \<Rightarrow> None
         | Some pub \<Rightarrow> Some (pub, appendPrivateDependencyEndpoint (dep_Name d) (dep_WebServices d)
                                    hostname (app_Name depApp) ewc (snd eps)))"

definition app_ref_web_config :: "ClowdAppRef \<Rightarrow> WebConfig \<Rightarrow> WebConfig" where
  "app_ref_web_config r ewc =
     (let re = ref_RemoteEnvironment (ref_Spec r)
      in WebConfig_zero\<lparr>
           web_Port := coalesceInt32 [re_Port re, web_Port ewc],
           web_PrivatePort := coalesceInt32 [re_PrivatePort re, web_PrivatePort ewc],
           web_H2CPort := coalesceInt32 [re_H2CPort re, web_H2CPort ewc],
           web_H2CPrivatePort := coalesceInt32 [re_H2CPrivatePort re, web_H2CPrivatePort ewc],
           web_TLS := TLS_zero\<lparr>
             tls_Port := coalesceInt32 [tls_Port (re_TLS re), tls_Port (web_TLS ewc)],
             tls_H2CPort := coalesceInt32 [tls_H2CPort (re_TLS re), tls_H2CPort (web_TLS ewc)],
             tls_PrivatePort := coalesceInt32 [tls_PrivatePort (re_TLS re), tls_PrivatePort (web_TLS ewc)],
             tls_H2CPrivatePort :=
               coalesceInt32 [tls_H2CPrivatePort (re_TLS re), tls_H2CPrivatePort (web_TLS ewc)]\<rparr>\<rparr>)"

definition configureAppRefDependencyEndpoints ::
  "ClowdAppRefDeployment \<Rightarrow> ClowdAppRef \<Rightarrow> WebConfig \<Rightarrow> EndpointLists \<Rightarrow> EndpointLists option" where
  "configureAppRefDependencyEndpoints d depAppRef ewc eps =
     (let serviceName = nn_Name (ref_GetDeploymentNamespacedName depAppRef d);
          apiPaths = GetAPIPaths (rdep_WebServices d) serviceName;
          webConfig = app_ref_web_config depAppRef ewc
      in case appendPublicDependencyEndpoint (rdep_Name d) (rdep_Web d) (rdep_WebServices d)
                (rdep_Hostname d) (ref_Name depAppRef) webConfig apiPaths (fst eps) of
           None \<Rightarrow> None
         | Some pub \<Rightarrow> Some (pub, appendPrivateDependencyEndpoint (rdep_Name d) (rdep_WebServices d)
                                    (rdep_Hostname d) (ref_Name depAppRef) webConfig (snd eps)))"

section \<open>Resolving dependencies\<close>

fun fold_opt :: "('a \<Rightarrow> 's \<Rightarrow> 's option) \<Rightarrow> 'a list \<Rightarrow> 's \<Rightarrow> 's option" where
  "fold_opt f [] s = Some s"
| "fold_opt f (x # xs) s = (case f x s of None \<Rightarrow> None | Some s' \<Rightarrow> fold_opt f xs s')"

datatype resolution = UseApp ClowdApp | UseAppRef ClowdAppRef | Missing

definition resolve ::
  "(string \<rightharpoonup> ClowdApp) \<Rightarrow> (string \<rightharpoonup> ClowdAppRef) \<Rightarrow> string \<Rightarrow> string \<Rightarrow> resolution" where
  "resolve appMap appRefMap consumer dep =
     (let useAppRef = (case (appMap dep, appRefMap dep) of
            (Some _, Some r) \<Rightarrow> isInServesList consumer (ref_Serves (ref_Spec r))
          | (None, Some _) \<Rightarrow> True
          | _ \<Rightarrow> False)
      in case appRefMap dep of
           Some r \<Rightarrow> if useAppRef then UseAppRef r
                     else (case appMap dep of Some a \<Rightarrow> UseApp a | None \<Rightarrow> Missing)
         | None \<Rightarrow> (case appMap dep of Some a \<Rightarrow> UseApp a | None \<Rightarrow> Missing))"

fun processAppAndAppRefEndpoints ::
  "(string \<rightharpoonup> ClowdApp) \<Rightarrow> (string \<rightharpoonup> ClowdAppRef) \<Rightarrow> string list \<Rightarrow> WebConfig \<Rightarrow> string
    \<Rightarrow> EndpointLists \<Rightarrow> (EndpointLists \<times> string list) option" where
  "processAppAndAppRefEndpoints appMap appRefMap [] ewc consumer eps = Some (eps, [])"
| "processAppAndAppRefEndpoints appMap appRefMap (dep # deps) ewc consumer eps =
     (case resolve appMap appRefMap consumer dep of
        UseAppRef r \<Rightarrow>
          (case fold_opt (\<lambda>d. configureAppRefDependencyEndpoints d r ewc) (ref_Deployments (ref_Spec r)) eps of
             None \<Rightarrow> None
           | Some eps' \<Rightarrow> processAppAndAppRefEndpoints appMap appRefMap deps ewc consumer eps')
      | UseApp a \<Rightarrow>
          (case fold_opt (\<lambda>d. configureAppDependencyEndpoints d a ewc) (app_Deployments (app_Spec a)) eps of
             None \<Rightarrow> None
           | Some eps' \<Rightarrow> processAppAndAppRefEndpoints appMap appRefMap deps ewc consumer eps')
      | Missing \<Rightarrow>
          map_option (\<lambda>(ls, missing). (ls, dep # missing))
            (processAppAndAppRefEndpoints appMap appRefMap deps ewc consumer eps))"

definition makeDepConfig ::
  "WebConfig \<Rightarrow> ClowdApp \<Rightarrow> ClowdApp list \<Rightarrow> ClowdAppRef list \<Rightarrow> EndpointLists
    \<Rightarrow> (EndpointLists \<times> string list) option" where
  "makeDepConfig ewc app apps appRefs eps =
     (let appMap = map_by (\<lambda>a. app_Name a) apps; appRefMap = map_by (\<lambda>r. ref_Name r) appRefs
      in case processAppAndAppRefEndpoints appMap appRefMap (app_Dependencies (app_Spec app)) ewc
                (app_Name app) eps of
           None \<Rightarrow> None
         | Some (eps1, missingDeps) \<Rightarrow>
             (case processAppAndAppRefEndpoints appMap appRefMap
                     (app_OptionalDependencies (app_Spec app)) ewc (app_Name app) eps1 of
                None \<Rightarrow> None
              | Some (eps2, _) \<Rightarrow> Some (eps2, missingDeps)))"

section \<open>V2 endpoints\<close>

definition JoinHostPort :: "string \<Rightarrow> string \<Rightarrow> string" where
  "JoinHostPort host port =
     (if CHR '':'' \<in> set host then ''['' @ host @ '']:'' @ port else host @ '':'' @ port)"

definition host_char_ok :: "char \<Rightarrow> bool" where
  "host_char_ok c = (let n = (of_char c :: nat) in
     48 \<le> n \<and> n \<le> 57 \<or> 65 \<le> n \<and> n \<le> 90 \<or> 97 \<le> n \<and> n \<le> 122
     \<or> c \<in> set ''!$&()*+,;=:[]<>-_.~'' \<or> n = 39 \<or> n = 34)"

definition hex_digit :: "nat \<Rightarrow> char" where
  "hex_digit n = (if n < 10 then char_of (48 + n) else char_of (55 + n))"

definition escape_host :: "string \<Rightarrow> string" where
  "escape_host h = concat (map (\<lambda>c. if host_char_ok c then [c]
     else [CHR ''%'', hex_digit (of_char c div 16), hex_digit (of_char c mod 16)]) h)"

definition constructEndpointURI :: "string \<Rightarrow> string \<Rightarrow> int \<Rightarrow> string" where
  "constructEndpointURI protocol hostname port =
     protocol @ ''://'' @ escape_host (JoinHostPort hostname (itoa port))"

lemma escape_host_id: "list_all host_char_ok h \<Longrightarrow> escape_host h = h"
  by (induction h) (auto simp: escape_host_def)

text \<open>The four optional entries of one endpoint, in the order they are written.\<close>

definition v2_entries :: "DependencyEndpoint \<Rightarrow> (string \<times> DependencyEndpointV2) list" where
  "v2_entries ep =
     (if de_Port ep > 0
      then [(de_Name ep, \<lparr>v2_CaCertificate = None,
                          v2_Uri = constructEndpointURI ''http'' (de_Hostname ep) (de_Port ep)\<rparr>)] else [])
   @ (case de_TlsPort ep of
        Some p \<Rightarrow> if p > 0 then [(de_Name ep @ ''_tls'', \<lparr>v2_CaCertificate = de_TlsCAPath ep,
                     v2_Uri = constructEndpointURI ''https'' (de_Hostname ep) p\<rparr>)] else [] | None \<Rightarrow> [])
   @ (case de_H2CPort ep of
        Some p \<Rightarrow> if p > 0 then [(de_Name ep @ ''_h2c'', \<lparr>v2_CaCertificate = None,
                     v2_Uri = constructEndpointURI ''http'' (de_Hostname ep) p\<rparr>)] else [] | None \<Rightarrow> [])
   @ (case de_H2CTLSPort ep of
        Some p \<Rightarrow> if p > 0 then [(de_Name ep @ ''_h2c_tls'', \<lparr>v2_CaCertificate = de_TlsCAPath ep,
                     v2_Uri = constructEndpointURI ''https'' (de_Hostname ep) p\<rparr>)] else [] | None \<Rightarrow> [])"

definition v2_step :: "V2Endpoints \<Rightarrow> DependencyEndpoint \<Rightarrow> V2Endpoints" where
  "v2_step m ep =
     (let services = (case m (de_App ep) of Some s \<Rightarrow> s | None \<Rightarrow> Map.empty)
      in m(de_App ep \<mapsto> foldl (\<lambda>s (k, v). s(k \<mapsto> v)) services (v2_entries ep)))"

definition buildV2EndpointMap :: "DependencyEndpoint list \<Rightarrow> V2Endpoints option" where
  "buildV2EndpointMap endpoints =
     (if endpoints = [] then None else Some (foldl v2_step Map.empty endpoints))"

definition makeV2DependencyEndpoints :: "AppConfig \<Rightarrow> AppConfig" where
  "makeV2DependencyEndpoints cfg =
     (case buildV2EndpointMap (cfg_Endpoints cfg) of
        None \<Rightarrow> cfg
      | Some m \<Rightarrow> if m \<noteq> Map.empty then cfg\<lparr>cfg_DependencyEndpoints := Some m\<rparr> else cfg)"

definition public_format :: "PrivateDependencyEndpoint \<Rightarrow> DependencyEndpoint" where
  "public_format p = \<lparr>de_ApiPath = '''', de_ApiPaths = [], de_App = pde_App p, de_H2CPort = pde_H2CPort p,
     de_H2CTLSPort = pde_H2CTLSPort p, de_Hostname = pde_Hostname p, de_Name = pde_Name p,
     de_Port = pde_Port p, de_TlsCAPath = pde_TlsCAPath p, de_TlsPort = pde_TlsPort p\<rparr>"

definition makeV2PrivateDependencyEndpoints :: "AppConfig \<Rightarrow> AppConfig" where
  "makeV2PrivateDependencyEndpoints cfg =
     (case buildV2EndpointMap (map public_format (cfg_PrivateEndpoints cfg)) of
        None \<Rightarrow> cfg
      | Some m \<Rightarrow> if m \<noteq> Map.empty then cfg\<lparr>cfg_PrivateDependencyEndpoints := Some m\<rparr> else cfg)"

section \<open>The provider\<close>

definition getAppRefsInEnv ::
  "(string \<Rightarrow> goerr + ClowdAppRef list) \<Rightarrow> ClowdEnvironment \<Rightarrow> goerr + ClowdAppRef list" where
  "getAppRefsInEnv listAppRefs env = listAppRefs (env_Name env)"

definition set_PrivatePort :: "int \<Rightarrow> ClowdEnvironment \<Rightarrow> ClowdEnvironment" where
  "set_PrivatePort p env = env\<lparr>env_Spec := (env_Spec env)\<lparr>env_Providers :=
     (env_Providers (env_Spec env))\<lparr>pv_Web := (env_Web env)\<lparr>web_PrivatePort := p\<rparr>\<rparr>\<rparr>\<rparr>"

text \<open>\<open>None\<close> is a panic; otherwise the environment and the configuration afterwards, and the error.\<close>

definition makeDependencies ::
  "(string \<Rightarrow> goerr + ClowdApp list) \<Rightarrow> (string \<Rightarrow> goerr + ClowdAppRef list) \<Rightarrow> string
    \<Rightarrow> ClowdEnvironment \<Rightarrow> AppConfig \<Rightarrow> ClowdApp
    \<Rightarrow> (ClowdEnvironment \<times> AppConfig \<times> goerr option) option" where
  "makeDependencies listApps listAppRefs stack env0 cfg app =
     (let env = (if web_PrivatePort (env_Web env0) = 0 then set_PrivatePort 10000 env0 else env0)
      in case processAppAndAppRefEndpoints [app_Name app \<mapsto> app] Map.empty [app_Name app] (env_Web env)
                (app_Name app) ([], []) of
           None \<Rightarrow> None
         | Some (self, _) \<Rightarrow>
             (if app_Dependencies (app_Spec app) = [] \<and> app_OptionalDependencies (app_Spec app) = []
              then Some (env, cfg\<lparr>cfg_Endpoints := fst self, cfg_PrivateEndpoints := snd self\<rparr>, None)
              else (case GetAppsInEnv listApps stack env of
                  Inl err \<Rightarrow> Some (env, cfg, Some (Wrap stack ''Failed to list apps'' err))
                | Inr apps \<Rightarrow>
                    (case getAppRefsInEnv listAppRefs env of
                       Inl err \<Rightarrow> Some (env, cfg, Some (Wrap stack ''Failed to list app refs'' err))
                     | Inr appRefs \<Rightarrow>
                         (case makeDepConfig (env_Web env) app apps appRefs self of
                            None \<Rightarrow> None
                          | Some (eps, missingDeps) \<Rightarrow>
                              (if missingDeps \<noteq> []
                               then Some (env, cfg, Some (MissingDependencies
                                      (map (\<lambda>d. \<lparr>md_Source = ''service'', md_Details = d\<rparr>) missingDeps)))
                               else Some (env, makeV2PrivateDependencyEndpoints (makeV2DependencyEndpoints
                                      (cfg\<lparr>cfg_Endpoints := fst eps, cfg_PrivateEndpoints := snd eps\<rparr>)),
                                      None)))))))"

section \<open>Growing the endpoint lists\<close>

definition add_eps :: "EndpointLists \<Rightarrow> EndpointLists \<Rightarrow> EndpointLists" where
  "add_eps a b = (fst a @ fst b, snd a @ snd b)"

lemma add_eps_simps [simp]:
  "fst (add_eps a b) = fst a @ fst b" "snd (add_eps a b) = snd a @ snd b"
  "add_eps ([], []) a = a" "add_eps a ([], []) = a" "add_eps (add_eps a b) c = add_eps a (add_eps b c)"
  by (simp_all add: add_eps_def)

text \<open>An action on the endpoint lists that only appends to what is there.\<close>

locale appender =
  fixes act :: "'a \<Rightarrow> EndpointLists \<Rightarrow> EndpointLists option"
  assumes act_frame: "act x eps = map_option (add_eps eps) (act x ([], []))"
begin

definition outcome :: "'a list \<Rightarrow> EndpointLists option" where
  "outcome xs = (if \<exists>x \<in> set xs. act x ([], []) = None then None
     else Some (concat (map (\<lambda>x. fst (the (act x ([], [])))) xs),
                concat (map (\<lambda>x. snd (the (act x ([], [])))) xs)))"

lemma fold_opt_outcome: "fold_opt act xs eps = map_option (add_eps eps) (outcome xs)"
proof (induction xs arbitrary: eps)
  case Nil
  then show ?case by (simp add: outcome_def)
next
  case (Cons x xs)
  show ?case
  proof (cases "act x ([], [])")
    case None
    then have "act x eps = None" by (simp add: act_frame [of x eps])
    with None show ?thesis by (simp add: outcome_def)
  next
    case (Some e)
    then have "act x eps = Some (add_eps eps e)" by (simp add: act_frame [of x eps])
    with Some Cons.IH show ?thesis
      by (cases "\<exists>x \<in> set xs. act x ([], []) = None") (auto simp: outcome_def add_eps_def)
  qed
qed

lemma fold_opt_frame: "fold_opt act xs eps = map_option (add_eps eps) (fold_opt act xs ([], []))"
  by (simp add: fold_opt_outcome option.map_comp comp_def)

lemma fold_opt_total: "(\<forall>x \<in> set xs. act x ([], []) \<noteq> None) \<Longrightarrow> fold_opt act xs eps \<noteq> None"
  by (auto simp: fold_opt_outcome outcome_def)

lemma fold_opt_all:
  assumes "fold_opt act xs ([], []) = Some e"
    and "\<And>x e. x \<in> set xs \<Longrightarrow> act x ([], []) = Some e \<Longrightarrow> P (fst e) \<and> Q (snd e)"
    and "\<And>a b. P (a @ b) \<longleftrightarrow> P a \<and> P b" "\<And>a b. Q (a @ b) \<longleftrightarrow> Q a \<and> Q b" "P []" "Q []"
  shows "P (fst e) \<and> Q (snd e)"
  using assms(1,2)
proof (induction xs arbitrary: e)
  case Nil
  with assms(5,6) show ?case by auto
next
  case (Cons x xs)
  then obtain e1 where e1: "act x ([], []) = Some e1" by (auto split: option.splits)
  with Cons.prems(1) obtain e2 where e2: "fold_opt act xs ([], []) = Some e2" "e = add_eps e1 e2"
    by (auto simp: fold_opt_frame [of xs e1])
  have "P (fst e1) \<and> Q (snd e1)" using Cons.prems(2) [OF _ e1] by simp
  moreover have "P (fst e2) \<and> Q (snd e2)" using Cons.IH [OF e2(1)] Cons.prems(2) by (meson list.set_intros(2))
  ultimately show ?case using assms(3,4) e2(2) by simp
qed

end

lemma appendPublic_frame:
  "appendPublicDependencyEndpoint n w ws h a ewc paths cs =
     map_option (\<lambda>e. cs @ e) (appendPublicDependencyEndpoint n w ws h a ewc paths [])"
  by (cases paths) (auto simp: appendPublicDependencyEndpoint_def split: prod.split)

lemma appendPrivate_frame:
  "appendPrivateDependencyEndpoint n ws h a ewc cs = cs @ appendPrivateDependencyEndpoint n ws h a ewc []"
  by (auto simp: appendPrivateDependencyEndpoint_def split: prod.split)

lemma configureApp_frame:
  "configureAppDependencyEndpoints d a ewc eps =
     map_option (add_eps eps) (configureAppDependencyEndpoints d a ewc ([], []))"
  unfolding configureAppDependencyEndpoints_def Let_def
  by (subst appendPublic_frame, subst appendPrivate_frame) (simp add: add_eps_def split: option.split)

lemma configureAppRef_frame:
  "configureAppRefDependencyEndpoints d r ewc eps =
     map_option (add_eps eps) (configureAppRefDependencyEndpoints d r ewc ([], []))"
  unfolding configureAppRefDependencyEndpoints_def Let_def
  by (subst appendPublic_frame, subst appendPrivate_frame) (simp add: add_eps_def split: option.split)

interpretation app_eps: appender "\<lambda>d. configureAppDependencyEndpoints d a ewc" for a ewc
  by unfold_locales (rule configureApp_frame)

interpretation ref_eps: appender "\<lambda>d. configureAppRefDependencyEndpoints d r ewc" for r ewc
  by unfold_locales (rule configureAppRef_frame)

section \<open>What a list of dependencies yields\<close>

text \<open>The endpoints of one dependency, from an empty configuration.\<close>

definition dep_endpoints ::
  "(string \<rightharpoonup> ClowdApp) \<Rightarrow> (string \<rightharpoonup> ClowdAppRef) \<Rightarrow> WebConfig \<Rightarrow> string \<Rightarrow> string \<Rightarrow> EndpointLists option" where
  "dep_endpoints appMap appRefMap ewc consumer dep =
     (case resolve appMap appRefMap consumer dep of
        UseAppRef r \<Rightarrow> fold_opt (\<lambda>d. configureAppRefDependencyEndpoints d r ewc)
                         (ref_Deployments (ref_Spec r)) ([], [])
      | UseApp a \<Rightarrow> fold_opt (\<lambda>d. configureAppDependencyEndpoints d a ewc)
                      (app_Deployments (app_Spec a)) ([], [])
      | Missing \<Rightarrow> Some ([], []))"

lemma resolve_Missing_iff:
  "resolve am rm c dep = Missing \<longleftrightarrow> am dep = None \<and> rm dep = None"
  by (auto simp: resolve_def Let_def split: option.splits)

lemma resolve_UseAppRef_iff:
  "resolve am rm c dep = UseAppRef r \<longleftrightarrow> rm dep = Some r \<and> (am dep = None \<or> c \<in> set (ref_Serves (ref_Spec r)))"
  by (auto simp: resolve_def Let_def isInServesList_def split: option.splits)

lemma resolve_UseApp_iff:
  "resolve am rm c dep = UseApp a \<longleftrightarrow>
     am dep = Some a \<and> (\<forall>r. rm dep = Some r \<longrightarrow> c \<notin> set (ref_Serves (ref_Spec r)))"
  by (auto simp: resolve_def Let_def isInServesList_def split: option.splits)

lemma process_step:
  "processAppAndAppRefEndpoints am rm (dep # deps) ewc c eps =
     (case dep_endpoints am rm ewc c dep of
        None \<Rightarrow> None
      | Some e \<Rightarrow> map_option (\<lambda>(ls, missing).
            (ls, if am dep = None \<and> rm dep = None then dep # missing else missing))
          (processAppAndAppRefEndpoints am rm deps ewc c (add_eps eps e)))"
proof (cases "resolve am rm c dep")
  case (UseApp a)
  then have "(if am dep = None \<and> rm dep = None then dep # m else m) = m" for m
    by (auto simp: resolve_UseApp_iff)
  with UseApp show ?thesis
    by (simp add: dep_endpoints_def app_eps.fold_opt_frame [of a ewc _ eps] option.map_comp comp_def
        case_prod_unfold option.map_ident split: option.split)
next
  case (UseAppRef r)
  then have "(if am dep = None \<and> rm dep = None then dep # m else m) = m" for m
    by (auto simp: resolve_UseAppRef_iff)
  with UseAppRef show ?thesis
    by (simp add: dep_endpoints_def ref_eps.fold_opt_frame [of r ewc _ eps] option.map_comp comp_def
        case_prod_unfold option.map_ident split: option.split)
next
  case Missing
  then have "am dep = None" "rm dep = None" by (simp_all add: resolve_Missing_iff)
  with Missing show ?thesis by (simp add: dep_endpoints_def)
qed

definition missing_of :: "(string \<rightharpoonup> ClowdApp) \<Rightarrow> (string \<rightharpoonup> ClowdAppRef) \<Rightarrow> string list \<Rightarrow> string list" where
  "missing_of am rm deps = filter (\<lambda>d. am d = None \<and> rm d = None) deps"

definition all_endpoints ::
  "(string \<rightharpoonup> ClowdApp) \<Rightarrow> (string \<rightharpoonup> ClowdAppRef) \<Rightarrow> WebConfig \<Rightarrow> string \<Rightarrow> string list \<Rightarrow> EndpointLists" where
  "all_endpoints am rm ewc c deps =
     (concat (map (\<lambda>d. fst (the (dep_endpoints am rm ewc c d))) deps),
      concat (map (\<lambda>d. snd (the (dep_endpoints am rm ewc c d))) deps))"

lemma process_spec:
  "processAppAndAppRefEndpoints am rm deps ewc c eps =
     (if \<exists>d \<in> set deps. dep_endpoints am rm ewc c d = None then None
      else Some (add_eps eps (all_endpoints am rm ewc c deps), missing_of am rm deps))"
proof (induction deps arbitrary: eps)
  case Nil
  then show ?case by (simp add: all_endpoints_def missing_of_def)
next
  case (Cons d deps)
  show ?case
  proof (cases "dep_endpoints am rm ewc c d")
    case None
    then show ?thesis by (subst process_step) simp
  next
    case (Some e)
    then show ?thesis
      by (subst process_step, cases "\<exists>d \<in> set deps. dep_endpoints am rm ewc c d = None")
        (simp_all add: Cons.IH all_endpoints_def missing_of_def add_eps_def bex_simps
          del: split_paired_All split_paired_Ex not_None_eq not_Some_eq)
  qed
qed

section \<open>Well-formed endpoints\<close>

text \<open>
  An endpoint has some port, and names a CA certificate exactly when it has a TLS port.
\<close>

definition endpoint_ok :: "DependencyEndpoint \<Rightarrow> bool" where
  "endpoint_ok ep =
     (case (de_TlsPort ep, de_H2CPort ep, de_H2CTLSPort ep) of
        (Some t, Some h, Some ht) \<Rightarrow>
          (de_Port ep \<noteq> 0 \<or> t \<noteq> 0 \<or> h \<noteq> 0 \<or> ht \<noteq> 0)
          \<and> de_TlsCAPath ep = (if t \<noteq> 0 \<or> ht \<noteq> 0 then GetServiceCACertPath else None)
          \<and> de_ApiPaths ep \<noteq> [] \<and> de_ApiPath ep = hd (de_ApiPaths ep)
      | _ \<Rightarrow> False)"

definition private_endpoint_ok :: "PrivateDependencyEndpoint \<Rightarrow> bool" where
  "private_endpoint_ok ep =
     (case (pde_TlsPort ep, pde_H2CPort ep, pde_H2CTLSPort ep) of
        (Some t, Some h, Some ht) \<Rightarrow>
          (pde_Port ep \<noteq> 0 \<or> t \<noteq> 0 \<or> h \<noteq> 0 \<or> ht \<noteq> 0)
          \<and> pde_TlsCAPath ep = (if t \<noteq> 0 \<or> ht \<noteq> 0 then GetServiceCACertPath else None)
      | _ \<Rightarrow> False)"

lemma public_ports_tls:
  "public_ports w ws ewc = (p, t, h, ht, en) \<Longrightarrow> en \<longleftrightarrow> t \<noteq> 0 \<or> ht \<noteq> 0"
  by (auto simp: public_ports_def Let_def tls_defs split: if_splits)

lemma private_ports_tls:
  "private_ports ws ewc = (p, t, h, ht, en) \<Longrightarrow> en \<longleftrightarrow> t \<noteq> 0 \<or> ht \<noteq> 0"
  by (auto simp: private_ports_def Let_def tls_defs split: if_splits)

lemma appendPublic_ok:
  assumes "appendPublicDependencyEndpoint n w ws h a ewc paths [] = Some eps"
  shows "list_all endpoint_ok eps"
proof -
  obtain p t h2 ht en where ports: "public_ports w ws ewc = (p, t, h2, ht, en)"
    by (metis prod_cases5)
  with assms public_ports_tls [OF ports] show ?thesis
    by (cases paths) (auto simp: appendPublicDependencyEndpoint_def endpoint_ok_def anyNotZero_def
        split: if_splits)
qed

lemma appendPrivate_ok:
  "list_all private_endpoint_ok (appendPrivateDependencyEndpoint n ws h a ewc [])"
proof -
  obtain p t h2 ht en where ports: "private_ports ws ewc = (p, t, h2, ht, en)"
    by (metis prod_cases5)
  with private_ports_tls [OF ports] show ?thesis
    by (auto simp: appendPrivateDependencyEndpoint_def private_endpoint_ok_def anyNotZero_def)
qed

lemma configure_ok:
  "configureAppDependencyEndpoints d a ewc ([], []) = Some e \<Longrightarrow>
     list_all endpoint_ok (fst e) \<and> list_all private_endpoint_ok (snd e)"
  "configureAppRefDependencyEndpoints d' r ewc ([], []) = Some e \<Longrightarrow>
     list_all endpoint_ok (fst e) \<and> list_all private_endpoint_ok (snd e)"
  by (auto simp: configureAppDependencyEndpoints_def configureAppRefDependencyEndpoints_def Let_def
      appendPrivate_ok dest: appendPublic_ok split: option.splits)

lemma dep_endpoints_ok:
  assumes "dep_endpoints am rm ewc c dep = Some e"
  shows "list_all endpoint_ok (fst e) \<and> list_all private_endpoint_ok (snd e)"
proof (cases "resolve am rm c dep")
  case (UseApp a)
  with assms have "fold_opt (\<lambda>d. configureAppDependencyEndpoints d a ewc) (app_Deployments (app_Spec a)) ([], []) = Some e"
    by (simp add: dep_endpoints_def)
  then show ?thesis
    by (rule app_eps.fold_opt_all) (auto dest: configure_ok)
next
  case (UseAppRef r)
  with assms have "fold_opt (\<lambda>d. configureAppRefDependencyEndpoints d r ewc) (ref_Deployments (ref_Spec r)) ([], []) = Some e"
    by (simp add: dep_endpoints_def)
  then show ?thesis
    by (rule ref_eps.fold_opt_all) (auto dest: configure_ok)
next
  case Missing
  with assms show ?thesis by (auto simp: dep_endpoints_def)
qed

lemma all_endpoints_ok:
  assumes "\<forall>d \<in> set deps. dep_endpoints am rm ewc c d \<noteq> None"
  shows "list_all endpoint_ok (fst (all_endpoints am rm ewc c deps))
    \<and> list_all private_endpoint_ok (snd (all_endpoints am rm ewc c deps))"
proof -
  have "list_all endpoint_ok (fst (the (dep_endpoints am rm ewc c d)))
      \<and> list_all private_endpoint_ok (snd (the (dep_endpoints am rm ewc c d)))" if "d \<in> set deps" for d
    using assms that dep_endpoints_ok by fastforce
  then show ?thesis by (auto simp: all_endpoints_def list_all_iff)
qed

section \<open>Panics\<close>

text \<open>A deployment whose list of API paths is present but empty is the only cause of a panic.\<close>

definition paths_ok :: "WebServices \<Rightarrow> bool" where
  "paths_ok ws = (pub_APIPaths (ws_Public ws) \<noteq> Some [])"

definition app_paths_ok :: "ClowdApp \<Rightarrow> bool" where
  "app_paths_ok a = list_all (\<lambda>d. paths_ok (dep_WebServices d)) (app_Deployments (app_Spec a))"

definition ref_paths_ok :: "ClowdAppRef \<Rightarrow> bool" where
  "ref_paths_ok r = list_all (\<lambda>d. paths_ok (rdep_WebServices d)) (ref_Deployments (ref_Spec r))"

lemma appendPublic_total:
  "paths \<noteq> [] \<Longrightarrow> appendPublicDependencyEndpoint n w ws h a ewc paths cs \<noteq> None"
  by (cases paths) (auto simp: appendPublicDependencyEndpoint_def split: prod.split)

lemma configure_total:
  "paths_ok (dep_WebServices d) \<Longrightarrow> configureAppDependencyEndpoints d a ewc eps \<noteq> None"
  "paths_ok (rdep_WebServices d') \<Longrightarrow> configureAppRefDependencyEndpoints d' r ewc eps \<noteq> None"
  by (simp_all add: configureAppDependencyEndpoints_def configureAppRefDependencyEndpoints_def Let_def
      paths_ok_def GetAPIPaths_Nil_iff appendPublic_total option.case_eq_if)

lemma dep_endpoints_total:
  assumes "\<And>a. am d = Some a \<Longrightarrow> app_paths_ok a" "\<And>r. rm d = Some r \<Longrightarrow> ref_paths_ok r"
  shows "dep_endpoints am rm ewc c d \<noteq> None"
proof (cases "resolve am rm c d")
  case (UseApp a)
  then have "app_paths_ok a" using assms(1) by (simp add: resolve_UseApp_iff)
  with UseApp show ?thesis
    using app_eps.fold_opt_total [of "app_Deployments (app_Spec a)" a ewc]
    by (simp add: dep_endpoints_def app_paths_ok_def list_all_iff configure_total)
next
  case (UseAppRef r)
  then have "ref_paths_ok r" using assms(2) by (simp add: resolve_UseAppRef_iff)
  with UseAppRef show ?thesis
    using ref_eps.fold_opt_total [of "ref_Deployments (ref_Spec r)" r ewc]
    by (simp add: dep_endpoints_def ref_paths_ok_def list_all_iff configure_total)
next
  case Missing
  then show ?thesis by (simp add: dep_endpoints_def)
qed

section \<open>The provider's result\<close>

lemma makeDepConfig_spec:
  fixes apps refs
  defines "am \<equiv> map_by (\<lambda>a. app_Name a) apps" and "rm \<equiv> map_by (\<lambda>r. ref_Name r) refs"
  defines "deps app \<equiv> app_Dependencies (app_Spec app) @ app_OptionalDependencies (app_Spec app)"
  shows "makeDepConfig ewc app apps refs eps =
     (if \<exists>d \<in> set (deps app). dep_endpoints am rm ewc (app_Name app) d = None then None
      else Some (add_eps eps (all_endpoints am rm ewc (app_Name app) (deps app)),
                 missing_of am rm (app_Dependencies (app_Spec app))))"
proof (cases "\<exists>d \<in> set (app_Dependencies (app_Spec app)). dep_endpoints am rm ewc (app_Name app) d = None")
  case True
  then show ?thesis
    by (simp add: makeDepConfig_def Let_def process_spec bex_Un flip: am_def rm_def add: deps_def)
next
  case False
  then show ?thesis
    by (cases "\<exists>d \<in> set (app_OptionalDependencies (app_Spec app)). dep_endpoints am rm ewc (app_Name app) d = None")
      (simp_all add: makeDepConfig_def Let_def process_spec bex_Un deps_def all_endpoints_def add_eps_def
        flip: am_def rm_def)
qed

lemma missing_of_map_by:
  "missing_of (map_by f xs) (map_by g ys) deps = filter (\<lambda>d. d \<notin> f ` set xs \<and> d \<notin> g ` set ys) deps"
  by (simp add: missing_of_def)

definition with_private_port :: "ClowdEnvironment \<Rightarrow> ClowdEnvironment" where
  "with_private_port env = (if web_PrivatePort (env_Web env) = 0 then set_PrivatePort 10000 env else env)"

lemma with_private_port_Name [simp]: "env_Name (with_private_port env) = env_Name env"
  by (simp add: with_private_port_def set_PrivatePort_def)

lemma with_private_port_nonzero: "web_PrivatePort (env_Web (with_private_port env)) \<noteq> 0"
  by (simp add: with_private_port_def set_PrivatePort_def)

text \<open>The endpoints an app declares for itself, and those of everything it depends on.\<close>

definition self_endpoints :: "ClowdEnvironment \<Rightarrow> ClowdApp \<Rightarrow> EndpointLists" where
  "self_endpoints env app =
     all_endpoints [app_Name app \<mapsto> app] Map.empty (env_Web env) (app_Name app) [app_Name app]"

definition dependency_endpoints ::
  "ClowdEnvironment \<Rightarrow> ClowdApp list \<Rightarrow> ClowdAppRef list \<Rightarrow> ClowdApp \<Rightarrow> EndpointLists" where
  "dependency_endpoints env apps refs app =
     all_endpoints (map_by (\<lambda>a. app_Name a) apps) (map_by (\<lambda>r. ref_Name r) refs) (env_Web env) (app_Name app)
       (app_Dependencies (app_Spec app) @ app_OptionalDependencies (app_Spec app))"

definition missing_names :: "ClowdApp list \<Rightarrow> ClowdAppRef list \<Rightarrow> ClowdApp \<Rightarrow> string list" where
  "missing_names apps refs app = filter (\<lambda>d. d \<notin> (\<lambda>a. app_Name a) ` set apps \<and> d \<notin> (\<lambda>r. ref_Name r) ` set refs)
     (app_Dependencies (app_Spec app))"

lemma makeDependencies_eq:
  assumes "listApps (env_Name env) = Inr apps" "listAppRefs (env_Name env) = Inr refs"
    and "app_Dependencies (app_Spec app) \<noteq> [] \<or> app_OptionalDependencies (app_Spec app) \<noteq> []"
  defines "e \<equiv> with_private_port env" and "ms \<equiv> missing_names apps refs app"
  defines "eps \<equiv> add_eps (self_endpoints e app) (dependency_endpoints e apps refs app)"
  shows "makeDependencies listApps listAppRefs stack env cfg app =
    (if dep_endpoints [app_Name app \<mapsto> app] Map.empty (env_Web e) (app_Name app) (app_Name app) = None
        \<or> (\<exists>d \<in> set (app_Dependencies (app_Spec app) @ app_OptionalDependencies (app_Spec app)).
              dep_endpoints (map_by (\<lambda>a. app_Name a) apps) (map_by (\<lambda>r. ref_Name r) refs) (env_Web e)
                (app_Name app) d = None)
     then None
     else if ms \<noteq> [] then Some (e, cfg, Some (MissingDependencies
            (map (\<lambda>d. \<lparr>md_Source = ''service'', md_Details = d\<rparr>) ms)))
     else Some (e, makeV2PrivateDependencyEndpoints (makeV2DependencyEndpoints
             (cfg\<lparr>cfg_Endpoints := fst eps, cfg_PrivateEndpoints := snd eps\<rparr>)), None))"
    (is "_ = (if ?self \<or> ?deps then _ else _)")
proof -
  have env: "(if web_PrivatePort (env_Web env) = 0 then set_PrivatePort 10000 env else env) = e"
    by (simp add: with_private_port_def e_def)
  have lists: "GetAppsInEnv listApps stack e = Inr apps" "getAppRefsInEnv listAppRefs e = Inr refs"
    using assms(1,2) by (simp_all add: GetAppsInEnv_def getAppRefsInEnv_def e_def)
  have nodeps: "(app_Dependencies (app_Spec app) = [] \<and> app_OptionalDependencies (app_Spec app) = []) = False"
    using assms(3) by simp
  note def = makeDependencies_def [of listApps listAppRefs stack env cfg app, unfolded env Let_def nodeps lists if_False]
  show ?thesis
  proof (cases ?self)
    case True
    then show ?thesis by (simp add: def process_spec)
  next
    case False
    then have "processAppAndAppRefEndpoints [app_Name app \<mapsto> app] Map.empty [app_Name app] (env_Web e)
        (app_Name app) ([], []) = Some (self_endpoints e app, [])"
      by (simp add: process_spec self_endpoints_def missing_of_def)
    with False show ?thesis
      by (cases ?deps) (simp_all add: def lists makeDepConfig_spec missing_of_map_by eps_def
          dependency_endpoints_def ms_def missing_names_def)
  qed
qed

lemma provider_endpoints_ok:
  assumes "dep_endpoints [app_Name app \<mapsto> app] Map.empty (env_Web e) (app_Name app) (app_Name app) \<noteq> None"
    and "\<forall>d \<in> set (app_Dependencies (app_Spec app) @ app_OptionalDependencies (app_Spec app)).
              dep_endpoints (map_by (\<lambda>a. app_Name a) apps) (map_by (\<lambda>r. ref_Name r) refs) (env_Web e)
                (app_Name app) d \<noteq> None"
  shows "list_all endpoint_ok (fst (self_endpoints e app) @ fst (dependency_endpoints e apps refs app))
    \<and> list_all private_endpoint_ok (snd (self_endpoints e app) @ snd (dependency_endpoints e apps refs app))"
  using all_endpoints_ok [OF assms(2)] all_endpoints_ok [of "[app_Name app]"] assms(1)
  by (simp add: self_endpoints_def dependency_endpoints_def)

lemma makeV2_frame [simp]:
  "cfg_Endpoints (makeV2DependencyEndpoints c) = cfg_Endpoints c"
  "cfg_PrivateEndpoints (makeV2DependencyEndpoints c) = cfg_PrivateEndpoints c"
  "cfg_Endpoints (makeV2PrivateDependencyEndpoints c) = cfg_Endpoints c"
  "cfg_PrivateEndpoints (makeV2PrivateDependencyEndpoints c) = cfg_PrivateEndpoints c"
  "cfg_DependencyEndpoints (makeV2PrivateDependencyEndpoints c) = cfg_DependencyEndpoints c"
  by (simp_all add: makeV2DependencyEndpoints_def makeV2PrivateDependencyEndpoints_def split: option.split)

text \<open>
  C1. For an app with dependencies whose environment can be listed, the provider either panics, or
  fails with an error that lists, in order, exactly the required dependencies that neither an app
  nor an app reference of the environment has as its name, leaving the configuration alone, or
  succeeds; optional dependencies are never reported.
\<close>

theorem dependencies_missing_exact:
  assumes "listApps (env_Name env) = Inr apps" "listAppRefs (env_Name env) = Inr refs"
    and "app_Dependencies (app_Spec app) \<noteq> [] \<or> app_OptionalDependencies (app_Spec app) \<noteq> []"
    and "makeDependencies listApps listAppRefs stack env cfg app = Some (env', cfg', err)"
  shows "err = (if missing_names apps refs app = [] then None else Some (MissingDependencies
           (map (\<lambda>d. \<lparr>md_Source = ''service'', md_Details = d\<rparr>) (missing_names apps refs app))))
     \<and> (err \<noteq> None \<longrightarrow> cfg' = cfg)
     \<and> web_PrivatePort (env_Web env') \<noteq> 0"
  using assms(4) makeDependencies_eq [where listApps = listApps and listAppRefs = listAppRefs and env = env and stack = stack and cfg = cfg, OF assms(1-3)] with_private_port_nonzero [of env]
  by (auto split: if_splits)

text \<open>
  C2. When the provider succeeds, the public and private endpoints it writes are those of the app
  itself followed by those of every dependency, required ones first, each served by the app
  reference of that name when it is the only one or lists the consumer, and by the app otherwise;
  every endpoint has a port, and a CA certificate path exactly when it has a TLS port.
\<close>

theorem dependencies_endpoints_written:
  assumes "listApps (env_Name env) = Inr apps" "listAppRefs (env_Name env) = Inr refs"
    and "app_Dependencies (app_Spec app) \<noteq> [] \<or> app_OptionalDependencies (app_Spec app) \<noteq> []"
    and "makeDependencies listApps listAppRefs stack env cfg app = Some (env', cfg', None)"
  shows "cfg_Endpoints cfg' = fst (self_endpoints env' app) @ fst (dependency_endpoints env' apps refs app)
     \<and> cfg_PrivateEndpoints cfg' = snd (self_endpoints env' app) @ snd (dependency_endpoints env' apps refs app)
     \<and> list_all endpoint_ok (cfg_Endpoints cfg') \<and> list_all private_endpoint_ok (cfg_PrivateEndpoints cfg')
     \<and> (\<forall>c d r. resolve (map_by (\<lambda>a. app_Name a) apps) (map_by (\<lambda>r. ref_Name r) refs) c d = UseAppRef r \<longleftrightarrow>
           map_by (\<lambda>r. ref_Name r) refs d = Some r
           \<and> (d \<notin> (\<lambda>a. app_Name a) ` set apps \<or> c \<in> set (ref_Serves (ref_Spec r))))"
proof -
  note eq = makeDependencies_eq [where listApps = listApps and listAppRefs = listAppRefs and env = env and stack = stack and cfg = cfg, OF assms(1-3), unfolded assms(4)]
  have nn: "dep_endpoints [app_Name app \<mapsto> app] Map.empty (env_Web (with_private_port env)) (app_Name app) (app_Name app) \<noteq> None"
      "\<forall>d \<in> set (app_Dependencies (app_Spec app) @ app_OptionalDependencies (app_Spec app)).
              dep_endpoints (map_by (\<lambda>a. app_Name a) apps) (map_by (\<lambda>r. ref_Name r) refs)
                (env_Web (with_private_port env)) (app_Name app) d \<noteq> None"
    and ms: "missing_names apps refs app = []"
    using eq by (auto split: if_splits)
  from eq nn ms have "env' = with_private_port env"
    and "cfg_Endpoints cfg' = fst (self_endpoints env' app) @ fst (dependency_endpoints env' apps refs app)"
    and "cfg_PrivateEndpoints cfg' = snd (self_endpoints env' app) @ snd (dependency_endpoints env' apps refs app)"
    by (simp_all split: if_splits)
  with provider_endpoints_ok [OF nn] show ?thesis
    by (simp add: resolve_UseAppRef_iff)
qed

text \<open>
  C4. If no deployment of the app, of the apps or of the app references in its environment has a
  list of API paths that is present but empty, the provider does not panic, whatever the rest of
  the specifications.
\<close>

theorem dependencies_no_panic:
  assumes "app_paths_ok app"
    and "\<And>apps. listApps (env_Name env) = Inr apps \<Longrightarrow> list_all app_paths_ok apps"
    and "\<And>refs. listAppRefs (env_Name env) = Inr refs \<Longrightarrow> list_all ref_paths_ok refs"
  shows "makeDependencies listApps listAppRefs stack env cfg app \<noteq> None"
proof -
  have self: "dep_endpoints [app_Name app \<mapsto> app] Map.empty ewc (app_Name app) (app_Name app) \<noteq> None" for ewc
    using dep_endpoints_total [of "[app_Name app \<mapsto> app]" "app_Name app" Map.empty] assms(1) by simp
  show ?thesis
  proof (cases "(\<exists>apps refs. listApps (env_Name env) = Inr apps \<and> listAppRefs (env_Name env) = Inr refs)
        \<and> (app_Dependencies (app_Spec app) \<noteq> [] \<or> app_OptionalDependencies (app_Spec app) \<noteq> [])")
    case True
    then obtain apps refs where l: "listApps (env_Name env) = Inr apps" "listAppRefs (env_Name env) = Inr refs"
        "app_Dependencies (app_Spec app) \<noteq> [] \<or> app_OptionalDependencies (app_Spec app) \<noteq> []"
      by blast
    have "dep_endpoints (map_by (\<lambda>a. app_Name a) apps) (map_by (\<lambda>r. ref_Name r) refs) ewc c d \<noteq> None" for ewc c d
      using assms(2) [OF l(1)] assms(3) [OF l(2)]
      by (intro dep_endpoints_total) (auto dest!: map_by_SomeD simp: list_all_iff)
    with self show ?thesis by (simp add: makeDependencies_eq [where listApps = listApps and listAppRefs = listAppRefs and env = env, OF l])
  next
    case False
    then show ?thesis
      using self
      by (cases "listApps (env_Name env)"; cases "listAppRefs (env_Name env)")
        (auto simp: makeDependencies_def Let_def process_spec GetAppsInEnv_def getAppRefsInEnv_def set_PrivatePort_def)
  qed
qed

section \<open>The V2 maps\<close>

lemma foldl_upd_pairs:
  "foldl (\<lambda>s (k, v). s(k \<mapsto> v)) m xs = m ++ map_of (rev xs)"
  by (induction xs arbitrary: m) auto

lemma map_of_single_valued:
  assumes "\<And>k v v'. (k, v) \<in> set xs \<Longrightarrow> (k, v') \<in> set xs \<Longrightarrow> v = v'"
  shows "map_of xs k = Some v \<longleftrightarrow> (k, v) \<in> set xs"
proof
  show "map_of xs k = Some v \<Longrightarrow> (k, v) \<in> set xs" by (rule map_of_SomeD)
  assume kv: "(k, v) \<in> set xs"
  then obtain v' where "map_of xs k = Some v'" by (metis weak_map_of_SomeI)
  with kv assms show "map_of xs k = Some v" by (metis map_of_SomeD)
qed

definition v2_services :: "DependencyEndpoint list \<Rightarrow> string \<Rightarrow> string \<rightharpoonup> DependencyEndpointV2" where
  "v2_services eps a = map_of (rev (concat (map v2_entries (filter (\<lambda>e. de_App e = a) eps))))"

lemma foldl_v2_step:
  "foldl v2_step Map.empty eps a = (if a \<in> de_App ` set eps then Some (v2_services eps a) else None)"
proof (induction eps rule: rev_induct)
  case Nil
  then show ?case by simp
next
  case (snoc e eps)
  have "filter (\<lambda>x. de_App x = de_App e) eps = []" if "de_App e \<notin> de_App ` set eps"
    using that by (metis (mono_tags, lifting) filter_False image_eqI)
  with snoc show ?case
    by (cases "de_App e \<in> de_App ` set eps")
      (auto simp: v2_step_def Let_def foldl_upd_pairs v2_services_def)
qed

definition v2_suffixes :: "string list" where
  "v2_suffixes = ['''', ''_tls'', ''_h2c'', ''_h2c_tls'']"

lemma v2_entries_keys: "(k, v) \<in> set (v2_entries e) \<Longrightarrow> \<exists>suf \<in> set v2_suffixes. k = de_Name e @ suf"
  by (auto simp: v2_entries_def v2_suffixes_def split: if_splits option.splits)

lemma v2_entries_distinct: "distinct (map fst (v2_entries e))"
  by (simp add: v2_entries_def split: option.split)

lemma v2_entries_single: "(k, v) \<in> set (v2_entries e) \<Longrightarrow> (k, v') \<in> set (v2_entries e) \<Longrightarrow> v = v'"
  using v2_entries_distinct by (rule eq_key_imp_eq_value)

lemma v2_key_name:
  assumes "CHR ''_'' \<notin> set n" "suf \<in> set v2_suffixes"
  shows "takeWhile (\<lambda>c. c \<noteq> CHR ''_'') (n @ suf) = n"
proof -
  have "takeWhile (\<lambda>c. c \<noteq> CHR ''_'') suf = []" using assms(2) by (auto simp: v2_suffixes_def)
  with assms(1) show ?thesis by (subst takeWhile_append2) auto
qed

lemma v2_services_iff:
  assumes "distinct (map (\<lambda>e. (de_App e, de_Name e)) eps)" "\<forall>e \<in> set eps. CHR ''_'' \<notin> set (de_Name e)"
  shows "v2_services eps a k = Some v \<longleftrightarrow> (\<exists>e \<in> set eps. de_App e = a \<and> (k, v) \<in> set (v2_entries e))"
proof -
  have "v = v'" if e: "e \<in> set eps" "de_App e = a" "(k, v) \<in> set (v2_entries e)"
    and e': "e' \<in> set eps" "de_App e' = a" "(k, v') \<in> set (v2_entries e')" for e e' k v v'
  proof -
    have "de_Name e = de_Name e'"
      using v2_entries_keys [OF e(3)] v2_entries_keys [OF e'(3)] assms(2) e(1) e'(1) v2_key_name by metis
    with assms(1) e(1,2) e'(1,2) have "e = e'" by (auto simp: distinct_map inj_on_def)
    with e(3) e'(3) show ?thesis by (auto dest: v2_entries_single)
  qed
  then show ?thesis
    by (subst v2_services_def, subst map_of_single_valued) auto
qed

text \<open>The entry under a key of an endpoint comes from that endpoint alone.\<close>

lemma v2_services_of:
  assumes "distinct (map (\<lambda>e. (de_App e, de_Name e)) eps)" "\<forall>e \<in> set eps. CHR ''_'' \<notin> set (de_Name e)"
    and e: "e \<in> set eps" and suf: "suf \<in> set v2_suffixes"
  shows "v2_services eps (de_App e) (de_Name e @ suf) = map_of (v2_entries e) (de_Name e @ suf)"
proof -
  have "e' = e" if e': "e' \<in> set eps" "de_App e' = de_App e" "(de_Name e @ suf, v) \<in> set (v2_entries e')" for e' v
  proof -
    obtain suf' where "suf' \<in> set v2_suffixes" "de_Name e @ suf = de_Name e' @ suf'" using v2_entries_keys [OF e'(3)] by blast
    then have "de_Name e' = de_Name e" using assms(2) e e'(1) suf v2_key_name by metis
    with assms(1) e e'(1,2) show ?thesis by (auto simp: distinct_map inj_on_def)
  qed
  then have "v2_services eps (de_App e) (de_Name e @ suf) = Some v \<longleftrightarrow> (de_Name e @ suf, v) \<in> set (v2_entries e)" for v
    unfolding v2_services_iff [OF assms(1,2)] using e by blast
  also have "\<dots> v \<longleftrightarrow> map_of (v2_entries e) (de_Name e @ suf) = Some v" for v
    by (simp add: map_of_eq_Some_iff [OF v2_entries_distinct])
  finally show ?thesis by (metis not_Some_eq)
qed

text \<open>The characters of the names of hosts in a cluster: such a host needs no brackets and no escapes in a URI.\<close>

definition dns_name :: "string \<Rightarrow> bool" where
  "dns_name h = (set h \<subseteq> set ''abcdefghijklmnopqrstuvwxyz0123456789-.'')"

lemma is_digit_host: "is_digit c \<Longrightarrow> host_char_ok c"
  by (simp add: is_digit_def host_char_ok_def Let_def)

lemma dns_name_host: "dns_name h \<Longrightarrow> list_all host_char_ok h \<and> CHR '':'' \<notin> set h"
proof -
  have "list_all host_char_ok ''abcdefghijklmnopqrstuvwxyz0123456789-.''" by (simp add: host_char_ok_def Let_def)
  then show "dns_name h \<Longrightarrow> ?thesis" by (auto simp: dns_name_def list_all_iff)
qed

lemma endpoint_uri: "dns_name h \<Longrightarrow> p > 0 \<Longrightarrow> constructEndpointURI scheme h p = scheme @ ''://'' @ h @ '':'' @ itoa p"
  using dns_name_host [of h] digits_all_digits [of "nat p"]
  by (subst constructEndpointURI_def, subst escape_host_id)
    (auto simp: JoinHostPort_def itoa_def list_all_iff is_digit_host host_char_ok_def [of "CHR '':''"] Let_def)

definition open_port :: "int option \<Rightarrow> int option" where
  "open_port port = (case port of Some p \<Rightarrow> if p > 0 then Some p else None | None \<Rightarrow> None)"

text \<open>
  C3. No two endpoints share app and name, no name contains an underscore (no Kubernetes name does) and the hosts are cluster names. Then the V2 map has the apps of the V1 list,
  and the services of an app are, for each endpoint, the plain one under its name and the TLS, H2C and H2C-TLS ones under its name with a suffix, each there exactly when
  its port is positive, with the scheme, host and port of the endpoint in its URI and with the CA of the endpoint exactly on the TLS ones. There are no other services.
\<close>

theorem v2_map_exact:
  assumes "buildV2EndpointMap eps = Some m"
    and "distinct (map (\<lambda>e. (de_App e, de_Name e)) eps)" "\<forall>e \<in> set eps. CHR ''_'' \<notin> set (de_Name e) \<and> dns_name (de_Hostname e)"
  shows "dom m = de_App ` set eps
    \<and> (\<forall>a services. m a = Some services \<longrightarrow>
         (\<forall>e \<in> set eps. de_App e = a \<longrightarrow>
            services (de_Name e) = map_option (\<lambda>p. \<lparr>v2_CaCertificate = None, v2_Uri = ''http://'' @ de_Hostname e @ '':'' @ itoa p\<rparr>) (open_port (Some (de_Port e)))
          \<and> services (de_Name e @ ''_tls'') = map_option (\<lambda>p. \<lparr>v2_CaCertificate = de_TlsCAPath e, v2_Uri = ''https://'' @ de_Hostname e @ '':'' @ itoa p\<rparr>) (open_port (de_TlsPort e))
          \<and> services (de_Name e @ ''_h2c'') = map_option (\<lambda>p. \<lparr>v2_CaCertificate = None, v2_Uri = ''http://'' @ de_Hostname e @ '':'' @ itoa p\<rparr>) (open_port (de_H2CPort e))
          \<and> services (de_Name e @ ''_h2c_tls'') = map_option (\<lambda>p. \<lparr>v2_CaCertificate = de_TlsCAPath e, v2_Uri = ''https://'' @ de_Hostname e @ '':'' @ itoa p\<rparr>) (open_port (de_H2CTLSPort e)))
         \<and> dom services \<subseteq> {de_Name e @ suf |e suf. e \<in> set eps \<and> de_App e = a \<and> suf \<in> {'''', ''_tls'', ''_h2c'', ''_h2c_tls''}})"
proof -
  have names: "\<forall>e \<in> set eps. CHR ''_'' \<notin> set (de_Name e)" using assms(3) by blast
  have m: "m a = (if a \<in> de_App ` set eps then Some (v2_services eps a) else None)" for a
    using assms(1) foldl_v2_step [of eps a] by (auto simp: buildV2EndpointMap_def split: if_splits)
  have at: "v2_services eps (de_App e) (de_Name e @ suf) = map_of (v2_entries e) (de_Name e @ suf)" if "e \<in> set eps" "suf \<in> {'''', ''_tls'', ''_h2c'', ''_h2c_tls''}" for e suf
    using v2_services_of [OF assms(2) names that(1)] that(2) by (simp add: v2_suffixes_def)
  have suffixes: "set v2_suffixes = {'''', ''_tls'', ''_h2c'', ''_h2c_tls''}" by (simp add: v2_suffixes_def)
  have plain: "v2_services eps (de_App e) (de_Name e) = map_of (v2_entries e) (de_Name e)" if "e \<in> set eps" for e
    using at [OF that, of "''''"] by simp
  have "dom (v2_services eps a) \<subseteq> {de_Name e @ suf |e suf. e \<in> set eps \<and> de_App e = a \<and> suf \<in> {'''', ''_tls'', ''_h2c'', ''_h2c_tls''}}" for a
    unfolding suffixes [symmetric] dom_def v2_services_iff [OF assms(2) names] not_None_eq using v2_entries_keys by blast
  moreover have "v2_services eps a (de_Name e) = map_option (\<lambda>p. \<lparr>v2_CaCertificate = None, v2_Uri = ''http://'' @ de_Hostname e @ '':'' @ itoa p\<rparr>) (open_port (Some (de_Port e)))"
    "v2_services eps a (de_Name e @ ''_tls'') = map_option (\<lambda>p. \<lparr>v2_CaCertificate = de_TlsCAPath e, v2_Uri = ''https://'' @ de_Hostname e @ '':'' @ itoa p\<rparr>) (open_port (de_TlsPort e))"
    "v2_services eps a (de_Name e @ ''_h2c'') = map_option (\<lambda>p. \<lparr>v2_CaCertificate = None, v2_Uri = ''http://'' @ de_Hostname e @ '':'' @ itoa p\<rparr>) (open_port (de_H2CPort e))"
    "v2_services eps a (de_Name e @ ''_h2c_tls'') = map_option (\<lambda>p. \<lparr>v2_CaCertificate = de_TlsCAPath e, v2_Uri = ''https://'' @ de_Hostname e @ '':'' @ itoa p\<rparr>) (open_port (de_H2CTLSPort e))"
    if "e \<in> set eps" "de_App e = a" for e a
    using plain [OF that(1)] at [OF that(1)] assms(3) that by (simp_all add: v2_entries_def open_port_def endpoint_uri split: option.split)
  ultimately show ?thesis using m by (auto simp: dom_def split: if_splits)
qed

section \<open>Sample environment\<close>

definition sample_web :: Deployment where
  "sample_web = Deployment_zero\<lparr>dep_Name := ''api'', dep_WebServices := WebServices_zero\<lparr>
     ws_Public := (ws_Public WebServices_zero)\<lparr>pub_Enabled := True\<rparr>,
     ws_Private := (ws_Private WebServices_zero)\<lparr>priv_Enabled := True\<rparr>\<rparr>\<rparr>"

definition sample_app :: "string \<Rightarrow> string list \<Rightarrow> string list \<Rightarrow> ClowdApp" where
  "sample_app n deps odeps = ClowdApp_zero\<lparr>
     app_ObjectMeta := ObjectMeta_zero\<lparr>om_Name := n, om_Namespace := ''ns''\<rparr>,
     app_Spec := ClowdAppSpec_zero\<lparr>app_Deployments := [sample_web], app_EnvName := ''env'',
       app_Dependencies := deps, app_OptionalDependencies := odeps\<rparr>\<rparr>"

definition sample_env :: ClowdEnvironment where
  "sample_env = ClowdEnvironment_zero\<lparr>
     env_ObjectMeta := ObjectMeta_zero\<lparr>om_Name := ''env''\<rparr>,
     env_Spec := (env_Spec ClowdEnvironment_zero)\<lparr>env_Providers := ProvidersConfig_zero\<lparr>
       pv_Web := WebConfig_zero\<lparr>web_Port := 8000,
         web_TLS := TLS_zero\<lparr>tls_Enabled := True, tls_Port := 8443, tls_PrivatePort := 8444\<rparr>\<rparr>\<rparr>\<rparr>\<rparr>"

lemma sample_simps [simp]:
  "om_Name (app_ObjectMeta (sample_app n deps odeps)) = n"
  "om_Namespace (app_ObjectMeta (sample_app n deps odeps)) = ''ns''"
  "app_Deployments (app_Spec (sample_app n deps odeps)) = [sample_web]"
  "app_Dependencies (app_Spec (sample_app n deps odeps)) = deps"
  "app_OptionalDependencies (app_Spec (sample_app n deps odeps)) = odeps"
  "om_Name (env_ObjectMeta sample_env) = ''env''"
  by (simp_all add: sample_app_def sample_env_def)

lemma sample_paths_ok [simp]: "app_paths_ok (sample_app n deps odeps)"
  by (simp add: app_paths_ok_def paths_ok_def sample_web_def WebServices_zero_def)

lemma sample_endpoints_total:
  "dep_endpoints (map_by (\<lambda>a. app_Name a) [sample_app ''b'' [] []]) (map_by (\<lambda>r. ref_Name r) []) ewc c d \<noteq> None"
  "dep_endpoints [x \<mapsto> sample_app y deps odeps] Map.empty ewc c d \<noteq> None"
  by (rule dep_endpoints_total; auto simp: map_by_def split: if_splits)+

lemma sample_run:
  assumes "deps \<noteq> []"
  shows "\<exists>cfg'. makeDependencies (\<lambda>_. Inr [sample_app ''b'' [] []]) (\<lambda>_. Inr []) '''' sample_env AppConfig_zero
    (sample_app ''a'' deps [''y'']) = Some (with_private_port sample_env, cfg',
      if missing_names [sample_app ''b'' [] []] [] (sample_app ''a'' deps [''y'']) = [] then None
      else Some (MissingDependencies (map (\<lambda>d. \<lparr>md_Source = ''service'', md_Details = d\<rparr>)
        (missing_names [sample_app ''b'' [] []] [] (sample_app ''a'' deps [''y'']))))) "
  using assms sample_endpoints_total
  by (subst makeDependencies_eq [where listApps = "\<lambda>_. Inr [sample_app ''b'' [] []]" and listAppRefs = "\<lambda>_. Inr []"
        and apps = "[sample_app ''b'' [] []]" and refs = "[]"]) simp_all

theorem dependencies_missing_exact_witness:
  "\<exists>env' cfg'. makeDependencies (\<lambda>_. Inr [sample_app ''b'' [] []]) (\<lambda>_. Inr []) '''' sample_env AppConfig_zero
     (sample_app ''a'' [''b'', ''x''] [''y'']) = Some (env', cfg', Some (MissingDependencies
       [\<lparr>md_Source = ''service'', md_Details = ''x''\<rparr>])) \<and> cfg' = AppConfig_zero"
proof -
  obtain cfg' err where r: "makeDependencies (\<lambda>_. Inr [sample_app ''b'' [] []]) (\<lambda>_. Inr []) '''' sample_env
      AppConfig_zero (sample_app ''a'' [''b'', ''x''] [''y'']) = Some (with_private_port sample_env, cfg', err)"
    using sample_run [of "[''b'', ''x'']"] by blast
  from dependencies_missing_exact [where listApps = "\<lambda>_. Inr [sample_app ''b'' [] []]"
      and listAppRefs = "\<lambda>_. Inr []" and apps = "[sample_app ''b'' [] []]" and refs = "[]", OF _ _ _ r]
  show ?thesis using r by (simp add: missing_names_def)
qed

theorem dependencies_endpoints_written_witness:
  "\<exists>env' cfg'. makeDependencies (\<lambda>_. Inr [sample_app ''b'' [] []]) (\<lambda>_. Inr []) '''' sample_env AppConfig_zero
     (sample_app ''a'' [''b''] [''y'']) = Some (env', cfg', None)
     \<and> cfg_Endpoints cfg' = fst (self_endpoints env' (sample_app ''a'' [''b''] [''y'']))
         @ fst (dependency_endpoints env' [sample_app ''b'' [] []] [] (sample_app ''a'' [''b''] [''y'']))
     \<and> list_all endpoint_ok (cfg_Endpoints cfg')"
proof -
  obtain cfg' where r: "makeDependencies (\<lambda>_. Inr [sample_app ''b'' [] []]) (\<lambda>_. Inr []) '''' sample_env
      AppConfig_zero (sample_app ''a'' [''b''] [''y'']) = Some (with_private_port sample_env, cfg', None)"
    using sample_run [of "[''b'']"] by (auto simp: missing_names_def)
  have "app_Dependencies (app_Spec (sample_app ''a'' [''b''] [''y''])) \<noteq> []
      \<or> app_OptionalDependencies (app_Spec (sample_app ''a'' [''b''] [''y''])) \<noteq> []" by simp
  from dependencies_endpoints_written [where listApps = "\<lambda>_. Inr [sample_app ''b'' [] []]"
      and listAppRefs = "\<lambda>_. Inr []" and apps = "[sample_app ''b'' [] []]" and refs = "[]", OF refl refl this r]
  show ?thesis using r by blast
qed

theorem dependencies_no_panic_witness:
  "makeDependencies (\<lambda>_. Inr [sample_app ''b'' [] []]) (\<lambda>_. Inr []) '''' sample_env AppConfig_zero
     (sample_app ''a'' [''b''] []) \<noteq> None"
  by (rule dependencies_no_panic) auto

definition sample_endpoint :: DependencyEndpoint where
  "sample_endpoint = \<lparr>de_ApiPath = ''/api/b/'', de_ApiPaths = [''/api/b/''], de_App = ''b'', de_H2CPort = Some 0,
     de_H2CTLSPort = Some 0, de_Hostname = ''b-api'', de_Name = ''api'', de_Port = 80,
     de_TlsCAPath = None, de_TlsPort = Some 85\<rparr>"

lemma sample_itoa: "itoa 80 = ''80''" "itoa 85 = ''85''"
  by (simp_all add: itoa_def digits.simps char_of_def bit_0)

theorem v2_map_exact_witness:
  "\<exists>m services. buildV2EndpointMap [sample_endpoint] = Some m \<and> m ''b'' = Some services
     \<and> map_option v2_Uri (services ''api'') = Some ''http://b-api:80''
     \<and> map_option v2_Uri (services ''api_tls'') = Some ''https://b-api:85''
     \<and> services ''api_h2c'' = None"
proof -
  obtain m where m: "buildV2EndpointMap [sample_endpoint] = Some m" by (simp add: buildV2EndpointMap_def)
  have hyps: "distinct (map (\<lambda>e. (de_App e, de_Name e)) [sample_endpoint])"
    "\<forall>e \<in> set [sample_endpoint]. CHR ''_'' \<notin> set (de_Name e) \<and> dns_name (de_Hostname e)"
    by (simp_all add: sample_endpoint_def dns_name_def)
  note exact = v2_map_exact [OF m hyps]
  have "''b'' \<in> dom m" using conjunct1 [OF exact] by (simp add: sample_endpoint_def)
  then obtain services where s: "m ''b'' = Some services" using domD by metis
  show ?thesis
    using conjunct2 [OF exact, THEN spec, THEN spec, THEN mp, OF s] m s by (simp add: sample_endpoint_def open_port_def sample_itoa)
qed

end
