(* ===== verification/Hash_Cache.thy ===== *)
theory Hash_Cache
  imports Crd_Env Clowder_Config
begin

text \<open>
  The hash cache, \<open>hashcache/hashcache.go\<close>: for every config map and secret it has seen, the hash
  of the data, whether changes always matter, and the apps and environments that use it. The map is
  an association list with distinct keys, in insertion order; ranging over it goes through an
  arbitrary rearrangement of the keys, and \<open>sort.Slice\<close> is any sorting function for the
  comparator given to it. \<open>sha\<close> is the hexadecimal SHA-256 digest, \<open>marshal\<close> the JSON encoding.
  The lock makes every operation atomic, which the model takes for granted.

  The facts: every operation keeps the keys distinct; change detection; associations; and when the
  combined hash is a function of the associated entries alone.
\<close>

record Ident =
  id_NN :: NamespacedName
  id_Type :: string

record HashObject =
  ho_Hash :: string
  ho_ClowdApps :: "NamespacedName set"
  ho_ClowdEnvs :: "NamespacedName set"
  ho_Always :: bool

type_synonym HashCache = "(Ident \<times> HashObject) list"

definition NewHashCache :: HashCache where
  "NewHashCache = []"

definition NewHashObject :: "string \<Rightarrow> bool \<Rightarrow> HashObject" where
  "NewHashObject hash always = \<lparr>ho_Hash = hash, ho_ClowdApps = {}, ho_ClowdEnvs = {}, ho_Always = always\<rparr>"

definition oType :: "KObject \<Rightarrow> string" where
  "oType obj = (case ko_Kind obj of KConfigMap \<Rightarrow> ''ConfigMap'' | KSecret \<Rightarrow> ''Secret'' | KOther \<Rightarrow> '''')"

definition ident_of :: "KObject \<Rightarrow> Ident" where
  "ident_of obj = \<lparr>id_NN = NN (ko_Name obj) (ko_Namespace obj), id_Type = oType obj\<rparr>"

text \<open>Name and namespace of the metadata (an environment has no namespace).\<close>

fun co_NN :: "ClowdObject \<Rightarrow> NamespacedName" where
  "co_NN (AppObject a) = NN (app_Name a) (app_Namespace a)"
| "co_NN (EnvObject e) = NN (env_Name e) (om_Namespace (env_ObjectMeta e))"

definition item_not_found :: "Ident \<Rightarrow> goerr" where
  "item_not_found i = ItemNotFoundError (nn_Name (id_NN i) @ ''/'' @ nn_Namespace (id_NN i))"

definition Read :: "KObject \<Rightarrow> HashCache \<Rightarrow> goerr + HashObject" where
  "Read obj hc = (case map_of hc (ident_of obj) of
     None \<Rightarrow> Inl (item_not_found (ident_of obj)) | Some v \<Rightarrow> Inr v)"

fun dissociate :: "ClowdObject \<Rightarrow> HashObject \<Rightarrow> HashObject" where
  "dissociate (EnvObject e) v = v\<lparr>ho_ClowdEnvs := ho_ClowdEnvs v - {co_NN (EnvObject e)}\<rparr>"
| "dissociate (AppObject a) v = v\<lparr>ho_ClowdApps := ho_ClowdApps v - {co_NN (AppObject a)}\<rparr>"

definition RemoveClowdObjectFromObjects :: "ClowdObject \<Rightarrow> HashCache \<Rightarrow> HashCache" where
  "RemoveClowdObjectFromObjects obj hc = map (\<lambda>(k, v). (k, dissociate obj v)) hc"

text \<open>Writing through the map: an existing key keeps its place, a new one goes to the end.\<close>

fun put :: "'k \<Rightarrow> 'v \<Rightarrow> ('k \<times> 'v) list \<Rightarrow> ('k \<times> 'v) list" where
  "put k v [] = [(k, v)]"
| "put k v ((k', v') # m) = (if k' = k then (k, v) # m else (k', v') # put k v m)"

definition CreateOrUpdateObject ::
  "(string \<Rightarrow> string) \<Rightarrow> (smap \<Rightarrow> goerr + string) \<Rightarrow> string \<Rightarrow> KObject \<Rightarrow> bool \<Rightarrow> HashCache
    \<Rightarrow> HashCache \<times> (goerr + bool)" where
  "CreateOrUpdateObject sha marshal stack obj alwaysUpdate hc =
     (case (if ko_Kind obj = KOther then Inr ''''
            else (case marshal (ko_Data obj) of
                    Inl err \<Rightarrow> Inl (Wrap stack ''failed to marshal configmap JSON'' err)
                  | Inr json \<Rightarrow> Inr (sha json))) of
        Inl err \<Rightarrow> (hc, Inl err)
      | Inr hash \<Rightarrow>
          (case map_of hc (ident_of obj) of
             None \<Rightarrow> (put (ident_of obj) (NewHashObject hash alwaysUpdate) hc, Inr True)
           | Some hashObject \<Rightarrow>
               (put (ident_of obj) (hashObject\<lparr>ho_Hash := hash\<rparr>) hc, Inr (ho_Hash hashObject \<noteq> hash))))"

fun associated :: "ClowdObject \<Rightarrow> HashObject \<Rightarrow> bool" where
  "associated (EnvObject e) v = (co_NN (EnvObject e) \<in> ho_ClowdEnvs v)"
| "associated (AppObject a) v = (co_NN (AppObject a) \<in> ho_ClowdApps v)"

text \<open>The comparator reads the type of its first argument on both sides.\<close>

definition ident_less :: "Ident \<Rightarrow> Ident \<Rightarrow> bool" where
  "ident_less a b =
     (nn_Name (id_NN a) @ ''/'' @ nn_Namespace (id_NN a) @ ''/'' @ id_Type a
      < nn_Name (id_NN b) @ ''/'' @ nn_Namespace (id_NN b) @ ''/'' @ id_Type a)"

definition assoc_keys :: "ClowdObject \<Rightarrow> HashCache \<Rightarrow> Ident list \<Rightarrow> Ident list" where
  "assoc_keys obj hc ks = filter (\<lambda>k. case map_of hc k of Some v \<Rightarrow> associated obj v | None \<Rightarrow> False) ks"

definition superstring ::
  "(Ident list \<Rightarrow> Ident list) \<Rightarrow> (Ident list \<Rightarrow> Ident list) \<Rightarrow> ClowdObject \<Rightarrow> HashCache \<Rightarrow> string" where
  "superstring srt iter clowdObj hc =
     concat (map (\<lambda>k. case map_of hc k of Some v \<Rightarrow> ho_Hash v | None \<Rightarrow> '''')
       (srt (assoc_keys clowdObj hc (iter (map fst hc)))))"

definition GetSuperHashForClowdObject ::
  "(string \<Rightarrow> string) \<Rightarrow> (Ident list \<Rightarrow> Ident list) \<Rightarrow> (Ident list \<Rightarrow> Ident list) \<Rightarrow> ClowdObject \<Rightarrow> HashCache
    \<Rightarrow> string" where
  "GetSuperHashForClowdObject sha srt iter clowdObj hc = sha (superstring srt iter clowdObj hc)"

fun associate :: "ClowdObject \<Rightarrow> HashObject \<Rightarrow> HashObject" where
  "associate (AppObject a) v = v\<lparr>ho_ClowdApps := insert (co_NN (AppObject a)) (ho_ClowdApps v)\<rparr>"
| "associate (EnvObject e) v = v\<lparr>ho_ClowdEnvs := insert (co_NN (EnvObject e)) (ho_ClowdEnvs v)\<rparr>"

definition restart_wanted :: "ClowderConfig \<Rightarrow> KObject \<Rightarrow> bool" where
  "restart_wanted lc obj =
     (mget (om_Annotations (ko_ObjectMeta obj)) (set_RestarterAnnotationName (cc_Settings lc)) = ''true'')"

definition AddClowdObjectToObject ::
  "ClowderConfig \<Rightarrow> ClowdObject \<Rightarrow> KObject \<Rightarrow> HashCache \<Rightarrow> HashCache \<times> goerr option" where
  "AddClowdObjectToObject lc clowdObj obj hc =
     (case map_of hc (ident_of obj) of
        None \<Rightarrow> (hc, Some (item_not_found (ident_of obj)))
      | Some hashObject \<Rightarrow>
          (if \<not> restart_wanted lc obj \<and> \<not> ho_Always hashObject then (hc, None)
           else (put (ident_of obj) (associate clowdObj hashObject) hc, None)))"

definition Delete :: "KObject \<Rightarrow> HashCache \<Rightarrow> HashCache" where
  "Delete obj hc = filter (\<lambda>(k, v). k \<noteq> ident_of obj) hc"

section \<open>The cache as a map\<close>

lemma map_of_put [simp]: "map_of (put k v m) = (map_of m)(k \<mapsto> v)"
  by (induction m rule: put.induct) (auto simp: fun_eq_iff)

lemma keys_put: "fst ` set (put k v m) = insert k (fst ` set m)"
  by (induction m rule: put.induct) auto

lemma map_fst_put: "map fst (put k v m) = (if k \<in> fst ` set m then map fst m else map fst m @ [k])"
  by (induction m rule: put.induct) auto

lemma distinct_put: "distinct (map fst m) \<Longrightarrow> distinct (map fst (put k v m))"
  by (auto simp: map_fst_put)

lemma map_of_map_snd [simp]: "map_of (map (\<lambda>(k, v). (k, f v)) m) k = map_option f (map_of m k)"
  by (induction m) auto

lemma map_of_filter_key [simp]: "map_of (filter (\<lambda>(k, v). k \<noteq> x) m) = (map_of m)(x := None)"
  by (induction m) (auto simp: fun_eq_iff)

lemma ho_simps [simp]:
  "ho_Hash (associate c v) = ho_Hash v" "ho_Always (associate c v) = ho_Always v"
  "ho_Hash (dissociate c v) = ho_Hash v" "ho_Always (dissociate c v) = ho_Always v"
  "associated c (v\<lparr>ho_Hash := h\<rparr>) = associated c v"
  "associated c (NewHashObject h b) = False"
  "ho_Hash (NewHashObject h b) = h" "ho_Always (NewHashObject h b) = b"
  by (cases c; simp add: NewHashObject_def)+

lemma same_kind_cases:
  "associated c (associate c v)" "\<not> associated c (dissociate c v)"
  by (cases c; simp)+

lemma associated_associate: "associated o' v \<Longrightarrow> associated o' (associate co v)"
  by (cases o'; cases co) auto

definition cache_ok :: "HashCache \<Rightarrow> bool" where
  "cache_ok hc = distinct (map fst hc)"

lemma cache_ok_ops [inv_intros]:
  "cache_ok NewHashCache"
  "cache_ok hc \<Longrightarrow> cache_ok (fst (CreateOrUpdateObject sha marshal stack obj al hc))"
  "cache_ok hc \<Longrightarrow> cache_ok (fst (AddClowdObjectToObject lc co obj hc))"
  "cache_ok hc \<Longrightarrow> cache_ok (RemoveClowdObjectFromObjects co hc)"
  "cache_ok hc \<Longrightarrow> cache_ok (Delete obj hc)"
  by (auto simp: cache_ok_def NewHashCache_def CreateOrUpdateObject_def AddClowdObjectToObject_def
      RemoveClowdObjectFromObjects_def Delete_def distinct_put comp_def case_prod_unfold
      distinct_map_filter split: option.splits sum.splits)

section \<open>The interface its clients rely on\<close>

text \<open>
  A client registers an object and then associates an app or environment with it. What that gives
  is proved once from the laws of registering, associating and reading.
\<close>

locale tracked_objects =
  fixes entry :: "'c \<Rightarrow> Ident \<Rightarrow> HashObject option"
    and register :: "KObject \<Rightarrow> bool \<Rightarrow> 'c \<Rightarrow> 'c \<times> (goerr + bool)"
    and attach :: "ClowdObject \<Rightarrow> KObject \<Rightarrow> 'c \<Rightarrow> 'c \<times> goerr option"
    and wanted :: "KObject \<Rightarrow> bool"
  assumes register_present: "register obj al c = (c', Inr ch) \<Longrightarrow> \<exists>v. entry c' (ident_of obj) = Some v
        \<and> (case entry c (ident_of obj) of None \<Rightarrow> ho_Always v = al \<and> (\<forall>o'. \<not> associated o' v)
           | Some w \<Rightarrow> ho_Always v = ho_Always w \<and> (\<forall>o'. associated o' v = associated o' w))"
    and register_other: "i \<noteq> ident_of obj \<Longrightarrow> entry (fst (register obj al c)) i = entry c i"
    and attach_present: "entry c (ident_of obj) = Some v \<Longrightarrow> snd (attach co obj c) = None \<and>
        entry (fst (attach co obj c)) (ident_of obj) =
          Some (if wanted obj \<or> ho_Always v then associate co v else v)"
    and register_fails: "register obj al c = (c', Inl e) \<Longrightarrow> c' = c"
    and attach_other: "i \<noteq> ident_of obj \<Longrightarrow> entry (fst (attach co obj c)) i = entry c i"
begin

definition track :: "ClowdObject \<Rightarrow> KObject \<Rightarrow> bool \<Rightarrow> 'c \<Rightarrow> 'c \<times> goerr option" where
  "track co obj al c = (case register obj al c of
     (c', Inl e) \<Rightarrow> (c', None) | (c', Inr ch) \<Rightarrow> attach co obj c')"

lemma track_never_fails: "snd (track co obj al c) = None"
proof (cases "register obj al c")
  case (Pair c' r)
  show ?thesis
  proof (cases r)
    case (Inl e)
    with Pair show ?thesis by (simp add: track_def)
  next
    case (Inr ch)
    with Pair obtain v where "entry c' (ident_of obj) = Some v"
      using register_present by blast
    with Pair Inr show ?thesis by (simp add: track_def attach_present)
  qed
qed

lemma track_associates:
  assumes "register obj al c = (c', Inr ch)"
    and "wanted obj \<or> (case entry c (ident_of obj) of None \<Rightarrow> al | Some w \<Rightarrow> ho_Always w)"
  shows "\<exists>v. entry (fst (track co obj al c)) (ident_of obj) = Some v \<and> associated co v"
proof -
  obtain v where v: "entry c' (ident_of obj) = Some v"
      "ho_Always v = (case entry c (ident_of obj) of None \<Rightarrow> al | Some w \<Rightarrow> ho_Always w)"
    using register_present [OF assms(1)] by (auto split: option.splits)
  with assms have "entry (fst (track co obj al c)) (ident_of obj) = Some (associate co v)"
    by (simp add: track_def attach_present)
  then show ?thesis by (simp add: same_kind_cases)
qed

lemma track_ignores:
  assumes "register obj al c = (c', Inr ch)" "\<not> wanted obj"
    and "\<not> (case entry c (ident_of obj) of None \<Rightarrow> al | Some w \<Rightarrow> ho_Always w)"
    and "entry (fst (track co obj al c)) (ident_of obj) = Some v"
  shows "associated o' v \<longleftrightarrow> (\<exists>w. entry c (ident_of obj) = Some w \<and> associated o' w)"
proof -
  obtain u where u: "entry c' (ident_of obj) = Some u"
      "\<not> ho_Always u" "associated o' u \<longleftrightarrow> (\<exists>w. entry c (ident_of obj) = Some w \<and> associated o' w)"
    using register_present [OF assms(1)] assms(3) by (auto split: option.splits)
  with assms show ?thesis by (simp add: track_def attach_present)
qed

lemma track_keeps:
  assumes "entry c i = Some v" "associated o' v"
  shows "\<exists>v'. entry (fst (track co obj al c)) i = Some v' \<and> associated o' v'"
proof (cases "i = ident_of obj")
  case False
  obtain c' r where reg: "register obj al c = (c', r)" by fastforce
  have "entry c' i = entry c i" using register_other [OF False, of al c] reg by simp
  with assms False reg show ?thesis by (cases r) (auto simp: track_def attach_other)
next
  case True
  obtain c' r where reg: "register obj al c = (c', r)" by fastforce
  show ?thesis
  proof (cases r)
    case (Inl e)
    with reg have "c' = c" using register_fails by blast
    with Inl reg assms True show ?thesis by (simp add: track_def)
  next
    case (Inr ch)
    with reg assms True register_present [of obj al c c' ch] obtain u where
      u: "entry c' (ident_of obj) = Some u" "associated o' u" by auto
    with attach_present [OF u(1), of co] reg Inr True show ?thesis
      by (auto simp: track_def associated_associate)
  qed
qed

lemma track_other: "i \<noteq> ident_of obj \<Longrightarrow> entry (fst (track co obj al c)) i = entry c i"
  using register_other [of i obj al c]
  by (auto simp: track_def attach_other split: prod.splits sum.splits)

end

interpretation hcache: tracked_objects map_of "CreateOrUpdateObject sha marshal stack"
    "AddClowdObjectToObject lc" "restart_wanted lc" for sha marshal stack lc
proof
  fix obj al c c' ch
  assume "CreateOrUpdateObject sha marshal stack obj al c = (c', Inr ch)"
  then show "\<exists>v. map_of c' (ident_of obj) = Some v
        \<and> (case map_of c (ident_of obj) of None \<Rightarrow> ho_Always v = al \<and> (\<forall>o'. \<not> associated o' v)
           | Some w \<Rightarrow> ho_Always v = ho_Always w \<and> (\<forall>o'. associated o' v = associated o' w))"
    by (auto simp: CreateOrUpdateObject_def split: option.splits sum.splits)
next
  fix i obj al c
  show "i \<noteq> ident_of obj \<Longrightarrow> map_of (fst (CreateOrUpdateObject sha marshal stack obj al c)) i = map_of c i"
    by (auto simp: CreateOrUpdateObject_def split: option.splits sum.splits)
next
  fix c obj v co
  show "map_of c (ident_of obj) = Some v \<Longrightarrow> snd (AddClowdObjectToObject lc co obj c) = None \<and>
        map_of (fst (AddClowdObjectToObject lc co obj c)) (ident_of obj) =
          Some (if restart_wanted lc obj \<or> ho_Always v then associate co v else v)"
    by (auto simp: AddClowdObjectToObject_def)
next
  fix obj al c c' e
  show "CreateOrUpdateObject sha marshal stack obj al c = (c', Inl e) \<Longrightarrow> c' = c"
    by (auto simp: CreateOrUpdateObject_def split: option.splits sum.splits if_splits)
next
  fix i obj co c
  show "i \<noteq> ident_of obj \<Longrightarrow> map_of (fst (AddClowdObjectToObject lc co obj c)) i = map_of c i"
    by (auto simp: AddClowdObjectToObject_def split: option.splits)
qed

section \<open>Change detection\<close>

definition object_hash :: "(string \<Rightarrow> string) \<Rightarrow> (smap \<Rightarrow> goerr + string) \<Rightarrow> KObject \<Rightarrow> string option" where
  "object_hash sha marshal obj = (if ko_Kind obj = KOther then Some ''''
     else (case marshal (ko_Data obj) of Inl _ \<Rightarrow> None | Inr json \<Rightarrow> Some (sha json)))"

text \<open>
  Registering an object whose data can be encoded reports a change exactly when the object is new
  or its hash differs from the recorded one; afterwards the recorded hash is the new one, the
  associations and the always flag of a known object are kept (the flag passed in is ignored for
  it), and no other entry is touched. When the data cannot be encoded the cache stays as it was.
\<close>

theorem hash_change_detected:
  "case object_hash sha marshal obj of
     None \<Rightarrow> \<exists>e. CreateOrUpdateObject sha marshal stack obj al hc = (hc, Inl e)
   | Some h \<Rightarrow> \<exists>hc'. CreateOrUpdateObject sha marshal stack obj al hc =
         (hc', Inr (map_option ho_Hash (map_of hc (ident_of obj)) \<noteq> Some h))
       \<and> map_of hc' = (map_of hc)(ident_of obj \<mapsto>
           (case map_of hc (ident_of obj) of None \<Rightarrow> NewHashObject h al | Some v \<Rightarrow> v\<lparr>ho_Hash := h\<rparr>))"
  by (cases "map_of hc (ident_of obj)"; cases "marshal (ko_Data obj)")
    (auto simp: object_hash_def CreateOrUpdateObject_def)

section \<open>The combined hash\<close>

text \<open>The part of the comparator's strings in front of the type.\<close>

definition ident_key :: "Ident \<Rightarrow> string" where
  "ident_key a = nn_Name (id_NN a) @ ''/'' @ nn_Namespace (id_NN a) @ ''/''"

text \<open>Kubernetes names and namespaces contain no slash.\<close>

definition slash_free :: "Ident \<Rightarrow> bool" where
  "slash_free a = (CHR ''/'' \<notin> set (nn_Name (id_NN a)) \<and> CHR ''/'' \<notin> set (nn_Namespace (id_NN a)))"

lemma ident_key_prefix:
  assumes "slash_free a" "slash_free b" "ident_key b = ident_key a @ z"
  shows "id_NN a = id_NN b \<and> z = ''''"
proof -
  have "nn_Name (id_NN b) @ CHR ''/'' # (nn_Namespace (id_NN b) @ ''/'')
      = nn_Name (id_NN a) @ CHR ''/'' # (nn_Namespace (id_NN a) @ ''/'' @ z)"
    using assms(3) by (simp add: ident_key_def)
  then have n: "nn_Name (id_NN b) = nn_Name (id_NN a)"
    and ns: "nn_Namespace (id_NN b) @ CHR ''/'' # '''' = nn_Namespace (id_NN a) @ CHR ''/'' # z"
    using assms(1,2) sep_join_inj [of "CHR ''/''" "nn_Name (id_NN b)" "nn_Name (id_NN a)"]
    by (auto simp: slash_free_def)
  have "nn_Namespace (id_NN b) = nn_Namespace (id_NN a) \<and> '''' = z"
    using assms(1,2) ns by (intro sep_join_inj) (auto simp: slash_free_def)
  with n show ?thesis by simp
qed

lemma ident_less_key:
  assumes "slash_free a" "slash_free b"
  shows "ident_less a b \<longleftrightarrow> ident_key a < ident_key b"
proof (cases "id_NN a = id_NN b")
  case True
  then show ?thesis by (simp add: ident_less_def ident_key_def)
next
  case False
  then have "\<nexists>z. ident_key b = ident_key a @ z" "\<nexists>z. ident_key a = ident_key b @ z"
    using ident_key_prefix assms by metis+
  from append_less_append [OF this] show ?thesis
    by (simp add: ident_less_def ident_key_def)
qed

definition assoc_idents :: "ClowdObject \<Rightarrow> HashCache \<Rightarrow> Ident set" where
  "assoc_idents obj hc = {k. \<exists>v. map_of hc k = Some v \<and> associated obj v}"

lemma set_assoc_keys: "set (assoc_keys obj hc ks) = {k \<in> set ks. k \<in> assoc_idents obj hc}"
  by (auto simp: assoc_keys_def assoc_idents_def split: option.splits)

lemma assoc_idents_keys: "assoc_idents obj hc \<subseteq> set (map fst hc)"
  by (force simp: assoc_idents_def dest: map_of_SomeD)

text \<open>What \<open>sort.Slice\<close> promises when the comparator is an order.\<close>

definition slice_sorter :: "(Ident list \<Rightarrow> Ident list) \<Rightarrow> bool" where
  "slice_sorter srt = (\<forall>ks. (\<forall>k \<in> set ks. slash_free k) \<longrightarrow> is_sort_of ident_less ks (srt ks))"

text \<open>
  If the config maps and secrets an app or environment uses have pairwise different names or
  namespaces (without slashes), then the combined hash does not depend on the order in which Go
  visits the cache or on how its sort breaks ties.
\<close>

theorem super_hash_deterministic:
  assumes "go_iteration iter1" "go_iteration iter2"
    and "slice_sorter srt1" "slice_sorter srt2"
    and "\<And>k. k \<in> assoc_idents obj hc \<Longrightarrow> slash_free k"
    and "inj_on id_NN (assoc_idents obj hc)"
  shows "GetSuperHashForClowdObject sha srt1 iter1 obj hc = GetSuperHashForClowdObject sha srt2 iter2 obj hc"
proof -
  define k1 k2 where "k1 = assoc_keys obj hc (iter1 (map fst hc))" and "k2 = assoc_keys obj hc (iter2 (map fst hc))"
  have perm: "mset k2 = mset k1"
    using assms(1,2) by (simp add: k1_def k2_def assoc_keys_def go_iteration_def)
  have sub: "set k1 \<subseteq> assoc_idents obj hc" by (auto simp: k1_def set_assoc_keys)
  with assms(5) have free: "\<And>k. k \<in> set k1 \<Longrightarrow> slash_free k" by blast
  have inj: "inj_on ident_key (set k1)"
  proof (rule inj_onI)
    fix x y
    assume x: "x \<in> set k1" and y: "y \<in> set k1" and "ident_key x = ident_key y"
    then have "id_NN x = id_NN y" using ident_key_prefix [of x y "''''"] free by simp
    with assms(6) sub x y show "x = y" by (meson inj_onD subsetD)
  qed
  have "set k2 = set k1" using perm by (metis set_mset_mset)
  then have "is_sort_of ident_less k1 (srt1 k1)" "is_sort_of ident_less k2 (srt2 k2)"
    using assms(3,4) free by (auto simp: slice_sorter_def)
  then have "srt1 k1 = srt2 k2"
    using ident_less_key free inj perm by (intro is_sort_of_unique_on [where key = ident_key and xs = k1]) auto
  then show ?thesis
    by (simp add: GetSuperHashForClowdObject_def superstring_def k1_def k2_def)
qed

text \<open>
  A config map and a secret of the same name and namespace are ties for the comparator: with
  both in use and with different hashes, the combined string depends on the order in which Go
  visits the cache.
\<close>

theorem super_hash_order_dependent:
  fixes h1 h2 :: string
  assumes "h1 @ h2 \<noteq> h2 @ h1"
  shows "\<exists>hc. cache_ok hc \<and> (\<forall>k \<in> assoc_idents (AppObject a) hc. id_NN k = nn)
    \<and> superstring (sort_slice ident_less) (\<lambda>ks. ks) (AppObject a) hc
        \<noteq> superstring (sort_slice ident_less) rev (AppObject a) hc"
proof -
  define v where "v h = \<lparr>ho_Hash = h, ho_ClowdApps = {co_NN (AppObject a)}, ho_ClowdEnvs = {}, ho_Always = False\<rparr>" for h
  define hc where "hc = [(\<lparr>id_NN = nn, id_Type = ''ConfigMap''\<rparr>, v h1), (\<lparr>id_NN = nn, id_Type = ''Secret''\<rparr>, v h2)]"
  have "superstring (sort_slice ident_less) (\<lambda>ks. ks) (AppObject a) hc = h1 @ h2"
    "superstring (sort_slice ident_less) rev (AppObject a) hc = h2 @ h1"
    by (simp_all add: superstring_def assoc_keys_def hc_def v_def sort_slice_def ident_less_def)
  moreover have "\<forall>k \<in> assoc_idents (AppObject a) hc. id_NN k = nn"
    by (auto simp: assoc_idents_def hc_def split: if_splits)
  moreover have "cache_ok hc" by (simp add: cache_ok_def hc_def)
  ultimately show ?thesis using assms by (intro exI [of _ hc]) simp
qed

text \<open>
  Dropping an app or environment from the cache leaves it associated with nothing, so that its
  combined hash is the hash of the empty string, and keeps all hashes; another resource of the same
  kind with a different name or namespace, and every resource of the other kind, keep their
  associations.
\<close>

theorem removal_dissociates:
  assumes "slice_sorter srt"
  shows "assoc_idents obj (RemoveClowdObjectFromObjects obj hc) = {}
    \<and> GetSuperHashForClowdObject sha srt iter obj (RemoveClowdObjectFromObjects obj hc) = sha ''''
    \<and> map (\<lambda>(k, v). (k, ho_Hash v)) (RemoveClowdObjectFromObjects obj hc) = map (\<lambda>(k, v). (k, ho_Hash v)) hc
    \<and> (\<forall>o'. (case (obj, o') of (AppObject _, EnvObject _) \<Rightarrow> True | (EnvObject _, AppObject _) \<Rightarrow> True
              | _ \<Rightarrow> co_NN o' \<noteq> co_NN obj) \<longrightarrow>
         assoc_idents o' (RemoveClowdObjectFromObjects obj hc) = assoc_idents o' hc)"
proof -
  have gone: "assoc_idents obj (RemoveClowdObjectFromObjects obj hc) = {}"
    by (auto simp: assoc_idents_def RemoveClowdObjectFromObjects_def same_kind_cases)
  then have "assoc_keys obj (RemoveClowdObjectFromObjects obj hc) ks = []" for ks
    using set_assoc_keys [of obj "RemoveClowdObjectFromObjects obj hc" ks] by simp
  moreover have "srt [] = []" using assms [unfolded slice_sorter_def, rule_format, of "[]"] by (simp add: is_sort_of_def)
  moreover have "associated o' (dissociate obj v) = associated o' v"
    if "case (obj, o') of (AppObject _, EnvObject _) \<Rightarrow> True | (EnvObject _, AppObject _) \<Rightarrow> True
              | _ \<Rightarrow> co_NN o' \<noteq> co_NN obj" for o' v
    using that by (cases obj; cases o') auto
  ultimately show ?thesis
    using gone by (auto simp: GetSuperHashForClowdObject_def superstring_def assoc_idents_def
        RemoveClowdObjectFromObjects_def)
qed

section \<open>Witnesses\<close>

definition sample_cache :: HashCache where
  "sample_cache =
     [(\<lparr>id_NN = NN ''db'' ''ns'', id_Type = ''Secret''\<rparr>,
       \<lparr>ho_Hash = ''h1'', ho_ClowdApps = {NN ''a'' ''ns''}, ho_ClowdEnvs = {}, ho_Always = True\<rparr>),
      (\<lparr>id_NN = NN ''cfg'' ''ns'', id_Type = ''ConfigMap''\<rparr>,
       \<lparr>ho_Hash = ''h2'', ho_ClowdApps = {NN ''a'' ''ns''}, ho_ClowdEnvs = {}, ho_Always = True\<rparr>)]"

definition sample_user :: ClowdApp where
  "sample_user = ClowdApp_zero\<lparr>app_ObjectMeta := ObjectMeta_zero\<lparr>om_Name := ''a'', om_Namespace := ''ns''\<rparr>\<rparr>"

lemma sample_assoc: "assoc_idents (AppObject sample_user) sample_cache =
    {\<lparr>id_NN = NN ''db'' ''ns'', id_Type = ''Secret''\<rparr>, \<lparr>id_NN = NN ''cfg'' ''ns'', id_Type = ''ConfigMap''\<rparr>}"
  by (auto simp: assoc_idents_def sample_cache_def sample_user_def split: if_splits)

lemma sort_by_ident_key: "slice_sorter (sort_slice ident_less)"
  unfolding slice_sorter_def
proof (intro allI impI)
  fix ks :: "Ident list"
  assume free: "\<forall>k \<in> set ks. slash_free k"
  have "foldl (\<lambda>acc x. insert_less ident_less x acc) acc ks =
      foldl (\<lambda>acc x. insert_less (\<lambda>a b. ident_key a < ident_key b) x acc) acc ks"
    if "\<forall>k \<in> set acc. slash_free k" "\<forall>k \<in> set ks. slash_free k" for acc
    using that
  proof (induction ks arbitrary: acc)
    case (Cons k ks)
    have "insert_less ident_less k ys = insert_less (\<lambda>a b. ident_key a < ident_key b) k ys"
      if "\<forall>y \<in> set ys. slash_free y" for ys
      using that Cons.prems(2) by (induction ys) (auto simp: ident_less_key)
    with Cons show ?case by simp
  qed simp
  from this [of "[]"] free have eq: "sort_slice ident_less ks = sort_slice (\<lambda>a b. ident_key a < ident_key b) ks"
    by (simp add: sort_slice_def)
  have "sorted_wrt (\<lambda>x y. \<not> ident_key y < ident_key x) (sort_slice (\<lambda>a b. ident_key a < ident_key b) ks)"
    using go_sorted_sort_slice [of "\<lambda>a b. ident_key a < ident_key b" ident_key ks] by (simp add: go_sorted_def)
  then have "sorted_wrt (\<lambda>x y. \<not> ident_less y x) (sort_slice (\<lambda>a b. ident_key a < ident_key b) ks)"
    by (rule sorted_wrt_mono_rel [rotated]) (use free in \<open>auto simp: ident_less_key\<close>)
  with eq show "is_sort_of ident_less ks (sort_slice ident_less ks)" by (simp add: is_sort_of_def go_sorted_def)
qed

theorem super_hash_deterministic_witness:
  "GetSuperHashForClowdObject (\<lambda>s. s) (sort_slice ident_less) (\<lambda>ks. ks) (AppObject sample_user) sample_cache
     = GetSuperHashForClowdObject (\<lambda>s. s) (sort_slice ident_less) rev (AppObject sample_user) sample_cache"
proof (rule super_hash_deterministic)
  show "slice_sorter (sort_slice ident_less)" "slice_sorter (sort_slice ident_less)"
    by (rule sort_by_ident_key)+
  show "slash_free k" if "k \<in> assoc_idents (AppObject sample_user) sample_cache" for k
    using that by (auto simp: sample_assoc slash_free_def)
  show "inj_on id_NN (assoc_idents (AppObject sample_user) sample_cache)"
    by (auto simp: sample_assoc)
qed simp_all

theorem super_hash_order_dependent_witness:
  "\<exists>hc. cache_ok hc \<and> (\<forall>k \<in> assoc_idents (AppObject sample_user) hc. id_NN k = NN ''db'' ''ns'')
    \<and> superstring (sort_slice ident_less) (\<lambda>ks. ks) (AppObject sample_user) hc
        \<noteq> superstring (sort_slice ident_less) rev (AppObject sample_user) hc"
  by (rule super_hash_order_dependent [of "''1''" "''2''"]) simp

theorem removal_dissociates_witness:
  "assoc_idents (AppObject sample_user) sample_cache \<noteq> {}
   \<and> assoc_idents (AppObject sample_user) (RemoveClowdObjectFromObjects (AppObject sample_user) sample_cache) = {}
   \<and> GetSuperHashForClowdObject (\<lambda>s. ''sha-'' @ s) (sort_slice ident_less) rev (AppObject sample_user)
       (RemoveClowdObjectFromObjects (AppObject sample_user) sample_cache) = ''sha-''"
  using removal_dissociates [OF sort_by_ident_key, of "AppObject sample_user" sample_cache "\<lambda>s. ''sha-'' @ s" rev]
  by (simp add: sample_assoc)

end
