(* ===== verification/Config_Hash.thy ===== *)
theory Config_Hash
  imports Hash_Cache App_Config
begin

text \<open>
  The configuration hash provider, \<open>providers/confighash\<close>, the last one to run: it records every
  config map and secret the app's deployments refer to in the hash cache, writes the app's
  configuration into its secret and stamps the hash of the configuration on every deployment and
  cron job. The state is the hash cache, the configuration, the app (whose labels are completed) and
  the world of the resource cache; the client, the resource cache, JSON, SHA-256 and
  \<open>UpdateAnnotations\<close> are the parameters collected in \<open>HashDeps\<close>.
\<close>

record 'w HashState =
  hs_Cache :: HashCache
  hs_Config :: AppConfig
  hs_App :: ClowdApp
  hs_World :: 'w

record 'w HashDeps =
  hd_Loaded :: ClowderConfig
  hd_Stack :: string
  hd_Sha :: "string \<Rightarrow> string"
  hd_MarshalData :: "smap \<Rightarrow> goerr + string"
  hd_MarshalConfig :: "AppConfig \<Rightarrow> goerr + string"
  hd_Sort :: "Ident list \<Rightarrow> Ident list"
  hd_Iter :: "Ident list \<Rightarrow> Ident list"
  hd_GetConfigMap :: "NamespacedName \<Rightarrow> goerr + KObject"
  hd_GetSecret :: "NamespacedName \<Rightarrow> goerr + KObject"
  hd_CreateSecret :: "NamespacedName \<Rightarrow> 'w \<Rightarrow> 'w \<times> (goerr + KSecretObj)"
  hd_UpdateSecret :: "KSecretObj \<Rightarrow> 'w \<Rightarrow> 'w \<times> goerr option"
  hd_ListDeployments :: "'w \<Rightarrow> goerr + KDeployment list"
  hd_UpdateDeployment :: "KDeployment \<Rightarrow> 'w \<Rightarrow> 'w \<times> goerr option"
  hd_ListCronJobs :: "'w \<Rightarrow> goerr + KCronJob list"
  hd_UpdateCronJob :: "KCronJob \<Rightarrow> 'w \<Rightarrow> 'w \<times> goerr option"
  hd_UpdateAnnotations :: "smap \<Rightarrow> PodTemplate \<Rightarrow> PodTemplate"

section \<open>Recording what a deployment refers to\<close>

text \<open>
  The common tail of the four functions: fetch the object unless it is the app's own secret,
  ignore one that is not there, register it and associate the app with it.
\<close>

definition track_reference ::
  "'w HashDeps \<Rightarrow> ClowdApp \<Rightarrow> string \<Rightarrow> (NamespacedName \<Rightarrow> goerr + KObject) \<Rightarrow> string \<Rightarrow> HashCache
    \<Rightarrow> HashCache \<times> goerr option" where
  "track_reference d app name getObj what hc =
     (if name = app_Name app then (hc, None)
      else (case getObj (NN name (app_Namespace app)) of
              Inl err \<Rightarrow> (hc, if IsNotFound err then None else Some (WrapErr (''could not get '' @ what @ '': '') err))
            | Inr obj \<Rightarrow>
                (case CreateOrUpdateObject (hd_Sha d) (hd_MarshalData d) (hd_Stack d) obj False hc of
                   (hc', Inl err) \<Rightarrow> (hc', None)
                 | (hc', Inr _) \<Rightarrow> AddClowdObjectToObject (hd_Loaded d) (AppObject app) obj hc')))"

definition envConfigMap :: "'w HashDeps \<Rightarrow> ClowdApp \<Rightarrow> EnvVar \<Rightarrow> HashCache \<Rightarrow> HashCache \<times> goerr option" where
  "envConfigMap d app env hc =
     (case ev_ValueFrom env of
        None \<Rightarrow> (hc, None)
      | Some src \<Rightarrow>
          (case evs_ConfigMapKeyRef src of
             None \<Rightarrow> (hc, None)
           | Some ref \<Rightarrow> track_reference d app (ks_Name ref) (hd_GetConfigMap d) ''env configmap'' hc))"

definition envSecret :: "'w HashDeps \<Rightarrow> ClowdApp \<Rightarrow> EnvVar \<Rightarrow> HashCache \<Rightarrow> HashCache \<times> goerr option" where
  "envSecret d app env hc =
     (case ev_ValueFrom env of
        None \<Rightarrow> (hc, None)
      | Some src \<Rightarrow>
          (case evs_SecretKeyRef src of
             None \<Rightarrow> (hc, None)
           | Some ref \<Rightarrow> track_reference d app (ks_Name ref) (hd_GetSecret d) ''env secret'' hc))"

definition volConfigMap :: "'w HashDeps \<Rightarrow> ClowdApp \<Rightarrow> Volume \<Rightarrow> HashCache \<Rightarrow> HashCache \<times> goerr option" where
  "volConfigMap d app volume hc =
     (case vol_ConfigMap volume of
        None \<Rightarrow> (hc, None)
      | Some src \<Rightarrow> track_reference d app (vs_Name src) (hd_GetConfigMap d) ''vol configmap'' hc)"

definition volSecret :: "'w HashDeps \<Rightarrow> ClowdApp \<Rightarrow> Volume \<Rightarrow> HashCache \<Rightarrow> HashCache \<times> goerr option" where
  "volSecret d app volume hc =
     (case vol_Secret volume of
        None \<Rightarrow> (hc, None)
      | Some src \<Rightarrow> track_reference d app (vs_Name src) (hd_GetSecret d) ''vol secret'' hc)"

text \<open>Two fallible actions in a row.\<close>

definition and_then :: "('s \<Rightarrow> 's \<times> goerr option) \<Rightarrow> ('s \<Rightarrow> 's \<times> goerr option) \<Rightarrow> 's \<Rightarrow> 's \<times> goerr option" where
  "and_then f g s = (case f s of (s', Some e) \<Rightarrow> (s', Some e) | (s', None) \<Rightarrow> g s')"

definition iterateEnvVars :: "'w HashDeps \<Rightarrow> ClowdApp \<Rightarrow> KDeployment \<Rightarrow> HashCache \<Rightarrow> HashCache \<times> goerr option" where
  "iterateEnvVars d app deployment hc =
     for_err (\<lambda>cont. for_err (\<lambda>env. and_then (envConfigMap d app env) (envSecret d app env)) (ct_Env cont))
       (pt_Containers (kd_Template deployment)) hc"

definition iterateVolumes :: "'w HashDeps \<Rightarrow> ClowdApp \<Rightarrow> KDeployment \<Rightarrow> HashCache \<Rightarrow> HashCache \<times> goerr option" where
  "iterateVolumes d app deployment hc =
     for_err (\<lambda>volume. and_then (volConfigMap d app volume) (volSecret d app volume))
       (pt_Volumes (kd_Template deployment)) hc"

definition updateHashCache ::
  "'w HashDeps \<Rightarrow> KDeployment list \<Rightarrow> ClowdApp \<Rightarrow> HashCache \<Rightarrow> HashCache \<times> goerr option" where
  "updateHashCache d dList app hc =
     for_err (\<lambda>deploy. and_then (iterateEnvVars d app deploy) (iterateVolumes d app deploy)) dList hc"

section \<open>Writing the configuration\<close>

text \<open>\<open>env\<close> is the provider's environment.\<close>

definition persistConfig ::
  "'w HashDeps \<Rightarrow> ClowdEnvironment \<Rightarrow> 'w HashState \<Rightarrow> 'w HashState \<times> (goerr + string)" where
  "persistConfig d env s0 =
     (case hd_CreateSecret d (NN (app_Name (hs_App s0)) (app_Namespace (hs_App s0))) (hs_World s0) of
        (w1, Inl err) \<Rightarrow> (s0\<lparr>hs_World := w1\<rparr>, Inl err)
      | (w1, Inr secret) \<Rightarrow>
          (case hd_ListDeployments d w1 of
             Inl err \<Rightarrow> (s0\<lparr>hs_World := w1\<rparr>, Inl err)
           | Inr dList \<Rightarrow>
               (case updateHashCache d dList (hs_App s0) (hs_Cache s0) of
                  (hc, Some err) \<Rightarrow> (s0\<lparr>hs_World := w1, hs_Cache := hc\<rparr>, Inl err)
                | (hc, None) \<Rightarrow>
                    (let super = (\<lambda>o'. GetSuperHashForClowdObject (hd_Sha d) (hd_Sort d) (hd_Iter d) o' hc);
                         cfg = (hs_Config s0)\<lparr>cfg_HashCache :=
                                  Some (super (AppObject (hs_App s0)) @ super (EnvObject env))\<rparr>;
                         s1 = s0\<lparr>hs_World := w1, hs_Cache := hc, hs_Config := cfg\<rparr>
                     in case hd_MarshalConfig d cfg of
                          Inl err \<Rightarrow> (s1, Inl (Wrap (hd_Stack d) ''Failed to marshal config JSON'' err))
                        | Inr jsonData \<Rightarrow>
                            (let hash = hd_Sha d jsonData;
                                 (app', om) = app_SetObjectMeta (hs_App s1) (sec_ObjectMeta secret);
                                 secret' = secret\<lparr>sec_Data := [''cdappconfig.json'' \<mapsto> jsonData],
                                                  sec_ObjectMeta := om\<rparr>
                             in case hd_UpdateSecret d secret' (hs_World s1) of
                                  (w2, Some err) \<Rightarrow> (s1\<lparr>hs_App := app', hs_World := w2\<rparr>, Inl err)
                                | (w2, None) \<Rightarrow> (s1\<lparr>hs_App := app', hs_World := w2\<rparr>, Inr hash))))))"

definition stamp_deployment :: "'w HashDeps \<Rightarrow> string \<Rightarrow> KDeployment \<Rightarrow> KDeployment" where
  "stamp_deployment d hash dep =
     dep\<lparr>kd_Template := hd_UpdateAnnotations d [''configHash'' \<mapsto> hash] (kd_Template dep)\<rparr>"

definition stamp_cronjob :: "'w HashDeps \<Rightarrow> string \<Rightarrow> KCronJob \<Rightarrow> KCronJob" where
  "stamp_cronjob d hash j =
     j\<lparr>kc_Template := hd_UpdateAnnotations d [''configHash'' \<mapsto> hash] (kc_Template j)\<rparr>"

definition confighash_Provide ::
  "'w HashDeps \<Rightarrow> ClowdEnvironment \<Rightarrow> 'w HashState \<Rightarrow> 'w HashState \<times> goerr option" where
  "confighash_Provide d env s0 =
     (case persistConfig d env s0 of
        (s1, Inl err) \<Rightarrow> (s1, Some err)
      | (s1, Inr hash) \<Rightarrow>
          (case hd_ListDeployments d (hs_World s1) of
             Inl err \<Rightarrow> (s1, Some err)
           | Inr dList \<Rightarrow>
               (case for_err (\<lambda>dep. hd_UpdateDeployment d (stamp_deployment d hash dep)) dList (hs_World s1) of
                  (w2, Some err) \<Rightarrow> (s1\<lparr>hs_World := w2\<rparr>, Some err)
                | (w2, None) \<Rightarrow>
                    (case hd_ListCronJobs d w2 of
                       Inl err \<Rightarrow> (s1\<lparr>hs_World := w2\<rparr>, Some err)
                     | Inr jList \<Rightarrow>
                         (case for_err (\<lambda>j. hd_UpdateCronJob d (stamp_cronjob d hash j)) jList w2 of
                            (w3, err) \<Rightarrow> (s1\<lparr>hs_World := w3\<rparr>, err))))))"

section \<open>Facts\<close>

text \<open>The references of a deployment: the name and the way to get it.\<close>

definition references :: "'w HashDeps \<Rightarrow> KDeployment \<Rightarrow> (string \<times> (NamespacedName \<Rightarrow> goerr + KObject)) set" where
  "references d dep =
     {(ks_Name ref, hd_GetConfigMap d) | ref c e src. c \<in> set (pt_Containers (kd_Template dep)) \<and> e \<in> set (ct_Env c)
        \<and> ev_ValueFrom e = Some src \<and> evs_ConfigMapKeyRef src = Some ref}
   \<union> {(ks_Name ref, hd_GetSecret d) | ref c e src. c \<in> set (pt_Containers (kd_Template dep)) \<and> e \<in> set (ct_Env c)
        \<and> ev_ValueFrom e = Some src \<and> evs_SecretKeyRef src = Some ref}
   \<union> {(vs_Name src, hd_GetConfigMap d) | src v. v \<in> set (pt_Volumes (kd_Template dep)) \<and> vol_ConfigMap v = Some src}
   \<union> {(vs_Name src, hd_GetSecret d) | src v. v \<in> set (pt_Volumes (kd_Template dep)) \<and> vol_Secret v = Some src}"

definition tracked :: "ClowdApp \<Rightarrow> KObject \<Rightarrow> HashCache \<Rightarrow> bool" where
  "tracked app obj hc = (\<exists>v. map_of hc (ident_of obj) = Some v \<and> associated (AppObject app) v)"

lemma track_reference_cases:
  "track_reference d app name getObj what hc = (hc, None)
   \<or> (\<exists>e. track_reference d app name getObj what hc = (hc, Some e))
   \<or> (\<exists>obj. name \<noteq> app_Name app \<and> getObj (NN name (app_Namespace app)) = Inr obj \<and>
        track_reference d app name getObj what hc =
          hcache.track (hd_Sha d) (hd_MarshalData d) (hd_Stack d) (hd_Loaded d) (AppObject app) obj False hc)"
  by (auto simp: track_reference_def hcache.track_def split: sum.splits prod.splits)

lemma track_reference_keeps:
  "tracked app obj hc \<Longrightarrow> tracked app obj (fst (track_reference d app name getObj what hc))"
  using track_reference_cases [of d app name getObj what hc] hcache.track_keeps
  unfolding tracked_def by (metis fst_conv)

lemma reference_steps_keep:
  "tracked app obj hc \<Longrightarrow> tracked app obj (fst (envConfigMap d app e hc))"
  "tracked app obj hc \<Longrightarrow> tracked app obj (fst (envSecret d app e hc))"
  "tracked app obj hc \<Longrightarrow> tracked app obj (fst (volConfigMap d app v hc))"
  "tracked app obj hc \<Longrightarrow> tracked app obj (fst (volSecret d app v hc))"
  by (simp_all add: envConfigMap_def envSecret_def volConfigMap_def volSecret_def track_reference_keeps
      split: option.split)

lemma and_then_inv:
  assumes "\<And>s. P s \<Longrightarrow> P (fst (f s))" "\<And>s. P s \<Longrightarrow> P (fst (g s))" "P s"
  shows "P (fst (and_then f g s))"
proof -
  obtain t r where t: "f s = (t, r)" by fastforce
  then have "P t" using assms(1) [OF assms(3)] by simp
  with t assms(2) [of t] show ?thesis by (cases r) (simp_all add: and_then_def)
qed

lemma pair_keeps:
  assumes "tracked app obj t"
  shows "tracked app obj (fst (and_then (envConfigMap d app e) (envSecret d app e) t))"
    and "tracked app obj (fst (and_then (volConfigMap d app v) (volSecret d app v) t))"
  using assms by (auto intro!: and_then_inv [where P = "tracked app obj"] intro: reference_steps_keep)

lemma container_keeps:
  assumes "tracked app obj t"
  shows "tracked app obj (fst (for_err (\<lambda>env. and_then (envConfigMap d app env) (envSecret d app env)) es t))"
  by (rule for_err_invariant [where P = "tracked app obj"], erule pair_keeps(1), rule assms)

lemma iterate_keeps [inv_intros]:
  assumes "tracked app obj hc"
  shows "tracked app obj (fst (iterateEnvVars d app dep hc))"
    and "tracked app obj (fst (iterateVolumes d app dep hc))"
  unfolding iterateEnvVars_def iterateVolumes_def
  using container_keeps pair_keeps(2) assms
  by (metis (mono_tags, lifting) for_err_invariant)+

text \<open>A loop that succeeds ran its body, with success, on every element; what one body establishes
  and all keep holds at the end.\<close>

lemma for_err_established:
  assumes "for_err body xs s = (s', None)" "x \<in> set xs"
    and "\<And>t t'. body x t = (t', None) \<Longrightarrow> P t'" "\<And>y t. P t \<Longrightarrow> P (fst (body y t))"
  shows "P s'"
  using assms(1,2)
proof (induction xs arbitrary: s)
  case (Cons y ys)
  then obtain t where t: "body y s = (t, None)" "for_err body ys t = (s', None)"
    by (auto split: prod.splits option.splits)
  show ?case
  proof (cases "y = x")
    case True
    with t(1) assms(3) have "P t" by blast
    then have "P (fst (for_err body ys t))" using assms(4) by (intro for_err_invariant [where P = P])
    with t(2) show ?thesis by simp
  next
    case False
    with Cons.prems(2) t(2) show ?thesis using Cons.IH by simp
  qed
qed simp

lemma and_then_success:
  "and_then f g s = (s', None) \<longleftrightarrow> (\<exists>t. f s = (t, None) \<and> g t = (s', None))"
  by (auto simp: and_then_def split: prod.splits option.splits)

lemma and_then_first:
  assumes "and_then f g s = (s', None)" "\<And>t t'. f t = (t', None) \<Longrightarrow> P t'" "\<And>t. P t \<Longrightarrow> P (fst (g t))"
  shows "P s'"
  using assms unfolding and_then_success by (metis fst_conv)

lemma and_then_second:
  assumes "and_then f g s = (s', None)" "\<And>t t'. g t = (t', None) \<Longrightarrow> P t'"
  shows "P s'"
  using assms unfolding and_then_success by blast

lemma track_reference_tracks:
  assumes "track_reference d app name getObj what hc = (hc', None)" "name \<noteq> app_Name app"
    and "getObj (NN name (app_Namespace app)) = Inr obj" "restart_wanted (hd_Loaded d) obj"
    and "hd_MarshalData d (ko_Data obj) = Inr json"
  shows "tracked app obj hc'"
proof -
  obtain c' ch where reg: "CreateOrUpdateObject (hd_Sha d) (hd_MarshalData d) (hd_Stack d) obj False hc = (c', Inr ch)"
  proof -
    have "\<exists>c' ch. CreateOrUpdateObject (hd_Sha d) (hd_MarshalData d) (hd_Stack d) obj False hc = (c', Inr ch)"
      by (cases "map_of hc (ident_of obj)"; cases "ko_Kind obj = KOther")
        (auto simp: CreateOrUpdateObject_def assms(5))
    then show ?thesis using that by blast
  qed
  have "hc' = fst (hcache.track (hd_Sha d) (hd_MarshalData d) (hd_Stack d) (hd_Loaded d) (AppObject app) obj False hc)"
    using assms(1-3) by (simp add: track_reference_def hcache.track_def reg)
  with hcache.track_associates [OF reg, of "hd_Loaded d"] assms(4) show ?thesis
    unfolding tracked_def by blast
qed

lemma env_steps_track:
  assumes "name \<noteq> app_Name app" "getObj (NN name (app_Namespace app)) = Inr obj"
    and "restart_wanted (hd_Loaded d) obj" "hd_MarshalData d (ko_Data obj) = Inr json"
  shows "\<lbrakk>envConfigMap d app e hc = (hc', None); getObj = hd_GetConfigMap d; ev_ValueFrom e = Some src;
      evs_ConfigMapKeyRef src = Some ref; ks_Name ref = name\<rbrakk> \<Longrightarrow> tracked app obj hc'"
    and "\<lbrakk>envSecret d app e hc = (hc', None); getObj = hd_GetSecret d; ev_ValueFrom e = Some src;
      evs_SecretKeyRef src = Some ref; ks_Name ref = name\<rbrakk> \<Longrightarrow> tracked app obj hc'"
    and "\<lbrakk>volConfigMap d app v hc = (hc', None); getObj = hd_GetConfigMap d; vol_ConfigMap v = Some vsrc;
      vs_Name vsrc = name\<rbrakk> \<Longrightarrow> tracked app obj hc'"
    and "\<lbrakk>volSecret d app v hc = (hc', None); getObj = hd_GetSecret d; vol_Secret v = Some vsrc;
      vs_Name vsrc = name\<rbrakk> \<Longrightarrow> tracked app obj hc'"
  using track_reference_tracks [where getObj = getObj, OF _ assms] 
  by (auto simp: envConfigMap_def envSecret_def volConfigMap_def volSecret_def)

lemma deployment_references_tracked:
  assumes "and_then (iterateEnvVars d app dep) (iterateVolumes d app dep) hc = (hc', None)"
    and "(name, getObj) \<in> references d dep" "name \<noteq> app_Name app" "getObj (NN name (app_Namespace app)) = Inr obj"
    and "restart_wanted (hd_Loaded d) obj" "hd_MarshalData d (ko_Data obj) = Inr json"
  shows "tracked app obj hc'"
proof -
  note steps = env_steps_track [where getObj = getObj, OF assms(3-6)]
  consider (env) c e src where "c \<in> set (pt_Containers (kd_Template dep))" "e \<in> set (ct_Env c)"
      "ev_ValueFrom e = Some src"
      "(\<exists>ref. evs_ConfigMapKeyRef src = Some ref \<and> ks_Name ref = name \<and> getObj = hd_GetConfigMap d)
       \<or> (\<exists>ref. evs_SecretKeyRef src = Some ref \<and> ks_Name ref = name \<and> getObj = hd_GetSecret d)"
    | (vol) v vsrc where "v \<in> set (pt_Volumes (kd_Template dep))" "vs_Name vsrc = name"
      "vol_ConfigMap v = Some vsrc \<and> getObj = hd_GetConfigMap d \<or> vol_Secret v = Some vsrc \<and> getObj = hd_GetSecret d"
    using assms(2) unfolding references_def by blast
  then show ?thesis
  proof cases
    case env
    have one: "tracked app obj t'" if "and_then (envConfigMap d app e) (envSecret d app e) t = (t', None)" for t t'
      using env(4)
    proof (elim disjE exE conjE)
      fix ref
      assume "evs_ConfigMapKeyRef src = Some ref" "ks_Name ref = name" "getObj = hd_GetConfigMap d"
      with steps(1) env(3) show ?thesis
        by (intro and_then_first [where P = "tracked app obj", OF that] reference_steps_keep(2))
    next
      fix ref
      assume "evs_SecretKeyRef src = Some ref" "ks_Name ref = name" "getObj = hd_GetSecret d"
      with steps(2) env(3) show ?thesis
        by (intro and_then_second [where P = "tracked app obj", OF that])
    qed
    have cont: "tracked app obj t'"
      if "for_err (\<lambda>env. and_then (envConfigMap d app env) (envSecret d app env)) (ct_Env c) t = (t', None)" for t t'
      using one pair_keeps(1) by (intro for_err_established [where P = "tracked app obj", OF that env(2)])
    have "tracked app obj t'" if "iterateEnvVars d app dep t = (t', None)" for t t'
      using cont container_keeps
      by (intro for_err_established [where P = "tracked app obj", OF that [unfolded iterateEnvVars_def] env(1)])
    then show ?thesis
      by (intro and_then_first [where P = "tracked app obj", OF assms(1)] iterate_keeps(2))
  next
    case vol
    have one: "tracked app obj t'" if "and_then (volConfigMap d app v) (volSecret d app v) t = (t', None)" for t t'
      using vol(3)
    proof (elim disjE conjE)
      assume "vol_ConfigMap v = Some vsrc" "getObj = hd_GetConfigMap d"
      with steps(3) vol(2) show ?thesis
        by (intro and_then_first [where P = "tracked app obj", OF that] reference_steps_keep(4))
    next
      assume "vol_Secret v = Some vsrc" "getObj = hd_GetSecret d"
      with steps(4) vol(2) show ?thesis
        by (intro and_then_second [where P = "tracked app obj", OF that])
    qed
    have "tracked app obj t'" if "iterateVolumes d app dep t = (t', None)" for t t'
      using one pair_keeps(2)
      by (intro for_err_established [where P = "tracked app obj", OF that [unfolded iterateVolumes_def] vol(1)])
    then show ?thesis by (intro and_then_second [where P = "tracked app obj", OF assms(1)])
  qed
qed

text \<open>
  After the hash cache was updated for an app without error, every config map and secret that an
  environment variable or a volume of one of its deployments refers to, that exists, is not the
  app's own secret, carries the restart annotation and can be encoded, is recorded in the cache
  with the app among its users; so its hash enters the app's combined hash.
\<close>

theorem referenced_objects_tracked:
  assumes "updateHashCache d dList app hc = (hc', None)" "dep \<in> set dList"
    and "(name, getObj) \<in> references d dep" "name \<noteq> app_Name app" "getObj (NN name (app_Namespace app)) = Inr obj"
    and "restart_wanted (hd_Loaded d) obj" "hd_MarshalData d (ko_Data obj) = Inr json"
  shows "ident_of obj \<in> assoc_idents (AppObject app) hc'"
proof -
  have "tracked app obj hc'"
  proof (rule for_err_established [where P = "tracked app obj", OF assms(1) [unfolded updateHashCache_def] assms(2)])
    show "tracked app obj t'" if "and_then (iterateEnvVars d app dep) (iterateVolumes d app dep) t = (t', None)" for t t'
      using deployment_references_tracked [where getObj = getObj, OF that assms(3-7)] .
    show "tracked app obj (fst (and_then (iterateEnvVars d app y) (iterateVolumes d app y) t))" if "tracked app obj t" for y t
      using that by (auto intro!: and_then_inv [where P = "tracked app obj"] intro: iterate_keeps)
  qed
  then show ?thesis by (auto simp: tracked_def assoc_idents_def)
qed

lemma app_SetObjectMeta_simps:
  "app_SetObjectMeta i om = (i', om') \<Longrightarrow> om_Name om' = app_Name i \<and> om_Namespace om' = app_Namespace i
     \<and> app_Name i' = app_Name i \<and> app_Namespace i' = app_Namespace i"
  by (auto simp: app_SetObjectMeta_def app_GetLabels_def Let_def)

lemma persistConfig_success:
  assumes "persistConfig d env s = (s', Inr hash)"
  defines "super \<equiv> \<lambda>o'. GetSuperHashForClowdObject (hd_Sha d) (hd_Sort d) (hd_Iter d) o' (hs_Cache s')"
  shows "\<exists>json secret nn k0 w1. hd_MarshalConfig d (hs_Config s') = Inr json \<and> hash = hd_Sha d json
      \<and> cfg_HashCache (hs_Config s') = Some (super (AppObject (hs_App s)) @ super (EnvObject env))
      \<and> sec_Data secret = [''cdappconfig.json'' \<mapsto> json]
      \<and> om_Name (sec_ObjectMeta secret) = app_Name (hs_App s)
      \<and> om_Namespace (sec_ObjectMeta secret) = app_Namespace (hs_App s)
      \<and> hd_CreateSecret d nn (hs_World s) = (w1, Inr k0) \<and> hd_UpdateSecret d secret w1 = (hs_World s', None)"
proof -
  obtain w1 secret0 json app' om where p:
    "hd_MarshalConfig d (hs_Config s') = Inr json" "hash = hd_Sha d json"
    "cfg_HashCache (hs_Config s') = Some (super (AppObject (hs_App s)) @ super (EnvObject env))"
    "app_SetObjectMeta (hs_App s) (sec_ObjectMeta secret0) = (app', om)"
    "hd_CreateSecret d (NN (app_Name (hs_App s)) (app_Namespace (hs_App s))) (hs_World s) = (w1, Inr secret0)"
    "hd_UpdateSecret d (secret0\<lparr>sec_Data := [''cdappconfig.json'' \<mapsto> json], sec_ObjectMeta := om\<rparr>) w1 = (hs_World s', None)"
    using assms(1) unfolding super_def
    by (auto simp: persistConfig_def Let_def split: prod.splits sum.splits option.splits)
  have "om_Name om = app_Name (hs_App s) \<and> om_Namespace om = app_Namespace (hs_App s)"
    using app_SetObjectMeta_simps [OF p(4)] by simp
  with p(1-3,5,6) show ?thesis
    by (intro exI [of _ json] exI [of _ "secret0\<lparr>sec_Data := [''cdappconfig.json'' \<mapsto> json], sec_ObjectMeta := om\<rparr>"]
        exI [of _ "NN (app_Name (hs_App s)) (app_Namespace (hs_App s))"] exI [of _ secret0] exI [of _ w1]) simp
qed

section \<open>What is stamped\<close>

text \<open>
  The laws of the resource cache for the three kinds the provider writes: an update records the object under its name and leaves the other kinds alone, creating a secret records nothing, and a list
  has exactly the recorded objects. \<open>UpdateAnnotations\<close> adds the given annotations, overriding those of the same key.
\<close>

abbreviation om_NN :: "ObjectMeta \<Rightarrow> NamespacedName" where
  "om_NN m \<equiv> NN (om_Name m) (om_Namespace m)"

definition lists_exactly :: "('k \<Rightarrow> NamespacedName) \<Rightarrow> ('w \<Rightarrow> goerr + 'k list) \<Rightarrow> ('w \<Rightarrow> NamespacedName \<rightharpoonup> 'k) \<Rightarrow> bool" where
  "lists_exactly name_of list recorded = (\<forall>w ks nn k. list w = Inr ks \<longrightarrow> (recorded w nn = Some k \<longleftrightarrow> k \<in> set ks \<and> name_of k = nn))"

definition records_only ::
  "('k \<Rightarrow> NamespacedName) \<Rightarrow> ('k \<Rightarrow> 'w \<Rightarrow> 'w \<times> goerr option) \<Rightarrow> ('w \<Rightarrow> NamespacedName \<rightharpoonup> 'k) \<Rightarrow> ('w \<Rightarrow> 'x) \<Rightarrow> ('w \<Rightarrow> 'y) \<Rightarrow> bool" where
  "records_only name_of update recorded other1 other2 = (\<forall>k w w'. update k w = (w', None) \<longrightarrow>
     recorded w' = (recorded w)(name_of k \<mapsto> k) \<and> other1 w' = other1 w \<and> other2 w' = other2 w)"

definition stamping_cache ::
  "'w HashDeps \<Rightarrow> ('w \<Rightarrow> NamespacedName \<rightharpoonup> KSecretObj) \<Rightarrow> ('w \<Rightarrow> NamespacedName \<rightharpoonup> KDeployment) \<Rightarrow> ('w \<Rightarrow> NamespacedName \<rightharpoonup> KCronJob) \<Rightarrow> bool" where
  "stamping_cache d secrets deployments cronjobs =
     (records_only (\<lambda>k. om_NN (sec_ObjectMeta k)) (hd_UpdateSecret d) secrets deployments cronjobs
      \<and> records_only (\<lambda>k. om_NN (kd_ObjectMeta k)) (hd_UpdateDeployment d) deployments secrets cronjobs
      \<and> records_only (\<lambda>k. om_NN (kc_ObjectMeta k)) (hd_UpdateCronJob d) cronjobs secrets deployments
      \<and> (\<forall>nn w w' k. hd_CreateSecret d nn w = (w', Inr k) \<longrightarrow> secrets w' = secrets w \<and> deployments w' = deployments w \<and> cronjobs w' = cronjobs w)
      \<and> lists_exactly (\<lambda>k. om_NN (kd_ObjectMeta k)) (hd_ListDeployments d) deployments
      \<and> lists_exactly (\<lambda>k. om_NN (kc_ObjectMeta k)) (hd_ListCronJobs d) cronjobs
      \<and> (\<forall>m t. hd_UpdateAnnotations d m t = t\<lparr>pt_Annotations := pt_Annotations t ++ m\<rparr>))"

text \<open>Updating every listed object with a function that keeps its name applies that function to everything that is recorded.\<close>

lemma update_listed:
  assumes "records_only name_of update recorded other1 other2" and "\<And>k. name_of (f k) = name_of k"
    and "for_err (\<lambda>k. update (f k)) ks w = (w', None)" and "\<And>k. k \<in> set ks \<Longrightarrow> R (name_of k) = Some k"
  shows "(\<forall>nn. recorded w' nn = (if nn \<in> name_of ` set ks then map_option f (R nn) else recorded w nn)) \<and> other1 w' = other1 w \<and> other2 w' = other2 w"
  using assms(3,4)
proof (induction ks arbitrary: w)
  case (Cons k ks)
  from Cons.prems(1) obtain w1 where u: "update (f k) w = (w1, None)" and rest: "for_err (\<lambda>k. update (f k)) ks w1 = (w', None)"
    by (auto split: prod.splits option.splits)
  have "recorded w1 = (recorded w)(name_of k \<mapsto> f k) \<and> other1 w1 = other1 w \<and> other2 w1 = other2 w"
    using assms(1,2) u unfolding records_only_def by metis
  with Cons.IH [OF rest] Cons.prems(2) show ?case by auto
qed simp

lemma all_stamped:
  assumes "records_only name_of update recorded other1 other2" and "lists_exactly name_of list recorded" and "\<And>k. name_of (f k) = name_of k"
    and "list w = Inr ks" and "for_err (\<lambda>k. update (f k)) ks w = (w', None)"
  shows "recorded w' = (\<lambda>nn. map_option f (recorded w nn))" and "other1 w' = other1 w" and "other2 w' = other2 w"
proof -
  have rec: "recorded w nn = Some k \<longleftrightarrow> k \<in> set ks \<and> name_of k = nn" for nn k
    using assms(2,4) unfolding lists_exactly_def by blast
  then have "k \<in> set ks \<Longrightarrow> recorded w (name_of k) = Some k" for k by simp
  note all = update_listed [where R = "recorded w", OF assms(1,3,5) this]
  show "other1 w' = other1 w" "other2 w' = other2 w" using all by simp_all
  have "recorded w nn = None" if "nn \<notin> name_of ` set ks" for nn
    using rec that by (metis image_eqI not_Some_eq)
  with all show "recorded w' = (\<lambda>nn. map_option f (recorded w nn))" by auto
qed

text \<open>
  C6. When the provider succeeds, the configuration it leaves behind carries the combined hashes of the app and of the environment; the secret recorded under the name of the app holds exactly the JSON of
  that configuration; and the deployments and cron jobs that were recorded are recorded still, changed in nothing but that the pods of every one of them are annotated with the
  hash of that same JSON.
\<close>

theorem config_hash_consistent:
  assumes cache: "stamping_cache d secrets deployments cronjobs" and run: "confighash_Provide d env s = (s', None)"
  shows "\<exists>json secret. hd_MarshalConfig d (hs_Config s') = Inr json
      \<and> cfg_HashCache (hs_Config s') =
          Some (GetSuperHashForClowdObject (hd_Sha d) (hd_Sort d) (hd_Iter d) (AppObject (hs_App s)) (hs_Cache s')
              @ GetSuperHashForClowdObject (hd_Sha d) (hd_Sort d) (hd_Iter d) (EnvObject env) (hs_Cache s'))
      \<and> secrets (hs_World s') (NN (app_Name (hs_App s)) (app_Namespace (hs_App s))) = Some secret \<and> sec_Data secret = [''cdappconfig.json'' \<mapsto> json]
      \<and> deployments (hs_World s') = (\<lambda>nn. map_option (\<lambda>k. k\<lparr>kd_Template := (kd_Template k)\<lparr>pt_Annotations :=
            (pt_Annotations (kd_Template k))(''configHash'' \<mapsto> hd_Sha d json)\<rparr>\<rparr>) (deployments (hs_World s) nn))
      \<and> cronjobs (hs_World s') = (\<lambda>nn. map_option (\<lambda>k. k\<lparr>kc_Template := (kc_Template k)\<lparr>pt_Annotations :=
            (pt_Annotations (kc_Template k))(''configHash'' \<mapsto> hd_Sha d json)\<rparr>\<rparr>) (cronjobs (hs_World s) nn))"
proof -
  obtain s1 hash where p: "persistConfig d env s = (s1, Inr hash)"
    using run by (auto simp: confighash_Provide_def split: prod.splits sum.splits)
  obtain dList w3 jList where r: "hd_ListDeployments d (hs_World s1) = Inr dList"
      "for_err (\<lambda>dep. hd_UpdateDeployment d (stamp_deployment d hash dep)) dList (hs_World s1) = (w3, None)"
      "hd_ListCronJobs d w3 = Inr jList"
      "for_err (\<lambda>j. hd_UpdateCronJob d (stamp_cronjob d hash j)) jList w3 = (hs_World s', None)"
      "hs_Config s' = hs_Config s1" "hs_Cache s' = hs_Cache s1"
    using run by (auto simp: confighash_Provide_def p split: prod.splits sum.splits option.splits)
  from cache have laws: "records_only (\<lambda>k. om_NN (sec_ObjectMeta k)) (hd_UpdateSecret d) secrets deployments cronjobs"
      "records_only (\<lambda>k. om_NN (kd_ObjectMeta k)) (hd_UpdateDeployment d) deployments secrets cronjobs"
      "records_only (\<lambda>k. om_NN (kc_ObjectMeta k)) (hd_UpdateCronJob d) cronjobs secrets deployments"
      "\<And>nn w w' k. hd_CreateSecret d nn w = (w', Inr k) \<Longrightarrow> secrets w' = secrets w \<and> deployments w' = deployments w \<and> cronjobs w' = cronjobs w"
      "lists_exactly (\<lambda>k. om_NN (kd_ObjectMeta k)) (hd_ListDeployments d) deployments"
      "lists_exactly (\<lambda>k. om_NN (kc_ObjectMeta k)) (hd_ListCronJobs d) cronjobs"
    and ann: "hd_UpdateAnnotations d m t = t\<lparr>pt_Annotations := pt_Annotations t ++ m\<rparr>" for m t
    unfolding stamping_cache_def by blast+
  from persistConfig_success [OF p] obtain json secret w0 k0 w1 where c: "hd_MarshalConfig d (hs_Config s1) = Inr json" "hash = hd_Sha d json"
      "cfg_HashCache (hs_Config s1) = Some (GetSuperHashForClowdObject (hd_Sha d) (hd_Sort d) (hd_Iter d) (AppObject (hs_App s)) (hs_Cache s1)
        @ GetSuperHashForClowdObject (hd_Sha d) (hd_Sort d) (hd_Iter d) (EnvObject env) (hs_Cache s1))"
      "sec_Data secret = [''cdappconfig.json'' \<mapsto> json]" "om_NN (sec_ObjectMeta secret) = NN (app_Name (hs_App s)) (app_Namespace (hs_App s))"
      "hd_CreateSecret d w0 (hs_World s) = (w1, Inr k0)" "hd_UpdateSecret d secret w1 = (hs_World s1, None)" by auto
  have s1: "secrets (hs_World s1) = (secrets w1)(NN (app_Name (hs_App s)) (app_Namespace (hs_App s)) \<mapsto> secret)"
      "deployments (hs_World s1) = deployments (hs_World s)" "cronjobs (hs_World s1) = cronjobs (hs_World s)"
    using laws(1,4) c(5-7) unfolding records_only_def by (metis (no_types, lifting))+
  have names: "om_NN (kd_ObjectMeta (stamp_deployment d hash dep)) = om_NN (kd_ObjectMeta dep)" "om_NN (kc_ObjectMeta (stamp_cronjob d hash j)) = om_NN (kc_ObjectMeta j)" for dep j
    by (simp_all add: stamp_deployment_def stamp_cronjob_def)
  note dep = all_stamped [OF laws(2,5) names(1) r(1,2)] and cron = all_stamped [OF laws(3,6) names(2) r(3,4)]
  have stamps: "stamp_deployment d hash = (\<lambda>k. k\<lparr>kd_Template := (kd_Template k)\<lparr>pt_Annotations := (pt_Annotations (kd_Template k))(''configHash'' \<mapsto> hash)\<rparr>\<rparr>)"
      "stamp_cronjob d hash = (\<lambda>k. k\<lparr>kc_Template := (kc_Template k)\<lparr>pt_Annotations := (pt_Annotations (kc_Template k))(''configHash'' \<mapsto> hash)\<rparr>\<rparr>)"
    by (simp_all add: fun_eq_iff stamp_deployment_def stamp_cronjob_def ann)
  show ?thesis
    by (intro exI [of _ json] exI [of _ secret]) (use c r(5,6) s1 dep cron stamps in simp)
qed

section \<open>Witnesses\<close>

definition sample_loaded :: ClowderConfig where
  "sample_loaded = ClowderConfig_zero\<lparr>cc_Settings :=
     (cc_Settings ClowderConfig_zero)\<lparr>set_RestarterAnnotationName := ''qontract.recycle''\<rparr>\<rparr>"

definition sample_configmap :: KObject where
  "sample_configmap = \<lparr>ko_Kind = KConfigMap, ko_ObjectMeta = ObjectMeta_zero\<lparr>om_Name := ''cfg'', om_Namespace := ''ns'',
     om_Annotations := [''qontract.recycle'' \<mapsto> ''true'']\<rparr>, ko_Data = [''k'' \<mapsto> ''v'']\<rparr>"

definition sample_deployment :: KDeployment where
  "sample_deployment = KDeployment_zero\<lparr>kd_Template := PodTemplate_zero\<lparr>
     pt_Containers := [Container_zero\<lparr>ct_Env := [\<lparr>ev_Name = ''K'', ev_Value = '''', ev_ValueFrom =
       Some \<lparr>evs_FieldRef = None, evs_ConfigMapKeyRef = Some \<lparr>ks_Name = ''cfg'', ks_Key = ''k'', ks_Optional = None\<rparr>,
             evs_SecretKeyRef = None\<rparr>\<rparr>]\<rparr>]\<rparr>\<rparr>"

definition sample_deps :: "unit HashDeps" where
  "sample_deps = \<lparr>hd_Loaded = sample_loaded, hd_Stack = '''', hd_Sha = (\<lambda>s. s), hd_MarshalData = (\<lambda>m. Inr (mget m ''k'')),
     hd_MarshalConfig = (\<lambda>c. Inr ''json''), hd_Sort = sort_slice ident_less, hd_Iter = (\<lambda>ks. ks),
     hd_GetConfigMap = (\<lambda>nn. if nn = NN ''cfg'' ''ns'' then Inr sample_configmap else Inl (NotFound '''')),
     hd_GetSecret = (\<lambda>nn. Inl (NotFound '''')), hd_CreateSecret = (\<lambda>nn w. (w, Inr KSecretObj_zero)),
     hd_UpdateSecret = (\<lambda>s w. (w, None)), hd_ListDeployments = (\<lambda>w. Inr [sample_deployment]),
     hd_UpdateDeployment = (\<lambda>dep w. (w, None)), hd_ListCronJobs = (\<lambda>w. Inr []), hd_UpdateCronJob = (\<lambda>j w. (w, None)),
     hd_UpdateAnnotations = (\<lambda>m t. t\<lparr>pt_Annotations := pt_Annotations t ++ m\<rparr>)\<rparr>"

lemma sample_update: "\<exists>hc'. updateHashCache sample_deps [sample_deployment] sample_user NewHashCache = (hc', None)"
  by (simp add: updateHashCache_def and_then_def iterateEnvVars_def iterateVolumes_def envConfigMap_def
      envSecret_def track_reference_def sample_deployment_def sample_deps_def sample_user_def
      sample_configmap_def KDeployment_zero_def PodTemplate_zero_def
      CreateOrUpdateObject_def AddClowdObjectToObject_def NewHashCache_def split: if_split)

theorem referenced_objects_tracked_witness:
  "\<exists>hc'. updateHashCache sample_deps [sample_deployment] sample_user NewHashCache = (hc', None)
     \<and> ident_of sample_configmap \<in> assoc_idents (AppObject sample_user) hc'"
proof -
  obtain hc' where r: "updateHashCache sample_deps [sample_deployment] sample_user NewHashCache = (hc', None)"
    using sample_update by blast
  have "(''cfg'', hd_GetConfigMap sample_deps) \<in> references sample_deps sample_deployment"
    by (auto simp: references_def sample_deployment_def PodTemplate_zero_def Container_zero_def)
  from referenced_objects_tracked [OF r _ this, of sample_configmap "''v''"]
  have "ident_of sample_configmap \<in> assoc_idents (AppObject sample_user) hc'"
    by (simp add: sample_user_def sample_deps_def restart_wanted_def sample_configmap_def sample_loaded_def)
  with r show ?thesis by blast
qed

text \<open>A resource cache with the secrets, one deployment and one cron job.\<close>

type_synonym stamp_world = "(NamespacedName \<rightharpoonup> KSecretObj) \<times> KDeployment \<times> KCronJob"

definition slot :: "('k \<Rightarrow> NamespacedName) \<Rightarrow> 'k \<Rightarrow> NamespacedName \<rightharpoonup> 'k" where
  "slot name_of k nn = (if name_of k = nn then Some k else None)"

definition stamp_deps :: "stamp_world HashDeps" where
  "stamp_deps = \<lparr>hd_Loaded = sample_loaded, hd_Stack = '''', hd_Sha = (\<lambda>s. ''sha of '' @ s), hd_MarshalData = (\<lambda>m. Inr (mget m ''k'')),
     hd_MarshalConfig = (\<lambda>c. Inr ''json''), hd_Sort = sort_slice ident_less, hd_Iter = (\<lambda>ks. ks),
     hd_GetConfigMap = (\<lambda>nn. Inl (NotFound '''')), hd_GetSecret = (\<lambda>nn. Inl (NotFound '''')), hd_CreateSecret = (\<lambda>nn w. (w, Inr KSecretObj_zero)),
     hd_UpdateSecret = (\<lambda>k (s, dep, j). ((s(om_NN (sec_ObjectMeta k) \<mapsto> k), dep, j), None)),
     hd_ListDeployments = (\<lambda>(s, dep, j). Inr [dep]),
     hd_UpdateDeployment = (\<lambda>k (s, dep, j). if om_NN (kd_ObjectMeta k) = om_NN (kd_ObjectMeta dep) then ((s, k, j), None) else ((s, dep, j), Some (PlainErr ''none''))),
     hd_ListCronJobs = (\<lambda>(s, dep, j). Inr [j]),
     hd_UpdateCronJob = (\<lambda>k (s, dep, j). if om_NN (kc_ObjectMeta k) = om_NN (kc_ObjectMeta j) then ((s, dep, k), None) else ((s, dep, j), Some (PlainErr ''none''))),
     hd_UpdateAnnotations = (\<lambda>m t. t\<lparr>pt_Annotations := pt_Annotations t ++ m\<rparr>)\<rparr>"

lemma stamp_deps_laws:
  "stamping_cache stamp_deps fst (\<lambda>w. slot (\<lambda>k. om_NN (kd_ObjectMeta k)) (fst (snd w))) (\<lambda>w. slot (\<lambda>k. om_NN (kc_ObjectMeta k)) (snd (snd w)))"
  by (auto simp: stamping_cache_def records_only_def lists_exactly_def stamp_deps_def slot_def fun_eq_iff split: if_splits)

definition sample_state :: "stamp_world HashState" where
  "sample_state = \<lparr>hs_Cache = NewHashCache, hs_Config = AppConfig_zero, hs_App = sample_user,
     hs_World = (Map.empty, KDeployment_zero\<lparr>kd_ObjectMeta := ObjectMeta_zero\<lparr>om_Name := ''a-web''\<rparr>\<rparr>, KCronJob_zero\<lparr>kc_ObjectMeta := ObjectMeta_zero\<lparr>om_Name := ''a-tidy''\<rparr>\<rparr>)\<rparr>"

theorem config_hash_consistent_witness:
  "\<exists>s' secret dep. confighash_Provide stamp_deps ClowdEnvironment_zero sample_state = (s', None)
     \<and> fst (hs_World s') (NN ''a'' (app_Namespace sample_user)) = Some secret \<and> sec_Data secret = [''cdappconfig.json'' \<mapsto> ''json'']
     \<and> slot (\<lambda>k. om_NN (kd_ObjectMeta k)) (fst (snd (hs_World s'))) (NN ''a-web'' '''') = Some dep
     \<and> pt_Annotations (kd_Template dep) ''configHash'' = Some ''sha of json''"
proof -
  have "\<exists>s'. confighash_Provide stamp_deps ClowdEnvironment_zero sample_state = (s', None)"
    by (simp add: confighash_Provide_def persistConfig_def sample_state_def stamp_deps_def Let_def updateHashCache_def and_then_def iterateEnvVars_def
        iterateVolumes_def KDeployment_zero_def PodTemplate_zero_def stamp_deployment_def stamp_cronjob_def split: prod.split)
  then obtain s' where s': "confighash_Provide stamp_deps ClowdEnvironment_zero sample_state = (s', None)" by blast
  have json: "hd_MarshalConfig stamp_deps c = Inr ''json''" "hd_Sha stamp_deps ''json'' = ''sha of json''" for c by (simp_all add: stamp_deps_def)
  have start: "app_Name (hs_App sample_state) = ''a''" "app_Namespace (hs_App sample_state) = app_Namespace sample_user"
    "slot (\<lambda>k. om_NN (kd_ObjectMeta k)) (fst (snd (hs_World sample_state))) (NN ''a-web'' '''') = Some (fst (snd (hs_World sample_state)))"
    by (simp_all add: sample_state_def sample_user_def slot_def ObjectMeta_zero_def)
  from config_hash_consistent [OF stamp_deps_laws s'] obtain j secret where c: "hd_MarshalConfig stamp_deps (hs_Config s') = Inr j"
      "fst (hs_World s') (NN (app_Name (hs_App sample_state)) (app_Namespace (hs_App sample_state))) = Some secret" "sec_Data secret = [''cdappconfig.json'' \<mapsto> j]"
      "slot (\<lambda>k. om_NN (kd_ObjectMeta k)) (fst (snd (hs_World s'))) = (\<lambda>nn. map_option (\<lambda>k. k\<lparr>kd_Template := (kd_Template k)\<lparr>pt_Annotations :=
         (pt_Annotations (kd_Template k))(''configHash'' \<mapsto> hd_Sha stamp_deps j)\<rparr>\<rparr>) (slot (\<lambda>k. om_NN (kd_ObjectMeta k)) (fst (snd (hs_World sample_state))) nn))" by blast
  have "j = ''json''" using c(1) json(1) by simp
  with c(2-4) s' show ?thesis by (simp add: json(2) start)
qed

end
