(* ===== verification/Resource_Status.thy ===== *)
theory Resource_Status
  imports Crd_Env Clowder_Config
begin

text \<open>
  Resource figures and status conditions, \<open>controllers/cloud.redhat.com/status.go\<close>. Counters are
  32-bit words, as in the code. Listing is a parameter; so are \<open>Set\<close> and \<open>Delete\<close> of the
  cluster-api conditions package, the clock and the status update. Dereferencing a nil replica
  count is the result \<open>None\<close>, which every caller passes on. \<open>Semantic.DeepEqual\<close> is equality.

  The facts: what the counters and the message are in terms of the owned resources, which
  conditions and ready flag a status update leaves, and how these relate to \<open>IsReady\<close>.
\<close>

section \<open>Status checks\<close>

fun deployment_available :: "KDeployment \<Rightarrow> (string \<times> string) list \<Rightarrow> bool option" where
  "deployment_available d [] = Some False"
| "deployment_available d ((t, st) # cs) =
     (if t = ''Available'' \<and> st = ''True''
      then (case kd_Replicas d of
              None \<Rightarrow> None
            | Some r \<Rightarrow> if kds_AvailableReplicas (kd_Status d) = r \<and> kds_UpdatedReplicas (kd_Status d) = r
                        then Some True else deployment_available d cs)
      else deployment_available d cs)"

definition deploymentStatusChecker :: "KDeployment \<Rightarrow> bool option" where
  "deploymentStatusChecker d =
     (if om_Generation (kd_ObjectMeta d) > kds_ObservedGeneration (kd_Status d) then Some False
      else deployment_available d (kds_Conditions (kd_Status d)))"

text \<open>The Strimzi checks are three copies of one function.\<close>

definition strimziStatusChecker :: "StrimziObject \<Rightarrow> bool" where
  "strimziStatusChecker k =
     (case so_Status k of
        None \<Rightarrow> False
      | Some st \<Rightarrow>
          (if (case ss_ObservedGeneration st of None \<Rightarrow> False | Some g \<Rightarrow> om_Generation (so_ObjectMeta k) > g)
           then False
           else scan (\<lambda>(t, s). t = Some ''Ready'' \<and> s = Some ''True'') (ss_Conditions st)))"

definition kafkaStatusChecker :: "StrimziObject \<Rightarrow> bool" where
  "kafkaStatusChecker k = strimziStatusChecker k"

definition kafkaTopicStatusChecker :: "StrimziObject \<Rightarrow> bool" where
  "kafkaTopicStatusChecker k = strimziStatusChecker k"

definition kafkaConnectStatusChecker :: "StrimziObject \<Rightarrow> bool" where
  "kafkaConnectStatusChecker k = strimziStatusChecker k"

section \<open>Counting\<close>

fun list_namespaces :: "(string \<Rightarrow> goerr + 'r list) \<Rightarrow> string list \<Rightarrow> goerr + 'r list" where
  "list_namespaces ls [] = Inr []"
| "list_namespaces ls (ns # nss) =
     (case ls ns of
        Inl err \<Rightarrow> Inl err
      | Inr items \<Rightarrow> (case list_namespaces ls nss of Inl err \<Rightarrow> Inl err | Inr rest \<Rightarrow> Inr (items @ rest)))"

definition owns :: "string \<Rightarrow> ObjectMeta \<Rightarrow> bool" where
  "owns uid om = scan (\<lambda>owner. or_UID owner = uid) (om_OwnerReferences om)"

type_synonym counts = "32 word \<times> 32 word \<times> string list"

fun count_owned :: "('r \<Rightarrow> bool option) \<Rightarrow> ('r \<Rightarrow> ObjectMeta) \<Rightarrow> string \<Rightarrow> 'r list \<Rightarrow> counts \<Rightarrow> counts option" where
  "count_owned check meta uid [] acc = Some acc"
| "count_owned check meta uid (r # rs) (managed, ready, broken) =
     (if owns uid (meta r)
      then (case check r of
              None \<Rightarrow> None
            | Some True \<Rightarrow> count_owned check meta uid rs (managed + 1, ready + 1, broken)
            | Some False \<Rightarrow> count_owned check meta uid rs
                (managed + 1, ready, broken @ [om_Name (meta r) @ ''/'' @ om_Namespace (meta r)]))
      else count_owned check meta uid rs (managed, ready, broken))"

definition count_resources ::
  "string \<Rightarrow> (string list \<Rightarrow> string list) \<Rightarrow> ('r \<Rightarrow> bool option) \<Rightarrow> ('r \<Rightarrow> ObjectMeta) \<Rightarrow> (string \<Rightarrow> goerr + 'r list)
    \<Rightarrow> string \<Rightarrow> string list \<Rightarrow> (goerr + 32 word \<times> 32 word \<times> string) option" where
  "count_resources label arrange check meta ls uid namespaces =
     (case list_namespaces ls namespaces of
        Inl err \<Rightarrow> Some (Inl err)
      | Inr rs \<Rightarrow>
          (case count_owned check meta uid rs (0, 0, []) of
             None \<Rightarrow> None
           | Some (managed, ready, broken) \<Rightarrow>
               Some (Inr (managed, ready,
                 if broken \<noteq> [] then ''broken '' @ label @ '': ['' @ join '', '' (arrange broken) @ '']'' else ''''))))"

text \<open>Broken deployments and topics are sorted, broken Kafkas and connects are not.\<close>

definition countDeployments ::
  "(string \<Rightarrow> goerr + KDeployment list) \<Rightarrow> ClowdObject \<Rightarrow> string list \<Rightarrow> (goerr + 32 word \<times> 32 word \<times> string) option" where
  "countDeployments ls o' namespaces =
     count_resources ''deployments'' sort deploymentStatusChecker kd_ObjectMeta ls (co_GetUID o') namespaces"

definition countKafkas ::
  "(string \<Rightarrow> goerr + StrimziObject list) \<Rightarrow> ClowdObject \<Rightarrow> string list \<Rightarrow> (goerr + 32 word \<times> 32 word \<times> string) option" where
  "countKafkas ls o' namespaces =
     count_resources ''kafkas'' (\<lambda>b. b) (\<lambda>k. Some (kafkaStatusChecker k)) so_ObjectMeta ls (co_GetUID o') namespaces"

definition countKafkaTopics ::
  "(string \<Rightarrow> goerr + StrimziObject list) \<Rightarrow> ClowdObject \<Rightarrow> string list \<Rightarrow> (goerr + 32 word \<times> 32 word \<times> string) option" where
  "countKafkaTopics ls o' namespaces =
     count_resources ''topics'' sort (\<lambda>k. Some (kafkaTopicStatusChecker k)) so_ObjectMeta ls (co_GetUID o') namespaces"

definition countKafkaConnects ::
  "(string \<Rightarrow> goerr + StrimziObject list) \<Rightarrow> ClowdObject \<Rightarrow> string list \<Rightarrow> (goerr + 32 word \<times> 32 word \<times> string) option" where
  "countKafkaConnects ls o' namespaces =
     count_resources ''connects'' (\<lambda>b. b) (\<lambda>k. Some (kafkaConnectStatusChecker k)) so_ObjectMeta ls (co_GetUID o') namespaces"

section \<open>Figures\<close>

text \<open>What the client lists, per kind and namespace, and the lookups of apps and environments.\<close>

record Listings =
  ls_Deployments :: "string \<Rightarrow> goerr + KDeployment list"
  ls_Kafkas :: "string \<Rightarrow> goerr + StrimziObject list"
  ls_Connects :: "string \<Rightarrow> goerr + StrimziObject list"
  ls_Topics :: "string \<Rightarrow> goerr + StrimziObject list"
  ls_Apps :: "string \<Rightarrow> goerr + ClowdApp list"
  ls_Env :: "NamespacedName \<Rightarrow> goerr + ClowdEnvironment"
  ls_Iter :: "string list \<Rightarrow> string list"
  ls_Stack :: string
  ls_Loaded :: ClowderConfig

abbreviation add_msg :: "string \<Rightarrow> string list \<Rightarrow> string list" where
  "add_msg msg msgs \<equiv> (if msg \<noteq> '''' then msgs @ [msg] else msgs)"

definition GetEnvResourceFigures ::
  "Listings \<Rightarrow> ClowdEnvironment \<Rightarrow> (goerr + EnvResourceStatus \<times> string) option" where
  "GetEnvResourceFigures l o' =
     (case env_GetNamespacesInEnv (ls_Iter l) (ls_Apps l) (ls_Stack l) o' of
        Inl err \<Rightarrow> Some (Inl err)
      | Inr namespaces \<Rightarrow>
     (case countDeployments (ls_Deployments l) (EnvObject o') namespaces of
        None \<Rightarrow> None
      | Some (Inl err) \<Rightarrow> Some (Inl err)
      | Some (Inr (m1, r1, msg1)) \<Rightarrow>
          (let finish = (\<lambda>m r mt rt msgs. Some (Inr (\<lparr>ers_ManagedDeployments = m, ers_ReadyDeployments = r,
                 ers_ManagedTopics = mt, ers_ReadyTopics = rt\<rparr>,
                 ''dependency failure: ['' @ join '','' msgs @ '']'')));
               msgs1 = add_msg msg1 []
           in if \<not> feat_WatchStrimziResources (cc_Features (ls_Loaded l))
              then finish (0 + m1) (0 + r1) 0 0 msgs1
              else
     (case countKafkas (ls_Kafkas l) (EnvObject o') namespaces of
        None \<Rightarrow> None
      | Some (Inl err) \<Rightarrow> Some (Inl err)
      | Some (Inr (m2, r2, msg2)) \<Rightarrow>
     (case countKafkaConnects (ls_Connects l) (EnvObject o') namespaces of
        None \<Rightarrow> None
      | Some (Inl err) \<Rightarrow> Some (Inl err)
      | Some (Inr (m3, r3, msg3)) \<Rightarrow>
     (case countKafkaTopics (ls_Topics l) (EnvObject o') namespaces of
        None \<Rightarrow> None
      | Some (Inl err) \<Rightarrow> Some (Inl err)
      | Some (Inr (mt, rt, msg4)) \<Rightarrow>
          finish (0 + m1 + m2 + m3) (0 + r1 + r2 + r3) (0 + mt) (0 + rt)
            (add_msg msg4 (add_msg msg3 (add_msg msg2 msgs1)))))))))"

definition SetEnvResourceStatus :: "Listings \<Rightarrow> ClowdEnvironment \<Rightarrow> (ClowdEnvironment \<times> goerr option) option" where
  "SetEnvResourceStatus l o' =
     (case GetEnvResourceFigures l o' of
        None \<Rightarrow> None
      | Some (Inl err) \<Rightarrow> Some (o', Some err)
      | Some (Inr (stats, _)) \<Rightarrow>
          Some (o'\<lparr>env_Status := (env_Status o')\<lparr>est_Deployments := (est_Deployments (env_Status o'))\<lparr>
             ers_ManagedDeployments := ers_ManagedDeployments stats, ers_ReadyDeployments := ers_ReadyDeployments stats,
             ers_ManagedTopics := ers_ManagedTopics stats, ers_ReadyTopics := ers_ReadyTopics stats\<rparr>\<rparr>\<rparr>, None))"

definition GetAppResourceFigures ::
  "Listings \<Rightarrow> ClowdApp \<Rightarrow> (goerr + AppResourceStatus \<times> string) option" where
  "GetAppResourceFigures l o' =
     (case app_GetNamespacesInEnv (ls_Iter l) (ls_Env l) (ls_Apps l) (ls_Stack l) o' of
        Inl err \<Rightarrow> Some (Inl (Wrap (ls_Stack l) ''get namespaces: '' err))
      | Inr namespaces \<Rightarrow>
          (case countDeployments (ls_Deployments l) (AppObject o') namespaces of
             None \<Rightarrow> None
           | Some (Inl err) \<Rightarrow> Some (Inl (Wrap (ls_Stack l) ''count deploys: '' err))
           | Some (Inr (m, r, msg)) \<Rightarrow>
               Some (Inr (\<lparr>ars_ManagedDeployments = 0 + m, ars_ReadyDeployments = 0 + r\<rparr>,
                 ''dependency failure: ['' @ join '','' (add_msg msg []) @ '']''))))"

definition GetAppResourceStatus :: "Listings \<Rightarrow> ClowdApp \<Rightarrow> (goerr + bool) option" where
  "GetAppResourceStatus l o' =
     (case GetAppResourceFigures l o' of
        None \<Rightarrow> None
      | Some (Inl err) \<Rightarrow> Some (Inl err)
      | Some (Inr (stats, _)) \<Rightarrow> Some (Inr (ars_ManagedDeployments stats = ars_ReadyDeployments stats)))"

definition SetAppResourceStatus :: "Listings \<Rightarrow> ClowdApp \<Rightarrow> (ClowdApp \<times> goerr option) option" where
  "SetAppResourceStatus l o' =
     (case GetAppResourceFigures l o' of
        None \<Rightarrow> None
      | Some (Inl err) \<Rightarrow> Some (o', Some err)
      | Some (Inr (stats, _)) \<Rightarrow>
          Some (o'\<lparr>app_Status := (app_Status o')\<lparr>ast_Deployments := (ast_Deployments (app_Status o'))\<lparr>
             ars_ManagedDeployments := ars_ManagedDeployments stats,
             ars_ReadyDeployments := ars_ReadyDeployments stats\<rparr>\<rparr>\<rparr>, None))"

definition GetEnvResourceStatus :: "Listings \<Rightarrow> ClowdEnvironment \<Rightarrow> (goerr + bool \<times> string) option" where
  "GetEnvResourceStatus l o' =
     (case GetEnvResourceFigures l o' of
        None \<Rightarrow> None
      | Some (Inl err) \<Rightarrow> Some (Inl err)
      | Some (Inr (stats, msg)) \<Rightarrow>
          Some (Inr (ers_ManagedDeployments stats = ers_ReadyDeployments stats
                     \<and> ers_ManagedTopics stats = ers_ReadyTopics stats, msg)))"

section \<open>Conditions\<close>

text \<open>The two reconciliation conditions, in the order of the loop; \<open>now\<close> is the clock.\<close>

definition reconcile_condition :: "int \<Rightarrow> string \<Rightarrow> goerr option \<Rightarrow> string \<Rightarrow> Condition" where
  "reconcile_condition now state err conditionType =
     (let c = Condition_zero\<lparr>cond_Type := conditionType, cond_Status := ConditionFalse,
                cond_Reason := ''ReconciliationNotComplete''\<rparr>;
          c' = (if state = conditionType
                then (let c1 = c\<lparr>cond_Status := ConditionTrue,
                        cond_Reason := (if conditionType = ReconciliationSuccessful then ''ReconciliationSucceeded''
                                        else ''ReconciliationFailed'')\<rparr>
                      in (case err of None \<Rightarrow> c1 | Some e \<Rightarrow> c1\<lparr>cond_Message := Error e\<rparr>))
                else c)
      in c'\<lparr>cond_LastTransitionTime := now\<rparr>)"

definition deployments_condition :: "int \<Rightarrow> bool \<Rightarrow> string \<Rightarrow> goerr option \<Rightarrow> Condition" where
  "deployments_condition now ready notReadyMsg err =
     (let c = (if ready
               then Condition_zero\<lparr>cond_Status := ConditionTrue, cond_Reason := ''DeploymentsReady'',
                      cond_Message := ''All managed deployments ready''\<rparr>
               else Condition_zero\<lparr>cond_Status := ConditionFalse, cond_Reason := ''DeploymentsNotReady'',
                      cond_Message := notReadyMsg\<rparr>);
          c' = (case err of None \<Rightarrow> c | Some e \<Rightarrow> c\<lparr>cond_Message := Error e\<rparr>)
      in c'\<lparr>cond_Type := DeploymentsReady, cond_LastTransitionTime := now\<rparr>)"

definition reconcile_conditions :: "int \<Rightarrow> string \<Rightarrow> goerr option \<Rightarrow> Condition list" where
  "reconcile_conditions now state err =
     map (reconcile_condition now state err) [ReconciliationSuccessful, ReconciliationFailed]"

text \<open>The conditions package: setting a condition in a list, deleting one by its type.\<close>

record CondOps =
  co_Set :: "Condition \<Rightarrow> Condition list \<Rightarrow> Condition list"
  co_Delete :: "string \<Rightarrow> Condition list \<Rightarrow> Condition list"

definition set_conditions :: "CondOps \<Rightarrow> Condition list \<Rightarrow> Condition list \<Rightarrow> Condition list" where
  "set_conditions ops new old =
     foldl (\<lambda>cs c. co_Set ops c cs) (co_Delete ops ''ReconciliationPartiallySuccessful'' old) new"

text \<open>\<open>update\<close> writes the status to the cluster.\<close>

definition SetClowdAppConditions ::
  "Listings \<Rightarrow> CondOps \<Rightarrow> int \<Rightarrow> (ClowdApp \<Rightarrow> 'w \<Rightarrow> 'w \<times> goerr option) \<Rightarrow> string \<Rightarrow> ClowdAppStatus \<Rightarrow> goerr option
    \<Rightarrow> ClowdApp \<Rightarrow> 'w \<Rightarrow> (ClowdApp \<times> 'w \<times> goerr option) option" where
  "SetClowdAppConditions l ops now update state oldStatus err o' w =
     (case GetAppResourceStatus l o' of
        None \<Rightarrow> None
      | Some (Inl e) \<Rightarrow> Some (o', w, Some e)
      | Some (Inr deploymentStatus) \<Rightarrow>
          (let conditions = reconcile_conditions now state err
                 @ [deployments_condition now deploymentStatus ''Deployments are not yet ready'' err];
               o1 = o'\<lparr>app_Status := (app_Status o')\<lparr>
                      ast_Conditions := set_conditions ops conditions (ast_Conditions (app_Status o')),
                      ast_Ready := deploymentStatus\<rparr>\<rparr>
           in if oldStatus \<noteq> app_Status o1
              then (case update o1 w of (w', e) \<Rightarrow> Some (o1, w', e))
              else Some (o1, w, None)))"

definition SetClowdEnvConditions ::
  "Listings \<Rightarrow> CondOps \<Rightarrow> int \<Rightarrow> (ClowdEnvironment \<Rightarrow> 'w \<Rightarrow> 'w \<times> goerr option) \<Rightarrow> string \<Rightarrow> ClowdEnvironmentStatus
    \<Rightarrow> goerr option \<Rightarrow> ClowdEnvironment \<Rightarrow> 'w \<Rightarrow> (ClowdEnvironment \<times> 'w \<times> goerr option) option" where
  "SetClowdEnvConditions l ops now update state oldStatus err o' w =
     (case GetEnvResourceStatus l o' of
        None \<Rightarrow> None
      | Some (Inl e) \<Rightarrow> Some (o', w, Some e)
      | Some (Inr (deploymentStatus, msg)) \<Rightarrow>
          (let conditions = reconcile_conditions now state err
                 @ [deployments_condition now deploymentStatus (''Deployments are not yet ready: '' @ msg) err];
               o1 = o'\<lparr>env_Status := (env_Status o')\<lparr>
                      est_Conditions := set_conditions ops conditions (est_Conditions (env_Status o')),
                      est_Ready := deploymentStatus\<rparr>\<rparr>
           in if oldStatus \<noteq> env_Status o1
              then (case update o1 w of (w', e) \<Rightarrow> Some (o1, w', e))
              else Some (o1, w, None)))"

section \<open>What the counters count\<close>

lemma list_namespaces_Inr:
  "list_namespaces ls nss = Inr rs \<longleftrightarrow>
     (\<forall>ns \<in> set nss. \<exists>items. ls ns = Inr items) \<and> rs = concat (map (\<lambda>ns. projr (ls ns)) nss)"
proof (induction nss arbitrary: rs)
  case (Cons ns nss)
  show ?case
  proof (cases "ls ns")
    case (Inr items)
    with Cons show ?thesis by (cases "list_namespaces ls nss") auto
  qed simp
qed auto

lemma list_namespaces_Inl:
  "list_namespaces ls nss = Inl e \<Longrightarrow> \<exists>ns \<in> set nss. ls ns = Inl e"
  by (induction nss) (auto split: sum.splits)

lemma length_filter_all: "length (filter P xs) = length xs \<longleftrightarrow> (\<forall>x \<in> set xs. P x)"
  by (metis filter_id_conv length_filter_less less_irrefl)

text \<open>A status check that is defined, and known, on well-formed resources.\<close>

locale status_counter =
  fixes meta :: "'r \<Rightarrow> ObjectMeta" and check :: "'r \<Rightarrow> bool option"
    and wf :: "'r \<Rightarrow> bool" and rdy :: "'r \<Rightarrow> bool"
  assumes check_wf: "wf r \<Longrightarrow> check r = Some (rdy r)"
begin

definition owned :: "string \<Rightarrow> 'r list \<Rightarrow> 'r list" where
  "owned uid rs = filter (\<lambda>r. owns uid (meta r)) rs"

definition broken_names :: "string \<Rightarrow> 'r list \<Rightarrow> string list" where
  "broken_names uid rs = map (\<lambda>r. om_Name (meta r) @ ''/'' @ om_Namespace (meta r)) (filter (\<lambda>r. \<not> rdy r) (owned uid rs))"

lemma count_owned_eq:
  assumes "\<forall>r \<in> set (owned uid rs). wf r"
  shows "count_owned check meta uid rs (m, k, b) =
    Some (m + of_nat (length (owned uid rs)), k + of_nat (length (filter rdy (owned uid rs))), b @ broken_names uid rs)"
  using assms
proof (induction rs arbitrary: m k b)
  case Nil
  then show ?case by (simp add: owned_def broken_names_def)
next
  case (Cons r rs)
  show ?case
  proof (cases "owns uid (meta r)")
    case True
    with Cons.prems have "check r = Some (rdy r)" "\<forall>r \<in> set (owned uid rs). wf r"
      by (auto simp: owned_def check_wf)
    with True Cons.IH show ?thesis
      by (cases "rdy r") (simp_all add: owned_def broken_names_def)
  next
    case False
    with Cons show ?thesis by (simp add: owned_def broken_names_def)
  qed
qed

lemma count_resources_eq:
  assumes "list_namespaces ls nss = Inr rs" "\<forall>r \<in> set (owned uid rs). wf r"
  shows "count_resources label arrange check meta ls uid nss =
    Some (Inr (of_nat (length (owned uid rs)), of_nat (length (filter rdy (owned uid rs))),
      if broken_names uid rs \<noteq> []
      then ''broken '' @ label @ '': ['' @ join '', '' (arrange (broken_names uid rs)) @ '']'' else ''''))"
  using assms by (simp add: count_resources_def count_owned_eq)

lemma no_broken: "broken_names uid rs = [] \<longleftrightarrow> (\<forall>r \<in> set (owned uid rs). rdy r)"
  by (simp add: broken_names_def filter_empty_conv)

text \<open>As long as the number of owned resources fits the counter, equal counters mean all ready.\<close>

lemma counters_equal_iff:
  assumes "length (owned uid rs) < 2 ^ 32"
  shows "(of_nat (length (owned uid rs)) :: 32 word) = of_nat (length (filter rdy (owned uid rs)))
    \<longleftrightarrow> (\<forall>r \<in> set (owned uid rs). rdy r)"
proof -
  have lt: "length (filter rdy (owned uid rs)) < 2 ^ 32"
    using assms le_less_trans [OF length_filter_le] by blast
  with assms have "unat (of_nat (length (owned uid rs)) :: 32 word) = length (owned uid rs)"
    "unat (of_nat (length (filter rdy (owned uid rs))) :: 32 word) = length (filter rdy (owned uid rs))"
    by (simp_all add: unat_of_nat)
  then have "(of_nat (length (owned uid rs)) :: 32 word) = of_nat (length (filter rdy (owned uid rs)))
    \<longleftrightarrow> length (filter rdy (owned uid rs)) = length (owned uid rs)"
    by (metis word_unat_eq_iff)
  then show ?thesis by (simp add: length_filter_all)
qed

end

definition deployment_ready :: "KDeployment \<Rightarrow> bool" where
  "deployment_ready d = (om_Generation (kd_ObjectMeta d) \<le> kds_ObservedGeneration (kd_Status d)
     \<and> (''Available'', ''True'') \<in> set (kds_Conditions (kd_Status d))
     \<and> kd_Replicas d = Some (kds_AvailableReplicas (kd_Status d))
     \<and> kd_Replicas d = Some (kds_UpdatedReplicas (kd_Status d)))"

lemma deployment_available_eq:
  "kd_Replicas d = Some r \<Longrightarrow> deployment_available d cs =
     Some ((''Available'', ''True'') \<in> set cs \<and> kds_AvailableReplicas (kd_Status d) = r \<and> kds_UpdatedReplicas (kd_Status d) = r)"
  by (induction d cs rule: deployment_available.induct) auto

interpretation dep_count: status_counter kd_ObjectMeta deploymentStatusChecker "\<lambda>d. kd_Replicas d \<noteq> None" deployment_ready
  by unfold_locales (auto simp: deploymentStatusChecker_def deployment_available_eq deployment_ready_def)

interpretation strimzi_count: status_counter so_ObjectMeta "\<lambda>k. Some (strimziStatusChecker k)" "\<lambda>_. True" strimziStatusChecker
  by unfold_locales simp

text \<open>
  Counting the deployments of an app or environment gives, without error, the number of listed
  deployments it owns and the number of those that are ready (their status is up to date, they are
  available, and all wanted replicas are available and updated), provided the numbers fit 32 bits
  and the replica count is set, as the API server does; the two are equal exactly when every owned
  deployment is ready, and exactly then the message is empty.
\<close>

theorem deployment_counts_exact:
  fixes o' :: ClowdObject
  assumes "list_namespaces ls nss = Inr ds"
    and "\<forall>d \<in> set ds. kd_Replicas d \<noteq> None"
    and "length ds < 2 ^ 32"
  defines "mine \<equiv> filter (\<lambda>d. owns (co_GetUID o') (kd_ObjectMeta d)) ds"
  shows "\<exists>m r msg. countDeployments ls o' nss = Some (Inr (m, r, msg))
    \<and> unat m = length mine \<and> unat r = length (filter deployment_ready mine)
    \<and> (m = r \<longleftrightarrow> (\<forall>d \<in> set mine. deployment_ready d)) \<and> (msg = '''' \<longleftrightarrow> (\<forall>d \<in> set mine. deployment_ready d))"
proof -
  have mine: "mine = dep_count.owned (co_GetUID o') ds" by (simp add: mine_def dep_count.owned_def)
  have len: "length mine < 2 ^ 32" "length (filter deployment_ready mine) < 2 ^ 32"
    using assms(3) le_less_trans [OF length_filter_le] unfolding mine_def by blast+
  have "\<forall>d \<in> set (dep_count.owned (co_GetUID o') ds). kd_Replicas d \<noteq> None"
    using assms(2) by (simp add: dep_count.owned_def)
  from dep_count.count_resources_eq [OF assms(1) this, of "''deployments''" sort] len
    dep_count.counters_equal_iff [of "co_GetUID o'" ds] dep_count.no_broken [of "co_GetUID o'" ds]
  show ?thesis
    by (simp add: countDeployments_def mine [symmetric] unat_of_nat)
qed

section \<open>What the conditions say\<close>

definition cond_of :: "string \<Rightarrow> Condition list \<Rightarrow> Condition option" where
  "cond_of t cs = find (\<lambda>c. cond_Type c = t) cs"

text \<open>
  What the conditions package documents: after \<open>Set\<close> the condition of that type has the given
  status, reason and message, after \<open>Delete\<close> there is none of that type, and either leaves the
  other types alone.
\<close>

definition same_report :: "Condition \<Rightarrow> Condition \<Rightarrow> bool" where
  "same_report a b = (cond_Type a = cond_Type b \<and> cond_Status a = cond_Status b \<and> cond_Reason a = cond_Reason b
     \<and> cond_Message a = cond_Message b)"

definition cond_laws :: "CondOps \<Rightarrow> bool" where
  "cond_laws ops =
     ((\<forall>c cs. \<exists>c'. cond_of (cond_Type c) (co_Set ops c cs) = Some c' \<and> same_report c' c)
      \<and> (\<forall>c cs t. t \<noteq> cond_Type c \<longrightarrow> cond_of t (co_Set ops c cs) = cond_of t cs)
      \<and> (\<forall>t cs. cond_of t (co_Delete ops t cs) = None)
      \<and> (\<forall>t t' cs. t' \<noteq> t \<longrightarrow> cond_of t' (co_Delete ops t cs) = cond_of t' cs))"

lemma cond_of_Some: "cond_of t cs = Some c \<Longrightarrow> c \<in> set cs \<and> cond_Type c = t"
  by (auto simp: cond_of_def find_Some_iff)

lemma set_conditions_report:
  assumes "cond_laws ops" "distinct (map cond_Type new)" "c \<in> set new"
  shows "\<exists>c'. cond_of (cond_Type c) (set_conditions ops new old) = Some c' \<and> same_report c' c"
  using assms(2,3)
  unfolding set_conditions_def
proof (induction new rule: rev_induct)
  case (snoc x xs)
  show ?case
  proof (cases "c = x")
    case True
    with assms(1) show ?thesis by (simp add: cond_laws_def)
  next
    case False
    with snoc.prems have c: "c \<in> set xs" by simp
    from c have "cond_Type c \<in> cond_Type ` set xs" by (rule imageI)
    with snoc.prems(1) have ne: "cond_Type c \<noteq> cond_Type x" by auto
    from snoc.prems(1) have "distinct (map cond_Type xs)" by simp
    from snoc.IH [OF this c] ne assms(1) show ?thesis by (simp add: cond_laws_def)
  qed
qed simp

lemma set_conditions_obsolete:
  assumes "cond_laws ops" "''ReconciliationPartiallySuccessful'' \<notin> cond_Type ` set new"
  shows "cond_of ''ReconciliationPartiallySuccessful'' (set_conditions ops new old) = None"
  using assms(2) unfolding set_conditions_def
  by (induction new rule: rev_induct) (use assms(1) in \<open>auto simp: cond_laws_def\<close>)

abbreviation status_of :: "string \<Rightarrow> Condition list \<Rightarrow> string option" where
  "status_of t cs \<equiv> map_option cond_Status (cond_of t cs)"

definition standard_conditions :: "int \<Rightarrow> string \<Rightarrow> goerr option \<Rightarrow> bool \<Rightarrow> string \<Rightarrow> Condition list" where
  "standard_conditions now state err ready msg =
     reconcile_conditions now state err @ [deployments_condition now ready msg err]"

lemma reconcile_condition_fields [simp]:
  "cond_Type (reconcile_condition now state err t) = t"
  "cond_Status (reconcile_condition now state err t) = (if state = t then ConditionTrue else ConditionFalse)"
  "cond_Type (deployments_condition now ready msg err) = DeploymentsReady"
  "cond_Status (deployments_condition now ready msg err) = (if ready then ConditionTrue else ConditionFalse)"
  by (simp_all add: reconcile_condition_def deployments_condition_def Let_def split: option.split)

lemma standard_conditions_types:
  "map cond_Type (standard_conditions now state err ready msg) =
     [ReconciliationSuccessful, ReconciliationFailed, DeploymentsReady]"
  by (simp add: standard_conditions_def reconcile_conditions_def)

lemma standard_conditions_set:
  fixes now state err ready msg old
  assumes "cond_laws ops"
  defines "cs \<equiv> set_conditions ops (standard_conditions now state err ready msg) old"
  shows "status_of ReconciliationSuccessful cs = Some (if state = ReconciliationSuccessful then ConditionTrue else ConditionFalse)"
    and "status_of ReconciliationFailed cs = Some (if state = ReconciliationFailed then ConditionTrue else ConditionFalse)"
    and "status_of DeploymentsReady cs = Some (if ready then ConditionTrue else ConditionFalse)"
    and "cond_of ''ReconciliationPartiallySuccessful'' cs = None"
proof -
  have d: "distinct (map cond_Type (standard_conditions now state err ready msg))"
    by (simp add: standard_conditions_types)
  have st: "status_of (cond_Type c) cs = Some (cond_Status c)" if "c \<in> set (standard_conditions now state err ready msg)" for c
    using set_conditions_report [OF assms(1) d that, of old] by (auto simp: cs_def same_report_def)
  show "status_of ReconciliationSuccessful cs = Some (if state = ReconciliationSuccessful then ConditionTrue else ConditionFalse)"
    using st [of "reconcile_condition now state err ReconciliationSuccessful"]
    by (simp add: standard_conditions_def reconcile_conditions_def)
  show "status_of ReconciliationFailed cs = Some (if state = ReconciliationFailed then ConditionTrue else ConditionFalse)"
    using st [of "reconcile_condition now state err ReconciliationFailed"]
    by (simp add: standard_conditions_def reconcile_conditions_def)
  show "status_of DeploymentsReady cs = Some (if ready then ConditionTrue else ConditionFalse)"
    using st [of "deployments_condition now ready msg err"] by (simp add: standard_conditions_def)
  show "cond_of ''ReconciliationPartiallySuccessful'' cs = None"
    unfolding cs_def
    by (rule set_conditions_obsolete [OF assms(1)])
      (simp add: standard_conditions_def reconcile_conditions_def)
qed

lemma app_conditions_standard:
  assumes "cond_laws ops"
    and "SetClowdAppConditions l ops now update state oldStatus err app w = Some (app', w', None)"
  shows "status_of ReconciliationSuccessful (ast_Conditions (app_Status app')) =
      Some (if state = ReconciliationSuccessful then ConditionTrue else ConditionFalse)
    \<and> status_of ReconciliationFailed (ast_Conditions (app_Status app')) =
      Some (if state = ReconciliationFailed then ConditionTrue else ConditionFalse)"
proof -
  obtain ready where ready: "GetAppResourceStatus l app = Some (Inr ready)"
    using assms(2) by (auto simp: SetClowdAppConditions_def split: option.splits sum.splits)
  define cs where "cs = set_conditions ops (standard_conditions now state err ready ''Deployments are not yet ready'')
    (ast_Conditions (app_Status app))"
  have "ast_Conditions (app_Status app') = cs"
    using assms(2) ready
    by (auto simp: SetClowdAppConditions_def Let_def cs_def standard_conditions_def split: if_splits prod.splits)
  with standard_conditions_set [OF assms(1), of now state err ready "''Deployments are not yet ready''"
      "ast_Conditions (app_Status app)", folded cs_def] show ?thesis by simp
qed

lemma env_conditions_standard:
  assumes "cond_laws ops"
    and "SetClowdEnvConditions l ops now update state oldStatus err env w = Some (env', w', None)"
  shows "status_of ReconciliationSuccessful (est_Conditions (env_Status env')) =
      Some (if state = ReconciliationSuccessful then ConditionTrue else ConditionFalse)
    \<and> status_of ReconciliationFailed (est_Conditions (env_Status env')) =
      Some (if state = ReconciliationFailed then ConditionTrue else ConditionFalse)"
proof -
  obtain ready msg where ready: "GetEnvResourceStatus l env = Some (Inr (ready, msg))"
    using assms(2) by (auto simp: SetClowdEnvConditions_def split: option.splits sum.splits)
  define cs where "cs = set_conditions ops
    (standard_conditions now state err ready (''Deployments are not yet ready: '' @ msg)) (est_Conditions (env_Status env))"
  have "est_Conditions (env_Status env') = cs"
    using assms(2) ready
    by (auto simp: SetClowdEnvConditions_def Let_def cs_def standard_conditions_def split: if_splits prod.splits)
  with standard_conditions_set [OF assms(1), of now state err ready "''Deployments are not yet ready: '' @ msg"
      "est_Conditions (env_Status env)", folded cs_def] show ?thesis by simp
qed

text \<open>
  When the status of an app is written without error, the condition for the state it is written
  with is true and the other reconciliation condition is false, the deployments condition and the
  ready flag say whether the counters of managed and ready deployments agree, the obsolete
  condition is gone, nothing else of the app has changed, and the cluster was updated exactly if
  the status differs from the old one.
\<close>

theorem app_conditions_written:
  assumes "cond_laws ops" "state \<in> {ReconciliationSuccessful, ReconciliationFailed}"
    and "SetClowdAppConditions l ops now update state oldStatus err app w = Some (app', w', None)"
  shows "\<exists>ready. GetAppResourceStatus l app = Some (Inr ready)
    \<and> ast_Ready (app_Status app') = ready
    \<and> status_of state (ast_Conditions (app_Status app')) = Some ConditionTrue
    \<and> (\<forall>t \<in> {ReconciliationSuccessful, ReconciliationFailed} - {state}.
         status_of t (ast_Conditions (app_Status app')) = Some ConditionFalse)
    \<and> status_of DeploymentsReady (ast_Conditions (app_Status app')) = Some (if ready then ConditionTrue else ConditionFalse)
    \<and> cond_of ''ReconciliationPartiallySuccessful'' (ast_Conditions (app_Status app')) = None
    \<and> app' = app\<lparr>app_Status := (app_Status app)\<lparr>ast_Conditions := ast_Conditions (app_Status app'), ast_Ready := ready\<rparr>\<rparr>
    \<and> (if oldStatus = app_Status app' then w' = w else update app' w = (w', None))"
proof -
  obtain ready where ready: "GetAppResourceStatus l app = Some (Inr ready)"
    using assms(3) by (auto simp: SetClowdAppConditions_def split: option.splits sum.splits)
  define cs where "cs = set_conditions ops (standard_conditions now state err ready ''Deployments are not yet ready'')
    (ast_Conditions (app_Status app))"
  have app': "app' = app\<lparr>app_Status := (app_Status app)\<lparr>ast_Conditions := cs, ast_Ready := ready\<rparr>\<rparr>"
    and upd: "if oldStatus = app_Status app' then w' = w else update app' w = (w', None)"
    using assms(3) ready
    by (auto simp: SetClowdAppConditions_def Let_def cs_def standard_conditions_def split: if_splits prod.splits)
  have "ast_Conditions (app_Status app') = cs" "ast_Ready (app_Status app') = ready" by (simp_all add: app')
  with standard_conditions_set [OF assms(1), of now state err ready "''Deployments are not yet ready''"
      "ast_Conditions (app_Status app)", folded cs_def] assms(2) ready upd app'
  show ?thesis by auto
qed

text \<open>
  The same for an environment, whose ready flag and deployments condition say whether the
  counters of deployments (with Kafka clusters and connects) and of topics agree.
\<close>

theorem env_conditions_written:
  assumes "cond_laws ops" "state \<in> {ReconciliationSuccessful, ReconciliationFailed}"
    and "SetClowdEnvConditions l ops now update state oldStatus err env w = Some (env', w', None)"
  shows "\<exists>ready msg. GetEnvResourceStatus l env = Some (Inr (ready, msg))
    \<and> est_Ready (env_Status env') = ready
    \<and> status_of state (est_Conditions (env_Status env')) = Some ConditionTrue
    \<and> (\<forall>t \<in> {ReconciliationSuccessful, ReconciliationFailed} - {state}.
         status_of t (est_Conditions (env_Status env')) = Some ConditionFalse)
    \<and> status_of DeploymentsReady (est_Conditions (env_Status env')) = Some (if ready then ConditionTrue else ConditionFalse)
    \<and> cond_of ''ReconciliationPartiallySuccessful'' (est_Conditions (env_Status env')) = None
    \<and> env' = env\<lparr>env_Status := (env_Status env)\<lparr>est_Conditions := est_Conditions (env_Status env'), est_Ready := ready\<rparr>\<rparr>
    \<and> (if oldStatus = env_Status env' then w' = w else update env' w = (w', None))"
proof -
  obtain ready msg where ready: "GetEnvResourceStatus l env = Some (Inr (ready, msg))"
    using assms(3) by (auto simp: SetClowdEnvConditions_def split: option.splits sum.splits)
  define cs where "cs = set_conditions ops
    (standard_conditions now state err ready (''Deployments are not yet ready: '' @ msg)) (est_Conditions (env_Status env))"
  have env': "env' = env\<lparr>env_Status := (env_Status env)\<lparr>est_Conditions := cs, est_Ready := ready\<rparr>\<rparr>"
    and upd: "if oldStatus = env_Status env' then w' = w else update env' w = (w', None)"
    using assms(3) ready
    by (auto simp: SetClowdEnvConditions_def Let_def cs_def standard_conditions_def split: if_splits prod.splits)
  have "est_Conditions (env_Status env') = cs" "est_Ready (env_Status env') = ready" by (simp_all add: env')
  with standard_conditions_set [OF assms(1), of now state err ready "''Deployments are not yet ready: '' @ msg"
      "est_Conditions (env_Status env)", folded cs_def] assms(2) ready upd env'
  show ?thesis by auto
qed

text \<open>
  Whatever state the status is written with, success or failure, an app whose deployments are
  ready counts as ready afterwards: \<open>IsReady\<close> only looks for a condition of the successful type,
  which is always there, and not at its status.
\<close>

theorem ready_despite_failure:
  assumes "cond_laws ops"
    and "SetClowdAppConditions l ops now update ReconciliationFailed oldStatus err app w = Some (app', w', None)"
    and "GetAppResourceStatus l app = Some (Inr True)"
  shows "app_IsReady app' \<and> status_of ReconciliationSuccessful (ast_Conditions (app_Status app')) = Some ConditionFalse"
proof -
  define cs where "cs = set_conditions ops (standard_conditions now ReconciliationFailed err True ''Deployments are not yet ready'')
    (ast_Conditions (app_Status app))"
  have "app_Status app' = (app_Status app)\<lparr>ast_Conditions := cs, ast_Ready := True\<rparr>"
    using assms(2,3)
    by (auto simp: SetClowdAppConditions_def Let_def cs_def standard_conditions_def split: if_splits prod.splits)
  moreover have st: "status_of ReconciliationSuccessful cs = Some ConditionFalse"
    using standard_conditions_set(1) [OF assms(1), of now ReconciliationFailed err True
        "''Deployments are not yet ready''" "ast_Conditions (app_Status app)", folded cs_def] by simp
  moreover have "\<exists>c \<in> set cs. cond_Type c = ReconciliationSuccessful"
    using st cond_of_Some by fastforce
  ultimately show ?thesis by (simp add: app_IsReady_def)
qed

text \<open>
  The namespaces of an environment are those of its apps, its target namespace and the namespace
  of its Kafka cluster; the list has a repetition, so that whatever lives there is counted twice,
  exactly when the Kafka namespace is one of the others.
\<close>

theorem env_namespaces_repeat:
  assumes "go_iteration iter" "listApps (env_Name env) = Inr apps"
  defines "others \<equiv> insert (est_TargetNamespace (env_Status env)) ((\<lambda>a. app_Namespace a) ` set apps)"
    and "kns \<equiv> kcc_Namespace (kaf_Cluster (env_Kafka env))"
  shows "\<exists>nss. env_GetNamespacesInEnv iter listApps stack env = Inr nss
    \<and> set nss = others \<union> (if kns = '''' then {} else {kns})
    \<and> (distinct nss \<longleftrightarrow> kns = '''' \<or> kns \<notin> others)"
  using go_iteration_set [OF assms(1)] go_iteration_distinct [OF assms(1)]
  by (auto simp: env_GetNamespacesInEnv_def GetAppsInEnv_def assms(2) Let_def others_def kns_def)

section \<open>Witnesses\<close>

definition sample_ops :: CondOps where
  "sample_ops = \<lparr>co_Set = (\<lambda>c cs. c # filter (\<lambda>d. cond_Type d \<noteq> cond_Type c) cs),
     co_Delete = (\<lambda>t cs. filter (\<lambda>d. cond_Type d \<noteq> t) cs)\<rparr>"

lemma find_filter_other: "t \<noteq> t' \<Longrightarrow> find (\<lambda>c. cond_Type c = t) (filter (\<lambda>d. cond_Type d \<noteq> t') cs) = find (\<lambda>c. cond_Type c = t) cs"
  by (induction cs) auto

lemma sample_cond_laws: "cond_laws sample_ops"
  by (auto simp: cond_laws_def sample_ops_def cond_of_def same_report_def find_filter_other find_None_iff)

definition sample_ready_deployment :: KDeployment where
  "sample_ready_deployment = KDeployment_zero\<lparr>
     kd_ObjectMeta := ObjectMeta_zero\<lparr>om_OwnerReferences :=
       [\<lparr>or_APIVersion = '''', or_Kind = '''', or_Name = '''', or_UID = ''u1'', or_Controller = Some True\<rparr>]\<rparr>,
     kd_Replicas := Some 2,
     kd_Status := \<lparr>kds_ObservedGeneration = 1, kds_AvailableReplicas = 2, kds_UpdatedReplicas = 2,
       kds_ReadyReplicas = 2, kds_Conditions = [(''Available'', ''True'')]\<rparr>\<rparr>"

definition sample_owner :: ClowdApp where
  "sample_owner = ClowdApp_zero\<lparr>app_ObjectMeta := ObjectMeta_zero\<lparr>om_Name := ''a'', om_Namespace := ''ns'', om_UID := ''u1''\<rparr>\<rparr>"

theorem deployment_counts_exact_witness:
  "\<exists>m r msg. countDeployments (\<lambda>ns. Inr [sample_ready_deployment]) (AppObject sample_owner) [''ns''] = Some (Inr (m, r, msg))
    \<and> unat m = 1 \<and> m = r \<and> msg = ''''"
proof -
  have "list_namespaces (\<lambda>ns. Inr [sample_ready_deployment]) [''ns''] = Inr [sample_ready_deployment]" by simp
  from deployment_counts_exact [OF this, of "AppObject sample_owner"] show ?thesis
    by (simp add: sample_ready_deployment_def sample_owner_def owns_def deployment_ready_def KDeployment_zero_def
        ObjectMeta_zero_def)
qed

definition sample_listings :: Listings where
  "sample_listings = \<lparr>ls_Deployments = (\<lambda>ns. Inr [sample_ready_deployment]), ls_Kafkas = (\<lambda>_. Inr []),
     ls_Connects = (\<lambda>_. Inr []), ls_Topics = (\<lambda>_. Inr []), ls_Apps = (\<lambda>_. Inr [sample_owner]),
     ls_Env = (\<lambda>_. Inr ClowdEnvironment_zero), ls_Iter = (\<lambda>ns. ns), ls_Stack = '''', ls_Loaded = ClowderConfig_zero\<rparr>"

lemma sample_app_status: "GetAppResourceStatus sample_listings sample_owner = Some (Inr True)"
proof -
  have "deploymentStatusChecker sample_ready_deployment = Some True"
    by (simp add: deploymentStatusChecker_def sample_ready_deployment_def KDeployment_zero_def ObjectMeta_zero_def)
  then show ?thesis
    by (simp add: GetAppResourceStatus_def GetAppResourceFigures_def app_GetNamespacesInEnv_def GetOurEnv_def
        sample_listings_def GetAppsInEnv_def countDeployments_def count_resources_def list_namespaces_Inr namespace_set_def
        ClowdEnvironment_zero_def sample_owner_def)
qed

lemma sample_env_status: "\<exists>msg ready. GetEnvResourceStatus sample_listings ClowdEnvironment_zero = Some (Inr (ready, msg))"
proof -
  have "deploymentStatusChecker sample_ready_deployment = Some True"
    by (simp add: deploymentStatusChecker_def sample_ready_deployment_def KDeployment_zero_def ObjectMeta_zero_def)
  then show ?thesis
    by (auto simp: GetEnvResourceStatus_def GetEnvResourceFigures_def env_GetNamespacesInEnv_def
        sample_listings_def GetAppsInEnv_def countDeployments_def count_resources_def namespace_set_def
        ClowdEnvironment_zero_def ProvidersConfig_zero_def KafkaConfig_zero_def sample_owner_def ClowderConfig_zero_def Let_def
        split: option.split)
qed

theorem app_conditions_written_witness:
  "\<exists>app' w'. SetClowdAppConditions sample_listings sample_ops 7 (\<lambda>a n. (Suc n, None)) ReconciliationSuccessful
      (app_Status sample_owner) None sample_owner 0 = Some (app', w', None)
    \<and> ast_Ready (app_Status app')
    \<and> status_of ReconciliationSuccessful (ast_Conditions (app_Status app')) = Some ConditionTrue"
proof -
  have "\<exists>app' w'. SetClowdAppConditions sample_listings sample_ops 7 (\<lambda>a n. (Suc n, None)) ReconciliationSuccessful
      (app_Status sample_owner) None sample_owner 0 = Some (app', w', None)"
    by (simp add: SetClowdAppConditions_def sample_app_status Let_def)
  then obtain app' w' where r: "SetClowdAppConditions sample_listings sample_ops 7 (\<lambda>a n. (Suc n, None))
      ReconciliationSuccessful (app_Status sample_owner) None sample_owner 0 = Some (app', w', None)" by blast
  from app_conditions_written [OF sample_cond_laws _ r] have
    "ast_Ready (app_Status app') \<and> status_of ReconciliationSuccessful (ast_Conditions (app_Status app')) = Some ConditionTrue"
    by (auto simp: sample_app_status)
  with r show ?thesis by blast
qed

theorem env_conditions_written_witness:
  "\<exists>env' w'. SetClowdEnvConditions sample_listings sample_ops 7 (\<lambda>a n. (Suc n, None)) ReconciliationFailed
      (env_Status ClowdEnvironment_zero) (Some (PlainErr ''x'')) ClowdEnvironment_zero 0 = Some (env', w', None)
    \<and> status_of ReconciliationFailed (est_Conditions (env_Status env')) = Some ConditionTrue"
proof -
  have "\<exists>env' w'. SetClowdEnvConditions sample_listings sample_ops 7 (\<lambda>a n. (Suc n, None)) ReconciliationFailed
      (env_Status ClowdEnvironment_zero) (Some (PlainErr ''x'')) ClowdEnvironment_zero 0 = Some (env', w', None)"
    using sample_env_status by (auto simp: SetClowdEnvConditions_def Let_def)
  then obtain env' w' where r: "SetClowdEnvConditions sample_listings sample_ops 7 (\<lambda>a n. (Suc n, None))
      ReconciliationFailed (env_Status ClowdEnvironment_zero) (Some (PlainErr ''x'')) ClowdEnvironment_zero 0
      = Some (env', w', None)" by blast
  from env_conditions_written [OF sample_cond_laws _ r] have
    "status_of ReconciliationFailed (est_Conditions (env_Status env')) = Some ConditionTrue" by blast
  with r show ?thesis by blast
qed

theorem ready_despite_failure_witness:
  "\<exists>app' w'. SetClowdAppConditions sample_listings sample_ops 7 (\<lambda>a n. (Suc n, None)) ReconciliationFailed
      (app_Status sample_owner) (Some (PlainErr ''x'')) sample_owner 0 = Some (app', w', None) \<and> app_IsReady app'"
proof -
  have "\<exists>app' w'. SetClowdAppConditions sample_listings sample_ops 7 (\<lambda>a n. (Suc n, None)) ReconciliationFailed
      (app_Status sample_owner) (Some (PlainErr ''x'')) sample_owner 0 = Some (app', w', None)"
    by (simp add: SetClowdAppConditions_def sample_app_status Let_def)
  then obtain app' w' where r: "SetClowdAppConditions sample_listings sample_ops 7 (\<lambda>a n. (Suc n, None))
      ReconciliationFailed (app_Status sample_owner) (Some (PlainErr ''x'')) sample_owner 0 = Some (app', w', None)" by blast
  with ready_despite_failure [OF sample_cond_laws r sample_app_status] show ?thesis by blast
qed

theorem env_namespaces_repeat_witness:
  "\<exists>nss. env_GetNamespacesInEnv rev (\<lambda>_. Inr [sample_owner]) '''' ClowdEnvironment_zero = Inr nss
    \<and> set nss = {'''', ''ns''} \<and> distinct nss"
  using env_namespaces_repeat [of rev "\<lambda>_. Inr [sample_owner]" ClowdEnvironment_zero "[sample_owner]" "''''"]
  by (simp add: sample_owner_def ClowdEnvironment_zero_def ProvidersConfig_zero_def KafkaConfig_zero_def)

end
