(* ===== verification/Provider_Framework.thy ===== *)
theory Provider_Framework
  imports Crd_Env
begin

text \<open>
  The framework the providers plug into, \<open>providers/providers.go\<close>: the registry that keeps the
  providers in execution order, and the helpers that make objects through the resource cache. The
  resource cache, the scheme and \<open>sort.Sort\<close> are parameters; the registry is verified for every
  sorting function, since Go's is not stable.

  The facts: the registry is always sorted and complete, the configuration hash runs last; which
  secrets are extracted; what \<open>MakeOrGetSecret\<close> returns and writes.
\<close>

section \<open>The registry\<close>

record ('s, 'f) providerAccessor =
  pa_FinalizeProvider :: "'f option"
  pa_SetupProvider :: 's
  pa_Order :: int
  pa_Name :: string

definition registry_less :: "('s, 'f) providerAccessor \<Rightarrow> ('s, 'f) providerAccessor \<Rightarrow> bool" where
  "registry_less a b = (pa_Order a < pa_Order b)"

text \<open>\<open>finalizers\<close> are the variadic arguments: one finalizer is kept, any other number is ignored.\<close>

definition Register ::
  "(('s, 'f) providerAccessor list \<Rightarrow> ('s, 'f) providerAccessor list)
    \<Rightarrow> 's \<Rightarrow> int \<Rightarrow> string \<Rightarrow> 'f list \<Rightarrow> ('s, 'f) providerAccessor list \<Rightarrow> ('s, 'f) providerAccessor list" where
  "Register srt setupProvider order name finalizers registry =
     (let acc = \<lparr>pa_FinalizeProvider = (if length finalizers = 1 then Some (finalizers ! 0) else None),
                 pa_SetupProvider = setupProvider, pa_Order = order, pa_Name = name\<rparr>
      in srt (registry @ [acc]))"

text \<open>The registrations of the \<open>init\<close> functions of the provider packages: order and name.\<close>

definition init_registrations :: "(int \<times> string) list" where
  "init_registrations =
     [(5, ''objectstore''), (5, ''database''), (98, ''servicemesh''), (99, ''confighash''),
      (7, ''reverseproxy''), (4, ''dependencies''), (2, ''metrics''), (10, ''autoscaler''), (1, ''web''),
      (5, ''featureflags''), (97, ''serviceaccount''), (0, ''cronjob''), (5, ''logging''),
      (50, ''namespace''), (6, ''kafka''), (0, ''deployment''), (5, ''inmemorydb''), (98, ''sidecar''),
      (98, ''pullsecret'')]"

fun register_all ::
  "(('s, 'f) providerAccessor list \<Rightarrow> ('s, 'f) providerAccessor list) \<Rightarrow> (string \<Rightarrow> 's)
    \<Rightarrow> (int \<times> string) list \<Rightarrow> ('s, 'f) providerAccessor list \<Rightarrow> ('s, 'f) providerAccessor list" where
  "register_all srt mk [] reg = reg"
| "register_all srt mk ((ord, name) # rs) reg =
     register_all srt mk rs (Register srt (mk name) ord name [] reg)"

locale registry_sorter =
  fixes srt :: "('s, 'f) providerAccessor list \<Rightarrow> ('s, 'f) providerAccessor list"
  assumes sorts: "is_sort_of registry_less xs (srt xs)"
begin

lemma sorted_srt: "sorted (map pa_Order (srt xs))"
  using sorts [of xs] go_sorted_key_iff [of registry_less pa_Order "srt xs"]
  by (simp add: is_sort_of_def registry_less_def)

lemma mset_srt: "mset (srt xs) = mset xs"
  using sorts by (simp add: is_sort_of_def)

lemma register_all_inv:
  "sorted (map pa_Order reg) \<Longrightarrow> sorted (map pa_Order (register_all srt mk rs reg))
    \<and> image_mset (\<lambda>a. (pa_Order a, pa_Name a)) (mset (register_all srt mk rs reg))
      = image_mset (\<lambda>a. (pa_Order a, pa_Name a)) (mset reg) + mset rs"
proof (induction rs arbitrary: reg)
  case (Cons r rs)
  obtain ord name where r: "r = (ord, name)" by fastforce
  have "sorted (map pa_Order (Register srt (mk name) ord name [] reg))"
    by (simp add: Register_def sorted_srt)
  from Cons.IH [OF this] show ?case by (simp add: r Register_def mset_srt)
qed simp

text \<open>A registration whose order is above all others ends up last, and only there.\<close>

lemma top_is_last:
  assumes "mset rs = add_mset (k, n) (mset rest)" "\<forall>r \<in> set rest. fst r < k"
  shows "\<exists>reg. register_all srt mk rs [] = reg @ [last (register_all srt mk rs [])]
     \<and> pa_Order (last (register_all srt mk rs [])) = k \<and> pa_Name (last (register_all srt mk rs [])) = n
     \<and> (\<forall>a \<in> set reg. pa_Order a < k)"
proof -
  define reg where "reg = register_all srt mk rs []"
  have sorted: "sorted (map pa_Order reg)"
    and ms: "image_mset (\<lambda>a. (pa_Order a, pa_Name a)) (mset reg) = mset rs"
    using register_all_inv [of "[]" mk rs] by (simp_all add: reg_def)
  then have "reg \<noteq> []" using assms(1) by auto
  then have reg: "reg = butlast reg @ [last reg]" by simp
  have "set (map (\<lambda>a. (pa_Order a, pa_Name a)) reg) = insert (k, n) (set rest)"
    using ms assms(1) by (metis mset_map set_mset_mset set_mset_add_mset_insert)
  then have "(k, n) \<in> (\<lambda>a. (pa_Order a, pa_Name a)) ` set reg" by simp
  then obtain a where a: "a \<in> set reg" "pa_Order a = k" "pa_Name a = n" by auto
  have le: "pa_Order b \<le> pa_Order (last reg)" if "b \<in> set reg" for b
  proof -
    have "sorted (map pa_Order (butlast reg) @ [pa_Order (last reg)])"
      using sorted reg by (metis list.simps(8,9) map_append)
    moreover have "b \<in> set (butlast reg) \<or> b = last reg"
      using that reg by (metis in_set_conv_decomp_last Un_iff insert_iff list.set(1,2) empty_iff set_append)
    ultimately show ?thesis by (auto simp: sorted_append)
  qed
  obtain xs ys where split: "reg = xs @ a # ys" using a(1) by (metis split_list)
  have "image_mset (\<lambda>a. (pa_Order a, pa_Name a)) (mset xs + mset ys) = mset rest"
    using ms assms(1) a(2,3) by (simp add: split)
  then have others: "\<forall>b \<in> set (xs @ ys). pa_Order b < k"
    using assms(2) by (metis (no_types, lifting) fst_conv image_eqI list.set_map mset_append mset_map set_mset_mset)
  have "ys = []"
  proof (rule ccontr)
    assume "ys \<noteq> []"
    then have "last reg \<in> set ys" using split by simp
    with others have "pa_Order (last reg) < k" by simp
    with le [OF a(1)] a(2) show False by simp
  qed
  with split a others show ?thesis by (auto simp: reg_def [symmetric])
qed

end

text \<open>Go's insertion sort is one such function.\<close>

interpretation insertion_registry: registry_sorter "sort_slice registry_less"
  by unfold_locales (rule is_sort_of_sort_slice [where key = pa_Order], simp add: registry_less_def)

text \<open>
  In whatever order the packages are initialised and however the sort breaks ties, the registry
  ends up holding exactly the registered providers, in non-decreasing order, with the configuration
  hash as its last element and every other provider at a smaller order.
\<close>

theorem registry_ordered:
  assumes "registry_sorter srt" and "mset rs = mset init_registrations"
  shows "sorted (map pa_Order (register_all srt mk rs []))
    \<and> image_mset (\<lambda>a. (pa_Order a, pa_Name a)) (mset (register_all srt mk rs [])) = mset init_registrations
    \<and> (\<exists>reg. register_all srt mk rs [] = reg @ [last (register_all srt mk rs [])]
         \<and> pa_Name (last (register_all srt mk rs [])) = ''confighash''
         \<and> (\<forall>a \<in> set reg. pa_Order a < 99))"
proof -
  define rest where "rest = filter (\<lambda>r. r \<noteq> (99, ''confighash'')) init_registrations"
  have "mset init_registrations = add_mset (99, ''confighash'') (mset rest)" "\<forall>r \<in> set rest. fst r < 99"
    by (simp_all add: rest_def init_registrations_def)
  with assms show ?thesis
    using registry_sorter.register_all_inv [OF assms(1), of "[]" mk rs]
      registry_sorter.top_is_last [OF assms(1), of rs 99 "''confighash''" rest mk]
    by auto
qed

theorem registry_ordered_witness:
  "sorted (map pa_Order (register_all (sort_slice registry_less) (\<lambda>n. n) (rev init_registrations)
     ([] :: (string, unit) providerAccessor list)))
   \<and> pa_Name (last (register_all (sort_slice registry_less) (\<lambda>n. n) (rev init_registrations)
     ([] :: (string, unit) providerAccessor list))) = ''confighash''"
  using registry_ordered [where srt = "sort_slice registry_less" and rs = "rev init_registrations"
      and mk = "\<lambda>n. n", OF insertion_registry.registry_sorter_axioms]
  by auto

section \<open>Objects and secrets\<close>

definition GetNamespacedName :: "ClowdObject \<Rightarrow> string \<Rightarrow> NamespacedName" where
  "GetNamespacedName o' suffix = NN (co_GetClowdName o' @ ''-'' @ suffix) (co_GetClowdNamespace o')"

text \<open>
  Making and updating an object through the resource cache: \<open>objectKinds\<close> gives the kinds of an
  identifier and whether the type is unversioned, \<open>schemeNew\<close> an empty object of a kind. The world
  the cache lives in is passed along.
\<close>

definition createResource ::
  "('i \<Rightarrow> goerr + 'k list \<times> bool) \<Rightarrow> ('k \<Rightarrow> goerr + 'o) \<Rightarrow> ('i \<Rightarrow> NamespacedName \<Rightarrow> 'o \<Rightarrow> 'w \<Rightarrow> 'w \<times> (goerr + 'o))
    \<Rightarrow> 'i \<Rightarrow> NamespacedName \<Rightarrow> 'w \<Rightarrow> 'w \<times> (goerr + 'o)" where
  "createResource objectKinds schemeNew cacheCreate ident nn w =
     (case objectKinds ident of
        Inl err \<Rightarrow> (w, Inl err)
      | Inr (gvks, nok) \<Rightarrow>
          (if nok then (w, Inl (PlainErr ''this type is unknown''))
           else (case gvks of
                   [] \<Rightarrow> (w, Inl (PlainErr ''panic: index out of range''))
                 | gvk # _ \<Rightarrow>
                     (case schemeNew gvk of
                        Inl err \<Rightarrow> (w, Inl (PlainErr ''panic: interface conversion''))
                      | Inr nobj \<Rightarrow>
                          (case cacheCreate ident nn nobj w of
                             (w', Inl err) \<Rightarrow> (w', Inl (WrapErr (''error creating object: '' @ nn_Name nn
                                                              @ nn_Namespace nn @ '' '') err))
                           | (w', Inr nobj') \<Rightarrow> (w', Inr nobj'))))))"

definition updateResource ::
  "('i \<Rightarrow> goerr + 'k list \<times> bool) \<Rightarrow> ('k \<Rightarrow> string) \<Rightarrow> ('o \<Rightarrow> NamespacedName)
    \<Rightarrow> ('i \<Rightarrow> 'o \<Rightarrow> 'w \<Rightarrow> 'w \<times> goerr option) \<Rightarrow> 'i \<Rightarrow> 'o \<Rightarrow> 'w \<Rightarrow> 'w \<times> goerr option" where
  "updateResource objectKinds kindName nameOf cacheUpdate ident obj w =
     (case cacheUpdate ident obj w of (w', err) \<Rightarrow>
        (case objectKinds ident of
           Inl werr \<Rightarrow> (w', Some werr)
         | Inr (gvks, nok) \<Rightarrow>
             (if nok then (w', Some (PlainErr ''this type is unknown''))
              else (case gvks of
                      [] \<Rightarrow> (w', Some (PlainErr ''panic: index out of range''))
                    | gvk # _ \<Rightarrow>
                        (case err of
                           None \<Rightarrow> (w', None)
                         | Some e \<Rightarrow> (w', Some (WrapErr (''error updating object: '' @ nn_Name (nameOf obj)
                             @ '' '' @ nn_Namespace (nameOf obj) @ '' '' @ kindName gvk @ '' '') e)))))))"

text \<open>Creating all objects first, making them, and only then updating them.\<close>

fun create_all ::
  "('i \<Rightarrow> 'w \<Rightarrow> 'w \<times> (goerr + 'o)) \<Rightarrow> string \<Rightarrow> string \<Rightarrow> 'i list \<Rightarrow> 'w \<Rightarrow> 'w \<times> (goerr + ('i \<times> 'o) list)" where
  "create_all mkObj stack suffix [] w = (w, Inr [])"
| "create_all mkObj stack suffix (v # vs) w =
     (case mkObj v w of
        (w', Inl err) \<Rightarrow> (w', Inl (Wrap stack (''make-'' @ suffix @ '': get'') err))
      | (w', Inr obj) \<Rightarrow>
          (case create_all mkObj stack suffix vs w' of
             (w'', Inl err) \<Rightarrow> (w'', Inl err)
           | (w'', Inr objs) \<Rightarrow> (w'', Inr ((v, obj) # objs))))"

text \<open>Creating the same identifier twice keeps the last object.\<close>

definition object_map :: "('i \<times> 'o) list \<Rightarrow> ('i \<times> 'o) list" where
  "object_map xs = rev (foldl (\<lambda>seen p. if fst p \<in> fst ` set seen then seen else p # seen) [] (rev xs))"

definition CachedMakeComponent ::
  "('i \<Rightarrow> NamespacedName \<Rightarrow> 'w \<Rightarrow> 'w \<times> (goerr + 'o)) \<Rightarrow> ('i \<Rightarrow> 'o \<Rightarrow> 'w \<Rightarrow> 'w \<times> goerr option)
    \<Rightarrow> (('i \<times> 'o) list \<Rightarrow> ('i \<times> 'o) list) \<Rightarrow> string
    \<Rightarrow> ClowdEnvironment \<Rightarrow> 'i list \<Rightarrow> ClowdObject \<Rightarrow> string
    \<Rightarrow> (ClowdEnvironment \<Rightarrow> ClowdObject \<Rightarrow> ('i \<times> 'o) list \<Rightarrow> bool \<Rightarrow> bool \<Rightarrow> goerr + ('i \<times> 'o) list)
    \<Rightarrow> bool \<Rightarrow> 'w \<Rightarrow> 'w \<times> goerr option" where
  "CachedMakeComponent createRes updateRes iter stack env objList o' suffix fn usePVC w =
     (let nn = GetNamespacedName o' suffix
      in case create_all (\<lambda>v. createRes v nn) stack suffix objList w of
           (w1, Inl err) \<Rightarrow> (w1, Some err)
         | (w1, Inr objs) \<Rightarrow>
             (case fn env o' (object_map objs) usePVC (env_IsNodePort env) of
                Inl err \<Rightarrow> (w1, Some (WrapErr ''could not make component: '' err))
              | Inr made \<Rightarrow>
                  (case for_err (\<lambda>(k, v) w. updateRes k v w) (iter made) w1 of
                     (w2, None) \<Rightarrow> (w2, None)
                   | (w2, Some err) \<Rightarrow> (w2, Some (Wrap stack (''make-'' @ suffix @ '': get'') err)))))"

text \<open>The extraction functions of the secrets run over a state of their own.\<close>

fun has_all_keys :: "KSecretObj \<Rightarrow> string list \<Rightarrow> bool" where
  "has_all_keys secret [] = True"
| "has_all_keys secret (key # keys) = (if sec_Data secret key = None then False else has_all_keys secret keys)"

definition ExtractSecretData ::
  "KSecretObj list \<Rightarrow> (KSecretObj \<Rightarrow> 's \<Rightarrow> 's) \<Rightarrow> string list \<Rightarrow> 's \<Rightarrow> 's" where
  "ExtractSecretData secrets fn keys s =
     foldl (\<lambda>s secret. if has_all_keys secret keys then fn secret s else s) s secrets"

definition ExtractSecretDataAnno ::
  "KSecretObj list \<Rightarrow> (KSecretObj \<Rightarrow> string \<Rightarrow> 's \<Rightarrow> 's) \<Rightarrow> string \<Rightarrow> string list \<Rightarrow> 's \<Rightarrow> 's" where
  "ExtractSecretDataAnno secrets fn annoKey keys s =
     foldl (\<lambda>s secret.
        case om_Annotations (sec_ObjectMeta secret) annoKey of
          None \<Rightarrow> s
        | Some anno \<Rightarrow> if has_all_keys secret keys
                       then foldl (\<lambda>s value. fn secret value s) s (split_on (CHR '','') anno) else s) s secrets"

definition MakeOrGetSecret ::
  "('i \<Rightarrow> NamespacedName \<Rightarrow> KSecretObj \<Rightarrow> 'w \<Rightarrow> 'w \<times> (goerr + KSecretObj))
    \<Rightarrow> ('i \<Rightarrow> KSecretObj \<Rightarrow> 'w \<Rightarrow> 'w \<times> goerr option)
    \<Rightarrow> ClowdObject \<Rightarrow> 'i \<Rightarrow> NamespacedName \<Rightarrow> smap \<Rightarrow> 'w \<Rightarrow> 'w \<times> (goerr + smap)" where
  "MakeOrGetSecret cacheCreate cacheUpdate obj ident nn dataInit w =
     (case cacheCreate ident nn KSecretObj_zero w of
        (w1, Inl err) \<Rightarrow> (w1, Inl err)
      | (w1, Inr secret) \<Rightarrow>
          (let (secret', data') =
             (if sec_Data secret = Map.empty
              then (secret\<lparr>sec_StringData := dataInit, sec_Type := ''Opaque'',
                      sec_ObjectMeta := (sec_ObjectMeta secret)\<lparr>om_Name := nn_Name nn,
                        om_Namespace := nn_Namespace nn,
                        om_OwnerReferences := [co_MakeOwnerReference obj]\<rparr>\<rparr>, dataInit)
              else (secret, sec_Data secret))
           in case cacheUpdate ident secret' w1 of
                (w2, Some err) \<Rightarrow> (w2, Inl err)
              | (w2, None) \<Rightarrow> (w2, Inr data')))"

lemma has_all_keys_iff: "has_all_keys secret keys \<longleftrightarrow> set keys \<subseteq> dom (sec_Data secret)"
  by (induction keys) auto

text \<open>Extraction is a fold over the secrets that have every key, in order.\<close>

lemma ExtractSecretData_filter:
  "ExtractSecretData secrets fn keys s =
     foldl (\<lambda>s secret. fn secret s) s (filter (\<lambda>x. set keys \<subseteq> dom (sec_Data x)) secrets)"
  by (induction secrets arbitrary: s) (auto simp: ExtractSecretData_def has_all_keys_iff)

lemma create_all_idents:
  "create_all mkObj stack suffix vs w = (w', Inr objs) \<Longrightarrow> map fst objs = vs"
  by (induction vs arbitrary: w w' objs) (auto split: prod.splits sum.splits)

text \<open>
  What the resource cache and the API server promise of the secrets of one identifier: \<open>Create\<close> hands out the secret the cluster stores under the name, or the empty one given to it; \<open>Update\<close> keeps the
  secret to be applied under its name. What the cluster stores has its name and no string data.
\<close>

definition secret_NN :: "KSecretObj \<Rightarrow> NamespacedName" where
  "secret_NN s = NN (om_Name (sec_ObjectMeta s)) (om_Namespace (sec_ObjectMeta s))"

definition secret_cache ::
  "('i \<Rightarrow> NamespacedName \<Rightarrow> KSecretObj \<Rightarrow> 'w \<Rightarrow> 'w \<times> (goerr + KSecretObj)) \<Rightarrow> ('i \<Rightarrow> KSecretObj \<Rightarrow> 'w \<Rightarrow> 'w \<times> goerr option)
    \<Rightarrow> 'i \<Rightarrow> ('w \<Rightarrow> NamespacedName \<rightharpoonup> KSecretObj) \<Rightarrow> ('w \<Rightarrow> NamespacedName \<rightharpoonup> KSecretObj) \<Rightarrow> bool" where
  "secret_cache cacheCreate cacheUpdate ident stored pending =
     ((\<forall>nn s0 w w1 s. cacheCreate ident nn s0 w = (w1, Inr s) \<longrightarrow> s = (case stored w nn of Some k \<Rightarrow> k | None \<Rightarrow> s0))
      \<and> (\<forall>s w w1. cacheUpdate ident s w = (w1, None) \<longrightarrow> pending w1 = (pending w)(secret_NN s \<mapsto> s))
      \<and> (\<forall>w nn s. stored w nn = Some s \<longrightarrow> secret_NN s = nn \<and> sec_StringData s = Map.empty))"

text \<open>Applying the cache: the API server stores every pending secret under its name and merges the string data, which it never stores itself, into the data.\<close>

definition admitted :: "KSecretObj \<Rightarrow> KSecretObj" where
  "admitted s = s\<lparr>sec_Data := sec_Data s ++ sec_StringData s, sec_StringData := Map.empty\<rparr>"

definition applied :: "('w \<Rightarrow> NamespacedName \<rightharpoonup> KSecretObj) \<Rightarrow> ('w \<Rightarrow> NamespacedName \<rightharpoonup> KSecretObj) \<Rightarrow> 'w \<Rightarrow> 'w \<Rightarrow> bool" where
  "applied stored pending w w' = (\<forall>nn s. pending w nn = Some s \<longrightarrow> stored w' nn = Some (admitted s))"

definition written_secret :: "ClowdObject \<Rightarrow> NamespacedName \<Rightarrow> smap \<Rightarrow> KSecretObj \<Rightarrow> KSecretObj" where
  "written_secret obj nn dataInit secret = (if sec_Data secret = Map.empty
     then secret\<lparr>sec_StringData := dataInit, sec_Type := ''Opaque'',
            sec_ObjectMeta := (sec_ObjectMeta secret)\<lparr>om_Name := nn_Name nn, om_Namespace := nn_Namespace nn,
              om_OwnerReferences := [co_MakeOwnerReference obj]\<rparr>\<rparr>
     else secret)"

lemma MakeOrGetSecret_ok_iff:
  "MakeOrGetSecret cc cu obj ident nn d w = (w2, Inr r) \<longleftrightarrow>
     (\<exists>w1 s. cc ident nn KSecretObj_zero w = (w1, Inr s) \<and> cu ident (written_secret obj nn d s) w1 = (w2, None)
        \<and> r = (if sec_Data s = Map.empty then d else sec_Data s))"
  by (auto simp: MakeOrGetSecret_def written_secret_def Let_def split: prod.splits sum.splits option.splits if_splits)

text \<open>What a successful request leaves pending: the secret whose data, once applied, is the data it returned.\<close>

lemma MakeOrGetSecret_pending:
  assumes cache: "secret_cache cc cu ident stored pending" and "MakeOrGetSecret cc cu obj ident nn d w = (w', Inr r)"
  shows "r = (case stored w nn of Some k \<Rightarrow> if sec_Data k = Map.empty then d else sec_Data k | None \<Rightarrow> d)"
    and "\<exists>k. pending w' nn = Some k \<and> sec_Data (admitted k) = r"
proof -
  from assms(2) obtain w1 s where c: "cc ident nn KSecretObj_zero w = (w1, Inr s)" and u: "cu ident (written_secret obj nn d s) w1 = (w', None)"
    and r: "r = (if sec_Data s = Map.empty then d else sec_Data s)" unfolding MakeOrGetSecret_ok_iff by blast
  have s: "s = (case stored w nn of Some k \<Rightarrow> k | None \<Rightarrow> KSecretObj_zero)" and p: "pending w' = (pending w1)(secret_NN (written_secret obj nn d s) \<mapsto> written_secret obj nn d s)"
    and k: "\<And>k. stored w nn = Some k \<Longrightarrow> secret_NN k = nn \<and> sec_StringData k = Map.empty"
    using cache c u unfolding secret_cache_def by blast+
  show "r = (case stored w nn of Some k \<Rightarrow> if sec_Data k = Map.empty then d else sec_Data k | None \<Rightarrow> d)"
    using r s by (simp add: KSecretObj_zero_def split: option.splits)
  have "secret_NN (written_secret obj nn d s) = nn" "sec_Data (admitted (written_secret obj nn d s)) = r"
    using k s r by (auto simp: written_secret_def secret_NN_def admitted_def KSecretObj_zero_def split: option.splits if_splits)
  with p show "\<exists>k. pending w' nn = Some k \<and> sec_Data (admitted k) = r" by simp
qed

text \<open>
  C5. The data of a secret survives: a request returns the data the cluster stores under the name, or the initial data it offers if there is none. When its result was applied, a request in a later
  reconciliation returns what the first returned, whatever initial data it offers itself, provided that was any data; and what it leaves to be applied has that data again.
\<close>

theorem secret_data_stable:
  assumes "secret_cache cc cu ident stored pending"
    and "MakeOrGetSecret cc cu obj ident nn d1 w = (w2, Inr r1)" and "r1 \<noteq> Map.empty"
    and "applied stored pending w2 w3" and "MakeOrGetSecret cc cu obj ident nn d2 w3 = (w4, Inr r2)"
  shows "r1 = (case stored w nn of Some k \<Rightarrow> if sec_Data k = Map.empty then d1 else sec_Data k | None \<Rightarrow> d1)
    \<and> r2 = r1 \<and> (\<exists>k. pending w4 nn = Some k \<and> sec_Data (admitted k) = r1)"
proof -
  note one = MakeOrGetSecret_pending [OF assms(1,2)] and two = MakeOrGetSecret_pending [OF assms(1,5)]
  from one(2) assms(4) obtain k where "stored w3 nn = Some (admitted k)" "sec_Data (admitted k) = r1" unfolding applied_def by blast
  then have "r2 = r1" using two(1) assms(3) by simp
  with one(1) two(2) show ?thesis by simp
qed

text \<open>An example: what a cluster stores and what is pending.\<close>

type_synonym sample_cluster = "(NamespacedName \<rightharpoonup> KSecretObj) \<times> (NamespacedName \<rightharpoonup> KSecretObj)"

definition sample_stored :: "sample_cluster \<Rightarrow> NamespacedName \<rightharpoonup> KSecretObj" where
  "sample_stored w nn = (case fst w nn of Some k \<Rightarrow> if secret_NN k = nn \<and> sec_StringData k = Map.empty then Some k else None | None \<Rightarrow> None)"

definition sample_secret_create :: "unit \<Rightarrow> NamespacedName \<Rightarrow> KSecretObj \<Rightarrow> sample_cluster \<Rightarrow> sample_cluster \<times> (goerr + KSecretObj)" where
  "sample_secret_create i nn s0 w = (w, Inr (case sample_stored w nn of Some k \<Rightarrow> k | None \<Rightarrow> s0))"

definition sample_secret_update :: "unit \<Rightarrow> KSecretObj \<Rightarrow> sample_cluster \<Rightarrow> sample_cluster \<times> goerr option" where
  "sample_secret_update i s w = ((fst w, (snd w)(secret_NN s \<mapsto> s)), None)"

lemma sample_secret_cache: "secret_cache sample_secret_create sample_secret_update () sample_stored snd"
  by (auto simp: secret_cache_def sample_secret_create_def sample_secret_update_def sample_stored_def split: option.splits if_splits)

theorem secret_data_stable_witness:
  "\<exists>w2 w3 w4. MakeOrGetSecret sample_secret_create sample_secret_update (EnvObject ClowdEnvironment_zero) ()
      (NN ''db'' ''ns'') [''password'' \<mapsto> ''one''] (Map.empty, Map.empty) = (w2, Inr [''password'' \<mapsto> ''one''])
    \<and> applied sample_stored snd w2 w3
    \<and> MakeOrGetSecret sample_secret_create sample_secret_update (EnvObject ClowdEnvironment_zero) ()
      (NN ''db'' ''ns'') [''password'' \<mapsto> ''two''] w3 = (w4, Inr [''password'' \<mapsto> ''one''])"
proof -
  obtain w2 where r1: "MakeOrGetSecret sample_secret_create sample_secret_update (EnvObject ClowdEnvironment_zero) ()
      (NN ''db'' ''ns'') [''password'' \<mapsto> ''one''] (Map.empty, Map.empty) = (w2, Inr [''password'' \<mapsto> ''one''])"
    and p: "dom (snd w2) = {NN ''db'' ''ns''}"
    by (simp add: MakeOrGetSecret_ok_iff sample_secret_create_def sample_secret_update_def sample_stored_def KSecretObj_zero_def written_secret_def secret_NN_def)
  let ?w3 = "(\<lambda>nn. map_option admitted (snd w2 nn), Map.empty) :: sample_cluster"
  have w2: "secret_NN k = nn" if "snd w2 nn = Some k" for nn k
    using r1 that by (auto simp: MakeOrGetSecret_ok_iff sample_secret_create_def sample_secret_update_def split: if_splits)
  have app: "applied sample_stored snd w2 ?w3"
    by (auto simp: applied_def sample_stored_def admitted_def secret_NN_def dest: w2 [unfolded secret_NN_def])
  obtain w4 r2 where r2: "MakeOrGetSecret sample_secret_create sample_secret_update (EnvObject ClowdEnvironment_zero) ()
      (NN ''db'' ''ns'') [''password'' \<mapsto> ''two''] ?w3 = (w4, Inr r2)"
    by (simp add: MakeOrGetSecret_ok_iff sample_secret_create_def sample_secret_update_def)
  have "r2 = [''password'' \<mapsto> ''one'']"
    using secret_data_stable [OF sample_secret_cache r1 _ app r2] by simp
  with r1 app r2 show ?thesis by blast
qed

end
