(* ===== verification/Reconcile_Core.thy ===== *)
theory Reconcile_Core
  imports Resource_Status Hash_Cache Provider_Framework App_Config
begin

text \<open>
  What the reconcilers share: the process-wide maps and gauges of \<open>metrics.go\<close>, the environment
  lock of \<open>clowdenvironment_controller.go\<close>, the interface of a provider and the loops over the
  registry, and the list of steps a reconciliation runs until one of them returns an error.

  The cluster is a value \<open>'w\<close> that only the operations of \<open>Deps\<close> read and change: the client, the
  resource cache \<open>'c\<close>, the conditions and finalizer helpers and the clock are parameters. A step
  returns \<open>None\<close> where the code panics. Events are kept as type, reason and message. The latency
  histogram of the providers and the log are not modelled.
\<close>

section \<open>Process-wide state\<close>

text \<open>The maps used as sets are lists of their keys; a gauge holds the size it was last set to.\<close>

record Globals =
  managedApps :: "string list"
  presentApps :: "string list"
  managedEnvironments :: "string list"
  presentEnvironments :: "string list"
  managedAppsMetric :: nat
  presentAppsMetric :: nat
  managedEnvsMetric :: nat
  presentEnvsMetric :: nat
  requestMetrics :: "string \<times> string \<Rightarrow> nat"
  dependencyMetrics :: "string \<times> string \<rightharpoonup> bool"
  reconciliationMetrics :: "(string \<times> string \<times> int) list"
  cEnv :: string

definition Globals_zero :: Globals where
  "Globals_zero = \<lparr>managedApps = [], presentApps = [], managedEnvironments = [], presentEnvironments = [],
     managedAppsMetric = 0, presentAppsMetric = 0, managedEnvsMetric = 0, presentEnvsMetric = 0,
     requestMetrics = (\<lambda>_. 0), dependencyMetrics = Map.empty, reconciliationMetrics = [], cEnv = ''''\<rparr>"

definition key_add :: "'k \<Rightarrow> 'k list \<Rightarrow> 'k list" where
  "key_add k ks = (if k \<in> set ks then ks else ks @ [k])"

definition key_del :: "'k \<Rightarrow> 'k list \<Rightarrow> 'k list" where
  "key_del k ks = filter (\<lambda>x. x \<noteq> k) ks"

lemma key_set [simp]: "set (key_add k ks) = insert k (set ks)" "set (key_del k ks) = set ks - {k}"
  by (auto simp: key_add_def key_del_def)

lemma key_distinct [simp]: "distinct (key_add k ks) = distinct ks" "distinct ks \<Longrightarrow> distinct (key_del k ks)"
  by (auto simp: key_add_def key_del_def)

definition GetManagedApps :: "(string list \<Rightarrow> string list) \<Rightarrow> Globals \<Rightarrow> string list" where
  "GetManagedApps iter g = iter (managedApps g)"

definition GetPresentApps :: "(string list \<Rightarrow> string list) \<Rightarrow> Globals \<Rightarrow> string list" where
  "GetPresentApps iter g = iter (presentApps g)"

definition GetManagedEnvs :: "(string list \<Rightarrow> string list) \<Rightarrow> Globals \<Rightarrow> string list" where
  "GetManagedEnvs iter g = iter (managedEnvironments g)"

definition GetPresentEnvs :: "(string list \<Rightarrow> string list) \<Rightarrow> Globals \<Rightarrow> string list" where
  "GetPresentEnvs iter g = iter (presentEnvironments g)"

definition SetEnv :: "string \<Rightarrow> Globals \<Rightarrow> Globals" where
  "SetEnv name g = g\<lparr>cEnv := name\<rparr>"

definition ReleaseEnv :: "Globals \<Rightarrow> Globals" where
  "ReleaseEnv g = g\<lparr>cEnv := ''''\<rparr>"

definition ReadEnv :: "Globals \<Rightarrow> string" where
  "ReadEnv g = cEnv g"

section \<open>Providers\<close>

record ('w, 'c) Provider =
  prov_World :: 'w
  prov_Env :: ClowdEnvironment
  prov_Cache :: "'c option"
  prov_Config :: "AppConfig option"
  prov_HashCache :: HashCache

text \<open>An object behind the interface: what its two methods do to the provider and to the app.\<close>

record ('w, 'c) ClowderProvider =
  cp_Provide :: "ClowdApp \<Rightarrow> ('w, 'c) Provider \<Rightarrow> (('w, 'c) Provider \<times> ClowdApp \<times> goerr option) option"
  cp_EnvProvide :: "('w, 'c) Provider \<Rightarrow> (('w, 'c) Provider \<times> goerr option) option"

type_synonym ('w, 'c) setupFn = "('w, 'c) Provider \<Rightarrow> (('w, 'c) Provider \<times> (goerr + ('w, 'c) ClowderProvider)) option"
type_synonym ('w, 'c) finalizeFn = "('w, 'c) Provider \<Rightarrow> (('w, 'c) Provider \<times> goerr option) option"
type_synonym ('w, 'c) accessor = "(('w, 'c) setupFn, ('w, 'c) finalizeFn) providerAccessor"

text \<open>The registry loop of \<open>runProvidersImplementation\<close>.\<close>

definition provide_app ::
  "string \<Rightarrow> ('w, 'c) accessor \<Rightarrow> ClowdApp \<Rightarrow> ('w, 'c) Provider \<Rightarrow> (('w, 'c) Provider \<times> ClowdApp \<times> goerr option) option" where
  "provide_app stack provAcc app p =
     (case pa_SetupProvider provAcc p of
        None \<Rightarrow> None
      | Some (p1, Inl err) \<Rightarrow> Some (p1, app, Some (Wrap stack (''getprov: '' @ pa_Name provAcc) err))
      | Some (p1, Inr prov) \<Rightarrow>
          (case cp_Provide prov app p1 of
             None \<Rightarrow> None
           | Some (p2, app', None) \<Rightarrow> Some (p2, app', None)
           | Some (p2, app', Some err) \<Rightarrow>
               (case Wrap stack (''runapp: '' @ pa_Name provAcc) err of
                  ClowderError st msg cause rq \<Rightarrow> Some (p2, app', Some (ClowderError st msg cause True))
                | reterr \<Rightarrow> Some (p2, app', Some reterr))))"

fun runProvidersForApp ::
  "string \<Rightarrow> ('w, 'c) accessor list \<Rightarrow> ClowdApp \<Rightarrow> ('w, 'c) Provider \<Rightarrow> (('w, 'c) Provider \<times> ClowdApp \<times> goerr option) option" where
  "runProvidersForApp stack [] app p = Some (p, app, None)"
| "runProvidersForApp stack (provAcc # registry) app p =
     (case provide_app stack provAcc app p of
        None \<Rightarrow> None
      | Some (p', app', Some err) \<Rightarrow> Some (p', app', Some err)
      | Some (p', app', None) \<Rightarrow> runProvidersForApp stack registry app' p')"

fun runProvidersForEnv ::
  "string \<Rightarrow> ('w, 'c) accessor list \<Rightarrow> ('w, 'c) Provider \<Rightarrow> (('w, 'c) Provider \<times> goerr option) option" where
  "runProvidersForEnv stack [] p = Some (p, None)"
| "runProvidersForEnv stack (provAcc # registry) p =
     (case pa_SetupProvider provAcc p of
        None \<Rightarrow> None
      | Some (p1, Inl err) \<Rightarrow> Some (p1, Some (Wrap stack (''getprov: '' @ pa_Name provAcc) err))
      | Some (p1, Inr prov) \<Rightarrow>
          (case cp_EnvProvide prov p1 of
             None \<Rightarrow> None
           | Some (p2, Some err) \<Rightarrow> Some (p2, Some (Wrap stack (''runprov: '' @ pa_Name provAcc) err))
           | Some (p2, None) \<Rightarrow> runProvidersForEnv stack registry p2))"

fun runProvidersForEnvFinalize ::
  "string \<Rightarrow> ('w, 'c) accessor list \<Rightarrow> ('w, 'c) Provider \<Rightarrow> (('w, 'c) Provider \<times> goerr option) option" where
  "runProvidersForEnvFinalize stack [] p = Some (p, None)"
| "runProvidersForEnvFinalize stack (provAcc # registry) p =
     (case pa_FinalizeProvider provAcc of
        None \<Rightarrow> runProvidersForEnvFinalize stack registry p
      | Some fin \<Rightarrow>
          (case fin p of
             None \<Rightarrow> None
           | Some (p', Some err) \<Rightarrow> Some (p', Some (Wrap stack (''prov finalize: '' @ pa_Name provAcc) err))
           | Some (p', None) \<Rightarrow> runProvidersForEnvFinalize stack registry p'))"

section \<open>Parameters\<close>

record ('w, 'c) Deps =
  dp_GetApp :: "NamespacedName \<Rightarrow> 'w \<Rightarrow> goerr + ClowdApp"
  dp_GetEnv :: "NamespacedName \<Rightarrow> 'w \<Rightarrow> goerr + ClowdEnvironment"
  dp_GetNamespace :: "string \<Rightarrow> 'w \<Rightarrow> goerr + ObjectMeta"
  dp_UpdateApp :: "ClowdApp \<Rightarrow> 'w \<Rightarrow> ClowdApp \<times> 'w \<times> goerr option"
  dp_UpdateEnv :: "ClowdEnvironment \<Rightarrow> 'w \<Rightarrow> ClowdEnvironment \<times> 'w \<times> goerr option"
  dp_StatusApp :: "ClowdApp \<Rightarrow> 'w \<Rightarrow> 'w \<times> goerr option"
  dp_StatusEnv :: "ClowdEnvironment \<Rightarrow> 'w \<Rightarrow> ClowdEnvironment \<times> 'w \<times> goerr option"
  dp_CreateNamespace :: "string \<Rightarrow> 'w \<Rightarrow> 'w \<times> goerr option"
  dp_DeleteNamespace :: "string \<Rightarrow> 'w \<Rightarrow> 'w \<times> goerr option"
  dp_NewObjectCache :: 'c
  dp_ApplyAll :: "'c \<Rightarrow> 'w \<Rightarrow> 'c \<times> 'w \<times> goerr option"
  dp_ReconcileCache :: "string \<Rightarrow> string \<times> string \<Rightarrow> string option \<Rightarrow> 'c \<Rightarrow> 'w \<Rightarrow> 'c \<times> 'w \<times> goerr option"
  dp_AddFinalizer :: "string \<Rightarrow> string list \<Rightarrow> string list"
  dp_RemoveFinalizer :: "string \<Rightarrow> string list \<Rightarrow> string list"
  dp_Listings :: "'w \<Rightarrow> Listings"
  dp_CondOps :: CondOps
  dp_CondGet :: "string \<Rightarrow> Condition list \<Rightarrow> Condition option"
  dp_Now :: "'w \<Rightarrow> int"
  dp_Random :: "'w \<Rightarrow> string"
  dp_Stack :: string
  dp_Registry :: "('w, 'c) accessor list"

abbreviation dp_Loaded :: "('w, 'c) Deps \<Rightarrow> 'w \<Rightarrow> ClowderConfig" where
  "dp_Loaded d w \<equiv> ls_Loaded (dp_Listings d w)"

type_synonym Event = "string \<times> string \<times> string"

section \<open>Steps\<close>

type_synonym 's step = "'s \<Rightarrow> ('s \<times> CtrlResult \<times> goerr option) option"

abbreviation step_ok :: "'s \<Rightarrow> ('s \<times> CtrlResult \<times> goerr option) option" where
  "step_ok s \<equiv> Some (s, res_done, None)"

abbreviation step_err :: "'s \<Rightarrow> CtrlResult \<Rightarrow> goerr \<Rightarrow> ('s \<times> CtrlResult \<times> goerr option) option" where
  "step_err s r e \<equiv> Some (s, r, Some e)"

fun run_steps :: "'s step list \<Rightarrow> 's step" where
  "run_steps [] s = step_ok s"
| "run_steps (st # steps) s =
     (case st s of
        None \<Rightarrow> None
      | Some (s', r, Some e) \<Rightarrow> Some (s', r, Some e)
      | Some (s', r, None) \<Rightarrow> run_steps steps s')"

lemma run_steps_append:
  "run_steps (xs @ ys) s =
     (case run_steps xs s of
        None \<Rightarrow> None
      | Some (s', r, Some e) \<Rightarrow> Some (s', r, Some e)
      | Some (s', r, None) \<Rightarrow> run_steps ys s')"
  by (induction xs arbitrary: s) (auto split: option.splits)

lemma run_steps_Cons_ok:
  "run_steps (st # steps) s = Some (s', r, None) \<longleftrightarrow> (\<exists>s1 r1. st s = Some (s1, r1, None) \<and> run_steps steps s1 = Some (s', r, None))"
  by (auto split: option.splits)

lemma run_steps_ok_result: "run_steps steps s = Some (s', r, None) \<Longrightarrow> r = res_done"
  by (induction steps arbitrary: s) (auto split: option.splits)

text \<open>A run that fails does so at one step, reached with all earlier ones successful.\<close>

lemma run_steps_error:
  "run_steps steps s = Some (s', r, Some e) \<Longrightarrow>
     \<exists>pre st post s1. steps = pre @ st # post \<and> run_steps pre s = Some (s1, res_done, None) \<and> st s1 = Some (s', r, Some e)"
proof (induction steps arbitrary: s)
  case (Cons st steps)
  obtain s1 r1 e1 where st: "st s = Some (s1, r1, e1)"
    using Cons.prems by (cases "st s") auto
  show ?case
  proof (cases e1)
    case None
    with Cons.prems st have "run_steps steps s1 = Some (s', r, Some e)" by simp
    from Cons.IH [OF this] obtain pre st' post s2 where
      *: "steps = pre @ st' # post" "run_steps pre s1 = Some (s2, res_done, None)" "st' s2 = Some (s', r, Some e)" by blast
    with st None have "st # steps = (st # pre) @ st' # post" "run_steps (st # pre) s = Some (s2, res_done, None)" by simp_all
    with *(3) show ?thesis by blast
  next
    case (Some e')
    with Cons.prems st have "st # steps = [] @ st # steps" "run_steps [] s = Some (s, res_done, None)" "st s = Some (s', r, Some e)"
      by simp_all
    then show ?thesis by blast
  qed
qed simp

text \<open>A property that every step keeps, whether or not it fails, holds all along and at the end.\<close>

locale invariant_steps =
  fixes steps :: "'s step list" and I :: "'s \<Rightarrow> bool"
  assumes step_keeps: "st \<in> set steps \<Longrightarrow> I s \<Longrightarrow> st s = Some (s', r, e) \<Longrightarrow> I s'"
begin

text \<open>It also holds wherever a run stops that does only some of the steps.\<close>

lemma some_keep: "set sts \<subseteq> set steps \<Longrightarrow> I s \<Longrightarrow> run_steps sts s = Some (s', r, e) \<Longrightarrow> I s'"
proof (induction sts arbitrary: s)
  case (Cons st sts)
  obtain s1 r1 e1 where st: "st s = Some (s1, r1, e1)"
    using Cons.prems(3) by (cases "st s") auto
  with Cons.prems have "I s1" using step_keeps by auto
  with Cons st show ?case by (cases e1) auto
qed simp

lemma run_keeps: "I s \<Longrightarrow> run_steps steps s = Some (s', r, e) \<Longrightarrow> I s'"
  by (rule some_keep) simp_all

end

text \<open>A value that no step changes.\<close>

locale fixed_steps =
  fixes steps :: "'s step list" and obs :: "'s \<Rightarrow> 'v"
  assumes step_fixes: "st \<in> set steps \<Longrightarrow> st s = Some (s', r, e) \<Longrightarrow> obs s' = obs s"

sublocale fixed_steps \<subseteq> inv: invariant_steps steps "\<lambda>s. obs s = v"
  by unfold_locales (simp add: step_fixes)

context fixed_steps
begin

lemma run_fixes: "run_steps steps s = Some (s', r, e) \<Longrightarrow> obs s' = obs s"
  using inv.run_keeps [of s "obs s" s' r e] by simp

lemma some_fix: "set sts \<subseteq> set steps \<Longrightarrow> run_steps sts s = Some (s', r, e) \<Longrightarrow> obs s' = obs s"
  using inv.some_keep [of sts s "obs s" s' r e] by simp

end

section \<open>The provider loops\<close>

lemma runProvidersForApp_append:
  "runProvidersForApp stack (xs @ ys) app p =
     (case runProvidersForApp stack xs app p of
        None \<Rightarrow> None
      | Some (p', app', Some e) \<Rightarrow> Some (p', app', Some e)
      | Some (p', app', None) \<Rightarrow> runProvidersForApp stack ys app' p')"
  by (induction xs arbitrary: app p) (auto split: option.splits)

lemma runProvidersForApp_keeps:
  assumes "runProvidersForApp stack registry app p = Some (p', app', e)" "I app p"
    and "\<And>a app p p' app' e. a \<in> set registry \<Longrightarrow> I app p \<Longrightarrow> provide_app stack a app p = Some (p', app', e) \<Longrightarrow> I app' p'"
  shows "I app' p'"
  using assms
proof (induction registry arbitrary: app p)
  case (Cons a registry)
  obtain p1 app1 e1 where st: "provide_app stack a app p = Some (p1, app1, e1)"
    using Cons.prems(1) by (cases "provide_app stack a app p") auto
  have "I app1 p1" by (rule Cons.prems(3) [OF _ Cons.prems(2) st]) simp
  show ?case
  proof (cases e1)
    case None
    with Cons.prems(1) st have "runProvidersForApp stack registry app1 p1 = Some (p', app', e)" by simp
    from Cons.IH [OF this \<open>I app1 p1\<close>] Cons.prems(3) show ?thesis by (meson list.set_intros(2))
  next
    case Some
    with Cons.prems(1) st \<open>I app1 p1\<close> show ?thesis by simp
  qed
qed simp

lemma Wrap_ClowderError: "Wrap stack msg e = ClowderError stack msg (Some e) (requeue_of e)"
  by (simp add: Wrap_def requeue_of_def split: option.split)

lemma provide_app_error:
  assumes "provide_app stack a app p = Some (p', app', Some e)"
  obtains cause where "e = ClowderError stack (''getprov: '' @ pa_Name a) (Some cause) (requeue_of cause)"
      "pa_SetupProvider a p = Some (p', Inl cause)"
  | cause p1 prov where "e = ClowderError stack (''runapp: '' @ pa_Name a) (Some cause) True"
      "pa_SetupProvider a p = Some (p1, Inr prov)" "cp_Provide prov app p1 = Some (p', app', Some cause)"
  using assms by (auto simp: provide_app_def Wrap_ClowderError split: option.splits sum.splits)

lemma runProvidersForApp_error:
  assumes "runProvidersForApp stack registry app p = Some (p', app', Some e)"
  shows "\<exists>pre a post p1 app1. registry = pre @ a # post \<and> runProvidersForApp stack pre app p = Some (p1, app1, None)
    \<and> provide_app stack a app1 p1 = Some (p', app', Some e)"
  using assms
proof (induction registry arbitrary: app p)
  case (Cons a registry)
  obtain p1 app1 e1 where st: "provide_app stack a app p = Some (p1, app1, e1)"
    using Cons.prems by (cases "provide_app stack a app p") auto
  show ?case
  proof (cases e1)
    case None
    with Cons.prems st have "runProvidersForApp stack registry app1 p1 = Some (p', app', Some e)" by simp
    from Cons.IH [OF this] obtain pre b post p2 app2 where
      *: "registry = pre @ b # post" "runProvidersForApp stack pre app1 p1 = Some (p2, app2, None)"
        "provide_app stack b app2 p2 = Some (p', app', Some e)" by blast
    with st None have "a # registry = (a # pre) @ b # post" "runProvidersForApp stack (a # pre) app p = Some (p2, app2, None)"
      by simp_all
    with *(3) show ?thesis by blast
  next
    case (Some e')
    with Cons.prems st have "a # registry = [] @ a # registry" "runProvidersForApp stack [] app p = Some (p, app, None)"
      "provide_app stack a app p = Some (p', app', Some e)" by simp_all
    then show ?thesis by blast
  qed
qed simp

text \<open>
  When running the providers for an app fails, exactly one provider has failed, the ones before
  it in the registry have all succeeded and the ones after it have not been run; the error names
  the failing provider and carries its error, and if it was its \<open>Provide\<close> that failed, asks for a
  requeue.
\<close>

theorem provider_failure_named:
  assumes "runProvidersForApp stack registry app p = Some (p', app', Some e)"
  shows "\<exists>pre a post p1 app1 cause. registry = pre @ a # post
    \<and> runProvidersForApp stack pre app p = Some (p1, app1, None)
    \<and> provide_app stack a app1 p1 = Some (p', app', Some e)
    \<and> Unwrap e = Some cause
    \<and> (ce_Msg e = ''getprov: '' @ pa_Name a \<and> pa_SetupProvider a p1 = Some (p', Inl cause)
       \<or> ce_Msg e = ''runapp: '' @ pa_Name a \<and> ce_Requeue e
         \<and> (\<exists>p2 prov. pa_SetupProvider a p1 = Some (p2, Inr prov) \<and> cp_Provide prov app1 p2 = Some (p', app', Some cause)))"
proof -
  from runProvidersForApp_error [OF assms] obtain pre a post p1 app1 where
    *: "registry = pre @ a # post" "runProvidersForApp stack pre app p = Some (p1, app1, None)"
      and st: "provide_app stack a app1 p1 = Some (p', app', Some e)" by blast
  from st have "\<exists>cause. Unwrap e = Some cause
    \<and> (ce_Msg e = ''getprov: '' @ pa_Name a \<and> pa_SetupProvider a p1 = Some (p', Inl cause)
       \<or> ce_Msg e = ''runapp: '' @ pa_Name a \<and> ce_Requeue e
         \<and> (\<exists>p2 prov. pa_SetupProvider a p1 = Some (p2, Inr prov) \<and> cp_Provide prov app1 p2 = Some (p', app', Some cause)))"
    by (cases rule: provide_app_error) auto
  with * st show ?thesis by blast
qed

section \<open>Witness\<close>

definition failing_accessor :: "('w, 'c) accessor" where
  "failing_accessor = \<lparr>pa_FinalizeProvider = None, pa_SetupProvider = (\<lambda>p. Some (p, Inr \<lparr>
     cp_Provide = (\<lambda>app p. Some (p, app, Some (PlainErr ''no broker''))), cp_EnvProvide = (\<lambda>p. Some (p, None))\<rparr>)),
     pa_Order = 6, pa_Name = ''kafka''\<rparr>"

definition working_accessor :: "('w, 'c) accessor" where
  "working_accessor = failing_accessor\<lparr>pa_SetupProvider := (\<lambda>p. Some (p, Inr \<lparr>
     cp_Provide = (\<lambda>app p. Some (p, app, None)), cp_EnvProvide = (\<lambda>p. Some (p, None))\<rparr>)), pa_Name := ''web''\<rparr>"

definition sample_provider :: "(unit, unit) Provider" where
  "sample_provider = \<lparr>prov_World = (), prov_Env = ClowdEnvironment_zero, prov_Cache = Some (), prov_Config = None,
     prov_HashCache = []\<rparr>"

theorem provider_failure_named_witness:
  "\<exists>e. runProvidersForApp ''st'' [working_accessor, failing_accessor] ClowdApp_zero sample_provider
      = Some (sample_provider, ClowdApp_zero, Some e)
    \<and> Unwrap e = Some (PlainErr ''no broker'')"
proof -
  obtain e where r: "runProvidersForApp ''st'' [working_accessor, failing_accessor] ClowdApp_zero sample_provider
      = Some (sample_provider, ClowdApp_zero, Some e)"
    by (simp add: working_accessor_def failing_accessor_def provide_app_def Wrap_ClowderError)
  from provider_failure_named [OF r] obtain cause where "Unwrap e = Some cause" by blast
  moreover have "Unwrap e = Some (PlainErr ''no broker'')"
    using r by (auto simp: working_accessor_def failing_accessor_def provide_app_def Wrap_ClowderError)
  ultimately show ?thesis using r by blast
qed

end
