(* ===== verification/App_Reconcile.thy ===== *)
theory App_Reconcile
  imports Reconcile_Core
begin

text \<open>
  The ClowdApp reconciler, \<open>clowdapp_reconciliation.go\<close> and \<open>clowdapp_controller.go\<close>: the state of a
  reconciliation as a record, each step as a function on it, the list of steps, the loop over them
  and the entry point the controller runtime calls, and the two functions that say which apps to
  reconcile when an environment or an app reference changes.

  The facts: an app that is disabled, locked out, or whose environment or namespace is not usable
  leaves the cluster alone; a failing provider or apply leads to a failure condition and a requeue;
  a full run leaves the app successful and managed; the process-wide sets stay consistent.
\<close>

section \<open>State\<close>

record ReconciliationMetrics =
  rm_appName :: string
  rm_envName :: string
  rm_reconcileStartTime :: int
  rm_metricsEnabled :: bool

definition ReconciliationMetrics_zero :: ReconciliationMetrics where
  "ReconciliationMetrics_zero = \<lparr>rm_appName = '''', rm_envName = '''', rm_reconcileStartTime = 0, rm_metricsEnabled = False\<rparr>"

definition rm_init :: "ClowderConfig \<Rightarrow> string \<Rightarrow> string \<Rightarrow> ReconciliationMetrics \<Rightarrow> ReconciliationMetrics" where
  "rm_init loaded clowdAppName clowdEnvName rm =
     rm\<lparr>rm_appName := clowdAppName, rm_envName := clowdEnvName,
        rm_metricsEnabled := feat_ReconciliationMetrics (cc_Features loaded)\<rparr>"

definition rm_start :: "int \<Rightarrow> ReconciliationMetrics \<Rightarrow> ReconciliationMetrics" where
  "rm_start now rm = (if \<not> rm_metricsEnabled rm then rm else rm\<lparr>rm_reconcileStartTime := now\<rparr>)"

definition rm_stop :: "int \<Rightarrow> ReconciliationMetrics \<Rightarrow> Globals \<Rightarrow> Globals" where
  "rm_stop now rm g =
     (if \<not> rm_metricsEnabled rm then g
      else g\<lparr>reconciliationMetrics := reconciliationMetrics g @ [(rm_appName rm, rm_envName rm, now - rm_reconcileStartTime rm)]\<rparr>)"

record ('w, 'c) AppRec =
  ar_World :: 'w
  ar_Cache :: "'c option"
  ar_App :: ClowdApp
  ar_Req :: NamespacedName
  ar_Env :: "ClowdEnvironment option"
  ar_Metrics :: ReconciliationMetrics
  ar_Config :: AppConfig
  ar_OldStatus :: "ClowdAppStatus option"
  ar_HashCache :: HashCache
  ar_Events :: "Event list"
  ar_Globals :: Globals

abbreviation appFinalizer :: string where "appFinalizer \<equiv> ''finalizer.app.cloud.redhat.com''"

abbreviation ar_EnvName :: "('w, 'c) AppRec \<Rightarrow> string" where
  "ar_EnvName s \<equiv> app_EnvName (app_Spec (ar_App s))"

definition contains :: "string list \<Rightarrow> string \<Rightarrow> bool" where
  "contains list s = scan (\<lambda>v. v = s) list"

lemma contains_iff [simp]: "contains xs s \<longleftrightarrow> s \<in> set xs"
  unfolding contains_def by (induction xs) auto

definition updateMetadata :: "ClowdApp \<Rightarrow> AppConfig \<Rightarrow> AppConfig" where
  "updateMetadata app appConfig = appConfig\<lparr>cfg_Metadata := Some \<lparr>
     am_Deployments = map (\<lambda>d. \<lparr>dmc_Image = ps_Image (dep_PodSpec d), dmc_Name = dep_Name d\<rparr>) (app_Deployments (app_Spec app)),
     am_EnvName = Some (app_EnvName (app_Spec app)), am_Name = Some (app_Name app)\<rparr>\<rparr>"

definition event :: "string \<Rightarrow> string \<Rightarrow> string \<Rightarrow> ('w, 'c) AppRec \<Rightarrow> ('w, 'c) AppRec" where
  "event ty reason msg s = s\<lparr>ar_Events := ar_Events s @ [(ty, reason, msg)]\<rparr>"

definition env_event :: "string \<Rightarrow> string \<Rightarrow> ('w, 'c) AppRec \<Rightarrow> ('w, 'c) AppRec" where
  "env_event reason what s =
     event ''Warning'' reason (''Clowder Environment ['' @ ar_EnvName s @ ''] is '' @ what) s"

section \<open>Steps\<close>

definition getApp :: "('w, 'c) Deps \<Rightarrow> ('w, 'c) AppRec step" where
  "getApp d s =
     (case dp_GetApp d (ar_Req s) (ar_World s) of
        Inl getAppErr \<Rightarrow>
          (if IsNotFound getAppErr then step_err s res_done (NewSkippedError ''app is deleted'')
           else step_err s res_done getAppErr)
      | Inr app \<Rightarrow> step_ok (s\<lparr>ar_App := app, ar_OldStatus := Some (app_Status app)\<rparr>))"

definition setPresentAndManagedApps :: "('w, 'c) AppRec step" where
  "setPresentAndManagedApps s =
     (let g = ar_Globals s; ident = app_GetIdent (ar_App s); present = key_add ident (presentApps g)
      in step_ok (s\<lparr>ar_Globals := g\<lparr>presentApps := present, presentAppsMetric := length present,
                      managedApps := key_del ident (managedApps g)\<rparr>\<rparr>))"

definition startMetrics :: "('w, 'c) Deps \<Rightarrow> ('w, 'c) AppRec step" where
  "startMetrics d s =
     (let loaded = dp_Loaded d (ar_World s);
          rm = rm_start (dp_Now d (ar_World s))
                 (rm_init loaded (app_Name (ar_App s)) (ar_EnvName s) ReconciliationMetrics_zero);
          g = ar_Globals s; key = (''app'', app_GetIdent (ar_App s));
          g' = (if feat_PerProviderMetrics (cc_Features loaded)
                then g\<lparr>requestMetrics := (requestMetrics g)(key := requestMetrics g key + 1)\<rparr> else g)
      in step_ok (s\<lparr>ar_Metrics := rm, ar_Globals := g'\<rparr>))"

definition stopMetrics :: "('w, 'c) Deps \<Rightarrow> ('w, 'c) AppRec step" where
  "stopMetrics d s = step_ok (s\<lparr>ar_Globals := rm_stop (dp_Now d (ar_World s)) (ar_Metrics s) (ar_Globals s)\<rparr>)"

definition finalizeApp :: "('w, 'c) AppRec \<Rightarrow> ('w, 'c) AppRec" where
  "finalizeApp s =
     (let g = ar_Globals s; ident = app_GetIdent (ar_App s);
          managed = key_del ident (managedApps g); present = key_del ident (presentApps g)
      in s\<lparr>ar_Globals := g\<lparr>managedApps := managed, managedAppsMetric := length managed,
                           presentApps := present, presentAppsMetric := length present\<rparr>\<rparr>)"

definition app_set_finalizers :: "string list \<Rightarrow> ClowdApp \<Rightarrow> ClowdApp" where
  "app_set_finalizers fs app = app\<lparr>app_ObjectMeta := (app_ObjectMeta app)\<lparr>om_Finalizers := fs\<rparr>\<rparr>"

abbreviation app_Finalizers :: "ClowdApp \<Rightarrow> string list" where
  "app_Finalizers app \<equiv> om_Finalizers (app_ObjectMeta app)"

definition update_app :: "('w, 'c) Deps \<Rightarrow> ClowdApp \<Rightarrow> ('w, 'c) AppRec \<Rightarrow> ('w, 'c) AppRec \<times> goerr option" where
  "update_app d app s =
     (case dp_UpdateApp d app (ar_World s) of (app', w, e) \<Rightarrow> (s\<lparr>ar_App := app', ar_World := w\<rparr>, e))"

definition isAppMarkedForDeletion :: "('w, 'c) Deps \<Rightarrow> ('w, 'c) AppRec step" where
  "isAppMarkedForDeletion d s =
     (if om_DeletionTimestamp (app_ObjectMeta (ar_App s)) \<noteq> None
      then if contains (app_Finalizers (ar_App s)) appFinalizer
           then (let s1 = finalizeApp s;
                     app = app_set_finalizers (dp_RemoveFinalizer d appFinalizer (app_Finalizers (ar_App s1))) (ar_App s1)
                 in case update_app d app s1 of
                      (s2, Some e) \<Rightarrow> step_err s2 res_done e
                    | (s2, None) \<Rightarrow> step_err s2 res_done
                        (NewSkippedError ''app is marked for delete and finalizers removed''))
           else step_err s res_done (NewSkippedError ''app is marked for delete and has no finalizer'')
      else step_ok s)"

definition app_addFinalizerImplementation :: "('w, 'c) Deps \<Rightarrow> ('w, 'c) AppRec \<Rightarrow> ('w, 'c) AppRec \<times> goerr option" where
  "app_addFinalizerImplementation d s =
     update_app d (app_set_finalizers (dp_AddFinalizer d appFinalizer (app_Finalizers (ar_App s))) (ar_App s)) s"

definition addFinalizer :: "('w, 'c) Deps \<Rightarrow> ('w, 'c) AppRec step" where
  "addFinalizer d s =
     (if \<not> contains (app_Finalizers (ar_App s)) appFinalizer
      then case app_addFinalizerImplementation d s of
             (s1, Some e) \<Rightarrow> step_err s1 res_done e
           | (s1, None) \<Rightarrow> step_ok s1
      else step_ok s)"

definition isEnvLocked :: "('w, 'c) AppRec step" where
  "isEnvLocked s =
     (if ReadEnv (ar_Globals s) = ar_EnvName s
      then step_err (env_event ''ClowdEnvLocked'' ''locked'' s) res_requeue (NewSkippedError ''env is locked'')
      else step_ok s)"

definition isAppDisabled :: "('w, 'c) AppRec step" where
  "isAppDisabled s =
     (if app_Disabled (app_Spec (ar_App s)) then step_err s res_done (NewSkippedError ''app disabled'') else step_ok s)"

text \<open>
  Writing the conditions, and the reaction of the steps to an error: write the failure condition
  with the cause, and return \<open>result\<close> and \<open>err\<close> unless the writing fails itself.
\<close>

definition set_app_conditions ::
  "('w, 'c) Deps \<Rightarrow> string \<Rightarrow> goerr option \<Rightarrow> ('w, 'c) AppRec \<Rightarrow> (('w, 'c) AppRec \<times> goerr option) option" where
  "set_app_conditions d state err s =
     (case ar_OldStatus s of
        None \<Rightarrow> None
      | Some old \<Rightarrow>
          (case SetClowdAppConditions (dp_Listings d (ar_World s)) (dp_CondOps d) (dp_Now d (ar_World s)) (dp_StatusApp d)
                  state old err (ar_App s) (ar_World s) of
             None \<Rightarrow> None
           | Some (app, w, e) \<Rightarrow> Some (s\<lparr>ar_App := app, ar_World := w\<rparr>, e)))"

definition app_failed :: "('w, 'c) Deps \<Rightarrow> goerr \<Rightarrow> CtrlResult \<Rightarrow> goerr \<Rightarrow> ('w, 'c) AppRec step" where
  "app_failed d cause result err s =
     (case set_app_conditions d ReconciliationFailed (Some cause) s of
        None \<Rightarrow> None
      | Some (s1, Some setClowdStatusErr) \<Rightarrow> step_err s1 res_requeue setClowdStatusErr
      | Some (s1, None) \<Rightarrow> step_err s1 result err)"

definition getClowdEnv :: "('w, 'c) Deps \<Rightarrow> ('w, 'c) AppRec step" where
  "getClowdEnv d s =
     (case dp_GetEnv d (NN (ar_EnvName s) '''') (ar_World s) of
        Inl getEnvErr \<Rightarrow>
          app_failed d getEnvErr res_done getEnvErr
            (env_event ''ClowdEnvMissing'' ''missing'' (s\<lparr>ar_Env := Some ClowdEnvironment_zero\<rparr>))
      | Inr env \<Rightarrow> step_ok (s\<lparr>ar_Env := Some env\<rparr>))"

definition isNamespaceDeleted :: "('w, 'c) Deps \<Rightarrow> string \<Rightarrow> string \<Rightarrow> ('w, 'c) AppRec step" where
  "isNamespaceDeleted d namespace message s =
     (case dp_GetNamespace d namespace (ar_World s) of
        Inl getNSErr \<Rightarrow> step_err s res_requeue getNSErr
      | Inr ns \<Rightarrow> if om_DeletionTimestamp ns \<noteq> None then step_err s res_done (NewSkippedError message) else step_ok s)"

definition isEnvNamespaceDeleted :: "('w, 'c) Deps \<Rightarrow> ('w, 'c) AppRec step" where
  "isEnvNamespaceDeleted d s =
     (case ar_Env s of
        None \<Rightarrow> None
      | Some env \<Rightarrow> isNamespaceDeleted d (est_TargetNamespace (env_Status env))
                      ''Env target namespace is to be deleted - skipping reconcile'' s)"

definition isAppNamespaceDeleted :: "('w, 'c) Deps \<Rightarrow> ('w, 'c) AppRec step" where
  "isAppNamespaceDeleted d s =
     isNamespaceDeleted d (app_Namespace (ar_App s)) ''App namespace is to be deleted - skipping reconcile'' s"

definition isClowdEnvReconciled :: "('w, 'c) Deps \<Rightarrow> ('w, 'c) AppRec step" where
  "isClowdEnvReconciled d s =
     (case ar_Env s of
        None \<Rightarrow> None
      | Some env \<Rightarrow>
          (if om_Generation (env_ObjectMeta env) \<noteq> est_Generation (env_Status env)
           then app_failed d (PlainErr ''clowd env not reconciled'') res_done (NewSkippedError ''env not yet reconciled'')
                  (env_event ''ClowdEnvNotReconciled'' ''not reconciled'' s)
           else step_ok s))"

definition isEnvReady :: "('w, 'c) Deps \<Rightarrow> ('w, 'c) AppRec step" where
  "isEnvReady d s =
     (case ar_Env s of
        None \<Rightarrow> None
      | Some env \<Rightarrow>
          (if \<not> env_IsReady env
           then app_failed d (PlainErr ''clowd env not ready'') res_requeue (NewSkippedError ''env isn't ready'')
                  (env_event ''ClowdEnvNotReady'' ''not ready'' s)
           else step_ok s))"

definition createCache :: "('w, 'c) Deps \<Rightarrow> ('w, 'c) AppRec step" where
  "createCache d s = step_ok (s\<lparr>ar_Cache := Some (dp_NewObjectCache d)\<rparr>)"

definition runProvidersImplementation ::
  "('w, 'c) Deps \<Rightarrow> ClowdEnvironment \<Rightarrow> ('w, 'c) AppRec \<Rightarrow> (('w, 'c) AppRec \<times> goerr option) option" where
  "runProvidersImplementation d env s =
     (let s1 = s\<lparr>ar_Config := updateMetadata (ar_App s) (ar_Config s)\<rparr>
      in case runProvidersForApp (dp_Stack d) (dp_Registry d) (ar_App s1)
                \<lparr>prov_World = ar_World s1, prov_Env = env, prov_Cache = ar_Cache s1, prov_Config = Some (ar_Config s1),
                 prov_HashCache = ar_HashCache s1\<rparr> of
           None \<Rightarrow> None
         | Some (p, app, e) \<Rightarrow>
             Some (s1\<lparr>ar_World := prov_World p, ar_Env := Some (prov_Env p), ar_Cache := prov_Cache p,
                      ar_Config := (case prov_Config p of None \<Rightarrow> ar_Config s1 | Some c \<Rightarrow> c),
                      ar_HashCache := prov_HashCache p, ar_App := app\<rparr>, e))"

definition requeued_event :: "('w, 'c) AppRec \<Rightarrow> ('w, 'c) AppRec" where
  "requeued_event s = event ''Warning'' ''FailedReconciliation'' (''Clowdapp requeued ['' @ app_Name (ar_App s) @ '']'') s"

definition runProviders :: "('w, 'c) Deps \<Rightarrow> ('w, 'c) AppRec step" where
  "runProviders d s =
     (case ar_Env s of
        None \<Rightarrow> None
      | Some env \<Rightarrow>
          (let s1 = s\<lparr>ar_HashCache := RemoveClowdObjectFromObjects (AppObject (ar_App s)) (ar_HashCache s)\<rparr>
           in case runProvidersImplementation d env s1 of
                None \<Rightarrow> None
              | Some (s2, Some provErr) \<Rightarrow> app_failed d provErr res_requeue provErr (requeued_event s2)
              | Some (s2, None) \<Rightarrow> step_ok s2))"

definition applyCache :: "('w, 'c) Deps \<Rightarrow> ('w, 'c) AppRec step" where
  "applyCache d s =
     (case ar_Cache s of
        None \<Rightarrow> None
      | Some c \<Rightarrow>
          (case dp_ApplyAll d c (ar_World s) of
             (c', w, cacheErr) \<Rightarrow>
               (let s1 = s\<lparr>ar_Cache := Some c', ar_World := w\<rparr>
                in case cacheErr of
                     Some e \<Rightarrow> app_failed d e res_requeue e (requeued_event s1)
                   | None \<Rightarrow> step_ok s1)))"

definition setAppResourceStatus :: "('w, 'c) Deps \<Rightarrow> ('w, 'c) AppRec step" where
  "setAppResourceStatus d s =
     (case SetAppResourceStatus (dp_Listings d (ar_World s)) (ar_App s) of
        None \<Rightarrow> None
      | Some (app, Some e) \<Rightarrow> step_err (s\<lparr>ar_App := app\<rparr>) res_requeue e
      | Some (app, None) \<Rightarrow> step_ok (s\<lparr>ar_App := app\<rparr>))"

definition deletedUnusedResources :: "('w, 'c) Deps \<Rightarrow> ('w, 'c) AppRec step" where
  "deletedUnusedResources d s =
     (case ar_Cache s of
        None \<Rightarrow> None
      | Some c \<Rightarrow>
          (case dp_ReconcileCache d (app_UID (ar_App s))
                  (co_GetPrimaryLabel (AppObject (ar_App s)), co_GetClowdName (AppObject (ar_App s)))
                  (Some (app_Namespace (ar_App s))) c (ar_World s) of
             (c', w, rErr) \<Rightarrow>
               (let s1 = s\<lparr>ar_Cache := Some c', ar_World := w\<rparr>
                in case rErr of
                     Some e \<Rightarrow> step_err s1 res_requeue
                       (NewSkippedError (''error running object cache reconcile: '' @ Error e))
                   | None \<Rightarrow> step_ok s1)))"

text \<open>The metric of an app's dependency is the readiness of the last listed app of that name.\<close>

definition ReportDependencies :: "Listings \<Rightarrow> ClowdApp \<Rightarrow> ClowdEnvironment \<Rightarrow> Globals \<Rightarrow> Globals \<times> goerr option" where
  "ReportDependencies l app env g =
     (let appDependencies = app_Dependencies (app_Spec app) @ app_OptionalDependencies (app_Spec app)
      in if \<not> feat_EnableDependencyMetrics (cc_Features (ls_Loaded l)) then (g, None)
         else case GetAppsInEnv (ls_Apps l) (ls_Stack l) env of
                Inl err \<Rightarrow> (g, Some err)
              | Inr applist \<Rightarrow>
                  (foldl (\<lambda>g dependency. foldl (\<lambda>g a.
                       if app_Name a \<noteq> dependency then g
                       else g\<lparr>dependencyMetrics := (dependencyMetrics g)((app_Name app, dependency) \<mapsto> ast_Ready (app_Status a))\<rparr>)
                     g applist) g appDependencies, None))"

definition setReconciliationSuccessful :: "('w, 'c) Deps \<Rightarrow> ('w, 'c) AppRec step" where
  "setReconciliationSuccessful d s =
     (case (if feat_EnableDependencyMetrics (cc_Features (dp_Loaded d (ar_World s))) then ar_Env s
            else Some ClowdEnvironment_zero) of
        None \<Rightarrow> None
      | Some env \<Rightarrow>
          (let g = fst (ReportDependencies (dp_Listings d (ar_World s)) (ar_App s) env (ar_Globals s));
               app = ar_App s;
               s1 = s\<lparr>ar_Globals := g,
                      ar_App := app\<lparr>app_Status := (app_Status app)\<lparr>ast_Generation := om_Generation (app_ObjectMeta app)\<rparr>\<rparr>\<rparr>
           in case set_app_conditions d ReconciliationSuccessful None s1 of
                None \<Rightarrow> None
              | Some (s2, Some e) \<Rightarrow> step_err s2 res_requeue e
              | Some (s2, None) \<Rightarrow>
                  (let g2 = ar_Globals s2
                   in step_ok (event ''Normal'' ''SuccessfulReconciliation'' (''Clowdapp reconciled ['' @ app_Name (ar_App s2) @ '']'')
                        (s2\<lparr>ar_Globals := g2\<lparr>managedApps := key_add (app_GetIdent (ar_App s2)) (managedApps g2)\<rparr>\<rparr>)))))"

section \<open>The reconciler\<close>

definition app_steps :: "('w, 'c) Deps \<Rightarrow> ('w, 'c) AppRec step list" where
  "app_steps d =
     [getApp d, setPresentAndManagedApps, startMetrics d, isAppMarkedForDeletion d, addFinalizer d, isEnvLocked,
      isAppDisabled, isAppNamespaceDeleted d, getClowdEnv d, isEnvNamespaceDeleted d, isClowdEnvReconciled d, isEnvReady d,
      createCache d, runProviders d, applyCache d, setAppResourceStatus d, deletedUnusedResources d,
      setReconciliationSuccessful d, stopMetrics d]"

definition app_Reconcile :: "('w, 'c) Deps \<Rightarrow> ('w, 'c) AppRec step" where
  "app_Reconcile d s = run_steps (app_steps d) s"

definition new_app_reconciliation :: "NamespacedName \<Rightarrow> HashCache \<Rightarrow> Event list \<Rightarrow> Globals \<Rightarrow> 'w \<Rightarrow> ('w, 'c) AppRec" where
  "new_app_reconciliation req hashCache events g w =
     \<lparr>ar_World = w, ar_Cache = None, ar_App = ClowdApp_zero, ar_Req = req, ar_Env = None,
      ar_Metrics = ReconciliationMetrics_zero, ar_Config = AppConfig_zero, ar_OldStatus = None, ar_HashCache = hashCache,
      ar_Events = events, ar_Globals = g\<rparr>"

text \<open>
  The entry point returns the cluster, the hash cache, the events and the globals beside the
  result, and the error unless it is a skip. The deferred function sets the gauge on every path.
\<close>

definition ClowdAppReconciler_Reconcile ::
  "('w, 'c) Deps \<Rightarrow> NamespacedName \<Rightarrow> HashCache \<Rightarrow> Event list \<Rightarrow> Globals \<Rightarrow> 'w
    \<Rightarrow> (('w, 'c) AppRec \<times> CtrlResult \<times> goerr option) option" where
  "ClowdAppReconciler_Reconcile d req hashCache events g w =
     (case app_Reconcile d (new_app_reconciliation req hashCache events g w) of
        None \<Rightarrow> None
      | Some (s, res, err) \<Rightarrow>
          (let s' = s\<lparr>ar_Globals := (ar_Globals s)\<lparr>managedAppsMetric := length (managedApps (ar_Globals s))\<rparr>\<rparr>
           in case err of
                Some e \<Rightarrow> if shouldSkipReconciliation (Some e) then Some (s', res, None) else Some (s', res, Some e)
              | None \<Rightarrow> Some (s', res_done, None)))"

section \<open>Which apps to reconcile\<close>

definition appsToEnqueueUponEnvUpdate ::
  "(NamespacedName \<Rightarrow> goerr + ClowdEnvironment) \<Rightarrow> (string \<Rightarrow> goerr + ClowdApp list) \<Rightarrow> string \<Rightarrow> ObjectMeta
    \<Rightarrow> NamespacedName list" where
  "appsToEnqueueUponEnvUpdate getEnv listApps stack a =
     (case getEnv (NN (om_Name a) (om_Namespace a)) of
        Inl err \<Rightarrow> []
      | Inr env \<Rightarrow>
          (case GetAppsInEnv listApps stack env of
             Inl err \<Rightarrow> []
           | Inr apps \<Rightarrow> map (\<lambda>app. NN (app_Name app) (app_Namespace app)) apps))"

definition appsToEnqueueUponAppRefUpdate ::
  "(NamespacedName \<Rightarrow> goerr + ClowdAppRef) \<Rightarrow> (string \<Rightarrow> goerr + ClowdApp list) \<Rightarrow> ObjectMeta \<Rightarrow> NamespacedName list" where
  "appsToEnqueueUponAppRefUpdate getRef listApps a =
     (case getRef (NN (om_Name a) (om_Namespace a)) of
        Inl err \<Rightarrow> []
      | Inr appRef \<Rightarrow>
          (case listApps (ref_EnvName (ref_Spec appRef)) of
             Inl err \<Rightarrow> []
           | Inr apps \<Rightarrow>
               concat (map (\<lambda>app. if scan (\<lambda>dep. dep = ref_Name appRef)
                                    (app_Dependencies (app_Spec app) @ app_OptionalDependencies (app_Spec app))
                                  then [NN (app_Name app) (app_Namespace app)] else []) apps)))"

section \<open>What the steps leave alone\<close>

lemma event_fields [simp]:
  "ar_World (event ty r m s) = ar_World s" "ar_App (event ty r m s) = ar_App s" "ar_Globals (event ty r m s) = ar_Globals s"
  "ar_HashCache (event ty r m s) = ar_HashCache s" "ar_OldStatus (event ty r m s) = ar_OldStatus s"
  "ar_Env (event ty r m s) = ar_Env s" "ar_Cache (event ty r m s) = ar_Cache s"
  by (simp_all add: event_def)

lemma env_event_fields [simp]:
  "ar_World (env_event r m s) = ar_World s" "ar_App (env_event r m s) = ar_App s" "ar_Globals (env_event r m s) = ar_Globals s"
  "ar_HashCache (env_event r m s) = ar_HashCache s" "ar_OldStatus (env_event r m s) = ar_OldStatus s"
  "ar_World (requeued_event s) = ar_World s" "ar_App (requeued_event s) = ar_App s"
  "ar_Globals (requeued_event s) = ar_Globals s" "ar_HashCache (requeued_event s) = ar_HashCache s"
  "ar_OldStatus (requeued_event s) = ar_OldStatus s"
  by (simp_all add: env_event_def requeued_event_def)

lemma set_finalizers_ident [simp]:
  "app_GetIdent (app_set_finalizers fs app) = app_GetIdent app"
  "app_Status (app_set_finalizers fs app) = app_Status app" "app_Spec (app_set_finalizers fs app) = app_Spec app"
  "om_Finalizers (app_ObjectMeta (app_set_finalizers fs app)) = fs"
  by (simp_all add: app_set_finalizers_def app_GetIdent_def)

text \<open>The conditions are written to the status only.\<close>

lemma SetClowdAppConditions_keeps:
  assumes "SetClowdAppConditions l ops now upd state old err app w = Some (app', w', e)"
  shows "app_ObjectMeta app' = app_ObjectMeta app \<and> app_Spec app' = app_Spec app
    \<and> ast_Generation (app_Status app') = ast_Generation (app_Status app)
    \<and> (w' = w \<or> w' = fst (upd app' w))"
  using assms
  by (auto simp: SetClowdAppConditions_def Let_def split: option.splits sum.splits if_splits prod.splits)

lemma set_app_conditions_keeps:
  assumes "set_app_conditions d state err s = Some (s', e)"
  shows "\<exists>app w. s' = s\<lparr>ar_App := app, ar_World := w\<rparr> \<and> app_ObjectMeta app = app_ObjectMeta (ar_App s)
    \<and> app_Spec app = app_Spec (ar_App s) \<and> ast_Generation (app_Status app) = ast_Generation (app_Status (ar_App s))
    \<and> (w = ar_World s \<or> w = fst (dp_StatusApp d app (ar_World s)))"
  using assms SetClowdAppConditions_keeps
  by (fastforce simp: set_app_conditions_def split: option.splits)

lemma app_failed_keeps:
  assumes "app_failed d cause result err s = Some (s', r, e)"
  shows "(\<exists>app w. s' = s\<lparr>ar_App := app, ar_World := w\<rparr> \<and> app_ObjectMeta app = app_ObjectMeta (ar_App s)
      \<and> app_Spec app = app_Spec (ar_App s) \<and> (w = ar_World s \<or> w = fst (dp_StatusApp d app (ar_World s))))
    \<and> (e = Some err \<and> r = result \<or> (\<exists>e'. e = Some e' \<and> r = res_requeue))"
  using assms set_app_conditions_keeps [of d ReconciliationFailed "Some cause" s]
  by (fastforce simp: app_failed_def split: option.splits)

lemma ident_cong: "app_ObjectMeta a = app_ObjectMeta b \<Longrightarrow> app_Spec a = app_Spec b \<Longrightarrow> app_GetIdent a = app_GetIdent b"
  by (simp add: app_GetIdent_def)

definition app_head :: "('w, 'c) Deps \<Rightarrow> ('w, 'c) AppRec step list" where
  "app_head d = [getApp d, setPresentAndManagedApps, startMetrics d, isAppMarkedForDeletion d]"

definition app_middle :: "('w, 'c) Deps \<Rightarrow> ('w, 'c) AppRec step list" where
  "app_middle d =
     [addFinalizer d, isEnvLocked, isAppDisabled, isAppNamespaceDeleted d, getClowdEnv d, isEnvNamespaceDeleted d,
      isClowdEnvReconciled d, isEnvReady d, createCache d, runProviders d, applyCache d, setAppResourceStatus d,
      deletedUnusedResources d]"

lemma app_steps_split:
  "app_steps d = app_head d @ app_middle d @ [setReconciliationSuccessful d, stopMetrics d]"
  by (simp add: app_steps_def app_head_def app_middle_def)

lemmas middle_defs = addFinalizer_def app_addFinalizerImplementation_def update_app_def isEnvLocked_def isAppDisabled_def
  isAppNamespaceDeleted_def isNamespaceDeleted_def getClowdEnv_def isEnvNamespaceDeleted_def isClowdEnvReconciled_def
  isEnvReady_def createCache_def runProviders_def runProvidersImplementation_def applyCache_def setAppResourceStatus_def
  deletedUnusedResources_def

lemma app_failed_globals: "app_failed d cause result err s = Some (s', r, e) \<Longrightarrow> ar_Globals s' = ar_Globals s"
  using app_failed_keeps [of d cause result err s s' r e] by auto

lemma middle_globals: "st \<in> set (app_middle d) \<Longrightarrow> st s = Some (s', r, e) \<Longrightarrow> ar_Globals s' = ar_Globals s"
  unfolding app_middle_def
  by (auto simp: middle_defs Let_def split: option.splits sum.splits prod.splits if_splits dest!: app_failed_globals)

interpretation app_middle: fixed_steps "app_middle d" ar_Globals for d
  by unfold_locales (rule middle_globals)

lemmas outer_defs = getApp_def setPresentAndManagedApps_def startMetrics_def isAppMarkedForDeletion_def finalizeApp_def
  update_app_def stopMetrics_def rm_stop_def

lemma foldl_keeps: "P g \<Longrightarrow> (\<And>g x. P g \<Longrightarrow> P (f g x)) \<Longrightarrow> P (foldl f g xs)"
  by (induction xs arbitrary: g) auto

lemma ReportDependencies_globals: "\<exists>m. fst (ReportDependencies l app env g) = g\<lparr>dependencyMetrics := m\<rparr>"
proof -
  let ?P = "\<lambda>g'. g' = g\<lparr>dependencyMetrics := dependencyMetrics g'\<rparr>"
  let ?v = "\<lambda>g dep a. g\<lparr>dependencyMetrics := (dependencyMetrics g)((app_Name app, dep) \<mapsto> ast_Ready (app_Status a))\<rparr>"
  have upd: "?P (?v g' dep a)" if "?P g'" for g' dep a
    by (subst that) simp
  have "?P (foldl (\<lambda>g dep. foldl (\<lambda>g a. if app_Name a \<noteq> dep then g else ?v g dep a) g apps) g deps)" for apps deps
    by (intro foldl_keeps [where P = ?P]) (use upd in auto)
  then have "?P (fst (ReportDependencies l app env g))"
    by (auto simp: ReportDependencies_def Let_def simp del: foldl_append split: sum.splits)
  then show ?thesis by blast
qed

text \<open>The outcomes of the step that declares success.\<close>

lemma setReconciliationSuccessful_outcome:
  assumes "setReconciliationSuccessful d s = Some (s', r, e)"
  obtains (failed) m app w where "e \<noteq> None" "r = res_requeue"
      "s' = s\<lparr>ar_Globals := (ar_Globals s)\<lparr>dependencyMetrics := m\<rparr>, ar_App := app, ar_World := w\<rparr>"
  | (success) s1 s2 m where "e = None" "r = res_done"
      "s1 = s\<lparr>ar_Globals := (ar_Globals s)\<lparr>dependencyMetrics := m\<rparr>, ar_App := (ar_App s)\<lparr>app_Status :=
         (app_Status (ar_App s))\<lparr>ast_Generation := om_Generation (app_ObjectMeta (ar_App s))\<rparr>\<rparr>\<rparr>"
      "set_app_conditions d ReconciliationSuccessful None s1 = Some (s2, None)"
      "s' = event ''Normal'' ''SuccessfulReconciliation'' (''Clowdapp reconciled ['' @ app_Name (ar_App s) @ '']'')
         (s2\<lparr>ar_Globals := (ar_Globals s1)\<lparr>managedApps := key_add (app_GetIdent (ar_App s)) (managedApps (ar_Globals s))\<rparr>\<rparr>)"
proof -
  obtain env where env: "(if feat_EnableDependencyMetrics (cc_Features (dp_Loaded d (ar_World s))) then ar_Env s
            else Some ClowdEnvironment_zero) = Some env"
    using assms unfolding setReconciliationSuccessful_def by (auto split: option.splits if_splits)
  obtain m where m: "fst (ReportDependencies (dp_Listings d (ar_World s)) (ar_App s) env (ar_Globals s)) =
      (ar_Globals s)\<lparr>dependencyMetrics := m\<rparr>"
    using ReportDependencies_globals by blast
  define s1 where "s1 = s\<lparr>ar_Globals := (ar_Globals s)\<lparr>dependencyMetrics := m\<rparr>, ar_App := (ar_App s)\<lparr>app_Status :=
         (app_Status (ar_App s))\<lparr>ast_Generation := om_Generation (app_ObjectMeta (ar_App s))\<rparr>\<rparr>\<rparr>"
  have unf: "setReconciliationSuccessful d s = (case set_app_conditions d ReconciliationSuccessful None s1 of
                None \<Rightarrow> None
              | Some (s2, Some e) \<Rightarrow> step_err s2 res_requeue e
              | Some (s2, None) \<Rightarrow>
                  (let g2 = ar_Globals s2
                   in step_ok (event ''Normal'' ''SuccessfulReconciliation'' (''Clowdapp reconciled ['' @ app_Name (ar_App s2) @ '']'')
                        (s2\<lparr>ar_Globals := g2\<lparr>managedApps := key_add (app_GetIdent (ar_App s2)) (managedApps g2)\<rparr>\<rparr>))))"
    unfolding setReconciliationSuccessful_def env option.case Let_def m s1_def ..
  obtain s2 e2 where c: "set_app_conditions d ReconciliationSuccessful None s1 = Some (s2, e2)"
    using assms unf by (cases "set_app_conditions d ReconciliationSuccessful None s1") auto
  from set_app_conditions_keeps [OF c] obtain app w where s2: "s2 = s1\<lparr>ar_App := app, ar_World := w\<rparr>"
    and app: "app_ObjectMeta app = app_ObjectMeta (ar_App s1)" "app_Spec app = app_Spec (ar_App s1)" by blast
  then have ident: "app_GetIdent app = app_GetIdent (ar_App s)" by (simp add: app_GetIdent_def s1_def)
  show thesis
  proof (cases e2)
    case None
    have "s' = event ''Normal'' ''SuccessfulReconciliation'' (''Clowdapp reconciled ['' @ app_Name (ar_App s) @ '']'')
         (s2\<lparr>ar_Globals := (ar_Globals s1)\<lparr>managedApps := key_add (app_GetIdent (ar_App s)) (managedApps (ar_Globals s))\<rparr>\<rparr>)"
      "e = None" "r = res_done"
      using assms [unfolded unf c None] app ident by (auto simp: s2 Let_def) (auto simp: s1_def)
    with that(2) [OF _ _ s1_def] c None show thesis by simp
  next
    case (Some e')
    then have "s' = s2" "e \<noteq> None" "r = res_requeue" using assms by (auto simp: unf c)
    with that(1) [where m = m and app = app and w = w] show thesis by (simp add: s2 s1_def)
  qed
qed

text \<open>The app reconciler never touches the lock or the sets of environments.\<close>

lemma app_step_lock:
  assumes "st \<in> set (app_steps d)" "st s = Some (s', r, e)"
  shows "cEnv (ar_Globals s') = cEnv (ar_Globals s) \<and> managedEnvironments (ar_Globals s') = managedEnvironments (ar_Globals s)
    \<and> presentEnvironments (ar_Globals s') = presentEnvironments (ar_Globals s)
    \<and> managedEnvsMetric (ar_Globals s') = managedEnvsMetric (ar_Globals s)
    \<and> presentEnvsMetric (ar_Globals s') = presentEnvsMetric (ar_Globals s)"
proof -
  from assms(1) consider "st \<in> set (app_head d) \<or> st = stopMetrics d" | "st \<in> set (app_middle d)" | "st = setReconciliationSuccessful d"
    by (auto simp: app_steps_split)
  then show ?thesis
  proof cases
    case 1
    with assms(2) show ?thesis
      by (auto simp: app_head_def outer_defs Let_def split: option.splits sum.splits prod.splits if_splits)
  next
    case 2
    with assms(2) show ?thesis by (simp add: middle_globals)
  next
    case 3
    from assms(2) [unfolded 3] show ?thesis by (cases rule: setReconciliationSuccessful_outcome) (auto dest!: set_app_conditions_keeps)
  qed
qed

interpretation app_lock: fixed_steps "app_steps d"
  "\<lambda>s. (cEnv (ar_Globals s), managedEnvironments (ar_Globals s), presentEnvironments (ar_Globals s),
       managedEnvsMetric (ar_Globals s), presentEnvsMetric (ar_Globals s))" for d
proof unfold_locales
  fix st and s s' :: "('a, 'b) AppRec" and r e
  assume "st \<in> set (app_steps d)" "st s = Some (s', r, e)"
  from app_step_lock [OF this] show "(cEnv (ar_Globals s'), managedEnvironments (ar_Globals s'), presentEnvironments (ar_Globals s'),
       managedEnvsMetric (ar_Globals s'), presentEnvsMetric (ar_Globals s')) = (cEnv (ar_Globals s), managedEnvironments (ar_Globals s),
       presentEnvironments (ar_Globals s), managedEnvsMetric (ar_Globals s), presentEnvsMetric (ar_Globals s))" by simp
qed

section \<open>The first steps\<close>

lemma new_app_reconciliation_fields [simp]:
  "ar_World (new_app_reconciliation req hc ev g w) = w" "ar_HashCache (new_app_reconciliation req hc ev g w) = hc"
  "ar_Globals (new_app_reconciliation req hc ev g w) = g" "ar_Req (new_app_reconciliation req hc ev g w) = req"
  by (simp_all add: new_app_reconciliation_def)

text \<open>What the steps up to the deletion check do for an app that exists and is not being deleted.\<close>

definition app_registered :: "ClowdApp \<Rightarrow> Globals \<Rightarrow> Globals" where
  "app_registered app g = g\<lparr>presentApps := key_add (app_GetIdent app) (presentApps g),
     presentAppsMetric := length (key_add (app_GetIdent app) (presentApps g)),
     managedApps := key_del (app_GetIdent app) (managedApps g)\<rparr>"

lemma app_registered_fields [simp]:
  "cEnv (app_registered app g) = cEnv g" "managedApps (app_registered app g) = key_del (app_GetIdent app) (managedApps g)"
  "presentApps (app_registered app g) = key_add (app_GetIdent app) (presentApps g)"
  "presentAppsMetric (app_registered app g) = length (key_add (app_GetIdent app) (presentApps g))"
  by (simp_all add: app_registered_def)

lemma head_live:
  assumes "dp_GetApp d req w = Inr app" "om_DeletionTimestamp (app_ObjectMeta app) = None"
  shows "\<exists>rm q. run_steps (app_head d) (new_app_reconciliation req hc ev g w) =
    step_ok ((new_app_reconciliation req hc ev g w)\<lparr>ar_App := app, ar_OldStatus := Some (app_Status app), ar_Metrics := rm,
      ar_Globals := (app_registered app g)\<lparr>requestMetrics := q\<rparr>\<rparr>)"
  using assms
  by (auto simp: app_head_def outer_defs Let_def new_app_reconciliation_def app_registered_def)
    (metis Globals.surjective Globals.update_convs(9))+

lemma skip_simps [simp]:
  "NewSkippedError m = SkippedError m" "ReadEnv g = cEnv g"
  by (simp_all add: NewSkippedError_def ReadEnv_def)

lemma entry_eq:
  "ClowdAppReconciler_Reconcile d req hc ev g w =
     (case run_steps (app_head d) (new_app_reconciliation req hc ev g w) of
        None \<Rightarrow> None
      | Some (s, res, err) \<Rightarrow>
          (case (if err = None then run_steps (app_middle d @ [setReconciliationSuccessful d, stopMetrics d]) s else Some (s, res, err)) of
             None \<Rightarrow> None
           | Some (s, res, err) \<Rightarrow>
               Some (s\<lparr>ar_Globals := (ar_Globals s)\<lparr>managedAppsMetric := length (managedApps (ar_Globals s))\<rparr>\<rparr>, res,
                     if shouldSkipReconciliation err then None else err)))"
  unfolding ClowdAppReconciler_Reconcile_def app_Reconcile_def app_steps_split
  by (subst run_steps_append) (auto simp: Let_def dest: run_steps_ok_result split: option.splits)

text \<open>
  C7. An app that exists, has its finalizer and is not being deleted, but whose environment is
  locked, or that is disabled, or whose own namespace or environment's target namespace is being
  deleted, is left alone: the reconciliation returns no error, asks for a requeue only when the
  environment is locked, changes neither the cluster nor the hash cache, and the app counts as
  present but no longer as managed.
\<close>

theorem blocked_app_untouched:
  assumes "dp_GetApp d req w = Inr app" "om_DeletionTimestamp (app_ObjectMeta app) = None"
    and "appFinalizer \<in> set (app_Finalizers app)"
    and "dp_GetNamespace d (app_Namespace app) w = Inr ns"
    and "dp_GetEnv d (NN (app_EnvName (app_Spec app)) '''') w = Inr env"
    and "dp_GetNamespace d (est_TargetNamespace (env_Status env)) w = Inr envns"
    and "cEnv g = app_EnvName (app_Spec app) \<or> app_Disabled (app_Spec app) \<or> om_DeletionTimestamp ns \<noteq> None
      \<or> om_DeletionTimestamp envns \<noteq> None"
  shows "\<exists>s. ClowdAppReconciler_Reconcile d req hc ev g w =
      Some (s, \<lparr>Requeue = (cEnv g = app_EnvName (app_Spec app))\<rparr>, None)
    \<and> ar_World s = w \<and> ar_HashCache s = hc
    \<and> app_GetIdent app \<in> set (presentApps (ar_Globals s)) \<and> app_GetIdent app \<notin> set (managedApps (ar_Globals s))"
proof -
  obtain rm q where h: "run_steps (app_head d) (new_app_reconciliation req hc ev g w) =
    step_ok ((new_app_reconciliation req hc ev g w)\<lparr>ar_App := app, ar_OldStatus := Some (app_Status app), ar_Metrics := rm,
      ar_Globals := (app_registered app g)\<lparr>requestMetrics := q\<rparr>\<rparr>)" (is "_ = step_ok ?s")
    using head_live [OF assms(1,2)] by blast
  show ?thesis
    using assms(3-7)
    by (simp add: entry_eq h app_middle_def addFinalizer_def isEnvLocked_def isAppDisabled_def isAppNamespaceDeleted_def
        isNamespaceDeleted_def getClowdEnv_def isEnvNamespaceDeleted_def) auto
qed

section \<open>Success\<close>

text \<open>
  The identity of an app in the sets is its environment and name. What is documented of an update,
  and true of the providers: neither changes them.
\<close>

definition keeps_ident :: "('w, 'c) Deps \<Rightarrow> bool" where
  "keeps_ident d = ((\<forall>app w app' w' e. dp_UpdateApp d app w = (app', w', e) \<longrightarrow> app_GetIdent app' = app_GetIdent app)
     \<and> (\<forall>a \<in> set (dp_Registry d). \<forall>p app p' app' e.
          provide_app (dp_Stack d) a app p = Some (p', app', e) \<longrightarrow> app_GetIdent app' = app_GetIdent app))"

lemma app_failed_ident: "app_failed d cause result err s = Some (s', r, e) \<Longrightarrow> app_GetIdent (ar_App s') = app_GetIdent (ar_App s)"
  using app_failed_keeps [of d cause result err s s' r e] by (auto intro: ident_cong)

lemma runProvidersForApp_ident:
  assumes "keeps_ident d" "runProvidersForApp (dp_Stack d) (dp_Registry d) app p = Some (p', app', e)"
  shows "app_GetIdent app' = app_GetIdent app"
  using runProvidersForApp_keeps [OF assms(2), of "\<lambda>a _. app_GetIdent a = app_GetIdent app"] assms(1)
  unfolding keeps_ident_def by metis

lemma SetAppResourceStatus_ident: "SetAppResourceStatus l app = Some (app', e) \<Longrightarrow> app_GetIdent app' = app_GetIdent app"
  by (auto simp: SetAppResourceStatus_def app_GetIdent_def split: option.splits sum.splits)

lemma middle_ident:
  assumes "keeps_ident d" "st \<in> set (app_middle d)" "st s = Some (s', r, e)"
  shows "app_GetIdent (ar_App s') = app_GetIdent (ar_App s)"
proof -
  have upd: "app_GetIdent app' = app_GetIdent app" if "dp_UpdateApp d app w = (app', w', e)" for app w app' w' e
    using assms(1) that unfolding keeps_ident_def by blast
  show ?thesis
    using assms(2,3) unfolding app_middle_def
    by (auto simp: middle_defs Let_def split: option.splits sum.splits prod.splits if_splits
        dest!: app_failed_ident upd runProvidersForApp_ident [OF assms(1)] SetAppResourceStatus_ident)
qed

lemma middle_run:
  assumes "keeps_ident d" "run_steps (app_middle d) s = Some (s', r, e)"
  shows "ar_Globals s' = ar_Globals s \<and> app_GetIdent (ar_App s') = app_GetIdent (ar_App s)"
proof -
  have "invariant_steps (app_middle d) (\<lambda>t. app_GetIdent (ar_App t) = app_GetIdent (ar_App s))"
    by unfold_locales (simp add: middle_ident [OF assms(1)])
  from invariant_steps.run_keeps [OF this _ assms(2)] app_middle.run_fixes [OF assms(2)] show ?thesis by simp
qed

text \<open>What an entry into the reconciler can do to the process-wide sets.\<close>

lemma app_outcome:
  assumes k: "keeps_ident d" and get: "dp_GetApp d req w = Inr app"
    and run: "app_Reconcile d (new_app_reconciliation req hc ev g w) = Some (s, r, e)"
  obtains (deleted) "e \<noteq> None" "managedApps (ar_Globals s) = key_del (app_GetIdent app) (managedApps g)"
      "presentApps (ar_Globals s) = key_del (app_GetIdent app) (key_add (app_GetIdent app) (presentApps g))"
      "presentAppsMetric (ar_Globals s) = length (presentApps (ar_Globals s))"
  | (unmanaged) "e \<noteq> None" "managedApps (ar_Globals s) = key_del (app_GetIdent app) (managedApps g)"
      "presentApps (ar_Globals s) = key_add (app_GetIdent app) (presentApps g)"
      "presentAppsMetric (ar_Globals s) = length (presentApps (ar_Globals s))"
  | (managed) "e = None" "managedApps (ar_Globals s) = key_add (app_GetIdent app) (key_del (app_GetIdent app) (managedApps g))"
      "presentApps (ar_Globals s) = key_add (app_GetIdent app) (presentApps g)"
      "presentAppsMetric (ar_Globals s) = length (presentApps (ar_Globals s))"
      "om_DeletionTimestamp (app_ObjectMeta app) = None"
proof (cases "om_DeletionTimestamp (app_ObjectMeta app)")
  case (Some t)
  have "key_del i (key_del i ks) = key_del i ks" for i and ks :: "string list" by (simp add: key_del_def)
  with run get Some that(1,2) show thesis
    by (auto simp: app_Reconcile_def app_steps_def outer_defs Let_def new_app_reconciliation_def split: if_splits prod.splits option.splits)
next
  case None
  obtain rm q where h: "run_steps (app_head d) (new_app_reconciliation req hc ev g w) =
    step_ok ((new_app_reconciliation req hc ev g w)\<lparr>ar_App := app, ar_OldStatus := Some (app_Status app), ar_Metrics := rm,
      ar_Globals := (app_registered app g)\<lparr>requestMetrics := q\<rparr>\<rparr>)" (is "_ = step_ok ?s")
    using head_live [OF get None] by blast
  from run h have tail: "run_steps (app_middle d @ [setReconciliationSuccessful d, stopMetrics d]) ?s = Some (s, r, e)"
    by (simp add: app_Reconcile_def app_steps_split run_steps_append)
  obtain s1 r1 e1 where mid: "run_steps (app_middle d) ?s = Some (s1, r1, e1)"
    using tail by (cases "run_steps (app_middle d) ?s") (auto simp: run_steps_append)
  from middle_run [OF k mid] have s1: "ar_Globals s1 = (app_registered app g)\<lparr>requestMetrics := q\<rparr>"
    "app_GetIdent (ar_App s1) = app_GetIdent app" by simp_all
  show thesis
  proof (cases e1)
    case (Some e')
    with tail mid have "s = s1" "e \<noteq> None" by (auto simp: run_steps_append)
    with that(2) s1 show thesis by simp
  next
    case None
    with tail mid have last: "run_steps [setReconciliationSuccessful d, stopMetrics d] s1 = Some (s, r, e)"
      by (simp add: run_steps_append)
    obtain s2 r2 e2 where suc: "setReconciliationSuccessful d s1 = Some (s2, r2, e2)"
      using last by (cases "setReconciliationSuccessful d s1") auto
    from suc show thesis
    proof (cases rule: setReconciliationSuccessful_outcome)
      case failed
      with last suc have "s = s2" "e \<noteq> None" by auto
      with that(2) failed s1 show thesis by simp
    next
      case (success t1 t2 m)
      with last suc have "e = None" "s = s2\<lparr>ar_Globals := rm_stop (dp_Now d (ar_World s2)) (ar_Metrics s2) (ar_Globals s2)\<rparr>"
        by (auto simp: stopMetrics_def)
      with that(3) success s1 \<open>om_DeletionTimestamp _ = None\<close> show thesis by (simp add: rm_stop_def)
    qed
  qed
qed

text \<open>
  C8. After a reconciliation of an app that exists, the app is in the set of managed apps if and
  only if every step succeeded; in particular a skipped or failed reconciliation takes it out.
\<close>

theorem managed_iff_reconciled:
  assumes "keeps_ident d" "dp_GetApp d req w = Inr app"
    and "app_Reconcile d (new_app_reconciliation req hc ev g w) = Some (s, r, e)"
  shows "app_GetIdent app \<in> set (managedApps (ar_Globals s)) \<longleftrightarrow> e = None"
  using app_outcome [OF assms] by (cases) auto

text \<open>When the guards let a reconciliation pass.\<close>

lemma app_failed_error: "app_failed d cause result err s \<noteq> Some (s', r, None)"
  by (auto simp: app_failed_def split: option.splits)

lemma isNamespaceDeleted_ok: "isNamespaceDeleted d ns m s = Some (s', r, None) \<Longrightarrow> s' = s"
  by (auto simp: isNamespaceDeleted_def split: sum.splits if_splits)

lemma getClowdEnv_ok:
  "getClowdEnv d s = Some (s', r, None) \<Longrightarrow>
     \<exists>env. dp_GetEnv d (NN (ar_EnvName s) '''') (ar_World s) = Inr env \<and> s' = s\<lparr>ar_Env := Some env\<rparr>"
  by (auto simp: getClowdEnv_def app_failed_error split: sum.splits)

lemma env_guards_ok:
  "isEnvNamespaceDeleted d s = Some (s', r, None) \<Longrightarrow> s' = s"
  "isClowdEnvReconciled d s = Some (s', r, None) \<Longrightarrow>
     s' = s \<and> (\<exists>env. ar_Env s = Some env \<and> om_Generation (env_ObjectMeta env) = est_Generation (env_Status env))"
  "isEnvReady d s = Some (s', r, None) \<Longrightarrow> s' = s \<and> (\<exists>env. ar_Env s = Some env \<and> env_IsReady env)"
  "createCache d s = Some (s', r, None) \<Longrightarrow> s' = s\<lparr>ar_Cache := Some (dp_NewObjectCache d)\<rparr>"
  by (auto simp: isEnvNamespaceDeleted_def isClowdEnvReconciled_def isEnvReady_def createCache_def app_failed_error
      dest!: isNamespaceDeleted_ok split: option.splits if_splits)

lemma runProviders_ok:
  "runProviders d s = Some (s', r, None) \<Longrightarrow>
     \<exists>env. ar_Env s = Some env \<and> runProvidersImplementation d env
       (s\<lparr>ar_HashCache := RemoveClowdObjectFromObjects (AppObject (ar_App s)) (ar_HashCache s)\<rparr>) = Some (s', None)"
  by (auto simp: runProviders_def app_failed_error split: option.splits)

lemma applyCache_ok:
  "applyCache d s = Some (s', r, None) \<Longrightarrow>
     \<exists>c c' w. ar_Cache s = Some c \<and> dp_ApplyAll d c (ar_World s) = (c', w, None) \<and> s' = s\<lparr>ar_Cache := Some c', ar_World := w\<rparr>"
  by (auto simp: applyCache_def app_failed_error Let_def split: option.splits prod.splits)

text \<open>The last steps of a reconciliation that succeeds leave the generation observed and the two conditions set.\<close>

lemma app_finished:
  assumes "cond_laws (dp_CondOps d)" and "\<exists>r. setReconciliationSuccessful d a = Some (b, r, None)" and "\<exists>r. stopMetrics d b = Some (s, r, None)"
  shows "app_Spec (ar_App s) = app_Spec (ar_App a) \<and> app_ObjectMeta (ar_App s) = app_ObjectMeta (ar_App a)
    \<and> ast_Generation (app_Status (ar_App s)) = om_Generation (app_ObjectMeta (ar_App s))
    \<and> status_of ReconciliationSuccessful (ast_Conditions (app_Status (ar_App s))) = Some ConditionTrue
    \<and> status_of ReconciliationFailed (ast_Conditions (app_Status (ar_App s))) = Some ConditionFalse"
proof -
  from assms(2) obtain r where "setReconciliationSuccessful d a = Some (b, r, None)" by blast
  then show ?thesis
  proof (cases rule: setReconciliationSuccessful_outcome)
    case (success s1 s2 m)
    from success(4) obtain old where old: "SetClowdAppConditions (dp_Listings d (ar_World s1)) (dp_CondOps d)
        (dp_Now d (ar_World s1)) (dp_StatusApp d) ReconciliationSuccessful old None (ar_App s1) (ar_World s1) = Some (ar_App s2, ar_World s2, None)"
      by (auto simp: set_app_conditions_def split: option.splits)
    have "ar_App s = ar_App s2" using success(5) assms(3) by (auto simp: stopMetrics_def)
    with app_conditions_standard [OF assms(1) old] SetClowdAppConditions_keeps [OF old] success(3) show ?thesis by simp
  qed simp
qed

text \<open>The client answers an update of an app with the app as it was sent, but for fields the server maintains.\<close>

definition update_echo :: "('w, 'c) Deps \<Rightarrow> bool" where
  "update_echo d = (\<forall>app w app' w'. dp_UpdateApp d app w = (app', w', None) \<longrightarrow>
     app_Spec app' = app_Spec app \<and> app_Name app' = app_Name app \<and> app_Namespace app' = app_Namespace app)"

text \<open>The app the steps after the finalizer work on: the one that was fetched, or what the client made of it when the finalizer was added. Only that update can have changed the cluster.\<close>

definition with_finalizer :: "('w, 'c) Deps \<Rightarrow> ClowdApp \<Rightarrow> 'w \<Rightarrow> ClowdApp \<Rightarrow> 'w \<Rightarrow> bool" where
  "with_finalizer d app w app' w' =
     (if appFinalizer \<in> set (app_Finalizers app) then app' = app \<and> w' = w
      else dp_UpdateApp d (app_set_finalizers (dp_AddFinalizer d appFinalizer (app_Finalizers app)) app) w = (app', w', None))"

lemma addFinalizer_ok:
  "addFinalizer d s = Some (s', r, None) \<Longrightarrow>
     with_finalizer d (ar_App s) (ar_World s) (ar_App s') (ar_World s') \<and> ar_Globals s' = ar_Globals s"
  by (auto simp: addFinalizer_def with_finalizer_def app_addFinalizerImplementation_def update_app_def contains_def split: if_splits prod.splits option.splits)

lemma with_finalizer_echo:
  assumes "update_echo d" "with_finalizer d app w app' w'"
  shows "app_Spec app' = app_Spec app \<and> app_Name app' = app_Name app \<and> app_Namespace app' = app_Namespace app"
proof (cases "appFinalizer \<in> set (app_Finalizers app)")
  case False
  with assms have "app_Spec app' = app_Spec (app_set_finalizers fs app) \<and> app_Name app' = app_Name (app_set_finalizers fs app) \<and> app_Namespace app' = app_Namespace (app_set_finalizers fs app)"
    if "fs = dp_AddFinalizer d appFinalizer (app_Finalizers app)" for fs
    unfolding that update_echo_def with_finalizer_def by (metis (no_types, lifting))
  then show ?thesis by (simp add: app_set_finalizers_def)
qed (use assms(2) in \<open>simp add: with_finalizer_def\<close>)

text \<open>The steps up to the check for deletion leave the cluster, the app that was fetched and the lock alone.\<close>

lemma app_fetched:
  assumes "\<exists>r. getApp d (new_app_reconciliation req hc ev g w) = Some (a1, r, None)" "\<exists>r. setPresentAndManagedApps a1 = Some (a2, r, None)"
    "\<exists>r. startMetrics d a2 = Some (a3, r, None)" "\<exists>r. isAppMarkedForDeletion d a3 = Some (a4, r, None)"
  shows "dp_GetApp d req w = Inr (ar_App a4) \<and> om_DeletionTimestamp (app_ObjectMeta (ar_App a4)) = None \<and> ar_World a4 = w \<and> cEnv (ar_Globals a4) = cEnv g"
  using assms by (auto simp: outer_defs new_app_reconciliation_def Let_def split: sum.splits if_splits prod.splits option.splits)

text \<open>
  C9. When all steps of an app's reconciliation succeed, the app that was fetched for the request is not being deleted, not disabled, and its environment was not locked. The environment of the name
  the app gives was found, ready and reconciled in its current generation. All providers ran without error, for that environment and with an empty cache, on the fetched app, with
  its finalizer; what they made was applied without error; and the app ends as the providers left it, but for its status, which has its generation observed, the successful
  condition true and the failed one false.
\<close>

theorem app_success:
  assumes "cond_laws (dp_CondOps d)" and "update_echo d"
    and "app_Reconcile d (new_app_reconciliation req hc ev g w) = Some (s, r, None)"
  shows "\<exists>app s1 s2 env c c' w'. dp_GetApp d req w = Inr app \<and> om_DeletionTimestamp (app_ObjectMeta app) = None
    \<and> \<not> app_Disabled (app_Spec app) \<and> cEnv g \<noteq> app_EnvName (app_Spec app)
    \<and> with_finalizer d app w (ar_App s1) (ar_World s1)
    \<and> app_Spec (ar_App s1) = app_Spec app \<and> app_Name (ar_App s1) = app_Name app \<and> app_Namespace (ar_App s1) = app_Namespace app
    \<and> dp_GetEnv d (NN (app_EnvName (app_Spec app)) '''') (ar_World s1) = Inr env \<and> env_IsReady env
    \<and> om_Generation (env_ObjectMeta env) = est_Generation (env_Status env)
    \<and> ar_Cache s1 = Some (dp_NewObjectCache d) \<and> runProvidersImplementation d env s1 = Some (s2, None)
    \<and> ar_Cache s2 = Some c \<and> dp_ApplyAll d c (ar_World s2) = (c', w', None)
    \<and> app_Spec (ar_App s) = app_Spec (ar_App s2) \<and> app_ObjectMeta (ar_App s) = app_ObjectMeta (ar_App s2)
    \<and> ast_Generation (app_Status (ar_App s)) = om_Generation (app_ObjectMeta (ar_App s))
    \<and> status_of ReconciliationSuccessful (ast_Conditions (app_Status (ar_App s))) = Some ConditionTrue
    \<and> status_of ReconciliationFailed (ast_Conditions (app_Status (ar_App s))) = Some ConditionFalse"
proof -
  let ?s0 = "new_app_reconciliation req hc ev g w"
  from assms(3) obtain a1 a2 a3 a4 a5 a6 a7 a8 a9 a10 a11 a12 a13 a14 a15 a16 a17 a18 where
    st: "\<exists>r. getApp d ?s0 = Some (a1, r, None)" "\<exists>r. setPresentAndManagedApps a1 = Some (a2, r, None)"
      "\<exists>r. startMetrics d a2 = Some (a3, r, None)" "\<exists>r. isAppMarkedForDeletion d a3 = Some (a4, r, None)"
      "\<exists>r. addFinalizer d a4 = Some (a5, r, None)" "\<exists>r. isEnvLocked a5 = Some (a6, r, None)"
      "\<exists>r. isAppDisabled a6 = Some (a7, r, None)" "\<exists>r. isAppNamespaceDeleted d a7 = Some (a8, r, None)"
      "\<exists>r. getClowdEnv d a8 = Some (a9, r, None)" "\<exists>r. isEnvNamespaceDeleted d a9 = Some (a10, r, None)"
      "\<exists>r. isClowdEnvReconciled d a10 = Some (a11, r, None)" "\<exists>r. isEnvReady d a11 = Some (a12, r, None)"
      "\<exists>r. createCache d a12 = Some (a13, r, None)" "\<exists>r. runProviders d a13 = Some (a14, r, None)"
      "\<exists>r. applyCache d a14 = Some (a15, r, None)" "\<exists>r. setAppResourceStatus d a15 = Some (a16, r, None)"
      "\<exists>r. deletedUnusedResources d a16 = Some (a17, r, None)" "\<exists>r. setReconciliationSuccessful d a17 = Some (a18, r, None)"
      "\<exists>r. stopMetrics d a18 = Some (s, r, None)"
    unfolding app_Reconcile_def app_steps_def run_steps_Cons_ok run_steps.simps(1) by blast
  note app = app_fetched [OF st(1-4)]
  have a5: "with_finalizer d (ar_App a4) w (ar_App a5) (ar_World a5)" "cEnv (ar_Globals a5) = cEnv g"
    using st(5) app by (auto dest!: addFinalizer_ok)
  note echo = with_finalizer_echo [OF assms(2) a5(1)]
  have a8: "a8 = a5" "\<not> app_Disabled (app_Spec (ar_App a5))" "cEnv (ar_Globals a5) \<noteq> ar_EnvName a5"
    using st(6-8) by (auto simp: isEnvLocked_def isAppDisabled_def isAppNamespaceDeleted_def dest!: isNamespaceDeleted_ok split: if_splits)
  obtain env where env: "dp_GetEnv d (NN (ar_EnvName a8) '''') (ar_World a8) = Inr env" "env_IsReady env"
    "om_Generation (env_ObjectMeta env) = est_Generation (env_Status env)"
    and a13: "a13 = a8\<lparr>ar_Env := Some env, ar_Cache := Some (dp_NewObjectCache d)\<rparr>"
    using st(9-13) by (auto dest!: getClowdEnv_ok env_guards_ok)
  define b where "b = a13\<lparr>ar_HashCache := RemoveClowdObjectFromObjects (AppObject (ar_App a13)) (ar_HashCache a13)\<rparr>"
  have prov: "runProvidersImplementation d env b = Some (a14, None)"
    using st(14) a13 by (auto simp: b_def dest!: runProviders_ok)
  obtain c c' w' where ap: "ar_Cache a14 = Some c" "dp_ApplyAll d c (ar_World a14) = (c', w', None)" "ar_App a15 = ar_App a14"
    using st(15) by (auto dest!: applyCache_ok)
  have b: "ar_App b = ar_App a5" "ar_World b = ar_World a5" "ar_Cache b = Some (dp_NewObjectCache d)" by (simp_all add: b_def a13 a8)
  have "app_Spec (ar_App a17) = app_Spec (ar_App a14)" "app_ObjectMeta (ar_App a17) = app_ObjectMeta (ar_App a14)"
    using st(16,17) ap(3) by (auto simp: setAppResourceStatus_def SetAppResourceStatus_def deletedUnusedResources_def Let_def split: option.splits sum.splits prod.splits)
  with app_finished [OF assms(1) st(18,19)] have fin: "app_Spec (ar_App s) = app_Spec (ar_App a14)" "app_ObjectMeta (ar_App s) = app_ObjectMeta (ar_App a14)"
    "ast_Generation (app_Status (ar_App s)) = om_Generation (app_ObjectMeta (ar_App s))"
    "status_of ReconciliationSuccessful (ast_Conditions (app_Status (ar_App s))) = Some ConditionTrue"
    "status_of ReconciliationFailed (ast_Conditions (app_Status (ar_App s))) = Some ConditionFalse" by simp_all
  show ?thesis
    by (intro exI [of _ "ar_App a4"] exI [of _ b] exI [of _ a14] exI [of _ env] exI [of _ c] exI [of _ c'] exI [of _ w'])
      (use app a5 echo a8 env prov ap b fin in simp)
qed

section \<open>Failure\<close>

lemma set_app_conditions_ok:
  assumes "cond_laws (dp_CondOps d)" "set_app_conditions d state err s = Some (s', None)"
  shows "status_of ReconciliationSuccessful (ast_Conditions (app_Status (ar_App s'))) =
      Some (if state = ReconciliationSuccessful then ConditionTrue else ConditionFalse)
    \<and> status_of ReconciliationFailed (ast_Conditions (app_Status (ar_App s'))) =
      Some (if state = ReconciliationFailed then ConditionTrue else ConditionFalse)"
  using assms(2) app_conditions_standard [OF assms(1)]
  by (fastforce simp: set_app_conditions_def split: option.splits)

lemma app_failed_report:
  assumes "cond_laws (dp_CondOps d)" "app_failed d cause result err s = Some (s', r, e)"
  obtains "r = result" "e = Some err" "ar_World s' = ar_World s \<or> ar_World s' = fst (dp_StatusApp d (ar_App s') (ar_World s))"
      "status_of ReconciliationFailed (ast_Conditions (app_Status (ar_App s'))) = Some ConditionTrue"
      "status_of ReconciliationSuccessful (ast_Conditions (app_Status (ar_App s'))) = Some ConditionFalse"
  | e' where "r = res_requeue" "e = Some e'" "set_app_conditions d ReconciliationFailed (Some cause) s = Some (s', Some e')"
      "ar_World s' = ar_World s \<or> ar_World s' = fst (dp_StatusApp d (ar_App s') (ar_World s))"
proof -
  from assms(2) obtain e1 where c: "set_app_conditions d ReconciliationFailed (Some cause) s = Some (s', e1)"
    by (auto simp: app_failed_def split: option.splits)
  have w: "ar_World s' = ar_World s \<or> ar_World s' = fst (dp_StatusApp d (ar_App s') (ar_World s))"
    using set_app_conditions_keeps [OF c] by auto
  show thesis
  proof (cases e1)
    case None
    with c assms(2) have "r = result" "e = Some err" by (simp_all add: app_failed_def)
    with that(1) w set_app_conditions_ok [OF assms(1) c [unfolded None]] show thesis by simp
  next
    case (Some e')
    with c assms(2) have "r = res_requeue" "e = Some e'" by (simp_all add: app_failed_def)
    with that(2) w c Some show thesis by simp
  qed
qed

text \<open>
  C10. When a provider fails for an app, the reconciliation ends there and asks for a requeue. Nothing
  is applied: beyond what the providers did, the only possible change to the cluster is the write of
  the app's status. Unless that write itself fails, the error returned is the provider's and the
  status says that the reconciliation failed.
\<close>

theorem provider_failure_reported:
  assumes "cond_laws (dp_CondOps d)"
    and "run_steps (take 13 (app_steps d)) s0 = Some (s1, r1, None)" "ar_Env s1 = Some env"
    and "runProvidersImplementation d env
      (s1\<lparr>ar_HashCache := RemoveClowdObjectFromObjects (AppObject (ar_App s1)) (ar_HashCache s1)\<rparr>) = Some (s2, Some e)"
    and "app_Reconcile d s0 = Some (s, r, err)"
  shows "r = res_requeue
    \<and> (ar_World s = ar_World s2 \<or> ar_World s = fst (dp_StatusApp d (ar_App s) (ar_World s2)))
    \<and> (err = Some e \<and> status_of ReconciliationFailed (ast_Conditions (app_Status (ar_App s))) = Some ConditionTrue
         \<and> status_of ReconciliationSuccessful (ast_Conditions (app_Status (ar_App s))) = Some ConditionFalse
       \<or> (\<exists>e'. err = Some e' \<and> set_app_conditions d ReconciliationFailed (Some e) (requeued_event s2) = Some (s, Some e')))"
proof -
  have split: "app_steps d = take 13 (app_steps d) @ runProviders d # drop 14 (app_steps d)" by (simp add: app_steps_def)
  have "run_steps (take 13 (app_steps d) @ runProviders d # drop 14 (app_steps d)) s0 =
      run_steps (runProviders d # drop 14 (app_steps d)) s1"
    by (simp only: run_steps_append assms(2) option.case prod.case)
  then have "app_Reconcile d s0 = run_steps (runProviders d # drop 14 (app_steps d)) s1"
    unfolding app_Reconcile_def using split by metis
  moreover have "runProviders d s1 = app_failed d e res_requeue e (requeued_event s2)"
    using assms(3,4) by (simp add: runProviders_def Let_def)
  ultimately have "app_failed d e res_requeue e (requeued_event s2) = Some (s, r, err)"
    using assms(5) app_failed_error [of d e res_requeue e "requeued_event s2"]
    by (auto split: option.splits)
  from assms(1) this show ?thesis by (cases rule: app_failed_report) simp_all
qed

section \<open>Deletion\<close>

text \<open>
  Reconciling an app that is being deleted and still has the finalizer takes it out of both
  sets and updates both gauges, whatever the update returns, writes the app with the finalizer
  removed, and does nothing else to the cluster.
\<close>

theorem deleted_app_finalized:
  assumes "dp_GetApp d req w = Inr app" "om_DeletionTimestamp (app_ObjectMeta app) \<noteq> None"
    and "appFinalizer \<in> set (app_Finalizers app)"
    and "dp_UpdateApp d (app_set_finalizers (dp_RemoveFinalizer d appFinalizer (app_Finalizers app)) app) w = (app', w', e)"
  shows "\<exists>s. ClowdAppReconciler_Reconcile d req hc ev g w =
      Some (s, res_done, if shouldSkipReconciliation e then None else e)
    \<and> ar_World s = w' \<and> ar_App s = app' \<and> ar_HashCache s = hc
    \<and> set (presentApps (ar_Globals s)) = set (presentApps g) - {app_GetIdent app}
    \<and> set (managedApps (ar_Globals s)) = set (managedApps g) - {app_GetIdent app}
    \<and> presentAppsMetric (ar_Globals s) = length (presentApps (ar_Globals s))
    \<and> managedAppsMetric (ar_Globals s) = length (managedApps (ar_Globals s))"
  using assms
  by (cases e) (auto simp: ClowdAppReconciler_Reconcile_def app_Reconcile_def app_steps_def outer_defs Let_def)

text \<open>
  An app that is being deleted and no longer has Clowder's finalizer (another finalizer holds it)
  is put back into the set of present apps by a reconciliation, and when it is finally gone nothing
  takes it out again: the reconciliation of an app that is not found changes no set.
\<close>

theorem deleted_app_stays_present:
  assumes "dp_GetApp d req w = Inr app" "om_DeletionTimestamp (app_ObjectMeta app) \<noteq> None"
    and "appFinalizer \<notin> set (app_Finalizers app)"
    and "dp_GetApp d req w2 = Inl notFound" "IsNotFound notFound"
  shows "\<exists>s s2. ClowdAppReconciler_Reconcile d req hc ev g w = Some (s, res_done, None)
    \<and> ClowdAppReconciler_Reconcile d req hc2 ev2 (ar_Globals s) w2 = Some (s2, res_done, None)
    \<and> app_GetIdent app \<in> set (presentApps (ar_Globals s2))"
  using assms
  by (auto simp: ClowdAppReconciler_Reconcile_def app_Reconcile_def app_steps_def outer_defs Let_def)

section \<open>The sets over time\<close>

definition app_sets_ok :: "Globals \<Rightarrow> bool" where
  "app_sets_ok g = (set (managedApps g) \<subseteq> set (presentApps g) \<and> distinct (managedApps g) \<and> distinct (presentApps g)
     \<and> managedAppsMetric g = length (managedApps g) \<and> presentAppsMetric g = length (presentApps g))"

lemma entry_globals:
  assumes "ClowdAppReconciler_Reconcile d req hc ev g w = Some (s, res, err)"
  shows "\<exists>s' r e. app_Reconcile d (new_app_reconciliation req hc ev g w) = Some (s', r, e)
    \<and> ar_Globals s = (ar_Globals s')\<lparr>managedAppsMetric := length (managedApps (ar_Globals s'))\<rparr>"
  using assms by (auto simp: ClowdAppReconciler_Reconcile_def Let_def split: option.splits if_splits)

lemma missing_app_globals:
  assumes "dp_GetApp d req w = Inl err" "app_Reconcile d (new_app_reconciliation req hc ev g w) = Some (s, r, e)"
  shows "ar_Globals s = g"
  using assms by (auto simp: app_Reconcile_def app_steps_def getApp_def split: if_splits)

text \<open>A reconciliation keeps the sets of apps consistent.\<close>

lemma app_turn_keeps:
  assumes "keeps_ident d" "app_sets_ok g" "ClowdAppReconciler_Reconcile d req hc ev g w = Some (s, res, err)"
  shows "app_sets_ok (ar_Globals s)"
proof -
  from entry_globals [OF assms(3)] obtain s' r e where
    run: "app_Reconcile d (new_app_reconciliation req hc ev g w) = Some (s', r, e)"
    and s: "ar_Globals s = (ar_Globals s')\<lparr>managedAppsMetric := length (managedApps (ar_Globals s'))\<rparr>" by blast
  show ?thesis
  proof (cases "dp_GetApp d req w")
    case (Inl err')
    from missing_app_globals [OF this run] s assms(2) show ?thesis by (simp add: app_sets_ok_def)
  next
    case (Inr app)
    from app_outcome [OF assms(1) Inr run] assms(2) s show ?thesis
      by cases (auto simp: app_sets_ok_def)
  qed
qed

lemma app_turn_others:
  assumes "ClowdAppReconciler_Reconcile d req hc ev g w = Some (s, res, err)"
  shows "cEnv (ar_Globals s) = cEnv g \<and> managedEnvironments (ar_Globals s) = managedEnvironments g
    \<and> presentEnvironments (ar_Globals s) = presentEnvironments g
    \<and> managedEnvsMetric (ar_Globals s) = managedEnvsMetric g \<and> presentEnvsMetric (ar_Globals s) = presentEnvsMetric g"
proof -
  from entry_globals [OF assms] obtain s' r e where
    run: "run_steps (app_steps d) (new_app_reconciliation req hc ev g w) = Some (s', r, e)"
    and s: "ar_Globals s = (ar_Globals s')\<lparr>managedAppsMetric := length (managedApps (ar_Globals s'))\<rparr>"
    unfolding app_Reconcile_def by blast
  from app_lock.run_fixes [OF run] s show ?thesis by simp
qed

section \<open>Witnesses\<close>

text \<open>A cluster that holds at most one app, with one environment that is ready.\<close>

definition sample_ready_env :: ClowdEnvironment where
  "sample_ready_env = ClowdEnvironment_zero\<lparr>env_Status := (env_Status ClowdEnvironment_zero)\<lparr>est_TargetNamespace := ''tns'',
     est_Ready := True, est_Conditions := [Condition_zero\<lparr>cond_Type := ReconciliationSuccessful\<rparr>]\<rparr>\<rparr>"

definition sample_app_deps :: "(ClowdApp option, unit) accessor list \<Rightarrow> (ClowdApp option, unit) Deps" where
  "sample_app_deps registry = \<lparr>
     dp_GetApp = (\<lambda>_ w. case w of None \<Rightarrow> Inl (NotFound ''gone'') | Some a \<Rightarrow> Inr a),
     dp_GetEnv = (\<lambda>_ _. Inr sample_ready_env), dp_GetNamespace = (\<lambda>_ _. Inr ObjectMeta_zero),
     dp_UpdateApp = (\<lambda>a w. (a, Some a, None)), dp_UpdateEnv = (\<lambda>e w. (e, w, None)), dp_StatusApp = (\<lambda>a w. (Some a, None)),
     dp_StatusEnv = (\<lambda>e w. (e, w, None)), dp_CreateNamespace = (\<lambda>_ w. (w, None)), dp_DeleteNamespace = (\<lambda>_ w. (w, None)),
     dp_NewObjectCache = (), dp_ApplyAll = (\<lambda>c w. (c, w, None)), dp_ReconcileCache = (\<lambda>_ _ _ c w. (c, w, None)),
     dp_AddFinalizer = (\<lambda>f fs. fs @ [f]), dp_RemoveFinalizer = (\<lambda>f fs. filter (\<lambda>x. x \<noteq> f) fs),
     dp_Listings = (\<lambda>_. sample_listings), dp_CondOps = sample_ops, dp_CondGet = cond_of, dp_Now = (\<lambda>_. 7),
     dp_Random = (\<lambda>_. ''abcdef''), dp_Stack = ''stack'', dp_Registry = registry\<rparr>"

definition sample_live_app :: ClowdApp where
  "sample_live_app = app_set_finalizers [appFinalizer]
     (sample_owner\<lparr>app_Spec := ClowdAppSpec_zero\<lparr>app_EnvName := ''e''\<rparr>\<rparr>)"

definition sample_disabled_app :: ClowdApp where
  "sample_disabled_app = sample_live_app\<lparr>app_Spec := (app_Spec sample_live_app)\<lparr>app_Disabled := True\<rparr>\<rparr>"

definition sample_dying_app :: "string list \<Rightarrow> ClowdApp" where
  "sample_dying_app fs = sample_live_app\<lparr>app_ObjectMeta := (app_ObjectMeta sample_live_app)\<lparr>om_DeletionTimestamp := Some 1,
     om_Finalizers := fs\<rparr>\<rparr>"

lemma sample_deps_fields [simp]:
  "dp_GetApp (sample_app_deps reg) nn (Some a) = Inr a" "dp_GetApp (sample_app_deps reg) nn None = Inl (NotFound ''gone'')"
  "dp_GetEnv (sample_app_deps reg) nn w = Inr sample_ready_env" "dp_GetNamespace (sample_app_deps reg) n w = Inr ObjectMeta_zero"
  "dp_UpdateApp (sample_app_deps reg) a w = (a, Some a, None)" "dp_StatusApp (sample_app_deps reg) a w = (Some a, None)"
  "dp_ApplyAll (sample_app_deps reg) c w = (c, w, None)" "dp_ReconcileCache (sample_app_deps reg) u l m c w = (c, w, None)"
  "dp_Listings (sample_app_deps reg) w = sample_listings" "dp_CondOps (sample_app_deps reg) = sample_ops"
  "dp_Registry (sample_app_deps reg) = reg" "dp_RemoveFinalizer (sample_app_deps reg) f fs = filter (\<lambda>x. x \<noteq> f) fs"
  by (simp_all add: sample_app_deps_def)

lemma sample_app_fields [simp]:
  "app_Finalizers sample_live_app = [appFinalizer]" "om_DeletionTimestamp (app_ObjectMeta sample_live_app) = None"
  "app_EnvName (app_Spec sample_live_app) = ''e''" "\<not> app_Disabled (app_Spec sample_live_app)"
  "app_GetIdent sample_live_app = ''e.a''" "app_UID sample_live_app = ''u1''"
  "app_ObjectMeta sample_disabled_app = app_ObjectMeta sample_live_app" "app_Disabled (app_Spec sample_disabled_app)"
  "app_EnvName (app_Spec sample_disabled_app) = ''e''"
  "om_DeletionTimestamp (app_ObjectMeta (sample_dying_app fs)) = Some 1" "app_Finalizers (sample_dying_app fs) = fs"
  "app_GetIdent (sample_dying_app fs) = ''e.a''"
  by (simp_all add: sample_live_app_def sample_disabled_app_def sample_dying_app_def app_set_finalizers_def sample_owner_def
      app_GetIdent_def ObjectMeta_zero_def ClowdAppSpec_zero_def)

lemma sample_keeps_ident [simp]: "keeps_ident (sample_app_deps [])"
  by (simp add: keeps_ident_def)

theorem blocked_app_untouched_witness:
  "\<exists>s. ClowdAppReconciler_Reconcile (sample_app_deps []) (NN ''a'' ''ns'') [] [] Globals_zero (Some sample_disabled_app) =
      Some (s, res_done, None) \<and> ar_World s = Some sample_disabled_app"
  using blocked_app_untouched [where d = "sample_app_deps []" and req = "NN ''a'' ''ns''" and w = "Some sample_disabled_app"
      and app = sample_disabled_app and ns = ObjectMeta_zero and env = sample_ready_env and envns = ObjectMeta_zero
      and hc = "[]" and ev = "[]" and g = Globals_zero]
  by (auto simp: Globals_zero_def)

theorem deleted_app_finalized_witness:
  "\<exists>s. ClowdAppReconciler_Reconcile (sample_app_deps []) (NN ''a'' ''ns'') [] [] (Globals_zero\<lparr>presentApps := [''e.a'']\<rparr>)
      (Some (sample_dying_app [appFinalizer])) = Some (s, res_done, None) \<and> presentApps (ar_Globals s) = []"
  using deleted_app_finalized [where d = "sample_app_deps []" and req = "NN ''a'' ''ns''" and app = "sample_dying_app [appFinalizer]"
      and w = "Some (sample_dying_app [appFinalizer])" and hc = "[]" and ev = "[]" and g = "Globals_zero\<lparr>presentApps := [''e.a'']\<rparr>"]
  by auto

theorem deleted_app_stays_present_witness:
  "\<exists>s s2. ClowdAppReconciler_Reconcile (sample_app_deps []) (NN ''a'' ''ns'') [] [] Globals_zero (Some (sample_dying_app [])) =
      Some (s, res_done, None)
    \<and> ClowdAppReconciler_Reconcile (sample_app_deps []) (NN ''a'' ''ns'') [] [] (ar_Globals s) None = Some (s2, res_done, None)
    \<and> ''e.a'' \<in> set (presentApps (ar_Globals s2))"
  using deleted_app_stays_present [where d = "sample_app_deps []" and req = "NN ''a'' ''ns''" and w = "Some (sample_dying_app [])"
      and app = "sample_dying_app []" and ?w2.0 = None and notFound = "NotFound ''gone''"]
  by auto

lemma sample_figures:
  "app_UID a = ''u1'' \<Longrightarrow> GetAppResourceFigures sample_listings a =
     Some (Inr (\<lparr>ars_ManagedDeployments = 2, ars_ReadyDeployments = 2\<rparr>, ''dependency failure: []''))"
proof -
  assume "app_UID a = ''u1''"
  moreover have "deploymentStatusChecker sample_ready_deployment = Some True"
    by (simp add: deploymentStatusChecker_def sample_ready_deployment_def KDeployment_zero_def ObjectMeta_zero_def)
  ultimately show ?thesis
    by (simp add: GetAppResourceFigures_def app_GetNamespacesInEnv_def GetOurEnv_def
        sample_listings_def GetAppsInEnv_def countDeployments_def count_resources_def list_namespaces_Inr namespace_set_def
        ClowdEnvironment_zero_def sample_owner_def owns_def sample_ready_deployment_def KDeployment_zero_def ObjectMeta_zero_def)
qed

lemma set_app_conditions_total:
  assumes "ar_OldStatus s = Some old" "GetAppResourceStatus (dp_Listings d (ar_World s)) (ar_App s) = Some (Inr b)"
    and "\<And>a w. snd (dp_StatusApp d a w) = None"
  shows "\<exists>s'. set_app_conditions d state err s = Some (s', None)"
  using assms
  by (auto simp: set_app_conditions_def SetClowdAppConditions_def Let_def split: prod.split) (metis snd_conv)+

lemma sample_loaded_config [simp]: "ls_Loaded sample_listings = ClowderConfig_zero"
  by (simp add: sample_listings_def)

definition sample_start :: "(ClowdApp option, unit) AppRec" where
  "sample_start = new_app_reconciliation (NN ''a'' ''ns'') [] [] Globals_zero (Some sample_live_app)"

lemma sample_env_ok [simp]: "env_IsReady sample_ready_env" "om_Generation (env_ObjectMeta sample_ready_env) = est_Generation (env_Status sample_ready_env)"
  by (simp_all add: sample_ready_env_def env_IsReady_def has_condition_type_def ClowdEnvironment_zero_def ObjectMeta_zero_def)

lemma sample_guards:
  "\<exists>s1 g1 rm. run_steps (take 13 (app_steps (sample_app_deps reg))) sample_start = Some (s1, res_done, None)
     \<and> s1 = sample_start\<lparr>ar_App := sample_live_app, ar_OldStatus := Some (app_Status sample_live_app), ar_Metrics := rm,
          ar_Env := Some sample_ready_env, ar_Cache := Some (), ar_Globals := g1\<rparr>"
  by (simp add: app_steps_def sample_start_def outer_defs middle_defs Let_def Globals_zero_def new_app_reconciliation_def
      sample_app_deps_def ObjectMeta_zero_def)

lemma run_from:
  "run_steps (take n steps) s = Some (s1, r, None) \<Longrightarrow> run_steps steps s = run_steps (drop n steps) s1"
  using run_steps_append [of "take n steps" "drop n steps" s] by simp

lemma sample_status_total:
  assumes "ar_OldStatus s \<noteq> None" "app_UID (ar_App s) = ''u1''"
  shows "\<exists>s'. set_app_conditions (sample_app_deps reg) state err s = Some (s', None)"
proof -
  obtain old where "ar_OldStatus s = Some old" using assms(1) by blast
  moreover have "GetAppResourceStatus (dp_Listings (sample_app_deps reg) (ar_World s)) (ar_App s) = Some (Inr True)"
    using assms(2) by (simp add: GetAppResourceStatus_def sample_figures)
  moreover have "\<And>a w. snd (dp_StatusApp (sample_app_deps reg) a w) = None" by simp
  ultimately show ?thesis by (rule set_app_conditions_total)
qed

lemma sample_success:
  "\<exists>s. app_Reconcile (sample_app_deps []) sample_start = Some (s, res_done, None)"
proof -
  obtain s1 g1 rm where run: "run_steps (take 13 (app_steps (sample_app_deps []))) sample_start = Some (s1, res_done, None)"
    and s1: "s1 = sample_start\<lparr>ar_App := sample_live_app, ar_OldStatus := Some (app_Status sample_live_app), ar_Metrics := rm,
          ar_Env := Some sample_ready_env, ar_Cache := Some (), ar_Globals := g1\<rparr>"
    using sample_guards by blast
  obtain s2 where s2: "run_steps (drop 13 (app_steps (sample_app_deps []))) s1 =
      run_steps [setReconciliationSuccessful (sample_app_deps []), stopMetrics (sample_app_deps [])] s2"
    "ar_OldStatus s2 \<noteq> None" "app_UID (ar_App s2) = ''u1''"
    by (simp add: app_steps_def s1 runProviders_def runProvidersImplementation_def Let_def applyCache_def setAppResourceStatus_def
        deletedUnusedResources_def SetAppResourceStatus_def sample_figures del: run_steps.simps(1))
  have "\<exists>t. setReconciliationSuccessful (sample_app_deps []) s2 = Some (t, res_done, None)"
    using sample_status_total [where reg = "[]" and state = ReconciliationSuccessful and err = None
        and s = "s2\<lparr>ar_App := (ar_App s2)\<lparr>app_Status := (app_Status (ar_App s2))\<lparr>ast_Generation := om_Generation (app_ObjectMeta (ar_App s2))\<rparr>\<rparr>\<rparr>"] s2(2,3)
    by (auto simp: setReconciliationSuccessful_def ReportDependencies_def ClowderConfig_zero_def Let_def)
  with s2 run_from [OF run] show ?thesis by (auto simp: app_Reconcile_def stopMetrics_def)
qed

theorem managed_iff_reconciled_witness:
  "\<exists>s. app_Reconcile (sample_app_deps []) sample_start = Some (s, res_done, None)
    \<and> ''e.a'' \<in> set (managedApps (ar_Globals s))"
proof -
  obtain s where run: "app_Reconcile (sample_app_deps [])
      (new_app_reconciliation (NN ''a'' ''ns'') [] [] Globals_zero (Some sample_live_app)) = Some (s, res_done, None)"
    using sample_success unfolding sample_start_def by blast
  have "dp_GetApp (sample_app_deps []) (NN ''a'' ''ns'') (Some sample_live_app) = Inr sample_live_app" by simp
  from managed_iff_reconciled [OF sample_keeps_ident this run] run show ?thesis by (auto simp: sample_start_def)
qed

theorem app_success_witness:
  "\<exists>s. app_Reconcile (sample_app_deps []) sample_start = Some (s, res_done, None)
    \<and> status_of ReconciliationSuccessful (ast_Conditions (app_Status (ar_App s))) = Some ConditionTrue"
proof -
  obtain s where run: "app_Reconcile (sample_app_deps [])
      (new_app_reconciliation (NN ''a'' ''ns'') [] [] Globals_zero (Some sample_live_app)) = Some (s, res_done, None)"
    using sample_success unfolding sample_start_def by blast
  have "cond_laws (dp_CondOps (sample_app_deps []))" by (simp add: sample_cond_laws)
  moreover have "update_echo (sample_app_deps [])" by (simp add: update_echo_def sample_app_deps_def)
  ultimately show ?thesis using app_success [OF _ _ run] run by (auto simp: sample_start_def)
qed

theorem provider_failure_reported_witness:
  "\<exists>s err. app_Reconcile (sample_app_deps [failing_accessor]) sample_start = Some (s, res_requeue, Some err)
    \<and> status_of ReconciliationFailed (ast_Conditions (app_Status (ar_App s))) = Some ConditionTrue"
proof -
  let ?d = "sample_app_deps [failing_accessor]"
  obtain s1 g1 rm where run: "run_steps (take 13 (app_steps ?d)) sample_start = Some (s1, res_done, None)"
    and s1: "s1 = sample_start\<lparr>ar_App := sample_live_app, ar_OldStatus := Some (app_Status sample_live_app), ar_Metrics := rm,
          ar_Env := Some sample_ready_env, ar_Cache := Some (), ar_Globals := g1\<rparr>"
    using sample_guards by blast
  let ?e = "ClowderError ''stack'' ''runapp: kafka'' (Some (PlainErr ''no broker'')) True"
  obtain s2 where p: "runProvidersImplementation ?d sample_ready_env
      (s1\<lparr>ar_HashCache := RemoveClowdObjectFromObjects (AppObject (ar_App s1)) (ar_HashCache s1)\<rparr>) = Some (s2, Some ?e)"
    and s2: "ar_App s2 = sample_live_app" "ar_OldStatus s2 = Some (app_Status sample_live_app)"
    by (simp add: runProvidersImplementation_def Let_def s1 provide_app_def failing_accessor_def Wrap_ClowderError sample_app_deps_def)
  obtain s where c: "set_app_conditions ?d ReconciliationFailed (Some ?e) (requeued_event s2) = Some (s, None)"
    using sample_status_total [of "requeued_event s2" "[failing_accessor]" ReconciliationFailed "Some ?e"] s2 by auto
  have "app_Reconcile ?d sample_start = run_steps (drop 13 (app_steps ?d)) s1"
    unfolding app_Reconcile_def by (rule run_from [OF run])
  also have "\<dots> = Some (s, res_requeue, Some ?e)"
    using p c by (simp add: app_steps_def runProviders_def s1 Let_def app_failed_def)
  finally have r: "app_Reconcile ?d sample_start = Some (s, res_requeue, Some ?e)" .
  have "cond_laws (dp_CondOps ?d)" by (simp add: sample_cond_laws)
  from provider_failure_reported [OF this run _ p r] r c show ?thesis by (auto simp: s1)
qed

end
