(* ===== verification/Env_Reconcile.thy ===== *)
theory Env_Reconcile
  imports App_Reconcile
begin

text \<open>
  The ClowdEnvironment reconciler, \<open>clowdenvironment_reconciliation.go\<close> and
  \<open>clowdenvironment_controller.go\<close>: the state of a reconciliation, each step as a function on it, the
  steps under the environment lock, the entry point, and the functions that say which environment
  to reconcile when an app or an app reference changes.

  The facts: the lock is held through every step and released at the end; what a successful run
  leaves in the status; which namespaces are made and deleted; what the listing of apps says.
\<close>

section \<open>State\<close>

record ('w, 'c) EnvRec =
  er_World :: 'w
  er_Cache :: "'c option"
  er_Env :: ClowdEnvironment
  er_OldStatus :: ClowdEnvironmentStatus
  er_HashCache :: HashCache
  er_Events :: "Event list"
  er_Globals :: Globals

abbreviation envFinalizer :: string where "envFinalizer \<equiv> ''finalizer.env.cloud.redhat.com''"

abbreviation env_Finalizers :: "ClowdEnvironment \<Rightarrow> string list" where
  "env_Finalizers e \<equiv> om_Finalizers (env_ObjectMeta e)"

definition env_set_finalizers :: "string list \<Rightarrow> ClowdEnvironment \<Rightarrow> ClowdEnvironment" where
  "env_set_finalizers fs env = env\<lparr>env_ObjectMeta := (env_ObjectMeta env)\<lparr>om_Finalizers := fs\<rparr>\<rparr>"

definition map_status :: "(ClowdEnvironmentStatus \<Rightarrow> ClowdEnvironmentStatus) \<Rightarrow> ClowdEnvironment \<Rightarrow> ClowdEnvironment" where
  "map_status f env = env\<lparr>env_Status := f (env_Status env)\<rparr>"

definition er_event :: "string \<Rightarrow> string \<Rightarrow> string \<Rightarrow> ('w, 'c) EnvRec \<Rightarrow> ('w, 'c) EnvRec" where
  "er_event ty reason msg s = s\<lparr>er_Events := er_Events s @ [(ty, reason, msg)]\<rparr>"

section \<open>Steps\<close>

definition update_env :: "('w, 'c) Deps \<Rightarrow> ClowdEnvironment \<Rightarrow> ('w, 'c) EnvRec \<Rightarrow> ('w, 'c) EnvRec \<times> goerr option" where
  "update_env d env s =
     (case dp_UpdateEnv d env (er_World s) of (env', w, e) \<Rightarrow> (s\<lparr>er_Env := env', er_World := w\<rparr>, e))"

definition status_update :: "('w, 'c) Deps \<Rightarrow> ('w, 'c) EnvRec \<Rightarrow> ('w, 'c) EnvRec \<times> goerr option" where
  "status_update d s =
     (case dp_StatusEnv d (er_Env s) (er_World s) of (env', w, e) \<Rightarrow> (s\<lparr>er_Env := env', er_World := w\<rparr>, e))"

definition env_provider :: "('w, 'c) EnvRec \<Rightarrow> ('w, 'c) Provider" where
  "env_provider s = \<lparr>prov_World = er_World s, prov_Env = er_Env s, prov_Cache = er_Cache s, prov_Config = None,
     prov_HashCache = er_HashCache s\<rparr>"

definition from_provider :: "('w, 'c) Provider \<Rightarrow> ('w, 'c) EnvRec \<Rightarrow> ('w, 'c) EnvRec" where
  "from_provider p s = s\<lparr>er_World := prov_World p, er_Env := prov_Env p, er_Cache := prov_Cache p, er_HashCache := prov_HashCache p\<rparr>"

definition finalizeEnvironmentImplementation :: "('w, 'c) Deps \<Rightarrow> ('w, 'c) EnvRec \<Rightarrow> (('w, 'c) EnvRec \<times> goerr option) option" where
  "finalizeEnvironmentImplementation d s =
     (case runProvidersForEnvFinalize (dp_Stack d) (dp_Registry d) (env_provider s) of
        None \<Rightarrow> None
      | Some (p, Some err) \<Rightarrow> Some (from_provider p s, Some err)
      | Some (p, None) \<Rightarrow>
          (let s1 = from_provider p s;
               s2 = (if env_TargetNamespace (env_Spec (er_Env s1)) = ''''
                     then (let s' = er_event ''Warning'' ''NamespaceDeletion'' (''Clowder Environment ['' @ env_Name (er_Env s1)
                                @ ''] had no targetNamespace, deleting generated namespace'') s1
                           in s'\<lparr>er_World := fst (dp_DeleteNamespace d (est_TargetNamespace (env_Status (er_Env s1))) (er_World s1))\<rparr>)
                     else s1);
               g = er_Globals s2; name = env_Name (er_Env s2);
               managed = key_del name (managedEnvironments g); present = key_del name (presentEnvironments g)
           in Some (s2\<lparr>er_Globals := g\<lparr>managedEnvironments := managed, managedEnvsMetric := length managed,
                       presentEnvironments := present, presentEnvsMetric := length present\<rparr>\<rparr>, None)))"

definition markedForDeletion :: "('w, 'c) Deps \<Rightarrow> ('w, 'c) EnvRec step" where
  "markedForDeletion d s =
     (if om_DeletionTimestamp (env_ObjectMeta (er_Env s)) \<noteq> None
      then if contains (env_Finalizers (er_Env s)) envFinalizer
           then case finalizeEnvironmentImplementation d s of
                  None \<Rightarrow> None
                | Some (s1, Some finalizeErr) \<Rightarrow> step_err s1 res_requeue finalizeErr
                | Some (s1, None) \<Rightarrow>
                    (let env = env_set_finalizers (dp_RemoveFinalizer d envFinalizer (env_Finalizers (er_Env s1))) (er_Env s1)
                     in case update_env d env s1 of
                          (s2, Some e) \<Rightarrow> step_err s2 res_done e
                        | (s2, None) \<Rightarrow> step_err s2 res_done
                            (NewSkippedError ''env is marked for delete and finalizers removed''))
           else step_err s res_done (NewSkippedError ''env is marked for delete and has no finalizer'')
      else step_ok s)"

definition env_addFinalizerImplementation :: "('w, 'c) Deps \<Rightarrow> ('w, 'c) EnvRec \<Rightarrow> ('w, 'c) EnvRec \<times> goerr option" where
  "env_addFinalizerImplementation d s =
     update_env d (env_set_finalizers (dp_AddFinalizer d envFinalizer (env_Finalizers (er_Env s))) (er_Env s)) s"

definition addFinalizerIfRequired :: "('w, 'c) Deps \<Rightarrow> ('w, 'c) EnvRec step" where
  "addFinalizerIfRequired d s =
     (if \<not> contains (env_Finalizers (er_Env s)) envFinalizer
      then case env_addFinalizerImplementation d s of
             (s1, Some e) \<Rightarrow> step_err s1 res_done e
           | (s1, None) \<Rightarrow> step_ok s1
      else step_ok s)"

definition perProviderMetrics :: "('w, 'c) Deps \<Rightarrow> ('w, 'c) EnvRec step" where
  "perProviderMetrics d s =
     (let g = er_Globals s; key = (''env'', env_Name (er_Env s))
      in step_ok (if feat_PerProviderMetrics (cc_Features (dp_Loaded d (er_World s)))
                  then s\<lparr>er_Globals := g\<lparr>requestMetrics := (requestMetrics g)(key := requestMetrics g key + 1)\<rparr>\<rparr> else s))"

definition setToBeDisabled :: "('w, 'c) EnvRec step" where
  "setToBeDisabled s =
     (if env_Disabled (env_Spec (er_Env s)) then step_err s res_done (NewSkippedError ''env is disabled'') else step_ok s)"

definition set_env_conditions ::
  "('w, 'c) Deps \<Rightarrow> string \<Rightarrow> goerr option \<Rightarrow> ('w, 'c) EnvRec \<Rightarrow> (('w, 'c) EnvRec \<times> goerr option) option" where
  "set_env_conditions d state err s =
     (case SetClowdEnvConditions (dp_Listings d (er_World s)) (dp_CondOps d) (dp_Now d (er_World s))
             (\<lambda>e w. case dp_StatusEnv d e w of (_, w', er) \<Rightarrow> (w', er)) state (er_OldStatus s) err (er_Env s) (er_World s) of
        None \<Rightarrow> None
      | Some (env, w, e) \<Rightarrow> Some (s\<lparr>er_Env := env, er_World := w\<rparr>, e))"

text \<open>The reaction to an error: write the failure condition and ask for a requeue.\<close>

definition env_failed :: "('w, 'c) Deps \<Rightarrow> goerr \<Rightarrow> ('w, 'c) EnvRec step" where
  "env_failed d err s =
     (case set_env_conditions d ReconciliationFailed (Some err) s of
        None \<Rightarrow> None
      | Some (s1, Some setClowdStatusErr) \<Rightarrow> step_err s1 res_requeue setClowdStatusErr
      | Some (s1, None) \<Rightarrow> step_err s1 res_requeue err)"

definition getTargetNamespace :: "('w, 'c) Deps \<Rightarrow> ('w, 'c) EnvRec step" where
  "getTargetNamespace d s =
     (let target = env_TargetNamespace (env_Spec (er_Env s))
      in case dp_GetNamespace d target (er_World s) of
           Inl nErr \<Rightarrow> env_failed d nErr
             (er_event ''Warning'' ''NamespaceMissing'' (''Requested Target Namespace ['' @ target @ ''] is missing'') s)
         | Inr ns \<Rightarrow> step_ok (s\<lparr>er_Env := map_status (\<lambda>st. st\<lparr>est_TargetNamespace := target\<rparr>) (er_Env s)\<rparr>))"

definition makeTargetNamespace :: "('w, 'c) Deps \<Rightarrow> ('w, 'c) EnvRec step" where
  "makeTargetNamespace d s =
     (let target = GenerateTargetNamespace (dp_Random d (er_World s)) (er_Env s);
          s1 = s\<lparr>er_Env := map_status (\<lambda>st. st\<lparr>est_TargetNamespace := target\<rparr>) (er_Env s)\<rparr>
      in case dp_CreateNamespace d target (er_World s1) of
           (w, Some snErr) \<Rightarrow> env_failed d snErr (s1\<lparr>er_World := w\<rparr>)
         | (w, None) \<Rightarrow> step_ok (s1\<lparr>er_World := w\<rparr>))"

definition updateTargetNamespace :: "('w, 'c) Deps \<Rightarrow> ('w, 'c) EnvRec step" where
  "updateTargetNamespace d s =
     (case status_update d s of
        (s1, Some statErr) \<Rightarrow> env_failed d statErr s1
      | (s1, None) \<Rightarrow> step_ok s1)"

definition initTargetNamespace :: "('w, 'c) Deps \<Rightarrow> ('w, 'c) EnvRec step" where
  "initTargetNamespace d s =
     (if est_TargetNamespace (env_Status (er_Env s)) \<noteq> '''' then step_ok s
      else case (if env_TargetNamespace (env_Spec (er_Env s)) = '''' then makeTargetNamespace d s else getTargetNamespace d s) of
             None \<Rightarrow> None
           | Some (s1, result, Some err) \<Rightarrow> Some (s1, result, Some err)
           | Some (s1, result, None) \<Rightarrow> updateTargetNamespace d s1)"

definition isTargetNamespaceMarkedForDeletion :: "('w, 'c) Deps \<Rightarrow> ('w, 'c) EnvRec step" where
  "isTargetNamespaceMarkedForDeletion d s =
     (case dp_GetNamespace d (est_TargetNamespace (env_Status (er_Env s))) (er_World s) of
        Inl getNSErr \<Rightarrow> env_failed d getNSErr s
      | Inr ens \<Rightarrow> if om_DeletionTimestamp ens \<noteq> None
                   then step_err s res_done (NewSkippedError ''target namespace is to be deleted'') else step_ok s)"

definition env_runProviders :: "('w, 'c) Deps \<Rightarrow> ('w, 'c) EnvRec step" where
  "env_runProviders d s =
     (let s1 = s\<lparr>er_HashCache := RemoveClowdObjectFromObjects (EnvObject (er_Env s)) (er_HashCache s)\<rparr>
      in case runProvidersForEnv (dp_Stack d) (dp_Registry d) (env_provider s1) of
           None \<Rightarrow> None
         | Some (p, Some provErr) \<Rightarrow> env_failed d provErr (from_provider p s1)
         | Some (p, None) \<Rightarrow> step_ok (from_provider p s1))"

definition env_applyCache :: "('w, 'c) Deps \<Rightarrow> ('w, 'c) EnvRec step" where
  "env_applyCache d s =
     (case er_Cache s of
        None \<Rightarrow> None
      | Some c \<Rightarrow>
          (case dp_ApplyAll d c (er_World s) of
             (c', w, cacheErr) \<Rightarrow>
               (let s1 = s\<lparr>er_Cache := Some c', er_World := w\<rparr>
                in case cacheErr of Some e \<Rightarrow> env_failed d e s1 | None \<Rightarrow> step_ok s1)))"

section \<open>The listing of the apps\<close>

definition deployment_info :: "int \<Rightarrow> ClowdApp \<Rightarrow> Deployment \<Rightarrow> DeploymentInfo" where
  "deployment_info webPort app pod =
     (let name = app_Name app @ ''-'' @ dep_Name pod
      in if dep_Web pod \<or> pub_Enabled (ws_Public (dep_WebServices pod))
         then \<lparr>di_Name = name, di_Hostname = name @ ''.'' @ app_Namespace app @ ''.svc'', di_Port = webPort\<rparr>
         else \<lparr>di_Name = name, di_Hostname = '''', di_Port = 0\<rparr>)"

text \<open>The maps are filled in the order of the lists, so that the last entry of a name stays.\<close>

definition app_info :: "int \<Rightarrow> ClowdApp \<Rightarrow> AppInfo" where
  "app_info webPort app =
     (let depMap = map_by dep_Name (app_Deployments (app_Spec app));
          depNames = sort (map dep_Name (app_Deployments (app_Spec app)))
      in \<lparr>ai_Name = app_Name app, ai_Deployments = map (\<lambda>n. deployment_info webPort app (the (depMap n))) depNames\<rparr>)"

definition app_key :: "ClowdApp \<Rightarrow> string" where
  "app_key app = app_Name app @ ''-'' @ app_Namespace app"

definition setAppInfoImplementation :: "Listings \<Rightarrow> ClowdEnvironment \<Rightarrow> ClowdEnvironment \<times> goerr option" where
  "setAppInfoImplementation l env =
     (case GetAppsInEnv (ls_Apps l) (ls_Stack l) env of
        Inl err \<Rightarrow> (env, Some err)
      | Inr appList \<Rightarrow>
          (let appMap = map_by app_key appList;
               names = sort (map app_key appList);
               webPort = web_Port (env_Web env);
               apps = map (app_info webPort) (filter (\<lambda>a. om_DeletionTimestamp (app_ObjectMeta a) = None) (map (\<lambda>n. the (appMap n)) names))
           in (map_status (\<lambda>st. st\<lparr>est_Apps := apps\<rparr>) env, None)))"

definition setAppInfo :: "('w, 'c) Deps \<Rightarrow> ('w, 'c) EnvRec step" where
  "setAppInfo d s =
     (case setAppInfoImplementation (dp_Listings d (er_World s)) (er_Env s) of
        (env, Some setAppErr) \<Rightarrow> env_failed d setAppErr (s\<lparr>er_Env := env\<rparr>)
      | (env, None) \<Rightarrow> step_ok (s\<lparr>er_Env := env\<rparr>))"

section \<open>The final steps\<close>

definition setEnvResourceStatus :: "('w, 'c) Deps \<Rightarrow> ('w, 'c) EnvRec step" where
  "setEnvResourceStatus d s =
     (case SetEnvResourceStatus (dp_Listings d (er_World s)) (er_Env s) of
        None \<Rightarrow> None
      | Some (env, Some statusErr) \<Rightarrow> env_failed d statusErr (s\<lparr>er_Env := env\<rparr>)
      | Some (env, None) \<Rightarrow> step_ok (s\<lparr>er_Env := env\<rparr>))"

definition prometheus_url :: "ClowdEnvironment \<Rightarrow> string" where
  "prometheus_url env =
     (let m = pv_Metrics (env_Providers (env_Spec env))
      in if met_Mode m = ''app-interface'' then pc_AppInterfaceInternalURL (met_Prometheus m)
         else ''http://prometheus-operated.'' @ est_TargetNamespace (env_Status env) @ ''.svc.cluster.local:9090'')"

definition setPrometheusStatus :: "('w, 'c) EnvRec step" where
  "setPrometheusStatus s =
     step_ok (s\<lparr>er_Env := map_status (\<lambda>st. st\<lparr>est_PrometheusServerAddress := prometheus_url (er_Env s)\<rparr>) (er_Env s)\<rparr>)"

definition setEnvStatus :: "('w, 'c) Deps \<Rightarrow> ('w, 'c) EnvRec step" where
  "setEnvStatus d s =
     (case GetEnvResourceStatus (dp_Listings d (er_World s)) (er_Env s) of
        None \<Rightarrow> None
      | Some (Inl e) \<Rightarrow> step_err s res_requeue e
      | Some (Inr (envReady, _)) \<Rightarrow>
          (let envStatus = (case dp_CondGet d ReconciliationSuccessful (est_Conditions (env_Status (er_Env s))) of
                 None \<Rightarrow> ConditionFalse | Some successCond \<Rightarrow> cond_Status successCond)
           in step_ok (s\<lparr>er_Env := map_status (\<lambda>st. st\<lparr>est_Ready := envReady \<and> envStatus = ConditionTrue,
                 est_Generation := om_Generation (env_ObjectMeta (er_Env s))\<rparr>) (er_Env s)\<rparr>)))"

definition finalStatusError :: "('w, 'c) Deps \<Rightarrow> ('w, 'c) EnvRec step" where
  "finalStatusError d s =
     (case status_update d s of
        (s1, Some e) \<Rightarrow> env_failed d e s1
      | (s1, None) \<Rightarrow> step_ok s1)"

definition deleteUnusedResources :: "('w, 'c) Deps \<Rightarrow> ('w, 'c) EnvRec step" where
  "deleteUnusedResources d s =
     (case er_Cache s of
        None \<Rightarrow> None
      | Some c \<Rightarrow>
          (case dp_ReconcileCache d (env_UID (er_Env s))
                  (co_GetPrimaryLabel (EnvObject (er_Env s)), co_GetClowdName (EnvObject (er_Env s))) None c (er_World s) of
             (c', w, rErr) \<Rightarrow>
               (let s1 = s\<lparr>er_Cache := Some c', er_World := w\<rparr>
                in case rErr of Some e \<Rightarrow> step_err s1 res_requeue e | None \<Rightarrow> step_ok s1)))"

definition setClowdEnvConditions :: "('w, 'c) Deps \<Rightarrow> ('w, 'c) EnvRec step" where
  "setClowdEnvConditions d s =
     (case set_env_conditions d ReconciliationSuccessful None s of
        None \<Rightarrow> None
      | Some (s1, Some successSetErr) \<Rightarrow> step_err s1 res_requeue successSetErr
      | Some (s1, None) \<Rightarrow> step_ok s1)"

definition logSuccess :: "('w, 'c) EnvRec step" where
  "logSuccess s = step_ok (er_event ''Normal'' ''SuccessfulReconciliation''
     (''Environment reconciled ['' @ env_Name (er_Env s) @ '']'') s)"

section \<open>The reconciler\<close>

definition env_steps :: "('w, 'c) Deps \<Rightarrow> ('w, 'c) EnvRec step list" where
  "env_steps d =
     [markedForDeletion d, addFinalizerIfRequired d, perProviderMetrics d, setToBeDisabled, initTargetNamespace d,
      isTargetNamespaceMarkedForDeletion d, env_runProviders d, env_applyCache d, setAppInfo d, setEnvResourceStatus d,
      setPrometheusStatus, setEnvStatus d, finalStatusError d, deleteUnusedResources d, setClowdEnvConditions d, logSuccess]"

text \<open>The lock is set before the first step, and released by a deferred call on every return.\<close>

text \<open>The environment is locked before the first step and released, by a deferred call, however the steps end.\<close>

definition locked_run :: "('w, 'c) EnvRec step list \<Rightarrow> ('w, 'c) EnvRec step" where
  "locked_run steps s =
     (case run_steps steps (s\<lparr>er_Globals := SetEnv (env_Name (er_Env s)) (er_Globals s)\<rparr>) of
        None \<Rightarrow> None
      | Some (s', r, e) \<Rightarrow> Some (s'\<lparr>er_Globals := ReleaseEnv (er_Globals s')\<rparr>, r, e))"

definition env_Reconcile :: "('w, 'c) Deps \<Rightarrow> ('w, 'c) EnvRec step" where
  "env_Reconcile d = locked_run (env_steps d)"

definition initMetrics :: "ClowdEnvironment \<Rightarrow> Globals \<Rightarrow> Globals" where
  "initMetrics env g =
     (let present = key_add (env_Name env) (presentEnvironments g)
      in g\<lparr>presentEnvironments := present, presentEnvsMetric := length present,
           managedEnvironments := key_del (env_Name env) (managedEnvironments g)\<rparr>)"

definition new_env_reconciliation ::
  "('w, 'c) Deps \<Rightarrow> ClowdEnvironment \<Rightarrow> HashCache \<Rightarrow> Event list \<Rightarrow> Globals \<Rightarrow> 'w \<Rightarrow> ('w, 'c) EnvRec" where
  "new_env_reconciliation d env hashCache events g w =
     \<lparr>er_World = w, er_Cache = Some (dp_NewObjectCache d), er_Env = env, er_OldStatus = env_Status env,
      er_HashCache = hashCache, er_Events = events, er_Globals = initMetrics env g\<rparr>"

text \<open>The first component is the state after the reconciliation, or \<open>None\<close> if none took place.\<close>

definition ClowdEnvironmentReconciler_Reconcile ::
  "('w, 'c) Deps \<Rightarrow> NamespacedName \<Rightarrow> HashCache \<Rightarrow> Event list \<Rightarrow> Globals \<Rightarrow> 'w
    \<Rightarrow> (('w, 'c) EnvRec option \<times> CtrlResult \<times> goerr option) option" where
  "ClowdEnvironmentReconciler_Reconcile d req hashCache events g w =
     (case dp_GetEnv d req w of
        Inl err \<Rightarrow> if IsNotFound err then Some (None, res_done, None) else Some (None, res_done, Some err)
      | Inr env \<Rightarrow>
          (case env_Reconcile d (new_env_reconciliation d env hashCache events g w) of
             None \<Rightarrow> None
           | Some (s, result, resErr) \<Rightarrow>
               (let gauge = (\<lambda>s. s\<lparr>er_Globals := (er_Globals s)\<lparr>managedEnvsMetric := length (managedEnvironments (er_Globals s))\<rparr>\<rparr>)
                in case resErr of
                     Some e \<Rightarrow> if shouldSkipReconciliation (Some e) then Some (Some (gauge s), result, None)
                               else Some (Some (gauge s), result, Some e)
                   | None \<Rightarrow>
                       (let g' = er_Globals s
                        in Some (Some (gauge (s\<lparr>er_Globals := g'\<lparr>managedEnvironments :=
                             key_add (env_Name (er_Env s)) (managedEnvironments g')\<rparr>\<rparr>)), res_done, None)))))"

section \<open>Which environment to reconcile\<close>

definition envToEnqueueUponAppUpdate :: "(NamespacedName \<Rightarrow> goerr + ClowdApp) \<Rightarrow> ObjectMeta \<Rightarrow> NamespacedName list" where
  "envToEnqueueUponAppUpdate get a =
     (case get (NN (om_Name a) (om_Namespace a)) of
        Inl err \<Rightarrow> []
      | Inr app \<Rightarrow> [NN (app_EnvName (app_Spec app)) ''''])"

definition envToEnqueueUponAppRefUpdate :: "(NamespacedName \<Rightarrow> goerr + ClowdAppRef) \<Rightarrow> ObjectMeta \<Rightarrow> NamespacedName list" where
  "envToEnqueueUponAppRefUpdate getAppRef a =
     (case getAppRef (NN (om_Name a) (om_Namespace a)) of
        Inl err \<Rightarrow> []
      | Inr appRef \<Rightarrow> [NN (ref_EnvName (ref_Spec appRef)) ''''])"

section \<open>The lock\<close>

lemma er_event_fields [simp]:
  "er_World (er_event ty r m s) = er_World s" "er_Env (er_event ty r m s) = er_Env s" "er_Globals (er_event ty r m s) = er_Globals s"
  "er_HashCache (er_event ty r m s) = er_HashCache s" "er_OldStatus (er_event ty r m s) = er_OldStatus s"
  by (simp_all add: er_event_def)

lemma from_provider_fields [simp]:
  "er_Globals (from_provider p s) = er_Globals s" "er_Env (from_provider p s) = prov_Env p"
  "er_World (from_provider p s) = prov_World p" "er_OldStatus (from_provider p s) = er_OldStatus s"
  by (simp_all add: from_provider_def)

lemma map_status_fields [simp]:
  "env_ObjectMeta (map_status f env) = env_ObjectMeta env" "env_Spec (map_status f env) = env_Spec env"
  "env_Status (map_status f env) = f (env_Status env)"
  by (simp_all add: map_status_def)

lemma SetClowdEnvConditions_keeps:
  assumes "SetClowdEnvConditions l ops now upd state old err env w = Some (env', w', e)"
  shows "env_ObjectMeta env' = env_ObjectMeta env \<and> env_Spec env' = env_Spec env
    \<and> est_Generation (env_Status env') = est_Generation (env_Status env)
    \<and> est_TargetNamespace (env_Status env') = est_TargetNamespace (env_Status env)
    \<and> est_PrometheusServerAddress (env_Status env') = est_PrometheusServerAddress (env_Status env)
    \<and> est_Apps (env_Status env') = est_Apps (env_Status env)
    \<and> (w' = w \<or> w' = fst (upd env' w))"
  using assms
  by (auto simp: SetClowdEnvConditions_def Let_def split: option.splits sum.splits if_splits prod.splits)

lemma set_env_conditions_keeps:
  assumes "set_env_conditions d state err s = Some (s', e)"
  shows "\<exists>env w. s' = s\<lparr>er_Env := env, er_World := w\<rparr> \<and> env_ObjectMeta env = env_ObjectMeta (er_Env s)
    \<and> env_Spec env = env_Spec (er_Env s) \<and> est_Generation (env_Status env) = est_Generation (env_Status (er_Env s))
    \<and> est_TargetNamespace (env_Status env) = est_TargetNamespace (env_Status (er_Env s))
    \<and> est_PrometheusServerAddress (env_Status env) = est_PrometheusServerAddress (env_Status (er_Env s))
    \<and> est_Apps (env_Status env) = est_Apps (env_Status (er_Env s))
    \<and> (w = er_World s \<or> w = fst (snd (dp_StatusEnv d env (er_World s))))"
proof -
  from assms obtain env w where
    c: "SetClowdEnvConditions (dp_Listings d (er_World s)) (dp_CondOps d) (dp_Now d (er_World s))
             (\<lambda>e w. case dp_StatusEnv d e w of (_, w', er) \<Rightarrow> (w', er)) state (er_OldStatus s) err (er_Env s) (er_World s) = Some (env, w, e)"
    and s': "s' = s\<lparr>er_Env := env, er_World := w\<rparr>"
    by (auto simp: set_env_conditions_def split: option.splits)
  have "fst (case dp_StatusEnv d env (er_World s) of (_, w', er) \<Rightarrow> (w', er)) = fst (snd (dp_StatusEnv d env (er_World s)))"
    by (simp split: prod.split)
  with SetClowdEnvConditions_keeps [OF c] s' show ?thesis by auto
qed

lemma env_failed_keeps:
  assumes "env_failed d err s = Some (s', r, e)"
  shows "(\<exists>env w. s' = s\<lparr>er_Env := env, er_World := w\<rparr> \<and> env_ObjectMeta env = env_ObjectMeta (er_Env s)
      \<and> env_Spec env = env_Spec (er_Env s)
      \<and> est_TargetNamespace (env_Status env) = est_TargetNamespace (env_Status (er_Env s))
      \<and> (w = er_World s \<or> w = fst (snd (dp_StatusEnv d env (er_World s)))))
    \<and> e \<noteq> None \<and> r = res_requeue"
  using assms set_env_conditions_keeps [of d ReconciliationFailed "Some err" s]
  by (fastforce simp: env_failed_def split: option.splits)

lemma env_failed_globals: "env_failed d err s = Some (s', r, e) \<Longrightarrow> er_Globals s' = er_Globals s"
  using env_failed_keeps [of d err s s' r e] by auto

lemma env_failed_error [simp]: "env_failed d err s \<noteq> Some (s', r, None)"
  by (auto simp: env_failed_def split: option.splits)

lemmas env_step_defs = addFinalizerIfRequired_def env_addFinalizerImplementation_def update_env_def status_update_def
  perProviderMetrics_def setToBeDisabled_def initTargetNamespace_def makeTargetNamespace_def getTargetNamespace_def
  updateTargetNamespace_def isTargetNamespaceMarkedForDeletion_def env_runProviders_def env_applyCache_def setAppInfo_def
  setEnvResourceStatus_def setPrometheusStatus_def setEnvStatus_def finalStatusError_def deleteUnusedResources_def
  setClowdEnvConditions_def logSuccess_def

lemma finalize_globals:
  assumes "finalizeEnvironmentImplementation d s = Some (s', e)"
  shows "cEnv (er_Globals s') = cEnv (er_Globals s) \<and> managedApps (er_Globals s') = managedApps (er_Globals s)
    \<and> presentApps (er_Globals s') = presentApps (er_Globals s)"
  using assms by (auto simp: finalizeEnvironmentImplementation_def Let_def split: option.splits if_splits)

text \<open>The steps after the deletion check change no set and no lock.\<close>

definition env_tail :: "('w, 'c) Deps \<Rightarrow> ('w, 'c) EnvRec step list" where
  "env_tail d = tl (env_steps d)"

lemma env_steps_split: "env_steps d = markedForDeletion d # env_tail d"
  by (simp add: env_tail_def env_steps_def)

definition env_sets :: "Globals \<Rightarrow> Globals" where
  "env_sets g = g\<lparr>requestMetrics := \<lambda>_. 0\<rparr>"

lemma env_tail_sets:
  assumes "st \<in> set (env_tail d)" "st s = Some (s', r, e)"
  shows "env_sets (er_Globals s') = env_sets (er_Globals s)"
proof -
  have cond: "er_Globals t' = er_Globals t" if "set_env_conditions d state err t = Some (t', e')" for state err t t' e'
    using set_env_conditions_keeps [OF that] by auto
  show ?thesis
    using assms unfolding env_tail_def env_steps_def list.sel
    by (auto simp: env_step_defs env_sets_def Let_def split: option.splits sum.splits prod.splits if_splits
        dest!: env_failed_globals cond)
qed

interpretation env_tail: fixed_steps "env_tail d" "\<lambda>s. env_sets (er_Globals s)" for d
  by unfold_locales (rule env_tail_sets)

lemma env_sets_fields:
  assumes "env_sets g = env_sets g'"
  shows "cEnv g = cEnv g'" "managedApps g = managedApps g'" "presentApps g = presentApps g'"
    "managedEnvironments g = managedEnvironments g'" "presentEnvironments g = presentEnvironments g'"
    "managedEnvsMetric g = managedEnvsMetric g'" "presentEnvsMetric g = presentEnvsMetric g'"
    "managedAppsMetric g = managedAppsMetric g'" "presentAppsMetric g = presentAppsMetric g'"
  using assms unfolding env_sets_def by (metis (no_types, lifting) Globals.select_convs Globals.surjective Globals.update_convs(9))+

lemma markedForDeletion_lock:
  "markedForDeletion d s = Some (s', r, e) \<Longrightarrow> cEnv (er_Globals s') = cEnv (er_Globals s)"
  by (auto simp: markedForDeletion_def update_env_def Let_def split: if_splits option.splits prod.splits dest!: finalize_globals)

interpretation env_lock: fixed_steps "env_steps d" "\<lambda>s. cEnv (er_Globals s)" for d
  by unfold_locales (auto simp: env_steps_split dest: markedForDeletion_lock env_tail_sets env_sets_fields(1))

text \<open>An app whose reconciliation reaches its check of the lock, seen from the environment: the check reads the process-wide state and changes nothing of the environment.\<close>

definition lock_check :: "('w, 'c) AppRec \<Rightarrow> ('w, 'c) EnvRec step" where
  "lock_check t s = (case isEnvLocked (t\<lparr>ar_Globals := er_Globals s\<rparr>) of None \<Rightarrow> None | Some (_, r, e) \<Rightarrow> Some (s, r, e))"

lemma lock_check_eq:
  "lock_check t s = Some (if cEnv (er_Globals s) = ar_EnvName t then (s, res_requeue, Some (SkippedError ''env is locked'')) else (s, res_done, None))"
  by (simp add: lock_check_def isEnvLocked_def)

text \<open>
  C12. While an environment is being reconciled it is locked. Whenever an app gets to its check of the lock, after any number of the steps of the environment, an app of that environment stops with a requeue
  because the environment is locked, and an app of any other one goes on, the steps then ending as they would have ended without it. When the reconciliation of
  the environment returns, with or without error, the lock is free.
\<close>

theorem env_lock_held:
  assumes "env_steps d = before @ after"
  shows "locked_run (before @ lock_check t # after) s =
      (case locked_run before s of
         Some (s1, r, None) \<Rightarrow> if ar_EnvName t = env_Name (er_Env s) then Some (s1, res_requeue, Some (SkippedError ''env is locked'')) else env_Reconcile d s
       | out \<Rightarrow> out)
    \<and> (\<forall>s2 r e. env_Reconcile d s = Some (s2, r, e) \<longrightarrow> ReadEnv (er_Globals s2) = '''')"
proof -
  let ?s0 = "s\<lparr>er_Globals := SetEnv (env_Name (er_Env s)) (er_Globals s)\<rparr>"
  have "set before \<subseteq> set (env_steps d)" using assms by simp
  then have "cEnv (er_Globals s1) = env_Name (er_Env s)" if "run_steps before ?s0 = Some (s1, r, e)" for s1 r e
    using env_lock.some_fix [OF _ that] by (simp add: SetEnv_def)
  then show ?thesis
    unfolding env_Reconcile_def locked_run_def assms
    by (auto simp: run_steps_append lock_check_eq ReleaseEnv_def split: option.splits)
qed

section \<open>The namespace\<close>

lemma SetClowdEnvConditions_written:
  assumes "SetClowdEnvConditions l ops now upd state old err env w = Some (env', w', e)"
    and "GetEnvResourceStatus l env = Some (Inr rm)" "old \<noteq> env_Status env'"
  shows "upd env' w = (w', e)"
  using assms by (cases rm) (auto simp: SetClowdEnvConditions_def Let_def split: if_splits prod.splits)

text \<open>
  If an environment without a requested namespace gets a generated one and its creation fails, the
  name is kept in the status and written to the cluster together with the failure, although no such
  namespace exists; and any later reconciliation, finding the name in the status, makes no namespace.
\<close>

theorem failed_namespace_recorded:
  assumes "est_TargetNamespace (env_Status (er_Env s)) = ''''" "env_TargetNamespace (env_Spec (er_Env s)) = ''''"
    and "er_OldStatus s = env_Status (er_Env s)"
    and "dp_CreateNamespace d (GenerateTargetNamespace (dp_Random d (er_World s)) (er_Env s)) (er_World s) = (w, Some err)"
    and "initTargetNamespace d s = Some (s', r, Some err)"
    and "dp_Listings d w = l" "GetEnvResourceStatus l (map_status (\<lambda>st. st\<lparr>est_TargetNamespace :=
        GenerateTargetNamespace (dp_Random d (er_World s)) (er_Env s)\<rparr>) (er_Env s)) = Some (Inr (ready, msg))"
  shows "est_TargetNamespace (env_Status (er_Env s')) = GenerateTargetNamespace (dp_Random d (er_World s)) (er_Env s)
    \<and> est_TargetNamespace (env_Status (er_Env s')) \<noteq> ''''
    \<and> er_World s' = fst (snd (dp_StatusEnv d (er_Env s') w))
    \<and> (\<forall>s2. est_TargetNamespace (env_Status (er_Env s2)) = est_TargetNamespace (env_Status (er_Env s'))
         \<longrightarrow> initTargetNamespace d s2 = step_ok s2)"
proof -
  let ?t = "GenerateTargetNamespace (dp_Random d (er_World s)) (er_Env s)"
  let ?s1 = "s\<lparr>er_Env := map_status (\<lambda>st. st\<lparr>est_TargetNamespace := ?t\<rparr>) (er_Env s), er_World := w\<rparr>"
  have ne: "?t \<noteq> ''''" by (simp add: GenerateTargetNamespace_def)
  have f: "env_failed d err ?s1 = Some (s', r, Some err)"
    using assms(1,2,4,5) by (auto simp: initTargetNamespace_def makeTargetNamespace_def Let_def split: option.splits)
  from env_failed_keeps [OF f] have t: "est_TargetNamespace (env_Status (er_Env s')) = ?t" by auto
  moreover have "er_World s' = fst (snd (dp_StatusEnv d (er_Env s') w))"
  proof -
    obtain env w2 e2 where c: "SetClowdEnvConditions l (dp_CondOps d) (dp_Now d w)
        (\<lambda>e w. case dp_StatusEnv d e w of (_, w', er) \<Rightarrow> (w', er)) ReconciliationFailed (er_OldStatus s) (Some err) (er_Env ?s1) w
        = Some (env, w2, e2)" and s': "er_Env s' = env" "er_World s' = w2"
      using f by (auto simp: env_failed_def set_env_conditions_def assms(6) split: option.splits)
    have "er_OldStatus s \<noteq> env_Status env"
      using SetClowdEnvConditions_keeps [OF c] ne assms(1,3) by auto
    from SetClowdEnvConditions_written [OF c _ this] assms(7) s' show ?thesis by (simp split: prod.splits)
  qed
  ultimately show ?thesis using ne by (simp add: initTargetNamespace_def)
qed

section \<open>The listing\<close>

lemma sort_map_lookup:
  assumes "inj_on key (set xs)" "distinct xs"
  shows "map (\<lambda>n. the (map_by key xs n)) (sort (map key xs)) = sort_key key xs"
proof -
  have "sort (map key xs) = map key (sort_key key xs)"
    by (rule properties_for_sort) (simp_all add: sorted_sort_key [of key xs])
  moreover have "the (map_by key xs (key x)) = x" if "x \<in> set (sort_key key xs)" for x
    using that map_by_unique [OF assms(1)] by simp
  ultimately show ?thesis by (auto intro: map_idI)
qed

lemma distinct_map_iff: "distinct (map key xs) \<Longrightarrow> inj_on key (set xs) \<and> distinct xs"
  by (simp add: distinct_map)

text \<open>
  C14. If no two apps of the environment have the same listing key (name, dash, namespace) and no app
  has two deployments of the same name, the status lists exactly the apps that are not being
  deleted, in the order of their keys, each with all its deployments in the order of their names;
  a deployment with a public web service has the host name of its service and the web port.
\<close>

theorem app_listing_exact:
  assumes "ls_Apps l (env_Name env) = Inr apps" "distinct (map app_key apps)"
    and "\<forall>a \<in> set apps. distinct (map dep_Name (app_Deployments (app_Spec a)))"
  shows "setAppInfoImplementation l env =
    (map_status (\<lambda>st. st\<lparr>est_Apps := map (\<lambda>a. \<lparr>ai_Name = app_Name a, ai_Deployments =
         map (deployment_info (web_Port (env_Web env)) a) (sort_key dep_Name (app_Deployments (app_Spec a)))\<rparr>)
       (filter (\<lambda>a. om_DeletionTimestamp (app_ObjectMeta a) = None) (sort_key app_key apps))\<rparr>) env, None)"
proof -
  have srt: "map (\<lambda>n. the (map_by app_key apps n)) (sort (map app_key apps)) = sort_key app_key apps"
    using sort_map_lookup distinct_map_iff [OF assms(2)] by blast
  have "app_info p a = \<lparr>ai_Name = app_Name a, ai_Deployments =
         map (deployment_info p a) (sort_key dep_Name (app_Deployments (app_Spec a)))\<rparr>" if "a \<in> set apps" for p a
  proof -
    have "map (\<lambda>n. the (map_by dep_Name (app_Deployments (app_Spec a)) n)) (sort (map dep_Name (app_Deployments (app_Spec a))))
        = sort_key dep_Name (app_Deployments (app_Spec a))"
      using sort_map_lookup distinct_map_iff assms(3) that by blast
    from arg_cong [OF this, of "map (deployment_info p a)"] show ?thesis by (simp add: app_info_def Let_def comp_def)
  qed
  then have info: "map (app_info p) (filter P (sort_key app_key apps)) = map (\<lambda>a. \<lparr>ai_Name = app_Name a, ai_Deployments =
         map (deployment_info p a) (sort_key dep_Name (app_Deployments (app_Spec a)))\<rparr>) (filter P (sort_key app_key apps))" for p P
    by (auto intro: map_cong)
  show ?thesis
    unfolding setAppInfoImplementation_def GetAppsInEnv_def assms(1) sum.case Let_def srt info ..
qed

text \<open>
  If two apps share the key, as an app \<open>a-b\<close> in namespace \<open>c\<close> and an app \<open>a\<close> in namespace \<open>b-c\<close> do,
  the first is missing from the listing and the second is there twice.
\<close>

theorem app_listing_collision:
  assumes "ls_Apps l (env_Name env) = Inr [x, y]" "app_Name x = n @ ''-'' @ m" "app_Namespace x = k"
    and "app_Name y = n" "app_Namespace y = m @ ''-'' @ k" "om_DeletionTimestamp (app_ObjectMeta y) = None"
  shows "app_key x = app_key y \<and> est_Apps (env_Status (fst (setAppInfoImplementation l env))) =
     [app_info (web_Port (env_Web env)) y, app_info (web_Port (env_Web env)) y]"
  using assms
  by (simp add: setAppInfoImplementation_def GetAppsInEnv_def Let_def app_key_def map_by_def)

section \<open>Success\<close>

text \<open>
  What is documented of the client: a status update answers with the object as it is stored, that
  is, the status as sent and the rest unchanged; an update does not rename the object. The providers
  do not rename the environment either.
\<close>

definition status_echo :: "('w, 'c) Deps \<Rightarrow> bool" where
  "status_echo d = (\<forall>env w env' w'. dp_StatusEnv d env w = (env', w', None) \<longrightarrow> env' = env)"

definition env_name_kept :: "('w, 'c) Deps \<Rightarrow> bool" where
  "env_name_kept d =
     ((\<forall>env w env' w' e. dp_UpdateEnv d env w = (env', w', e) \<longrightarrow> env_Name env' = env_Name env)
      \<and> (\<forall>env w env' w' e. dp_StatusEnv d env w = (env', w', e) \<longrightarrow> env_Name env' = env_Name env)
      \<and> (\<forall>p p' e. runProvidersForEnv (dp_Stack d) (dp_Registry d) p = Some (p', e) \<longrightarrow> env_Name (prov_Env p') = env_Name (prov_Env p))
      \<and> (\<forall>p p' e. runProvidersForEnvFinalize (dp_Stack d) (dp_Registry d) p = Some (p', e) \<longrightarrow> env_Name (prov_Env p') = env_Name (prov_Env p)))"

lemma set_env_conditions_ok:
  assumes "cond_laws (dp_CondOps d)" "set_env_conditions d state err s = Some (s', None)"
  shows "status_of ReconciliationSuccessful (est_Conditions (env_Status (er_Env s'))) =
      Some (if state = ReconciliationSuccessful then ConditionTrue else ConditionFalse)
    \<and> status_of ReconciliationFailed (est_Conditions (env_Status (er_Env s'))) =
      Some (if state = ReconciliationFailed then ConditionTrue else ConditionFalse)"
  using assms(2) env_conditions_standard [OF assms(1)]
  by (fastforce simp: set_env_conditions_def split: option.splits)

lemma status_echoD: "status_echo d \<Longrightarrow> dp_StatusEnv d env w = (env', w', None) \<Longrightarrow> env' = env"
  by (auto simp: status_echo_def)

lemma initTargetNamespace_spec:
  assumes "status_echo d" "initTargetNamespace d s = Some (s', r, None)"
  shows "env_Spec (er_Env s') = env_Spec (er_Env s)"
  using assms(2)
  by (auto simp: initTargetNamespace_def makeTargetNamespace_def getTargetNamespace_def updateTargetNamespace_def status_update_def
      Let_def split: if_splits option.splits prod.splits sum.splits dest!: status_echoD [OF assms(1)])

text \<open>The steps after the resources were applied keep metadata and specification; they end with the generation observed, the address derived and the two conditions set.\<close>

lemma env_finished:
  assumes "cond_laws (dp_CondOps d)" "status_echo d"
    and st: "\<exists>r. setAppInfo d a8 = Some (a9, r, None)" "\<exists>r. setEnvResourceStatus d a9 = Some (a10, r, None)"
      "\<exists>r. setPrometheusStatus a10 = Some (a11, r, None)" "\<exists>r. setEnvStatus d a11 = Some (a12, r, None)"
      "\<exists>r. finalStatusError d a12 = Some (a13, r, None)" "\<exists>r. deleteUnusedResources d a13 = Some (a14, r, None)"
      "\<exists>r. setClowdEnvConditions d a14 = Some (a15, r, None)"
  shows "env_ObjectMeta (er_Env a15) = env_ObjectMeta (er_Env a8)" and "env_Spec (er_Env a15) = env_Spec (er_Env a8)"
    and "est_Generation (env_Status (er_Env a15)) = om_Generation (env_ObjectMeta (er_Env a15))"
    and "est_PrometheusServerAddress (env_Status (er_Env a15)) = prometheus_url (er_Env a15)"
    and "status_of ReconciliationSuccessful (est_Conditions (env_Status (er_Env a15))) = Some ConditionTrue"
    and "status_of ReconciliationFailed (est_Conditions (env_Status (er_Env a15))) = Some ConditionFalse"
proof -
  have a9: "env_ObjectMeta (er_Env a9) = env_ObjectMeta (er_Env a8)" "env_Spec (er_Env a9) = env_Spec (er_Env a8)"
    using st(1) by (auto simp: setAppInfo_def setAppInfoImplementation_def Let_def split: option.splits prod.splits sum.splits)
  have a10: "env_ObjectMeta (er_Env a10) = env_ObjectMeta (er_Env a8)" "env_Spec (er_Env a10) = env_Spec (er_Env a8)"
    using st(2) a9 by (auto simp: setEnvResourceStatus_def SetEnvResourceStatus_def split: option.splits prod.splits sum.splits)
  have a11: "er_Env a11 = map_status (\<lambda>st. st\<lparr>est_PrometheusServerAddress := prometheus_url (er_Env a10)\<rparr>) (er_Env a10)"
    using st(3) by (auto simp: setPrometheusStatus_def)
  obtain rdy where "er_Env a12 = map_status (\<lambda>st. st\<lparr>est_Ready := rdy, est_Generation := om_Generation (env_ObjectMeta (er_Env a11))\<rparr>) (er_Env a11)"
    using st(4) by (auto simp: setEnvStatus_def Let_def split: option.splits prod.splits sum.splits)
  then have a12: "env_ObjectMeta (er_Env a12) = env_ObjectMeta (er_Env a8)" "env_Spec (er_Env a12) = env_Spec (er_Env a8)"
    "est_Generation (env_Status (er_Env a12)) = om_Generation (env_ObjectMeta (er_Env a12))"
    "est_PrometheusServerAddress (env_Status (er_Env a12)) = prometheus_url (er_Env a12)"
    by (simp_all add: a11 a10 prometheus_url_def Let_def)
  have a14: "er_Env a14 = er_Env a12"
    using st(5,6) by (auto simp: finalStatusError_def status_update_def deleteUnusedResources_def Let_def
        split: option.splits prod.splits dest!: status_echoD [OF assms(2)])
  have e15: "set_env_conditions d ReconciliationSuccessful None a14 = Some (a15, None)"
    using st(7) by (auto simp: setClowdEnvConditions_def split: option.splits)
  show "env_ObjectMeta (er_Env a15) = env_ObjectMeta (er_Env a8)" "env_Spec (er_Env a15) = env_Spec (er_Env a8)"
    "est_Generation (env_Status (er_Env a15)) = om_Generation (env_ObjectMeta (er_Env a15))"
    "est_PrometheusServerAddress (env_Status (er_Env a15)) = prometheus_url (er_Env a15)"
    using set_env_conditions_keeps [OF e15] a12 a14 by (auto simp: prometheus_url_def Let_def)
  show "status_of ReconciliationSuccessful (est_Conditions (env_Status (er_Env a15))) = Some ConditionTrue"
    "status_of ReconciliationFailed (est_Conditions (env_Status (er_Env a15))) = Some ConditionFalse"
    using set_env_conditions_ok [OF assms(1) e15] by simp_all
qed

text \<open>
  C13. When all steps of an environment's reconciliation succeed, the environment is not being deleted
  and not disabled; all its providers ran without error and what they made was applied; it ends with
  its generation observed, the Prometheus address derived from its settings and target namespace,
  the successful condition true and the failed one false.
\<close>

theorem env_success:
  assumes "cond_laws (dp_CondOps d)" "status_echo d"
    and "env_Reconcile d (new_env_reconciliation d env hc ev g w) = Some (s, r, None)"
  shows "om_DeletionTimestamp (env_ObjectMeta env) = None
    \<and> (\<exists>s1 p c c' w'. \<not> env_Disabled (env_Spec (er_Env s1))
        \<and> runProvidersForEnv (dp_Stack d) (dp_Registry d) (env_provider
             (s1\<lparr>er_HashCache := RemoveClowdObjectFromObjects (EnvObject (er_Env s1)) (er_HashCache s1)\<rparr>)) = Some (p, None)
        \<and> prov_Cache p = Some c \<and> dp_ApplyAll d c (prov_World p) = (c', w', None)
        \<and> env_ObjectMeta (er_Env s) = env_ObjectMeta (prov_Env p) \<and> env_Spec (er_Env s) = env_Spec (prov_Env p))
    \<and> est_Generation (env_Status (er_Env s)) = om_Generation (env_ObjectMeta (er_Env s))
    \<and> est_PrometheusServerAddress (env_Status (er_Env s)) = prometheus_url (er_Env s)
    \<and> status_of ReconciliationSuccessful (est_Conditions (env_Status (er_Env s))) = Some ConditionTrue
    \<and> status_of ReconciliationFailed (est_Conditions (env_Status (er_Env s))) = Some ConditionFalse"
proof -
  let ?s0 = "(new_env_reconciliation d env hc ev g w)\<lparr>er_Globals := SetEnv (env_Name env) (initMetrics env g)\<rparr>"
  have init: "er_Env ?s0 = env" by (simp add: new_env_reconciliation_def)
  obtain s' where run: "run_steps (env_steps d) ?s0 = Some (s', r, None)" and s: "er_Env s = er_Env s'"
    using assms(3) by (auto simp: env_Reconcile_def locked_run_def new_env_reconciliation_def split: option.splits)
  from run obtain a1 a2 a3 a4 a5 a6 a7 a8 a9 a10 a11 a12 a13 a14 a15 where
    st: "\<exists>r. markedForDeletion d ?s0 = Some (a1, r, None)" "\<exists>r. addFinalizerIfRequired d a1 = Some (a2, r, None)"
      "\<exists>r. perProviderMetrics d a2 = Some (a3, r, None)" "\<exists>r. setToBeDisabled a3 = Some (a4, r, None)"
      "\<exists>r. initTargetNamespace d a4 = Some (a5, r, None)" "\<exists>r. isTargetNamespaceMarkedForDeletion d a5 = Some (a6, r, None)"
      "\<exists>r. env_runProviders d a6 = Some (a7, r, None)" "\<exists>r. env_applyCache d a7 = Some (a8, r, None)"
      "\<exists>r. setAppInfo d a8 = Some (a9, r, None)" "\<exists>r. setEnvResourceStatus d a9 = Some (a10, r, None)"
      "\<exists>r. setPrometheusStatus a10 = Some (a11, r, None)" "\<exists>r. setEnvStatus d a11 = Some (a12, r, None)"
      "\<exists>r. finalStatusError d a12 = Some (a13, r, None)" "\<exists>r. deleteUnusedResources d a13 = Some (a14, r, None)"
      "\<exists>r. setClowdEnvConditions d a14 = Some (a15, r, None)" "\<exists>r. logSuccess a15 = Some (s', r, None)"
    unfolding env_steps_def run_steps_Cons_ok run_steps.simps(1) by blast
  have del: "om_DeletionTimestamp (env_ObjectMeta env) = None"
    using st(1) init by (auto simp: markedForDeletion_def Let_def split: if_splits option.splits prod.splits)
  have dis: "\<not> env_Disabled (env_Spec (er_Env a4))"
    using st(4) by (auto simp: setToBeDisabled_def split: if_splits)
  have spec6: "env_Spec (er_Env a6) = env_Spec (er_Env a4)"
    using st(5,6) initTargetNamespace_spec [OF assms(2)] by (auto simp: isTargetNamespaceMarkedForDeletion_def split: sum.splits if_splits)
  obtain p where p: "runProvidersForEnv (dp_Stack d) (dp_Registry d) (env_provider
             (a6\<lparr>er_HashCache := RemoveClowdObjectFromObjects (EnvObject (er_Env a6)) (er_HashCache a6)\<rparr>)) = Some (p, None)"
      "er_Env a7 = prov_Env p" "er_Cache a7 = prov_Cache p" "er_World a7 = prov_World p"
    using st(7) by (auto simp: env_runProviders_def from_provider_def Let_def split: option.splits)
  obtain c c' w' where c: "prov_Cache p = Some c" "dp_ApplyAll d c (prov_World p) = (c', w', None)" "er_Env a8 = prov_Env p"
    using st(8) p by (auto simp: env_applyCache_def Let_def split: option.splits prod.splits)
  have "er_Env s = er_Env a15" using st(16) s by (auto simp: logSuccess_def)
  moreover note env_finished [OF assms(1,2) st(9-15)]
  ultimately have
    "env_ObjectMeta (er_Env s) = env_ObjectMeta (prov_Env p)" "env_Spec (er_Env s) = env_Spec (prov_Env p)"
    "est_Generation (env_Status (er_Env s)) = om_Generation (env_ObjectMeta (er_Env s))"
    "est_PrometheusServerAddress (env_Status (er_Env s)) = prometheus_url (er_Env s)"
    "status_of ReconciliationSuccessful (est_Conditions (env_Status (er_Env s))) = Some ConditionTrue"
    "status_of ReconciliationFailed (est_Conditions (env_Status (er_Env s))) = Some ConditionFalse"
    using c(3) by simp_all
  with del dis [folded spec6] p(1) c(1,2) show ?thesis by blast
qed

section \<open>The sets over time\<close>

lemma env_failed_name: "env_failed d err s = Some (s', r, e) \<Longrightarrow> env_Name (er_Env s') = env_Name (er_Env s)"
  using env_failed_keeps [of d err s s' r e] by auto

lemma env_name_keptD:
  assumes "env_name_kept d"
  shows "dp_UpdateEnv d env w = (env', w', e) \<Longrightarrow> env_Name env' = env_Name env"
    and "dp_StatusEnv d env w = (env', w', e) \<Longrightarrow> env_Name env' = env_Name env"
    and "runProvidersForEnv (dp_Stack d) (dp_Registry d) p = Some (p', e) \<Longrightarrow> env_Name (prov_Env p') = env_Name (prov_Env p)"
    and "runProvidersForEnvFinalize (dp_Stack d) (dp_Registry d) p = Some (p', e) \<Longrightarrow> env_Name (prov_Env p') = env_Name (prov_Env p)"
  using assms unfolding env_name_kept_def by blast+

lemma tail_step_name:
  assumes "env_name_kept d" "st \<in> set (env_tail d)" "st s = Some (s', r, e)"
  shows "env_Name (er_Env s') = env_Name (er_Env s)"
proof -
  have cond: "env_Name (er_Env t') = env_Name (er_Env t)" if "set_env_conditions d state err t = Some (t', e')" for state err t t' e'
    using set_env_conditions_keeps [OF that] by auto
  have res: "env_Name env' = env_Name env" if "SetEnvResourceStatus l env = Some (env', e')" for l env env' e'
    using that by (auto simp: SetEnvResourceStatus_def split: option.splits sum.splits)
  have info: "env_Name env' = env_Name env" if "setAppInfoImplementation l env = (env', e')" for l env env' e'
    using that by (auto simp: setAppInfoImplementation_def Let_def split: sum.splits)
  show ?thesis
    using assms(2,3) unfolding env_tail_def env_steps_def list.sel
    by (auto simp: env_step_defs env_set_finalizers_def env_provider_def Let_def split: option.splits sum.splits prod.splits if_splits
        dest!: env_failed_name cond res info env_name_keptD [OF assms(1)])
qed

definition env_removed :: "string \<Rightarrow> Globals \<Rightarrow> Globals" where
  "env_removed name g = g\<lparr>managedEnvironments := key_del name (managedEnvironments g),
     managedEnvsMetric := length (key_del name (managedEnvironments g)),
     presentEnvironments := key_del name (presentEnvironments g),
     presentEnvsMetric := length (key_del name (presentEnvironments g))\<rparr>"

lemma finalize_sets:
  assumes "env_name_kept d" "finalizeEnvironmentImplementation d s = Some (s', e)"
  shows "er_Globals s' = (if e = None then env_removed (env_Name (er_Env s)) (er_Globals s) else er_Globals s)"
proof -
  obtain p e1 where p: "runProvidersForEnvFinalize (dp_Stack d) (dp_Registry d) (env_provider s) = Some (p, e1)"
    using assms(2) by (auto simp: finalizeEnvironmentImplementation_def split: option.splits)
  from env_name_keptD(4) [OF assms(1) p] have "env_Name (prov_Env p) = env_Name (er_Env s)" by (simp add: env_provider_def)
  with p assms(2) show ?thesis
    by (cases e1) (auto simp: finalizeEnvironmentImplementation_def env_removed_def Let_def)
qed

lemma markedForDeletion_sets:
  assumes "env_name_kept d" "markedForDeletion d s = Some (s', r, e)"
  shows "e = None \<and> s' = s \<or> e \<noteq> None \<and> er_Globals s' \<in> {er_Globals s, env_removed (env_Name (er_Env s)) (er_Globals s)}"
  using assms(2)
  by (auto simp: markedForDeletion_def update_env_def Let_def split: if_splits option.splits prod.splits
      dest!: finalize_sets [OF assms(1)])

text \<open>What the entry into the reconciler can do to the sets of environments.\<close>

lemma env_outcome:
  assumes k: "env_name_kept d"
    and run: "env_Reconcile d (new_env_reconciliation d env hc ev g w) = Some (s, r, e)"
  shows "\<exists>h q. er_Globals s = ReleaseEnv (h\<lparr>requestMetrics := q\<rparr>)
    \<and> (e \<noteq> None \<and> h = env_removed (env_Name env) (SetEnv (env_Name env) (initMetrics env g))
       \<or> h = SetEnv (env_Name env) (initMetrics env g) \<and> (e = None \<longrightarrow> env_Name (er_Env s) = env_Name env))"
proof -
  let ?g = "SetEnv (env_Name env) (initMetrics env g)"
  let ?s0 = "(new_env_reconciliation d env hc ev g w)\<lparr>er_Globals := ?g\<rparr>"
  have req: "\<exists>q. h = h'\<lparr>requestMetrics := q\<rparr>" if "env_sets h = env_sets h'" for h h'
    using that unfolding env_sets_def by (metis (no_types, lifting) Globals.surjective Globals.update_convs(9))
  have init: "er_Env ?s0 = env" "er_Globals ?s0 = ?g" by (simp_all add: new_env_reconciliation_def)
  obtain s' where steps: "run_steps (env_steps d) ?s0 = Some (s', r, e)" and s: "s = s'\<lparr>er_Globals := ReleaseEnv (er_Globals s')\<rparr>"
    using run by (auto simp: env_Reconcile_def locked_run_def new_env_reconciliation_def split: option.splits)
  obtain s1 r1 e1 where m: "markedForDeletion d ?s0 = Some (s1, r1, e1)"
    using steps by (cases "markedForDeletion d ?s0") (auto simp: env_steps_split)
  from markedForDeletion_sets [OF k m] show ?thesis
  proof
    assume "e1 = None \<and> s1 = ?s0"
    with m steps have tail: "run_steps (env_tail d) ?s0 = Some (s', r, e)" by (simp add: env_steps_split)
    from req [OF env_tail.run_fixes [OF tail]] init(2) obtain q where "er_Globals s' = ?g\<lparr>requestMetrics := q\<rparr>" by auto
    moreover have "invariant_steps (env_tail d) (\<lambda>t. env_Name (er_Env t) = env_Name env)"
      by unfold_locales (simp add: tail_step_name [OF k])
    from invariant_steps.run_keeps [OF this _ tail] init(1) have "env_Name (er_Env s') = env_Name env" by simp
    ultimately show ?thesis using s by auto
  next
    assume *: "e1 \<noteq> None \<and> er_Globals s1 \<in> {er_Globals ?s0, env_removed (env_Name (er_Env ?s0)) (er_Globals ?s0)}"
    with m steps have "s' = s1" "e = e1" by (auto simp: env_steps_split)
    with * s init have "er_Globals s \<in> {ReleaseEnv ?g, ReleaseEnv (env_removed (env_Name env) ?g)}" "e \<noteq> None" by auto
    moreover have "h = h\<lparr>requestMetrics := requestMetrics h\<rparr>" for h :: Globals by simp
    ultimately show ?thesis by (metis insertE singletonD)
  qed
qed

definition env_sets_ok :: "Globals \<Rightarrow> bool" where
  "env_sets_ok g = (set (managedEnvironments g) \<subseteq> set (presentEnvironments g) \<and> distinct (managedEnvironments g)
     \<and> distinct (presentEnvironments g) \<and> managedEnvsMetric g = length (managedEnvironments g)
     \<and> presentEnvsMetric g = length (presentEnvironments g))"

lemmas set_defs = ReleaseEnv_def SetEnv_def initMetrics_def env_removed_def

lemma env_turn_keeps:
  assumes "env_name_kept d" "env_sets_ok g" "ClowdEnvironmentReconciler_Reconcile d req hc ev g w = Some (Some s, res, err)"
  shows "env_sets_ok (er_Globals s) \<and> cEnv (er_Globals s) = ''''
    \<and> managedApps (er_Globals s) = managedApps g \<and> presentApps (er_Globals s) = presentApps g
    \<and> managedAppsMetric (er_Globals s) = managedAppsMetric g \<and> presentAppsMetric (er_Globals s) = presentAppsMetric g"
proof -
  obtain env s' r e where run: "env_Reconcile d (new_env_reconciliation d env hc ev g w) = Some (s', r, e)"
    and s: "er_Globals s = (let g' = (if e = None then (er_Globals s')\<lparr>managedEnvironments :=
        key_add (env_Name (er_Env s')) (managedEnvironments (er_Globals s'))\<rparr> else er_Globals s')
      in g'\<lparr>managedEnvsMetric := length (managedEnvironments g')\<rparr>)"
    using assms(3) by (auto simp: ClowdEnvironmentReconciler_Reconcile_def Let_def split: sum.splits if_splits option.splits)
  from env_outcome [OF assms(1) run] obtain h q where h: "er_Globals s' = ReleaseEnv (h\<lparr>requestMetrics := q\<rparr>)"
    "e \<noteq> None \<and> h = env_removed (env_Name env) (SetEnv (env_Name env) (initMetrics env g))
       \<or> h = SetEnv (env_Name env) (initMetrics env g) \<and> (e = None \<longrightarrow> env_Name (er_Env s') = env_Name env)" by blast
  from h(2) show ?thesis
  proof
    assume "e \<noteq> None \<and> h = env_removed (env_Name env) (SetEnv (env_Name env) (initMetrics env g))"
    with s h(1) assms(2) show ?thesis by (auto simp: set_defs Let_def env_sets_ok_def)
  next
    assume "h = SetEnv (env_Name env) (initMetrics env g) \<and> (e = None \<longrightarrow> env_Name (er_Env s') = env_Name env)"
    with s h(1) assms(2) show ?thesis by (auto simp: set_defs Let_def env_sets_ok_def)
  qed
qed

text \<open>
  The life of the process: it starts with empty sets and a free lock, and then reconciles apps and
  environments, in any order, for any request and state of the cluster.
\<close>

inductive process_history :: "('w, 'c) Deps \<Rightarrow> Globals \<Rightarrow> bool" for d where
  boot: "process_history d Globals_zero"
| app_turn: "process_history d g \<Longrightarrow> ClowdAppReconciler_Reconcile d req hc ev g w = Some (s, res, err)
    \<Longrightarrow> process_history d (ar_Globals s)"
| env_turn: "process_history d g \<Longrightarrow> ClowdEnvironmentReconciler_Reconcile d req hc ev g w = Some (Some s, res, err)
    \<Longrightarrow> process_history d (er_Globals s)"

inductive_cases process_historyE: "process_history d g"

text \<open>
  C11. After any sequence of reconciliations, the managed apps are among the present apps and the
  managed environments among the present environments, no set holds an entry twice, the four gauges
  show the sizes of the sets, and the environment lock is free.
\<close>

theorem process_sets_consistent:
  assumes "keeps_ident d" "env_name_kept d" "process_history d g"
  shows "app_sets_ok g \<and> env_sets_ok g \<and> ReadEnv g = ''''"
  using assms(3)
proof (induction rule: process_history.induct)
  case boot
  then show ?case by (simp add: app_sets_ok_def env_sets_ok_def Globals_zero_def)
next
  case (app_turn g req hc ev w s res err)
  with app_turn_keeps [OF assms(1) _ app_turn.hyps(2)] app_turn_others [OF app_turn.hyps(2)] show ?case
    by (simp add: env_sets_ok_def)
next
  case (env_turn g req hc ev w s res err)
  with env_turn_keeps [OF assms(2) _ env_turn.hyps(2)] show ?case by (simp add: app_sets_ok_def)
qed

section \<open>Witnesses\<close>

lemma sample_env_figures:
  assumes "env_UID e = ''''"
  shows "\<exists>stats msg. GetEnvResourceFigures sample_listings e = Some (Inr (stats, msg))
    \<and> ers_ManagedDeployments stats = ers_ReadyDeployments stats \<and> ers_ManagedTopics stats = ers_ReadyTopics stats"
proof -
  obtain nss where nss: "env_GetNamespacesInEnv (ls_Iter sample_listings) (ls_Apps sample_listings) (ls_Stack sample_listings) e = Inr nss"
    by (simp add: env_GetNamespacesInEnv_def GetAppsInEnv_def sample_listings_def Let_def)
  obtain rs where rs: "list_namespaces (ls_Deployments sample_listings) nss = Inr rs" "set rs \<subseteq> {sample_ready_deployment}"
    by (auto simp: list_namespaces_Inr sample_listings_def)
  have "dep_count.owned '''' rs = []"
    using rs(2) by (auto simp: dep_count.owned_def filter_empty_conv owns_def sample_ready_deployment_def KDeployment_zero_def)
  with dep_count.count_resources_eq [OF rs(1), of "''''" "''deployments''" sort] dep_count.no_broken [of "''''" rs] nss assms
  show ?thesis by (auto simp: GetEnvResourceFigures_def countDeployments_def ClowderConfig_zero_def Let_def)
qed

lemma sample_env_status_total:
  "env_UID e = '''' \<Longrightarrow> \<exists>b msg. GetEnvResourceStatus sample_listings e = Some (Inr (b, msg))"
  using sample_env_figures [of e] by (auto simp: GetEnvResourceStatus_def)

lemma sample_env_conditions_total:
  assumes "env_UID (er_Env s) = ''''"
  shows "\<exists>s'. set_env_conditions (sample_app_deps reg) state err s = Some (s', None)"
proof -
  obtain b msg where "GetEnvResourceStatus sample_listings (er_Env s) = Some (Inr (b, msg))"
    using sample_env_status_total [OF assms] by blast
  then show ?thesis by (auto simp: set_env_conditions_def SetClowdEnvConditions_def Let_def sample_app_deps_def)
qed

definition sample_env_start :: "(ClowdApp option, unit) EnvRec" where
  "sample_env_start = new_env_reconciliation (sample_app_deps []) sample_ready_env [] [] Globals_zero None"

lemma sample_env_facts [simp]:
  "dp_StatusEnv (sample_app_deps reg) e w = (e, w, None)" "dp_UpdateEnv (sample_app_deps reg) e w = (e, w, None)"
  "dp_CreateNamespace (sample_app_deps reg) n w = (w, None)"
  "env_UID sample_ready_env = ''''" "env_Name sample_ready_env = ''''" "om_DeletionTimestamp (env_ObjectMeta sample_ready_env) = None"
  "env_Finalizers sample_ready_env = []" "\<not> env_Disabled (env_Spec sample_ready_env)"
  "est_TargetNamespace (env_Status sample_ready_env) = ''tns''"
  by (simp_all add: sample_app_deps_def sample_ready_env_def ClowdEnvironment_zero_def ObjectMeta_zero_def)

lemma sample_env_success: "\<exists>s. env_Reconcile (sample_app_deps []) sample_env_start = Some (s, res_done, None)"
proof -
  let ?d = "sample_app_deps []"
  define s0 where "s0 = sample_env_start\<lparr>er_Globals := SetEnv '''' (er_Globals sample_env_start)\<rparr>"
  have s0: "er_Env s0 = sample_ready_env" "er_Cache s0 = Some ()"
    by (simp_all add: s0_def sample_env_start_def new_env_reconciliation_def sample_app_deps_def)
  obtain s1 where s1: "run_steps (take 9 (env_steps ?d)) s0 = Some (s1, res_done, None)" "env_UID (er_Env s1) = ''''" "er_Cache s1 \<noteq> None"
    using s0 by (simp add: env_steps_def markedForDeletion_def env_step_defs env_set_finalizers_def env_provider_def from_provider_def
        setAppInfoImplementation_def GetAppsInEnv_def Let_def sample_listings_def ClowderConfig_zero_def sample_app_deps_def ObjectMeta_zero_def)
  obtain s2 where s2: "run_steps [setEnvResourceStatus ?d, setPrometheusStatus] s1 = Some (s2, res_done, None)" "env_UID (er_Env s2) = ''''"
      "er_Cache s2 \<noteq> None"
    using sample_env_figures [OF s1(2)] s1(2,3)
    by (auto simp: setEnvResourceStatus_def SetEnvResourceStatus_def setPrometheusStatus_def)
  obtain s3 where s3: "run_steps [setEnvStatus ?d, finalStatusError ?d, deleteUnusedResources ?d] s2 = Some (s3, res_done, None)"
      "env_UID (er_Env s3) = ''''"
    using sample_env_figures [OF s2(2)] s2(2,3)
    by (auto simp: setEnvStatus_def GetEnvResourceStatus_def finalStatusError_def status_update_def deleteUnusedResources_def Let_def)
  obtain s4 where s4: "set_env_conditions ?d ReconciliationSuccessful None s3 = Some (s4, None)"
    using sample_env_conditions_total [OF s3(2)] by blast
  have "env_steps ?d = take 9 (env_steps ?d) @ [setEnvResourceStatus ?d, setPrometheusStatus]
      @ [setEnvStatus ?d, finalStatusError ?d, deleteUnusedResources ?d] @ [setClowdEnvConditions ?d, logSuccess]"
    by (simp add: env_steps_def)
  then have "run_steps (env_steps ?d) s0 = run_steps (take 9 (env_steps ?d) @ [setEnvResourceStatus ?d, setPrometheusStatus]
      @ [setEnvStatus ?d, finalStatusError ?d, deleteUnusedResources ?d] @ [setClowdEnvConditions ?d, logSuccess]) s0" by argo
  also have "\<dots> = run_steps [setClowdEnvConditions ?d, logSuccess] s3"
    by (simp only: run_steps_append s1(1) s2(1) s3(1) option.case prod.case)
  finally have "\<exists>s. run_steps (env_steps ?d) s0 = Some (s, res_done, None)"
    using s4 by (simp add: setClowdEnvConditions_def logSuccess_def)
  then show ?thesis
    by (auto simp: env_Reconcile_def locked_run_def s0_def sample_env_start_def new_env_reconciliation_def)
qed

lemma sample_status_echo: "status_echo (sample_app_deps [])"
  by (simp add: status_echo_def)

theorem env_success_witness:
  "\<exists>s. env_Reconcile (sample_app_deps []) sample_env_start = Some (s, res_done, None)
    \<and> status_of ReconciliationSuccessful (est_Conditions (env_Status (er_Env s))) = Some ConditionTrue"
proof -
  obtain s where run: "env_Reconcile (sample_app_deps [])
      (new_env_reconciliation (sample_app_deps []) sample_ready_env [] [] Globals_zero None) = Some (s, res_done, None)"
    using sample_env_success unfolding sample_env_start_def by blast
  have "cond_laws (dp_CondOps (sample_app_deps []))" by (simp add: sample_cond_laws)
  from env_success [OF this sample_status_echo run] run show ?thesis by (auto simp: sample_env_start_def)
qed

text \<open>An app of the environment \<open>prod\<close> that comes to its check after the first step.\<close>

definition sample_locked :: "(ClowdApp option, unit) EnvRec" where
  "sample_locked = sample_env_start\<lparr>er_Env := ClowdEnvironment_zero\<lparr>env_ObjectMeta := ObjectMeta_zero\<lparr>om_Name := ''prod''\<rparr>\<rparr>\<rparr>"

definition sample_waiting :: "(ClowdApp option, unit) AppRec" where
  "sample_waiting = sample_start\<lparr>ar_App := ClowdApp_zero\<lparr>app_Spec := ClowdAppSpec_zero\<lparr>app_EnvName := ''prod''\<rparr>\<rparr>\<rparr>"

theorem env_lock_held_witness:
  "\<exists>s1 s2. locked_run (take 1 (env_steps (sample_app_deps [])) @ lock_check sample_waiting # drop 1 (env_steps (sample_app_deps []))) sample_locked
       = Some (s1, res_requeue, Some (SkippedError ''env is locked''))
    \<and> env_Reconcile (sample_app_deps []) sample_env_start = Some (s2, res_done, None) \<and> ReadEnv (er_Globals s2) = ''''"
proof -
  have "env_steps (sample_app_deps []) = take 1 (env_steps (sample_app_deps [])) @ drop 1 (env_steps (sample_app_deps []))" by simp
  note lock = env_lock_held [OF this]
  obtain s1 where "locked_run (take 1 (env_steps (sample_app_deps []))) sample_locked = Some (s1, res_done, None)"
    by (simp add: locked_run_def env_steps_split markedForDeletion_def sample_locked_def ObjectMeta_zero_def)
  with lock [of sample_waiting sample_locked] lock [of sample_waiting sample_env_start] sample_env_success
  show ?thesis by (auto simp: sample_locked_def sample_waiting_def)
qed

theorem process_sets_consistent_witness:
  "\<exists>s. ClowdAppReconciler_Reconcile (sample_app_deps []) (NN ''a'' ''ns'') [] [] Globals_zero (Some (sample_dying_app [])) =
      Some (s, res_done, None) \<and> app_sets_ok (ar_Globals s) \<and> presentApps (ar_Globals s) = [''e.a'']"
proof -
  obtain s where s: "ClowdAppReconciler_Reconcile (sample_app_deps []) (NN ''a'' ''ns'') [] [] Globals_zero (Some (sample_dying_app [])) =
      Some (s, res_done, None)" "presentApps (ar_Globals s) = [''e.a'']"
    by (simp add: ClowdAppReconciler_Reconcile_def app_Reconcile_def app_steps_def outer_defs Let_def Globals_zero_def key_add_def)
  have "env_name_kept (sample_app_deps [])" by (simp add: env_name_kept_def)
  from process_sets_consistent [OF sample_keeps_ident this process_history.app_turn [OF process_history.boot s(1)]] s
  show ?thesis by blast
qed

definition sample_full_deps :: "(ClowdApp option, unit) Deps" where
  "sample_full_deps = (sample_app_deps [])\<lparr>dp_CreateNamespace := (\<lambda>_ w. (w, Some (PlainErr ''forbidden'')))\<rparr>"

definition sample_new_env :: "(ClowdApp option, unit) EnvRec" where
  "sample_new_env = sample_env_start\<lparr>er_Env := ClowdEnvironment_zero, er_OldStatus := env_Status ClowdEnvironment_zero\<rparr>"

theorem failed_namespace_recorded_witness:
  "\<exists>s' r. initTargetNamespace sample_full_deps sample_new_env = Some (s', r, Some (PlainErr ''forbidden''))
    \<and> est_TargetNamespace (env_Status (er_Env s')) = ''clowdenv--abcdef''"
proof -
  let ?t = "GenerateTargetNamespace (dp_Random sample_full_deps (er_World sample_new_env)) (er_Env sample_new_env)"
  have t: "?t = ''clowdenv--abcdef''"
    by (simp add: GenerateTargetNamespace_def sample_full_deps_def sample_app_deps_def sample_new_env_def ClowdEnvironment_zero_def ObjectMeta_zero_def)
  have init: "est_TargetNamespace (env_Status (er_Env sample_new_env)) = ''''" "env_TargetNamespace (env_Spec (er_Env sample_new_env)) = ''''"
    "er_OldStatus sample_new_env = env_Status (er_Env sample_new_env)"
    by (simp_all add: sample_new_env_def ClowdEnvironment_zero_def)
  have cr: "dp_CreateNamespace sample_full_deps ?t (er_World sample_new_env) = (er_World sample_new_env, Some (PlainErr ''forbidden''))"
    by (simp add: sample_full_deps_def)
  have uid: "env_UID (map_status f (er_Env sample_new_env)) = ''''" for f
    by (simp add: sample_new_env_def ClowdEnvironment_zero_def ObjectMeta_zero_def)
  have l: "dp_Listings sample_full_deps w = sample_listings" for w by (simp add: sample_full_deps_def)
  obtain b msg where st: "GetEnvResourceStatus sample_listings (map_status (\<lambda>st. st\<lparr>est_TargetNamespace := ?t\<rparr>) (er_Env sample_new_env))
      = Some (Inr (b, msg))"
    using sample_env_status_total [OF uid] by blast
  obtain s' where run: "initTargetNamespace sample_full_deps sample_new_env = Some (s', res_requeue, Some (PlainErr ''forbidden''))"
    using init cr st
    by (auto simp: initTargetNamespace_def makeTargetNamespace_def env_failed_def set_env_conditions_def SetClowdEnvConditions_def l Let_def
        sample_full_deps_def)
  from failed_namespace_recorded [OF init cr run l st] run t show ?thesis by auto
qed

definition sample_listed :: "string \<Rightarrow> string \<Rightarrow> ClowdApp" where
  "sample_listed name ns = ClowdApp_zero\<lparr>app_ObjectMeta := ObjectMeta_zero\<lparr>om_Name := name, om_Namespace := ns\<rparr>\<rparr>"

theorem app_listing_exact_witness:
  "map ai_Name (est_Apps (env_Status (fst (setAppInfoImplementation
     (sample_listings\<lparr>ls_Apps := \<lambda>_. Inr [sample_listed ''b'' ''ns'', sample_listed ''a'' ''ns'']\<rparr>) ClowdEnvironment_zero)))) = [''a'', ''b'']"
  using app_listing_exact [of "sample_listings\<lparr>ls_Apps := \<lambda>_. Inr [sample_listed ''b'' ''ns'', sample_listed ''a'' ''ns'']\<rparr>" ClowdEnvironment_zero
     "[sample_listed ''b'' ''ns'', sample_listed ''a'' ''ns'']"]
  by (simp add: sample_listed_def app_key_def ClowdApp_zero_def ClowdAppSpec_zero_def ObjectMeta_zero_def)

theorem app_listing_collision_witness:
  "map ai_Name (est_Apps (env_Status (fst (setAppInfoImplementation
     (sample_listings\<lparr>ls_Apps := \<lambda>_. Inr [sample_listed ''a-b'' ''c'', sample_listed ''a'' ''b-c'']\<rparr>) ClowdEnvironment_zero)))) = [''a'', ''a'']"
  using app_listing_collision [of "sample_listings\<lparr>ls_Apps := \<lambda>_. Inr [sample_listed ''a-b'' ''c'', sample_listed ''a'' ''b-c'']\<rparr>" ClowdEnvironment_zero
     "sample_listed ''a-b'' ''c''" "sample_listed ''a'' ''b-c''" "''a''" "''b''" "''c''"]
  by (simp add: sample_listed_def app_info_def ClowdApp_zero_def ClowdAppSpec_zero_def ObjectMeta_zero_def Let_def)

end
