(* ===== verification/Event_Handlers.thy ===== *)
theory Event_Handlers
  imports Resource_Status Hash_Cache
begin

text \<open>
  The event filters and handlers, \<open>filters.go\<close> and \<open>handlers.go\<close>: which events of a watched object lead
  to which reconciliation requests, and what they do to the hash cache. The work queue is the set of
  requests added to it. An object of the watched type \<open>'o\<close> is seen through \<open>view\<close>; the scheme, the REST
  mapper, the parsing of group and version and the client are parameters; logging is not modelled.

  The facts: an update of a tracked object reaches exactly its users, its namespace when it gains the
  restart annotation, and its owner; a deletion reaches the owner only.
\<close>

section \<open>Filters\<close>

record 'o HandlerFuncs =
  CreateFunc :: "'o \<Rightarrow> bool \<times> string"
  DeleteFunc :: "'o \<Rightarrow> bool \<times> string"
  UpdateFunc :: "'o \<Rightarrow> 'o \<Rightarrow> bool \<times> string"
  GenericFunc :: "'o \<Rightarrow> bool \<times> string"

definition defaultFilter :: "'o HandlerFuncs" where
  "defaultFilter = \<lparr>CreateFunc = (\<lambda>_. (True, ''create'')), DeleteFunc = (\<lambda>_. (True, ''update'')),
     UpdateFunc = (\<lambda>_ _. (True, ''update'')), GenericFunc = (\<lambda>_. (True, ''generic''))\<rparr>"

definition deploymentUpdateFunc :: "KDeployment \<Rightarrow> KDeployment \<Rightarrow> bool" where
  "deploymentUpdateFunc objOld objNew =
     (let o' = kd_Status objOld; n = kd_Status objNew
      in if om_Generation (kd_ObjectMeta objNew) \<noteq> om_Generation (kd_ObjectMeta objOld) then True
         else if kds_AvailableReplicas o' \<noteq> kds_AvailableReplicas n \<and> kds_AvailableReplicas n = kds_ReadyReplicas n then True
         else if kds_AvailableReplicas o' = kds_ReadyReplicas o' \<and> kds_AvailableReplicas n \<noteq> kds_ReadyReplicas n then True
         else False)"

text \<open>A Kafka cluster, by the listeners of its status if it has one.\<close>

definition kafkaUpdateFunc :: "'l list option \<Rightarrow> 'l list option \<Rightarrow> bool" where
  "kafkaUpdateFunc objOld objNew =
     (case (objOld, objNew) of
        (Some lo, Some ln) \<Rightarrow> length lo \<noteq> length ln
      | _ \<Rightarrow> False)"

definition environmentUpdateFunc :: "ClowdEnvironment \<Rightarrow> ClowdEnvironment \<Rightarrow> bool" where
  "environmentUpdateFunc objOld objNew =
     (if \<not> est_Ready (env_Status objOld) \<and> est_Ready (env_Status objNew) then True
      else om_Generation (env_ObjectMeta objOld) \<noteq> om_Generation (env_ObjectMeta objNew))"

definition genFilterFunc :: "('o \<Rightarrow> 'o \<Rightarrow> bool) \<Rightarrow> 'o HandlerFuncs" where
  "genFilterFunc updateFn = defaultFilter\<lparr>UpdateFunc := (\<lambda>o' n. (updateFn o' n, ''update''))\<rparr>"

definition alwaysFilter :: "'o HandlerFuncs" where
  "alwaysFilter = genFilterFunc (\<lambda>_ _. True)"

text \<open>\<open>generationChanged\<close> is the predicate of the controller runtime.\<close>

definition generationOnlyFilter :: "('o \<Rightarrow> 'o \<Rightarrow> bool) \<Rightarrow> 'o HandlerFuncs" where
  "generationOnlyFilter generationChanged = genFilterFunc generationChanged"

definition deploymentFilter :: "KDeployment HandlerFuncs" where
  "deploymentFilter = genFilterFunc deploymentUpdateFunc"

definition kafkaFilter :: "'l list option HandlerFuncs" where
  "kafkaFilter = genFilterFunc kafkaUpdateFunc"

section \<open>The handler\<close>

datatype OwnerType = OwnerApp | OwnerEnv

record 'o Handler =
  h_Funcs :: "'o HandlerFuncs"
  h_Group :: string
  h_Kind :: string
  h_TypeOfOwner :: OwnerType
  h_View :: "'o \<Rightarrow> KObject"
  h_ControllerOf :: "ObjectMeta \<Rightarrow> OwnerReference option"
  h_ParseGroupVersion :: "string \<Rightarrow> goerr + string \<times> string"
  h_RootScope :: "string \<Rightarrow> goerr + bool"
  h_ListApps :: "string \<Rightarrow> goerr + ClowdApp list"
  h_Loaded :: ClowderConfig
  h_Sha :: "string \<Rightarrow> string"
  h_Marshal :: "smap \<Rightarrow> goerr + string"
  h_Stack :: string

text \<open>What a handler changes: its hash cache and the queue.\<close>

type_synonym hstate = "HashCache \<times> NamespacedName set"

definition createNewHandler ::
  "('t \<Rightarrow> goerr + (string \<times> string) list) \<Rightarrow> 'o HandlerFuncs \<Rightarrow> 't \<Rightarrow> 'o Handler \<Rightarrow> (goerr + 'o Handler) option" where
  "createNewHandler objectKinds input typeOfOwner base =
     (case objectKinds typeOfOwner of
        Inl err \<Rightarrow> Some (Inl err)
      | Inr [] \<Rightarrow> None
      | Inr ((grp, kind) # _) \<Rightarrow> Some (Inr (base\<lparr>h_Funcs := input, h_Group := grp, h_Kind := kind\<rparr>)))"

definition findOwner :: "'o Handler \<Rightarrow> ObjectMeta \<Rightarrow> NamespacedName option" where
  "findOwner e a =
     (case h_ControllerOf e a of
        None \<Rightarrow> None
      | Some ownref \<Rightarrow>
          (case h_ParseGroupVersion e (or_APIVersion ownref) of
             Inl err \<Rightarrow> None
           | Inr (grp, version) \<Rightarrow>
               if or_Kind ownref = h_Kind e \<and> grp = h_Group e
               then (case h_RootScope e version of
                       Inl err \<Rightarrow> None
                     | Inr root \<Rightarrow> Some (NN (or_Name ownref) (if \<not> root then om_Namespace a else '''')))
               else None))"

definition updateHashCacheForConfigMapAndSecret :: "'o Handler \<Rightarrow> KObject \<Rightarrow> HashCache \<Rightarrow> HashCache \<times> (goerr + bool)" where
  "updateHashCacheForConfigMapAndSecret e obj hc =
     (if ko_Kind obj \<in> {KConfigMap, KSecret}
      then if restart_wanted (h_Loaded e) obj
           then CreateOrUpdateObject (h_Sha e) (h_Marshal e) (h_Stack e) obj False hc
           else (case Read obj hc of
                   Inl err \<Rightarrow> (hc, Inl err)
                 | Inr hcObj \<Rightarrow>
                     if ho_Always hcObj then CreateOrUpdateObject (h_Sha e) (h_Marshal e) (h_Stack e) obj False hc
                     else (hc, Inr False))
      else (hc, Inr False))"

definition loopObjs :: "OwnerType \<Rightarrow> HashObject \<Rightarrow> NamespacedName set" where
  "loopObjs ty v = (case ty of OwnerApp \<Rightarrow> ho_ClowdApps v | OwnerEnv \<Rightarrow> ho_ClowdEnvs v)"

definition doUpdateToHash :: "'o Handler \<Rightarrow> KObject \<Rightarrow> hstate \<Rightarrow> hstate \<times> goerr option" where
  "doUpdateToHash e obj s =
     (case Read obj (fst s) of
        Inl err \<Rightarrow> (s, Some err)
      | Inr hashObj \<Rightarrow> ((fst s, snd s \<union> loopObjs (h_TypeOfOwner e) hashObj), None))"

text \<open>When the listing fails, the error is logged and the list is empty.\<close>

definition reconcileAllAppsUsingObject :: "'o Handler \<Rightarrow> KObject \<Rightarrow> hstate \<Rightarrow> hstate" where
  "reconcileAllAppsUsingObject e obj s =
     (case h_ListApps e (ko_Namespace obj) of
        Inl err \<Rightarrow> s
      | Inr capps \<Rightarrow> (fst s, snd s \<union> (\<lambda>app. NN (app_Name app) (ko_Namespace obj)) ` set capps))"

definition enqueue_owner :: "'o Handler \<Rightarrow> bool \<times> string \<Rightarrow> 'o \<Rightarrow> hstate \<Rightarrow> hstate" where
  "enqueue_owner e decision obj s =
     (case findOwner e (ko_ObjectMeta (h_View e obj)) of
        None \<Rightarrow> s
      | Some own \<Rightarrow> if fst decision then (fst s, insert own (snd s)) else s)"

definition handle_Create :: "'o Handler \<Rightarrow> 'o \<Rightarrow> hstate \<Rightarrow> hstate" where
  "handle_Create e obj s =
     (let (hc, res) = updateHashCacheForConfigMapAndSecret e (h_View e obj) (fst s);
          s1 = (hc, snd s);
          s2 = (if res = Inr True
                then reconcileAllAppsUsingObject e (h_View e obj) (fst (doUpdateToHash e (h_View e obj) s1))
                else s1)
      in enqueue_owner e (CreateFunc (h_Funcs e) obj) obj s2)"

definition handle_Update :: "'o Handler \<Rightarrow> 'o \<Rightarrow> 'o \<Rightarrow> hstate \<Rightarrow> hstate" where
  "handle_Update e objOld objNew s =
     (let new = h_View e objNew; old = h_View e objOld;
          anno = set_RestarterAnnotationName (cc_Settings (h_Loaded e));
          s1 = (if restart_wanted (h_Loaded e) new
                then (let (hc, res) = updateHashCacheForConfigMapAndSecret e new (fst s);
                          t = (hc, snd s);
                          t1 = (if res = Inr True then fst (doUpdateToHash e new t) else t)
                      in if mget (om_Annotations (ko_ObjectMeta old)) anno \<noteq> mget (om_Annotations (ko_ObjectMeta new)) anno
                         then reconcileAllAppsUsingObject e new t1 else t1)
                else (case Read new (fst s) of
                        Inl err \<Rightarrow> s
                      | Inr _ \<Rightarrow> (case doUpdateToHash e new s of
                                    (t, None) \<Rightarrow> t
                                  | (t, Some err) \<Rightarrow> (Delete new (fst t), snd t))))
      in enqueue_owner e (UpdateFunc (h_Funcs e) objOld objNew) objNew s1)"

definition handle_Delete :: "'o Handler \<Rightarrow> 'o \<Rightarrow> hstate \<Rightarrow> hstate" where
  "handle_Delete e obj s = enqueue_owner e (DeleteFunc (h_Funcs e) obj) obj (Delete (h_View e obj) (fst s), snd s)"

definition handle_Generic :: "'o Handler \<Rightarrow> 'o \<Rightarrow> hstate \<Rightarrow> hstate" where
  "handle_Generic e obj s = enqueue_owner e (GenericFunc (h_Funcs e) obj) obj s"

section \<open>Who is reconciled\<close>

definition owner_requests :: "'o Handler \<Rightarrow> bool \<Rightarrow> 'o \<Rightarrow> NamespacedName set" where
  "owner_requests e wanted obj = (if wanted then set_option (findOwner e (ko_ObjectMeta (h_View e obj))) else {})"

definition namespace_requests :: "'o Handler \<Rightarrow> KObject \<Rightarrow> NamespacedName set" where
  "namespace_requests e obj = (case h_ListApps e (ko_Namespace obj) of
     Inl _ \<Rightarrow> {} | Inr apps \<Rightarrow> (\<lambda>app. NN (app_Name app) (ko_Namespace obj)) ` set apps)"

lemma enqueue_owner_eq: "enqueue_owner e dec obj s = (fst s, snd s \<union> owner_requests e (fst dec) obj)"
  by (auto simp: enqueue_owner_def owner_requests_def split: option.split)

lemma reconcileAllApps_eq: "reconcileAllAppsUsingObject e obj s = (fst s, snd s \<union> namespace_requests e obj)"
  by (auto simp: reconcileAllAppsUsingObject_def namespace_requests_def split: sum.split)

text \<open>
  C15. An update of a config map or secret that the hash cache tracks leads to requests for exactly
  these: if it carries the restart annotation and its data has changed, or if it does not carry the
  annotation, all users recorded for it; if the annotation has just been set, all apps of its
  namespace; and its owner, if the filter wants the event. With the annotation the recorded hash is
  the new one, otherwise the cache stays as it is.
\<close>

theorem update_reaches_users:
  fixes e :: "'o Handler" and objOld objNew :: 'o
  assumes "ko_Kind (h_View e objNew) \<in> {KConfigMap, KSecret}" "map_of hc (ident_of (h_View e objNew)) = Some v"
    and "object_hash (h_Sha e) (h_Marshal e) (h_View e objNew) = Some h"
  defines "wanted \<equiv> restart_wanted (h_Loaded e) (h_View e objNew)"
    and "gained \<equiv> mget (om_Annotations (ko_ObjectMeta (h_View e objOld))) (set_RestarterAnnotationName (cc_Settings (h_Loaded e))) \<noteq>
      mget (om_Annotations (ko_ObjectMeta (h_View e objNew))) (set_RestarterAnnotationName (cc_Settings (h_Loaded e)))"
  shows "snd (handle_Update e objOld objNew (hc, q)) = q
      \<union> (if wanted \<longrightarrow> h \<noteq> ho_Hash v then loopObjs (h_TypeOfOwner e) v else {})
      \<union> (if wanted \<and> gained then namespace_requests e (h_View e objNew) else {})
      \<union> owner_requests e (fst (UpdateFunc (h_Funcs e) objOld objNew)) objNew
    \<and> map_of (fst (handle_Update e objOld objNew (hc, q))) =
      (if wanted then (map_of hc)(ident_of (h_View e objNew) \<mapsto> v\<lparr>ho_Hash := h\<rparr>) else map_of hc)"
proof -
  have kind: "ko_Kind (h_View e objNew) \<noteq> KOther" using assms(1) by auto
  obtain json where json: "h_Marshal e (ko_Data (h_View e objNew)) = Inr json" "h = h_Sha e json"
    using assms(3) kind by (auto simp: object_hash_def split: sum.splits)
  have users: "loopObjs ty (v\<lparr>ho_Hash := x\<rparr>) = loopObjs ty v" for ty x by (simp add: loopObjs_def split: OwnerType.split)
  show ?thesis
  proof (cases wanted)
    case True
    with assms(1,2) kind json users show ?thesis
      by (auto simp: handle_Update_def wanted_def gained_def updateHashCacheForConfigMapAndSecret_def CreateOrUpdateObject_def
          doUpdateToHash_def Read_def enqueue_owner_eq reconcileAllApps_eq Let_def)
  next
    case False
    with assms(2) show ?thesis
      by (auto simp: handle_Update_def wanted_def doUpdateToHash_def Read_def enqueue_owner_eq Let_def)
  qed
qed

text \<open>
  When a tracked object is deleted, its entry is dropped from the cache and only its owner is
  requested: the apps recorded as its users are not, unless one of them owns it.
\<close>

theorem deletion_forgets_users:
  "snd (handle_Delete e obj (hc, q)) = q \<union> owner_requests e (fst (DeleteFunc (h_Funcs e) obj)) obj
   \<and> map_of (fst (handle_Delete e obj (hc, q))) (ident_of (h_View e obj)) = None
   \<and> (i \<noteq> ident_of (h_View e obj) \<longrightarrow> map_of (fst (handle_Delete e obj (hc, q))) i = map_of hc i)"
proof -
  have "map_of (filter (\<lambda>(k, v). k \<noteq> i) hc) = (map_of hc)(i := None)" for i
    by (induction hc) (auto simp: fun_eq_iff)
  then show ?thesis by (simp add: handle_Delete_def enqueue_owner_eq Delete_def)
qed

text \<open>
  The deployment filter lets a change pass when the generation changes, when the available replicas
  change and equal the ready ones, and when they stop being equal; it misses changes of readiness
  as the status counts it: for every deployment that becomes ready only by its last updated replica,
  the event is dropped.
\<close>

theorem readiness_change_filtered_out:
  assumes "kds_AvailableReplicas (kd_Status d) = r" "kds_ReadyReplicas (kd_Status d) = r" "kds_UpdatedReplicas (kd_Status d) \<noteq> r"
    and "kd_Replicas d = Some r" "om_Generation (kd_ObjectMeta d) \<le> kds_ObservedGeneration (kd_Status d)"
    and "(''Available'', ''True'') \<in> set (kds_Conditions (kd_Status d))"
  defines "d' \<equiv> d\<lparr>kd_Status := (kd_Status d)\<lparr>kds_UpdatedReplicas := r\<rparr>\<rparr>"
  shows "\<not> deployment_ready d \<and> deployment_ready d' \<and> \<not> fst (UpdateFunc deploymentFilter d d')"
  using assms by (simp add: deployment_ready_def deploymentFilter_def genFilterFunc_def deploymentUpdateFunc_def Let_def)

section \<open>Witnesses\<close>

definition sample_handler :: "KObject Handler" where
  "sample_handler = \<lparr>h_Funcs = alwaysFilter, h_Group = ''cloud.redhat.com'', h_Kind = ''ClowdApp'', h_TypeOfOwner = OwnerApp,
     h_View = (\<lambda>k. k), h_ControllerOf = (\<lambda>m. find (\<lambda>r. or_Controller r = Some True) (om_OwnerReferences m)),
     h_ParseGroupVersion = (\<lambda>_. Inr (''cloud.redhat.com'', ''v1alpha1'')), h_RootScope = (\<lambda>_. Inr False),
     h_ListApps = (\<lambda>_. Inr []), h_Loaded = ClowderConfig_zero, h_Sha = (\<lambda>s. s), h_Marshal = (\<lambda>m. Inr (mget m ''k'')), h_Stack = ''''\<rparr>"

definition sample_secret_object :: "string \<Rightarrow> KObject" where
  "sample_secret_object x = KObject_zero\<lparr>ko_Kind := KSecret, ko_Data := [''k'' \<mapsto> x]\<rparr>"

theorem update_reaches_users_witness:
  "NN ''app'' ''ns'' \<in> snd (handle_Update sample_handler (sample_secret_object ''old'') (sample_secret_object ''new'')
     ([(ident_of (sample_secret_object ''old''), \<lparr>ho_Hash = ''old'', ho_ClowdApps = {NN ''app'' ''ns''}, ho_ClowdEnvs = {},
        ho_Always = True\<rparr>)], {}))"
proof -
  let ?v = "\<lparr>ho_Hash = ''old'', ho_ClowdApps = {NN ''app'' ''ns''}, ho_ClowdEnvs = {}, ho_Always = True\<rparr>"
  let ?hc = "[(ident_of (sample_secret_object ''old''), ?v)]"
  have "ko_Kind (h_View sample_handler (sample_secret_object ''new'')) \<in> {KConfigMap, KSecret}"
    "map_of ?hc (ident_of (h_View sample_handler (sample_secret_object ''new''))) = Some ?v"
    "object_hash (h_Sha sample_handler) (h_Marshal sample_handler) (h_View sample_handler (sample_secret_object ''new'')) = Some ''new''"
    by (simp_all add: sample_handler_def sample_secret_object_def ident_of_def oType_def KObject_zero_def object_hash_def mget_def)
  from update_reaches_users [OF this, of "sample_secret_object ''old''" "{}"] show ?thesis
    by (auto simp: loopObjs_def sample_handler_def)
qed

theorem deletion_forgets_users_witness:
  "snd (handle_Delete sample_handler (sample_secret_object ''old'')
     ([(ident_of (sample_secret_object ''old''), \<lparr>ho_Hash = ''old'', ho_ClowdApps = {NN ''app'' ''ns''}, ho_ClowdEnvs = {},
        ho_Always = True\<rparr>)], {})) = {}"
  using deletion_forgets_users [of sample_handler "sample_secret_object ''old''"
      "[(ident_of (sample_secret_object ''old''), \<lparr>ho_Hash = ''old'', ho_ClowdApps = {NN ''app'' ''ns''}, ho_ClowdEnvs = {}, ho_Always = True\<rparr>)]" "{}"]
  by (simp add: owner_requests_def findOwner_def sample_handler_def sample_secret_object_def KObject_zero_def ObjectMeta_zero_def)

theorem readiness_change_filtered_out_witness:
  "\<exists>d d'. \<not> deployment_ready d \<and> deployment_ready d' \<and> \<not> fst (UpdateFunc deploymentFilter d d')"
  using readiness_change_filtered_out [of "sample_ready_deployment\<lparr>kd_Status := (kd_Status sample_ready_deployment)\<lparr>kds_UpdatedReplicas := 1\<rparr>\<rparr>" 2]
  by (auto simp: sample_ready_deployment_def KDeployment_zero_def ObjectMeta_zero_def)

end
