(* ===== verification/Workloads.thy ===== *)
theory Workloads
  imports Prov_Utils
begin

text \<open>
  The providers that turn an app's deployments and jobs into workloads:
  \<open>providers/deployment/impl.go\<close>, \<open>providers/cronjob/impl.go\<close> and \<open>providers/job/impl.go\<close>. The pod template
  is built from the pod specification and the environment's defaults; the resource cache, the merging of
  annotations (\<open>utils.UpdateAnnotations\<close>) and the comparison of a quantity with the empty one are
  parameters. Type metadata (\<open>Kind\<close>) is not modelled.

  The facts: replica counts, selectors, what every container gets, init containers, cron jobs.
\<close>

record 'w WorkDeps =
  wd_CreateDeployment :: "NamespacedName \<Rightarrow> 'w \<Rightarrow> 'w \<times> (goerr + KDeployment)"
  wd_UpdateDeployment :: "KDeployment \<Rightarrow> 'w \<Rightarrow> 'w \<times> goerr option"
  wd_CreateCronJob :: "NamespacedName \<Rightarrow> 'w \<Rightarrow> 'w \<times> (goerr + KCronJob)"
  wd_UpdateCronJob :: "KCronJob \<Rightarrow> 'w \<Rightarrow> 'w \<times> goerr option"
  wd_UpdateAnnotations :: "smap \<Rightarrow> smap list \<Rightarrow> smap"
  wd_NullQuantity :: "string \<Rightarrow> string \<Rightarrow> bool"
  wd_Loaded :: ClowderConfig

abbreviation PullIfNotPresent :: string where "PullIfNotPresent \<equiv> ''IfNotPresent''"
abbreviation PullAlways :: string where "PullAlways \<equiv> ''Always''"
abbreviation TerminationLogPath :: string where "TerminationLogPath \<equiv> ''/dev/termination-log''"
abbreviation RollingUpdateType :: string where "RollingUpdateType \<equiv> ''RollingUpdate''"
abbreviation RecreateType :: string where "RecreateType \<equiv> ''Recreate''"

abbreviation env_OmitPullPolicy :: "ClowdEnvironment \<Rightarrow> bool" where
  "env_OmitPullPolicy e \<equiv> pv_OmitPullPolicy (env_Providers (env_Spec e))"

section \<open>Shared parts\<close>

text \<open>A quantity that is missing, or equal to the empty quantity, is not set.\<close>

definition quantity_set :: "'w WorkDeps \<Rightarrow> ResourceList \<Rightarrow> string \<Rightarrow> bool" where
  "quantity_set d rl k = (case rl k of None \<Rightarrow> False | Some q \<Rightarrow> \<not> wd_NullQuantity d k q)"

definition ProcessResources :: "'w WorkDeps \<Rightarrow> PodSpec \<Rightarrow> ClowdEnvironment \<Rightarrow> ResourceRequirements" where
  "ProcessResources d pod env =
     (let pl = rr_Limits (ps_Resources pod); pq = rr_Requests (ps_Resources pod);
          el = rr_Limits (env_ResourceDefaults (env_Spec env)); eq = rr_Requests (env_ResourceDefaults (env_Spec env));
          lmemory = (if quantity_set d pl ''memory'' then mget pl ''memory'' else mget el ''memory'');
          rcpu = (if quantity_set d pq ''cpu'' then mget pq ''cpu'' else mget eq ''cpu'');
          rmemory = (if quantity_set d pq ''memory'' then mget pq ''memory'' else mget eq ''memory'');
          limits = [''memory'' \<mapsto> lmemory];
          limits' = (if quantity_set d pl ''cpu'' then limits(''cpu'' \<mapsto> mget pl ''cpu'')
                     else if el ''cpu'' \<noteq> None then limits(''cpu'' \<mapsto> mget el ''cpu'') else limits)
      in \<lparr>rr_Limits = limits', rr_Requests = [''cpu'' \<mapsto> rcpu, ''memory'' \<mapsto> rmemory]\<rparr>)"

definition acg_config :: EnvVar where
  "acg_config = \<lparr>ev_Name = ''ACG_CONFIG'', ev_Value = ''/cdapp/cdappconfig.json'', ev_ValueFrom = None\<rparr>"

definition default_field_ref :: "EnvVar \<Rightarrow> EnvVar" where
  "default_field_ref e =
     (case ev_ValueFrom e of
        Some src \<Rightarrow> (case evs_FieldRef src of
            Some f \<Rightarrow> if ofs_APIVersion f = '''' then e\<lparr>ev_ValueFrom := Some (src\<lparr>evs_FieldRef := Some (f\<lparr>ofs_APIVersion := ''v1''\<rparr>)\<rparr>)\<rparr> else e
          | None \<Rightarrow> e)
      | None \<Rightarrow> e)"

definition loadEnvVars :: "PodSpec \<Rightarrow> EnvVar list" where
  "loadEnvVars pod = map default_field_ref (ps_Env pod @ [acg_config])"

definition config_mount :: VolumeMount where
  "config_mount = \<lparr>vm_Name = ''config-secret'', vm_ReadOnly = False, vm_MountPath = ''/cdapp/''\<rparr>"

definition config_volume :: "int option \<Rightarrow> string \<Rightarrow> Volume" where
  "config_volume mode secret = Volume_zero\<lparr>vol_Name := ''config-secret'',
     vol_Secret := Some \<lparr>vs_Name = secret, vs_DefaultMode = mode, vs_Optional = None\<rparr>\<rparr>"

definition machine_tolerations :: "PodSpec \<Rightarrow> Toleration list" where
  "machine_tolerations pod =
     (if ps_MachinePool pod \<noteq> ''''
      then [\<lparr>tol_Key = ps_MachinePool pod, tol_Operator = ''Equal'', tol_Value = ''true'', tol_Effect = ''NoSchedule''\<rparr>] else [])"

definition latest_pull_policy :: "string \<Rightarrow> string" where
  "latest_pull_policy img =
     (let imageComponents = split_on (CHR '':'') img
      in if length imageComponents > 1
         then if imageComponents ! 1 = ''latest'' then PullAlways else PullIfNotPresent
         else PullIfNotPresent)"

definition setImagePullPolicy :: "ClowdEnvironment \<Rightarrow> Container \<Rightarrow> Container" where
  "setImagePullPolicy env c =
     c\<lparr>ct_ImagePullPolicy := (if \<not> env_OmitPullPolicy env then PullIfNotPresent else latest_pull_policy (ct_Image c))\<rparr>"

text \<open>An init container that inherits gets its own variables and then those of the container that it
  does not set itself.\<close>

definition init_env :: "InitContainer \<Rightarrow> Container \<Rightarrow> EnvVar list" where
  "init_env ic c =
     (if ic_InheritEnv ic
      then ic_Env ic @ filter (\<lambda>e. ev_Name e \<notin> ev_Name ` set (ic_Env ic)) (ct_Env c)
      else acg_config # ic_Env ic)"

definition init_container :: "NamespacedName \<Rightarrow> Container \<Rightarrow> InitContainer \<Rightarrow> Container" where
  "init_container nn c ic = Container_zero\<lparr>
     ct_Name := (if ic_Name ic \<noteq> '''' then ic_Name ic else nn_Name nn) @ ''-init'',
     ct_Image := (if ic_Image ic \<noteq> '''' then ic_Image ic else ct_Image c),
     ct_Command := ic_Command ic, ct_Args := ic_Args ic, ct_Resources := ct_Resources c,
     ct_VolumeMounts := ct_VolumeMounts c, ct_ImagePullPolicy := ct_ImagePullPolicy c,
     ct_TerminationMessagePath := TerminationLogPath, ct_TerminationMessagePolicy := ''File'', ct_Env := init_env ic c\<rparr>"

fun process_inits :: "nat \<Rightarrow> NamespacedName \<Rightarrow> Container \<Rightarrow> InitContainer list \<Rightarrow> goerr + Container list" where
  "process_inits n nn c [] = Inr []"
| "process_inits n nn c (ic # ics) =
     (if n > 1 \<and> ic_Name ic = '''' then Inl (PlainErr ''multiple init containers must have name'')
      else case process_inits n nn c ics of Inl e \<Rightarrow> Inl e | Inr cs \<Rightarrow> Inr (init_container nn c ic # cs))"

definition ProcessInitContainers :: "NamespacedName \<Rightarrow> Container \<Rightarrow> InitContainer list \<Rightarrow> goerr + Container list" where
  "ProcessInitContainers nn c ics = process_inits (length ics) nn c ics"

definition ApplyPodAntiAffinity :: "PodTemplate \<Rightarrow> PodTemplate" where
  "ApplyPodAntiAffinity t = t\<lparr>pt_PodAntiAffinity :=
     [\<lparr>at_Weight = 100, at_MatchLabels = pt_Labels t, at_TopologyKey = ''failure-domain.beta.kubernetes.io/zone''\<rparr>,
      \<lparr>at_Weight = 99, at_MatchLabels = pt_Labels t, at_TopologyKey = ''kubernetes.io/hostname''\<rparr>]\<rparr>"

section \<open>Deployments\<close>

definition web_enabled :: "Deployment \<Rightarrow> bool" where
  "web_enabled deployment = (dep_Web deployment \<or> pub_Enabled (ws_Public (dep_WebServices deployment)))"

definition setLocalAnnotations ::
  "'w WorkDeps \<Rightarrow> ClowdEnvironment \<Rightarrow> Deployment \<Rightarrow> ClowdApp \<Rightarrow> KDeployment \<Rightarrow> KDeployment" where
  "setLocalAnnotations d env deployment app dd =
     (if web_Mode (env_Web env) = ''local'' \<and> web_enabled deployment
      then dd\<lparr>kd_Template := (kd_Template dd)\<lparr>pt_Annotations := wd_UpdateAnnotations d (pt_Annotations (kd_Template dd))
             [[''clowder/authsidecar-image'' \<mapsto> GetCaddyImage (wd_Loaded d) env, ''clowder/authsidecar-enabled'' \<mapsto> ''true'',
               ''clowder/authsidecar-port'' \<mapsto> itoa (web_Port (env_Web env)),
               ''clowder/authsidecar-config'' \<mapsto> ''caddy-config-'' @ app_Name app @ ''-'' @ dep_Name deployment]]\<rparr>\<rparr>
      else dd)"

definition setMinReplicas :: "Deployment \<Rightarrow> KDeployment \<Rightarrow> KDeployment" where
  "setMinReplicas deployment dd =
     (case GetReplicaCount deployment of
        None \<Rightarrow> dd
      | Some n \<Rightarrow>
          (if n = 0 then dd\<lparr>kd_Replicas := Some 0\<rparr>
           else
             (let enough = (case kd_Replicas dd of Some r \<Rightarrow> r \<ge> n | None \<Rightarrow> False)
              in if enough \<and> HasAutoScaler deployment then dd
                 else
                   (let d1 = (if enough then dd\<lparr>kd_Replicas := Some n\<rparr> else dd)
                    in case kd_Replicas d1 of
                         None \<Rightarrow> d1\<lparr>kd_Replicas := Some n\<rparr>
                       | Some r \<Rightarrow> if r < n then d1\<lparr>kd_Replicas := Some n\<rparr> else d1))))"

definition setDeploymentStrategy :: "Deployment \<Rightarrow> KDeployment \<Rightarrow> KDeployment" where
  "setDeploymentStrategy deployment dd =
     (if \<not> pub_Enabled (ws_Public (dep_WebServices deployment))
      then (case dep_DeploymentStrategy deployment of
              Some strategy \<Rightarrow> if strategy \<noteq> '''' then dd\<lparr>kd_Strategy := \<lparr>ds_Type = strategy, ds_RollingUpdate = None\<rparr>\<rparr>
                               else dd\<lparr>kd_Strategy := \<lparr>ds_Type = RollingUpdateType, ds_RollingUpdate = None\<rparr>\<rparr>
            | None \<Rightarrow> dd\<lparr>kd_Strategy := \<lparr>ds_Type = RollingUpdateType, ds_RollingUpdate = None\<rparr>\<rparr>)
      else dd)"

definition makeBaseProbe :: "ClowdEnvironment \<Rightarrow> Probe" where
  "makeBaseProbe env = \<lparr>pr_Handler = HTTPGet ''/healthz'' ''HTTP'' (web_Port (env_Web env)), pr_InitialDelaySeconds = 10,
     pr_TimeoutSeconds = 1, pr_PeriodSeconds = 30, pr_SuccessThreshold = 1, pr_FailureThreshold = 3\<rparr>"

definition probe_defaults :: "Probe \<Rightarrow> Probe" where
  "probe_defaults p = p\<lparr>
     pr_SuccessThreshold := (if pr_SuccessThreshold p = 0 then 1 else pr_SuccessThreshold p),
     pr_TimeoutSeconds := (if pr_TimeoutSeconds p = 0 then 1 else pr_TimeoutSeconds p),
     pr_PeriodSeconds := (if pr_PeriodSeconds p = 0 then 10 else pr_PeriodSeconds p),
     pr_FailureThreshold := (if pr_FailureThreshold p = 0 then 3 else pr_FailureThreshold p)\<rparr>"

definition setLivenessProbe :: "PodSpec \<Rightarrow> Deployment \<Rightarrow> ClowdEnvironment \<Rightarrow> Container \<Rightarrow> Container" where
  "setLivenessProbe pod deployment env c =
     (case ps_LivenessProbe pod of
        Some p \<Rightarrow> c\<lparr>ct_LivenessProbe := Some (probe_defaults p)\<rparr>
      | None \<Rightarrow> if web_enabled deployment then c\<lparr>ct_LivenessProbe := Some (makeBaseProbe env)\<rparr> else c)"

definition setReadinessProbe :: "PodSpec \<Rightarrow> Deployment \<Rightarrow> ClowdEnvironment \<Rightarrow> Container \<Rightarrow> Container" where
  "setReadinessProbe pod deployment env c =
     (case ps_ReadinessProbe pod of
        Some p \<Rightarrow> c\<lparr>ct_ReadinessProbe := Some (probe_defaults p)\<rparr>
      | None \<Rightarrow> if web_enabled deployment
                then c\<lparr>ct_ReadinessProbe := Some ((makeBaseProbe env)\<lparr>pr_InitialDelaySeconds := 45\<rparr>)\<rparr> else c)"

definition setRecreateDeploymentStrategyForPVCs :: "Volume \<Rightarrow> KDeployment \<Rightarrow> KDeployment" where
  "setRecreateDeploymentStrategyForPVCs vol dd =
     (if vol_PersistentVolumeClaim vol = None then dd
      else dd\<lparr>kd_Strategy := \<lparr>ds_Type = RecreateType, ds_RollingUpdate = None\<rparr>\<rparr>)"

definition mode_unset :: "VolumeSource \<Rightarrow> bool" where
  "mode_unset s = (vs_DefaultMode s = None \<or> vs_DefaultMode s = Some 0)"

definition setVolumeSourceConfigMapDefaultMode :: "Volume \<Rightarrow> Volume" where
  "setVolumeSourceConfigMapDefaultMode vol =
     (if vol_PersistentVolumeClaim vol \<noteq> None then vol
      else case vol_ConfigMap vol of
             Some cm \<Rightarrow> if vol_Secret vol = None \<and> mode_unset cm then vol\<lparr>vol_ConfigMap := Some (cm\<lparr>vs_DefaultMode := Some 420\<rparr>)\<rparr> else vol
           | None \<Rightarrow> vol)"

definition setVolumeSourceSecretDefaultMode :: "Volume \<Rightarrow> Volume" where
  "setVolumeSourceSecretDefaultMode vol =
     (if vol_PersistentVolumeClaim vol \<noteq> None then vol
      else case vol_Secret vol of
             Some s \<Rightarrow> if vol_ConfigMap vol = None \<and> mode_unset s then vol\<lparr>vol_Secret := Some (s\<lparr>vs_DefaultMode := Some 420\<rparr>)\<rparr> else vol
           | None \<Rightarrow> vol)"

text \<open>The container of a deployment, before its init containers are made from it.\<close>

definition deployment_container :: "'w WorkDeps \<Rightarrow> ClowdEnvironment \<Rightarrow> NamespacedName \<Rightarrow> Deployment \<Rightarrow> Container" where
  "deployment_container d env nn deployment =
     (let pod = dep_PodSpec deployment;
          c = Container_zero\<lparr>ct_Name := nn_Name nn, ct_Image := ps_Image pod, ct_Command := ps_Command pod, ct_Args := ps_Args pod,
                ct_Env := loadEnvVars pod, ct_Resources := ProcessResources d pod env, ct_VolumeMounts := ps_VolumeMounts pod,
                ct_TerminationMessagePath := TerminationLogPath, ct_TerminationMessagePolicy := ''File'',
                ct_ImagePullPolicy := PullIfNotPresent, ct_Lifecycle := ps_Lifecycle pod\<rparr>;
          c1 = setImagePullPolicy env (setReadinessProbe pod deployment env (setLivenessProbe pod deployment env c))
      in c1\<lparr>ct_VolumeMounts := ct_VolumeMounts c1 @ [config_mount]\<rparr>)"

definition initDeployment ::
  "'w WorkDeps \<Rightarrow> ClowdApp \<Rightarrow> ClowdEnvironment \<Rightarrow> KDeployment \<Rightarrow> NamespacedName \<Rightarrow> Deployment
    \<Rightarrow> ClowdApp \<times> (goerr + KDeployment)" where
  "initDeployment d app env dd nn deployment =
     (let (app1, ls) = app_GetLabels app;
          labels = ls(''pod'' \<mapsto> nn_Name nn);
          (app2, om) = app_SetObjectMeta app1 (kd_ObjectMeta dd);
          om' = om_Labels_opt labels (om_Name_opt (nn_Name nn) om);
          pod = dep_PodSpec deployment;
          d1 = dd\<lparr>kd_ObjectMeta := om'\<lparr>om_Annotations := wd_UpdateAnnotations d (om_Annotations om')
                  [om_Annotations (app_ObjectMeta app2), dm_Annotations (dep_Metadata deployment)]\<rparr>\<rparr>;
          d2 = setMinReplicas deployment (setLocalAnnotations d env deployment app2 d1);
          t = (kd_Template d2)\<lparr>pt_Labels := labels\<rparr>;
          d3 = d2\<lparr>kd_Selector := labels,
                  kd_Strategy := \<lparr>ds_Type = RollingUpdateType, ds_RollingUpdate = Some (''25%'', ''25%'')\<rparr>,
                  kd_ProgressDeadlineSeconds := Some 600,
                  kd_Template := t\<lparr>pt_Annotations := wd_UpdateAnnotations d (pt_Annotations t) [pm_Annotations (ps_Metadata pod)]\<rparr>\<rparr>;
          d4 = setDeploymentStrategy deployment d3;
          c = deployment_container d env nn deployment
      in case ProcessInitContainers nn c (ps_InitContainers pod) of
           Inl err \<Rightarrow> (app2, Inl err)
         | Inr ics \<Rightarrow>
             (let vols = ps_Volumes pod @ [config_volume (Some 420) (app_Name app2)];
                  d5 = foldl (\<lambda>x vol. setRecreateDeploymentStrategyForPVCs vol x) d4 vols;
                  t5 = (kd_Template d5)\<lparr>pt_Containers := [c], pt_InitContainers := ics, pt_Tolerations := machine_tolerations pod,
                         pt_TerminationGracePeriodSeconds := ps_TerminationGracePeriodSeconds pod,
                         pt_Volumes := map (\<lambda>v. setVolumeSourceSecretDefaultMode (setVolumeSourceConfigMapDefaultMode v)) vols\<rparr>
              in (app2, Inr (d5\<lparr>kd_Template := ApplyPodAntiAffinity t5\<rparr>))))"

definition makeDeployment ::
  "'w WorkDeps \<Rightarrow> ClowdEnvironment \<Rightarrow> Deployment \<Rightarrow> ClowdApp \<times> 'w \<Rightarrow> (ClowdApp \<times> 'w) \<times> goerr option" where
  "makeDeployment d env deployment s =
     (let (app, w) = s; nn = app_GetDeploymentNamespacedName app deployment
      in case wd_CreateDeployment d nn w of
           (w1, Inl err) \<Rightarrow> ((app, w1), Some err)
         | (w1, Inr dd) \<Rightarrow>
             (case initDeployment d app env dd nn deployment of
                (app', Inl err) \<Rightarrow> ((app', w1), Some err)
              | (app', Inr dd') \<Rightarrow> (case wd_UpdateDeployment d dd' w1 of (w2, e) \<Rightarrow> ((app', w2), e))))"

definition deployment_Provide :: "'w WorkDeps \<Rightarrow> ClowdEnvironment \<Rightarrow> ClowdApp \<times> 'w \<Rightarrow> (ClowdApp \<times> 'w) \<times> goerr option" where
  "deployment_Provide d env s = for_err (makeDeployment d env) (app_Deployments (app_Spec (fst s))) s"

section \<open>Cron jobs\<close>

definition GetCronJobName :: "ClowdApp \<Rightarrow> Job \<Rightarrow> string" where
  "GetCronJobName app cronjob = app_Name app @ ''-'' @ job_Name cronjob"

definition job_probe :: "Probe option \<Rightarrow> Probe option" where
  "job_probe p = (case p of Some pr \<Rightarrow> if pr \<noteq> Probe_zero then Some pr else None | None \<Rightarrow> None)"

definition metrics_port :: "ClowdEnvironment \<Rightarrow> ContainerPort" where
  "metrics_port env = \<lparr>cp_Name = ''metrics'', cp_ContainerPort = met_Port (pv_Metrics (env_Providers (env_Spec env))), cp_Protocol = ''TCP''\<rparr>"

text \<open>Unlike in a deployment, a volume's mode is defaulted by the first source it has.\<close>

definition cron_volume_mode :: "Volume \<Rightarrow> Volume" where
  "cron_volume_mode vol =
     (case vol_ConfigMap vol of
        Some cm \<Rightarrow> if mode_unset cm then vol\<lparr>vol_ConfigMap := Some (cm\<lparr>vs_DefaultMode := Some 420\<rparr>)\<rparr>
                   else (case vol_Secret vol of
                           Some s \<Rightarrow> if mode_unset s then vol\<lparr>vol_Secret := Some (s\<lparr>vs_DefaultMode := Some 420\<rparr>)\<rparr> else vol
                         | None \<Rightarrow> vol)
      | None \<Rightarrow> (case vol_Secret vol of
                   Some s \<Rightarrow> if mode_unset s then vol\<lparr>vol_Secret := Some (s\<lparr>vs_DefaultMode := Some 420\<rparr>)\<rparr> else vol
                 | None \<Rightarrow> vol))"

definition buildPodTemplate ::
  "'w WorkDeps \<Rightarrow> ClowdApp \<Rightarrow> ClowdEnvironment \<Rightarrow> PodTemplate \<Rightarrow> NamespacedName \<Rightarrow> Job \<Rightarrow> ClowdApp \<times> (goerr + PodTemplate)" where
  "buildPodTemplate d app env pt nn cronjob =
     (let (app1, ls) = app_GetLabels app; labels = ls(''pod'' \<mapsto> nn_Name nn); pod = job_PodSpec cronjob;
          c = Container_zero\<lparr>ct_Name := nn_Name nn, ct_Image := ps_Image pod, ct_Command := ps_Command pod, ct_Args := ps_Args pod,
                ct_Env := map default_field_ref (ps_Env pod @ [acg_config]), ct_Resources := ProcessResources d pod env,
                ct_VolumeMounts := ps_VolumeMounts pod @ [config_mount], ct_Ports := [metrics_port env],
                ct_TerminationMessagePath := TerminationLogPath, ct_TerminationMessagePolicy := ''File'',
                ct_ImagePullPolicy := (if \<not> env_OmitPullPolicy env then PullIfNotPresent else ''''),
                ct_LivenessProbe := job_probe (ps_LivenessProbe pod), ct_ReadinessProbe := job_probe (ps_ReadinessProbe pod)\<rparr>
      in case ProcessInitContainers nn c (ps_InitContainers pod) of
           Inl err \<Rightarrow> (app1, Inl err)
         | Inr ics \<Rightarrow>
             (app1, Inr (ApplyPodAntiAffinity (pt\<lparr>pt_Labels := labels, pt_Tolerations := machine_tolerations pod,
                pt_ServiceAccountName := app_GetClowdSAName app1, pt_TerminationGracePeriodSeconds := Some 30, pt_SecurityContext := True,
                pt_SchedulerName := ''default-scheduler'', pt_DNSPolicy := ''ClusterFirst'', pt_Containers := [c], pt_InitContainers := ics,
                pt_Volumes := map cron_volume_mode (ps_Volumes pod @ [config_volume (Some 420) (app_Name app1)])\<rparr>))))"

definition applyCronJob ::
  "'w WorkDeps \<Rightarrow> ClowdApp \<Rightarrow> KCronJob \<Rightarrow> PodTemplate \<Rightarrow> NamespacedName \<Rightarrow> Job \<Rightarrow> ClowdApp \<times> KCronJob" where
  "applyCronJob d app cj pt nn cronjob =
     (let (app1, ls) = app_GetLabels app; labels = ls(''pod'' \<mapsto> nn_Name nn);
          (app2, om) = app_SetObjectMeta app1 (kc_ObjectMeta cj);
          om' = om_Labels_opt labels (om_Name_opt (nn_Name nn) om);
          pt' = pt\<lparr>pt_Annotations := wd_UpdateAnnotations d (pt_Annotations pt) [KubeLinterAnnotations]\<rparr>
      in (app2, cj\<lparr>kc_ObjectMeta := om'\<lparr>om_Annotations := wd_UpdateAnnotations d (om_Annotations om')
                       [KubeLinterAnnotations, om_Annotations (app_ObjectMeta app2)]\<rparr>,
            kc_Schedule := job_Schedule cronjob, kc_JobLabels := labels,
            kc_ActiveDeadlineSeconds := job_ActiveDeadlineSeconds cronjob,
            kc_ConcurrencyPolicy := (if job_ConcurrencyPolicy cronjob = '''' then ''Allow'' else job_ConcurrencyPolicy cronjob),
            kc_StartingDeadlineSeconds := (if job_StartingDeadlineSeconds cronjob \<noteq> None then job_StartingDeadlineSeconds cronjob
                                           else kc_StartingDeadlineSeconds cj),
            kc_Suspend := (if job_Suspend cronjob \<noteq> None then job_Suspend cronjob else kc_Suspend cj),
            kc_SuccessfulJobsHistoryLimit := (if job_SuccessfulJobsHistoryLimit cronjob \<noteq> None
              then job_SuccessfulJobsHistoryLimit cronjob else kc_SuccessfulJobsHistoryLimit cj),
            kc_FailedJobsHistoryLimit := (if job_FailedJobsHistoryLimit cronjob \<noteq> None
              then job_FailedJobsHistoryLimit cronjob else kc_FailedJobsHistoryLimit cj),
            kc_Parallelism := (if job_Parallelism cronjob \<noteq> None then job_Parallelism cronjob else kc_Parallelism cj),
            kc_Completions := (if job_Completions cronjob \<noteq> None then job_Completions cronjob else kc_Completions cj),
            kc_Template := ApplyPodAntiAffinity (pt'\<lparr>pt_RestartPolicy :=
              (if job_RestartPolicy cronjob = '''' then ''Never'' else job_RestartPolicy cronjob)\<rparr>)\<rparr>))"

definition makeCronJob ::
  "'w WorkDeps \<Rightarrow> ClowdEnvironment \<Rightarrow> Job \<Rightarrow> ClowdApp \<times> 'w \<Rightarrow> (ClowdApp \<times> 'w) \<times> goerr option" where
  "makeCronJob d env cronjob s =
     (let (app, w) = s; nn = NN (GetCronJobName app cronjob) (app_Namespace app)
      in case buildPodTemplate d app env PodTemplate_zero nn cronjob of
           (app1, Inl err) \<Rightarrow> ((app1, w), Some err)
         | (app1, Inr pt) \<Rightarrow>
             (case wd_CreateCronJob d nn w of
                (w1, Inl err) \<Rightarrow> ((app1, w1), Some err)
              | (w1, Inr c) \<Rightarrow>
                  (let (app2, c') = applyCronJob d app1 c pt nn cronjob
                   in case wd_UpdateCronJob d c' w1 of (w2, e) \<Rightarrow> ((app2, w2), e))))"

definition cronjob_Provide :: "'w WorkDeps \<Rightarrow> ClowdEnvironment \<Rightarrow> ClowdApp \<times> 'w \<Rightarrow> (ClowdApp \<times> 'w) \<times> goerr option" where
  "cronjob_Provide d env s =
     for_err (\<lambda>j s. if job_Schedule j \<noteq> '''' \<and> \<not> job_Disabled j then makeCronJob d env j s else (s, None))
       (app_Jobs (app_Spec (fst s))) s"

section \<open>Invoked jobs\<close>

text \<open>The container of a job, and the pod template that holds it with its init containers.\<close>

definition job_container :: "'w WorkDeps \<Rightarrow> ClowdEnvironment \<Rightarrow> NamespacedName \<Rightarrow> Job \<Rightarrow> Container" where
  "job_container d env nn job =
     (let pod = job_PodSpec job
      in Container_zero\<lparr>ct_Name := nn_Name nn, ct_Image := ps_Image pod, ct_Command := ps_Command pod, ct_Args := ps_Args pod,
           ct_Env := ps_Env pod @ [acg_config], ct_Resources := ProcessResources d pod env,
           ct_VolumeMounts := ps_VolumeMounts pod @ [config_mount], ct_Ports := [metrics_port env],
           ct_TerminationMessagePath := TerminationLogPath, ct_TerminationMessagePolicy := ''File'',
           ct_ImagePullPolicy := (if \<not> env_OmitPullPolicy env then PullIfNotPresent else latest_pull_policy (ps_Image pod)),
           ct_LivenessProbe := job_probe (ps_LivenessProbe pod), ct_ReadinessProbe := job_probe (ps_ReadinessProbe pod)\<rparr>)"

definition job_template ::
  "'w WorkDeps \<Rightarrow> ClowdJobInvocation \<Rightarrow> ClowdEnvironment \<Rightarrow> ClowdApp \<Rightarrow> NamespacedName \<Rightarrow> Job \<Rightarrow> smap \<Rightarrow> Container list
    \<Rightarrow> PodTemplate \<Rightarrow> PodTemplate" where
  "job_template d cji env app nn job labels ics t =
     (let pod = job_PodSpec job;
          t0 = t\<lparr>pt_Labels := labels,
                 pt_RestartPolicy := (if job_RestartPolicy job = '''' then ''Never'' else job_RestartPolicy job),
                 pt_Tolerations := machine_tolerations pod, pt_ServiceAccountName := app_GetClowdSAName app,
                 pt_Containers := [job_container d env nn job], pt_InitContainers := ics,
                 pt_Volumes := ps_Volumes pod @ [config_volume None (cji_AppName (cji_Spec cji))]\<rparr>;
          t1 = (if tls_Enabled (web_TLS (env_Web env)) then AddCertVolume t0 (nn_Name nn) else t0)
      in t1\<lparr>pt_Annotations := wd_UpdateAnnotations d (pt_Annotations t1)
            [KubeLinterAnnotations, om_Annotations (cji_ObjectMeta cji)]\<rparr>)"

definition CreateJobResource ::
  "'w WorkDeps \<Rightarrow> ClowdJobInvocation \<Rightarrow> ClowdEnvironment \<Rightarrow> ClowdApp \<Rightarrow> NamespacedName \<Rightarrow> Job \<Rightarrow> KJob
    \<Rightarrow> ClowdJobInvocation \<times> (goerr + KJob)" where
  "CreateJobResource d cji env app nn job j =
     (let (cji1, ls) = cji_GetLabels cji; labels = ls(''job'' \<mapsto> job_Name job);
          (cji2, om) = cji_SetObjectMeta cji1 (kj_ObjectMeta j);
          om' = om_Labels_opt labels (om_Name_opt (nn_Name nn) om)
      in case ProcessInitContainers nn (job_container d env nn job) (ps_InitContainers (job_PodSpec job)) of
           Inl err \<Rightarrow> (cji2, Inl err)
         | Inr ics \<Rightarrow>
             (cji2, Inr (j\<lparr>kj_ObjectMeta := om'\<lparr>om_Annotations := wd_UpdateAnnotations d (om_Annotations om')
                   [KubeLinterAnnotations, om_Annotations (app_ObjectMeta app)]\<rparr>,
                 kj_ActiveDeadlineSeconds := job_ActiveDeadlineSeconds job,
                 kj_Parallelism := (if job_Parallelism job \<noteq> None then job_Parallelism job else kj_Parallelism j),
                 kj_Completions := (if job_Completions job \<noteq> None then job_Completions job else kj_Completions j),
                 kj_Template := job_template d cji2 env app nn job labels ics (kj_Template j)\<rparr>)))"

section \<open>Facts\<close>

subsection \<open>Replicas\<close>

text \<open>What the replica count of a deployment should be, from its specification and its current count: none
  when it is scaled down by hand, what the autoscaler chose when that is enough, else what is asked for.\<close>

definition wanted_replicas :: "int \<Rightarrow> bool \<Rightarrow> int option \<Rightarrow> int" where
  "wanted_replicas n scaled current =
     (if n = 0 then 0 else if scaled then (case current of Some r \<Rightarrow> max r n | None \<Rightarrow> n) else n)"

lemma setMinReplicas_count:
  "GetReplicaCount deployment = Some n
    \<Longrightarrow> kd_Replicas (setMinReplicas deployment dd) = Some (wanted_replicas n (HasAutoScaler deployment) (kd_Replicas dd))"
  by (auto simp: setMinReplicas_def wanted_replicas_def Let_def split: option.splits if_splits)

lemma GetReplicaCount_total: "\<exists>n. GetReplicaCount deployment = Some n"
  by (auto simp: GetReplicaCount_def split: option.splits)

text \<open>Nothing but the count changes, so the steps around it can be read off alone.\<close>

lemma setMinReplicas_frame:
  "kd_ObjectMeta (setMinReplicas deployment dd) = kd_ObjectMeta dd"
  "kd_Template (setMinReplicas deployment dd) = kd_Template dd"
  "kd_Strategy (setMinReplicas deployment dd) = kd_Strategy dd"
  by (auto simp: setMinReplicas_def Let_def split: option.splits)

lemma setLocalAnnotations_frame:
  "kd_ObjectMeta (setLocalAnnotations d env deployment app dd) = kd_ObjectMeta dd"
  "kd_Replicas (setLocalAnnotations d env deployment app dd) = kd_Replicas dd"
  by (auto simp: setLocalAnnotations_def)

lemma setDeploymentStrategy_frame:
  "kd_ObjectMeta (setDeploymentStrategy deployment dd) = kd_ObjectMeta dd"
  "kd_Replicas (setDeploymentStrategy deployment dd) = kd_Replicas dd"
  "kd_Selector (setDeploymentStrategy deployment dd) = kd_Selector dd"
  "kd_Template (setDeploymentStrategy deployment dd) = kd_Template dd"
  by (auto simp: setDeploymentStrategy_def split: option.splits)

text \<open>The volumes decide the strategy: one claim among them is enough for a recreation.\<close>

lemma recreate_fold:
  "foldl (\<lambda>x vol. setRecreateDeploymentStrategyForPVCs vol x) dd vols
     = (if \<exists>v\<in>set vols. vol_PersistentVolumeClaim v \<noteq> None
        then dd\<lparr>kd_Strategy := \<lparr>ds_Type = RecreateType, ds_RollingUpdate = None\<rparr>\<rparr> else dd)"
  by (induction vols arbitrary: dd) (auto simp: setRecreateDeploymentStrategyForPVCs_def)

subsection \<open>Init containers\<close>

lemma process_inits_ok:
  "process_inits n nn c ics = Inr (map (init_container nn c) ics)" if "n > 1 \<longrightarrow> (\<forall>ic\<in>set ics. ic_Name ic \<noteq> '''')"
  using that by (induction ics) auto

lemma process_inits_error:
  "process_inits n nn c ics = Inl (PlainErr ''multiple init containers must have name'')"
  if "n > 1" "ic \<in> set ics" "ic_Name ic = ''''"
  using that by (induction ics) auto

lemma process_inits_cases:
  "process_inits n nn c ics = Inr cs \<Longrightarrow> cs = map (init_container nn c) ics"
  by (induction ics arbitrary: cs) (auto split: if_splits sum.splits)

lemma init_container_mounts [simp]: "ct_VolumeMounts (init_container nn c ic) = ct_VolumeMounts c"
  by (simp add: init_container_def)

lemma init_container_env [simp]: "ct_Env (init_container nn c ic) = init_env ic c"
  by (simp add: init_container_def)

subsection \<open>Containers\<close>

lemma default_field_ref_config [simp]: "default_field_ref acg_config = acg_config"
  by (simp add: default_field_ref_def acg_config_def)


lemma probes_frame:
  "ct_Env (setLivenessProbe pod deployment env c) = ct_Env c"
  "ct_VolumeMounts (setLivenessProbe pod deployment env c) = ct_VolumeMounts c"
  "ct_Env (setReadinessProbe pod deployment env c) = ct_Env c"
  "ct_VolumeMounts (setReadinessProbe pod deployment env c) = ct_VolumeMounts c"
  "ct_Env (setImagePullPolicy env c) = ct_Env c"
  "ct_VolumeMounts (setImagePullPolicy env c) = ct_VolumeMounts c"
  by (auto simp: setLivenessProbe_def setReadinessProbe_def setImagePullPolicy_def split: option.splits)

lemma deployment_container_env [simp]:
  "ct_Env (deployment_container d env nn deployment) = loadEnvVars (dep_PodSpec deployment)"
  by (simp add: deployment_container_def Let_def probes_frame)

lemma deployment_container_mounts [simp]:
  "ct_VolumeMounts (deployment_container d env nn deployment) = ps_VolumeMounts (dep_PodSpec deployment) @ [config_mount]"
  by (simp add: deployment_container_def Let_def probes_frame)

subsection \<open>Deployments\<close>

lemma app_GetLabels_name [simp]:
  "app_Name (fst (app_GetLabels app)) = app_Name app" "app_Namespace (fst (app_GetLabels app)) = app_Namespace app"
  "app_Spec (fst (app_GetLabels app)) = app_Spec app"
  by (simp_all add: app_GetLabels_def Let_def)

definition pod_labels :: "ClowdApp \<Rightarrow> NamespacedName \<Rightarrow> smap" where
  "pod_labels app nn = (snd (app_GetLabels app))(''pod'' \<mapsto> nn_Name nn)"

text \<open>What a deployment that is built holds, field by field.\<close>

lemma initDeployment_result:
  assumes "initDeployment d app env dd nn deployment = (app', Inr dd')"
  defines "c \<equiv> deployment_container d env nn deployment" and "pod \<equiv> dep_PodSpec deployment"
  shows "app_Name app' = app_Name app" "app_Namespace app' = app_Namespace app" "app_Spec app' = app_Spec app"
    "om_Name (kd_ObjectMeta dd') = nn_Name nn" "om_Namespace (kd_ObjectMeta dd') = app_Namespace app"
    "kd_Replicas dd' = Some (wanted_replicas (the (GetReplicaCount deployment)) (HasAutoScaler deployment) (kd_Replicas dd))"
    "kd_Selector dd' = pod_labels app nn" "pt_Labels (kd_Template dd') = pod_labels app nn"
    "pt_Containers (kd_Template dd') = [c]" "pt_InitContainers (kd_Template dd') = map (init_container nn c) (ps_InitContainers pod)"
    "pt_Volumes (kd_Template dd') = map (\<lambda>v. setVolumeSourceSecretDefaultMode (setVolumeSourceConfigMapDefaultMode v))
       (ps_Volumes pod @ [config_volume (Some 420) (app_Name app)])"
    "(\<exists>v\<in>set (ps_Volumes pod). vol_PersistentVolumeClaim v \<noteq> None) \<Longrightarrow> ds_Type (kd_Strategy dd') = RecreateType"
proof -
  obtain n where n: "GetReplicaCount deployment = Some n" using GetReplicaCount_total by blast
  note parts = app_SetObjectMeta_def om_Name_opt_def om_Labels_opt_def ApplyPodAntiAffinity_def pod_labels_def
    setMinReplicas_frame setLocalAnnotations_frame setDeploymentStrategy_frame setMinReplicas_count [OF n] recreate_fold n
    ProcessInitContainers_def c_def pod_def
  obtain ics where ics: "ProcessInitContainers nn c (ps_InitContainers pod) = Inr ics"
    using assms(1) by (auto simp: initDeployment_def Let_def c_def pod_def split: sum.splits prod.splits)
  then have inits: "ics = map (init_container nn c) (ps_InitContainers pod)"
    by (simp add: ProcessInitContainers_def process_inits_cases)
  note unf = assms(1) [unfolded initDeployment_def Let_def case_prod_unfold, folded c_def pod_def, unfolded ics]
  show "app_Name app' = app_Name app" "app_Namespace app' = app_Namespace app" "app_Spec app' = app_Spec app"
    "om_Name (kd_ObjectMeta dd') = nn_Name nn" "om_Namespace (kd_ObjectMeta dd') = app_Namespace app"
    "kd_Replicas dd' = Some (wanted_replicas (the (GetReplicaCount deployment)) (HasAutoScaler deployment) (kd_Replicas dd))"
    "kd_Selector dd' = pod_labels app nn" "pt_Labels (kd_Template dd') = pod_labels app nn"
    "pt_Containers (kd_Template dd') = [c]" "pt_InitContainers (kd_Template dd') = map (init_container nn c) (ps_InitContainers pod)"
    "pt_Volumes (kd_Template dd') = map (\<lambda>v. setVolumeSourceSecretDefaultMode (setVolumeSourceConfigMapDefaultMode v))
       (ps_Volumes pod @ [config_volume (Some 420) (app_Name app)])"
    "(\<exists>v\<in>set (ps_Volumes pod). vol_PersistentVolumeClaim v \<noteq> None) \<Longrightarrow> ds_Type (kd_Strategy dd') = RecreateType"
    using unf inits by (auto simp: parts case_prod_unfold Let_def split: if_splits)
qed

subsection \<open>The configuration reaches every container\<close>

text \<open>A pod template that mounts the secret with the app's configuration into each of its containers and
  tells them where to find it; a container may point elsewhere only by a variable of its own.\<close>

definition env_value :: "string \<Rightarrow> EnvVar list \<Rightarrow> EnvVar option" where
  "env_value n vars = find (\<lambda>e. ev_Name e = n) (rev vars)"

definition sees_config :: "EnvVar list \<Rightarrow> Container \<Rightarrow> bool" where
  "sees_config own c = (list_ex (\<lambda>m. vm_Name m = ''config-secret'' \<and> vm_MountPath m = ''/cdapp/'') (ct_VolumeMounts c)
     \<and> env_value ''ACG_CONFIG'' (ct_Env c) = (case env_value ''ACG_CONFIG'' own of
          Some e \<Rightarrow> Some e
        | None \<Rightarrow> Some \<lparr>ev_Name = ''ACG_CONFIG'', ev_Value = ''/cdapp/cdappconfig.json'', ev_ValueFrom = None\<rparr>))"

definition holds_config :: "string \<Rightarrow> Volume \<Rightarrow> bool" where
  "holds_config secret v = (vol_Name v = ''config-secret'' \<and> map_option vs_Name (vol_Secret v) = Some secret)"

definition configured :: "string \<Rightarrow> InitContainer list \<Rightarrow> PodTemplate \<Rightarrow> bool" where
  "configured secret inits t = (list_ex (holds_config secret) (pt_Volumes t) \<and> pt_Containers t \<noteq> []
     \<and> list_all (sees_config []) (pt_Containers t) \<and> list_all2 (\<lambda>ic. sees_config (ic_Env ic)) inits (pt_InitContainers t))"

lemma find_append_cases: "find P (xs @ ys) = (case find P xs of Some x \<Rightarrow> Some x | None \<Rightarrow> find P ys)"
  by (induction xs) auto

lemma find_filter_same: "(\<And>x. P x \<Longrightarrow> Q x) \<Longrightarrow> find P (filter Q xs) = find P xs"
  by (induction xs) auto

lemma env_value_append: "env_value n (xs @ ys) = (case env_value n ys of Some e \<Rightarrow> Some e | None \<Rightarrow> env_value n xs)"
  unfolding env_value_def by (simp add: find_append_cases)

lemma env_value_acg [simp]: "env_value ''ACG_CONFIG'' (xs @ [acg_config]) = Some acg_config"
  by (simp add: env_value_def acg_config_def)

lemma env_value_None: "env_value n xs = None \<longleftrightarrow> n \<notin> ev_Name ` set xs"
  by (auto simp: env_value_def find_None_iff)

lemma init_env_value:
  assumes "env_value n (ct_Env c) = Some e" and "n = ''ACG_CONFIG''" and "e = acg_config"
  shows "env_value n (init_env ic c) = (case env_value n (ic_Env ic) of Some x \<Rightarrow> Some x | None \<Rightarrow> Some e)"
proof (cases "n \<in> ev_Name ` set (ic_Env ic)")
  case True
  then have "env_value n (filter (\<lambda>e. ev_Name e \<notin> ev_Name ` set (ic_Env ic)) (ct_Env c)) = None" unfolding env_value_None by (metis (mono_tags, lifting) imageE mem_Collect_eq set_filter)
  then show ?thesis using True env_value_append [of n "[acg_config]" "ic_Env ic"]
    by (auto simp: init_env_def env_value_append split: option.splits dest: env_value_None [THEN iffD1])
next
  case False
  then have "env_value n (filter (\<lambda>e. ev_Name e \<notin> ev_Name ` set (ic_Env ic)) (ct_Env c)) = env_value n (ct_Env c)"
    unfolding env_value_def rev_filter by (intro find_filter_same) auto
  moreover have "env_value n [acg_config] = Some acg_config" using assms(2) by (simp add: env_value_def acg_config_def)
  ultimately show ?thesis using False assms env_value_append [of n "[acg_config]" "ic_Env ic"]
    by (simp add: init_env_def env_value_append env_value_None [THEN iffD2] split: option.splits)
qed

lemma config_mount_seen: "config_mount \<in> set mounts \<Longrightarrow> list_ex (\<lambda>m. vm_Name m = ''config-secret'' \<and> vm_MountPath m = ''/cdapp/'') mounts"
  by (force simp: list_ex_iff config_mount_def)

lemma container_sees_config:
  assumes "config_mount \<in> set (ct_VolumeMounts c)" "env_value ''ACG_CONFIG'' (ct_Env c) = Some acg_config"
  shows "sees_config [] c" "sees_config (ic_Env ic) (init_container nn c ic)"
  using assms init_env_value [OF assms(2) refl refl, of ic] config_mount_seen [OF assms(1)]
  by (simp_all add: sees_config_def env_value_def [of _ "[]"] acg_config_def split: option.split)

lemma configuredI:
  assumes "pt_Containers t = [c]" "pt_InitContainers t = map (init_container nn c) ics"
    and "config_mount \<in> set (ct_VolumeMounts c)" "env_value ''ACG_CONFIG'' (ct_Env c) = Some acg_config"
    and "v \<in> set (pt_Volumes t)" "holds_config secret v"
  shows "configured secret ics t"
  using assms container_sees_config [OF assms(3,4)] by (auto simp: configured_def list_ex_iff list.rel_map list_all2_same)

lemma config_volume_modes [simp]:
  "setVolumeSourceSecretDefaultMode (setVolumeSourceConfigMapDefaultMode (config_volume (Some 420) s)) = config_volume (Some 420) s"
  "cron_volume_mode (config_volume (Some 420) s) = config_volume (Some 420) s"
  by (simp_all add: config_volume_def setVolumeSourceSecretDefaultMode_def setVolumeSourceConfigMapDefaultMode_def
      cron_volume_mode_def mode_unset_def Volume_zero_def)

lemma config_volume_holds [simp]: "holds_config s (config_volume m s)"
  by (simp add: holds_config_def config_volume_def)

lemma deployment_configured:
  assumes "initDeployment d app env dd nn deployment = (app', Inr dd')"
  shows "configured (app_Name app) (ps_InitContainers (dep_PodSpec deployment)) (kd_Template dd')"
  by (rule configuredI [OF initDeployment_result(9,10) [OF assms], where v = "config_volume (Some 420) (app_Name app)"])
    (simp_all add: initDeployment_result(11) [OF assms] loadEnvVars_def)

text \<open>The template of a cron job, and its labels.\<close>

lemma buildPodTemplate_result:
  assumes "buildPodTemplate d app env pt nn cronjob = (app', Inr pt')"
  shows "configured (app_Name app) (ps_InitContainers (job_PodSpec cronjob)) pt'" "pt_Labels pt' = pod_labels app nn" "app_Name app' = app_Name app"
    "app_Namespace app' = app_Namespace app" "pt_ServiceAccountName pt' = app_GetClowdSAName app'"
proof -
  obtain c ics where c: "pt_Containers pt' = [c]" "config_mount \<in> set (ct_VolumeMounts c)" "env_value ''ACG_CONFIG'' (ct_Env c) = Some acg_config"
    and ics: "ProcessInitContainers nn c (ps_InitContainers (job_PodSpec cronjob)) = Inr ics" "pt_InitContainers pt' = ics"
    using assms by (auto simp: buildPodTemplate_def Let_def ApplyPodAntiAffinity_def split: prod.splits sum.splits)
  moreover have "ics = map (init_container nn c) (ps_InitContainers (job_PodSpec cronjob))"
    using ics(1) by (simp add: ProcessInitContainers_def process_inits_cases)
  moreover have "config_volume (Some 420) (app_Name app) \<in> set (pt_Volumes pt')"
    using assms by (auto simp: buildPodTemplate_def Let_def ApplyPodAntiAffinity_def case_prod_unfold split: sum.splits)
  ultimately show "configured (app_Name app) (ps_InitContainers (job_PodSpec cronjob)) pt'" by (auto intro!: configuredI)
  show "pt_Labels pt' = pod_labels app nn" "app_Name app' = app_Name app" "app_Namespace app' = app_Namespace app"
    "pt_ServiceAccountName pt' = app_GetClowdSAName app'"
    using assms by (auto simp: buildPodTemplate_def Let_def ApplyPodAntiAffinity_def pod_labels_def case_prod_unfold split: sum.splits)
qed

lemma applyCronJob_template:
  assumes "applyCronJob d app cj pt nn cronjob = (app', cj')"
  shows "configured s ics (kc_Template cj') = configured s ics pt" "pt_Labels (kc_Template cj') = pt_Labels pt"
  using assms by (auto simp: applyCronJob_def Let_def ApplyPodAntiAffinity_def configured_def case_prod_unfold)

lemma mounted_sees_config: "sees_config own c \<Longrightarrow> sees_config own (mount_tls_ca c)"
  by (auto simp: sees_config_def mount_tls_ca_def)

lemma AddCertVolume_configured: "configured s ics t \<Longrightarrow> configured s ics (AddCertVolume t n)"
  by (auto simp: configured_def AddCertVolume_def list_all_iff mounted_sees_config list.rel_map elim: list_all2_mono)

lemma job_template_configured:
  assumes "ProcessInitContainers nn (job_container d env nn job) (ps_InitContainers (job_PodSpec job)) = Inr ics"
  shows "configured (cji_AppName (cji_Spec cji)) (ps_InitContainers (job_PodSpec job)) (job_template d cji env app nn job labels ics t)"
proof -
  have "ics = map (init_container nn (job_container d env nn job)) (ps_InitContainers (job_PodSpec job))"
    using assms by (simp add: ProcessInitContainers_def process_inits_cases)
  moreover have "config_mount \<in> set (ct_VolumeMounts (job_container d env nn job))"
    "env_value ''ACG_CONFIG'' (ct_Env (job_container d env nn job)) = Some acg_config"
    by (simp_all add: job_container_def Let_def)
  ultimately have "configured (cji_AppName (cji_Spec cji)) (ps_InitContainers (job_PodSpec job)) (t\<lparr>pt_Labels := labels, pt_RestartPolicy := rp, pt_Tolerations := tol,
      pt_ServiceAccountName := sa, pt_Containers := [job_container d env nn job], pt_InitContainers := ics,
      pt_Volumes := vols @ [config_volume None (cji_AppName (cji_Spec cji))]\<rparr>)" for rp tol sa vols
    by (intro configuredI) auto
  moreover have "configured s xs (t'\<lparr>pt_Annotations := a\<rparr>) = configured s xs t'" for s xs t' a
    by (simp add: configured_def)
  ultimately show ?thesis by (simp add: job_template_def Let_def AddCertVolume_configured)
qed

lemma CreateJobResource_configured:
  assumes "CreateJobResource d cji env app nn job j = (cji', Inr j')"
  shows "configured (cji_AppName (cji_Spec cji)) (ps_InitContainers (job_PodSpec job)) (kj_Template j')"
proof -
  have cji: "cji_Spec (fst (cji_SetObjectMeta (fst (cji_GetLabels cji)) om)) = cji_Spec cji" for om
    by (simp add: cji_SetObjectMeta_def cji_GetLabels_def Let_def)
  obtain ics labels where "ProcessInitContainers nn (job_container d env nn job) (ps_InitContainers (job_PodSpec job)) = Inr ics"
    "kj_Template j' = job_template d cji' env app nn job labels ics (kj_Template j)" "cji_Spec cji' = cji_Spec cji"
    using assms cji by (auto simp: CreateJobResource_def Let_def case_prod_unfold split: sum.splits)
  then show ?thesis using job_template_configured [of nn d env job ics cji'] by simp
qed

subsection \<open>What the providers promise\<close>

definition unnamed_inits :: "PodSpec \<Rightarrow> bool" where
  "unnamed_inits pod = (length (ps_InitContainers pod) > 1 \<and> list_ex (\<lambda>ic. ic_Name ic = '''') (ps_InitContainers pod))"

lemma ProcessInitContainers_exact:
  "ProcessInitContainers nn c (ps_InitContainers pod) =
     (if unnamed_inits pod then Inl (PlainErr ''multiple init containers must have name'')
      else Inr (map (init_container nn c) (ps_InitContainers pod)))"
  by (auto simp: ProcessInitContainers_def unnamed_inits_def list_ex_iff intro!: process_inits_ok process_inits_error)

lemma initDeployment_outcome:
  "initDeployment d app env dd nn deployment =
     (fst (app_SetObjectMeta (fst (app_GetLabels app)) (kd_ObjectMeta dd)),
      if unnamed_inits (dep_PodSpec deployment) then Inl (PlainErr ''multiple init containers must have name'')
      else snd (initDeployment d app env dd nn deployment))"
  by (auto simp: initDeployment_def Let_def case_prod_unfold ProcessInitContainers_exact)

lemma initDeployment_ok:
  "\<not> unnamed_inits (dep_PodSpec deployment) \<Longrightarrow> \<exists>app' dd'. initDeployment d app env dd nn deployment = (app', Inr dd')"
  by (auto simp: initDeployment_def Let_def case_prod_unfold ProcessInitContainers_exact)

text \<open>
  The replica count of a deployment that is built is decided by its specification: zero for a
  deployment scaled down by hand; what is there, when an autoscaler owns it and it is not below what the
  specification asks for; and in all other cases exactly what the specification asks for. A deployment
  with a volume claim is recreated rather than rolled over.
\<close>

theorem deployment_replicas:
  assumes "initDeployment d app env dd nn deployment = (app', Inr dd')"
  shows "\<exists>n. GetReplicaCount deployment = Some n
      \<and> kd_Replicas dd' = Some (if n = 0 then 0 else if HasAutoScaler deployment \<and> kd_Replicas dd \<noteq> None
                                 then max n (the (kd_Replicas dd)) else n)
      \<and> ((\<exists>v\<in>set (ps_Volumes (dep_PodSpec deployment)). vol_PersistentVolumeClaim v \<noteq> None)
           \<longrightarrow> ds_Type (kd_Strategy dd') = RecreateType)"
proof -
  obtain n where "GetReplicaCount deployment = Some n" using GetReplicaCount_total by blast
  then show ?thesis
    using initDeployment_result(6,12) [OF assms] by (auto simp: wanted_replicas_def max_def)
qed

definition sample_work_deps :: "'w WorkDeps" where
  "sample_work_deps = \<lparr>wd_CreateDeployment = \<lambda>nn w. (w, Inr KDeployment_zero), wd_UpdateDeployment = \<lambda>x w. (w, None),
     wd_CreateCronJob = \<lambda>nn w. (w, Inr KCronJob_zero), wd_UpdateCronJob = \<lambda>x w. (w, None),
     wd_UpdateAnnotations = foldl (++), wd_NullQuantity = \<lambda>k q. q = ''0'', wd_Loaded = ClowderConfig_zero\<rparr>"

definition sample_work_app :: ClowdApp where
  "sample_work_app = ClowdApp_zero\<lparr>app_ObjectMeta := ObjectMeta_zero\<lparr>om_Name := ''inventory'', om_Namespace := ''ns''\<rparr>\<rparr>"

definition sample_scaled :: "string \<Rightarrow> Deployment" where
  "sample_scaled name = Deployment_zero\<lparr>dep_Name := name, dep_Replicas := Some 3, dep_PodSpec := PodSpec_zero\<lparr>
     ps_Volumes := [Volume_zero\<lparr>vol_PersistentVolumeClaim := Some ''claim''\<rparr>]\<rparr>,
     dep_AutoScaler := Some \<lparr>asc_PollingInterval = None, asc_CooldownPeriod = None, asc_MaxReplicaCount = None,
       asc_MinReplicaCount = None, asc_Advanced = None, asc_Triggers = [], asc_Fallback = None, asc_ExternalHPA = False\<rparr>\<rparr>"

lemma sample_scaled_ok: "\<not> unnamed_inits (dep_PodSpec (sample_scaled name))"
  by (simp add: sample_scaled_def unnamed_inits_def PodSpec_zero_def)

theorem deployment_replicas_witness:
  "\<exists>app' dd'. initDeployment (sample_work_deps :: unit WorkDeps) sample_work_app ClowdEnvironment_zero (KDeployment_zero\<lparr>kd_Replicas := Some 7\<rparr>)
       (NN ''inventory-api'' ''ns'') (sample_scaled ''api'') = (app', Inr dd')
     \<and> kd_Replicas dd' = Some 7 \<and> ds_Type (kd_Strategy dd') = RecreateType"
proof -
  obtain app' dd' where i: "initDeployment (sample_work_deps :: unit WorkDeps) sample_work_app ClowdEnvironment_zero
      (KDeployment_zero\<lparr>kd_Replicas := Some 7\<rparr>) (NN ''inventory-api'' ''ns'') (sample_scaled ''api'') = (app', Inr dd')"
    using initDeployment_ok [OF sample_scaled_ok] by blast
  with deployment_replicas [OF i] show ?thesis
    by (auto simp: sample_scaled_def GetReplicaCount_def HasAutoScaler_def Volume_zero_def)
qed

text \<open>A label selector selects the pods that carry all its labels.\<close>

definition selects :: "smap \<Rightarrow> smap \<Rightarrow> bool" where
  "selects sel labels = (sel \<subseteq>\<^sub>m labels)"

text \<open>
  C35. A deployment selects the pods of its own template, and no pod of another deployment of the app: the
  pods are told apart by the name of the deployment they belong to.
\<close>

theorem deployments_own_their_pods:
  assumes "initDeployment d app env dd1 (app_GetDeploymentNamespacedName app p1) p1 = (app1, Inr r1)"
    and "initDeployment d app1 env dd2 (app_GetDeploymentNamespacedName app1 p2) p2 = (app2, Inr r2)"
    and "dep_Name p1 \<noteq> dep_Name p2"
  shows "selects (kd_Selector r1) (pt_Labels (kd_Template r1)) \<and> selects (kd_Selector r2) (pt_Labels (kd_Template r2))
    \<and> \<not> selects (kd_Selector r1) (pt_Labels (kd_Template r2)) \<and> \<not> selects (kd_Selector r2) (pt_Labels (kd_Template r1))"
proof -
  have pods: "pod_labels app (app_GetDeploymentNamespacedName app p1) ''pod'' = Some (app_Name app @ ''-'' @ dep_Name p1)"
    "pod_labels app1 (app_GetDeploymentNamespacedName app1 p2) ''pod'' = Some (app_Name app @ ''-'' @ dep_Name p2)"
    using initDeployment_result(1) [OF assms(1)] by (simp_all add: pod_labels_def app_GetDeploymentNamespacedName_def)
  then have "\<not> selects (pod_labels app (app_GetDeploymentNamespacedName app p1)) (pod_labels app1 (app_GetDeploymentNamespacedName app1 p2))"
    "\<not> selects (pod_labels app1 (app_GetDeploymentNamespacedName app1 p2)) (pod_labels app (app_GetDeploymentNamespacedName app p1))"
    using assms(3) by (force simp: selects_def map_le_def dom_def)+
  then show ?thesis
    using initDeployment_result(7,8) [OF assms(1)] initDeployment_result(7,8) [OF assms(2)] by (simp add: selects_def)
qed

theorem deployments_own_their_pods_witness:
  "\<exists>app1 r1 app2 r2.
     initDeployment (sample_work_deps :: unit WorkDeps) sample_work_app ClowdEnvironment_zero KDeployment_zero
       (app_GetDeploymentNamespacedName sample_work_app (sample_scaled ''api'')) (sample_scaled ''api'') = (app1, Inr r1)
     \<and> initDeployment (sample_work_deps :: unit WorkDeps) app1 ClowdEnvironment_zero KDeployment_zero
       (app_GetDeploymentNamespacedName app1 (sample_scaled ''worker'')) (sample_scaled ''worker'') = (app2, Inr r2)
     \<and> \<not> selects (kd_Selector r1) (pt_Labels (kd_Template r2)) \<and> selects (kd_Selector r2) (pt_Labels (kd_Template r2))"
proof -
  let ?init = "\<lambda>app n. initDeployment (sample_work_deps :: unit WorkDeps) app ClowdEnvironment_zero KDeployment_zero
      (app_GetDeploymentNamespacedName app (sample_scaled n)) (sample_scaled n)"
  obtain app1 r1 where i1: "?init sample_work_app ''api'' = (app1, Inr r1)"
    using initDeployment_ok [OF sample_scaled_ok] by blast
  obtain app2 r2 where i2: "?init app1 ''worker'' = (app2, Inr r2)"
    using initDeployment_ok [OF sample_scaled_ok] by blast
  have "dep_Name (sample_scaled ''api'') \<noteq> dep_Name (sample_scaled ''worker'')" by (simp add: sample_scaled_def)
  with deployments_own_their_pods [OF i1 i2] i1 i2 show ?thesis by blast
qed

text \<open>
  C36. The configuration reaches every container of every workload: the template of a deployment, of a cron
  job and of an invoked job has a volume with the secret named like the app, and its container
  and each of its init containers mounts that volume on \<open>/cdapp/\<close> and has the path of the file there in \<open>ACG_CONFIG\<close>, the last
  variable of a name being the one that counts. The specification can override the variable of an init container, not that of the container.
\<close>

theorem workloads_configured:
  "(initDeployment d app env dd nn deployment = (app', Inr dd') \<longrightarrow> configured (app_Name app) (ps_InitContainers (dep_PodSpec deployment)) (kd_Template dd'))
   \<and> (buildPodTemplate d app env pt nn cronjob = (app', Inr pt') \<longrightarrow> applyCronJob d app' cj pt' nn cronjob = (app'', cj')
        \<longrightarrow> configured (app_Name app) (ps_InitContainers (job_PodSpec cronjob)) (kc_Template cj'))
   \<and> (CreateJobResource d cji env app nn job j = (cji', Inr j') \<longrightarrow> configured (cji_AppName (cji_Spec cji)) (ps_InitContainers (job_PodSpec job)) (kj_Template j'))"
  by (auto simp: applyCronJob_template(1) intro: deployment_configured buildPodTemplate_result(1) CreateJobResource_configured)

definition sample_job :: Job where
  "sample_job = Job_zero\<lparr>job_Name := ''sync'', job_Schedule := ''@daily'', job_PodSpec := PodSpec_zero\<lparr>ps_InitContainers :=
     [\<lparr>ic_Name = ''migrate'', ic_Image = '''', ic_Command = [], ic_Args = [], ic_InheritEnv = True, ic_Env = []\<rparr>,
      \<lparr>ic_Name = ''seed'', ic_Image = '''', ic_Command = [], ic_Args = [], ic_InheritEnv = False, ic_Env = []\<rparr>]\<rparr>\<rparr>"

theorem workloads_configured_witness:
  "\<exists>app' pt' app'' cj'. buildPodTemplate (sample_work_deps :: unit WorkDeps) sample_work_app ClowdEnvironment_zero PodTemplate_zero
       (NN ''inventory-sync'' ''ns'') sample_job = (app', Inr pt')
     \<and> applyCronJob (sample_work_deps :: unit WorkDeps) app' KCronJob_zero pt' (NN ''inventory-sync'' ''ns'') sample_job = (app'', cj')
     \<and> configured ''inventory'' (ps_InitContainers (job_PodSpec sample_job)) (kc_Template cj') \<and> length (pt_InitContainers pt') = 2"
proof -
  obtain app' pt' where b: "buildPodTemplate (sample_work_deps :: unit WorkDeps) sample_work_app ClowdEnvironment_zero PodTemplate_zero
      (NN ''inventory-sync'' ''ns'') sample_job = (app', Inr pt')" "length (pt_InitContainers pt') = 2"
    by (simp add: buildPodTemplate_def sample_job_def Let_def case_prod_unfold ProcessInitContainers_def PodSpec_zero_def
        ApplyPodAntiAffinity_def)
  obtain app'' cj' where a: "applyCronJob (sample_work_deps :: unit WorkDeps) app' KCronJob_zero pt' (NN ''inventory-sync'' ''ns'') sample_job = (app'', cj')"
    by fastforce
  have "app_Name sample_work_app = ''inventory''" by (simp add: sample_work_app_def)
  moreover from b a workloads_configured [of "sample_work_deps :: unit WorkDeps" sample_work_app ClowdEnvironment_zero]
  have "configured (app_Name sample_work_app) (ps_InitContainers (job_PodSpec sample_job)) (kc_Template cj')" by blast
  ultimately show ?thesis using b a by auto
qed

lemma makeDeployment_outcome:
  assumes "\<And>nn w. \<exists>w' dd. wd_CreateDeployment d nn w = (w', Inr dd)" "\<And>x w. snd (wd_UpdateDeployment d x w) = None"
  shows "snd (makeDeployment d env deployment s) =
    (if unnamed_inits (dep_PodSpec deployment) then Some (PlainErr ''multiple init containers must have name'') else None)"
proof -
  let ?nn = "app_GetDeploymentNamespacedName (fst s) deployment"
  obtain w' dd where c: "wd_CreateDeployment d ?nn (snd s) = (w', Inr dd)"
    using assms(1) by blast
  show ?thesis
  proof (cases "unnamed_inits (dep_PodSpec deployment)")
    case True
    then have "\<exists>app'. initDeployment d (fst s) env dd ?nn deployment = (app', Inl (PlainErr ''multiple init containers must have name''))"
      using initDeployment_outcome [of d "fst s" env dd ?nn deployment] by auto
    with c True show ?thesis by (auto simp: makeDeployment_def Let_def case_prod_unfold)
  next
    case False
    then obtain app' dd' where "initDeployment d (fst s) env dd ?nn deployment = (app', Inr dd')"
      using initDeployment_ok by blast
    with c False assms(2) show ?thesis by (auto simp: makeDeployment_def Let_def case_prod_unfold)
  qed
qed

lemma for_err_pure_errors:
  assumes "\<And>x s. x \<in> set xs \<Longrightarrow> snd (body x s) = (if bad x then Some e else None)"
  shows "snd (for_err body xs s) = (if list_ex bad xs then Some e else None)"
  using assms
proof (induction xs arbitrary: s)
  case (Cons x xs)
  show ?case
    using Cons.prems [of x s] Cons.IH [of "fst (body x s)"] Cons.prems by (cases "body x s") (auto split: if_splits)
qed simp

text \<open>
  With a cache that answers, the only thing that stops the deployment provider is an app with a pod of
  several init containers of which one has no name; it is refused with that message, and every other app
  gets all its deployments.
\<close>

theorem deployments_refused_exactly:
  assumes "\<And>nn w. \<exists>w' dd. wd_CreateDeployment d nn w = (w', Inr dd)" "\<And>x w. snd (wd_UpdateDeployment d x w) = None"
  shows "snd (deployment_Provide d env s) =
    (if \<exists>p\<in>set (app_Deployments (app_Spec (fst s))). length (ps_InitContainers (dep_PodSpec p)) > 1
          \<and> (\<exists>ic\<in>set (ps_InitContainers (dep_PodSpec p)). ic_Name ic = '''')
     then Some (PlainErr ''multiple init containers must have name'') else None)"
proof -
  have "snd (makeDeployment d env p t) =
      (if unnamed_inits (dep_PodSpec p) then Some (PlainErr ''multiple init containers must have name'') else None)" for p t
    using makeDeployment_outcome [of d env p t, OF assms] .
  then show ?thesis
    unfolding deployment_Provide_def
    by (subst for_err_pure_errors [where bad = "\<lambda>p. unnamed_inits (dep_PodSpec p)"]) (auto simp: unnamed_inits_def list_ex_iff)
qed

theorem deployments_refused_exactly_witness:
  "snd (deployment_Provide (sample_work_deps :: unit WorkDeps) ClowdEnvironment_zero (sample_work_app\<lparr>app_Spec := (app_Spec sample_work_app)\<lparr>
      app_Deployments := [sample_scaled ''api'', sample_scaled ''worker'']\<rparr>\<rparr>, ())) = None"
  by (subst deployments_refused_exactly) (auto simp: sample_work_deps_def sample_scaled_def PodSpec_zero_def)

end
