(* ===== verification/Iqe.thy ===== *)
theory Iqe
  imports Workloads
begin

text \<open>
  The test job of an invocation, \<open>providers/iqe/impl.go\<close>: its container and variables, the browser
  sidecars, the vault secret and the secret with the configurations of all apps of the environment.
  The client, the resource cache \<open>'c\<close>, the copy of a secret and JSON are parameters.
\<close>

section \<open>Parameters\<close>

text \<open>The identifiers under which an invocation keeps its objects in the cache.\<close>

datatype cji_ident = IqeSecret | VaultSecret | IqeClowdJob | ClowdJob

record ('w, 'c) IqeDeps =
  iq_Work :: "'w WorkDeps"
  iq_GetSecret :: "NamespacedName \<Rightarrow> 'w \<Rightarrow> goerr + KSecretObj"
  iq_ListApps :: "'w \<Rightarrow> string \<Rightarrow> goerr + ClowdApp list"
  iq_CopySecret :: "NamespacedName \<Rightarrow> NamespacedName \<Rightarrow> 'w \<Rightarrow> goerr + KSecretObj"
  iq_CreateSecret :: "cji_ident \<Rightarrow> NamespacedName \<Rightarrow> KSecretObj \<Rightarrow> 'w \<Rightarrow> 'c \<Rightarrow> 'c \<times> (goerr + KSecretObj)"
  iq_UpdateSecret :: "cji_ident \<Rightarrow> KSecretObj \<Rightarrow> 'c \<Rightarrow> 'c \<times> goerr option"
  iq_Unmarshal :: "string \<Rightarrow> goerr + AppConfig"
  iq_Marshal :: "(string \<rightharpoonup> AppConfig) \<Rightarrow> goerr + string"

definition DefaultImageIQESelenium :: string where
  "DefaultImageIQESelenium = ''quay.io/app-sre/selenium-standalone-chrome''"

definition DefaultImageIQEPlaywright :: string where
  "DefaultImageIQEPlaywright = ''quay.io/redhat-services-prod/insights-management-tenant/playwright-images/playwright-vnc-chromium''"

section \<open>Variables\<close>

definition joinNullableSlice :: "string list option \<Rightarrow> string" where
  "joinNullableSlice s = (case s of Some xs \<Rightarrow> join '','' xs | None \<Rightarrow> '''')"

definition updateEnvVar :: "EnvVar list \<Rightarrow> EnvVar \<Rightarrow> EnvVar list" where
  "updateEnvVar existing new =
     (if ev_Value new = '''' \<and> ev_ValueFrom new = None then existing
      else if ev_Name new \<in> ev_Name ` set existing
      then map (\<lambda>e. if ev_Name e = ev_Name new then e\<lparr>ev_Value := ev_Value new, ev_ValueFrom := ev_ValueFrom new\<rparr> else e) existing
      else existing @ [new])"

definition updateEnvVars :: "EnvVar list \<Rightarrow> EnvVar list \<Rightarrow> EnvVar list" where
  "updateEnvVars existing new = foldl updateEnvVar existing new"

section \<open>Containers\<close>

abbreviation env_Testing :: "ClowdEnvironment \<Rightarrow> TestingConfig" where
  "env_Testing e \<equiv> pv_Testing (env_Providers (env_Spec e))"

definition iqe_base_vars :: "string \<Rightarrow> string \<Rightarrow> IqeJobSpec \<Rightarrow> EnvVar list" where
  "iqe_base_vars ns plugin iqe =
     [plain_var ''ENV_FOR_DYNACONF'' (ij_DynaconfEnvName iqe), plain_var ''NAMESPACE'' ns,
      plain_var ''CLOWDER_ENABLED'' ''true'', plain_var ''ACG_CONFIG'' ''/cdapp/cdappconfig.json'',
      plain_var ''IQE_PLUGINS'' (if ij_IqePlugins iqe \<noteq> '''' then ij_IqePlugins iqe else plugin),
      plain_var ''IQE_MARKER_EXPRESSION'' (ij_Marker iqe), plain_var ''IQE_FILTER_EXPRESSION'' (ij_Filter iqe),
      plain_var ''IQE_LOG_LEVEL'' (if ij_LogLevel iqe = '''' then ''info'' else ij_LogLevel iqe),
      plain_var ''IQE_REQUIREMENTS'' (joinNullableSlice (ij_Requirements iqe)),
      plain_var ''IQE_REQUIREMENTS_PRIORITY'' (joinNullableSlice (ij_RequirementsPriority iqe)),
      plain_var ''IQE_TEST_IMPORTANCE'' (joinNullableSlice (ij_TestImportance iqe)),
      plain_var ''IQE_PARALLEL_ENABLED'' (ij_ParallelEnabled iqe), plain_var ''IQE_PARALLEL_WORKER_COUNT'' (ij_ParallelWorkerCount iqe),
      plain_var ''IQE_RP_ARGS'' (ij_RpArgs iqe), plain_var ''IQE_IBUTSU_SOURCE'' (ij_IbutsuSource iqe)]"

definition createIqeContainer ::
  "'w WorkDeps \<Rightarrow> string \<Rightarrow> NamespacedName \<Rightarrow> ClowdJobInvocation \<Rightarrow> ClowdEnvironment \<Rightarrow> ClowdApp \<Rightarrow> Container" where
  "createIqeContainer d jname nn cji env app =
     (let iqe = cji_TestingIqe (cji_Spec cji); plugin = ts_IqePlugin (app_Testing (app_Spec app));
          vars = iqe_base_vars (nn_Namespace nn) plugin iqe;
          tag = (if ij_ImageTag iqe \<noteq> '''' then ij_ImageTag iqe else if plugin \<noteq> '''' then plugin else ''latest'')
      in Container_zero\<lparr>ct_Name := jname, ct_Image := iqe_ImageBase (tc_Iqe (env_Testing env)) @ '':'' @ tag,
           ct_Env := (case ij_Env iqe of Some new \<Rightarrow> updateEnvVars vars new | None \<Rightarrow> vars),
           ct_Resources := ProcessResources d (PodSpec_zero\<lparr>ps_Resources := iqe_Resources (tc_Iqe (env_Testing env))\<rparr>) env,
           ct_Args := (if ij_Debug iqe then [''container-debug''] else [''clowder'']), ct_ImagePullPolicy := PullAlways,
           ct_TerminationMessagePath := TerminationLogPath, ct_TerminationMessagePolicy := ''File'',
           ct_VolumeMounts := (if its_Deploy (ius_Selenium (ij_UI iqe))
             then [\<lparr>vm_Name = ''sel-downloads'', vm_ReadOnly = False, vm_MountPath = ''/sel-downloads''\<rparr>] else [])\<rparr>)"

text \<open>A sidecar is returned with the volumes of the pod as it leaves them.\<close>

definition shm_volume :: Volume where
  "shm_volume = Volume_zero\<lparr>vol_Name := ''shm'', vol_Other := ''EmptyDir:Memory''\<rparr>"

definition shm_mount :: VolumeMount where
  "shm_mount = \<lparr>vm_Name = ''shm'', vm_ReadOnly = False, vm_MountPath = ''/dev/shm''\<rparr>"

definition ui_container :: "'w WorkDeps \<Rightarrow> ClowdEnvironment \<Rightarrow> string \<Rightarrow> string \<Rightarrow> string \<Rightarrow> IqeUIToolConfig \<Rightarrow> IqeToolSpec \<Rightarrow> Container" where
  "ui_container d env name defImage defTag tool spec =
     (let image' = (if iut_ImageBase tool = '''' then defImage else iut_ImageBase tool);
          tag = (if its_ImageTag spec \<noteq> '''' then its_ImageTag spec else if iut_DefaultImageTag tool = '''' then defTag else iut_DefaultImageTag tool)
      in Container_zero\<lparr>ct_Name := name, ct_Image := image' @ '':'' @ tag,
           ct_Resources := ProcessResources d (PodSpec_zero\<lparr>ps_Resources := iut_Resources tool\<rparr>) env,
           ct_ImagePullPolicy := PullIfNotPresent, ct_TerminationMessagePath := TerminationLogPath,
           ct_TerminationMessagePolicy := ''File'', ct_RestartPolicy := Some ''Always''\<rparr>)"

definition createSeleniumContainer ::
  "'w WorkDeps \<Rightarrow> string \<Rightarrow> Volume list \<Rightarrow> ClowdJobInvocation \<Rightarrow> ClowdEnvironment \<Rightarrow> Volume list \<times> Container" where
  "createSeleniumContainer d jname vols cji env =
     (let c = ui_container d env (jname @ ''-sel'') DefaultImageIQESelenium ''136.0-20250828''
                (iu_Selenium (iqe_UI (tc_Iqe (env_Testing env)))) (ius_Selenium (ij_UI (cji_TestingIqe (cji_Spec cji))))
      in (vols @ [shm_volume, Volume_zero\<lparr>vol_Name := ''sel-downloads'', vol_Other := ''EmptyDir:Memory:64Mi''\<rparr>],
          c\<lparr>ct_VolumeMounts := [shm_mount,
             \<lparr>vm_Name = ''sel-downloads'', vm_ReadOnly = False, vm_MountPath = ''/home/selenium/Downloads''\<rparr>]\<rparr>))"

definition createPlaywrightContainer ::
  "'w WorkDeps \<Rightarrow> string \<Rightarrow> Volume list \<Rightarrow> ClowdJobInvocation \<Rightarrow> ClowdEnvironment \<Rightarrow> Volume list \<times> Container" where
  "createPlaywrightContainer d jname vols cji env =
     (let c = ui_container d env (jname @ ''-pw'') DefaultImageIQEPlaywright ''latest''
                (iu_Playwright (iqe_UI (tc_Iqe (env_Testing env)))) (ius_Playwright (ij_UI (cji_TestingIqe (cji_Spec cji))))
      in (if ''shm'' \<in> vol_Name ` set vols then vols else vols @ [shm_volume],
          c\<lparr>ct_Env := [plain_var ''PW_HEADLESS'' ''true''], ct_VolumeMounts := [shm_mount]\<rparr>))"

section \<open>Secrets\<close>

definition vault_var :: "string \<Rightarrow> string \<Rightarrow> string \<Rightarrow> EnvVar" where
  "vault_var secret name key = \<lparr>ev_Name = name, ev_Value = '''', ev_ValueFrom = Some \<lparr>evs_FieldRef = None,
     evs_ConfigMapKeyRef = None, evs_SecretKeyRef = Some \<lparr>ks_Name = secret, ks_Key = key, ks_Optional = Some True\<rparr>\<rparr>\<rparr>"

definition buildVaultEnvVars :: "KSecretObj \<Rightarrow> EnvVar list" where
  "buildVaultEnvVars s =
     (let v = vault_var (om_Name (sec_ObjectMeta s))
      in [plain_var ''DYNACONF_IQE_VAULT_LOADER_ENABLED'' ''true'', plain_var ''DYNACONF_IQE_VAULT_VERIFY'' ''true'',
          v ''DYNACONF_IQE_VAULT_URL'' ''url'', v ''DYNACONF_IQE_VAULT_MOUNT_POINT'' ''mountPoint'',
          v ''DYNACONF_IQE_VAULT_ROLE_ID'' ''roleId'', v ''DYNACONF_IQE_VAULT_SECRET_ID'' ''secretId'',
          v ''DYNACONF_IQE_VAULT_GITHUB_TOKEN'' ''githubToken''])"

definition addVaultSecretToCache ::
  "('w, 'c) IqeDeps \<Rightarrow> ClowdJobInvocation \<Rightarrow> NamespacedName \<Rightarrow> 'w \<Rightarrow> 'c \<Rightarrow> 'c \<times> (goerr + KSecretObj)" where
  "addVaultSecretToCache d cji src w c =
     (let dst = NN (cji_Name cji @ ''-vault'') (cji_Namespace cji)
      in case iq_CopySecret d src dst w of
           Inl err \<Rightarrow> (c, Inl err)
         | Inr vaultSecret \<Rightarrow> iq_CreateSecret d VaultSecret dst vaultSecret w c)"

definition fetchConfig :: "('w, 'c) IqeDeps \<Rightarrow> NamespacedName \<Rightarrow> 'w \<Rightarrow> goerr + AppConfig" where
  "fetchConfig d name w =
     (case iq_GetSecret d name w of
        Inl err \<Rightarrow> Inl err
      | Inr s \<Rightarrow> iq_Unmarshal d (mget (sec_Data s) ''cdappconfig.json''))"

fun fetch_configs :: "('w, 'c) IqeDeps \<Rightarrow> 'w \<Rightarrow> ClowdApp list \<Rightarrow> (string \<rightharpoonup> AppConfig) \<Rightarrow> goerr + (string \<rightharpoonup> AppConfig)" where
  "fetch_configs d w [] m = Inr m"
| "fetch_configs d w (a # as) m =
     (case fetchConfig d (NN (app_Name a) (app_Namespace a)) w of
        Inl err \<Rightarrow> Inl err
      | Inr cfg \<Rightarrow> fetch_configs d w as (m(app_Name a \<mapsto> cfg)))"

definition addIqeSecretToCache ::
  "('w, 'c) IqeDeps \<Rightarrow> ClowdJobInvocation \<Rightarrow> ClowdApp \<Rightarrow> 'w \<Rightarrow> 'c \<Rightarrow> 'c \<times> goerr option" where
  "addIqeSecretToCache d cji app w c =
     (case GetAppInSameEnv (iq_ListApps d w) app of
        Inl err \<Rightarrow> (c, Some err)
      | Inr appList \<Rightarrow>
          (let nn = NN (cji_Name cji @ ''-iqe'') (cji_Namespace cji)
           in case iq_CreateSecret d IqeSecret nn KSecretObj_zero w c of
                (c1, Inl err) \<Rightarrow> (c1, Some err)
              | (c1, Inr s) \<Rightarrow>
                  (let s1 = s\<lparr>sec_ObjectMeta := (sec_ObjectMeta s)\<lparr>om_Name := nn_Name nn, om_Namespace := nn_Namespace nn,
                              om_OwnerReferences := [cji_MakeOwnerReference cji]\<rparr>\<rparr>
                   in case fetch_configs d w appList Map.empty of
                        Inl err \<Rightarrow> (c1, Some err)
                      | Inr appConfigs \<Rightarrow>
                          (case iq_Marshal d appConfigs of
                             Inl err \<Rightarrow> (c1, Some err)
                           | Inr envData \<Rightarrow> iq_UpdateSecret d IqeSecret (s1\<lparr>sec_Data := [''cdenvconfig.json'' \<mapsto> envData]\<rparr>) c1))))"

section \<open>The job\<close>

definition secret_mount :: "string \<Rightarrow> string \<Rightarrow> VolumeMount" where
  "secret_mount name path = \<lparr>vm_Name = name, vm_ReadOnly = False, vm_MountPath = path\<rparr>"

definition secret_volume :: "string \<Rightarrow> string \<Rightarrow> Volume" where
  "secret_volume name secret = Volume_zero\<lparr>vol_Name := name, vol_Secret := Some \<lparr>vs_Name = secret, vs_DefaultMode = Some 420, vs_Optional = None\<rparr>\<rparr>"

text \<open>The container, and the volumes of the pod, which start out empty.\<close>

definition attachConfigVolumes ::
  "('w, 'c) IqeDeps \<Rightarrow> Container \<Rightarrow> ClowdJobInvocation \<Rightarrow> ClowdEnvironment \<Rightarrow> ClowdApp \<Rightarrow> 'w \<Rightarrow> 'c
    \<Rightarrow> 'c \<times> (goerr + Container \<times> Volume list)" where
  "attachConfigVolumes d c cji env app w cache =
     (let configAccess = tc_ConfigAccess (env_Testing env);
          app_part = (\<lambda>(c, vols). (c\<lparr>ct_VolumeMounts := ct_VolumeMounts c @ [secret_mount ''config-secret'' ''/cdapp'']\<rparr>,
                                   vols @ [secret_volume ''config-secret'' (cji_AppName (cji_Spec cji))]))
      in if configAccess = ''environment'' then
           (case addIqeSecretToCache d cji app w cache of
              (cache', Some err) \<Rightarrow> (cache', Inl err)
            | (cache', None) \<Rightarrow>
                (cache', Inr (app_part (c\<lparr>ct_VolumeMounts := ct_VolumeMounts c @ [secret_mount ''cdenvconfig'' ''/cdenv'']\<rparr>,
                                        [secret_volume ''cdenvconfig'' (GetIQEName cji)]))))
         else if configAccess = ''app'' then (cache, Inr (app_part (c, [])))
         else (cache, Inr (c, [])))"

definition iqe_container_with_vault ::
  "('w, 'c) IqeDeps \<Rightarrow> Container \<Rightarrow> ClowdJobInvocation \<Rightarrow> ClowdEnvironment \<Rightarrow> 'w \<Rightarrow> 'c \<Rightarrow> 'c \<times> (goerr + Container)" where
  "iqe_container_with_vault d c cji env w cache =
     (let ref = iqe_VaultSecretRef (tc_Iqe (env_Testing env))
      in if ref \<noteq> NN '''' ''''
         then (case addVaultSecretToCache d cji ref w cache of
                 (cache', Inl err) \<Rightarrow> (cache', Inl err)
               | (cache', Inr s) \<Rightarrow> (cache', Inr (c\<lparr>ct_Env := ct_Env c @ buildVaultEnvVars s\<rparr>)))
         else (cache, Inr c))"

definition ui_sidecars ::
  "'w WorkDeps \<Rightarrow> string \<Rightarrow> Volume list \<Rightarrow> ClowdJobInvocation \<Rightarrow> ClowdEnvironment \<Rightarrow> Volume list \<times> Container list" where
  "ui_sidecars d jname vols cji env =
     (let ui = ij_UI (cji_TestingIqe (cji_Spec cji));
          (vols1, cs1) = (if its_Deploy (ius_Selenium ui)
                          then (case createSeleniumContainer d jname vols cji env of (v, c) \<Rightarrow> (v, [c])) else (vols, []))
      in if its_Deploy (ius_Playwright ui)
         then (case createPlaywrightContainer d jname vols1 cji env of (v, c) \<Rightarrow> (v, cs1 @ [c])) else (vols1, cs1))"

definition CreateIqeJobResource ::
  "('w, 'c) IqeDeps \<Rightarrow> ClowdJobInvocation \<Rightarrow> ClowdEnvironment \<Rightarrow> ClowdApp \<Rightarrow> NamespacedName \<Rightarrow> KJob \<Rightarrow> 'w \<Rightarrow> 'c
    \<Rightarrow> ClowdJobInvocation \<times> 'c \<times> (goerr + KJob)" where
  "CreateIqeJobResource d cji env app nn j w cache =
     (let (cji1, ls) = cji_GetLabels cji;
          (cji2, om) = cji_SetObjectMeta cji1 (kj_ObjectMeta j);
          labels = ls(''job'' \<mapsto> GetIQEName cji2);
          om' = om_Labels_opt labels (om_Name_opt (nn_Name nn) om);
          wd = iq_Work d
      in case iqe_container_with_vault d (createIqeContainer wd (nn_Name nn) nn cji2 env app) cji2 env w cache of
           (cache1, Inl err) \<Rightarrow> (cji2, cache1, Inl err)
         | (cache1, Inr c) \<Rightarrow>
             (case attachConfigVolumes d c cji2 env app w cache1 of
                (cache2, Inl err) \<Rightarrow> (cji2, cache2, Inl err)
              | (cache2, Inr (c', vols)) \<Rightarrow>
                  (let (vols', sidecars) = ui_sidecars wd (nn_Name nn) vols cji2 env;
                       t = (kj_Template j)\<lparr>pt_Labels := labels, pt_RestartPolicy := ''Never'',
                              pt_ServiceAccountName := ''iqe-'' @ app_EnvName (app_Spec app), pt_Volumes := vols',
                              pt_Containers := [c'], pt_InitContainers := sidecars\<rparr>
                   in (cji2, cache2, Inr (j\<lparr>kj_ObjectMeta := om'\<lparr>om_Annotations := wd_UpdateAnnotations wd (om_Annotations om')
                         [KubeLinterAnnotations]\<rparr>, kj_BackoffLimit := Some 0,
                       kj_Template := t\<lparr>pt_Annotations := wd_UpdateAnnotations wd (pt_Annotations t) [KubeLinterAnnotations]\<rparr>\<rparr>)))))"

section \<open>Facts\<close>

text \<open>The variables of a container as a map; a variable of the invocation overrides one of the same name,
  unless it is empty.\<close>

definition var_map :: "EnvVar list \<Rightarrow> string \<rightharpoonup> string \<times> EnvVarSource option" where
  "var_map vs = map_of (map (\<lambda>e. (ev_Name e, ev_Value e, ev_ValueFrom e)) vs)"

definition empty_var :: "EnvVar \<Rightarrow> bool" where
  "empty_var e = (ev_Value e = '''' \<and> ev_ValueFrom e = None)"

lemma updateEnvVar_names:
  "ev_Name ` set (updateEnvVar vs e) = ev_Name ` set vs \<union> (if empty_var e then {} else {ev_Name e})"
  "distinct (map ev_Name vs) \<Longrightarrow> distinct (map ev_Name (updateEnvVar vs e))"
proof -
  have "map ev_Name (updateEnvVar vs e) = (if empty_var e \<or> ev_Name e \<in> ev_Name ` set vs then map ev_Name vs else map ev_Name vs @ [ev_Name e])"
    by (simp add: updateEnvVar_def empty_var_def)
  then show "ev_Name ` set (updateEnvVar vs e) = ev_Name ` set vs \<union> (if empty_var e then {} else {ev_Name e})"
    "distinct (map ev_Name vs) \<Longrightarrow> distinct (map ev_Name (updateEnvVar vs e))"
    by (auto simp flip: set_map simp del: set_map) 
qed

lemma var_map_replace:
  "var_map (map (\<lambda>e. if ev_Name e = n then e\<lparr>ev_Value := v, ev_ValueFrom := f\<rparr> else e) vs)
     = (if n \<in> ev_Name ` set vs then (var_map vs)(n \<mapsto> (v, f)) else var_map vs)"
  by (induction vs) (auto simp: var_map_def fun_upd_twist)

lemma var_map_snoc: "n \<notin> ev_Name ` set vs \<Longrightarrow> ev_Name e = n \<Longrightarrow> var_map (vs @ [e]) = (var_map vs)(n \<mapsto> (ev_Value e, ev_ValueFrom e))"
  by (induction vs) (auto simp: var_map_def fun_upd_twist)

lemma updateEnvVar_map:
  "var_map (updateEnvVar vs e) = (if empty_var e then var_map vs else (var_map vs)(ev_Name e \<mapsto> (ev_Value e, ev_ValueFrom e)))"
  by (simp add: updateEnvVar_def empty_var_def var_map_replace var_map_snoc)

text \<open>The whole list: the variables of the invocation are laid over the ones there, the last one of a name
  counting, and no name is introduced twice.\<close>

lemma updateEnvVars_map:
  "var_map (updateEnvVars vs new) = var_map vs ++ var_map (rev (filter (\<lambda>e. \<not> empty_var e) new))"
proof (induction new rule: rev_induct)
  case (snoc e new)
  have "var_map (updateEnvVars vs (new @ [e])) = var_map (updateEnvVar (updateEnvVars vs new) e)"
    by (simp add: updateEnvVars_def)
  with snoc show ?case by (simp add: updateEnvVar_map) (simp add: var_map_def)
qed (simp add: updateEnvVars_def var_map_def)

lemma updateEnvVars_distinct:
  "distinct (map ev_Name vs) \<Longrightarrow> distinct (map ev_Name (updateEnvVars vs new))"
  by (induction new arbitrary: vs) (simp_all add: updateEnvVars_def updateEnvVar_names(2))

lemma ui_sidecars_volumes:
  assumes "ui_sidecars d jname vols cji env = (vols', cs)" "distinct (map vol_Name vols)"
    and "''shm'' \<notin> vol_Name ` set vols" "''sel-downloads'' \<notin> vol_Name ` set vols"
  shows "distinct (map vol_Name vols')" "vol_Name ` set vols \<subseteq> vol_Name ` set vols'"
    "\<forall>c\<in>set cs. \<forall>m\<in>set (ct_VolumeMounts c). vm_Name m \<in> vol_Name ` set vols'"
    "its_Deploy (ius_Selenium (ij_UI (cji_TestingIqe (cji_Spec cji)))) \<Longrightarrow> ''sel-downloads'' \<in> vol_Name ` set vols'"
  using assms
  by (auto simp: ui_sidecars_def createSeleniumContainer_def createPlaywrightContainer_def Let_def shm_volume_def shm_mount_def
      Volume_zero_def split: if_splits)

lemma attachConfigVolumes_result:
  assumes "attachConfigVolumes d c cji env app w cache = (cache', Inr (c', vols))"
  shows "distinct (map vol_Name vols)" "vol_Name ` set vols \<subseteq> {''cdenvconfig'', ''config-secret''}"
    "\<exists>ms. ct_VolumeMounts c' = ct_VolumeMounts c @ ms \<and> vm_Name ` set ms \<subseteq> vol_Name ` set vols" "ct_Env c' = ct_Env c"
    "tc_ConfigAccess (env_Testing env) \<in> {''environment'', ''app''} \<Longrightarrow>
       secret_volume ''config-secret'' (cji_AppName (cji_Spec cji)) \<in> set vols
       \<and> secret_mount ''config-secret'' ''/cdapp'' \<in> set (ct_VolumeMounts c')"
  using assms by (auto simp: attachConfigVolumes_def Let_def secret_mount_def secret_volume_def Volume_zero_def
      split: if_splits prod.splits option.splits)

lemma iqe_container_with_vault_result:
  assumes "iqe_container_with_vault d c cji env w cache = (cache', Inr c')"
  shows "ct_VolumeMounts c' = ct_VolumeMounts c" "\<exists>more. ct_Env c' = ct_Env c @ more"
  using assms by (auto simp: iqe_container_with_vault_def Let_def split: if_splits prod.splits sum.splits)

lemma createIqeContainer_mounts:
  "vm_Name ` set (ct_VolumeMounts (createIqeContainer d jname nn cji env app)) \<subseteq>
     (if its_Deploy (ius_Selenium (ij_UI (cji_TestingIqe (cji_Spec cji)))) then {''sel-downloads''} else {})"
  by (simp add: createIqeContainer_def Let_def Container_zero_def)

lemma createIqeContainer_env:
  "ct_Env (createIqeContainer d jname nn cji env app) =
     updateEnvVars (iqe_base_vars (nn_Namespace nn) (ts_IqePlugin (app_Testing (app_Spec app))) (cji_TestingIqe (cji_Spec cji)))
       (case ij_Env (cji_TestingIqe (cji_Spec cji)) of Some new \<Rightarrow> new | None \<Rightarrow> [])"
  by (simp add: createIqeContainer_def Let_def updateEnvVars_def split: option.splits)

lemma CreateIqeJobResource_cases:
  assumes "CreateIqeJobResource d cji env app nn j w cache = (cji', cache', Inr j')"
  obtains c2 c3 ch1 ch2 vols vols' sidecars cji2 where
    "cji_Spec cji2 = cji_Spec cji"
    "iqe_container_with_vault d (createIqeContainer (iq_Work d) (nn_Name nn) nn cji2 env app) cji2 env w cache = (ch1, Inr c2)"
    "attachConfigVolumes d c2 cji2 env app w ch1 = (ch2, Inr (c3, vols))"
    "ui_sidecars (iq_Work d) (nn_Name nn) vols cji2 env = (vols', sidecars)"
    "pt_Containers (kj_Template j') = [c3]" "pt_InitContainers (kj_Template j') = sidecars" "pt_Volumes (kj_Template j') = vols'"
proof -
  have [simp]: "cji_Spec (fst (cji_SetObjectMeta (fst (cji_GetLabels cji)) om)) = cji_Spec cji" for om
    by (simp add: cji_SetObjectMeta_def cji_GetLabels_def Let_def)
  define cji2 where "cji2 = fst (cji_SetObjectMeta (fst (cji_GetLabels cji)) (kj_ObjectMeta j))"
  note unf = assms [unfolded CreateIqeJobResource_def Let_def case_prod_unfold, folded cji2_def]
  let ?with_vault = "iqe_container_with_vault d (createIqeContainer (iq_Work d) (nn_Name nn) nn cji2 env app) cji2 env w cache"
  obtain ch1 c2 where 1: "?with_vault = (ch1, Inr c2)"
    using unf by (cases ?with_vault; cases "snd ?with_vault") auto
  obtain ch2 c3 vols where 2: "attachConfigVolumes d c2 cji2 env app w ch1 = (ch2, Inr (c3, vols))"
    using unf 1 by (cases "attachConfigVolumes d c2 cji2 env app w ch1"; cases "snd (attachConfigVolumes d c2 cji2 env app w ch1)") auto
  obtain vols' sidecars where 3: "ui_sidecars (iq_Work d) (nn_Name nn) vols cji2 env = (vols', sidecars)" by fastforce
  have "pt_Containers (kj_Template j') = [c3]" "pt_InitContainers (kj_Template j') = sidecars" "pt_Volumes (kj_Template j') = vols'"
    using unf 1 2 3 by auto
  moreover have "cji_Spec cji2 = cji_Spec cji" by (simp add: cji2_def)
  ultimately show ?thesis using that 1 2 3 by blast
qed

text \<open>
  C37. The pod of a test job is well formed: its volumes have distinct names, and every volume that the test
  container or a browser sidecar mounts is one of them, whichever of the sidecars and of the secrets the
  invocation and the environment ask for. With access to the app's configuration that secret is mounted.
\<close>

theorem iqe_pod_wellformed:
  assumes "CreateIqeJobResource d cji env app nn j w cache = (cji', cache', Inr j')"
  defines "t \<equiv> kj_Template j'"
  shows "distinct (map vol_Name (pt_Volumes t))
    \<and> (\<forall>c\<in>set (pt_Containers t @ pt_InitContainers t). \<forall>m\<in>set (ct_VolumeMounts c). vm_Name m \<in> vol_Name ` set (pt_Volumes t))
    \<and> (tc_ConfigAccess (env_Testing env) \<in> {''environment'', ''app''} \<longrightarrow>
        (\<forall>c\<in>set (pt_Containers t). \<exists>m\<in>set (ct_VolumeMounts c). vm_Name m = ''config-secret'' \<and> vm_MountPath m = ''/cdapp''))"
proof -
  obtain c2 c3 ch1 ch2 vols vols' sidecars cji2 where
    spec: "cji_Spec cji2 = cji_Spec cji"
    and 1: "iqe_container_with_vault d (createIqeContainer (iq_Work d) (nn_Name nn) nn cji2 env app) cji2 env w cache = (ch1, Inr c2)"
    and 2: "attachConfigVolumes d c2 cji2 env app w ch1 = (ch2, Inr (c3, vols))"
    and 3: "ui_sidecars (iq_Work d) (nn_Name nn) vols cji2 env = (vols', sidecars)"
    and t: "pt_Containers t = [c3]" "pt_InitContainers t = sidecars" "pt_Volumes t = vols'"
    using CreateIqeJobResource_cases [OF assms(1)] unfolding t_def by metis
  note a = attachConfigVolumes_result [OF 2]
  have fresh: "''shm'' \<notin> vol_Name ` set vols" "''sel-downloads'' \<notin> vol_Name ` set vols" using a(2) by auto
  note u = ui_sidecars_volumes [OF 3 a(1) fresh]
  obtain ms where ms: "ct_VolumeMounts c3 = ct_VolumeMounts c2 @ ms" "vm_Name ` set ms \<subseteq> vol_Name ` set vols" using a(3) by blast
  have "vm_Name m \<in> vol_Name ` set vols'" if "m \<in> set (ct_VolumeMounts c3)" for m
    using that ms u(2,4) createIqeContainer_mounts [of "iq_Work d" "nn_Name nn" nn cji2 env app]
      iqe_container_with_vault_result(1) [OF 1]
    by (cases "its_Deploy (ius_Selenium (ij_UI (cji_TestingIqe (cji_Spec cji2))))") (auto simp: image_subset_iff)
  then have "\<forall>c\<in>set (pt_Containers t @ pt_InitContainers t). \<forall>m\<in>set (ct_VolumeMounts c). vm_Name m \<in> vol_Name ` set (pt_Volumes t)"
    using t u(3) by auto
  moreover have "tc_ConfigAccess (env_Testing env) \<in> {''environment'', ''app''} \<Longrightarrow>
      \<exists>m\<in>set (ct_VolumeMounts c3). vm_Name m = ''config-secret'' \<and> vm_MountPath m = ''/cdapp''"
    using a(5) by (auto simp: secret_mount_def intro: bexI [of _ "secret_mount ''config-secret'' ''/cdapp''"])
  ultimately show ?thesis using t u(1) by simp
qed

definition sample_iqe_deps :: "('w, unit) IqeDeps" where
  "sample_iqe_deps = \<lparr>iq_Work = sample_work_deps, iq_GetSecret = \<lambda>nn w. Inr KSecretObj_zero, iq_ListApps = \<lambda>w e. Inr [],
     iq_CopySecret = \<lambda>a b w. Inr KSecretObj_zero, iq_CreateSecret = \<lambda>i nn s w c. (c, Inr s), iq_UpdateSecret = \<lambda>i s c. (c, None),
     iq_Unmarshal = \<lambda>s. Inr AppConfig_zero, iq_Marshal = \<lambda>m. Inr ''{}''\<rparr>"

definition sample_iqe_env :: ClowdEnvironment where
  "sample_iqe_env = ClowdEnvironment_zero\<lparr>env_Spec := (env_Spec ClowdEnvironment_zero)\<lparr>env_Providers :=
     ProvidersConfig_zero\<lparr>pv_Testing := (pv_Testing ProvidersConfig_zero)\<lparr>tc_ConfigAccess := ''environment''\<rparr>\<rparr>\<rparr>\<rparr>"

definition sample_iqe_cji :: ClowdJobInvocation where
  "sample_iqe_cji = ClowdJobInvocation_zero\<lparr>cji_Spec := (cji_Spec ClowdJobInvocation_zero)\<lparr>cji_TestingIqe := IqeJobSpec_zero\<lparr>
     ij_UI := \<lparr>ius_Enabled = False, ius_Selenium = \<lparr>its_Deploy = True, its_ImageTag = ''''\<rparr>,
       ius_Playwright = \<lparr>its_Deploy = True, its_ImageTag = ''''\<rparr>\<rparr>\<rparr>\<rparr>\<rparr>"

theorem iqe_pod_wellformed_witness:
  "\<exists>cji' cache' j'. CreateIqeJobResource sample_iqe_deps sample_iqe_cji sample_iqe_env ClowdApp_zero (NN ''run-iqe-abc'' ''ns'') KJob_zero () ()
       = (cji', cache', Inr j')
     \<and> distinct (map vol_Name (pt_Volumes (kj_Template j'))) \<and> length (pt_Volumes (kj_Template j')) = 4"
proof -
  obtain cji' cache' j' where j: "CreateIqeJobResource sample_iqe_deps sample_iqe_cji sample_iqe_env ClowdApp_zero
      (NN ''run-iqe-abc'' ''ns'') KJob_zero () () = (cji', cache', Inr j')" "length (pt_Volumes (kj_Template j')) = 4"
    by (simp add: CreateIqeJobResource_def Let_def case_prod_unfold iqe_container_with_vault_def attachConfigVolumes_def
        addIqeSecretToCache_def ui_sidecars_def createSeleniumContainer_def createPlaywrightContainer_def shm_volume_def
        GetAppInSameEnv_def sample_iqe_deps_def sample_iqe_env_def sample_iqe_cji_def cji_SetObjectMeta_def cji_GetLabels_def
        ProvidersConfig_zero_def ClowdEnvironment_zero_def IqeJobSpec_zero_def)
  with iqe_pod_wellformed [OF j(1)] show ?thesis by blast
qed

end
