(* ===== verification/Cji_Reconcile.thy ===== *)
theory Cji_Reconcile
  imports Iqe Reconcile_Core
begin

text \<open>
  Job invocations: \<open>clowdjobinvocation_controller.go\<close>, and \<open>SetClowdJobInvocationConditions\<close> of
  \<open>status.go\<close>. The part of \<open>Reconcile\<close> that invokes the jobs of a fresh invocation only returns early
  with an error, so it is a list of steps like the other reconciliations. Waiting for the cached
  invocation is a loop over the ticks before the deadline, whose number is a parameter. The client, the
  cache, the clock and random names are parameters; the log is not modelled.

  The facts: which invocations run jobs, what their status counts, and what a failure leaves behind.
\<close>

section \<open>Parameters and state\<close>

record ('w, 'c) CjiDeps =
  cd_Iqe :: "('w, 'c) IqeDeps"
  cd_Get :: "NamespacedName \<Rightarrow> 'w \<Rightarrow> 'w \<times> (goerr + ClowdJobInvocation)"
  cd_GetApp :: "NamespacedName \<Rightarrow> 'w \<Rightarrow> goerr + ClowdApp"
  cd_GetEnv :: "string \<Rightarrow> 'w \<Rightarrow> goerr + ClowdEnvironment"
  cd_ListJobs :: "'w \<Rightarrow> string \<Rightarrow> goerr + KJob list"
  cd_Status :: "ClowdJobInvocation \<Rightarrow> 'w \<Rightarrow> ClowdJobInvocation \<times> 'w \<times> goerr option"
  cd_CondOps :: CondOps
  cd_Now :: "'w \<Rightarrow> int"
  cd_Random :: "'w \<Rightarrow> 'w \<times> string"
  cd_Stack :: string
  cd_Ticks :: nat
  cd_NewObjectCache :: 'c
  cd_CreateJob :: "cji_ident \<Rightarrow> NamespacedName \<Rightarrow> 'w \<Rightarrow> 'c \<Rightarrow> 'c \<times> (goerr + KJob)"
  cd_UpdateJob :: "cji_ident \<Rightarrow> KJob \<Rightarrow> 'c \<Rightarrow> 'c \<times> goerr option"
  cd_ApplyAll :: "'c \<Rightarrow> 'w \<Rightarrow> 'c \<times> 'w \<times> goerr option"

record ('w, 'c) CjiRun =
  cr_World :: 'w
  cr_Cache :: 'c
  cr_Events :: "Event list"
  cr_Cji :: ClowdJobInvocation
  cr_App :: ClowdApp
  cr_Env :: ClowdEnvironment

abbreviation ExpectedImageTagAnnotation :: string where
  "ExpectedImageTagAnnotation \<equiv> ''clowder.redhat.com/expected-image-tag''"

definition jobs_of :: "ClowdJobInvocation \<Rightarrow> string \<rightharpoonup> string" where
  "jobs_of cji = (case cst_JobMap (cji_Status cji) of None \<Rightarrow> Map.empty | Some m \<Rightarrow> m)"

definition set_jobs :: "(string \<rightharpoonup> string) \<Rightarrow> ClowdJobInvocation \<Rightarrow> ClowdJobInvocation" where
  "set_jobs m cji = cji\<lparr>cji_Status := (cji_Status cji)\<lparr>cst_JobMap := Some m\<rparr>\<rparr>"

section \<open>Status\<close>

definition job_condition :: "string \<Rightarrow> string \<Rightarrow> string" where
  "job_condition current condition =
     (if condition = ''Complete'' then JobComplete
      else if condition = ''Failed'' then JobFailed
      else if current \<noteq> JobComplete \<and> current \<noteq> JobFailed then JobInvoked else current)"

definition update_job_state :: "KJob \<Rightarrow> ClowdJobInvocation \<Rightarrow> ClowdJobInvocation" where
  "update_job_state s cji =
     (let jobName = om_Name (kj_ObjectMeta s)
      in case jobs_of cji jobName of
           None \<Rightarrow> cji
         | Some current \<Rightarrow> set_jobs ((jobs_of cji)(jobName \<mapsto> foldl job_condition current (kj_ConditionTypes s))) cji)"

definition UpdateInvokedJobStatus :: "KJob list \<Rightarrow> ClowdJobInvocation \<Rightarrow> ClowdJobInvocation" where
  "UpdateInvokedJobStatus jobs cji = foldl (\<lambda>o' s. update_job_state s o') cji jobs"

definition countCompletedJobs :: "KJob list \<Rightarrow> ClowdJobInvocation \<Rightarrow> nat" where
  "countCompletedJobs jobs cji =
     foldl (\<lambda>n s. if jobs_of cji (om_Name (kj_ObjectMeta s)) \<noteq> None
                  then foldl (\<lambda>n c. if c = ''Complete'' \<or> c = ''Failed'' then n + 1 else n) n (kj_ConditionTypes s)
                  else n) 0 jobs"

definition GetJobsStatus :: "KJob list \<Rightarrow> ClowdJobInvocation \<Rightarrow> bool" where
  "GetJobsStatus jobs cji =
     (if cji_Disabled (cji_Spec cji) then True
      else countCompletedJobs jobs cji
           = length (cji_Jobs (cji_Spec cji)) + (if cji_TestingIqe (cji_Spec cji) \<noteq> IqeJobSpec_zero then 1 else 0))"

definition jobs_condition :: "int \<Rightarrow> bool \<Rightarrow> goerr option \<Rightarrow> Condition" where
  "jobs_condition now jobStatus err =
     (if jobStatus
      then \<lparr>cond_Type = JobInvocationComplete, cond_Status = ConditionTrue, cond_Reason = ''JobsComplete'',
            cond_Message = ''All ClowdJob invocations complete'', cond_LastTransitionTime = now\<rparr>
      else \<lparr>cond_Type = JobInvocationComplete, cond_Status = ConditionFalse, cond_Reason = ''JobsIncomplete'',
            cond_Message = (case err of None \<Rightarrow> ''Some Jobs are still incomplete'' | Some e \<Rightarrow> Error e), cond_LastTransitionTime = now\<rparr>)"

text \<open>Semantic equality does not tell a nil map or slice from an empty one; the wait does.\<close>

definition semantic_equal :: "ClowdJobInvocationStatus \<Rightarrow> ClowdJobInvocationStatus \<Rightarrow> bool" where
  "semantic_equal a b =
     (let norm = (\<lambda>st. st\<lparr>cst_Jobs := Some (case cst_Jobs st of None \<Rightarrow> [] | Some js \<Rightarrow> js),
                        cst_JobMap := Some (case cst_JobMap st of None \<Rightarrow> Map.empty | Some m \<Rightarrow> m)\<rparr>)
      in norm a = norm b)"

fun await_status ::
  "('w, 'c) CjiDeps \<Rightarrow> nat \<Rightarrow> NamespacedName \<Rightarrow> ClowdJobInvocationStatus \<Rightarrow> ClowdJobInvocation \<Rightarrow> 'w
    \<Rightarrow> ClowdJobInvocation \<times> 'w \<times> goerr option" where
  "await_status d 0 nn st o' w = (o', w, Some (PlainErr ''context deadline exceeded''))"
| "await_status d (Suc n) nn st o' w =
     (case cd_Get d nn w of
        (w1, Inl err) \<Rightarrow> (o', w1, Some (WrapErr ''failed to get cji: '' err))
      | (w1, Inr o1) \<Rightarrow> if cji_Status o1 = st then (o1, w1, None) else await_status d n nn st o1 w1)"

text \<open>The status that is to be written, from the jobs that are listed.\<close>

definition next_status :: "('w, 'c) CjiDeps \<Rightarrow> string \<Rightarrow> goerr option \<Rightarrow> KJob list \<Rightarrow> 'w \<Rightarrow> ClowdJobInvocation \<Rightarrow> ClowdJobInvocation" where
  "next_status d state err jobs w o' =
     (let jobStatus = GetJobsStatus jobs o';
          conditions = reconcile_conditions (cd_Now d w) state err @ [jobs_condition (cd_Now d w) jobStatus err]
      in UpdateInvokedJobStatus jobs (o'\<lparr>cji_Status := (cji_Status o')\<lparr>
           cst_Conditions := set_conditions (cd_CondOps d) conditions (cst_Conditions (cji_Status o')),
           cst_Completed := jobStatus\<rparr>\<rparr>))"

definition SetClowdJobInvocationConditions ::
  "('w, 'c) CjiDeps \<Rightarrow> string \<Rightarrow> goerr option \<Rightarrow> ClowdJobInvocation \<Rightarrow> 'w \<Rightarrow> ClowdJobInvocation \<times> 'w \<times> goerr option" where
  "SetClowdJobInvocationConditions d state err o' w =
     (case GetInvokedJobs (cd_ListJobs d w) o' of
        Inl e \<Rightarrow> (o', w, Some e)
      | Inr jobs \<Rightarrow>
          (let o1 = next_status d state err jobs w o';
               (o2, w1, e) = (if \<not> semantic_equal (cji_Status o') (cji_Status o1) then cd_Status d o1 w else (o1, w, None))
           in case e of
                Some upErr \<Rightarrow> (o2, w1, Some upErr)
              | None \<Rightarrow>
                  (let nn = NN (cji_Name o2) (cji_Namespace o2)
                   in case await_status d (cd_Ticks d) nn (cji_Status o2) o2 w1 of
                        (o3, w2, None) \<Rightarrow> (o3, w2, None)
                      | (o3, w2, Some waitErr) \<Rightarrow> (o3, w2, Some (WrapErr (''failed to wait for cached cji '' @ nn_Namespace nn @ ''/'' @ nn_Name nn
                          @ '' to get into state '' @ state @ '': '') waitErr)))))"

text \<open>What every early return does: report the state, then return the given result unless that failed.\<close>

definition report ::
  "('w, 'c) CjiDeps \<Rightarrow> string \<Rightarrow> goerr option \<Rightarrow> CtrlResult \<Rightarrow> goerr option \<Rightarrow> ('w, 'c) CjiRun step" where
  "report d state err res reterr s =
     (case SetClowdJobInvocationConditions d state err (cr_Cji s) (cr_World s) of
        (o', w', Some condErr) \<Rightarrow> Some (s\<lparr>cr_Cji := o', cr_World := w'\<rparr>, res_done, Some condErr)
      | (o', w', None) \<Rightarrow> Some (s\<lparr>cr_Cji := o', cr_World := w'\<rparr>, res, reterr))"

abbreviation cji_event :: "string \<Rightarrow> string \<Rightarrow> string \<Rightarrow> ('w, 'c) CjiRun \<Rightarrow> ('w, 'c) CjiRun" where
  "cji_event ty reason msg s \<equiv> s\<lparr>cr_Events := cr_Events s @ [(ty, reason, msg)]\<rparr>"

section \<open>Jobs\<close>

definition getJobFromName :: "string \<Rightarrow> string \<Rightarrow> ClowdApp \<Rightarrow> goerr + Job" where
  "getJobFromName stack jobName app =
     (case find (\<lambda>j. job_Name j = jobName) (app_Jobs (app_Spec app)) of
        Some j \<Rightarrow> if job_Disabled j then Inl (NewClowderError stack (''Job ['' @ jobName @ ''] is disabled'')) else Inr j
      | None \<Rightarrow> Inl (NewClowderError stack (''No such job '' @ jobName)))"

definition appJobImagesContainTag :: "ClowdApp \<Rightarrow> string list \<Rightarrow> string \<Rightarrow> bool" where
  "appJobImagesContainTag app jobNames expectedTag =
     list_all (\<lambda>jobName. case find (\<lambda>j. job_Name j = jobName) (app_Jobs (app_Spec app)) of
                           None \<Rightarrow> True
                         | Some j \<Rightarrow> has_suffix (ps_Image (job_PodSpec j)) ('':'' @ expectedTag)) jobNames"

definition mark_invoked :: "string \<Rightarrow> ClowdJobInvocation \<Rightarrow> ClowdJobInvocation" where
  "mark_invoked name cji = set_jobs ((jobs_of cji)(name \<mapsto> JobInvoked)) cji"

definition InvokeJob :: "('w, 'c) CjiDeps \<Rightarrow> Job \<Rightarrow> ('w, 'c) CjiRun \<Rightarrow> ('w, 'c) CjiRun \<times> goerr option" where
  "InvokeJob d job s =
     (let (w1, rnd) = cd_Random d (cr_World s); s1 = s\<lparr>cr_World := w1\<rparr>;
          jobName = job_Name job @ ''-'' @ rnd
      in if length jobName > 63
         then (s1, Some (NewClowderError (cd_Stack d) (''['' @ jobName @ ''] contains a label with character length greater than 63'')))
         else
           (let nn = NN jobName (cji_Namespace (cr_Cji s1))
            in case cd_CreateJob d ClowdJob nn w1 (cr_Cache s1) of
                 (c1, Inl err) \<Rightarrow> (s1\<lparr>cr_Cache := c1\<rparr>, Some err)
               | (c1, Inr j) \<Rightarrow>
                   (case CreateJobResource (iq_Work (cd_Iqe d)) (cr_Cji s1) (cr_Env s1) (cr_App s1) nn job j of
                      (cji1, Inl err) \<Rightarrow> (s1\<lparr>cr_Cache := c1, cr_Cji := cji1\<rparr>, Some err)
                    | (cji1, Inr j') \<Rightarrow>
                        (case cd_UpdateJob d ClowdJob j' c1 of
                           (c2, Some err) \<Rightarrow> (s1\<lparr>cr_Cache := c2, cr_Cji := cji1\<rparr>, Some err)
                         | (c2, None) \<Rightarrow>
                             (let name = om_Name (kj_ObjectMeta j')
                              in (cji_event ''Normal'' ''ClowdJobInvoked'' (''Job ['' @ name @ ''] was invoked successfully'')
                                    (s1\<lparr>cr_Cache := c2, cr_Cji := mark_invoked name cji1\<rparr>), None))))))"

section \<open>The steps of a fresh invocation\<close>

abbreviation cji_AppName_of :: "('w, 'c) CjiRun \<Rightarrow> string" where
  "cji_AppName_of s \<equiv> cji_AppName (cji_Spec (cr_Cji s))"

definition load_app :: "('w, 'c) CjiDeps \<Rightarrow> string \<Rightarrow> ('w, 'c) CjiRun step" where
  "load_app d ns s =
     (let r = cd_GetApp d (NN (cji_AppName_of s) ns) (cr_World s);
          s1 = s\<lparr>cr_Cji := set_jobs Map.empty (cr_Cji s)\<rparr>
      in case r of
           Inl appErr \<Rightarrow>
             report d ReconciliationFailed (Some appErr) res_requeue (Some appErr)
               (cji_event ''Warning'' ''ClowdAppMissing'' (''ClowdApp ['' @ cji_AppName_of s @ ''] is missing; Job cannot be invoked'') s1)
         | Inr app \<Rightarrow> step_ok (s1\<lparr>cr_App := app\<rparr>))"

definition check_generation :: "('w, 'c) CjiDeps \<Rightarrow> ('w, 'c) CjiRun step" where
  "check_generation d s =
     (let gen = om_Generation (app_ObjectMeta (cr_App s)); seen = ast_Generation (app_Status (cr_App s))
      in if seen > 0 \<and> gen \<noteq> seen
         then (let err = NewClowderError (cd_Stack d) (''ClowdApp ['' @ cji_AppName_of s
                 @ ''] has not been reconciled with the current generation (spec: '' @ itoa gen @ '', status: '' @ itoa seen @ '')'')
               in report d ReconciliationFailed (Some err) res_requeue (Some err) s)
         else step_ok s)"

definition check_image_tag :: "('w, 'c) CjiDeps \<Rightarrow> ('w, 'c) CjiRun step" where
  "check_image_tag d s =
     (case om_Annotations (cji_ObjectMeta (cr_Cji s)) ExpectedImageTagAnnotation of
        None \<Rightarrow> step_ok s
      | Some expectedTag \<Rightarrow>
          (if expectedTag \<noteq> '''' \<and> \<not> appJobImagesContainTag (cr_App s) (cji_Jobs (cji_Spec (cr_Cji s))) expectedTag
           then (let err = NewClowderError (cd_Stack d) (''ClowdApp ['' @ cji_AppName_of s @ ''] job images do not contain expected tag [''
                   @ expectedTag @ '']'')
                 in report d ReconciliationFailed (Some err) res_requeue (Some err)
                      (cji_event ''Warning'' ''ImageTagMismatch'' (''ClowdApp ['' @ cji_AppName_of s
                        @ ''] does not yet have expected image tag ['' @ expectedTag @ '']; requeueing'') s))
           else step_ok s))"

text \<open>The invocation is passed by value here, so only the cluster sees what is reported.\<close>

definition HandleNotReady :: "('w, 'c) CjiDeps \<Rightarrow> ('w, 'c) CjiRun \<Rightarrow> ('w, 'c) CjiRun \<times> goerr option" where
  "HandleNotReady d s =
     (if app_IsReady (cr_App s) \<or> cji_RunOnNotReady (cji_Spec (cr_Cji s)) then (s, None)
      else
        (let err = NewClowderError (cd_Stack d) (''The '' @ cji_AppName_of s @ '' app must be ready for CJI to start'');
             s1 = cji_event ''Warning'' ''ClowdAppNotReady'' (''ClowdApp ['' @ cji_AppName_of s @ ''] is not ready'') s
         in case SetClowdJobInvocationConditions d ReconciliationFailed (Some err) (cr_Cji s1) (cr_World s1) of
              (o', w', Some condErr) \<Rightarrow> (s1\<lparr>cr_World := w'\<rparr>, Some condErr)
            | (o', w', None) \<Rightarrow> (s1\<lparr>cr_World := w'\<rparr>, Some err)))"

definition check_ready :: "('w, 'c) CjiDeps \<Rightarrow> ('w, 'c) CjiRun step" where
  "check_ready d s =
     (case HandleNotReady d s of
        (s', None) \<Rightarrow> step_ok s'
      | (s', Some err) \<Rightarrow> step_err s' res_requeue err)"

definition load_env :: "('w, 'c) CjiDeps \<Rightarrow> ('w, 'c) CjiRun step" where
  "load_env d s =
     (let name = app_EnvName (app_Spec (cr_App s))
      in case cd_GetEnv d name (cr_World s) of
           Inl envErr \<Rightarrow>
             report d ReconciliationFailed (Some envErr) res_requeue (Some envErr)
               (cji_event ''Warning'' ''ClowdEnvMissing'' (''ClowdEnv ['' @ name @ ''] is missing; Job cannot be invoked'') s)
         | Inr env \<Rightarrow> step_ok (s\<lparr>cr_Env := env\<rparr>))"

definition invoke_named :: "('w, 'c) CjiDeps \<Rightarrow> string \<Rightarrow> ('w, 'c) CjiRun step" where
  "invoke_named d jobName s =
     (case getJobFromName (cd_Stack d) jobName (cr_App s) of
        Inl err \<Rightarrow>
          report d ReconciliationFailed (Some err) res_done (Some err)
            (cji_event ''Warning'' ''JobNameMissing'' (''ClowdApp ['' @ jobName @ ''] has no job defined for that name'') s)
      | Inr job \<Rightarrow>
          (case InvokeJob d (job\<lparr>job_Name := app_Name (cr_App s) @ ''-'' @ jobName\<rparr>) s of
             (s', None) \<Rightarrow> step_ok s'
           | (s', Some err) \<Rightarrow>
               (case report d ReconciliationFailed (Some err) res_requeue (Some err) s' of
                  Some (s'', r, e) \<Rightarrow>
                    if r = res_requeue
                    then Some (cji_event ''Warning'' ''JobNotInvoked'' (''Job ['' @ jobName @ ''] could not be invoked'') s'', r, e)
                    else Some (s'', r, e)
                | None \<Rightarrow> None)))"

definition invoke_jobs :: "('w, 'c) CjiDeps \<Rightarrow> ('w, 'c) CjiRun step" where
  "invoke_jobs d s = run_steps (map (invoke_named d) (cji_Jobs (cji_Spec (cr_Cji s)))) s"

definition invoke_iqe :: "('w, 'c) CjiDeps \<Rightarrow> ('w, 'c) CjiRun step" where
  "invoke_iqe d s =
     (if cji_TestingIqe (cji_Spec (cr_Cji s)) = IqeJobSpec_zero then step_ok s
      else
        (let (w1, rnd) = cd_Random d (cr_World s); s1 = s\<lparr>cr_World := w1\<rparr>;
             nn = NN (GenerateJobName rnd (cr_Cji s)) (cji_Namespace (cr_Cji s));
             fail = (\<lambda>err. report d ReconciliationFailed (Some err) res_done (Some err))
         in case cd_CreateJob d IqeClowdJob nn w1 (cr_Cache s1) of
              (c1, Inl err) \<Rightarrow> fail err (s1\<lparr>cr_Cache := c1\<rparr>)
            | (c1, Inr j) \<Rightarrow>
                (case CreateIqeJobResource (cd_Iqe d) (cr_Cji s1) (cr_Env s1) (cr_App s1) nn j w1 c1 of
                   (cji1, c2, Inl err) \<Rightarrow>
                     fail err (cji_event ''Warning'' ''IQEJobFailure'' (''Job ['' @ nn_Name nn @ ''] failed to invoke'')
                       (s1\<lparr>cr_Cache := c2, cr_Cji := cji1\<rparr>))
                 | (cji1, c2, Inr j') \<Rightarrow>
                     (case cd_UpdateJob d IqeClowdJob j' c2 of
                        (c3, Some err) \<Rightarrow> fail err (s1\<lparr>cr_Cache := c3, cr_Cji := cji1\<rparr>)
                      | (c3, None) \<Rightarrow>
                          step_ok (cji_event ''Normal'' ''IQEJobInvoked'' (''Job ['' @ om_Name (kj_ObjectMeta j') @ ''] was invoked successfully'')
                            (s1\<lparr>cr_Cache := c3, cr_Cji := mark_invoked (nn_Name nn) cji1\<rparr>))))))"

definition apply_jobs :: "('w, 'c) CjiDeps \<Rightarrow> ('w, 'c) CjiRun step" where
  "apply_jobs d s =
     (case cd_ApplyAll d (cr_Cache s) (cr_World s) of
        (c1, w1, Some cacheErr) \<Rightarrow>
          report d ReconciliationSuccessful (Some cacheErr) res_done (Some cacheErr) (s\<lparr>cr_Cache := c1, cr_World := w1\<rparr>)
      | (c1, w1, None) \<Rightarrow> step_ok (s\<lparr>cr_Cache := c1, cr_World := w1\<rparr>))"

definition report_success :: "('w, 'c) CjiDeps \<Rightarrow> ('w, 'c) CjiRun step" where
  "report_success d s = report d ReconciliationSuccessful None res_done None s"

definition fresh_checks :: "('w, 'c) CjiDeps \<Rightarrow> string \<Rightarrow> ('w, 'c) CjiRun step list" where
  "fresh_checks d ns = [load_app d ns, check_generation d, check_image_tag d, check_ready d, load_env d]"

definition fresh_steps :: "('w, 'c) CjiDeps \<Rightarrow> string \<Rightarrow> ('w, 'c) CjiRun step list" where
  "fresh_steps d ns = fresh_checks d ns @ [invoke_jobs d, invoke_iqe d, apply_jobs d, report_success d]"

section \<open>The controller\<close>

definition cji_start :: "('w, 'c) CjiDeps \<Rightarrow> 'w \<Rightarrow> ClowdJobInvocation \<Rightarrow> ('w, 'c) CjiRun" where
  "cji_start d w cji = \<lparr>cr_World = w, cr_Cache = cd_NewObjectCache d, cr_Events = [], cr_Cji = cji,
     cr_App = ClowdApp_zero, cr_Env = ClowdEnvironment_zero\<rparr>"

definition cji_found :: "('w, 'c) CjiDeps \<Rightarrow> string \<Rightarrow> ('w, 'c) CjiRun step" where
  "cji_found d ns s =
     (let cji = cr_Cji s; name = cji_Name cji
      in if cst_Jobs (cji_Status cji) \<noteq> None then report_success d (s\<lparr>cr_Cji := set_jobs Map.empty cji\<rparr>)
         else if cst_Completed (cji_Status cji)
         then report_success d (cji_event ''Normal'' ''ClowdJobInvocationComplete'' (''ClowdJobInvocation ['' @ name @ ''] has completed all jobs'') s)
         else if jobs_of cji \<noteq> Map.empty then report_success d s
         else if cji_Disabled (cji_Spec cji)
         then report_success d (cji_event ''Normal'' ''ClowdJobInvocationDisabled''
                (''ClowdJobInvocation ['' @ name @ ''] is disabled; no jobs will run'') (s\<lparr>cr_Cji := set_jobs (jobs_of cji) cji\<rparr>))
         else run_steps (fresh_steps d ns) s)"

definition cji_Reconcile ::
  "('w, 'c) CjiDeps \<Rightarrow> NamespacedName \<Rightarrow> 'w \<Rightarrow> 'w \<times> ('w, 'c) CjiRun option \<times> CtrlResult \<times> goerr option" where
  "cji_Reconcile d req w =
     (case cd_Get d req w of
        (w1, Inl err) \<Rightarrow> if IsNotFound err then (w1, None, res_done, None) else (w1, None, res_done, Some err)
      | (w1, Inr cji) \<Rightarrow>
          (case cji_found d (nn_Namespace req) (cji_start d w1 cji) of
             Some (s, r, e) \<Rightarrow> (cr_World s, Some s, r, e)
           | None \<Rightarrow> (w1, None, res_done, None)))"

section \<open>Job states\<close>

lemma jobs_of_set_jobs [simp]: "jobs_of (set_jobs m cji) = m" "cji_Spec (set_jobs m cji) = cji_Spec cji"
  "cji_ObjectMeta (set_jobs m cji) = cji_ObjectMeta cji"
  "cst_Conditions (cji_Status (set_jobs m cji)) = cst_Conditions (cji_Status cji)"
  "cst_Completed (cji_Status (set_jobs m cji)) = cst_Completed (cji_Status cji)"
  "cst_Jobs (cji_Status (set_jobs m cji)) = cst_Jobs (cji_Status cji)"
  by (simp_all add: jobs_of_def set_jobs_def)

lemma mark_invoked_jobs [simp]: "jobs_of (mark_invoked n cji) = (jobs_of cji)(n \<mapsto> JobInvoked)" "cji_Spec (mark_invoked n cji) = cji_Spec cji"
  by (simp_all add: mark_invoked_def)

definition finishes :: "string \<Rightarrow> bool" where
  "finishes c = (c = ''Complete'' \<or> c = ''Failed'')"

text \<open>The state a job is moved to: that of its last condition that is a final one, if any.\<close>

definition final_state :: "string \<Rightarrow> string list \<Rightarrow> string" where
  "final_state current cs = (case filter finishes (rev cs) of
      c # _ \<Rightarrow> c
    | [] \<Rightarrow> if cs = [] \<or> finishes current then current else JobInvoked)"

lemma job_condition_final: "foldl job_condition current cs = final_state current cs"
  by (induction cs rule: rev_induct)
    (auto simp: job_condition_def final_state_def finishes_def filter_eq_Cons_iff split: list.splits)

lemma UpdateInvokedJobStatus_simps [simp]:
  "UpdateInvokedJobStatus [] cji = cji"
  "UpdateInvokedJobStatus (s # jobs) cji = UpdateInvokedJobStatus jobs (update_job_state s cji)"
  by (simp_all add: UpdateInvokedJobStatus_def)

lemma update_job_state_frame [simp]:
  "cji_Spec (update_job_state s cji) = cji_Spec cji" "cji_ObjectMeta (update_job_state s cji) = cji_ObjectMeta cji"
  "dom (jobs_of (update_job_state s cji)) = dom (jobs_of cji)"
  "cst_Conditions (cji_Status (update_job_state s cji)) = cst_Conditions (cji_Status cji)"
  "cst_Completed (cji_Status (update_job_state s cji)) = cst_Completed (cji_Status cji)"
  "cst_Jobs (cji_Status (update_job_state s cji)) = cst_Jobs (cji_Status cji)"
  by (auto simp: update_job_state_def Let_def dom_def split: option.splits)

lemma UpdateInvokedJobStatus_frame [simp]:
  "cji_Spec (UpdateInvokedJobStatus jobs cji) = cji_Spec cji"
  "cji_ObjectMeta (UpdateInvokedJobStatus jobs cji) = cji_ObjectMeta cji"
  "dom (jobs_of (UpdateInvokedJobStatus jobs cji)) = dom (jobs_of cji)"
  "cst_Conditions (cji_Status (UpdateInvokedJobStatus jobs cji)) = cst_Conditions (cji_Status cji)"
  "cst_Completed (cji_Status (UpdateInvokedJobStatus jobs cji)) = cst_Completed (cji_Status cji)"
  "cst_Jobs (cji_Status (UpdateInvokedJobStatus jobs cji)) = cst_Jobs (cji_Status cji)"
  by (induction jobs arbitrary: cji) simp_all

lemma update_job_state_jobs:
  "jobs_of (update_job_state s cji) n =
     (if n = om_Name (kj_ObjectMeta s) then map_option (\<lambda>current. final_state current (kj_ConditionTypes s)) (jobs_of cji n) else jobs_of cji n)"
  by (auto simp: update_job_state_def Let_def job_condition_final split: option.splits)

lemma UpdateInvokedJobStatus_other:
  "n \<notin> (\<lambda>s. om_Name (kj_ObjectMeta s)) ` set jobs \<Longrightarrow> jobs_of (UpdateInvokedJobStatus jobs cji) n = jobs_of cji n"
  by (induction jobs arbitrary: cji) (auto simp: update_job_state_jobs)

lemma UpdateInvokedJobStatus_listed:
  assumes "distinct (map (\<lambda>s. om_Name (kj_ObjectMeta s)) jobs)" "s \<in> set jobs"
  shows "jobs_of (UpdateInvokedJobStatus jobs cji) (om_Name (kj_ObjectMeta s)) =
    map_option (\<lambda>current. final_state current (kj_ConditionTypes s)) (jobs_of cji (om_Name (kj_ObjectMeta s)))"
  using assms
proof (induction jobs arbitrary: cji)
  case (Cons t jobs)
  show ?case
  proof (cases "s = t")
    case True
    then have "om_Name (kj_ObjectMeta s) \<notin> (\<lambda>s. om_Name (kj_ObjectMeta s)) ` set jobs" using Cons.prems by simp
    with True show ?thesis by (simp add: UpdateInvokedJobStatus_other update_job_state_jobs)
  next
    case False
    with Cons.prems have "s \<in> set jobs" "om_Name (kj_ObjectMeta s) \<noteq> om_Name (kj_ObjectMeta t)" by (auto simp: image_iff)
    with Cons show ?thesis by (simp add: update_job_state_jobs)
  qed
qed simp

lemma countCompletedJobs_sum:
  "countCompletedJobs jobs cji =
     (\<Sum>s\<leftarrow>jobs. if om_Name (kj_ObjectMeta s) \<in> dom (jobs_of cji) then length (filter finishes (kj_ConditionTypes s)) else 0)"
proof -
  have inner: "foldl (\<lambda>n c. if c = ''Complete'' \<or> c = ''Failed'' then n + 1 else n) n cs = n + length (filter finishes cs)" for n :: nat and cs
    by (induction cs arbitrary: n) (simp_all add: finishes_def)
  have "foldl (\<lambda>n s. if jobs_of cji (om_Name (kj_ObjectMeta s)) \<noteq> None
      then foldl (\<lambda>n c. if c = ''Complete'' \<or> c = ''Failed'' then n + 1 else n) n (kj_ConditionTypes s) else n) m jobs
    = m + (\<Sum>s\<leftarrow>jobs. if om_Name (kj_ObjectMeta s) \<in> dom (jobs_of cji) then length (filter finishes (kj_ConditionTypes s)) else 0)" for m
    by (induction jobs arbitrary: m) (auto simp: inner dom_def)
  from this [of 0] show ?thesis by (simp add: countCompletedJobs_def)
qed

section \<open>What only the application of the cache changes\<close>

text \<open>A property of the cluster that reading, writing the status of an invocation and drawing a random name
  keep; the jobs that exist are such a property, and applying the cache is what changes them.\<close>

definition quiet :: "('w, 'c) CjiDeps \<Rightarrow> ('w \<Rightarrow> bool) \<Rightarrow> bool" where
  "quiet d I = ((\<forall>nn w. I w \<longrightarrow> I (fst (cd_Get d nn w))) \<and> (\<forall>o' w. I w \<longrightarrow> I (fst (snd (cd_Status d o' w))))
     \<and> (\<forall>w. I w \<longrightarrow> I (fst (cd_Random d w))))"

lemma await_status_quiet:
  assumes "quiet d I"
  shows "I w \<Longrightarrow> I (fst (snd (await_status d n nn st o' w)))"
proof (induction n arbitrary: o' w)
  case (Suc n)
  have "I (fst (cd_Get d nn w))" using assms Suc.prems by (auto simp: quiet_def)
  with Suc.IH show ?case by (auto split: prod.splits sum.splits)
qed simp

lemma SetClowdJobInvocationConditions_quiet:
  assumes "quiet d I" "I w"
  shows "I (fst (snd (SetClowdJobInvocationConditions d state err o' w)))"
proof (cases "GetInvokedJobs (cd_ListJobs d w) o'")
  case (Inr jobs)
  let ?o1 = "next_status d state err jobs w o'"
  have st: "I (fst (snd (if \<not> semantic_equal (cji_Status o') (cji_Status ?o1) then cd_Status d ?o1 w else (?o1, w, None))))"
    using assms by (auto simp: quiet_def)
  obtain o2 w1 e where w: "(if \<not> semantic_equal (cji_Status o') (cji_Status ?o1) then cd_Status d ?o1 w else (?o1, w, None)) = (o2, w1, e)"
    by (metis prod_cases3)
  with st have "I w1" by simp
  then have "I (fst (snd (await_status d (cd_Ticks d) (NN (cji_Name o2) (cji_Namespace o2)) (cji_Status o2) o2 w1)))"
    by (rule await_status_quiet [OF assms(1)])
  with w Inr \<open>I w1\<close> show ?thesis
    by (auto simp: SetClowdJobInvocationConditions_def Let_def split: option.splits prod.splits)
qed (use assms in \<open>simp add: SetClowdJobInvocationConditions_def\<close>)

lemma report_cases:
  assumes "report d state err res reterr s = Some (s', r, e)"
  obtains (failed) condErr where "e = Some condErr" "r = res_done" | (reported) "e = reterr" "r = res"
  using assms by (auto simp: report_def split: prod.splits option.splits)

lemma report_quiet:
  assumes "report d state err res reterr s = Some (s', r, e)" "quiet d I" "I (cr_World s)"
  shows "I (cr_World s')"
  using assms(1) SetClowdJobInvocationConditions_quiet [OF assms(2,3), of state err "cr_Cji s"]
  by (auto simp: report_def split: prod.splits option.splits)

lemma report_frame:
  assumes "report d state err res reterr s = Some (s', r, e)"
  shows "cr_App s' = cr_App s" "cr_Env s' = cr_Env s" "cr_Cache s' = cr_Cache s" "cr_Events s' = cr_Events s"
  using assms by (auto simp: report_def split: prod.splits option.splits)

lemma report_error: "report d state err res (Some reterr) s = Some (s', r, e) \<Longrightarrow> e \<noteq> None"
  by (auto simp: report_def split: prod.splits option.splits)

lemma InvokeJob_quiet:
  assumes "quiet d I" "I (cr_World s)"
  shows "I (cr_World (fst (InvokeJob d job s)))"
proof -
  have "I (fst (cd_Random d (cr_World s)))" using assms by (auto simp: quiet_def)
  then show ?thesis by (auto simp: InvokeJob_def Let_def split: prod.splits sum.splits option.splits)
qed

lemma load_app_quiet: "load_app d ns s = Some (s', r, e) \<Longrightarrow> quiet d I \<Longrightarrow> I (cr_World s) \<Longrightarrow> I (cr_World s')"
  by (auto simp: load_app_def Let_def split: sum.splits dest!: report_quiet)

lemma check_generation_quiet: "check_generation d s = Some (s', r, e) \<Longrightarrow> quiet d I \<Longrightarrow> I (cr_World s) \<Longrightarrow> I (cr_World s')"
  by (auto simp: check_generation_def Let_def split: if_splits dest!: report_quiet)

lemma check_image_tag_quiet: "check_image_tag d s = Some (s', r, e) \<Longrightarrow> quiet d I \<Longrightarrow> I (cr_World s) \<Longrightarrow> I (cr_World s')"
  by (auto simp: check_image_tag_def Let_def split: if_splits option.splits dest!: report_quiet)

lemma check_ready_quiet:
  assumes "check_ready d s = Some (s', r, e)" "quiet d I" "I (cr_World s)"
  shows "I (cr_World s')"
proof -
  have "I (fst (snd (SetClowdJobInvocationConditions d ReconciliationFailed err (cr_Cji s) (cr_World s))))" for err
    by (rule SetClowdJobInvocationConditions_quiet [OF assms(2,3)])
  with assms show ?thesis
    by (auto simp: check_ready_def HandleNotReady_def Let_def split: if_splits prod.splits option.splits) (metis fst_conv snd_conv)+
qed

lemma load_env_quiet: "load_env d s = Some (s', r, e) \<Longrightarrow> quiet d I \<Longrightarrow> I (cr_World s) \<Longrightarrow> I (cr_World s')"
  by (auto simp: load_env_def Let_def split: sum.splits dest!: report_quiet)

lemma invoke_named_quiet:
  assumes "invoke_named d jobName s = Some (s', r, e)" "quiet d I" "I (cr_World s)"
  shows "I (cr_World s')"
proof (cases "getJobFromName (cd_Stack d) jobName (cr_App s)")
  case (Inl err)
  with assms show ?thesis by (auto simp: invoke_named_def dest!: report_quiet)
next
  case (Inr job)
  let ?job = "job\<lparr>job_Name := app_Name (cr_App s) @ ''-'' @ jobName\<rparr>"
  obtain s1 e1 where i: "InvokeJob d ?job s = (s1, e1)" by fastforce
  then have "I (cr_World s1)" using InvokeJob_quiet [OF assms(2,3), of ?job] by simp
  with assms Inr i show ?thesis
    by (auto simp: invoke_named_def split: option.splits if_splits prod.splits dest!: report_quiet)
qed

interpretation named_quiet: invariant_steps "map (invoke_named d) names" "\<lambda>s. quiet d I \<longrightarrow> I (cr_World s)"
  for d :: "('w, 'c) CjiDeps" and names I
  by unfold_locales (auto dest: invoke_named_quiet)

lemma invoke_jobs_quiet:
  assumes "invoke_jobs d s = Some (s', r, e)" "quiet d I" "I (cr_World s)"
  shows "I (cr_World s')"
  using named_quiet.run_keeps [of d I s] assms by (simp add: invoke_jobs_def)

lemma invoke_iqe_quiet:
  assumes "invoke_iqe d s = Some (s', r, e)" "quiet d I" "I (cr_World s)"
  shows "I (cr_World s')"
proof -
  have "I (fst (cd_Random d (cr_World s)))" using assms by (auto simp: quiet_def)
  with assms show ?thesis
    by (auto simp: invoke_iqe_def Let_def split: if_splits prod.splits sum.splits option.splits dest!: report_quiet)
qed

lemmas quiet_steps = load_app_quiet check_generation_quiet check_image_tag_quiet check_ready_quiet load_env_quiet
  invoke_jobs_quiet invoke_iqe_quiet

text \<open>Everything before the application of the cache keeps such a property.\<close>

definition before_apply :: "('w, 'c) CjiDeps \<Rightarrow> string \<Rightarrow> ('w, 'c) CjiRun step list" where
  "before_apply d ns = fresh_checks d ns @ [invoke_jobs d, invoke_iqe d]"

interpretation cji_quiet: invariant_steps "before_apply d ns" "\<lambda>s. quiet d I \<longrightarrow> I (cr_World s)"
  for d :: "('w, 'c) CjiDeps" and ns I
  by unfold_locales (auto simp: before_apply_def fresh_checks_def dest: quiet_steps)

section \<open>What a fresh invocation needs\<close>

lemma load_app_ok:
  "load_app d ns s = Some (s', r, None) \<Longrightarrow>
     \<exists>app. cd_GetApp d (NN (cji_AppName_of s) ns) (cr_World s) = Inr app \<and> s' = s\<lparr>cr_Cji := set_jobs Map.empty (cr_Cji s), cr_App := app\<rparr>"
  by (auto simp: load_app_def Let_def split: sum.splits dest: report_error)

lemma check_generation_ok:
  "check_generation d s = Some (s', r, None) \<Longrightarrow> s' = s
     \<and> (ast_Generation (app_Status (cr_App s)) \<le> 0 \<or> om_Generation (app_ObjectMeta (cr_App s)) = ast_Generation (app_Status (cr_App s)))"
  by (auto simp: check_generation_def Let_def split: if_splits dest: report_error)

definition tag_ok :: "ClowdJobInvocation \<Rightarrow> ClowdApp \<Rightarrow> bool" where
  "tag_ok cji app = (case om_Annotations (cji_ObjectMeta cji) ExpectedImageTagAnnotation of
      None \<Rightarrow> True
    | Some tag \<Rightarrow> tag = '''' \<or> appJobImagesContainTag app (cji_Jobs (cji_Spec cji)) tag)"

lemma check_image_tag_ok: "check_image_tag d s = Some (s', r, None) \<Longrightarrow> s' = s \<and> tag_ok (cr_Cji s) (cr_App s)"
  by (auto simp: check_image_tag_def tag_ok_def Let_def split: if_splits option.splits dest: report_error)

lemma check_ready_ok:
  "check_ready d s = Some (s', r, None) \<Longrightarrow> s' = s \<and> (app_IsReady (cr_App s) \<or> cji_RunOnNotReady (cji_Spec (cr_Cji s)))"
  by (auto simp: check_ready_def HandleNotReady_def Let_def split: if_splits prod.splits option.splits)

lemma load_env_ok:
  "load_env d s = Some (s', r, None) \<Longrightarrow>
     \<exists>env. cd_GetEnv d (app_EnvName (app_Spec (cr_App s))) (cr_World s) = Inr env \<and> s' = s\<lparr>cr_Env := env\<rparr>"
  by (auto simp: load_env_def Let_def split: sum.splits dest: report_error)

text \<open>The checks that let an invocation through, as a predicate on what is read.\<close>

definition may_run :: "('w, 'c) CjiDeps \<Rightarrow> string \<Rightarrow> 'w \<Rightarrow> ClowdJobInvocation \<Rightarrow> ClowdApp \<Rightarrow> ClowdEnvironment \<Rightarrow> bool" where
  "may_run d ns w cji app env =
     (cd_GetApp d (NN (cji_AppName (cji_Spec cji)) ns) w = Inr app
      \<and> (ast_Generation (app_Status app) \<le> 0 \<or> om_Generation (app_ObjectMeta app) = ast_Generation (app_Status app))
      \<and> tag_ok cji app \<and> (app_IsReady app \<or> cji_RunOnNotReady (cji_Spec cji))
      \<and> cd_GetEnv d (app_EnvName (app_Spec app)) w = Inr env)"

lemma fresh_checks_ok:
  assumes "run_steps (fresh_checks d ns) s = Some (s', r, None)"
  shows "\<exists>app env. may_run d ns (cr_World s) (cr_Cji s) app env
    \<and> s' = s\<lparr>cr_Cji := set_jobs Map.empty (cr_Cji s), cr_App := app, cr_Env := env\<rparr>"
proof -
  obtain s1 s2 s3 s4 s5 r1 r2 r3 r4 r5 where
    1: "load_app d ns s = Some (s1, r1, None)" and 2: "check_generation d s1 = Some (s2, r2, None)"
    and 3: "check_image_tag d s2 = Some (s3, r3, None)" and 4: "check_ready d s3 = Some (s4, r4, None)"
    and 5: "load_env d s4 = Some (s5, r5, None)" and "s' = s5"
    using assms unfolding fresh_checks_def run_steps_Cons_ok by auto
  obtain app where app: "cd_GetApp d (NN (cji_AppName_of s) ns) (cr_World s) = Inr app"
    "s1 = s\<lparr>cr_Cji := set_jobs Map.empty (cr_Cji s), cr_App := app\<rparr>" using load_app_ok [OF 1] by blast
  then have tag: "tag_ok (cr_Cji s1) app = tag_ok (cr_Cji s) app" by (simp add: tag_ok_def split: option.splits)
  obtain env where env: "cd_GetEnv d (app_EnvName (app_Spec (cr_App s4))) (cr_World s4) = Inr env" "s5 = s4\<lparr>cr_Env := env\<rparr>"
    using load_env_ok [OF 5] by blast
  have "s2 = s1" "s3 = s2" "s4 = s3" using check_generation_ok [OF 2] check_image_tag_ok [OF 3] check_ready_ok [OF 4] by auto
  then have "may_run d ns (cr_World s) (cr_Cji s) app env"
    using app env tag check_generation_ok [OF 2] check_image_tag_ok [OF 3] check_ready_ok [OF 4] by (auto simp: may_run_def)
  moreover have "s' = s\<lparr>cr_Cji := set_jobs Map.empty (cr_Cji s), cr_App := app, cr_Env := env\<rparr>"
    using \<open>s' = s5\<close> \<open>s4 = s3\<close> \<open>s3 = s2\<close> \<open>s2 = s1\<close> app(2) env(2) by simp
  ultimately show ?thesis by blast
qed

text \<open>Invoking a job only adds to the jobs of the invocation, under the name the job has.\<close>

lemma CreateJobResource_spec:
  assumes "CreateJobResource w cji env app nn job j = (cji', r)"
  shows "cji_Spec cji' = cji_Spec cji" "cji_Status cji' = cji_Status cji"
    "cji_Name cji' = cji_Name cji" "cji_Namespace cji' = cji_Namespace cji"
proof -
  have "cji' = fst (cji_SetObjectMeta (fst (cji_GetLabels cji)) (kj_ObjectMeta j))"
    using assms by (auto simp: CreateJobResource_def Let_def case_prod_unfold split: sum.splits)
  then show "cji_Spec cji' = cji_Spec cji" "cji_Status cji' = cji_Status cji"
    "cji_Name cji' = cji_Name cji" "cji_Namespace cji' = cji_Namespace cji"
    by (simp_all add: cji_SetObjectMeta_def cji_GetLabels_def Let_def)
qed

lemma CreateIqeJobResource_spec:
  assumes "CreateIqeJobResource q cji env app nn j w c = (cji', c', r)"
  shows "cji_Spec cji' = cji_Spec cji" "cji_Status cji' = cji_Status cji"
    "cji_Name cji' = cji_Name cji" "cji_Namespace cji' = cji_Namespace cji"
proof -
  have "cji' = fst (cji_SetObjectMeta (fst (cji_GetLabels cji)) (kj_ObjectMeta j))"
    using assms unfolding CreateIqeJobResource_def Let_def
    by (auto simp: case_prod_unfold split: sum.splits prod.splits)
  then show "cji_Spec cji' = cji_Spec cji" "cji_Status cji' = cji_Status cji"
    "cji_Name cji' = cji_Name cji" "cji_Namespace cji' = cji_Namespace cji"
    by (simp_all add: cji_SetObjectMeta_def cji_GetLabels_def Let_def)
qed

definition extends :: "('w, 'c) CjiRun \<Rightarrow> ('w, 'c) CjiRun \<Rightarrow> bool" where
  "extends s s' = (cr_App s' = cr_App s \<and> cr_Env s' = cr_Env s \<and> cji_Spec (cr_Cji s') = cji_Spec (cr_Cji s)
     \<and> cst_Conditions (cji_Status (cr_Cji s')) = cst_Conditions (cji_Status (cr_Cji s))
     \<and> cji_Name (cr_Cji s') = cji_Name (cr_Cji s) \<and> cji_Namespace (cr_Cji s') = cji_Namespace (cr_Cji s)
     \<and> dom (jobs_of (cr_Cji s)) \<subseteq> dom (jobs_of (cr_Cji s')))"

lemma extends_refl [simp]: "extends s s"
  by (simp add: extends_def)

lemma extends_trans: "extends s s' \<Longrightarrow> extends s' s'' \<Longrightarrow> extends s s''"
  by (auto simp: extends_def)

lemma InvokeJob_ok:
  assumes "InvokeJob d job s = (s', None)"
  shows "extends s s'" "jobs_of (cr_Cji s') \<noteq> Map.empty"
proof -
  obtain w1 rnd where r: "cd_Random d (cr_World s) = (w1, rnd)" by fastforce
  let ?nn = "NN (job_Name job @ ''-'' @ rnd) (cji_Namespace (cr_Cji s))"
  obtain c1 j where j: "cd_CreateJob d ClowdJob ?nn w1 (cr_Cache s) = (c1, Inr j)"
    using assms r by (auto simp: InvokeJob_def Let_def split: if_splits prod.splits sum.splits)
  obtain cji1 j' where j': "CreateJobResource (iq_Work (cd_Iqe d)) (cr_Cji s) (cr_Env s) (cr_App s) ?nn job j = (cji1, Inr j')"
    using assms r j by (auto simp: InvokeJob_def Let_def split: if_splits prod.splits sum.splits)
  obtain c2 where s': "s' = cji_event ''Normal'' ''ClowdJobInvoked'' (''Job ['' @ om_Name (kj_ObjectMeta j') @ ''] was invoked successfully'')
      (s\<lparr>cr_World := w1, cr_Cache := c2, cr_Cji := mark_invoked (om_Name (kj_ObjectMeta j')) cji1\<rparr>)"
    using assms r j j' by (auto simp: InvokeJob_def Let_def split: if_splits prod.splits option.splits)
  have "jobs_of cji1 = jobs_of (cr_Cji s)" using CreateJobResource_spec(2) [OF j'] by (simp add: jobs_of_def)
  with s' CreateJobResource_spec [OF j'] show "extends s s'" "jobs_of (cr_Cji s') \<noteq> Map.empty"
    by (auto simp: extends_def mark_invoked_def)
qed

lemma invoke_named_ok:
  assumes "invoke_named d jobName s = Some (s', r, None)"
  shows "extends s s'" "jobs_of (cr_Cji s') \<noteq> Map.empty"
    "\<exists>j\<in>set (app_Jobs (app_Spec (cr_App s))). job_Name j = jobName \<and> \<not> job_Disabled j"
proof -
  obtain job where job: "getJobFromName (cd_Stack d) jobName (cr_App s) = Inr job"
    using assms by (auto simp: invoke_named_def split: sum.splits dest: report_error)
  obtain s1 e1 where i: "InvokeJob d (job\<lparr>job_Name := app_Name (cr_App s) @ ''-'' @ jobName\<rparr>) s = (s1, e1)" by fastforce
  have "e1 = None \<and> s' = s1"
    using assms job i by (auto simp: invoke_named_def split: option.splits if_splits prod.splits dest: report_error)
  with i show "extends s s'" "jobs_of (cr_Cji s') \<noteq> Map.empty" using InvokeJob_ok by blast+
  show "\<exists>j\<in>set (app_Jobs (app_Spec (cr_App s))). job_Name j = jobName \<and> \<not> job_Disabled j"
    using job by (auto simp: getJobFromName_def find_Some_iff split: option.splits if_splits)
qed

lemma invoke_names_ok:
  assumes "run_steps (map (invoke_named d) names) s = Some (s', r, None)"
  shows "extends s s' \<and> (names \<noteq> [] \<longrightarrow> jobs_of (cr_Cji s') \<noteq> Map.empty)
    \<and> (\<forall>n\<in>set names. \<exists>j\<in>set (app_Jobs (app_Spec (cr_App s))). job_Name j = n \<and> \<not> job_Disabled j)"
  using assms
proof (induction names arbitrary: s)
  case (Cons n names)
  then obtain s1 r1 where 1: "invoke_named d n s = Some (s1, r1, None)" "run_steps (map (invoke_named d) names) s1 = Some (s', r, None)"
    by (auto simp only: list.map run_steps_Cons_ok)
  note ok = invoke_named_ok [OF 1(1)] and rest = Cons.IH [OF 1(2)]
  have "cr_App s1 = cr_App s" using ok(1) by (simp add: extends_def)
  moreover have "jobs_of (cr_Cji s') \<noteq> Map.empty" using ok(2) rest by (auto simp: extends_def)
  ultimately show ?case using ok rest extends_trans by auto
qed simp

lemma invoke_iqe_ok:
  assumes "invoke_iqe d s = Some (s', r, None)"
  shows "extends s s'" "cji_TestingIqe (cji_Spec (cr_Cji s)) \<noteq> IqeJobSpec_zero \<Longrightarrow> jobs_of (cr_Cji s') \<noteq> Map.empty"
proof -
  have "extends s s' \<and> (cji_TestingIqe (cji_Spec (cr_Cji s)) \<noteq> IqeJobSpec_zero \<longrightarrow> jobs_of (cr_Cji s') \<noteq> Map.empty)"
  proof (cases "cji_TestingIqe (cji_Spec (cr_Cji s)) = IqeJobSpec_zero")
    case False
    obtain w1 rnd where r: "cd_Random d (cr_World s) = (w1, rnd)" by fastforce
    let ?nn = "NN (GenerateJobName rnd (cr_Cji s)) (cji_Namespace (cr_Cji s))"
    obtain c1 j where j: "cd_CreateJob d IqeClowdJob ?nn w1 (cr_Cache s) = (c1, Inr j)"
      using assms False r by (auto simp: invoke_iqe_def Let_def split: prod.splits sum.splits dest: report_error)
    obtain cji1 c2 j' where j': "CreateIqeJobResource (cd_Iqe d) (cr_Cji s) (cr_Env s) (cr_App s) ?nn j w1 c1 = (cji1, c2, Inr j')"
      using assms False r j by (auto simp: invoke_iqe_def Let_def split: prod.splits sum.splits dest: report_error)
    obtain c3 ev where s': "s' = s\<lparr>cr_World := w1, cr_Cache := c3, cr_Cji := mark_invoked (nn_Name ?nn) cji1, cr_Events := ev\<rparr>"
      using assms False r j j' by (auto simp: invoke_iqe_def Let_def split: prod.splits option.splits dest: report_error)
    have "jobs_of cji1 = jobs_of (cr_Cji s)" using CreateIqeJobResource_spec(2) [OF j'] by (simp add: jobs_of_def)
    with s' CreateIqeJobResource_spec [OF j'] show ?thesis by (auto simp: extends_def mark_invoked_def)
  qed (use assms in \<open>simp add: invoke_iqe_def\<close>)
  then show "extends s s'" "cji_TestingIqe (cji_Spec (cr_Cji s)) \<noteq> IqeJobSpec_zero \<Longrightarrow> jobs_of (cr_Cji s') \<noteq> Map.empty" by auto
qed

definition fresh :: "ClowdJobInvocation \<Rightarrow> bool" where
  "fresh cji = (cst_Jobs (cji_Status cji) = None \<and> \<not> cst_Completed (cji_Status cji) \<and> jobs_of cji = Map.empty
     \<and> \<not> cji_Disabled (cji_Spec cji))"

definition asks_for_jobs :: "ClowdJobInvocation \<Rightarrow> bool" where
  "asks_for_jobs cji = (cji_Jobs (cji_Spec cji) \<noteq> [] \<or> cji_TestingIqe (cji_Spec cji) \<noteq> IqeJobSpec_zero)"

lemma before_apply_ok:
  assumes "run_steps (before_apply d ns) s = Some (s', r, None)"
  shows "\<exists>app env. may_run d ns (cr_World s) (cr_Cji s) app env
    \<and> extends (s\<lparr>cr_Cji := set_jobs Map.empty (cr_Cji s), cr_App := app, cr_Env := env\<rparr>) s'
    \<and> (\<forall>n\<in>set (cji_Jobs (cji_Spec (cr_Cji s))). \<exists>j\<in>set (app_Jobs (app_Spec app)). job_Name j = n \<and> \<not> job_Disabled j)
    \<and> (asks_for_jobs (cr_Cji s) \<longrightarrow> jobs_of (cr_Cji s') \<noteq> Map.empty)"
proof -
  obtain s1 r1 where 1: "run_steps (fresh_checks d ns) s = Some (s1, r1, None)"
    "run_steps [invoke_jobs d, invoke_iqe d] s1 = Some (s', r, None)"
    using assms by (auto simp: before_apply_def run_steps_append split: option.splits prod.splits)
  obtain app env where a: "may_run d ns (cr_World s) (cr_Cji s) app env"
    and s1: "s1 = s\<lparr>cr_Cji := set_jobs Map.empty (cr_Cji s), cr_App := app, cr_Env := env\<rparr>"
    using fresh_checks_ok [OF 1(1)] by blast
  obtain s2 r2 r3 where 2: "invoke_jobs d s1 = Some (s2, r2, None)" and 3: "invoke_iqe d s2 = Some (s', r3, None)"
    using 1(2) unfolding run_steps_Cons_ok by auto
  note j = invoke_names_ok [OF 2 [unfolded invoke_jobs_def]] and q = invoke_iqe_ok [OF 3]
  have spec: "cji_Spec (cr_Cji s1) = cji_Spec (cr_Cji s)" "cr_App s1 = app" "cji_Spec (cr_Cji s2) = cji_Spec (cr_Cji s)"
    using j s1 by (simp_all add: extends_def)
  have "jobs_of (cr_Cji s') \<noteq> Map.empty" if "asks_for_jobs (cr_Cji s)"
  proof (cases "cji_Jobs (cji_Spec (cr_Cji s)) = []")
    case False
    then show ?thesis using j q(1) spec by (auto simp: extends_def)
  qed (use that q(2) spec in \<open>auto simp: asks_for_jobs_def\<close>)
  moreover have "extends s1 s'" using j q(1) extends_trans by blast
  ultimately show ?thesis using a s1 j spec by auto
qed

lemma fresh_steps_split: "fresh_steps d ns = before_apply d ns @ [apply_jobs d, report_success d]"
  by (simp add: fresh_steps_def before_apply_def)

lemma run_before_apply:
  assumes "run_steps (fresh_steps d ns) s = Some (s', r, e)"
  obtains (stopped) err where "run_steps (before_apply d ns) s = Some (s', r, Some err)"
    | (passed) s1 where "run_steps (before_apply d ns) s = Some (s1, res_done, None)"
        "run_steps [apply_jobs d, report_success d] s1 = Some (s', r, e)"
proof -
  obtain s1 r1 e1 where b: "run_steps (before_apply d ns) s = Some (s1, r1, e1)"
    using assms by (auto simp: fresh_steps_split run_steps_append split: option.splits)
  show thesis
  proof (cases e1)
    case None
    with b assms show thesis by (intro passed) (auto simp: fresh_steps_split run_steps_append dest: run_steps_ok_result)
  next
    case (Some err)
    with b assms show thesis by (intro stopped) (auto simp: fresh_steps_split run_steps_append)
  qed
qed

lemma cji_found_stale:
  assumes "\<not> fresh (cr_Cji s)"
  obtains s1 where "cji_found d ns s = report_success d s1" "cr_World s1 = cr_World s" "cr_Cache s1 = cr_Cache s"
proof -
  consider (old) "cst_Jobs (cji_Status (cr_Cji s)) \<noteq> None"
    | (completed) "cst_Jobs (cji_Status (cr_Cji s)) = None" "cst_Completed (cji_Status (cr_Cji s))"
    | (invoked) "cst_Jobs (cji_Status (cr_Cji s)) = None" "\<not> cst_Completed (cji_Status (cr_Cji s))" "jobs_of (cr_Cji s) \<noteq> Map.empty"
    | (disabled) "cst_Jobs (cji_Status (cr_Cji s)) = None" "\<not> cst_Completed (cji_Status (cr_Cji s))" "jobs_of (cr_Cji s) = Map.empty"
        "cji_Disabled (cji_Spec (cr_Cji s))"
    using assms by (cases "jobs_of (cr_Cji s) = Map.empty") (auto simp: fresh_def)
  then show thesis
  proof cases
    case old
    show ?thesis by (rule that [of "s\<lparr>cr_Cji := set_jobs Map.empty (cr_Cji s)\<rparr>"]) (use old in \<open>simp_all add: cji_found_def Let_def\<close>)
  next
    case completed
    show ?thesis by (rule that) (use completed in \<open>simp add: cji_found_def Let_def\<close>, simp_all)
  next
    case invoked
    show ?thesis by (rule that [of s]) (use invoked in \<open>simp_all add: cji_found_def Let_def\<close>)
  next
    case disabled
    show ?thesis by (rule that) (use disabled in \<open>simp add: cji_found_def Let_def\<close>, simp_all)
  qed
qed

lemma cji_found_fresh: "fresh (cr_Cji s) \<Longrightarrow> cji_found d ns s = run_steps (fresh_steps d ns) s"
  by (simp add: cji_found_def fresh_def Let_def)

lemma run_steps_total:
  "(\<And>st s. st \<in> set steps \<Longrightarrow> st s \<noteq> None) \<Longrightarrow> run_steps steps s \<noteq> None"
proof (induction steps arbitrary: s)
  case (Cons st steps)
  obtain s1 r1 e1 where "st s = Some (s1, r1, e1)" using Cons.prems [of st s] by (cases "st s") auto
  with Cons show ?case by (cases e1) auto
qed simp

lemma report_total [simp]: "report d state err res reterr s \<noteq> None"
  by (auto simp: report_def split: prod.splits option.splits)

lemma report_some [simp]: "\<exists>s' r e. report d state err res reterr s = Some (s', r, e)"
  by (auto simp: report_def split: prod.splits option.splits)

text \<open>The reconciliation of an invocation never panics.\<close>

lemma cji_found_total: "cji_found d ns s \<noteq> None"
proof -
  have "invoke_named d n s \<noteq> None" for n s
    by (auto simp: invoke_named_def simp del: not_None_eq split: sum.splits prod.splits option.splits)
  then have "invoke_jobs d s \<noteq> None" for s
    unfolding invoke_jobs_def by (intro run_steps_total) auto
  then have "run_steps (fresh_steps d ns) s \<noteq> None"
    by (intro run_steps_total)
      (auto simp: fresh_steps_def fresh_checks_def load_app_def check_generation_def check_image_tag_def check_ready_def load_env_def
        invoke_iqe_def apply_jobs_def report_success_def Let_def simp del: not_None_eq
        split: sum.splits option.splits prod.splits if_splits)
  then show ?thesis by (simp add: cji_found_def report_success_def Let_def)
qed

section \<open>What the controller promises\<close>

text \<open>
  C38. Jobs reach the cluster only through a fresh invocation that passes every check. Take any property of
  the cluster that reads, status updates and random names keep, such as the set of jobs in it. If a
  reconciliation breaks it, the invocation exists, has not completed, has invoked nothing yet and is not
  disabled; its app exists, has been reconciled at its current generation, has the expected image tag, and
  is ready unless the invocation does not mind; the app's environment exists; and each job asked for is
  defined in the app and enabled.
\<close>

theorem jobs_applied_only_if:
  assumes "quiet d I" "I w" "cji_Reconcile d req w = (w', s, r, e)" "\<not> I w'"
  shows "\<exists>w1 cji app env. cd_Get d req w = (w1, Inr cji) \<and> fresh cji \<and> may_run d (nn_Namespace req) w1 cji app env
    \<and> (\<forall>n\<in>set (cji_Jobs (cji_Spec cji)). \<exists>j\<in>set (app_Jobs (app_Spec app)). job_Name j = n \<and> \<not> job_Disabled j)"
proof -
  obtain w1 g where g: "cd_Get d req w = (w1, g)" by fastforce
  with assms(1,2) have "I w1" unfolding quiet_def by (metis fst_conv)
  then obtain cji where cji: "g = Inr cji"
    using assms(3,4) g by (cases g) (auto simp: cji_Reconcile_def split: if_splits)
  let ?s = "cji_start d w1 cji"
  have start: "cr_World ?s = w1" "cr_Cji ?s = cji" by (simp_all add: cji_start_def)
  obtain s2 where run: "cji_found d (nn_Namespace req) ?s = Some (s2, r, e)" and "w' = cr_World s2"
    using assms(3) g cji cji_found_total [of d "nn_Namespace req" ?s] by (auto simp: cji_Reconcile_def)
  have "fresh cji"
  proof (rule ccontr)
    assume "\<not> fresh cji"
    then obtain s1 where "cji_found d (nn_Namespace req) ?s = report_success d s1" "cr_World s1 = w1"
      using cji_found_stale [of ?s] start by metis
    then have "report d ReconciliationSuccessful None res_done None s1 = Some (s2, r, e)" using run by (simp add: report_success_def)
    from report_quiet [OF this assms(1)] have "I w'" using \<open>I w1\<close> \<open>w' = cr_World s2\<close> \<open>cr_World s1 = w1\<close> by simp
    with assms(4) show False by contradiction
  qed
  then have "run_steps (fresh_steps d (nn_Namespace req)) ?s = Some (s2, r, e)" using run start by (simp add: cji_found_fresh)
  then show ?thesis
  proof (cases rule: run_before_apply)
    case (stopped err)
    have "I w'" using cji_quiet.run_keeps [OF _ stopped, of I] assms(1) \<open>I w1\<close> start \<open>w' = cr_World s2\<close> by simp
    with assms(4) show ?thesis by contradiction
  next
    case (passed s1)
    then show ?thesis using before_apply_ok [OF passed(1)] g cji \<open>fresh cji\<close> start by auto
  qed
qed





section \<open>An invocation that may run, runs\<close>

lemma CreateJobResource_ok:
  assumes "\<not> unnamed_inits (job_PodSpec job)"
  obtains cji' j' where "CreateJobResource w cji env app nn job j = (cji', Inr j')" "om_Name (kj_ObjectMeta j') = nn_Name nn"
  using that by (simp add: CreateJobResource_def Let_def case_prod_unfold ProcessInitContainers_exact assms om_Labels_opt_def om_Name_opt_def)

text \<open>The resource cache answers and random names have seven letters.\<close>

definition cache_answers :: "('w, 'c) CjiDeps \<Rightarrow> bool" where
  "cache_answers d = ((\<forall>i nn w c. \<exists>c' j. cd_CreateJob d i nn w c = (c', Inr j)) \<and> (\<forall>i j c. snd (cd_UpdateJob d i j c) = None)
     \<and> (\<forall>w. length (snd (cd_Random d w)) = 7))"

lemma InvokeJob_succeeds:
  assumes "cache_answers d" "\<not> unnamed_inits (job_PodSpec job)" "length (job_Name job) \<le> 55"
  shows "\<exists>s'. InvokeJob d job s = (s', None)"
proof -
  obtain w1 rnd where r: "cd_Random d (cr_World s) = (w1, rnd)" by fastforce
  have "length rnd = 7" using assms(1) unfolding cache_answers_def by (metis r snd_conv)
  let ?nn = "NN (job_Name job @ ''-'' @ rnd) (cji_Namespace (cr_Cji s))"
  obtain c1 j where "cd_CreateJob d ClowdJob ?nn w1 (cr_Cache s) = (c1, Inr j)" using assms(1) unfolding cache_answers_def by blast
  moreover obtain cji1 j' where "CreateJobResource (iq_Work (cd_Iqe d)) (cr_Cji s) (cr_Env s) (cr_App s) ?nn job j = (cji1, Inr j')"
    using CreateJobResource_ok [OF assms(2)] by blast
  moreover obtain c2 where "cd_UpdateJob d ClowdJob j' c1 = (c2, None)" using assms(1) unfolding cache_answers_def by (metis prod.collapse)
  ultimately show ?thesis using r \<open>length rnd = 7\<close> assms(3) by (simp add: InvokeJob_def Let_def)
qed

text \<open>A job that can be invoked: the first of its name in the app is enabled, its init containers are named,
  and the name leaves room for the random suffix.\<close>

definition invocable :: "ClowdApp \<Rightarrow> string \<Rightarrow> bool" where
  "invocable app n = (case find (\<lambda>j. job_Name j = n) (app_Jobs (app_Spec app)) of
      None \<Rightarrow> False
    | Some j \<Rightarrow> \<not> job_Disabled j \<and> \<not> unnamed_inits (job_PodSpec j) \<and> length (app_Name app) + length n \<le> 54)"

lemma invoke_named_succeeds:
  assumes "cache_answers d" "invocable (cr_App s) n"
  shows "\<exists>s'. invoke_named d n s = Some (s', res_done, None)"
proof -
  obtain j where j: "find (\<lambda>j. job_Name j = n) (app_Jobs (app_Spec (cr_App s))) = Some j" "\<not> job_Disabled j"
    "\<not> unnamed_inits (job_PodSpec j)" "length (app_Name (cr_App s)) + length n \<le> 54"
    using assms(2) by (auto simp: invocable_def split: option.splits)
  then have "\<exists>s'. InvokeJob d (j\<lparr>job_Name := app_Name (cr_App s) @ ''-'' @ n\<rparr>) s = (s', None)"
    by (intro InvokeJob_succeeds [OF assms(1)]) simp_all
  with j show ?thesis by (auto simp: invoke_named_def getJobFromName_def)
qed

lemma invoke_names_succeed:
  assumes "cache_answers d"
  shows "(\<forall>n\<in>set names. invocable (cr_App s) n) \<Longrightarrow> \<exists>s'. run_steps (map (invoke_named d) names) s = Some (s', res_done, None)"
proof (induction names arbitrary: s)
  case (Cons n names)
  then obtain s1 where 1: "invoke_named d n s = Some (s1, res_done, None)" using invoke_named_succeeds [OF assms, of s n] by auto
  have "cr_App s1 = cr_App s" using invoke_named_ok(1) [OF 1] by (simp add: extends_def)
  with Cons.prems Cons.IH [of s1] obtain s' where "run_steps (map (invoke_named d) names) s1 = Some (s', res_done, None)" by auto
  with 1 show ?case by simp
qed simp

lemma fresh_checks_succeed:
  assumes "may_run d ns (cr_World s) (cr_Cji s) app env"
  shows "run_steps (fresh_checks d ns) s = Some (s\<lparr>cr_Cji := set_jobs Map.empty (cr_Cji s), cr_App := app, cr_Env := env\<rparr>, res_done, None)"
proof -
  let ?s1 = "s\<lparr>cr_Cji := set_jobs Map.empty (cr_Cji s), cr_App := app\<rparr>"
  have "load_app d ns s = step_ok ?s1" using assms by (simp add: may_run_def load_app_def Let_def)
  moreover have "check_generation d ?s1 = step_ok ?s1" using assms by (auto simp: may_run_def check_generation_def Let_def)
  moreover have "check_image_tag d ?s1 = step_ok ?s1"
    using assms by (auto simp: may_run_def check_image_tag_def tag_ok_def Let_def split: option.splits)
  moreover have "check_ready d ?s1 = step_ok ?s1" using assms by (simp add: may_run_def check_ready_def HandleNotReady_def)
  moreover have "load_env d ?s1 = step_ok (?s1\<lparr>cr_Env := env\<rparr>)" using assms by (simp add: may_run_def load_env_def Let_def)
  ultimately show ?thesis by (simp add: fresh_checks_def)
qed

lemma before_apply_succeeds:
  assumes "may_run d ns w cji app env" "cache_answers d" "\<forall>n\<in>set (cji_Jobs (cji_Spec cji)). invocable app n"
    "cji_TestingIqe (cji_Spec cji) = IqeJobSpec_zero"
  shows "\<exists>s1. run_steps (before_apply d ns) (cji_start d w cji) = Some (s1, res_done, None)"
proof -
  let ?s = "(cji_start d w cji)\<lparr>cr_Cji := set_jobs Map.empty cji, cr_App := app, cr_Env := env\<rparr>"
  have checks: "run_steps (fresh_checks d ns) (cji_start d w cji) = Some (?s, res_done, None)"
    using fresh_checks_succeed [of d ns "cji_start d w cji" app env] assms(1) by (simp add: cji_start_def)
  obtain s1 where 1: "invoke_jobs d ?s = Some (s1, res_done, None)"
    using invoke_names_succeed [OF assms(2), of "cji_Jobs (cji_Spec cji)" ?s] assms(3) by (auto simp: invoke_jobs_def)
  have "cji_Spec (cr_Cji s1) = cji_Spec cji"
    using invoke_names_ok [OF 1 [unfolded invoke_jobs_def]] by (simp add: extends_def)
  then have "invoke_iqe d s1 = step_ok s1" using assms(4) by (simp add: invoke_iqe_def)
  with checks 1 show ?thesis by (simp add: before_apply_def run_steps_append)
qed

lemma applied_run:
  assumes "cd_Get d req w = (w1, Inr cji)" "fresh cji"
    and "run_steps (before_apply d (nn_Namespace req)) (cji_start d w1 cji) = Some (s1, res_done, None)"
    and "cd_ApplyAll d (cr_Cache s1) (cr_World s1) = (c2, w2, None)"
  obtains s' r e where "report_success d (s1\<lparr>cr_Cache := c2, cr_World := w2\<rparr>) = Some (s', r, e)"
    "cji_Reconcile d req w = (cr_World s', Some s', r, e)"
proof -
  obtain s' r e where rep: "report_success d (s1\<lparr>cr_Cache := c2, cr_World := w2\<rparr>) = Some (s', r, e)"
    unfolding report_success_def using report_some by blast
  have run: "cji_found d (nn_Namespace req) (cji_start d w1 cji) = run_steps (fresh_steps d (nn_Namespace req)) (cji_start d w1 cji)"
    using assms(2) by (intro cji_found_fresh) (simp add: cji_start_def)
  have "run_steps (fresh_steps d (nn_Namespace req)) (cji_start d w1 cji) = Some (s', r, e)"
    using assms(3,4) rep by (cases e) (auto simp: fresh_steps_split run_steps_append apply_jobs_def report_success_def elim!: report_cases)
  with run assms(1) have "cji_Reconcile d req w = (cr_World s', Some s', r, e)" by (simp add: cji_Reconcile_def)
  with rep show thesis by (rule that)
qed


section \<open>When an invocation is complete\<close>

definition finished_jobs :: "KJob list \<Rightarrow> ClowdJobInvocation \<Rightarrow> string set" where
  "finished_jobs jobs cji = set (map (\<lambda>s. om_Name (kj_ObjectMeta s))
     (filter (\<lambda>s. jobs_of cji (om_Name (kj_ObjectMeta s)) \<noteq> None \<and> list_ex finishes (kj_ConditionTypes s)) jobs))"

lemma countCompletedJobs_card:
  assumes "distinct (map (\<lambda>s. om_Name (kj_ObjectMeta s)) jobs)"
    "\<forall>s\<in>set jobs. length (filter finishes (kj_ConditionTypes s)) \<le> 1"
  shows "countCompletedJobs jobs cji = card (finished_jobs jobs cji)"
proof -
  let ?name = "\<lambda>s. om_Name (kj_ObjectMeta s)"
  let ?P = "\<lambda>s. jobs_of cji (?name s) \<noteq> None \<and> list_ex finishes (kj_ConditionTypes s)"
  have one: "length (filter finishes cs) = (if list_ex finishes cs then 1 else 0)" if "length (filter finishes cs) \<le> 1" for cs
    using that by (cases "filter finishes cs") (auto simp: list_ex_iff filter_empty_conv filter_eq_Cons_iff)
  have "(\<Sum>s\<leftarrow>js. if ?name s \<in> dom (jobs_of cji) then length (filter finishes (kj_ConditionTypes s)) else 0) = length (filter ?P js)"
    if "set js \<subseteq> set jobs" for js
    using that assms(2) by (induction js) (auto simp: one)
  then have "countCompletedJobs jobs cji = length (filter ?P jobs)" by (simp add: countCompletedJobs_sum)
  also have "\<dots> = card (set (map ?name (filter ?P jobs)))"
    using distinct_card [OF distinct_map_filter [OF assms(1), of ?P]] by simp
  finally show ?thesis by (simp only: finished_jobs_def)
qed

text \<open>
  For a listing in which a name is used once and a job has at most one final condition, an invocation is
  complete exactly when as many of its jobs have finished, with success or without, as it asks for. In the
  status each finished job then has the state of its final condition, a job without one keeps a final state
  it already had, and no job is added or lost.
\<close>

theorem completion_exact:
  assumes "distinct (map (\<lambda>s. om_Name (kj_ObjectMeta s)) jobs)"
    and "\<forall>s\<in>set jobs. length (filter finishes (kj_ConditionTypes s)) \<le> 1" and "\<not> cji_Disabled (cji_Spec cji)"
  shows "(GetJobsStatus jobs cji \<longleftrightarrow> card (finished_jobs jobs cji)
        = length (cji_Jobs (cji_Spec cji)) + (if cji_TestingIqe (cji_Spec cji) \<noteq> IqeJobSpec_zero then 1 else 0))
    \<and> dom (jobs_of (UpdateInvokedJobStatus jobs cji)) = dom (jobs_of cji)
    \<and> (\<forall>s\<in>set jobs. \<forall>current. jobs_of cji (om_Name (kj_ObjectMeta s)) = Some current \<longrightarrow>
        (\<forall>c\<in>set (kj_ConditionTypes s). finishes c \<longrightarrow> jobs_of (UpdateInvokedJobStatus jobs cji) (om_Name (kj_ObjectMeta s)) = Some c)
        \<and> (\<not> list_ex finishes (kj_ConditionTypes s) \<and> finishes current \<longrightarrow>
             jobs_of (UpdateInvokedJobStatus jobs cji) (om_Name (kj_ObjectMeta s)) = Some current))"
proof -
  have "final_state current (kj_ConditionTypes s) = c" if "s \<in> set jobs" "c \<in> set (kj_ConditionTypes s)" "finishes c" for s c current
  proof -
    have "length (filter finishes (rev (kj_ConditionTypes s))) \<le> 1" using assms(2) that(1) by (simp flip: rev_filter)
    moreover have "c \<in> set (filter finishes (rev (kj_ConditionTypes s)))" using that by simp
    ultimately have "filter finishes (rev (kj_ConditionTypes s)) = [c]"
      by (cases "filter finishes (rev (kj_ConditionTypes s))") auto
    then show ?thesis by (simp add: final_state_def)
  qed
  moreover have "final_state current cs = current" if "\<not> list_ex finishes cs" "finishes current" for current cs
    using that by (auto simp: final_state_def list_ex_iff filter_eq_Cons_iff split: list.splits)
  ultimately show ?thesis
    using UpdateInvokedJobStatus_listed [OF assms(1)] countCompletedJobs_card [OF assms(1,2)] assms(3) by (auto simp: GetJobsStatus_def)
qed

definition sample_done_job :: "string \<Rightarrow> string \<Rightarrow> KJob" where
  "sample_done_job n c = KJob_zero\<lparr>kj_ObjectMeta := ObjectMeta_zero\<lparr>om_Name := n\<rparr>, kj_ConditionTypes := [c]\<rparr>"

definition sample_cji :: "string list \<Rightarrow> ClowdJobInvocation" where
  "sample_cji names = ClowdJobInvocation_zero\<lparr>cji_Spec := (cji_Spec ClowdJobInvocation_zero)\<lparr>cji_Jobs := names\<rparr>\<rparr>"

theorem completion_exact_witness:
  "\<not> GetJobsStatus [sample_done_job ''a-1'' ''Failed'', sample_done_job ''b-1'' ''Suspended'']
       (set_jobs [''a-1'' \<mapsto> JobInvoked, ''b-1'' \<mapsto> JobInvoked] (sample_cji [''a'', ''b'']))
   \<and> jobs_of (UpdateInvokedJobStatus [sample_done_job ''a-1'' ''Failed'', sample_done_job ''b-1'' ''Suspended'']
       (set_jobs [''a-1'' \<mapsto> JobInvoked, ''b-1'' \<mapsto> JobInvoked] (sample_cji [''a'', ''b'']))) ''a-1'' = Some JobFailed"
proof -
  let ?js = "[sample_done_job ''a-1'' ''Failed'', sample_done_job ''b-1'' ''Suspended'']"
  let ?cji = "set_jobs [''a-1'' \<mapsto> JobInvoked, ''b-1'' \<mapsto> JobInvoked] (sample_cji [''a'', ''b''])"
  have "distinct (map (\<lambda>s. om_Name (kj_ObjectMeta s)) ?js)" "\<forall>s\<in>set ?js. length (filter finishes (kj_ConditionTypes s)) \<le> 1"
    "\<not> cji_Disabled (cji_Spec ?cji)"
    by (simp_all add: sample_done_job_def sample_cji_def finishes_def ClowdJobInvocation_zero_def)
  note c = completion_exact [OF this]
  have "finished_jobs ?js ?cji = {''a-1''}"
    by (simp add: finished_jobs_def sample_done_job_def finishes_def)
  with c show ?thesis by (auto simp: sample_done_job_def sample_cji_def finishes_def ClowdJobInvocation_zero_def)
qed

section \<open>Sample runs\<close>

text \<open>A cluster that holds an invocation and counts how often a cache was applied to it.\<close>

definition sample_job_app :: ClowdApp where
  "sample_job_app = ClowdApp_zero\<lparr>app_ObjectMeta := ObjectMeta_zero\<lparr>om_Name := ''inventory''\<rparr>,
     app_Spec := (app_Spec ClowdApp_zero)\<lparr>app_Jobs := [sample_job]\<rparr>,
     app_Status := (app_Status ClowdApp_zero)\<lparr>ast_Ready := True, ast_Conditions := [Condition_zero\<lparr>cond_Type := ReconciliationSuccessful\<rparr>]\<rparr>\<rparr>"

definition sample_cji_deps :: "bool \<Rightarrow> (ClowdJobInvocation \<times> nat, unit) CjiDeps" where
  "sample_cji_deps fails = \<lparr>cd_Iqe = sample_iqe_deps, cd_Get = \<lambda>nn w. (w, Inr (fst w)), cd_GetApp = \<lambda>nn w. Inr sample_job_app,
     cd_GetEnv = \<lambda>n w. Inr ClowdEnvironment_zero, cd_ListJobs = \<lambda>w ns. Inr [], cd_Status = \<lambda>o' w. (o', (o', snd w), None),
     cd_CondOps = sample_ops, cd_Now = \<lambda>w. 0, cd_Random = \<lambda>w. (w, ''abcdefg''), cd_Stack = '''', cd_Ticks = 20,
     cd_NewObjectCache = (), cd_CreateJob = \<lambda>i nn w c. (c, Inr KJob_zero), cd_UpdateJob = \<lambda>i j c. (c, None),
     cd_ApplyAll = \<lambda>c w. (c, (fst w, Suc (snd w)), if fails then Some (PlainErr ''conflict'') else None)\<rparr>"

lemma sample_cji_answers: "cache_answers (sample_cji_deps fails)"
  by (simp add: cache_answers_def sample_cji_deps_def)


lemma sample_cji_fresh: "fresh (sample_cji names)" "cst_Conditions (cji_Status (sample_cji names)) = []"
  "cji_TestingIqe (cji_Spec (sample_cji names)) = IqeJobSpec_zero" "cji_Jobs (cji_Spec (sample_cji names)) = names"
  by (simp_all add: fresh_def sample_cji_def jobs_of_def ClowdJobInvocation_zero_def)

lemma sample_cji_may_run: "may_run (sample_cji_deps fails) ns w (sample_cji names) sample_job_app ClowdEnvironment_zero"
  by (simp add: may_run_def sample_cji_deps_def sample_job_app_def tag_ok_def sample_cji_def app_IsReady_def has_condition_type_def
      ClowdApp_zero_def ClowdJobInvocation_zero_def ObjectMeta_zero_def)


lemma sample_cji_run:
  assumes "\<forall>n\<in>set names. invocable sample_job_app n"
  shows "\<exists>s1. run_steps (before_apply (sample_cji_deps fails) ns) (cji_start (sample_cji_deps fails) w (sample_cji names)) = Some (s1, res_done, None)"
  by (rule before_apply_succeeds [OF sample_cji_may_run sample_cji_answers]) (use assms sample_cji_fresh in simp_all)


theorem jobs_applied_only_if_witness:
  "\<exists>w' s r e. cji_Reconcile (sample_cji_deps False) (NN ''run'' ''ns'') (sample_cji [], 0) = (w', s, r, e) \<and> snd w' = 1
     \<and> (\<exists>app env. may_run (sample_cji_deps False) ''ns'' (sample_cji [], 0) (sample_cji []) app env)"
proof -
  let ?d = "sample_cji_deps False"
  let ?I = "\<lambda>w :: ClowdJobInvocation \<times> nat. snd w = 0"
  have q: "quiet ?d ?I" by (simp add: quiet_def sample_cji_deps_def)
  obtain s1 where s1: "run_steps (before_apply ?d ''ns'') (cji_start ?d (sample_cji [], 0) (sample_cji [])) = Some (s1, res_done, None)"
    using sample_cji_run [of "[]" False "''ns''" "(sample_cji [], 0)"] by force
  have "snd (cr_World s1) = 0" using cji_quiet.run_keeps [OF _ s1, of ?I] q by (simp add: cji_start_def)
  then have a: "cd_ApplyAll ?d (cr_Cache s1) (cr_World s1) = (cr_Cache s1, (fst (cr_World s1), 1), None)" by (simp add: sample_cji_deps_def)
  have g: "cd_Get ?d (NN ''run'' ''ns'') (sample_cji [], 0) = ((sample_cji [], 0), Inr (sample_cji []))" by (simp add: sample_cji_deps_def)
  obtain s' r e where rep: "report_success ?d (s1\<lparr>cr_Cache := cr_Cache s1, cr_World := (fst (cr_World s1), 1)\<rparr>) = Some (s', r, e)"
    and run: "cji_Reconcile ?d (NN ''run'' ''ns'') (sample_cji [], 0) = (cr_World s', Some s', r, e)"
    using applied_run [OF g sample_cji_fresh(1) _ a] s1 by auto
  have "quiet ?d (\<lambda>w. snd w = 1)" by (simp add: quiet_def sample_cji_deps_def)
  from report_quiet [OF rep [unfolded report_success_def] this] have one: "snd (cr_World s') = 1" by simp
  then have "\<not> ?I (cr_World s')" by simp
  from jobs_applied_only_if [OF q _ run this] g one run show ?thesis by auto
qed


end
