(* ===== verification/Provider_Ops.thy ===== *)
theory Provider_Ops
  imports Reconcile_Core
begin

text \<open>
  The way the providers are written down: an operation takes the provider and returns it changed, with an
  error or a value, or panics. The combinators are Go's sequencing with \<open>if err != nil { return err }\<close>,
  its loops, and its dereferencing. A triple says what an operation does from a state that satisfies a
  condition: it does not panic, and establishes one condition when it succeeds and another when it fails.

  The resource cache and the client are parameters of the providers, as records of operations.
\<close>

named_theorems triples \<open>rules for the operations of the providers\<close>

section \<open>Operations\<close>

type_synonym ('p, 'a) op = "'p \<Rightarrow> ('p \<times> (goerr + 'a)) option"

definition ret :: "'a \<Rightarrow> ('p, 'a) op" where
  "ret a p = Some (p, Inr a)"

definition fail :: "goerr \<Rightarrow> ('p, 'a) op" where
  "fail e p = Some (p, Inl e)"

definition panics :: "('p, 'a) op" where
  "panics p = None"

definition and_next :: "('p, 'a) op \<Rightarrow> ('a \<Rightarrow> ('p, 'b) op) \<Rightarrow> ('p, 'b) op" where
  "and_next m f p =
     (case m p of None \<Rightarrow> None | Some (p', Inl e) \<Rightarrow> Some (p', Inl e) | Some (p', Inr a) \<Rightarrow> f a p')"

definition reads :: "('p \<Rightarrow> 'a) \<Rightarrow> ('p, 'a) op" where
  "reads f p = Some (p, Inr (f p))"

definition changes :: "('p \<Rightarrow> 'p) \<Rightarrow> ('p, unit) op" where
  "changes f p = Some (f p, Inr ())"

definition result :: "goerr + 'a \<Rightarrow> ('p, 'a) op" where
  "result r p = Some (p, r)"

definition unless_err :: "('p \<Rightarrow> 'p \<times> goerr option) \<Rightarrow> ('p, unit) op" where
  "unless_err f p = (case f p of (p', Some e) \<Rightarrow> Some (p', Inl e) | (p', None) \<Rightarrow> Some (p', Inr ()))"

definition calls :: "('p \<Rightarrow> 'p \<times> (goerr + 'a)) \<Rightarrow> ('p, 'a) op" where
  "calls f p = Some (f p)"

definition deref :: "'a option \<Rightarrow> ('p, 'a) op" where
  "deref x = (case x of None \<Rightarrow> panics | Some a \<Rightarrow> ret a)"

definition map_err :: "(goerr \<Rightarrow> goerr) \<Rightarrow> ('p, 'a) op \<Rightarrow> ('p, 'a) op" where
  "map_err w m p = (case m p of Some (p', Inl e) \<Rightarrow> Some (p', Inl (w e)) | r \<Rightarrow> r)"

fun each :: "('x \<Rightarrow> ('p, unit) op) \<Rightarrow> 'x list \<Rightarrow> ('p, unit) op" where
  "each f [] = ret ()"
| "each f (x # xs) = and_next (f x) (\<lambda>_. each f xs)"

fun collect :: "('x \<Rightarrow> ('p, 'a) op) \<Rightarrow> 'x list \<Rightarrow> ('p, 'a list) op" where
  "collect f [] = ret []"
| "collect f (x # xs) = and_next (f x) (\<lambda>a. and_next (collect f xs) (\<lambda>as. ret (a # as)))"

text \<open>
  What the resource cache offers for one identifier, over the cluster and the cache: \<open>Create\<close> (which fills the
  object from the cluster when it is there), \<open>Update\<close>, \<open>Get\<close> and \<open>List\<close>.
\<close>

record ('s, 'k) Resource =
  res_Create :: "NamespacedName \<Rightarrow> 's \<Rightarrow> 's \<times> (goerr + 'k)"
  res_Update :: "'k \<Rightarrow> 's \<Rightarrow> 's \<times> goerr option"
  res_Get :: "NamespacedName option \<Rightarrow> 's \<Rightarrow> goerr + 'k"
  res_List :: "'s \<Rightarrow> goerr + 'k list"

text \<open>An operation of the cache that a provider holds; a provider without one dereferences nil.\<close>

definition cached :: "('w \<times> 'c \<Rightarrow> ('w \<times> 'c) \<times> (goerr + 'a)) \<Rightarrow> (('w, 'c) Provider, 'a) op" where
  "cached f p =
     (case prov_Cache p of
        None \<Rightarrow> None
      | Some c \<Rightarrow> (case f (prov_World p, c) of ((w', c'), r) \<Rightarrow> Some (p\<lparr>prov_World := w', prov_Cache := Some c'\<rparr>, r)))"

definition cache_Create :: "('w \<times> 'c, 'k) Resource \<Rightarrow> NamespacedName \<Rightarrow> (('w, 'c) Provider, 'k) op" where
  "cache_Create r nn = cached (res_Create r nn)"

definition cache_Update :: "('w \<times> 'c, 'k) Resource \<Rightarrow> 'k \<Rightarrow> (('w, 'c) Provider, unit) op" where
  "cache_Update r k = cached (\<lambda>s. case res_Update r k s of (s', None) \<Rightarrow> (s', Inr ()) | (s', Some e) \<Rightarrow> (s', Inl e))"

definition cache_Get :: "('w \<times> 'c, 'k) Resource \<Rightarrow> NamespacedName option \<Rightarrow> (('w, 'c) Provider, goerr + 'k) op" where
  "cache_Get r nn = cached (\<lambda>s. (s, Inr (res_Get r nn s)))"

definition cache_List :: "('w \<times> 'c, 'k) Resource \<Rightarrow> (('w, 'c) Provider, 'k list) op" where
  "cache_List r = cached (\<lambda>s. (s, res_List r s))"

definition with_resource :: "('w \<times> 'c, 'k) Resource \<Rightarrow> NamespacedName \<Rightarrow> ('k \<Rightarrow> 'k) \<Rightarrow> (('w, 'c) Provider, unit) op" where
  "with_resource r nn f = and_next (cache_Create r nn) (\<lambda>k. cache_Update r (f k))"

text \<open>
  The parameters the providers share: reading secrets and listing apps through the client, the labeler of
  \<open>rhc-osdk-utils\<close> (\<open>GetCustomLabeler\<close>), what the hash cache needs, the loaded configuration.
\<close>

record 'w ProvDeps =
  pd_GetSecret :: "NamespacedName \<Rightarrow> 'w \<Rightarrow> goerr + KSecretObj"
  pd_ListApps :: "'w \<Rightarrow> string \<Rightarrow> goerr + ClowdApp list"
  pd_Labeler :: "smap \<Rightarrow> NamespacedName \<Rightarrow> ClowdObject \<Rightarrow> ObjectMeta \<Rightarrow> ObjectMeta"
  pd_Sha :: "string \<Rightarrow> string"
  pd_Marshal :: "smap \<Rightarrow> goerr + string"
  pd_Loaded :: ClowderConfig
  pd_Stack :: string

definition get_secret :: "'w ProvDeps \<Rightarrow> NamespacedName \<Rightarrow> (('w, 'c) Provider, KSecretObj) op" where
  "get_secret d nn p = Some (p, pd_GetSecret d nn (prov_World p))"

text \<open>The apps of the environment, as \<open>GetAppsInEnv\<close> lists them.\<close>

definition apps_in_env :: "'w ProvDeps \<Rightarrow> (('w, 'c) Provider, ClowdApp list) op" where
  "apps_in_env d p = Some (p, GetAppsInEnv (pd_ListApps d (prov_World p)) (pd_Stack d) (prov_Env p))"

text \<open>A secret as the hash cache sees it.\<close>

definition secret_object :: "KSecretObj \<Rightarrow> KObject" where
  "secret_object sec = \<lparr>ko_Kind = KSecret, ko_ObjectMeta = sec_ObjectMeta sec, ko_Data = sec_Data sec\<rparr>"

text \<open>The pair of calls by which a provider tells the hash cache that an object depends on a secret.\<close>

definition track_secret :: "'w ProvDeps \<Rightarrow> (('w, 'c) Provider \<Rightarrow> ClowdObject) \<Rightarrow> KSecretObj \<Rightarrow> (('w, 'c) Provider, unit) op" where
  "track_secret d obj sec p =
     (case CreateOrUpdateObject (pd_Sha d) (pd_Marshal d) (pd_Stack d) (secret_object sec) True (prov_HashCache p) of
        (hc, Inl err) \<Rightarrow> Some (p\<lparr>prov_HashCache := hc\<rparr>, Inl err)
      | (hc, Inr _) \<Rightarrow>
          (case AddClowdObjectToObject (pd_Loaded d) (obj p) (secret_object sec) hc of
             (hc', Some err) \<Rightarrow> Some (p\<lparr>prov_HashCache := hc'\<rparr>, Inl err)
           | (hc', None) \<Rightarrow> Some (p\<lparr>prov_HashCache := hc'\<rparr>, Inr ())))"

text \<open>The configuration the provider holds by pointer.\<close>

definition the_config :: "(('w, 'c) Provider, AppConfig) op" where
  "the_config = and_next (reads prov_Config) deref"

definition set_config :: "(AppConfig \<Rightarrow> AppConfig) \<Rightarrow> (('w, 'c) Provider, unit) op" where
  "set_config f = and_next the_config (\<lambda>c. changes (\<lambda>p. p\<lparr>prov_Config := Some (f c)\<rparr>))"

text \<open>The two methods of a provider, as the registry runs them.\<close>

definition as_provide ::
  "(ClowdApp \<Rightarrow> (('w, 'c) Provider, unit) op) \<Rightarrow> ClowdApp \<Rightarrow> ('w, 'c) Provider \<Rightarrow> (('w, 'c) Provider \<times> ClowdApp \<times> goerr option) option" where
  "as_provide m app p = (case m app p of None \<Rightarrow> None | Some (p', Inl e) \<Rightarrow> Some (p', app, Some e) | Some (p', Inr u) \<Rightarrow> Some (p', app, None))"

definition as_env_provide :: "(('w, 'c) Provider, unit) op \<Rightarrow> ('w, 'c) Provider \<Rightarrow> (('w, 'c) Provider \<times> goerr option) option" where
  "as_env_provide m p = (case m p of None \<Rightarrow> None | Some (p', Inl e) \<Rightarrow> Some (p', Some e) | Some (p', Inr u) \<Rightarrow> Some (p', None))"

definition or_panic :: "'a option \<Rightarrow> ('p, 'a) op" where
  "or_panic x = (case x of None \<Rightarrow> panics | Some a \<Rightarrow> ret a)"

text \<open>An error wrapped and marked for another attempt.\<close>

definition requeue_wrap :: "string \<Rightarrow> string \<Rightarrow> goerr \<Rightarrow> goerr" where
  "requeue_wrap stack msg err = (case Wrap stack msg err of ClowderError st m c rq \<Rightarrow> ClowderError st m c True | e \<Rightarrow> e)"

text \<open>Kinds more than one provider writes.\<close>

record KNetworkPolicy =
  np_ObjectMeta :: ObjectMeta
  np_From :: "smap list"
  np_PolicyTypes :: "string list"

record KConfigMapObj =
  cm_ObjectMeta :: ObjectMeta
  cm_Data :: smap

section \<open>Equations\<close>

lemma op_simps [simp]:
  "and_next (ret a) f = f a"
  "and_next (fail e) f = fail e"
  "and_next panics f = panics"
  "and_next (result (Inl e)) f = fail e"
  "and_next (result (Inr a)) f = f a"
  "deref (Some a) = ret a" "deref None = panics"
  "map_err w (ret a) = ret a" "map_err w (fail e) = fail (w e)" "map_err w panics = panics"
  by (simp_all add: fun_eq_iff and_next_def ret_def fail_def panics_def result_def deref_def map_err_def)

lemma and_next_assoc: "and_next (and_next m f) g = and_next m (\<lambda>a. and_next (f a) g)"
  by (auto simp: fun_eq_iff and_next_def split: option.splits prod.splits sum.splits)

lemma and_next_ret: "and_next m ret = m"
  by (auto simp: fun_eq_iff and_next_def ret_def split: option.splits prod.splits sum.splits)

lemma op_apply [simp]:
  "ret a p = Some (p, Inr a)" "fail e p = Some (p, Inl e)" "panics p = None" "reads f p = Some (p, Inr (f p))"
  "changes g p = Some (g p, Inr ())" "result r p = Some (p, r)" "calls h p = Some (h p)"
  by (simp_all add: ret_def fail_def panics_def reads_def changes_def result_def calls_def)

lemma and_next_apply:
  "and_next m f p = Some (p', r) \<longleftrightarrow>
     (\<exists>e. m p = Some (p', Inl e) \<and> r = Inl e) \<or> (\<exists>p1 a. m p = Some (p1, Inr a) \<and> f a p1 = Some (p', r))"
  by (auto simp: and_next_def split: option.splits prod.splits sum.splits)

lemma and_next_reads [simp]: "and_next (reads g) f p = f (g p) p"
  by (simp add: and_next_def)

lemma and_next_changes [simp]: "and_next (changes g) f p = f () (g p)"
  by (simp add: and_next_def)

text \<open>What a run without an error did.\<close>

lemma and_next_ok: "and_next m f p = Some (p', Inr r) \<longleftrightarrow> (\<exists>p1 a. m p = Some (p1, Inr a) \<and> f a p1 = Some (p', Inr r))"
  by (auto simp: and_next_apply)

lemma map_err_ok: "map_err w m p = Some (p', Inr r) \<longleftrightarrow> m p = Some (p', Inr r)"
  by (auto simp: map_err_def split: option.splits sum.splits)

lemma or_panic_ok: "or_panic x p = Some (p', Inr r) \<longleftrightarrow> x = Some r \<and> p' = p"
  by (auto simp: or_panic_def split: option.splits)

lemmas op_oks = and_next_ok map_err_ok or_panic_ok op_apply

lemma apps_in_env_ok:
  "apps_in_env d p = Some (p', Inr apps) \<longleftrightarrow> p' = p \<and> pd_ListApps d (prov_World p) (env_Name (prov_Env p)) = Inr apps"
  by (auto simp: apps_in_env_def GetAppsInEnv_def split: sum.splits)

lemma cache_env:
  "cache_Create r nn p = Some (p', x) \<Longrightarrow> prov_Env p' = prov_Env p"
  "cache_Update r k p = Some (p', y) \<Longrightarrow> prov_Env p' = prov_Env p"
  by (auto simp: cache_Create_def cache_Update_def and_next_def cached_def split: prod.splits option.splits)

lemma with_resource_env: "with_resource r nn f p = Some (p', x) \<Longrightarrow> prov_Env p' = prov_Env p"
  unfolding with_resource_def and_next_apply by (metis cache_env(1,2))

lemma set_config_ok:
  "set_config f p = Some (p', Inr u) \<longleftrightarrow> (\<exists>c. prov_Config p = Some c \<and> p' = p\<lparr>prov_Config := Some (f c)\<rparr>)"
  by (auto simp: set_config_def the_config_def op_oks deref_def split: option.splits)

lemma cache_Get_ok: "cache_Get r nn p = Some (p', Inr g) \<longleftrightarrow> p' = p \<and> (\<exists>c. prov_Cache p = Some c \<and> g = res_Get r nn (prov_World p, c))"
  by (cases p) (auto simp: cache_Get_def cached_def split: option.splits)

lemma the_config_ok: "the_config p = Some (p', Inr c) \<longleftrightarrow> p' = p \<and> prov_Config p = Some c"
  by (auto simp: the_config_def deref_def split: option.splits)

lemma some_ok: "(case r of Some (p', Inr x) \<Rightarrow> True | _ \<Rightarrow> False) \<longleftrightarrow> (\<exists>p' x. r = Some (p', Inr x))"
  by (auto split: option.splits sum.splits)

section \<open>Triples\<close>

definition triple :: "('p \<Rightarrow> bool) \<Rightarrow> ('p, 'a) op \<Rightarrow> ('a \<Rightarrow> 'p \<Rightarrow> bool) \<Rightarrow> (goerr \<Rightarrow> 'p \<Rightarrow> bool) \<Rightarrow> bool" where
  "triple P m Q E = (\<forall>p. P p \<longrightarrow> (case m p of None \<Rightarrow> False | Some (p', Inl e) \<Rightarrow> E e p' | Some (p', Inr a) \<Rightarrow> Q a p'))"

text \<open>An operation that keeps a condition whatever happens, and does not panic from a state that satisfies it.\<close>

abbreviation keeps :: "('p \<Rightarrow> bool) \<Rightarrow> ('p, 'a) op \<Rightarrow> bool" where
  "keeps I m \<equiv> triple I m (\<lambda>_. I) (\<lambda>_. I)"

lemma triple_iff:
  "triple P m Q E \<longleftrightarrow> (\<forall>p. P p \<longrightarrow> m p \<noteq> None \<and> (\<forall>p' a. m p = Some (p', Inr a) \<longrightarrow> Q a p') \<and> (\<forall>p' e. m p = Some (p', Inl e) \<longrightarrow> E e p'))"
proof -
  have "(case x of None \<Rightarrow> False | Some (p', Inl e) \<Rightarrow> E e p' | Some (p', Inr a) \<Rightarrow> Q a p') \<longleftrightarrow>
      x \<noteq> None \<and> (\<forall>p' a. x = Some (p', Inr a) \<longrightarrow> Q a p') \<and> (\<forall>p' e. x = Some (p', Inl e) \<longrightarrow> E e p')" for x
    by (auto split: option.splits sum.splits)
  then show ?thesis unfolding triple_def by simp
qed

lemma tripleI:
  assumes "\<And>p. P p \<Longrightarrow> m p \<noteq> None" "\<And>p p' a. P p \<Longrightarrow> m p = Some (p', Inr a) \<Longrightarrow> Q a p'"
    "\<And>p p' e. P p \<Longrightarrow> m p = Some (p', Inl e) \<Longrightarrow> E e p'"
  shows "triple P m Q E"
  unfolding triple_iff using assms by blast

lemma tripleD_ok: "triple P m Q E \<Longrightarrow> P p \<Longrightarrow> m p = Some (p', Inr a) \<Longrightarrow> Q a p'"
  unfolding triple_iff by blast

lemma tripleD_err: "triple P m Q E \<Longrightarrow> P p \<Longrightarrow> m p = Some (p', Inl e) \<Longrightarrow> E e p'"
  unfolding triple_iff by blast

lemma tripleD_total: "triple P m Q E \<Longrightarrow> P p \<Longrightarrow> m p \<noteq> None"
  unfolding triple_iff by blast

lemma tripleE:
  assumes "triple P m Q E" "P p"
  obtains (ok) p' a where "m p = Some (p', Inr a)" "Q a p'" | (err) p' e where "m p = Some (p', Inl e)" "E e p'"
proof -
  obtain p' r where "m p = Some (p', r)" using tripleD_total [OF assms] by auto
  then show thesis
    by (cases r) (auto intro: ok err tripleD_ok [OF assms] tripleD_err [OF assms])
qed

lemma triple_conseq:
  "triple P m Q E \<Longrightarrow> (\<And>p. P' p \<Longrightarrow> P p) \<Longrightarrow> (\<And>a p. Q a p \<Longrightarrow> Q' a p) \<Longrightarrow> (\<And>e p. E e p \<Longrightarrow> E' e p) \<Longrightarrow> triple P' m Q' E'"
  unfolding triple_iff by blast

lemma triple_ret [triples]: "(\<And>p. P p \<Longrightarrow> Q a p) \<Longrightarrow> triple P (ret a) Q E"
  by (simp add: triple_def)

lemma triple_fail [triples]: "(\<And>p. P p \<Longrightarrow> E e p) \<Longrightarrow> triple P (fail e) Q E"
  by (simp add: triple_def)

lemma triple_reads [triples]: "(\<And>p. P p \<Longrightarrow> Q (f p) p) \<Longrightarrow> triple P (reads f) Q E"
  by (simp add: triple_def)

lemma triple_changes [triples]: "(\<And>p. P p \<Longrightarrow> Q () (f p)) \<Longrightarrow> triple P (changes f) Q E"
  by (simp add: triple_def)

lemma triple_result [triples]:
  "(\<And>p a. P p \<Longrightarrow> r = Inr a \<Longrightarrow> Q a p) \<Longrightarrow> (\<And>p e. P p \<Longrightarrow> r = Inl e \<Longrightarrow> E e p) \<Longrightarrow> triple P (result r) Q E"
  by (cases r) (simp_all add: triple_def)

lemma triple_deref [triples]: "(\<And>p. P p \<Longrightarrow> x \<noteq> None) \<Longrightarrow> (\<And>p a. P p \<Longrightarrow> x = Some a \<Longrightarrow> Q a p) \<Longrightarrow> triple P (deref x) Q E"
  by (cases x) (auto simp: triple_def)

lemma triple_calls:
  "(\<And>p p' a. P p \<Longrightarrow> f p = (p', Inr a) \<Longrightarrow> Q a p') \<Longrightarrow> (\<And>p p' e. P p \<Longrightarrow> f p = (p', Inl e) \<Longrightarrow> E e p') \<Longrightarrow> triple P (calls f) Q E"
  by (auto simp: triple_def split: sum.splits prod.splits)

lemma triple_unless_err:
  "(\<And>p p'. P p \<Longrightarrow> f p = (p', None) \<Longrightarrow> Q () p') \<Longrightarrow> (\<And>p p' e. P p \<Longrightarrow> f p = (p', Some e) \<Longrightarrow> E e p') \<Longrightarrow> triple P (unless_err f) Q E"
  by (auto simp: triple_def unless_err_def split: option.splits prod.splits)

lemma triple_and_next [triples]: "triple P m Q E \<Longrightarrow> (\<And>a. triple (Q a) (f a) R E) \<Longrightarrow> triple P (and_next m f) R E"
proof (rule tripleI)
  assume m: "triple P m Q E" and f: "\<And>a. triple (Q a) (f a) R E"
  fix p p' assume p: "P p"
  show "and_next m f p \<noteq> None"
    by (cases rule: tripleE [OF m p]) (auto simp: and_next_def dest: tripleD_total [OF f])
  show "R b p'" if "and_next m f p = Some (p', Inr b)" for b
    using that p by (auto simp: and_next_apply dest: tripleD_ok [OF m] tripleD_ok [OF f])
  show "E e p'" if "and_next m f p = Some (p', Inl e)" for e
    using that p by (auto simp: and_next_apply dest: tripleD_ok [OF m] tripleD_err [OF m] tripleD_err [OF f])
qed

lemma triple_map_err [triples]: "triple P m Q (\<lambda>e. E (w e)) \<Longrightarrow> triple P (map_err w m) Q E"
  by (auto simp: triple_def map_err_def split: option.splits sum.splits)

lemma triple_if [triples]: "(b \<Longrightarrow> triple P m Q E) \<Longrightarrow> (\<not> b \<Longrightarrow> triple P n Q E) \<Longrightarrow> triple P (if b then m else n) Q E"
  by simp

lemma triple_case_option [triples]:
  "(x = None \<Longrightarrow> triple P m Q E) \<Longrightarrow> (\<And>a. x = Some a \<Longrightarrow> triple P (f a) Q E) \<Longrightarrow> triple P (case x of None \<Rightarrow> m | Some a \<Rightarrow> f a) Q E"
  by (cases x) simp_all

lemma triple_case_prod [triples]:
  "(\<And>a b. x = (a, b) \<Longrightarrow> triple P (f a b) Q E) \<Longrightarrow> triple P (case x of (a, b) \<Rightarrow> f a b) Q E"
  by (cases x) simp

lemma keeps_each [triples]: "(\<And>x. x \<in> set xs \<Longrightarrow> keeps I (f x)) \<Longrightarrow> keeps I (each f xs)"
  by (induction xs) (auto intro!: triples)

lemma keeps_collect [triples]: "(\<And>x. x \<in> set xs \<Longrightarrow> keeps I (f x)) \<Longrightarrow> keeps I (collect f xs)"
  by (induction xs) (auto intro!: triples)

text \<open>A loop whose body establishes something for the element it is at, and keeps it for those it has passed.\<close>

lemma each_establishes:
  assumes "\<And>x. x \<in> set xs \<Longrightarrow> triple I (f x) (\<lambda>_ p. I p \<and> G x p) (\<lambda>_. I)"
    and "\<And>x y. x \<in> set xs \<Longrightarrow> y \<in> set xs \<Longrightarrow> triple (\<lambda>p. I p \<and> G y p) (f x) (\<lambda>_ p. I p \<and> G y p) (\<lambda>_. I)"
  shows "triple I (each f xs) (\<lambda>_ p. I p \<and> (\<forall>x\<in>set xs. G x p)) (\<lambda>_. I)"
proof -
  have "triple (\<lambda>p. I p \<and> (\<forall>y\<in>D. G y p)) (each f ys) (\<lambda>_ p. I p \<and> (\<forall>y\<in>D \<union> set ys. G y p)) (\<lambda>_. I)"
    if "set ys \<subseteq> set xs" "D \<subseteq> set xs" for ys D
    using that
  proof (induction ys arbitrary: D)
    case (Cons y ys)
    then have y: "y \<in> set xs" by simp
    have "triple (\<lambda>p. I p \<and> (\<forall>z\<in>D. G z p)) (f y) (\<lambda>_ p. I p \<and> (\<forall>z\<in>insert y D. G z p)) (\<lambda>_. I)"
    proof (rule tripleI)
      fix p p' assume p: "I p \<and> (\<forall>z\<in>D. G z p)"
      show "f y p \<noteq> None" using tripleD_total [OF assms(1) [OF y]] p by blast
      show "I p'" if "f y p = Some (p', Inl e)" for e using tripleD_err [OF assms(1) [OF y] _ that] p by blast
      show "I p' \<and> (\<forall>z\<in>insert y D. G z p')" if "f y p = Some (p', Inr a)" for a
        using tripleD_ok [OF assms(1) [OF y] _ that] tripleD_ok [OF assms(2) [OF y] _ that] p Cons.prems by blast
    qed
    moreover have "triple (\<lambda>p. I p \<and> (\<forall>z\<in>insert y D. G z p)) (each f ys) (\<lambda>_ p. I p \<and> (\<forall>z\<in>insert y D \<union> set ys. G z p)) (\<lambda>_. I)"
      using Cons.prems by (intro Cons.IH) auto
    ultimately show ?case by (auto intro: triple_and_next)
  qed (auto simp: triple_def)
  from this [of xs "{}"] show ?thesis by simp
qed


section \<open>The shared operations\<close>

lemma cached_apply:
  "prov_Cache p = Some c \<Longrightarrow>
     cached f p = (case f (prov_World p, c) of ((w', c'), r) \<Rightarrow> Some (p\<lparr>prov_World := w', prov_Cache := Some c'\<rparr>, r))"
  by (simp add: cached_def)

text \<open>What a provider holds beside the cluster and the cache, which the cache operations cannot touch.\<close>

definition rest_is :: "ClowdEnvironment \<Rightarrow> AppConfig option \<Rightarrow> HashCache \<Rightarrow> ('w, 'c) Provider \<Rightarrow> bool" where
  "rest_is e cf hc p = (prov_Env p = e \<and> prov_Config p = cf \<and> prov_HashCache p = hc \<and> prov_Cache p \<noteq> None)"

lemma triple_cached:
  assumes "\<And>p c w' c' a. P p \<Longrightarrow> prov_Cache p = Some c \<Longrightarrow> f (prov_World p, c) = ((w', c'), Inr a) \<Longrightarrow>
        Q a (p\<lparr>prov_World := w', prov_Cache := Some c'\<rparr>)"
    and "\<And>p c w' c' e. P p \<Longrightarrow> prov_Cache p = Some c \<Longrightarrow> f (prov_World p, c) = ((w', c'), Inl e) \<Longrightarrow>
        E e (p\<lparr>prov_World := w', prov_Cache := Some c'\<rparr>)"
    and "\<And>p. P p \<Longrightarrow> prov_Cache p \<noteq> None"
  shows "triple P (cached f) Q E"
proof (rule tripleI)
  fix p p' assume p: "P p"
  then obtain c where c: "prov_Cache p = Some c" using assms(3) by blast
  obtain w' c' r where f: "f (prov_World p, c) = ((w', c'), r)" by (metis surj_pair)
  show "cached f p \<noteq> None" by (simp add: cached_def c f)
  show "Q a p'" if "cached f p = Some (p', Inr a)" for a
    using that p assms(1) [OF p c] by (auto simp: cached_def c f)
  show "E e p'" if "cached f p = Some (p', Inl e)" for e
    using that p assms(2) [OF p c] by (auto simp: cached_def c f)
qed

lemma cached_keeps_rest [triples]: "keeps (rest_is e cf hc) (cached f)"
  by (rule triple_cached) (auto simp: rest_is_def)

lemma cache_ops_keep_rest [triples]:
  "keeps (rest_is e cf hc) (cache_Create r nn)" "keeps (rest_is e cf hc) (cache_Update r k)"
  "keeps (rest_is e cf hc) (cache_Get r nn')" "keeps (rest_is e cf hc) (cache_List r)"
  by (simp_all add: cache_Create_def cache_Update_def cache_Get_def cache_List_def cached_keeps_rest)

lemma triple_get_secret [triples]:
  "(\<And>p sec. P p \<Longrightarrow> pd_GetSecret d nn (prov_World p) = Inr sec \<Longrightarrow> Q sec p) \<Longrightarrow>
   (\<And>p e. P p \<Longrightarrow> pd_GetSecret d nn (prov_World p) = Inl e \<Longrightarrow> E e p) \<Longrightarrow> triple P (get_secret d nn) Q E"
  by (auto simp: triple_def get_secret_def split: sum.splits)

text \<open>
  What the cache promises for one identifier: an object that is updated successfully is the one recorded
  under its name from then on, no other record changes, and creating records nothing.
\<close>

definition object_cache :: "('s, 'k) Resource \<Rightarrow> ('k \<Rightarrow> NamespacedName) \<Rightarrow> ('s \<Rightarrow> NamespacedName \<rightharpoonup> 'k) \<Rightarrow> bool" where
  "object_cache r name_of recorded =
     ((\<forall>nn s. recorded (fst (res_Create r nn s)) = recorded s)
      \<and> (\<forall>k s s'. res_Update r k s = (s', None) \<longrightarrow> recorded s' = (recorded s)(name_of k \<mapsto> k)))"

abbreviation prov_recorded :: "('w \<times> 'c \<Rightarrow> 'x) \<Rightarrow> ('w, 'c) Provider \<Rightarrow> 'x" where
  "prov_recorded recorded p \<equiv> recorded (prov_World p, the (prov_Cache p))"

lemma create_records:
  assumes "object_cache r name_of recorded" and "cache_Create r nn p = Some (p', x)"
  shows "prov_recorded recorded p' = prov_recorded recorded p"
proof -
  obtain c where c: "prov_Cache p = Some c" using assms(2) by (cases "prov_Cache p") (auto simp: cache_Create_def cached_def)
  obtain w' c' r' where f: "res_Create r nn (prov_World p, c) = ((w', c'), r')" by (metis surj_pair)
  have "recorded (fst (res_Create r nn (prov_World p, c))) = recorded (prov_World p, c)"
    using assms(1) unfolding object_cache_def by blast
  with assms(2) c f show ?thesis by (auto simp: cache_Create_def cached_def)
qed

lemma update_records:
  assumes "object_cache r name_of recorded" and "cache_Update r k p = Some (p', Inr u)"
  shows "prov_recorded recorded p' = (prov_recorded recorded p)(name_of k \<mapsto> k)"
proof -
  obtain c where c: "prov_Cache p = Some c" using assms(2) by (cases "prov_Cache p") (auto simp: cache_Update_def cached_def)
  obtain s' r' where f: "res_Update r k (prov_World p, c) = (s', r')" by (metis surj_pair)
  with assms(2) c have "r' = None" by (cases r') (auto simp: cache_Update_def cached_def split: prod.splits)
  with f have "recorded s' = (recorded (prov_World p, c))(name_of k \<mapsto> k)"
    using assms(1) unfolding object_cache_def by blast
  with assms(2) c f \<open>r' = None\<close> show ?thesis by (auto simp: cache_Update_def cached_def split: prod.splits)
qed

lemma get_records: "cache_Get r nn p = Some (p', x) \<Longrightarrow> p' = p"
  by (auto simp: cache_Get_def cached_def split: option.splits)

text \<open>Objects that depend on a secret, as far as the hash cache knows.\<close>

definition depends_on :: "ClowdObject \<Rightarrow> Ident \<Rightarrow> HashCache \<Rightarrow> bool" where
  "depends_on o' i hc = (\<exists>v. map_of hc i = Some v \<and> associated o' v)"

definition secret_ident :: "NamespacedName \<Rightarrow> Ident" where
  "secret_ident nn = \<lparr>id_NN = nn, id_Type = ''Secret''\<rparr>"

lemma ident_of_secret [simp]:
  "ident_of (secret_object sec) = secret_ident (NN (om_Name (sec_ObjectMeta sec)) (om_Namespace (sec_ObjectMeta sec)))"
  by (simp add: ident_of_def secret_object_def secret_ident_def oType_def)

text \<open>An entry that is absent, or was made to be always followed, takes new users.\<close>

definition followed :: "Ident \<Rightarrow> HashCache \<Rightarrow> bool" where
  "followed i hc = (\<forall>v. map_of hc i = Some v \<longrightarrow> ho_Always v)"

lemma track_secret_ok:
  assumes "track_secret d obj sec p = Some (p', Inr u)"
  shows "p' = p\<lparr>prov_HashCache := fst (hcache.track (pd_Sha d) (pd_Marshal d) (pd_Stack d) (pd_Loaded d) (obj p)
        (secret_object sec) True (prov_HashCache p))\<rparr>"
    and "\<exists>hc ch. CreateOrUpdateObject (pd_Sha d) (pd_Marshal d) (pd_Stack d) (secret_object sec) True (prov_HashCache p) = (hc, Inr ch)"
  using assms by (auto simp: track_secret_def hcache.track_def split: prod.splits sum.splits option.splits)

lemma track_secret_never_panics: "track_secret d obj sec p \<noteq> None"
  by (auto simp: track_secret_def split: prod.splits sum.splits option.splits)

lemma track_secret_frame:
  "track_secret d obj sec p = Some (p', r) \<Longrightarrow> \<exists>hc. p' = p\<lparr>prov_HashCache := hc\<rparr>"
  by (auto simp: track_secret_def split: prod.splits sum.splits option.splits)

lemma track_secret_depends:
  assumes "track_secret d obj sec p = Some (p', Inr u)" and "followed (ident_of (secret_object sec)) (prov_HashCache p)"
  shows "depends_on (obj p) (ident_of (secret_object sec)) (prov_HashCache p')"
proof -
  obtain hc ch where reg: "CreateOrUpdateObject (pd_Sha d) (pd_Marshal d) (pd_Stack d) (secret_object sec) True (prov_HashCache p) = (hc, Inr ch)"
    using track_secret_ok(2) [OF assms(1)] by blast
  show ?thesis
    unfolding depends_on_def track_secret_ok(1) [OF assms(1)]
    using hcache.track_associates [OF reg, of "pd_Loaded d" "obj p"] assms(2)
    by (auto simp: followed_def split: option.splits)
qed

lemma track_secret_keeps_deps:
  assumes "track_secret d obj sec p = Some (p', Inr u)" and "depends_on o' i (prov_HashCache p)"
  shows "depends_on o' i (prov_HashCache p')"
proof -
  obtain v where "map_of (prov_HashCache p) i = Some v" "associated o' v"
    using assms(2) unfolding depends_on_def by blast
  from hcache.track_keeps [OF this] show ?thesis
    unfolding depends_on_def track_secret_ok(1) [OF assms(1)] by simp
qed

lemma track_secret_keeps_followed:
  assumes "track_secret d obj sec p = Some (p', Inr u)" and "followed i (prov_HashCache p)"
  shows "followed i (prov_HashCache p')"
proof (cases "i = ident_of (secret_object sec)")
  case False
  then show ?thesis
    using assms(2) unfolding followed_def track_secret_ok(1) [OF assms(1)] by (simp add: hcache.track_other)
next
  case True
  obtain hc ch where reg: "CreateOrUpdateObject (pd_Sha d) (pd_Marshal d) (pd_Stack d) (secret_object sec) True (prov_HashCache p) = (hc, Inr ch)"
    using track_secret_ok(2) [OF assms(1)] by blast
  obtain v where v: "map_of hc i = Some v" "ho_Always v"
    using hcache.register_present [OF reg] assms(2) True by (auto simp: followed_def split: option.splits)
  have "map_of (prov_HashCache p') i = Some (associate (obj p) v)"
    unfolding track_secret_ok(1) [OF assms(1)] hcache.track_def reg
    using hcache.attach_present [of hc "secret_object sec" v "pd_Loaded d" "obj p"] v True by simp
  moreover have "ho_Always (associate (obj p) v)" using v(2) by (cases "obj p") auto
  ultimately show ?thesis unfolding followed_def by simp
qed

text \<open>What \<open>GetCustomLabeler\<close> documents: it names the object.\<close>

definition labeler_names :: "'w ProvDeps \<Rightarrow> bool" where
  "labeler_names d = (\<forall>ls nn o' m. om_Name (pd_Labeler d ls nn o' m) = nn_Name nn \<and> om_Namespace (pd_Labeler d ls nn o' m) = nn_Namespace nn)"

end
