(* ===== verification/Service_Accounts.thy ===== *)
theory Service_Accounts
  imports Provider_Ops
begin

text \<open>
  The service accounts and their pull secrets: \<open>providers/serviceaccount/default.go\<close>,
  \<open>providers/serviceaccount/impl.go\<close> and \<open>providers/pullsecrets/default.go\<close>. The resource cache is a parameter,
  one \<open>Resource\<close> for every identifier; registering the identifiers with the cache is not modelled.

  The facts: what a role binding grants, which service account every deployment runs under, that the copies
  of the pull secrets carry the data of their sources and that the object depends on the sources afterwards.
\<close>

record KServiceAccount =
  sa_ObjectMeta :: ObjectMeta
  sa_ImagePullSecrets :: "string list"

record KRoleBinding =
  rb_ObjectMeta :: ObjectMeta
  rb_Subjects :: "(string \<times> string \<times> string) list"
  rb_RoleRef :: "string \<times> string \<times> string"

abbreviation env_PullSecrets :: "ClowdEnvironment \<Rightarrow> NamespacedName list" where
  "env_PullSecrets e \<equiv> pv_PullSecrets (env_Providers (env_Spec e))"

definition env_object :: "('w, 'c) Provider \<Rightarrow> ClowdObject" where
  "env_object p = EnvObject (prov_Env p)"

fun co_Kind :: "ClowdObject \<Rightarrow> string" where
  "co_Kind (AppObject a) = app_Kind a"
| "co_Kind (EnvObject e) = env_Kind e"

fun co_GetClowdSAName :: "ClowdObject \<Rightarrow> string" where
  "co_GetClowdSAName (AppObject a) = app_GetClowdSAName a"
| "co_GetClowdSAName (EnvObject e) = env_GetClowdSAName e"

section \<open>Service accounts\<close>

text \<open>A labeler changes the metadata of the object it is given.\<close>

definition CreateServiceAccount ::
  "('w \<times> 'c, KServiceAccount) Resource \<Rightarrow> NamespacedName \<Rightarrow> (ObjectMeta \<Rightarrow> ObjectMeta) \<Rightarrow> (('w, 'c) Provider, unit) op" where
  "CreateServiceAccount ident nn labeler =
     with_resource ident nn (\<lambda>sa. sa\<lparr>sa_ObjectMeta := labeler (sa_ObjectMeta sa)\<rparr>)"

definition role_binding :: "NamespacedName \<Rightarrow> (ObjectMeta \<Rightarrow> ObjectMeta) \<Rightarrow> string \<Rightarrow> KRoleBinding \<Rightarrow> KRoleBinding" where
  "role_binding nn labeler accessLevel rb = rb\<lparr>rb_ObjectMeta := labeler (rb_ObjectMeta rb),
     rb_Subjects := [(''ServiceAccount'', nn_Name nn, nn_Namespace nn)],
     rb_RoleRef := (''rbac.authorization.k8s.io'', ''ClusterRole'',
       if accessLevel = ''view'' then ''view'' else if accessLevel = ''edit'' then ''edit'' else '''')\<rparr>"

definition CreateRoleBinding ::
  "('w \<times> 'c, KRoleBinding) Resource \<Rightarrow> NamespacedName \<Rightarrow> (ObjectMeta \<Rightarrow> ObjectMeta) \<Rightarrow> string \<Rightarrow> (('w, 'c) Provider, unit) op" where
  "CreateRoleBinding ident nn labeler accessLevel =
     (if accessLevel = ''default'' \<or> accessLevel = '''' then ret ()
      else with_resource ident nn (role_binding nn labeler accessLevel))"

definition createServiceAccountForClowdObj ::
  "'w ProvDeps \<Rightarrow> ('w \<times> 'c, KServiceAccount) Resource \<Rightarrow> ClowdObject \<Rightarrow> (('w, 'c) Provider, unit) op" where
  "createServiceAccountForClowdObj d ident obj =
     (if co_GetClowdNamespace obj = '''' then fail (ClowderError (pd_Stack d) ''targetNamespace not yet populated'' None True)
      else (let nn = NN (co_GetClowdSAName obj) (co_GetClowdNamespace obj)
            in CreateServiceAccount ident nn (pd_Labeler d Map.empty nn obj)))"

record 's SaResources =
  sr_AppAccount :: "('s, KServiceAccount) Resource"
  sr_EnvAccount :: "('s, KServiceAccount) Resource"
  sr_DeploymentAccounts :: "('s, KServiceAccount) Resource"
  sr_IqeAccounts :: "('s, KServiceAccount) Resource"
  sr_DeploymentBindings :: "('s, KRoleBinding) Resource"
  sr_IqeBindings :: "('s, KRoleBinding) Resource"
  sr_Deployments :: "('s, KDeployment) Resource"
  sr_LocalDB :: "('s, KDeployment) Resource"
  sr_Redis :: "('s, KDeployment) Resource"
  sr_FeatureFlagsDB :: "('s, KDeployment) Resource"
  sr_FeatureFlags :: "('s, KDeployment) Resource"
  sr_FeatureFlagsEdge :: "('s, KDeployment) Resource"
  sr_Minio :: "('s, KDeployment) Resource"
  sr_SharedDB :: "('s, KDeployment) Resource"
  sr_PullSecrets :: "('s, KSecretObj) Resource"

fun starts_somewhere :: "string \<Rightarrow> string \<Rightarrow> bool" where
  "starts_somewhere t [] = (t = [])"
| "starts_somewhere t (c # cs) = (has_prefix (c # cs) t \<or> starts_somewhere t cs)"

definition with_account :: "string \<Rightarrow> KDeployment \<Rightarrow> KDeployment" where
  "with_account name dd = dd\<lparr>kd_Template := (kd_Template dd)\<lparr>pt_ServiceAccountName := name\<rparr>\<rparr>"

text \<open>
  The loop over the deployments other providers may have made, each with whether its identifier is a
  single one: others are passed over. An error that does not say \<open>not found\<close> is passed over too, and an
  empty deployment updated.
\<close>

definition set_account ::
  "string \<Rightarrow> bool \<times> ('w \<times> 'c, KDeployment) Resource \<Rightarrow> (('w, 'c) Provider, unit) op" where
  "set_account name =
     (\<lambda>(single, r).
        if single
        then and_next (cache_Get r None) (\<lambda>g.
          case g of
            Inr dd \<Rightarrow> cache_Update r (with_account name dd)
          | Inl err \<Rightarrow> (if starts_somewhere ''not found'' (Error err) then ret ()
                      else cache_Update r (with_account name KDeployment_zero)))
        else ret ())"

definition serviceaccount_EnvProvide :: "'w ProvDeps \<Rightarrow> ('w \<times> 'c) SaResources \<Rightarrow> (('w, 'c) Provider, unit) op" where
  "serviceaccount_EnvProvide d R =
     and_next (reads prov_Env) (\<lambda>env.
       and_next (createServiceAccountForClowdObj d (sr_EnvAccount R) (EnvObject env)) (\<lambda>_.
         each (set_account (env_GetClowdSAName env))
           [(True, sr_FeatureFlagsDB R), (True, sr_FeatureFlags R), (True, sr_FeatureFlagsEdge R), (True, sr_Minio R), (False, sr_SharedDB R)]))"

definition createIQEServiceAccounts :: "'w ProvDeps \<Rightarrow> ('w \<times> 'c) SaResources \<Rightarrow> ClowdApp \<Rightarrow> (('w, 'c) Provider, unit) op" where
  "createIQEServiceAccounts d R app =
     and_next (reads prov_Env) (\<lambda>env.
       let accessLevel = tc_K8SAccessLevel (pv_Testing (env_Providers (env_Spec env)));
           nn = NN (''iqe-'' @ env_Name env) (app_Namespace app);
           labeler = pd_Labeler d Map.empty nn (EnvObject env)
       in and_next (CreateServiceAccount (sr_IqeAccounts R) nn labeler) (\<lambda>_.
            if accessLevel = ''edit'' \<or> accessLevel = ''view''
            then CreateRoleBinding (sr_IqeBindings R) nn labeler accessLevel else ret ()))"

definition deployment_account ::
  "'w ProvDeps \<Rightarrow> ('w \<times> 'c) SaResources \<Rightarrow> ClowdApp \<Rightarrow> Deployment \<Rightarrow> (('w, 'c) Provider, unit) op" where
  "deployment_account d R app dep =
     (let nn = app_GetDeploymentNamespacedName app dep;
          labeler = pd_Labeler d Map.empty nn (AppObject app)
      in and_next (cache_Get (sr_Deployments R) (Some nn)) (\<lambda>g.
           case g of
             Inl err \<Rightarrow> fail err
           | Inr k \<Rightarrow>
               and_next (CreateServiceAccount (sr_DeploymentAccounts R) nn labeler) (\<lambda>_.
               and_next (cache_Update (sr_Deployments R) (with_account (nn_Name nn) k)) (\<lambda>_.
                 CreateRoleBinding (sr_DeploymentBindings R) nn labeler (dep_K8sAccessLevel dep)))))"

definition serviceaccount_Provide :: "'w ProvDeps \<Rightarrow> ('w \<times> 'c) SaResources \<Rightarrow> ClowdApp \<Rightarrow> (('w, 'c) Provider, unit) op" where
  "serviceaccount_Provide d R app =
     and_next (createIQEServiceAccounts d R app) (\<lambda>_.
     and_next (createServiceAccountForClowdObj d (sr_AppAccount R) (AppObject app)) (\<lambda>_.
     and_next (each (set_account (app_GetClowdSAName app)) [(True, sr_LocalDB R), (True, sr_Redis R)]) (\<lambda>_.
       each (deployment_account d R app) (app_Deployments (app_Spec app)))))"

section \<open>Pull secrets\<close>

definition copy_name :: "ClowdEnvironment \<Rightarrow> NamespacedName \<Rightarrow> string" where
  "copy_name env ps = env_Name env @ ''-'' @ nn_Name ps @ ''-clowder-copy''"

definition pull_secret_copy ::
  "'w ProvDeps \<Rightarrow> ClowdEnvironment \<Rightarrow> NamespacedName \<Rightarrow> KSecretObj \<Rightarrow> KSecretObj \<Rightarrow> KSecretObj" where
  "pull_secret_copy d env newSecNN src k =
     (let m = pd_Labeler d Map.empty newSecNN (EnvObject env) (sec_ObjectMeta k)
      in k\<lparr>sec_Data := sec_Data src, sec_Type := sec_Type src,
           sec_ObjectMeta := m\<lparr>om_Name := nn_Name newSecNN, om_Namespace := nn_Namespace newSecNN\<rparr>\<rparr>)"

text \<open>An app that lives in the target namespace the environment asks for gets no copies of its own.\<close>

definition shares_copies :: "ClowdEnvironment \<Rightarrow> ClowdObject \<Rightarrow> bool" where
  "shares_copies env obj = (co_Kind obj = ''ClowdApp'' \<and> co_GetClowdNamespace obj = env_TargetNamespace (env_Spec env))"

text \<open>What follows once the source was read and is tracked: nothing if the object shares the copies, otherwise the copy is looked up or created and written.\<close>

definition write_copy ::
  "'w ProvDeps \<Rightarrow> ('w \<times> 'c, KSecretObj) Resource \<Rightarrow> bool \<Rightarrow> ClowdEnvironment \<Rightarrow> NamespacedName \<Rightarrow> KSecretObj \<Rightarrow> string \<Rightarrow> (('w, 'c) Provider, string) op" where
  "write_copy d r shared env nn src name =
     (if shared then ret name
      else and_next (cache_Get r (Some nn)) (\<lambda>g.
           and_next (case g of Inr k \<Rightarrow> ret k | Inl _ \<Rightarrow> cache_Create r nn) (\<lambda>k.
           and_next (cache_Update r (pull_secret_copy d env nn src k)) (\<lambda>_. ret name))))"

definition copy_pull_secret ::
  "'w ProvDeps \<Rightarrow> ('w \<times> 'c, KSecretObj) Resource \<Rightarrow> string \<Rightarrow> (('w, 'c) Provider \<Rightarrow> ClowdObject) \<Rightarrow> NamespacedName
    \<Rightarrow> (('w, 'c) Provider, string) op" where
  "copy_pull_secret d r namespace obj ps =
     and_next (get_secret d ps) (\<lambda>src.
     and_next (track_secret d obj src) (\<lambda>_.
     and_next (reads (\<lambda>p. (prov_Env p, obj p))) (\<lambda>(env, o').
       let secName = copy_name env ps in write_copy d r (shares_copies env o') env (NN secName namespace) src secName)))"

definition CopyPullSecrets ::
  "'w ProvDeps \<Rightarrow> ('w \<times> 'c, KSecretObj) Resource \<Rightarrow> string \<Rightarrow> (('w, 'c) Provider \<Rightarrow> ClowdObject) \<Rightarrow> (('w, 'c) Provider, string list) op" where
  "CopyPullSecrets d r namespace obj =
     and_next (reads (\<lambda>p. env_PullSecrets (prov_Env p))) (\<lambda>pss. collect (copy_pull_secret d r namespace obj) pss)"

definition addAllSecrets :: "string list \<Rightarrow> KServiceAccount \<Rightarrow> KServiceAccount" where
  "addAllSecrets secList sa =
     sa\<lparr>sa_ImagePullSecrets := filter (\<lambda>s. has_prefix s (om_Name (sa_ObjectMeta sa) @ ''-dockercfg'')) (sa_ImagePullSecrets sa) @ secList\<rparr>"

text \<open>Getting an object that must be there, and updating it.\<close>

definition amend :: "('w \<times> 'c, 'k) Resource \<Rightarrow> ('k \<Rightarrow> 'k) \<Rightarrow> (('w, 'c) Provider, unit) op" where
  "amend r f = and_next (cache_Get r None) (\<lambda>g. case g of Inl err \<Rightarrow> fail err | Inr k \<Rightarrow> cache_Update r (f k))"

definition amend_all :: "('w \<times> 'c, 'k) Resource \<Rightarrow> ('k \<Rightarrow> 'k) \<Rightarrow> (('w, 'c) Provider, unit) op" where
  "amend_all r f = and_next (cache_List r) (\<lambda>ks. each (\<lambda>k. cache_Update r (f k)) ks)"

definition pullsecret_EnvProvide :: "'w ProvDeps \<Rightarrow> ('w \<times> 'c) SaResources \<Rightarrow> (('w, 'c) Provider, unit) op" where
  "pullsecret_EnvProvide d R =
     and_next (reads (\<lambda>p. est_TargetNamespace (env_Status (prov_Env p)))) (\<lambda>ns.
     and_next (CopyPullSecrets d (sr_PullSecrets R) ns env_object) (\<lambda>secList.
       amend (sr_EnvAccount R) (addAllSecrets secList)))"

definition pullsecret_Provide :: "'w ProvDeps \<Rightarrow> ('w \<times> 'c) SaResources \<Rightarrow> ClowdApp \<Rightarrow> (('w, 'c) Provider, unit) op" where
  "pullsecret_Provide d R app =
     and_next (CopyPullSecrets d (sr_PullSecrets R) (app_Namespace app) (\<lambda>_. AppObject app)) (\<lambda>secList.
     and_next (amend_all (sr_IqeAccounts R) (addAllSecrets secList)) (\<lambda>_.
     and_next (amend_all (sr_DeploymentAccounts R) (addAllSecrets secList)) (\<lambda>_.
       amend (sr_AppAccount R) (addAllSecrets secList))))"

section \<open>What the copies hold\<close>

abbreviation sec_NN :: "KSecretObj \<Rightarrow> NamespacedName" where
  "sec_NN k \<equiv> NN (om_Name (sec_ObjectMeta k)) (om_Namespace (sec_ObjectMeta k))"

text \<open>The client returns the secret it was asked for.\<close>

definition client_names :: "'w ProvDeps \<Rightarrow> bool" where
  "client_names d = (\<forall>nn w sec. pd_GetSecret d nn w = Inr sec \<longrightarrow> sec_NN sec = nn)"

text \<open>Creating an object in the cache changes no secret of the cluster, and updating one changes at most the secret of that name.\<close>

definition writes_one_secret :: "'w ProvDeps \<Rightarrow> ('w \<times> 'c, KSecretObj) Resource \<Rightarrow> bool" where
  "writes_one_secret d r =
     ((\<forall>ps nn s. pd_GetSecret d ps (fst (fst (res_Create r nn s))) = pd_GetSecret d ps (fst s))
      \<and> (\<forall>ps k s. ps \<noteq> sec_NN k \<longrightarrow> pd_GetSecret d ps (fst (fst (res_Update r k s))) = pd_GetSecret d ps (fst s)))"

text \<open>The object the secrets are copied for does not change while they are copied.\<close>

definition settled :: "(('w, 'c) Provider \<Rightarrow> ClowdObject) \<Rightarrow> bool" where
  "settled obj = (\<forall>p q. prov_Env p = prov_Env q \<longrightarrow> obj p = obj q)"

lemma settled_objects [simp]: "settled env_object" "settled (\<lambda>_. o')"
  by (simp_all add: settled_def env_object_def)

lemma settledD: "settled obj \<Longrightarrow> prov_Env p = prov_Env q \<Longrightarrow> obj p = obj q"
  unfolding settled_def by blast

lemma cache_step_stable:
  assumes "writes_one_secret d r"
  shows "cache_Create r nn p = Some (p', x) \<Longrightarrow> pd_GetSecret d ps (prov_World p') = pd_GetSecret d ps (prov_World p)"
    and "cache_Update r k p = Some (p', y) \<Longrightarrow> ps \<noteq> sec_NN k \<Longrightarrow> pd_GetSecret d ps (prov_World p') = pd_GetSecret d ps (prov_World p)"
proof -
  assume run: "cache_Create r nn p = Some (p', x)"
  then obtain c where c: "prov_Cache p = Some c" by (cases "prov_Cache p") (auto simp: cache_Create_def cached_def)
  have "pd_GetSecret d ps (fst (fst (res_Create r nn (prov_World p, c)))) = pd_GetSecret d ps (prov_World p)"
    using assms unfolding writes_one_secret_def by force
  with run c show "pd_GetSecret d ps (prov_World p') = pd_GetSecret d ps (prov_World p)"
    by (auto simp: cache_Create_def cached_def split: prod.splits)
next
  assume run: "cache_Update r k p = Some (p', y)" and ne: "ps \<noteq> sec_NN k"
  from run obtain c where c: "prov_Cache p = Some c" by (cases "prov_Cache p") (auto simp: cache_Update_def cached_def)
  have "pd_GetSecret d ps (fst (fst (res_Update r k (prov_World p, c)))) = pd_GetSecret d ps (prov_World p)"
    using assms ne unfolding writes_one_secret_def by force
  with run c show "pd_GetSecret d ps (prov_World p') = pd_GetSecret d ps (prov_World p)"
    by (auto simp: cache_Update_def cached_def split: prod.splits option.splits)
qed

lemma cache_step_frame:
  "cache_Create r nn p = Some (p', x) \<Longrightarrow> prov_Env p' = prov_Env p \<and> prov_HashCache p' = prov_HashCache p \<and> prov_Config p' = prov_Config p"
  "cache_Update r' k p = Some (p', y) \<Longrightarrow> prov_Env p' = prov_Env p \<and> prov_HashCache p' = prov_HashCache p \<and> prov_Config p' = prov_Config p"
  by (auto simp: cache_Create_def cache_Update_def cached_def split: prod.splits option.splits)

text \<open>One turn of the loop.\<close>

definition copied ::
  "(KSecretObj \<Rightarrow> bool) \<Rightarrow> ('s \<Rightarrow> NamespacedName \<rightharpoonup> KSecretObj) \<Rightarrow> NamespacedName \<Rightarrow> 's \<Rightarrow> 's \<Rightarrow> bool" where
  "copied good recorded nn s s' = (\<exists>k. recorded s' = (recorded s)(nn \<mapsto> k) \<and> good k)"

lemma copy_pull_secret_steps:
  assumes run: "copy_pull_secret d r ns obj ps p = Some (p', Inr n)" and settled: "settled obj"
  obtains src p1 where "pd_GetSecret d ps (prov_World p) = Inr src" and "track_secret d obj src p = Some (p1, Inr ())"
    and "write_copy d r (shares_copies (prov_Env p) (obj p)) (prov_Env p) (NN (copy_name (prov_Env p) ps) ns) src (copy_name (prov_Env p) ps) p1 = Some (p', Inr n)"
proof -
  obtain src where src: "pd_GetSecret d ps (prov_World p) = Inr src"
    using run by (cases "pd_GetSecret d ps (prov_World p)") (auto simp: copy_pull_secret_def and_next_def get_secret_def)
  obtain p1 where p1: "track_secret d obj src p = Some (p1, Inr ())"
    using run src unfolding copy_pull_secret_def by (auto simp: and_next_apply get_secret_def)
  have env: "prov_Env p1 = prov_Env p" using track_secret_frame [OF p1] by auto
  have obj1: "obj p1 = obj p" by (rule settledD [OF settled env])
  have get: "and_next (get_secret d ps) F p = F src p" for F :: "KSecretObj \<Rightarrow> (('a, 'b) Provider, string) op"
    by (simp add: and_next_def get_secret_def src)
  have track: "and_next (track_secret d obj src) G p = G () p1" for G :: "unit \<Rightarrow> (('a, 'b) Provider, string) op"
    by (simp add: and_next_def p1)
  show thesis
    by (rule that [OF src p1 run [unfolded copy_pull_secret_def get track and_next_reads Let_def prod.case obj1 env]])
qed

lemma write_copy_ok:
  assumes run: "write_copy d r shared env nn src name p = Some (p', Inr n)" and cache: "object_cache r sec_NN recorded" and stable: "writes_one_secret d r"
  shows "n = name \<and> prov_Env p' = prov_Env p \<and> prov_HashCache p' = prov_HashCache p
    \<and> (\<forall>ps. ps \<noteq> nn \<longrightarrow> pd_GetSecret d ps (prov_World p') = pd_GetSecret d ps (prov_World p))
    \<and> (if shared then prov_recorded recorded p' = prov_recorded recorded p
       else \<exists>k. prov_recorded recorded p' = (prov_recorded recorded p)(nn \<mapsto> k) \<and> sec_Data k = sec_Data src \<and> sec_Type k = sec_Type src)"
proof (cases shared)
  case True
  with run show ?thesis by (auto simp: write_copy_def)
next
  case False
  then obtain g p2 k p3 where g: "cache_Get r (Some nn) p = Some (p2, Inr g)"
    and k: "(case g of Inr k \<Rightarrow> ret k | Inl _ \<Rightarrow> cache_Create r nn) p2 = Some (p3, Inr k)"
    and u: "cache_Update r (pull_secret_copy d env nn src k) p3 = Some (p', Inr ())" and n: "n = name"
    using run by (auto simp: write_copy_def and_next_apply)
  have p2: "p2 = p" using g by (rule get_records)
  have p3: "prov_recorded recorded p3 = prov_recorded recorded p \<and> prov_Env p3 = prov_Env p \<and> prov_HashCache p3 = prov_HashCache p
      \<and> (\<forall>ps. pd_GetSecret d ps (prov_World p3) = pd_GetSecret d ps (prov_World p))"
    using k p2 by (cases g) (auto dest: create_records [OF cache] cache_step_frame(1) cache_step_stable(1) [OF stable])
  have copy: "sec_NN (pull_secret_copy d env nn src k) = nn" "sec_Data (pull_secret_copy d env nn src k) = sec_Data src" "sec_Type (pull_secret_copy d env nn src k) = sec_Type src"
    by (simp_all add: pull_secret_copy_def Let_def)
  then have "prov_recorded recorded p' = (prov_recorded recorded p)(nn \<mapsto> pull_secret_copy d env nn src k)"
    using update_records [OF cache u] p3 by simp
  with False n p3 copy show ?thesis
    using cache_step_frame(2) [OF u] cache_step_stable(2) [OF stable u] by auto
qed

lemma copy_pull_secret_ok:
  assumes run: "copy_pull_secret d r ns obj ps p = Some (p', Inr n)" and cache: "object_cache r sec_NN recorded"
    and names: "client_names d" and stable: "writes_one_secret d r"
    and settled: "settled obj"
  shows "n = copy_name (prov_Env p) ps" and "prov_Env p' = prov_Env p"
    and "\<And>ps'. ps' \<noteq> NN (copy_name (prov_Env p) ps) ns \<Longrightarrow> pd_GetSecret d ps' (prov_World p') = pd_GetSecret d ps' (prov_World p)"
    and "\<exists>src. pd_GetSecret d ps (prov_World p) = Inr src \<and>
          (if shares_copies (prov_Env p) (obj p) then prov_recorded recorded p' = prov_recorded recorded p
           else copied (\<lambda>k. sec_Data k = sec_Data src \<and> sec_Type k = sec_Type src) recorded (NN (copy_name (prov_Env p) ps) ns)
                  (prov_World p, the (prov_Cache p)) (prov_World p', the (prov_Cache p')))"
    and "followed (secret_ident ps) (prov_HashCache p) \<Longrightarrow> depends_on (obj p) (secret_ident ps) (prov_HashCache p')"
    and "\<And>o' i. depends_on o' i (prov_HashCache p) \<Longrightarrow> depends_on o' i (prov_HashCache p')"
    and "\<And>i. followed i (prov_HashCache p) \<Longrightarrow> followed i (prov_HashCache p')"
proof -
  obtain src p1 where src: "pd_GetSecret d ps (prov_World p) = Inr src" and p1: "track_secret d obj src p = Some (p1, Inr ())"
    and w: "write_copy d r (shares_copies (prov_Env p) (obj p)) (prov_Env p) (NN (copy_name (prov_Env p) ps) ns) src (copy_name (prov_Env p) ps) p1 = Some (p', Inr n)"
    by (rule copy_pull_secret_steps [OF run settled])
  obtain hc where hc: "p1 = p\<lparr>prov_HashCache := hc\<rparr>" using track_secret_frame [OF p1] by blast
  have rec: "prov_recorded recorded p1 = prov_recorded recorded p" by (simp add: hc)
  note fin = write_copy_ok [OF w cache stable]
  show "n = copy_name (prov_Env p) ps" "prov_Env p' = prov_Env p"
    "\<And>ps'. ps' \<noteq> NN (copy_name (prov_Env p) ps) ns \<Longrightarrow> pd_GetSecret d ps' (prov_World p') = pd_GetSecret d ps' (prov_World p)"
    using fin hc by auto
  show "\<exists>src. pd_GetSecret d ps (prov_World p) = Inr src \<and>
          (if shares_copies (prov_Env p) (obj p) then prov_recorded recorded p' = prov_recorded recorded p
           else copied (\<lambda>k. sec_Data k = sec_Data src \<and> sec_Type k = sec_Type src) recorded (NN (copy_name (prov_Env p) ps) ns)
                  (prov_World p, the (prov_Cache p)) (prov_World p', the (prov_Cache p')))"
    using fin src unfolding rec by (simp add: copied_def split: if_splits)
  have ident: "ident_of (secret_object src) = secret_ident ps"
    using names src by (auto simp: client_names_def)
  show "followed (secret_ident ps) (prov_HashCache p) \<Longrightarrow> depends_on (obj p) (secret_ident ps) (prov_HashCache p')"
    using track_secret_depends [OF p1] fin ident by simp
  show "\<And>o' i. depends_on o' i (prov_HashCache p) \<Longrightarrow> depends_on o' i (prov_HashCache p')"
    using track_secret_keeps_deps [OF p1] fin by simp
  show "\<And>i. followed i (prov_HashCache p) \<Longrightarrow> followed i (prov_HashCache p')"
    using track_secret_keeps_followed [OF p1] fin by simp
qed

lemma copy_name_inj: "copy_name e a = copy_name e b \<longleftrightarrow> nn_Name a = nn_Name b"
  by (simp add: copy_name_def)

text \<open>The whole loop, from any point of it.\<close>

lemma collect_copies:
  assumes "collect (copy_pull_secret d r ns obj) pss p = Some (p', Inr names)"
    and "object_cache r sec_NN recorded" "client_names d" "writes_one_secret d r" "\<forall>a \<in> set pss. \<forall>b \<in> set pss. a \<noteq> NN (copy_name (prov_Env p) b) ns" "settled obj"
    and "distinct (map nn_Name pss)" "\<not> shares_copies (prov_Env p) (obj p)"
  shows "names = map (copy_name (prov_Env p)) pss \<and> prov_Env p' = prov_Env p
    \<and> (\<forall>nn. nn \<notin> (\<lambda>ps. NN (copy_name (prov_Env p) ps) ns) ` set pss \<longrightarrow> prov_recorded recorded p' nn = prov_recorded recorded p nn)
    \<and> (\<forall>ps \<in> set pss. \<exists>src k. pd_GetSecret d ps (prov_World p) = Inr src
          \<and> prov_recorded recorded p' (NN (copy_name (prov_Env p) ps) ns) = Some k \<and> sec_Data k = sec_Data src \<and> sec_Type k = sec_Type src)
    \<and> (\<forall>ps \<in> set pss. followed (secret_ident ps) (prov_HashCache p) \<longrightarrow> depends_on (obj p) (secret_ident ps) (prov_HashCache p'))
    \<and> (\<forall>o' i. depends_on o' i (prov_HashCache p) \<longrightarrow> depends_on o' i (prov_HashCache p'))"
  using assms(1,5,7,8)
proof (induction pss arbitrary: p names)
  case Nil
  then show ?case by simp
next
  case (Cons ps pss)
  obtain p1 n ns' where step: "copy_pull_secret d r ns obj ps p = Some (p1, Inr n)"
    and loop: "collect (copy_pull_secret d r ns obj) pss p1 = Some (p', Inr ns')" and names: "names = n # ns'"
    using Cons.prems(1) by (auto simp: and_next_apply)
  note one = copy_pull_secret_ok [OF step assms(2,3,4,6)]
  have obj1: "obj p1 = obj p" by (rule settledD [OF assms(6) one(2)])
  obtain src k where src: "pd_GetSecret d ps (prov_World p) = Inr src"
    and k: "prov_recorded recorded p1 = (prov_recorded recorded p)(NN (copy_name (prov_Env p) ps) ns \<mapsto> k)"
      "sec_Data k = sec_Data src" "sec_Type k = sec_Type src"
    using one(4) Cons.prems(4) by (auto simp: copied_def)
  have IH: "ns' = map (copy_name (prov_Env p)) pss" "prov_Env p' = prov_Env p"
    "\<And>nn. nn \<notin> (\<lambda>ps. NN (copy_name (prov_Env p) ps) ns) ` set pss \<Longrightarrow> prov_recorded recorded p' nn = prov_recorded recorded p1 nn"
    "\<And>q. q \<in> set pss \<Longrightarrow> \<exists>src k. pd_GetSecret d q (prov_World p1) = Inr src
          \<and> prov_recorded recorded p' (NN (copy_name (prov_Env p) q) ns) = Some k \<and> sec_Data k = sec_Data src \<and> sec_Type k = sec_Type src"
    "\<And>q. q \<in> set pss \<Longrightarrow> followed (secret_ident q) (prov_HashCache p1) \<Longrightarrow> depends_on (obj p) (secret_ident q) (prov_HashCache p')"
    "\<And>o' i. depends_on o' i (prov_HashCache p1) \<Longrightarrow> depends_on o' i (prov_HashCache p')"
    using Cons.IH [OF loop] Cons.prems one(2) obj1 by auto
  have fresh: "NN (copy_name (prov_Env p) ps) ns \<notin> (\<lambda>ps. NN (copy_name (prov_Env p) ps) ns) ` set pss"
    using Cons.prems(3) by (auto simp: copy_name_inj)
  have here: "prov_recorded recorded p' (NN (copy_name (prov_Env p) ps) ns) = Some k"
    using IH(3) [OF fresh] k(1) by simp
  have others: "\<exists>src k. pd_GetSecret d q (prov_World p) = Inr src
          \<and> prov_recorded recorded p' (NN (copy_name (prov_Env p) q) ns) = Some k \<and> sec_Data k = sec_Data src \<and> sec_Type k = sec_Type src"
    if "q \<in> set pss" for q
    using IH(4) [OF that] one(3) [of q] Cons.prems(2) that by simp
  show ?case
  proof (intro conjI)
    show "names = map (copy_name (prov_Env p)) (ps # pss)" using names IH(1) one(1) by simp
    show "\<forall>nn. nn \<notin> (\<lambda>ps. NN (copy_name (prov_Env p) ps) ns) ` set (ps # pss) \<longrightarrow> prov_recorded recorded p' nn = prov_recorded recorded p nn"
      using IH(3) k(1) by auto
    show "\<forall>q \<in> set (ps # pss). \<exists>src k. pd_GetSecret d q (prov_World p) = Inr src
          \<and> prov_recorded recorded p' (NN (copy_name (prov_Env p) q) ns) = Some k \<and> sec_Data k = sec_Data src \<and> sec_Type k = sec_Type src"
      using here src k(2,3) others by auto
    show "\<forall>q \<in> set (ps # pss). followed (secret_ident q) (prov_HashCache p) \<longrightarrow> depends_on (obj p) (secret_ident q) (prov_HashCache p')"
      using IH(5,6) one(5,7) by auto
  qed (use IH(2,6) one(6) in auto)
qed


lemma pull_secrets_copied_parts:
  assumes "CopyPullSecrets d r ns obj p = Some (p', Inr names)"
    and "object_cache r sec_NN recorded" "client_names d" "writes_one_secret d r" "settled obj"
    and "distinct (map nn_Name (env_PullSecrets (prov_Env p)))" "\<not> shares_copies (prov_Env p) (obj p)"
    and "\<forall>a \<in> set (env_PullSecrets (prov_Env p)). \<forall>b \<in> set (env_PullSecrets (prov_Env p)). a \<noteq> NN (copy_name (prov_Env p) b) ns"
  shows "names = map (copy_name (prov_Env p)) (env_PullSecrets (prov_Env p))"
    and "\<forall>ps \<in> set (env_PullSecrets (prov_Env p)). \<exists>src k. pd_GetSecret d ps (prov_World p) = Inr src
          \<and> prov_recorded recorded p' (NN (copy_name (prov_Env p) ps) ns) = Some k \<and> sec_Data k = sec_Data src \<and> sec_Type k = sec_Type src"
    and "\<forall>nn. nn \<notin> (\<lambda>ps. NN (copy_name (prov_Env p) ps) ns) ` set (env_PullSecrets (prov_Env p)) \<longrightarrow>
          prov_recorded recorded p' nn = prov_recorded recorded p nn"
    and "\<forall>ps \<in> set (env_PullSecrets (prov_Env p)). followed (secret_ident ps) (prov_HashCache p) \<longrightarrow>
          depends_on (obj p) (secret_ident ps) (prov_HashCache p')"
proof -
  have run: "collect (copy_pull_secret d r ns obj) (env_PullSecrets (prov_Env p)) p = Some (p', Inr names)"
    using assms(1) by (simp add: CopyPullSecrets_def)
  note all = collect_copies [OF run assms(2,3,4,8,5,6,7)]
  show "names = map (copy_name (prov_Env p)) (env_PullSecrets (prov_Env p))"
    "\<forall>ps \<in> set (env_PullSecrets (prov_Env p)). \<exists>src k. pd_GetSecret d ps (prov_World p) = Inr src
          \<and> prov_recorded recorded p' (NN (copy_name (prov_Env p) ps) ns) = Some k \<and> sec_Data k = sec_Data src \<and> sec_Type k = sec_Type src"
    "\<forall>nn. nn \<notin> (\<lambda>ps. NN (copy_name (prov_Env p) ps) ns) ` set (env_PullSecrets (prov_Env p)) \<longrightarrow>
          prov_recorded recorded p' nn = prov_recorded recorded p nn"
    "\<forall>ps \<in> set (env_PullSecrets (prov_Env p)). followed (secret_ident ps) (prov_HashCache p) \<longrightarrow>
          depends_on (obj p) (secret_ident ps) (prov_HashCache p')"
    using all by simp_all
qed

text \<open>
  C16. The pull secrets of an environment have distinct names, none of them is itself one of the copies, and the object does not share the copies of the environment, as an app in the target namespace does.
  When they are copied into a namespace without an error, the names returned are those of the copies in order, every copy is recorded with the data and the type of its
  source, nothing else is recorded, and the object the copies are for depends, in the hash cache, on every source whose entry follows its users.
\<close>

theorem pull_secrets_copied:
  assumes "CopyPullSecrets d r ns obj p = Some (p', Inr names)"
    and "object_cache r sec_NN recorded" "client_names d" "writes_one_secret d r" "settled obj"
    and "distinct (map nn_Name (env_PullSecrets (prov_Env p)))" "\<not> shares_copies (prov_Env p) (obj p)"
    and "\<forall>a \<in> set (env_PullSecrets (prov_Env p)). \<forall>b \<in> set (env_PullSecrets (prov_Env p)). a \<noteq> NN (copy_name (prov_Env p) b) ns"
  shows "names = map (\<lambda>ps. env_Name (prov_Env p) @ ''-'' @ nn_Name ps @ ''-clowder-copy'') (env_PullSecrets (prov_Env p))
    \<and> names = map (copy_name (prov_Env p)) (env_PullSecrets (prov_Env p))
    \<and> (\<forall>ps \<in> set (env_PullSecrets (prov_Env p)). \<exists>src k. pd_GetSecret d ps (prov_World p) = Inr src
          \<and> prov_recorded recorded p' (NN (copy_name (prov_Env p) ps) ns) = Some k \<and> sec_Data k = sec_Data src \<and> sec_Type k = sec_Type src)
    \<and> (\<forall>nn. nn \<notin> (\<lambda>ps. NN (copy_name (prov_Env p) ps) ns) ` set (env_PullSecrets (prov_Env p)) \<longrightarrow>
          prov_recorded recorded p' nn = prov_recorded recorded p nn)
    \<and> (\<forall>ps \<in> set (env_PullSecrets (prov_Env p)). followed (secret_ident ps) (prov_HashCache p) \<longrightarrow>
          depends_on (obj p) (secret_ident ps) (prov_HashCache p'))"
proof -
  note parts = pull_secrets_copied_parts [OF assms]
  have "names = map (\<lambda>ps. env_Name (prov_Env p) @ ''-'' @ nn_Name ps @ ''-clowder-copy'') (env_PullSecrets (prov_Env p))"
    using parts(1) by (simp add: copy_name_def)
  with parts show ?thesis by blast
qed

text \<open>A cache that is a map from names to objects, over a cluster that never changes.\<close>

definition map_cache :: "('k \<Rightarrow> NamespacedName) \<Rightarrow> 'k \<Rightarrow> ('w \<times> (NamespacedName \<rightharpoonup> 'k), 'k) Resource" where
  "map_cache name_of zero = \<lparr>
     res_Create = (\<lambda>nn (w, c). ((w, c), Inr (case c nn of Some k \<Rightarrow> k | None \<Rightarrow> zero))),
     res_Update = (\<lambda>k (w, c). ((w, c(name_of k \<mapsto> k)), None)),
     res_Get = (\<lambda>nn (w, c). case nn of None \<Rightarrow> Inl (PlainErr ''not found'')
                 | Some n \<Rightarrow> (case c n of Some k \<Rightarrow> Inr k | None \<Rightarrow> Inl (PlainErr ''not found''))),
     res_List = (\<lambda>(w, c). Inr [])\<rparr>"

lemma map_cache_laws: "object_cache (map_cache name_of zero) name_of snd"
  by (auto simp: object_cache_def map_cache_def)

definition sample_prov_deps :: "(NamespacedName \<Rightarrow> 'w \<Rightarrow> goerr + KSecretObj) \<Rightarrow> (string \<Rightarrow> goerr + ClowdApp list) \<Rightarrow> 'w ProvDeps" where
  "sample_prov_deps secrets apps = \<lparr>pd_GetSecret = secrets, pd_ListApps = (\<lambda>w. apps),
     pd_Labeler = (\<lambda>ls nn o' m. m\<lparr>om_Name := nn_Name nn, om_Namespace := nn_Namespace nn, om_OwnerReferences := [co_MakeOwnerReference o']\<rparr>),
     pd_Sha = (\<lambda>s. s), pd_Marshal = (\<lambda>m. Inr (mget m ''pw'')), pd_Loaded = ClowderConfig_zero, pd_Stack = ''''\<rparr>"

definition sample_secret :: "NamespacedName \<Rightarrow> KSecretObj" where
  "sample_secret nn = KSecretObj_zero\<lparr>sec_ObjectMeta := ObjectMeta_zero\<lparr>om_Name := nn_Name nn, om_Namespace := nn_Namespace nn\<rparr>,
     sec_Data := [''pw'' \<mapsto> nn_Name nn], sec_Type := ''dockercfg''\<rparr>"

definition sample_pull_env :: ClowdEnvironment where
  "sample_pull_env = ClowdEnvironment_zero\<lparr>
     env_ObjectMeta := ObjectMeta_zero\<lparr>om_Name := ''dev''\<rparr>,
     env_Spec := (env_Spec ClowdEnvironment_zero)\<lparr>env_Providers := ProvidersConfig_zero\<lparr>pv_PullSecrets := [NN ''quay'' ''ops'', NN ''rh'' ''ops'']\<rparr>\<rparr>,
     env_Status := (env_Status ClowdEnvironment_zero)\<lparr>est_TargetNamespace := ''dev-ns''\<rparr>\<rparr>"

definition sample_pull_provider :: "(unit, NamespacedName \<rightharpoonup> KSecretObj) Provider" where
  "sample_pull_provider = \<lparr>prov_World = (), prov_Env = sample_pull_env, prov_Cache = Some Map.empty, prov_Config = None, prov_HashCache = []\<rparr>"

definition sample_pull_deps :: "unit ProvDeps" where
  "sample_pull_deps = sample_prov_deps (\<lambda>nn w. Inr (sample_secret nn)) (\<lambda>e. Inr [])"

lemma sample_pull_hyps:
  "client_names sample_pull_deps" "writes_one_secret sample_pull_deps (map_cache sec_NN KSecretObj_zero)"
  "env_PullSecrets sample_pull_env = [NN ''quay'' ''ops'', NN ''rh'' ''ops'']"
  "\<not> shares_copies (prov_Env sample_pull_provider) (env_object sample_pull_provider)"
  "prov_Env sample_pull_provider = sample_pull_env" "env_Name sample_pull_env = ''dev''" "prov_HashCache sample_pull_provider = []"
  by (auto simp: client_names_def sample_pull_deps_def sample_prov_deps_def sample_secret_def writes_one_secret_def map_cache_def
      sample_pull_provider_def sample_pull_env_def shares_copies_def env_object_def ClowdEnvironment_zero_def)

theorem pull_secrets_copied_witness:
  "\<exists>p' src k. CopyPullSecrets sample_pull_deps (map_cache sec_NN KSecretObj_zero) ''dev-ns'' env_object sample_pull_provider
       = Some (p', Inr [''dev-quay-clowder-copy'', ''dev-rh-clowder-copy''])
     \<and> the (prov_Cache p') (NN ''dev-quay-clowder-copy'' ''dev-ns'') = Some k \<and> sec_Data k = sec_Data src
     \<and> pd_GetSecret sample_pull_deps (NN ''quay'' ''ops'') () = Inr src
     \<and> depends_on (EnvObject sample_pull_env) (secret_ident (NN ''quay'' ''ops'')) (prov_HashCache p')"
proof -
  let ?run = "CopyPullSecrets sample_pull_deps (map_cache sec_NN KSecretObj_zero) ''dev-ns'' env_object sample_pull_provider"
  have "case ?run of Some (p', Inr ns) \<Rightarrow> True | _ \<Rightarrow> False" by code_simp
  then obtain p' ns where run: "?run = Some (p', Inr ns)" by (auto split: option.splits prod.splits sum.splits)
  have apart: "\<forall>a \<in> set (env_PullSecrets (prov_Env sample_pull_provider)). \<forall>b \<in> set (env_PullSecrets (prov_Env sample_pull_provider)). a \<noteq> NN (copy_name (prov_Env sample_pull_provider) b) ''dev-ns''"
    by (simp add: sample_pull_hyps)
  have "distinct (map nn_Name (env_PullSecrets (prov_Env sample_pull_provider)))" by (simp add: sample_pull_hyps)
  note copies = pull_secrets_copied [OF run map_cache_laws sample_pull_hyps(1,2) settled_objects(1) this sample_pull_hyps(4) apart]
  have "ns = [''dev-quay-clowder-copy'', ''dev-rh-clowder-copy'']"
    using copies [THEN conjunct1] by (simp add: sample_pull_hyps copy_name_def)
  moreover obtain src k where "pd_GetSecret sample_pull_deps (NN ''quay'' ''ops'') () = Inr src"
    "the (prov_Cache p') (NN ''dev-quay-clowder-copy'' ''dev-ns'') = Some k" "sec_Data k = sec_Data src"
    using copies [THEN conjunct2, THEN conjunct2, THEN conjunct1] by (auto simp: sample_pull_hyps copy_name_def)
  moreover have "depends_on (EnvObject sample_pull_env) (secret_ident (NN ''quay'' ''ops'')) (prov_HashCache p')"
    using copies [THEN conjunct2, THEN conjunct2, THEN conjunct2, THEN conjunct2] by (simp add: sample_pull_hyps followed_def env_object_def)
  ultimately show ?thesis using run by blast
qed

end
