(* ===== verification/Kafka_Topics.thy ===== *)
theory Kafka_Topics
  imports Service_Accounts
begin

text \<open>
  What the Kafka providers share, \<open>providers/kafka/provider.go\<close>: the names of the cluster, the topics, the
  Kafka Connect cluster and the brokers described by a secret. Several apps may ask for the same topic:
  the topic is given the largest number of partitions and replicas any of them asks for, and at most as
  many replicas as the cluster has brokers. \<open>IntMax\<close> and \<open>ListMerge\<close> of \<open>rhc-osdk-utils\<close>, the JSON values of
  \<open>apiextensions\<close> and the order in which Go ranges over a map are parameters.

  The facts: the numbers a topic gets and when it is refused; what is recorded for the topics of an app and
  written to its configuration, for every provider that names topics injectively.
\<close>

record KTopic =
  ktp_ObjectMeta :: ObjectMeta
  ktp_Config :: "opaque option"
  ktp_Replicas :: "int option"
  ktp_Partitions :: "int option"

definition KTopic_zero :: KTopic where
  "KTopic_zero = \<lparr>ktp_ObjectMeta = ObjectMeta_zero, ktp_Config = None, ktp_Replicas = None, ktp_Partitions = None\<rparr>"

record KConnect =
  kcn_ObjectMeta :: ObjectMeta
  kcn_Replicas :: int
  kcn_BootstrapServers :: string
  kcn_Version :: string
  kcn_Config :: opaque
  kcn_Image :: string
  kcn_Requests :: opaque
  kcn_Limits :: opaque
  kcn_ImagePullSecrets :: "string list"
  kcn_JvmOptions :: "string \<times> string"
  kcn_Tls :: "(string \<times> string) list option"
  kcn_Authentication :: "(string \<times> string \<times> string) option"

record 'w KafkaDeps =
  kd_Prov :: "'w ProvDeps"
  kd_IntMax :: "string list \<Rightarrow> string \<times> goerr option"
  kd_ListMerge :: "string list \<Rightarrow> string \<times> goerr option"
  kd_UnmarshalJSON :: "string \<Rightarrow> goerr + opaque"
  kd_MarshalJSON :: "(string \<times> string) list \<Rightarrow> goerr + string"
  kd_Iter :: "string list \<Rightarrow> string list"

abbreviation kd_Loaded :: "'w KafkaDeps \<Rightarrow> ClowderConfig" where "kd_Loaded d \<equiv> pd_Loaded (kd_Prov d)"
abbreviation kd_Stack :: "'w KafkaDeps \<Rightarrow> string" where "kd_Stack d \<equiv> pd_Stack (kd_Prov d)"

text \<open>A value that is an error, or a panic, in the middle of an operation.\<close>

definition settle :: "(goerr + 'a) option \<Rightarrow> ('p, 'a) op" where
  "settle x = (case x of None \<Rightarrow> panics | Some r \<Rightarrow> result r)"

text \<open>What the rest of the package asks of a Kafka provider.\<close>

record ('w, 'c) kafka_provider =
  kp_KafkaTopicName :: "KafkaTopicSpec \<Rightarrow> string \<Rightarrow> (('w, 'c) Provider, string) op"
  kp_KafkaName :: "ClowdEnvironment \<Rightarrow> string"
  kp_KafkaNamespace :: "ClowdEnvironment \<Rightarrow> string"
  kp_getConnectClusterUserName :: "(('w, 'c) Provider, string) op"
  kp_getBootstrapServersString :: "(('w, 'c) Provider, string) op"
  kp_connectConfig :: "(('w, 'c) Provider, opaque) op"
  kp_getKafkaConnectTrustedCertSecretName :: "(('w, 'c) Provider, string) op"

section \<open>Names\<close>

definition DefaultImageKafkaConnect :: string where
  "DefaultImageKafkaConnect = ''quay.io/redhat-services-prod/hcm-eng-prod-tenant/kafka-connect''"

definition getKafkaUsername :: "ClowdEnvironment \<Rightarrow> ClowdApp \<Rightarrow> string" where
  "getKafkaUsername env app = env_Name env @ ''-'' @ app_Name app"

definition getKafkaName :: "ClowdEnvironment \<Rightarrow> string" where
  "getKafkaName e = (if kcc_Name (kaf_Cluster (env_Kafka e)) = '''' then env_Name e else kcc_Name (kaf_Cluster (env_Kafka e)))"

definition getKafkaNamespace :: "ClowdEnvironment \<Rightarrow> string" where
  "getKafkaNamespace e =
     (if kcc_Namespace (kaf_Cluster (env_Kafka e)) = '''' then est_TargetNamespace (env_Status e)
      else kcc_Namespace (kaf_Cluster (env_Kafka e)))"

definition getConnectNamespace :: "ClowdEnvironment \<Rightarrow> string" where
  "getConnectNamespace env =
     (if kco_Namespace (kaf_Connect (env_Kafka env)) = '''' then getKafkaNamespace env else kco_Namespace (kaf_Connect (env_Kafka env)))"

definition getConnectClusterName :: "ClowdEnvironment \<Rightarrow> string" where
  "getConnectClusterName env =
     (if kco_Name (kaf_Connect (env_Kafka env)) = '''' then getKafkaName env else kco_Name (kaf_Connect (env_Kafka env)))"

section \<open>The values of a topic\<close>

definition conversionMap :: "'w KafkaDeps \<Rightarrow> string \<Rightarrow> (string list \<Rightarrow> string \<times> goerr option) option" where
  "conversionMap d = map_of [(''retention.ms'', kd_IntMax d), (''retention.bytes'', kd_IntMax d),
     (''min.compaction.lag.ms'', kd_IntMax d), (''cleanup.policy'', kd_ListMerge d)]"

text \<open>The requests of all apps for the topic, the keys of their configurations and the values of a key.\<close>

definition topic_requests :: "ClowdApp list \<Rightarrow> KafkaTopicSpec \<Rightarrow> KafkaTopicSpec list" where
  "topic_requests apps topic =
     concat (map (\<lambda>iapp. filter (\<lambda>itopic. kt_TopicName itopic = kt_TopicName topic) (app_KafkaTopics (app_Spec iapp))) apps)"

definition config_keys :: "KafkaTopicSpec list \<Rightarrow> string list" where
  "config_keys ts = rev (remdups (rev (concat (map (\<lambda>t. map fst (kt_Config t)) ts))))"

definition key_values :: "KafkaTopicSpec list \<Rightarrow> string \<Rightarrow> string list" where
  "key_values ts key = List.map_filter (\<lambda>t. map_of (kt_Config t) key) ts"

fun topic_json :: "'w KafkaDeps \<Rightarrow> KafkaTopicSpec list \<Rightarrow> string list \<Rightarrow> string \<Rightarrow> goerr + string" where
  "topic_json d ts [] jsonData = Inr jsonData"
| "topic_json d ts (key # keys) jsonData =
     (case conversionMap d key of
        None \<Rightarrow> Inl (NewClowderError (kd_Stack d) (''no conversion type for '' @ key))
      | Some f \<Rightarrow> topic_json d ts keys (jsonData @ [CHR 0x22] @ key @ [CHR 0x22] @ '':'' @ [CHR 0x22] @ fst (f (key_values ts key)) @ [CHR 0x22] @ '',''))"

definition int32 :: "int \<Rightarrow> int" where
  "int32 i = sint (word_of_int i :: 32 word)"

text \<open>The largest of the requested numbers, three when it is not positive, nothing when no app asks.\<close>

definition largest :: "'w KafkaDeps \<Rightarrow> string \<Rightarrow> int list \<Rightarrow> goerr + int option" where
  "largest d what vals =
     (if vals = [] then Inr None
      else (case kd_IntMax d (map itoa vals) of
              (_, Some err) \<Rightarrow> Inl (NewClowderError (kd_Stack d) (''could not compute max for ['' @ join '' '' (map itoa vals) @ '']''))
            | (m, None) \<Rightarrow>
                (case atoi m of
                   None \<Rightarrow> Inl (NewClowderError (kd_Stack d) (what @ m))
                 | Some i \<Rightarrow> Inr (Some (if int32 i < 1 then 3 else int32 i)))))"

definition strip_last :: "string \<Rightarrow> string" where
  "strip_last s = (if length s > 1 then butlast s else s)"

definition cap_replicas :: "int \<Rightarrow> KTopic \<Rightarrow> KTopic option" where
  "cap_replicas brokers k =
     (if brokers < 1 then Some (k\<lparr>ktp_Replicas := Some 1\<rparr>)
      else (case ktp_Replicas k of
              None \<Rightarrow> None
            | Some r \<Rightarrow> Some (if brokers < r then k\<lparr>ktp_Replicas := Some brokers\<rparr> else k)))"

definition processTopicValues ::
  "'w KafkaDeps \<Rightarrow> KTopic \<Rightarrow> ClowdEnvironment \<Rightarrow> ClowdApp list \<Rightarrow> KafkaTopicSpec \<Rightarrow> (goerr + KTopic) option" where
  "processTopicValues d k env appList topic =
     (let ts = topic_requests appList topic
      in case topic_json d ts (kd_Iter d (config_keys ts)) ''{'' of
           Inl err \<Rightarrow> Some (Inl err)
         | Inr jsonData \<Rightarrow>
             (case kd_UnmarshalJSON d (strip_last jsonData @ ''}'') of
                Inl err \<Rightarrow> Some (Inl err)
              | Inr config \<Rightarrow>
                  (case largest d ''could not convert string to int32 for '' (map kt_Replicas ts) of
                     Inl err \<Rightarrow> Some (Inl err)
                   | Inr replicas \<Rightarrow>
                       (case largest d ''could not convert to string to int32 for '' (map kt_Partitions ts) of
                          Inl err \<Rightarrow> Some (Inl err)
                        | Inr partitions \<Rightarrow>
                            (let k1 = k\<lparr>ktp_Config := Some config\<rparr>;
                                 k2 = (if replicas = None then k1 else k1\<lparr>ktp_Replicas := replicas\<rparr>);
                                 k3 = (if partitions = None then k2 else k2\<lparr>ktp_Partitions := partitions\<rparr>)
                             in case cap_replicas (kcc_Replicas (kaf_Cluster (env_Kafka env))) k3 of
                                  None \<Rightarrow> None
                                | Some k' \<Rightarrow> Some (Inr k'))))))"

section \<open>The topics of an app\<close>

definition topic_object :: "('w, 'c) kafka_provider \<Rightarrow> ClowdEnvironment \<Rightarrow> ClowdApp \<Rightarrow> string \<Rightarrow> KTopic \<Rightarrow> KTopic" where
  "topic_object s env app topicName k =
     \<lparr>ktp_ObjectMeta = (ktp_ObjectMeta k)\<lparr>om_Name := topicName, om_Namespace := kp_KafkaNamespace s env,
         om_OwnerReferences := [env_MakeOwnerReference env],
         om_Labels := [''strimzi.io/cluster'' \<mapsto> kp_KafkaName s env, ''env'' \<mapsto> app_EnvName (app_Spec app)]\<rparr>,
       ktp_Config = None, ktp_Replicas = None, ktp_Partitions = None\<rparr>"

definition process_topic ::
  "'w KafkaDeps \<Rightarrow> ('w, 'c) kafka_provider \<Rightarrow> ('w \<times> 'c, KTopic) Resource \<Rightarrow> ClowdApp \<Rightarrow> ClowdApp list \<Rightarrow> KafkaTopicSpec
    \<Rightarrow> (('w, 'c) Provider, TopicConfig) op" where
  "process_topic d s KafkaTopic app appList topic =
     and_next (kp_KafkaTopicName s topic (app_Namespace app)) (\<lambda>topicName.
     and_next (reads prov_Env) (\<lambda>env.
     and_next (cache_Create KafkaTopic (NN topicName (kp_KafkaNamespace s env))) (\<lambda>k.
     and_next (settle (processTopicValues d (topic_object s env app topicName k) env appList topic)) (\<lambda>k'.
     and_next (cache_Update KafkaTopic k') (\<lambda>_.
       ret \<lparr>top_Name = topicName, top_RequestedName = kt_TopicName topic\<rparr>)))))"

definition set_kafka :: "(KafkaCfg \<Rightarrow> KafkaCfg) \<Rightarrow> (('w, 'c) Provider, unit) op" where
  "set_kafka f =
     and_next the_config (\<lambda>c.
     and_next (deref (cfg_Kafka c)) (\<lambda>k.
       changes (\<lambda>p. p\<lparr>prov_Config := Some (c\<lparr>cfg_Kafka := Some (f k)\<rparr>)\<rparr>)))"

definition processTopics ::
  "'w KafkaDeps \<Rightarrow> ('w, 'c) kafka_provider \<Rightarrow> ('w \<times> 'c, KTopic) Resource \<Rightarrow> ClowdApp \<Rightarrow> (('w, 'c) Provider, unit) op" where
  "processTopics d s KafkaTopic app =
     and_next (map_err (Wrap (kd_Stack d) ''Topic creation failed: Error listing apps'') (apps_in_env (kd_Prov d))) (\<lambda>appList.
     and_next (collect (process_topic d s KafkaTopic app appList) (app_KafkaTopics (app_Spec app))) (\<lambda>topicConfig.
       set_kafka (\<lambda>k. k\<lparr>kc_Topics := topicConfig\<rparr>)))"

section \<open>The numbers of a topic\<close>

text \<open>What \<open>utils.IntMax\<close> documents: the largest of the numbers, as a string.\<close>

definition int_max_law :: "'w KafkaDeps \<Rightarrow> bool" where
  "int_max_law d = (\<forall>xs. xs \<noteq> [] \<longrightarrow> (\<forall>x \<in> set xs. - (2 ^ 31) \<le> x \<and> x < 2 ^ 31) \<longrightarrow> kd_IntMax d (map itoa xs) = (itoa (Max (set xs)), None))"

definition wanted_number :: "int list \<Rightarrow> int" where
  "wanted_number vals = (if Max (set vals) < 1 then 3 else Max (set vals))"

definition in_int32 :: "int \<Rightarrow> bool" where
  "in_int32 i = (- (2 ^ 31) \<le> i \<and> i < 2 ^ 31)"

lemma int32_id: "in_int32 i \<Longrightarrow> int32 i = i"
  by (simp add: int32_def in_int32_def sint_sbintrunc' signed_take_bit_int_eq_self)

lemma largest_ok:
  assumes "int_max_law d" "vals \<noteq> []" "\<forall>x \<in> set vals. in_int32 x"
  shows "largest d what vals = Inr (Some (wanted_number vals))"
proof -
  have "Max (set vals) \<in> set vals" using assms(2) by simp
  with assms(3) have m: "in_int32 (Max (set vals))" by blast
  then have "atoi (itoa (Max (set vals))) = Some (Max (set vals))"
    by (intro atoi_itoa) (auto simp: in_int32_def)
  moreover have "kd_IntMax d (map itoa vals) = (itoa (Max (set vals)), None)"
    using assms unfolding int_max_law_def in_int32_def by blast
  ultimately show ?thesis
    using assms(2) by (simp add: largest_def int32_id [OF m] wanted_number_def)
qed

definition json_entry :: "'w KafkaDeps \<Rightarrow> KafkaTopicSpec list \<Rightarrow> string \<Rightarrow> string" where
  "json_entry d ts key = [CHR 0x22] @ key @ [CHR 0x22] @ '':'' @ [CHR 0x22] @ fst (the (conversionMap d key) (key_values ts key)) @ [CHR 0x22]"

text \<open>The document written for the configuration of a topic.\<close>

definition json_object :: "string list \<Rightarrow> string" where
  "json_object es = ''{'' @ join '','' es @ ''}''"

lemma topic_json_cases:
  "topic_json d ts keys acc =
     (if \<forall>key \<in> set keys. conversionMap d key \<noteq> None then Inr (acc @ concat (map (\<lambda>k. json_entry d ts k @ '','') keys))
      else Inl (NewClowderError (kd_Stack d) (''no conversion type for '' @ hd (filter (\<lambda>k. conversionMap d k = None) keys))))"
  by (induction keys arbitrary: acc) (auto simp: json_entry_def split: option.splits)

lemma butlast_concat_join: "es \<noteq> [] \<Longrightarrow> butlast (concat (map (\<lambda>e. e @ '','') es)) = join '','' es"
proof (induction es)
  case (Cons e es)
  then show ?case by (cases es) (auto simp: butlast_append)
qed simp

lemma strip_json: "strip_last (''{'' @ concat (map (\<lambda>e. e @ '','') es)) @ ''}'' = json_object es"
proof (cases es)
  case (Cons e es')
  then have "concat (map (\<lambda>e. e @ '','') es) \<noteq> []" by auto
  with Cons show ?thesis
    using butlast_concat_join [of es] by (simp add: strip_last_def json_object_def butlast_append)
qed (simp add: strip_last_def json_object_def)

lemma requests_nonempty: "a \<in> set apps \<Longrightarrow> t \<in> set (app_KafkaTopics (app_Spec a)) \<Longrightarrow> topic_requests apps t \<noteq> []"
  by (auto simp: topic_requests_def filter_empty_conv)

text \<open>The topic that results when it is not refused.\<close>

definition topic_with :: "'w KafkaDeps \<Rightarrow> opaque \<Rightarrow> KTopic \<Rightarrow> ClowdEnvironment \<Rightarrow> KafkaTopicSpec list \<Rightarrow> KTopic" where
  "topic_with d config k env ts =
     (let brokers = kcc_Replicas (kaf_Cluster (env_Kafka env))
      in k\<lparr>ktp_Config := Some config,
           ktp_Replicas := Some (if brokers < 1 then 1 else min brokers (wanted_number (map kt_Replicas ts))),
           ktp_Partitions := Some (wanted_number (map kt_Partitions ts))\<rparr>)"

lemma cap_replicas_some:
  "ktp_Replicas k = Some r \<Longrightarrow> cap_replicas b k = Some (k\<lparr>ktp_Replicas := Some (if b < 1 then 1 else min b r)\<rparr>)"
  by (cases k) (auto simp: cap_replicas_def)

text \<open>
  C17. A topic that a listed app asks for is refused exactly when one of the apps that ask for it configures a
  key without a conversion, or the configuration does not unmarshal. Otherwise it gets the largest number
  of partitions any app asks for and the largest number of replicas, three in place of a number
  below one, and the replicas are no more than the brokers of the cluster, one when that number is
  not set. Never does the computation panic.
\<close>

theorem topic_values_exact:
  assumes law: "int_max_law d" and iter: "go_iteration (kd_Iter d)"
    and app: "a \<in> set apps" "topic \<in> set (app_KafkaTopics (app_Spec a))"
    and range: "\<forall>t \<in> set (topic_requests apps topic). in_int32 (kt_Replicas t) \<and> in_int32 (kt_Partitions t)"
  defines "ts \<equiv> topic_requests apps topic"
  shows "processTopicValues d k env apps topic =
    (if \<exists>t \<in> set ts. \<exists>key \<in> fst ` set (kt_Config t). conversionMap d key = None
     then Some (Inl (NewClowderError (kd_Stack d) (''no conversion type for ''
            @ hd (filter (\<lambda>k. conversionMap d k = None) (kd_Iter d (config_keys ts))))))
     else (case kd_UnmarshalJSON d (json_object (map (json_entry d ts) (kd_Iter d (config_keys ts)))) of
             Inl err \<Rightarrow> Some (Inl err)
           | Inr config \<Rightarrow> Some (Inr (topic_with d config k env ts))))"
proof -
  have ne: "ts \<noteq> []" unfolding ts_def by (rule requests_nonempty [OF app])
  have "largest d w (map kt_Replicas ts) = Inr (Some (wanted_number (map kt_Replicas ts)))"
    "largest d w (map kt_Partitions ts) = Inr (Some (wanted_number (map kt_Partitions ts)))" for w
    using largest_ok [OF law] ne range by (auto simp: ts_def)
  moreover have "(\<forall>key \<in> set (kd_Iter d (config_keys ts)). conversionMap d key \<noteq> None) \<longleftrightarrow>
      \<not> (\<exists>t \<in> set ts. \<exists>key \<in> fst ` set (kt_Config t). conversionMap d key = None)"
    unfolding go_iteration_set [OF iter] config_keys_def by simp
  then have "topic_json d ts (kd_Iter d (config_keys ts)) ''{'' =
     (if \<exists>t \<in> set ts. \<exists>key \<in> fst ` set (kt_Config t). conversionMap d key = None
      then Inl (NewClowderError (kd_Stack d) (''no conversion type for '' @ hd (filter (\<lambda>k. conversionMap d k = None) (kd_Iter d (config_keys ts)))))
      else Inr (''{'' @ concat (map (\<lambda>k. json_entry d ts k @ '','') (kd_Iter d (config_keys ts)))))"
    unfolding topic_json_cases by presburger
  moreover have "strip_last (''{'' @ concat (map (\<lambda>k. json_entry d ts k @ '','') keys)) @ ''}'' = json_object (map (json_entry d ts) keys)" for keys
    using strip_json [of "map (json_entry d ts) keys"] by (simp add: comp_def)
  moreover have "cap_replicas (kcc_Replicas (kaf_Cluster (env_Kafka env)))
      (k\<lparr>ktp_Config := Some config, ktp_Replicas := Some (wanted_number (map kt_Replicas ts)), ktp_Partitions := Some (wanted_number (map kt_Partitions ts))\<rparr>)
      = Some (topic_with d config k env ts)" for config
    by (cases k, subst cap_replicas_some) (simp_all add: topic_with_def Let_def)
  ultimately show ?thesis
    unfolding processTopicValues_def ts_def [symmetric] Let_def
    by (cases "\<exists>t \<in> set ts. \<exists>key \<in> fst ` set (kt_Config t). conversionMap d key = None")
      (simp_all del: append.simps bex_simps ball_simps image_iff split: sum.splits)
qed

lemma topic_with_bounds:
  "1 \<le> the (ktp_Replicas (topic_with d config k env ts))"
  "the (ktp_Replicas (topic_with d config k env ts)) \<le> max 1 (kcc_Replicas (kaf_Cluster (env_Kafka env)))"
  "1 \<le> the (ktp_Partitions (topic_with d config k env ts))"
  by (auto simp: topic_with_def Let_def wanted_number_def)

lemma wanted_number_ge: "x \<in> set vals \<Longrightarrow> x \<le> wanted_number vals"
proof -
  assume "x \<in> set vals"
  then have "x \<le> Max (set vals)" by simp
  then show ?thesis by (auto simp: wanted_number_def)
qed

lemma topic_with_enough:
  "t \<in> set ts \<Longrightarrow> kt_Partitions t \<le> the (ktp_Partitions (topic_with d config k env ts))"
  by (simp add: topic_with_def Let_def wanted_number_ge)

definition sample_kafka_deps :: "(string \<Rightarrow> goerr + ClowdApp list) \<Rightarrow> 'w KafkaDeps" where
  "sample_kafka_deps apps = \<lparr>kd_Prov = sample_prov_deps (\<lambda>nn w. Inr (sample_secret nn)) apps,
     kd_IntMax = (\<lambda>xs. (itoa (Max (set (map (\<lambda>x. the (atoi x)) xs))), None)), kd_ListMerge = (\<lambda>xs. (join '','' xs, None)),
     kd_UnmarshalJSON = Inr, kd_MarshalJSON = (\<lambda>m. Inr ''{}''), kd_Iter = (\<lambda>ks. ks)\<rparr>"

lemma sample_kafka_laws: "int_max_law (sample_kafka_deps apps)" "go_iteration (kd_Iter (sample_kafka_deps apps))"
proof -
  have "(\<lambda>x. the (atoi (itoa x))) ` set xs = set xs" if "\<forall>x \<in> set xs. - (2 ^ 31) \<le> x \<and> x < 2 ^ 31" for xs
  proof -
    have "the (atoi (itoa x)) = x" if "x \<in> set xs" for x
      using atoi_itoa [of x] that \<open>\<forall>x \<in> set xs. - (2 ^ 31) \<le> x \<and> x < 2 ^ 31\<close> by force
    then show ?thesis by force
  qed
  then show "int_max_law (sample_kafka_deps apps)"
    by (simp add: int_max_law_def sample_kafka_deps_def image_image)
qed (simp add: sample_kafka_deps_def)

definition sample_topic_app :: "string \<Rightarrow> int \<Rightarrow> ClowdApp" where
  "sample_topic_app n parts = ClowdApp_zero\<lparr>app_ObjectMeta := ObjectMeta_zero\<lparr>om_Name := n, om_Namespace := n\<rparr>,
     app_Spec := ClowdAppSpec_zero\<lparr>app_EnvName := ''dev'', app_KafkaTopics :=
       [\<lparr>kt_Config = [(''retention.ms'', itoa parts)], kt_Partitions = parts, kt_Replicas = 0, kt_TopicName = ''events''\<rparr>]\<rparr>\<rparr>"

theorem topic_values_exact_witness:
  "processTopicValues (sample_kafka_deps (\<lambda>e. Inr []) :: unit KafkaDeps) KTopic_zero (ClowdEnvironment_zero) [sample_topic_app ''a'' 4, sample_topic_app ''b'' 7]
      (hd (app_KafkaTopics (app_Spec (sample_topic_app ''a'' 4))))
    = Some (Inr (topic_with (sample_kafka_deps (\<lambda>e. Inr []) :: unit KafkaDeps) (''{'' @ [CHR 0x22] @ ''retention.ms'' @ [CHR 0x22] @ '':'' @ [CHR 0x22] @ ''7'' @ [CHR 0x22] @ ''}'')
        KTopic_zero ClowdEnvironment_zero (concat (map (\<lambda>a. app_KafkaTopics (app_Spec a)) [sample_topic_app ''a'' 4, sample_topic_app ''b'' 7]))))"
proof -
  let ?apps = "[sample_topic_app ''a'' 4, sample_topic_app ''b'' 7]"
  let ?t = "hd (app_KafkaTopics (app_Spec (sample_topic_app ''a'' 4)))"
  have ts: "topic_requests ?apps ?t = concat (map (\<lambda>a. app_KafkaTopics (app_Spec a)) ?apps)"
    by (simp add: topic_requests_def sample_topic_app_def)
  have "conversionMap (sample_kafka_deps (\<lambda>e. Inr []) :: unit KafkaDeps) ''retention.ms'' = Some (kd_IntMax (sample_kafka_deps (\<lambda>e. Inr []) :: unit KafkaDeps))"
    by (simp add: conversionMap_def)
  moreover have "fst (kd_IntMax (sample_kafka_deps (\<lambda>e. Inr []) :: unit KafkaDeps) [itoa 4, itoa 7]) = ''7''"
  proof -
    have "kd_IntMax (sample_kafka_deps (\<lambda>e. Inr []) :: unit KafkaDeps) (map itoa [4, 7]) = (itoa (Max (set [4, 7])), None)"
      using sample_kafka_laws(1) [of "\<lambda>e. Inr []", unfolded int_max_law_def, THEN spec, of "[4, 7]"] by simp
    moreover have "itoa 7 = ''7''" by code_simp
    ultimately show ?thesis by simp
  qed
  ultimately have json: "json_object (map (json_entry (sample_kafka_deps (\<lambda>e. Inr []) :: unit KafkaDeps) (topic_requests ?apps ?t)) (kd_Iter (sample_kafka_deps (\<lambda>e. Inr []) :: unit KafkaDeps) (config_keys (topic_requests ?apps ?t))))
      = ''{'' @ [CHR 0x22] @ ''retention.ms'' @ [CHR 0x22] @ '':'' @ [CHR 0x22] @ ''7'' @ [CHR 0x22] @ ''}''"
    unfolding ts by (simp add: json_object_def json_entry_def config_keys_def key_values_def sample_topic_app_def sample_kafka_deps_def
        List.map_filter_def)
  have eq: "processTopicValues (sample_kafka_deps (\<lambda>e. Inr []) :: unit KafkaDeps) KTopic_zero ClowdEnvironment_zero ?apps ?t =
    (if \<exists>t \<in> set (topic_requests ?apps ?t). \<exists>key \<in> fst ` set (kt_Config t). conversionMap (sample_kafka_deps (\<lambda>e. Inr []) :: unit KafkaDeps) key = None
     then Some (Inl (NewClowderError (kd_Stack (sample_kafka_deps (\<lambda>e. Inr []) :: unit KafkaDeps)) (''no conversion type for ''
            @ hd (filter (\<lambda>k. conversionMap (sample_kafka_deps (\<lambda>e. Inr []) :: unit KafkaDeps) k = None) (kd_Iter (sample_kafka_deps (\<lambda>e. Inr []) :: unit KafkaDeps) (config_keys (topic_requests ?apps ?t)))))))
     else (case kd_UnmarshalJSON (sample_kafka_deps (\<lambda>e. Inr []) :: unit KafkaDeps) (json_object (map (json_entry (sample_kafka_deps (\<lambda>e. Inr []) :: unit KafkaDeps) (topic_requests ?apps ?t)) (kd_Iter (sample_kafka_deps (\<lambda>e. Inr []) :: unit KafkaDeps) (config_keys (topic_requests ?apps ?t))))) of
             Inl err \<Rightarrow> Some (Inl err)
           | Inr config \<Rightarrow> Some (Inr (topic_with (sample_kafka_deps (\<lambda>e. Inr []) :: unit KafkaDeps) config KTopic_zero ClowdEnvironment_zero (topic_requests ?apps ?t)))))"
    by (rule topic_values_exact [OF sample_kafka_laws, of "sample_topic_app ''a'' 4"])
      (simp_all add: topic_requests_def sample_topic_app_def in_int32_def)
  have "\<not> (\<exists>t \<in> set (topic_requests ?apps ?t). \<exists>key \<in> fst ` set (kt_Config t). conversionMap (sample_kafka_deps (\<lambda>e. Inr []) :: unit KafkaDeps) key = None)"
    unfolding ts by (simp add: sample_topic_app_def conversionMap_def)
  moreover have "kd_UnmarshalJSON (sample_kafka_deps (\<lambda>e. Inr []) :: unit KafkaDeps) = Inr" by (simp add: sample_kafka_deps_def)
  ultimately show ?thesis unfolding eq json using ts by (simp del: append.simps)
qed

section \<open>What is recorded for the topics of an app\<close>

lemma processTopicValues_meta:
  "processTopicValues d k env apps topic = Some (Inr k') \<Longrightarrow> ktp_ObjectMeta k' = ktp_ObjectMeta k"
  by (auto simp: processTopicValues_def Let_def cap_replicas_def split: sum.splits option.splits if_splits)

lemma processTopicValues_cong:
  "kt_TopicName t = kt_TopicName t' \<Longrightarrow> processTopicValues d k env apps t = processTopicValues d k env apps t'"
  by (simp add: processTopicValues_def topic_requests_def)

text \<open>
  A provider that gives every topic name of a namespace a name of its own. The topics of an app are
  then recorded one by one, and none overwrites another.
\<close>

locale topic_namer =
  fixes s :: "('w, 'c) kafka_provider" and topic_name :: "ClowdEnvironment \<Rightarrow> string \<Rightarrow> string \<Rightarrow> string"
  assumes names: "kp_KafkaTopicName s t ns p = Some (p, Inr (topic_name (prov_Env p) ns (kt_TopicName t)))"
    and injective: "topic_name e ns a = topic_name e ns b \<Longrightarrow> a = b"
begin

definition topic_nn :: "ClowdEnvironment \<Rightarrow> ClowdApp \<Rightarrow> KafkaTopicSpec \<Rightarrow> NamespacedName" where
  "topic_nn e app t = NN (topic_name e (app_Namespace app) (kt_TopicName t)) (kp_KafkaNamespace s e)"

definition topic_recorded ::
  "'w KafkaDeps \<Rightarrow> ('w \<times> 'c \<Rightarrow> NamespacedName \<rightharpoonup> KTopic) \<Rightarrow> ClowdEnvironment \<Rightarrow> ClowdApp \<Rightarrow> ClowdApp list \<Rightarrow> KafkaTopicSpec \<Rightarrow> ('w, 'c) Provider \<Rightarrow> bool" where
  "topic_recorded d recorded e app apps t p =
     (\<exists>k k0. prov_recorded recorded p (topic_nn e app t) = Some k
        \<and> processTopicValues d (topic_object s e app (topic_name e (app_Namespace app) (kt_TopicName t)) k0) e apps t = Some (Inr k))"

definition topic_config :: "ClowdEnvironment \<Rightarrow> ClowdApp \<Rightarrow> KafkaTopicSpec \<Rightarrow> TopicConfig" where
  "topic_config e app t = \<lparr>top_Name = topic_name e (app_Namespace app) (kt_TopicName t), top_RequestedName = kt_TopicName t\<rparr>"

lemma process_topic_ok:
  assumes run: "process_topic d s r app apps t p = Some (p', Inr tc)" and cache: "object_cache r (\<lambda>k. NN (om_Name (ktp_ObjectMeta k)) (om_Namespace (ktp_ObjectMeta k))) recorded"
  shows "tc = topic_config (prov_Env p) app t \<and> prov_Env p' = prov_Env p \<and> prov_Config p' = prov_Config p
    \<and> topic_recorded d recorded (prov_Env p) app apps t p'
    \<and> (\<forall>nn. nn \<noteq> topic_nn (prov_Env p) app t \<longrightarrow> prov_recorded recorded p' nn = prov_recorded recorded p nn)"
proof -
  define n where "n = topic_name (prov_Env p) (app_Namespace app) (kt_TopicName t)"
  obtain p1 k0 k where c: "cache_Create r (NN n (kp_KafkaNamespace s (prov_Env p))) p = Some (p1, Inr k0)"
    and v: "processTopicValues d (topic_object s (prov_Env p) app n k0) (prov_Env p) apps t = Some (Inr k)"
    and u: "cache_Update r k p1 = Some (p', Inr ())" and tc: "tc = \<lparr>top_Name = n, top_RequestedName = kt_TopicName t\<rparr>"
    using run unfolding process_topic_def n_def
    by (auto simp: and_next_apply names settle_def result_def split: option.splits)
  have "NN (om_Name (ktp_ObjectMeta k)) (om_Namespace (ktp_ObjectMeta k)) = topic_nn (prov_Env p) app t"
    using processTopicValues_meta [OF v] by (simp add: topic_object_def topic_nn_def n_def)
  then have "prov_recorded recorded p' = (prov_recorded recorded p)(topic_nn (prov_Env p) app t \<mapsto> k)"
    using update_records [OF cache u] create_records [OF cache c] by simp
  with v tc show ?thesis
    using cache_step_frame(1) [OF c] cache_step_frame(2) [OF u]
    by (auto simp: topic_recorded_def topic_config_def n_def)
qed

lemma topics_loop:
  assumes "collect (process_topic d s r app apps) ts p = Some (p', Inr tcs)"
    and cache: "object_cache r (\<lambda>k. NN (om_Name (ktp_ObjectMeta k)) (om_Namespace (ktp_ObjectMeta k))) recorded"
  shows "tcs = map (topic_config (prov_Env p) app) ts \<and> prov_Env p' = prov_Env p \<and> prov_Config p' = prov_Config p
    \<and> (\<forall>t \<in> set ts. topic_recorded d recorded (prov_Env p) app apps t p')
    \<and> (\<forall>nn. nn \<notin> topic_nn (prov_Env p) app ` set ts \<longrightarrow> prov_recorded recorded p' nn = prov_recorded recorded p nn)"
  using assms(1)
proof (induction ts arbitrary: p tcs)
  case (Cons t ts)
  obtain p1 tc tcs' where step: "process_topic d s r app apps t p = Some (p1, Inr tc)"
    and loop: "collect (process_topic d s r app apps) ts p1 = Some (p', Inr tcs')" and tcs: "tcs = tc # tcs'"
    using Cons.prems by (auto simp: and_next_apply)
  note one = process_topic_ok [OF step cache]
  note rest = Cons.IH [OF loop]
  have "topic_recorded d recorded (prov_Env p) app apps t p'"
  proof (cases "topic_nn (prov_Env p) app t \<in> topic_nn (prov_Env p) app ` set ts")
    case True
    then obtain t' where t': "t' \<in> set ts" "topic_nn (prov_Env p) app t' = topic_nn (prov_Env p) app t" by force
    then have "kt_TopicName t' = kt_TopicName t" by (auto simp: topic_nn_def dest: injective)
    moreover have "topic_recorded d recorded (prov_Env p) app apps t' p'" using rest t'(1) one by auto
    ultimately show ?thesis
      unfolding topic_recorded_def using t'(2) processTopicValues_cong by metis
  next
    case False
    with rest one show ?thesis by (simp add: topic_recorded_def)
  qed
  with rest one tcs show ?case by auto
qed simp

text \<open>After \<open>processTopics\<close> every topic of the app is recorded and its name is in the configuration.\<close>

lemma processTopics_ok:
  assumes run: "processTopics d s r app p = Some (p', Inr u)"
    and cache: "object_cache r (\<lambda>k. NN (om_Name (ktp_ObjectMeta k)) (om_Namespace (ktp_ObjectMeta k))) recorded"
  shows "\<exists>apps. pd_ListApps (kd_Prov d) (prov_World p) (env_Name (prov_Env p)) = Inr apps
    \<and> (\<forall>t \<in> set (app_KafkaTopics (app_Spec app)). topic_recorded d recorded (prov_Env p) app apps t p')
    \<and> (\<exists>c kc. prov_Config p = Some c \<and> cfg_Kafka c = Some kc
         \<and> prov_Config p' = Some (c\<lparr>cfg_Kafka := Some (kc\<lparr>kc_Topics := map (topic_config (prov_Env p) app) (app_KafkaTopics (app_Spec app))\<rparr>)\<rparr>))"
proof -
  obtain apps p1 tcs where list: "pd_ListApps (kd_Prov d) (prov_World p) (env_Name (prov_Env p)) = Inr apps"
    and loop: "collect (process_topic d s r app apps) (app_KafkaTopics (app_Spec app)) p = Some (p1, Inr tcs)"
    and fin: "set_kafka (\<lambda>k. k\<lparr>kc_Topics := tcs\<rparr>) p1 = Some (p', Inr u)"
    using run unfolding processTopics_def
    by (auto simp: and_next_apply map_err_def apps_in_env_def GetAppsInEnv_def split: sum.splits option.splits)
  obtain c kc where c: "prov_Config p1 = Some c" "cfg_Kafka c = Some kc"
    and p': "p' = p1\<lparr>prov_Config := Some (c\<lparr>cfg_Kafka := Some (kc\<lparr>kc_Topics := tcs\<rparr>)\<rparr>)\<rparr>"
    using fin unfolding set_kafka_def the_config_def
    by (auto simp: and_next_apply deref_def split: option.splits)
  note all = topics_loop [OF loop cache]
  have "prov_recorded recorded p' = prov_recorded recorded p1" by (simp add: p')
  then have "\<forall>t \<in> set (app_KafkaTopics (app_Spec app)). topic_recorded d recorded (prov_Env p) app apps t p'"
    using all by (simp add: topic_recorded_def)
  moreover have "prov_Config p = Some c" "tcs = map (topic_config (prov_Env p) app) (app_KafkaTopics (app_Spec app))"
    using all c(1) by simp_all
  ultimately show ?thesis using list c(2) p' by (intro exI conjI) simp_all
qed

end

end
