(* ===== verification/Kafka_Brokers.thy ===== *)
theory Kafka_Brokers
  imports Kafka_Topics
begin

text \<open>
  The rest of \<open>providers/kafka/provider.go\<close>, the Kafka Connect cluster and the brokers a secret describes,
  and the providers that use a Kafka that exists already: \<open>providers/kafka/managed.go\<close> and, for an environment,
  \<open>providers/kafka/msk.go\<close>. The provider of \<open>providers/kafka/none.go\<close> does nothing.

  A pointer a broker shares with another one (its port, its password) is a value, since the sources never
  write through it. A provider works on a copy of the structure it is given: what it stores in
  \<open>Config\<close> itself, rather than in the configuration \<open>Config\<close> points to, is not seen outside.

  The facts: both ways of reading the brokers of a secret give the same; what the managed provider writes to the
  configuration of an app.
\<close>

section \<open>Brokers from a secret\<close>

abbreviation BrokerConfigAuthtypeSasl :: string where "BrokerConfigAuthtypeSasl \<equiv> ''sasl''"

definition getSecretRef :: "'w KafkaDeps \<Rightarrow> ClowdEnvironment \<Rightarrow> goerr + NamespacedName" where
  "getSecretRef d env =
     (let secretRef = kaf_ManagedSecretRef (env_Kafka env)
      in if secretRef = NN '''' '''' then Inl (NewClowderError (kd_Stack d) ''no secret ref defined for managed Kafka'') else Inr secretRef)"

definition getSecret :: "'w KafkaDeps \<Rightarrow> (('w, 'c) Provider, KSecretObj) op" where
  "getSecret d =
     and_next (reads prov_Env) (\<lambda>env.
     and_next (result (getSecretRef d env)) (\<lambda>secretRef. get_secret (kd_Prov d) secretRef))"

record SecretParts =
  spt_Port :: int
  spt_Password :: string
  spt_Username :: string
  spt_Hostname :: string
  spt_Hostnames :: "string list"
  spt_Cacert :: string
  spt_SaslMechanism :: string

definition destructureSecret :: "KSecretObj \<Rightarrow> goerr + SecretParts" where
  "destructureSecret secret =
     (let data' = sec_Data secret
      in case atoi (mget data' ''port'') of
           None \<Rightarrow> Inl (atoi_err (mget data' ''port''))
         | Some port \<Rightarrow> Inr \<lparr>spt_Port = port, spt_Password = mget data' ''password'', spt_Username = mget data' ''username'',
             spt_Hostname = mget data' ''hostname'',
             spt_Hostnames = (case data' ''hostnames'' of Some val \<Rightarrow> split_on CHR '','' val | None \<Rightarrow> []),
             spt_Cacert = mget data' ''cacert'',
             spt_SaslMechanism = (case data' ''saslMechanism'' of Some val \<Rightarrow> val | None \<Rightarrow> ''PLAIN'')\<rparr>)"

definition secret_broker :: "SecretParts \<Rightarrow> string \<Rightarrow> BrokerConfig" where
  "secret_broker sp hostname = \<lparr>br_Authtype = Some BrokerConfigAuthtypeSasl,
     br_Cacert = (if spt_Cacert sp \<noteq> '''' then Some (spt_Cacert sp) else None),
     br_Hostname = hostname, br_Port = Some (spt_Port sp),
     br_Sasl = Some \<lparr>sasl_Password = Some (spt_Password sp), sasl_SaslMechanism = Some (spt_SaslMechanism sp),
       sasl_SecurityProtocol = Some ''SASL_SSL'', sasl_Username = Some (spt_Username sp)\<rparr>,
     br_SecurityProtocol = Some ''SASL_SSL''\<rparr>"

definition getBrokerConfig :: "KSecretObj \<Rightarrow> goerr + BrokerConfig list" where
  "getBrokerConfig secret =
     (case destructureSecret secret of
        Inl err \<Rightarrow> Inl err
      | Inr sp \<Rightarrow>
          (let hostnames = (if length (spt_Hostnames sp) = 0 then spt_Hostnames sp @ [spt_Hostname sp] else spt_Hostnames sp)
           in Inr (map (secret_broker sp) hostnames)))"

section \<open>The Kafka Connect cluster\<close>

definition connect_default :: "string \<Rightarrow> string" where
  "connect_default cpu = ''{'' @ [CHR 0x0A] @ ''        '' @ [CHR 0x22] @ ''cpu'' @ [CHR 0x22] @ '': '' @ [CHR 0x22] @ cpu @ [CHR 0x22] @ '','' @ [CHR 0x0A]
     @ ''        '' @ [CHR 0x22] @ ''memory'' @ [CHR 0x22] @ '': '' @ [CHR 0x22] @ ''2Gi'' @ [CHR 0x22] @ [CHR 0x0A] @ [CHR 0x09] @ ''}''"

text \<open>A default document, unless the environment has one of its own; the default is unmarshalled first.\<close>

definition or_default :: "'w KafkaDeps \<Rightarrow> string \<Rightarrow> string \<Rightarrow> opaque option \<Rightarrow> goerr + opaque" where
  "or_default d what text own =
     (case kd_UnmarshalJSON d text of
        Inl err \<Rightarrow> Inl (WrapErr (''could not unmarshal '' @ what @ '': '') err)
      | Inr j \<Rightarrow> Inr (case own of None \<Rightarrow> j | Some o' \<Rightarrow> o'))"

definition connect_object ::
  "ClowdEnvironment \<Rightarrow> string \<Rightarrow> opaque \<Rightarrow> opaque \<Rightarrow> opaque \<Rightarrow> string \<Rightarrow> string \<Rightarrow> string list \<Rightarrow> KConnect \<Rightarrow> KConnect" where
  "connect_object env servers config kcRequests kcLimits username secName secretNames k =
     (let co = kaf_Connect (env_Kafka env); m = kcn_ObjectMeta k
      in \<lparr>kcn_ObjectMeta = m\<lparr>om_Annotations := (om_Annotations m)(''strimzi.io/use-connector-resources'' \<mapsto> ''true''),
             om_OwnerReferences := [env_MakeOwnerReference env], om_Name := getConnectClusterName env,
             om_Namespace := getConnectNamespace env, om_Labels := [''env'' \<mapsto> env_Name env]\<rparr>,
          kcn_Replicas = (if kco_Replicas co < 1 then 1 else kco_Replicas co),
          kcn_BootstrapServers = servers,
          kcn_Version = (if kco_Version co = '''' then ''3.8.0'' else kco_Version co),
          kcn_Config = config,
          kcn_Image = (if kco_Image co = '''' then DefaultImageKafkaConnect else kco_Image co),
          kcn_Requests = kcRequests, kcn_Limits = kcLimits, kcn_ImagePullSecrets = secretNames,
          kcn_JvmOptions = (''2G'', ''2G''),
          kcn_Tls = (if kaf_EnableLegacyStrimzi (env_Kafka env) then None else Some [(''ca.crt'', secName)]),
          kcn_Authentication = (if kaf_EnableLegacyStrimzi (env_Kafka env) then None else Some (''scram-sha-512'', username, username))\<rparr>)"

definition other_env :: "ClowdEnvironment \<Rightarrow> ObjectMeta \<Rightarrow> string option" where
  "other_env env m = (case om_Labels m ''env'' of None \<Rightarrow> None | Some l \<Rightarrow> if l \<noteq> env_Name env then Some l else None)"

definition configureKafkaConnectCluster ::
  "'w KafkaDeps \<Rightarrow> ('w, 'c) kafka_provider \<Rightarrow> ('w \<times> 'c, KConnect) Resource \<Rightarrow> ('w \<times> 'c, KSecretObj) Resource \<Rightarrow> (('w, 'c) Provider, unit) op" where
  "configureKafkaConnectCluster d s KafkaConnect pullSecrets =
     and_next (reads prov_Env) (\<lambda>env.
       let own = kco_Resources (kaf_Connect (env_Kafka env)); clusterNN = NN (getConnectClusterName env) (getConnectNamespace env)
       in and_next (result (or_default d ''kcRequests'' (connect_default ''200m'') (skr_Requests own))) (\<lambda>kcRequests.
          and_next (result (or_default d ''kcLimits'' (connect_default ''500m'') (skr_Limits own))) (\<lambda>kcLimits.
          and_next (cache_Create KafkaConnect clusterNN) (\<lambda>k.
            case other_env env (kcn_ObjectMeta k) of
              Some envLabel \<Rightarrow> fail (PlainErr (''kafka connect cluster named '' @ [CHR 0x27] @ nn_Name clusterNN @ [CHR 0x27] @ '' found in ns '' @ [CHR 0x27]
                 @ nn_Namespace clusterNN @ [CHR 0x27] @ '' but tied to env '' @ [CHR 0x27] @ envLabel @ [CHR 0x27]))
            | None \<Rightarrow>
                and_next (map_err (WrapErr ''could not unmarshal config: '') (kp_connectConfig s)) (\<lambda>config.
                and_next (kp_getConnectClusterUserName s) (\<lambda>username.
                and_next (kp_getBootstrapServersString s) (\<lambda>servers.
                and_next (kp_getKafkaConnectTrustedCertSecretName s) (\<lambda>secName.
                and_next (CopyPullSecrets (kd_Prov d) pullSecrets (getConnectNamespace env) env_object) (\<lambda>secretNames.
                  cache_Update KafkaConnect (connect_object env servers config kcRequests kcLimits username secName secretNames k)))))))))) "

text \<open>The addresses of the brokers, for the providers that have them in the configuration.\<close>

definition broker_address :: "BrokerConfig \<Rightarrow> string" where
  "broker_address bc = (case br_Port bc of Some port \<Rightarrow> br_Hostname bc @ '':'' @ itoa port | None \<Rightarrow> br_Hostname bc)"

definition the_kafka :: "(('w, 'c) Provider, KafkaCfg) op" where
  "the_kafka = and_next the_config (\<lambda>c. deref (cfg_Kafka c))"

definition getBootstrapServersString :: "(('w, 'c) Provider, string) op" where
  "getBootstrapServersString = and_next the_kafka (\<lambda>k. ret (join '','' (map broker_address (kc_Brokers k))))"

section \<open>Managed Kafka\<close>

definition managed_getSecret :: "'w KafkaDeps \<Rightarrow> (('w, 'c) Provider, KSecretObj) op" where
  "managed_getSecret d = and_next (getSecret d) (\<lambda>secret. and_next (track_secret (kd_Prov d) env_object secret) (\<lambda>_. ret secret))"

text \<open>The managed provider reuses one broker for all hosts, and every field of it is written on every turn
  but the certificate, which is the same each time.\<close>

fun managed_brokers :: "SecretParts \<Rightarrow> BrokerConfig \<Rightarrow> string list \<Rightarrow> BrokerConfig list" where
  "managed_brokers sp broker [] = []"
| "managed_brokers sp broker (hostname # hostnames) =
     (let b = broker\<lparr>br_Hostname := hostname, br_Port := Some (spt_Port sp), br_Authtype := Some BrokerConfigAuthtypeSasl,
                br_Cacert := (if spt_Cacert sp \<noteq> '''' then Some (spt_Cacert sp) else br_Cacert broker),
                br_Sasl := Some \<lparr>sasl_Password = Some (spt_Password sp), sasl_SaslMechanism = Some (spt_SaslMechanism sp),
                  sasl_SecurityProtocol = Some ''SASL_SSL'', sasl_Username = Some (spt_Username sp)\<rparr>,
                br_SecurityProtocol := Some ''SASL_SSL''\<rparr>
      in b # managed_brokers sp b hostnames)"

definition BrokerConfig_zero :: BrokerConfig where
  "BrokerConfig_zero = \<lparr>br_Authtype = None, br_Cacert = None, br_Hostname = '''', br_Port = None, br_Sasl = None, br_SecurityProtocol = None\<rparr>"

definition managed_getBrokerConfig :: "KSecretObj \<Rightarrow> goerr + BrokerConfig list" where
  "managed_getBrokerConfig secret =
     (case destructureSecret secret of
        Inl err \<Rightarrow> Inl err
      | Inr sp \<Rightarrow>
          (let hostnames = (if length (spt_Hostnames sp) = 0 then spt_Hostnames sp @ [spt_Hostname sp] else spt_Hostnames sp)
           in Inr (managed_brokers sp BrokerConfig_zero hostnames)))"

definition appendTopic :: "ClowdEnvironment \<Rightarrow> KafkaTopicSpec \<Rightarrow> KafkaCfg \<Rightarrow> KafkaCfg" where
  "appendTopic env topic kafkaConfig =
     (let topicName = kt_TopicName topic;
          topicName' = (if kaf_ManagedPrefix (env_Kafka env) \<noteq> '''' then kaf_ManagedPrefix (env_Kafka env) @ topicName else topicName)
      in kafkaConfig\<lparr>kc_Topics := kc_Topics kafkaConfig @ [\<lparr>top_Name = topicName', top_RequestedName = kt_TopicName topic\<rparr>]\<rparr>)"

definition managed_getKafkaConfig :: "ClowdEnvironment \<Rightarrow> BrokerConfig list \<Rightarrow> ClowdApp \<Rightarrow> KafkaCfg" where
  "managed_getKafkaConfig env brokers app =
     foldl (\<lambda>c t. appendTopic env t c) \<lparr>kc_Brokers = brokers, kc_Topics = []\<rparr> (app_KafkaTopics (app_Spec app))"

definition managed_Provide :: "'w KafkaDeps \<Rightarrow> ClowdApp \<Rightarrow> (('w, 'c) Provider, unit) op" where
  "managed_Provide d app =
     (if app_KafkaTopics (app_Spec app) = [] then ret ()
      else and_next (managed_getSecret d) (\<lambda>secret.
           and_next (result (managed_getBrokerConfig secret)) (\<lambda>brokers.
           and_next (reads prov_Env) (\<lambda>env.
             set_config (\<lambda>c. c\<lparr>cfg_Kafka := Some (managed_getKafkaConfig env brokers app)\<rparr>)))))"

section \<open>MSK\<close>

definition msk_KafkaNamespace :: "ClowdEnvironment \<Rightarrow> string" where
  "msk_KafkaNamespace env =
     (if kaf_TopicNamespace (env_Kafka env) = '''' then est_TargetNamespace (env_Status env) else kaf_TopicNamespace (env_Kafka env))"

text \<open>The user of the Connect cluster is the user of the first broker.\<close>

definition first_sasl :: "(('w, 'c) Provider, KafkaSASLConfig) op" where
  "first_sasl = and_next the_kafka (\<lambda>k. case kc_Brokers k of [] \<Rightarrow> panics | b # _ \<Rightarrow> deref (br_Sasl b))"

definition msk_getConnectClusterUserName :: "(('w, 'c) Provider, string) op" where
  "msk_getConnectClusterUserName = and_next first_sasl (\<lambda>sl. deref (sasl_Username sl))"

definition msk_connectConfig :: "'w KafkaDeps \<Rightarrow> (('w, 'c) Provider, opaque) op" where
  "msk_connectConfig d =
     and_next (reads prov_Env) (\<lambda>env.
       let replicas = (if kaf_KafkaConnectReplicaCount (env_Kafka env) \<noteq> 0 then kaf_KafkaConnectReplicaCount (env_Kafka env) else 3)
       in and_next (result (kd_MarshalJSON d
            [(''config.storage.replication.factor'', itoa replicas), (''config.storage.topic'', env_Name env @ ''-connect-cluster-configs''),
             (''connector.client.config.override.policy'', ''All''), (''group.id'', ''connect-cluster''),
             (''offset.storage.replication.factor'', itoa replicas), (''offset.storage.topic'', env_Name env @ ''-connect-cluster-offsets''),
             (''status.storage.replication.factor'', itoa replicas), (''status.storage.topic'', env_Name env @ ''-connect-cluster-status'')]))
          (\<lambda>byteData. result (kd_UnmarshalJSON d byteData)))"

definition msk_provider :: "'w KafkaDeps \<Rightarrow> ('w, 'c) kafka_provider" where
  "msk_provider d = \<lparr>
     kp_KafkaTopicName = (\<lambda>topic _. and_next (reads prov_Env) (\<lambda>env. ret (env_Name env @ ''-'' @ kt_TopicName topic))),
     kp_KafkaName = (\<lambda>env. kaf_ClusterAnnotation (env_Kafka env)),
     kp_KafkaNamespace = msk_KafkaNamespace,
     kp_getConnectClusterUserName = msk_getConnectClusterUserName,
     kp_getBootstrapServersString = getBootstrapServersString,
     kp_connectConfig = msk_connectConfig d,
     kp_getKafkaConnectTrustedCertSecretName =
       and_next (reads prov_Env) (\<lambda>env. and_next (result (getSecretRef d env)) (\<lambda>secRef. ret (nn_Name secRef)))\<rparr>"

definition msk_configureListeners :: "'w KafkaDeps \<Rightarrow> (('w, 'c) Provider, unit) op" where
  "msk_configureListeners d =
     and_next (getSecret d) (\<lambda>secret.
     and_next (track_secret (kd_Prov d) env_object secret) (\<lambda>_.
     and_next (result (getBrokerConfig secret)) (\<lambda>brokers.
       set_config (\<lambda>c. c\<lparr>cfg_Kafka := Some \<lparr>kc_Brokers = brokers, kc_Topics = []\<rparr>\<rparr>))))"

record 's KafkaResources =
  kr_Topic :: "('s, KTopic) Resource"
  kr_Connect :: "('s, KConnect) Resource"
  kr_ManagedSecret :: "('s, KSecretObj) Resource"
  kr_ConnectSecret :: "('s, KSecretObj) Resource"
  kr_PullSecrets :: "('s, KSecretObj) Resource"

definition msk_configureBrokers :: "'w KafkaDeps \<Rightarrow> ('w \<times> 'c) KafkaResources \<Rightarrow> (('w, 'c) Provider, unit) op" where
  "msk_configureBrokers d R =
     and_next (map_err (requeue_wrap (kd_Stack d) ''unable to determine kafka broker addresses'') (msk_configureListeners d)) (\<lambda>_.
       map_err (Wrap (kd_Stack d) ''failed to provision kafka connect cluster'')
         (configureKafkaConnectCluster d (msk_provider d) (kr_Connect R) (kr_PullSecrets R)))"

definition copyGenericSecret ::
  "'w KafkaDeps \<Rightarrow> (('w, 'c) Provider \<Rightarrow> ClowdObject) \<Rightarrow> NamespacedName \<Rightarrow> NamespacedName \<Rightarrow> ('w \<times> 'c, KSecretObj) Resource \<Rightarrow> (('w, 'c) Provider, bool) op" where
  "copyGenericSecret d obj source dest destIdent =
     (if nn_Namespace source = nn_Namespace dest then ret True
      else and_next (get_secret (kd_Prov d) source) (\<lambda>src.
           and_next (cache_Create destIdent dest) (\<lambda>k.
           and_next (reads obj) (\<lambda>o'.
           and_next (cache_Update destIdent
             (let m = pd_Labeler (kd_Prov d) Map.empty dest o' (sec_ObjectMeta k)
              in k\<lparr>sec_Data := sec_Data src, sec_Type := sec_Type src,
                   sec_ObjectMeta := m\<lparr>om_Name := nn_Name dest, om_Namespace := nn_Namespace dest\<rparr>\<rparr>)) (\<lambda>_. ret False)))))"

definition createConnectSecret :: "'w KafkaDeps \<Rightarrow> ('w \<times> 'c, KSecretObj) Resource \<Rightarrow> (('w, 'c) Provider, unit) op" where
  "createConnectSecret d ident =
     and_next msk_getConnectClusterUserName (\<lambda>secName.
     and_next (reads prov_Env) (\<lambda>env.
       let newSecNN = NN secName (est_TargetNamespace (env_Status env))
       in and_next (cache_Create ident newSecNN) (\<lambda>k.
          and_next first_sasl (\<lambda>sl.
          and_next (deref (sasl_Password sl)) (\<lambda>password.
          and_next (deref (sasl_Username sl)) (\<lambda>username.
            cache_Update ident
              (let m = pd_Labeler (kd_Prov d) Map.empty newSecNN (EnvObject env) (sec_ObjectMeta k)
               in k\<lparr>sec_StringData := [''password'' \<mapsto> password,
                      ''sasl.jaas.config'' \<mapsto> ''org.apache.kafka.common.security.scram.ScramLoginModule required username='' @ [CHR 0x22] @ username
                        @ [CHR 0x22] @ '' password='' @ [CHR 0x22] @ password @ [CHR 0x22] @ '';''],
                    sec_Type := ''Opaque'',
                    sec_ObjectMeta := m\<lparr>om_Name := nn_Name newSecNN, om_Namespace := nn_Namespace newSecNN\<rparr>\<rparr>)))))))"

text \<open>The structure's own configuration, dropped at the end.\<close>

definition with_own_config :: "AppConfig \<Rightarrow> (('w, 'c) Provider, 'a) op \<Rightarrow> (('w, 'c) Provider, 'a) op" where
  "with_own_config c m p =
     (case m (p\<lparr>prov_Config := Some c\<rparr>) of None \<Rightarrow> None | Some (p', r) \<Rightarrow> Some (p'\<lparr>prov_Config := prov_Config p\<rparr>, r))"

definition empty_kafka_config :: AppConfig where
  "empty_kafka_config = AppConfig_zero\<lparr>cfg_Kafka := Some \<lparr>kc_Brokers = [], kc_Topics = []\<rparr>\<rparr>"

definition msk_EnvProvide :: "'w KafkaDeps \<Rightarrow> ('w \<times> 'c) KafkaResources \<Rightarrow> (('w, 'c) Provider, unit) op" where
  "msk_EnvProvide d R =
     with_own_config empty_kafka_config
       (and_next (msk_configureBrokers d R) (\<lambda>_.
        and_next (reads prov_Env) (\<lambda>env.
          let ref = kaf_ManagedSecretRef (env_Kafka env); ca = getKafkaName env @ ''-cluster-ca-cert''; target = env_TargetNamespace (env_Spec env)
          in and_next (copyGenericSecret d env_object ref (NN (nn_Name ref) target) (kr_ManagedSecret R)) (\<lambda>_.
             and_next (createConnectSecret d (kr_ConnectSecret R)) (\<lambda>_.
             and_next (copyGenericSecret d env_object (NN ca (getKafkaNamespace env)) (NN ca target) (kr_ManagedSecret R)) (\<lambda>_. ret ()))))))"


section \<open>What the managed provider configures\<close>

lemma managed_brokers_eq:
  "br_Cacert b = (if spt_Cacert sp = '''' then None else br_Cacert b) \<Longrightarrow> managed_brokers sp b hs = map (secret_broker sp) hs"
  by (induction hs arbitrary: b) (auto simp: secret_broker_def Let_def)

text \<open>Reusing the broker makes no difference: the managed provider and MSK read a secret alike.\<close>

lemma managed_broker_config: "managed_getBrokerConfig = getBrokerConfig"
  by (rule ext) (auto simp: managed_getBrokerConfig_def getBrokerConfig_def Let_def managed_brokers_eq BrokerConfig_zero_def split: sum.splits)

lemma managed_topics:
  "managed_getKafkaConfig env brokers app = \<lparr>kc_Brokers = brokers, kc_Topics =
     map (\<lambda>t. \<lparr>top_Name = kaf_ManagedPrefix (env_Kafka env) @ kt_TopicName t, top_RequestedName = kt_TopicName t\<rparr>) (app_KafkaTopics (app_Spec app))\<rparr>"
proof -
  have "foldl (\<lambda>c t. appendTopic env t c) c ts = c\<lparr>kc_Topics := kc_Topics c
      @ map (\<lambda>t. \<lparr>top_Name = kaf_ManagedPrefix (env_Kafka env) @ kt_TopicName t, top_RequestedName = kt_TopicName t\<rparr>) ts\<rparr>" for c ts
    by (induction ts arbitrary: c) (simp_all add: appendTopic_def Let_def)
  then show ?thesis by (simp add: managed_getKafkaConfig_def)
qed

text \<open>
  When the managed provider configures an app that asks for topics, the configuration has one broker for every host of the secret the
  environment names, all with its credentials, and the topics of the app in order under the environment's prefix.
\<close>

theorem managed_configures:
  assumes run: "managed_Provide d app p = Some (p', Inr u)" and topics: "app_KafkaTopics (app_Spec app) \<noteq> []"
  shows "\<exists>ref secret sp c. getSecretRef d (prov_Env p) = Inr ref \<and> pd_GetSecret (kd_Prov d) ref (prov_World p) = Inr secret
    \<and> destructureSecret secret = Inr sp \<and> prov_Config p' = Some c
    \<and> cfg_Kafka c = Some \<lparr>kc_Brokers = map (secret_broker sp) (if spt_Hostnames sp = [] then [spt_Hostname sp] else spt_Hostnames sp),
        kc_Topics = map (\<lambda>t. \<lparr>top_Name = kaf_ManagedPrefix (env_Kafka (prov_Env p)) @ kt_TopicName t, top_RequestedName = kt_TopicName t\<rparr>) (app_KafkaTopics (app_Spec app))\<rparr>"
proof -
  obtain ref secret p1 brokers where ref: "getSecretRef d (prov_Env p) = Inr ref" "pd_GetSecret (kd_Prov d) ref (prov_World p) = Inr secret"
    and track: "track_secret (kd_Prov d) env_object secret p = Some (p1, Inr ())" and brokers: "getBrokerConfig secret = Inr brokers"
    and set: "set_config (\<lambda>c. c\<lparr>cfg_Kafka := Some (managed_getKafkaConfig (prov_Env p1) brokers app)\<rparr>) p1 = Some (p', Inr u)"
    using run topics unfolding managed_Provide_def managed_getSecret_def getSecret_def managed_broker_config
    by (auto simp: op_oks get_secret_def)
  have env: "prov_Env p1 = prov_Env p" using track by (auto dest: track_secret_frame)
  obtain sp where sp: "destructureSecret secret = Inr sp"
    "brokers = map (secret_broker sp) (if spt_Hostnames sp = [] then [spt_Hostname sp] else spt_Hostnames sp)"
    using brokers by (auto simp: getBrokerConfig_def Let_def split: sum.splits)
  from set obtain c where "prov_Config p' = Some c" "cfg_Kafka c = Some (managed_getKafkaConfig (prov_Env p) brokers app)"
    unfolding env by (auto simp: set_config_ok)
  with ref sp show ?thesis by (simp add: managed_topics)
qed

end
