(* ===== verification/Database.thy ===== *)
theory Database
  imports Service_Accounts Prov_Utils
begin

text \<open>
  The database providers: a database of the app's own (\<open>providers/database/localdb.go\<close>), one database per
  PostgreSQL version for the whole environment (\<open>providers/database/shareddb.go\<close>), and databases that
  exist already and are found by their secrets (\<open>providers/database/appinterface.go\<close>).

  Random strings, the labelers and object makers of \<open>rhc-osdk-utils\<close>, the SQL driver and the HTTP client are
  parameters. The map of certificate bundles, which is global to the process, is passed explicitly. Closing
  connections and the time limit of the SQL context are not modelled.

  The facts: the configuration an app gets agrees with the stored secret and does not change from one
  reconciliation to the next; which secret an app-interface database is taken from; when the shared
  database panics.
\<close>

record KService =
  svc_ObjectMeta :: ObjectMeta
  svc_Selector :: smap
  svc_Ports :: "ServicePort list"
  svc_Type :: string
  svc_SessionAffinity :: string

record KPVC =
  pvc_ObjectMeta :: ObjectMeta
  pvc_AccessModes :: "string list"
  pvc_Storage :: string

record 'w DbDeps =
  db_Prov :: "'w ProvDeps"
  db_Password :: "'w \<Rightarrow> goerr + string"
  db_PgPassword :: "'w \<Rightarrow> goerr + string"
  db_RandString :: "'w \<Rightarrow> string"
  db_MakeLabeler :: "NamespacedName \<Rightarrow> smap \<Rightarrow> ClowdObject \<Rightarrow> KDeployment \<Rightarrow> KDeployment"
  db_MakeService :: "KService \<Rightarrow> NamespacedName \<Rightarrow> smap \<Rightarrow> ServicePort list \<Rightarrow> ClowdObject \<Rightarrow> bool \<Rightarrow> KService"
  db_MakePVC :: "KPVC \<Rightarrow> NamespacedName \<Rightarrow> smap \<Rightarrow> string \<Rightarrow> ClowdObject \<Rightarrow> KPVC"
  db_MustParse :: "string \<Rightarrow> string option"
  db_IterVersions :: "int list \<Rightarrow> int list"
  db_Open :: "string \<Rightarrow> 'w \<Rightarrow> goerr option"
  db_Ping :: "string \<Rightarrow> 'w \<Rightarrow> goerr option"
  db_Prepare :: "string \<Rightarrow> string \<Rightarrow> 'w \<Rightarrow> goerr option"
  db_Exec :: "string \<Rightarrow> string \<Rightarrow> 'w \<Rightarrow> 'w \<times> goerr option"
  db_ListSecrets :: "string \<Rightarrow> 'w \<Rightarrow> goerr + KSecretObj list"
  db_SortSecrets :: "KSecretObj list \<Rightarrow> KSecretObj list"

abbreviation db_Stack :: "'w DbDeps \<Rightarrow> string" where "db_Stack d \<equiv> pd_Stack (db_Prov d)"
abbreviation env_DatabasePVC :: "ClowdEnvironment \<Rightarrow> bool" where
  "env_DatabasePVC e \<equiv> dbc_PVC (pv_Database (env_Providers (env_Spec e)))"
abbreviation app_DB :: "ClowdApp \<Rightarrow> DatabaseSpec" where "app_DB a \<equiv> app_Database (app_Spec a)"

record 's DbResources =
  dr_Deployment :: "('s, KDeployment) Resource"
  dr_Service :: "('s, KService) Resource"
  dr_PVC :: "('s, KPVC) Resource"
  dr_Secret :: "('s, KSecretObj) Resource"

definition world_err :: "('w \<Rightarrow> goerr option) \<Rightarrow> (('w, 'c) Provider, unit) op" where
  "world_err f = and_next (reads (\<lambda>p. f (prov_World p))) (\<lambda>e. case e of None \<Rightarrow> ret () | Some err \<Rightarrow> fail err)"

text \<open>\<open>MakeOrGetSecret\<close> through the provider's cache.\<close>

definition make_or_get ::
  "(('w, 'c) Provider \<Rightarrow> ClowdObject) \<Rightarrow> ('w \<times> 'c, KSecretObj) Resource \<Rightarrow> NamespacedName \<Rightarrow> smap \<Rightarrow> (('w, 'c) Provider, smap) op" where
  "make_or_get obj r nn dataInit =
     and_next (reads obj) (\<lambda>o'. cached (MakeOrGetSecret (\<lambda>_ nn _. res_Create r nn) (\<lambda>_. res_Update r) o' () nn dataInit))"

section \<open>A database for one app\<close>

definition checkDependency :: "string \<Rightarrow> ClowdApp \<Rightarrow> goerr option" where
  "checkDependency stack app =
     (if scan (\<lambda>appName. db_SharedDBAppName (app_DB app) = appName) (app_Dependencies (app_Spec app)) then None
      else Some (NewClowderError stack ''The requested app's db was not found in the dependencies''))"

text \<open>An app that uses the database of another app reads the secret of that app.\<close>

definition processSharedDB :: "'w DbDeps \<Rightarrow> ClowdApp \<Rightarrow> (('w, 'c) Provider, unit) op" where
  "processSharedDB d app =
     (case checkDependency (db_Stack d) app of
        Some err \<Rightarrow> fail err
      | None \<Rightarrow>
          and_next (reads (\<lambda>p. GetAppForDBInSameEnv (pd_ListApps (db_Prov d) (prov_World p)) app False)) (\<lambda>r.
          and_next (result r) (\<lambda>refApp.
          and_next (map_err (Wrap (db_Stack d) ''Couldn't set/get secret'')
                     (get_secret (db_Prov d) (NN (app_Name refApp @ ''-db'') (app_Namespace refApp)))) (\<lambda>secret.
          and_next (map_err (Wrap (db_Stack d) ''couldn't convert to int'')
                     (result (DatabaseConfig_Populate (sec_Data secret) (DatabaseCfg_zero\<lparr>dbcf_SslMode := ''disable''\<rparr>)))) (\<lambda>dbCfg.
            set_config (\<lambda>c. c\<lparr>cfg_Database := Some (dbCfg\<lparr>dbcf_AdminUsername := ''postgres''\<rparr>)\<rparr>))))))"

definition local_db_data :: "NamespacedName \<Rightarrow> string \<Rightarrow> string \<Rightarrow> string \<Rightarrow> string \<Rightarrow> smap" where
  "local_db_data nn username password pgPassword name =
     (let hostname = nn_Name nn @ ''.'' @ nn_Namespace nn @ ''.svc''; port = ''5432''
      in map_of [(''hostname'', hostname), (''db.host'', hostname), (''port'', port), (''db.port'', port),
           (''username'', username), (''db.user'', username), (''password'', password), (''db.password'', password),
           (''pgPass'', pgPassword), (''name'', name), (''db.name'', name)])"

text \<open>The configuration from the data of the secret.\<close>

definition populated :: "'w DbDeps \<Rightarrow> smap \<Rightarrow> ('p, DatabaseCfg) op" where
  "populated d secMap =
     and_next (map_err (Wrap (db_Stack d) ''couldn't convert to int'') (result (DatabaseConfig_Populate secMap DatabaseCfg_zero)))
       (\<lambda>dbCfg. ret (dbCfg\<lparr>dbcf_AdminUsername := ''postgres'', dbcf_SslMode := ''disable''\<rparr>))"

definition make_service ::
  "'w DbDeps \<Rightarrow> ('w \<times> 'c) DbResources \<Rightarrow> NamespacedName \<Rightarrow> ClowdObject \<Rightarrow> smap \<Rightarrow> (('w, 'c) Provider, unit) op" where
  "make_service d R nn obj labels =
     with_resource (dr_Service R) nn (\<lambda>s. MakeLocalDBService (db_MakeService d) s nn obj labels)"

definition localdb_Provide :: "'w DbDeps \<Rightarrow> ('w \<times> 'c) DbResources \<Rightarrow> ClowdApp \<Rightarrow> (('w, 'c) Provider, unit) op" where
  "localdb_Provide d R app =
     (if db_Name (app_DB app) = '''' \<and> db_SharedDBAppName (app_DB app) = '''' then ret ()
      else if db_SharedDBAppName (app_DB app) \<noteq> '''' then processSharedDB d app
      else (let nn = NN (app_Name app @ ''-db'') (app_Namespace app);
                labels = [''sub'' \<mapsto> ''local_db''];
                dbVersion = (case db_Version (app_DB app) of Some v \<Rightarrow> v | None \<Rightarrow> 12)
            in and_next (cache_Create (dr_Deployment R) nn) (\<lambda>dd.
               and_next (reads prov_World) (\<lambda>w.
               and_next (map_err (Wrap (db_Stack d) ''password generate failed'') (result (db_Password d w))) (\<lambda>password.
               and_next (map_err (Wrap (db_Stack d) ''pgPassword generate failed'') (result (db_PgPassword d w))) (\<lambda>pgPassword.
               and_next (map_err (Wrap (db_Stack d) ''Couldn't set/get secret'')
                 (make_or_get (\<lambda>_. AppObject app) (dr_Secret R) nn
                   (local_db_data nn (db_RandString d w) password pgPassword (db_Name (app_DB app))))) (\<lambda>secMap.
               and_next (populated d secMap) (\<lambda>dbCfg.
               and_next (result (GetDefaultDatabaseImage (db_Stack d) dbVersion (cy_Enabled (app_Cyndi (app_Spec app))))) (\<lambda>img.
               and_next (or_panic (GetResourceRequirementsForSize (db_MustParse d) (db_DBResourceSize (app_DB app)))) (\<lambda>resources.
               and_next (reads prov_Env) (\<lambda>env.
               and_next (or_panic (MakeLocalDB (db_MakeLabeler d) (db_MustParse d) dd nn (AppObject app) labels dbCfg img (env_DatabasePVC env)
                           (db_Name (app_DB app)) (Some resources))) (\<lambda>dd'.
               and_next (cache_Update (dr_Deployment R) dd') (\<lambda>_.
               and_next (make_service d R nn (AppObject app) labels) (\<lambda>_.
               and_next (if env_DatabasePVC env
                         then with_resource (dr_PVC R) nn (\<lambda>pvc. MakeLocalDBPVC (db_MakePVC d) pvc nn (AppObject app)
                                (GetVolCapacityForSize (db_DBVolumeSize (app_DB app))))
                         else ret ()) (\<lambda>_.
                 set_config (\<lambda>c. c\<lparr>cfg_Database := Some dbCfg\<rparr>))))))))))))))))"

section \<open>A database for all apps of an environment\<close>

definition versioned_nn :: "ClowdEnvironment \<Rightarrow> int \<Rightarrow> NamespacedName" where
  "versioned_nn env version = NN (env_Name env @ ''-db-v'' @ itoa version) (est_TargetNamespace (env_Status env))"

text \<open>The largest volume an app with the version asks for; every app is asked for its version.\<close>

fun largest_volume :: "int \<Rightarrow> string \<Rightarrow> ClowdApp list \<Rightarrow> string option" where
  "largest_volume version largestDBVolSize [] = Some largestDBVolSize"
| "largest_volume version largestDBVolSize (app # apps) =
     (case db_Version (app_DB app) of
        None \<Rightarrow> None
      | Some v \<Rightarrow>
          (if version \<noteq> v then largest_volume version largestDBVolSize apps
           else (let dbSize = (if db_DBVolumeSize (app_DB app) = '''' then GetDefaultSizeVol else db_DBVolumeSize (app_DB app))
                 in largest_volume version (if IsSizeLarger dbSize largestDBVolSize then dbSize else largestDBVolSize) apps)))"

definition createVersionedDatabase ::
  "'w DbDeps \<Rightarrow> ('w \<times> 'c) DbResources \<Rightarrow> int \<Rightarrow> (('w, 'c) Provider, DatabaseCfg) op" where
  "createVersionedDatabase d R version =
     and_next (reads prov_Env) (\<lambda>env.
       let nn = versioned_nn env version; labels = [''sub'' \<mapsto> ''shared_db_'' @ itoa version]
       in and_next (cache_Create (dr_Deployment R) nn) (\<lambda>dd.
          and_next (reads prov_World) (\<lambda>w.
          and_next (map_err (Wrap (db_Stack d) ''password generate failed'') (result (db_Password d w))) (\<lambda>password.
          and_next (map_err (Wrap (db_Stack d) ''pgPassword generate failed'') (result (db_PgPassword d w))) (\<lambda>pgPassword.
          and_next (map_err (Wrap (db_Stack d) ''Couldn't set/get secret'')
            (make_or_get env_object (dr_Secret R) nn
              (map_of [(''hostname'', nn_Name nn @ ''.'' @ nn_Namespace nn @ ''.svc''), (''port'', ''5432''), (''username'', db_RandString d w),
                 (''password'', password), (''pgPass'', pgPassword), (''name'', env_Name env)]))) (\<lambda>secMap.
          and_next (populated d secMap) (\<lambda>dbCfg.
          and_next (result (GetDefaultDatabaseImage (db_Stack d) version True)) (\<lambda>img.
          and_next (or_panic (MakeLocalDB (db_MakeLabeler d) (db_MustParse d) dd nn (EnvObject env) labels dbCfg img (env_DatabasePVC env)
                      (env_Name env) None)) (\<lambda>dd'.
          and_next (cache_Update (dr_Deployment R) dd') (\<lambda>_.
          and_next (make_service d R nn (EnvObject env) labels) (\<lambda>_.
            if env_DatabasePVC env
            then and_next (cache_Create (dr_PVC R) nn) (\<lambda>pvc.
                 and_next (apps_in_env (db_Prov d)) (\<lambda>appList.
                 and_next (or_panic (largest_volume version GetDefaultSizeVol appList)) (\<lambda>largestDBVolSize.
                 and_next (cache_Update (dr_PVC R) (MakeLocalDBPVC (db_MakePVC d) pvc nn (EnvObject env) (GetVolCapacityForSize largestDBVolSize))) (\<lambda>_.
                   ret dbCfg))))
            else ret dbCfg)))))))))))"

text \<open>The set of versions in the order they are first asked for.\<close>

definition versions_required :: "ClowdApp list \<Rightarrow> int list" where
  "versions_required apps = rev (remdups (rev (map (\<lambda>a. case db_Version (app_DB a) of None \<Rightarrow> 12 | Some v \<Rightarrow> v)
     (filter (\<lambda>a. db_Name (app_DB a) \<noteq> '''') apps))))"

definition shareddb_EnvProvide :: "'w DbDeps \<Rightarrow> ('w \<times> 'c) DbResources \<Rightarrow> (('w, 'c) Provider, unit) op" where
  "shareddb_EnvProvide d R =
     and_next (apps_in_env (db_Prov d)) (\<lambda>appList.
       each (\<lambda>v. and_next (createVersionedDatabase d R v) (\<lambda>_. ret ())) (db_IterVersions d (versions_required appList)))"

definition connection_string :: "string \<Rightarrow> int \<Rightarrow> string \<Rightarrow> string \<Rightarrow> string \<Rightarrow> string" where
  "connection_string host port user password dbname = ''host='' @ host @ '' port='' @ itoa port @ '' user='' @ user
     @ '' password='' @ password @ '' dbname='' @ dbname @ '' sslmode=disable''"

definition shared_cfg :: "smap \<Rightarrow> int \<Rightarrow> string \<Rightarrow> DatabaseCfg" where
  "shared_cfg data' port name = DatabaseCfg_zero\<lparr>dbcf_AdminUsername := ''postgres'', dbcf_AdminPassword := mget data' ''pgPass'',
     dbcf_Hostname := mget data' ''hostname'', dbcf_Name := name, dbcf_Password := mget data' ''password'',
     dbcf_Username := mget data' ''username'', dbcf_Port := port, dbcf_SslMode := ''disable''\<rparr>"

text \<open>Making sure the database of the app exists in the shared server.\<close>

definition ensure_database :: "'w DbDeps \<Rightarrow> ClowdApp \<Rightarrow> DatabaseCfg \<Rightarrow> (('w, 'c) Provider, unit) op" where
  "ensure_database d app cfg =
     and_next (reads prov_Env) (\<lambda>env.
       let conn = connection_string (dbcf_Hostname cfg) (dbcf_Port cfg) (dbcf_AdminUsername cfg) (dbcf_AdminPassword cfg);
           appConn = conn (db_Name (app_DB app)); envConn = conn (env_Name env);
           statement = ''CREATE DATABASE '' @ [CHR 0x22] @ db_Name (app_DB app) @ [CHR 0x22] @ '' WITH OWNER='' @ [CHR 0x22] @ dbcf_Username cfg @ [CHR 0x22] @ '';''
       in and_next (world_err (db_Open d appConn)) (\<lambda>_.
          and_next (reads (\<lambda>p. db_Ping d appConn (prov_World p))) (\<lambda>ping.
            case ping of
              None \<Rightarrow> ret ()
            | Some pErr \<Rightarrow>
                (if starts_somewhere (''database '' @ [CHR 0x22] @ db_Name (app_DB app) @ [CHR 0x22] @ '' does not exist'') (Error pErr)
                 then and_next (world_err (db_Open d envConn)) (\<lambda>_.
                      and_next (world_err (db_Prepare d envConn statement)) (\<lambda>_.
                        unless_err (\<lambda>p. case db_Exec d envConn statement (prov_World p) of (w', e) \<Rightarrow> (p\<lparr>prov_World := w'\<rparr>, e))))
                 else fail pErr))))"

definition shared_app_secret :: "ClowdApp \<Rightarrow> NamespacedName \<Rightarrow> DatabaseCfg \<Rightarrow> KSecretObj \<Rightarrow> KSecretObj" where
  "shared_app_secret app nn cfg secret = secret\<lparr>
     sec_StringData := map_of [(''hostname'', dbcf_Hostname cfg), (''port'', ''5432''), (''username'', dbcf_Username cfg),
       (''password'', dbcf_Password cfg), (''pgPass'', dbcf_AdminPassword cfg), (''name'', db_Name (app_DB app))],
     sec_ObjectMeta := (sec_ObjectMeta secret)\<lparr>om_Name := nn_Name nn, om_Namespace := nn_Namespace nn,
       om_OwnerReferences := [app_MakeOwnerReference app]\<rparr>,
     sec_Type := ''Opaque''\<rparr>"

definition shareddb_Provide ::
  "'w DbDeps \<Rightarrow> ('w \<times> 'c, KSecretObj) Resource \<Rightarrow> ClowdApp \<Rightarrow> (('w, 'c) Provider, unit) op" where
  "shareddb_Provide d SharedDBAppSecret app =
     (if db_Name (app_DB app) = '''' \<and> db_SharedDBAppName (app_DB app) = '''' then ret ()
      else if db_SharedDBAppName (app_DB app) \<noteq> '''' then processSharedDB d app
      else and_next (reads prov_Env) (\<lambda>env.
             let version = (case db_Version (app_DB app) of Some v \<Rightarrow> v | None \<Rightarrow> 12); nn = NN (app_Name app @ ''-db'') (app_Namespace app)
             in and_next (get_secret (db_Prov d) (versioned_nn env version)) (\<lambda>vSec.
                case atoi (mget (sec_Data vSec) ''port'') of
                  None \<Rightarrow> fail (atoi_err (mget (sec_Data vSec) ''port''))
                | Some port \<Rightarrow>
                    (let cfg = shared_cfg (sec_Data vSec) port (db_Name (app_DB app))
                     in and_next (ensure_database d app cfg) (\<lambda>_.
                        and_next (with_resource SharedDBAppSecret nn (shared_app_secret app nn cfg)) (\<lambda>_.
                          set_config (\<lambda>c. c\<lparr>cfg_Database := Some cfg\<rparr>)))))))"

section \<open>Databases found by their secrets\<close>

record DatabaseConfigContainer =
  dcc_Config :: DatabaseCfg
  dcc_Ref :: NamespacedName

definition DatabaseConfigContainer_zero :: DatabaseConfigContainer where
  "DatabaseConfigContainer_zero = \<lparr>dcc_Config = DatabaseCfg_zero, dcc_Ref = NN '''' ''''\<rparr>"

definition defaultCaBundleURL :: string where
  "defaultCaBundleURL = ''https://s3.amazonaws.com/rds-downloads/rds-combined-ca-bundle.pem''"

text \<open>The response of the HTTP client: a status and the body or the error of reading it.\<close>

definition fetchCa :: "string \<Rightarrow> (string \<Rightarrow> goerr + int \<times> (goerr + string)) \<Rightarrow> string \<Rightarrow> goerr + string" where
  "fetchCa stack httpGet caURL =
     (case httpGet caURL of
        Inl err \<Rightarrow> Inl (Wrap stack ''Error fetching CA bundle'' err)
      | Inr (statusCode, body) \<Rightarrow>
          (if statusCode \<noteq> 200 then Inl (NewClowderError stack (''Bad status code: '' @ itoa statusCode))
           else (case body of
                   Inl err \<Rightarrow> Inl (Wrap stack ''Error reading response body'' err)
                 | Inr caBundle \<Rightarrow>
                     (if \<not> has_prefix caBundle ''-----BEGIN CERTIFICATE'' then Inl (NewClowderError stack ''Invalid RDS CA bundle'')
                      else Inr caBundle))))"

definition dbai_EnvProvide ::
  "string \<Rightarrow> (string \<Rightarrow> goerr + int \<times> (goerr + string)) \<Rightarrow> ClowdEnvironment \<Rightarrow> smap \<Rightarrow> smap \<times> goerr option" where
  "dbai_EnvProvide stack httpGet env rdsCaBundles =
     (let url = dbc_CaBundleURL (pv_Database (env_Providers (env_Spec env))); caURL = (if url = '''' then defaultCaBundleURL else url)
      in if mget rdsCaBundles caURL = ''''
         then (case fetchCa stack httpGet caURL of
                 Inl err \<Rightarrow> (rdsCaBundles, Some (Wrap stack ''Failed to fetch RDS CA bundle'' err))
               | Inr ca \<Rightarrow> (rdsCaBundles(caURL \<mapsto> ca), None))
         else (rdsCaBundles, None))"

definition db_secret_keys :: "string list" where
  "db_secret_keys = [''db.host'', ''db.port'', ''db.user'', ''db.password'', ''db.name'']"

definition secret_db_config :: "KSecretObj \<Rightarrow> int \<Rightarrow> DatabaseConfigContainer" where
  "secret_db_config secret port = \<lparr>dcc_Config = DatabaseCfg_zero\<lparr>dbcf_Hostname := mget (sec_Data secret) ''db.host'', dbcf_Port := port,
       dbcf_Username := mget (sec_Data secret) ''db.user'', dbcf_Password := mget (sec_Data secret) ''db.password'',
       dbcf_Name := mget (sec_Data secret) ''db.name'', dbcf_SslMode := ''verify-full''\<rparr>,
     dcc_Ref = NN (om_Name (sec_ObjectMeta secret)) (om_Namespace (sec_ObjectMeta secret))\<rparr>"

text \<open>The extraction function wraps the error collected so far, not the one of the conversion.\<close>

definition extract_db :: "string \<Rightarrow> KSecretObj \<Rightarrow> DatabaseConfigContainer list \<times> goerr option \<Rightarrow> DatabaseConfigContainer list \<times> goerr option" where
  "extract_db stack secret = (\<lambda>(configs, err).
     case atoi (mget (sec_Data secret) ''db.port'') of
       None \<Rightarrow> (configs, Some (case err of None \<Rightarrow> ClowderError stack ''Failed to parse DB port'' None False
                                 | Some e \<Rightarrow> Wrap stack ''Failed to parse DB port'' e))
     | Some port \<Rightarrow> (configs @ [secret_db_config secret port], err))"

definition genDbConfigs :: "string \<Rightarrow> KSecretObj list \<Rightarrow> bool \<Rightarrow> goerr + DatabaseConfigContainer list" where
  "genDbConfigs stack secrets verify =
     (case ExtractSecretData secrets (extract_db stack) db_secret_keys ([], None) of
        (configs, Some err) \<Rightarrow> (if verify then Inl err else Inr configs)
      | (configs, None) \<Rightarrow> Inr configs)"

fun searchAnnotationSecret :: "string \<Rightarrow> string \<Rightarrow> KSecretObj list \<Rightarrow> goerr + DatabaseConfigContainer list" where
  "searchAnnotationSecret stack appName [] = Inr []"
| "searchAnnotationSecret stack appName (secret # secrets) =
     (if om_Annotations (sec_ObjectMeta secret) ''clowder/database'' = Some appName then genDbConfigs stack [secret] True
      else searchAnnotationSecret stack appName secrets)"

text \<open>The name of a database is its host up to the first dot, without the last dashed segment.\<close>

definition name_segments :: "DatabaseConfigContainer \<Rightarrow> string list" where
  "name_segments c = split_on CHR ''-'' (hd (split_on CHR ''.'' (dbcf_Hostname (dcc_Config c))))"

fun resolveDb :: "DatabaseSpec \<Rightarrow> DatabaseConfigContainer list \<Rightarrow> DatabaseConfigContainer" where
  "resolveDb spec [] = DatabaseConfigContainer_zero"
| "resolveDb spec (config # configs) =
     (if last (name_segments config) = ''readonly'' then resolveDb spec configs
      else if join ''-'' (butlast (name_segments config)) = db_Name spec then config
      else resolveDb spec configs)"

definition with_admin :: "smap \<Rightarrow> string \<Rightarrow> DatabaseConfigContainer \<Rightarrow> DatabaseConfigContainer" where
  "with_admin rdsCaBundles rdsCaBundleURL matched =
     (let c = dcc_Config matched; url = (if rdsCaBundleURL = '''' then defaultCaBundleURL else rdsCaBundleURL)
      in matched\<lparr>dcc_Config := c\<lparr>dbcf_AdminPassword := dbcf_Password c, dbcf_AdminUsername := dbcf_Username c,
                   dbcf_RdsCa := Some (mget rdsCaBundles url)\<rparr>\<rparr>)"

definition GetDbConfig ::
  "'w DbDeps \<Rightarrow> smap \<Rightarrow> string \<Rightarrow> string \<Rightarrow> DatabaseSpec \<Rightarrow> string \<Rightarrow> 'w \<Rightarrow> goerr + DatabaseConfigContainer" where
  "GetDbConfig d rdsCaBundles namespace searchAppName dbSpec rdsCaBundleURL w =
     (case db_ListSecrets d namespace w of
        Inl err \<Rightarrow> Inl (Wrap (db_Stack d) (''Failed to list secrets in '' @ namespace) err)
      | Inr items \<Rightarrow>
          (let secrets = db_SortSecrets d items
           in case searchAnnotationSecret (db_Stack d) searchAppName secrets of
                Inl err \<Rightarrow> Inl (Wrap (db_Stack d) ''failed to extract annotated secret'' err)
              | Inr (m # _) \<Rightarrow> Inr (with_admin rdsCaBundles rdsCaBundleURL m)
              | Inr [] \<Rightarrow>
                  (case genDbConfigs (db_Stack d) secrets False of
                     Inl err \<Rightarrow> Inl err
                   | Inr dbConfigs \<Rightarrow>
                       (let matched = resolveDb dbSpec dbConfigs
                        in if matched = DatabaseConfigContainer_zero
                           then Inl (MakeMissingDependencies \<lparr>md_Source = ''database'', md_Details = ''DB secret matching app '' @ [CHR 0x27] @ searchAppName
                                  @ [CHR 0x27] @ '' not found in namespace '' @ [CHR 0x27] @ namespace @ [CHR 0x27]\<rparr>)
                           else Inr (with_admin rdsCaBundles rdsCaBundleURL matched)))))"

definition dbai_Provide :: "'w DbDeps \<Rightarrow> smap \<Rightarrow> ClowdApp \<Rightarrow> (('w, 'c) Provider, unit) op" where
  "dbai_Provide d rdsCaBundles app =
     (let name = db_Name (app_DB app); shared = db_SharedDBAppName (app_DB app)
      in if name = '''' \<and> shared = '''' then ret ()
         else if name \<noteq> '''' \<and> shared \<noteq> '''' then fail (NewClowderError (db_Stack d) ''Cannot set dbName & shared db app name'')
         else and_next (if name \<noteq> '''' then ret (app_DB app, app_Namespace app, app_Name app)
                        else (case checkDependency (db_Stack d) app of
                                Some err \<Rightarrow> fail err
                              | None \<Rightarrow>
                                  and_next (reads (\<lambda>p. GetAppForDBInSameEnv (pd_ListApps (db_Prov d) (prov_World p)) app False)) (\<lambda>r.
                                  and_next (result r) (\<lambda>refApp. ret (app_DB refApp, app_Namespace refApp, app_Name refApp)))))
           (\<lambda>(dbSpec, namespace, searchAppName).
              and_next (reads (\<lambda>p. GetDbConfig d rdsCaBundles namespace searchAppName dbSpec
                  (dbc_CaBundleURL (pv_Database (env_Providers (env_Spec (prov_Env p))))) (prov_World p))) (\<lambda>r.
              and_next (result r) (\<lambda>matched.
                set_config (\<lambda>c. c\<lparr>cfg_Database := Some (dcc_Config matched)\<rparr>)))))"

section \<open>The choice of a provider\<close>

datatype db_provider = SharedDB | LocalDB | AppInterfaceDB | NoneDB

definition GetDatabase :: "string \<Rightarrow> ClowdEnvironment \<Rightarrow> goerr + db_provider" where
  "GetDatabase stack env =
     (let dbMode = dbc_Mode (pv_Database (env_Providers (env_Spec env)))
      in if dbMode = ''shared'' then Inr SharedDB else if dbMode = ''local'' then Inr LocalDB
         else if dbMode = ''app-interface'' then Inr AppInterfaceDB else if dbMode = ''none'' \<or> dbMode = '''' then Inr NoneDB
         else Inl (NewClowderError stack (''No matching db mode for '' @ dbMode)))"

section \<open>Which secret describes a database\<close>

text \<open>The secrets with all the keys and a port that is a number, in order.\<close>

definition describes_db :: "KSecretObj \<Rightarrow> bool" where
  "describes_db secret = (set db_secret_keys \<subseteq> dom (sec_Data secret) \<and> atoi (mget (sec_Data secret) ''db.port'') \<noteq> None)"

definition db_config_of :: "KSecretObj \<Rightarrow> DatabaseConfigContainer" where
  "db_config_of secret = secret_db_config secret (the (atoi (mget (sec_Data secret) ''db.port'')))"

lemma extract_db_fold:
  "fst (foldl (\<lambda>s secret. extract_db stack secret s) (cs, e) (filter (\<lambda>x. set db_secret_keys \<subseteq> dom (sec_Data x)) secrets))
     = cs @ map db_config_of (filter describes_db secrets)"
proof (induction secrets arbitrary: cs e)
  case (Cons s secrets)
  show ?case
  proof (cases "set db_secret_keys \<subseteq> dom (sec_Data s)")
    case True
    then show ?thesis
      using Cons.IH by (cases "atoi (mget (sec_Data s) ''db.port'')")
        (auto simp: extract_db_def describes_db_def db_config_of_def simp del: mget_simps)
  next
    case False
    then show ?thesis using Cons.IH by (simp add: describes_db_def)
  qed
qed simp

lemma genDbConfigs_lenient: "genDbConfigs stack secrets False = Inr (map db_config_of (filter describes_db secrets))"
  using extract_db_fold [of stack "[]" None secrets]
  by (auto simp: genDbConfigs_def ExtractSecretData_filter split: prod.splits option.splits)

lemma genDbConfigs_strict: "genDbConfigs stack secrets True = Inr cs \<Longrightarrow> cs = map db_config_of (filter describes_db secrets)"
  using extract_db_fold [of stack "[]" None secrets]
  by (auto simp: genDbConfigs_def ExtractSecretData_filter split: prod.splits option.splits)

definition annotated_for :: "string \<Rightarrow> KSecretObj \<Rightarrow> bool" where
  "annotated_for appName secret = (om_Annotations (sec_ObjectMeta secret) ''clowder/database'' = Some appName)"

lemma searchAnnotationSecret_cases:
  "searchAnnotationSecret stack appName secrets =
     (case find (annotated_for appName) secrets of None \<Rightarrow> Inr [] | Some s \<Rightarrow> genDbConfigs stack [s] True)"
  by (induction secrets) (auto simp: annotated_for_def)

definition names_db :: "DatabaseSpec \<Rightarrow> DatabaseConfigContainer \<Rightarrow> bool" where
  "names_db spec c = (last (name_segments c) \<noteq> ''readonly'' \<and> join ''-'' (butlast (name_segments c)) = db_Name spec)"

lemma resolveDb_find: "resolveDb spec cs = (case find (names_db spec) cs of None \<Rightarrow> DatabaseConfigContainer_zero | Some c \<Rightarrow> c)"
  by (induction cs) (auto simp: names_db_def)

lemma db_config_of_nonzero: "db_config_of s \<noteq> DatabaseConfigContainer_zero"
  by (simp add: db_config_of_def secret_db_config_def DatabaseConfigContainer_zero_def DatabaseCfg_zero_def)

lemma resolve_described:
  "resolveDb spec (map db_config_of ss) = DatabaseConfigContainer_zero \<longleftrightarrow> find (\<lambda>s. names_db spec (db_config_of s)) ss = None"
  "find (\<lambda>s. names_db spec (db_config_of s)) ss = Some s \<Longrightarrow> resolveDb spec (map db_config_of ss) = db_config_of s"
  by (induction ss) (auto simp: names_db_def db_config_of_nonzero split: if_splits)

text \<open>The secret of an app's database: the first one annotated with the app if it is of use, else the first of use
  that is named after the database.\<close>

definition db_secret_for :: "string \<Rightarrow> DatabaseSpec \<Rightarrow> KSecretObj list \<Rightarrow> KSecretObj option" where
  "db_secret_for appName spec secrets =
     (case find (annotated_for appName) secrets of
        Some s \<Rightarrow> if describes_db s then Some s else find (\<lambda>s. names_db spec (db_config_of s)) (filter describes_db secrets)
      | None \<Rightarrow> find (\<lambda>s. names_db spec (db_config_of s)) (filter describes_db secrets))"

text \<open>
  C20. The configuration an app-interface database gets comes from one secret of the namespace, whatever the order the
  cluster lists them in: the first by name that is annotated with the app, if it has all the keys (and a port that is a number), or else
  the first by name whose host is that of the database the app asks for and not of a read-only replica.
  The administrator is the user of the secret. When there is no such secret the app misses a dependency.
\<close>

theorem database_secret_chosen:
  assumes "db_ListSecrets d ns w = Inr items" and "\<And>xs. is_sort_of (\<lambda>a b. om_Name (sec_ObjectMeta a) < om_Name (sec_ObjectMeta b)) xs (db_SortSecrets d xs)"
    and "inj_on (\<lambda>s. om_Name (sec_ObjectMeta s)) (set items)"
    and "is_sort_of (\<lambda>a b. om_Name (sec_ObjectMeta a) < om_Name (sec_ObjectMeta b)) items ordered"
    and "\<forall>s \<in> set items. annotated_for appName s \<longrightarrow> set db_secret_keys \<subseteq> dom (sec_Data s) \<longrightarrow> describes_db s"
  shows "GetDbConfig d bundles ns appName spec url w =
    (case db_secret_for appName spec ordered of
       Some s \<Rightarrow> Inr (with_admin bundles url (db_config_of s))
     | None \<Rightarrow> Inl (MakeMissingDependencies \<lparr>md_Source = ''database'', md_Details = ''DB secret matching app '' @ [CHR 0x27] @ appName
                                  @ [CHR 0x27] @ '' not found in namespace '' @ [CHR 0x27] @ ns @ [CHR 0x27]\<rparr>))"
proof -
  have ordered: "db_SortSecrets d items = ordered"
    by (rule is_sort_of_unique [OF _ assms(3) assms(2) assms(4)]) simp
  have "set ordered = set items" using assms(4) by (metis is_sort_of_def set_mset_mset)
  then have use: "describes_db s" if "find (annotated_for appName) ordered = Some s" "set db_secret_keys \<subseteq> dom (sec_Data s)" for s
    using that assms(5) by (metis find_Some_iff nth_mem)
  have search: "searchAnnotationSecret (db_Stack d) appName ordered =
      Inr (case find (annotated_for appName) ordered of Some s \<Rightarrow> if describes_db s then [db_config_of s] else [] | None \<Rightarrow> [])"
  proof (cases "find (annotated_for appName) ordered")
    case (Some s)
    have "genDbConfigs (db_Stack d) [s] True = Inr (if describes_db s then [db_config_of s] else [])"
    proof (cases "set db_secret_keys \<subseteq> dom (sec_Data s)")
      case True
      with Some use have "describes_db s" by blast
      then show ?thesis
        by (auto simp: genDbConfigs_def ExtractSecretData_filter extract_db_def describes_db_def db_config_of_def simp del: mget_simps)
    next
      case False
      then show ?thesis by (simp add: genDbConfigs_def ExtractSecretData_filter describes_db_def)
    qed
    with Some show ?thesis by (simp add: searchAnnotationSecret_cases)
  qed (simp add: searchAnnotationSecret_cases)
  show ?thesis
    unfolding GetDbConfig_def assms(1) sum.case Let_def ordered search genDbConfigs_lenient db_secret_for_def
    by (auto simp: resolve_described split: option.splits)
qed

definition sample_db_secret :: "string \<Rightarrow> string \<Rightarrow> smap \<Rightarrow> KSecretObj" where
  "sample_db_secret n host annos = KSecretObj_zero\<lparr>sec_ObjectMeta := ObjectMeta_zero\<lparr>om_Name := n, om_Annotations := annos\<rparr>,
     sec_Data := map_of [(''db.host'', host), (''db.port'', ''5432''), (''db.user'', ''u''), (''db.password'', ''p''), (''db.name'', ''inv'')]\<rparr>"

definition sample_db_deps :: "KSecretObj list \<Rightarrow> unit DbDeps" where
  "sample_db_deps secrets = \<lparr>db_Prov = sample_pull_deps, db_Password = (\<lambda>w. Inr ''pw''), db_PgPassword = (\<lambda>w. Inr ''pg''), db_RandString = (\<lambda>w. ''rnd''),
     db_MakeLabeler = (\<lambda>nn ls o' k. k), db_MakeService = (\<lambda>s nn ls ps o' np. s), db_MakePVC = (\<lambda>p nn ls cap o'. p), db_MustParse = Some,
     db_IterVersions = (\<lambda>vs. vs), db_Open = (\<lambda>c w. None), db_Ping = (\<lambda>c w. None), db_Prepare = (\<lambda>c s w. None), db_Exec = (\<lambda>c s w. (w, None)),
     db_ListSecrets = (\<lambda>ns w. Inr secrets), db_SortSecrets = sort_slice (\<lambda>a b. om_Name (sec_ObjectMeta a) < om_Name (sec_ObjectMeta b))\<rparr>"

theorem database_secret_chosen_witness:
  "GetDbConfig (sample_db_deps [sample_db_secret ''b'' ''inv-prod.rds'' Map.empty, sample_db_secret ''a'' ''inv-readonly.rds'' Map.empty])
      Map.empty ''ns'' ''app'' \<lparr>db_Version = None, db_Name = ''inv'', db_SharedDBAppName = '''', db_DBVolumeSize = '''', db_DBResourceSize = ''''\<rparr> ''url'' ()
    = Inr (with_admin Map.empty ''url'' (db_config_of (sample_db_secret ''b'' ''inv-prod.rds'' Map.empty)))"
proof -
  let ?b = "sample_db_secret ''b'' ''inv-prod.rds'' Map.empty" and ?a = "sample_db_secret ''a'' ''inv-readonly.rds'' Map.empty"
  let ?spec = "\<lparr>db_Version = None, db_Name = ''inv'', db_SharedDBAppName = '''', db_DBVolumeSize = '''', db_DBResourceSize = ''''\<rparr>"
  have atoi: "atoi ''5432'' = Some 5432" by code_simp
  have fields: "om_Name (sec_ObjectMeta ?a) = ''a''" "om_Name (sec_ObjectMeta ?b) = ''b''" "\<not> annotated_for ''app'' ?a" "\<not> annotated_for ''app'' ?b"
    by (simp_all add: sample_db_secret_def annotated_for_def)
  have "describes_db ?a" "describes_db ?b"
    by (auto simp: describes_db_def db_secret_keys_def sample_db_secret_def atoi)
  moreover have "name_segments (db_config_of ?a) = [''inv'', ''readonly'']" "name_segments (db_config_of ?b) = [''inv'', ''prod'']"
    by (simp_all add: name_segments_def db_config_of_def secret_db_config_def sample_db_secret_def)
  ultimately have sel: "db_secret_for ''app'' ?spec [?a, ?b] = Some ?b"
    using fields by (simp add: db_secret_for_def names_db_def)
  show ?thesis
    by (subst database_secret_chosen [where items = "[?b, ?a]" and ordered = "[?a, ?b]"])
      (auto simp: sel fields sample_db_deps_def is_sort_of_def go_sorted_def intro!: go_sorted_sort_slice [where key = "\<lambda>s. om_Name (sec_ObjectMeta s)", unfolded go_sorted_def])
qed

section \<open>The volume and the versions of the shared database\<close>

lemma largest_volume_panics: "largest_volume v s apps = None \<longleftrightarrow> (\<exists>a \<in> set apps. db_Version (app_DB a) = None)"
  by (induction apps arbitrary: s) (auto simp: Let_def split: option.splits)

lemma IsSizeLarger_trans: "IsSizeLarger c a \<Longrightarrow> IsSizeLarger a b \<Longrightarrow> IsSizeLarger c b"
  by (simp add: IsSizeLarger_def)

lemma IsSizeLarger_negtrans: "\<not> IsSizeLarger a b \<Longrightarrow> \<not> IsSizeLarger b c \<Longrightarrow> \<not> IsSizeLarger a c"
  by (simp add: IsSizeLarger_def)

definition volume_wish :: "ClowdApp \<Rightarrow> string" where
  "volume_wish a = (if db_DBVolumeSize (app_DB a) = '''' then GetDefaultSizeVol else db_DBVolumeSize (app_DB a))"

lemma largest_volume_cases:
  assumes "largest_volume v s apps = Some r"
  shows "\<not> IsSizeLarger s r \<and> (\<forall>a \<in> set apps. db_Version (app_DB a) = Some v \<longrightarrow> \<not> IsSizeLarger (volume_wish a) r)
    \<and> (r = s \<or> (\<exists>a \<in> set apps. db_Version (app_DB a) = Some v \<and> r = volume_wish a))"
  using assms
proof (induction apps arbitrary: s)
  case Nil
  then show ?case by (simp add: IsSizeLarger_def)
next
  case (Cons a apps)
  then obtain va where va: "db_Version (app_DB a) = Some va" by (auto split: option.splits)
  show ?case
  proof (cases "v = va")
    case False
    with Cons va show ?thesis by auto
  next
    case True
    define s' where "s' = (if IsSizeLarger (volume_wish a) s then volume_wish a else s)"
    have "largest_volume v s' apps = Some r" using Cons.prems va True by (auto simp: s'_def volume_wish_def Let_def split: if_splits)
    note IH = Cons.IH [OF this]
    have "\<not> IsSizeLarger s s'" "\<not> IsSizeLarger (volume_wish a) s'" by (auto simp: s'_def IsSizeLarger_def)
    with IH have "\<not> IsSizeLarger s r" "\<not> IsSizeLarger (volume_wish a) r" using IsSizeLarger_negtrans by blast+
    with IH va True show ?thesis by (auto simp: s'_def split: if_splits)
  qed
qed

lemma make_or_get_env: "make_or_get obj rs nn i p = Some (p', z) \<Longrightarrow> prov_Env p' = prov_Env p"
  by (auto simp: make_or_get_def cached_def split: prod.splits option.splits)

lemma populated_ok:
  "populated d m p = Some (p', Inr c) \<longleftrightarrow> p' = p \<and> (\<exists>c0. DatabaseConfig_Populate m DatabaseCfg_zero = Inr c0
     \<and> c = c0\<lparr>dbcf_AdminUsername := ''postgres'', dbcf_SslMode := ''disable''\<rparr>)"
  by (auto simp: populated_def op_oks)

text \<open>A version of the database is made on a claim only when every app of the environment states its version.\<close>

lemma createVersionedDatabase_needs_versions:
  assumes "createVersionedDatabase d R v p = Some (p', Inr c)" and "env_DatabasePVC (prov_Env p)"
  shows "\<exists>w apps. pd_ListApps (db_Prov d) w (env_Name (prov_Env p)) = Inr apps \<and> (\<forall>a \<in> set apps. db_Version (app_DB a) \<noteq> None)"
    and "prov_Env p' = prov_Env p"
proof -
  obtain w apps r where list: "pd_ListApps (db_Prov d) w (env_Name (prov_Env p)) = Inr apps"
    and vol: "largest_volume v GetDefaultSizeVol apps = Some r" and env: "prov_Env p' = prov_Env p"
    using assms unfolding createVersionedDatabase_def
    by (auto simp: op_oks Let_def apps_in_env_ok populated_ok make_service_def dest!: cache_env make_or_get_env with_resource_env)
  show "prov_Env p' = prov_Env p" using env by simp
  show "\<exists>w apps. pd_ListApps (db_Prov d) w (env_Name (prov_Env p)) = Inr apps \<and> (\<forall>a \<in> set apps. db_Version (app_DB a) \<noteq> None)"
    using list vol largest_volume_panics [of v GetDefaultSizeVol apps] by (intro exI [of _ w] exI [of _ apps]) auto
qed

text \<open>
  In an environment whose shared databases are on claims, an app that states no database version stops
  them all: once some app needs a database, the provider does not succeed, whether or not that
  other app uses a database itself.
\<close>

theorem shared_db_needs_versions:
  assumes "\<forall>w. pd_ListApps (db_Prov d) w (env_Name (prov_Env p)) = Inr apps" and "env_DatabasePVC (prov_Env p)"
    and "a \<in> set apps" "db_Version (app_DB a) = None" and "b \<in> set apps" "db_Name (app_DB b) \<noteq> ''''"
    and "go_iteration (db_IterVersions d)"
  shows "shareddb_EnvProvide d R p \<noteq> Some (p', Inr ())"
proof
  assume run: "shareddb_EnvProvide d R p = Some (p', Inr ())"
  have "set (versions_required apps) \<noteq> {}"
    using assms(5,6) by (auto simp: versions_required_def filter_empty_conv)
  then obtain v vs where vs: "db_IterVersions d (versions_required apps) = v # vs"
    using go_iteration_set [OF assms(7)] by (metis list.exhaust list.set(1))
  have "apps_in_env (db_Prov d) p = Some (p, Inr apps)"
    using assms(1) by (simp add: apps_in_env_ok)
  with run have "each (\<lambda>v. and_next (createVersionedDatabase d R v) (\<lambda>_. ret ())) (v # vs) p = Some (p', Inr ())"
    unfolding shareddb_EnvProvide_def and_next_ok vs [symmetric] by auto
  then obtain p1 c where "createVersionedDatabase d R v p = Some (p1, Inr c)"
    by (auto simp: op_oks)
  from createVersionedDatabase_needs_versions(1) [OF this assms(2)] show False
    using assms(1,3,4) by auto
qed

definition sample_db_app :: "string \<Rightarrow> int option \<Rightarrow> ClowdApp" where
  "sample_db_app name version = ClowdApp_zero\<lparr>app_Spec := ClowdAppSpec_zero\<lparr>app_Database := (app_Database ClowdAppSpec_zero)\<lparr>db_Name := name, db_Version := version\<rparr>\<rparr>\<rparr>"

definition sample_db_env :: ClowdEnvironment where
  "sample_db_env = ClowdEnvironment_zero\<lparr>env_Spec := (env_Spec ClowdEnvironment_zero)\<lparr>env_Providers :=
     ProvidersConfig_zero\<lparr>pv_Database := \<lparr>dbc_Mode = ''shared'', dbc_CaBundleURL = '''', dbc_PVC = True\<rparr>\<rparr>\<rparr>\<rparr>"

definition sample_shared_deps :: "unit DbDeps" where
  "sample_shared_deps = (sample_db_deps [])\<lparr>db_Prov := sample_prov_deps (\<lambda>nn w. Inr (sample_secret nn))
     (\<lambda>e. Inr [sample_db_app ''inv'' (Some 16), sample_db_app '''' None])\<rparr>"

theorem shared_db_needs_versions_witness:
  "\<forall>(R :: (unit \<times> unit) DbResources) p'. shareddb_EnvProvide sample_shared_deps R
      \<lparr>prov_World = (), prov_Env = sample_db_env, prov_Cache = Some (), prov_Config = None, prov_HashCache = []\<rparr> \<noteq> Some (p', Inr ())"
  by (intro allI shared_db_needs_versions [where a = "sample_db_app '''' None" and b = "sample_db_app ''inv'' (Some 16)"
        and apps = "[sample_db_app ''inv'' (Some 16), sample_db_app '''' None]"])
    (simp_all add: sample_shared_deps_def sample_db_deps_def sample_prov_deps_def sample_db_app_def sample_db_env_def ProvidersConfig_zero_def)

section \<open>The database of an app and its configuration\<close>

text \<open>Operations on one identifier leave the objects of another alone.\<close>

definition leaves_alone :: "('s, 'k) Resource \<Rightarrow> ('s \<Rightarrow> 'v) \<Rightarrow> bool" where
  "leaves_alone r recorded = ((\<forall>nn s. recorded (fst (res_Create r nn s)) = recorded s) \<and> (\<forall>k s. recorded (fst (res_Update r k s)) = recorded s))"

lemma leaves_alone_ops:
  assumes "leaves_alone r recorded"
  shows "cache_Create r nn p = Some (p', x) \<Longrightarrow> prov_recorded recorded p' = prov_recorded recorded p"
    and "cache_Update r k p = Some (p', y) \<Longrightarrow> prov_recorded recorded p' = prov_recorded recorded p"
proof -
  have laws: "\<And>nn s. recorded (fst (res_Create r nn s)) = recorded s" "\<And>k s. recorded (fst (res_Update r k s)) = recorded s"
    using assms unfolding leaves_alone_def by blast+
  show "cache_Create r nn p = Some (p', x) \<Longrightarrow> prov_recorded recorded p' = prov_recorded recorded p"
    using laws(1) [of nn "(prov_World p, the (prov_Cache p))"]
    by (auto simp: cache_Create_def cached_def split: option.splits prod.splits)
  show "cache_Update r k p = Some (p', y) \<Longrightarrow> prov_recorded recorded p' = prov_recorded recorded p"
    using laws(2) [of k "(prov_World p, the (prov_Cache p))"]
    by (auto simp: cache_Update_def cached_def split: option.splits prod.splits)
qed

lemma with_resource_alone:
  assumes "leaves_alone r recorded" "with_resource r nn f p = Some (p', x)"
  shows "prov_recorded recorded p' = prov_recorded recorded p"
  using assms(2) unfolding with_resource_def and_next_apply by (metis leaves_alone_ops [OF assms(1)])

abbreviation kd_NN :: "KDeployment \<Rightarrow> NamespacedName" where
  "kd_NN k \<equiv> NN (om_Name (kd_ObjectMeta k)) (om_Namespace (kd_ObjectMeta k))"

lemma MakeLocalDB_container:
  "MakeLocalDB lab mp dd nn base extra cfg img pvc dbName (Some res) = Some dd' \<Longrightarrow>
     pt_Containers (kd_Template dd') = [local_db_container nn img cfg dbName res]
     \<and> kd_ObjectMeta dd' = kd_ObjectMeta (lab nn ((co_GetLabels base)(''service'' \<mapsto> ''db'') ++ extra) base dd)"
  by (auto simp: MakeLocalDB_def Let_def split: option.splits)

text \<open>The data that is used is the data of the secret, or the initial data if it has none.\<close>

lemma make_or_get_from:
  assumes "make_or_get obj r nn dataInit p = Some (p', Inr secMap)"
  obtains s s' k where "res_Create r nn s = (s', Inr k)" "secMap = (if sec_Data k = Map.empty then dataInit else sec_Data k)"
  using assms by (auto simp: make_or_get_def cached_def MakeOrGetSecret_ok_iff split: option.splits prod.splits if_splits)

text \<open>
  C21. The secret of the database of an app, if it was there before, is for the name of the database the app asks for. When a database of its own is made for the app, the server
  that is recorded for it is started with the user, the password, the administrator's password and the database name that the configuration of the app has, and the name is the one
  the app asks for.
\<close>

theorem local_db_agrees:
  assumes run: "localdb_Provide d R app p = Some (p', Inr u)" and own: "db_Name (app_DB app) \<noteq> ''''" "db_SharedDBAppName (app_DB app) = ''''"
    and cache: "object_cache (dr_Deployment R) kd_NN recorded"
    and others: "leaves_alone (dr_Service R) recorded" "leaves_alone (dr_PVC R) recorded"
    and labeler: "\<And>nn ls o' k. kd_NN (db_MakeLabeler d nn ls o' k) = nn"
    and current: "\<forall>s s' k. res_Create (dr_Secret R) (NN (app_Name app @ ''-db'') (app_Namespace app)) s = (s', Inr k) \<longrightarrow>
      sec_Data k = Map.empty \<or> sec_Data k ''name'' = Some (db_Name (app_DB app))"
  shows "\<exists>c cfg dd ct. prov_Config p' = Some c \<and> cfg_Database c = Some cfg \<and> dbcf_Name cfg = db_Name (app_DB app)
    \<and> prov_recorded recorded p' (NN (app_Name app @ ''-db'') (app_Namespace app)) = Some dd \<and> pt_Containers (kd_Template dd) = [ct]
    \<and> ct_Env ct = [plain_var ''POSTGRESQL_USER'' (dbcf_Username cfg), plain_var ''POSTGRESQL_PASSWORD'' (dbcf_Password cfg),
                   plain_var ''POSTGRESQL_ADMIN_PASSWORD'' (dbcf_AdminPassword cfg), plain_var ''POSTGRESQL_DATABASE'' (dbcf_Name cfg)]"
proof -
  define nn where "nn = NN (app_Name app @ ''-db'') (app_Namespace app)"
  obtain pv pa pb username password pgPassword secMap cfg0 p1 p2 p3 p4 dd cfg img res dd' where
    sec: "make_or_get (\<lambda>_. AppObject app) (dr_Secret R) nn (local_db_data nn username password pgPassword (db_Name (app_DB app))) pa = Some (pb, Inr secMap)"
    and cfg: "DatabaseConfig_Populate secMap DatabaseCfg_zero = Inr cfg0" "cfg = cfg0\<lparr>dbcf_AdminUsername := ''postgres'', dbcf_SslMode := ''disable''\<rparr>"
    and dd': "MakeLocalDB (db_MakeLabeler d) (db_MustParse d) dd nn (AppObject app) [''sub'' \<mapsto> ''local_db''] cfg img pv
        (db_Name (app_DB app)) (Some res) = Some dd'"
    and upd: "cache_Update (dr_Deployment R) dd' p1 = Some (p2, Inr ())"
    and svc: "make_service d R nn (AppObject app) [''sub'' \<mapsto> ''local_db''] p2 = Some (p3, Inr ())"
    and pvc: "(if pv then with_resource (dr_PVC R) nn (\<lambda>pvc. MakeLocalDBPVC (db_MakePVC d) pvc nn (AppObject app)
                                (GetVolCapacityForSize (db_DBVolumeSize (app_DB app)))) else ret ()) p3 = Some (p4, Inr ())"
    and fin: "set_config (\<lambda>c. c\<lparr>cfg_Database := Some cfg\<rparr>) p4 = Some (p', Inr u)"
    using run own unfolding localdb_Provide_def nn_def [symmetric] Let_def
    by (auto simp: op_oks populated_ok nn_def split del: if_split)
  from make_or_get_from [OF sec] obtain s s' k where "res_Create (dr_Secret R) nn s = (s', Inr k)"
    "secMap = (if sec_Data k = Map.empty then local_db_data nn username password pgPassword (db_Name (app_DB app)) else sec_Data k)" .
  then have "sec_Data k = Map.empty \<or> sec_Data k ''name'' = Some (db_Name (app_DB app))"
    "secMap = (if sec_Data k = Map.empty then local_db_data nn username password pgPassword (db_Name (app_DB app)) else sec_Data k)"
    using current unfolding nn_def by blast+
  then have "mget secMap ''name'' = db_Name (app_DB app)" by (auto simp: local_db_data_def Let_def split: if_splits)
  then have name: "dbcf_Name cfg = db_Name (app_DB app)"
    using cfg by (auto simp: DatabaseConfig_Populate_def split: option.splits)
  have nn': "kd_NN dd' = nn" using MakeLocalDB_container [OF dd'] labeler by simp
  have "prov_recorded recorded p2 nn = Some dd'" using update_records [OF cache upd] nn' by simp
  moreover have "prov_recorded recorded p3 = prov_recorded recorded p2"
    using with_resource_alone [OF others(1) svc [unfolded make_service_def]] .
  moreover have "prov_recorded recorded p4 = prov_recorded recorded p3"
    using pvc with_resource_alone [OF others(2)] by (auto split: if_splits)
  moreover obtain c where "p' = p4\<lparr>prov_Config := Some (c\<lparr>cfg_Database := Some cfg\<rparr>)\<rparr>" using fin by (auto simp: set_config_ok)
  ultimately show ?thesis
    using MakeLocalDB_container [OF dd'] name by (auto simp: nn_def local_db_container_def)
qed

text \<open>After the name was changed in the specification the configuration keeps the name of the secret, while the server is started with the new name.\<close>

lemma renamed_database_kept:
  assumes "make_or_get obj r nn dataInit p = Some (p', Inr secMap)" and "\<And>s s' k. res_Create r nn s = (s', Inr k) \<Longrightarrow> sec_Data k ''name'' = Some old"
    and "populated d secMap q = Some (q', Inr cfg)"
  shows "dbcf_Name cfg = old"
proof -
  from make_or_get_from [OF assms(1)] obtain s s' k where "res_Create r nn s = (s', Inr k)" "secMap = (if sec_Data k = Map.empty then dataInit else sec_Data k)" .
  with assms(2) have "secMap ''name'' = Some old" by (metis option.distinct(1))
  with assms(3) show ?thesis by (auto simp: populated_ok DatabaseConfig_Populate_def mget_def split: option.splits)
qed

text \<open>A resource whose objects are not kept.\<close>

definition quiet_resource :: "'k \<Rightarrow> ('s, 'k) Resource" where
  "quiet_resource k = \<lparr>res_Create = (\<lambda>nn s. (s, Inr k)), res_Update = (\<lambda>k s. (s, None)), res_Get = (\<lambda>nn s. Inr k), res_List = (\<lambda>s. Inr [])\<rparr>"

lemma quiet_resource_alone: "leaves_alone (quiet_resource k) recorded"
  by (simp add: leaves_alone_def quiet_resource_def)

definition sample_local_resources :: "(unit \<times> (NamespacedName \<rightharpoonup> KDeployment)) DbResources" where
  "sample_local_resources = \<lparr>dr_Deployment = map_cache kd_NN KDeployment_zero,
     dr_Service = quiet_resource \<lparr>svc_ObjectMeta = ObjectMeta_zero, svc_Selector = Map.empty, svc_Ports = [], svc_Type = '''', svc_SessionAffinity = ''''\<rparr>,
     dr_PVC = quiet_resource \<lparr>pvc_ObjectMeta = ObjectMeta_zero, pvc_AccessModes = [], pvc_Storage = ''''\<rparr>, dr_Secret = quiet_resource KSecretObj_zero\<rparr>"

definition sample_local_deps :: "unit DbDeps" where
  "sample_local_deps = (sample_db_deps [])\<lparr>db_MakeLabeler := (\<lambda>nn ls o' k. k\<lparr>kd_ObjectMeta := (kd_ObjectMeta k)\<lparr>om_Name := nn_Name nn, om_Namespace := nn_Namespace nn\<rparr>\<rparr>)\<rparr>"

definition sample_local_provider :: "(unit, NamespacedName \<rightharpoonup> KDeployment) Provider" where
  "sample_local_provider = \<lparr>prov_World = (), prov_Env = sample_db_env, prov_Cache = Some Map.empty, prov_Config = Some AppConfig_zero, prov_HashCache = []\<rparr>"

theorem local_db_agrees_witness:
  "\<exists>p' c cfg dd ct. localdb_Provide sample_local_deps sample_local_resources (sample_db_app ''inv'' (Some 16)) sample_local_provider = Some (p', Inr ())
    \<and> prov_Config p' = Some c \<and> cfg_Database c = Some cfg \<and> the (prov_Cache p') (NN ''-db'' '''') = Some dd \<and> pt_Containers (kd_Template dd) = [ct]
    \<and> ct_Env ct = [plain_var ''POSTGRESQL_USER'' (dbcf_Username cfg), plain_var ''POSTGRESQL_PASSWORD'' (dbcf_Password cfg),
                   plain_var ''POSTGRESQL_ADMIN_PASSWORD'' (dbcf_AdminPassword cfg), plain_var ''POSTGRESQL_DATABASE'' ''inv'']"
proof -
  let ?run = "localdb_Provide sample_local_deps sample_local_resources (sample_db_app ''inv'' (Some 16)) sample_local_provider"
  have atoi: "atoi ''5432'' = Some 5432" by code_simp
  have "\<exists>p'. ?run = Some (p', Inr ())"
    by (simp add: localdb_Provide_def Let_def op_oks populated_ok set_config_ok make_service_def with_resource_def make_or_get_def cache_Create_def cache_Update_def
        cached_def sample_local_deps_def sample_db_deps_def sample_local_resources_def sample_local_provider_def quiet_resource_def map_cache_def sample_db_app_def
        sample_db_env_def MakeOrGetSecret_def KSecretObj_zero_def ClowdAppSpec_zero_def ClowdApp_zero_def ProvidersConfig_zero_def local_db_data_def
        DatabaseConfig_Populate_def atoi GetDefaultDatabaseImage_def GetResourceRequirementsForSize_def MakeLocalDB_def GetDefaultResourceRequirements_def)
  then obtain p' where run: "?run = Some (p', Inr ())" by blast
  have "\<exists>c cfg dd ct. prov_Config p' = Some c \<and> cfg_Database c = Some cfg \<and> dbcf_Name cfg = db_Name (app_DB (sample_db_app ''inv'' (Some 16)))
    \<and> prov_recorded snd p' (NN (app_Name (sample_db_app ''inv'' (Some 16)) @ ''-db'') (app_Namespace (sample_db_app ''inv'' (Some 16)))) = Some dd
    \<and> pt_Containers (kd_Template dd) = [ct]
    \<and> ct_Env ct = [plain_var ''POSTGRESQL_USER'' (dbcf_Username cfg), plain_var ''POSTGRESQL_PASSWORD'' (dbcf_Password cfg),
                   plain_var ''POSTGRESQL_ADMIN_PASSWORD'' (dbcf_AdminPassword cfg), plain_var ''POSTGRESQL_DATABASE'' (dbcf_Name cfg)]"
    by (rule local_db_agrees [OF run])
      (simp_all add: sample_local_resources_def map_cache_laws sample_local_deps_def sample_db_app_def ClowdAppSpec_zero_def quiet_resource_def leaves_alone_def KSecretObj_zero_def)
  with run show ?thesis
    by (auto simp: sample_db_app_def ClowdApp_zero_def ObjectMeta_zero_def)
qed

end
