(* ===== verification/Kafka_Cyndi.thy ===== *)
theory Kafka_Cyndi
  imports Kafka_Brokers Database
begin

text \<open>
  Cyndi pipelines, \<open>providers/kafka/cyndi.go\<close>, and the two providers that use them beside Strimzi: the \<open>Provide\<close>
  of \<open>providers/kafka/msk.go\<close> and the app-interface provider of \<open>providers/kafka/appinterface.go\<close>. Whether the client
  is nil, which it is in the project's own tests only, is a flag.

  The facts: an app the app-interface provider configures has all its topics in the cluster, and which broker and topics
  its configuration gets.
\<close>

record KPipeline =
  kpl_ObjectMeta :: ObjectMeta
  kpl_AppName :: string
  kpl_InventoryDbSecret :: "string option"
  kpl_DbSecret :: "string option"
  kpl_ConnectCluster :: "string option"
  kpl_InsightsOnly :: bool
  kpl_AdditionalFilters :: "smap list"

record 'w CyndiDeps =
  cyd_Kafka :: "'w KafkaDeps"
  cyd_Db :: "'w DbDeps"
  cyd_NilClient :: bool
  cyd_GetPipeline :: "NamespacedName \<Rightarrow> 'w \<Rightarrow> goerr + string"
  cyd_GetTopic :: "NamespacedName \<Rightarrow> 'w \<Rightarrow> goerr option"
  cyd_GetService :: "NamespacedName \<Rightarrow> 'w \<Rightarrow> goerr option"
  cyd_Bundles :: smap

abbreviation cyd_Prov :: "'w CyndiDeps \<Rightarrow> 'w ProvDeps" where "cyd_Prov d \<equiv> kd_Prov (cyd_Kafka d)"
abbreviation cyd_Stack :: "'w CyndiDeps \<Rightarrow> string" where "cyd_Stack d \<equiv> pd_Stack (cyd_Prov d)"

record 's CyndiResources =
  cyr_Pipeline :: "('s, KPipeline) Resource"
  cyr_AppSecret :: "('s, KSecretObj) Resource"
  cyr_InventorySecret :: "('s, KSecretObj) Resource"
  cyr_LocalDBSecret :: "('s, KSecretObj) Resource"
  cyr_SharedDBAppSecret :: "('s, KSecretObj) Resource"

definition quoted :: "string \<Rightarrow> string" where
  "quoted s = [CHR 0x27] @ s @ [CHR 0x27]"

definition cyndi_name :: "ClowdApp \<Rightarrow> string" where
  "cyndi_name app = (if cy_AppName (app_Cyndi (app_Spec app)) = '''' then app_Name app else cy_AppName (app_Cyndi (app_Spec app)))"

section \<open>Pipelines\<close>

definition validateCyndiPipeline :: "'w CyndiDeps \<Rightarrow> ClowdApp \<Rightarrow> string \<Rightarrow> (('w, 'c) Provider, unit) op" where
  "validateCyndiPipeline d app connectClusterNamespace =
     (if cyd_NilClient d then ret ()
      else (let nn = NN (cyndi_name app) connectClusterNamespace
            in and_next (reads (\<lambda>p. cyd_GetPipeline d nn (prov_World p))) (\<lambda>r.
                 case r of
                   Inl err \<Rightarrow> fail (MakeMissingDependencies \<lparr>md_Source = ''cyndi'',
                     md_Details = ''CyndiPipeline named '' @ quoted (nn_Name nn) @ '' not found in namespace '' @ quoted (nn_Namespace nn)\<rparr>)
                 | Inr activeTableName \<Rightarrow>
                     (if activeTableName = ''''
                      then fail (MakeMissingDependencies \<lparr>md_Source = ''cyndi'',
                        md_Details = ''CyndiPipeline '' @ quoted (nn_Name nn) @ '' in namespace '' @ quoted (nn_Namespace nn) @ '' has no '' @ quoted ''active table'' @ '' in status''\<rparr>)
                      else ret ()))))"

definition db_secret_error :: "'w CyndiDeps \<Rightarrow> string \<Rightarrow> goerr \<Rightarrow> goerr" where
  "db_secret_error d name = Wrap (cyd_Stack d) (''couldn't get '' @ quoted (name @ ''-db'') @ '' secret'')"

definition getDbSecretInSameEnv ::
  "'w CyndiDeps \<Rightarrow> ('w \<times> 'c) CyndiResources \<Rightarrow> ClowdApp \<Rightarrow> string \<Rightarrow> (('w, 'c) Provider, KSecretObj) op" where
  "getDbSecretInSameEnv d R app name =
     and_next (map_err (Wrap (cyd_Stack d) ''unable to list ClowdApps in environment'')
       (and_next (reads (\<lambda>p. GetAppInSameEnv (pd_ListApps (cyd_Prov d) (prov_World p)) app)) result)) (\<lambda>appList.
     case filter (\<lambda>foundApp. app_Name foundApp = name) appList of
       [] \<Rightarrow> fail (NewClowderError (cyd_Stack d) (''unable to locate '' @ quoted name @ '' ClowdApp in environment''))
     | refApp # others \<Rightarrow>
         (if others \<noteq> [] then fail (NewClowderError (cyd_Stack d) (''found more than one '' @ quoted name @ '' ClowdApp in environment''))
          else if name = ''host-inventory'' then map_err (db_secret_error d name) (get_secret (cyd_Prov d) (NN (name @ ''-db'') (app_Namespace refApp)))
          else if db_SharedDBAppName (app_DB app) \<noteq> '''' then fail (NewClowderError (cyd_Stack d) ''Shared DB app cannot use Cyndi'')
          else and_next (reads prov_Env) (\<lambda>env.
                 let mode = dbc_Mode (pv_Database (env_Providers (env_Spec env)))
                 in if mode = ''local'' then map_err (db_secret_error d name) (and_next (cache_Get (cyr_LocalDBSecret R) None) result)
                    else if mode = ''shared'' then map_err (db_secret_error d name) (and_next (cache_Get (cyr_SharedDBAppSecret R) None) result)
                    else if mode = ''app-interface'' \<and> db_Name (app_DB app) \<noteq> ''''
                    then and_next (map_err (Wrap (cyd_Stack d) ''could not get database config'')
                           (and_next (reads (\<lambda>p. GetDbConfig (cyd_Db d) (cyd_Bundles d) (app_Namespace app) (app_Name app) (app_DB app)
                              (dbc_CaBundleURL (pv_Database (env_Providers (env_Spec env)))) (prov_World p))) result)) (\<lambda>dbConfig.
                         map_err (db_secret_error d name) (get_secret (cyd_Prov d) (dcc_Ref dbConfig)))
                    else ret KSecretObj_zero)))"

definition connect_secret :: "ClowdEnvironment \<Rightarrow> NamespacedName \<Rightarrow> smap \<Rightarrow> KSecretObj \<Rightarrow> KSecretObj" where
  "connect_secret env outNN secretData secret = secret\<lparr>sec_StringData := secretData, sec_Type := ''Opaque'',
     sec_ObjectMeta := (sec_ObjectMeta secret)\<lparr>om_Name := nn_Name outNN, om_Namespace := nn_Namespace outNN,
       om_OwnerReferences := [env_MakeOwnerReference env]\<rparr>\<rparr>"

definition applySecretToConnectNamespace ::
  "string \<Rightarrow> string \<Rightarrow> smap \<Rightarrow> ('w \<times> 'c, KSecretObj) Resource \<Rightarrow> (('w, 'c) Provider, unit) op" where
  "applySecretToConnectNamespace secretName connectClusterNamespace secretData resourceIdent =
     (let outNN = NN secretName connectClusterNamespace
      in and_next (reads prov_Env) (\<lambda>env. with_resource resourceIdent outNN (connect_secret env outNN secretData)))"

definition createCyndiAppDbSecret ::
  "'w CyndiDeps \<Rightarrow> ('w \<times> 'c) CyndiResources \<Rightarrow> ClowdApp \<Rightarrow> string \<Rightarrow> (('w, 'c) Provider, string) op" where
  "createCyndiAppDbSecret d R app connectClusterNamespace =
     and_next (map_err (Wrap (cyd_Stack d) (''unable to get '' @ quoted (app_Name app) @ '' db secret'')) (getDbSecretInSameEnv d R app (app_Name app))) (\<lambda>dbSecret.
       let secretName = app_EnvName (app_Spec app) @ ''-'' @ app_Name app @ ''-db-cyndi'';
           secretData = map_of [(''db.host'', mget (sec_Data dbSecret) ''hostname''), (''db.port'', mget (sec_Data dbSecret) ''port''),
             (''db.name'', mget (sec_Data dbSecret) ''name''), (''db.user'', ''cyndi''), (''db.password'', ''cyndi'')]
       in and_next (map_err (Wrap (cyd_Stack d) ''couldn't apply cyndi db secret for app'')
            (applySecretToConnectNamespace secretName connectClusterNamespace secretData (cyr_AppSecret R))) (\<lambda>_. ret secretName))"

definition createCyndiInventoryDbSecret ::
  "'w CyndiDeps \<Rightarrow> ('w \<times> 'c) CyndiResources \<Rightarrow> ClowdApp \<Rightarrow> string \<Rightarrow> (('w, 'c) Provider, string) op" where
  "createCyndiInventoryDbSecret d R app connectClusterNamespace =
     and_next (map_err (Wrap (cyd_Stack d) ''unable to get host-inventory db secret'') (getDbSecretInSameEnv d R app ''host-inventory'')) (\<lambda>dbSecret.
       let secretName = app_EnvName (app_Spec app) @ ''-host-inventory-db-cyndi'';
           secretData = map_of [(''db.host'', mget (sec_Data dbSecret) ''hostname''), (''db.port'', mget (sec_Data dbSecret) ''port''),
             (''db.name'', mget (sec_Data dbSecret) ''name''), (''db.user'', mget (sec_Data dbSecret) ''username''),
             (''db.password'', mget (sec_Data dbSecret) ''password'')]
       in and_next (map_err (Wrap (cyd_Stack d) ''couldn't apply cyndi db secret for host-inventory'')
            (applySecretToConnectNamespace secretName connectClusterNamespace secretData (cyr_InventorySecret R))) (\<lambda>_. ret secretName))"

definition pipeline_object :: "ClowdEnvironment \<Rightarrow> ClowdApp \<Rightarrow> NamespacedName \<Rightarrow> string \<Rightarrow> string \<Rightarrow> string \<Rightarrow> KPipeline \<Rightarrow> KPipeline" where
  "pipeline_object env app nn inventoryDbSecret appDbSecret connectClusterName pl = pl\<lparr>
     kpl_ObjectMeta := (kpl_ObjectMeta pl)\<lparr>om_Namespace := nn_Namespace nn, om_Name := nn_Name nn, om_OwnerReferences := [env_MakeOwnerReference env]\<rparr>,
     kpl_AppName := nn_Name nn, kpl_InventoryDbSecret := Some inventoryDbSecret, kpl_DbSecret := Some appDbSecret,
     kpl_ConnectCluster := Some connectClusterName, kpl_InsightsOnly := cy_InsightsOnly (app_Cyndi (app_Spec app)),
     kpl_AdditionalFilters := cy_AdditionalFilters (app_Cyndi (app_Spec app))\<rparr>"

definition createCyndiPipeline ::
  "'w CyndiDeps \<Rightarrow> ('w \<times> 'c) CyndiResources \<Rightarrow> ClowdApp \<Rightarrow> string \<Rightarrow> string \<Rightarrow> (('w, 'c) Provider, unit) op" where
  "createCyndiPipeline d R app connectClusterNamespace connectClusterName =
     (if cyd_NilClient d then ret ()
      else and_next (createCyndiInventoryDbSecret d R app connectClusterNamespace) (\<lambda>inventoryDbSecret.
           and_next (createCyndiAppDbSecret d R app connectClusterNamespace) (\<lambda>appDbSecret.
           and_next (reads prov_Env) (\<lambda>env.
             let nn = NN (cyndi_name app) connectClusterNamespace
             in with_resource (cyr_Pipeline R) nn (pipeline_object env app nn inventoryDbSecret appDbSecret connectClusterName)))))"

text \<open>The pipeline in the namespace and the cluster of Kafka Connect.\<close>

definition cyndi_if_enabled :: "'w CyndiDeps \<Rightarrow> ('w \<times> 'c) CyndiResources \<Rightarrow> ClowdApp \<Rightarrow> (('w, 'c) Provider, unit) op" where
  "cyndi_if_enabled d R app =
     (if cy_Enabled (app_Cyndi (app_Spec app))
      then and_next (reads prov_Env) (\<lambda>env. createCyndiPipeline d R app (getConnectNamespace env) (getConnectClusterName env))
      else ret ())"

section \<open>MSK, for an app\<close>

definition msk_Provide ::
  "'w CyndiDeps \<Rightarrow> ('w \<times> 'c) KafkaResources \<Rightarrow> ('w \<times> 'c) CyndiResources \<Rightarrow> ClowdApp \<Rightarrow> (('w, 'c) Provider, unit) op" where
  "msk_Provide d R C app =
     (if app_KafkaTopics (app_Spec app) = [] then ret ()
      else and_next (set_config (\<lambda>c. c\<lparr>cfg_Kafka := Some \<lparr>kc_Brokers = [], kc_Topics = []\<rparr>\<rparr>)) (\<lambda>_.
           and_next (msk_configureListeners (cyd_Kafka d)) (\<lambda>_.
           and_next (processTopics (cyd_Kafka d) (msk_provider (cyd_Kafka d)) (kr_Topic R) app) (\<lambda>_.
             cyndi_if_enabled d C app))))"

section \<open>App-interface\<close>

definition validateKafkaTopic :: "'w CyndiDeps \<Rightarrow> NamespacedName \<Rightarrow> (('w, 'c) Provider, unit) op" where
  "validateKafkaTopic d nn =
     (if cyd_NilClient d then ret ()
      else and_next (reads (\<lambda>p. cyd_GetTopic d nn (prov_World p))) (\<lambda>e.
             if e \<noteq> None
             then fail (MakeMissingDependencies \<lparr>md_Source = ''kafka'',
                    md_Details = ''No KafkaTopic named '' @ quoted (nn_Name nn) @ '' found in namespace '' @ quoted (nn_Namespace nn)\<rparr>)
             else ret ()))"

definition validateBrokerService :: "'w CyndiDeps \<Rightarrow> NamespacedName \<Rightarrow> (('w, 'c) Provider, unit) op" where
  "validateBrokerService d nn =
     (if cyd_NilClient d then ret ()
      else (let nn' = NN (nn_Name nn @ ''-kafka-bootstrap'') (nn_Namespace nn)
            in and_next (reads (\<lambda>p. cyd_GetService d nn' (prov_World p))) (\<lambda>e.
                 if e \<noteq> None
                 then fail (NewClowderError (cyd_Stack d) (''Cannot find kafka bootstrap service '' @ nn_Namespace nn' @ '':'' @ nn_Name nn'))
                 else ret ())))"

definition app_interface_nn :: "ClowdEnvironment \<Rightarrow> NamespacedName" where
  "app_interface_nn env = NN (kcc_Name (kaf_Cluster (env_Kafka env))) (getKafkaNamespace env)"

definition kafkaai_EnvProvide :: "'w CyndiDeps \<Rightarrow> (('w, 'c) Provider, unit) op" where
  "kafkaai_EnvProvide d = and_next (reads prov_Env) (\<lambda>env. validateBrokerService d (app_interface_nn env))"

definition setKafkaCA :: "'w CyndiDeps \<Rightarrow> BrokerConfig \<Rightarrow> (('w, 'c) Provider, BrokerConfig) op" where
  "setKafkaCA d broker =
     and_next (reads prov_Env) (\<lambda>env.
       if kcc_ForceTLS (kaf_Cluster (env_Kafka env))
       then and_next (get_secret (cyd_Prov d) (NN (getKafkaName env @ ''-cluster-ca-cert'') (getKafkaNamespace env))) (\<lambda>secret.
            and_next (track_secret (cyd_Prov d) env_object secret) (\<lambda>_.
              ret (broker\<lparr>br_Cacert := Some (mget (sec_Data secret) ''ca.crt''), br_Port := Some 9093, br_SecurityProtocol := Some ''SSL''\<rparr>)))
       else ret broker)"

definition kafkaai_Provide :: "'w CyndiDeps \<Rightarrow> ClowdApp \<Rightarrow> (('w, 'c) Provider, unit) op" where
  "kafkaai_Provide d app =
     and_next (reads prov_Env) (\<lambda>env.
     and_next (if cy_Enabled (app_Cyndi (app_Spec app)) then validateCyndiPipeline d app (getConnectNamespace env) else ret ()) (\<lambda>_.
       if app_KafkaTopics (app_Spec app) = [] then ret ()
       else (let nn = app_interface_nn env
             in and_next (setKafkaCA d (BrokerConfig_zero\<lparr>br_Hostname := nn_Name nn @ ''-kafka-bootstrap.'' @ nn_Namespace nn @ ''.svc'', br_Port := Some 9092\<rparr>)) (\<lambda>brokerConfig.
                and_next (set_config (\<lambda>c. c\<lparr>cfg_Kafka := Some \<lparr>kc_Brokers = [brokerConfig], kc_Topics = []\<rparr>\<rparr>)) (\<lambda>_.
                  each (\<lambda>topic.
                    and_next (validateKafkaTopic d (NN (kt_TopicName topic) (getKafkaNamespace env))) (\<lambda>_.
                      set_kafka (\<lambda>k. k\<lparr>kc_Topics := kc_Topics k @ [\<lparr>top_Name = kt_TopicName topic, top_RequestedName = kt_TopicName topic\<rparr>]\<rparr>)))
                    (app_KafkaTopics (app_Spec app)))))))"


section \<open>What the app-interface provider configures\<close>

lemma set_kafka_ok:
  "set_kafka f p = Some (p', Inr u) \<longleftrightarrow> (\<exists>c k. prov_Config p = Some c \<and> cfg_Kafka c = Some k \<and> p' = p\<lparr>prov_Config := Some (c\<lparr>cfg_Kafka := Some (f k)\<rparr>)\<rparr>)"
  by (auto simp: set_kafka_def the_config_def op_oks deref_def split: option.splits)

lemma validateKafkaTopic_ok:
  "validateKafkaTopic d nn p = Some (p', Inr u) \<longleftrightarrow> p' = p \<and> (cyd_NilClient d \<or> cyd_GetTopic d nn (prov_World p) = None)"
  by (auto simp: validateKafkaTopic_def)

lemma validated_topics_loop:
  assumes "each (\<lambda>topic. and_next (validateKafkaTopic d (NN (kt_TopicName topic) ns)) (\<lambda>_.
      set_kafka (\<lambda>k. k\<lparr>kc_Topics := kc_Topics k @ [\<lparr>top_Name = kt_TopicName topic, top_RequestedName = kt_TopicName topic\<rparr>]\<rparr>))) ts p = Some (p', Inr u)"
    and "prov_Config p = Some c" "cfg_Kafka c = Some k"
  shows "\<exists>c'. prov_Config p' = Some c' \<and> cfg_Kafka c' = Some (k\<lparr>kc_Topics := kc_Topics k @ map (\<lambda>t. \<lparr>top_Name = kt_TopicName t, top_RequestedName = kt_TopicName t\<rparr>) ts\<rparr>)
    \<and> (cyd_NilClient d \<or> (\<forall>t \<in> set ts. cyd_GetTopic d (NN (kt_TopicName t) ns) (prov_World p) = None))"
  using assms
proof (induction ts arbitrary: p c k)
  case Nil
  then show ?case by auto
next
  case (Cons t ts)
  define k1 where "k1 = k\<lparr>kc_Topics := kc_Topics k @ [\<lparr>top_Name = kt_TopicName t, top_RequestedName = kt_TopicName t\<rparr>]\<rparr>"
  obtain p1 where seen: "cyd_NilClient d \<or> cyd_GetTopic d (NN (kt_TopicName t) ns) (prov_World p) = None"
    and p1: "p1 = p\<lparr>prov_Config := Some (c\<lparr>cfg_Kafka := Some k1\<rparr>)\<rparr>"
    and loop: "each (\<lambda>topic. and_next (validateKafkaTopic d (NN (kt_TopicName topic) ns)) (\<lambda>_.
      set_kafka (\<lambda>k. k\<lparr>kc_Topics := kc_Topics k @ [\<lparr>top_Name = kt_TopicName topic, top_RequestedName = kt_TopicName topic\<rparr>]\<rparr>))) ts p1 = Some (p', Inr u)"
    using Cons.prems by (auto simp: op_oks validateKafkaTopic_ok set_kafka_ok k1_def)
  from Cons.IH [OF loop, of "c\<lparr>cfg_Kafka := Some k1\<rparr>" k1] seen show ?case
    unfolding p1 k1_def by auto
qed

text \<open>
  When the app-interface provider has configured an app that asks for topics, every topic is in the cluster under the name the app gives it, the
  configuration lists the topics in order, and it has one broker, the bootstrap service of the cluster, on the TLS port
  with a certificate exactly when the environment forces TLS.
\<close>

theorem app_interface_topics_exist:
  assumes run: "kafkaai_Provide d app p = Some (p', Inr u)" and topics: "app_KafkaTopics (app_Spec app) \<noteq> []" and client: "\<not> cyd_NilClient d"
  shows "\<forall>t \<in> set (app_KafkaTopics (app_Spec app)). cyd_GetTopic d (NN (kt_TopicName t) (getKafkaNamespace (prov_Env p))) (prov_World p) = None"
    and "\<exists>c b. prov_Config p' = Some c
      \<and> cfg_Kafka c = Some \<lparr>kc_Brokers = [b], kc_Topics = map (\<lambda>t. \<lparr>top_Name = kt_TopicName t, top_RequestedName = kt_TopicName t\<rparr>) (app_KafkaTopics (app_Spec app))\<rparr>
      \<and> br_Hostname b = kcc_Name (kaf_Cluster (env_Kafka (prov_Env p))) @ ''-kafka-bootstrap.'' @ getKafkaNamespace (prov_Env p) @ ''.svc''
      \<and> (if kcc_ForceTLS (kaf_Cluster (env_Kafka (prov_Env p))) then br_Port b = Some 9093 \<and> br_Cacert b \<noteq> None else br_Port b = Some 9092 \<and> br_Cacert b = None)"
proof -
  let ?env = "prov_Env p"
  let ?b0 = "BrokerConfig_zero\<lparr>br_Hostname := nn_Name (app_interface_nn ?env) @ ''-kafka-bootstrap.'' @ nn_Namespace (app_interface_nn ?env) @ ''.svc'', br_Port := Some 9092\<rparr>"
  obtain p1 where "(if cy_Enabled (app_Cyndi (app_Spec app)) then validateCyndiPipeline d app (getConnectNamespace ?env) else ret ()) p = Some (p1, Inr ())"
    and rest: "and_next (setKafkaCA d ?b0) (\<lambda>brokerConfig.
        and_next (set_config (\<lambda>c. c\<lparr>cfg_Kafka := Some \<lparr>kc_Brokers = [brokerConfig], kc_Topics = []\<rparr>\<rparr>)) (\<lambda>_.
          each (\<lambda>topic. and_next (validateKafkaTopic d (NN (kt_TopicName topic) (getKafkaNamespace ?env))) (\<lambda>_.
            set_kafka (\<lambda>k. k\<lparr>kc_Topics := kc_Topics k @ [\<lparr>top_Name = kt_TopicName topic, top_RequestedName = kt_TopicName topic\<rparr>]\<rparr>)))
          (app_KafkaTopics (app_Spec app)))) p1 = Some (p', Inr u)"
    using run topics unfolding kafkaai_Provide_def by (auto simp: op_oks Let_def)
  then have p1: "p1 = p" by (auto simp: validateCyndiPipeline_def op_oks Let_def split: if_splits sum.splits option.splits)
  obtain b p2 p3 where ca: "setKafkaCA d ?b0 p = Some (p2, Inr b)"
    and set: "set_config (\<lambda>c. c\<lparr>cfg_Kafka := Some \<lparr>kc_Brokers = [b], kc_Topics = []\<rparr>\<rparr>) p2 = Some (p3, Inr ())"
    and loop: "each (\<lambda>topic. and_next (validateKafkaTopic d (NN (kt_TopicName topic) (getKafkaNamespace ?env))) (\<lambda>_.
            set_kafka (\<lambda>k. k\<lparr>kc_Topics := kc_Topics k @ [\<lparr>top_Name = kt_TopicName topic, top_RequestedName = kt_TopicName topic\<rparr>]\<rparr>)))
          (app_KafkaTopics (app_Spec app)) p3 = Some (p', Inr u)"
    using rest unfolding p1 by (auto simp: and_next_ok)
  have b: "br_Hostname b = br_Hostname ?b0" "if kcc_ForceTLS (kaf_Cluster (env_Kafka ?env)) then br_Port b = Some 9093 \<and> br_Cacert b \<noteq> None else b = ?b0"
    and same: "prov_World p2 = prov_World p"
    using ca by (auto simp: setKafkaCA_def op_oks get_secret_def split: if_splits dest!: track_secret_frame)
  obtain c where p3: "prov_World p3 = prov_World p" "prov_Config p3 = Some c" "cfg_Kafka c = Some \<lparr>kc_Brokers = [b], kc_Topics = []\<rparr>"
    using set same by (auto simp: set_config_ok)
  note all = validated_topics_loop [OF loop p3(2,3)]
  show "\<forall>t \<in> set (app_KafkaTopics (app_Spec app)). cyd_GetTopic d (NN (kt_TopicName t) (getKafkaNamespace ?env)) (prov_World p) = None"
    using all client p3(1) by auto
  show "\<exists>c b. prov_Config p' = Some c
      \<and> cfg_Kafka c = Some \<lparr>kc_Brokers = [b], kc_Topics = map (\<lambda>t. \<lparr>top_Name = kt_TopicName t, top_RequestedName = kt_TopicName t\<rparr>) (app_KafkaTopics (app_Spec app))\<rparr>
      \<and> br_Hostname b = kcc_Name (kaf_Cluster (env_Kafka ?env)) @ ''-kafka-bootstrap.'' @ getKafkaNamespace ?env @ ''.svc''
      \<and> (if kcc_ForceTLS (kaf_Cluster (env_Kafka ?env)) then br_Port b = Some 9093 \<and> br_Cacert b \<noteq> None else br_Port b = Some 9092 \<and> br_Cacert b = None)"
    using all b by (auto simp: app_interface_nn_def BrokerConfig_zero_def split: if_splits)
qed

end
