(* ===== verification/Kafka_Strimzi.thy ===== *)
theory Kafka_Strimzi
  imports Kafka_Cyndi
begin

text \<open>
  The Strimzi provider, \<open>providers/kafka/strimzi.go\<close>: it makes the Kafka cluster, its Connect cluster, the users,
  the topics and the network policy of an environment, and configures apps with the addresses Strimzi reports. The fields
  of Strimzi's objects that are written are kept; \<open>resource.ParseQuantity\<close> and the comparison of quantities, and
  the text of the metrics configuration of \<open>metrics.go\<close>, are parameters. The JSON defaults are named by their
  contents.

  The facts: the brokers an app is configured with; which credentials they get and which protocol they miss; the
  access rules of an app's user; who may reach the cluster; when providing an app panics.
\<close>

record KListenerStatus =
  lst_Name :: "string option"
  lst_Addresses :: "(string option \<times> int option) list"

text \<open>A Kafka resource: its metadata, the listeners of its status (the status and the list may be nil) and what is written
  of its specification.\<close>

record KListener =
  kl_Name :: string
  kl_Type :: string
  kl_Port :: int
  kl_Tls :: bool
  kl_Scram :: bool
  kl_Brokers :: "(string \<times> int \<times> int) list"

record KStorage =
  kst_Type :: string
  kst_Size :: "string option"
  kst_DeleteClaim :: "bool option"

record KKafkaSpec =
  ksp_Config :: opaque
  ksp_Version :: string
  ksp_Replicas :: int
  ksp_Requests :: opaque
  ksp_Limits :: opaque
  ksp_Labels :: smap
  ksp_ImagePullSecrets :: "string list"
  ksp_JvmOptions :: opaque
  ksp_Metrics :: "string \<times> string \<times> bool"
  ksp_SimpleAuthorization :: bool
  ksp_Listeners :: "KListener list"
  ksp_Storage :: KStorage
  ksp_ZookeeperReplicas :: int
  ksp_ZookeeperResources :: "opaque \<times> opaque"
  ksp_ZookeeperStorage :: KStorage
  ksp_TopicOperatorResources :: "opaque \<times> opaque"
  ksp_UserOperatorResources :: "opaque \<times> opaque"
  ksp_UseFinalizers :: string

record KKafka =
  kk_ObjectMeta :: ObjectMeta
  kk_Listeners :: "KListenerStatus list option option"
  kk_Spec :: "KKafkaSpec option"

record KAcl =
  acl_Host :: string
  acl_Operation :: string
  acl_ResourceName :: string
  acl_PatternType :: string
  acl_ResourceType :: string

text \<open>The authentication and the rules of a user; no rules when there is no authorization. Of the status, the user name and
  the secret.\<close>

record KUser =
  ku_ObjectMeta :: ObjectMeta
  ku_Authentication :: "string option"
  ku_Acls :: "KAcl list option"
  ku_Status :: "(string option \<times> string option) option"

record 'w StrimziDeps =
  sz_Cyndi :: "'w CyndiDeps"
  sz_GetKafka :: "NamespacedName \<Rightarrow> 'w \<Rightarrow> goerr + KKafka"
  sz_GetUser :: "NamespacedName \<Rightarrow> 'w \<Rightarrow> goerr + KUser"
  sz_UpdateOrErr :: "goerr \<Rightarrow> goerr option"
  sz_ZeroKafka :: KKafka
  sz_LessQuantity :: "string \<Rightarrow> string \<Rightarrow> bool option"
  sz_MetricsData :: string

abbreviation sz_Kafka :: "'w StrimziDeps \<Rightarrow> 'w KafkaDeps" where "sz_Kafka d \<equiv> cyd_Kafka (sz_Cyndi d)"
abbreviation sz_Prov :: "'w StrimziDeps \<Rightarrow> 'w ProvDeps" where "sz_Prov d \<equiv> kd_Prov (cyd_Kafka (sz_Cyndi d))"
abbreviation sz_Loaded :: "'w StrimziDeps \<Rightarrow> ClowderConfig" where "sz_Loaded d \<equiv> pd_Loaded (sz_Prov d)"
abbreviation sz_Stack :: "'w StrimziDeps \<Rightarrow> string" where "sz_Stack d \<equiv> pd_Stack (sz_Prov d)"

record 's StrimziKinds =
  sk_Kafka :: "('s, KKafka) Resource"
  sk_Topic :: "('s, KTopic) Resource"
  sk_Connect :: "('s, KConnect) Resource"
  sk_User :: "('s, KUser) Resource"
  sk_ConnectUser :: "('s, KUser) Resource"
  sk_Metrics :: "('s, KConfigMapObj) Resource"
  sk_Policy :: "('s, KNetworkPolicy) Resource"
  sk_PullSecrets :: "('s, KSecretObj) Resource"
  sk_Cyndi :: "'s CyndiResources"

section \<open>The cluster\<close>

definition kafka_nn :: "ClowdEnvironment \<Rightarrow> NamespacedName" where
  "kafka_nn env = NN (getKafkaName env) (getKafkaNamespace env)"

definition ca_secret_nn :: "ClowdEnvironment \<Rightarrow> NamespacedName" where
  "ca_secret_nn env = NN (getKafkaName env @ ''-cluster-ca-cert'') (getKafkaNamespace env)"

definition createKafkaMetricsConfigMap :: "'w StrimziDeps \<Rightarrow> ('w \<times> 'c) StrimziKinds \<Rightarrow> (('w, 'c) Provider, NamespacedName) op" where
  "createKafkaMetricsConfigMap d R =
     and_next (reads prov_Env) (\<lambda>env.
       let nn = NN (getKafkaName env @ ''-metrics'') (getKafkaNamespace env)
       in and_next (with_resource (sk_Metrics R) nn (\<lambda>cm. cm\<lparr>cm_Data := [''metrics'' \<mapsto> sz_MetricsData d],
               cm_ObjectMeta := (cm_ObjectMeta cm)\<lparr>om_Name := nn_Name nn, om_Namespace := nn_Namespace nn, om_Labels := [''env'' \<mapsto> env_Name env],
                 om_OwnerReferences := [env_MakeOwnerReference env]\<rparr>\<rparr>)) (\<lambda>_. ret nn))"

definition resources_json :: "string \<Rightarrow> string \<Rightarrow> string" where
  "resources_json cpu memory = ''{'' @ [CHR 0x0A] @ ''        '' @ [CHR 0x22] @ ''cpu'' @ [CHR 0x22] @ '': '' @ [CHR 0x22] @ cpu @ [CHR 0x22] @ '','' @ [CHR 0x0A]
     @ ''        '' @ [CHR 0x22] @ ''memory'' @ [CHR 0x22] @ '': '' @ [CHR 0x22] @ memory @ [CHR 0x22] @ [CHR 0x0A] @ [CHR 0x09] @ ''}''"

definition kafka_config_json :: "string \<Rightarrow> string" where
  "kafka_config_json replicas = ''{'' @ [CHR 0x0A, CHR 0x09, CHR 0x09] @ [CHR 0x22] @ ''offsets.topic.replication.factor'' @ [CHR 0x22] @ '': '' @ replicas @ '','' @ [CHR 0x0A, CHR 0x09, CHR 0x09]
     @ [CHR 0x22] @ ''default.replication.factor'' @ [CHR 0x22] @ '': '' @ replicas @ [CHR 0x0A, CHR 0x09] @ ''}''"

definition unmarshalled :: "'w StrimziDeps \<Rightarrow> string \<Rightarrow> string \<Rightarrow> ('p, opaque) op" where
  "unmarshalled d what text = map_err (WrapErr (''could not unmarshal '' @ what @ '': '')) (result (kd_UnmarshalJSON (sz_Kafka d) text))"

definition cluster_replicas :: "ClowdEnvironment \<Rightarrow> int" where
  "cluster_replicas env = (let r = kcc_Replicas (kaf_Cluster (env_Kafka env)) in if r < 1 then 1 else r)"

definition internal_listener :: "ClowdEnvironment \<Rightarrow> KListener" where
  "internal_listener env =
     (if kaf_EnableLegacyStrimzi (env_Kafka env)
      then \<lparr>kl_Name = ''tcp'', kl_Type = ''internal'', kl_Port = 9092, kl_Tls = False, kl_Scram = False, kl_Brokers = []\<rparr>
      else \<lparr>kl_Name = ''tls'', kl_Type = ''internal'', kl_Port = 9093, kl_Tls = True, kl_Scram = True, kl_Brokers = []\<rparr>)"

definition external_listener :: KListener where
  "external_listener = \<lparr>kl_Name = ''ext'', kl_Type = ''nodeport'', kl_Port = 9094, kl_Tls = False, kl_Scram = False, kl_Brokers = [(''localhost'', 9094, 0)]\<rparr>"

definition kafka_listeners :: "ClowderConfig \<Rightarrow> ClowdEnvironment \<Rightarrow> KListener list" where
  "kafka_listeners lc env = [internal_listener env] @ (if feat_EnableExternalStrimzi (cc_Features lc) then [external_listener] else [])"

text \<open>Zookeeper gets 50Gi, or what Kafka gets when that is a quantity and less.\<close>

definition zookeeper_size :: "'w StrimziDeps \<Rightarrow> string \<Rightarrow> string" where
  "zookeeper_size d storageSize = (if sz_LessQuantity d storageSize ''50Gi'' = Some True then storageSize else ''50Gi'')"

definition ephemeral :: KStorage where
  "ephemeral = \<lparr>kst_Type = ''ephemeral'', kst_Size = None, kst_DeleteClaim = None\<rparr>"

definition persistent :: "string \<Rightarrow> bool \<Rightarrow> KStorage" where
  "persistent size' deleteClaim = \<lparr>kst_Type = ''persistent-claim'', kst_Size = Some size', kst_DeleteClaim = Some deleteClaim\<rparr>"

text \<open>The specification, from the documents and the names computed before.\<close>

definition kafka_spec ::
  "'w StrimziDeps \<Rightarrow> ClowdEnvironment \<Rightarrow> string \<Rightarrow> opaque \<Rightarrow> opaque \<Rightarrow> opaque \<Rightarrow> opaque \<times> opaque \<Rightarrow> opaque \<times> opaque \<Rightarrow> opaque \<times> opaque
    \<Rightarrow> string list \<Rightarrow> KKafkaSpec" where
  "kafka_spec d env metricsName kafConfig kafRequests kafLimits z entityTopic entityUser secretNames =
     (let cl = kaf_Cluster (env_Kafka env);
          storageSize = (if kcc_StorageSize cl = '''' then ''1Gi'' else kcc_StorageSize cl)
      in \<lparr>ksp_Config = kafConfig, ksp_Version = (if kcc_Version cl = '''' then ''3.8.0'' else kcc_Version cl),
          ksp_Replicas = cluster_replicas env, ksp_Requests = kafRequests, ksp_Limits = kafLimits, ksp_Labels = [''service'' \<mapsto> ''strimziKafka''],
          ksp_ImagePullSecrets = secretNames, ksp_JvmOptions = kcc_JVMOptions cl, ksp_Metrics = (''metrics'', metricsName, False),
          ksp_SimpleAuthorization = (\<not> kaf_EnableLegacyStrimzi (env_Kafka env)), ksp_Listeners = kafka_listeners (sz_Loaded d) env,
          ksp_Storage = (if kaf_PVC (env_Kafka env) then persistent storageSize (kcc_DeleteClaim cl) else ephemeral),
          ksp_ZookeeperReplicas = cluster_replicas env, ksp_ZookeeperResources = z,
          ksp_ZookeeperStorage = (if kaf_PVC (env_Kafka env) then persistent (zookeeper_size d storageSize) (kcc_DeleteClaim cl) else ephemeral),
          ksp_TopicOperatorResources = entityTopic, ksp_UserOperatorResources = entityUser,
          ksp_UseFinalizers = (if feat_DisableStrimziFinalizer (cc_Features (sz_Loaded d)) then ''false'' else ''true'')\<rparr>)"

definition kafka_object :: "ClowdEnvironment \<Rightarrow> KKafkaSpec \<Rightarrow> KKafka \<Rightarrow> KKafka" where
  "kafka_object env spec k = k\<lparr>kk_Spec := Some spec,
     kk_ObjectMeta := (kk_ObjectMeta k)\<lparr>om_Name := getKafkaName env, om_Namespace := getKafkaNamespace env, om_Labels := [''env'' \<mapsto> env_Name env],
       om_OwnerReferences := [env_MakeOwnerReference env]\<rparr>\<rparr>"

definition own_config :: "'w StrimziDeps \<Rightarrow> ClowdEnvironment \<Rightarrow> opaque \<Rightarrow> ('p, opaque) op" where
  "own_config d env kafConfig =
     (case kcc_Config (kaf_Cluster (env_Kafka env)) of
        None \<Rightarrow> ret kafConfig
      | Some [] \<Rightarrow> ret kafConfig
      | Some cfg \<Rightarrow> and_next (result (kd_MarshalJSON (sz_Kafka d) cfg)) (\<lambda>jsonData.
                    map_err (WrapErr ''could not unmarshall json data: '') (result (kd_UnmarshalJSON (sz_Kafka d) jsonData))))"

definition configureKafkaCluster :: "'w StrimziDeps \<Rightarrow> ('w \<times> 'c) StrimziKinds \<Rightarrow> (('w, 'c) Provider, unit) op" where
  "configureKafkaCluster d R =
     and_next (reads prov_Env) (\<lambda>env.
     and_next (cache_Create (sk_Kafka R) (kafka_nn env)) (\<lambda>k.
     and_next (createKafkaMetricsConfigMap d R) (\<lambda>cmnn.
       case other_env env (kk_ObjectMeta k) of
         Some envLabel \<Rightarrow> fail (PlainErr (''kafka cluster named '' @ quoted (getKafkaName env) @ '' found in ns '' @ quoted (getKafkaNamespace env)
              @ '' but tied to env '' @ quoted envLabel))
       | None \<Rightarrow>
           (let replicasAsStr = itoa (cluster_replicas env); own = kcc_Resources (kaf_Cluster (env_Kafka env))
            in and_next (unmarshalled d ''kConfig'' (kafka_config_json replicasAsStr)) (\<lambda>kafConfig.
               and_next (unmarshalled d ''kRequests'' (resources_json ''250m'' ''600Mi'')) (\<lambda>kafRequests.
               and_next (unmarshalled d ''kLimits'' (resources_json ''500m'' ''1Gi'')) (\<lambda>kafLimits.
               and_next (unmarshalled d ''zRequests'' (resources_json ''200m'' ''400Mi'')) (\<lambda>zRequests.
               and_next (unmarshalled d ''zLimits'' (resources_json ''350m'' ''800Mi'')) (\<lambda>zLimits.
               and_next (unmarshalled d ''entityUserRequests'' (resources_json ''50m'' ''250Mi'')) (\<lambda>entityUserRequests.
               and_next (unmarshalled d ''entityUserLimits'' (resources_json ''400m'' ''500Mi'')) (\<lambda>entityUserLimits.
               and_next (unmarshalled d ''entityTopicRequests'' (resources_json ''50m'' ''250Mi'')) (\<lambda>entityTopicRequests.
               and_next (unmarshalled d ''entityTopicLimits'' (resources_json ''200m'' ''500Mi'')) (\<lambda>entityTopicLimits.
               and_next (unmarshalled d ''entityTlsRequests'' (resources_json ''50m'' ''50Mi'')) (\<lambda>_.
               and_next (unmarshalled d ''entityTlsLimits'' (resources_json ''100m'' ''100Mi'')) (\<lambda>_.
               and_next (CopyPullSecrets (sz_Prov d) (sk_PullSecrets R) (getKafkaNamespace env) env_object) (\<lambda>secretNames.
               and_next (own_config d env kafConfig) (\<lambda>kafConfig'.
                 cache_Update (sk_Kafka R) (kafka_object env
                   (kafka_spec d env (nn_Name cmnn) kafConfig'
                     (case skr_Requests own of Some q \<Rightarrow> q | None \<Rightarrow> kafRequests) (case skr_Limits own of Some q \<Rightarrow> q | None \<Rightarrow> kafLimits)
                     (zRequests, zLimits) (entityTopicRequests, entityTopicLimits) (entityUserRequests, entityUserLimits) secretNames) k))))))))))))))))))"

section \<open>Addresses\<close>

text \<open>The first address of a listener; a listener without one, or without a host, is dereferenced all the same.\<close>

definition first_address :: "KListenerStatus \<Rightarrow> (string \<times> int option) option" where
  "first_address l = (case lst_Addresses l of [] \<Rightarrow> None | (None, port) # _ \<Rightarrow> None | (Some host, port) # _ \<Rightarrow> Some (host, port))"

definition buildTCPBrokerConfig :: "KListenerStatus \<Rightarrow> BrokerConfig option" where
  "buildTCPBrokerConfig l =
     (case first_address l of None \<Rightarrow> None | Some (host, port) \<Rightarrow> Some (BrokerConfig_zero\<lparr>br_Hostname := host, br_Port := port\<rparr>))"

definition buildTLSBrokerConfig :: "KListenerStatus \<Rightarrow> string \<Rightarrow> BrokerConfig option" where
  "buildTLSBrokerConfig l caCert =
     (case first_address l of
        None \<Rightarrow> None
      | Some (host, port) \<Rightarrow> Some (BrokerConfig_zero\<lparr>br_Hostname := host, br_Port := port, br_Cacert := Some caCert, br_Authtype := Some BrokerConfigAuthtypeSasl,
          br_Sasl := Some \<lparr>sasl_Password = None, sasl_SaslMechanism = None, sasl_SecurityProtocol = None, sasl_Username = None\<rparr>\<rparr>))"

fun listener_brokers :: "string \<Rightarrow> KListenerStatus list \<Rightarrow> BrokerConfig list option" where
  "listener_brokers caCert [] = Some []"
| "listener_brokers caCert (l # ls) =
     (if lst_Name l = Some ''tls''
      then (case buildTLSBrokerConfig l caCert of None \<Rightarrow> None | Some b \<Rightarrow> map_option ((#) b) (listener_brokers caCert ls))
      else if lst_Name l = Some ''plain'' \<or> lst_Name l = Some ''tcp''
      then (case buildTCPBrokerConfig l of None \<Rightarrow> None | Some b \<Rightarrow> map_option ((#) b) (listener_brokers caCert ls))
      else listener_brokers caCert ls)"

text \<open>Reading a resource that may not be there yet: \<open>UpdateOrErr\<close> lets some errors pass, and the empty object is used.\<close>

definition read_or_empty :: "'w StrimziDeps \<Rightarrow> ('w \<Rightarrow> goerr + 'k) \<Rightarrow> 'k \<Rightarrow> (('w, 'c) Provider, 'k) op" where
  "read_or_empty d get none =
     and_next (reads (\<lambda>p. get (prov_World p))) (\<lambda>r.
       case r of
         Inr k \<Rightarrow> ret k
       | Inl err \<Rightarrow> (case sz_UpdateOrErr d err of None \<Rightarrow> ret none | Some e \<Rightarrow> fail e))"

definition configureListeners :: "'w StrimziDeps \<Rightarrow> (('w, 'c) Provider, unit) op" where
  "configureListeners d =
     and_next (reads prov_Env) (\<lambda>env.
     and_next (read_or_empty d (sz_GetKafka d (kafka_nn env)) (sz_ZeroKafka d)) (\<lambda>kafkaResource.
       case Option.bind (kk_Listeners kafkaResource) id of
         None \<Rightarrow> fail (PlainErr (''kafka cluster '' @ quoted (getKafkaName env) @ '' in ns '' @ quoted (getKafkaNamespace env) @ '' has no listener status''))
       | Some listeners \<Rightarrow>
           and_next (read_or_empty d (pd_GetSecret (sz_Prov d) (ca_secret_nn env)) KSecretObj_zero) (\<lambda>kafkaCASecret.
           and_next (or_panic (listener_brokers (mget (sec_Data kafkaCASecret) ''ca.crt'') listeners)) (\<lambda>brokers.
           and_next (set_kafka (\<lambda>k. k\<lparr>kc_Brokers := brokers\<rparr>)) (\<lambda>_.
             if brokers = []
             then fail (PlainErr (''kafka cluster '' @ quoted (getKafkaName env) @ '' in ns '' @ quoted (getKafkaNamespace env) @ '' has no listeners''))
             else ret ())))))"

section \<open>Users and the Connect cluster\<close>

definition acl :: "string \<Rightarrow> string \<Rightarrow> KAcl" where
  "acl name kind = \<lparr>acl_Host = ''*'', acl_Operation = ''All'', acl_ResourceName = name, acl_PatternType = ''literal'', acl_ResourceType = kind\<rparr>"

definition strimzi_KafkaTopicName :: "'w StrimziDeps \<Rightarrow> KafkaTopicSpec \<Rightarrow> string \<Rightarrow> (('w, 'c) Provider, string) op" where
  "strimzi_KafkaTopicName d topic namespace =
     and_next (reads prov_Env) (\<lambda>env.
       ret (if feat_UseComplexStrimziTopicNames (cc_Features (sz_Loaded d)) then kt_TopicName topic @ ''-'' @ env_Name env @ ''-'' @ namespace
            else kt_TopicName topic))"

definition labelled_user :: "'w StrimziDeps \<Rightarrow> ClowdEnvironment \<Rightarrow> NamespacedName \<Rightarrow> KUser \<Rightarrow> KUser" where
  "labelled_user d env nn ku = ku\<lparr>ku_ObjectMeta := pd_Labeler (sz_Prov d) [''strimzi.io/cluster'' \<mapsto> getKafkaName env] nn (EnvObject env) (ku_ObjectMeta ku)\<rparr>"

definition strimzi_getConnectClusterUserName :: "(('w, 'c) Provider, string) op" where
  "strimzi_getConnectClusterUserName = and_next (reads prov_Env) (\<lambda>env. ret (env_Name env @ ''-connect''))"

definition createKafkaConnectUser :: "'w StrimziDeps \<Rightarrow> ('w \<times> 'c) StrimziKinds \<Rightarrow> (('w, 'c) Provider, unit) op" where
  "createKafkaConnectUser d R =
     and_next (reads prov_Env) (\<lambda>env.
       let nn = NN (env_Name env @ ''-connect'') (getConnectNamespace env)
       in with_resource (sk_ConnectUser R) nn (\<lambda>ku.
            if kaf_EnableLegacyStrimzi (env_Kafka env) then (labelled_user d env nn ku)\<lparr>ku_Authentication := None, ku_Acls := None\<rparr>
            else (labelled_user d env nn ku)\<lparr>ku_Authentication := Some ''scram-sha-512'', ku_Acls := Some [acl ''*'' ''topic'', acl ''*'' ''group'']\<rparr>))"

definition createKafkaUser :: "'w StrimziDeps \<Rightarrow> ('w \<times> 'c) StrimziKinds \<Rightarrow> ClowdApp \<Rightarrow> (('w, 'c) Provider, unit) op" where
  "createKafkaUser d R app =
     and_next (reads prov_Env) (\<lambda>env.
       let nn = NN (getKafkaUsername env app) (getKafkaNamespace env)
       in and_next (cache_Create (sk_User R) nn) (\<lambda>ku.
          and_next (collect (\<lambda>topic. strimzi_KafkaTopicName d topic (app_Namespace app)) (app_KafkaTopics (app_Spec app))) (\<lambda>topicNames.
            cache_Update (sk_User R) ((labelled_user d env nn ku)\<lparr>ku_Authentication := Some ''scram-sha-512'',
              ku_Acls := Some (map (\<lambda>t. acl t ''topic'') topicNames @ [acl ''*'' ''group''])\<rparr>))))"

text \<open>The configuration of the Connect cluster, up to white space.\<close>

definition connect_raw_config :: string where
  "connect_raw_config = json_object (map (\<lambda>(k, v). [CHR 0x22] @ k @ [CHR 0x22] @ '':'' @ [CHR 0x22] @ v @ [CHR 0x22])
     [(''config.storage.replication.factor'', ''1''), (''config.storage.topic'', ''connect-cluster-configs''),
      (''connector.client.config.override.policy'', ''All''), (''group.id'', ''connect-cluster''),
      (''offset.storage.replication.factor'', ''1''), (''offset.storage.topic'', ''connect-cluster-offsets''),
      (''status.storage.replication.factor'', ''1''), (''status.storage.topic'', ''connect-cluster-status''),
      (''config.providers'', ''secrets''), (''config.providers.secrets.class'', ''io.strimzi.kafka.KubernetesSecretConfigProvider'')])"

definition strimzi_provider :: "'w StrimziDeps \<Rightarrow> ('w, 'c) kafka_provider" where
  "strimzi_provider d = \<lparr>
     kp_KafkaTopicName = strimzi_KafkaTopicName d,
     kp_KafkaName = getKafkaName,
     kp_KafkaNamespace = getKafkaNamespace,
     kp_getConnectClusterUserName = strimzi_getConnectClusterUserName,
     kp_getBootstrapServersString = getBootstrapServersString,
     kp_connectConfig = result (kd_UnmarshalJSON (sz_Kafka d) connect_raw_config),
     kp_getKafkaConnectTrustedCertSecretName = and_next (reads prov_Env) (\<lambda>env. ret (getKafkaName env @ ''-cluster-ca-cert''))\<rparr>"

definition configureBrokers :: "'w StrimziDeps \<Rightarrow> ('w \<times> 'c) StrimziKinds \<Rightarrow> (('w, 'c) Provider, unit) op" where
  "configureBrokers d R =
     and_next (map_err (Wrap (sz_Stack d) ''failed to provision kafka cluster'') (configureKafkaCluster d R)) (\<lambda>_.
       with_own_config empty_kafka_config
         (and_next (map_err (requeue_wrap (sz_Stack d) ''unable to determine kafka broker addresses'') (configureListeners d)) (\<lambda>_.
          and_next (createKafkaConnectUser d R) (\<lambda>_.
            map_err (Wrap (sz_Stack d) ''failed to provision kafka connect cluster'')
              (configureKafkaConnectCluster (sz_Kafka d) (strimzi_provider d) (sk_Connect R) (sk_PullSecrets R))))))"

section \<open>Network policy\<close>

text \<open>The namespaces of the apps, each once, in the order of the list.\<close>

fun peer_namespaces :: "string list \<Rightarrow> ClowdApp list \<Rightarrow> string list" where
  "peer_namespaces namespaceSet [] = []"
| "peer_namespaces namespaceSet (app # apps) =
     (if app_Namespace app \<in> set namespaceSet then peer_namespaces namespaceSet apps
      else app_Namespace app # peer_namespaces (app_Namespace app # namespaceSet) apps)"

definition policy_object :: "'w StrimziDeps \<Rightarrow> ClowdEnvironment \<Rightarrow> ClowdApp list \<Rightarrow> KNetworkPolicy \<Rightarrow> KNetworkPolicy" where
  "policy_object d env apps np = np\<lparr>
     np_From := map (\<lambda>ns. [''kubernetes.io/metadata.name'' \<mapsto> ns]) (peer_namespaces [] apps), np_PolicyTypes := [''Ingress''],
     np_ObjectMeta := pd_Labeler (sz_Prov d) Map.empty (kafka_nn env) (EnvObject env) (np_ObjectMeta np)\<rparr>"

definition createNetworkPolicies :: "'w StrimziDeps \<Rightarrow> ('w \<times> 'c) StrimziKinds \<Rightarrow> (('w, 'c) Provider, unit) op" where
  "createNetworkPolicies d R =
     and_next (apps_in_env (sz_Prov d)) (\<lambda>appList.
     and_next (reads prov_Env) (\<lambda>env. with_resource (sk_Policy R) (kafka_nn env) (policy_object d env appList)))"

definition strimzi_EnvProvide :: "'w StrimziDeps \<Rightarrow> ('w \<times> 'c) StrimziKinds \<Rightarrow> (('w, 'c) Provider, unit) op" where
  "strimzi_EnvProvide d R = and_next (createNetworkPolicies d R) (\<lambda>_. configureBrokers d R)"

section \<open>An app\<close>

text \<open>
  The loop over the brokers works on a copy of each: what it writes through the \<open>Sasl\<close> pointer reaches the configuration,
  what it writes to the broker itself does not.
\<close>

definition broker_sasl :: "nat \<Rightarrow> (KafkaSASLConfig \<Rightarrow> KafkaSASLConfig) \<Rightarrow> (('w, 'c) Provider, unit) op" where
  "broker_sasl i f =
     and_next the_kafka (\<lambda>k.
     and_next (deref (br_Sasl (kc_Brokers k ! i))) (\<lambda>sl.
       set_kafka (\<lambda>k. k\<lparr>kc_Brokers := (kc_Brokers k)[i := (kc_Brokers k ! i)\<lparr>br_Sasl := Some (f sl)\<rparr>]\<rparr>)))"

definition broker_credentials :: "'w StrimziDeps \<Rightarrow> ClowdApp \<Rightarrow> nat \<Rightarrow> (('w, 'c) Provider, unit) op" where
  "broker_credentials d app i =
     and_next (reads prov_Env) (\<lambda>env.
     and_next (and_next (reads (\<lambda>p. sz_GetUser d (NN (getKafkaUsername env app) (getKafkaNamespace env)) (prov_World p))) result) (\<lambda>ku.
       case Option.bind (ku_Status ku) fst of
         None \<Rightarrow> fail (NewClowderError (sz_Stack d) ''no username in kafkauser status'')
       | Some username \<Rightarrow>
           and_next (broker_sasl i (\<lambda>sl. sl\<lparr>sasl_Username := Some username\<rparr>)) (\<lambda>_.
             case Option.bind (ku_Status ku) snd of
               None \<Rightarrow> fail (NewClowderError (sz_Stack d) ''no secret in kafkauser status'')
             | Some secName \<Rightarrow>
                 and_next (get_secret (sz_Prov d) (NN secName (getKafkaNamespace env))) (\<lambda>kafkaSecret.
                 and_next (track_secret (sz_Prov d) env_object kafkaSecret) (\<lambda>_.
                   case sec_Data kafkaSecret ''password'' of
                     None \<Rightarrow> fail (NewClowderError (sz_Stack d) ''no password in kafkauser secret'')
                   | Some password \<Rightarrow>
                       broker_sasl i (\<lambda>sl. sl\<lparr>sasl_Password := Some password, sasl_SecurityProtocol := Some ''SASL_SSL'',
                         sasl_SaslMechanism := Some ''SCRAM-SHA-512''\<rparr>))))))"

definition sasl_credentials :: "'w StrimziDeps \<Rightarrow> ClowdApp \<Rightarrow> BrokerConfig list \<Rightarrow> nat \<Rightarrow> (('w, 'c) Provider, unit) op" where
  "sasl_credentials d app brokers i =
     (if br_Authtype (brokers ! i) = Some BrokerConfigAuthtypeSasl then broker_credentials d app i else ret ())"

definition setBrokerCredentials :: "'w StrimziDeps \<Rightarrow> ClowdApp \<Rightarrow> (('w, 'c) Provider, unit) op" where
  "setBrokerCredentials d app =
     and_next the_kafka (\<lambda>k. each (sasl_credentials d app (kc_Brokers k)) [0..<length (kc_Brokers k)])"

definition strimzi_Provide :: "'w StrimziDeps \<Rightarrow> ('w \<times> 'c) StrimziKinds \<Rightarrow> ClowdApp \<Rightarrow> (('w, 'c) Provider, unit) op" where
  "strimzi_Provide d R app =
     and_next (reads prov_Env) (\<lambda>env.
     and_next (and_next (reads (\<lambda>p. sz_GetKafka d (kafka_nn env) (prov_World p))) result) (\<lambda>kafkaResource.
     and_next (read_or_empty d (pd_GetSecret (sz_Prov d) (ca_secret_nn env)) KSecretObj_zero) (\<lambda>kafkaCASecret.
     and_next (track_secret (sz_Prov d) env_object kafkaCASecret) (\<lambda>_.
     and_next (set_config (\<lambda>c. c\<lparr>cfg_Kafka := Some \<lparr>kc_Brokers = [], kc_Topics = []\<rparr>\<rparr>)) (\<lambda>_.
     and_next (deref (kk_Listeners kafkaResource)) (\<lambda>listeners.
     and_next (or_panic (listener_brokers (mget (sec_Data kafkaCASecret) ''ca.crt'') (case listeners of None \<Rightarrow> [] | Some ls \<Rightarrow> ls))) (\<lambda>brokers.
     and_next (set_kafka (\<lambda>k. k\<lparr>kc_Brokers := brokers\<rparr>)) (\<lambda>_.
     and_next (cyndi_if_enabled (sz_Cyndi d) (sk_Cyndi R) app) (\<lambda>_.
       if app_KafkaTopics (app_Spec app) = [] then ret ()
       else and_next (processTopics (sz_Kafka d) (strimzi_provider d) (sk_Topic R) app) (\<lambda>_.
              if kaf_EnableLegacyStrimzi (env_Kafka env) then ret ()
              else and_next (createKafkaUser d R app) (\<lambda>_. setBrokerCredentials d app)))))))))))"

section \<open>The choice of a provider\<close>

datatype kafka_mode = Strimzi | AppInterfaceKafka | ManagedKafka | MSK | NoneKafka

definition GetKafka :: "string \<Rightarrow> (('w, 'c) Provider, kafka_mode) op" where
  "GetKafka stack =
     and_next (changes (\<lambda>p. p\<lparr>prov_Env := ConvertDeprecatedKafkaSpec (prov_Env p)\<rparr>)) (\<lambda>_.
     and_next (reads (\<lambda>p. kaf_Mode (env_Kafka (prov_Env p)))) (\<lambda>kafkaMode.
       if kafkaMode = ''operator'' then ret Strimzi else if kafkaMode = ''app-interface'' then ret AppInterfaceKafka
       else if kafkaMode = ''managed'' then ret ManagedKafka else if kafkaMode = ''ephem-msk'' then ret MSK
       else if kafkaMode = ''none'' \<or> kafkaMode = '''' then ret NoneKafka
       else fail (NewClowderError stack (''No matching kafka mode for '' @ kafkaMode))))"

section \<open>Topics\<close>

definition strimzi_topic_name :: "'w StrimziDeps \<Rightarrow> ClowdEnvironment \<Rightarrow> string \<Rightarrow> string \<Rightarrow> string" where
  "strimzi_topic_name d env ns t =
     (if feat_UseComplexStrimziTopicNames (cc_Features (sz_Loaded d)) then t @ ''-'' @ env_Name env @ ''-'' @ ns else t)"

interpretation strimzi_topics: topic_namer "strimzi_provider d" "strimzi_topic_name d" for d
  by unfold_locales (auto simp: strimzi_provider_def strimzi_KafkaTopicName_def strimzi_topic_name_def split: if_splits)

interpretation msk_topics: topic_namer "msk_provider d" "\<lambda>env ns t. env_Name env @ ''-'' @ t" for d
  by unfold_locales (auto simp: msk_provider_def)

abbreviation ktp_NN :: "KTopic \<Rightarrow> NamespacedName" where
  "ktp_NN k \<equiv> NN (om_Name (ktp_ObjectMeta k)) (om_Namespace (ktp_ObjectMeta k))"

text \<open>A topic that is recorded with values gets the numbers of \<open>topic_values_exact\<close>.\<close>

lemma recorded_topic_numbers:
  assumes "processTopicValues d k env apps t = Some (Inr k')" "int_max_law d" "go_iteration (kd_Iter d)"
    and "a \<in> set apps" "t \<in> set (app_KafkaTopics (app_Spec a))"
    and range: "\<forall>b \<in> set apps. \<forall>t' \<in> set (app_KafkaTopics (app_Spec b)). in_int32 (kt_Replicas t') \<and> in_int32 (kt_Partitions t')"
  shows "\<exists>r n. ktp_Replicas k' = Some r \<and> 1 \<le> r \<and> r \<le> max 1 (kcc_Replicas (kaf_Cluster (env_Kafka env)))
    \<and> ktp_Partitions k' = Some n \<and> 1 \<le> n
    \<and> (\<forall>b \<in> set apps. \<forall>t' \<in> set (app_KafkaTopics (app_Spec b)). kt_TopicName t' = kt_TopicName t \<longrightarrow> kt_Partitions t' \<le> n)"
proof -
  have req: "t' \<in> set (topic_requests apps t) \<longleftrightarrow> (\<exists>b \<in> set apps. t' \<in> set (app_KafkaTopics (app_Spec b)) \<and> kt_TopicName t' = kt_TopicName t)" for t'
    by (auto simp: topic_requests_def)
  have "\<forall>t' \<in> set (topic_requests apps t). in_int32 (kt_Replicas t') \<and> in_int32 (kt_Partitions t')"
    using range by (auto simp: req)
  from assms(1) [unfolded topic_values_exact [OF assms(2,3,4,5) this]]
  obtain config where k': "k' = topic_with d config k env (topic_requests apps t)"
    by (auto split: if_splits sum.splits)
  have "ktp_Replicas k' = Some (the (ktp_Replicas k'))" "ktp_Partitions k' = Some (the (ktp_Partitions k'))"
    by (simp_all add: k' topic_with_def Let_def)
  moreover have "\<forall>b \<in> set apps. \<forall>t' \<in> set (app_KafkaTopics (app_Spec b)). kt_TopicName t' = kt_TopicName t \<longrightarrow> kt_Partitions t' \<le> the (ktp_Partitions k')"
    unfolding k' by (intro ballI impI topic_with_enough) (auto simp: req)
  ultimately show ?thesis using topic_with_bounds unfolding k' by (intro exI conjI) auto
qed

lemma app_topics_recorded_parts:
  fixes p :: "('w, 'c) Provider"
  assumes run: "processTopics (sz_Kafka d) (strimzi_provider d) r app p = Some (p', Inr u)" and cache: "object_cache r ktp_NN recorded"
    and laws: "int_max_law (sz_Kafka d)" "go_iteration (kd_Iter (sz_Kafka d))"
    and listed: "pd_ListApps (sz_Prov d) (prov_World p) (env_Name (prov_Env p)) = Inr apps" "app \<in> set apps"
    and range: "\<forall>b \<in> set apps. \<forall>t' \<in> set (app_KafkaTopics (app_Spec b)). in_int32 (kt_Replicas t') \<and> in_int32 (kt_Partitions t')"
  shows "\<forall>t \<in> set (app_KafkaTopics (app_Spec app)). \<exists>k r n.
      prov_recorded recorded p' (NN (strimzi_topic_name d (prov_Env p) (app_Namespace app) (kt_TopicName t)) (getKafkaNamespace (prov_Env p))) = Some k
      \<and> om_Labels (ktp_ObjectMeta k) ''strimzi.io/cluster'' = Some (getKafkaName (prov_Env p))
      \<and> om_OwnerReferences (ktp_ObjectMeta k) = [env_MakeOwnerReference (prov_Env p)]
      \<and> ktp_Replicas k = Some r \<and> 1 \<le> r \<and> r \<le> max 1 (kcc_Replicas (kaf_Cluster (env_Kafka (prov_Env p))))
      \<and> ktp_Partitions k = Some n \<and> 1 \<le> n
      \<and> (\<forall>b \<in> set apps. \<forall>t' \<in> set (app_KafkaTopics (app_Spec b)). kt_TopicName t' = kt_TopicName t \<longrightarrow> kt_Partitions t' \<le> n)"
    and "\<exists>c kc. prov_Config p' = Some c \<and> cfg_Kafka c = Some kc
      \<and> map top_RequestedName (kc_Topics kc) = map kt_TopicName (app_KafkaTopics (app_Spec app))
      \<and> map top_Name (kc_Topics kc) = map (\<lambda>t. strimzi_topic_name d (prov_Env p) (app_Namespace app) (kt_TopicName t)) (app_KafkaTopics (app_Spec app))"
proof -
  note all = strimzi_topics.processTopics_ok [OF run cache, unfolded listed(1)]
  show "\<exists>c kc. prov_Config p' = Some c \<and> cfg_Kafka c = Some kc
      \<and> map top_RequestedName (kc_Topics kc) = map kt_TopicName (app_KafkaTopics (app_Spec app))
      \<and> map top_Name (kc_Topics kc) = map (\<lambda>t. strimzi_topic_name d (prov_Env p) (app_Namespace app) (kt_TopicName t)) (app_KafkaTopics (app_Spec app))"
    using all by (auto simp: strimzi_topics.topic_config_def)
  let ?s = "strimzi_provider d :: ('w, 'c) kafka_provider"
  have names: "kp_KafkaNamespace ?s = getKafkaNamespace" "kp_KafkaName ?s = getKafkaName"
    by (simp_all add: strimzi_provider_def)
  show "\<forall>t \<in> set (app_KafkaTopics (app_Spec app)). \<exists>k r n.
      prov_recorded recorded p' (NN (strimzi_topic_name d (prov_Env p) (app_Namespace app) (kt_TopicName t)) (getKafkaNamespace (prov_Env p))) = Some k
      \<and> om_Labels (ktp_ObjectMeta k) ''strimzi.io/cluster'' = Some (getKafkaName (prov_Env p))
      \<and> om_OwnerReferences (ktp_ObjectMeta k) = [env_MakeOwnerReference (prov_Env p)]
      \<and> ktp_Replicas k = Some r \<and> 1 \<le> r \<and> r \<le> max 1 (kcc_Replicas (kaf_Cluster (env_Kafka (prov_Env p))))
      \<and> ktp_Partitions k = Some n \<and> 1 \<le> n
      \<and> (\<forall>b \<in> set apps. \<forall>t' \<in> set (app_KafkaTopics (app_Spec b)). kt_TopicName t' = kt_TopicName t \<longrightarrow> kt_Partitions t' \<le> n)"
  proof
    fix t assume t: "t \<in> set (app_KafkaTopics (app_Spec app))"
    then have "strimzi_topics.topic_recorded d (sz_Kafka d) recorded (prov_Env p) app apps t p'" using all by auto
    then obtain k k0 where k: "prov_recorded recorded p' (NN (strimzi_topic_name d (prov_Env p) (app_Namespace app) (kt_TopicName t)) (getKafkaNamespace (prov_Env p))) = Some k"
      and v: "processTopicValues (sz_Kafka d) (topic_object ?s (prov_Env p) app
          (strimzi_topic_name d (prov_Env p) (app_Namespace app) (kt_TopicName t)) k0) (prov_Env p) apps t = Some (Inr k)"
      by (auto simp: strimzi_topics.topic_recorded_def strimzi_topics.topic_nn_def names)
    note nums = recorded_topic_numbers [OF v laws listed(2) t range]
    have "om_Labels (ktp_ObjectMeta k) ''strimzi.io/cluster'' = Some (getKafkaName (prov_Env p))"
      "om_OwnerReferences (ktp_ObjectMeta k) = [env_MakeOwnerReference (prov_Env p)]"
      using processTopicValues_meta [OF v] by (simp_all add: topic_object_def names)
    with k nums show "\<exists>k r n.
      prov_recorded recorded p' (NN (strimzi_topic_name d (prov_Env p) (app_Namespace app) (kt_TopicName t)) (getKafkaNamespace (prov_Env p))) = Some k
      \<and> om_Labels (ktp_ObjectMeta k) ''strimzi.io/cluster'' = Some (getKafkaName (prov_Env p))
      \<and> om_OwnerReferences (ktp_ObjectMeta k) = [env_MakeOwnerReference (prov_Env p)]
      \<and> ktp_Replicas k = Some r \<and> 1 \<le> r \<and> r \<le> max 1 (kcc_Replicas (kaf_Cluster (env_Kafka (prov_Env p))))
      \<and> ktp_Partitions k = Some n \<and> 1 \<le> n
      \<and> (\<forall>b \<in> set apps. \<forall>t' \<in> set (app_KafkaTopics (app_Spec b)). kt_TopicName t' = kt_TopicName t \<longrightarrow> kt_Partitions t' \<le> n)"
      by blast
  qed
qed

text \<open>
  C18. When the topics of an app are processed by the Strimzi provider without an error, every topic the app asks for is recorded, in the
  namespace of the Kafka cluster, with the cluster's label and owned by the environment. It has between one replica and as many as
  the cluster has brokers, and at least as many partitions as any app asks for under that name. The
  configuration of the app lists its topics in order, with the names they are recorded under.
\<close>

theorem app_topics_recorded:
  fixes p :: "('w, 'c) Provider"
  assumes run: "processTopics (sz_Kafka d) (strimzi_provider d) r app p = Some (p', Inr u)" and cache: "object_cache r ktp_NN recorded"
    and laws: "int_max_law (sz_Kafka d)" "go_iteration (kd_Iter (sz_Kafka d))"
    and listed: "pd_ListApps (sz_Prov d) (prov_World p) (env_Name (prov_Env p)) = Inr apps" "app \<in> set apps"
    and range: "\<forall>b \<in> set apps. \<forall>t' \<in> set (app_KafkaTopics (app_Spec b)). in_int32 (kt_Replicas t') \<and> in_int32 (kt_Partitions t')"
  shows "(\<forall>t \<in> set (app_KafkaTopics (app_Spec app)). \<exists>k r n.
      prov_recorded recorded p' (NN (strimzi_topic_name d (prov_Env p) (app_Namespace app) (kt_TopicName t)) (getKafkaNamespace (prov_Env p))) = Some k
      \<and> om_Labels (ktp_ObjectMeta k) ''strimzi.io/cluster'' = Some (getKafkaName (prov_Env p))
      \<and> om_OwnerReferences (ktp_ObjectMeta k) = [env_MakeOwnerReference (prov_Env p)]
      \<and> ktp_Replicas k = Some r \<and> 1 \<le> r \<and> r \<le> max 1 (kcc_Replicas (kaf_Cluster (env_Kafka (prov_Env p))))
      \<and> ktp_Partitions k = Some n \<and> 1 \<le> n
      \<and> (\<forall>b \<in> set apps. \<forall>t' \<in> set (app_KafkaTopics (app_Spec b)). kt_TopicName t' = kt_TopicName t \<longrightarrow> kt_Partitions t' \<le> n))
    \<and> (\<exists>c kc. prov_Config p' = Some c \<and> cfg_Kafka c = Some kc
      \<and> map top_RequestedName (kc_Topics kc) = map kt_TopicName (app_KafkaTopics (app_Spec app))
      \<and> map top_Name (kc_Topics kc) = map (\<lambda>t. strimzi_topic_name d (prov_Env p) (app_Namespace app) (kt_TopicName t)) (app_KafkaTopics (app_Spec app)))"
  using app_topics_recorded_parts [OF assms] by (intro conjI) assumption+

section \<open>Access\<close>

lemma collect_names_ok:
  "collect (\<lambda>t. strimzi_KafkaTopicName d t ns) ts p = Some (p, Inr (map (\<lambda>t. strimzi_topic_name d (prov_Env p) ns (kt_TopicName t)) ts))"
  by (induction ts) (auto simp: and_next_def strimzi_KafkaTopicName_def strimzi_topic_name_def)

abbreviation ku_NN :: "KUser \<Rightarrow> NamespacedName" where
  "ku_NN k \<equiv> NN (om_Name (ku_ObjectMeta k)) (om_Namespace (ku_ObjectMeta k))"

text \<open>
  What Kafka makes of the rules of a user: a rule admits an operation on a resource of its kind from its host. A literal rule is for the resource of its name, or for all of them if the name is a star;
  a prefix rule for those whose name begins with it. A star stands for all hosts, and the operation \<open>All\<close> for every operation.
\<close>

definition acl_admits :: "KAcl \<Rightarrow> string \<Rightarrow> string \<Rightarrow> string \<Rightarrow> string \<Rightarrow> bool" where
  "acl_admits a kind name operation host =
     (acl_ResourceType a = kind \<and> (acl_Host a = ''*'' \<or> acl_Host a = host) \<and> (acl_Operation a = ''All'' \<or> acl_Operation a = operation)
      \<and> (acl_PatternType a = ''literal'' \<and> (acl_ResourceName a = ''*'' \<or> acl_ResourceName a = name)
         \<or> acl_PatternType a = ''prefix'' \<and> take (length (acl_ResourceName a)) name = acl_ResourceName a))"

definition user_may :: "KUser \<Rightarrow> string \<Rightarrow> string \<Rightarrow> string \<Rightarrow> string \<Rightarrow> bool" where
  "user_may k kind name operation host = (\<exists>acls. ku_Acls k = Some acls \<and> list_ex (\<lambda>a. acl_admits a kind name operation host) acls)"

lemma acl_admits_acl [simp]:
  "acl_admits (acl n kind) kind' name operation host \<longleftrightarrow> kind = kind' \<and> (n = ''*'' \<or> n = name)"
  by (simp add: acl_admits_def acl_def)

lemma topic_name_no_star: "kt_TopicName t \<noteq> ''*'' \<Longrightarrow> strimzi_topic_name d env ns (kt_TopicName t) \<noteq> ''*''"
  by (auto simp: strimzi_topic_name_def append_eq_Cons_conv)

text \<open>
  C19. No topic an app asks for is named with a star. The user that is recorded for the app authenticates by SCRAM and may do everything, from every host, on exactly the topics the app asks for, under the names
  they are recorded under, and with any consumer group. It may do nothing on resources of another kind.
\<close>

theorem kafka_user_access:
  assumes run: "createKafkaUser d R app p = Some (p', Inr u)" and cache: "object_cache (sk_User R) ku_NN recorded" and names: "labeler_names (sz_Prov d)"
    and star: "\<forall>t \<in> set (app_KafkaTopics (app_Spec app)). kt_TopicName t \<noteq> ''*''"
  shows "\<exists>k. prov_recorded recorded p' (NN (getKafkaUsername (prov_Env p) app) (getKafkaNamespace (prov_Env p))) = Some k
    \<and> ku_Authentication k = Some ''scram-sha-512''
    \<and> (\<forall>name operation host. user_may k ''topic'' name operation host \<longleftrightarrow>
         (\<exists>t \<in> set (app_KafkaTopics (app_Spec app)). name = strimzi_topic_name d (prov_Env p) (app_Namespace app) (kt_TopicName t)))
    \<and> (\<forall>name operation host. user_may k ''group'' name operation host)
    \<and> (\<forall>kind name operation host. user_may k kind name operation host \<longrightarrow> kind = ''topic'' \<or> kind = ''group'')"
proof -
  define nn where "nn = NN (getKafkaUsername (prov_Env p) app) (getKafkaNamespace (prov_Env p))"
  define topics where "topics = map (\<lambda>t. strimzi_topic_name d (prov_Env p) (app_Namespace app) (kt_TopicName t)) (app_KafkaTopics (app_Spec app))"
  obtain p1 ku where c: "cache_Create (sk_User R) nn p = Some (p1, Inr ku)"
    and up: "cache_Update (sk_User R) ((labelled_user d (prov_Env p) nn ku)\<lparr>ku_Authentication := Some ''scram-sha-512'',
        ku_Acls := Some (map (\<lambda>t. acl t ''topic'') (map (\<lambda>t. strimzi_topic_name d (prov_Env p1) (app_Namespace app) (kt_TopicName t)) (app_KafkaTopics (app_Spec app)))
          @ [acl ''*'' ''group''])\<rparr>) p1 = Some (p', Inr u)"
    using run unfolding createKafkaUser_def nn_def
    by (auto simp: op_oks Let_def collect_names_ok)
  note up = up [unfolded cache_env(1) [OF c], folded topics_def]
  let ?k = "(labelled_user d (prov_Env p) nn ku)\<lparr>ku_Authentication := Some ''scram-sha-512'', ku_Acls := Some (map (\<lambda>t. acl t ''topic'') topics @ [acl ''*'' ''group''])\<rparr>"
  have "prov_recorded recorded p' nn = Some ?k"
    using update_records [OF cache up] names by (simp add: labeler_names_def labelled_user_def nn_def)
  moreover have may: "user_may ?k kind name operation host \<longleftrightarrow> kind = ''group'' \<or> kind = ''topic'' \<and> (\<exists>t \<in> set topics. t = ''*'' \<or> t = name)" for kind name operation host
    by (auto simp: user_may_def list_ex_iff)
  moreover have "t \<noteq> ''*''" if "t \<in> set topics" for t
    using that star topic_name_no_star unfolding topics_def set_map image_iff by metis
  ultimately show ?thesis by (intro exI [of _ ?k]) (auto simp: nn_def topics_def may)
qed

lemma peer_namespaces_set:
  "set (peer_namespaces seen apps) = (\<lambda>a. app_Namespace a) ` set apps - set seen \<and> distinct (peer_namespaces seen apps)"
  by (induction apps arbitrary: seen) auto

text \<open>
  The network policy recorded for the Kafka cluster admits traffic from the namespaces that hold an app of the environment, from each by
  one rule, and from nowhere else.
\<close>

theorem policy_admits_app_namespaces:
  assumes run: "createNetworkPolicies d R p = Some (p', Inr u)" and names: "labeler_names (sz_Prov d)"
    and cache: "object_cache (sk_Policy R) (\<lambda>k. NN (om_Name (np_ObjectMeta k)) (om_Namespace (np_ObjectMeta k))) recorded"
  shows "\<exists>apps k. pd_ListApps (sz_Prov d) (prov_World p) (env_Name (prov_Env p)) = Inr apps
    \<and> prov_recorded recorded p' (kafka_nn (prov_Env p)) = Some k \<and> np_PolicyTypes k = [''Ingress'']
    \<and> (\<exists>nss. np_From k = map (\<lambda>ns. [''kubernetes.io/metadata.name'' \<mapsto> ns]) nss \<and> distinct nss \<and> set nss = (\<lambda>a. app_Namespace a) ` set apps)"
proof -
  obtain apps p1 np where list: "pd_ListApps (sz_Prov d) (prov_World p) (env_Name (prov_Env p)) = Inr apps"
    and c: "cache_Create (sk_Policy R) (kafka_nn (prov_Env p)) p = Some (p1, Inr np)"
    and up: "cache_Update (sk_Policy R) (policy_object d (prov_Env p) apps np) p1 = Some (p', Inr u)"
    using run unfolding createNetworkPolicies_def with_resource_def by (auto simp: op_oks apps_in_env_ok)
  have "prov_recorded recorded p' (kafka_nn (prov_Env p)) = Some (policy_object d (prov_Env p) apps np)"
    using update_records [OF cache up] names by (simp add: labeler_names_def policy_object_def kafka_nn_def)
  with list peer_namespaces_set [of "[]" apps] show ?thesis
    by (intro exI [of _ apps] exI [of _ "policy_object d (prov_Env p) apps np"]) (auto simp: policy_object_def)
qed

section \<open>Credentials\<close>

definition brokers_of :: "('w, 'c) Provider \<Rightarrow> BrokerConfig list option" where
  "brokers_of p = (case prov_Config p of None \<Rightarrow> None | Some c \<Rightarrow> map_option kc_Brokers (cfg_Kafka c))"

definition credentialed :: "BrokerConfig \<Rightarrow> bool" where
  "credentialed b = (\<exists>u pw. br_Sasl b = Some \<lparr>sasl_Password = Some pw, sasl_SaslMechanism = Some ''SCRAM-SHA-512'',
     sasl_SecurityProtocol = Some ''SASL_SSL'', sasl_Username = Some u\<rparr>)"

text \<open>What becomes of a broker: only the settings behind its pointer change, and only when it authenticates.\<close>

definition outfitted :: "BrokerConfig \<Rightarrow> BrokerConfig \<Rightarrow> bool" where
  "outfitted b b' = (b'\<lparr>br_Sasl := br_Sasl b\<rparr> = b \<and> (if br_Authtype b = Some BrokerConfigAuthtypeSasl then credentialed b' else b' = b))"

lemma brokers_of_some: "brokers_of p = Some bs \<longleftrightarrow> (\<exists>c k. prov_Config p = Some c \<and> cfg_Kafka c = Some k \<and> bs = kc_Brokers k)"
  by (auto simp: brokers_of_def split: option.splits)

lemma the_kafka_ok: "the_kafka p = Some (p', Inr k) \<longleftrightarrow> p' = p \<and> (\<exists>c. prov_Config p = Some c \<and> cfg_Kafka c = Some k)"
  by (auto simp: the_kafka_def the_config_def op_oks deref_def split: option.splits)

lemma broker_sasl_ok:
  assumes "broker_sasl i f p = Some (p', Inr u)"
  shows "\<exists>bs sl. brokers_of p = Some bs \<and> br_Sasl (bs ! i) = Some sl \<and> brokers_of p' = Some (bs[i := (bs ! i)\<lparr>br_Sasl := Some (f sl)\<rparr>])"
  using assms by (auto simp: broker_sasl_def op_oks the_kafka_ok set_kafka_ok brokers_of_def deref_def split: option.splits)

lemma tracking_keeps_brokers:
  "track_secret d obj sec p = Some (p', r) \<Longrightarrow> brokers_of p' = brokers_of p"
  by (drule track_secret_frame) (auto simp: brokers_of_def)

lemma get_secret_same: "get_secret d nn p = Some (p', r) \<Longrightarrow> p' = p"
  by (simp add: get_secret_def)

lemma broker_credentials_ok:
  assumes "broker_credentials d app i p = Some (p', Inr u)"
  shows "\<exists>bs b. brokers_of p = Some bs \<and> brokers_of p' = Some (bs[i := b]) \<and> (i < length bs \<longrightarrow> b\<lparr>br_Sasl := br_Sasl (bs ! i)\<rparr> = bs ! i \<and> credentialed b)"
proof -
  obtain un p1 p2 p3 ks pw where s1: "broker_sasl i (\<lambda>sl. sl\<lparr>sasl_Username := Some un\<rparr>) p = Some (p1, Inr ())"
    and tr: "track_secret (sz_Prov d) env_object ks p1 = Some (p3, Inr ())"
    and s2: "broker_sasl i (\<lambda>sl. sl\<lparr>sasl_Password := Some pw, sasl_SecurityProtocol := Some ''SASL_SSL'', sasl_SaslMechanism := Some ''SCRAM-SHA-512''\<rparr>) p3 = Some (p', Inr u)"
    using assms unfolding broker_credentials_def
    by (auto simp: op_oks split: option.splits dest!: get_secret_same)
  obtain bs sl where bs: "brokers_of p = Some bs" "br_Sasl (bs ! i) = Some sl"
    "brokers_of p1 = Some (bs[i := (bs ! i)\<lparr>br_Sasl := Some (sl\<lparr>sasl_Username := Some un\<rparr>)\<rparr>])"
    using broker_sasl_ok [OF s1] by blast
  define bs1 where "bs1 = bs[i := (bs ! i)\<lparr>br_Sasl := Some (sl\<lparr>sasl_Username := Some un\<rparr>)\<rparr>]"
  obtain sl1 where sl1: "br_Sasl (bs1 ! i) = Some sl1"
    and p': "brokers_of p' = Some (bs1[i := (bs1 ! i)\<lparr>br_Sasl := Some (sl1\<lparr>sasl_Password := Some pw, sasl_SecurityProtocol := Some ''SASL_SSL'', sasl_SaslMechanism := Some ''SCRAM-SHA-512''\<rparr>)\<rparr>])"
    using broker_sasl_ok [OF s2] tracking_keeps_brokers [OF tr] bs(3) unfolding bs1_def [symmetric] by auto
  show ?thesis
  proof (intro exI conjI impI)
    show "brokers_of p = Some bs" by fact
    show "brokers_of p' = Some (bs[i := (bs1 ! i)\<lparr>br_Sasl := Some (sl1\<lparr>sasl_Password := Some pw, sasl_SecurityProtocol := Some ''SASL_SSL'', sasl_SaslMechanism := Some ''SCRAM-SHA-512''\<rparr>)\<rparr>])"
      using p' by (simp add: bs1_def)
    assume i: "i < length bs"
    then have b1: "bs1 ! i = (bs ! i)\<lparr>br_Sasl := Some (sl\<lparr>sasl_Username := Some un\<rparr>)\<rparr>" by (simp add: bs1_def)
    with sl1 have "sl1 = sl\<lparr>sasl_Username := Some un\<rparr>" by simp
    with b1 show "credentialed ((bs1 ! i)\<lparr>br_Sasl := Some (sl1\<lparr>sasl_Password := Some pw, sasl_SecurityProtocol := Some ''SASL_SSL'', sasl_SaslMechanism := Some ''SCRAM-SHA-512''\<rparr>)\<rparr>)"
      by (cases sl) (simp add: credentialed_def)
    show "(bs1 ! i)\<lparr>br_Sasl := Some (sl1\<lparr>sasl_Password := Some pw, sasl_SecurityProtocol := Some ''SASL_SSL'', sasl_SaslMechanism := Some ''SCRAM-SHA-512''\<rparr>),
        br_Sasl := br_Sasl (bs ! i)\<rparr> = bs ! i"
      using b1 by (cases "bs ! i") simp
  qed
qed

lemma credentials_loop:
  assumes "each (sasl_credentials d app bs0) is p = Some (p', Inr u)"
    and "brokers_of p = Some bs" "distinct is" "\<forall>i \<in> set is. i < length bs \<and> br_Authtype (bs0 ! i) = br_Authtype (bs ! i)"
  shows "\<exists>bs'. brokers_of p' = Some bs' \<and> length bs' = length bs
    \<and> (\<forall>i < length bs. if i \<in> set is then outfitted (bs ! i) (bs' ! i) else bs' ! i = bs ! i)"
  using assms
proof (induction "is" arbitrary: p bs)
  case Nil
  then show ?case by auto
next
  case (Cons i js)
  obtain p1 where step: "sasl_credentials d app bs0 i p = Some (p1, Inr ())" and loop: "each (sasl_credentials d app bs0) js p1 = Some (p', Inr u)"
    using Cons.prems(1) by (auto simp: op_oks)
  have i: "i < length bs" "br_Authtype (bs0 ! i) = br_Authtype (bs ! i)" using Cons.prems(4) by auto
  obtain b where b: "brokers_of p1 = Some (bs[i := b])" "outfitted (bs ! i) b"
  proof (cases "br_Authtype (bs ! i) = Some BrokerConfigAuthtypeSasl")
    case True
    then obtain b where "brokers_of p1 = Some (bs[i := b])" "b\<lparr>br_Sasl := br_Sasl (bs ! i)\<rparr> = bs ! i \<and> credentialed b"
      using step i broker_credentials_ok [of d app i p p1 "()"] Cons.prems(2) unfolding sasl_credentials_def by auto
    with True show ?thesis by (intro that) (auto simp: outfitted_def)
  next
    case False
    then show ?thesis using step i Cons.prems(2) unfolding sasl_credentials_def by (intro that [of "bs ! i"]) (auto simp: outfitted_def)
  qed
  obtain bs' where bs': "brokers_of p' = Some bs'" "length bs' = length bs"
    "\<And>j. j < length bs \<Longrightarrow> if j \<in> set js then outfitted (bs[i := b] ! j) (bs' ! j) else bs' ! j = bs[i := b] ! j"
  proof -
    have "\<forall>j \<in> set js. j < length (bs[i := b]) \<and> br_Authtype (bs0 ! j) = br_Authtype (bs[i := b] ! j)"
      using Cons.prems(3,4) by (auto simp: nth_list_update)
    from Cons.IH [OF loop b(1) _ this] Cons.prems(3) that show thesis by auto
  qed
  have "if j \<in> set (i # js) then outfitted (bs ! j) (bs' ! j) else bs' ! j = bs ! j" if "j < length bs" for j
    using bs'(3) [OF that] that b(2) Cons.prems(3) by (cases "j = i") auto
  with bs' show ?case by blast
qed

text \<open>
  When an app's credentials are set without an error, every broker that authenticates has the user name, the password, the protocol and the
  mechanism in its SASL settings, and nothing else of any broker changes: in particular the security protocol of
  the broker itself stays what it was, although the loop assigns it.
\<close>

theorem broker_credentials_set:
  assumes "setBrokerCredentials d app p = Some (p', Inr u)"
  shows "\<exists>bs bs'. brokers_of p = Some bs \<and> brokers_of p' = Some bs' \<and> length bs' = length bs
    \<and> (\<forall>i < length bs. (br_Authtype (bs ! i) = Some BrokerConfigAuthtypeSasl \<longrightarrow> credentialed (bs' ! i))
         \<and> br_SecurityProtocol (bs' ! i) = br_SecurityProtocol (bs ! i) \<and> br_Hostname (bs' ! i) = br_Hostname (bs ! i)
         \<and> (br_Authtype (bs ! i) \<noteq> Some BrokerConfigAuthtypeSasl \<longrightarrow> bs' ! i = bs ! i))"
proof -
  obtain k c where c: "prov_Config p = Some c" "cfg_Kafka c = Some k"
    and loop: "each (sasl_credentials d app (kc_Brokers k)) [0..<length (kc_Brokers k)] p = Some (p', Inr u)"
    using assms unfolding setBrokerCredentials_def by (auto simp: op_oks the_kafka_ok)
  have bs: "brokers_of p = Some (kc_Brokers k)" using c by (simp add: brokers_of_def)
  obtain bs' where bs': "brokers_of p' = Some bs'" "length bs' = length (kc_Brokers k)"
    "\<forall>i < length (kc_Brokers k). outfitted (kc_Brokers k ! i) (bs' ! i)"
    using credentials_loop [OF loop bs] by auto
  have "(br_Authtype b = Some BrokerConfigAuthtypeSasl \<longrightarrow> credentialed b') \<and> br_SecurityProtocol b' = br_SecurityProtocol b
      \<and> br_Hostname b' = br_Hostname b \<and> (br_Authtype b \<noteq> Some BrokerConfigAuthtypeSasl \<longrightarrow> b' = b)" if "outfitted b b'" for b b'
    using that by (cases b; cases b') (auto simp: outfitted_def)
  with bs bs' show ?thesis by blast
qed

section \<open>Before Strimzi has reported a status\<close>

lemma track_secret_some:
  "(\<And>m. \<exists>j. pd_Marshal d m = Inr j) \<Longrightarrow> \<exists>p'. track_secret d obj sec p = Some (p', Inr ())"
proof -
  assume m: "\<And>m. \<exists>j. pd_Marshal d m = Inr j"
  obtain hc ch where reg: "CreateOrUpdateObject (pd_Sha d) (pd_Marshal d) (pd_Stack d) (secret_object sec) True (prov_HashCache p) = (hc, Inr ch)"
  proof -
    obtain j where "pd_Marshal d (ko_Data (secret_object sec)) = Inr j" using m by blast
    with that show thesis
      by (cases "map_of (prov_HashCache p) (ident_of (secret_object sec))") (auto simp: CreateOrUpdateObject_def secret_object_def)
  qed
  obtain v where "map_of hc (ident_of (secret_object sec)) = Some v" using hcache.register_present [OF reg] by blast
  then show ?thesis using reg by (auto simp: track_secret_def AddClowdObjectToObject_def)
qed

text \<open>
  Providing an app panics as long as the Kafka resource exists and Strimzi has not given it a status, whatever the app asks for:
  the listeners are read from the status without the check the environment's side makes.
\<close>

theorem strimzi_panics_without_status:
  assumes "sz_GetKafka d (kafka_nn (prov_Env p)) (prov_World p) = Inr k" "kk_Listeners k = None"
    and "pd_GetSecret (sz_Prov d) (ca_secret_nn (prov_Env p)) (prov_World p) = Inr sec" "\<And>m. \<exists>j. pd_Marshal (sz_Prov d) m = Inr j"
    and "prov_Config p \<noteq> None"
  shows "strimzi_Provide d R app p = None"
proof -
  obtain p1 where p1: "track_secret (sz_Prov d) env_object sec p = Some (p1, Inr ())"
    using track_secret_some [OF assms(4)] by blast
  then have "prov_Config p1 = prov_Config p" by (auto dest: track_secret_frame)
  with assms(5) obtain c where c: "prov_Config p1 = Some c" by auto
  show ?thesis
    unfolding strimzi_Provide_def
    by (simp add: assms(1,2,3) p1 c read_or_empty_def and_next_def set_config_def the_config_def)
qed

section \<open>Examples\<close>

definition sample_status :: "(string option \<times> string option) option \<Rightarrow> KUser" where
  "sample_status st = \<lparr>ku_ObjectMeta = ObjectMeta_zero, ku_Authentication = None, ku_Acls = None, ku_Status = st\<rparr>"

definition sample_kafka :: "KListenerStatus list option option \<Rightarrow> KKafka" where
  "sample_kafka ls = \<lparr>kk_ObjectMeta = ObjectMeta_zero, kk_Listeners = ls, kk_Spec = None\<rparr>"

definition sample_strimzi :: "unit StrimziDeps" where
  "sample_strimzi = \<lparr>sz_Cyndi = \<lparr>cyd_Kafka = (sample_kafka_deps (\<lambda>e. Inr [sample_topic_app ''a'' 4, sample_topic_app ''b'' 7]))\<lparr>kd_Prov :=
         sample_prov_deps (\<lambda>nn w. Inr ((sample_secret nn)\<lparr>sec_Data := [''password'' \<mapsto> ''pw'']\<rparr>)) (\<lambda>e. Inr [sample_topic_app ''a'' 4, sample_topic_app ''b'' 7])\<rparr>,
       cyd_Db = sample_db_deps [], cyd_NilClient = False, cyd_GetPipeline = (\<lambda>nn w. Inr ''t''), cyd_GetTopic = (\<lambda>nn w. None), cyd_GetService = (\<lambda>nn w. None), cyd_Bundles = Map.empty\<rparr>,
     sz_GetKafka = (\<lambda>nn w. Inr (sample_kafka None)), sz_GetUser = (\<lambda>nn w. Inr (sample_status (Some (Some ''u'', Some ''s'')))), sz_UpdateOrErr = Some,
     sz_ZeroKafka = sample_kafka None, sz_LessQuantity = (\<lambda>a b. None), sz_MetricsData = ''''\<rparr>"

definition sample_strimzi_provider :: "KafkaCfg \<Rightarrow> 'c \<Rightarrow> (unit, 'c) Provider" where
  "sample_strimzi_provider kc c = \<lparr>prov_World = (), prov_Env = ClowdEnvironment_zero, prov_Cache = Some c, prov_Config = Some (AppConfig_zero\<lparr>cfg_Kafka := Some kc\<rparr>), prov_HashCache = []\<rparr>"

lemma sample_strimzi_laws:
  "int_max_law (sz_Kafka sample_strimzi)" "go_iteration (kd_Iter (sz_Kafka sample_strimzi))" "labeler_names (sz_Prov sample_strimzi)"
  "pd_ListApps (sz_Prov sample_strimzi) w e = Inr [sample_topic_app ''a'' 4, sample_topic_app ''b'' 7]" "\<exists>j. pd_Marshal (sz_Prov sample_strimzi) m = Inr j"
proof -
  show "int_max_law (sz_Kafka sample_strimzi)"
    using sample_kafka_laws(1) [of "\<lambda>e. Inr []"] by (simp add: int_max_law_def sample_strimzi_def sample_kafka_deps_def)
qed (simp_all add: sample_strimzi_def sample_kafka_deps_def labeler_names_def sample_prov_deps_def)

definition no_kafka :: KafkaCfg where "no_kafka = \<lparr>kc_Brokers = [], kc_Topics = []\<rparr>"

definition topic_store :: "(unit \<times> (NamespacedName \<rightharpoonup> KTopic), KTopic) Resource" where
  "topic_store = map_cache ktp_NN KTopic_zero"

theorem app_topics_recorded_witness:
  "\<exists>p' k n. processTopics (sz_Kafka sample_strimzi) (strimzi_provider sample_strimzi) topic_store (sample_topic_app ''a'' 4)
       (sample_strimzi_provider no_kafka Map.empty) = Some (p', Inr ())
     \<and> the (prov_Cache p') (NN ''events'' '''') = Some k \<and> ktp_Partitions k = Some n \<and> 7 \<le> n"
proof -
  let ?p = "sample_strimzi_provider no_kafka (Map.empty :: NamespacedName \<rightharpoonup> KTopic)" and ?a = "sample_topic_app ''a'' 4" and ?b = "sample_topic_app ''b'' 7"
  let ?run = "processTopics (sz_Kafka sample_strimzi) (strimzi_provider sample_strimzi) topic_store ?a ?p"
  have ranges: "\<forall>b \<in> set [?a, ?b]. \<forall>t' \<in> set (app_KafkaTopics (app_Spec b)). in_int32 (kt_Replicas t') \<and> in_int32 (kt_Partitions t')"
    by (simp add: sample_topic_app_def in_int32_def)
  have "case ?run of Some (p', Inr x) \<Rightarrow> True | _ \<Rightarrow> False"
    by code_simp
  then obtain p' where run: "?run = Some (p', Inr ())"
    unfolding some_ok by auto
  have cache: "object_cache topic_store ktp_NN snd" unfolding topic_store_def by (rule map_cache_laws)
  have "\<forall>t \<in> set (app_KafkaTopics (app_Spec ?a)). \<exists>k r n.
      prov_recorded snd p' (NN (strimzi_topic_name sample_strimzi (prov_Env ?p) (app_Namespace ?a) (kt_TopicName t)) (getKafkaNamespace (prov_Env ?p))) = Some k
      \<and> om_Labels (ktp_ObjectMeta k) ''strimzi.io/cluster'' = Some (getKafkaName (prov_Env ?p))
      \<and> om_OwnerReferences (ktp_ObjectMeta k) = [env_MakeOwnerReference (prov_Env ?p)]
      \<and> ktp_Replicas k = Some r \<and> 1 \<le> r \<and> r \<le> max 1 (kcc_Replicas (kaf_Cluster (env_Kafka (prov_Env ?p))))
      \<and> ktp_Partitions k = Some n \<and> 1 \<le> n
      \<and> (\<forall>b \<in> set [?a, ?b]. \<forall>t' \<in> set (app_KafkaTopics (app_Spec b)). kt_TopicName t' = kt_TopicName t \<longrightarrow> kt_Partitions t' \<le> n)"
    by (rule app_topics_recorded [OF run cache sample_strimzi_laws(1,2,4) _ ranges, THEN conjunct1]) simp
  then obtain k n where "snd ((prov_World p', the (prov_Cache p'))) (NN (strimzi_topic_name sample_strimzi (prov_Env ?p) (app_Namespace ?a) ''events'') (getKafkaNamespace (prov_Env ?p))) = Some k"
    "ktp_Partitions k = Some n" "kt_Partitions (hd (app_KafkaTopics (app_Spec ?b))) \<le> n"
    by (auto simp: sample_topic_app_def)
  with run show ?thesis
    by (auto simp: strimzi_topic_name_def sample_strimzi_def sample_kafka_deps_def sample_prov_deps_def ClowderConfig_zero_def getKafkaNamespace_def
        sample_strimzi_provider_def ClowdEnvironment_zero_def ProvidersConfig_zero_def KafkaConfig_zero_def sample_topic_app_def)
qed

theorem strimzi_panics_without_status_witness:
  "\<forall>(R :: (unit \<times> unit) StrimziKinds). strimzi_Provide sample_strimzi R ClowdApp_zero (sample_strimzi_provider no_kafka ()) = None"
proof
  fix R :: "(unit \<times> unit) StrimziKinds"
  show "strimzi_Provide sample_strimzi R ClowdApp_zero (sample_strimzi_provider no_kafka ()) = None"
    by (rule strimzi_panics_without_status [where k = "sample_kafka None" and sec = "(sample_secret (ca_secret_nn ClowdEnvironment_zero))\<lparr>sec_Data := [''password'' \<mapsto> ''pw'']\<rparr>"])
      (simp_all add: sample_strimzi_laws, simp_all add: sample_strimzi_def sample_kafka_def sample_prov_deps_def sample_strimzi_provider_def)
qed

definition sample_broker :: BrokerConfig where
  "sample_broker = BrokerConfig_zero\<lparr>br_Authtype := Some BrokerConfigAuthtypeSasl,
     br_Sasl := Some \<lparr>sasl_Password = None, sasl_SaslMechanism = None, sasl_SecurityProtocol = None, sasl_Username = None\<rparr>\<rparr>"

theorem broker_credentials_set_witness:
  "\<exists>p' b. setBrokerCredentials sample_strimzi ClowdApp_zero (sample_strimzi_provider \<lparr>kc_Brokers = [sample_broker], kc_Topics = []\<rparr> ()) = Some (p', Inr ())
     \<and> brokers_of p' = Some [b] \<and> credentialed b \<and> br_SecurityProtocol b = None"
proof -
  let ?p = "sample_strimzi_provider \<lparr>kc_Brokers = [sample_broker], kc_Topics = []\<rparr> ()"
  have "case setBrokerCredentials sample_strimzi ClowdApp_zero ?p of Some (p', Inr x) \<Rightarrow> True | _ \<Rightarrow> False"
    by code_simp
  then obtain p' where run: "setBrokerCredentials sample_strimzi ClowdApp_zero ?p = Some (p', Inr ())"
    unfolding some_ok by auto
  have "brokers_of ?p = Some [sample_broker]" by (simp add: brokers_of_def sample_strimzi_provider_def)
  with broker_credentials_set [OF run] obtain bs' where "brokers_of p' = Some bs'" "length bs' = 1" "credentialed (bs' ! 0)" "br_SecurityProtocol (bs' ! 0) = None"
    by (auto simp: sample_broker_def BrokerConfig_zero_def)
  with run show ?thesis by (intro exI [of _ p'] exI [of _ "bs' ! 0"]) (cases bs'; auto)
qed


text \<open>Kinds of which only the users and the policies can be stored.\<close>

definition refused :: "('s, 'k) Resource" where
  "refused = \<lparr>res_Create = (\<lambda>nn s. (s, Inl (PlainErr ''refused''))), res_Update = (\<lambda>k s. (s, Some (PlainErr ''refused''))),
     res_Get = (\<lambda>nn s. Inl (PlainErr ''refused'')), res_List = (\<lambda>s. Inl (PlainErr ''refused''))\<rparr>"

definition sample_kinds :: "('s, KUser) Resource \<Rightarrow> ('s, KNetworkPolicy) Resource \<Rightarrow> 's StrimziKinds" where
  "sample_kinds users policies = \<lparr>sk_Kafka = refused, sk_Topic = refused, sk_Connect = refused, sk_User = users, sk_ConnectUser = refused, sk_Metrics = refused,
     sk_Policy = policies, sk_PullSecrets = refused, sk_Cyndi = \<lparr>cyr_Pipeline = refused, cyr_AppSecret = refused, cyr_InventorySecret = refused, cyr_LocalDBSecret = refused, cyr_SharedDBAppSecret = refused\<rparr>\<rparr>"

theorem kafka_user_access_witness:
  "\<exists>p' k. createKafkaUser sample_strimzi (sample_kinds (map_cache ku_NN (sample_status None)) refused) (sample_topic_app ''a'' 4)
       (sample_strimzi_provider no_kafka Map.empty) = Some (p', Inr ())
     \<and> the (prov_Cache p') (NN ''-a'' '''') = Some k \<and> user_may k ''topic'' ''events'' ''Read'' ''10.0.0.1'' \<and> \<not> user_may k ''topic'' ''other'' ''Read'' ''10.0.0.1''"
proof -
  let ?p = "sample_strimzi_provider no_kafka (Map.empty :: NamespacedName \<rightharpoonup> KUser)" and ?a = "sample_topic_app ''a'' 4"
  let ?R = "sample_kinds (map_cache ku_NN (sample_status None)) refused :: (unit \<times> (NamespacedName \<rightharpoonup> KUser)) StrimziKinds"
  have "case createKafkaUser sample_strimzi ?R ?a ?p of Some (p', Inr x) \<Rightarrow> True | _ \<Rightarrow> False"
    by code_simp
  then obtain p' where run: "createKafkaUser sample_strimzi ?R ?a ?p = Some (p', Inr ())"
    unfolding some_ok by auto
  have cache: "object_cache (sk_User ?R) ku_NN snd" by (simp add: sample_kinds_def map_cache_laws)
  have names: "getKafkaUsername (prov_Env ?p) ?a = ''-a''" "getKafkaNamespace (prov_Env ?p) = ''''"
    "strimzi_topic_name sample_strimzi (prov_Env ?p) (app_Namespace ?a) (kt_TopicName (hd (app_KafkaTopics (app_Spec ?a)))) = ''events''"
    by code_simp+
  have topics: "set (app_KafkaTopics (app_Spec ?a)) = {hd (app_KafkaTopics (app_Spec ?a))}" by (simp add: sample_topic_app_def)
  have star: "\<forall>t \<in> set (app_KafkaTopics (app_Spec ?a)). kt_TopicName t \<noteq> ''*''" by (simp add: sample_topic_app_def)
  show ?thesis
    using run kafka_user_access [OF run cache sample_strimzi_laws(3) star] names unfolding topics by auto
qed

theorem policy_admits_app_namespaces_witness:
  "\<exists>p' k. createNetworkPolicies sample_strimzi (sample_kinds refused (map_cache (\<lambda>k. NN (om_Name (np_ObjectMeta k)) (om_Namespace (np_ObjectMeta k)))
         \<lparr>np_ObjectMeta = ObjectMeta_zero, np_From = [], np_PolicyTypes = []\<rparr>)) (sample_strimzi_provider no_kafka Map.empty) = Some (p', Inr ())
     \<and> the (prov_Cache p') (kafka_nn ClowdEnvironment_zero) = Some k \<and> set (np_From k) = {[''kubernetes.io/metadata.name'' \<mapsto> ''a''], [''kubernetes.io/metadata.name'' \<mapsto> ''b'']}"
proof -
  let ?p = "sample_strimzi_provider no_kafka (Map.empty :: NamespacedName \<rightharpoonup> KNetworkPolicy)"
  let ?R = "sample_kinds refused (map_cache (\<lambda>k. NN (om_Name (np_ObjectMeta k)) (om_Namespace (np_ObjectMeta k)))
      \<lparr>np_ObjectMeta = ObjectMeta_zero, np_From = [], np_PolicyTypes = []\<rparr>) :: (unit \<times> (NamespacedName \<rightharpoonup> KNetworkPolicy)) StrimziKinds"
  have "case createNetworkPolicies sample_strimzi ?R ?p of Some (p', Inr x) \<Rightarrow> True | _ \<Rightarrow> False"
    by code_simp
  then obtain p' where run: "createNetworkPolicies sample_strimzi ?R ?p = Some (p', Inr ())"
    unfolding some_ok by auto
  have cache: "object_cache (sk_Policy ?R) (\<lambda>k. NN (om_Name (np_ObjectMeta k)) (om_Namespace (np_ObjectMeta k))) snd"
    by (simp add: sample_kinds_def map_cache_laws)
  have namespaces: "(\<lambda>a. app_Namespace a) ` set [sample_topic_app ''a'' 4, sample_topic_app ''b'' 7] = {''a'', ''b''}"
    by (simp add: sample_topic_app_def)
  obtain k nss where "the (prov_Cache p') (kafka_nn (prov_Env ?p)) = Some k" "np_From k = map (\<lambda>ns. [''kubernetes.io/metadata.name'' \<mapsto> ns]) nss"
    "set nss = {''a'', ''b''}"
    using policy_admits_app_namespaces [OF run sample_strimzi_laws(3) cache] namespaces by (auto simp: sample_strimzi_laws(4))
  with run show ?thesis by (auto simp: sample_strimzi_provider_def)
qed

end
