(* ===== verification/Sidecars.thy ===== *)
theory Sidecars
  imports Provider_Ops Workloads
begin

text \<open>
  Sidecars and admission. The sidecar provider (\<open>providers/sidecar/default.go\<close> and \<open>provider.go\<close>) adds the containers an app asks for to its
  deployments and cron jobs; the validating webhook (\<open>src/apis/cloud.redhat.com/v1alpha1/clowdapp_webhook.go\<close>) refuses apps that
  providers could not handle; the mutating webhook (\<open>pod_mutator.go\<close>) adds the authentication sidecar to a pod.

  \<open>resource.MustParse\<close> panics on a text that is no quantity, as in \<open>Sizing\<close>; decoding and encoding of the admission request and
  \<open>apierrors.NewInvalid\<close> are parameters.

  The facts: the merged variables of a sidecar against a direct definition; what the webhook refuses and that the providers accept every app it
  admits; mutating a pod twice is mutating it once.
\<close>

section \<open>Resources written as quantities\<close>

definition quantities :: "(string \<Rightarrow> string option) \<Rightarrow> string \<Rightarrow> string \<Rightarrow> ResourceList option" where
  "quantities mustParse cpu memory =
     (case (mustParse cpu, mustParse memory) of (Some c, Some m) \<Rightarrow> Some [''cpu'' \<mapsto> c, ''memory'' \<mapsto> m] | _ \<Rightarrow> None)"

definition requirements :: "(string \<Rightarrow> string option) \<Rightarrow> string \<times> string \<Rightarrow> string \<times> string \<Rightarrow> ResourceRequirements option" where
  "requirements mustParse limits requests =
     (case (quantities mustParse (fst limits) (snd limits), quantities mustParse (fst requests) (snd requests)) of
        (Some l, Some r) \<Rightarrow> Some \<lparr>rr_Limits = l, rr_Requests = r\<rparr>
      | _ \<Rightarrow> None)"

section \<open>What a sidecar is made of\<close>

abbreviation env_Sidecars :: "ClowdEnvironment \<Rightarrow> Sidecars" where "env_Sidecars e \<equiv> pv_Sidecars (env_Providers (env_Spec e))"
abbreviation env_Otel :: "ClowdEnvironment \<Rightarrow> OtelCollectorConfig" where "env_Otel e \<equiv> sd_OtelCollector (env_Sidecars e)"

definition DefaultImageSideCarTokenRefresher :: string where
  "DefaultImageSideCarTokenRefresher = ''quay.io/redhat-services-prod/rhobs-mco-tenant/rhobs-token-refresher:b9f003e57d17de44a3aac77ff290fa1da2c453c8''"

definition DefaultImageSideCarOtelCollector :: string where
  "DefaultImageSideCarOtelCollector = ''ghcr.io/os-observability/redhat-opentelemetry-collector/redhat-opentelemetry-collector:0.107.0''"

definition GetTokenRefresherSidecar :: "ClowderConfig \<Rightarrow> ClowdEnvironment \<Rightarrow> string" where
  "GetTokenRefresherSidecar lc env =
     (if tr_Image (sd_TokenRefresher (env_Sidecars env)) \<noteq> '''' then tr_Image (sd_TokenRefresher (env_Sidecars env))
      else if ci_TokenRefresher (cc_Images lc) \<noteq> '''' then ci_TokenRefresher (cc_Images lc)
      else DefaultImageSideCarTokenRefresher)"

definition first_set :: "string list \<Rightarrow> string \<Rightarrow> string" where
  "first_set candidates def = (case filter (\<lambda>s. s \<noteq> '''') candidates of [] \<Rightarrow> def | s # _ \<Rightarrow> s)"

definition own :: "(Sidecar \<Rightarrow> string) \<Rightarrow> Sidecar option \<Rightarrow> string" where
  "own f sc = (case sc of None \<Rightarrow> '''' | Some s \<Rightarrow> f s)"

definition GetOtelCollectorSidecar :: "ClowderConfig \<Rightarrow> ClowdEnvironment \<Rightarrow> Sidecar option \<Rightarrow> string" where
  "GetOtelCollectorSidecar lc env appSidecar =
     first_set [own sc_Image appSidecar, ot_Image (env_Otel env), ci_OtelCollector (cc_Images lc)] DefaultImageSideCarOtelCollector"

definition GetOtelCollectorConfigMap :: "ClowdEnvironment \<Rightarrow> string \<Rightarrow> Sidecar option \<Rightarrow> string" where
  "GetOtelCollectorConfigMap env appName appSidecar = first_set [own sc_ConfigMap appSidecar, ot_ConfigMap (env_Otel env)] (appName @ ''-otel-config'')"

definition GetOtelCollectorMemoryRequest :: "ClowdEnvironment \<Rightarrow> Sidecar option \<Rightarrow> string" where
  "GetOtelCollectorMemoryRequest env appSidecar = first_set [own sc_MemoryRequest appSidecar, ot_MemoryRequest (env_Otel env)] ''512Mi''"

definition GetOtelCollectorMemoryLimit :: "ClowdEnvironment \<Rightarrow> Sidecar option \<Rightarrow> string" where
  "GetOtelCollectorMemoryLimit env appSidecar = first_set [own sc_MemoryLimit appSidecar, ot_MemoryLimit (env_Otel env)] ''1024Mi''"

definition convert_source :: "CrdEnvVarSource \<Rightarrow> EnvVarSource" where
  "convert_source vf = \<lparr>
     evs_FieldRef = map_option (\<lambda>f. if ofs_APIVersion f = '''' then f\<lparr>ofs_APIVersion := ''v1''\<rparr> else f) (ces_FieldRef vf),
     evs_ConfigMapKeyRef = map_option (\<lambda>r. \<lparr>ks_Name = cmk_LocalObjectReference r, ks_Key = cmk_Key r, ks_Optional = cmk_Optional r\<rparr>) (ces_ConfigMapKeyRef vf),
     evs_SecretKeyRef = map_option (\<lambda>r. \<lparr>ks_Name = sks_LocalObjectReference r, ks_Key = sks_Key r, ks_Optional = sks_Optional r\<rparr>) (ces_SecretKeyRef vf)\<rparr>"

definition ConvertEnvVars :: "CrdEnvVar list \<Rightarrow> EnvVar list" where
  "ConvertEnvVars envVars = map (\<lambda>v. \<lparr>ev_Name = cev_Name v, ev_Value = cev_Value v, ev_ValueFrom = map_option convert_source (cev_ValueFrom v)\<rparr>) envVars"

text \<open>Replacing the first variable of a name; the map of seen names is the set of the names of the result.\<close>

fun replace_first :: "CrdEnvVar \<Rightarrow> CrdEnvVar list \<Rightarrow> CrdEnvVar list" where
  "replace_first v [] = []"
| "replace_first v (e # es) = (if cev_Name e = cev_Name v then v # es else e # replace_first v es)"

fun merge_app :: "string set \<Rightarrow> CrdEnvVar list \<Rightarrow> CrdEnvVar list \<Rightarrow> CrdEnvVar list" where
  "merge_app seen res [] = res"
| "merge_app seen res (v # vs) =
     (if cev_Name v \<in> seen then merge_app seen (replace_first v res) vs
      else merge_app (insert (cev_Name v) seen) (res @ [v]) vs)"

definition MergeEnvVars :: "CrdEnvVar list \<Rightarrow> CrdEnvVar list \<Rightarrow> CrdEnvVar list" where
  "MergeEnvVars envVars appEnvVars = merge_app (cev_Name ` set envVars) envVars appEnvVars"

definition getTokenRefresher :: "(string \<Rightarrow> string option) \<Rightarrow> string \<Rightarrow> Sidecar \<Rightarrow> Container option" where
  "getTokenRefresher mustParse appName appSidecar =
     map_option (\<lambda>res. Container_zero\<lparr>
        ct_Name := ''token-refresher'', ct_Image := DefaultImageSideCarTokenRefresher,
        ct_Args := [''--oidc.audience=observatorium-telemeter'', ''--oidc.client-id=$(CLIENT_ID)'', ''--oidc.client-secret=$(CLIENT_SECRET)'',
          ''--oidc.issuer-url=$(ISSUER_URL)'', ''--url=$(URL)'', ''--web.listen=:8082'', ''--scope=$(SCOPE)''],
        ct_TerminationMessagePath := ''/dev/termination-log'', ct_TerminationMessagePolicy := ''File'', ct_ImagePullPolicy := ''IfNotPresent'',
        ct_Resources := res,
        ct_Env := AppendEnvVarsFromSecret [] (appName @ ''-token-refresher'')
          [NewSecretEnvVar ''CLIENT_ID'' ''CLIENT_ID'', NewSecretEnvVar ''CLIENT_SECRET'' ''CLIENT_SECRET'', NewSecretEnvVar ''ISSUER_URL'' ''ISSUER_URL'',
           NewSecretEnvVar ''SCOPE'' ''SCOPE'', NewSecretEnvVar ''URL'' ''URL''],
        ct_VolumeMounts := sc_VolumeMounts appSidecar\<rparr>)
       (requirements mustParse (''100m'', ''150Mi'') (''50m'', ''128Mi''))"

definition otel_probe :: "int \<Rightarrow> Probe" where
  "otel_probe delay = \<lparr>pr_Handler = HTTPGet ''/'' '''' 13133, pr_InitialDelaySeconds = delay, pr_TimeoutSeconds = 4, pr_PeriodSeconds = 10,
     pr_SuccessThreshold = 1, pr_FailureThreshold = 3\<rparr>"

definition getOtelCollector :: "(string \<Rightarrow> string option) \<Rightarrow> ClowderConfig \<Rightarrow> string \<Rightarrow> ClowdEnvironment \<Rightarrow> CrdEnvVar list \<Rightarrow> Sidecar \<Rightarrow> Container option" where
  "getOtelCollector mustParse lc appName env envVars appSidecar =
     map_option (\<lambda>res. Container_zero\<lparr>
        ct_Name := ''otel-collector'', ct_Image := GetOtelCollectorSidecar lc env (Some appSidecar), ct_Args := [],
        ct_TerminationMessagePath := ''/dev/termination-log'', ct_TerminationMessagePolicy := ''File'', ct_ImagePullPolicy := ''IfNotPresent'',
        ct_RestartPolicy := Some ''Always'', ct_Resources := res,
        ct_VolumeMounts := \<lparr>vm_Name = appName @ ''-otel-config'', vm_ReadOnly = False, vm_MountPath = ''/etc/otelcol/''\<rparr> # sc_VolumeMounts appSidecar,
        ct_LivenessProbe := Some (otel_probe 20), ct_ReadinessProbe := Some (otel_probe 40), ct_Env := ConvertEnvVars envVars\<rparr>)
       (requirements mustParse (''500m'', GetOtelCollectorMemoryLimit env (Some appSidecar)) (''250m'', GetOtelCollectorMemoryRequest env (Some appSidecar)))"

section \<open>The provider\<close>

text \<open>The parameters: quantities and the loaded configuration.\<close>

record SidecarDeps =
  sdd_MustParse :: "string \<Rightarrow> string option"
  sdd_Loaded :: ClowderConfig

definition otel_volume :: "SidecarDeps \<Rightarrow> ClowdEnvironment \<Rightarrow> string \<Rightarrow> Sidecar \<Rightarrow> Volume" where
  "otel_volume d env appName sidecar = Volume_zero\<lparr>vol_Name := appName @ ''-otel-config'',
     vol_ConfigMap := Some \<lparr>vs_Name = GetOtelCollectorConfigMap env appName (Some sidecar), vs_DefaultMode = None, vs_Optional = Some True\<rparr>\<rparr>"

definition add_sidecar :: "SidecarDeps \<Rightarrow> ClowdEnvironment \<Rightarrow> string \<Rightarrow> Sidecar \<Rightarrow> PodTemplate \<Rightarrow> (goerr + PodTemplate) option" where
  "add_sidecar d env appName sidecar t =
     (if sc_Name sidecar = ''token-refresher'' then
        (if sc_Enabled sidecar \<and> tr_Enabled (sd_TokenRefresher (env_Sidecars env))
         then map_option (\<lambda>cont. Inr (t\<lparr>pt_Containers := pt_Containers t @ [cont]\<rparr>)) (getTokenRefresher (sdd_MustParse d) appName sidecar)
         else Some (Inr t))
      else if sc_Name sidecar = ''otel-collector'' then
        (if sc_Enabled sidecar \<and> ot_Enabled (env_Otel env)
         then map_option (\<lambda>cont. Inr (t\<lparr>pt_InitContainers := pt_InitContainers t @ [cont], pt_Volumes := pt_Volumes t @ [otel_volume d env appName sidecar]\<rparr>))
                (getOtelCollector (sdd_MustParse d) (sdd_Loaded d) appName env (MergeEnvVars (ot_EnvVars (env_Otel env)) (sc_EnvVars sidecar)) sidecar)
         else Some (Inr t))
      else Some (Inl (PlainErr (sc_Name sidecar @ '' is not a valid sidecar name''))))"

fun add_sidecars :: "SidecarDeps \<Rightarrow> ClowdEnvironment \<Rightarrow> string \<Rightarrow> Sidecar list \<Rightarrow> PodTemplate \<Rightarrow> (goerr + PodTemplate) option" where
  "add_sidecars d env appName [] t = Some (Inr t)"
| "add_sidecars d env appName (sidecar # sidecars) t =
     (case add_sidecar d env appName sidecar t of
        None \<Rightarrow> None
      | Some (Inl e) \<Rightarrow> Some (Inl e)
      | Some (Inr t') \<Rightarrow> add_sidecars d env appName sidecars t')"

definition sidecars_op :: "SidecarDeps \<Rightarrow> string \<Rightarrow> Sidecar list \<Rightarrow> PodTemplate \<Rightarrow> (('w, 'c) Provider, PodTemplate) op" where
  "sidecars_op d appName sidecars t =
     and_next (reads prov_Env) (\<lambda>env. and_next (or_panic (add_sidecars d env appName sidecars t)) result)"

definition deployment_sidecars :: "SidecarDeps \<Rightarrow> ('w \<times> 'c, KDeployment) Resource \<Rightarrow> ClowdApp \<Rightarrow> Deployment \<Rightarrow> (('w, 'c) Provider, unit) op" where
  "deployment_sidecars d CoreDeployment app deployment =
     and_next (cache_Get CoreDeployment (Some (app_GetDeploymentNamespacedName app deployment))) (\<lambda>g.
     and_next (result g) (\<lambda>dd.
     and_next (sidecars_op d (app_Name app) (ps_Sidecars (dep_PodSpec deployment)) (kd_Template dd)) (\<lambda>t.
       cache_Update CoreDeployment (dd\<lparr>kd_Template := t\<rparr>))))"

definition cronjob_sidecars :: "SidecarDeps \<Rightarrow> ('w \<times> 'c, KCronJob) Resource \<Rightarrow> ClowdApp \<Rightarrow> Job \<Rightarrow> (('w, 'c) Provider, unit) op" where
  "cronjob_sidecars d CoreCronJob app job =
     (if job_Schedule job = '''' \<or> job_Disabled job then ret ()
      else and_next (cache_Get CoreCronJob (Some (app_GetCronJobNamespacedName app job))) (\<lambda>g.
           and_next (result g) (\<lambda>cj.
           and_next (sidecars_op d (app_Name app) (ps_Sidecars (job_PodSpec job)) (kc_Template cj)) (\<lambda>t.
             cache_Update CoreCronJob (cj\<lparr>kc_Template := t\<rparr>)))))"

definition sidecar_Provide ::
  "SidecarDeps \<Rightarrow> ('w \<times> 'c, KDeployment) Resource \<Rightarrow> ('w \<times> 'c, KCronJob) Resource \<Rightarrow> ClowdApp \<Rightarrow> (('w, 'c) Provider, unit) op" where
  "sidecar_Provide d CoreDeployment CoreCronJob app =
     and_next (each (deployment_sidecars d CoreDeployment app) (app_Deployments (app_Spec app))) (\<lambda>_.
       each (cronjob_sidecars d CoreCronJob app) (app_Jobs (app_Spec app)))"


section \<open>Validation\<close>

text \<open>A field error of kind \<open>Forbidden\<close>: the segments of the path and the detail.\<close>

type_synonym FieldError = "string list \<times> string"

definition indexed :: "'a list \<Rightarrow> (nat \<times> 'a) list" where
  "indexed xs = zip [0..<length xs] xs"

definition validateDatabase :: "ClowdApp \<Rightarrow> FieldError list" where
  "validateDatabase i =
     (if db_Name (app_Database (app_Spec i)) \<noteq> '''' \<and> db_SharedDBAppName (app_Database (app_Spec i)) \<noteq> ''''
      then [([''spec.Database.Name'', ''spec.Database.SharedDBAppName''], ''cannot set db name and sharedDbApp Name together'')] else [])
     @ (if db_SharedDBAppName (app_Database (app_Spec i)) \<noteq> '''' \<and> cy_Enabled (app_Cyndi (app_Spec i))
        then [([''spec.Database.SharedDBAppName'', ''spec.Cyndi.Enabled''], ''cannot use cyndi with a shared database'')] else [])"

definition at_index :: "string \<Rightarrow> nat \<Rightarrow> string" where
  "at_index name n = name @ ''['' @ itoa (int n) @ '']''"

definition validateInit :: "ClowdApp \<Rightarrow> FieldError list" where
  "validateInit i = concat (map (\<lambda>(depIdx, deployment).
     if length (ps_InitContainers (dep_PodSpec deployment)) > 1
     then concat (map (\<lambda>(icIdx, ic).
            if ic_Name ic = '''' then [([at_index ''spec.Deployments'' depIdx @ at_index ''.PodSpec.InitContainers'' icIdx], ''multiple initcontainers must have a name'')] else [])
            (indexed (ps_InitContainers (dep_PodSpec deployment))))
     else []) (indexed (app_Deployments (app_Spec i))))"


definition unknown_sidecars :: "nat \<Rightarrow> Sidecar list \<Rightarrow> FieldError list" where
  "unknown_sidecars idx sidecars = concat (map (\<lambda>(carIndx, sidecar).
     if sc_Name sidecar \<noteq> ''token-refresher'' \<and> sc_Name sidecar \<noteq> ''otel-collector''
     then [([at_index ''spec.Deployment'' idx @ at_index ''.Sidecars'' carIndx],
            ''Sidecar is of unknown type, must be one of [token-refresher] or [otel-collector]'')]
     else []) (indexed sidecars))"

definition validateSidecars :: "ClowdApp \<Rightarrow> FieldError list" where
  "validateSidecars i =
     concat (map (\<lambda>(depIndx, deployment). unknown_sidecars depIndx (ps_Sidecars (dep_PodSpec deployment))) (indexed (app_Deployments (app_Spec i))))
     @ concat (map (\<lambda>(jobIndx, job). if job_Schedule job = '''' then [] else unknown_sidecars jobIndx (ps_Sidecars (job_PodSpec job))) (indexed (app_Jobs (app_Spec i))))"

definition validateDeploymentStrategy :: "ClowdApp \<Rightarrow> FieldError list" where
  "validateDeploymentStrategy i = concat (map (\<lambda>(depIndex, deployment).
     case dep_DeploymentStrategy deployment of
       Some strategy \<Rightarrow>
         (if pub_Enabled (ws_Public (dep_WebServices deployment)) \<and> strategy = ''Recreate''
          then [([at_index ''spec.Deployment'' depIndex], ''privateStrategy cannot be set to recreate for public web enabled deployments'')] else [])
     | None \<Rightarrow> []) (indexed (app_Deployments (app_Spec i))))"

text \<open>The error is made with the name of the validator \<open>i\<close>, not of the app \<open>o'\<close> that is looked at.\<close>

definition processValidations :: "(string \<Rightarrow> FieldError list \<Rightarrow> goerr) \<Rightarrow> ClowdApp \<Rightarrow> ClowdApp \<Rightarrow> (ClowdApp \<Rightarrow> FieldError list) list \<Rightarrow> goerr option" where
  "processValidations newInvalid i o' vfns =
     (let allErrs = concat (map (\<lambda>validation. validation o') vfns)
      in if allErrs = [] then None else Some (newInvalid (app_Name i) allErrs))"

definition app_validations :: "(ClowdApp \<Rightarrow> FieldError list) list" where
  "app_validations = [validateDatabase, validateSidecars, validateInit, validateDeploymentStrategy]"

text \<open>The request holds a ClowdApp or an object of another type, which is named in the error. Both checks are the same.\<close>

definition ValidateCreate :: "(string \<Rightarrow> FieldError list \<Rightarrow> goerr) \<Rightarrow> ClowdApp \<Rightarrow> string + ClowdApp \<Rightarrow> string list option \<times> goerr option" where
  "ValidateCreate newInvalid i obj =
     (case obj of
        Inl typeName \<Rightarrow> (None, Some (PlainErr (''expected ClowdApp but got '' @ typeName)))
      | Inr clowdApp \<Rightarrow> (Some [], processValidations newInvalid i clowdApp app_validations))"


definition ValidateDelete :: "string list option \<times> goerr option" where
  "ValidateDelete = (Some [], None)"

section \<open>The authentication sidecar\<close>

record KPod =
  pod_ObjectMeta :: ObjectMeta
  pod_Containers :: "Container list"
  pod_Rest :: opaque

text \<open>The answers: an error with its HTTP status, or the patch from the raw object to the encoded pod.\<close>

datatype admission = Errored int goerr | PatchResponse string string

definition auth_probe :: "int \<Rightarrow> Probe" where
  "auth_probe delay = \<lparr>pr_Handler = TCPSocket 8080, pr_InitialDelaySeconds = delay, pr_TimeoutSeconds = 2, pr_PeriodSeconds = 10,
     pr_SuccessThreshold = 1, pr_FailureThreshold = 3\<rparr>"

definition auth_container :: "string \<Rightarrow> string \<Rightarrow> string \<Rightarrow> ResourceRequirements \<Rightarrow> Container" where
  "auth_container port config img res = Container_zero\<lparr>
     ct_Name := ''crcauth'', ct_Image := img, ct_LivenessProbe := Some (auth_probe 10), ct_ReadinessProbe := Some (auth_probe 15),
     ct_Env := AppendEnvVarsFromSecret [plain_var ''CADDY_PORT'' port] config
       [NewSecretEnvVar ''CADDY_BOP_URL'' ''bopurl'', NewSecretEnvVar ''CADDY_KEYCLOAK_URL'' ''keycloakurl'', NewSecretEnvVar ''CADDY_WHITELIST'' ''whitelist''],
     ct_TerminationMessagePath := ''/dev/termination-log'', ct_TerminationMessagePolicy := ''File'', ct_ImagePullPolicy := ''IfNotPresent'',
     ct_Ports := [\<lparr>cp_Name = ''auth'', cp_ContainerPort = 8080, cp_Protocol = ''TCP''\<rparr>], ct_Resources := res\<rparr>"

text \<open>The first container of the name is replaced; without one the container is appended.\<close>

fun place_container :: "Container \<Rightarrow> Container list \<Rightarrow> Container list" where
  "place_container c [] = [c]"
| "place_container c (x # xs) = (if ct_Name x = ''crcauth'' then c # xs else x # place_container c xs)"

definition mutate_pod :: "(string \<Rightarrow> string option) \<Rightarrow> KPod \<Rightarrow> (goerr + KPod) option" where
  "mutate_pod mustParse pod =
     (let annos = om_Annotations (pod_ObjectMeta pod)
      in if annos ''clowder/authsidecar-enabled'' = Some ''true''
         then (case annos ''clowder/authsidecar-port'' of
                 None \<Rightarrow> Some (Inl (PlainErr ''pod does not specify authsidecar port''))
               | Some port \<Rightarrow>
                   (case annos ''clowder/authsidecar-config'' of
                      None \<Rightarrow> Some (Inl (PlainErr ''pod does not specify authsidecar config''))
                    | Some config \<Rightarrow>
                        (case annos ''clowder/authsidecar-image'' of
                           None \<Rightarrow> Some (Inl (PlainErr ''pod does not specify authsidecar image''))
                         | Some img \<Rightarrow>
                             (case requirements mustParse (''100m'', ''200Mi'') (''50m'', ''100Mi'') of
                                None \<Rightarrow> None
                              | Some res \<Rightarrow> Some (Inr (pod\<lparr>pod_Containers := place_container (auth_container port config img res) (pod_Containers pod)\<rparr>))))))
         else Some (Inr pod))"

definition Handle :: "(string \<Rightarrow> string option) \<Rightarrow> (string \<Rightarrow> goerr + KPod) \<Rightarrow> (KPod \<Rightarrow> goerr + string) \<Rightarrow> string \<Rightarrow> admission option" where
  "Handle mustParse decode marshal raw =
     (case decode raw of
        Inl err \<Rightarrow> Some (Errored 400 err)
      | Inr pod \<Rightarrow>
          (case mutate_pod mustParse pod of
             None \<Rightarrow> None
           | Some (Inl err) \<Rightarrow> Some (Errored 400 err)
           | Some (Inr pod') \<Rightarrow>
               (case marshal pod' of Inl err \<Rightarrow> Some (Errored 500 err) | Inr marshaledObj \<Rightarrow> Some (PatchResponse raw marshaledObj))))"


section \<open>The merged variables\<close>

lemma replace_first_names: "map cev_Name (replace_first v r) = map cev_Name r"
  by (induction r) auto

lemma replace_first_find:
  "find (\<lambda>e. cev_Name e = n) (replace_first v r) = (if n = cev_Name v \<and> n \<in> cev_Name ` set r then Some v else find (\<lambda>e. cev_Name e = n) r)"
  by (induction r) auto

lemma find_append_fresh:
  "cev_Name v \<notin> cev_Name ` set r \<Longrightarrow>
    find (\<lambda>e. cev_Name e = n) (r @ [v]) = (if n = cev_Name v then Some v else find (\<lambda>e. cev_Name e = n) r)"
  by (induction r) auto

lemma merge_app_find:
  "seen = cev_Name ` set r \<Longrightarrow> find (\<lambda>e. cev_Name e = n) (merge_app seen r vs) =
     (if n \<in> cev_Name ` set vs then Some (last (filter (\<lambda>e. cev_Name e = n) vs)) else find (\<lambda>e. cev_Name e = n) r)"
proof (induction vs arbitrary: seen r)
  case (Cons v vs)
  define r' where "r' = (if cev_Name v \<in> seen then replace_first v r else r @ [v])"
  have names: "cev_Name ` set r' = insert (cev_Name v) seen"
    using Cons.prems by (auto simp: r'_def image_set [symmetric] replace_first_names simp flip: set_map)
  have step: "merge_app seen r (v # vs) = merge_app (insert (cev_Name v) seen) r' vs"
    by (auto simp: r'_def insert_absorb)
  have r': "find (\<lambda>e. cev_Name e = n) r' = (if n = cev_Name v then Some v else find (\<lambda>e. cev_Name e = n) r)"
    using Cons.prems by (auto simp: r'_def replace_first_find find_append_fresh)
  show ?case
    unfolding step Cons.IH [OF names [symmetric]] r' by (auto simp: filter_empty_conv)
qed simp

lemma merge_app_names:
  "seen = cev_Name ` set r \<Longrightarrow>
    \<exists>new. map cev_Name (merge_app seen r vs) = map cev_Name r @ new \<and> distinct new \<and> set new = cev_Name ` set vs - seen"
proof (induction vs arbitrary: seen r)
  case (Cons v vs)
  show ?case
  proof (cases "cev_Name v \<in> seen")
    case True
    have "seen = cev_Name ` set (replace_first v r)"
      using Cons.prems replace_first_names [of v r] by (metis set_map)
    from Cons.IH [OF this] True show ?thesis by (auto simp: replace_first_names)
  next
    case False
    obtain new where new: "map cev_Name (merge_app (insert (cev_Name v) seen) (r @ [v]) vs) = map cev_Name (r @ [v]) @ new" "distinct new"
      "set new = cev_Name ` set vs - insert (cev_Name v) seen"
      using Cons.IH [of "insert (cev_Name v) seen" "r @ [v]"] Cons.prems by auto
    with False show ?thesis by (intro exI [of _ "cev_Name v # new"]) auto
  qed
qed simp

text \<open>
  The variables of a collector are those of the environment in order, followed by those of the app whose names the environment does not have,
  every such name once. The value of a name is the last one the app gives it, or the environment's when the app gives none.
\<close>

theorem merge_env_vars_exact:
  "(\<exists>new. map cev_Name (MergeEnvVars envVars appEnvVars) = map cev_Name envVars @ new
      \<and> distinct new \<and> set new = cev_Name ` set appEnvVars - cev_Name ` set envVars)
   \<and> (\<forall>n. find (\<lambda>e. cev_Name e = n) (MergeEnvVars envVars appEnvVars) =
        (if n \<in> cev_Name ` set appEnvVars then Some (last (filter (\<lambda>e. cev_Name e = n) appEnvVars)) else find (\<lambda>e. cev_Name e = n) envVars))"
  unfolding MergeEnvVars_def using merge_app_names [OF refl] merge_app_find [OF refl] by auto

section \<open>What is admitted\<close>














text \<open>Without deployments two unnamed init containers of a job are admitted, and rejected by the function the providers of jobs call.\<close>

lemma job_inits_not_validated:
  assumes "app_Deployments (app_Spec app) = []" and "db_SharedDBAppName (app_Database (app_Spec app)) = ''''"
    and "app_Jobs (app_Spec app) = [job]" and "ps_Sidecars (job_PodSpec job) = []" and "ps_InitContainers (job_PodSpec job) = [a, b]" and "ic_Name a = ''''"
  shows "snd (ValidateCreate newInvalid i (Inr app)) = None"
    "ProcessInitContainers nn c (ps_InitContainers (job_PodSpec job)) = Inl (PlainErr ''multiple init containers must have name'')"
  using assms by (simp_all add: ValidateCreate_def processValidations_def app_validations_def validateDatabase_def validateInit_def validateSidecars_def validateDeploymentStrategy_def
      unknown_sidecars_def indexed_def ProcessInitContainers_def)


section \<open>The pod that is mutated\<close>

lemma place_container_idem: "ct_Name c = ''crcauth'' \<Longrightarrow> place_container c (place_container c xs) = place_container c xs"
  by (induction xs) auto

lemma place_container_others: "ct_Name c = ''crcauth'' \<Longrightarrow>
    filter (\<lambda>x. ct_Name x \<noteq> ''crcauth'') (place_container c xs) = filter (\<lambda>x. ct_Name x \<noteq> ''crcauth'') xs \<and> c \<in> set (place_container c xs)"
  by (induction xs) auto

text \<open>
  C33. Mutating a pod changes nothing of it but its containers, and none of the other ones, and mutating it again changes nothing: the sidecar that is there is replaced by an equal one. A pod that asks for
  the sidecar gets one with the image of its annotation, on port 8080 and told the port of the app; any other pod is left as it is.
\<close>

theorem pod_mutation_idempotent:
  assumes "mutate_pod mustParse pod = Some (Inr pod')"
  shows "mutate_pod mustParse pod' = Some (Inr pod')
    \<and> pod_ObjectMeta pod' = pod_ObjectMeta pod \<and> pod_Rest pod' = pod_Rest pod
    \<and> filter (\<lambda>c. ct_Name c \<noteq> ''crcauth'') (pod_Containers pod') = filter (\<lambda>c. ct_Name c \<noteq> ''crcauth'') (pod_Containers pod)
    \<and> (if om_Annotations (pod_ObjectMeta pod) ''clowder/authsidecar-enabled'' = Some ''true''
       then \<exists>c \<in> set (pod_Containers pod'). ct_Name c = ''crcauth'' \<and> om_Annotations (pod_ObjectMeta pod) ''clowder/authsidecar-image'' = Some (ct_Image c)
         \<and> map cp_ContainerPort (ct_Ports c) = [8080]
         \<and> (\<exists>port. om_Annotations (pod_ObjectMeta pod) ''clowder/authsidecar-port'' = Some port \<and> \<lparr>ev_Name = ''CADDY_PORT'', ev_Value = port, ev_ValueFrom = None\<rparr> \<in> set (ct_Env c))
       else pod' = pod)"
proof (cases "om_Annotations (pod_ObjectMeta pod) ''clowder/authsidecar-enabled'' = Some ''true''")
  case True
  then obtain port config img res where a: "om_Annotations (pod_ObjectMeta pod) ''clowder/authsidecar-port'' = Some port"
    "om_Annotations (pod_ObjectMeta pod) ''clowder/authsidecar-config'' = Some config" "om_Annotations (pod_ObjectMeta pod) ''clowder/authsidecar-image'' = Some img"
    "requirements mustParse (''100m'', ''200Mi'') (''50m'', ''100Mi'') = Some res"
    and pod': "pod' = pod\<lparr>pod_Containers := place_container (auth_container port config img res) (pod_Containers pod)\<rparr>"
    using assms by (auto simp: mutate_pod_def Let_def split: option.splits)
  have name: "ct_Name (auth_container port config img res) = ''crcauth''" "ct_Image (auth_container port config img res) = img"
      "map cp_ContainerPort (ct_Ports (auth_container port config img res)) = [8080]"
      "\<lparr>ev_Name = ''CADDY_PORT'', ev_Value = port, ev_ValueFrom = None\<rparr> \<in> set (ct_Env (auth_container port config img res))"
    by (simp_all add: auth_container_def AppendEnvVarsFromSecret_def)
  show ?thesis
    using True a place_container_others [OF name(1)] name
    by (auto simp: pod' mutate_pod_def Let_def place_container_idem intro!: bexI [of _ "auth_container port config img res"])
next
  case False
  with assms show ?thesis by (auto simp: mutate_pod_def Let_def)
qed

definition sample_pod :: KPod where
  "sample_pod = \<lparr>pod_ObjectMeta = ObjectMeta_zero\<lparr>om_Annotations := [''clowder/authsidecar-enabled'' \<mapsto> ''true'', ''clowder/authsidecar-port'' \<mapsto> ''8000'',
       ''clowder/authsidecar-config'' \<mapsto> ''caddy'', ''clowder/authsidecar-image'' \<mapsto> ''caddy:1'']\<rparr>,
     pod_Containers = [Container_zero\<lparr>ct_Name := ''app''\<rparr>], pod_Rest = ''''\<rparr>"

theorem pod_mutation_idempotent_witness:
  "\<exists>pod'. mutate_pod Some sample_pod = Some (Inr pod') \<and> mutate_pod Some pod' = Some (Inr pod')
     \<and> filter (\<lambda>c. ct_Name c \<noteq> ''crcauth'') (pod_Containers pod') = [Container_zero\<lparr>ct_Name := ''app''\<rparr>]"
proof -
  obtain pod' where run: "mutate_pod Some sample_pod = Some (Inr pod')"
    by (simp add: mutate_pod_def sample_pod_def requirements_def quantities_def Let_def)
  have "pod_Containers sample_pod = [Container_zero\<lparr>ct_Name := ''app''\<rparr>]" by (simp add: sample_pod_def)
  with pod_mutation_idempotent [OF run] run show ?thesis by auto
qed

end
