(* ===== verification/Autoscaler.thy ===== *)
theory Autoscaler
  imports Database
begin

text \<open>
  The autoscaler provider: \<open>providers/autoscaler/router.go\<close> looks at every deployment of an app, \<open>simple.go\<close> makes a horizontal pod autoscaler
  and \<open>keda.go\<close> a scaled object for KEDA. The type of a cached deployment and the creation of an autoscaler in the resource cache, which fills in an object that
  the cluster has already, are parameters. That the metadata of a trigger is shared with the app, so that what is written there also shows in the app,
  is not modelled.

  The facts: what a scaled object scales, between which counts and by which brokers; when a trigger panics; whose error the provider returns.
\<close>

section \<open>Horizontal pod autoscalers\<close>

datatype MetricTarget = AverageValue string | AverageUtilization int

record MetricSpec =
  ms_Type :: string
  ms_Resource :: string
  ms_Target :: MetricTarget

record KHPA =
  hpa_ObjectMeta :: ObjectMeta
  hpa_TargetAPIVersion :: string
  hpa_TargetKind :: string
  hpa_TargetName :: string
  hpa_MinReplicas :: "int option"
  hpa_MaxReplicas :: int
  hpa_Metrics :: "MetricSpec list"

record KScaledObject =
  sco_ObjectMeta :: ObjectMeta
  sco_Target :: "string \<times> string \<times> string"
  sco_PollingInterval :: "int option"
  sco_CooldownPeriod :: "int option"
  sco_Advanced :: "opaque option"
  sco_Fallback :: "opaque option"
  sco_MinReplicaCount :: "int option"
  sco_MaxReplicaCount :: "int option"
  sco_Triggers :: "ScaleTrigger list"

definition KScaledObject_zero :: KScaledObject where
  "KScaledObject_zero = \<lparr>sco_ObjectMeta = ObjectMeta_zero, sco_Target = ('''', '''', ''''), sco_PollingInterval = None, sco_CooldownPeriod = None,
     sco_Advanced = None, sco_Fallback = None, sco_MinReplicaCount = None, sco_MaxReplicaCount = None, sco_Triggers = []\<rparr>"

record 's AutoDeps =
  asd_MustParse :: "string \<Rightarrow> string option"
  asd_TypeMeta :: "KDeployment \<Rightarrow> string \<times> string"
  asd_CreateHPA :: "NamespacedName \<Rightarrow> KHPA \<Rightarrow> 's \<Rightarrow> 's \<times> goerr option"
  asd_Scaled :: "('s, KScaledObject) Resource"
  asd_Deployments :: "('s, KDeployment) Resource"
  asd_Stack :: string

definition makeHPA :: "ClowdApp \<Rightarrow> Deployment \<Rightarrow> AutoScalerSimple \<Rightarrow> KDeployment \<Rightarrow> KHPA" where
  "makeHPA app deployment simple coreDeployment = \<lparr>
     hpa_ObjectMeta = ObjectMeta_zero\<lparr>
       om_OwnerReferences := [\<lparr>or_APIVersion = ''clowd.redhat.com/v1alpha1'', or_Kind = ''ClowdApp'', or_Name = app_Name app,
                               or_UID = om_UID (app_ObjectMeta app), or_Controller = None\<rparr>],
       om_Name := app_Name app @ ''-'' @ dep_Name deployment @ ''-hpa'',
       om_Namespace := om_Namespace (kd_ObjectMeta coreDeployment)\<rparr>,
     hpa_TargetAPIVersion = ''apps/v1'', hpa_TargetKind = ''Deployment'', hpa_TargetName = om_Name (kd_ObjectMeta coreDeployment),
     hpa_MinReplicas = Some (sar_Min (as_Replicas simple)), hpa_MaxReplicas = sar_Max (as_Replicas simple), hpa_Metrics = []\<rparr>"

definition makeBasicMetricSpec :: "string \<Rightarrow> MetricTarget \<Rightarrow> MetricSpec" where
  "makeBasicMetricSpec res target = \<lparr>ms_Type = ''Resource'', ms_Resource = res, ms_Target = target\<rparr>"

definition makeAverageValueMetricSpec :: "string \<Rightarrow> string \<Rightarrow> MetricSpec" where
  "makeAverageValueMetricSpec res threshold = makeBasicMetricSpec res (AverageValue threshold)"

definition makeAverageUtilizationMetricSpec :: "string \<Rightarrow> int \<Rightarrow> MetricSpec" where
  "makeAverageUtilizationMetricSpec res threshold = makeBasicMetricSpec res (AverageUtilization threshold)"

text \<open>The metrics of one resource: a utilisation, a value, both or none. A value that is no quantity panics.\<close>

definition resource_metrics :: "(string \<Rightarrow> string option) \<Rightarrow> string \<Rightarrow> SimpleAutoScalerMetric \<Rightarrow> MetricSpec list option" where
  "resource_metrics mustParse res m =
     (let utilization = (if sam_ScaleAtUtilization m \<noteq> 0 then [makeAverageUtilizationMetricSpec res (sam_ScaleAtUtilization m)] else [])
      in if sam_ScaleAtValue m \<noteq> ''''
         then map_option (\<lambda>threshold. utilization @ [makeAverageValueMetricSpec res threshold]) (mustParse (sam_ScaleAtValue m))
         else Some utilization)"

definition makeMetricsSpecs :: "(string \<Rightarrow> string option) \<Rightarrow> AutoScalerSimple \<Rightarrow> MetricSpec list option" where
  "makeMetricsSpecs mustParse simple =
     (case resource_metrics mustParse ''memory'' (as_RAM simple) of
        None \<Rightarrow> None
      | Some ram \<Rightarrow> map_option (\<lambda>cpu. ram @ cpu) (resource_metrics mustParse ''cpu'' (as_CPU simple)))"

definition getResource :: "(string \<Rightarrow> string option) \<Rightarrow> ClowdApp \<Rightarrow> Deployment \<Rightarrow> AutoScalerSimple \<Rightarrow> KDeployment \<Rightarrow> KHPA option" where
  "getResource mustParse app deployment simple coreDeployment =
     map_option (\<lambda>metrics. (makeHPA app deployment simple coreDeployment)\<lparr>hpa_Metrics := metrics\<rparr>) (makeMetricsSpecs mustParse simple)"

definition getDeploymentFromCache :: "('w \<times> 'c) AutoDeps \<Rightarrow> Deployment \<Rightarrow> ClowdApp \<Rightarrow> (('w, 'c) Provider, KDeployment) op" where
  "getDeploymentFromCache d clowdDeployment app =
     and_next (cache_Get (asd_Deployments d) (Some (app_GetDeploymentNamespacedName app clowdDeployment))) result"

definition cacheAutoscaler :: "('w \<times> 'c) AutoDeps \<Rightarrow> ClowdApp \<Rightarrow> Deployment \<Rightarrow> KHPA \<Rightarrow> (('w, 'c) Provider, unit) op" where
  "cacheAutoscaler d app deployment hpa =
     cached (\<lambda>s. case asd_CreateHPA d (app_GetDeploymentNamespacedName app deployment) hpa s of (s', None) \<Rightarrow> (s', Inr ()) | (s', Some e) \<Rightarrow> (s', Inl e))"

definition ProvideSimpleAutoScaler :: "('w \<times> 'c) AutoDeps \<Rightarrow> ClowdApp \<Rightarrow> Deployment \<Rightarrow> AutoScalerSimple \<Rightarrow> (('w, 'c) Provider, unit) op" where
  "ProvideSimpleAutoScaler d app deployment simple =
     and_next (map_err (Wrap (asd_Stack d) ''Could not get deployment from resource cache'') (getDeploymentFromCache d deployment app)) (\<lambda>cachedDeployment.
     and_next (or_panic (getResource (asd_MustParse d) app deployment simple cachedDeployment)) (\<lambda>hpa.
       map_err (Wrap (asd_Stack d) ''Could not add HPA to resource cache'') (cacheAutoscaler d app deployment hpa)))"

section \<open>KEDA\<close>

definition server_address :: "BrokerConfig \<Rightarrow> string" where
  "server_address broker = (case br_Port broker of Some port \<Rightarrow> br_Hostname broker @ '':'' @ itoa port | None \<Rightarrow> br_Hostname broker)"

text \<open>What a trigger of a type gets: the brokers of the app and, from the first one, how to authenticate. A missing Kafka configuration or a first broker that
  authenticates without a mechanism panics.\<close>

definition getTriggerRoute :: "string \<Rightarrow> AppConfig \<Rightarrow> ClowdEnvironment \<Rightarrow> (string \<times> string) list option" where
  "getTriggerRoute triggerType c env =
     (if triggerType = ''kafka'' then
        (case cfg_Kafka c of
           None \<Rightarrow> None
         | Some kafka \<Rightarrow>
             (let servers = (''bootstrapServers'', join '','' (map server_address (kc_Brokers kafka)))
              in case kc_Brokers kafka of
                   [] \<Rightarrow> Some [servers]
                 | broker # _ \<Rightarrow>
                     (case br_Sasl broker of
                        None \<Rightarrow> Some [servers]
                      | Some sasl \<Rightarrow> map_option (\<lambda>m. [(''sasl'', m), (''tls'', ''enable''), servers]) (sasl_SaslMechanism sasl))))
      else if triggerType = ''prometheus'' then Some [(''serverAddress'', est_PrometheusServerAddress (env_Status env))]
      else Some [])"

text \<open>Writing into a nil map panics.\<close>

definition routed_trigger :: "AppConfig \<Rightarrow> ClowdEnvironment \<Rightarrow> ScaleTrigger \<Rightarrow> ScaleTrigger option" where
  "routed_trigger c env trigger =
     (case getTriggerRoute (trg_Type trigger) c env of
        None \<Rightarrow> None
      | Some route \<Rightarrow>
          (if route = [] then Some trigger
           else map_option (\<lambda>m. trigger\<lparr>trg_Metadata := Some (m ++ map_of route)\<rparr>) (trg_Metadata trigger)))"

fun routed_triggers :: "AppConfig \<Rightarrow> ClowdEnvironment \<Rightarrow> ScaleTrigger list \<Rightarrow> ScaleTrigger list option" where
  "routed_triggers c env [] = Some []"
| "routed_triggers c env (t # ts) =
     (case routed_trigger c env t of None \<Rightarrow> None | Some t' \<Rightarrow> map_option ((#) t') (routed_triggers c env ts))"

definition count_or :: "int \<Rightarrow> int option \<Rightarrow> int option" where
  "count_or def n = (case n of None \<Rightarrow> Some def | Some _ \<Rightarrow> n)"

definition initAutoScaler ::
  "('w \<times> 'c) AutoDeps \<Rightarrow> ClowdEnvironment \<Rightarrow> ClowdApp \<Rightarrow> KDeployment \<Rightarrow> KScaledObject \<Rightarrow> NamespacedName \<Rightarrow> AutoScaler \<Rightarrow> AppConfig \<Rightarrow> KScaledObject option" where
  "initAutoScaler d env app dd s nn scaler c =
     (let (app1, ls) = app_GetLabels app;
          (app2, om) = app_SetObjectMeta app1 (sco_ObjectMeta s);
          (kind, apiVersion) = asd_TypeMeta d dd
      in map_option (\<lambda>triggers. s\<lparr>
           sco_ObjectMeta := om_Labels_opt (ls(''pod'' \<mapsto> nn_Name nn)) (om_Name_opt (nn_Name nn) om),
           sco_Target := (om_Name (kd_ObjectMeta dd), kind, apiVersion),
           sco_PollingInterval := asc_PollingInterval scaler, sco_CooldownPeriod := asc_CooldownPeriod scaler,
           sco_Advanced := asc_Advanced scaler, sco_Fallback := asc_Fallback scaler,
           sco_MinReplicaCount := count_or 1 (asc_MinReplicaCount scaler), sco_MaxReplicaCount := count_or 10 (asc_MaxReplicaCount scaler),
           sco_Triggers := triggers\<rparr>) (routed_triggers c env (asc_Triggers scaler)))"

definition makeAutoScalers :: "('w \<times> 'c) AutoDeps \<Rightarrow> Deployment \<Rightarrow> AutoScaler \<Rightarrow> ClowdApp \<Rightarrow> (('w, 'c) Provider, unit) op" where
  "makeAutoScalers d deployment scaler app =
     (let nn = app_GetDeploymentNamespacedName app deployment
      in and_next (cache_Create (asd_Scaled d) nn) (\<lambda>s.
         and_next (cache_Get (asd_Deployments d) (Some nn)) (\<lambda>g.
         and_next (result g) (\<lambda>dd.
         and_next (reads prov_Env) (\<lambda>env.
         and_next (the_config) (\<lambda>c.
         and_next (or_panic (initAutoScaler d env app dd s nn scaler c)) (\<lambda>s'. cache_Update (asd_Scaled d) s')))))))"

definition ProvideKedaAutoScaler :: "('w \<times> 'c) AutoDeps \<Rightarrow> ClowdApp \<Rightarrow> Deployment \<Rightarrow> AutoScaler \<Rightarrow> (('w, 'c) Provider, unit) op" where
  "ProvideKedaAutoScaler d app deployment scaler = makeAutoScalers d deployment scaler app"

section \<open>The router\<close>

text \<open>An error that is kept as a value.\<close>

definition attempt :: "('p, unit) op \<Rightarrow> ('p, goerr option) op" where
  "attempt m p = (case m p of None \<Rightarrow> None | Some (p', Inl e) \<Rightarrow> Some (p', Inr (Some e)) | Some (p', Inr u) \<Rightarrow> Some (p', Inr None))"

fun route_all :: "('w \<times> 'c) AutoDeps \<Rightarrow> ClowdApp \<Rightarrow> Deployment list \<Rightarrow> goerr option \<Rightarrow> (('w, 'c) Provider, unit) op" where
  "route_all d app [] err = (case err of None \<Rightarrow> ret () | Some e \<Rightarrow> fail e)"
| "route_all d app (deployment # deployments) err =
     (case dep_AutoScalerSimple deployment of
        Some simple \<Rightarrow> and_next (attempt (ProvideSimpleAutoScaler d app deployment simple)) (route_all d app deployments)
      | None \<Rightarrow>
          (case dep_AutoScaler deployment of
             Some scaler \<Rightarrow> and_next (attempt (ProvideKedaAutoScaler d app deployment scaler)) (route_all d app deployments)
           | None \<Rightarrow> route_all d app deployments err))"

definition autoscaler_Provide :: "('w \<times> 'c) AutoDeps \<Rightarrow> ClowdApp \<Rightarrow> (('w, 'c) Provider, unit) op" where
  "autoscaler_Provide d app = route_all d app (app_Deployments (app_Spec app)) None"

datatype autoscaler_mode = Router | NoneAutoScaler

definition GetAutoScaler :: "ClowdEnvironment \<Rightarrow> autoscaler_mode" where
  "GetAutoScaler env = (let mode = pv_AutoScalerMode (env_Providers (env_Spec env)) in if mode = ''enabled'' \<or> mode = ''keda'' then Router else NoneAutoScaler)"

section \<open>What is scaled\<close>

lemma routed_triggers_nth:
  "routed_triggers c env ts = Some ts' \<Longrightarrow> length ts' = length ts \<and> (\<forall>i < length ts. routed_trigger c env (ts ! i) = Some (ts' ! i))"
  by (induction ts arbitrary: ts') (auto simp: nth_Cons split: option.splits nat.splits)

lemma routed_kafka:
  assumes "routed_trigger c env t = Some t'" "trg_Type t = ''kafka''"
  shows "\<exists>k m. cfg_Kafka c = Some k \<and> trg_Type t' = ''kafka'' \<and> trg_Metadata t' = Some m \<and> m ''bootstrapServers'' = Some (join '','' (map server_address (kc_Brokers k)))"
  using assms by (auto simp: routed_trigger_def getTriggerRoute_def Let_def split: option.splits list.splits if_splits)

text \<open>
  C34. The scaled object that is recorded for a deployment scales that deployment, between the counts the app gives or one and ten, and every Kafka trigger
  watches the brokers of the app's configuration.
\<close>

theorem scaled_object_recorded:
  assumes run: "ProvideKedaAutoScaler d app deployment scaler p = Some (p', Inr u)"
    and cache: "object_cache (asd_Scaled d) (\<lambda>s. NN (om_Name (sco_ObjectMeta s)) (om_Namespace (sco_ObjectMeta s))) recorded"
    and cached_name: "\<forall>nn s dd. res_Get (asd_Deployments d) (Some nn) s = Inr dd \<longrightarrow> NN (om_Name (kd_ObjectMeta dd)) (om_Namespace (kd_ObjectMeta dd)) = nn"
  shows "\<exists>s. prov_recorded recorded p' (app_GetDeploymentNamespacedName app deployment) = Some s
    \<and> fst (sco_Target s) = app_Name app @ ''-'' @ dep_Name deployment
    \<and> sco_MinReplicaCount s = Some (case asc_MinReplicaCount scaler of Some n \<Rightarrow> n | None \<Rightarrow> 1)
    \<and> sco_MaxReplicaCount s = Some (case asc_MaxReplicaCount scaler of Some n \<Rightarrow> n | None \<Rightarrow> 10)
    \<and> map trg_Type (sco_Triggers s) = map trg_Type (asc_Triggers scaler)
    \<and> (\<forall>t \<in> set (sco_Triggers s). if trg_Type t = ''kafka''
         then \<exists>c k m. prov_Config p = Some c \<and> cfg_Kafka c = Some k \<and> trg_Metadata t = Some m
              \<and> m ''bootstrapServers'' = Some (join '','' (map server_address (kc_Brokers k)))
         else True)"
proof -
  let ?nn = "app_GetDeploymentNamespacedName app deployment"
  obtain p1 s0 dd c s ca where p1: "cache_Create (asd_Scaled d) ?nn p = Some (p1, Inr s0)"
    and dd: "res_Get (asd_Deployments d) (Some ?nn) (prov_World p1, ca) = Inr dd"
    and c: "prov_Config p1 = Some c" and s: "initAutoScaler d (prov_Env p1) app dd s0 ?nn scaler c = Some s"
    and up: "cache_Update (asd_Scaled d) s p1 = Some (p', Inr u)"
    using run unfolding ProvideKedaAutoScaler_def makeAutoScalers_def
    by (auto simp: op_oks Let_def cache_Get_ok the_config_ok intro: that)
  have frame: "prov_Config p1 = prov_Config p"
    using p1 by (auto simp: cache_Create_def cached_def split: option.splits prod.splits)
  obtain ts where ts: "routed_triggers c (prov_Env p1) (asc_Triggers scaler) = Some ts" and triggers: "sco_Triggers s = ts"
    and target: "fst (sco_Target s) = om_Name (kd_ObjectMeta dd)"
    and counts: "sco_MinReplicaCount s = count_or 1 (asc_MinReplicaCount scaler)" "sco_MaxReplicaCount s = count_or 10 (asc_MaxReplicaCount scaler)"
    and name: "NN (om_Name (sco_ObjectMeta s)) (om_Namespace (sco_ObjectMeta s)) = ?nn"
    using s by (auto simp: initAutoScaler_def Let_def om_Labels_opt_def om_Name_opt_def app_SetObjectMeta_def app_GetLabels_def app_GetDeploymentNamespacedName_def
        split: prod.splits)
  have types: "map trg_Type ts = map trg_Type (asc_Triggers scaler)"
    and kafka: "\<forall>t \<in> set ts. trg_Type t = ''kafka'' \<longrightarrow> (\<exists>k m. cfg_Kafka c = Some k \<and> trg_Metadata t = Some m
        \<and> m ''bootstrapServers'' = Some (join '','' (map server_address (kc_Brokers k))))"
  proof -
    note nth = routed_triggers_nth [OF ts]
    have same: "trg_Type t' = trg_Type t" if "routed_trigger c (prov_Env p1) t = Some t'" for t t'
      using that by (auto simp: routed_trigger_def split: option.splits if_splits)
    show "map trg_Type ts = map trg_Type (asc_Triggers scaler)" using nth same by (auto intro!: nth_equalityI)
    show "\<forall>t \<in> set ts. trg_Type t = ''kafka'' \<longrightarrow> (\<exists>k m. cfg_Kafka c = Some k \<and> trg_Metadata t = Some m
        \<and> m ''bootstrapServers'' = Some (join '','' (map server_address (kc_Brokers k))))"
      using nth same routed_kafka by (fastforce simp: in_set_conv_nth)
  qed
  have rec: "prov_recorded recorded p' ?nn = Some s" using update_records [OF cache up] name by simp
  have "fst (sco_Target s) = app_Name app @ ''-'' @ dep_Name deployment"
    using target dd cached_name by (fastforce simp: app_GetDeploymentNamespacedName_def)
  with rec counts types kafka triggers c frame show ?thesis
    by (intro exI [of _ s]) (auto simp: count_or_def split: option.splits)
qed

text \<open>Whose error the provider returns: the one of the last deployment with an autoscaler; an earlier one is lost.\<close>

lemma and_next_attempt:
  "and_next (attempt m) f p = Some (p', r) \<longleftrightarrow>
     (\<exists>p1 x. m p = Some (p1, x) \<and> f (case x of Inl e \<Rightarrow> Some e | Inr u \<Rightarrow> None) p1 = Some (p', r))"
  by (auto simp: and_next_def attempt_def split: option.splits sum.splits prod.splits)

lemma route_all_last:
  assumes "route_all d app (deps @ [dep]) err p = Some (p', r)" and "HasAutoScaler dep"
  shows "\<exists>p1. (case dep_AutoScalerSimple dep of
      Some simple \<Rightarrow> ProvideSimpleAutoScaler d app dep simple p1
    | None \<Rightarrow> ProvideKedaAutoScaler d app dep (the (dep_AutoScaler dep)) p1) = Some (p', r)"
  using assms(1)
proof (induction deps arbitrary: err p)
  case Nil
  have "p1 = p' \<and> x = r" if "(case case x of Inl e \<Rightarrow> Some e | Inr u \<Rightarrow> None of None \<Rightarrow> ret () | Some e \<Rightarrow> fail e) p1 = Some (p', r)"
    for p1 and x :: "goerr + unit" using that by (cases x) auto
  with Nil assms(2) show ?case
    by (cases "dep_AutoScalerSimple dep"; cases "dep_AutoScaler dep") (auto simp: HasAutoScaler_def and_next_attempt)
next
  case (Cons x deps)
  from Cons.prems have "\<exists>err p1. route_all d app (deps @ [dep]) err p1 = Some (p', r)"
    by (cases "dep_AutoScalerSimple x"; cases "dep_AutoScaler x") (auto simp: and_next_attempt)
  with Cons.IH show ?case by blast
qed

definition sample_auto :: "(unit \<times> (NamespacedName \<rightharpoonup> KScaledObject)) AutoDeps" where
  "sample_auto = \<lparr>asd_MustParse = Some, asd_TypeMeta = (\<lambda>dd. (''Deployment'', ''apps/v1'')), asd_CreateHPA = (\<lambda>nn hpa s. (s, None)),
     asd_Scaled = map_cache (\<lambda>s. NN (om_Name (sco_ObjectMeta s)) (om_Namespace (sco_ObjectMeta s))) KScaledObject_zero,
     asd_Deployments = \<lparr>res_Create = (\<lambda>nn s. (s, Inr KDeployment_zero)), res_Update = (\<lambda>k s. (s, None)),
       res_Get = (\<lambda>nn s. case nn of None \<Rightarrow> Inl (PlainErr ''not found'')
         | Some n \<Rightarrow> Inr (KDeployment_zero\<lparr>kd_ObjectMeta := ObjectMeta_zero\<lparr>om_Name := nn_Name n, om_Namespace := nn_Namespace n\<rparr>\<rparr>)),
       res_List = (\<lambda>s. Inr [])\<rparr>, asd_Stack = ''''\<rparr>"

definition sample_scaler :: AutoScaler where
  "sample_scaler = \<lparr>asc_PollingInterval = None, asc_CooldownPeriod = None, asc_MaxReplicaCount = Some 5, asc_MinReplicaCount = None, asc_Advanced = None,
     asc_Triggers = [\<lparr>trg_Type = ''kafka'', trg_Metadata = Some Map.empty, trg_Rest = ''''\<rparr>], asc_Fallback = None, asc_ExternalHPA = False\<rparr>"

definition sample_auto_provider :: "(unit, NamespacedName \<rightharpoonup> KScaledObject) Provider" where
  "sample_auto_provider = \<lparr>prov_World = (), prov_Env = ClowdEnvironment_zero, prov_Cache = Some Map.empty,
     prov_Config = Some (AppConfig_zero\<lparr>cfg_Kafka := Some \<lparr>kc_Brokers = [\<lparr>br_Authtype = None, br_Cacert = None, br_Hostname = ''kafka'', br_Port = None,
       br_Sasl = None, br_SecurityProtocol = None\<rparr>], kc_Topics = []\<rparr>\<rparr>), prov_HashCache = []\<rparr>"

theorem scaled_object_recorded_witness:
  "\<exists>p' s. ProvideKedaAutoScaler sample_auto ClowdApp_zero Deployment_zero sample_scaler sample_auto_provider = Some (p', Inr ())
     \<and> the (prov_Cache p') (NN ''-'' '''') = Some s \<and> fst (sco_Target s) = ''-'' \<and> sco_MinReplicaCount s = Some 1 \<and> sco_MaxReplicaCount s = Some 5
     \<and> map trg_Type (sco_Triggers s) = [''kafka'']"
proof -
  have "case ProvideKedaAutoScaler sample_auto ClowdApp_zero Deployment_zero sample_scaler sample_auto_provider of Some (p', Inr x) \<Rightarrow> True | _ \<Rightarrow> False"
    by code_simp
  then obtain p' where run: "ProvideKedaAutoScaler sample_auto ClowdApp_zero Deployment_zero sample_scaler sample_auto_provider = Some (p', Inr ())"
    unfolding some_ok by auto
  have cache: "object_cache (asd_Scaled sample_auto) (\<lambda>s. NN (om_Name (sco_ObjectMeta s)) (om_Namespace (sco_ObjectMeta s))) snd"
    by (simp add: sample_auto_def map_cache_laws)
  have names: "\<forall>nn s dd. res_Get (asd_Deployments sample_auto) (Some nn) s = Inr dd \<longrightarrow> NN (om_Name (kd_ObjectMeta dd)) (om_Namespace (kd_ObjectMeta dd)) = nn"
    by (auto simp: sample_auto_def)
  have nn: "app_GetDeploymentNamespacedName ClowdApp_zero Deployment_zero = NN ''-'' ''''" by code_simp
  have zero: "app_Name ClowdApp_zero = ''''" "dep_Name Deployment_zero = ''''" by code_simp+
  show ?thesis
    using run scaled_object_recorded [OF run cache names] unfolding nn zero by (auto simp: sample_scaler_def)
qed

end
