(* ===== verification/Components.thy ===== *)
theory Components
  imports Database Sidecars
begin

text \<open>
  The components a provider deploys for itself: a deployment with its service, and sometimes a volume claim. They all go through
  \<open>CachedMakeComponent\<close> (\<open>providers/providers.go\<close>), which creates the objects in the cache, hands them to a function that fills them, and writes them back.

  The labeler, \<open>MakeService\<close>, \<open>MakePVC\<close> and \<open>UpdateAnnotations\<close> of \<open>rhc-osdk-utils\<close> are parameters, as are the scheme, the resource cache and the order in which Go
  visits the map of objects.

  The locale \<open>component_maker\<close> is the contract of the functions that fill the objects: the service selects the pods of the deployment and
  every port of it is a port of those pods. Every provider with a component interprets it.
\<close>

section \<open>Objects and their makers\<close>

datatype comp_obj = DeploymentObj KDeployment | ServiceObj KService | PVCObj KPVC

text \<open>The functions of \<open>rhc-osdk-utils\<close>, the parser of quantities, and the loaded configuration.\<close>

record ObjMakers =
  mk_Labeler :: "NamespacedName \<Rightarrow> smap \<Rightarrow> ClowdObject \<Rightarrow> ObjectMeta \<Rightarrow> ObjectMeta"
  mk_Service :: "KService \<Rightarrow> NamespacedName \<Rightarrow> smap \<Rightarrow> ServicePort list \<Rightarrow> ClowdObject \<Rightarrow> bool \<Rightarrow> KService"
  mk_PVC :: "KPVC \<Rightarrow> NamespacedName \<Rightarrow> smap \<Rightarrow> string \<Rightarrow> ClowdObject \<Rightarrow> KPVC"
  mk_Annotate :: "smap \<Rightarrow> smap \<Rightarrow> smap"
  mk_MustParse :: "string \<Rightarrow> string option"
  mk_Loaded :: ClowderConfig

text \<open>What the cache and the scheme offer for the identifiers of a provider.\<close>

record ('s, 'i) CompDeps =
  cmp_Kinds :: "'i \<Rightarrow> goerr + string list \<times> bool"
  cmp_New :: "string \<Rightarrow> goerr + comp_obj"
  cmp_Create :: "'i \<Rightarrow> NamespacedName \<Rightarrow> comp_obj \<Rightarrow> 's \<Rightarrow> 's \<times> (goerr + comp_obj)"
  cmp_Update :: "'i \<Rightarrow> comp_obj \<Rightarrow> 's \<Rightarrow> 's \<times> goerr option"
  cmp_Iter :: "('i \<times> comp_obj) list \<Rightarrow> ('i \<times> comp_obj) list"
  cmp_Stack :: string

type_synonym 'i obj_map = "('i \<times> comp_obj) list"
type_synonym 'i maker = "ClowdEnvironment \<Rightarrow> ClowdObject \<Rightarrow> 'i obj_map \<Rightarrow> bool \<Rightarrow> bool \<Rightarrow> (goerr + 'i obj_map) option"

fun meta_of :: "comp_obj \<Rightarrow> ObjectMeta" where
  "meta_of (DeploymentObj d) = kd_ObjectMeta d"
| "meta_of (ServiceObj s) = svc_ObjectMeta s"
| "meta_of (PVCObj c) = pvc_ObjectMeta c"

definition comp_NN :: "comp_obj \<Rightarrow> NamespacedName" where
  "comp_NN k = NN (om_Name (meta_of k)) (om_Namespace (meta_of k))"

text \<open>The type assertions \<open>objMap[x].(*apps.Deployment)\<close>; \<open>None\<close> is the panic of one that does not hold.\<close>

definition the_deployment :: "'i obj_map \<Rightarrow> 'i \<Rightarrow> KDeployment option" where
  "the_deployment m i = (case map_of m i of Some (DeploymentObj d) \<Rightarrow> Some d | _ \<Rightarrow> None)"

definition the_service :: "'i obj_map \<Rightarrow> 'i \<Rightarrow> KService option" where
  "the_service m i = (case map_of m i of Some (ServiceObj s) \<Rightarrow> Some s | _ \<Rightarrow> None)"

definition the_pvc :: "'i obj_map \<Rightarrow> 'i \<Rightarrow> KPVC option" where
  "the_pvc m i = (case map_of m i of Some (PVCObj c) \<Rightarrow> Some c | _ \<Rightarrow> None)"

text \<open>The objects are pointers, so filling one changes the map.\<close>

definition put_obj :: "'i \<Rightarrow> comp_obj \<Rightarrow> 'i obj_map \<Rightarrow> 'i obj_map" where
  "put_obj i k m = map (\<lambda>(j, x). (j, if j = i then k else x)) m"

text \<open>An ingress: its class, the hosts of its TLS entries, and for each host the paths with the service and the named port behind them.\<close>

record IngressPath =
  ip_Path :: string
  ip_PathType :: string
  ip_ServiceName :: string
  ip_ServicePort :: string

record IngressRule =
  ir_Host :: string
  ir_Paths :: "IngressPath list"

record KIngress =
  ing_ObjectMeta :: ObjectMeta
  ing_TLS :: "string list list"
  ing_IngressClassName :: "string option"
  ing_Rules :: "IngressRule list"

definition prefix_path :: "string \<Rightarrow> string \<Rightarrow> string \<Rightarrow> IngressPath" where
  "prefix_path path service port = \<lparr>ip_Path = path, ip_PathType = ''Prefix'', ip_ServiceName = service, ip_ServicePort = port\<rparr>"

definition ingress_class :: "ClowdEnvironment \<Rightarrow> string" where
  "ingress_class env = (if web_IngressClass (env_Web env) = [] then ''nginx'' else web_IngressClass (env_Web env))"

definition env_ingress :: "ObjMakers \<Rightarrow> NamespacedName \<Rightarrow> ClowdEnvironment \<Rightarrow> string list list \<Rightarrow> IngressRule list \<Rightarrow> KIngress \<Rightarrow> KIngress" where
  "env_ingress M nn env tls rules ing = \<lparr>ing_ObjectMeta = mk_Labeler M nn (env_GetLabels env) (EnvObject env) (ing_ObjectMeta ing),
     ing_TLS = tls, ing_IngressClassName = Some (ingress_class env), ing_Rules = rules\<rparr>"

text \<open>What an ingress routes: for each host and path, with how the path is matched, the name of the service and of the port behind it.\<close>

definition ingress_routes :: "KIngress \<Rightarrow> (string \<times> string \<times> string \<times> string \<times> string) list" where
  "ingress_routes ing = concat (map (\<lambda>r. map (\<lambda>p. (ir_Host r, ip_Path p, ip_PathType p, ip_ServiceName p, ip_ServicePort p)) (ir_Paths r)) (ing_Rules ing))"

section \<open>Making a component\<close>

definition comp_create :: "('s, 'i) CompDeps \<Rightarrow> NamespacedName \<Rightarrow> 'i \<Rightarrow> 's \<Rightarrow> 's \<times> (goerr + comp_obj)" where
  "comp_create D nn i = createResource (cmp_Kinds D) (cmp_New D) (cmp_Create D) i nn"

definition comp_update :: "('s, 'i) CompDeps \<Rightarrow> 'i \<Rightarrow> comp_obj \<Rightarrow> 's \<Rightarrow> 's \<times> goerr option" where
  "comp_update D = updateResource (cmp_Kinds D) (\<lambda>k. k) comp_NN (cmp_Update D)"

definition update_all :: "('s, 'i) CompDeps \<Rightarrow> string \<Rightarrow> 'i obj_map \<Rightarrow> 's \<Rightarrow> 's \<times> (goerr + unit)" where
  "update_all D suffix made s =
     (case for_err (\<lambda>(i, k). comp_update D i k) (cmp_Iter D made) s of
        (s', None) \<Rightarrow> (s', Inr ())
      | (s', Some err) \<Rightarrow> (s', Inl (Wrap (cmp_Stack D) (''make-'' @ suffix @ '': get'') err)))"

definition make_component ::
  "('w \<times> 'c, 'i) CompDeps \<Rightarrow> 'i list \<Rightarrow> (('w, 'c) Provider \<Rightarrow> ClowdObject) \<Rightarrow> string \<Rightarrow> 'i maker \<Rightarrow> bool \<Rightarrow> (('w, 'c) Provider, unit) op" where
  "make_component D objList obj suffix fn usePVC =
     and_next (reads prov_Env) (\<lambda>env.
     and_next (reads obj) (\<lambda>o'.
     and_next (cached (create_all (comp_create D (GetNamespacedName o' suffix)) (cmp_Stack D) suffix objList)) (\<lambda>objs.
     and_next (or_panic (fn env o' (object_map objs) usePVC (env_IsNodePort env))) (\<lambda>r.
     and_next (map_err (WrapErr ''could not make component: '') (result r)) (\<lambda>made.
       cached (update_all D suffix made))))))"

text \<open>A maker that does not panic makes the operation the one of the provider framework.\<close>

lemma make_component_framework:
  assumes "prov_Cache p = Some c"
  shows "make_component D objList (\<lambda>_. o') suffix (\<lambda>env o' m u n. Some (fn env o' m u n)) usePVC p =
    (case CachedMakeComponent (\<lambda>i nn. comp_create D nn i) (comp_update D) (cmp_Iter D) (cmp_Stack D) (prov_Env p) objList o' suffix fn usePVC (prov_World p, c) of
       ((w', c'), None) \<Rightarrow> Some (p\<lparr>prov_World := w', prov_Cache := Some c'\<rparr>, Inr ())
     | ((w', c'), Some e) \<Rightarrow> Some (p\<lparr>prov_World := w', prov_Cache := Some c'\<rparr>, Inl e))"
  using assms
  by (auto simp: make_component_def CachedMakeComponent_def cached_def and_next_def or_panic_def map_err_def update_all_def result_def Let_def
      split: prod.splits sum.splits option.splits)

section \<open>The pods and the service\<close>

text \<open>The ports a pod of a template listens on; the pod mutator adds a container with port 8080 to a pod that asks for it.\<close>

definition pod_ports :: "PodTemplate \<Rightarrow> int list" where
  "pod_ports t = concat (map (\<lambda>c. map cp_ContainerPort (ct_Ports c)) (pt_Containers t))
     @ (if pt_Annotations t ''clowder/authsidecar-enabled'' = Some ''true'' then [8080] else [])"

text \<open>A service port without a target is forwarded to the same port.\<close>

definition target_port :: "ServicePort \<Rightarrow> int" where
  "target_port sp = (if sp_TargetPort sp = 0 then sp_Port sp else sp_TargetPort sp)"

definition served :: "KDeployment \<Rightarrow> KService \<Rightarrow> bool" where
  "served dd svc = (svc_Selector svc \<subseteq>\<^sub>m pt_Labels (kd_Template dd) \<and> kd_Selector dd \<subseteq>\<^sub>m pt_Labels (kd_Template dd)
     \<and> target_port ` set (svc_Ports svc) \<subseteq> set (pod_ports (kd_Template dd)))"

text \<open>What the library functions promise: the object gets the name, the service the selector and the ports, and annotations are added.\<close>

definition makers_laws :: "ObjMakers \<Rightarrow> bool" where
  "makers_laws M =
     ((\<forall>nn ls o' m. om_Name (mk_Labeler M nn ls o' m) = nn_Name nn \<and> om_Namespace (mk_Labeler M nn ls o' m) = nn_Namespace nn)
      \<and> (\<forall>s nn ls ps o' np. let s' = mk_Service M s nn ls ps o' np in
           om_Name (svc_ObjectMeta s') = nn_Name nn \<and> om_Namespace (svc_ObjectMeta s') = nn_Namespace nn \<and> svc_Selector s' = ls \<and> svc_Ports s' = ps)
      \<and> (\<forall>m extra k. mk_Annotate M m extra k = (case extra k of Some v \<Rightarrow> Some v | None \<Rightarrow> m k)))"

text \<open>The lines every maker starts with: the labels, one replica, the selector.\<close>

definition component_labels :: "ClowdObject \<Rightarrow> NamespacedName \<Rightarrow> smap" where
  "component_labels o' nn = (co_GetLabels o')(''env-app'' \<mapsto> nn_Name nn)"

definition component_base :: "ObjMakers \<Rightarrow> NamespacedName \<Rightarrow> smap \<Rightarrow> ClowdObject \<Rightarrow> KDeployment \<Rightarrow> KDeployment" where
  "component_base M nn labels o' dd = dd\<lparr>kd_ObjectMeta := mk_Labeler M nn labels o' (kd_ObjectMeta dd), kd_Replicas := Some 1, kd_Selector := labels,
     kd_Template := (kd_Template dd)\<lparr>pt_Labels := labels\<rparr>\<rparr>"

definition component_probe :: "ProbeHandler \<Rightarrow> int \<Rightarrow> int \<Rightarrow> int \<Rightarrow> Probe" where
  "component_probe h delay tmo period = \<lparr>pr_Handler = h, pr_InitialDelaySeconds = delay, pr_TimeoutSeconds = tmo, pr_PeriodSeconds = period,
     pr_SuccessThreshold = 1, pr_FailureThreshold = 3\<rparr>"

definition tcp_port :: "string \<Rightarrow> int \<Rightarrow> ContainerPort" where
  "tcp_port n port = \<lparr>cp_Name = n, cp_ContainerPort = port, cp_Protocol = ''TCP''\<rparr>"

definition service_port :: "string \<Rightarrow> int \<Rightarrow> ServicePort" where
  "service_port n port = \<lparr>sp_Name = n, sp_Port = port, sp_Protocol = ''TCP'', sp_AppProtocol = None, sp_TargetPort = port\<rparr>"

section \<open>What is recorded\<close>

text \<open>What the cache promises for the identifiers of a provider: creating records nothing, and an object that is updated is recorded under its identifier and name.\<close>

definition component_cache :: "('s, 'i) CompDeps \<Rightarrow> ('s \<Rightarrow> 'i \<Rightarrow> NamespacedName \<rightharpoonup> comp_obj) \<Rightarrow> bool" where
  "component_cache D recorded =
     (go_iteration (cmp_Iter D)
      \<and> (\<forall>i nn k s. recorded (fst (cmp_Create D i nn k s)) = recorded s)
      \<and> (\<forall>i k s s'. cmp_Update D i k s = (s', None) \<longrightarrow> recorded s' = (recorded s)(i := (recorded s i)(comp_NN k \<mapsto> k))))"

lemma comp_create_records: "component_cache D recorded \<Longrightarrow> recorded (fst (comp_create D nn i s)) = recorded s"
  unfolding component_cache_def comp_create_def createResource_def
  by (auto split: sum.splits list.splits prod.splits) (metis fst_conv)+

lemma create_all_records: "component_cache D recorded \<Longrightarrow> recorded (fst (create_all (comp_create D nn) st suffix is s)) = recorded s"
proof (induction "is" arbitrary: s)
  case (Cons i "is")
  with comp_create_records [OF Cons.prems, of nn i s] show ?case
    by (auto split: prod.splits sum.splits) (metis fst_conv)+
qed simp

lemma comp_update_records:
  assumes "component_cache D recorded" and "comp_update D i k s = (s', None)"
  shows "recorded s' = (recorded s)(i := (recorded s i)(comp_NN k \<mapsto> k))"
proof -
  from assms(2) have "cmp_Update D i k s = (s', None)"
    by (auto simp: comp_update_def updateResource_def split: prod.splits sum.splits list.splits option.splits if_splits)
  with assms(1) show ?thesis unfolding component_cache_def by blast
qed

lemma updates_record:
  assumes "component_cache D recorded" and "distinct (map fst xs)" and "for_err (\<lambda>(i, k). comp_update D i k) xs s = (s', None)"
  shows "(\<forall>(i, k) \<in> set xs. recorded s' i (comp_NN k) = Some k) \<and> (\<forall>i. i \<notin> fst ` set xs \<longrightarrow> recorded s' i = recorded s i)"
  using assms(2,3)
proof (induction xs arbitrary: s)
  case (Cons x xs)
  obtain i k where x: "x = (i, k)" by force
  with Cons.prems(2) obtain s1 where s1: "comp_update D i k s = (s1, None)" and rest: "for_err (\<lambda>(i, k). comp_update D i k) xs s1 = (s', None)"
    by (auto split: prod.splits option.splits)
  have new: "i \<notin> fst ` set xs" using Cons.prems(1) x by simp
  have "\<forall>(i, k) \<in> set xs. recorded s' i (comp_NN k) = Some k" and other: "\<forall>j. j \<notin> fst ` set xs \<longrightarrow> recorded s' j = recorded s1 j"
    using Cons.IH [of s1] Cons.prems(1) rest by auto
  moreover have "recorded s' i (comp_NN k) = Some k"
    using other new comp_update_records [OF assms(1) s1] by simp
  ultimately show ?case using x comp_update_records [OF assms(1) s1] by auto
qed simp

lemma distinct_object_map: "distinct (map fst (object_map xs))"
proof -
  have "distinct (map fst (foldl (\<lambda>seen p. if fst p \<in> fst ` set seen then seen else p # seen) acc ys))" if "distinct (map fst acc)" for acc ys :: "('x \<times> 'y) list"
    using that by (induction ys arbitrary: acc) auto
  from this [of "[]" "rev xs"] show ?thesis unfolding object_map_def by (simp flip: rev_map)
qed

lemma object_map_subset: "set (object_map xs) \<subseteq> set xs"
proof -
  have "set (foldl (\<lambda>seen p. if fst p \<in> fst ` set seen then seen else p # seen) acc ys) \<subseteq> set acc \<union> set ys" for acc ys :: "('x \<times> 'y) list"
    by (induction ys arbitrary: acc) (auto split: if_splits, fastforce+)
  from this [of "[]" "rev xs"] show ?thesis unfolding object_map_def by simp
qed

lemma make_component_ok:
  assumes "make_component D objList obj suffix fn usePVC p = Some (p', Inr u)"
  obtains objs made w' c' where "fn (prov_Env p) (obj p) objs usePVC (env_IsNodePort (prov_Env p)) = Some (Inr made)" and "distinct (map fst objs)"
    and "fst ` set objs \<subseteq> set objList" and "p' = p\<lparr>prov_World := w', prov_Cache := Some c'\<rparr>"
    and "\<And>recorded. component_cache D recorded \<Longrightarrow> distinct (map fst made) \<Longrightarrow>
          (\<forall>(i, k) \<in> set made. recorded (w', c') i (comp_NN k) = Some k)
        \<and> (\<forall>i. i \<notin> fst ` set made \<longrightarrow> recorded (w', c') i = prov_recorded recorded p i)"
proof -
  let ?mk = "create_all (comp_create D (GetNamespacedName (obj p) suffix)) (cmp_Stack D) suffix objList"
  from assms obtain c objs0 made where c: "prov_Cache p = Some c"
    and fn: "fn (prov_Env p) (obj p) (object_map objs0) usePVC (env_IsNodePort (prov_Env p)) = Some (Inr made)"
    and rest: "\<exists>w1 c1 w' c'. ?mk (prov_World p, c) = ((w1, c1), Inr objs0) \<and> update_all D suffix made (w1, c1) = ((w', c'), Inr ())
          \<and> p' = p\<lparr>prov_World := w', prov_Cache := Some c'\<rparr>"
    unfolding make_component_def cached_def or_panic_def map_err_def result_def and_next_def
    by (auto split: option.splits prod.splits sum.splits)
  then obtain w1 c1 w' c' where cr: "?mk (prov_World p, c) = ((w1, c1), Inr objs0)" and up: "update_all D suffix made (w1, c1) = ((w', c'), Inr ())"
    and p': "p' = p\<lparr>prov_World := w', prov_Cache := Some c'\<rparr>" by blast
  have "(\<forall>(i, k) \<in> set made. recorded (w', c') i (comp_NN k) = Some k) \<and> (\<forall>i. i \<notin> fst ` set made \<longrightarrow> recorded (w', c') i = prov_recorded recorded p i)"
    if laws: "component_cache D recorded" and dis: "distinct (map fst made)" for recorded
  proof -
    have iter: "go_iteration (cmp_Iter D)" using laws by (simp add: component_cache_def)
    have "for_err (\<lambda>(i, k). comp_update D i k) (cmp_Iter D made) (w1, c1) = ((w', c'), None)"
      using up by (auto simp: update_all_def split: prod.splits option.splits)
    moreover have "distinct (map fst (cmp_Iter D made))"
      using dis iter unfolding go_iteration_def by (metis mset_eq_imp_distinct_iff mset_map)
    ultimately have "(\<forall>(i, k) \<in> set (cmp_Iter D made). recorded (w', c') i (comp_NN k) = Some k)
        \<and> (\<forall>i. i \<notin> fst ` set (cmp_Iter D made) \<longrightarrow> recorded (w', c') i = recorded (w1, c1) i)"
      by (intro updates_record [OF laws])
    moreover have "recorded (w1, c1) = recorded (prov_World p, c)"
      using create_all_records [OF laws, of "GetNamespacedName (obj p) suffix" "cmp_Stack D" suffix objList "(prov_World p, c)"] cr by simp
    ultimately show ?thesis using go_iteration_set [OF iter] c by auto
  qed
  moreover have "fst ` set (object_map objs0) \<subseteq> set objList"
    using create_all_idents [OF cr] object_map_subset [of objs0] by (metis (no_types, lifting) image_mono list.set_map)
  ultimately show thesis using that [OF fn distinct_object_map _ p'] by blast
qed

lemma make_component_frame: "make_component D objList obj suffix fn usePVC p = Some (p', Inr u) \<Longrightarrow>
    prov_Env p' = prov_Env p \<and> prov_Config p' = prov_Config p \<and> prov_HashCache p' = prov_HashCache p \<and> prov_Cache p' \<noteq> None"
  by (erule make_component_ok) simp

section \<open>The contract of the makers\<close>

locale component_maker =
  fixes mk :: "ObjMakers \<Rightarrow> 'i maker" and dep :: 'i and svc :: 'i and suffix :: string and ports :: "ServicePort list"
  assumes keys: "mk M env o' m usePVC nodePort = Some (Inr made) \<Longrightarrow> map fst made = map fst m"
    and made: "makers_laws M \<Longrightarrow> mk M env o' m usePVC nodePort = Some (Inr made) \<Longrightarrow>
      \<exists>dd s. the_deployment made dep = Some dd \<and> the_service made svc = Some s \<and> served dd s \<and> svc_Ports s = ports
        \<and> comp_NN (DeploymentObj dd) = GetNamespacedName o' suffix \<and> comp_NN (ServiceObj s) = GetNamespacedName o' suffix"
begin

text \<open>After a successful run the deployment and the service are recorded under the name of the component, and they fit.\<close>

lemma component_ready:
  assumes "makers_laws M" and "component_cache D recorded" and "make_component D objList obj suffix (mk M) usePVC p = Some (p', Inr u)"
  shows "\<exists>dd s. prov_recorded recorded p' dep (GetNamespacedName (obj p) suffix) = Some (DeploymentObj dd)
    \<and> prov_recorded recorded p' svc (GetNamespacedName (obj p) suffix) = Some (ServiceObj s) \<and> served dd s \<and> svc_Ports s = ports
    \<and> comp_NN (ServiceObj s) = GetNamespacedName (obj p) suffix"
proof -
  from assms(3) obtain objs made w' c' where fn: "mk M (prov_Env p) (obj p) objs usePVC (env_IsNodePort (prov_Env p)) = Some (Inr made)"
    and d: "distinct (map fst objs)" and p': "p' = p\<lparr>prov_World := w', prov_Cache := Some c'\<rparr>"
    and rec: "component_cache D recorded \<Longrightarrow> distinct (map fst made) \<Longrightarrow> \<forall>(i, k) \<in> set made. recorded (w', c') i (comp_NN k) = Some k"
    by (rule make_component_ok) blast
  obtain dd s where ds: "the_deployment made dep = Some dd" "the_service made svc = Some s" "served dd s" "svc_Ports s = ports"
    "comp_NN (DeploymentObj dd) = GetNamespacedName (obj p) suffix" "comp_NN (ServiceObj s) = GetNamespacedName (obj p) suffix"
    using made [OF assms(1) fn] by blast
  then have "(dep, DeploymentObj dd) \<in> set made" "(svc, ServiceObj s) \<in> set made"
    by (auto simp: the_deployment_def the_service_def split: option.splits comp_obj.splits dest!: map_of_SomeD)
  moreover have "\<forall>(i, k) \<in> set made. recorded (w', c') i (comp_NN k) = Some k"
    using rec [OF assms(2)] d keys [OF fn] by simp
  ultimately show ?thesis using ds p' by (auto intro!: exI [of _ dd] exI [of _ s])
qed

text \<open>What holds of every deployment the maker makes holds of the recorded one.\<close>

lemma component_deployment:
  assumes "makers_laws M" and "component_cache D recorded" and "make_component D objList obj suffix (mk M) usePVC p = Some (p', Inr u)"
    and "\<And>env m u n made dd. mk M env (obj p) m u n = Some (Inr made) \<Longrightarrow> the_deployment made dep = Some dd \<Longrightarrow> Q dd"
  shows "\<exists>dd. prov_recorded recorded p' dep (GetNamespacedName (obj p) suffix) = Some (DeploymentObj dd) \<and> comp_NN (DeploymentObj dd) = GetNamespacedName (obj p) suffix \<and> Q dd"
proof -
  from assms(3) obtain objs made w' c' where fn: "mk M (prov_Env p) (obj p) objs usePVC (env_IsNodePort (prov_Env p)) = Some (Inr made)"
    and d: "distinct (map fst objs)" and p': "p' = p\<lparr>prov_World := w', prov_Cache := Some c'\<rparr>"
    and rec: "component_cache D recorded \<Longrightarrow> distinct (map fst made) \<Longrightarrow> \<forall>(i, k) \<in> set made. recorded (w', c') i (comp_NN k) = Some k"
    by (rule make_component_ok) blast
  obtain dd where dd: "the_deployment made dep = Some dd" "comp_NN (DeploymentObj dd) = GetNamespacedName (obj p) suffix" using made [OF assms(1) fn] by blast
  then have "(dep, DeploymentObj dd) \<in> set made" by (auto simp: the_deployment_def split: option.splits comp_obj.splits dest!: map_of_SomeD)
  with rec [OF assms(2)] d keys [OF fn] have "recorded (w', c') dep (comp_NN (DeploymentObj dd)) = Some (DeploymentObj dd)" by fastforce
  then show ?thesis using p' dd assms(4) [OF fn dd(1)] by auto
qed

text \<open>Other identifiers keep what was recorded for them.\<close>

lemma component_others:
  assumes "component_cache D recorded" and "make_component D objList obj suffix (mk M) usePVC p = Some (p', Inr u)" and "i \<notin> set objList"
  shows "prov_recorded recorded p' i = prov_recorded recorded p i"
proof -
  from assms(2) obtain objs made w' c' where fn: "mk M (prov_Env p) (obj p) objs usePVC (env_IsNodePort (prov_Env p)) = Some (Inr made)"
    and d: "distinct (map fst objs)" "fst ` set objs \<subseteq> set objList" and p': "p' = p\<lparr>prov_World := w', prov_Cache := Some c'\<rparr>"
    and rec: "component_cache D recorded \<Longrightarrow> distinct (map fst made) \<Longrightarrow> \<forall>i. i \<notin> fst ` set made \<longrightarrow> recorded (w', c') i = prov_recorded recorded p i"
    by (rule make_component_ok) blast
  have "fst ` set made = fst ` set objs" using keys [OF fn] by (metis list.set_map)
  with rec [OF assms(1)] d keys [OF fn] p' assms(3) show ?thesis by auto
qed

end

text \<open>The rule by which the makers meet the contract: the objects are filled in place.\<close>

lemma put_obj_keys [simp]: "map fst (put_obj i k m) = map fst m"
  by (auto simp: put_obj_def comp_def case_prod_beta)

lemma map_of_put_obj [simp]: "map_of (put_obj i k m) j = (if j = i then (if i \<in> fst ` set m then Some k else None) else map_of m j)"
  by (induction m) (force simp: put_obj_def)+

lemma the_deployment_key: "the_deployment m i = Some d \<Longrightarrow> i \<in> fst ` set m"
  by (auto simp: the_deployment_def split: option.splits dest!: map_of_SomeD intro: rev_image_eqI)

lemma the_service_key: "the_service m i = Some d \<Longrightarrow> i \<in> fst ` set m"
  by (auto simp: the_service_def split: option.splits dest!: map_of_SomeD intro: rev_image_eqI)

lemma service_made:
  assumes "makers_laws M"
  shows "svc_Selector (mk_Service M s nn ls ps o' np) = ls" "svc_Ports (mk_Service M s nn ls ps o' np) = ps"
    "comp_NN (ServiceObj (mk_Service M s nn ls ps o' np)) = nn"
  using assms by (auto simp: makers_laws_def Let_def comp_NN_def)

lemma labelled_meta:
  assumes "makers_laws M"
  shows "om_Name (mk_Labeler M nn ls o' m) = nn_Name nn" "om_Namespace (mk_Labeler M nn ls o' m) = nn_Namespace nn"
  using assms by (simp_all add: makers_laws_def)

lemma served_component:
  assumes "makers_laws M" and "labels = pt_Labels t"
    and "target_port ` set ports \<subseteq> set (pod_ports t)"
  shows "served ((component_base M nn labels o' dd)\<lparr>kd_Template := t\<rparr>) (mk_Service M s nn labels ports o' np)"
    "comp_NN (DeploymentObj ((component_base M nn labels o' dd)\<lparr>kd_Template := t\<rparr>)) = nn"
  using assms by (simp_all add: served_def service_made labelled_meta component_base_def comp_NN_def)

lemma the_made [simp]:
  "i \<in> fst ` set m \<Longrightarrow> the_deployment (put_obj i (DeploymentObj d) m) i = Some d"
  "i \<in> fst ` set m \<Longrightarrow> the_service (put_obj i (ServiceObj s) m) i = Some s"
  "i \<noteq> j \<Longrightarrow> the_deployment (put_obj j k m) i = the_deployment m i"
  "i \<noteq> j \<Longrightarrow> the_service (put_obj j k m) i = the_service m i"
  by (simp_all add: the_deployment_def the_service_def)

lemma put_obj_fst [simp]: "fst ` set (put_obj i k m) = fst ` set m"
  by (force simp: put_obj_def)

lemma target_service_port [simp]: "target_port (service_port n p) = p"
  by (simp add: target_port_def service_port_def)

lemma container_tcp_port [simp]: "cp_ContainerPort (tcp_port n p) = p"
  by (simp add: tcp_port_def)

text \<open>
  What the makers have in common: the labels, one replica, the selector, the template filled by \<open>f\<close>, and the service. \<open>None\<close> is the panic of a type assertion, which comes
  before everything else.
\<close>

definition fill_component ::
  "ObjMakers \<Rightarrow> 'i \<Rightarrow> 'i \<Rightarrow> NamespacedName \<Rightarrow> smap \<Rightarrow> ClowdObject \<Rightarrow> bool \<Rightarrow> (PodTemplate \<Rightarrow> PodTemplate) \<Rightarrow> ServicePort list \<Rightarrow> 'i obj_map \<Rightarrow> 'i obj_map option" where
  "fill_component M dep svc nn labels o' nodePort f ports m =
     (case (the_deployment m dep, the_service m svc) of
        (Some dd, Some s) \<Rightarrow>
          (let base = component_base M nn labels o' dd
           in Some (put_obj dep (DeploymentObj (base\<lparr>kd_Template := f (kd_Template base)\<rparr>))
                (put_obj svc (ServiceObj (mk_Service M s nn labels ports o' nodePort)) m)))
      | _ \<Rightarrow> None)"

text \<open>An object that is not an environment is an error for most makers, after the type assertions.\<close>

definition not_an_env :: "'i \<Rightarrow> 'i \<Rightarrow> string \<Rightarrow> 'i obj_map \<Rightarrow> (goerr + 'i obj_map) option" where
  "not_an_env dep svc msg m = (if the_deployment m dep = None \<or> the_service m svc = None then None else Some (Inl (PlainErr msg)))"

lemma fill_component_keys: "fill_component M dep svc nn labels o' np f ports m = Some made \<Longrightarrow> map fst made = map fst m"
  by (auto simp: fill_component_def Let_def split: option.splits)

lemma fill_component_template:
  assumes "fill_component M dep svc nn labels o' np f ports m = Some made" and "dep \<noteq> svc" and "the_deployment made dep = Some dd"
  shows "\<exists>t. kd_Template dd = f t"
  using assms by (auto simp: fill_component_def Let_def the_deployment_key split: option.splits) (rule exI, rule refl)

lemma fill_component_served:
  assumes "makers_laws M" and "fill_component M dep svc nn labels o' np f ports m = Some made" and "dep \<noteq> svc"
    and "\<And>t. pt_Labels (f t) = pt_Labels t" and "\<And>t. target_port ` set ports \<subseteq> set (pod_ports (f t))"
  shows "\<exists>dd s. the_deployment made dep = Some dd \<and> the_service made svc = Some s \<and> served dd s \<and> svc_Ports s = ports
        \<and> comp_NN (DeploymentObj dd) = nn \<and> comp_NN (ServiceObj s) = nn"
proof -
  from assms(2) obtain dd s where d: "the_deployment m dep = Some dd" "the_service m svc = Some s"
    and m: "made = put_obj dep (DeploymentObj ((component_base M nn labels o' dd)\<lparr>kd_Template := f (kd_Template (component_base M nn labels o' dd))\<rparr>))
                (put_obj svc (ServiceObj (mk_Service M s nn labels ports o' np)) m)"
    by (auto simp: fill_component_def Let_def split: option.splits)
  have "labels = pt_Labels (f (kd_Template (component_base M nn labels o' dd)))"
    by (simp add: assms(4) component_base_def)
  from served_component [OF assms(1) this assms(5)] assms(3) show ?thesis
    by (simp add: m service_made(2,3) [OF assms(1)] the_deployment_key [OF d(1)] the_service_key [OF d(2)])
qed

lemma not_an_env_fails: "not_an_env dep svc msg m \<noteq> Some (Inr made)"
  by (simp add: not_an_env_def)

lemmas component_ports = pod_ports_def tcp_port_def service_port_def target_port_def

section \<open>Operations that leave what is recorded alone\<close>

named_theorems silents \<open>rules for the operations that change nothing of what is recorded\<close>

definition silent :: "('w \<times> 'c \<Rightarrow> 'x) \<Rightarrow> (('w, 'c) Provider, 'a) op \<Rightarrow> bool" where
  "silent recorded m = (\<forall>p p' r. m p = Some (p', r) \<longrightarrow> prov_recorded recorded p' = prov_recorded recorded p \<and> prov_Env p' = prov_Env p)"

lemma silentD:
  assumes "silent recorded m" and "m p = Some (p', r)"
  shows "prov_recorded recorded p' = prov_recorded recorded p" "prov_Env p' = prov_Env p"
  using assms unfolding silent_def by blast+

lemma silent_simple [silents]:
  "silent recorded (ret a)" "silent recorded (fail e)" "silent recorded panics" "silent recorded (reads f)" "silent recorded (result s)" "silent recorded (or_panic x)"
  by (auto simp: silent_def or_panic_def split: option.splits)

lemma silent_and_next [silents]: "silent recorded m \<Longrightarrow> (\<And>a. silent recorded (f a)) \<Longrightarrow> silent recorded (and_next m f)"
  unfolding silent_def and_next_apply by metis

lemma silent_map_err [silents]: "silent recorded m \<Longrightarrow> silent recorded (map_err w m)"
  unfolding silent_def map_err_def by (auto split: option.splits sum.splits)

lemma silent_if [silents]: "silent recorded m \<Longrightarrow> silent recorded n \<Longrightarrow> silent recorded (if b then m else n)"
  by simp

lemma silent_cache_ops [silents]:
  assumes "leaves_alone r recorded"
  shows "silent recorded (cache_Create r nn)" "silent recorded (cache_Update r k)" "silent recorded (with_resource r nn f)"
  unfolding silent_def using leaves_alone_ops [OF assms] with_resource_alone [OF assms] cache_env with_resource_env by metis+

lemma silent_make_or_get [silents]:
  assumes "leaves_alone r recorded"
  shows "silent recorded (make_or_get obj r nn i)"
proof -
  have laws: "\<And>nn s. recorded (fst (res_Create r nn s)) = recorded s" "\<And>k s. recorded (fst (res_Update r k s)) = recorded s"
    using assms unfolding leaves_alone_def by blast+
  have "recorded (fst (MakeOrGetSecret (\<lambda>_ nn _. res_Create r nn) (\<lambda>_. res_Update r) o' () nn i s)) = recorded s" for o' s
    using laws(1) [of nn s] laws(2) by (auto simp: MakeOrGetSecret_def Let_def split: prod.splits sum.splits option.splits) (metis fst_conv)+
  then show ?thesis
    unfolding silent_def make_or_get_def cached_def by (auto split: option.splits prod.splits) (metis fst_conv)+
qed

lemma silent_get_secret [silents]: "silent recorded (get_secret d nn)"
  by (simp add: silent_def get_secret_def)

lemma silent_set_config [silents]: "silent recorded (set_config f)"
  unfolding silent_def set_config_def the_config_def by (auto simp: and_next_def deref_def split: option.splits)

text \<open>The objects of the components may leave something else alone that is recorded, such as the ingresses.\<close>

definition components_leave :: "('s, 'i) CompDeps \<Rightarrow> ('s \<Rightarrow> 'x) \<Rightarrow> bool" where
  "components_leave D recorded =
     ((\<forall>i nn k s. recorded (fst (cmp_Create D i nn k s)) = recorded s) \<and> (\<forall>i k s. recorded (fst (cmp_Update D i k s)) = recorded s))"

lemma silent_cached: "(\<And>s. recorded (fst (g s)) = recorded s) \<Longrightarrow> silent recorded (cached g)"
  by (auto simp: silent_def cached_def split: option.splits prod.splits) (metis fst_conv)+

lemma make_component_silent [silents]:
  assumes "components_leave D recorded"
  shows "silent recorded (make_component D objList obj suffix fn usePVC)"
proof -
  have laws: "cmp_Create D i nn k s = (s', r) \<Longrightarrow> recorded s' = recorded s" "cmp_Update D i k s = (s', e) \<Longrightarrow> recorded s' = recorded s" for i nn k s s' r e
    using assms unfolding components_leave_def by (metis fst_conv)+
  have create: "recorded (fst (comp_create D nn i s)) = recorded s" for nn i s
    unfolding comp_create_def createResource_def by (auto split: sum.splits list.splits prod.splits dest: laws(1))
  have creates: "recorded (fst (create_all (comp_create D nn) st sfx is s)) = recorded s" for nn st sfx "is" s
  proof (induction "is" arbitrary: s)
    case (Cons i "is")
    with create [of nn i s] show ?case by (auto split: prod.splits sum.splits) (metis fst_conv)+
  qed simp
  have update: "recorded (fst (comp_update D i k s)) = recorded s" for i k s
    unfolding comp_update_def updateResource_def by (auto split: sum.splits list.splits prod.splits option.splits dest: laws(2))
  have "recorded (fst (for_err (\<lambda>(i, k). comp_update D i k) xs s)) = recorded s" for xs s
  proof (induction xs arbitrary: s)
    case (Cons x xs)
    with update [of "fst x" "snd x" s] show ?case by (cases x) (auto split: prod.splits option.splits; metis fst_conv)
  qed simp
  then have "for_err (\<lambda>(i, k). comp_update D i k) xs s = (s', e) \<Longrightarrow> recorded s' = recorded s" for xs s s' e by (metis fst_conv)
  then have "recorded (fst (update_all D sfx made s)) = recorded s" for sfx made s
    unfolding update_all_def by (simp split: prod.splits option.splits)
  then show ?thesis unfolding make_component_def by (intro silents silent_cached creates)
qed

text \<open>The same for a part of the provider that the cache cannot touch.\<close>

named_theorems unchangeds \<open>rules for the operations that leave a part of the provider alone\<close>

definition unchanged :: "('p \<Rightarrow> 'x) \<Rightarrow> ('p, 'a) op \<Rightarrow> bool" where
  "unchanged f m = (\<forall>p p' r. m p = Some (p', r) \<longrightarrow> f p' = f p)"

lemma unchangedD: "unchanged f m \<Longrightarrow> m p = Some (p', r) \<Longrightarrow> f p' = f p"
  unfolding unchanged_def by blast

lemma unchanged_simple [unchangeds]:
  "unchanged f (ret a)" "unchanged f (fail e)" "unchanged f panics" "unchanged f (reads g)" "unchanged f (result s)" "unchanged f (or_panic x)"
  by (auto simp: unchanged_def or_panic_def split: option.splits)

lemma unchanged_and_next [unchangeds]: "unchanged f m \<Longrightarrow> (\<And>a. unchanged f (g a)) \<Longrightarrow> unchanged f (and_next m g)"
  unfolding unchanged_def and_next_apply by metis

lemma unchanged_map_err [unchangeds]: "unchanged f m \<Longrightarrow> unchanged f (map_err w m)"
  unfolding unchanged_def map_err_def by (auto split: option.splits sum.splits)

lemma unchanged_if [unchangeds]: "unchanged f m \<Longrightarrow> unchanged f n \<Longrightarrow> unchanged f (if b then m else n)"
  by simp

lemma unchanged_each [unchangeds]: "(\<And>x. unchanged f (g x)) \<Longrightarrow> unchanged f (each g xs)"
  by (induction xs) (simp_all add: unchangeds)

lemma unchanged_cached [unchangeds]: "unchanged prov_Config (cached g)" "unchanged prov_Env (cached g)" "unchanged prov_HashCache (cached g)"
  by (auto simp: unchanged_def cached_def split: option.splits prod.splits)

lemma unchanged_cache_ops [unchangeds]:
  "unchanged prov_Config (cache_Create r nn)" "unchanged prov_Config (cache_Update r k)" "unchanged prov_Config (cache_Get r nn')" "unchanged prov_Config (cache_List r)"
  "unchanged prov_Env (cache_Create r nn)" "unchanged prov_Env (cache_Update r k)" "unchanged prov_Env (cache_Get r nn')" "unchanged prov_Env (cache_List r)"
  by (simp_all add: cache_Create_def cache_Update_def cache_Get_def cache_List_def unchangeds)

lemma unchanged_with_resource [unchangeds]: "unchanged prov_Config (with_resource r nn g)" "unchanged prov_Env (with_resource r nn g)"
  by (simp_all add: with_resource_def unchangeds)

end
