(* ===== verification/Object_Store.thy ===== *)
theory Object_Store
  imports Components
begin

text \<open>
  The object store: a MinIO of the environment (\<open>providers/objectstore/minio.go\<close>) in which the buckets of an app are made, or buckets that exist already and
  are described by secrets (\<open>providers/objectstore/appinterface.go\<close>).

  The MinIO client and random strings are parameters. \<open>p.Cache.AddPossibleGVKFromIdent\<close> only tells the cache which kinds to look for and is left out.

  The facts: after MinIO was provided the buckets exist and the configuration lists them; which secret a bucket of app-interface is taken from, and
  which buckets are reported missing.
\<close>

abbreviation env_ObjectStore :: "ClowdEnvironment \<Rightarrow> ObjectStoreConfig" where
  "env_ObjectStore e \<equiv> pv_ObjectStore (env_Providers (env_Spec e))"

section \<open>MinIO\<close>

datatype minio_ident = MinioDeployment | MinioService | MinioPVC

text \<open>The client of MinIO, known by what it was made from.\<close>

record MinioClient =
  mc_Endpoint :: string
  mc_AccessKey :: string
  mc_SecretKey :: string

record ('w, 'c) MinioDeps =
  mn_Prov :: "'w ProvDeps"
  mn_Makers :: ObjMakers
  mn_Comp :: "('w \<times> 'c, minio_ident) CompDeps"
  mn_Secret :: "('w \<times> 'c, KSecretObj) Resource"
  mn_Policy :: "('w \<times> 'c, KNetworkPolicy) Resource"
  mn_New :: "MinioClient \<Rightarrow> goerr option"
  mn_BucketExists :: "MinioClient \<Rightarrow> string \<Rightarrow> 'w \<Rightarrow> goerr + bool"
  mn_MakeBucket :: "MinioClient \<Rightarrow> string \<Rightarrow> 'w \<Rightarrow> 'w \<times> goerr option"
  mn_RandAccess :: "'w \<Rightarrow> string"
  mn_RandSecret :: "'w \<Rightarrow> string"
  mn_ReadFile :: "string \<Rightarrow> string option"

abbreviation mn_Stack :: "('w, 'c) MinioDeps \<Rightarrow> string" where "mn_Stack d \<equiv> pd_Stack (mn_Prov d)"

definition DefaultImageObjectStoreMinio :: string where
  "DefaultImageObjectStoreMinio = ''minio/minio:RELEASE.2020-11-19T23-48-16Z-amd64''"

definition GetObjectStoreMinioImage :: "ClowderConfig \<Rightarrow> ClowdEnvironment \<Rightarrow> string" where
  "GetObjectStoreMinioImage lc env =
     (if osc_MinioImage (env_ObjectStore env) \<noteq> '''' then osc_MinioImage (env_ObjectStore env)
      else if ci_ObjectStoreMinio (cc_Images lc) \<noteq> '''' then ci_ObjectStoreMinio (cc_Images lc)
      else DefaultImageObjectStoreMinio)"

definition createDefaultMinioSecMap :: "string \<Rightarrow> string \<Rightarrow> string \<Rightarrow> string \<Rightarrow> smap" where
  "createDefaultMinioSecMap accessKey secretKey name namespace =
     map_of [(''accessKey'', accessKey), (''secretKey'', secretKey), (''hostname'', name @ ''.'' @ namespace @ ''.svc''), (''port'', ''9000'')]"

definition minio_container :: "NamespacedName \<Rightarrow> string \<Rightarrow> Container" where
  "minio_container nn img = Container_zero\<lparr>
     ct_Name := nn_Name nn, ct_Image := img,
     ct_Env := AppendEnvVarsFromSecret [] (nn_Name nn)
       [NewSecretEnvVar ''MINIO_ACCESS_KEY'' ''accessKey'', NewSecretEnvVar ''MINIO_SECRET_KEY'' ''secretKey'',
        NewSecretEnvVar ''MINIO_ROOT_USER'' ''accessKey'', NewSecretEnvVar ''MINIO_ROOT_PASSWORD'' ''secretKey''],
     ct_Ports := [tcp_port ''minio'' 9000],
     ct_VolumeMounts := [\<lparr>vm_Name = nn_Name nn, vm_ReadOnly = False, vm_MountPath = ''/storage''\<rparr>],
     ct_Args := [''server'', ''/storage''],
     ct_LivenessProbe := Some (component_probe (TCPSocket 9000) 10 2 10), ct_ReadinessProbe := Some (component_probe (TCPSocket 9000) 20 2 10),
     ct_TerminationMessagePath := ''/dev/termination-log'', ct_TerminationMessagePolicy := ''File'', ct_ImagePullPolicy := ''IfNotPresent''\<rparr>"

definition minio_volume :: "NamespacedName \<Rightarrow> bool \<Rightarrow> Volume" where
  "minio_volume nn usePVC = (if usePVC then Volume_zero\<lparr>vol_Name := nn_Name nn, vol_PersistentVolumeClaim := Some (nn_Name nn)\<rparr>
     else Volume_zero\<lparr>vol_Name := nn_Name nn, vol_Other := ''EmptyDir''\<rparr>)"

definition makeLocalMinIO :: "ObjMakers \<Rightarrow> minio_ident maker" where
  "makeLocalMinIO M _ o' objMap usePVC nodePort =
     (let nn = GetNamespacedName o' ''minio''; labels = component_labels o' nn
      in case o' of
           EnvObject env \<Rightarrow>
             (case fill_component M MinioDeployment MinioService nn labels o' nodePort
                     (\<lambda>t. t\<lparr>pt_Volumes := [minio_volume nn usePVC], pt_Containers := [minio_container nn (GetObjectStoreMinioImage (mk_Loaded M) env)]\<rparr>)
                     [service_port ''minio'' 9000] objMap of
                None \<Rightarrow> None
              | Some made \<Rightarrow>
                  (if usePVC
                   then (case the_pvc objMap MinioPVC of
                           None \<Rightarrow> None
                         | Some pvc \<Rightarrow> Some (Inr (put_obj MinioPVC (PVCObj (mk_PVC M pvc nn labels ''1Gi'' o')) made)))
                   else Some (Inr made)))
         | _ \<Rightarrow> not_an_env MinioDeployment MinioService ''could not get env from object'' objMap)"

definition CreateClient :: "('w, 'c) MinioDeps \<Rightarrow> string \<Rightarrow> int \<Rightarrow> string \<Rightarrow> string \<Rightarrow> goerr + MinioClient" where
  "CreateClient d hostname port accessKey secretKey =
     (let cl = \<lparr>mc_Endpoint = hostname @ '':'' @ itoa port, mc_AccessKey = accessKey, mc_SecretKey = secretKey\<rparr>
      in case mn_New d cl of None \<Rightarrow> Inr cl | Some err \<Rightarrow> Inl (Wrap (mn_Stack d) ''Failed to create minio client'' err))"

definition createMinioProvider :: "('w, 'c) MinioDeps \<Rightarrow> smap \<Rightarrow> goerr + MinioClient" where
  "createMinioProvider d secMap =
     (case atoi (mget secMap ''port'') of
        None \<Rightarrow> Inl (atoi_err (mget secMap ''port''))
      | Some port \<Rightarrow>
          (case CreateClient d (mget secMap ''hostname'') port (mget secMap ''accessKey'') (mget secMap ''secretKey'') of
             Inl err \<Rightarrow> Inl (Wrap (mn_Stack d) ''error creating minio client'' err)
           | Inr cl \<Rightarrow> Inr cl))"

definition NewMinIO :: "('w, 'c) MinioDeps \<Rightarrow> (('w, 'c) Provider, MinioClient) op" where
  "NewMinIO d =
     and_next (reads prov_Env) (\<lambda>env.
     and_next (reads prov_World) (\<lambda>w.
       let nn = GetNamespacedName (EnvObject env) ''minio''; usePVC = osc_PVC (env_ObjectStore env)
       in and_next (map_err (requeue_wrap (mn_Stack d) ''Couldn't set/get secret'')
            (make_or_get env_object (mn_Secret d) nn (createDefaultMinioSecMap (mn_RandAccess d w) (mn_RandSecret d w) (nn_Name nn) (nn_Namespace nn)))) (\<lambda>secMap.
          and_next (result (createMinioProvider d secMap)) (\<lambda>mp.
          and_next (map_err (requeue_wrap (mn_Stack d) ''Couldn't make component'')
            (make_component (mn_Comp d) ([MinioDeployment, MinioService] @ (if usePVC then [MinioPVC] else [])) env_object ''minio'' (makeLocalMinIO (mn_Makers d)) usePVC)) (\<lambda>_.
            ret mp)))))"

definition createNetworkPolicy :: "('w, 'c) MinioDeps \<Rightarrow> (('w, 'c) Provider, unit) op" where
  "createNetworkPolicy d =
     and_next (reads prov_Env) (\<lambda>env.
       let clowderNs = GetClowderNamespace (mn_ReadFile d); nn = NN (''allow-from-'' @ clowderNs @ ''-namespace'') (est_TargetNamespace (env_Status env))
       in with_resource (mn_Policy d) nn (\<lambda>np. np\<lparr>np_From := [[''kubernetes.io/metadata.name'' \<mapsto> clowderNs]], np_PolicyTypes := [''Ingress''],
            np_ObjectMeta := pd_Labeler (mn_Prov d) Map.empty nn (EnvObject env) (np_ObjectMeta np)\<rparr>))"

definition minio_EnvProvide :: "('w, 'c) MinioDeps \<Rightarrow> (('w, 'c) Provider, unit) op" where
  "minio_EnvProvide d = createNetworkPolicy d"

definition newBucketError :: "string \<Rightarrow> string \<Rightarrow> string \<Rightarrow> goerr \<Rightarrow> goerr" where
  "newBucketError stack msg bucketName rootCause =
     requeue_wrap stack (''bucket '' @ [CHR 0x22] @ bucketName @ [CHR 0x22] @ '' -- '' @ msg) rootCause"

text \<open>The bucket of an app: made when it is not there, then added to the configuration.\<close>

definition ensure_bucket :: "('w, 'c) MinioDeps \<Rightarrow> MinioClient \<Rightarrow> string \<Rightarrow> (('w, 'c) Provider, unit) op" where
  "ensure_bucket d cl bucket =
     and_next (map_err (newBucketError (mn_Stack d) ''failed to check if bucket exists'' bucket)
       (\<lambda>p. Some (p, mn_BucketExists d cl bucket (prov_World p)))) (\<lambda>found.
     if found then ret ()
     else map_err (newBucketError (mn_Stack d) ''failed to create bucket'' bucket)
       (unless_err (\<lambda>p. case mn_MakeBucket d cl bucket (prov_World p) of (w', e) \<Rightarrow> (p\<lparr>prov_World := w'\<rparr>, e))))"

definition minio_bucket :: "smap \<Rightarrow> string \<Rightarrow> ObjectStoreBucket" where
  "minio_bucket data' bucket = \<lparr>bk_AccessKey = (if mget data' ''accessKey'' \<noteq> '''' then Some (mget data' ''accessKey'') else None),
     bk_Endpoint = Some (mget data' ''hostname''), bk_Name = bucket, bk_Region = None, bk_RequestedName = bucket,
     bk_SecretKey = (if mget data' ''secretKey'' \<noteq> '''' then Some (mget data' ''secretKey'') else None), bk_Tls = None\<rparr>"

definition add_bucket :: "ObjectStoreBucket \<Rightarrow> AppConfig \<Rightarrow> AppConfig" where
  "add_bucket b c = c\<lparr>cfg_ObjectStore := map_option (\<lambda>s. s\<lparr>osf_Buckets := osf_Buckets s @ [b]\<rparr>) (cfg_ObjectStore c)\<rparr>"

definition minio_Provide :: "('w, 'c) MinioDeps \<Rightarrow> MinioClient \<Rightarrow> ClowdApp \<Rightarrow> (('w, 'c) Provider, unit) op" where
  "minio_Provide d cl app =
     (if app_ObjectStore (app_Spec app) = [] then ret ()
      else and_next (reads prov_Env) (\<lambda>env.
           and_next (get_secret (mn_Prov d) (GetNamespacedName (EnvObject env) ''minio'')) (\<lambda>secret.
           and_next (track_secret (mn_Prov d) env_object secret) (\<lambda>_.
             let data' = sec_Data secret
             in case atoi (mget data' ''port'') of
                  None \<Rightarrow> fail (atoi_err (mget data' ''port''))
                | Some port \<Rightarrow>
                    and_next (set_config (\<lambda>c. c\<lparr>cfg_ObjectStore := Some \<lparr>osf_AccessKey = Some (mget data' ''accessKey''), osf_Buckets = [],
                        osf_Hostname = mget data' ''hostname'', osf_Port = port, osf_SecretKey = Some (mget data' ''secretKey''), osf_Tls = False\<rparr>\<rparr>)) (\<lambda>_.
                      each (\<lambda>bucket. and_next (ensure_bucket d cl bucket) (\<lambda>_. set_config (add_bucket (minio_bucket data' bucket))))
                        (app_ObjectStore (app_Spec app)))))))"

section \<open>Buckets found by their secrets\<close>

definition bucket_config :: "KSecretObj \<Rightarrow> string \<Rightarrow> ObjectStoreBucket" where
  "bucket_config secret bucket = \<lparr>bk_AccessKey = Some (mget (sec_Data secret) ''aws_access_key_id''), bk_Endpoint = Some (mget (sec_Data secret) ''endpoint''),
     bk_Name = bucket, bk_Region = Some (mget (sec_Data secret) ''aws_region''), bk_RequestedName = '''',
     bk_SecretKey = Some (mget (sec_Data secret) ''aws_secret_access_key''), bk_Tls = Some True\<rparr>"

definition genObjStoreConfig :: "KSecretObj list \<Rightarrow> goerr + ObjectStoreCfg" where
  "genObjStoreConfig secrets =
     (let extractFn = (\<lambda>secret bucket buckets. buckets @ [bucket_config secret bucket]);
          keys = [''aws_access_key_id'', ''aws_secret_access_key''];
          buckets = ExtractSecretDataAnno secrets extractFn ''clowder/bucket-names'' keys [];
          buckets' = ExtractSecretData secrets (\<lambda>secret. extractFn secret (mget (sec_Data secret) ''bucket'')) (keys @ [''bucket'']) buckets
      in Inr \<lparr>osf_AccessKey = None, osf_Buckets = buckets', osf_Hostname = '''', osf_Port = 443, osf_SecretKey = None, osf_Tls = True\<rparr>)"

text \<open>The loop over the requested buckets, with the hostname, the buckets found and those missing so far. A bucket without an endpoint panics.\<close>

fun resolve_buckets :: "ObjectStoreBucket list \<Rightarrow> string list \<Rightarrow> string \<Rightarrow> ObjectStoreBucket list \<Rightarrow> string list
    \<Rightarrow> (string \<times> ObjectStoreBucket list \<times> string list) option" where
  "resolve_buckets all [] hostname buckets missing = Some (hostname, buckets, missing)"
| "resolve_buckets all (requestedBucket # requested) hostname buckets missing =
     (case find (\<lambda>b. has_prefix (bk_Name b) requestedBucket) all of
        None \<Rightarrow> resolve_buckets all requested hostname buckets (missing @ [requestedBucket])
      | Some bucket \<Rightarrow>
          (case bk_Endpoint bucket of
             None \<Rightarrow> None
           | Some endpoint \<Rightarrow> resolve_buckets all requested (if endpoint \<noteq> '''' then endpoint else hostname)
               (buckets @ [bucket\<lparr>bk_RequestedName := requestedBucket\<rparr>]) missing))"

definition resolveBucketDeps :: "string \<Rightarrow> string list \<Rightarrow> ObjectStoreCfg \<Rightarrow> (goerr + ObjectStoreCfg) option" where
  "resolveBucketDeps stack requestedBuckets c =
     (case resolve_buckets (osf_Buckets c) requestedBuckets (osf_Hostname c) [] [] of
        None \<Rightarrow> None
      | Some (hostname, buckets, missing) \<Rightarrow>
          Some (if buckets \<noteq> [] \<and> hostname = '''' then Inl (NewClowderError stack ''Could not find object store hostname from secrets'')
                else if missing \<noteq> [] then Inl (NewClowderError stack (''Missing buckets from app-interface: '' @ join '', '' missing))
                else Inr (c\<lparr>osf_Hostname := hostname, osf_Buckets := buckets\<rparr>)))"

definition appInterfaceObjectstore_Provide :: "(string \<Rightarrow> 'w \<Rightarrow> goerr + KSecretObj list) \<Rightarrow> string \<Rightarrow> ClowdApp \<Rightarrow> (('w, 'c) Provider, unit) op" where
  "appInterfaceObjectstore_Provide listSecrets stack app =
     (if app_ObjectStore (app_Spec app) = [] then ret ()
      else and_next (map_err (Wrap stack (''Failed to list secrets in '' @ app_Namespace app)) (\<lambda>p. Some (p, listSecrets (app_Namespace app) (prov_World p)))) (\<lambda>secrets.
           and_next (result (genObjStoreConfig secrets)) (\<lambda>objStoreConfig.
           and_next (or_panic (resolveBucketDeps stack (app_ObjectStore (app_Spec app)) objStoreConfig)) (\<lambda>r.
           and_next (result r) (\<lambda>objStoreConfig'.
             set_config (\<lambda>c. c\<lparr>cfg_ObjectStore := Some objStoreConfig'\<rparr>))))))"

datatype objectstore_mode = MinIO | AppInterfaceObjectstore | NoneObjectStore

definition GetObjectStore :: "string \<Rightarrow> ClowdEnvironment \<Rightarrow> goerr + objectstore_mode" where
  "GetObjectStore stack env =
     (let objectStoreMode = osc_Mode (env_ObjectStore env)
      in if objectStoreMode = ''minio'' then Inr MinIO
         else if objectStoreMode = ''app-interface'' then Inr AppInterfaceObjectstore
         else if objectStoreMode \<in> {''none'', ''''} then Inr NoneObjectStore
         else Inl (NewClowderError stack (''No matching object store mode for '' @ objectStoreMode)))"

section \<open>The deployment of MinIO\<close>

interpretation minio: component_maker makeLocalMinIO MinioDeployment MinioService "''minio''" "[service_port ''minio'' 9000]"
proof
  fix M env o' m usePVC nodePort made
  assume run: "makeLocalMinIO M env o' m usePVC nodePort = Some (Inr made)"
  obtain e filled where f: "fill_component M MinioDeployment MinioService (GetNamespacedName o' ''minio'') (component_labels o' (GetNamespacedName o' ''minio'')) o' nodePort
       (\<lambda>t. t\<lparr>pt_Volumes := [minio_volume (GetNamespacedName o' ''minio'') usePVC], pt_Containers := [minio_container (GetNamespacedName o' ''minio'') (GetObjectStoreMinioImage (mk_Loaded M) e)]\<rparr>)
       [service_port ''minio'' 9000] m = Some filled" and made: "made = filled \<or> (\<exists>k. made = put_obj MinioPVC k filled)"
    using run by (auto simp: makeLocalMinIO_def Let_def not_an_env_fails split: ClowdObject.splits option.splits if_splits)
  show "map fst made = map fst m" using fill_component_keys [OF f] made by auto
  assume laws: "makers_laws M"
  show "\<exists>dd s. the_deployment made MinioDeployment = Some dd \<and> the_service made MinioService = Some s \<and> served dd s \<and> svc_Ports s = [service_port ''minio'' 9000]
      \<and> comp_NN (DeploymentObj dd) = GetNamespacedName o' ''minio'' \<and> comp_NN (ServiceObj s) = GetNamespacedName o' ''minio''"
    using fill_component_served [OF laws f] made by (auto simp: component_ports minio_container_def)
qed

section \<open>The buckets of MinIO\<close>

text \<open>What the client promises: the answer to a question is the truth, and making a bucket adds it.\<close>

definition bucket_store :: "('w, 'c) MinioDeps \<Rightarrow> MinioClient \<Rightarrow> ('w \<Rightarrow> string set) \<Rightarrow> bool" where
  "bucket_store d cl buckets =
     ((\<forall>b w found. mn_BucketExists d cl b w = Inr found \<longrightarrow> found = (b \<in> buckets w))
      \<and> (\<forall>b w w'. mn_MakeBucket d cl b w = (w', None) \<longrightarrow> buckets w' = insert b (buckets w)))"

lemma ensure_bucket_ok:
  assumes "bucket_store d cl buckets" and "ensure_bucket d cl b p = Some (p', Inr u)"
  shows "\<exists>w'. p' = p\<lparr>prov_World := w'\<rparr> \<and> buckets w' = insert b (buckets (prov_World p))"
proof -
  from assms(2) obtain found where ex: "mn_BucketExists d cl b (prov_World p) = Inr found"
    and mk: "if found then p' = p else \<exists>w'. mn_MakeBucket d cl b (prov_World p) = (w', None) \<and> p' = p\<lparr>prov_World := w'\<rparr>"
    by (auto simp: ensure_bucket_def op_oks unless_err_def split: if_splits prod.splits option.splits)
  show ?thesis
  proof (cases found)
    case True
    with ex mk assms(1) show ?thesis by (intro exI [of _ "prov_World p"]) (auto simp: bucket_store_def)
  next
    case False
    with mk assms(1) show ?thesis by (auto simp: bucket_store_def)
  qed
qed

lemma buckets_loop:
  assumes "bucket_store d cl buckets"
    and "each (\<lambda>b. and_next (ensure_bucket d cl b) (\<lambda>_. set_config (add_bucket (minio_bucket data' b)))) bs p = Some (p', Inr u)"
    and "prov_Config p = Some c" and "cfg_ObjectStore c = Some s"
  shows "buckets (prov_World p') = buckets (prov_World p) \<union> set bs \<and> (\<exists>c'. prov_Config p' = Some c'
    \<and> cfg_ObjectStore c' = Some (s\<lparr>osf_Buckets := osf_Buckets s @ map (minio_bucket data') bs\<rparr>))"
  using assms(2-4)
proof (induction bs arbitrary: p c s)
  case (Cons b bs)
  from Cons.prems(1) obtain p1 p2 where p1: "ensure_bucket d cl b p = Some (p1, Inr ())" and p2: "set_config (add_bucket (minio_bucket data' b)) p1 = Some (p2, Inr ())"
    and rest: "each (\<lambda>b. and_next (ensure_bucket d cl b) (\<lambda>_. set_config (add_bucket (minio_bucket data' b)))) bs p2 = Some (p', Inr u)"
    by (auto simp: and_next_ok)
  obtain w' where w': "p1 = p\<lparr>prov_World := w'\<rparr>" "buckets w' = insert b (buckets (prov_World p))" using ensure_bucket_ok [OF assms(1) p1] by blast
  with p2 Cons.prems(2) have "p2 = p1\<lparr>prov_Config := Some (add_bucket (minio_bucket data' b) c)\<rparr>" by (auto simp: set_config_ok)
  with w' Cons.prems(3) Cons.IH [OF rest, of "add_bucket (minio_bucket data' b) c" "s\<lparr>osf_Buckets := osf_Buckets s @ [minio_bucket data' b]\<rparr>"]
  show ?case by (auto simp: add_bucket_def)
qed simp

text \<open>
  C27. After MinIO was provided for an app every bucket it asked for exists, no bucket was lost, and the configuration of the app points to the host and port of the stored secret
  and lists exactly the requested buckets in order, under the names they were requested by.
\<close>

theorem minio_buckets_exist:
  assumes "bucket_store d cl buckets" and "minio_Provide d cl app p = Some (p', Inr ())" and "app_ObjectStore (app_Spec app) \<noteq> []"
  shows "buckets (prov_World p') = buckets (prov_World p) \<union> set (app_ObjectStore (app_Spec app))
    \<and> (\<exists>secret c s. pd_GetSecret (mn_Prov d) (GetNamespacedName (EnvObject (prov_Env p)) ''minio'') (prov_World p) = Inr secret
         \<and> prov_Config p' = Some c \<and> cfg_ObjectStore c = Some s
         \<and> osf_Hostname s = mget (sec_Data secret) ''hostname'' \<and> atoi (mget (sec_Data secret) ''port'') = Some (osf_Port s)
         \<and> map bk_Name (osf_Buckets s) = app_ObjectStore (app_Spec app) \<and> map bk_RequestedName (osf_Buckets s) = app_ObjectStore (app_Spec app)
         \<and> (\<forall>b \<in> set (osf_Buckets s). bk_Endpoint b = Some (osf_Hostname s)))"
proof -
  let ?nn = "GetNamespacedName (EnvObject (prov_Env p)) ''minio''"
  from assms(2,3) obtain secret p1 port p2 where sec: "pd_GetSecret (mn_Prov d) ?nn (prov_World p) = Inr secret"
    and tr: "track_secret (mn_Prov d) env_object secret p = Some (p1, Inr ())" and port: "atoi (mget (sec_Data secret) ''port'') = Some port"
    and p2: "set_config (\<lambda>c. c\<lparr>cfg_ObjectStore := Some \<lparr>osf_AccessKey = Some (mget (sec_Data secret) ''accessKey''), osf_Buckets = [],
          osf_Hostname = mget (sec_Data secret) ''hostname'', osf_Port = port, osf_SecretKey = Some (mget (sec_Data secret) ''secretKey''), osf_Tls = False\<rparr>\<rparr>) p1 = Some (p2, Inr ())"
    and loop: "each (\<lambda>b. and_next (ensure_bucket d cl b) (\<lambda>_. set_config (add_bucket (minio_bucket (sec_Data secret) b)))) (app_ObjectStore (app_Spec app)) p2 = Some (p', Inr ())"
    by (auto simp: minio_Provide_def op_oks get_secret_def Let_def split: option.splits)
  obtain hc where p1: "p1 = p\<lparr>prov_HashCache := hc\<rparr>" using track_secret_frame [OF tr] by blast
  obtain c0 where c0: "p2 = p1\<lparr>prov_Config := Some (c0\<lparr>cfg_ObjectStore := Some \<lparr>osf_AccessKey = Some (mget (sec_Data secret) ''accessKey''), osf_Buckets = [],
          osf_Hostname = mget (sec_Data secret) ''hostname'', osf_Port = port, osf_SecretKey = Some (mget (sec_Data secret) ''secretKey''), osf_Tls = False\<rparr>\<rparr>)\<rparr>"
    using p2 by (auto simp: set_config_ok)
  have config: "prov_Config p2 = Some (c0\<lparr>cfg_ObjectStore := Some \<lparr>osf_AccessKey = Some (mget (sec_Data secret) ''accessKey''), osf_Buckets = [],
          osf_Hostname = mget (sec_Data secret) ''hostname'', osf_Port = port, osf_SecretKey = Some (mget (sec_Data secret) ''secretKey''), osf_Tls = False\<rparr>\<rparr>)"
    using c0 by simp
  from buckets_loop [OF assms(1) loop config] sec port p1 c0
  show ?thesis by (auto simp: minio_bucket_def comp_def)
qed

text \<open>A provider for MinIO has its deployment and its service recorded under the name of the component, and the service reaches the pods of the deployment.\<close>

lemma new_minio_ready:
  assumes "makers_laws (mn_Makers d)" and "component_cache (mn_Comp d) recorded" and "NewMinIO d p = Some (p', Inr cl)"
  shows "\<exists>dd s. prov_recorded recorded p' MinioDeployment (GetNamespacedName (EnvObject (prov_Env p)) ''minio'') = Some (DeploymentObj dd)
    \<and> prov_recorded recorded p' MinioService (GetNamespacedName (EnvObject (prov_Env p)) ''minio'') = Some (ServiceObj s) \<and> served dd s"
proof -
  from assms(3) obtain p1 idents where p1: "prov_Env p1 = prov_Env p"
    and mk: "make_component (mn_Comp d) idents env_object ''minio'' (makeLocalMinIO (mn_Makers d)) (osc_PVC (env_ObjectStore (prov_Env p))) p1 = Some (p', Inr ())"
    by (auto simp: NewMinIO_def Let_def op_oks dest: make_or_get_env)
  from minio.component_ready [OF assms(1,2) mk] p1 show ?thesis by (auto simp: env_object_def)
qed

section \<open>The buckets of app-interface\<close>

text \<open>The bucket of a request: the first one whose name begins with it; the buckets named by annotations come before those named by a key.\<close>

definition bucket_for :: "ObjectStoreBucket list \<Rightarrow> string \<Rightarrow> ObjectStoreBucket option" where
  "bucket_for all b = find (\<lambda>k. has_prefix (bk_Name k) b) all"

definition described_buckets :: "KSecretObj list \<Rightarrow> ObjectStoreBucket list" where
  "described_buckets secrets =
     (let keyed = filter (\<lambda>s. {''aws_access_key_id'', ''aws_secret_access_key''} \<subseteq> dom (sec_Data s)) secrets
      in concat (map (\<lambda>s. case om_Annotations (sec_ObjectMeta s) ''clowder/bucket-names'' of
             None \<Rightarrow> [] | Some names \<Rightarrow> map (bucket_config s) (split_on (CHR '','') names)) keyed)
         @ map (\<lambda>s. bucket_config s (mget (sec_Data s) ''bucket'')) (filter (\<lambda>s. ''bucket'' \<in> dom (sec_Data s)) keyed))"

lemma foldl_collects: "foldl (\<lambda>s x. s @ f x) acc xs = acc @ concat (map f xs)"
  by (induction xs arbitrary: acc) simp_all

lemma foldl_snoc: "foldl (\<lambda>s x. s @ [f x]) acc xs = acc @ map f xs"
  by (induction xs arbitrary: acc) simp_all

lemma anno_collects:
  "ExtractSecretDataAnno secrets (\<lambda>s n bs. bs @ [f s n]) k keys acc =
     acc @ concat (map (\<lambda>s. case om_Annotations (sec_ObjectMeta s) k of None \<Rightarrow> [] | Some names \<Rightarrow> map (f s) (split_on (CHR '','') names))
       (filter (\<lambda>s. set keys \<subseteq> dom (sec_Data s)) secrets))"
  by (induction secrets arbitrary: acc) (auto simp: ExtractSecretDataAnno_def has_all_keys_iff foldl_snoc split: option.splits)

lemma genObjStoreConfig_buckets:
  "genObjStoreConfig secrets = Inr \<lparr>osf_AccessKey = None, osf_Buckets = described_buckets secrets, osf_Hostname = '''', osf_Port = 443, osf_SecretKey = None, osf_Tls = True\<rparr>"
proof -
  have "filter (\<lambda>s. set [''aws_access_key_id'', ''aws_secret_access_key'', ''bucket''] \<subseteq> dom (sec_Data s)) secrets
      = filter (\<lambda>s. ''bucket'' \<in> dom (sec_Data s)) (filter (\<lambda>s. set [''aws_access_key_id'', ''aws_secret_access_key''] \<subseteq> dom (sec_Data s)) secrets)"
    by (auto simp: filter_filter intro: filter_cong)
  then show ?thesis
    unfolding genObjStoreConfig_def described_buckets_def Let_def anno_collects ExtractSecretData_filter foldl_snoc append.simps by simp
qed

lemma described_endpoints: "b \<in> set (described_buckets secrets) \<Longrightarrow> bk_Endpoint b \<noteq> None"
  by (auto simp: described_buckets_def Let_def bucket_config_def split: option.splits)

text \<open>The hostname is that of the last bucket found that has one.\<close>

definition last_endpoint :: "ObjectStoreBucket list \<Rightarrow> string \<Rightarrow> string" where
  "last_endpoint bs h = foldl (\<lambda>h b. if the (bk_Endpoint b) \<noteq> '''' then the (bk_Endpoint b) else h) h bs"

definition found_buckets :: "ObjectStoreBucket list \<Rightarrow> string list \<Rightarrow> ObjectStoreBucket list" where
  "found_buckets all req = concat (map (\<lambda>b. case bucket_for all b of None \<Rightarrow> [] | Some k \<Rightarrow> [k\<lparr>bk_RequestedName := b\<rparr>]) req)"

lemma resolve_buckets_exact:
  assumes "\<forall>k \<in> set all. bk_Endpoint k \<noteq> None"
  shows "resolve_buckets all req h bs ms =
    Some (last_endpoint (found_buckets all req) h, bs @ found_buckets all req, ms @ filter (\<lambda>b. bucket_for all b = None) req)"
proof (induction req arbitrary: h bs ms)
  case (Cons b req)
  have "k \<in> set all" if "bucket_for all b = Some k" for k
    using that by (auto simp: bucket_for_def find_Some_iff)
  with assms Cons.IH show ?case
    by (auto simp: found_buckets_def last_endpoint_def bucket_for_def split: option.splits) fastforce+
qed (simp add: found_buckets_def last_endpoint_def)

text \<open>
  With app-interface an app that asks for buckets gets an error or all of them: every requested bucket is the first described one whose name begins with the
  request. When some bucket is found but none found has an endpoint, that is the error; otherwise, when some request matches no bucket, exactly these requests are named.
\<close>

theorem app_interface_buckets_exact:
  fixes req :: "string list"
  assumes "listSecrets (app_Namespace app) (prov_World p) = Inr secrets" and "app_ObjectStore (app_Spec app) = req" and "req \<noteq> []"
    and "all = described_buckets secrets" and "prov_Config p = Some c"
  shows "appInterfaceObjectstore_Provide listSecrets stack app p =
    (let found = found_buckets all req; host = last_endpoint found ''''; missing = filter (\<lambda>b. bucket_for all b = None) req
     in if found \<noteq> [] \<and> host = '''' then Some (p, Inl (NewClowderError stack ''Could not find object store hostname from secrets''))
        else if missing \<noteq> [] then Some (p, Inl (NewClowderError stack (''Missing buckets from app-interface: '' @ join '', '' missing)))
        else Some (p\<lparr>prov_Config := Some (c\<lparr>cfg_ObjectStore := Some \<lparr>osf_AccessKey = None, osf_Buckets = found, osf_Hostname = host,
               osf_Port = 443, osf_SecretKey = None, osf_Tls = True\<rparr>\<rparr>)\<rparr>, Inr ()))"
proof -
  have "resolve_buckets all req '''' [] [] = Some (last_endpoint (found_buckets all req) '''', found_buckets all req, filter (\<lambda>b. bucket_for all b = None) req)"
    using resolve_buckets_exact [of all req "''''" "[]" "[]"] described_endpoints assms(4) by simp
  then show ?thesis
    using assms unfolding appInterfaceObjectstore_Provide_def genObjStoreConfig_buckets resolveBucketDeps_def Let_def
    by (simp add: and_next_def map_err_def or_panic_def set_config_def the_config_def reads_def)
qed

text \<open>A request is matched by prefix, so it can be given another bucket although one of that very name is described.\<close>

lemma prefix_takes_other_bucket:
  "\<exists>secrets. bucket_for (described_buckets secrets) ''logs'' \<noteq> None \<and> map bk_Name (described_buckets secrets) = [''logs-archive'', ''logs'']
     \<and> bk_Name (the (bucket_for (described_buckets secrets) ''logs'')) = ''logs-archive''"
  by (rule exI [of _ "[KSecretObj_zero\<lparr>sec_Data := [''aws_access_key_id'' \<mapsto> ''a'', ''aws_secret_access_key'' \<mapsto> ''s'', ''bucket'' \<mapsto> ''logs-archive'']\<rparr>,
        KSecretObj_zero\<lparr>sec_Data := [''aws_access_key_id'' \<mapsto> ''a'', ''aws_secret_access_key'' \<mapsto> ''s'', ''bucket'' \<mapsto> ''logs'']\<rparr>]"])
    (simp add: described_buckets_def bucket_for_def bucket_config_def has_prefix_def KSecretObj_zero_def ObjectMeta_zero_def)

section \<open>Examples\<close>

definition sample_bucket_secret :: KSecretObj where
  "sample_bucket_secret = KSecretObj_zero\<lparr>sec_Data := [''aws_access_key_id'' \<mapsto> ''a'', ''aws_secret_access_key'' \<mapsto> ''s'', ''bucket'' \<mapsto> ''logs-1'', ''endpoint'' \<mapsto> ''s3'']\<rparr>"

definition sample_store_app :: "string list \<Rightarrow> ClowdApp" where
  "sample_store_app bs = ClowdApp_zero\<lparr>app_Spec := ClowdAppSpec_zero\<lparr>app_ObjectStore := bs\<rparr>\<rparr>"

definition sample_store_provider :: "'w \<Rightarrow> ('w, unit) Provider" where
  "sample_store_provider w = \<lparr>prov_World = w, prov_Env = ClowdEnvironment_zero, prov_Cache = Some (), prov_Config = Some AppConfig_zero, prov_HashCache = []\<rparr>"

theorem app_interface_buckets_exact_witness:
  "appInterfaceObjectstore_Provide (\<lambda>ns w. Inr [sample_bucket_secret]) ''st'' (sample_store_app [''logs'', ''data'']) (sample_store_provider ()) =
     Some (sample_store_provider (), Inl (NewClowderError ''st'' ''Missing buckets from app-interface: data''))"
  using app_interface_buckets_exact [of "\<lambda>ns w. Inr [sample_bucket_secret]" "sample_store_app [''logs'', ''data'']" "sample_store_provider ()"
      "[sample_bucket_secret]" "[''logs'', ''data'']" "described_buckets [sample_bucket_secret]" AppConfig_zero "''st''"]
  by (simp add: sample_store_app_def sample_store_provider_def described_buckets_def sample_bucket_secret_def KSecretObj_zero_def ObjectMeta_zero_def ClowdAppSpec_zero_def
      found_buckets_def bucket_for_def bucket_config_def has_prefix_def last_endpoint_def)

text \<open>A MinIO that holds a list of buckets.\<close>

definition sample_minio :: "(string list, unit) MinioDeps" where
  "sample_minio = \<lparr>mn_Prov = \<lparr>pd_GetSecret = (\<lambda>nn w. Inr (KSecretObj_zero\<lparr>sec_Data := [''hostname'' \<mapsto> ''minio'', ''port'' \<mapsto> ''9'', ''accessKey'' \<mapsto> ''a'']\<rparr>)),
       pd_ListApps = (\<lambda>w n. Inr []), pd_Labeler = (\<lambda>ls nn o' m. m), pd_Sha = (\<lambda>s. s), pd_Marshal = (\<lambda>m. Inr ''''), pd_Loaded = ClowderConfig_zero, pd_Stack = ''st''\<rparr>,
     mn_Makers = \<lparr>mk_Labeler = (\<lambda>nn ls o' m. m), mk_Service = (\<lambda>s nn ls ps o' np. s), mk_PVC = (\<lambda>c nn ls q o'. c), mk_Annotate = (++), mk_MustParse = Some, mk_Loaded = ClowderConfig_zero\<rparr>,
     mn_Comp = \<lparr>cmp_Kinds = (\<lambda>i. Inr ([], False)), cmp_New = (\<lambda>k. Inl (PlainErr k)), cmp_Create = (\<lambda>i nn k s. (s, Inr k)), cmp_Update = (\<lambda>i k s. (s, None)), cmp_Iter = (\<lambda>m. m), cmp_Stack = ''st''\<rparr>,
     mn_Secret = quiet_resource KSecretObj_zero, mn_Policy = quiet_resource \<lparr>np_ObjectMeta = ObjectMeta_zero, np_From = [], np_PolicyTypes = []\<rparr>,
     mn_New = (\<lambda>cl. None), mn_BucketExists = (\<lambda>cl b w. Inr (b \<in> set w)), mn_MakeBucket = (\<lambda>cl b w. (b # w, None)),
     mn_RandAccess = (\<lambda>w. ''a''), mn_RandSecret = (\<lambda>w. ''s''), mn_ReadFile = (\<lambda>f. None)\<rparr>"

theorem minio_buckets_exist_witness:
  "\<exists>p'. minio_Provide sample_minio \<lparr>mc_Endpoint = ''minio:9'', mc_AccessKey = ''a'', mc_SecretKey = ''''\<rparr> (sample_store_app [''new'', ''old'']) (sample_store_provider [''old'']) = Some (p', Inr ())
    \<and> set (prov_World p') = {''old'', ''new''}"
proof -
  let ?cl = "\<lparr>mc_Endpoint = ''minio:9'', mc_AccessKey = ''a'', mc_SecretKey = ''''\<rparr>"
  let ?run = "minio_Provide sample_minio ?cl (sample_store_app [''new'', ''old'']) (sample_store_provider [''old''])"
  have "case ?run of Some (p', Inr x) \<Rightarrow> True | _ \<Rightarrow> False" by code_simp
  then obtain p' where run: "?run = Some (p', Inr ())" unfolding some_ok by auto
  have "bucket_store sample_minio ?cl set" by (simp add: bucket_store_def sample_minio_def)
  from minio_buckets_exist [OF this run] run show ?thesis
    by (auto simp: sample_store_app_def sample_store_provider_def ClowdAppSpec_zero_def)
qed

end
