(* ===== verification/In_Memory_Db.thy ===== *)
theory In_Memory_Db
  imports Object_Store
begin

text \<open>
  The in-memory database: a Redis of the app's own or of an app it depends on (\<open>providers/inmemorydb/redis.go\<close>), or an ElastiCache that exists already and is
  described by a secret (\<open>providers/inmemorydb/elasticache.go\<close>).

  The facts: the Redis that is deployed is the one the configuration points to; which secret an ElastiCache is taken from, and what is reported when there is none.
\<close>

section \<open>Redis\<close>

datatype redis_ident = RedisDeployment | RedisService

record ('w, 'c) RedisDeps =
  rd_Prov :: "'w ProvDeps"
  rd_Makers :: ObjMakers
  rd_Comp :: "('w \<times> 'c, redis_ident) CompDeps"
  rd_Secret :: "('w \<times> 'c, KSecretObj) Resource"
  rd_ConfigMap :: "('w \<times> 'c, KConfigMapObj) Resource"

abbreviation rd_Stack :: "('w, 'c) RedisDeps \<Rightarrow> string" where "rd_Stack d \<equiv> pd_Stack (rd_Prov d)"

definition imdb_checkDependency :: "string \<Rightarrow> ClowdApp \<Rightarrow> goerr option" where
  "imdb_checkDependency stack app =
     (if scan (\<lambda>appName. app_SharedInMemoryDBAppName (app_Spec app) = appName) (app_Dependencies (app_Spec app)) then None
      else Some (NewClowderError stack ''The requested app's in memory db was not found in the dependencies''))"

text \<open>The configuration \<open>Populate\<close> fills; on an error what it has written so far is dropped.\<close>

definition imdb_populated :: "smap \<Rightarrow> goerr + InMemoryDBCfg" where
  "imdb_populated secMap =
     (case InMemoryDBConfig_Populate secMap \<lparr>imdb_Hostname = '''', imdb_Password = None, imdb_Port = 0, imdb_SslMode = None, imdb_Username = None\<rparr> of
        (cfg, None) \<Rightarrow> Inr cfg | (_, Some err) \<Rightarrow> Inl err)"

definition processSharedInMemoryDb :: "('w, 'c) RedisDeps \<Rightarrow> ClowdApp \<Rightarrow> (('w, 'c) Provider, unit) op" where
  "processSharedInMemoryDb d app =
     (case imdb_checkDependency (rd_Stack d) app of
        Some err \<Rightarrow> fail err
      | None \<Rightarrow>
          and_next (\<lambda>p. Some (p, GetAppForDBInSameEnv (pd_ListApps (rd_Prov d) (prov_World p)) app True)) (\<lambda>refApp.
          and_next (map_err (Wrap (rd_Stack d) ''Couldn't set/get secret'')
                     (get_secret (rd_Prov d) (NN (app_Name refApp @ ''-redis'') (app_Namespace refApp)))) (\<lambda>secret.
          and_next (map_err (Wrap (rd_Stack d) ''couldn't convert to int'') (result (imdb_populated (sec_Data secret)))) (\<lambda>shimdbCfg.
            set_config (\<lambda>c. c\<lparr>cfg_InMemoryDb := Some shimdbCfg\<rparr>)))))"

definition redis_container :: "NamespacedName \<Rightarrow> string \<Rightarrow> Container" where
  "redis_container nn img = Container_zero\<lparr>
     ct_Name := nn_Name nn, ct_Image := img, ct_Env := [], ct_Ports := [tcp_port ''redis'' 6379],
     ct_LivenessProbe := Some (component_probe (ExecAction [''valkey-cli'']) 15 2 10), ct_ReadinessProbe := Some (component_probe (ExecAction [''valkey-cli'']) 45 2 10),
     ct_VolumeMounts := [\<lparr>vm_Name = nn_Name nn, vm_ReadOnly = False, vm_MountPath = ''/etc/redis''\<rparr>],
     ct_TerminationMessagePath := ''/dev/termination-log'', ct_TerminationMessagePolicy := ''File'', ct_ImagePullPolicy := ''IfNotPresent''\<rparr>"

definition makeLocalRedis :: "ObjMakers \<Rightarrow> redis_ident maker" where
  "makeLocalRedis M env o' objMap _ nodePort =
     (let nn = GetNamespacedName o' ''redis''; labels = (component_labels o' nn)(''service'' \<mapsto> ''redis'')
      in map_option Inr (fill_component M RedisDeployment RedisService nn labels o' nodePort
           (\<lambda>t. t\<lparr>pt_Volumes := [Volume_zero\<lparr>vol_Name := nn_Name nn, vol_ConfigMap := Some \<lparr>vs_Name = nn_Name nn, vs_DefaultMode = Some 420, vs_Optional = None\<rparr>\<rparr>],
                  pt_Containers := [redis_container nn (GetInMemoryDBImage (mk_Loaded M) env)]\<rparr>)
           [service_port ''redis'' 6379] objMap))"

definition redis_data :: "ClowdApp \<Rightarrow> smap" where
  "redis_data app = map_of [(''hostname'', app_Name app @ ''-redis.'' @ app_Namespace app @ ''.svc''), (''port'', ''6379''), (''sslmode'', ''false'')]"

definition redis_config_map :: "ObjMakers \<Rightarrow> NamespacedName \<Rightarrow> ClowdApp \<Rightarrow> KConfigMapObj \<Rightarrow> KConfigMapObj" where
  "redis_config_map M nn app cm = cm\<lparr>cm_ObjectMeta := mk_Labeler M nn Map.empty (AppObject app) (cm_ObjectMeta cm),
     cm_Data := [''redis.conf'' \<mapsto> ''stop-writes-on-bgsave-error no'' @ [CHR 0x0A] @ ''protected-mode no'']\<rparr>"

definition redis_Provide :: "('w, 'c) RedisDeps \<Rightarrow> ClowdApp \<Rightarrow> (('w, 'c) Provider, unit) op" where
  "redis_Provide d app =
     (if \<not> app_InMemoryDB (app_Spec app) then ret ()
      else if app_SharedInMemoryDBAppName (app_Spec app) \<noteq> '''' then processSharedInMemoryDb d app
      else (let nn = GetNamespacedName (AppObject app) ''redis''
            in and_next (map_err (Wrap (rd_Stack d) ''Couldn't set/get secret'') (make_or_get (\<lambda>_. AppObject app) (rd_Secret d) nn (redis_data app))) (\<lambda>secMap.
               and_next (map_err (Wrap (rd_Stack d) ''couldn't populate creds'') (result (imdb_populated secMap))) (\<lambda>creds.
               and_next (with_resource (rd_ConfigMap d) nn (redis_config_map (rd_Makers d) nn app)) (\<lambda>_.
               and_next (set_config (\<lambda>c. c\<lparr>cfg_InMemoryDb := Some creds\<rparr>)) (\<lambda>_.
                 make_component (rd_Comp d) [RedisDeployment, RedisService] (\<lambda>_. AppObject app) ''redis'' (makeLocalRedis (rd_Makers d)) False))))))"

section \<open>ElastiCache\<close>

definition elasticache_creds :: "smap \<Rightarrow> int \<Rightarrow> InMemoryDBCfg" where
  "elasticache_creds data' port = \<lparr>imdb_Hostname = mget data' ''db.endpoint'',
     imdb_Password = (if mget data' ''db.auth_token'' \<noteq> '''' then Some (mget data' ''db.auth_token'') else None),
     imdb_Port = port, imdb_SslMode = Some True, imdb_Username = None\<rparr>"

definition elasticache_missing :: "string \<Rightarrow> goerr" where
  "elasticache_missing ecNameSpace = MakeMissingDependencies \<lparr>md_Source = ''inmemorydb'',
     md_Details = ''No inmemorydb secret named '' @ [CHR 0x27] @ ''in-memory-db'' @ [CHR 0x27] @ '' found in namespace '' @ [CHR 0x27] @ ecNameSpace @ [CHR 0x27]\<rparr>"

text \<open>The first secret of the name decides.\<close>

fun elasticache_scan :: "string \<Rightarrow> string \<Rightarrow> KSecretObj list \<Rightarrow> goerr + InMemoryDBCfg" where
  "elasticache_scan stack ecNameSpace [] = Inl (elasticache_missing ecNameSpace)"
| "elasticache_scan stack ecNameSpace (secret # secrets) =
     (if om_Name (sec_ObjectMeta secret) = ''in-memory-db''
      then (case atoi (mget (sec_Data secret) ''db.port'') of
              None \<Rightarrow> Inl (Wrap stack (''failed to parse port from secret '' @ [CHR 0x27] @ ''in-memory-db'' @ [CHR 0x27] @ '' in namespace '' @ [CHR 0x27] @ ecNameSpace @ [CHR 0x27])
                          (atoi_err (mget (sec_Data secret) ''db.port'')))
            | Some port \<Rightarrow> Inr (elasticache_creds (sec_Data secret) port))
      else elasticache_scan stack ecNameSpace secrets)"

definition elasticache_Provide :: "'w ProvDeps \<Rightarrow> (string \<Rightarrow> 'w \<Rightarrow> goerr + KSecretObj list) \<Rightarrow> ClowdApp \<Rightarrow> (('w, 'c) Provider, unit) op" where
  "elasticache_Provide d listSecrets app =
     (if \<not> app_InMemoryDB (app_Spec app) then ret ()
      else and_next (if app_SharedInMemoryDBAppName (app_Spec app) \<noteq> ''''
                     then (case imdb_checkDependency (pd_Stack d) app of
                             Some err \<Rightarrow> fail err
                           | None \<Rightarrow> and_next (\<lambda>p. Some (p, GetAppForDBInSameEnv (pd_ListApps d (prov_World p)) app True)) (\<lambda>refApp. ret (app_Namespace refApp)))
                     else ret (app_Namespace app)) (\<lambda>ecNameSpace.
           and_next (map_err (Wrap (pd_Stack d) (''Failed to list secrets in '' @ ecNameSpace)) (\<lambda>p. Some (p, listSecrets ecNameSpace (prov_World p)))) (\<lambda>secrets.
           and_next (result (elasticache_scan (pd_Stack d) ecNameSpace secrets)) (\<lambda>creds.
             set_config (\<lambda>c. c\<lparr>cfg_InMemoryDb := Some creds\<rparr>)))))"

datatype inmemorydb_mode = LocalRedis | Elasticache | NoneInMemoryDb

definition GetInMemoryDB :: "string \<Rightarrow> ClowdEnvironment \<Rightarrow> goerr + inmemorydb_mode" where
  "GetInMemoryDB stack env =
     (let dbMode = imc_Mode (pv_InMemoryDB (env_Providers (env_Spec env)))
      in if dbMode = ''redis'' then Inr LocalRedis
         else if dbMode = ''elasticache'' then Inr Elasticache
         else if dbMode \<in> {''none'', ''''} then Inr NoneInMemoryDb
         else Inl (NewClowderError stack (''No matching in-memory db mode for '' @ dbMode)))"

section \<open>The Redis that is deployed\<close>

interpretation redis: component_maker makeLocalRedis RedisDeployment RedisService "''redis''" "[service_port ''redis'' 6379]"
proof
  fix M env o' m usePVC nodePort made
  assume run: "makeLocalRedis M env o' m usePVC nodePort = Some (Inr made)"
  show "map fst made = map fst m"
    using run by (auto simp: makeLocalRedis_def Let_def dest: fill_component_keys)
  assume laws: "makers_laws M"
  show "\<exists>dd s. the_deployment made RedisDeployment = Some dd \<and> the_service made RedisService = Some s \<and> served dd s \<and> svc_Ports s = [service_port ''redis'' 6379]
      \<and> comp_NN (DeploymentObj dd) = GetNamespacedName o' ''redis'' \<and> comp_NN (ServiceObj s) = GetNamespacedName o' ''redis''"
    using run unfolding makeLocalRedis_def Let_def map_option_eq_Some
    by (auto dest!: fill_component_served [OF laws] simp: component_ports redis_container_def)
qed

lemma imdb_populated_redis:
  "imdb_populated (redis_data app) = Inr \<lparr>imdb_Hostname = app_Name app @ ''-redis.'' @ app_Namespace app @ ''.svc'', imdb_Password = None, imdb_Port = 6379,
     imdb_SslMode = Some False, imdb_Username = None\<rparr>"
proof -
  have "atoi ''6379'' = Some 6379" "parseBool ''false'' = Some False" by code_simp+
  then show ?thesis by (simp add: imdb_populated_def InMemoryDBConfig_Populate_def redis_data_def)
qed

lemma make_or_get_data:
  assumes "make_or_get obj r nn dataInit p = Some (p', Inr secMap)"
    and "\<forall>s s' k. res_Create r nn s = (s', Inr k) \<longrightarrow> sec_Data k = Map.empty \<or> sec_Data k = dataInit"
  shows "secMap = dataInit"
  using make_or_get_from [OF assms(1)] assms(2) by metis

text \<open>
  C28. The Redis of an app is reachable as configured: unless its secret was written by someone else, after a successful run the configuration names the host and port of a
  service that is recorded under that name, selects the pods of the recorded deployment and forwards to a port they listen on.
\<close>

theorem redis_reachable:
  assumes "makers_laws (rd_Makers d)" and "component_cache (rd_Comp d) recorded"
    and "\<forall>s s' k. res_Create (rd_Secret d) (GetNamespacedName (AppObject app) ''redis'') s = (s', Inr k) \<longrightarrow> sec_Data k = Map.empty \<or> sec_Data k = redis_data app"
    and "app_InMemoryDB (app_Spec app)" and "app_SharedInMemoryDBAppName (app_Spec app) = ''''"
    and "redis_Provide d app p = Some (p', Inr ())" and "nn = GetNamespacedName (AppObject app) ''redis''"
  shows "\<exists>c cfg dd s. prov_Config p' = Some c \<and> cfg_InMemoryDb c = Some cfg
    \<and> prov_recorded recorded p' RedisDeployment nn = Some (DeploymentObj dd) \<and> prov_recorded recorded p' RedisService nn = Some (ServiceObj s)
    \<and> imdb_Hostname cfg = nn_Name nn @ ''.'' @ nn_Namespace nn @ ''.svc'' \<and> imdb_Port cfg \<in> sp_Port ` set (svc_Ports s) \<and> served dd s"
proof -
  from assms(4-7) obtain p1 secMap creds p2 p3 where s: "make_or_get (\<lambda>_. AppObject app) (rd_Secret d) nn (redis_data app) p = Some (p1, Inr secMap)"
    and creds: "imdb_populated secMap = Inr creds" and p3: "set_config (\<lambda>c. c\<lparr>cfg_InMemoryDb := Some creds\<rparr>) p2 = Some (p3, Inr ())"
    and mk: "make_component (rd_Comp d) [RedisDeployment, RedisService] (\<lambda>_. AppObject app) ''redis'' (makeLocalRedis (rd_Makers d)) False p3 = Some (p', Inr ())"
    by (auto simp: redis_Provide_def Let_def op_oks)
  have "secMap = redis_data app" using make_or_get_data [OF s] assms(3,7) by blast
  with creds have cfg: "creds = \<lparr>imdb_Hostname = nn_Name nn @ ''.'' @ nn_Namespace nn @ ''.svc'', imdb_Password = None, imdb_Port = 6379, imdb_SslMode = Some False, imdb_Username = None\<rparr>"
    by (simp add: imdb_populated_redis assms(7) GetNamespacedName_def)
  moreover obtain c where "prov_Config p3 = Some (c\<lparr>cfg_InMemoryDb := Some creds\<rparr>)" using p3 by (auto simp: set_config_ok)
  then have "prov_Config p' = Some (c\<lparr>cfg_InMemoryDb := Some creds\<rparr>)" using make_component_frame [OF mk] by simp
  moreover obtain dd s where "prov_recorded recorded p' RedisDeployment nn = Some (DeploymentObj dd)" "prov_recorded recorded p' RedisService nn = Some (ServiceObj s)"
    "served dd s" "svc_Ports s = [service_port ''redis'' 6379]"
    using redis.component_ready [OF assms(1,2) mk] assms(7) by blast
  ultimately show ?thesis by (auto simp: service_port_def intro!: exI [of _ dd] exI [of _ s])
qed

section \<open>The ElastiCache that is found\<close>

text \<open>
  For an app with an ElastiCache of its own the first secret of the name \<open>in-memory-db\<close> in its namespace decides: without one the missing dependency is reported, a port that is no number
  is an error, and otherwise the configuration is what the secret describes, with a password only if it holds one. The other secrets do not matter.
\<close>

theorem elasticache_secret_decides:
  assumes "app_InMemoryDB (app_Spec app)" and "app_SharedInMemoryDBAppName (app_Spec app) = ''''"
    and "listSecrets (app_Namespace app) (prov_World p) = Inr secrets" and "prov_Config p = Some c"
  shows "elasticache_Provide d listSecrets app p =
    (case find (\<lambda>s. om_Name (sec_ObjectMeta s) = ''in-memory-db'') secrets of
       None \<Rightarrow> Some (p, Inl (elasticache_missing (app_Namespace app)))
     | Some s \<Rightarrow>
         (case atoi (mget (sec_Data s) ''db.port'') of
            None \<Rightarrow> Some (p, Inl (Wrap (pd_Stack d) (''failed to parse port from secret '' @ [CHR 0x27] @ ''in-memory-db'' @ [CHR 0x27] @ '' in namespace '' @ [CHR 0x27] @ app_Namespace app @ [CHR 0x27])
                      (atoi_err (mget (sec_Data s) ''db.port''))))
          | Some port \<Rightarrow> Some (p\<lparr>prov_Config := Some (c\<lparr>cfg_InMemoryDb := Some (elasticache_creds (sec_Data s) port)\<rparr>)\<rparr>, Inr ())))"
proof -
  have "elasticache_scan st ns secrets = (case find (\<lambda>s. om_Name (sec_ObjectMeta s) = ''in-memory-db'') secrets of
       None \<Rightarrow> Inl (elasticache_missing ns)
     | Some s \<Rightarrow>
         (case atoi (mget (sec_Data s) ''db.port'') of
            None \<Rightarrow> Inl (Wrap st (''failed to parse port from secret '' @ [CHR 0x27] @ ''in-memory-db'' @ [CHR 0x27] @ '' in namespace '' @ [CHR 0x27] @ ns @ [CHR 0x27])
                      (atoi_err (mget (sec_Data s) ''db.port'')))
          | Some port \<Rightarrow> Inr (elasticache_creds (sec_Data s) port)))" for st ns
    by (induction secrets) simp_all
  with assms show ?thesis
    by (simp add: elasticache_Provide_def and_next_def map_err_def set_config_def the_config_def reads_def split: option.splits)
qed

section \<open>Examples\<close>

text \<open>A cache that records the objects of a component under their identifiers and names, and makers that do what is promised.\<close>

definition sample_makers :: ObjMakers where
  "sample_makers = \<lparr>mk_Labeler = (\<lambda>nn ls o' m. m\<lparr>om_Name := nn_Name nn, om_Namespace := nn_Namespace nn, om_Labels := ls\<rparr>),
     mk_Service = (\<lambda>s nn ls ps o' np. s\<lparr>svc_ObjectMeta := (svc_ObjectMeta s)\<lparr>om_Name := nn_Name nn, om_Namespace := nn_Namespace nn\<rparr>, svc_Selector := ls, svc_Ports := ps\<rparr>),
     mk_PVC = (\<lambda>c nn ls q o'. c), mk_Annotate = (++), mk_MustParse = Some, mk_Loaded = ClowderConfig_zero\<rparr>"

lemma sample_makers_laws: "makers_laws sample_makers"
  by (simp add: makers_laws_def sample_makers_def Let_def map_add_def)

definition sample_new :: "string \<Rightarrow> goerr + comp_obj" where
  "sample_new k = (if k = ''Deployment'' then Inr (DeploymentObj KDeployment_zero)
     else Inr (ServiceObj \<lparr>svc_ObjectMeta = ObjectMeta_zero, svc_Selector = Map.empty, svc_Ports = [], svc_Type = '''', svc_SessionAffinity = ''''\<rparr>))"

definition sample_comp :: "('i \<Rightarrow> string) \<Rightarrow> (unit \<times> ('i \<Rightarrow> NamespacedName \<rightharpoonup> comp_obj), 'i) CompDeps" where
  "sample_comp kind = \<lparr>cmp_Kinds = (\<lambda>i. Inr ([kind i], False)), cmp_New = sample_new, cmp_Create = (\<lambda>i nn k s. (s, Inr k)),
     cmp_Update = (\<lambda>i k s. ((fst s, (snd s)(i := (snd s i)(comp_NN k \<mapsto> k))), None)), cmp_Iter = (\<lambda>m. m), cmp_Stack = ''st''\<rparr>"

lemma sample_comp_laws: "component_cache (sample_comp kind) snd"
  by (simp add: component_cache_def sample_comp_def go_iteration_def)

definition quiet_prov_deps :: "'w ProvDeps" where
  "quiet_prov_deps = \<lparr>pd_GetSecret = (\<lambda>nn w. Inr KSecretObj_zero), pd_ListApps = (\<lambda>w n. Inr []), pd_Labeler = (\<lambda>ls nn o' m. m), pd_Sha = (\<lambda>s. s),
     pd_Marshal = (\<lambda>m. Inr ''''), pd_Loaded = ClowderConfig_zero, pd_Stack = ''st''\<rparr>"

definition sample_redis :: "(unit, redis_ident \<Rightarrow> NamespacedName \<rightharpoonup> comp_obj) RedisDeps" where
  "sample_redis = \<lparr>rd_Prov = quiet_prov_deps, rd_Makers = sample_makers, rd_Comp = sample_comp (\<lambda>i. case i of RedisDeployment \<Rightarrow> ''Deployment'' | RedisService \<Rightarrow> ''Service''),
     rd_Secret = quiet_resource KSecretObj_zero, rd_ConfigMap = quiet_resource \<lparr>cm_ObjectMeta = ObjectMeta_zero, cm_Data = Map.empty\<rparr>\<rparr>"

definition sample_redis_app :: ClowdApp where
  "sample_redis_app = ClowdApp_zero\<lparr>app_Spec := ClowdAppSpec_zero\<lparr>app_InMemoryDB := True\<rparr>\<rparr>"

definition sample_comp_provider :: "(unit, 'i \<Rightarrow> NamespacedName \<rightharpoonup> comp_obj) Provider" where
  "sample_comp_provider = \<lparr>prov_World = (), prov_Env = ClowdEnvironment_zero, prov_Cache = Some (\<lambda>i. Map.empty), prov_Config = Some AppConfig_zero, prov_HashCache = []\<rparr>"

lemma sample_redis_runs: "\<exists>p'. redis_Provide sample_redis sample_redis_app sample_comp_provider = Some (p', Inr ())"
proof -
  have atoi: "atoi ''6379'' = Some 6379" "parseBool ''false'' = Some False" by code_simp+
  show ?thesis
    by (simp add: redis_Provide_def sample_redis_app_def ClowdAppSpec_zero_def Let_def op_oks make_or_get_def cached_def sample_comp_provider_def sample_redis_def
        quiet_resource_def MakeOrGetSecret_def KSecretObj_zero_def imdb_populated_def InMemoryDBConfig_Populate_def redis_data_def atoi with_resource_def cache_Create_def
        cache_Update_def set_config_ok make_component_def sample_comp_def comp_create_def createResource_def sample_new_def object_map_def makeLocalRedis_def
        fill_component_def the_deployment_def the_service_def update_all_def comp_update_def updateResource_def put_obj_def)
qed

theorem redis_reachable_witness:
  "\<exists>p' c cfg dd s. redis_Provide sample_redis sample_redis_app sample_comp_provider = Some (p', Inr ()) \<and> prov_Config p' = Some c \<and> cfg_InMemoryDb c = Some cfg
     \<and> the (prov_Cache p') RedisDeployment (NN ''-redis'' '''') = Some (DeploymentObj dd) \<and> the (prov_Cache p') RedisService (NN ''-redis'' '''') = Some (ServiceObj s)
     \<and> served dd s \<and> imdb_Port cfg \<in> sp_Port ` set (svc_Ports s)"
proof -
  obtain p' where run: "redis_Provide sample_redis sample_redis_app sample_comp_provider = Some (p', Inr ())" using sample_redis_runs by blast
  have "makers_laws (rd_Makers sample_redis)" "component_cache (rd_Comp sample_redis) snd"
    by (simp_all add: sample_redis_def sample_makers_laws sample_comp_laws)
  moreover have "GetNamespacedName (AppObject sample_redis_app) ''redis'' = NN ''-redis'' ''''"
    by (simp add: sample_redis_app_def ClowdApp_zero_def ObjectMeta_zero_def GetNamespacedName_def)
  ultimately have "\<exists>c cfg dd s. prov_Config p' = Some c \<and> cfg_InMemoryDb c = Some cfg \<and> prov_recorded snd p' RedisDeployment (NN ''-redis'' '''') = Some (DeploymentObj dd)
      \<and> prov_recorded snd p' RedisService (NN ''-redis'' '''') = Some (ServiceObj s) \<and> imdb_Hostname cfg = nn_Name (NN ''-redis'' '''') @ ''.'' @ nn_Namespace (NN ''-redis'' '''') @ ''.svc''
      \<and> imdb_Port cfg \<in> sp_Port ` set (svc_Ports s) \<and> served dd s"
    by (intro redis_reachable [OF _ _ _ _ _ run]) (simp_all add: sample_redis_app_def ClowdAppSpec_zero_def sample_redis_def quiet_resource_def KSecretObj_zero_def)
  with run show ?thesis by auto
qed

theorem elasticache_secret_decides_witness:
  "elasticache_Provide quiet_prov_deps (\<lambda>ns w. Inr [KSecretObj_zero\<lparr>sec_ObjectMeta := ObjectMeta_zero\<lparr>om_Name := ''in-memory-db''\<rparr>,
       sec_Data := [''db.port'' \<mapsto> ''x'']\<rparr>]) sample_redis_app (sample_store_provider ()) =
     Some (sample_store_provider (), Inl (Wrap ''st'' (''failed to parse port from secret '' @ [CHR 0x27] @ ''in-memory-db'' @ [CHR 0x27] @ '' in namespace '' @ [CHR 0x27, CHR 0x27])
       (atoi_err ''x'')))"
proof -
  have "atoi ''x'' = None" by code_simp
  then show ?thesis
    using elasticache_secret_decides [of sample_redis_app "\<lambda>ns w. Inr [KSecretObj_zero\<lparr>sec_ObjectMeta := ObjectMeta_zero\<lparr>om_Name := ''in-memory-db''\<rparr>,
         sec_Data := [''db.port'' \<mapsto> ''x'']\<rparr>]" "sample_store_provider ()" _ AppConfig_zero quiet_prov_deps]
    by (simp add: sample_redis_app_def ClowdAppSpec_zero_def sample_store_provider_def quiet_prov_deps_def ClowdApp_zero_def ObjectMeta_zero_def)
qed

end
