(* ===== verification/Feature_Flags.thy ===== *)
theory Feature_Flags
  imports In_Memory_Db
begin

text \<open>
  Feature flags: an Unleash server with its database and an edge proxy for the environment (\<open>providers/featureflags/localfeatureflags.go\<close>), or a server that exists already
  (\<open>providers/featureflags/appinterface.go\<close>). The local database is made the way the Keycloak of the local web provider makes its own, by \<open>local_database\<close>.

  The facts: the server the configuration of an app points to is deployed and its service reaches it, and the ingress leads to the edge proxy; what the provider for an existing
  server demands.
\<close>

abbreviation env_FeatureFlags :: "ClowdEnvironment \<Rightarrow> FeatureFlagsConfig" where
  "env_FeatureFlags e \<equiv> pv_FeatureFlags (env_Providers (env_Spec e))"

section \<open>A database for a service of the environment\<close>

text \<open>The data of the secret is made from a random user name and two random passwords. Unlike the databases of apps, the SSL mode of the configuration stays empty.\<close>

definition service_db_data :: "NamespacedName \<Rightarrow> string \<Rightarrow> string \<Rightarrow> string \<Rightarrow> string \<Rightarrow> (string \<times> string) list" where
  "service_db_data nn name username password pgPassword =
     [(''hostname'', nn_Name nn @ ''.'' @ nn_Namespace nn @ ''.svc''), (''port'', ''5432''), (''username'', username), (''password'', password),
      (''pgPass'', pgPassword), (''name'', name)]"

definition local_database ::
  "'w DbDeps \<Rightarrow> ('w \<times> 'c) DbResources \<Rightarrow> NamespacedName \<Rightarrow> (string \<Rightarrow> string \<Rightarrow> string \<Rightarrow> smap) \<Rightarrow> smap \<Rightarrow> (ClowdEnvironment \<Rightarrow> bool) \<Rightarrow> string
    \<Rightarrow> (('w, 'c) Provider, unit) op" where
  "local_database d R nn dataInit labels usePVC dbName =
     and_next (cache_Create (dr_Deployment R) nn) (\<lambda>dd.
     and_next (reads prov_World) (\<lambda>w.
     and_next (map_err (Wrap (db_Stack d) ''password generate failed'') (result (db_Password d w))) (\<lambda>password.
     and_next (map_err (Wrap (db_Stack d) ''pgPassword generate failed'') (result (db_PgPassword d w))) (\<lambda>pgPassword.
     and_next (map_err (Wrap (db_Stack d) ''Couldn't set/get secret'')
       (make_or_get env_object (dr_Secret R) nn (dataInit (db_RandString d w) password pgPassword))) (\<lambda>secMap.
     and_next (map_err (Wrap (db_Stack d) ''couldn't convert to int'') (result (DatabaseConfig_Populate secMap DatabaseCfg_zero))) (\<lambda>dbCfg.
     and_next (or_panic (requirements (db_MustParse d) (''100m'', ''200Mi'') (''50m'', ''100Mi''))) (\<lambda>res.
     and_next (result (GetDefaultDatabaseImage (db_Stack d) 16 False)) (\<lambda>img.
     and_next (reads prov_Env) (\<lambda>env.
     and_next (or_panic (MakeLocalDB (db_MakeLabeler d) (db_MustParse d) dd nn (EnvObject env) labels (dbCfg\<lparr>dbcf_AdminUsername := ''postgres''\<rparr>) img (usePVC env) dbName
       (Some res))) (\<lambda>dd'.
     and_next (cache_Update (dr_Deployment R) dd') (\<lambda>_.
     and_next (make_service d R nn (EnvObject env) labels) (\<lambda>_.
       if usePVC env
       then with_resource (dr_PVC R) nn (\<lambda>pvc. MakeLocalDBPVC (db_MakePVC d) pvc nn (EnvObject env) GetDefaultVolCapacity)
       else ret ()))))))))))))"

section \<open>The local server\<close>

datatype ff_ident = LocalFFDeployment | LocalFFService | LocalFFEdgeDeployment | LocalFFEdgeService

record ('w, 'c) FFDeps =
  ffd_Db :: "'w DbDeps"
  ffd_DbKinds :: "('w \<times> 'c) DbResources"
  ffd_Makers :: ObjMakers
  ffd_Comp :: "('w \<times> 'c, ff_ident) CompDeps"
  ffd_Secret :: "('w \<times> 'c, KSecretObj) Resource"
  ffd_Ingress :: "('w \<times> 'c, KIngress) Resource"
  ffd_RandHex :: "'w \<Rightarrow> string \<times> string"
  ffd_QueryEscape :: "string \<Rightarrow> string"

abbreviation ffd_Prov :: "('w, 'c) FFDeps \<Rightarrow> 'w ProvDeps" where "ffd_Prov d \<equiv> db_Prov (ffd_Db d)"
abbreviation ffd_Stack :: "('w, 'c) FFDeps \<Rightarrow> string" where "ffd_Stack d \<equiv> pd_Stack (ffd_Prov d)"

definition DefaultImageFeatureFlagsUnleash :: string where
  "DefaultImageFeatureFlagsUnleash = ''unleashorg/unleash-server:5.6.9''"

definition DefaultImageFeatureFlagsUnleashEdge :: string where
  "DefaultImageFeatureFlagsUnleashEdge = ''unleashorg/unleash-edge:v19.6.3''"

definition GetFeatureFlagsUnleashImage :: "ClowderConfig \<Rightarrow> ClowdEnvironment \<Rightarrow> string" where
  "GetFeatureFlagsUnleashImage lc env =
     (if ffi_Unleash (ff_Images (env_FeatureFlags env)) \<noteq> '''' then ffi_Unleash (ff_Images (env_FeatureFlags env))
      else if ci_FeatureFlagsUnleash (cc_Images lc) \<noteq> '''' then ci_FeatureFlagsUnleash (cc_Images lc)
      else DefaultImageFeatureFlagsUnleash)"

definition GetFeatureFlagsUnleashEdgeImage :: "ClowderConfig \<Rightarrow> ClowdEnvironment \<Rightarrow> string" where
  "GetFeatureFlagsUnleashEdgeImage lc env =
     (if ffi_UnleashEdge (ff_Images (env_FeatureFlags env)) \<noteq> '''' then ffi_UnleashEdge (ff_Images (env_FeatureFlags env))
      else if ci_FeatureFlagsUnleashEdge (cc_Images lc) \<noteq> '''' then ci_FeatureFlagsUnleashEdge (cc_Images lc)
      else DefaultImageFeatureFlagsUnleashEdge)"

definition featureFlagsPort :: int where "featureFlagsPort = 4242"

definition featureFlagsEdgePort :: int where "featureFlagsEdgePort = 3063"

definition unleash_container :: "NamespacedName \<Rightarrow> string \<Rightarrow> ResourceRequirements \<Rightarrow> Container" where
  "unleash_container nn img res = Container_zero\<lparr>
     ct_Name := nn_Name nn, ct_Image := img,
     ct_Env := AppendEnvVarsFromSecret
       (AppendEnvVarsFromSecret [plain_var ''DATABASE_SSL'' ''false''] ''featureflags-db'' [NewSecretEnvVar ''DATABASE_URL'' ''connectionURL''])
       (nn_Name nn) [NewSecretEnvVar ''INIT_CLIENT_API_TOKENS'' ''clientAccessToken'', NewSecretEnvVar ''INIT_ADMIN_API_TOKENS'' ''adminAccessToken''],
     ct_Ports := [tcp_port ''service'' featureFlagsPort],
     ct_LivenessProbe := Some (component_probe (HTTPGet ''/health'' '''' featureFlagsPort) 20 4 10),
     ct_ReadinessProbe := Some (component_probe (HTTPGet ''/health'' '''' featureFlagsPort) 40 4 10),
     ct_TerminationMessagePath := ''/dev/termination-log'', ct_TerminationMessagePolicy := ''File'', ct_ImagePullPolicy := ''IfNotPresent'', ct_Resources := res\<rparr>"

definition makeLocalFeatureFlags :: "ObjMakers \<Rightarrow> ff_ident maker" where
  "makeLocalFeatureFlags M _ o' objMap _ nodePort =
     (let nn = GetNamespacedName o' ''featureflags''; labels = (component_labels o' nn)(''service'' \<mapsto> ''featureflags'')
      in case o' of
           EnvObject env \<Rightarrow>
             (case requirements (mk_MustParse M) (''100m'', ''200Mi'') (''50m'', ''100Mi'') of
                None \<Rightarrow> None
              | Some res \<Rightarrow> map_option Inr (fill_component M LocalFFDeployment LocalFFService nn labels o' nodePort
                  (\<lambda>t. t\<lparr>pt_Containers := [unleash_container nn (GetFeatureFlagsUnleashImage (mk_Loaded M) env) res]\<rparr>)
                  [service_port ''featureflags'' featureFlagsPort] objMap))
         | _ \<Rightarrow> not_an_env LocalFFDeployment LocalFFService ''could not get env'' objMap)"

definition edge_container :: "NamespacedName \<Rightarrow> NamespacedName \<Rightarrow> string \<Rightarrow> ResourceRequirements \<Rightarrow> Container" where
  "edge_container nnFF nn img res = Container_zero\<lparr>
     ct_Name := nn_Name nn, ct_Image := img,
     ct_Env := AppendEnvVarsFromSecret [plain_var ''UPSTREAM_URL'' (''http://'' @ nn_Name nnFF @ '':'' @ itoa featureFlagsPort)] (nn_Name nnFF)
       [NewSecretEnvVar ''TOKENS'' ''clientAccessToken''],
     ct_Ports := [tcp_port ''service'' featureFlagsEdgePort], ct_Args := [''edge''],
     ct_ReadinessProbe := Some (component_probe (ExecAction [''/unleash-edge'', ''ready'']) 1 5 30),
     ct_LivenessProbe := Some (component_probe (ExecAction [''/unleash-edge'', ''health'']) 30 5 30),
     ct_ImagePullPolicy := ''IfNotPresent'', ct_Resources := res\<rparr>"

definition makeLocalFeatureFlagsEdge :: "ObjMakers \<Rightarrow> ff_ident maker" where
  "makeLocalFeatureFlagsEdge M _ o' objMap _ nodePort =
     (let nnFF = GetNamespacedName o' ''featureflags''; nn = GetNamespacedName o' ''featureflags-edge'';
          labels = (component_labels o' nnFF)(''service'' \<mapsto> ''unleash-edge'')
      in case o' of
           EnvObject env \<Rightarrow>
             (case requirements (mk_MustParse M) (''200m'', ''400Mi'') (''100m'', ''200Mi'') of
                None \<Rightarrow> None
              | Some res \<Rightarrow> map_option Inr (fill_component M LocalFFEdgeDeployment LocalFFEdgeService nn labels o' nodePort
                  (\<lambda>t. t\<lparr>pt_Containers := [edge_container nnFF nn (GetFeatureFlagsUnleashEdgeImage (mk_Loaded M) env) res]\<rparr>)
                  [service_port ''unleash-edge'' featureFlagsEdgePort] objMap))
         | _ \<Rightarrow> not_an_env LocalFFEdgeDeployment LocalFFEdgeService ''could not get env'' objMap)"

definition ff_ingress_object :: "ObjMakers \<Rightarrow> ClowdEnvironment \<Rightarrow> KIngress \<Rightarrow> KIngress" where
  "ff_ingress_object M env = env_ingress M (GetNamespacedName (EnvObject env) ''featureflags'') env []
     [\<lparr>ir_Host = '''', ir_Paths = [prefix_path ''/api/client/features'' (nn_Name (GetNamespacedName (EnvObject env) ''featureflags-edge'')) ''unleash-edge'']\<rparr>]"

definition makeLocalFFEdgeIngress :: "('w, 'c) FFDeps \<Rightarrow> (('w, 'c) Provider, unit) op" where
  "makeLocalFFEdgeIngress d =
     and_next (reads prov_Env) (\<lambda>env.
       with_resource (ffd_Ingress d) (GetNamespacedName (EnvObject env) ''featureflags'') (ff_ingress_object (ffd_Makers d) env))"

definition createDefaultFFSecMap :: "string \<times> string \<Rightarrow> smap" where
  "createDefaultFFSecMap rand = map_of [(''adminAccessToken'', ''*:*.'' @ fst rand), (''clientAccessToken'', ''default:development.'' @ snd rand)]"

definition ff_db_data :: "(string \<Rightarrow> string) \<Rightarrow> NamespacedName \<Rightarrow> string \<Rightarrow> string \<Rightarrow> string \<Rightarrow> smap" where
  "ff_db_data escape nn username password pgPassword =
     map_of (service_db_data nn ''unleash'' username password pgPassword
       @ [(''connectionURL'', ''postgres://'' @ username @ '':'' @ escape password @ ''@'' @ nn_Name nn @ ''.'' @ nn_Namespace nn @ ''.svc/unleash'')])"

definition localff_EnvProvide :: "('w, 'c) FFDeps \<Rightarrow> (('w, 'c) Provider, unit) op" where
  "localff_EnvProvide d =
     and_next (reads prov_Env) (\<lambda>env.
     and_next (reads prov_World) (\<lambda>w.
       let nnDb = NN ''featureflags-db'' (est_TargetNamespace (env_Status env))
       in and_next (map_err (requeue_wrap (ffd_Stack d) ''Couldn't set/get secret'')
            (make_or_get env_object (ffd_Secret d) (GetNamespacedName (EnvObject env) ''featureflags'') (createDefaultFFSecMap (ffd_RandHex d w)))) (\<lambda>_.
          and_next (make_component (ffd_Comp d) [LocalFFDeployment, LocalFFService] env_object ''featureflags'' (makeLocalFeatureFlags (ffd_Makers d)) False) (\<lambda>_.
          and_next (local_database (ffd_Db d) (ffd_DbKinds d) nnDb (ff_db_data (ffd_QueryEscape d) nnDb) [''sub'' \<mapsto> ''feature_flags'']
            (\<lambda>env. ff_PVC (env_FeatureFlags env)) ''unleash'') (\<lambda>_.
          and_next (make_component (ffd_Comp d) [LocalFFEdgeDeployment, LocalFFEdgeService] env_object ''featureflags-edge''
            (makeLocalFeatureFlagsEdge (ffd_Makers d)) False) (\<lambda>_.
            makeLocalFFEdgeIngress d))))))"

definition localff_Provide :: "('w, 'c) FFDeps \<Rightarrow> ClowdApp \<Rightarrow> (('w, 'c) Provider, unit) op" where
  "localff_Provide d _ =
     and_next (reads prov_Env) (\<lambda>env.
     and_next (get_secret (ffd_Prov d) (GetNamespacedName (EnvObject env) ''featureflags'')) (\<lambda>secret.
       set_config (\<lambda>c. c\<lparr>cfg_FeatureFlags := Some \<lparr>ffc_ClientAccessToken = Some (mget (sec_Data secret) ''clientAccessToken''),
         ffc_Hostname = env_Name env @ ''-featureflags.'' @ est_TargetNamespace (env_Status env) @ ''.svc'', ffc_Port = 4242, ffc_Scheme = ''http''\<rparr>\<rparr>)))"

section \<open>A server that exists already\<close>

definition appInterfaceFF_Provide :: "'w ProvDeps \<Rightarrow> ClowdApp \<Rightarrow> (('w, 'c) Provider, unit) op" where
  "appInterfaceFF_Provide d _ =
     and_next (reads prov_Env) (\<lambda>env.
       let ff = env_FeatureFlags env
       in if ff_CredentialRef ff = NN '''' '''' then fail (NewClowderError (pd_Stack d) ''no feature flag secret defined'')
          else if ff_Hostname ff = '''' then fail (NewClowderError (pd_Stack d) ''hostname is not defined'')
          else if ff_Port ff = 0 then fail (NewClowderError (pd_Stack d) ''port is not defined'')
          else and_next (get_secret d (ff_CredentialRef ff)) (\<lambda>sec.
               and_next (track_secret d env_object sec) (\<lambda>_.
                 case sec_Data sec ''CLIENT_ACCESS_TOKEN'' of
                   None \<Rightarrow> fail (NewClowderError (pd_Stack d) ''Missing data'')
                 | Some accessToken \<Rightarrow>
                     set_config (\<lambda>c. c\<lparr>cfg_FeatureFlags := Some \<lparr>ffc_ClientAccessToken = Some accessToken, ffc_Hostname = ff_Hostname ff,
                       ffc_Port = ff_Port ff, ffc_Scheme = ''https''\<rparr>\<rparr>))))"

datatype featureflags_mode = LocalFeatureFlags | AppInterfaceFeatureFlags | NoneFeatureFlags

definition GetFeatureFlags :: "string \<Rightarrow> ClowdEnvironment \<Rightarrow> goerr + featureflags_mode" where
  "GetFeatureFlags stack env =
     (let ffMode = ff_Mode (env_FeatureFlags env)
      in if ffMode = ''local'' then Inr LocalFeatureFlags
         else if ffMode = ''app-interface'' then Inr AppInterfaceFeatureFlags
         else if ffMode \<in> {''none'', ''''} then Inr NoneFeatureFlags
         else Inl (NewClowderError stack (''No matching featureflags mode for '' @ ffMode)))"

section \<open>The makers\<close>

interpretation unleash: component_maker makeLocalFeatureFlags LocalFFDeployment LocalFFService "''featureflags''" "[service_port ''featureflags'' featureFlagsPort]"
proof
  fix M env o' m usePVC nodePort made
  assume run: "makeLocalFeatureFlags M env o' m usePVC nodePort = Some (Inr made)"
  show "map fst made = map fst m"
    using run by (auto simp: makeLocalFeatureFlags_def Let_def not_an_env_fails split: ClowdObject.splits option.splits dest: fill_component_keys)
  assume laws: "makers_laws M"
  show "\<exists>dd s. the_deployment made LocalFFDeployment = Some dd \<and> the_service made LocalFFService = Some s \<and> served dd s \<and> svc_Ports s = [service_port ''featureflags'' featureFlagsPort]
      \<and> comp_NN (DeploymentObj dd) = GetNamespacedName o' ''featureflags'' \<and> comp_NN (ServiceObj s) = GetNamespacedName o' ''featureflags''"
    using run unfolding makeLocalFeatureFlags_def Let_def
    by (auto simp: not_an_env_fails component_ports unleash_container_def featureFlagsPort_def split: ClowdObject.splits option.splits dest!: fill_component_served [OF laws])
qed

interpretation edge: component_maker makeLocalFeatureFlagsEdge LocalFFEdgeDeployment LocalFFEdgeService "''featureflags-edge''"
  "[service_port ''unleash-edge'' featureFlagsEdgePort]"
proof
  fix M env o' m usePVC nodePort made
  assume run: "makeLocalFeatureFlagsEdge M env o' m usePVC nodePort = Some (Inr made)"
  show "map fst made = map fst m"
    using run by (auto simp: makeLocalFeatureFlagsEdge_def Let_def not_an_env_fails split: ClowdObject.splits option.splits dest: fill_component_keys)
  assume laws: "makers_laws M"
  show "\<exists>dd s. the_deployment made LocalFFEdgeDeployment = Some dd \<and> the_service made LocalFFEdgeService = Some s \<and> served dd s
      \<and> svc_Ports s = [service_port ''unleash-edge'' featureFlagsEdgePort]
      \<and> comp_NN (DeploymentObj dd) = GetNamespacedName o' ''featureflags-edge'' \<and> comp_NN (ServiceObj s) = GetNamespacedName o' ''featureflags-edge''"
    using run unfolding makeLocalFeatureFlagsEdge_def Let_def
    by (auto simp: not_an_env_fails component_ports edge_container_def featureFlagsEdgePort_def split: ClowdObject.splits option.splits dest!: fill_component_served [OF laws])
qed

section \<open>What an environment gets\<close>

lemma local_database_silent [silents]:
  assumes "leaves_alone (dr_Deployment R) recorded" "leaves_alone (dr_Service R) recorded" "leaves_alone (dr_PVC R) recorded" "leaves_alone (dr_Secret R) recorded"
  shows "silent recorded (local_database d R nn i ls pvc n)"
  unfolding local_database_def make_service_def by (intro silents assms)

text \<open>The edge proxy asks the server at a URL.\<close>

definition asks_upstream :: "KDeployment \<Rightarrow> string \<Rightarrow> bool" where
  "asks_upstream dd url = (\<exists>ct \<in> set (pt_Containers (kd_Template dd)). \<lparr>ev_Name = ''UPSTREAM_URL'', ev_Value = url, ev_ValueFrom = None\<rparr> \<in> set (ct_Env ct))"

lemma edge_upstream:
  assumes "makeLocalFeatureFlagsEdge M env o' m usePVC nodePort = Some (Inr made)" and "the_deployment made LocalFFEdgeDeployment = Some dd"
  shows "asks_upstream dd (''http://'' @ nn_Name (GetNamespacedName o' ''featureflags'') @ '':4242'')"
proof -
  have "itoa 4242 = ''4242''" by (simp add: itoa_def digits.simps char_of_def bit_0)
  moreover obtain t img res where "kd_Template dd = t\<lparr>pt_Containers := [edge_container (GetNamespacedName o' ''featureflags'') (GetNamespacedName o' ''featureflags-edge'') img res]\<rparr>"
    using assms by (auto simp: makeLocalFeatureFlagsEdge_def Let_def not_an_env_fails split: ClowdObject.splits option.splits dest: fill_component_template)
  ultimately show ?thesis by (simp add: asks_upstream_def edge_container_def AppendEnvVarsFromSecret_def featureFlagsPort_def)
qed

text \<open>The environment: both components are recorded and the ingress leads to the edge proxy.\<close>

lemma localff_ready:
  assumes "makers_laws (ffd_Makers d)" and "component_cache (ffd_Comp d) recorded"
    and "\<forall>r \<in> {ffd_Secret d, dr_Secret (ffd_DbKinds d)}. leaves_alone r recorded" and "leaves_alone (dr_Deployment (ffd_DbKinds d)) recorded"
    and "leaves_alone (dr_Service (ffd_DbKinds d)) recorded" and "leaves_alone (dr_PVC (ffd_DbKinds d)) recorded" and "leaves_alone (ffd_Ingress d) recorded"
    and "object_cache (ffd_Ingress d) (\<lambda>i. NN (om_Name (ing_ObjectMeta i)) (om_Namespace (ing_ObjectMeta i))) ingresses"
    and "localff_EnvProvide d p = Some (p', Inr ())"
    and "nn = GetNamespacedName (EnvObject (prov_Env p)) ''featureflags''" and "nnEdge = GetNamespacedName (EnvObject (prov_Env p)) ''featureflags-edge''"
  shows "\<exists>dd s dd' s' ing. prov_recorded recorded p' LocalFFDeployment nn = Some (DeploymentObj dd) \<and> prov_recorded recorded p' LocalFFService nn = Some (ServiceObj s) \<and> served dd s
    \<and> svc_Ports s = [service_port ''featureflags'' featureFlagsPort]
    \<and> prov_recorded recorded p' LocalFFEdgeDeployment nnEdge = Some (DeploymentObj dd') \<and> prov_recorded recorded p' LocalFFEdgeService nnEdge = Some (ServiceObj s') \<and> served dd' s'
    \<and> svc_Ports s' = [service_port ''unleash-edge'' featureFlagsEdgePort] \<and> asks_upstream dd' (''http://'' @ nn_Name nn @ '':4242'')
    \<and> prov_recorded ingresses p' nn = Some ing \<and> ingress_routes ing = [('''', ''/api/client/features'', ''Prefix'', nn_Name nnEdge, ''unleash-edge'')]"
proof -
  let ?env = "prov_Env p"
  from assms(9,10) obtain p1 p2 p3 p4 z where sec: "make_or_get env_object (ffd_Secret d) nn z p = Some p1"
    and ff: "make_component (ffd_Comp d) [LocalFFDeployment, LocalFFService] env_object ''featureflags'' (makeLocalFeatureFlags (ffd_Makers d)) False (fst p1) = Some (p2, Inr ())"
    and db: "local_database (ffd_Db d) (ffd_DbKinds d) (NN ''featureflags-db'' (est_TargetNamespace (env_Status ?env)))
        (ff_db_data (ffd_QueryEscape d) (NN ''featureflags-db'' (est_TargetNamespace (env_Status ?env)))) [''sub'' \<mapsto> ''feature_flags''] (\<lambda>env. ff_PVC (env_FeatureFlags env)) ''unleash'' p2 = Some (p3, Inr ())"
    and ed: "make_component (ffd_Comp d) [LocalFFEdgeDeployment, LocalFFEdgeService] env_object ''featureflags-edge'' (makeLocalFeatureFlagsEdge (ffd_Makers d)) False p3 = Some (p4, Inr ())"
    and ing: "makeLocalFFEdgeIngress d p4 = Some (p', Inr ())"
    by (auto simp: localff_EnvProvide_def Let_def op_oks)
  have "silent recorded (make_or_get env_object (ffd_Secret d) nn z)" using assms(3) by (auto intro: silents)
  then have env1: "prov_Env (fst p1) = ?env" using silentD(2) sec by (metis prod.collapse)
  have env2: "prov_Env p2 = ?env" using make_component_frame [OF ff] env1 by simp
  have db_silent: "silent recorded (local_database (ffd_Db d) (ffd_DbKinds d) nn' i ls pvc n)" for nn' i ls pvc n
    using assms(3-6) by (auto intro: silents)
  have env3: "prov_Env p3 = ?env" and rec3: "prov_recorded recorded p3 = prov_recorded recorded p2" using silentD [OF db_silent db] env2 by auto
  have env4: "prov_Env p4 = ?env" using make_component_frame [OF ed] env3 by simp
  obtain dd s where 1: "prov_recorded recorded p2 LocalFFDeployment nn = Some (DeploymentObj dd)" "prov_recorded recorded p2 LocalFFService nn = Some (ServiceObj s)"
    "served dd s" "svc_Ports s = [service_port ''featureflags'' featureFlagsPort]"
    using unleash.component_ready [OF assms(1,2) ff] env1 assms(10) by (auto simp: env_object_def)
  obtain dd' s' where 2: "prov_recorded recorded p4 LocalFFEdgeDeployment nnEdge = Some (DeploymentObj dd')" "prov_recorded recorded p4 LocalFFEdgeService nnEdge = Some (ServiceObj s')"
    "served dd' s'" "svc_Ports s' = [service_port ''unleash-edge'' featureFlagsEdgePort]" "comp_NN (ServiceObj s') = nnEdge"
    using edge.component_ready [OF assms(1,2) ed] env3 assms(11) by (auto simp: env_object_def)
  have url: "asks_upstream dd' (''http://'' @ nn_Name nn @ '':4242'')"
  proof -
    have o: "env_object p3 = EnvObject ?env" using env3 by (simp add: env_object_def)
    have "Q dd'" if "\<And>env m u n made dd. makeLocalFeatureFlagsEdge (ffd_Makers d) env (EnvObject ?env) m u n = Some (Inr made) \<Longrightarrow> the_deployment made LocalFFEdgeDeployment = Some dd \<Longrightarrow> Q dd" for Q
      using edge.component_deployment [OF assms(1,2) ed, where Q = Q, unfolded o, OF that] 2(1) assms(11) by auto
    from this [OF edge_upstream] show ?thesis using assms(10) by simp
  qed
  have keep: "prov_recorded recorded p4 i = prov_recorded recorded p2 i" if "i \<in> {LocalFFDeployment, LocalFFService}" for i
    using edge.component_others [OF assms(2) ed, of i] that rec3 by auto
  have wr: "with_resource (ffd_Ingress d) nn (ff_ingress_object (ffd_Makers d) ?env) p4 = Some (p', Inr ())"
    using ing env4 assms(10) by (simp add: makeLocalFFEdgeIngress_def)
  have rec': "prov_recorded recorded p' = prov_recorded recorded p4" using with_resource_alone [OF assms(7) wr] .
  from wr obtain p5 k where cr: "cache_Create (ffd_Ingress d) nn p4 = Some (p5, Inr k)" and up: "cache_Update (ffd_Ingress d) (ff_ingress_object (ffd_Makers d) ?env k) p5 = Some (p', Inr ())"
    by (auto simp: with_resource_def and_next_ok)
  have "NN (om_Name (ing_ObjectMeta (ff_ingress_object (ffd_Makers d) ?env k))) (om_Namespace (ing_ObjectMeta (ff_ingress_object (ffd_Makers d) ?env k))) = nn"
    using assms(10) by (simp add: ff_ingress_object_def env_ingress_def labelled_meta [OF assms(1)])
  then have 3: "prov_recorded ingresses p' nn = Some (ff_ingress_object (ffd_Makers d) ?env k)" using update_records [OF assms(8) up] by simp
  have 4: "ingress_routes (ff_ingress_object (ffd_Makers d) ?env k) = [('''', ''/api/client/features'', ''Prefix'', nn_Name nnEdge, ''unleash-edge'')]"
    by (simp add: ingress_routes_def ff_ingress_object_def env_ingress_def prefix_path_def assms(11))
  show ?thesis
    using 1 2 3 4 url keep [of LocalFFDeployment] keep [of LocalFFService] rec' by auto
qed

text \<open>
  C29. After the local provider ran for an environment, the server and the edge proxy are recorded with services that reach them, on the ports 4242 and 3063. The edge proxy asks the server at the name and
  the port of its service; the ingress sends the path of the clients, and nothing else, to the named port of the service of the edge proxy. The configuration an app of that environment gets names the host
  and the port of the service of the server, and the token of the stored secret.
\<close>

theorem feature_flags_reachable:
  assumes "makers_laws (ffd_Makers d)" and "component_cache (ffd_Comp d) recorded"
    and "\<forall>r \<in> {ffd_Secret d, dr_Secret (ffd_DbKinds d)}. leaves_alone r recorded" and "leaves_alone (dr_Deployment (ffd_DbKinds d)) recorded"
    and "leaves_alone (dr_Service (ffd_DbKinds d)) recorded" and "leaves_alone (dr_PVC (ffd_DbKinds d)) recorded" and "leaves_alone (ffd_Ingress d) recorded"
    and "object_cache (ffd_Ingress d) (\<lambda>i. NN (om_Name (ing_ObjectMeta i)) (om_Namespace (ing_ObjectMeta i))) ingresses"
    and "localff_EnvProvide d p = Some (p', Inr ())" and "localff_Provide d app q = Some (q', Inr ())" and "prov_Env q = prov_Env p"
    and "nn = NN (env_Name (prov_Env p) @ ''-featureflags'') (est_TargetNamespace (env_Status (prov_Env p)))" and "nnEdge = NN (env_Name (prov_Env p) @ ''-featureflags-edge'') (est_TargetNamespace (env_Status (prov_Env p)))"
  shows "\<exists>dd s dd' s' ing c cfg. prov_recorded recorded p' LocalFFDeployment nn = Some (DeploymentObj dd) \<and> prov_recorded recorded p' LocalFFService nn = Some (ServiceObj s) \<and> served dd s
    \<and> map (\<lambda>q. (sp_Name q, sp_Port q)) (svc_Ports s) = [(''featureflags'', 4242)]
    \<and> prov_recorded recorded p' LocalFFEdgeDeployment nnEdge = Some (DeploymentObj dd') \<and> prov_recorded recorded p' LocalFFEdgeService nnEdge = Some (ServiceObj s') \<and> served dd' s'
    \<and> map (\<lambda>q. (sp_Name q, sp_Port q)) (svc_Ports s') = [(''unleash-edge'', 3063)] \<and> asks_upstream dd' (''http://'' @ nn_Name nn @ '':4242'')
    \<and> prov_recorded ingresses p' nn = Some ing \<and> ingress_routes ing = [('''', ''/api/client/features'', ''Prefix'', nn_Name nnEdge, ''unleash-edge'')]
    \<and> prov_Config q' = Some c \<and> cfg_FeatureFlags c = Some cfg \<and> ffc_Hostname cfg = nn_Name nn @ ''.'' @ nn_Namespace nn @ ''.svc'' \<and> ffc_Port cfg = 4242
    \<and> (\<exists>secret. pd_GetSecret (ffd_Prov d) nn (prov_World q) = Inr secret \<and> ffc_ClientAccessToken cfg = Some (mget (sec_Data secret) ''clientAccessToken''))"
proof -
  have nns: "nn = GetNamespacedName (EnvObject (prov_Env p)) ''featureflags''" "nnEdge = GetNamespacedName (EnvObject (prov_Env p)) ''featureflags-edge''"
    by (simp_all add: assms(12,13) GetNamespacedName_def)
  note ready = localff_ready [OF assms(1-9) nns]
  from assms(10,11) nns(1) obtain secret c where "pd_GetSecret (ffd_Prov d) nn (prov_World q) = Inr secret"
    "prov_Config q' = Some (c\<lparr>cfg_FeatureFlags := Some \<lparr>ffc_ClientAccessToken = Some (mget (sec_Data secret) ''clientAccessToken''),
         ffc_Hostname = env_Name (prov_Env p) @ ''-featureflags.'' @ est_TargetNamespace (env_Status (prov_Env p)) @ ''.svc'', ffc_Port = 4242, ffc_Scheme = ''http''\<rparr>\<rparr>)"
    by (auto simp: localff_Provide_def op_oks get_secret_def set_config_ok)
  with ready show ?thesis
    by (fastforce simp: assms(12) service_port_def featureFlagsPort_def featureFlagsEdgePort_def)
qed

text \<open>What an existing server needs: a secret, a host and a port, and the token in the secret. Then the secret is followed and the configuration is complete.\<close>

lemma app_interface_ff_requires:
  assumes "appInterfaceFF_Provide d app p = Some (p', Inr ())" and "ff = env_FeatureFlags (prov_Env p)"
  shows "ff_CredentialRef ff \<noteq> NN '''' '''' \<and> ff_Hostname ff \<noteq> '''' \<and> ff_Port ff \<noteq> 0
    \<and> (\<exists>sec tok c. pd_GetSecret d (ff_CredentialRef ff) (prov_World p) = Inr sec \<and> sec_Data sec ''CLIENT_ACCESS_TOKEN'' = Some tok
         \<and> prov_Config p' = Some c \<and> cfg_FeatureFlags c = Some \<lparr>ffc_ClientAccessToken = Some tok, ffc_Hostname = ff_Hostname ff, ffc_Port = ff_Port ff, ffc_Scheme = ''https''\<rparr>)"
  using assms by (auto simp: appInterfaceFF_Provide_def op_oks get_secret_def set_config_ok Let_def split: if_splits option.splits)

section \<open>Examples\<close>

text \<open>A cache that keeps the objects of the components and the ingresses.\<close>

type_synonym 'i two_caches = "('i \<Rightarrow> NamespacedName \<rightharpoonup> comp_obj) \<times> (NamespacedName \<rightharpoonup> KIngress)"

definition pair_comp :: "('i \<Rightarrow> string) \<Rightarrow> (unit \<times> 'i two_caches, 'i) CompDeps" where
  "pair_comp kind = \<lparr>cmp_Kinds = (\<lambda>i. Inr ([kind i], False)), cmp_New = sample_new, cmp_Create = (\<lambda>i nn k s. (s, Inr k)),
     cmp_Update = (\<lambda>i k s. ((fst s, (fst (snd s))(i := (fst (snd s) i)(comp_NN k \<mapsto> k)), snd (snd s)), None)), cmp_Iter = (\<lambda>m. m), cmp_Stack = ''st''\<rparr>"

lemma pair_comp_laws: "component_cache (pair_comp kind) (\<lambda>s. fst (snd s))"
  by (simp add: component_cache_def pair_comp_def go_iteration_def)

definition KIngress_zero :: KIngress where
  "KIngress_zero = \<lparr>ing_ObjectMeta = ObjectMeta_zero, ing_TLS = [], ing_IngressClassName = None, ing_Rules = []\<rparr>"

definition pair_ingress :: "(unit \<times> 'i two_caches, KIngress) Resource" where
  "pair_ingress = \<lparr>res_Create = (\<lambda>nn s. (s, Inr KIngress_zero)),
     res_Update = (\<lambda>k s. ((fst s, fst (snd s), (snd (snd s))(NN (om_Name (ing_ObjectMeta k)) (om_Namespace (ing_ObjectMeta k)) \<mapsto> k)), None)),
     res_Get = (\<lambda>nn s. Inr KIngress_zero), res_List = (\<lambda>s. Inr [])\<rparr>"

lemma pair_ingress_laws:
  "object_cache pair_ingress (\<lambda>i. NN (om_Name (ing_ObjectMeta i)) (om_Namespace (ing_ObjectMeta i))) (\<lambda>s. snd (snd s))"
  "leaves_alone pair_ingress (\<lambda>s. fst (snd s))"
  by (simp_all add: object_cache_def leaves_alone_def pair_ingress_def)

definition quiet_db :: "(unit \<times> 'i two_caches) DbResources" where
  "quiet_db = \<lparr>dr_Deployment = quiet_resource KDeployment_zero,
     dr_Service = quiet_resource \<lparr>svc_ObjectMeta = ObjectMeta_zero, svc_Selector = Map.empty, svc_Ports = [], svc_Type = '''', svc_SessionAffinity = ''''\<rparr>,
     dr_PVC = quiet_resource \<lparr>pvc_ObjectMeta = ObjectMeta_zero, pvc_AccessModes = [], pvc_Storage = ''''\<rparr>, dr_Secret = quiet_resource KSecretObj_zero\<rparr>"

lemma quiet_db_laws:
  "leaves_alone (dr_Deployment quiet_db) r" "leaves_alone (dr_Service quiet_db) r" "leaves_alone (dr_PVC quiet_db) r" "leaves_alone (dr_Secret quiet_db) r"
  by (simp_all add: quiet_db_def quiet_resource_alone)

definition sample_ff :: "(unit, ff_ident two_caches) FFDeps" where
  "sample_ff = \<lparr>ffd_Db = sample_local_deps, ffd_DbKinds = quiet_db, ffd_Makers = sample_makers,
     ffd_Comp = pair_comp (\<lambda>i. if i \<in> {LocalFFDeployment, LocalFFEdgeDeployment} then ''Deployment'' else ''Service''), ffd_Secret = quiet_resource KSecretObj_zero,
     ffd_Ingress = pair_ingress, ffd_RandHex = (\<lambda>w. (''a'', ''b'')), ffd_QueryEscape = (\<lambda>s. s)\<rparr>"

definition sample_pair_provider :: "(unit, 'i two_caches) Provider" where
  "sample_pair_provider = \<lparr>prov_World = (), prov_Env = ClowdEnvironment_zero, prov_Cache = Some (\<lambda>i. Map.empty, Map.empty), prov_Config = Some AppConfig_zero, prov_HashCache = []\<rparr>"

lemma quiet_db_runs:
  assumes "prov_Cache p = Some c"
  shows "\<exists>p'. local_database sample_local_deps quiet_db nn (\<lambda>u pw pg. map_of (service_db_data nn n u pw pg @ rest u pw pg)) ls (\<lambda>e. pvc e) n p = Some (p', Inr ())
    \<and> prov_Env p' = prov_Env p \<and> prov_Cache p' = prov_Cache p"
proof -
  have atoi: "atoi ''5432'' = Some 5432" by code_simp
  have req: "\<exists>r. GetResourceRequirementsForSize Some GetDefaultSizeCPURAM = Some r"
    by (simp add: GetResourceRequirementsForSize_def Let_def)
  show ?thesis using assms req
    by (auto simp add: local_database_def op_oks with_resource_def make_service_def make_or_get_def cache_Create_def cache_Update_def cached_def sample_local_deps_def sample_db_deps_def
        quiet_db_def quiet_resource_def MakeOrGetSecret_def KSecretObj_zero_def DatabaseConfig_Populate_def service_db_data_def atoi requirements_def quantities_def
        GetDefaultDatabaseImage_def MakeLocalDB_def GetDefaultResourceRequirements_def Let_def)
qed

text \<open>Making a component in such a cache succeeds when its maker does.\<close>

lemma pair_comp_runs:
  assumes "prov_Cache p = Some c" and "sample_new (kind a) = Inr x" and "sample_new (kind b) = Inr y" and "a \<noteq> b"
    and "mk (prov_Env p) (obj p) [(b, y), (a, x)] usePVC (env_IsNodePort (prov_Env p)) = Some (Inr made)"
  shows "\<exists>p' c'. make_component (pair_comp kind) [a, b] obj suffix mk usePVC p = Some (p', Inr ()) \<and> prov_Env p' = prov_Env p \<and> prov_Cache p' = Some c'"
proof -
  have "\<exists>c'. for_err (\<lambda>(i, k). comp_update (pair_comp kind) i k) xs (w, c) = ((w, c'), None)" for xs w c
  proof (induction xs arbitrary: c)
    case (Cons x xs)
    then show ?case by (cases x) (simp add: comp_update_def updateResource_def pair_comp_def)
  qed simp
  then obtain c' where up: "update_all (pair_comp kind) suffix made (prov_World p, c) = ((prov_World p, c'), Inr ())"
    by (simp add: update_all_def pair_comp_def) (metis (no_types, lifting) case_prod_conv option.simps(4))
  have cr: "create_all (comp_create (pair_comp kind) nn) st suffix [a, b] (prov_World p, c) = ((prov_World p, c), Inr [(a, x), (b, y)])" for nn st
    using assms by (simp add: comp_create_def createResource_def pair_comp_def)
  have "object_map [(a, x), (b, y)] = [(b, y), (a, x)]" using assms(4) by (simp add: object_map_def)
  with assms(1,5) cr up show ?thesis
    by (simp add: make_component_def op_oks cached_def del: create_all.simps)
qed

lemma sample_ff_runs:
  "\<exists>p'. localff_EnvProvide sample_ff sample_pair_provider = Some (p', Inr ())" "\<exists>q'. localff_Provide sample_ff ClowdApp_zero sample_pair_provider = Some (q', Inr ())"
proof -
  let ?p = "sample_pair_provider :: (unit, ff_ident two_caches) Provider" and ?M = sample_makers
  let ?kind = "\<lambda>i. if i \<in> {LocalFFDeployment, LocalFFEdgeDeployment} then ''Deployment'' else ''Service''"
  obtain r1 r2 where mp: "requirements (mk_MustParse ?M) (''100m'', ''200Mi'') (''50m'', ''100Mi'') = Some r1" "requirements (mk_MustParse ?M) (''200m'', ''400Mi'') (''100m'', ''200Mi'') = Some r2"
    by (simp add: requirements_def quantities_def sample_makers_def)
  obtain x y where xy: "sample_new ''Deployment'' = Inr (DeploymentObj x)" "sample_new ''Service'' = Inr (ServiceObj y)" by (simp add: sample_new_def)
  have m1: "\<exists>made. makeLocalFeatureFlags ?M env (EnvObject e) [(LocalFFService, ServiceObj y), (LocalFFDeployment, DeploymentObj x)] u n = Some (Inr made)" for env e u n
    by (simp add: mp makeLocalFeatureFlags_def Let_def fill_component_def the_deployment_def the_service_def)
  have m2: "\<exists>made. makeLocalFeatureFlagsEdge ?M env (EnvObject e) [(LocalFFEdgeService, ServiceObj y), (LocalFFEdgeDeployment, DeploymentObj x)] u n = Some (Inr made)" for env e u n
    by (simp add: mp makeLocalFeatureFlagsEdge_def Let_def fill_component_def the_deployment_def the_service_def)
  have c1: "\<exists>p' c'. make_component (pair_comp ?kind) [LocalFFDeployment, LocalFFService] env_object ''featureflags'' (makeLocalFeatureFlags ?M) False p = Some (p', Inr ())
      \<and> prov_Env p' = prov_Env p \<and> prov_Cache p' = Some c'" if "prov_Cache p = Some c" for p c
    using m1 [of "prov_Env p" "prov_Env p" False "env_IsNodePort (prov_Env p)"] xy by (elim exE, intro pair_comp_runs [OF that]) (simp_all add: env_object_def)
  have c2: "\<exists>p' c'. make_component (pair_comp ?kind) [LocalFFEdgeDeployment, LocalFFEdgeService] env_object ''featureflags-edge'' (makeLocalFeatureFlagsEdge ?M) False p = Some (p', Inr ())
      \<and> prov_Env p' = prov_Env p \<and> prov_Cache p' = Some c'" if "prov_Cache p = Some c" for p c
    using m2 [of "prov_Env p" "prov_Env p" False "env_IsNodePort (prov_Env p)"] xy by (elim exE, intro pair_comp_runs [OF that]) (simp_all add: env_object_def)
  let ?nnDb = "NN ''featureflags-db'' (est_TargetNamespace (env_Status (prov_Env ?p)))" and ?i = "createDefaultFFSecMap (''a'', ''b'')"
  obtain p1 c where p1: "make_or_get env_object (ffd_Secret sample_ff) (GetNamespacedName (EnvObject (prov_Env ?p)) ''featureflags'') ?i ?p = Some (p1, Inr ?i)"
    "prov_Env p1 = prov_Env ?p" "prov_Cache p1 = Some c"
    by (simp add: make_or_get_def cached_def sample_ff_def quiet_resource_def MakeOrGetSecret_def KSecretObj_zero_def sample_pair_provider_def)
  obtain p2 c2 where p2: "make_component (ffd_Comp sample_ff) [LocalFFDeployment, LocalFFService] env_object ''featureflags'' (makeLocalFeatureFlags ?M) False p1 = Some (p2, Inr ())"
    "prov_Env p2 = prov_Env ?p" "prov_Cache p2 = Some c2" using c1 [OF p1(3)] p1(2) by (auto simp: sample_ff_def)
  obtain p3 where p3: "local_database (ffd_Db sample_ff) (ffd_DbKinds sample_ff) ?nnDb (ff_db_data (ffd_QueryEscape sample_ff) ?nnDb) [''sub'' \<mapsto> ''feature_flags'']
      (\<lambda>env. ff_PVC (env_FeatureFlags env)) ''unleash'' p2 = Some (p3, Inr ())" "prov_Env p3 = prov_Env ?p" "prov_Cache p3 = Some c2"
    using quiet_db_runs [OF p2(3), of ?nnDb "''unleash''" "\<lambda>u pw pg. [(''connectionURL'', ''postgres://'' @ u @ '':'' @ pw @ ''@'' @ nn_Name ?nnDb @ ''.'' @ nn_Namespace ?nnDb @ ''.svc/unleash'')]"
        "[''sub'' \<mapsto> ''feature_flags'']" "\<lambda>env. ff_PVC (env_FeatureFlags env)"] p2 unfolding ff_db_data_def sample_ff_def by auto
  obtain p4 c4 where p4: "make_component (ffd_Comp sample_ff) [LocalFFEdgeDeployment, LocalFFEdgeService] env_object ''featureflags-edge'' (makeLocalFeatureFlagsEdge ?M) False p3 = Some (p4, Inr ())"
    "prov_Cache p4 = Some c4" using c2 [OF p3(3)] by (auto simp: sample_ff_def)
  have "\<exists>p'. makeLocalFFEdgeIngress sample_ff p4 = Some (p', Inr ())"
    using p4(2) by (simp add: makeLocalFFEdgeIngress_def with_resource_def op_oks cache_Create_def cache_Update_def cached_def sample_ff_def pair_ingress_def)
  moreover have "ffd_RandHex sample_ff w = (''a'', ''b'')" "ffd_Makers sample_ff = ?M" for w by (simp_all add: sample_ff_def)
  ultimately show "\<exists>p'. localff_EnvProvide sample_ff sample_pair_provider = Some (p', Inr ())"
    using p1(1) p2(1) p3(1) p4(1) by (auto simp: localff_EnvProvide_def op_oks Let_def)
  show "\<exists>q'. localff_Provide sample_ff ClowdApp_zero sample_pair_provider = Some (q', Inr ())"
    by (simp add: localff_Provide_def op_oks get_secret_def set_config_ok sample_ff_def sample_local_deps_def sample_db_deps_def sample_pull_deps_def sample_prov_deps_def sample_pair_provider_def)
qed

theorem feature_flags_reachable_witness:
  "\<exists>p' dd s ing s'. localff_EnvProvide sample_ff sample_pair_provider = Some (p', Inr ()) \<and> fst (the (prov_Cache p')) LocalFFDeployment (NN ''-featureflags'' '''') = Some (DeploymentObj dd)
     \<and> fst (the (prov_Cache p')) LocalFFService (NN ''-featureflags'' '''') = Some (ServiceObj s) \<and> served dd s
     \<and> snd (the (prov_Cache p')) (NN ''-featureflags'' '''') = Some ing
     \<and> fst (the (prov_Cache p')) LocalFFEdgeService (NN ''-featureflags-edge'' '''') = Some (ServiceObj s')
     \<and> ingress_routes ing = [('''', ''/api/client/features'', ''Prefix'', ''-featureflags-edge'', ''unleash-edge'')]"
proof -
  obtain p' q' where run: "localff_EnvProvide sample_ff sample_pair_provider = Some (p', Inr ())" "localff_Provide sample_ff ClowdApp_zero sample_pair_provider = Some (q', Inr ())"
    using sample_ff_runs by blast
  let ?env = "prov_Env (sample_pair_provider :: (unit, ff_ident two_caches) Provider)"
  have nns: "NN ''-featureflags'' '''' = NN (env_Name ?env @ ''-featureflags'') (est_TargetNamespace (env_Status ?env))" "NN ''-featureflags-edge'' '''' = NN (env_Name ?env @ ''-featureflags-edge'') (est_TargetNamespace (env_Status ?env))"
    by (simp_all add: sample_pair_provider_def ClowdEnvironment_zero_def ObjectMeta_zero_def)
  from feature_flags_reachable [OF _ _ _ _ _ _ _ _ run refl nns, where recorded = "\<lambda>s. fst (snd s)" and ingresses = "\<lambda>s. snd (snd s)"]
  show ?thesis using run
    by (auto simp: sample_ff_def sample_makers_laws pair_comp_laws quiet_resource_alone quiet_db_laws pair_ingress_laws)
qed

end
