(* ===== verification/Reverse_Proxy.thy ===== *)
theory Reverse_Proxy
  imports Feature_Flags
begin

text \<open>
  The reverse proxy for the assets of frontends (\<open>providers/reverseproxy/reverseproxy.go\<close> and \<open>provider.go\<close>), a component that forwards to the MinIO of the environment. The provider
  for mode none does nothing.

  The fact: the address the proxy forwards to is that of the service the object store provider records.
\<close>

abbreviation env_ReverseProxy :: "ClowdEnvironment \<Rightarrow> ReverseProxyConfig" where
  "env_ReverseProxy e \<equiv> pv_ReverseProxy (env_Providers (env_Spec e))"

datatype proxy_ident = ReverseProxyDeployment | ReverseProxyService

definition DefaultImageReverseProxy :: string where
  "DefaultImageReverseProxy = ''quay.io/redhat-services-prod/hcc-platex-services-tenant/frontend-asset-proxy:662ccb9''"

definition GetReverseProxyImage :: "ClowderConfig \<Rightarrow> ClowdEnvironment \<Rightarrow> string" where
  "GetReverseProxyImage lc env =
     (if rp_ProxyImage (env_ReverseProxy env) \<noteq> '''' then rp_ProxyImage (env_ReverseProxy env)
      else if ci_ReverseProxy (cc_Images lc) \<noteq> '''' then ci_ReverseProxy (cc_Images lc)
      else DefaultImageReverseProxy)"

definition default_to :: "string \<Rightarrow> string \<Rightarrow> string" where
  "default_to s def = (if s \<noteq> '''' then s else def)"

definition minio_upstream :: "NamespacedName \<Rightarrow> string" where
  "minio_upstream minioNN = ''http://'' @ nn_Name minioNN @ ''.'' @ nn_Namespace minioNN @ ''.svc:9000''"

definition proxy_container :: "NamespacedName \<Rightarrow> NamespacedName \<Rightarrow> ClowdEnvironment \<Rightarrow> string \<Rightarrow> ResourceRequirements \<Rightarrow> Container" where
  "proxy_container minioNN nn env img res = Container_zero\<lparr>
     ct_Name := nn_Name nn, ct_Image := img,
     ct_Env := AppendEnvVarsFromSecret
       [plain_var ''SERVER_PORT'' ''8080'', plain_var ''MINIO_UPSTREAM_URL'' (minio_upstream minioNN),
        plain_var ''BUCKET_PATH_PREFIX'' (default_to (rp_BucketPathPrefix (env_ReverseProxy env)) ''frontend-pushcache''),
        plain_var ''SPA_ENTRYPOINT_PATH'' (default_to (rp_SpaEntrypointPath (env_ReverseProxy env)) ''/data/chrome/index.html''),
        plain_var ''AWS_REGION'' (default_to (rp_AwsRegion (env_ReverseProxy env)) ''us-east-1''), plain_var ''LOG_LEVEL'' ''debug'']
       (nn_Name minioNN) [NewSecretEnvVar ''PUSHCACHE_AWS_ACCESS_KEY_ID'' ''accessKey'', NewSecretEnvVar ''PUSHCACHE_AWS_SECRET_ACCESS_KEY'' ''secretKey''],
     ct_Ports := [tcp_port ''proxy'' 8080],
     ct_LivenessProbe := Some (component_probe (HTTPGet ''/healthz'' '''' 8080) 10 2 30), ct_ReadinessProbe := Some (component_probe (HTTPGet ''/healthz'' '''' 8080) 5 2 10),
     ct_Resources := res, ct_TerminationMessagePath := ''/dev/termination-log'', ct_TerminationMessagePolicy := ''File'', ct_ImagePullPolicy := ''IfNotPresent''\<rparr>"

definition makeLocalReverseProxy :: "ObjMakers \<Rightarrow> proxy_ident maker" where
  "makeLocalReverseProxy M _ o' objMap _ nodePort =
     (let nn = GetNamespacedName o' ''reverse-proxy''; minioNN = GetNamespacedName o' ''minio''; labels = component_labels o' nn
      in case o' of
           EnvObject env \<Rightarrow>
             (case requirements (mk_MustParse M) (''100m'', ''200Mi'') (''50m'', ''100Mi'') of
                None \<Rightarrow> None
              | Some res \<Rightarrow> map_option Inr (fill_component M ReverseProxyDeployment ReverseProxyService nn labels o' nodePort
                  (\<lambda>t. t\<lparr>pt_Containers := [proxy_container minioNN nn env (GetReverseProxyImage (mk_Loaded M) env) res]\<rparr>)
                  [service_port ''proxy'' 8080] objMap))
         | _ \<Rightarrow> not_an_env ReverseProxyDeployment ReverseProxyService ''could not get env from object'' objMap)"

definition NewLocalReverseProxy :: "('w \<times> 'c, proxy_ident) CompDeps \<Rightarrow> ObjMakers \<Rightarrow> (('w, 'c) Provider, unit) op" where
  "NewLocalReverseProxy D M =
     map_err (requeue_wrap (cmp_Stack D) ''Couldn't make reverse proxy component'')
       (make_component D [ReverseProxyDeployment, ReverseProxyService] env_object ''reverse-proxy'' (makeLocalReverseProxy M) False)"

datatype reverseproxy_mode = LocalReverseProxy | NoneReverseProxy

definition GetReverseProxy :: "string \<Rightarrow> ClowdEnvironment \<Rightarrow> goerr + reverseproxy_mode" where
  "GetReverseProxy stack env =
     (let mode = rp_Mode (env_ReverseProxy env)
      in if mode = ''ephemeral'' then Inr LocalReverseProxy
         else if mode \<in> {''none'', ''''} then Inr NoneReverseProxy
         else Inl (NewClowderError stack (''No matching reverse proxy mode for '' @ mode)))"

interpretation proxy: component_maker makeLocalReverseProxy ReverseProxyDeployment ReverseProxyService "''reverse-proxy''" "[service_port ''proxy'' 8080]"
proof
  fix M env o' m usePVC nodePort made
  assume run: "makeLocalReverseProxy M env o' m usePVC nodePort = Some (Inr made)"
  show "map fst made = map fst m"
    using run by (auto simp: makeLocalReverseProxy_def Let_def not_an_env_fails split: ClowdObject.splits option.splits dest: fill_component_keys)
  assume laws: "makers_laws M"
  show "\<exists>dd s. the_deployment made ReverseProxyDeployment = Some dd \<and> the_service made ReverseProxyService = Some s \<and> served dd s \<and> svc_Ports s = [service_port ''proxy'' 8080]
      \<and> comp_NN (DeploymentObj dd) = GetNamespacedName o' ''reverse-proxy'' \<and> comp_NN (ServiceObj s) = GetNamespacedName o' ''reverse-proxy''"
    using run unfolding makeLocalReverseProxy_def Let_def
    by (auto simp: not_an_env_fails component_ports proxy_container_def split: ClowdObject.splits option.splits dest!: fill_component_served [OF laws])
qed

text \<open>The proxy forwards to the service that the object store provider of the same environment records, on a port of that service.\<close>

lemma proxy_reaches_minio:
  assumes "makers_laws (mn_Makers d)" and "component_cache (mn_Comp d) recorded" and "NewMinIO d p = Some (p', Inr cl)"
  shows "\<exists>s sp. prov_recorded recorded p' MinioService (GetNamespacedName (EnvObject (prov_Env p)) ''minio'') = Some (ServiceObj s) \<and> sp \<in> set (svc_Ports s)
    \<and> plain_var ''MINIO_UPSTREAM_URL'' (''http://'' @ om_Name (svc_ObjectMeta s) @ ''.'' @ om_Namespace (svc_ObjectMeta s) @ ''.svc:'' @ itoa (sp_Port sp))
      \<in> set (ct_Env (proxy_container (GetNamespacedName (EnvObject (prov_Env p)) ''minio'') nn env img res))"
proof -
  from assms(3) obtain p1 idents where p1: "prov_Env p1 = prov_Env p"
    and mk: "make_component (mn_Comp d) idents env_object ''minio'' (makeLocalMinIO (mn_Makers d)) (osc_PVC (env_ObjectStore (prov_Env p))) p1 = Some (p', Inr ())"
    by (auto simp: NewMinIO_def Let_def op_oks dest: make_or_get_env)
  have "itoa 9000 = ''9000''" by (simp add: itoa_def digits.simps char_of_def bit_0)
  with minio.component_ready [OF assms(1,2) mk] p1 show ?thesis
    by (auto simp: env_object_def proxy_container_def minio_upstream_def AppendEnvVarsFromSecret_def service_port_def comp_NN_def GetNamespacedName_def)
qed

end
