(* ===== verification/Web_Service.thy ===== *)
theory Web_Service
  imports Reverse_Proxy "HOL-Library.Sublist"
begin

text \<open>
  The web service of a deployment (\<open>providers/web/impl.go\<close>), the Caddy that terminates TLS in front of it (\<open>providers/web/caddy_reverse_proxy.go\<close>) and the web provider for the modes
  none and operator (\<open>providers/web/default.go\<close>).

  The configuration of Caddy is kept as data: the servers with what they listen on, where they forward to and how. Its encoding as JSON, with the parts that never change, is a parameter.

  The facts: every port of the service of a deployment but the one of the authentication sidecar is a port of its containers; the TLS ports are forwarded to ports of the app; the configuration
  of the app names the ports of its services.
\<close>

section \<open>Caddy\<close>

record CaddyServer =
  cs_Listen :: string
  cs_Dial :: string
  cs_Versions :: "string list option"
  cs_CertTag :: string

record CaddyConfig =
  cad_Servers :: "(string \<rightharpoonup> CaddyServer) option"
  cad_Certificate :: "string \<times> string \<times> string"

text \<open>A transport is set for every protocol but the empty one; only \<open>h2c\<close> restricts its versions.\<close>

definition generateServer :: "int \<Rightarrow> int \<Rightarrow> string \<Rightarrow> string \<Rightarrow> CaddyServer" where
  "generateServer port appPort tag protocol = \<lparr>cs_Listen = '':'' @ itoa port, cs_Dial = ''localhost:'' @ itoa appPort,
     cs_Versions = (if protocol = '''' then None else Some (if protocol = ''h2c'' then [''h2c''] else [])), cs_CertTag = tag\<rparr>"

definition generateServers :: "bool \<Rightarrow> bool \<Rightarrow> int \<Rightarrow> int \<Rightarrow> int \<Rightarrow> int \<Rightarrow> string \<Rightarrow> (string \<times> CaddyServer) list" where
  "generateServers pub priv pubPort privPort appPubPort appPrivPort protocol =
     (if pub then [(''pubServer'', generateServer pubPort appPubPort ''cert0'' protocol)] else [])
     @ (if priv then [(''privServer'', generateServer privPort appPrivPort ''cert0'' protocol)] else [])"

text \<open>Which of the four TLS ports a deployment has.\<close>

record TlsFlags =
  tf_Pub :: bool
  tf_Priv :: bool
  tf_PubH2C :: bool
  tf_PrivH2C :: bool

text \<open>The ports of a flag that is not set are zero in the source and are not looked at.\<close>

definition generateCaddyConfig :: "TlsFlags \<Rightarrow> ClowdEnvironment \<Rightarrow> int \<Rightarrow> int \<Rightarrow> CaddyConfig" where
  "generateCaddyConfig fl env appH2CTargetPort appH2CPrivateTargetPort =
     (let web = env_Web env; tls = web_TLS web;
          httpServers = generateServers (tf_Pub fl) (tf_Priv fl) (tls_Port tls) (tls_PrivatePort tls) (web_Port web) (web_PrivatePort web) ''http'';
          h2cServers = generateServers (tf_PubH2C fl) (tf_PrivH2C fl) (tls_H2CPort tls) (tls_H2CPrivatePort tls) appH2CTargetPort appH2CPrivateTargetPort ''h2c'';
          allServers = httpServers @ map (\<lambda>(name, server). (name @ ''H2C'', server)) h2cServers
      in \<lparr>cad_Servers = (if allServers \<noteq> [] then Some (map_of allServers) else None),
          cad_Certificate = (''/certs/tls.crt'', ''/certs/tls.key'', ''cert0'')\<rparr>)"

definition certSecretName :: "string \<Rightarrow> string" where "certSecretName name = name @ ''-serving-cert''"

definition caddyConfigName :: "string \<Rightarrow> string" where "caddyConfigName name = name @ ''-caddy-config''"

section \<open>The ports of a deployment\<close>

text \<open>An entry that is appended under a condition.\<close>

definition only_if :: "bool \<Rightarrow> 'a \<Rightarrow> 'a list" where "only_if b x = (if b then [x] else [])"

definition app_port :: "string \<Rightarrow> string \<Rightarrow> int \<Rightarrow> int \<Rightarrow> ServicePort" where
  "app_port name protocol port target = \<lparr>sp_Name = name, sp_Port = port, sp_Protocol = ''TCP'', sp_AppProtocol = Some protocol, sp_TargetPort = target\<rparr>"

abbreviation http :: string where "http \<equiv> ''http''"
abbreviation h2c :: string where "h2c \<equiv> ''kubernetes.io/h2c''"

definition privatePort :: "ClowdEnvironment \<Rightarrow> int" where
  "privatePort env = (if web_PrivatePort (env_Web env) = 0 then 10000 else web_PrivatePort (env_Web env))"

definition authPort :: "ClowdEnvironment \<Rightarrow> int" where
  "authPort env = (if web_AuthPort (env_Web env) = 0 then 8080 else web_AuthPort (env_Web env))"

definition h2cTargetPort :: "Deployment \<Rightarrow> ClowdEnvironment \<Rightarrow> int" where
  "h2cTargetPort dep env = (case pub_H2CTargetPort (ws_Public (dep_WebServices dep)) of Some p \<Rightarrow> p | None \<Rightarrow> web_H2CPort (env_Web env))"

definition h2cPrivateTargetPort :: "Deployment \<Rightarrow> ClowdEnvironment \<Rightarrow> int" where
  "h2cPrivateTargetPort dep env = (case priv_H2CTargetPort (ws_Private (dep_WebServices dep)) of Some p \<Rightarrow> p | None \<Rightarrow> web_H2CPrivatePort (env_Web env))"

definition is_web :: "Deployment \<Rightarrow> bool" where
  "is_web dep = (dep_Web dep \<or> pub_Enabled (ws_Public (dep_WebServices dep)))"

definition has_h2c :: "Deployment \<Rightarrow> ClowdEnvironment \<Rightarrow> bool" where
  "has_h2c dep env = (pub_H2CEnabled (ws_Public (dep_WebServices dep)) \<and> web_H2CPort (env_Web env) \<noteq> 0)"

definition has_h2c_private :: "Deployment \<Rightarrow> ClowdEnvironment \<Rightarrow> bool" where
  "has_h2c_private dep env = (priv_H2CEnabled (ws_Private (dep_WebServices dep)) \<and> web_H2CPrivatePort (env_Web env) \<noteq> 0)"

text \<open>The ports without TLS, those of the service and those of the container.\<close>

definition plain_ports :: "Deployment \<Rightarrow> ClowdEnvironment \<Rightarrow> ServicePort list" where
  "plain_ports dep env =
     (let web = env_Web env
      in only_if (is_web dep) (app_port ''public'' http (web_Port web) (web_Port web))
         @ only_if (is_web dep \<and> web_Mode web = ''local'') (app_port ''auth'' http (authPort env) (authPort env))
         @ only_if (has_h2c dep env) (app_port ''h2c'' h2c (web_H2CPort web) (h2cTargetPort dep env))
         @ only_if (priv_Enabled (ws_Private (dep_WebServices dep))) (app_port ''private'' http (privatePort env) (privatePort env))
         @ only_if (has_h2c_private dep env) (app_port ''h2c-private'' h2c (web_H2CPrivatePort web) (h2cPrivateTargetPort dep env)))"

definition container_ports :: "Deployment \<Rightarrow> ClowdEnvironment \<Rightarrow> ContainerPort list" where
  "container_ports dep env =
     only_if (is_web dep) (tcp_port ''web'' (web_Port (env_Web env)))
     @ only_if (has_h2c dep env) (tcp_port ''h2c'' (h2cTargetPort dep env))
     @ only_if (priv_Enabled (ws_Private (dep_WebServices dep))) (tcp_port ''private'' (privatePort env))
     @ only_if (has_h2c_private dep env) (tcp_port ''h2c-private'' (h2cPrivateTargetPort dep env))"

definition tls_flags :: "Deployment \<Rightarrow> ClowdEnvironment \<Rightarrow> TlsFlags" where
  "tls_flags dep env =
     (let ws = dep_WebServices dep; tls = web_TLS (env_Web env); pub = IsPublicTLSEnabled ws tls; priv = IsPrivateTLSEnabled ws tls
      in \<lparr>tf_Pub = (pub \<and> pub_Enabled (ws_Public ws)), tf_Priv = (priv \<and> priv_Enabled (ws_Private ws)),
          tf_PubH2C = (pub \<and> pub_H2CEnabled (ws_Public ws) \<and> tls_H2CPort tls \<noteq> 0), tf_PrivH2C = (priv \<and> priv_H2CEnabled (ws_Private ws) \<and> tls_H2CPrivatePort tls \<noteq> 0)\<rparr>)"

definition any_tls :: "TlsFlags \<Rightarrow> bool" where
  "any_tls fl = (tf_Priv fl \<or> tf_Pub fl \<or> tf_PubH2C fl \<or> tf_PrivH2C fl)"

definition tls_ports :: "TlsFlags \<Rightarrow> TLS \<Rightarrow> ServicePort list" where
  "tls_ports fl tls =
     only_if (tf_Pub fl) (app_port ''tls'' http (tls_Port tls) (tls_Port tls))
     @ only_if (tf_Priv fl) (app_port ''tls-private'' http (tls_PrivatePort tls) (tls_PrivatePort tls))
     @ only_if (tf_PubH2C fl) (app_port ''h2c-tls'' h2c (tls_H2CPort tls) (tls_H2CPort tls))
     @ only_if (tf_PrivH2C fl) (app_port ''h2c-tls-private'' h2c (tls_H2CPrivatePort tls) (tls_H2CPrivatePort tls))"

section \<open>Making the service\<close>

record 's WebKinds =
  wk_Service :: "('s, KService) Resource"
  wk_CaddyConfigMap :: "('s, KConfigMapObj) Resource"
  wk_Deployment :: "('s, KDeployment) Resource"
  wk_CronJob :: "('s, KCronJob) Resource"

record WebDeps =
  wbd_Makers :: ObjMakers
  wbd_Encode :: "CaddyConfig \<Rightarrow> string"
  wbd_Stack :: string

definition caddy_config_map :: "WebDeps \<Rightarrow> NamespacedName \<Rightarrow> ClowdApp \<Rightarrow> CaddyConfig \<Rightarrow> KConfigMapObj \<Rightarrow> KConfigMapObj" where
  "caddy_config_map d snn app config cm = cm\<lparr>cm_ObjectMeta := (cm_ObjectMeta cm)\<lparr>om_Name := nn_Name snn, om_Namespace := nn_Namespace snn,
     om_OwnerReferences := [app_MakeOwnerReference app]\<rparr>, cm_Data := [''caddy.json'' \<mapsto> wbd_Encode d config]\<rparr>"

definition generateCaddyConfigMap :: "WebDeps \<Rightarrow> ('w \<times> 'c) WebKinds \<Rightarrow> NamespacedName \<Rightarrow> ClowdApp \<Rightarrow> CaddyConfig \<Rightarrow> (('w, 'c) Provider, unit) op" where
  "generateCaddyConfigMap d R nn app config =
     (let snn = NN (caddyConfigName (nn_Name nn)) (nn_Namespace nn) in with_resource (wk_CaddyConfigMap R) snn (caddy_config_map d snn app config))"

definition caddy_ports :: "TlsFlags \<Rightarrow> TLS \<Rightarrow> ContainerPort list" where
  "caddy_ports fl tls =
     only_if (tf_Pub fl) (tcp_port ''tls'' (tls_Port tls)) @ only_if (tf_Priv fl) (tcp_port ''tls-private'' (tls_PrivatePort tls))
     @ only_if (tf_PubH2C fl) (tcp_port ''h2c-tls'' (tls_H2CPort tls)) @ only_if (tf_PrivH2C fl) (tcp_port ''h2c-tls-private'' (tls_H2CPrivatePort tls))"

definition caddy_container :: "ClowderConfig \<Rightarrow> ClowdEnvironment \<Rightarrow> TlsFlags \<Rightarrow> Container" where
  "caddy_container lc env fl = Container_zero\<lparr>ct_Name := ''caddy-tls'', ct_Image := GetCaddyProxyImage lc env, ct_Command := [''/usr/bin/caddy''],
     ct_Args := [''run'', ''--config'', ''/etc/caddy/caddy.json''],
     ct_VolumeMounts := [\<lparr>vm_Name = ''caddy-tls'', vm_ReadOnly = True, vm_MountPath = ''/certs''\<rparr>, \<lparr>vm_Name = ''caddy-config'', vm_ReadOnly = True, vm_MountPath = ''/etc/caddy''\<rparr>],
     ct_Ports := caddy_ports fl (web_TLS (env_Web env))\<rparr>"

definition populateSideCar :: "ClowderConfig \<Rightarrow> string \<Rightarrow> ClowdEnvironment \<Rightarrow> TlsFlags \<Rightarrow> KDeployment \<Rightarrow> KDeployment" where
  "populateSideCar lc name env fl d = d\<lparr>kd_Template := (kd_Template d)\<lparr>
     pt_Containers := pt_Containers (kd_Template d) @ [caddy_container lc env fl],
     pt_Volumes := pt_Volumes (kd_Template d)
       @ [Volume_zero\<lparr>vol_Name := ''caddy-config'', vol_ConfigMap := Some \<lparr>vs_Name = caddyConfigName (om_Name (kd_ObjectMeta d)), vs_DefaultMode = None, vs_Optional = None\<rparr>\<rparr>,
          Volume_zero\<lparr>vol_Name := ''caddy-tls'', vol_Secret := Some \<lparr>vs_Name = certSecretName name, vs_DefaultMode = None, vs_Optional = None\<rparr>\<rparr>]\<rparr>\<rparr>"

definition setServiceTLSAnnotations :: "ObjMakers \<Rightarrow> string \<Rightarrow> KService \<Rightarrow> KService" where
  "setServiceTLSAnnotations M name s = s\<lparr>svc_ObjectMeta := (svc_ObjectMeta s)\<lparr>om_Annotations :=
     mk_Annotate M (om_Annotations (svc_ObjectMeta s)) [''service.beta.openshift.io/serving-cert-secret-name'' \<mapsto> certSecretName name]\<rparr>\<rparr>"

definition with_affinity :: "Deployment \<Rightarrow> KService \<Rightarrow> KService" where
  "with_affinity dep s = (if is_web dep \<and> pub_SessionAffinity (ws_Public (dep_WebServices dep)) then s\<lparr>svc_SessionAffinity := ''ClientIP''\<rparr> else s)"

text \<open>The ports of the first container are replaced; a deployment without a container panics.\<close>

definition set_first_ports :: "ContainerPort list \<Rightarrow> KDeployment \<Rightarrow> KDeployment option" where
  "set_first_ports ports d =
     (case pt_Containers (kd_Template d) of
        [] \<Rightarrow> None
      | c # cs \<Rightarrow> Some (d\<lparr>kd_Template := (kd_Template d)\<lparr>pt_Containers := c\<lparr>ct_Ports := ports\<rparr> # cs\<rparr>\<rparr>))"

definition web_ports :: "Deployment \<Rightarrow> ClowdEnvironment \<Rightarrow> ServicePort list" where
  "web_ports dep env = plain_ports dep env @ tls_ports (tls_flags dep env) (web_TLS (env_Web env))"

definition makeService :: "WebDeps \<Rightarrow> ('w \<times> 'c) WebKinds \<Rightarrow> ClowdApp \<Rightarrow> Deployment \<Rightarrow> (('w, 'c) Provider, unit) op" where
  "makeService d R app dep =
     and_next (reads prov_Env) (\<lambda>env.
       let nn = app_GetDeploymentNamespacedName app dep; fl = tls_flags dep env; M = wbd_Makers d
       in and_next (cache_Create (wk_Service R) nn) (\<lambda>s.
          and_next (cache_Get (wk_Deployment R) (Some nn)) (\<lambda>g.
          and_next (result g) (\<lambda>dd.
          and_next (if any_tls fl then generateCaddyConfigMap d R nn app (generateCaddyConfig fl env (h2cTargetPort dep env) (h2cPrivateTargetPort dep env)) else ret ()) (\<lambda>_.
            let dd1 = (if any_tls fl then populateSideCar (mk_Loaded M) (nn_Name nn) env fl dd else dd);
                s1 = (if any_tls fl then setServiceTLSAnnotations M (nn_Name nn) (with_affinity dep s) else with_affinity dep s);
                s2 = mk_Service M s1 nn [''pod'' \<mapsto> nn_Name nn] (web_ports dep env) (AppObject app) (env_IsNodePort env)
            in and_next (or_panic (set_first_ports (container_ports dep env) dd1)) (\<lambda>dd2.
               and_next (cache_Update (wk_Service R) s2) (\<lambda>_.
                 cache_Update (wk_Deployment R) dd2)))))))"

section \<open>The provider\<close>

text \<open>The ports of the configuration; those for H2C only when the environment has them.\<close>

definition web_config :: "ClowdEnvironment \<Rightarrow> AppConfig \<Rightarrow> AppConfig" where
  "web_config env c =
     (let web = env_Web env; c1 = c\<lparr>cfg_WebPort := Some (web_Port web), cfg_PublicPort := Some (web_Port web), cfg_PrivatePort := Some (privatePort env)\<rparr>;
          c2 = (if web_H2CPort web \<noteq> 0 then c1\<lparr>cfg_H2CPublicPort := Some (web_H2CPort web)\<rparr> else c1)
      in if web_H2CPrivatePort web \<noteq> 0 then c2\<lparr>cfg_H2CPrivatePort := Some (web_H2CPrivatePort web)\<rparr> else c2)"

definition mount_ca :: "WebDeps \<Rightarrow> ('w \<times> 'c) WebKinds \<Rightarrow> NamespacedName \<Rightarrow> (('w, 'c) Provider, unit) op" where
  "mount_ca d R dnn =
     and_next (cache_Get (wk_Deployment R) (Some dnn)) (\<lambda>g.
     and_next (map_err (Wrap (wbd_Stack d) ''getting core deployment'') (result g)) (\<lambda>dd.
       map_err (Wrap (wbd_Stack d) ''updating core deployment'') (cache_Update (wk_Deployment R) (dd\<lparr>kd_Template := AddCertVolume (kd_Template dd) (nn_Name dnn)\<rparr>))))"

definition mount_ca_cronjob :: "('w \<times> 'c) WebKinds \<Rightarrow> KCronJob \<Rightarrow> (('w, 'c) Provider, unit) op" where
  "mount_ca_cronjob R item =
     (case pt_Containers (kc_Template item) of
        [] \<Rightarrow> panics
      | c # cs \<Rightarrow> cache_Update (wk_CronJob R) (item\<lparr>kc_Template := AddCertVolume (kc_Template item) (ct_Name c)\<rparr>))"

definition web_Provide :: "WebDeps \<Rightarrow> ('w \<times> 'c) WebKinds \<Rightarrow> ClowdApp \<Rightarrow> (('w, 'c) Provider, unit) op" where
  "web_Provide d R app =
     and_next (reads prov_Env) (\<lambda>env.
       let tls = web_TLS (env_Web env)
       in and_next (set_config (web_config env)) (\<lambda>_.
          and_next (each (\<lambda>dep. and_next (map_err (Wrap (wbd_Stack d) ''making service'') (makeService d R app dep)) (\<lambda>_.
              if IsTLSConfiguredForEnv tls then mount_ca d R (app_GetDeploymentNamespacedName app dep) else ret ())) (app_Deployments (app_Spec app))) (\<lambda>_.
          and_next (if IsTLSConfiguredForEnv tls
                    then and_next (map_err (Wrap (wbd_Stack d) ''get cronjob list'') (cache_List (wk_CronJob R))) (\<lambda>items. each (mount_ca_cronjob R) items)
                    else ret ()) (\<lambda>_.
            if tls_Enabled tls then set_config (\<lambda>c. c\<lparr>cfg_TlsCAPath := GetServiceCACertPath\<rparr>) else ret ()))))"

section \<open>The service reaches the deployment\<close>


lemma app_port_fields [simp]: "sp_Name (app_port n proto port target) = n" "sp_TargetPort (app_port n proto port target) = target"
  by (simp_all add: app_port_def)

lemma only_if_in [simp]: "x \<in> set (only_if b y) \<longleftrightarrow> b \<and> x = y"
  by (auto simp: only_if_def)

lemma map_only_if [simp]: "map f (only_if b y) = only_if b (f y)"
  by (simp add: only_if_def)

lemma subseq_only_if: "subseq xs ys \<Longrightarrow> subseq (only_if b x @ xs) (x # ys)"
  by (auto simp: only_if_def)


lemma plain_port_targets:
  assumes "sp \<in> set (plain_ports dep env)"
  shows "sp_TargetPort sp \<in> cp_ContainerPort ` set (container_ports dep env)
    \<or> sp_Name sp = ''auth'' \<and> web_Mode (env_Web env) = ''local'' \<and> sp_TargetPort sp = authPort env"
  using assms unfolding plain_ports_def container_ports_def Let_def set_append image_Un Un_iff only_if_in
  by (elim disjE) (simp_all add: image_iff)

lemma tls_port_targets:
  assumes "sp \<in> set (tls_ports fl tls)"
  shows "any_tls fl \<and> sp_TargetPort sp \<in> cp_ContainerPort ` set (caddy_ports fl tls)"
  using assms unfolding tls_ports_def caddy_ports_def any_tls_def set_append image_Un Un_iff only_if_in
  by (elim disjE) (simp_all add: image_iff)

lemma web_port_targets:
  assumes "sp \<in> set (web_ports dep env)"
  shows "sp_Name sp = ''auth'' \<and> web_Mode (env_Web env) = ''local'' \<and> sp_TargetPort sp = authPort env
    \<or> sp_TargetPort sp \<in> cp_ContainerPort ` set (container_ports dep env)
    \<or> any_tls (tls_flags dep env) \<and> sp_TargetPort sp \<in> cp_ContainerPort ` set (caddy_ports (tls_flags dep env) (web_TLS (env_Web env)))"
  using assms plain_port_targets tls_port_targets unfolding web_ports_def by (metis Un_iff set_append)

abbreviation svc_NN :: "KService \<Rightarrow> NamespacedName" where
  "svc_NN s \<equiv> NN (om_Name (svc_ObjectMeta s)) (om_Namespace (svc_ObjectMeta s))"

definition all_ports :: "PodTemplate \<Rightarrow> int set" where
  "all_ports t = (\<Union>c \<in> set (pt_Containers t). cp_ContainerPort ` set (ct_Ports c))"

lemma first_ports_kept:
  assumes "set_first_ports ports dd = Some dd'"
  shows "kd_ObjectMeta dd' = kd_ObjectMeta dd" "pt_Labels (kd_Template dd') = pt_Labels (kd_Template dd)" "cp_ContainerPort ` set ports \<subseteq> all_ports (kd_Template dd')"
    "c \<in> set (tl (pt_Containers (kd_Template dd))) \<Longrightarrow> cp_ContainerPort ` set (ct_Ports c) \<subseteq> all_ports (kd_Template dd')"
  using assms by (auto simp: set_first_ports_def all_ports_def split: list.splits)

text \<open>The names of the ports are distinct: they are a part, in order, of a fixed list of names.\<close>

definition web_port_order :: "string list" where
  "web_port_order = [''public'', ''auth'', ''h2c'', ''private'', ''h2c-private'', ''tls'', ''tls-private'', ''h2c-tls'', ''h2c-tls-private'']"

lemma web_port_names: "distinct (map sp_Name (web_ports dep env))"
proof -
  have "subseq (map sp_Name (web_ports dep env)) web_port_order"
    unfolding web_ports_def plain_ports_def tls_ports_def Let_def map_append map_only_if app_port_fields append_assoc web_port_order_def
    by (intro subseq_only_if) (simp add: only_if_def)
  moreover have "distinct web_port_order" by (simp add: web_port_order_def)
  ultimately show ?thesis using subseq_conv_nths distinct_nthsI by metis
qed

text \<open>The deployment that is written: the ports of the app and, with TLS, those of Caddy.\<close>

lemma caddy_container_ports [simp]: "ct_Ports (caddy_container lc env fl) = caddy_ports fl (web_TLS (env_Web env))"
  by (simp add: caddy_container_def)

lemma populateSideCar_kept [simp]:
  "kd_ObjectMeta (populateSideCar lc name env fl dd) = kd_ObjectMeta dd" "pt_Labels (kd_Template (populateSideCar lc name env fl dd)) = pt_Labels (kd_Template dd)"
  by (simp_all add: populateSideCar_def)

lemma web_deployment_ports:
  assumes "set_first_ports ports (if any_tls fl then populateSideCar lc name env fl dd else dd) = Some dd'" and "pt_Containers (kd_Template dd) \<noteq> []"
  shows "kd_ObjectMeta dd' = kd_ObjectMeta dd \<and> pt_Labels (kd_Template dd') = pt_Labels (kd_Template dd) \<and> cp_ContainerPort ` set ports \<subseteq> all_ports (kd_Template dd')
    \<and> (any_tls fl \<longrightarrow> cp_ContainerPort ` set (caddy_ports fl (web_TLS (env_Web env))) \<subseteq> all_ports (kd_Template dd'))"
proof -
  note kept = first_ports_kept [OF assms(1)]
  have "caddy_container lc env fl \<in> set (tl (pt_Containers (kd_Template (populateSideCar lc name env fl dd))))"
    using assms(2) by (cases "pt_Containers (kd_Template dd)") (auto simp: populateSideCar_def)
  with kept(1-3) kept(4) [of "caddy_container lc env fl"] show ?thesis by (cases "any_tls fl") simp_all
qed

text \<open>What the cache has to promise about services and deployments: the usual, that the two kinds do not interfere, and that an object is read back as it is recorded.\<close>

definition web_cache :: "('s WebKinds) \<Rightarrow> ('s \<Rightarrow> NamespacedName \<rightharpoonup> KService) \<Rightarrow> ('s \<Rightarrow> NamespacedName \<rightharpoonup> KDeployment) \<Rightarrow> bool" where
  "web_cache R services deployments = (object_cache (wk_Service R) svc_NN services \<and> object_cache (wk_Deployment R) kd_NN deployments
     \<and> leaves_alone (wk_Deployment R) services \<and> leaves_alone (wk_Service R) deployments \<and> leaves_alone (wk_CaddyConfigMap R) deployments
     \<and> (\<forall>nn s dd. res_Get (wk_Deployment R) (Some nn) s = Inr dd \<longrightarrow> deployments s nn = Some dd))"

lemma makeService_steps:
  assumes run: "makeService d R app dep p = Some (p', Inr ())" and cache: "web_cache R services deployments"
  defines "env \<equiv> prov_Env p" and "nn \<equiv> app_GetDeploymentNamespacedName app dep"
  obtains s1 dd0 dd2 p3 p4 u where "prov_recorded deployments p nn = Some dd0"
    "set_first_ports (container_ports dep env) (if any_tls (tls_flags dep env) then populateSideCar (mk_Loaded (wbd_Makers d)) (nn_Name nn) env (tls_flags dep env) dd0 else dd0) = Some dd2"
    "cache_Update (wk_Service R) (mk_Service (wbd_Makers d) s1 nn [''pod'' \<mapsto> nn_Name nn] (web_ports dep env) (AppObject app) (env_IsNodePort env)) p3 = Some (p4, Inr u)"
    "cache_Update (wk_Deployment R) dd2 p4 = Some (p', Inr ())"
proof -
  from run obtain s p1 c dd0 p3 p4 s1 dd2 u where cr: "cache_Create (wk_Service R) nn p = Some (p1, Inr s)"
    and c: "prov_Cache p1 = Some c" and g: "res_Get (wk_Deployment R) (Some nn) (prov_World p1, c) = Inr dd0"
    and rest: "set_first_ports (container_ports dep env) (if any_tls (tls_flags dep env) then populateSideCar (mk_Loaded (wbd_Makers d)) (nn_Name nn) env (tls_flags dep env) dd0 else dd0) = Some dd2"
    "cache_Update (wk_Service R) (mk_Service (wbd_Makers d) s1 nn [''pod'' \<mapsto> nn_Name nn] (web_ports dep env) (AppObject app) (env_IsNodePort env)) p3 = Some (p4, Inr u)"
    "cache_Update (wk_Deployment R) dd2 p4 = Some (p', Inr ())"
    unfolding makeService_def Let_def and_next_reads env_def [symmetric] nn_def [symmetric] op_oks cache_Get_ok option.inject prod.inject
    by (elim exE conjE, hypsubst) (rule that, assumption+)
  have "deployments (prov_World p1, c) nn = Some dd0" and alone: "leaves_alone (wk_Service R) deployments"
    using g cache unfolding web_cache_def by blast+
  then have "prov_recorded deployments p nn = Some dd0" using leaves_alone_ops(1) [OF alone cr] c by simp
  then show thesis using rest by (rule that)
qed

lemma makeService_env: "makeService d R app dep p = Some (p', r) \<Longrightarrow> prov_Env p' = prov_Env p"
proof (rule unchangedD [of prov_Env "makeService d R app dep"])
  show "unchanged prov_Env (makeService d R app dep)"
    unfolding makeService_def generateCaddyConfigMap_def Let_def by (intro unchangeds)
qed

text \<open>The service and the deployment that are recorded.\<close>

lemma makeService_records:
  assumes laws: "makers_laws (wbd_Makers d)" and cache: "web_cache R services deployments" and run: "makeService d R app dep p = Some (p', Inr ())"
  defines "nn \<equiv> app_GetDeploymentNamespacedName app dep" and "fl \<equiv> tls_flags dep (prov_Env p)"
  obtains s dd0 dd2 where "prov_recorded services p' nn = Some s" "svc_NN s = nn" "svc_Selector s = [''pod'' \<mapsto> nn_Name nn]" "svc_Ports s = web_ports dep (prov_Env p)"
    "prov_recorded deployments p nn = Some dd0" "prov_recorded deployments p' (kd_NN dd2) = Some dd2"
    "set_first_ports (container_ports dep (prov_Env p)) (if any_tls fl then populateSideCar (mk_Loaded (wbd_Makers d)) (nn_Name nn) (prov_Env p) fl dd0 else dd0) = Some dd2"
proof -
  let ?env = "prov_Env p"
  obtain s1 dd0 dd2 p3 p4 u where dd0: "prov_recorded deployments p nn = Some dd0"
    and dd2: "set_first_ports (container_ports dep ?env) (if any_tls fl then populateSideCar (mk_Loaded (wbd_Makers d)) (nn_Name nn) ?env fl dd0 else dd0) = Some dd2"
    and us: "cache_Update (wk_Service R) (mk_Service (wbd_Makers d) s1 nn [''pod'' \<mapsto> nn_Name nn] (web_ports dep ?env) (AppObject app) (env_IsNodePort ?env)) p3 = Some (p4, Inr u)"
    and ud: "cache_Update (wk_Deployment R) dd2 p4 = Some (p', Inr ())"
    unfolding nn_def fl_def by (rule makeService_steps [OF run cache])
  let ?s = "mk_Service (wbd_Makers d) s1 nn [''pod'' \<mapsto> nn_Name nn] (web_ports dep ?env) (AppObject app) (env_IsNodePort ?env)"
  have caches: "object_cache (wk_Service R) svc_NN services" "object_cache (wk_Deployment R) kd_NN deployments" "leaves_alone (wk_Deployment R) services"
    using cache unfolding web_cache_def by blast+
  have s: "svc_NN ?s = nn" "svc_Selector ?s = [''pod'' \<mapsto> nn_Name nn]" "svc_Ports ?s = web_ports dep ?env"
    using service_made [OF laws, of s1 nn "[''pod'' \<mapsto> nn_Name nn]" "web_ports dep ?env" "AppObject app" "env_IsNodePort ?env"] by (simp_all add: comp_NN_def)
  have "prov_recorded services p' nn = Some ?s"
    using update_records [OF caches(1) us] leaves_alone_ops(2) [OF caches(3) ud] s(1) by simp
  moreover have "prov_recorded deployments p' (kd_NN dd2) = Some dd2" using update_records [OF caches(2) ud] by simp
  ultimately show thesis by (rule that [OF _ s dd0 _ dd2])
qed

text \<open>
  C22. The deployment that the deployment provider recorded has its name, a container and the labels of its pods. Then the service made for it is recorded under the same name with ports of distinct
  names, and selects those pods. Every port of it leads to a port that a container of the recorded deployment declares, but for the one of the authentication sidecar, which only the
  local mode has.
\<close>

theorem deployment_service_served:
  assumes "makers_laws (wbd_Makers d)" and cache: "web_cache R services deployments"
    and "prov_recorded deployments p nn = Some dd0" and "kd_NN dd0 = nn" and "pt_Containers (kd_Template dd0) \<noteq> []" and "pt_Labels (kd_Template dd0) = pod_labels app nn"
    and run: "makeService d R app dep p = Some (p', Inr ())" and nn: "nn = app_GetDeploymentNamespacedName app dep"
  shows "\<exists>s dd. prov_recorded services p' nn = Some s \<and> prov_recorded deployments p' nn = Some dd
    \<and> svc_Selector s \<subseteq>\<^sub>m pt_Labels (kd_Template dd) \<and> distinct (map sp_Name (svc_Ports s))
    \<and> (\<forall>sp \<in> set (svc_Ports s). sp_TargetPort sp \<in> all_ports (kd_Template dd)
         \<or> sp_Name sp = ''auth'' \<and> web_Mode (env_Web (prov_Env p)) = ''local'' \<and> sp_TargetPort sp = authPort (prov_Env p))"
proof -
  let ?env = "prov_Env p" and ?fl = "tls_flags dep (prov_Env p)"
  from makeService_records [OF assms(1) cache run] assms(3) obtain s dd where s: "prov_recorded services p' nn = Some s" "svc_Selector s = [''pod'' \<mapsto> nn_Name nn]" "svc_Ports s = web_ports dep ?env"
    and dd: "prov_recorded deployments p' (kd_NN dd) = Some dd"
    and dd2: "set_first_ports (container_ports dep ?env) (if any_tls ?fl then populateSideCar (mk_Loaded (wbd_Makers d)) (nn_Name nn) ?env ?fl dd0 else dd0) = Some dd"
    unfolding nn by (metis option.inject)
  note w = web_deployment_ports [OF dd2 assms(5)]
  have "prov_recorded deployments p' nn = Some dd" using dd w assms(4) by simp
  moreover have "svc_Selector s \<subseteq>\<^sub>m pt_Labels (kd_Template dd)" using s(2) w assms(6) by (simp add: pod_labels_def map_le_def)
  moreover have "\<forall>sp \<in> set (web_ports dep ?env). sp_TargetPort sp \<in> all_ports (kd_Template dd)
         \<or> sp_Name sp = ''auth'' \<and> web_Mode (env_Web ?env) = ''local'' \<and> sp_TargetPort sp = authPort ?env"
    using web_port_targets [of _ dep ?env] w unfolding subset_eq by meson
  ultimately show ?thesis using s web_port_names by (intro exI [of _ s] exI [of _ dd]) simp
qed

text \<open>The sidecar that the pod mutator adds listens on port 8080 whatever port is configured for authentication.\<close>

lemma auth_port_hard_wired:
  "web_AuthPort (env_Web env) \<noteq> 0 \<Longrightarrow> authPort env = web_AuthPort (env_Web env)" "map cp_ContainerPort (ct_Ports (auth_container port config img res)) = [8080]"
  by (simp_all add: authPort_def auth_container_def)

section \<open>TLS\<close>

text \<open>The server of each name.\<close>

definition caddy_server_of :: "TlsFlags \<Rightarrow> ClowdEnvironment \<Rightarrow> int \<Rightarrow> int \<Rightarrow> string \<Rightarrow> CaddyServer option" where
  "caddy_server_of fl env hp hpp name = (let web = env_Web env; tls = web_TLS web in
     if name = ''pubServer'' \<and> tf_Pub fl then Some (generateServer (tls_Port tls) (web_Port web) ''cert0'' http)
     else if name = ''privServer'' \<and> tf_Priv fl then Some (generateServer (tls_PrivatePort tls) (web_PrivatePort web) ''cert0'' http)
     else if name = ''pubServerH2C'' \<and> tf_PubH2C fl then Some (generateServer (tls_H2CPort tls) hp ''cert0'' ''h2c'')
     else if name = ''privServerH2C'' \<and> tf_PrivH2C fl then Some (generateServer (tls_H2CPrivatePort tls) hpp ''cert0'' ''h2c'')
     else None)"

lemma map_of_optional: "map_of ((if b then [(k, v)] else []) @ xs) j = (if b \<and> j = k then Some v else map_of xs j)"
  by simp

lemma map_optional: "map f (if b then [x] else []) = (if b then [f x] else [])"
  by simp

lemma caddy_servers:
  assumes "any_tls fl"
  shows "cad_Servers (generateCaddyConfig fl env hp hpp) = Some (caddy_server_of fl env hp hpp)"
proof -
  let ?web = "env_Web env" and ?tls = "web_TLS (env_Web env)"
  let ?all = "generateServers (tf_Pub fl) (tf_Priv fl) (tls_Port ?tls) (tls_PrivatePort ?tls) (web_Port ?web) (web_PrivatePort ?web) http
      @ map (\<lambda>(n, s). (n @ ''H2C'', s)) (generateServers (tf_PubH2C fl) (tf_PrivH2C fl) (tls_H2CPort ?tls) (tls_H2CPrivatePort ?tls) hp hpp ''h2c'')"
  have "?all \<noteq> []" using assms by (auto simp: generateServers_def any_tls_def)
  moreover have "map_of ?all = caddy_server_of fl env hp hpp"
    unfolding generateServers_def map_append map_optional prod.case append_assoc fun_eq_iff map_of_optional caddy_server_of_def Let_def by simp
  ultimately show ?thesis by (simp add: generateCaddyConfig_def Let_def)
qed

lemma caddy_forwards:
  assumes "any_tls fl" and "cp \<in> set ports" and "caddy_server_of fl env hp hpp name = Some (generateServer target (cp_ContainerPort cp) tag proto)"
  shows "\<exists>servers name server cp. cad_Servers (generateCaddyConfig fl env hp hpp) = Some servers
    \<and> servers name = Some server \<and> cs_Listen server = '':'' @ itoa target \<and> cp \<in> set ports \<and> cs_Dial server = ''localhost:'' @ itoa (cp_ContainerPort cp)"
  using assms(2,3) caddy_servers [OF assms(1), of env hp hpp]
  by (intro exI [of _ "caddy_server_of fl env hp hpp"] exI [of _ name] exI [of _ "generateServer target (cp_ContainerPort cp) tag proto"] exI [of _ cp]) (simp add: generateServer_def)

text \<open>
  C23. When the environment sets the private port, and the H2C port of every kind it has a TLS port for, every TLS port of the service of a deployment is one a server of its Caddy listens on, and the server
  forwards to a port the container of the app declares.
\<close>

theorem tls_ports_forwarded:
  assumes "sp \<in> set (tls_ports (tls_flags dep env) (web_TLS (env_Web env)))"
    and "web_PrivatePort (env_Web env) \<noteq> 0" and "tls_H2CPort (web_TLS (env_Web env)) \<noteq> 0 \<longrightarrow> web_H2CPort (env_Web env) \<noteq> 0"
    and "tls_H2CPrivatePort (web_TLS (env_Web env)) \<noteq> 0 \<longrightarrow> web_H2CPrivatePort (env_Web env) \<noteq> 0"
  shows "\<exists>servers name server cp. cad_Servers (generateCaddyConfig (tls_flags dep env) env (h2cTargetPort dep env) (h2cPrivateTargetPort dep env)) = Some servers
    \<and> servers name = Some server \<and> cs_Listen server = '':'' @ itoa (sp_TargetPort sp)
    \<and> cp \<in> set (container_ports dep env) \<and> cs_Dial server = ''localhost:'' @ itoa (cp_ContainerPort cp)"
proof -
  let ?fl = "tls_flags dep env" and ?tls = "web_TLS (env_Web env)"
  have any: "any_tls ?fl" using tls_port_targets [OF assms(1)] by simp
  from assms(1) consider (pub) "tf_Pub ?fl" "sp_TargetPort sp = tls_Port ?tls" | (priv) "tf_Priv ?fl" "sp_TargetPort sp = tls_PrivatePort ?tls"
    | (h2c) "tf_PubH2C ?fl" "sp_TargetPort sp = tls_H2CPort ?tls" | (h2cp) "tf_PrivH2C ?fl" "sp_TargetPort sp = tls_H2CPrivatePort ?tls"
    unfolding tls_ports_def set_append Un_iff only_if_in using that by (elim disjE) simp_all
  then show ?thesis
  proof cases
    case pub
    then have "tcp_port ''web'' (web_Port (env_Web env)) \<in> set (container_ports dep env)" by (simp add: container_ports_def is_web_def tls_flags_def Let_def)
    then show ?thesis by (rule caddy_forwards [OF any, where name = "''pubServer''"]) (simp_all add: pub caddy_server_of_def Let_def)
  next
    case priv
    then have "tcp_port ''private'' (web_PrivatePort (env_Web env)) \<in> set (container_ports dep env)" using assms(2) by (simp add: container_ports_def privatePort_def tls_flags_def Let_def)
    then show ?thesis by (rule caddy_forwards [OF any, where name = "''privServer''"]) (simp_all add: priv caddy_server_of_def Let_def)
  next
    case h2c
    then have "tcp_port ''h2c'' (h2cTargetPort dep env) \<in> set (container_ports dep env)" using assms(3) by (simp add: container_ports_def has_h2c_def tls_flags_def Let_def)
    then show ?thesis by (rule caddy_forwards [OF any, where name = "''pubServerH2C''"]) (simp_all add: h2c caddy_server_of_def Let_def)
  next
    case h2cp
    then have "tcp_port ''h2c-private'' (h2cPrivateTargetPort dep env) \<in> set (container_ports dep env)" using assms(4) by (simp add: container_ports_def has_h2c_private_def tls_flags_def Let_def)
    then show ?thesis by (rule caddy_forwards [OF any, where name = "''privServerH2C''"]) (simp_all add: h2cp caddy_server_of_def Let_def)
  qed
qed

section \<open>An example\<close>

type_synonym web_store = "(NamespacedName \<rightharpoonup> KService) \<times> (NamespacedName \<rightharpoonup> KDeployment)"

definition sample_web_kinds :: "(unit \<times> web_store) WebKinds" where
  "sample_web_kinds = \<lparr>
     wk_Service = \<lparr>res_Create = (\<lambda>nn s. (s, Inr \<lparr>svc_ObjectMeta = ObjectMeta_zero, svc_Selector = Map.empty, svc_Ports = [], svc_Type = '''', svc_SessionAffinity = ''''\<rparr>)),
       res_Update = (\<lambda>k (w, a, b). ((w, a(svc_NN k \<mapsto> k), b), None)), res_Get = (\<lambda>nn s. Inl (PlainErr ''none'')), res_List = (\<lambda>s. Inr [])\<rparr>,
     wk_CaddyConfigMap = quiet_resource \<lparr>cm_ObjectMeta = ObjectMeta_zero, cm_Data = Map.empty\<rparr>,
     wk_Deployment = \<lparr>res_Create = (\<lambda>nn s. (s, Inr KDeployment_zero)), res_Update = (\<lambda>k (w, a, b). ((w, a, b(kd_NN k \<mapsto> k)), None)),
       res_Get = (\<lambda>nn (w, a, b). case nn of None \<Rightarrow> Inl (PlainErr ''none'') | Some n \<Rightarrow> (case b n of None \<Rightarrow> Inl (PlainErr ''none'') | Some k \<Rightarrow> Inr k)), res_List = (\<lambda>s. Inr [])\<rparr>,
     wk_CronJob = \<lparr>res_Create = (\<lambda>nn s. (s, Inl (PlainErr ''none''))), res_Update = (\<lambda>k s. (s, None)), res_Get = (\<lambda>nn s. Inl (PlainErr ''none'')), res_List = (\<lambda>s. Inr [])\<rparr>\<rparr>"

lemma sample_web_cache: "web_cache sample_web_kinds (\<lambda>s. fst (snd s)) (\<lambda>s. snd (snd s))"
  by (auto simp: web_cache_def sample_web_kinds_def object_cache_def leaves_alone_def quiet_resource_def split: option.splits)

definition sample_web_deps :: WebDeps where
  "sample_web_deps = \<lparr>wbd_Makers = sample_makers, wbd_Encode = (\<lambda>c. ''{}''), wbd_Stack = ''st''\<rparr>"

definition sample_web_app :: ClowdApp where
  "sample_web_app = ClowdApp_zero\<lparr>app_ObjectMeta := ObjectMeta_zero\<lparr>om_Name := ''inv'', om_Namespace := ''ns''\<rparr>\<rparr>"

definition sample_web_dep :: Deployment where
  "sample_web_dep = Deployment_zero\<lparr>dep_Name := ''api'', dep_WebServices := WebServices_zero\<lparr>ws_Public := (ws_Public WebServices_zero)\<lparr>pub_Enabled := True\<rparr>\<rparr>\<rparr>"

definition sample_web_env :: ClowdEnvironment where
  "sample_web_env = ClowdEnvironment_zero\<lparr>env_Spec := (env_Spec ClowdEnvironment_zero)\<lparr>env_Providers := ProvidersConfig_zero\<lparr>pv_Web :=
     WebConfig_zero\<lparr>web_Port := 8000, web_PrivatePort := 10000, web_TLS := TLS_zero\<lparr>tls_Enabled := True, tls_Port := 8443, tls_PrivatePort := 10443\<rparr>\<rparr>\<rparr>\<rparr>\<rparr>"

definition sample_web_deployment :: KDeployment where
  "sample_web_deployment = KDeployment_zero\<lparr>kd_ObjectMeta := ObjectMeta_zero\<lparr>om_Name := ''inv-api'', om_Namespace := ''ns''\<rparr>,
     kd_Template := PodTemplate_zero\<lparr>pt_Containers := [Container_zero\<lparr>ct_Name := ''inv-api''\<rparr>], pt_Labels := pod_labels sample_web_app (NN ''inv-api'' ''ns'')\<rparr>\<rparr>"

definition sample_web_provider :: "(unit, web_store) Provider" where
  "sample_web_provider = \<lparr>prov_World = (), prov_Env = sample_web_env, prov_Cache = Some (Map.empty, [NN ''inv-api'' ''ns'' \<mapsto> sample_web_deployment]),
     prov_Config = Some AppConfig_zero, prov_HashCache = []\<rparr>"

lemma sample_web_names: "app_GetDeploymentNamespacedName sample_web_app sample_web_dep = NN ''inv-api'' ''ns''"
  by (simp add: app_GetDeploymentNamespacedName_def sample_web_app_def sample_web_dep_def Deployment_zero_def)

lemma sample_web_flags: "tls_flags sample_web_dep sample_web_env = \<lparr>tf_Pub = True, tf_Priv = False, tf_PubH2C = False, tf_PrivH2C = False\<rparr>"
  by (simp add: tls_flags_def sample_web_dep_def sample_web_env_def IsPublicTLSEnabled_def IsPrivateTLSEnabled_def IsTLSConfiguredForEnv_def WebServices_zero_def
      TLS_zero_def WebConfig_zero_def Let_def)

lemma sample_web_runs: "\<exists>p'. makeService sample_web_deps sample_web_kinds sample_web_app sample_web_dep sample_web_provider = Some (p', Inr ())"
  by (simp add: makeService_def Let_def op_oks sample_web_names sample_web_provider_def sample_web_flags any_tls_def generateCaddyConfigMap_def with_resource_def
      cache_Create_def cache_Update_def cache_Get_def cached_def sample_web_kinds_def quiet_resource_def set_first_ports_def populateSideCar_def sample_web_deployment_def)

theorem deployment_service_served_witness:
  "\<exists>p' s dd. makeService sample_web_deps sample_web_kinds sample_web_app sample_web_dep sample_web_provider = Some (p', Inr ())
     \<and> fst (the (prov_Cache p')) (NN ''inv-api'' ''ns'') = Some s \<and> snd (the (prov_Cache p')) (NN ''inv-api'' ''ns'') = Some dd
     \<and> svc_Selector s \<subseteq>\<^sub>m pt_Labels (kd_Template dd)
     \<and> (\<forall>sp \<in> set (svc_Ports s). sp_TargetPort sp \<in> all_ports (kd_Template dd) \<or> sp_Name sp = ''auth'')"
proof -
  obtain p' where run: "makeService sample_web_deps sample_web_kinds sample_web_app sample_web_dep sample_web_provider = Some (p', Inr ())" using sample_web_runs by blast
  have "makers_laws (wbd_Makers sample_web_deps)" by (simp add: sample_web_deps_def sample_makers_laws)
  from deployment_service_served [OF this sample_web_cache _ _ _ _ run sample_web_names [symmetric], of sample_web_deployment] run show ?thesis
    by (auto simp: sample_web_provider_def sample_web_deployment_def)
qed

theorem tls_ports_forwarded_witness:
  "\<exists>servers name server. cad_Servers (generateCaddyConfig (tls_flags sample_web_dep sample_web_env) sample_web_env (h2cTargetPort sample_web_dep sample_web_env)
       (h2cPrivateTargetPort sample_web_dep sample_web_env)) = Some servers \<and> servers name = Some server \<and> cs_Listen server = '':'' @ itoa 8443"
proof -
  have "app_port ''tls'' http 8443 8443 \<in> set (tls_ports (tls_flags sample_web_dep sample_web_env) (web_TLS (env_Web sample_web_env)))"
    unfolding tls_ports_def sample_web_flags by (simp add: sample_web_env_def)
  from tls_ports_forwarded [OF this] show ?thesis by (auto simp: sample_web_env_def TLS_zero_def)
qed

end
