(* ===== verification/Small_Providers.thy ===== *)
theory Small_Providers
  imports Web_Service
begin

text \<open>
  Three small providers: logging (\<open>providers/logging\<close>), the label of the namespaces (\<open>providers/namespace/default.go\<close>) and the annotations for the service mesh
  (\<open>providers/servicemesh/default.go\<close>).

  The facts: the secret with the credentials for CloudWatch is one the hash cache follows for the environment, and its data is the configuration; a namespace gets its label, a label it has is kept,
  and labelling twice writes once; with the mesh enabled every deployment of the cache is annotated and keeps everything else.
\<close>

section \<open>Logging\<close>

abbreviation env_LoggingMode :: "ClowdEnvironment \<Rightarrow> string" where
  "env_LoggingMode e \<equiv> pv_LoggingMode (env_Providers (env_Spec e))"

definition cloudwatch_of :: "KSecretObj \<Rightarrow> CloudWatchConfig" where
  "cloudwatch_of secret = \<lparr>cw_AccessKeyId = mget (sec_Data secret) ''aws_access_key_id'', cw_LogGroup = mget (sec_Data secret) ''log_group_name'',
     cw_Region = mget (sec_Data secret) ''aws_region'', cw_SecretAccessKey = mget (sec_Data secret) ''aws_secret_access_key''\<rparr>"

definition setCloudwatchSecret :: "'w ProvDeps \<Rightarrow> string \<Rightarrow> (('w, 'c) Provider, unit) op" where
  "setCloudwatchSecret d ns =
     and_next (map_err (Wrap (pd_Stack d) ''Failed to fetch cloudwatch secret'') (get_secret d (NN ''cloudwatch'' ns))) (\<lambda>secret.
     and_next (track_secret d env_object secret) (\<lambda>_.
       set_config (\<lambda>c. c\<lparr>cfg_Logging := \<lparr>lc_Cloudwatch = Some (cloudwatch_of secret), lc_Type = ''cloudwatch''\<rparr>\<rparr>)))"

definition appInterfaceLogging_Provide :: "'w ProvDeps \<Rightarrow> ClowdApp \<Rightarrow> (('w, 'c) Provider, unit) op" where
  "appInterfaceLogging_Provide d app =
     and_next (set_config (\<lambda>c. c\<lparr>cfg_Logging := \<lparr>lc_Cloudwatch = None, lc_Type = ''''\<rparr>\<rparr>)) (\<lambda>_.
       setCloudwatchSecret d (app_Namespace app))"

definition noneLogging_Provide :: "ClowdApp \<Rightarrow> (('w, 'c) Provider, unit) op" where
  "noneLogging_Provide _ =
     set_config (\<lambda>c. c\<lparr>cfg_Logging := \<lparr>lc_Cloudwatch = Some \<lparr>cw_AccessKeyId = '''', cw_LogGroup = '''', cw_Region = '''', cw_SecretAccessKey = ''''\<rparr>, lc_Type = ''null''\<rparr>\<rparr>)"

datatype logging_mode = AppInterfaceLogging | NoneLogging

definition GetLogging :: "string \<Rightarrow> ClowdEnvironment \<Rightarrow> goerr + logging_mode" where
  "GetLogging stack env =
     (let logMode = env_LoggingMode env
      in if logMode = ''app-interface'' then Inr AppInterfaceLogging
         else if logMode \<in> {''none'', ''null'', ''''} then Inr NoneLogging
         else Inl (NewClowderError stack (''No matching logging mode for '' @ logMode)))"

text \<open>What a successful run has written, and that the secret is followed and associated with the environment.\<close>

lemma cloudwatch_written:
  assumes "appInterfaceLogging_Provide d app p = Some (p', Inr ())" and "\<And>i. followed i (prov_HashCache p)"
  obtains secret c where "pd_GetSecret d (NN ''cloudwatch'' (app_Namespace app)) (prov_World p) = Inr secret"
    "prov_Config p' = Some c" "cfg_Logging c = \<lparr>lc_Cloudwatch = Some (cloudwatch_of secret), lc_Type = ''cloudwatch''\<rparr>"
    "depends_on (EnvObject (prov_Env p)) (ident_of (secret_object secret)) (prov_HashCache p')"
proof -
  from assms(1) obtain c secret p1 where s: "pd_GetSecret d (NN ''cloudwatch'' (app_Namespace app)) (prov_World p) = Inr secret" and c: "prov_Config p = Some c"
    and t: "track_secret d env_object secret (p\<lparr>prov_Config := Some (c\<lparr>cfg_Logging := \<lparr>lc_Cloudwatch = None, lc_Type = ''''\<rparr>\<rparr>)\<rparr>) = Some (p1, Inr ())"
    and p': "set_config (\<lambda>c. c\<lparr>cfg_Logging := \<lparr>lc_Cloudwatch = Some (cloudwatch_of secret), lc_Type = ''cloudwatch''\<rparr>\<rparr>) p1 = Some (p', Inr ())"
    by (auto simp: appInterfaceLogging_Provide_def setCloudwatchSecret_def op_oks set_config_ok get_secret_def)
  from p' obtain c' where "prov_Config p' = Some c'" "cfg_Logging c' = \<lparr>lc_Cloudwatch = Some (cloudwatch_of secret), lc_Type = ''cloudwatch''\<rparr>" "prov_HashCache p' = prov_HashCache p1"
    by (auto simp: set_config_ok)
  with s track_secret_depends [OF t] assms(2) show thesis by (intro that) (simp_all add: env_object_def)
qed

section \<open>Namespaces\<close>

text \<open>What the provider needs of the client: reading a namespace and writing it, and the file with the namespace of the operator.\<close>

record 'w NsDeps =
  nsd_Get :: "string \<Rightarrow> 'w \<Rightarrow> goerr + ObjectMeta"
  nsd_Update :: "ObjectMeta \<Rightarrow> 'w \<Rightarrow> 'w \<times> goerr option"
  nsd_ReadFile :: "string \<Rightarrow> string option"

abbreviation ns_label :: string where "ns_label \<equiv> ''kubernetes.io/metadata.name''"

definition setLabelOnNamespace :: "'w NsDeps \<Rightarrow> string \<Rightarrow> (('w, 'c) Provider, unit) op" where
  "setLabelOnNamespace d ns p =
     (case nsd_Get d ns (prov_World p) of
        Inl err \<Rightarrow> Some (p, Inl err)
      | Inr m \<Rightarrow>
          (if om_Labels m ns_label = None
           then (case nsd_Update d (m\<lparr>om_Labels := (om_Labels m)(ns_label \<mapsto> ns)\<rparr>) (prov_World p) of
                   (w', None) \<Rightarrow> Some (p\<lparr>prov_World := w'\<rparr>, Inr ())
                 | (w', Some err) \<Rightarrow> Some (p\<lparr>prov_World := w'\<rparr>, Inl err))
           else Some (p, Inr ())))"

text \<open>The error for the namespace of the operator is ignored.\<close>

definition ignore_err :: "('p, 'a) op \<Rightarrow> ('p, unit) op" where
  "ignore_err m p = (case m p of None \<Rightarrow> None | Some (p', _) \<Rightarrow> Some (p', Inr ()))"

definition namespace_EnvProvide :: "'w NsDeps \<Rightarrow> (('w, 'c) Provider, unit) op" where
  "namespace_EnvProvide d =
     and_next (ignore_err (setLabelOnNamespace d (GetClowderNamespace (nsd_ReadFile d)))) (\<lambda>_.
     and_next (reads prov_Env) (\<lambda>env. setLabelOnNamespace d (est_TargetNamespace (env_Status env))))"

definition namespace_Provide :: "'w NsDeps \<Rightarrow> ClowdApp \<Rightarrow> (('w, 'c) Provider, unit) op" where
  "namespace_Provide d app = setLabelOnNamespace d (app_Namespace app)"

text \<open>What the client documents: an object is read under its name, and after an update it is read as it was written.\<close>

definition ns_client :: "'w NsDeps \<Rightarrow> bool" where
  "ns_client d = ((\<forall>ns w m. nsd_Get d ns w = Inr m \<longrightarrow> om_Name m = ns) \<and> (\<forall>m w w'. nsd_Update d m w = (w', None) \<longrightarrow> nsd_Get d (om_Name m) w' = Inr m))"

lemma namespace_labelled:
  assumes "ns_client d" and "setLabelOnNamespace d ns p = Some (p', Inr ())"
  obtains m m' where "nsd_Get d ns (prov_World p) = Inr m" "nsd_Get d ns (prov_World p') = Inr m'"
    "m' = m\<lparr>om_Labels := (om_Labels m)(ns_label \<mapsto> (case om_Labels m ns_label of Some l \<Rightarrow> l | None \<Rightarrow> ns))\<rparr>"
proof -
  from assms(2) obtain m where m: "nsd_Get d ns (prov_World p) = Inr m" by (auto simp: setLabelOnNamespace_def split: sum.splits)
  show thesis
  proof (cases "om_Labels m ns_label")
    case None
    with assms(2) m obtain w' where w': "nsd_Update d (m\<lparr>om_Labels := (om_Labels m)(ns_label \<mapsto> ns)\<rparr>) (prov_World p) = (w', None)" and p': "p' = p\<lparr>prov_World := w'\<rparr>"
      by (auto simp: setLabelOnNamespace_def split: prod.splits option.splits)
    have "om_Name m = ns" using assms(1) m unfolding ns_client_def by blast
    moreover have "nsd_Get d (om_Name (m\<lparr>om_Labels := (om_Labels m)(ns_label \<mapsto> ns)\<rparr>)) w' = Inr (m\<lparr>om_Labels := (om_Labels m)(ns_label \<mapsto> ns)\<rparr>)"
      using assms(1) w' unfolding ns_client_def by blast
    ultimately show thesis using m None p' by (intro that [OF m]) simp_all
  next
    case (Some l)
    then have "(om_Labels m)(ns_label \<mapsto> l) = om_Labels m" by (simp add: fun_upd_idem)
    with assms(2) m Some show thesis by (intro that [OF m, of m]) (simp_all add: setLabelOnNamespace_def)
  qed
qed

text \<open>Labelling a second time changes nothing.\<close>

lemma namespace_label_idempotent:
  assumes "ns_client d" and "setLabelOnNamespace d ns p = Some (p', Inr ())"
  shows "setLabelOnNamespace d ns p' = Some (p', Inr ())"
proof -
  obtain m where "nsd_Get d ns (prov_World p') = Inr (m\<lparr>om_Labels := (om_Labels m)(ns_label \<mapsto> (case om_Labels m ns_label of Some l \<Rightarrow> l | None \<Rightarrow> ns))\<rparr>)"
    by (rule namespace_labelled [OF assms]) blast
  then show ?thesis by (simp add: setLabelOnNamespace_def)
qed

section \<open>The service mesh\<close>

definition mesh_annotations :: smap where
  "mesh_annotations = [''sidecar.istio.io/inject'' \<mapsto> ''true'', ''traffic.sidecar.istio.io/excludeOutboundPorts'' \<mapsto> ''443,9093,5432,10000'']"

definition annotate_pods :: "ObjMakers \<Rightarrow> smap \<Rightarrow> KDeployment \<Rightarrow> KDeployment" where
  "annotate_pods M extra dd = dd\<lparr>kd_Template := (kd_Template dd)\<lparr>pt_Annotations := mk_Annotate M (pt_Annotations (kd_Template dd)) extra\<rparr>\<rparr>"

definition servicemesh_Provide :: "ObjMakers \<Rightarrow> ('w \<times> 'c, KDeployment) Resource \<Rightarrow> ClowdApp \<Rightarrow> (('w, 'c) Provider, unit) op" where
  "servicemesh_Provide M r _ =
     and_next (reads prov_Env) (\<lambda>env.
       if pv_ServiceMeshMode (env_Providers (env_Spec env)) \<noteq> ''enabled'' then ret ()
       else and_next (cache_List r) (\<lambda>items.
         each (\<lambda>dd. map_err (WrapErr ''could not update annotations: '') (cache_Update r (annotate_pods M mesh_annotations dd))) items))"

lemma each_update_records:
  assumes "object_cache r name_of recorded" and "distinct (map (\<lambda>k. name_of (f k)) ks)" and "each (\<lambda>k. map_err w (cache_Update r (f k))) ks p = Some (p', Inr u)"
  shows "(\<forall>k \<in> set ks. prov_recorded recorded p' (name_of (f k)) = Some (f k))
    \<and> (\<forall>nn. nn \<notin> (\<lambda>k. name_of (f k)) ` set ks \<longrightarrow> prov_recorded recorded p' nn = prov_recorded recorded p nn)"
  using assms(2,3)
proof (induction ks arbitrary: p)
  case (Cons k ks)
  from Cons.prems(2) obtain p1 where up: "cache_Update r (f k) p = Some (p1, Inr ())" and rest: "each (\<lambda>k. map_err w (cache_Update r (f k))) ks p1 = Some (p', Inr u)"
    by (auto simp: op_oks)
  note one = update_records [OF assms(1) up]
  with Cons.IH [OF _ rest] Cons.prems(1) show ?case by auto
qed simp

lemma with_resource_records:
  assumes "object_cache r name_of recorded" and "with_resource r nn f p = Some (p', Inr u)" and "\<And>k. name_of (f k) = nn'"
  shows "\<exists>k. prov_recorded recorded p' = (prov_recorded recorded p)(nn' \<mapsto> f k)"
proof -
  from assms(2) obtain k p1 where cr: "cache_Create r nn p = Some (p1, Inr k)" and up: "cache_Update r (f k) p1 = Some (p', Inr u)" unfolding with_resource_def and_next_ok by blast
  from update_records [OF assms(1) up] create_records [OF assms(1) cr] assms(3) show ?thesis by metis
qed

lemma each_with_resource_records:
  assumes "object_cache r name_of recorded" and "distinct (map nn xs)" and "\<And>x k. name_of (f x k) = nn x" and "each (\<lambda>x. with_resource r (nn x) (f x)) xs p = Some (p', Inr u)"
  shows "(\<forall>x \<in> set xs. \<exists>k. prov_recorded recorded p' (nn x) = Some (f x k)) \<and> (\<forall>n. n \<notin> nn ` set xs \<longrightarrow> prov_recorded recorded p' n = prov_recorded recorded p n)"
  using assms(2,4)
proof (induction xs arbitrary: p)
  case (Cons x xs)
  from Cons.prems(2) obtain p1 where one: "with_resource r (nn x) (f x) p = Some (p1, Inr ())" and rest: "each (\<lambda>x. with_resource r (nn x) (f x)) xs p1 = Some (p', Inr u)"
    by (auto simp: op_oks)
  obtain k where "prov_recorded recorded p1 = (prov_recorded recorded p)(nn x \<mapsto> f x k)"
    using with_resource_records [OF assms(1) one assms(3)] by blast
  with Cons.IH [OF _ rest] Cons.prems(1) show ?case by auto
qed simp

lemma annotate_pods_kept:
  assumes "makers_laws M"
  shows "pt_Annotations (kd_Template (annotate_pods M extra dd)) k = (case extra k of Some v \<Rightarrow> Some v | None \<Rightarrow> pt_Annotations (kd_Template dd) k)"
    "kd_NN (annotate_pods M extra dd) = kd_NN dd" "(annotate_pods M extra dd)\<lparr>kd_Template := kd_Template dd\<rparr> = dd"
    "pt_Labels (kd_Template (annotate_pods M extra dd)) = pt_Labels (kd_Template dd)" "pt_Containers (kd_Template (annotate_pods M extra dd)) = pt_Containers (kd_Template dd)"
  using assms by (simp_all add: annotate_pods_def makers_laws_def)

text \<open>With the mesh enabled every deployment that the cache lists is recorded with the two annotations; otherwise nothing changes.\<close>

lemma mesh_annotates:
  assumes "object_cache r kd_NN recorded" and "servicemesh_Provide M r app p = Some (p', Inr ())" and "prov_Cache p = Some c" and "res_List r (prov_World p, c) = Inr items"
    and "distinct (map kd_NN items)" and "makers_laws M"
  shows "if pv_ServiceMeshMode (env_Providers (env_Spec (prov_Env p))) = ''enabled''
    then \<forall>dd \<in> set items. prov_recorded recorded p' (kd_NN dd) = Some (annotate_pods M mesh_annotations dd) else p' = p"
proof (cases "pv_ServiceMeshMode (env_Providers (env_Spec (prov_Env p))) = ''enabled''")
  case True
  with assms(2-4) have "each (\<lambda>dd. map_err (WrapErr ''could not update annotations: '') (cache_Update r (annotate_pods M mesh_annotations dd))) items p = Some (p', Inr ())"
    by (cases p) (auto simp: servicemesh_Provide_def op_oks cache_List_def cached_def)
  from each_update_records [OF assms(1) _ this] assms(5) True annotate_pods_kept(2) [OF assms(6)] show ?thesis by simp
next
  case False
  with assms(2) show ?thesis by (simp add: servicemesh_Provide_def op_oks)
qed

section \<open>Runs that succeed\<close>

text \<open>Rules by which an operation over a cache that never fails is seen to succeed.\<close>

named_theorems succeeding \<open>rules for the operations that succeed\<close>

definition succeeds :: "(('w, 'c) Provider, 'a) op \<Rightarrow> bool" where
  "succeeds m = (\<forall>p. prov_Cache p \<noteq> None \<longrightarrow> (\<exists>p' a. m p = Some (p', Inr a) \<and> prov_Cache p' \<noteq> None))"

definition never_fails :: "('s, 'k) Resource \<Rightarrow> bool" where
  "never_fails r = ((\<forall>nn s. \<exists>s' k. res_Create r nn s = (s', Inr k)) \<and> (\<forall>k s. \<exists>s'. res_Update r k s = (s', None)))"

lemma succeedsD: "succeeds m \<Longrightarrow> prov_Cache p \<noteq> None \<Longrightarrow> \<exists>p' a. m p = Some (p', Inr a)"
  unfolding succeeds_def by blast

lemma succeeds_simple [succeeding]: "succeeds (ret a)" "succeeds (reads f)" "succeeds (or_panic (Some x))" "succeeds (result (Inr x))"
  by (simp_all add: succeeds_def or_panic_def)

lemma succeeds_and_next [succeeding]: "succeeds m \<Longrightarrow> (\<And>a. succeeds (f a)) \<Longrightarrow> succeeds (and_next m f)"
  unfolding succeeds_def and_next_ok by metis

lemma succeeds_map_err [succeeding]: "succeeds m \<Longrightarrow> succeeds (map_err w m)"
  unfolding succeeds_def map_err_ok .

lemma succeeds_if [succeeding]: "succeeds m \<Longrightarrow> succeeds n \<Longrightarrow> succeeds (if b then m else n)"
  by simp

lemma succeeds_cache [succeeding]:
  assumes "never_fails r"
  shows "succeeds (cache_Create r nn)" "succeeds (cache_Update r k)" "succeeds (with_resource r nn f)"
proof -
  show "succeeds (cache_Create r nn)" unfolding succeeds_def cache_Create_def cached_def
  proof (intro allI impI)
    fix p :: "('a, 'b) Provider"
    assume "prov_Cache p \<noteq> None"
    then obtain c where "prov_Cache p = Some c" by blast
    moreover obtain s' k where "res_Create r nn (prov_World p, c) = (s', Inr k)" using assms unfolding never_fails_def by blast
    ultimately show "\<exists>p' a. (case prov_Cache p of None \<Rightarrow> None | Some c \<Rightarrow> case res_Create r nn (prov_World p, c) of ((w', c'), r) \<Rightarrow> Some (p\<lparr>prov_World := w', prov_Cache := Some c'\<rparr>, r)) =
        Some (p', Inr a) \<and> prov_Cache p' \<noteq> None" by (cases s') simp
  qed
  moreover show up: "succeeds (cache_Update r k)" for k unfolding succeeds_def cache_Update_def cached_def
  proof (intro allI impI)
    fix p :: "('a, 'b) Provider"
    assume "prov_Cache p \<noteq> None"
    then obtain c where "prov_Cache p = Some c" by blast
    moreover obtain s' where "res_Update r k (prov_World p, c) = (s', None)" using assms unfolding never_fails_def by blast
    ultimately show "\<exists>p' a. (case prov_Cache p of None \<Rightarrow> None | Some c \<Rightarrow> case (case res_Update r k (prov_World p, c) of (s', None) \<Rightarrow> (s', Inr ()) | (s', Some e) \<Rightarrow> (s', Inl e)) of
        ((w', c'), r) \<Rightarrow> Some (p\<lparr>prov_World := w', prov_Cache := Some c'\<rparr>, r)) = Some (p', Inr a) \<and> prov_Cache p' \<noteq> None" by (cases s') simp
  qed
  ultimately show "succeeds (with_resource r nn f)" unfolding with_resource_def by (intro succeeding)
qed

lemma quiet_never_fails [succeeding]: "never_fails (quiet_resource k)"
  by (simp add: never_fails_def quiet_resource_def)

end
