(* ===== verification/Metrics.thy ===== *)
theory Metrics
  imports Small_Providers
begin

text \<open>
  Metrics (\<open>providers/metrics\<close>): the port the apps serve them on, the monitors that tell Prometheus where to look, and the Prometheus of an environment with its gateway.

  The facts: the port of the metrics is added to the service and to the first container of every deployment, so that a service that reached its pods still does; the monitor of a deployment names
  that port; the gateway the configuration of an app points to is deployed and reached when the environment deploys Prometheus. When it does not, the configuration is written all the same
  and nothing is deployed.
\<close>

abbreviation env_Metrics :: "ClowdEnvironment \<Rightarrow> MetricsConfig" where
  "env_Metrics e \<equiv> pv_Metrics (env_Providers (env_Spec e))"

section \<open>The objects\<close>

record Endpoint =
  ep_Interval :: string
  ep_Path :: string
  ep_Port :: string

record KServiceMonitor =
  smo_ObjectMeta :: ObjectMeta
  smo_Endpoints :: "Endpoint list"
  smo_MatchNames :: "string list"
  smo_Selector :: smap

record KPrometheus =
  prm_ObjectMeta :: ObjectMeta
  prm_ServiceMonitorSelector :: smap
  prm_ServiceAccountName :: string
  prm_Resources :: ResourceRequirements

text \<open>A subscription of the Operator Lifecycle Manager: channel, approval, name, source and its namespace, and the version to start with.\<close>

record SubscriptionSpec =
  sub_Channel :: string
  sub_InstallPlanApproval :: string
  sub_Name :: string
  sub_Source :: string
  sub_SourceNamespace :: string
  sub_StartingCSV :: string

record KSubscription =
  sub_ObjectMeta :: ObjectMeta
  sub_Spec :: "SubscriptionSpec option"

record ('w, 'c) MetricsDeps =
  mtd_Prov :: "'w ProvDeps"
  mtd_Makers :: ObjMakers
  mtd_Service :: "('w \<times> 'c, KService) Resource"
  mtd_Deployment :: "('w \<times> 'c, KDeployment) Resource"
  mtd_Monitor :: "('w \<times> 'c, KServiceMonitor) Resource"
  mtd_Prometheus :: "('w \<times> 'c, KPrometheus) Resource"
  mtd_Account :: "('w \<times> 'c, KServiceAccount) Resource"
  mtd_RoleBinding :: "('w \<times> 'c, KRoleBinding) Resource"
  mtd_Subscription :: "('w \<times> 'c, KSubscription) Resource"
  mtd_GatewayDeployment :: "('w \<times> 'c, KDeployment) Resource"
  mtd_GatewayService :: "('w \<times> 'c, KService) Resource"
  mtd_GatewayMonitor :: "('w \<times> 'c, KServiceMonitor) Resource"

section \<open>The metrics of the deployments\<close>

definition metrics_service_port :: "int \<Rightarrow> ServicePort" where
  "metrics_service_port port = app_port ''metrics'' http port port"

text \<open>The first container gets the port; a deployment without a container panics.\<close>

definition add_first_port :: "ContainerPort \<Rightarrow> KDeployment \<Rightarrow> KDeployment option" where
  "add_first_port port d =
     (case pt_Containers (kd_Template d) of
        [] \<Rightarrow> None
      | c # cs \<Rightarrow> Some (d\<lparr>kd_Template := (kd_Template d)\<lparr>pt_Containers := c\<lparr>ct_Ports := ct_Ports c @ [port]\<rparr> # cs\<rparr>\<rparr>))"

definition makeMetrics :: "('w, 'c) MetricsDeps \<Rightarrow> Deployment \<Rightarrow> ClowdApp \<Rightarrow> int \<Rightarrow> (('w, 'c) Provider, unit) op" where
  "makeMetrics D dep app port =
     (let nn = app_GetDeploymentNamespacedName app dep
      in and_next (cache_Get (mtd_Service D) (Some nn)) (\<lambda>gs.
         and_next (result gs) (\<lambda>s.
         and_next (cache_Get (mtd_Deployment D) (Some nn)) (\<lambda>gd.
         and_next (result gd) (\<lambda>d.
         and_next (or_panic (add_first_port (tcp_port ''metrics'' port) d)) (\<lambda>d'.
         and_next (cache_Update (mtd_Service D) (s\<lparr>svc_Ports := svc_Ports s @ [metrics_service_port port]\<rparr>)) (\<lambda>_.
           cache_Update (mtd_Deployment D) d')))))))"

definition createMetricsOnDeployments :: "('w, 'c) MetricsDeps \<Rightarrow> ClowdApp \<Rightarrow> (('w, 'c) Provider, unit) op" where
  "createMetricsOnDeployments D app =
     and_next (reads prov_Env) (\<lambda>env.
     and_next (set_config (\<lambda>c. c\<lparr>cfg_MetricsPort := met_Port (env_Metrics env), cfg_MetricsPath := met_Path (env_Metrics env)\<rparr>)) (\<lambda>_.
       each (\<lambda>dep. makeMetrics D dep app (met_Port (env_Metrics env))) (app_Deployments (app_Spec app))))"

definition monitor_object :: "('w, 'c) MetricsDeps \<Rightarrow> ClowdEnvironment \<Rightarrow> ClowdApp \<Rightarrow> string \<Rightarrow> NamespacedName \<Rightarrow> KServiceMonitor \<Rightarrow> KServiceMonitor" where
  "monitor_object D env app promLabel nn sm = \<lparr>
     smo_ObjectMeta = (pd_Labeler (mtd_Prov D) [''prometheus'' \<mapsto> promLabel] nn (EnvObject env) (smo_ObjectMeta sm))\<lparr>om_Namespace := nn_Namespace nn\<rparr>,
     smo_Endpoints = [\<lparr>ep_Interval = ''15s'', ep_Path = met_Path (env_Metrics env), ep_Port = ''metrics''\<rparr>],
     smo_MatchNames = [app_Namespace app], smo_Selector = [''pod'' \<mapsto> nn_Name nn]\<rparr>"

definition createServiceMonitorObjects :: "('w, 'c) MetricsDeps \<Rightarrow> ClowdApp \<Rightarrow> string \<Rightarrow> string \<Rightarrow> (('w, 'c) Provider, unit) op" where
  "createServiceMonitorObjects D app promLabel namespace =
     and_next (reads prov_Env) (\<lambda>env.
       each (\<lambda>dep. let nn = NN (app_Name app @ ''-'' @ dep_Name dep) namespace in with_resource (mtd_Monitor D) nn (monitor_object D env app promLabel nn))
         (app_Deployments (app_Spec app)))"

definition noneMetrics_Provide :: "('w, 'c) MetricsDeps \<Rightarrow> ClowdApp \<Rightarrow> (('w, 'c) Provider, unit) op" where
  "noneMetrics_Provide D app = createMetricsOnDeployments D app"

definition creates_monitors :: "('w, 'c) MetricsDeps \<Rightarrow> bool" where
  "creates_monitors D = feat_CreateServiceMonitor (cc_Features (mk_Loaded (mtd_Makers D)))"

definition appinterfaceMetrics_Provide :: "('w, 'c) MetricsDeps \<Rightarrow> ClowdApp \<Rightarrow> (('w, 'c) Provider, unit) op" where
  "appinterfaceMetrics_Provide D app =
     and_next (createMetricsOnDeployments D app) (\<lambda>_.
       if creates_monitors D then createServiceMonitorObjects D app ''app-sre'' ''openshift-customer-monitoring'' else ret ())"

section \<open>The Prometheus of an environment\<close>

definition DefaultImagePrometheusGateway :: string where
  "DefaultImagePrometheusGateway = ''quay.io/prometheus/pushgateway:v1.11.1''"

definition GetPrometheusGatewayImage :: "ClowderConfig \<Rightarrow> ClowdEnvironment \<Rightarrow> string" where
  "GetPrometheusGatewayImage lc env =
     (if pg_Image (met_PrometheusGateway (env_Metrics env)) \<noteq> '''' then pg_Image (met_PrometheusGateway (env_Metrics env))
      else if ci_PrometheusGateway (cc_Images lc) \<noteq> '''' then ci_PrometheusGateway (cc_Images lc)
      else DefaultImagePrometheusGateway)"

definition createPrometheusServiceAccount :: "('w, 'c) MetricsDeps \<Rightarrow> ClowdEnvironment \<Rightarrow> (('w, 'c) Provider, unit) op" where
  "createPrometheusServiceAccount D env =
     (let nn = NN ''prometheus'' (est_TargetNamespace (env_Status env))
      in with_resource (mtd_Account D) nn (\<lambda>cr. cr\<lparr>sa_ObjectMeta := pd_Labeler (mtd_Prov D) Map.empty nn (EnvObject env) (sa_ObjectMeta cr)\<rparr>))"

definition createPrometheusRoleBinding :: "('w, 'c) MetricsDeps \<Rightarrow> ClowdApp \<Rightarrow> ClowdEnvironment \<Rightarrow> (('w, 'c) Provider, unit) op" where
  "createPrometheusRoleBinding D app env =
     (let nn = NN (app_Name app) (app_Namespace app)
      in with_resource (mtd_RoleBinding D) nn (\<lambda>crb. crb\<lparr>rb_RoleRef := (''rbac.authorization.k8s.io'', ''ClusterRole'', ''clowder-prometheus''),
           rb_Subjects := [(''ServiceAccount'', ''prometheus'', est_TargetNamespace (env_Status env))],
           rb_ObjectMeta := pd_Labeler (mtd_Prov D) Map.empty nn (AppObject app) (rb_ObjectMeta crb)\<rparr>))"

definition createSubscription :: "('w, 'c) MetricsDeps \<Rightarrow> ClowdEnvironment \<Rightarrow> (('w, 'c) Provider, unit) op" where
  "createSubscription D env =
     (let nn = NN ''prometheus'' (est_TargetNamespace (env_Status env))
      in with_resource (mtd_Subscription D) nn (\<lambda>s. \<lparr>
           sub_ObjectMeta = (pd_Labeler (mtd_Prov D) [''env'' \<mapsto> env_Name env] nn (EnvObject env) (sub_ObjectMeta s))\<lparr>om_OwnerReferences := [env_MakeOwnerReference env]\<rparr>,
           sub_Spec = Some \<lparr>sub_Channel = ''beta'', sub_InstallPlanApproval = ''Automatic'', sub_Name = ''prometheus'', sub_Source = ''community-operators'',
             sub_SourceNamespace = ''openshift-marketplace'', sub_StartingCSV = ''prometheusoperator.0.56.3''\<rparr>\<rparr>))"

definition gateway_nn :: "ClowdEnvironment \<Rightarrow> NamespacedName" where
  "gateway_nn env = NN (env_Name env @ ''-prometheus-gateway'') (est_TargetNamespace (env_Status env))"

text \<open>Every function for the gateway starts by looking at the namespace.\<close>

definition need_namespace :: "ClowdEnvironment \<Rightarrow> ('p, 'a) op \<Rightarrow> ('p, 'a) op" where
  "need_namespace env m =
     (if est_TargetNamespace (env_Status env) = '''' then fail (PlainErr (''ClowdEnvironment '' @ env_Name env @ '' has empty TargetNamespace'')) else m)"

definition gateway_labels :: "ClowdEnvironment \<Rightarrow> smap" where
  "gateway_labels env = (env_GetLabels env)(''app'' \<mapsto> ''prometheus-gateway'', ''env'' \<mapsto> env_Name env)"

definition gateway_container :: "string \<Rightarrow> ResourceRequirements \<Rightarrow> Container" where
  "gateway_container img res = Container_zero\<lparr>ct_Name := ''prometheus-gateway'', ct_Image := img,
     ct_Ports := [\<lparr>cp_Name = ''http'', cp_ContainerPort = 9091, cp_Protocol = ''''\<rparr>], ct_Resources := res\<rparr>"

definition gateway_deployment :: "('w, 'c) MetricsDeps \<Rightarrow> ClowdEnvironment \<Rightarrow> ResourceRequirements \<Rightarrow> KDeployment \<Rightarrow> KDeployment" where
  "gateway_deployment D env res dd =
     (let base = component_base (mtd_Makers D) (gateway_nn env) (gateway_labels env) (EnvObject env) dd
      in base\<lparr>kd_Template := (kd_Template base)\<lparr>pt_Containers := [gateway_container (GetPrometheusGatewayImage (mk_Loaded (mtd_Makers D)) env) res]\<rparr>\<rparr>)"

definition createPrometheusGatewayDeployment :: "('w, 'c) MetricsDeps \<Rightarrow> ClowdEnvironment \<Rightarrow> (('w, 'c) Provider, unit) op" where
  "createPrometheusGatewayDeployment D env = need_namespace env
     (and_next (cache_Create (mtd_GatewayDeployment D) (gateway_nn env)) (\<lambda>dd.
      and_next (or_panic (requirements (mk_MustParse (mtd_Makers D)) (''100m'', ''256Mi'') (''50m'', ''128Mi''))) (\<lambda>res.
        cache_Update (mtd_GatewayDeployment D) (gateway_deployment D env res dd))))"

definition gateway_service :: "('w, 'c) MetricsDeps \<Rightarrow> ClowdEnvironment \<Rightarrow> KService \<Rightarrow> KService" where
  "gateway_service D env s = s\<lparr>svc_ObjectMeta := mk_Labeler (mtd_Makers D) (gateway_nn env) (gateway_labels env) (EnvObject env) (svc_ObjectMeta s),
     svc_Selector := [''app'' \<mapsto> ''prometheus-gateway'', ''env'' \<mapsto> env_Name env],
     svc_Ports := [\<lparr>sp_Name = ''http'', sp_Port = 9091, sp_Protocol = '''', sp_AppProtocol = None, sp_TargetPort = 9091\<rparr>]\<rparr>"

definition createPrometheusGatewayService :: "('w, 'c) MetricsDeps \<Rightarrow> ClowdEnvironment \<Rightarrow> (('w, 'c) Provider, unit) op" where
  "createPrometheusGatewayService D env = need_namespace env (with_resource (mtd_GatewayService D) (gateway_nn env) (gateway_service D env))"

definition gateway_monitor :: "('w, 'c) MetricsDeps \<Rightarrow> ClowdEnvironment \<Rightarrow> KServiceMonitor \<Rightarrow> KServiceMonitor" where
  "gateway_monitor D env sm = sm\<lparr>
     smo_ObjectMeta := mk_Labeler (mtd_Makers D) (gateway_nn env) ((env_GetLabels env)(''prometheus'' \<mapsto> env_Name env)) (EnvObject env) (smo_ObjectMeta sm),
     smo_Selector := [''app'' \<mapsto> ''prometheus-gateway'', ''env'' \<mapsto> env_Name env], smo_Endpoints := [\<lparr>ep_Interval = '''', ep_Path = ''/metrics'', ep_Port = ''http''\<rparr>]\<rparr>"

definition createPrometheusGatewayServiceMonitor :: "('w, 'c) MetricsDeps \<Rightarrow> ClowdEnvironment \<Rightarrow> (('w, 'c) Provider, unit) op" where
  "createPrometheusGatewayServiceMonitor D env = need_namespace env (with_resource (mtd_GatewayMonitor D) (gateway_nn env) (gateway_monitor D env))"

definition createPrometheusGateway :: "('w, 'c) MetricsDeps \<Rightarrow> ClowdEnvironment \<Rightarrow> (('w, 'c) Provider, unit) op" where
  "createPrometheusGateway D env =
     and_next (createPrometheusGatewayDeployment D env) (\<lambda>_.
     and_next (createPrometheusGatewayService D env) (\<lambda>_.
       if creates_monitors D then createPrometheusGatewayServiceMonitor D env else ret ()))"

definition prometheus_object :: "('w, 'c) MetricsDeps \<Rightarrow> ClowdEnvironment \<Rightarrow> ResourceRequirements \<Rightarrow> KPrometheus \<Rightarrow> KPrometheus" where
  "prometheus_object D env res k =
     (let nn = NN (env_Name env) (est_TargetNamespace (env_Status env))
      in \<lparr>prm_ObjectMeta = pd_Labeler (mtd_Prov D) [''env'' \<mapsto> env_Name env] nn (EnvObject env) ((prm_ObjectMeta k)\<lparr>om_Name := nn_Name nn, om_Namespace := nn_Namespace nn\<rparr>),
          prm_ServiceMonitorSelector = [''prometheus'' \<mapsto> env_Name env], prm_ServiceAccountName = ''prometheus'', prm_Resources = res\<rparr>)"

definition metrics_EnvProvide :: "('w, 'c) MetricsDeps \<Rightarrow> (('w, 'c) Provider, unit) op" where
  "metrics_EnvProvide D =
     and_next (reads prov_Env) (\<lambda>env.
       if \<not> pc_Deploy (met_Prometheus (env_Metrics env)) then ret ()
       else and_next (createPrometheusServiceAccount D env) (\<lambda>_.
            and_next (cache_Create (mtd_Prometheus D) (NN (env_Name env) (est_TargetNamespace (env_Status env)))) (\<lambda>k.
            and_next (or_panic (requirements (mk_MustParse (mtd_Makers D)) (''400m'', ''400Mi'') (''50m'', ''200Mi''))) (\<lambda>res.
            and_next (cache_Update (mtd_Prometheus D) (prometheus_object D env res k)) (\<lambda>_.
            and_next (createSubscription D env) (\<lambda>_.
              if pg_Deploy (met_PrometheusGateway (env_Metrics env)) then createPrometheusGateway D env else ret ()))))))"

definition metrics_Provide :: "('w, 'c) MetricsDeps \<Rightarrow> ClowdApp \<Rightarrow> (('w, 'c) Provider, unit) op" where
  "metrics_Provide D app =
     and_next (reads prov_Env) (\<lambda>env.
     and_next (createMetricsOnDeployments D app) (\<lambda>_.
     and_next (if pg_Deploy (met_PrometheusGateway (env_Metrics env))
               then need_namespace env (set_config (\<lambda>c. c\<lparr>cfg_PrometheusGateway :=
                 Some \<lparr>pgc_Hostname = env_Name env @ ''-prometheus-gateway.'' @ est_TargetNamespace (env_Status env) @ ''.svc'', pgc_Port = 9091\<rparr>\<rparr>))
               else ret ()) (\<lambda>_.
       if creates_monitors D
       then and_next (createServiceMonitorObjects D app (env_Name env) (est_TargetNamespace (env_Status env))) (\<lambda>_. createPrometheusRoleBinding D app env)
       else ret ())))"

datatype metrics_mode = NoneMetrics | OperatorMetrics | AppInterfaceMetrics

definition GetMetrics :: "ClowdEnvironment \<Rightarrow> goerr + metrics_mode" where
  "GetMetrics env =
     (let metricsMode = met_Mode (env_Metrics env)
      in if metricsMode \<in> {''none'', ''''} then Inr NoneMetrics
         else if metricsMode = ''operator'' then Inr OperatorMetrics
         else if metricsMode = ''app-interface'' then Inr AppInterfaceMetrics
         else Inl (PlainErr (''No matching metrics mode for '' @ metricsMode)))"

definition metrics_provider :: "('w, 'c) MetricsDeps \<Rightarrow> metrics_mode \<Rightarrow> ClowdApp \<Rightarrow> (('w, 'c) Provider, unit) op" where
  "metrics_provider D mode = (case mode of NoneMetrics \<Rightarrow> noneMetrics_Provide D | OperatorMetrics \<Rightarrow> metrics_Provide D | AppInterfaceMetrics \<Rightarrow> appinterfaceMetrics_Provide D)"

section \<open>The metrics are served\<close>

text \<open>What the cache has to promise: services and deployments do not interfere, and an object is read back as it is recorded, under its own name.\<close>

abbreviation smo_NN :: "KServiceMonitor \<Rightarrow> NamespacedName" where
  "smo_NN m \<equiv> NN (om_Name (smo_ObjectMeta m)) (om_Namespace (smo_ObjectMeta m))"

definition metrics_cache ::
  "('w, 'c) MetricsDeps \<Rightarrow> ('w \<times> 'c \<Rightarrow> NamespacedName \<rightharpoonup> KService) \<Rightarrow> ('w \<times> 'c \<Rightarrow> NamespacedName \<rightharpoonup> KDeployment) \<Rightarrow> bool" where
  "metrics_cache D services deployments = (object_cache (mtd_Service D) svc_NN services \<and> object_cache (mtd_Deployment D) kd_NN deployments
     \<and> leaves_alone (mtd_Deployment D) services \<and> leaves_alone (mtd_Service D) deployments
     \<and> (\<forall>nn st s. res_Get (mtd_Service D) (Some nn) st = Inr s \<longrightarrow> services st nn = Some s \<and> svc_NN s = nn)
     \<and> (\<forall>nn st d. res_Get (mtd_Deployment D) (Some nn) st = Inr d \<longrightarrow> deployments st nn = Some d \<and> kd_NN d = nn))"

lemma add_first_port_ok:
  assumes "add_first_port port d = Some d'"
  shows "kd_ObjectMeta d' = kd_ObjectMeta d" "pt_Labels (kd_Template d') = pt_Labels (kd_Template d)" "all_ports (kd_Template d') = insert (cp_ContainerPort port) (all_ports (kd_Template d))"
  using assms by (auto simp: add_first_port_def all_ports_def image_Un split: list.splits) (metis imageI)?

text \<open>What has been added for one deployment.\<close>

definition metrics_added :: "int \<Rightarrow> KService \<Rightarrow> KDeployment \<Rightarrow> KService \<Rightarrow> KDeployment \<Rightarrow> bool" where
  "metrics_added port s d s' d' = (s' = s\<lparr>svc_Ports := svc_Ports s @ [metrics_service_port port]\<rparr>
     \<and> all_ports (kd_Template d') = insert port (all_ports (kd_Template d)) \<and> pt_Labels (kd_Template d') = pt_Labels (kd_Template d))"

lemma makeMetrics_records:
  assumes cache: "metrics_cache D services deployments" and run: "makeMetrics D dep app port p = Some (p', Inr u)"
  defines "nn \<equiv> app_GetDeploymentNamespacedName app dep"
  shows "\<exists>s d s' d'. prov_recorded services p nn = Some s \<and> prov_recorded deployments p nn = Some d \<and> prov_recorded services p' = (prov_recorded services p)(nn \<mapsto> s')
    \<and> prov_recorded deployments p' = (prov_recorded deployments p)(nn \<mapsto> d') \<and> metrics_added port s d s' d'"
proof -
  from run obtain c s d d' p1 where c: "prov_Cache p = Some c" and gs: "res_Get (mtd_Service D) (Some nn) (prov_World p, c) = Inr s"
    and gd: "res_Get (mtd_Deployment D) (Some nn) (prov_World p, c) = Inr d" and d': "add_first_port (tcp_port ''metrics'' port) d = Some d'"
    and us: "cache_Update (mtd_Service D) (s\<lparr>svc_Ports := svc_Ports s @ [metrics_service_port port]\<rparr>) p = Some (p1, Inr ())"
    and ud: "cache_Update (mtd_Deployment D) d' p1 = Some (p', Inr ())"
    by (auto simp: makeMetrics_def Let_def op_oks cache_Get_ok nn_def [symmetric])
  have laws: "object_cache (mtd_Service D) svc_NN services" "object_cache (mtd_Deployment D) kd_NN deployments"
    "leaves_alone (mtd_Deployment D) services" "leaves_alone (mtd_Service D) deployments"
    and "services (prov_World p, c) nn = Some s" "svc_NN s = nn" and "deployments (prov_World p, c) nn = Some d" "kd_NN d = nn"
    using cache gs gd unfolding metrics_cache_def by blast+
  with c d' add_first_port_ok [OF d'] update_records [OF laws(1) us] update_records [OF laws(2) ud] leaves_alone_ops(2) [OF laws(3) ud] leaves_alone_ops(2) [OF laws(4) us]
  show ?thesis by (intro exI [of _ s] exI [of _ d] exI [of _ "s\<lparr>svc_Ports := svc_Ports s @ [metrics_service_port port]\<rparr>"] exI [of _ d']) (simp add: metrics_added_def)
qed

lemma each_metrics_records:
  assumes cache: "metrics_cache D services deployments" and "distinct (map (app_GetDeploymentNamespacedName app) deps)"
    and "each (\<lambda>dep. makeMetrics D dep app port) deps p = Some (p', Inr u)"
  shows "(\<forall>dep \<in> set deps. let nn = app_GetDeploymentNamespacedName app dep in \<exists>s d s' d'. prov_recorded services p nn = Some s \<and> prov_recorded deployments p nn = Some d
      \<and> prov_recorded services p' nn = Some s' \<and> prov_recorded deployments p' nn = Some d' \<and> metrics_added port s d s' d')
    \<and> (\<forall>nn. nn \<notin> app_GetDeploymentNamespacedName app ` set deps \<longrightarrow> prov_recorded services p' nn = prov_recorded services p nn \<and> prov_recorded deployments p' nn = prov_recorded deployments p nn)"
  using assms(2,3)
proof (induction deps arbitrary: p)
  case (Cons dep deps)
  let ?nn = "app_GetDeploymentNamespacedName app"
  from Cons.prems(2) obtain p1 where one: "makeMetrics D dep app port p = Some (p1, Inr ())" and rest: "each (\<lambda>dep. makeMetrics D dep app port) deps p1 = Some (p', Inr u)"
    by (auto simp: op_oks)
  from makeMetrics_records [OF cache one] obtain s d s' d' where first: "prov_recorded services p (?nn dep) = Some s" "prov_recorded deployments p (?nn dep) = Some d"
    "prov_recorded services p1 = (prov_recorded services p)(?nn dep \<mapsto> s')" "prov_recorded deployments p1 = (prov_recorded deployments p)(?nn dep \<mapsto> d')" "metrics_added port s d s' d'" by blast
  have new: "?nn dep \<notin> ?nn ` set deps" and "distinct (map ?nn deps)" using Cons.prems(1) by auto
  note ih = Cons.IH [OF this(2) rest]
  have "\<exists>s d s' d'. prov_recorded services p (?nn x) = Some s \<and> prov_recorded deployments p (?nn x) = Some d
      \<and> prov_recorded services p' (?nn x) = Some s' \<and> prov_recorded deployments p' (?nn x) = Some d' \<and> metrics_added port s d s' d'" if "x \<in> set (dep # deps)" for x
  proof (cases "x = dep")
    case True
    then show ?thesis using first ih new by auto
  next
    case False
    then have x: "x \<in> set deps" using that by simp
    then have "?nn x \<noteq> ?nn dep" using new by (metis imageI)
    with x show ?thesis using ih first(3,4) by (auto simp: Let_def)
  qed
  then show ?case using ih first(3,4) by (auto simp: Let_def)
qed simp

lemma metrics_on_deployments:
  assumes "metrics_cache D services deployments" and "distinct (map dep_Name (app_Deployments (app_Spec app)))"
    and run: "createMetricsOnDeployments D app p = Some (p', Inr ())" and "dep \<in> set (app_Deployments (app_Spec app))" and "nn = NN (app_Name app @ ''-'' @ dep_Name dep) (app_Namespace app)"
  shows "\<exists>s d s' d' c. prov_recorded services p nn = Some s \<and> prov_recorded deployments p nn = Some d \<and> prov_recorded services p' nn = Some s'
    \<and> prov_recorded deployments p' nn = Some d' \<and> prov_Config p' = Some c \<and> cfg_MetricsPort c = met_Port (env_Metrics (prov_Env p)) \<and> cfg_MetricsPath c = met_Path (env_Metrics (prov_Env p))
    \<and> metrics_added (cfg_MetricsPort c) s d s' d'"
proof -
  let ?port = "met_Port (env_Metrics (prov_Env p))"
  from run obtain c where c: "prov_Config p = Some c" and each: "each (\<lambda>dep. makeMetrics D dep app ?port) (app_Deployments (app_Spec app))
      (p\<lparr>prov_Config := Some (c\<lparr>cfg_MetricsPort := ?port, cfg_MetricsPath := met_Path (env_Metrics (prov_Env p))\<rparr>)\<rparr>) = Some (p', Inr ())"
    by (auto simp: createMetricsOnDeployments_def op_oks set_config_ok)
  have "unchanged prov_Config (makeMetrics D dep app ?port)" for dep unfolding makeMetrics_def Let_def by (intro unchangeds)
  then have "unchanged prov_Config (each (\<lambda>dep. makeMetrics D dep app ?port) (app_Deployments (app_Spec app)))" by (rule unchanged_each)
  from unchangedD [OF this each] have c': "prov_Config p' = Some (c\<lparr>cfg_MetricsPort := ?port, cfg_MetricsPath := met_Path (env_Metrics (prov_Env p))\<rparr>)" by simp
  have "app_GetDeploymentNamespacedName app = (\<lambda>n. NN (app_Name app @ ''-'' @ n) (app_Namespace app)) \<circ> dep_Name"
    by (auto simp: app_GetDeploymentNamespacedName_def)
  then have "distinct (map (app_GetDeploymentNamespacedName app) (app_Deployments (app_Spec app)))"
    using assms(2) by (simp add: distinct_map inj_on_def flip: map_map)
  from each_metrics_records [OF assms(1) this each] assms(4,5) c' show ?thesis
    by (auto simp: Let_def app_GetDeploymentNamespacedName_def dest!: bspec [of _ _ dep])
qed

text \<open>
  What the cache has to promise for the monitors and what is bound to a role, and what the function that labels an object promises: the name, and the labels it is given.
\<close>

definition monitor_cache ::
  "('w, 'c) MetricsDeps \<Rightarrow> ('w \<times> 'c \<Rightarrow> NamespacedName \<rightharpoonup> KService) \<Rightarrow> ('w \<times> 'c \<Rightarrow> NamespacedName \<rightharpoonup> KDeployment) \<Rightarrow> ('w \<times> 'c \<Rightarrow> NamespacedName \<rightharpoonup> KServiceMonitor) \<Rightarrow> bool" where
  "monitor_cache D services deployments monitors = (object_cache (mtd_Monitor D) smo_NN monitors
     \<and> leaves_alone (mtd_Monitor D) services \<and> leaves_alone (mtd_Monitor D) deployments
     \<and> leaves_alone (mtd_RoleBinding D) services \<and> leaves_alone (mtd_RoleBinding D) deployments \<and> leaves_alone (mtd_RoleBinding D) monitors)"

definition adds_labels :: "'w ProvDeps \<Rightarrow> bool" where
  "adds_labels d = (\<forall>ls nn o' m. om_Name (pd_Labeler d ls nn o' m) = nn_Name nn \<and> ls \<subseteq>\<^sub>m om_Labels (pd_Labeler d ls nn o' m))"

lemma monitors_recorded:
  assumes "monitor_cache D services deployments monitors" and "adds_labels (mtd_Prov D)" and "distinct (map dep_Name (app_Deployments (app_Spec app)))"
    and run: "createServiceMonitorObjects D app promLabel namespace p = Some (p', Inr ())" and "dep \<in> set (app_Deployments (app_Spec app))"
  shows "\<exists>sm. prov_recorded monitors p' (NN (app_Name app @ ''-'' @ dep_Name dep) namespace) = Some sm \<and> om_Labels (smo_ObjectMeta sm) ''prometheus'' = Some promLabel
    \<and> smo_MatchNames sm = [app_Namespace app] \<and> smo_Selector sm = [''pod'' \<mapsto> app_Name app @ ''-'' @ dep_Name dep]
    \<and> map (\<lambda>e. (ep_Port e, ep_Path e)) (smo_Endpoints sm) = [(''metrics'', met_Path (env_Metrics (prov_Env p)))]"
proof -
  let ?nn = "\<lambda>dep. NN (app_Name app @ ''-'' @ dep_Name dep) namespace"
  have cache: "object_cache (mtd_Monitor D) smo_NN monitors" using assms(1) unfolding monitor_cache_def by blast
  have d: "distinct (map ?nn (app_Deployments (app_Spec app)))"
    using assms(3) by (auto simp: distinct_map inj_on_def)
  have n: "smo_NN (monitor_object D (prov_Env p) app promLabel (?nn dep) sm) = ?nn dep" for dep sm
    using assms(2) by (simp add: monitor_object_def adds_labels_def)
  have "each (\<lambda>dep. with_resource (mtd_Monitor D) (?nn dep) (monitor_object D (prov_Env p) app promLabel (?nn dep))) (app_Deployments (app_Spec app)) p = Some (p', Inr ())"
    using run by (simp add: createServiceMonitorObjects_def Let_def)
  from each_with_resource_records [OF cache d n this] assms(5)
  obtain sm where "prov_recorded monitors p' (?nn dep) = Some (monitor_object D (prov_Env p) app promLabel (?nn dep) sm)" by blast
  moreover have "om_Labels (smo_ObjectMeta (monitor_object D (prov_Env p) app promLabel (?nn dep) sm)) ''prometheus'' = Some promLabel"
    using assms(2) by (auto simp: monitor_object_def adds_labels_def map_le_def)
  ultimately show ?thesis by (auto simp: monitor_object_def)
qed

text \<open>What follows in each mode: the monitors, in two of them, and nothing that touches the services, the deployments or what was written to the configuration.\<close>

definition monitor_place :: "metrics_mode \<Rightarrow> ClowdEnvironment \<Rightarrow> string \<times> string" where
  "monitor_place mode env = (if mode = OperatorMetrics then (env_Name env, est_TargetNamespace (env_Status env)) else (''app-sre'', ''openshift-customer-monitoring''))"

lemma silent_each [silents]: "(\<And>x. silent recorded (f x)) \<Longrightarrow> silent recorded (each f xs)"
  by (induction xs) (auto intro: silents)

lemma monitors_silent: "leaves_alone (mtd_Monitor D) recorded \<Longrightarrow> silent recorded (createServiceMonitorObjects D app l ns)"
  unfolding createServiceMonitorObjects_def Let_def by (intro silents)

lemma metrics_provider_steps:
  assumes run: "metrics_provider D mode app p = Some (p', Inr ())" and cache: "monitor_cache D services deployments monitors"
  shows "\<exists>p1. createMetricsOnDeployments D app p = Some (p1, Inr ()) \<and> prov_recorded services p' = prov_recorded services p1 \<and> prov_recorded deployments p' = prov_recorded deployments p1
    \<and> (\<forall>c. prov_Config p1 = Some c \<longrightarrow> (\<exists>c'. prov_Config p' = Some c' \<and> cfg_MetricsPort c' = cfg_MetricsPort c \<and> cfg_MetricsPath c' = cfg_MetricsPath c))
    \<and> (mode \<noteq> NoneMetrics \<longrightarrow> creates_monitors D \<longrightarrow> (\<exists>p2 p3. prov_Env p2 = prov_Env p
         \<and> createServiceMonitorObjects D app (fst (monitor_place mode (prov_Env p))) (snd (monitor_place mode (prov_Env p))) p2 = Some (p3, Inr ())
         \<and> prov_recorded monitors p' = prov_recorded monitors p3))"
proof -
  have laws: "leaves_alone (mtd_Monitor D) services" "leaves_alone (mtd_Monitor D) deployments" "leaves_alone (mtd_RoleBinding D) services" "leaves_alone (mtd_RoleBinding D) deployments"
    "leaves_alone (mtd_RoleBinding D) monitors" using cache unfolding monitor_cache_def by blast+
  have env: "createMetricsOnDeployments D app q = Some (q', Inr ()) \<Longrightarrow> prov_Env q' = prov_Env q" for q q'
  proof -
    have "unchanged prov_Env (set_config f)" for f :: "AppConfig \<Rightarrow> AppConfig" by (auto simp: unchanged_def set_config_def the_config_def and_next_def deref_def split: option.splits)
    then have "unchanged prov_Env (createMetricsOnDeployments D app)" unfolding createMetricsOnDeployments_def makeMetrics_def Let_def by (intro unchangeds)
    then show "createMetricsOnDeployments D app q = Some (q', Inr ()) \<Longrightarrow> prov_Env q' = prov_Env q" by (rule unchangedD)
  qed
  have config: "unchanged prov_Config (createServiceMonitorObjects D app l ns)" "unchanged prov_Config (createPrometheusRoleBinding D app e)" for l ns e
    unfolding createServiceMonitorObjects_def createPrometheusRoleBinding_def Let_def by (intro unchangeds)+
  have binding: "silent recorded (createPrometheusRoleBinding D app e)" if "leaves_alone (mtd_RoleBinding D) recorded" for recorded :: "_ \<Rightarrow> 'x" and e
    unfolding createPrometheusRoleBinding_def Let_def by (intro silents that)
  note mons = monitors_silent [OF laws(1)] monitors_silent [OF laws(2)]
  show ?thesis
  proof (cases mode)
    case NoneMetrics
    then show ?thesis using run by (auto simp: metrics_provider_def noneMetrics_Provide_def)
  next
    case AppInterfaceMetrics
    then obtain p1 where p1: "createMetricsOnDeployments D app p = Some (p1, Inr ())"
      and rest: "(if creates_monitors D then createServiceMonitorObjects D app ''app-sre'' ''openshift-customer-monitoring'' else ret ()) p1 = Some (p', Inr ())"
      using run by (auto simp: metrics_provider_def appinterfaceMetrics_Provide_def and_next_ok)
    then show ?thesis using env [OF p1] silentD(1) [OF mons(1)] silentD(1) [OF mons(2)] unchangedD [OF config(1)] AppInterfaceMetrics
      by (intro exI [of _ p1]) (auto simp: monitor_place_def split: if_splits)
  next
    case OperatorMetrics
    let ?env = "prov_Env p"
    let ?mons = "createServiceMonitorObjects D app (env_Name ?env) (est_TargetNamespace (env_Status ?env))"
    obtain p1 p2 where p1: "createMetricsOnDeployments D app p = Some (p1, Inr ())"
      and gw: "(if pg_Deploy (met_PrometheusGateway (env_Metrics ?env)) then need_namespace ?env (set_config (\<lambda>c. c\<lparr>cfg_PrometheusGateway :=
                 Some \<lparr>pgc_Hostname = env_Name ?env @ ''-prometheus-gateway.'' @ est_TargetNamespace (env_Status ?env) @ ''.svc'', pgc_Port = 9091\<rparr>\<rparr>)) else ret ()) p1 = Some (p2, Inr ())"
      and rest: "(if creates_monitors D then and_next ?mons (\<lambda>_. createPrometheusRoleBinding D app ?env) else ret ()) p2 = Some (p', Inr ())"
      using run OperatorMetrics by (auto simp: metrics_provider_def metrics_Provide_def and_next_ok)
    have p2: "prov_recorded services p2 = prov_recorded services p1" "prov_recorded deployments p2 = prov_recorded deployments p1" "prov_Env p2 = ?env"
      "\<forall>c. prov_Config p1 = Some c \<longrightarrow> (\<exists>c'. prov_Config p2 = Some c' \<and> cfg_MetricsPort c' = cfg_MetricsPort c \<and> cfg_MetricsPath c' = cfg_MetricsPath c)"
      using gw env [OF p1] by (auto simp: need_namespace_def set_config_ok split: if_splits)
    show ?thesis
    proof (cases "creates_monitors D")
      case False
      then show ?thesis using rest p1 p2 by auto
    next
      case True
      then obtain p3 where p3: "?mons p2 = Some (p3, Inr ())" "createPrometheusRoleBinding D app ?env p3 = Some (p', Inr ())" using rest by (auto simp: and_next_ok)
      with p1 p2 silentD(1) [OF mons(1) p3(1)] silentD(1) [OF mons(2) p3(1)] silentD(1) [OF binding [OF laws(3)] p3(2)] silentD(1) [OF binding [OF laws(4)] p3(2)]
        silentD(1) [OF binding [OF laws(5)] p3(2)] unchangedD [OF config(1) p3(1)] unchangedD [OF config(2) p3(2)] OperatorMetrics
      show ?thesis by (intro exI [of _ p1]) (auto simp: monitor_place_def)
    qed
  qed
qed

text \<open>
  C30. The names of the deployments of an app are distinct. Then a successful run, in every mode, has added one port, named and numbered for the metrics and leading to the same number, to the
  service of every deployment of the app, and that number to the ports of the containers of the deployment; it has changed neither the other ports nor the labels the service selects by, and written the
  port and the path of the environment to the configuration. When monitors are made, the one of the deployment is recorded in the namespace and with the label of its Prometheus; it looks in the namespace of the
  app, for the services with the pod label of the deployment, at the port by its name and the path of the configuration.
\<close>

theorem metrics_served:
  assumes "metrics_cache D services deployments" and "monitor_cache D services deployments monitors" and "adds_labels (mtd_Prov D)" and "distinct (map dep_Name (app_Deployments (app_Spec app)))"
    and run: "metrics_provider D mode app p = Some (p', Inr ())" and "dep \<in> set (app_Deployments (app_Spec app))"
    and "name = app_Name app @ ''-'' @ dep_Name dep" and "nn = NN name (app_Namespace app)" and "env = prov_Env p"
  shows "\<exists>s d s' d' c. prov_recorded services p nn = Some s \<and> prov_recorded deployments p nn = Some d \<and> prov_recorded services p' nn = Some s'
    \<and> prov_recorded deployments p' nn = Some d' \<and> prov_Config p' = Some c \<and> cfg_MetricsPort c = met_Port (env_Metrics env) \<and> cfg_MetricsPath c = met_Path (env_Metrics env)
    \<and> (\<exists>q. svc_Ports s' = svc_Ports s @ [q] \<and> sp_Name q = ''metrics'' \<and> sp_Port q = cfg_MetricsPort c \<and> sp_TargetPort q = cfg_MetricsPort c)
    \<and> svc_ObjectMeta s' = svc_ObjectMeta s \<and> svc_Selector s' = svc_Selector s
    \<and> pt_Labels (kd_Template d') = pt_Labels (kd_Template d) \<and> all_ports (kd_Template d') = insert (cfg_MetricsPort c) (all_ports (kd_Template d))
    \<and> (mode \<noteq> NoneMetrics \<longrightarrow> creates_monitors D \<longrightarrow>
         (\<exists>sm. prov_recorded monitors p' (NN name (if mode = OperatorMetrics then est_TargetNamespace (env_Status env) else ''openshift-customer-monitoring'')) = Some sm
            \<and> om_Labels (smo_ObjectMeta sm) ''prometheus'' = Some (if mode = OperatorMetrics then env_Name env else ''app-sre'')
            \<and> smo_MatchNames sm = [app_Namespace app] \<and> smo_Selector sm = [''pod'' \<mapsto> name]
            \<and> map (\<lambda>e. (ep_Port e, ep_Path e)) (smo_Endpoints sm) = [(''metrics'', cfg_MetricsPath c)]))"
proof -
  from metrics_provider_steps [OF run assms(2)] obtain p1 where p1: "createMetricsOnDeployments D app p = Some (p1, Inr ())" "prov_recorded services p' = prov_recorded services p1"
      "prov_recorded deployments p' = prov_recorded deployments p1"
      "\<forall>c. prov_Config p1 = Some c \<longrightarrow> (\<exists>c'. prov_Config p' = Some c' \<and> cfg_MetricsPort c' = cfg_MetricsPort c \<and> cfg_MetricsPath c' = cfg_MetricsPath c)"
    and mon: "mode \<noteq> NoneMetrics \<longrightarrow> creates_monitors D \<longrightarrow> (\<exists>p2 p3. prov_Env p2 = env
         \<and> createServiceMonitorObjects D app (fst (monitor_place mode env)) (snd (monitor_place mode env)) p2 = Some (p3, Inr ()) \<and> prov_recorded monitors p' = prov_recorded monitors p3)"
    unfolding assms(9) by blast
  from metrics_on_deployments [OF assms(1,4) p1(1) assms(6) assms(8) [unfolded assms(7)]] p1(2-4) assms(9)
  obtain s d s' d' c where rec: "prov_recorded services p nn = Some s" "prov_recorded deployments p nn = Some d" "prov_recorded services p' nn = Some s'" "prov_recorded deployments p' nn = Some d'"
    "prov_Config p' = Some c" "cfg_MetricsPort c = met_Port (env_Metrics env)" and path: "cfg_MetricsPath c = met_Path (env_Metrics env)" and added: "metrics_added (cfg_MetricsPort c) s d s' d'" by metis
  have m: "\<exists>sm. prov_recorded monitors p' (NN name (snd (monitor_place mode env))) = Some sm
      \<and> om_Labels (smo_ObjectMeta sm) ''prometheus'' = Some (fst (monitor_place mode env)) \<and> smo_MatchNames sm = [app_Namespace app] \<and> smo_Selector sm = [''pod'' \<mapsto> name]
      \<and> map (\<lambda>e. (ep_Port e, ep_Path e)) (smo_Endpoints sm) = [(''metrics'', cfg_MetricsPath c)]" if on: "mode \<noteq> NoneMetrics" "creates_monitors D"
  proof -
    from mon on obtain p2 p3 where p2: "prov_Env p2 = env" and run2: "createServiceMonitorObjects D app (fst (monitor_place mode env)) (snd (monitor_place mode env)) p2 = Some (p3, Inr ())"
      and p3: "prov_recorded monitors p' = prov_recorded monitors p3" by blast
    show ?thesis using monitors_recorded [OF assms(2,3,4) run2 assms(6)] unfolding p2 p3 path assms(7) .
  qed
  from added have "\<exists>q. svc_Ports s' = svc_Ports s @ [q] \<and> sp_Name q = ''metrics'' \<and> sp_Port q = cfg_MetricsPort c \<and> sp_TargetPort q = cfg_MetricsPort c"
      "svc_ObjectMeta s' = svc_ObjectMeta s" "svc_Selector s' = svc_Selector s" "pt_Labels (kd_Template d') = pt_Labels (kd_Template d)"
      "all_ports (kd_Template d') = insert (cfg_MetricsPort c) (all_ports (kd_Template d))"
    by (simp_all add: metrics_added_def metrics_service_port_def app_port_def)
  moreover have "fst (monitor_place mode env) = (if mode = OperatorMetrics then env_Name env else ''app-sre'')"
      "snd (monitor_place mode env) = (if mode = OperatorMetrics then est_TargetNamespace (env_Status env) else ''openshift-customer-monitoring'')"
    by (simp_all add: monitor_place_def)
  ultimately show ?thesis using rec path m
    by - (intro exI [of _ s] exI [of _ d] exI [of _ s'] exI [of _ d'] exI [of _ c] conjI impI; simp only: simp_thms)
qed

section \<open>The gateway\<close>

definition gateway_cache ::
  "('w, 'c) MetricsDeps \<Rightarrow> ('w \<times> 'c \<Rightarrow> NamespacedName \<rightharpoonup> KDeployment) \<Rightarrow> ('w \<times> 'c \<Rightarrow> NamespacedName \<rightharpoonup> KService) \<Rightarrow> bool" where
  "gateway_cache D deployments services = (object_cache (mtd_GatewayDeployment D) kd_NN deployments \<and> object_cache (mtd_GatewayService D) svc_NN services
     \<and> leaves_alone (mtd_GatewayService D) deployments \<and> leaves_alone (mtd_GatewayMonitor D) deployments \<and> leaves_alone (mtd_GatewayMonitor D) services)"

lemma gateway_served: "served (gateway_deployment D env res dd) (gateway_service D env s)"
  by (auto simp: served_def gateway_deployment_def gateway_service_def component_base_def Let_def gateway_labels_def map_le_def target_port_def pod_ports_def gateway_container_def)

lemma gateway_recorded:
  assumes laws: "makers_laws (mtd_Makers D)" and cache: "gateway_cache D deployments services" and run: "createPrometheusGateway D env p = Some (p', Inr u)"
  shows "\<exists>dd s. prov_recorded deployments p' (gateway_nn env) = Some dd \<and> prov_recorded services p' (gateway_nn env) = Some s \<and> served dd s \<and> svc_Ports s = svc_Ports (gateway_service D env s)"
proof -
  from run obtain dd res p1 p2 s p3 p4 where ud: "cache_Update (mtd_GatewayDeployment D) (gateway_deployment D env res dd) p1 = Some (p2, Inr ())"
    and ws: "with_resource (mtd_GatewayService D) (gateway_nn env) (gateway_service D env) p2 = Some (p3, Inr ())"
    and m: "(if creates_monitors D then createPrometheusGatewayServiceMonitor D env else ret ()) p3 = Some (p', Inr ())"
    by (auto simp: createPrometheusGateway_def createPrometheusGatewayDeployment_def createPrometheusGatewayService_def need_namespace_def op_oks split: if_splits)
  have cs: "object_cache (mtd_GatewayDeployment D) kd_NN deployments" "object_cache (mtd_GatewayService D) svc_NN services"
    "leaves_alone (mtd_GatewayService D) deployments" "leaves_alone (mtd_GatewayMonitor D) deployments" "leaves_alone (mtd_GatewayMonitor D) services"
    using cache unfolding gateway_cache_def by blast+
  from ws obtain s p5 where us: "cache_Update (mtd_GatewayService D) (gateway_service D env s) p5 = Some (p3, Inr ())" by (auto simp: with_resource_def op_oks)
  have silent: "silent recorded (if creates_monitors D then createPrometheusGatewayServiceMonitor D env else ret ())" if "leaves_alone (mtd_GatewayMonitor D) recorded" for recorded :: "_ \<Rightarrow> 'x"
    unfolding createPrometheusGatewayServiceMonitor_def need_namespace_def by (intro silents that)
  have "prov_recorded deployments p' (gateway_nn env) = Some (gateway_deployment D env res dd)"
    using update_records [OF cs(1) ud] with_resource_alone [OF cs(3) ws] silentD(1) [OF silent [OF cs(4)] m]
    by (simp add: gateway_deployment_def Let_def component_base_def labelled_meta [OF laws] gateway_nn_def)
  moreover have "prov_recorded services p' (gateway_nn env) = Some (gateway_service D env s)"
    using update_records [OF cs(2) us] silentD(1) [OF silent [OF cs(5)] m] by (simp add: gateway_service_def labelled_meta [OF laws] gateway_nn_def)
  ultimately show ?thesis using gateway_served [of D env res dd s] by (auto simp: gateway_service_def)
qed

text \<open>
  C31. An environment that deploys Prometheus and its gateway: after a successful run for the environment the gateway is recorded with a service that selects its pods and leads to a port they listen on, and the host
  and the port in the configuration of every app of the environment are those of the service.
\<close>

theorem prometheus_gateway_reachable:
  assumes "makers_laws (mtd_Makers D)" and "gateway_cache D deployments services"
    and "pc_Deploy (met_Prometheus (env_Metrics env))" and "pg_Deploy (met_PrometheusGateway (env_Metrics env))" and "prov_Env p = env" and "prov_Env q = env"
    and run: "metrics_EnvProvide D p = Some (p', Inr ())" and app: "metrics_Provide D app q = Some (q', Inr ())" 
  shows "\<exists>dd s c cfg. prov_recorded deployments p' (gateway_nn env) = Some dd \<and> prov_recorded services p' (gateway_nn env) = Some s \<and> served dd s
    \<and> prov_Config q' = Some c \<and> cfg_PrometheusGateway c = Some cfg \<and> pgc_Hostname cfg = nn_Name (gateway_nn env) @ ''.'' @ nn_Namespace (gateway_nn env) @ ''.svc''
    \<and> pgc_Port cfg \<in> sp_Port ` set (svc_Ports s)"
proof -
  from run assms(3-5) obtain p1 where "createPrometheusGateway D env p1 = Some (p', Inr ())"
    by (auto simp: metrics_EnvProvide_def op_oks)
  from gateway_recorded [OF assms(1,2) this] obtain dd s where gw: "prov_recorded deployments p' (gateway_nn env) = Some dd" "prov_recorded services p' (gateway_nn env) = Some s" "served dd s"
    "9091 \<in> sp_Port ` set (svc_Ports s)" by (auto simp: gateway_service_def)
  let ?set = "set_config (\<lambda>c. c\<lparr>cfg_PrometheusGateway := Some \<lparr>pgc_Hostname = env_Name env @ ''-prometheus-gateway.'' @ est_TargetNamespace (env_Status env) @ ''.svc'', pgc_Port = 9091\<rparr>\<rparr>)"
  let ?rest = "if creates_monitors D then and_next (createServiceMonitorObjects D app (env_Name env) (est_TargetNamespace (env_Status env))) (\<lambda>_. createPrometheusRoleBinding D app env) else ret ()"
  from app assms(4,6) obtain q1 q2 where s: "?set q1 = Some (q2, Inr ())" and r: "?rest q2 = Some (q', Inr ())"
    by (auto simp: metrics_Provide_def op_oks need_namespace_def split: if_splits)
  have "unchanged prov_Config ?rest"
    unfolding createServiceMonitorObjects_def createPrometheusRoleBinding_def Let_def by (intro unchangeds)
  from unchangedD [OF this r] s gw show ?thesis by (auto simp: set_config_ok gateway_nn_def)
qed

text \<open>An environment that asks for the gateway but not for Prometheus gets neither, and its apps are told of a gateway all the same.\<close>

lemma gateway_promised_not_deployed:
  assumes "\<not> pc_Deploy (met_Prometheus (env_Metrics (prov_Env p)))" and "pg_Deploy (met_PrometheusGateway (env_Metrics (prov_Env p)))"
    and "est_TargetNamespace (env_Status (prov_Env p)) \<noteq> ''''" and "prov_Config p = Some c" and "app_Deployments (app_Spec app) = []" and "\<not> creates_monitors D"
  shows "metrics_EnvProvide D p = Some (p, Inr ())" and "\<exists>p' c'. metrics_Provide D app p = Some (p', Inr ()) \<and> prov_Config p' = Some c' \<and> cfg_PrometheusGateway c' \<noteq> None"
  using assms by (simp_all add: metrics_EnvProvide_def metrics_Provide_def createMetricsOnDeployments_def op_oks need_namespace_def set_config_ok)

section \<open>An example\<close>

definition named_get :: "('k \<Rightarrow> NamespacedName) \<Rightarrow> (NamespacedName \<rightharpoonup> 'k) \<Rightarrow> NamespacedName option \<Rightarrow> goerr + 'k" where
  "named_get name_of m nn = (case nn of None \<Rightarrow> Inl (PlainErr ''none'') | Some n \<Rightarrow>
     (case m n of Some k \<Rightarrow> if name_of k = n then Inr k else Inl (PlainErr ''none'') | None \<Rightarrow> Inl (PlainErr ''none'')))"

definition no_service :: KService where
  "no_service = \<lparr>svc_ObjectMeta = ObjectMeta_zero, svc_Selector = Map.empty, svc_Ports = [], svc_Type = '''', svc_SessionAffinity = ''''\<rparr>"

definition store_services :: "('w \<times> web_store, KService) Resource" where
  "store_services = \<lparr>res_Create = (\<lambda>nn s. (s, Inr no_service)), res_Update = (\<lambda>k (w, a, b). ((w, a(svc_NN k \<mapsto> k), b), None)),
     res_Get = (\<lambda>nn (w, a, b). named_get svc_NN a nn), res_List = (\<lambda>s. Inr [])\<rparr>"

definition store_deployments :: "('w \<times> web_store, KDeployment) Resource" where
  "store_deployments = \<lparr>res_Create = (\<lambda>nn s. (s, Inr KDeployment_zero)), res_Update = (\<lambda>k (w, a, b). ((w, a, b(kd_NN k \<mapsto> k)), None)),
     res_Get = (\<lambda>nn (w, a, b). named_get kd_NN b nn), res_List = (\<lambda>s. Inr [])\<rparr>"

definition sample_metrics :: "('w, web_store) MetricsDeps" where
  "sample_metrics = \<lparr>mtd_Prov = quiet_prov_deps, mtd_Makers = sample_makers, mtd_Service = store_services, mtd_Deployment = store_deployments,
     mtd_Monitor = quiet_resource \<lparr>smo_ObjectMeta = ObjectMeta_zero, smo_Endpoints = [], smo_MatchNames = [], smo_Selector = Map.empty\<rparr>,
     mtd_Prometheus = quiet_resource \<lparr>prm_ObjectMeta = ObjectMeta_zero, prm_ServiceMonitorSelector = Map.empty, prm_ServiceAccountName = '''', prm_Resources = ResourceRequirements_zero\<rparr>,
     mtd_Account = quiet_resource \<lparr>sa_ObjectMeta = ObjectMeta_zero, sa_ImagePullSecrets = []\<rparr>,
     mtd_RoleBinding = quiet_resource \<lparr>rb_ObjectMeta = ObjectMeta_zero, rb_Subjects = [], rb_RoleRef = ('''', '''', '''')\<rparr>,
     mtd_Subscription = quiet_resource \<lparr>sub_ObjectMeta = ObjectMeta_zero, sub_Spec = None\<rparr>,
     mtd_GatewayDeployment = store_deployments, mtd_GatewayService = store_services,
     mtd_GatewayMonitor = quiet_resource \<lparr>smo_ObjectMeta = ObjectMeta_zero, smo_Endpoints = [], smo_MatchNames = [], smo_Selector = Map.empty\<rparr>\<rparr>"

lemma sample_metrics_caches:
  "metrics_cache sample_metrics (\<lambda>s. fst (snd s)) (\<lambda>s. snd (snd s))" "gateway_cache sample_metrics (\<lambda>s. snd (snd s)) (\<lambda>s. fst (snd s))"
  by (auto simp: metrics_cache_def gateway_cache_def sample_metrics_def store_services_def store_deployments_def object_cache_def leaves_alone_def quiet_resource_def named_get_def
      split: option.splits if_splits)

definition sample_metrics_app :: ClowdApp where
  "sample_metrics_app = sample_web_app\<lparr>app_Spec := ClowdAppSpec_zero\<lparr>app_Deployments := [sample_web_dep]\<rparr>\<rparr>"

definition sample_metrics_env :: ClowdEnvironment where
  "sample_metrics_env = ClowdEnvironment_zero\<lparr>env_ObjectMeta := ObjectMeta_zero\<lparr>om_Name := ''env''\<rparr>,
     env_Status := (env_Status ClowdEnvironment_zero)\<lparr>est_TargetNamespace := ''ns''\<rparr>,
     env_Spec := (env_Spec ClowdEnvironment_zero)\<lparr>env_Providers := ProvidersConfig_zero\<lparr>pv_Metrics := \<lparr>met_Port = 9000, met_Path = ''/metrics'', met_Mode = ''operator'',
       met_Prometheus = \<lparr>pc_Deploy = True, pc_AppInterfaceInternalURL = ''''\<rparr>, met_PrometheusGateway = \<lparr>pg_Deploy = True, pg_Image = ''''\<rparr>\<rparr>\<rparr>\<rparr>\<rparr>"

definition sample_metrics_provider :: "'w \<Rightarrow> ('w, web_store) Provider" where
  "sample_metrics_provider w = \<lparr>prov_World = w, prov_Env = sample_metrics_env,
     prov_Cache = Some ([NN ''inv-api'' ''ns'' \<mapsto> no_service\<lparr>svc_ObjectMeta := ObjectMeta_zero\<lparr>om_Name := ''inv-api'', om_Namespace := ''ns''\<rparr>\<rparr>], [NN ''inv-api'' ''ns'' \<mapsto> sample_web_deployment]),
     prov_Config = Some AppConfig_zero, prov_HashCache = []\<rparr>"

lemma sample_metrics_name: "app_GetDeploymentNamespacedName sample_metrics_app sample_web_dep = NN ''inv-api'' ''ns''"
  using sample_web_names by (simp add: app_GetDeploymentNamespacedName_def sample_metrics_app_def)

text \<open>The same with monitors, which are kept beside the cache.\<close>

definition sample_monitored :: "(NamespacedName \<rightharpoonup> KServiceMonitor, web_store) MetricsDeps" where
  "sample_monitored = sample_metrics\<lparr>
     mtd_Prov := quiet_prov_deps\<lparr>pd_Labeler := (\<lambda>ls nn o' m. m\<lparr>om_Name := nn_Name nn, om_Labels := ls\<rparr>)\<rparr>,
     mtd_Makers := sample_makers\<lparr>mk_Loaded := ClowderConfig_zero\<lparr>cc_Features := (cc_Features ClowderConfig_zero)\<lparr>feat_CreateServiceMonitor := True\<rparr>\<rparr>\<rparr>,
     mtd_Monitor := (quiet_resource \<lparr>smo_ObjectMeta = ObjectMeta_zero, smo_Endpoints = [], smo_MatchNames = [], smo_Selector = Map.empty\<rparr>)
       \<lparr>res_Update := (\<lambda>k (w, c). ((w(smo_NN k \<mapsto> k), c), None))\<rparr>\<rparr>"

lemma sample_monitored_laws:
  "metrics_cache sample_monitored (\<lambda>s. fst (snd s)) (\<lambda>s. snd (snd s))" "monitor_cache sample_monitored (\<lambda>s. fst (snd s)) (\<lambda>s. snd (snd s)) fst" "adds_labels (mtd_Prov sample_monitored)"
  by (auto simp: metrics_cache_def monitor_cache_def adds_labels_def sample_monitored_def sample_metrics_def store_services_def store_deployments_def object_cache_def leaves_alone_def
      quiet_resource_def named_get_def split: option.splits if_splits)

lemma sample_monitored_runs: "\<exists>p'. metrics_provider sample_monitored OperatorMetrics sample_metrics_app (sample_metrics_provider Map.empty) = Some (p', Inr ())"
proof -
  let ?p = "sample_metrics_provider Map.empty :: (NamespacedName \<rightharpoonup> KServiceMonitor, web_store) Provider"
  have deps: "app_Deployments (app_Spec sample_metrics_app) = [sample_web_dep]" by (simp add: sample_metrics_app_def)
  then obtain p1 c where p1: "createMetricsOnDeployments sample_monitored sample_metrics_app ?p = Some (p1, Inr ())" "prov_Config p1 = Some c" "prov_Cache p1 \<noteq> None"
    by (simp add: createMetricsOnDeployments_def makeMetrics_def Let_def op_oks set_config_ok sample_metrics_name cache_Get_def cache_Update_def cached_def sample_monitored_def sample_metrics_def
        sample_metrics_provider_def store_services_def store_deployments_def named_get_def add_first_port_def sample_web_deployment_def)
  have env: "prov_Env ?p = sample_metrics_env" "pg_Deploy (met_PrometheusGateway (env_Metrics sample_metrics_env))" "est_TargetNamespace (env_Status sample_metrics_env) = ''ns''"
    by (simp_all add: sample_metrics_provider_def sample_metrics_env_def)
  have "never_fails (mtd_Monitor sample_monitored)" "never_fails (mtd_RoleBinding sample_monitored)"
    by (auto simp: sample_monitored_def sample_metrics_def never_fails_def quiet_resource_def)
  then have "succeeds (and_next (createServiceMonitorObjects sample_monitored sample_metrics_app l ns) (\<lambda>_. createPrometheusRoleBinding sample_monitored sample_metrics_app e))" for l ns e
    unfolding createServiceMonitorObjects_def createPrometheusRoleBinding_def Let_def deps each.simps by (intro succeeding)
  note s = succeedsD [OF this]
  let ?c = "c\<lparr>cfg_PrometheusGateway := Some \<lparr>pgc_Hostname = env_Name sample_metrics_env @ ''-prometheus-gateway.'' @ ''ns'' @ ''.svc'', pgc_Port = 9091\<rparr>\<rparr>"
  have "creates_monitors sample_monitored" by (simp add: creates_monitors_def sample_monitored_def)
  moreover from s [of "p1\<lparr>prov_Config := Some ?c\<rparr>"] p1(3) obtain p3 p' where "createServiceMonitorObjects sample_monitored sample_metrics_app (env_Name sample_metrics_env) ''ns'' (p1\<lparr>prov_Config := Some ?c\<rparr>) = Some (p3, Inr ())"
      "createPrometheusRoleBinding sample_monitored sample_metrics_app sample_metrics_env p3 = Some (p', Inr ())" unfolding and_next_ok by force
  ultimately show ?thesis using p1 env
    by (intro exI [of _ p']) (simp add: metrics_provider_def metrics_Provide_def op_oks need_namespace_def set_config_ok)
qed

theorem metrics_served_witness:
  "\<exists>p' s c sm q. metrics_provider sample_monitored OperatorMetrics sample_metrics_app (sample_metrics_provider Map.empty) = Some (p', Inr ())
     \<and> fst (the (prov_Cache p')) (NN ''inv-api'' ''ns'') = Some s \<and> prov_Config p' = Some c \<and> cfg_MetricsPort c = 9000 \<and> svc_Ports s = [q] \<and> sp_Port q = 9000 \<and> sp_TargetPort q = 9000
     \<and> prov_World p' (NN ''inv-api'' ''ns'') = Some sm \<and> smo_Selector sm = [''pod'' \<mapsto> ''inv-api'']"
proof -
  obtain p' where run: "metrics_provider sample_monitored OperatorMetrics sample_metrics_app (sample_metrics_provider Map.empty) = Some (p', Inr ())" using sample_monitored_runs by blast
  have "creates_monitors sample_monitored" by (simp add: creates_monitors_def sample_monitored_def)
  moreover have "''inv-api'' = app_Name sample_metrics_app @ ''-'' @ dep_Name sample_web_dep" "NN ''inv-api'' ''ns'' = NN ''inv-api'' (app_Namespace sample_metrics_app)"
    using sample_metrics_name by (simp_all add: app_GetDeploymentNamespacedName_def)
  note served = metrics_served [OF sample_monitored_laws _ run _ this refl]
  moreover have "met_Port (env_Metrics (prov_Env (sample_metrics_provider w))) = 9000" "est_TargetNamespace (env_Status (prov_Env (sample_metrics_provider w))) = ''ns''" for w
    by (simp_all add: sample_metrics_provider_def sample_metrics_env_def)
  ultimately show ?thesis using run by (auto simp: sample_metrics_app_def sample_metrics_provider_def no_service_def)
qed

lemma sample_gateway_runs:
  "\<exists>p'. metrics_EnvProvide sample_metrics (sample_metrics_provider ()) = Some (p', Inr ())" "\<exists>q'. metrics_Provide sample_metrics sample_web_app (sample_metrics_provider ()) = Some (q', Inr ())"
proof -
  have parse: "mk_MustParse (mtd_Makers sample_metrics) = Some" "\<not> creates_monitors sample_metrics" by (simp_all add: sample_metrics_def sample_makers_def creates_monitors_def ClowderConfig_zero_def)
  have env: "pc_Deploy (met_Prometheus (env_Metrics sample_metrics_env))" "pg_Deploy (met_PrometheusGateway (env_Metrics sample_metrics_env))"
    "est_TargetNamespace (env_Status sample_metrics_env) = ''ns''" by (simp_all add: sample_metrics_env_def)
  have all: "never_fails (mtd_Account sample_metrics)" "never_fails (mtd_Prometheus sample_metrics)" "never_fails (mtd_Subscription sample_metrics)"
    "never_fails (mtd_GatewayDeployment sample_metrics)" "never_fails (mtd_GatewayService sample_metrics)"
    by (auto simp: sample_metrics_def succeeding store_services_def store_deployments_def never_fails_def quiet_resource_def)
  have "succeeds (createPrometheusGateway sample_metrics sample_metrics_env)"
    unfolding createPrometheusGateway_def createPrometheusGatewayDeployment_def createPrometheusGatewayService_def need_namespace_def env parse requirements_def quantities_def
    by (simp add: parse) (intro succeeding all)
  then have "succeeds (and_next (createPrometheusServiceAccount sample_metrics sample_metrics_env) (\<lambda>_.
      and_next (cache_Create (mtd_Prometheus sample_metrics) nn) (\<lambda>k. and_next (or_panic (Some res)) (\<lambda>res. and_next (cache_Update (mtd_Prometheus sample_metrics) (f res k)) (\<lambda>_.
      and_next (createSubscription sample_metrics sample_metrics_env) (\<lambda>_. createPrometheusGateway sample_metrics sample_metrics_env))))))" for nn res f
    unfolding createPrometheusServiceAccount_def createSubscription_def Let_def by (intro succeeding all)
  from succeedsD [OF this, of "sample_metrics_provider ()"] show "\<exists>p'. metrics_EnvProvide sample_metrics (sample_metrics_provider ()) = Some (p', Inr ())"
    by (simp add: metrics_EnvProvide_def sample_metrics_provider_def env parse requirements_def quantities_def)
  have "app_Deployments (app_Spec sample_web_app) = []" by (simp add: sample_web_app_def ClowdApp_zero_def ClowdAppSpec_zero_def)
  then show "\<exists>q'. metrics_Provide sample_metrics sample_web_app (sample_metrics_provider ()) = Some (q', Inr ())"
    by (simp add: metrics_Provide_def createMetricsOnDeployments_def op_oks set_config_ok sample_metrics_provider_def parse env need_namespace_def)
qed

theorem prometheus_gateway_reachable_witness:
  "\<exists>p' q' dd s c cfg. metrics_EnvProvide sample_metrics (sample_metrics_provider ()) = Some (p', Inr ()) \<and> metrics_Provide sample_metrics sample_web_app (sample_metrics_provider ()) = Some (q', Inr ())
     \<and> snd (the (prov_Cache p')) (NN ''env-prometheus-gateway'' ''ns'') = Some dd \<and> fst (the (prov_Cache p')) (NN ''env-prometheus-gateway'' ''ns'') = Some s \<and> served dd s
     \<and> prov_Config q' = Some c \<and> cfg_PrometheusGateway c = Some cfg \<and> pgc_Hostname cfg = ''env-prometheus-gateway.ns.svc'' \<and> pgc_Port cfg \<in> sp_Port ` set (svc_Ports s)"
proof -
  obtain p' q' where runs: "metrics_EnvProvide sample_metrics (sample_metrics_provider ()) = Some (p', Inr ())" "metrics_Provide sample_metrics sample_web_app (sample_metrics_provider ()) = Some (q', Inr ())"
    using sample_gateway_runs by blast
  have laws: "makers_laws (mtd_Makers sample_metrics)" by (simp add: sample_metrics_def sample_makers_laws)
  have nn: "gateway_nn sample_metrics_env = NN ''env-prometheus-gateway'' ''ns''" by (simp add: gateway_nn_def sample_metrics_env_def)
  from prometheus_gateway_reachable [OF laws sample_metrics_caches(2) _ _ _ _ runs, of sample_metrics_env] runs show ?thesis
    unfolding nn by (auto simp: sample_metrics_provider_def sample_metrics_env_def)
qed

end
