(* ===== verification/Web_Local.thy ===== *)
theory Web_Local
  imports Small_Providers
begin

text \<open>
  The local mode of the web provider (\<open>providers/web/local.go\<close>): for an environment a Keycloak with its database (\<open>resources_keycloak.go\<close>), two mocked services behind authentication sidecars
  (\<open>resources_mbop.go\<close>, \<open>resources_mocktitlements.go\<close>) and, with a certificate, a gateway (\<open>resources_caddygateway.go\<close>, \<open>caddy_gateway_config.go\<close>); for an app the services, an ingress for each
  deployment with a public service, and the secret of its authentication sidecar.

  The configuration of the gateway is kept as data; its encoding as JSON is a parameter. So are the client, the files of the container and the random strings.

  The facts: what the environment deploys is recorded, its services reach the pods, and the ingress for authentication leads to ports of them; the ingress of a deployment leads to its service;
  the gateway has a route for every public deployment of the environment unless two apps share a name.
\<close>

section \<open>Objects\<close>

datatype web_ident = WebKeycloakDeployment | WebKeycloakService | WebBOPDeployment | WebBOPService | WebMocktitlementsDeployment | WebMocktitlementsService
  | WebGatewayDeployment | WebGatewayService

text \<open>An ACME issuer has an address, the secret of its key and a server, and solves challenges through an ingress.\<close>

datatype IssuerSpec = ACMEIssuer string string string | SelfSignedIssuer

record KIssuer =
  iss_ObjectMeta :: ObjectMeta
  iss_Spec :: "IssuerSpec option"

record CertificateSpec =
  crt_CommonName :: string
  crt_DNSNames :: "string list"
  crt_IssuerRef :: "string \<times> string \<times> string"
  crt_PrivateKey :: "(string \<times> int) option"
  crt_SecretName :: string

record KCertificate =
  crt_ObjectMeta :: ObjectMeta
  crt_Spec :: "CertificateSpec option"

section \<open>The configuration of the gateway\<close>

record ProxyRoute =
  prx_Upstream :: string
  prx_Path :: string

record CaddyRoute =
  crr_Group :: string
  crr_Path :: string
  crr_Dial :: string

record GatewayConfig =
  gwc_Listen :: string
  gwc_Ports :: "int \<times> int"
  gwc_Host :: string
  gwc_BOP :: string
  gwc_Whitelist :: "string list"
  gwc_Routes :: "CaddyRoute list"
  gwc_CAFiles :: "string list"
  gwc_Certificate :: "string \<times> string \<times> string"

definition GenerateRoute :: "ProxyRoute \<Rightarrow> CaddyRoute" where
  "GenerateRoute upstream = \<lparr>crr_Group = ''group2'', crr_Path = prx_Path upstream, crr_Dial = prx_Upstream upstream\<rparr>"

definition GenerateConfig :: "string \<Rightarrow> string \<Rightarrow> string list \<Rightarrow> ProxyRoute list \<Rightarrow> GatewayConfig" where
  "GenerateConfig hostname bopAddress whitelist appRoutes = \<lparr>gwc_Listen = '':9090'', gwc_Ports = (8888, 9090), gwc_Host = hostname, gwc_BOP = bopAddress, gwc_Whitelist = whitelist,
     gwc_Routes = map GenerateRoute appRoutes, gwc_CAFiles = [''/cas/ca.pem''], gwc_Certificate = (''/certs/tls.crt'', ''/certs/tls.key'', ''cert0'')\<rparr>"

section \<open>The parameters\<close>

record ('w, 'c) LocalWebDeps =
  lw_Web :: WebDeps
  lw_Kinds :: "('w \<times> 'c) WebKinds"
  lw_Db :: "'w DbDeps"
  lw_DbKinds :: "('w \<times> 'c) DbResources"
  lw_Comp :: "('w \<times> 'c, web_ident) CompDeps"
  lw_Get :: "web_ident \<Rightarrow> NamespacedName option \<Rightarrow> 'w \<times> 'c \<Rightarrow> goerr + KDeployment"
  lw_KeycloakSecret :: "('w \<times> 'c, KSecretObj) Resource"
  lw_ImportSecret :: "('w \<times> 'c, KSecretObj) Resource"
  lw_Secret :: "('w \<times> 'c, KSecretObj) Resource"
  lw_KeycloakIngress :: "('w \<times> 'c, KIngress) Resource"
  lw_BOPIngress :: "('w \<times> 'c, KIngress) Resource"
  lw_MocktitlementsIngress :: "('w \<times> 'c, KIngress) Resource"
  lw_GatewayIngress :: "('w \<times> 'c, KIngress) Resource"
  lw_Ingress :: "('w \<times> 'c, KIngress) Resource"
  lw_Issuer :: "('w \<times> 'c, KIssuer) Resource"
  lw_Certificate :: "('w \<times> 'c, KCertificate) Resource"
  lw_RandString :: "'w \<Rightarrow> string"
  lw_RandomIdent :: "'w \<Rightarrow> string"
  lw_Password :: "'w \<Rightarrow> goerr + string"
  lw_DefaultPassword :: "'w \<Rightarrow> goerr + string"
  lw_ReadFile :: "string \<Rightarrow> 'w \<Rightarrow> goerr + string"
  lw_GetIngress :: "'w \<Rightarrow> NamespacedName \<Rightarrow> goerr + string option"
  lw_UpdateStatus :: "ClowdEnvironment \<Rightarrow> 'w \<Rightarrow> 'w \<times> goerr option"
  lw_Encode :: "GatewayConfig \<Rightarrow> string"

abbreviation lw_Prov :: "('w, 'c) LocalWebDeps \<Rightarrow> 'w ProvDeps" where "lw_Prov d \<equiv> db_Prov (lw_Db d)"
abbreviation lw_Makers :: "('w, 'c) LocalWebDeps \<Rightarrow> ObjMakers" where "lw_Makers d \<equiv> wbd_Makers (lw_Web d)"
abbreviation lw_Stack :: "('w, 'c) LocalWebDeps \<Rightarrow> string" where "lw_Stack d \<equiv> wbd_Stack (lw_Web d)"
abbreviation lw_Loaded :: "('w, 'c) LocalWebDeps \<Rightarrow> ClowderConfig" where "lw_Loaded d \<equiv> mk_Loaded (lw_Makers d)"

abbreviation env_Namespace :: "ClowdEnvironment \<Rightarrow> string" where "env_Namespace e \<equiv> est_TargetNamespace (env_Status e)"
abbreviation env_Hostname :: "ClowdEnvironment \<Rightarrow> string" where "env_Hostname e \<equiv> est_Hostname (env_Status e)"
abbreviation env_nn :: "ClowdEnvironment \<Rightarrow> string \<Rightarrow> NamespacedName" where "env_nn e \<equiv> GetNamespacedName (EnvObject e)"

definition get_deployment :: "('w, 'c) LocalWebDeps \<Rightarrow> web_ident \<Rightarrow> NamespacedName option \<Rightarrow> (('w, 'c) Provider, KDeployment) op" where
  "get_deployment d i nn = cached (\<lambda>s. (s, lw_Get d i nn s))"

definition put_deployment :: "('w, 'c) LocalWebDeps \<Rightarrow> web_ident \<Rightarrow> KDeployment \<Rightarrow> (('w, 'c) Provider, unit) op" where
  "put_deployment d i dd = cached (\<lambda>s. case cmp_Update (lw_Comp d) i (DeploymentObj dd) s of (s', None) \<Rightarrow> (s', Inr ()) | (s', Some e) \<Rightarrow> (s', Inl e))"

section \<open>Names of hosts\<close>

definition host_with :: "string \<Rightarrow> string \<Rightarrow> string" where
  "host_with sfx hostname = (case split_on CHR ''.'' hostname of [] \<Rightarrow> hostname | h # hs \<Rightarrow> join ''.'' ((h @ sfx) # hs))"

definition getAuthHostname :: "string \<Rightarrow> string" where "getAuthHostname = host_with ''-auth''"

definition getCertHostname :: "string \<Rightarrow> string" where "getCertHostname = host_with ''-cert''"

section \<open>Keycloak\<close>

definition configureKeycloakDB :: "('w, 'c) LocalWebDeps \<Rightarrow> (('w, 'c) Provider, unit) op" where
  "configureKeycloakDB d =
     and_next (reads prov_Env) (\<lambda>env.
       let nn = NN ''keycloak-db'' (env_Namespace env)
       in local_database (lw_Db d) (lw_DbKinds d) nn (\<lambda>username password pgPassword. map_of (service_db_data nn ''keycloak'' username password pgPassword))
            [''sub'' \<mapsto> ''keycloak''] (\<lambda>env. web_KeycloakPVC (env_Web env)) ''keycloak'')"

definition setSecretVersion :: "('w, 'c) LocalWebDeps \<Rightarrow> NamespacedName \<Rightarrow> string \<Rightarrow> (('w, 'c) Provider, unit) op" where
  "setSecretVersion d nn desiredVersion =
     and_next (cache_Get (lw_KeycloakSecret d) (Some nn)) (\<lambda>g.
     and_next (map_err (Wrap (lw_Stack d) ''couldn't get secret from cache'') (result g)) (\<lambda>sec.
       map_err (Wrap (lw_Stack d) ''couldn't update secret in cache'')
         (cache_Update (lw_KeycloakSecret d)
            (if sec_Data sec ''version'' \<noteq> Some desiredVersion then sec\<lparr>sec_StringData := (sec_StringData sec)(''version'' \<mapsto> desiredVersion)\<rparr> else sec))))"

definition http_probe :: "int \<Rightarrow> string \<Rightarrow> ProbeHandler" where
  "http_probe port path = HTTPGetHeaders path ''HTTP'' port [(''Accept'', ''application/json'')]"

definition keycloak_container :: "NamespacedName \<Rightarrow> string \<Rightarrow> ResourceRequirements \<Rightarrow> Container" where
  "keycloak_container nn img res = Container_zero\<lparr>ct_Name := nn_Name nn, ct_Image := img,
     ct_Env := AppendEnvVarsFromSecret
       (AppendEnvVarsFromSecret
          [plain_var ''KC_DB'' ''postgres'', plain_var ''KC_DB_URL_PORT'' ''5432'', plain_var ''PROXY_ADDRESS_FORWARDING'' ''true'', plain_var ''KEYCLOAK_IMPORT'' ''/json/redhat-external-realm.json'']
          ''keycloak-db'' [NewSecretEnvVar ''KC_DB_USERNAME'' ''username'', NewSecretEnvVar ''KC_DB_PASSWORD'' ''password'', NewSecretEnvVar ''KC_DB_URL_DATABASE'' ''name'',
            NewSecretEnvVar ''KC_DB_URL_HOST'' ''hostname''])
       (nn_Name nn) [NewSecretEnvVar ''KEYCLOAK_ADMIN'' ''username'', NewSecretEnvVar ''KEYCLOAK_ADMIN_PASSWORD'' ''password''],
     ct_Args := [''start'', ''--import-realm'', ''--hostname-strict'', ''false'', ''--http-enabled'', ''true'', ''--http-relative-path'', ''/auth'', ''--health-enabled'', ''true'',
       ''--metrics-enabled'', ''true'', ''--proxy'', ''edge''],
     ct_Ports := [tcp_port ''service'' 8080],
     ct_LivenessProbe := Some (component_probe (http_probe 8080 ''auth/health/live'') 60 2 10), ct_ReadinessProbe := Some (component_probe (http_probe 8080 ''auth/health/ready'') 60 2 10),
     ct_Resources := res, ct_TerminationMessagePath := ''/dev/termination-log'', ct_TerminationMessagePolicy := ''File'', ct_ImagePullPolicy := ''IfNotPresent'',
     ct_VolumeMounts := [\<lparr>vm_Name = ''realm-import'', vm_ReadOnly = False, vm_MountPath = ''/opt/keycloak/data/import/''\<rparr>]\<rparr>"

text \<open>The type assertion on the object panics for anything but an environment.\<close>

definition makeKeycloak :: "ObjMakers \<Rightarrow> web_ident maker" where
  "makeKeycloak M _ o' objMap _ nodePort =
     (let nn = GetNamespacedName o' ''keycloak''
      in case o' of
           EnvObject env \<Rightarrow>
             (case requirements (mk_MustParse M) (''1'', ''750Mi'') (''100m'', ''400Mi'') of
                None \<Rightarrow> None
              | Some res \<Rightarrow> map_option Inr (fill_component M WebKeycloakDeployment WebKeycloakService nn (component_labels o' nn) o' nodePort
                  (\<lambda>t. t\<lparr>pt_Volumes := [Volume_zero\<lparr>vol_Name := ''realm-import'',
                            vol_Secret := Some \<lparr>vs_Name = nn_Name (GetNamespacedName o' ''keycloak-realm-import''), vs_DefaultMode = None, vs_Optional = None\<rparr>\<rparr>],
                         pt_Containers := [keycloak_container nn (GetKeycloakImage (mk_Loaded M) env) res]\<rparr>)
                  [service_port ''keycloak'' 8080] objMap))
         | _ \<Rightarrow> None)"

text \<open>\<open>strings.Replace\<close> with a count of one.\<close>

fun replace_once :: "string \<Rightarrow> string \<Rightarrow> string \<Rightarrow> string" where
  "replace_once old new s =
     (if take (length old) s = old then new @ drop (length old) s
      else (case s of [] \<Rightarrow> [] | x # xs \<Rightarrow> x # replace_once old new xs))"

declare replace_once.simps [simp del]

definition makeKeycloakImportSecretRealm :: "('w, 'c) LocalWebDeps \<Rightarrow> ClowdObject \<Rightarrow> string \<Rightarrow> (('w, 'c) Provider, unit) op" where
  "makeKeycloakImportSecretRealm d o' password =
     (let nn = GetNamespacedName o' ''keycloak-realm-import''
      in and_next (cache_Create (lw_ImportSecret d) nn) (\<lambda>userData.
         and_next (reads prov_World) (\<lambda>w.
         and_next (map_err (WrapErr ''could not read user data: '') (result (lw_ReadFile d ''./jsons/redhat-external-realm.json'' w))) (\<lambda>userImportData.
           cache_Update (lw_ImportSecret d) (userData\<lparr>sec_ObjectMeta := mk_Labeler (lw_Makers d) nn (component_labels o' nn) o' (sec_ObjectMeta userData),
             sec_StringData := [''redhat-external-realm.json'' \<mapsto> replace_once ''########PASSWORD########'' password userImportData]\<rparr>)))))"

definition auth_ingress :: "ObjMakers \<Rightarrow> ClowdEnvironment \<Rightarrow> KIngress \<Rightarrow> KIngress" where
  "auth_ingress M env = env_ingress M (NN (env_Name env @ ''-auth'') (env_Namespace env)) env [[]]
     [\<lparr>ir_Host = getAuthHostname (env_Hostname env),
       ir_Paths = [prefix_path ''/'' (env_Name env @ ''-keycloak'') ''keycloak'',
         prefix_path ''/auth/realms/redhat-external/apis/service_accounts/v1'' (env_Name env @ ''-mocktitlements'') ''auth'']\<rparr>]"

definition makeAuthIngress :: "('w, 'c) LocalWebDeps \<Rightarrow> (('w, 'c) Provider, unit) op" where
  "makeAuthIngress d = and_next (reads prov_Env) (\<lambda>env. with_resource (lw_KeycloakIngress d) (NN (env_Name env @ ''-auth'') (env_Namespace env)) (auth_ingress (lw_Makers d) env))"

definition env_url :: "ClowdEnvironment \<Rightarrow> string \<Rightarrow> string \<Rightarrow> string" where
  "env_url env service port = ''http://'' @ env_Name env @ ''-'' @ service @ ''.'' @ env_Namespace env @ ''.svc:'' @ port"

definition keycloak_data :: "ClowdEnvironment \<Rightarrow> string \<Rightarrow> string \<Rightarrow> string \<Rightarrow> smap" where
  "keycloak_data env username password defaultPassword = map_of [(''username'', username), (''password'', password), (''defaultUsername'', ''jdoe''), (''defaultPassword'', defaultPassword),
     (''version'', GetKeycloakVersion env), (''bopurl'', env_url env ''mbop'' ''8090'')]"

definition configureKeycloak :: "('w, 'c) LocalWebDeps \<Rightarrow> (('w, 'c) Provider, unit) op" where
  "configureKeycloak d =
     and_next (reads prov_Env) (\<lambda>env.
     and_next (reads prov_World) (\<lambda>w.
     and_next (map_err (Wrap (lw_Stack d) ''couldn't generate password'') (result (lw_Password d w))) (\<lambda>password.
     and_next (map_err (Wrap (lw_Stack d) ''couldn't generate defaultPassword'') (result (lw_DefaultPassword d w))) (\<lambda>defaultPassword.
     and_next (map_err (Wrap (lw_Stack d) ''couldn't set/get secret'')
       (make_or_get env_object (lw_KeycloakSecret d) (env_nn env ''keycloak'') (keycloak_data env (lw_RandString d w) password defaultPassword))) (\<lambda>dataMap.
     and_next (map_err (Wrap (lw_Stack d) ''couldn't set secret version'') (setSecretVersion d (env_nn env ''keycloak'') (GetKeycloakVersion env))) (\<lambda>_.
     and_next (make_component (lw_Comp d) [WebKeycloakDeployment, WebKeycloakService] env_object ''keycloak'' (makeKeycloak (lw_Makers d)) False) (\<lambda>_.
     and_next (makeKeycloakImportSecretRealm d (EnvObject env) (mget dataMap ''defaultPassword'')) (\<lambda>_.
       makeAuthIngress d))))))))"

section \<open>The mocked services\<close>

text \<open>Both have an authentication sidecar, whose configuration is a secret; its hash annotates the pods.\<close>

definition sidecar_data :: "ClowdEnvironment \<Rightarrow> string \<Rightarrow> string \<Rightarrow> smap" where
  "sidecar_data env bopurl whitelist = map_of [(''bopurl'', bopurl), (''keycloakurl'', env_url env ''keycloak'' ''8080''), (''whitelist'', whitelist)]"

definition sidecar_object :: "ClowdEnvironment \<Rightarrow> NamespacedName \<Rightarrow> smap \<Rightarrow> KSecretObj \<Rightarrow> KSecretObj" where
  "sidecar_object env nn data sec = sec\<lparr>sec_ObjectMeta := (sec_ObjectMeta sec)\<lparr>om_Name := nn_Name nn, om_Namespace := nn_Namespace nn, om_OwnerReferences := [env_MakeOwnerReference env]\<rparr>,
     sec_Type := ''Opaque'', sec_StringData := data\<rparr>"

definition config_hash_annotation :: "string \<Rightarrow> smap" where
  "config_hash_annotation hash = [''clowder/authsidecar-confighash'' \<mapsto> hash]"

definition data_hash :: "('w, 'c) LocalWebDeps \<Rightarrow> smap \<Rightarrow> (('w, 'c) Provider, string) op" where
  "data_hash d data = and_next (map_err (Wrap (lw_Stack d) ''Failed to marshal config JSON'') (result (pd_Marshal (lw_Prov d) data))) (\<lambda>json. ret (pd_Sha (lw_Prov d) json))"

definition sidecar_secret ::
  "('w, 'c) LocalWebDeps \<Rightarrow> web_ident \<Rightarrow> string \<Rightarrow> string \<Rightarrow> (KSecretObj \<Rightarrow> string) \<Rightarrow> (('w, 'c) Provider, unit) op" where
  "sidecar_secret d i name deployment bopurl =
     and_next (reads prov_Env) (\<lambda>env.
       let nn = NN name (env_Namespace env)
       in and_next (cache_Create (lw_Secret d) nn) (\<lambda>sec.
          and_next (get_secret (lw_Prov d) (env_nn env ''keycloak'')) (\<lambda>envSec.
            let data = sidecar_data env (bopurl envSec) ''''
            in and_next (data_hash d data) (\<lambda>hash.
               and_next (get_deployment d i (Some (env_nn env deployment))) (\<lambda>dd.
               and_next (put_deployment d i (annotate_pods (lw_Makers d) (config_hash_annotation hash) dd)) (\<lambda>_.
                 cache_Update (lw_Secret d) (sidecar_object env nn data sec)))))))"

definition makeMBOPSecret :: "('w, 'c) LocalWebDeps \<Rightarrow> (('w, 'c) Provider, unit) op" where
  "makeMBOPSecret d = sidecar_secret d WebBOPDeployment ''caddy-config-mbop'' ''mbop'' (\<lambda>_. ''http://127.0.0.1:8090'')"

text \<open>The deployment is looked up under the name of the other service, which does not matter for an identifier with a single object.\<close>

definition makeMocktitlementsSecret :: "('w, 'c) LocalWebDeps \<Rightarrow> (('w, 'c) Provider, unit) op" where
  "makeMocktitlementsSecret d = sidecar_secret d WebMocktitlementsDeployment ''caddy-config-mocktitlements'' ''mbop'' (\<lambda>envSec. mget (sec_Data envSec) ''bopurl'')"

definition bop_ingress :: "ObjMakers \<Rightarrow> ClowdEnvironment \<Rightarrow> KIngress \<Rightarrow> KIngress" where
  "bop_ingress M env = env_ingress M (NN (env_Name env @ ''-mbop'') (env_Namespace env)) env [[]]
     [\<lparr>ir_Host = env_Hostname env, ir_Paths = [prefix_path ''/v1/registrations'' (env_Name env @ ''-mbop'') ''auth'', prefix_path ''/v1/check_registration'' (env_Name env @ ''-mbop'') ''auth'']\<rparr>]"

definition makeBOPIngress :: "('w, 'c) LocalWebDeps \<Rightarrow> (('w, 'c) Provider, unit) op" where
  "makeBOPIngress d = and_next (reads prov_Env) (\<lambda>env. with_resource (lw_BOPIngress d) (NN (env_Name env @ ''-mbop'') (env_Namespace env)) (bop_ingress (lw_Makers d) env))"

definition mocktitlements_ingress :: "ObjMakers \<Rightarrow> ClowdEnvironment \<Rightarrow> KIngress \<Rightarrow> KIngress" where
  "mocktitlements_ingress M env = env_ingress M (NN (env_Name env @ ''-mocktitlements'') (env_Namespace env)) env [[]]
     [\<lparr>ir_Host = env_Hostname env, ir_Paths = [prefix_path ''/api/entitlements/'' (env_Name env @ ''-mocktitlements'') ''auth'']\<rparr>]"

definition makeMocktitlementsIngress :: "('w, 'c) LocalWebDeps \<Rightarrow> (('w, 'c) Provider, unit) op" where
  "makeMocktitlementsIngress d =
     and_next (reads prov_Env) (\<lambda>env. with_resource (lw_MocktitlementsIngress d) (NN (env_Name env @ ''-mocktitlements'') (env_Namespace env)) (mocktitlements_ingress (lw_Makers d) env))"

definition mock_annotations :: "string \<Rightarrow> string \<Rightarrow> smap" where
  "mock_annotations img config = map_of [(''clowder/authsidecar-image'', img), (''clowder/authsidecar-enabled'', ''true''), (''clowder/authsidecar-port'', ''8090''), (''clowder/authsidecar-config'', config)]"

definition mock_container :: "NamespacedName \<Rightarrow> NamespacedName \<Rightarrow> ClowdObject \<Rightarrow> string \<Rightarrow> ResourceRequirements \<Rightarrow> Container" where
  "mock_container snn nn o' img res = Container_zero\<lparr>ct_Name := nn_Name nn, ct_Image := img,
     ct_Env := AppendEnvVarsFromSecret [plain_var ''KEYCLOAK_SERVER'' (''http://'' @ co_GetClowdName o' @ ''-keycloak.'' @ co_GetClowdNamespace o' @ ''.svc:8080'')] (nn_Name snn)
       [NewSecretEnvVar ''KEYCLOAK_USERNAME'' ''username'', NewSecretEnvVar ''KEYCLOAK_PASSWORD'' ''password'', NewSecretEnvVar ''KEYCLOAK_VERSION'' ''version''],
     ct_Ports := [tcp_port ''service'' 8090],
     ct_LivenessProbe := Some (Probe_zero\<lparr>pr_Handler := TCPSocket 8090, pr_InitialDelaySeconds := 10, pr_TimeoutSeconds := 2\<rparr>),
     ct_ReadinessProbe := Some (Probe_zero\<lparr>pr_Handler := TCPSocket 8090, pr_InitialDelaySeconds := 20, pr_TimeoutSeconds := 2\<rparr>),
     ct_Resources := res, ct_TerminationMessagePath := ''/dev/termination-log'', ct_TerminationMessagePolicy := ''File'', ct_ImagePullPolicy := ''IfNotPresent''\<rparr>"

definition mock_template :: "ObjMakers \<Rightarrow> string \<Rightarrow> string \<Rightarrow> Container \<Rightarrow> PodTemplate \<Rightarrow> PodTemplate" where
  "mock_template M caddy config ct t = t\<lparr>pt_Annotations := mk_Annotate M (pt_Annotations t) (mock_annotations caddy config), pt_Containers := [ct]\<rparr>"

definition makeBOP :: "ObjMakers \<Rightarrow> web_ident maker" where
  "makeBOP M _ o' objMap _ nodePort =
     (let nn = GetNamespacedName o' ''mbop''
      in case o' of
           EnvObject env \<Rightarrow>
             (case requirements (mk_MustParse M) (''100m'', ''200Mi'') (''50m'', ''100Mi'') of
                None \<Rightarrow> None
              | Some res \<Rightarrow> map_option Inr (fill_component M WebBOPDeployment WebBOPService nn (component_labels o' nn) o' nodePort
                  (mock_template M (GetCaddyImage (mk_Loaded M) env) ''caddy-config-mbop'' (mock_container (GetNamespacedName o' ''keycloak'') nn o' (GetMockBOPImage (mk_Loaded M) env) res))
                  [service_port ''mbop'' 8090, service_port ''auth'' 8080] objMap))
         | _ \<Rightarrow> None)"

definition makeMocktitlements :: "ObjMakers \<Rightarrow> web_ident maker" where
  "makeMocktitlements M _ o' objMap _ nodePort =
     (let nn = GetNamespacedName o' ''mocktitlements''
      in case o' of
           EnvObject env \<Rightarrow>
             (case requirements (mk_MustParse M) (''100m'', ''200Mi'') (''50m'', ''100Mi'') of
                None \<Rightarrow> None
              | Some res \<Rightarrow> map_option Inr (fill_component M WebMocktitlementsDeployment WebMocktitlementsService nn (component_labels o' nn) o' nodePort
                  (mock_template M (GetCaddyImage (mk_Loaded M) env) ''caddy-config-mocktitlements''
                    (mock_container (GetNamespacedName o' ''keycloak'') nn o' (GetMocktitlementsImage (mk_Loaded M) env) res))
                  [service_port ''mocktitlements'' 8090, service_port ''auth'' 8080] objMap))
         | _ \<Rightarrow> None)"

definition configureMBOP :: "('w, 'c) LocalWebDeps \<Rightarrow> (('w, 'c) Provider, unit) op" where
  "configureMBOP d =
     and_next (make_component (lw_Comp d) [WebBOPDeployment, WebBOPService] env_object ''mbop'' (makeBOP (lw_Makers d)) False) (\<lambda>_.
     and_next (makeMBOPSecret d) (\<lambda>_. makeBOPIngress d))"

definition configureMocktitlements :: "('w, 'c) LocalWebDeps \<Rightarrow> (('w, 'c) Provider, unit) op" where
  "configureMocktitlements d =
     and_next (make_component (lw_Comp d) [WebMocktitlementsDeployment, WebMocktitlementsService] env_object ''mocktitlements'' (makeMocktitlements (lw_Makers d)) False) (\<lambda>_.
     and_next (makeMocktitlementsSecret d) (\<lambda>_. makeMocktitlementsIngress d))"

section \<open>The gateway\<close>

definition acmeIssuerSpec :: "ClowdEnvironment \<Rightarrow> goerr + IssuerSpec" where
  "acmeIssuerSpec env =
     (if gc_EmailAddress (web_GatewayCert (env_Web env)) = '''' then Inl (PlainErr ''could not get env.Spec.EmailAddress for Cert'')
      else Inr (ACMEIssuer (gc_EmailAddress (web_GatewayCert (env_Web env))) (env_Namespace env @ ''-cluster-issuer'') ''https://acme-staging-v02.api.letsencrypt.org/directory''))"

definition selfSignedIssuerSpec :: IssuerSpec where "selfSignedIssuerSpec = SelfSignedIssuer"

definition acmeCert :: "ClowdEnvironment \<Rightarrow> CertificateSpec" where
  "acmeCert env = \<lparr>crt_CommonName = '''', crt_DNSNames = [getCertHostname (env_Hostname env)], crt_IssuerRef = (''cert-manager.io'', ''Issuer'', env_Namespace env), crt_PrivateKey = None,
     crt_SecretName = nn_Name (env_nn env ''caddy-gateway'')\<rparr>"

definition selfSignedCert :: "ClowdEnvironment \<Rightarrow> CertificateSpec" where
  "selfSignedCert env = (acmeCert env)\<lparr>crt_CommonName := getCertHostname (env_Hostname env), crt_PrivateKey := Some (''ECDSA'', 256)\<rparr>"

abbreviation env_acme :: "ClowdEnvironment \<Rightarrow> bool" where "env_acme e \<equiv> gc_CertMode (web_GatewayCert (env_Web e)) = ''acme''"

definition makeWebGatewayCertificate :: "('w, 'c) LocalWebDeps \<Rightarrow> (('w, 'c) Provider, unit) op" where
  "makeWebGatewayCertificate d =
     and_next (reads prov_Env) (\<lambda>env.
       let nn = NN ''caddy-gateway'' (env_Namespace env)
       in with_resource (lw_Certificate d) nn (\<lambda>certi. \<lparr>crt_ObjectMeta = mk_Labeler (lw_Makers d) nn (env_GetLabels env) (EnvObject env) (crt_ObjectMeta certi),
            crt_Spec = Some (if env_acme env then acmeCert env else selfSignedCert env)\<rparr>))"

definition makeWebGatewayCertificateIssuer :: "('w, 'c) LocalWebDeps \<Rightarrow> (('w, 'c) Provider, unit) op" where
  "makeWebGatewayCertificateIssuer d =
     and_next (reads prov_Env) (\<lambda>env.
       let nn = NN (env_Namespace env) (env_Namespace env)
       in and_next (cache_Create (lw_Issuer d) nn) (\<lambda>certi.
          and_next (result (if env_acme env then acmeIssuerSpec env else Inr selfSignedIssuerSpec)) (\<lambda>spec.
            cache_Update (lw_Issuer d) \<lparr>iss_ObjectMeta = mk_Labeler (lw_Makers d) nn (env_GetLabels env) (EnvObject env) (iss_ObjectMeta certi), iss_Spec = Some spec\<rparr>)))"

text \<open>The routes: two for the mocked service, then those of the apps in the order of their names. The apps are kept in a map by name and namespace joined with a hyphen.\<close>

definition gateway_name :: "ClowdApp \<Rightarrow> string" where "gateway_name app = app_Name app @ ''-'' @ app_Namespace app"

definition gateway_apps :: "ClowdApp list \<Rightarrow> ClowdApp list" where
  "gateway_apps apps = map (\<lambda>name. the (map_of (rev (map (\<lambda>a. (gateway_name a, a)) apps)) name)) (sort (map gateway_name apps))"

definition app_route :: "ClowdApp \<Rightarrow> Deployment \<Rightarrow> ProxyRoute" where
  "app_route app dep =
     (let apiPath = (if pub_APIPath (ws_Public (dep_WebServices dep)) = '''' then dep_Name dep else pub_APIPath (ws_Public (dep_WebServices dep)))
      in \<lparr>prx_Upstream = nn_Name (app_GetDeploymentNamespacedName app dep) @ ''.'' @ app_Namespace app @ ''.svc:'' @ itoa 8000, prx_Path = ''/api/'' @ apiPath @ ''/*''\<rparr>)"

definition app_routes :: "ClowdApp \<Rightarrow> ProxyRoute list" where
  "app_routes app = map (app_route app) (filter is_web (app_Deployments (app_Spec app)))"

definition app_whitelist :: "ClowdApp \<Rightarrow> string list" where
  "app_whitelist app = concat (map (\<lambda>dep. pub_WhitelistPaths (ws_Public (dep_WebServices dep))) (app_Deployments (app_Spec app)))"

definition bop_host :: "ClowdEnvironment \<Rightarrow> string" where
  "bop_host env = env_Name env @ ''-mbop.'' @ env_Namespace env @ ''.svc:8090''"

definition gateway_config :: "ClowdEnvironment \<Rightarrow> ClowdApp list \<Rightarrow> GatewayConfig" where
  "gateway_config env apps = GenerateConfig (getCertHostname (env_Hostname env)) (''http://'' @ bop_host env) (concat (map app_whitelist (gateway_apps apps)))
     ([\<lparr>prx_Upstream = bop_host env, prx_Path = ''/v1/registrations*''\<rparr>, \<lparr>prx_Upstream = bop_host env, prx_Path = ''/v1/check_registration*''\<rparr>]
      @ concat (map app_routes (gateway_apps apps)))"

definition makeWebGatewayConfigMap :: "('w, 'c) LocalWebDeps \<Rightarrow> (('w, 'c) Provider, string) op" where
  "makeWebGatewayConfigMap d =
     and_next (reads prov_Env) (\<lambda>env.
       let snn = env_nn env ''caddy-gateway''
       in and_next (cache_Create (wk_CaddyConfigMap (lw_Kinds d)) snn) (\<lambda>cm.
          and_next (apps_in_env (lw_Prov d)) (\<lambda>appList.
            let cmData = lw_Encode d (gateway_config env appList)
            in and_next (cache_Update (wk_CaddyConfigMap (lw_Kinds d)) (cm\<lparr>cm_ObjectMeta := (cm_ObjectMeta cm)\<lparr>om_Name := nn_Name snn, om_Namespace := nn_Namespace snn,
                 om_OwnerReferences := [env_MakeOwnerReference env]\<rparr>, cm_Data := [''Caddyfile.json'' \<mapsto> cmData]\<rparr>)) (\<lambda>_.
               ret (pd_Sha (lw_Prov d) cmData)))))"

definition caddy_gateway_container :: "NamespacedName \<Rightarrow> ResourceRequirements \<Rightarrow> Container" where
  "caddy_gateway_container nn res = Container_zero\<lparr>ct_Name := nn_Name nn, ct_Ports := [tcp_port ''gateway'' 9090],
     ct_LivenessProbe := Some (component_probe (TCPSocket 9090) 10 2 10), ct_ReadinessProbe := Some (component_probe (TCPSocket 9090) 20 2 10), ct_Resources := res,
     ct_TerminationMessagePath := ''/dev/termination-log'', ct_TerminationMessagePolicy := ''File'', ct_ImagePullPolicy := ''IfNotPresent'',
     ct_VolumeMounts := [\<lparr>vm_Name = ''config'', vm_ReadOnly = False, vm_MountPath = ''/etc/caddy''\<rparr>, \<lparr>vm_Name = ''certs'', vm_ReadOnly = False, vm_MountPath = ''/certs''\<rparr>],
     ct_Command := [''caddy'', ''run'', ''--config'', ''/etc/caddy/Caddyfile.json'']\<rparr>"

text \<open>The port of the service has no target.\<close>

definition gateway_port :: ServicePort where
  "gateway_port = \<lparr>sp_Name = ''gateway'', sp_Port = 9090, sp_Protocol = ''TCP'', sp_AppProtocol = None, sp_TargetPort = 0\<rparr>"

definition makeWebGatewayDeployment :: "ObjMakers \<Rightarrow> web_ident maker" where
  "makeWebGatewayDeployment M _ o' objMap _ _ =
     (let nn = GetNamespacedName o' ''caddy-gateway''
      in case requirements (mk_MustParse M) (''1'', ''750Mi'') (''100m'', ''400Mi'') of
           None \<Rightarrow> None
         | Some res \<Rightarrow> map_option Inr (fill_component M WebGatewayDeployment WebGatewayService nn (component_labels o' nn) o' False
             (\<lambda>t. t\<lparr>pt_Volumes := [Volume_zero\<lparr>vol_Name := ''config'', vol_ConfigMap := Some \<lparr>vs_Name = nn_Name nn, vs_DefaultMode = None, vs_Optional = None\<rparr>\<rparr>,
                      Volume_zero\<lparr>vol_Name := ''certs'', vol_Secret := Some \<lparr>vs_Name = nn_Name nn, vs_DefaultMode = None, vs_Optional = None\<rparr>\<rparr>],
                    pt_Containers := [caddy_gateway_container nn res]\<rparr>)
             [gateway_port] objMap))"

definition gateway_ingress :: "ObjMakers \<Rightarrow> ClowdEnvironment \<Rightarrow> KIngress \<Rightarrow> KIngress" where
  "gateway_ingress M env ing =
     (let nn = env_nn env ''caddy-gateway''; nginx = (ingress_class env = ''nginx'');
          path = \<lparr>ip_Path = (if nginx then ''/'' else ''''), ip_PathType = (if nginx then ''Prefix'' else ''ImplementationSpecific''), ip_ServiceName = nn_Name nn, ip_ServicePort = ''gateway''\<rparr>;
          extra = (if nginx then [''nginx.ingress.kubernetes.io/ssl-passthrough'' \<mapsto> ''true'', ''nginx.ingress.kubernetes.io/backend-protocol'' \<mapsto> ''HTTPS'']
                   else [''route.openshift.io/termination'' \<mapsto> ''passthrough'']);
          base = env_ingress M nn env [] [\<lparr>ir_Host = getCertHostname (env_Hostname env), ir_Paths = [path]\<rparr>] ing
      in base\<lparr>ing_ObjectMeta := (ing_ObjectMeta base)\<lparr>om_Annotations := mk_Annotate M (om_Annotations (ing_ObjectMeta base)) extra\<rparr>\<rparr>)"

definition makeWebGatewayIngress :: "('w, 'c) LocalWebDeps \<Rightarrow> (('w, 'c) Provider, unit) op" where
  "makeWebGatewayIngress d = and_next (reads prov_Env) (\<lambda>env. with_resource (lw_GatewayIngress d) (env_nn env ''caddy-gateway'') (gateway_ingress (lw_Makers d) env))"

text \<open>What is changed on the deployment of the gateway afterwards: the image, the annotation and, with a local CA, a volume. A deployment without a container panics.\<close>

definition finish_gateway :: "ObjMakers \<Rightarrow> ClowdEnvironment \<Rightarrow> string \<Rightarrow> KDeployment \<Rightarrow> KDeployment option" where
  "finish_gateway M env hash dd =
     (let ca = gc_LocalCAConfigMap (web_GatewayCert (env_Web env)); t = kd_Template dd
      in case pt_Containers t of
           [] \<Rightarrow> None
         | c # cs \<Rightarrow>
             Some (annotate_pods M (config_hash_annotation hash) (dd\<lparr>kd_Template := t\<lparr>
               pt_Volumes := pt_Volumes t @ only_if (ca \<noteq> '''') (Volume_zero\<lparr>vol_Name := ''ca'', vol_ConfigMap := Some \<lparr>vs_Name = ca, vs_DefaultMode = None, vs_Optional = None\<rparr>\<rparr>),
               pt_Containers := c\<lparr>ct_VolumeMounts := ct_VolumeMounts c @ only_if (ca \<noteq> '''') \<lparr>vm_Name = ''ca'', vm_ReadOnly = False, vm_MountPath = ''/cas''\<rparr>,
                 ct_Image := GetCaddyGatewayImage (mk_Loaded M) env\<rparr> # cs\<rparr>\<rparr>)))"

definition configureWebGateway :: "('w, 'c) LocalWebDeps \<Rightarrow> (('w, 'c) Provider, unit) op" where
  "configureWebGateway d =
     and_next (reads prov_Env) (\<lambda>env.
       if \<not> gc_Enabled (web_GatewayCert (env_Web env)) then ret ()
       else and_next (makeWebGatewayIngress d) (\<lambda>_.
            and_next (makeWebGatewayConfigMap d) (\<lambda>hash.
            and_next (makeWebGatewayCertificateIssuer d) (\<lambda>_.
            and_next (makeWebGatewayCertificate d) (\<lambda>_.
            and_next (make_component (lw_Comp d) [WebGatewayDeployment, WebGatewayService] env_object ''caddy-gateway'' (makeWebGatewayDeployment (lw_Makers d)) False) (\<lambda>_.
            and_next (get_deployment d WebGatewayDeployment None) (\<lambda>dd.
            and_next (or_panic (finish_gateway (lw_Makers d) env hash dd)) (\<lambda>dd'.
              put_deployment d WebGatewayDeployment dd'))))))))"

section \<open>The provider\<close>

text \<open>The name of the host is generated once and kept in the status of the environment.\<close>

definition ensure_hostname :: "('w, 'c) LocalWebDeps \<Rightarrow> (('w, 'c) Provider, unit) op" where
  "ensure_hostname d p =
     (let env = prov_Env p;
          host = GenerateHostname (lw_GetIngress d (prov_World p)) (lw_RandomIdent d (prov_World p)) env (\<not> feat_DisableRandomRoutes (cc_Features (lw_Loaded d)));
          env' = env\<lparr>env_Status := (env_Status env)\<lparr>est_Hostname := host\<rparr>\<rparr>
      in if env_Hostname env = ''''
         then (case lw_UpdateStatus d env' (prov_World p) of
                 (w', None) \<Rightarrow> Some (p\<lparr>prov_Env := env', prov_World := w'\<rparr>, Inr ())
               | (w', Some err) \<Rightarrow> Some (p\<lparr>prov_Env := env', prov_World := w'\<rparr>, Inl err))
         else Some (p, Inr ()))"

definition localweb_EnvProvide :: "('w, 'c) LocalWebDeps \<Rightarrow> (('w, 'c) Provider, unit) op" where
  "localweb_EnvProvide d =
     and_next (ensure_hostname d) (\<lambda>_.
     and_next (configureKeycloakDB d) (\<lambda>_.
     and_next (configureKeycloak d) (\<lambda>_.
     and_next (configureMBOP d) (\<lambda>_.
     and_next (configureMocktitlements d) (\<lambda>_.
       configureWebGateway d)))))"

text \<open>\<open>GetLabels\<close> of an app also writes the label it adds to the app in memory, as it does in the deployment provider, which runs first; that is not repeated here.\<close>

definition app_ingress :: "ObjMakers \<Rightarrow> ClowdEnvironment \<Rightarrow> ClowdApp \<Rightarrow> Deployment \<Rightarrow> KIngress \<Rightarrow> KIngress" where
  "app_ingress M env app dep ing =
     (let nn = app_GetDeploymentNamespacedName app dep
      in \<lparr>ing_ObjectMeta = mk_Labeler M nn (co_GetLabels (AppObject app)) (AppObject app) (ing_ObjectMeta ing), ing_TLS = [[]], ing_IngressClassName = Some (ingress_class env),
          ing_Rules = [\<lparr>ir_Host = env_Hostname env, ir_Paths = map (\<lambda>path. prefix_path path (nn_Name nn) ''auth'') (GetAPIPaths (dep_WebServices dep) (nn_Name nn))\<rparr>]\<rparr>)"

definition createIngress :: "('w, 'c) LocalWebDeps \<Rightarrow> ClowdApp \<Rightarrow> Deployment \<Rightarrow> (('w, 'c) Provider, unit) op" where
  "createIngress d app dep =
     and_next (reads prov_Env) (\<lambda>env.
       if \<not> is_web dep then ret () else with_resource (lw_Ingress d) (app_GetDeploymentNamespacedName app dep) (app_ingress (lw_Makers d) env app dep))"

text \<open>The secret of the sidecar of a deployment and the hash of it on the pods; with TLS the CA is mounted too.\<close>

definition deployment_secret :: "('w, 'c) LocalWebDeps \<Rightarrow> ClowdApp \<Rightarrow> Deployment \<Rightarrow> (('w, 'c) Provider, unit) op" where
  "deployment_secret d app dep =
     and_next (reads prov_Env) (\<lambda>env.
       let nn = NN (''caddy-config-'' @ app_Name app @ ''-'' @ dep_Name dep) (app_Namespace app); dnn = app_GetDeploymentNamespacedName app dep;
           data = sidecar_data env (env_url env ''mbop'' ''8090'') (join '','' (pub_WhitelistPaths (ws_Public (dep_WebServices dep))))
       in and_next (cache_Create (lw_Secret d) nn) (\<lambda>sec.
          and_next (data_hash d data) (\<lambda>hash.
          and_next (cache_Get (wk_Deployment (lw_Kinds d)) (Some dnn)) (\<lambda>g.
          and_next (result g) (\<lambda>dd.
            let dd1 = (if IsTLSConfiguredForEnv (web_TLS (env_Web env)) then dd\<lparr>kd_Template := AddCertVolume (kd_Template dd) (nn_Name dnn)\<rparr> else dd)
            in and_next (cache_Update (wk_Deployment (lw_Kinds d)) (annotate_pods (lw_Makers d) (config_hash_annotation hash) dd1)) (\<lambda>_.
                 cache_Update (lw_Secret d) (sidecar_object env nn data sec)))))))"

definition localweb_step :: "('w, 'c) LocalWebDeps \<Rightarrow> ClowdApp \<Rightarrow> Deployment \<Rightarrow> (('w, 'c) Provider, unit) op" where
  "localweb_step d app dep =
     and_next (makeService (lw_Web d) (lw_Kinds d) app dep) (\<lambda>_.
     and_next (createIngress d app dep) (\<lambda>_. deployment_secret d app dep))"

definition localweb_Provide :: "('w, 'c) LocalWebDeps \<Rightarrow> ClowdApp \<Rightarrow> (('w, 'c) Provider, unit) op" where
  "localweb_Provide d app =
     and_next (reads prov_Env) (\<lambda>env.
     and_next (set_config (\<lambda>c. (web_config env c)\<lparr>cfg_Hostname := Some (env_Hostname env)\<rparr>)) (\<lambda>_.
     and_next (each (localweb_step d app) (app_Deployments (app_Spec app))) (\<lambda>_.
       if tls_Enabled (web_TLS (env_Web env)) then set_config (\<lambda>c. c\<lparr>cfg_TlsCAPath := GetServiceCACertPath\<rparr>) else ret ())))"

datatype web_mode = DefaultWeb | LocalWeb

definition GetWeb :: "ClowdEnvironment \<Rightarrow> goerr + web_mode" where
  "GetWeb env =
     (let webMode = web_Mode (env_Web env)
      in if webMode \<in> {''none'', ''operator''} then Inr DefaultWeb
         else if webMode = ''local'' then Inr LocalWeb
         else Inl (PlainErr (''No matching web mode for '' @ webMode)))"

section \<open>The makers\<close>

lemma mock_template_ports:
  assumes "makers_laws M" and "ct_Ports ct = [tcp_port ''service'' 8090]"
  shows "target_port ` set [service_port n 8090, service_port ''auth'' 8080] \<subseteq> set (pod_ports (mock_template M caddy config ct t))"
    "pt_Labels (mock_template M caddy config ct t) = pt_Labels t"
  using assms by (simp_all add: pod_ports_def mock_template_def makers_laws_def mock_annotations_def)

lemma mock_container_ports [simp]: "ct_Ports (mock_container snn nn o' img res) = [tcp_port ''service'' 8090]"
  by (simp add: mock_container_def)

interpretation keycloak: component_maker makeKeycloak WebKeycloakDeployment WebKeycloakService "''keycloak''" "[service_port ''keycloak'' 8080]"
proof
  fix M env o' m usePVC nodePort made
  assume run: "makeKeycloak M env o' m usePVC nodePort = Some (Inr made)"
  show "map fst made = map fst m"
    using run by (auto simp: makeKeycloak_def Let_def split: ClowdObject.splits option.splits dest: fill_component_keys)
  assume laws: "makers_laws M"
  show "\<exists>dd s. the_deployment made WebKeycloakDeployment = Some dd \<and> the_service made WebKeycloakService = Some s \<and> served dd s \<and> svc_Ports s = [service_port ''keycloak'' 8080]
      \<and> comp_NN (DeploymentObj dd) = GetNamespacedName o' ''keycloak'' \<and> comp_NN (ServiceObj s) = GetNamespacedName o' ''keycloak''"
    using run unfolding makeKeycloak_def Let_def
    by (auto simp: component_ports keycloak_container_def split: ClowdObject.splits option.splits dest!: fill_component_served [OF laws])
qed

interpretation mbop: component_maker makeBOP WebBOPDeployment WebBOPService "''mbop''" "[service_port ''mbop'' 8090, service_port ''auth'' 8080]"
proof
  fix M env o' m usePVC nodePort made
  assume run: "makeBOP M env o' m usePVC nodePort = Some (Inr made)"
  then obtain e res where fill: "fill_component M WebBOPDeployment WebBOPService (GetNamespacedName o' ''mbop'') (component_labels o' (GetNamespacedName o' ''mbop'')) o' nodePort
      (mock_template M (GetCaddyImage (mk_Loaded M) e) ''caddy-config-mbop''
        (mock_container (GetNamespacedName o' ''keycloak'') (GetNamespacedName o' ''mbop'') o' (GetMockBOPImage (mk_Loaded M) e) res))
      [service_port ''mbop'' 8090, service_port ''auth'' 8080] m = Some made"
    by (auto simp: makeBOP_def Let_def split: ClowdObject.splits option.splits)
  show "map fst made = map fst m" by (rule fill_component_keys [OF fill])
  assume laws: "makers_laws M"
  show "\<exists>dd s. the_deployment made WebBOPDeployment = Some dd \<and> the_service made WebBOPService = Some s \<and> served dd s
      \<and> svc_Ports s = [service_port ''mbop'' 8090, service_port ''auth'' 8080] \<and> comp_NN (DeploymentObj dd) = GetNamespacedName o' ''mbop'' \<and> comp_NN (ServiceObj s) = GetNamespacedName o' ''mbop''"
    by (rule fill_component_served [OF laws fill]) (simp, (intro mock_template_ports laws mock_container_ports)+)
qed

interpretation mocktitlements: component_maker makeMocktitlements WebMocktitlementsDeployment WebMocktitlementsService "''mocktitlements''"
  "[service_port ''mocktitlements'' 8090, service_port ''auth'' 8080]"
proof
  fix M env o' m usePVC nodePort made
  assume run: "makeMocktitlements M env o' m usePVC nodePort = Some (Inr made)"
  then obtain e res where fill: "fill_component M WebMocktitlementsDeployment WebMocktitlementsService (GetNamespacedName o' ''mocktitlements'')
      (component_labels o' (GetNamespacedName o' ''mocktitlements'')) o' nodePort
      (mock_template M (GetCaddyImage (mk_Loaded M) e) ''caddy-config-mocktitlements''
        (mock_container (GetNamespacedName o' ''keycloak'') (GetNamespacedName o' ''mocktitlements'') o' (GetMocktitlementsImage (mk_Loaded M) e) res))
      [service_port ''mocktitlements'' 8090, service_port ''auth'' 8080] m = Some made"
    by (auto simp: makeMocktitlements_def Let_def split: ClowdObject.splits option.splits)
  show "map fst made = map fst m" by (rule fill_component_keys [OF fill])
  assume laws: "makers_laws M"
  show "\<exists>dd s. the_deployment made WebMocktitlementsDeployment = Some dd \<and> the_service made WebMocktitlementsService = Some s \<and> served dd s
      \<and> svc_Ports s = [service_port ''mocktitlements'' 8090, service_port ''auth'' 8080]
      \<and> comp_NN (DeploymentObj dd) = GetNamespacedName o' ''mocktitlements'' \<and> comp_NN (ServiceObj s) = GetNamespacedName o' ''mocktitlements''"
    by (rule fill_component_served [OF laws fill]) (simp, (intro mock_template_ports laws mock_container_ports)+)
qed

interpretation gateway: component_maker makeWebGatewayDeployment WebGatewayDeployment WebGatewayService "''caddy-gateway''" "[gateway_port]"
proof
  fix M env o' m usePVC nodePort made
  assume run: "makeWebGatewayDeployment M env o' m usePVC nodePort = Some (Inr made)"
  show "map fst made = map fst m"
    using run by (auto simp: makeWebGatewayDeployment_def Let_def split: option.splits dest: fill_component_keys)
  assume laws: "makers_laws M"
  show "\<exists>dd s. the_deployment made WebGatewayDeployment = Some dd \<and> the_service made WebGatewayService = Some s \<and> served dd s \<and> svc_Ports s = [gateway_port]
      \<and> comp_NN (DeploymentObj dd) = GetNamespacedName o' ''caddy-gateway'' \<and> comp_NN (ServiceObj s) = GetNamespacedName o' ''caddy-gateway''"
    using run unfolding makeWebGatewayDeployment_def Let_def
    by (auto simp: component_ports caddy_gateway_container_def gateway_port_def split: option.splits dest!: fill_component_served [OF laws])
qed

section \<open>Components that stay up\<close>

text \<open>A component is up: its deployment and its service are recorded under its name and fit.\<close>

definition component_up ::
  "('w \<times> 'c \<Rightarrow> 'i \<Rightarrow> NamespacedName \<rightharpoonup> comp_obj) \<Rightarrow> 'i \<Rightarrow> 'i \<Rightarrow> NamespacedName \<Rightarrow> ServicePort list \<Rightarrow> ('w, 'c) Provider \<Rightarrow> bool" where
  "component_up recorded dep svc nn ports p = (\<exists>dd s. prov_recorded recorded p dep nn = Some (DeploymentObj dd) \<and> prov_recorded recorded p svc nn = Some (ServiceObj s)
     \<and> served dd s \<and> svc_Ports s = ports \<and> comp_NN (ServiceObj s) = nn)"

text \<open>What an operation keeps: the environment, and what is recorded for every identifier but some.\<close>

named_theorems keeping \<open>rules for the operations that keep what is recorded for all but some identifiers\<close>

definition touches_only :: "('w \<times> 'c \<Rightarrow> 'i \<Rightarrow> 'x) \<Rightarrow> 'i set \<Rightarrow> (('w, 'c) Provider, 'a) op \<Rightarrow> bool" where
  "touches_only recorded I m = (\<forall>p p' a. m p = Some (p', Inr a) \<longrightarrow> prov_Env p' = prov_Env p \<and> (\<forall>i. i \<notin> I \<longrightarrow> prov_recorded recorded p' i = prov_recorded recorded p i))"

lemma keeps_silent: "silent recorded m \<Longrightarrow> touches_only recorded I m"
  unfolding silent_def touches_only_def by metis

lemma keeps_and_next [keeping]: "touches_only recorded I m \<Longrightarrow> (\<And>a. touches_only recorded I (f a)) \<Longrightarrow> touches_only recorded I (and_next m f)"
  unfolding touches_only_def and_next_ok by metis

lemma keeps_if [keeping]: "touches_only recorded I m \<Longrightarrow> touches_only recorded I n \<Longrightarrow> touches_only recorded I (if b then m else n)"
  by simp

lemma touches_onlyD:
  assumes "touches_only recorded I m" and "m p = Some (p', Inr a)"
  shows "prov_Env p' = prov_Env p" "i \<notin> I \<Longrightarrow> prov_recorded recorded p' i = prov_recorded recorded p i"
  using assms unfolding touches_only_def by blast+

lemma component_stays_up:
  assumes "touches_only recorded I m" and "m p = Some (p', Inr a)" and "dep \<notin> I" and "svc \<notin> I" and "component_up recorded dep svc nn ports p"
  shows "component_up recorded dep svc nn ports p'"
  using assms(5) unfolding component_up_def touches_onlyD(2) [OF assms(1,2,3)] touches_onlyD(2) [OF assms(1,2,4)] .

text \<open>What the cache has to promise here: the usual for the identifiers, that a deployment is read as it is recorded, and that the other kinds leave the components alone.\<close>

definition local_web_cache :: "('w, 'c) LocalWebDeps \<Rightarrow> ('w \<times> 'c \<Rightarrow> web_ident \<Rightarrow> NamespacedName \<rightharpoonup> comp_obj) \<Rightarrow> bool" where
  "local_web_cache d recorded = (component_cache (lw_Comp d) recorded
     \<and> (\<forall>i nn s dd. lw_Get d i nn s = Inr dd \<longrightarrow> recorded s i (kd_NN dd) = Some (DeploymentObj dd))
     \<and> leaves_alone (lw_KeycloakSecret d) recorded \<and> leaves_alone (lw_ImportSecret d) recorded \<and> leaves_alone (lw_Secret d) recorded
     \<and> leaves_alone (lw_KeycloakIngress d) recorded \<and> leaves_alone (lw_BOPIngress d) recorded \<and> leaves_alone (lw_MocktitlementsIngress d) recorded \<and> leaves_alone (lw_GatewayIngress d) recorded
     \<and> leaves_alone (lw_Issuer d) recorded \<and> leaves_alone (lw_Certificate d) recorded \<and> leaves_alone (wk_CaddyConfigMap (lw_Kinds d)) recorded)"

lemma put_deployment_records:
  assumes "component_cache (lw_Comp d) recorded" and "put_deployment d i dd p = Some (p', Inr u)"
  shows "prov_recorded recorded p' = (prov_recorded recorded p)(i := (prov_recorded recorded p i)(kd_NN dd \<mapsto> DeploymentObj dd))" "prov_Env p' = prov_Env p"
proof -
  from assms(2) obtain c w' c' where c: "prov_Cache p = Some c" and up: "cmp_Update (lw_Comp d) i (DeploymentObj dd) (prov_World p, c) = ((w', c'), None)"
    and p': "p' = p\<lparr>prov_World := w', prov_Cache := Some c'\<rparr>"
    by (auto simp: put_deployment_def cached_def split: option.splits prod.splits)
  from up assms(1) have "recorded (w', c') = (recorded (prov_World p, c))(i := (recorded (prov_World p, c) i)(comp_NN (DeploymentObj dd) \<mapsto> DeploymentObj dd))"
    unfolding component_cache_def by blast
  then show "prov_recorded recorded p' = (prov_recorded recorded p)(i := (prov_recorded recorded p i)(kd_NN dd \<mapsto> DeploymentObj dd))" "prov_Env p' = prov_Env p"
    using c p' by (simp_all add: comp_NN_def)
qed

lemma keeps_put [keeping]: "component_cache (lw_Comp d) recorded \<Longrightarrow> i \<in> I \<Longrightarrow> touches_only recorded I (put_deployment d i dd)"
  unfolding touches_only_def using put_deployment_records [of d recorded i dd] by (metis fun_upd_other)

lemma get_deployment_silent [silents]: "silent recorded (get_deployment d i nn)"
  by (auto simp: silent_def get_deployment_def cached_def split: option.splits)

text \<open>A deployment that is read, changed without touching its name and what its service needs, and written back.\<close>

lemma rewritten_component_up:
  assumes cache: "local_web_cache d recorded" and get: "get_deployment d dep k p = Some (p1, Inr dd)" and put: "put_deployment d dep dd' p1 = Some (p', Inr u)"
    and same: "kd_NN dd' = kd_NN dd" "\<And>s. served dd s \<Longrightarrow> served dd' s" and up: "component_up recorded dep svc nn ports p" and "dep \<noteq> svc"
  shows "component_up recorded dep svc nn ports p'"
proof -
  have cc: "component_cache (lw_Comp d) recorded" using cache unfolding local_web_cache_def by blast
  from get obtain c where p1: "prov_recorded recorded p1 = prov_recorded recorded p" and "prov_Cache p = Some c" "lw_Get d dep k (prov_World p, c) = Inr dd"
    by (auto simp: get_deployment_def cached_def split: option.splits)
  then have dd: "prov_recorded recorded p dep (kd_NN dd) = Some (DeploymentObj dd)" using cache unfolding local_web_cache_def by fastforce
  from up obtain dd0 s where old: "prov_recorded recorded p dep nn = Some (DeploymentObj dd0)" "prov_recorded recorded p svc nn = Some (ServiceObj s)" "served dd0 s" "svc_Ports s = ports"
    "comp_NN (ServiceObj s) = nn" unfolding component_up_def by blast
  show ?thesis
  proof (cases "kd_NN dd = nn")
    case True
    then have "dd0 = dd" using old(1) dd by simp
    with old same True assms(7) show ?thesis unfolding component_up_def put_deployment_records(1) [OF cc put] p1 by (auto intro!: exI [of _ dd'] exI [of _ s])
  next
    case False
    with old same assms(7) show ?thesis unfolding component_up_def put_deployment_records(1) [OF cc put] p1 by (auto intro!: exI [of _ dd0] exI [of _ s])
  qed
qed

section \<open>The environment\<close>

lemma annotated_served:
  assumes "makers_laws M" and "served dd s" and "extra ''clowder/authsidecar-enabled'' = None"
  shows "served (annotate_pods M extra dd) s"
  using assms annotate_pods_kept [OF assms(1), where extra = extra and dd = dd] by (simp add: served_def pod_ports_def annotate_pods_def)

lemma data_hash_silent [silents]: "silent recorded (data_hash d data)"
  unfolding data_hash_def by (intro silents)

lemma local_web_cacheD:
  assumes "local_web_cache d recorded"
  shows "component_cache (lw_Comp d) recorded" "leaves_alone (lw_KeycloakSecret d) recorded" "leaves_alone (lw_ImportSecret d) recorded" "leaves_alone (lw_Secret d) recorded"
    "leaves_alone (lw_KeycloakIngress d) recorded" "leaves_alone (lw_BOPIngress d) recorded" "leaves_alone (lw_MocktitlementsIngress d) recorded" "leaves_alone (lw_GatewayIngress d) recorded"
    "leaves_alone (lw_Issuer d) recorded" "leaves_alone (lw_Certificate d) recorded" "leaves_alone (wk_CaddyConfigMap (lw_Kinds d)) recorded"
  using assms unfolding local_web_cache_def by blast+

lemma sidecar_secret_keeps:
  assumes "local_web_cache d recorded"
  shows "touches_only recorded {i} (sidecar_secret d i name dpl bop)"
  unfolding sidecar_secret_def Let_def
  by (intro keeping local_web_cacheD(1) [OF assms] singletonI; intro keeps_silent silents local_web_cacheD [OF assms])

lemma sidecar_secret_up:
  assumes laws: "makers_laws (lw_Makers d)" and cache: "local_web_cache d recorded" and run: "sidecar_secret d dep name dpl bop p = Some (p', Inr u)"
    and up: "component_up recorded dep svc nn ports p" and "dep \<noteq> svc"
  shows "component_up recorded dep svc nn ports p'"
proof -
  note lw = local_web_cacheD [OF cache]
  from run obtain sec hash dd env k p1 p2 p3 p4 p5 data nn' bopurl x where steps: "cache_Create (lw_Secret d) nn' p = Some (p1, Inr sec)" "get_secret (lw_Prov d) k p1 = Some (p2, Inr bopurl)"
      "data_hash d data p2 = Some (p3, Inr hash)"
    and get: "get_deployment d dep (Some (env_nn env dpl)) p3 = Some (p4, Inr dd)"
    and put: "put_deployment d dep (annotate_pods (lw_Makers d) (config_hash_annotation hash) dd) p4 = Some (p5, Inr x)"
    and last: "cache_Update (lw_Secret d) (sidecar_object env nn' data sec) p5 = Some (p', Inr u)"
    unfolding sidecar_secret_def Let_def and_next_reads and_next_ok by (elim exE conjE) (rule that)
  have "prov_recorded recorded p3 = prov_recorded recorded p"
    using silentD(1) [OF silent_cache_ops(1) [OF lw(4)] steps(1)] silentD(1) [OF silent_get_secret [where recorded = recorded] steps(2)]
      silentD(1) [OF data_hash_silent [where recorded = recorded] steps(3)] by simp
  then have up3: "component_up recorded dep svc nn ports p3" using up unfolding component_up_def by simp
  have "component_up recorded dep svc nn ports p5"
    using rewritten_component_up [OF cache get put _ _ up3 assms(5)] annotate_pods_kept(2) [OF laws] annotated_served [OF laws] by (simp add: config_hash_annotation_def)
  then show ?thesis using silentD(1) [OF silent_cache_ops(2) [OF lw(4)] last] unfolding component_up_def by simp
qed

text \<open>Every step of the run for an environment brings its own component up and keeps the others.\<close>

lemma make_component_keeps:
  assumes "component_maker mk dep svc sfx ports" and "component_cache D recorded" and "set objList = I"
  shows "touches_only recorded I (make_component D objList obj sfx (mk M) usePVC)"
  unfolding touches_only_def using component_maker.component_others [OF assms(1,2)] make_component_frame assms(3) by metis

lemma make_component_up:
  assumes "component_maker mk dep svc sfx ports" and "makers_laws M" and "component_cache D recorded" and "make_component D objList obj sfx (mk M) usePVC p = Some (p', Inr u)"
  shows "component_up recorded dep svc (GetNamespacedName (obj p) sfx) ports p'"
  using component_maker.component_ready [OF assms] unfolding component_up_def by blast

lemma setSecretVersion_silent [silents]:
  assumes "leaves_alone (lw_KeycloakSecret d) recorded"
  shows "silent recorded (setSecretVersion d nn v)"
proof -
  have "silent recorded (cache_Get r nn)" for r :: "('a \<times> 'b, KSecretObj) Resource" and nn
    by (auto simp: silent_def cache_Get_def cached_def split: option.splits)
  then show ?thesis unfolding setSecretVersion_def by (intro silents assms)
qed

lemma import_silent [silents]: "leaves_alone (lw_ImportSecret d) recorded \<Longrightarrow> silent recorded (makeKeycloakImportSecretRealm d o' pw)"
  unfolding makeKeycloakImportSecretRealm_def Let_def by (intro silents)

lemma ingresses_silent [silents]:
  "leaves_alone (lw_KeycloakIngress d) recorded \<Longrightarrow> silent recorded (makeAuthIngress d)" "leaves_alone (lw_BOPIngress d) recorded \<Longrightarrow> silent recorded (makeBOPIngress d)"
  "leaves_alone (lw_MocktitlementsIngress d) recorded \<Longrightarrow> silent recorded (makeMocktitlementsIngress d)" "leaves_alone (lw_GatewayIngress d) recorded \<Longrightarrow> silent recorded (makeWebGatewayIngress d)"
  unfolding makeAuthIngress_def makeBOPIngress_def makeMocktitlementsIngress_def makeWebGatewayIngress_def by (intro silents; assumption)+

lemma keycloak_up:
  assumes "makers_laws (lw_Makers d)" and cache: "local_web_cache d recorded" and run: "configureKeycloak d p = Some (p', Inr u)"
  shows "component_up recorded WebKeycloakDeployment WebKeycloakService (env_nn (prov_Env p) ''keycloak'') [service_port ''keycloak'' 8080] p'" "prov_Env p' = prov_Env p"
proof -
  note lw = local_web_cacheD [OF cache]
  from run obtain w m i v pw p1 p2 p3 p4 where s1: "map_err w (make_or_get env_object (lw_KeycloakSecret d) (env_nn (prov_Env p) ''keycloak'') i) p = Some (p1, Inr m)"
    and s2: "map_err v (setSecretVersion d (env_nn (prov_Env p) ''keycloak'') (GetKeycloakVersion (prov_Env p))) p1 = Some (p2, Inr ())"
    and comp: "make_component (lw_Comp d) [WebKeycloakDeployment, WebKeycloakService] env_object ''keycloak'' (makeKeycloak (lw_Makers d)) False p2 = Some (p3, Inr ())"
    and s4: "makeKeycloakImportSecretRealm d (EnvObject (prov_Env p)) pw p3 = Some (p4, Inr ())" and s5: "makeAuthIngress d p4 = Some (p', Inr ())"
    unfolding configureKeycloak_def and_next_reads and_next_ok by (auto simp: map_err_def split: sum.splits)
  have env: "prov_Env p2 = prov_Env p"
    using silentD(2) [OF silent_map_err [OF silent_make_or_get [OF lw(2)]] s1] silentD(2) [OF silent_map_err [OF setSecretVersion_silent [OF lw(2)]] s2] by simp
  have rest: "prov_recorded recorded p' = prov_recorded recorded p3" "prov_Env p' = prov_Env p3"
    using silentD [OF import_silent [OF lw(3)] s4] silentD [OF ingresses_silent(1) [OF lw(5)] s5] by simp_all
  from make_component_up [OF keycloak.component_maker_axioms assms(1) lw(1) comp]
  show "component_up recorded WebKeycloakDeployment WebKeycloakService (env_nn (prov_Env p) ''keycloak'') [service_port ''keycloak'' 8080] p'"
    unfolding component_up_def rest(1) by (simp add: env_object_def env)
  show "prov_Env p' = prov_Env p" using rest(2) env make_component_frame [OF comp] by simp
qed

lemma mbop_up:
  assumes "makers_laws (lw_Makers d)" and cache: "local_web_cache d recorded" and run: "configureMBOP d p = Some (p', Inr u)"
  shows "component_up recorded WebBOPDeployment WebBOPService (env_nn (prov_Env p) ''mbop'') [service_port ''mbop'' 8090, service_port ''auth'' 8080] p'"
proof -
  note lw = local_web_cacheD [OF cache]
  from run obtain p1 p2 where comp: "make_component (lw_Comp d) [WebBOPDeployment, WebBOPService] env_object ''mbop'' (makeBOP (lw_Makers d)) False p = Some (p1, Inr ())"
    and sec: "makeMBOPSecret d p1 = Some (p2, Inr ())" and ing: "makeBOPIngress d p2 = Some (p', Inr ())"
    unfolding configureMBOP_def and_next_ok by auto
  from sidecar_secret_up [OF assms(1) cache sec [unfolded makeMBOPSecret_def] make_component_up [OF mbop.component_maker_axioms assms(1) lw(1) comp]]
  show ?thesis unfolding component_up_def silentD(1) [OF ingresses_silent(2) [OF lw(6)] ing] by (simp add: env_object_def)
qed

lemma mbop_keeps:
  assumes "local_web_cache d recorded"
  shows "touches_only recorded {WebBOPDeployment, WebBOPService} (configureMBOP d)"
proof -
  have "touches_only recorded {WebBOPDeployment, WebBOPService} (makeMBOPSecret d)"
    using sidecar_secret_keeps [OF assms] unfolding makeMBOPSecret_def touches_only_def by blast
  moreover have "touches_only recorded {WebBOPDeployment, WebBOPService} (make_component (lw_Comp d) [WebBOPDeployment, WebBOPService] env_object ''mbop'' (makeBOP (lw_Makers d)) False)"
    by (rule make_component_keeps [OF mbop.component_maker_axioms local_web_cacheD(1) [OF assms]]) simp
  ultimately show ?thesis
    unfolding configureMBOP_def by (intro keeping keeps_silent [OF ingresses_silent(2) [OF local_web_cacheD(6) [OF assms]]])
qed

lemma mocktitlements_up:
  assumes "makers_laws (lw_Makers d)" and cache: "local_web_cache d recorded" and run: "configureMocktitlements d p = Some (p', Inr u)"
  shows "component_up recorded WebMocktitlementsDeployment WebMocktitlementsService (env_nn (prov_Env p) ''mocktitlements'')
    [service_port ''mocktitlements'' 8090, service_port ''auth'' 8080] p'"
proof -
  note lw = local_web_cacheD [OF cache]
  from run obtain p1 p2 where comp: "make_component (lw_Comp d) [WebMocktitlementsDeployment, WebMocktitlementsService] env_object ''mocktitlements'' (makeMocktitlements (lw_Makers d)) False p = Some (p1, Inr ())"
    and sec: "makeMocktitlementsSecret d p1 = Some (p2, Inr ())" and ing: "makeMocktitlementsIngress d p2 = Some (p', Inr ())"
    unfolding configureMocktitlements_def and_next_ok by auto
  from sidecar_secret_up [OF assms(1) cache sec [unfolded makeMocktitlementsSecret_def] make_component_up [OF mocktitlements.component_maker_axioms assms(1) lw(1) comp]]
  show ?thesis unfolding component_up_def silentD(1) [OF ingresses_silent(3) [OF lw(7)] ing] by (simp add: env_object_def)
qed

lemma mocktitlements_keeps:
  assumes "local_web_cache d recorded"
  shows "touches_only recorded {WebMocktitlementsDeployment, WebMocktitlementsService} (configureMocktitlements d)"
proof -
  let ?I = "{WebMocktitlementsDeployment, WebMocktitlementsService}"
  have "touches_only recorded ?I (makeMocktitlementsSecret d)"
    using sidecar_secret_keeps [OF assms] unfolding makeMocktitlementsSecret_def touches_only_def by blast
  moreover have "touches_only recorded ?I (make_component (lw_Comp d) [WebMocktitlementsDeployment, WebMocktitlementsService] env_object ''mocktitlements'' (makeMocktitlements (lw_Makers d)) False)"
    by (rule make_component_keeps [OF mocktitlements.component_maker_axioms local_web_cacheD(1) [OF assms]]) simp
  ultimately show ?thesis
    unfolding configureMocktitlements_def by (intro keeping keeps_silent [OF ingresses_silent(3) [OF local_web_cacheD(7) [OF assms]]])
qed

lemma finished_gateway:
  assumes laws: "makers_laws M" and "finish_gateway M env hash dd = Some dd'"
  shows "kd_NN dd' = kd_NN dd" "served dd s \<Longrightarrow> served dd' s"
proof -
  from assms(2) obtain c cs x where c: "pt_Containers (kd_Template dd) = c # cs"
    and dd': "dd' = annotate_pods M (config_hash_annotation hash) x" and x: "kd_ObjectMeta x = kd_ObjectMeta dd" "kd_Selector x = kd_Selector dd"
      "pt_Labels (kd_Template x) = pt_Labels (kd_Template dd)" "pt_Annotations (kd_Template x) = pt_Annotations (kd_Template dd)"
      "map ct_Ports (pt_Containers (kd_Template x)) = map ct_Ports (pt_Containers (kd_Template dd))"
    unfolding finish_gateway_def Let_def by (auto split: list.splits)
  have ports: "concat (map (\<lambda>c. map cp_ContainerPort (ct_Ports c)) cts) = map cp_ContainerPort (concat (map ct_Ports cts))" for cts :: "Container list"
    by (induction cts) auto
  show "kd_NN dd' = kd_NN dd" using x(1) dd' annotate_pods_kept(2) [OF laws] by simp
  assume "served dd s"
  then have "served x s" unfolding served_def pod_ports_def ports x .
  then show "served dd' s" unfolding dd' by (rule annotated_served [OF laws]) (simp add: config_hash_annotation_def)
qed

lemma gateway_pieces_silent [silents]:
  assumes "local_web_cache d recorded"
  shows "silent recorded (makeWebGatewayConfigMap d)" "silent recorded (makeWebGatewayCertificateIssuer d)" "silent recorded (makeWebGatewayCertificate d)"
proof -
  have "silent recorded (apps_in_env (lw_Prov d))" by (simp add: silent_def apps_in_env_def)
  then show "silent recorded (makeWebGatewayConfigMap d)" "silent recorded (makeWebGatewayCertificateIssuer d)" "silent recorded (makeWebGatewayCertificate d)"
    unfolding makeWebGatewayConfigMap_def makeWebGatewayCertificateIssuer_def makeWebGatewayCertificate_def Let_def
    by (intro silents local_web_cacheD [OF assms]; assumption?)+
qed

lemma gateway_keeps:
  assumes "local_web_cache d recorded"
  shows "touches_only recorded {WebGatewayDeployment, WebGatewayService} (configureWebGateway d)"
  unfolding configureWebGateway_def
  by (intro keeping make_component_keeps [OF gateway.component_maker_axioms] local_web_cacheD(1) [OF assms] insertI1;
      (intro keeps_silent silents local_web_cacheD(8) [OF assms] assms)?) simp

lemma gateway_up:
  assumes laws: "makers_laws (lw_Makers d)" and cache: "local_web_cache d recorded" and run: "configureWebGateway d p = Some (p', Inr u)"
    and "gc_Enabled (web_GatewayCert (env_Web (prov_Env p)))"
  shows "component_up recorded WebGatewayDeployment WebGatewayService (env_nn (prov_Env p) ''caddy-gateway'') [gateway_port] p'"
proof -
  note lw = local_web_cacheD [OF cache]
  from run assms(4) obtain hash dd dd' p1 p2 p3 p4 p5 p6 where s: "makeWebGatewayIngress d p = Some (p1, Inr ())" "makeWebGatewayConfigMap d p1 = Some (p2, Inr hash)"
      "makeWebGatewayCertificateIssuer d p2 = Some (p3, Inr ())" "makeWebGatewayCertificate d p3 = Some (p4, Inr ())"
    and comp: "make_component (lw_Comp d) [WebGatewayDeployment, WebGatewayService] env_object ''caddy-gateway'' (makeWebGatewayDeployment (lw_Makers d)) False p4 = Some (p5, Inr ())"
    and get: "get_deployment d WebGatewayDeployment None p5 = Some (p6, Inr dd)" and dd': "finish_gateway (lw_Makers d) (prov_Env p) hash dd = Some dd'"
    and put: "put_deployment d WebGatewayDeployment dd' p6 = Some (p', Inr u)"
    unfolding configureWebGateway_def and_next_reads by (auto simp: and_next_ok or_panic_ok)
  have env: "prov_Env p4 = prov_Env p"
    using silentD(2) [OF ingresses_silent(4) [OF lw(8)] s(1)] silentD(2) [OF gateway_pieces_silent(1) [OF cache] s(2)] silentD(2) [OF gateway_pieces_silent(2) [OF cache] s(3)]
      silentD(2) [OF gateway_pieces_silent(3) [OF cache] s(4)] by simp
  from make_component_up [OF gateway.component_maker_axioms laws lw(1) comp]
  have "component_up recorded WebGatewayDeployment WebGatewayService (env_nn (prov_Env p) ''caddy-gateway'') [gateway_port] p5" by (simp add: env_object_def env)
  from rewritten_component_up [OF cache get put finished_gateway [OF laws dd'] this] show ?thesis by simp
qed

text \<open>Whole components: the deployment and the service are recorded under a name, they fit, and the service has the named ports.\<close>

definition reachable ::
  "('w \<times> 'c \<Rightarrow> 'i \<Rightarrow> NamespacedName \<rightharpoonup> comp_obj) \<Rightarrow> ('w, 'c) Provider \<Rightarrow> 'i \<Rightarrow> 'i \<Rightarrow> NamespacedName \<Rightarrow> (string \<times> int) list \<Rightarrow> bool" where
  "reachable recorded p dep svc nn ports = (\<exists>dd s. prov_recorded recorded p dep nn = Some (DeploymentObj dd) \<and> prov_recorded recorded p svc nn = Some (ServiceObj s)
     \<and> served dd s \<and> map (\<lambda>q. (sp_Name q, sp_Port q)) (svc_Ports s) = ports)"

lemma reachable_up: "component_up recorded dep svc nn ports p \<Longrightarrow> reachable recorded p dep svc nn (map (\<lambda>q. (sp_Name q, sp_Port q)) ports)"
  unfolding component_up_def reachable_def by blast

lemma local_components_up:
  assumes laws: "makers_laws (lw_Makers d)" and cache: "local_web_cache d recorded" and run: "localweb_EnvProvide d p = Some (p', Inr ())" and "env = prov_Env p'"
  shows "component_up recorded WebKeycloakDeployment WebKeycloakService (env_nn env ''keycloak'') [service_port ''keycloak'' 8080] p'"
    "component_up recorded WebBOPDeployment WebBOPService (env_nn env ''mbop'') [service_port ''mbop'' 8090, service_port ''auth'' 8080] p'"
    "component_up recorded WebMocktitlementsDeployment WebMocktitlementsService (env_nn env ''mocktitlements'') [service_port ''mocktitlements'' 8090, service_port ''auth'' 8080] p'"
    "gc_Enabled (web_GatewayCert (env_Web env)) \<Longrightarrow> component_up recorded WebGatewayDeployment WebGatewayService (env_nn env ''caddy-gateway'') [gateway_port] p'"
proof -
  from run obtain p2 p3 p4 p5 where k: "configureKeycloak d p2 = Some (p3, Inr ())" and b: "configureMBOP d p3 = Some (p4, Inr ())"
    and m: "configureMocktitlements d p4 = Some (p5, Inr ())" and g: "configureWebGateway d p5 = Some (p', Inr ())"
    unfolding localweb_EnvProvide_def and_next_ok by auto
  note kb = mbop_keeps [OF cache] and km = mocktitlements_keeps [OF cache] and kg = gateway_keeps [OF cache]
  have env: "prov_Env p2 = env" "prov_Env p3 = env" "prov_Env p4 = env" "prov_Env p5 = env"
    using touches_onlyD(1) [OF kb b] touches_onlyD(1) [OF km m] touches_onlyD(1) [OF kg g] keycloak_up(2) [OF laws cache k] assms(4) by simp_all
  from component_stays_up [OF kg g _ _ component_stays_up [OF km m _ _ component_stays_up [OF kb b _ _ keycloak_up(1) [OF laws cache k]]]]
  show "component_up recorded WebKeycloakDeployment WebKeycloakService (env_nn env ''keycloak'') [service_port ''keycloak'' 8080] p'" unfolding env by simp
  from component_stays_up [OF kg g _ _ component_stays_up [OF km m _ _ mbop_up [OF laws cache b]]]
  show "component_up recorded WebBOPDeployment WebBOPService (env_nn env ''mbop'') [service_port ''mbop'' 8090, service_port ''auth'' 8080] p'" unfolding env by simp
  from component_stays_up [OF kg g _ _ mocktitlements_up [OF laws cache m]]
  show "component_up recorded WebMocktitlementsDeployment WebMocktitlementsService (env_nn env ''mocktitlements'') [service_port ''mocktitlements'' 8090, service_port ''auth'' 8080] p'"
    unfolding env by simp
  show "component_up recorded WebGatewayDeployment WebGatewayService (env_nn env ''caddy-gateway'') [gateway_port] p'" if "gc_Enabled (web_GatewayCert (env_Web env))"
    using gateway_up [OF laws cache g] that unfolding env .
qed

section \<open>The ingresses of an environment\<close>

abbreviation ing_NN :: "KIngress \<Rightarrow> NamespacedName" where
  "ing_NN i \<equiv> NN (om_Name (ing_ObjectMeta i)) (om_Namespace (ing_ObjectMeta i))"

text \<open>The identifiers of the ingresses, what the cache promises for them, and that the other kinds leave them alone.\<close>

datatype web_ingress = AuthIngress | BOPIngress | MocktitlementsIngress | GatewayIngress

fun ingress_resource :: "('w, 'c) LocalWebDeps \<Rightarrow> web_ingress \<Rightarrow> ('w \<times> 'c, KIngress) Resource" where
  "ingress_resource d AuthIngress = lw_KeycloakIngress d"
| "ingress_resource d BOPIngress = lw_BOPIngress d"
| "ingress_resource d MocktitlementsIngress = lw_MocktitlementsIngress d"
| "ingress_resource d GatewayIngress = lw_GatewayIngress d"

definition web_ingress_cache :: "('w, 'c) LocalWebDeps \<Rightarrow> ('w \<times> 'c \<Rightarrow> web_ingress \<Rightarrow> NamespacedName \<rightharpoonup> KIngress) \<Rightarrow> bool" where
  "web_ingress_cache d ings = ((\<forall>k. object_cache (ingress_resource d k) ing_NN (\<lambda>s. ings s k)) \<and> (\<forall>j k. j \<noteq> k \<longrightarrow> leaves_alone (ingress_resource d j) (\<lambda>s. ings s k))
     \<and> components_leave (lw_Comp d) ings \<and> leaves_alone (lw_Secret d) ings \<and> leaves_alone (lw_Issuer d) ings \<and> leaves_alone (lw_Certificate d) ings
     \<and> leaves_alone (wk_CaddyConfigMap (lw_Kinds d)) ings)"

lemma web_ingress_cacheD:
  assumes "web_ingress_cache d ings"
  shows "object_cache (ingress_resource d k) ing_NN (\<lambda>s. ings s k)" "j \<noteq> k \<Longrightarrow> leaves_alone (ingress_resource d j) (\<lambda>s. ings s k)" "components_leave (lw_Comp d) ings"
    "leaves_alone (lw_Secret d) ings" "leaves_alone (lw_Issuer d) ings" "leaves_alone (lw_Certificate d) ings" "leaves_alone (wk_CaddyConfigMap (lw_Kinds d)) ings"
  using assms unfolding web_ingress_cache_def by blast+

lemma put_deployment_silent [silents]: "components_leave (lw_Comp d) recorded \<Longrightarrow> silent recorded (put_deployment d i dd)"
proof -
  assume "components_leave (lw_Comp d) recorded"
  then have "cmp_Update (lw_Comp d) i (DeploymentObj dd) s = (s', e) \<Longrightarrow> recorded s' = recorded s" for s s' e unfolding components_leave_def by (metis fst_conv)
  then show ?thesis unfolding put_deployment_def by (intro silent_cached) (simp split: prod.splits option.splits)
qed

lemma writes_ingress [keeping]:
  assumes "web_ingress_cache d ings"
  shows "touches_only ings {k} (with_resource (ingress_resource d k) nn f)"
proof -
  have "prov_recorded (\<lambda>s. ings s i) p' = prov_recorded (\<lambda>s. ings s i) p" if "with_resource (ingress_resource d k) nn f p = Some (p', Inr u)" "i \<noteq> k" for i p p' u
    using with_resource_alone [OF web_ingress_cacheD(2) [OF assms] that(1)] that(2) by metis
  then show ?thesis unfolding touches_only_def using with_resource_env by blast
qed

lemma sidecar_secret_silent [silents]:
  assumes "web_ingress_cache d ings"
  shows "silent ings (sidecar_secret d i name dpl bop)"
  unfolding sidecar_secret_def Let_def by (intro silents web_ingress_cacheD [OF assms])

lemma keeps_reads [keeping]: "touches_only recorded I (reads f)"
  by (intro keeps_silent silents)

text \<open>What is done for the gateway once its ingress is written.\<close>

definition gateway_rest :: "('w, 'c) LocalWebDeps \<Rightarrow> ClowdEnvironment \<Rightarrow> (('w, 'c) Provider, unit) op" where
  "gateway_rest d env =
     and_next (makeWebGatewayConfigMap d) (\<lambda>hash.
     and_next (makeWebGatewayCertificateIssuer d) (\<lambda>_.
     and_next (makeWebGatewayCertificate d) (\<lambda>_.
     and_next (make_component (lw_Comp d) [WebGatewayDeployment, WebGatewayService] env_object ''caddy-gateway'' (makeWebGatewayDeployment (lw_Makers d)) False) (\<lambda>_.
     and_next (get_deployment d WebGatewayDeployment None) (\<lambda>dd.
     and_next (or_panic (finish_gateway (lw_Makers d) env hash dd)) (\<lambda>dd'.
       put_deployment d WebGatewayDeployment dd'))))))"

lemma gateway_rest_silent:
  assumes "web_ingress_cache d ings"
  shows "silent ings (gateway_rest d env)"
proof -
  note laws = web_ingress_cacheD(3-7) [OF assms]
  have apps: "silent ings (apps_in_env (lw_Prov d))" by (simp add: silent_def apps_in_env_def)
  show ?thesis
    unfolding gateway_rest_def makeWebGatewayConfigMap_def makeWebGatewayCertificateIssuer_def makeWebGatewayCertificate_def Let_def by (intro silents laws apps)
qed

lemma makers_touch_ingress:
  assumes "web_ingress_cache d ings"
  shows "touches_only ings {BOPIngress} (configureMBOP d)" "touches_only ings {MocktitlementsIngress} (configureMocktitlements d)" "touches_only ings {GatewayIngress} (configureWebGateway d)"
proof -
  note quiet = keeps_silent [OF make_component_silent [OF web_ingress_cacheD(3) [OF assms]]] keeps_silent [OF sidecar_secret_silent [OF assms]] keeps_silent [OF gateway_rest_silent [OF assms]]
  show "touches_only ings {BOPIngress} (configureMBOP d)"
    unfolding configureMBOP_def makeMBOPSecret_def makeBOPIngress_def by (intro keeps_and_next quiet keeps_reads writes_ingress [OF assms, of BOPIngress, simplified])
  show "touches_only ings {MocktitlementsIngress} (configureMocktitlements d)"
    unfolding configureMocktitlements_def makeMocktitlementsSecret_def makeMocktitlementsIngress_def
    by (intro keeps_and_next quiet keeps_reads writes_ingress [OF assms, of MocktitlementsIngress, simplified])
  show "touches_only ings {GatewayIngress} (configureWebGateway d)"
    unfolding configureWebGateway_def gateway_rest_def [symmetric] makeWebGatewayIngress_def
    by (intro keeps_and_next keeps_if quiet keeps_reads writes_ingress [OF assms, of GatewayIngress, simplified] keeps_silent [OF silent_simple(1)])
qed

text \<open>The hosts: the suffix goes behind the first label of the name of the host.\<close>

abbreviation first_label :: "string \<Rightarrow> string" where "first_label \<equiv> takeWhile (\<lambda>c. c \<noteq> CHR ''.'')"
abbreviation domain_part :: "string \<Rightarrow> string" where "domain_part \<equiv> dropWhile (\<lambda>c. c \<noteq> CHR ''.'')"

lemma host_with_split: "split_on CHR ''.'' hostname = h # hs \<Longrightarrow> host_with sfx hostname = h @ sfx @ concat (map ((#) CHR ''.'') hs)"
proof -
  have "join ''.'' (x # xs) = x @ concat (map ((#) CHR ''.'') xs)" for x xs by (induction xs arbitrary: x) auto
  then show "split_on CHR ''.'' hostname = h # hs \<Longrightarrow> ?thesis" by (simp add: host_with_def)
qed

lemma host_with_first: "host_with sfx hostname = first_label hostname @ sfx @ domain_part hostname"
proof -
  obtain h hs where split: "split_on CHR ''.'' hostname = h # hs" by (meson list.exhaust split_on_ne)
  have "host_with '''' hostname = hostname"
    using join_split_on [of "CHR ''.''" hostname] split by (simp add: host_with_def)
  then have host: "hostname = h @ concat (map ((#) CHR ''.'') hs)" using host_with_split [OF split, of "''''"] by simp
  have "CHR ''.'' \<notin> set h" using split by (induction hostname arbitrary: h hs) (auto split: if_splits list.splits)
  then have h: "c \<noteq> CHR ''.''" if "c \<in> set h" for c using that by auto
  have rest: "first_label (concat (map ((#) CHR ''.'') hs)) = []" "domain_part (concat (map ((#) CHR ''.'') hs)) = concat (map ((#) CHR ''.'') hs)" by (cases hs; simp)+
  have "first_label hostname = h" "domain_part hostname = concat (map ((#) CHR ''.'') hs)" unfolding host by (simp_all add: h rest takeWhile_append2 dropWhile_append2)
  then show ?thesis unfolding host_with_split [OF split] by simp
qed

text \<open>The ingresses that are recorded at the end, each with what it routes.\<close>

definition ingress_at :: "('w \<times> 'c \<Rightarrow> web_ingress \<Rightarrow> NamespacedName \<rightharpoonup> KIngress) \<Rightarrow> ('w, 'c) Provider \<Rightarrow> web_ingress \<Rightarrow> NamespacedName \<Rightarrow> string
    \<Rightarrow> (string \<times> string \<times> string \<times> string \<times> string) list \<Rightarrow> bool" where
  "ingress_at ings p k nn class routes = (\<exists>ing. prov_recorded ings p k nn = Some ing \<and> ing_IngressClassName ing = Some class \<and> ingress_routes ing = routes)"

lemma ingress_stays: "touches_only ings I m \<Longrightarrow> m p = Some (p', Inr a) \<Longrightarrow> k \<notin> I \<Longrightarrow> ingress_at ings p k nn class routes \<Longrightarrow> ingress_at ings p' k nn class routes"
  unfolding ingress_at_def using touches_onlyD(2) by metis

lemma ingress_written:
  assumes "web_ingress_cache d ings" and "with_resource (ingress_resource d k) nn' f p = Some (p', Inr u)"
    and "\<And>ing. ing_NN (f ing) = nn \<and> ing_IngressClassName (f ing) = Some class \<and> ingress_routes (f ing) = routes"
  shows "ingress_at ings p' k nn class routes"
  unfolding ingress_at_def using with_resource_records [OF web_ingress_cacheD(1) [OF assms(1)] assms(2), of nn] assms(3) by force

lemma ingresses_written:
  assumes laws: "makers_laws (lw_Makers d)" and cache: "web_ingress_cache d ings" and "env = prov_Env p" "n = env_Name env" "ns = env_Namespace env" "h = env_Hostname env" "class = ingress_class env"
  shows "makeAuthIngress d p = Some (p', Inr ()) \<Longrightarrow> ingress_at ings p' AuthIngress (NN (n @ ''-auth'') ns) class
      [(first_label h @ ''-auth'' @ domain_part h, ''/'', ''Prefix'', n @ ''-keycloak'', ''keycloak''),
       (first_label h @ ''-auth'' @ domain_part h, ''/auth/realms/redhat-external/apis/service_accounts/v1'', ''Prefix'', n @ ''-mocktitlements'', ''auth'')]"
    "makeBOPIngress d p = Some (p', Inr ()) \<Longrightarrow> ingress_at ings p' BOPIngress (NN (n @ ''-mbop'') ns) class
      [(h, ''/v1/registrations'', ''Prefix'', n @ ''-mbop'', ''auth''), (h, ''/v1/check_registration'', ''Prefix'', n @ ''-mbop'', ''auth'')]"
    "makeMocktitlementsIngress d p = Some (p', Inr ()) \<Longrightarrow> ingress_at ings p' MocktitlementsIngress (NN (n @ ''-mocktitlements'') ns) class
      [(h, ''/api/entitlements/'', ''Prefix'', n @ ''-mocktitlements'', ''auth'')]"
    "makeWebGatewayIngress d p = Some (p', Inr ()) \<Longrightarrow> ingress_at ings p' GatewayIngress (NN (n @ ''-caddy-gateway'') ns) class
      [(first_label h @ ''-cert'' @ domain_part h, if class = ''nginx'' then ''/'' else '''', if class = ''nginx'' then ''Prefix'' else ''ImplementationSpecific'', n @ ''-caddy-gateway'', ''gateway'')]"
proof -
  note facts = ingress_routes_def env_ingress_def prefix_path_def labelled_meta [OF laws] Let_def GetNamespacedName_def getAuthHostname_def getCertHostname_def host_with_first assms(3-7)
  note written = ingress_written [OF cache, where k = AuthIngress] ingress_written [OF cache, where k = BOPIngress] ingress_written [OF cache, where k = MocktitlementsIngress]
    ingress_written [OF cache, where k = GatewayIngress]
  show "makeAuthIngress d p = Some (p', Inr ()) \<Longrightarrow> ingress_at ings p' AuthIngress (NN (n @ ''-auth'') ns) class
      [(first_label h @ ''-auth'' @ domain_part h, ''/'', ''Prefix'', n @ ''-keycloak'', ''keycloak''),
       (first_label h @ ''-auth'' @ domain_part h, ''/auth/realms/redhat-external/apis/service_accounts/v1'', ''Prefix'', n @ ''-mocktitlements'', ''auth'')]"
    unfolding makeAuthIngress_def and_next_reads by (erule written(1) [simplified]) (simp add: facts auth_ingress_def)
  show "makeBOPIngress d p = Some (p', Inr ()) \<Longrightarrow> ingress_at ings p' BOPIngress (NN (n @ ''-mbop'') ns) class
      [(h, ''/v1/registrations'', ''Prefix'', n @ ''-mbop'', ''auth''), (h, ''/v1/check_registration'', ''Prefix'', n @ ''-mbop'', ''auth'')]"
    unfolding makeBOPIngress_def and_next_reads by (erule written(2) [simplified]) (simp add: facts bop_ingress_def)
  show "makeMocktitlementsIngress d p = Some (p', Inr ()) \<Longrightarrow> ingress_at ings p' MocktitlementsIngress (NN (n @ ''-mocktitlements'') ns) class
      [(h, ''/api/entitlements/'', ''Prefix'', n @ ''-mocktitlements'', ''auth'')]"
    unfolding makeMocktitlementsIngress_def and_next_reads by (erule written(3) [simplified]) (simp add: facts mocktitlements_ingress_def)
  show "makeWebGatewayIngress d p = Some (p', Inr ()) \<Longrightarrow> ingress_at ings p' GatewayIngress (NN (n @ ''-caddy-gateway'') ns) class
      [(first_label h @ ''-cert'' @ domain_part h, if class = ''nginx'' then ''/'' else '''', if class = ''nginx'' then ''Prefix'' else ''ImplementationSpecific'', n @ ''-caddy-gateway'', ''gateway'')]"
    unfolding makeWebGatewayIngress_def and_next_reads by (erule written(4) [simplified]) (simp add: facts gateway_ingress_def)
qed

lemma local_ingresses:
  assumes laws: "makers_laws (lw_Makers d)" and cache: "local_web_cache d recorded" and ing: "web_ingress_cache d ings" and run: "localweb_EnvProvide d p = Some (p', Inr ())"
    and env: "env = prov_Env p'" "n = env_Name env" "ns = env_Namespace env" "h = env_Hostname env" "class = ingress_class env"
  shows "ingress_at ings p' AuthIngress (NN (n @ ''-auth'') ns) class
      [(first_label h @ ''-auth'' @ domain_part h, ''/'', ''Prefix'', n @ ''-keycloak'', ''keycloak''),
       (first_label h @ ''-auth'' @ domain_part h, ''/auth/realms/redhat-external/apis/service_accounts/v1'', ''Prefix'', n @ ''-mocktitlements'', ''auth'')]"
    "ingress_at ings p' BOPIngress (NN (n @ ''-mbop'') ns) class
      [(h, ''/v1/registrations'', ''Prefix'', n @ ''-mbop'', ''auth''), (h, ''/v1/check_registration'', ''Prefix'', n @ ''-mbop'', ''auth'')]"
    "ingress_at ings p' MocktitlementsIngress (NN (n @ ''-mocktitlements'') ns) class [(h, ''/api/entitlements/'', ''Prefix'', n @ ''-mocktitlements'', ''auth'')]"
    "gc_Enabled (web_GatewayCert (env_Web env)) \<Longrightarrow> ingress_at ings p' GatewayIngress (NN (n @ ''-caddy-gateway'') ns) class
      [(first_label h @ ''-cert'' @ domain_part h, if class = ''nginx'' then ''/'' else '''', if class = ''nginx'' then ''Prefix'' else ''ImplementationSpecific'', n @ ''-caddy-gateway'', ''gateway'')]"
proof -
  from run obtain p2 p3 p4 p5 where k: "configureKeycloak d p2 = Some (p3, Inr ())" and b: "configureMBOP d p3 = Some (p4, Inr ())"
    and m: "configureMocktitlements d p4 = Some (p5, Inr ())" and g: "configureWebGateway d p5 = Some (p', Inr ())"
    unfolding localweb_EnvProvide_def and_next_ok by auto
  note kb = makers_touch_ingress(1) [OF ing] and km = makers_touch_ingress(2) [OF ing] and kg = makers_touch_ingress(3) [OF ing]
  have e: "prov_Env p2 = env" "prov_Env p3 = env" "prov_Env p4 = env" "prov_Env p5 = env"
    using touches_onlyD(1) [OF kb b] touches_onlyD(1) [OF km m] touches_onlyD(1) [OF kg g] keycloak_up(2) [OF laws cache k] env(1) by simp_all
  obtain q where q: "makeAuthIngress d q = Some (p3, Inr ())" using k unfolding configureKeycloak_def and_next_ok by blast
  then have "prov_Env q = env" using e(2) by (auto simp: makeAuthIngress_def dest: with_resource_env)
  from ingresses_written(1) [OF laws ing this [symmetric] env(2-5) q] ingress_stays [OF kg g _ ingress_stays [OF km m _ ingress_stays [OF kb b]]]
  show "ingress_at ings p' AuthIngress (NN (n @ ''-auth'') ns) class
      [(first_label h @ ''-auth'' @ domain_part h, ''/'', ''Prefix'', n @ ''-keycloak'', ''keycloak''),
       (first_label h @ ''-auth'' @ domain_part h, ''/auth/realms/redhat-external/apis/service_accounts/v1'', ''Prefix'', n @ ''-mocktitlements'', ''auth'')]" by simp
  obtain q where q: "makeBOPIngress d q = Some (p4, Inr ())" using b unfolding configureMBOP_def and_next_ok by blast
  then have "prov_Env q = env" using e(3) by (auto simp: makeBOPIngress_def dest: with_resource_env)
  from ingresses_written(2) [OF laws ing this [symmetric] env(2-5) q] ingress_stays [OF kg g _ ingress_stays [OF km m]]
  show "ingress_at ings p' BOPIngress (NN (n @ ''-mbop'') ns) class
      [(h, ''/v1/registrations'', ''Prefix'', n @ ''-mbop'', ''auth''), (h, ''/v1/check_registration'', ''Prefix'', n @ ''-mbop'', ''auth'')]" by simp
  obtain q where q: "makeMocktitlementsIngress d q = Some (p5, Inr ())" using m unfolding configureMocktitlements_def and_next_ok by blast
  then have "prov_Env q = env" using e(4) by (auto simp: makeMocktitlementsIngress_def dest: with_resource_env)
  from ingresses_written(3) [OF laws ing this [symmetric] env(2-5) q] ingress_stays [OF kg g]
  show "ingress_at ings p' MocktitlementsIngress (NN (n @ ''-mocktitlements'') ns) class [(h, ''/api/entitlements/'', ''Prefix'', n @ ''-mocktitlements'', ''auth'')]" by simp
  assume "gc_Enabled (web_GatewayCert (env_Web env))"
  with g e(4) obtain p6 where w: "makeWebGatewayIngress d p5 = Some (p6, Inr ())" and r: "gateway_rest d env p6 = Some (p', Inr ())"
    unfolding configureWebGateway_def gateway_rest_def and_next_reads by (auto simp: and_next_ok)
  from ingresses_written(4) [OF laws ing e(4) [symmetric] env(2-5) w] silentD(1) [OF gateway_rest_silent [OF ing] r]
  show "ingress_at ings p' GatewayIngress (NN (n @ ''-caddy-gateway'') ns) class
      [(first_label h @ ''-cert'' @ domain_part h, if class = ''nginx'' then ''/'' else '''', if class = ''nginx'' then ''Prefix'' else ''ImplementationSpecific'', n @ ''-caddy-gateway'', ''gateway'')]"
    unfolding ingress_at_def by simp
qed

text \<open>
  C24. After a successful run for an environment in the local mode Keycloak and the two mocked services are recorded, each with a service that selects its pods and whose ports they listen on, the
  authentication sidecars included; with the certificate enabled so is the gateway. Later steps of the run rewrite some of the deployments and keep this. The ingresses are recorded too, in the class of the
  environment: the one for authentication routes the root of its host to Keycloak and the path of the service accounts to the sidecar of mocktitlements; the registrations and their checks go to the sidecar of
  mbop, the entitlements to the one of mocktitlements, and with the certificate enabled everything on the host for certificates to the gateway; and none routes anything else.
\<close>

theorem local_web_reachable:
  assumes laws: "makers_laws (lw_Makers d)" and cache: "local_web_cache d recorded" "web_ingress_cache d ings" and run: "localweb_EnvProvide d p = Some (p', Inr ())"
    and env: "env = prov_Env p'" "n = env_Name env" "ns = env_Namespace env" "h = env_Hostname env" and cls: "class = (if web_IngressClass (env_Web env) = '''' then ''nginx'' else web_IngressClass (env_Web env))"
  shows "reachable recorded p' WebKeycloakDeployment WebKeycloakService (NN (n @ ''-keycloak'') ns) [(''keycloak'', 8080)]
    \<and> reachable recorded p' WebBOPDeployment WebBOPService (NN (n @ ''-mbop'') ns) [(''mbop'', 8090), (''auth'', 8080)]
    \<and> reachable recorded p' WebMocktitlementsDeployment WebMocktitlementsService (NN (n @ ''-mocktitlements'') ns) [(''mocktitlements'', 8090), (''auth'', 8080)]
    \<and> ingress_at ings p' AuthIngress (NN (n @ ''-auth'') ns) class
        [(first_label h @ ''-auth'' @ domain_part h, ''/'', ''Prefix'', n @ ''-keycloak'', ''keycloak''),
         (first_label h @ ''-auth'' @ domain_part h, ''/auth/realms/redhat-external/apis/service_accounts/v1'', ''Prefix'', n @ ''-mocktitlements'', ''auth'')]
    \<and> ingress_at ings p' BOPIngress (NN (n @ ''-mbop'') ns) class
        [(h, ''/v1/registrations'', ''Prefix'', n @ ''-mbop'', ''auth''), (h, ''/v1/check_registration'', ''Prefix'', n @ ''-mbop'', ''auth'')]
    \<and> ingress_at ings p' MocktitlementsIngress (NN (n @ ''-mocktitlements'') ns) class [(h, ''/api/entitlements/'', ''Prefix'', n @ ''-mocktitlements'', ''auth'')]
    \<and> (gc_Enabled (web_GatewayCert (env_Web env)) \<longrightarrow> reachable recorded p' WebGatewayDeployment WebGatewayService (NN (n @ ''-caddy-gateway'') ns) [(''gateway'', 9090)]
        \<and> ingress_at ings p' GatewayIngress (NN (n @ ''-caddy-gateway'') ns) class
          [(first_label h @ ''-cert'' @ domain_part h, if class = ''nginx'' then ''/'' else '''', if class = ''nginx'' then ''Prefix'' else ''ImplementationSpecific'', n @ ''-caddy-gateway'', ''gateway'')])"
proof -
  have "class = ingress_class env" by (simp add: cls ingress_class_def)
  note ings = local_ingresses [OF laws cache run env this]
  note up = local_components_up [OF laws cache(1) run env(1), THEN reachable_up]
  have nn: "env_nn env sfx = NN (n @ ''-'' @ sfx) ns" for sfx by (simp add: GetNamespacedName_def env(2,3))
  from up ings show ?thesis unfolding nn by (simp add: service_port_def gateway_port_def)
qed

section \<open>The ingress of a deployment\<close>

definition ingress_cache :: "('w, 'c) LocalWebDeps \<Rightarrow> ('w \<times> 'c \<Rightarrow> NamespacedName \<rightharpoonup> KIngress) \<Rightarrow> ('w \<times> 'c \<Rightarrow> NamespacedName \<rightharpoonup> KService) \<Rightarrow> bool" where
  "ingress_cache d ingresses services = (object_cache (lw_Ingress d) ing_NN ingresses \<and> leaves_alone (lw_Ingress d) services \<and> leaves_alone (lw_Secret d) services
     \<and> leaves_alone (lw_Secret d) ingresses \<and> leaves_alone (wk_Deployment (lw_Kinds d)) ingresses)"

lemma deployment_secret_silent:
  assumes "leaves_alone (lw_Secret d) recorded" and "leaves_alone (wk_Deployment (lw_Kinds d)) recorded"
  shows "silent recorded (deployment_secret d app dep)"
proof -
  have "silent recorded (cache_Get r nn)" for r :: "('a \<times> 'b, KDeployment) Resource" and nn
    by (auto simp: silent_def cache_Get_def cached_def split: option.splits)
  then show ?thesis unfolding deployment_secret_def Let_def by (intro silents assms)
qed

text \<open>
  C25. In the local mode a deployment with a public service gets a service with a port for authentication, on the number the environment gives or 8080, and an ingress under the same name, with TLS and in the
  class of the environment. The ingress routes the API paths of the deployment on the host of the environment, each to that port of that service, and nothing else; the paths are those of the specification, or the
  one made of the API path or the name of the deployment when there are none.
\<close>

theorem deployment_ingress_routed:
  assumes laws: "makers_laws (lw_Makers d)" and caches: "web_cache (lw_Kinds d) services deployments" "ingress_cache d ingresses services"
    and web: "dep_Web dep \<or> pub_Enabled (ws_Public (dep_WebServices dep))" and mode: "web_Mode (env_Web env) = ''local''" and run: "localweb_step d app dep p = Some (p', Inr ())"
    and env: "env = prov_Env p" and name: "name = app_Name app @ ''-'' @ dep_Name dep" and nn': "nn = NN name (app_Namespace app)"
  shows "\<exists>s ing. prov_recorded services p' nn = Some s \<and> prov_recorded ingresses p' nn = Some ing
    \<and> (\<exists>q \<in> set (svc_Ports s). sp_Name q = ''auth'' \<and> sp_Port q = (if web_AuthPort (env_Web env) = 0 then 8080 else web_AuthPort (env_Web env)) \<and> sp_TargetPort q = sp_Port q)
    \<and> ing_TLS ing = [[]] \<and> ing_IngressClassName ing = Some (if web_IngressClass (env_Web env) = '''' then ''nginx'' else web_IngressClass (env_Web env))
    \<and> ingress_routes ing = map (\<lambda>path. (env_Hostname env, path, ''Prefix'', name, ''auth''))
         (case pub_APIPaths (ws_Public (dep_WebServices dep)) of
            Some paths \<Rightarrow> paths
          | None \<Rightarrow> [''/api/'' @ (if pub_APIPath (ws_Public (dep_WebServices dep)) = '''' then name else pub_APIPath (ws_Public (dep_WebServices dep))) @ ''/''])"
proof -
  have nn: "nn = app_GetDeploymentNamespacedName app dep" and is_web: "is_web dep" using web by (simp_all add: nn' name app_GetDeploymentNamespacedName_def is_web_def)
  from run obtain p1 p2 where ms: "makeService (lw_Web d) (lw_Kinds d) app dep p = Some (p1, Inr ())" and ci: "createIngress d app dep p1 = Some (p2, Inr ())"
    and ds: "deployment_secret d app dep p2 = Some (p', Inr ())" unfolding localweb_step_def and_next_ok by auto
  from caches have laws': "object_cache (lw_Ingress d) ing_NN ingresses" "leaves_alone (lw_Ingress d) services" "leaves_alone (lw_Secret d) services" "leaves_alone (lw_Secret d) ingresses"
    "leaves_alone (wk_Deployment (lw_Kinds d)) ingresses" "leaves_alone (wk_Deployment (lw_Kinds d)) services" unfolding ingress_cache_def web_cache_def by blast+
  obtain s where s: "prov_recorded services p1 nn = Some s" "svc_NN s = nn" "svc_Ports s = web_ports dep (prov_Env p)"
    unfolding nn by (rule makeService_records [OF laws caches(1) ms]) blast
  have wr: "with_resource (lw_Ingress d) nn (app_ingress (lw_Makers d) (prov_Env p1) app dep) p1 = Some (p2, Inr ())"
    using ci is_web unfolding createIngress_def nn by simp
  have "ing_NN (app_ingress (lw_Makers d) (prov_Env p1) app dep ing) = nn" for ing
    using labelled_meta [OF laws] by (simp add: app_ingress_def Let_def nn)
  from with_resource_records [OF laws'(1) wr this] obtain ing where i: "prov_recorded ingresses p2 nn = Some (app_ingress (lw_Makers d) (prov_Env p1) app dep ing)" by fastforce
  have env1: "prov_Env p1 = env"
    using ms makeService_env env by blast
  have "prov_recorded services p' nn = Some s"
    using s(1) with_resource_alone [OF laws'(2) wr] silentD(1) [OF deployment_secret_silent [OF laws'(3,6)] ds] by simp
  moreover have "prov_recorded ingresses p' nn = Some (app_ingress (lw_Makers d) env app dep ing)"
    using i env1 silentD(1) [OF deployment_secret_silent [OF laws'(4,5)] ds] by simp
  moreover have "app_port ''auth'' http (authPort env) (authPort env) \<in> set (svc_Ports s)"
    using is_web mode by (simp add: s(3) env [symmetric] web_ports_def plain_ports_def Let_def)
  then have "\<exists>q \<in> set (svc_Ports s). sp_Name q = ''auth'' \<and> sp_Port q = (if web_AuthPort (env_Web env) = 0 then 8080 else web_AuthPort (env_Web env)) \<and> sp_TargetPort q = sp_Port q"
    by (intro bexI [of _ "app_port ''auth'' http (authPort env) (authPort env)"]) (simp_all add: app_port_def authPort_def)
  moreover have "nn_Name nn = name" by (simp add: nn')
  ultimately show ?thesis
    by (intro exI [of _ s] exI [of _ "app_ingress (lw_Makers d) env app dep ing"])
      (simp add: app_ingress_def Let_def nn [symmetric] ingress_routes_def prefix_path_def comp_def ingress_class_def GetAPIPaths_def split: option.splits)
qed

section \<open>The routes of the gateway\<close>

lemma gateway_apps_all:
  assumes "distinct (map gateway_name apps)"
  shows "set (gateway_apps apps) = set apps"
proof -
  have "map_of (rev (map (\<lambda>a. (gateway_name a, a)) apps)) (gateway_name a) = Some a" if "a \<in> set apps" for a
    using that assms by (intro map_of_is_SomeI) (auto simp: comp_def rev_map [symmetric])
  then show ?thesis by (force simp: gateway_apps_def)
qed

text \<open>
  C26. When no two apps of the environment have the same joined name, the gateway has exactly the two routes for registrations, to port 8090 of the service of mbop, and one route for each deployment with
  a public service of each app, from its API path, or its name without one, to port 8000 of the host named like the service of the deployment, whatever port the environment has its services on. It serves the host for
  certificates, asks mbop, and lets through exactly the whitelisted paths of all deployments.
\<close>

theorem gateway_routes_exact:
  assumes "distinct (map (\<lambda>app. app_Name app @ ''-'' @ app_Namespace app) apps)"
  shows "set (gwc_Routes (gateway_config env apps)) =
      {\<lparr>crr_Group = ''group2'', crr_Path = path, crr_Dial = env_Name env @ ''-mbop.'' @ env_Namespace env @ ''.svc:8090''\<rparr> |path. path \<in> {''/v1/registrations*'', ''/v1/check_registration*''}}
      \<union> {\<lparr>crr_Group = ''group2'',
           crr_Path = ''/api/'' @ (if pub_APIPath (ws_Public (dep_WebServices dep)) = '''' then dep_Name dep else pub_APIPath (ws_Public (dep_WebServices dep))) @ ''/*'',
           crr_Dial = app_Name app @ ''-'' @ dep_Name dep @ ''.'' @ app_Namespace app @ ''.svc:8000''\<rparr>
         |app dep. app \<in> set apps \<and> dep \<in> set (app_Deployments (app_Spec app)) \<and> (dep_Web dep \<or> pub_Enabled (ws_Public (dep_WebServices dep)))}
    \<and> gwc_Host (gateway_config env apps) = first_label (env_Hostname env) @ ''-cert'' @ domain_part (env_Hostname env)
    \<and> gwc_BOP (gateway_config env apps) = ''http://'' @ env_Name env @ ''-mbop.'' @ env_Namespace env @ ''.svc:8090''
    \<and> set (gwc_Whitelist (gateway_config env apps)) = (\<Union>app \<in> set apps. \<Union>dep \<in> set (app_Deployments (app_Spec app)). set (pub_WhitelistPaths (ws_Public (dep_WebServices dep))))"
proof -
  have apps: "set (gateway_apps apps) = set apps" using gateway_apps_all assms by (simp add: gateway_name_def [abs_def])
  have itoa: "itoa 8000 = ''8000''" by (simp add: itoa_def digits.simps char_of_def bit_0)
  have route: "GenerateRoute (app_route app dep) = \<lparr>crr_Group = ''group2'',
      crr_Path = ''/api/'' @ (if pub_APIPath (ws_Public (dep_WebServices dep)) = '''' then dep_Name dep else pub_APIPath (ws_Public (dep_WebServices dep))) @ ''/*'',
      crr_Dial = app_Name app @ ''-'' @ dep_Name dep @ ''.'' @ app_Namespace app @ ''.svc:8000''\<rparr>" for app dep
    by (simp add: GenerateRoute_def app_route_def Let_def app_GetDeploymentNamespacedName_def itoa)
  have routes: "set (concat (map app_routes (gateway_apps apps))) = {app_route app dep |app dep. app \<in> set apps \<and> dep \<in> set (app_Deployments (app_Spec app)) \<and> is_web dep}"
    unfolding set_concat set_map apps by (auto simp: app_routes_def)
  have "set (gwc_Routes (gateway_config env apps)) = GenerateRoute ` ({\<lparr>prx_Upstream = bop_host env, prx_Path = ''/v1/registrations*''\<rparr>, \<lparr>prx_Upstream = bop_host env, prx_Path = ''/v1/check_registration*''\<rparr>}
      \<union> set (concat (map app_routes (gateway_apps apps))))"
    unfolding gateway_config_def GenerateConfig_def by (simp add: image_Un)
  then have "set (gwc_Routes (gateway_config env apps)) =
      {\<lparr>crr_Group = ''group2'', crr_Path = path, crr_Dial = bop_host env\<rparr> |path. path \<in> {''/v1/registrations*'', ''/v1/check_registration*''}}
      \<union> {GenerateRoute (app_route app dep) |app dep. app \<in> set apps \<and> dep \<in> set (app_Deployments (app_Spec app)) \<and> is_web dep}"
    unfolding routes image_Un image_insert image_empty GenerateRoute_def [of "\<lparr>prx_Upstream = u, prx_Path = v\<rparr>" for u v] ProxyRoute.select_convs by blast
  moreover have "set (gwc_Whitelist (gateway_config env apps)) = (\<Union>app \<in> set apps. set (app_whitelist app))"
    unfolding gateway_config_def GenerateConfig_def by (simp add: apps)
  moreover have "gwc_Host (gateway_config env apps) = first_label (env_Hostname env) @ ''-cert'' @ domain_part (env_Hostname env)"
      "gwc_BOP (gateway_config env apps) = ''http://'' @ env_Name env @ ''-mbop.'' @ env_Namespace env @ ''.svc:8090''"
    by (simp_all add: gateway_config_def GenerateConfig_def getCertHostname_def host_with_first bop_host_def)
  ultimately show ?thesis unfolding route bop_host_def is_web_def by (simp add: app_whitelist_def)
qed

text \<open>Two apps whose joined names agree: the first is lost, and the routes of the second are there twice.\<close>

lemma gateway_loses_app:
  assumes "app_Name a = ''x-y''" "app_Namespace a = ''z''" "app_Name b = ''x''" "app_Namespace b = ''y-z''"
  shows "gateway_apps [a, b] = [b, b]"
  using assms by (simp add: gateway_apps_def gateway_name_def)


section \<open>The hosts\<close>

text \<open>The hosts for the apps, for authentication and for the gateway are three different ones in the same domain.\<close>

lemma hosts_differ:
  "getAuthHostname hostname \<noteq> hostname" "getCertHostname hostname \<noteq> hostname" "getAuthHostname hostname \<noteq> getCertHostname hostname"
proof -
  have "length (first_label hostname) + length (domain_part hostname) = length hostname" by (metis length_append takeWhile_dropWhile_id)
  then show "getAuthHostname hostname \<noteq> hostname" "getCertHostname hostname \<noteq> hostname" "getAuthHostname hostname \<noteq> getCertHostname hostname"
    unfolding getAuthHostname_def getCertHostname_def host_with_first by (auto dest!: arg_cong [of _ _ length])
qed

section \<open>Examples\<close>

text \<open>An environment whose cache keeps the components; nothing else fails.\<close>

definition sample_name :: "web_ident \<Rightarrow> NamespacedName" where
  "sample_name i = NN (case i of WebBOPDeployment \<Rightarrow> ''-mbop'' | WebMocktitlementsDeployment \<Rightarrow> ''-mocktitlements'' | _ \<Rightarrow> ''-keycloak'') ''''"

definition sample_get :: "web_ident \<Rightarrow> NamespacedName option \<Rightarrow> unit \<times> web_ident two_caches \<Rightarrow> goerr + KDeployment" where
  "sample_get i nn s = (case fst (snd s) i (sample_name i) of Some (DeploymentObj dd) \<Rightarrow> (if kd_NN dd = sample_name i then Inr dd else Inl (PlainErr ''none'')) | _ \<Rightarrow> Inl (PlainErr ''none''))"

abbreviation web_kind :: "web_ident \<Rightarrow> string" where
  "web_kind i \<equiv> if i \<in> {WebKeycloakDeployment, WebBOPDeployment, WebMocktitlementsDeployment, WebGatewayDeployment} then ''Deployment'' else ''Service''"

definition quiet_kinds :: "('w \<times> 'c) WebKinds" where
  "quiet_kinds = \<lparr>wk_Service = quiet_resource \<lparr>svc_ObjectMeta = ObjectMeta_zero, svc_Selector = Map.empty, svc_Ports = [], svc_Type = '''', svc_SessionAffinity = ''''\<rparr>,
     wk_CaddyConfigMap = quiet_resource \<lparr>cm_ObjectMeta = ObjectMeta_zero, cm_Data = Map.empty\<rparr>, wk_Deployment = quiet_resource KDeployment_zero, wk_CronJob = quiet_resource KCronJob_zero\<rparr>"

text \<open>The ingresses are kept apart by a mark on their names.\<close>

definition marked :: "web_ingress \<Rightarrow> NamespacedName \<Rightarrow> NamespacedName" where
  "marked k nn = NN ((case k of AuthIngress \<Rightarrow> CHR ''a'' | BOPIngress \<Rightarrow> CHR ''b'' | MocktitlementsIngress \<Rightarrow> CHR ''m'' | GatewayIngress \<Rightarrow> CHR ''g'') # nn_Name nn) (nn_Namespace nn)"

lemma marked_eq [simp]: "marked j a = marked k b \<longleftrightarrow> j = k \<and> a = b"
  by (cases a; cases b; cases j; cases k; simp add: marked_def)

definition marked_ingress :: "web_ingress \<Rightarrow> (unit \<times> 'i two_caches, KIngress) Resource" where
  "marked_ingress k = pair_ingress\<lparr>res_Update := (\<lambda>i s. ((fst s, fst (snd s), (snd (snd s))(marked k (ing_NN i) \<mapsto> i)), None))\<rparr>"

lemma marked_ingress_laws:
  "leaves_alone (marked_ingress k) (\<lambda>s. fst (snd s))" "object_cache (marked_ingress k) ing_NN (\<lambda>s nn. snd (snd s) (marked k nn))"
  "j \<noteq> k \<Longrightarrow> leaves_alone (marked_ingress j) (\<lambda>s nn. snd (snd s) (marked k nn))"
  by (auto simp: leaves_alone_def object_cache_def marked_ingress_def pair_ingress_def fun_eq_iff)

definition sample_lw :: "(unit, web_ident two_caches) LocalWebDeps" where
  "sample_lw = \<lparr>lw_Web = sample_web_deps, lw_Kinds = quiet_kinds, lw_Db = sample_local_deps, lw_DbKinds = quiet_db, lw_Comp = pair_comp web_kind, lw_Get = sample_get,
     lw_KeycloakSecret = quiet_resource KSecretObj_zero, lw_ImportSecret = quiet_resource KSecretObj_zero, lw_Secret = quiet_resource KSecretObj_zero,
     lw_KeycloakIngress = marked_ingress AuthIngress, lw_BOPIngress = marked_ingress BOPIngress, lw_MocktitlementsIngress = marked_ingress MocktitlementsIngress,
     lw_GatewayIngress = marked_ingress GatewayIngress,
     lw_Ingress = quiet_resource KIngress_zero, lw_Issuer = quiet_resource \<lparr>iss_ObjectMeta = ObjectMeta_zero, iss_Spec = None\<rparr>,
     lw_Certificate = quiet_resource \<lparr>crt_ObjectMeta = ObjectMeta_zero, crt_Spec = None\<rparr>, lw_RandString = (\<lambda>w. ''rnd''), lw_RandomIdent = (\<lambda>w. ''id''), lw_Password = (\<lambda>w. Inr ''pw''),
     lw_DefaultPassword = (\<lambda>w. Inr ''pw''), lw_ReadFile = (\<lambda>f w. Inr ''{}''), lw_GetIngress = (\<lambda>w nn. Inl (PlainErr ''none'')), lw_UpdateStatus = (\<lambda>e w. (w, None)),
     lw_Encode = (\<lambda>c. ''{}'')\<rparr>"

lemma sample_lw_cache: "local_web_cache sample_lw (\<lambda>s. fst (snd s))"
proof -
  have "sample_get i nn s = Inr dd \<Longrightarrow> fst (snd s) i (kd_NN dd) = Some (DeploymentObj dd)" for i nn s dd
    by (auto simp: sample_get_def split: option.splits comp_obj.splits if_splits)
  then show ?thesis
    by (simp add: local_web_cache_def sample_lw_def pair_comp_laws marked_ingress_laws quiet_resource_alone quiet_kinds_def)
qed

lemma sample_lw_ingresses: "web_ingress_cache sample_lw (\<lambda>s k nn. snd (snd s) (marked k nn))"
proof -
  have "ingress_resource sample_lw k = marked_ingress k" for k by (cases k) (simp_all add: sample_lw_def)
  then show ?thesis unfolding web_ingress_cache_def
    by (simp add: marked_ingress_laws) (simp add: components_leave_def sample_lw_def pair_comp_def quiet_resource_alone quiet_kinds_def)
qed

definition sample_lw_provider :: "(unit, web_ident two_caches) Provider" where
  "sample_lw_provider = sample_pair_provider\<lparr>prov_Env := ClowdEnvironment_zero\<lparr>env_Status := (env_Status ClowdEnvironment_zero)\<lparr>est_Hostname := ''h''\<rparr>\<rparr>\<rparr>"

abbreviation lw_env :: ClowdEnvironment where "lw_env \<equiv> ClowdEnvironment_zero\<lparr>env_Status := (env_Status ClowdEnvironment_zero)\<lparr>est_Hostname := ''h''\<rparr>\<rparr>"

text \<open>Operations that succeed for this environment and keep it.\<close>

abbreviation goes_on :: "(unit, web_ident two_caches) Provider \<Rightarrow> bool" where "goes_on p \<equiv> prov_Env p = lw_env \<and> prov_Cache p \<noteq> None"

lemma sample_component_runs:
  assumes "component_maker mk dep svc sfx ports" and "dep \<noteq> svc" and "web_kind dep = ''Deployment''" and "web_kind svc = ''Service''" and "goes_on p"
    and "\<And>x y u n. \<exists>made. mk sample_makers lw_env (EnvObject lw_env) [(svc, ServiceObj y), (dep, DeploymentObj x)] u n = Some (Inr made)"
  shows "\<exists>p' dd. make_component (pair_comp web_kind) [dep, svc] env_object sfx (mk sample_makers) False p = Some (p', Inr ()) \<and> goes_on p'
    \<and> fst (the (prov_Cache p')) dep (env_nn lw_env sfx) = Some (DeploymentObj dd) \<and> kd_NN dd = env_nn lw_env sfx"
proof -
  obtain x y where xy: "sample_new ''Deployment'' = Inr (DeploymentObj x)" "sample_new ''Service'' = Inr (ServiceObj y)" by (simp add: sample_new_def)
  obtain c where c: "prov_Cache p = Some c" using assms(5) by blast
  obtain made where made: "mk sample_makers lw_env (EnvObject lw_env) [(svc, ServiceObj y), (dep, DeploymentObj x)] False (env_IsNodePort lw_env) = Some (Inr made)" using assms(6) by blast
  have "\<exists>p' c'. make_component (pair_comp web_kind) [dep, svc] env_object sfx (mk sample_makers) False p = Some (p', Inr ()) \<and> prov_Env p' = prov_Env p \<and> prov_Cache p' = Some c'"
    using assms(5) xy assms(3,4) made by (intro pair_comp_runs [OF c _ _ assms(2)]) (simp_all add: env_object_def)
  then obtain p' c' where run: "make_component (pair_comp web_kind) [dep, svc] env_object sfx (mk sample_makers) False p = Some (p', Inr ())" and p': "prov_Env p' = prov_Env p" "prov_Cache p' = Some c'" by blast
  from component_maker.component_deployment [OF assms(1) sample_makers_laws pair_comp_laws run, where Q = "\<lambda>_. True"] assms(5) run p' show ?thesis
    by (auto simp: env_object_def comp_NN_def)
qed

lemma sample_sidecar_runs:
  assumes "goes_on p" and "fst (the (prov_Cache p)) i (sample_name i) = Some (DeploymentObj dd)" and "kd_NN dd = sample_name i"
  shows "\<exists>p'. sidecar_secret sample_lw i name dpl bop p = Some (p', Inr ()) \<and> goes_on p'"
proof -
  obtain c where c: "prov_Cache p = Some c" using assms(1) by blast
  have get: "sample_get i nn (w, c) = Inr dd" for nn w using assms(2,3) c by (simp add: sample_get_def)
  show ?thesis using assms(1) c
    by (simp add: sidecar_secret_def Let_def op_oks get_secret_def data_hash_def get_deployment_def put_deployment_def cache_Create_def cache_Update_def cached_def sample_lw_def quiet_resource_def
        sample_local_deps_def sample_db_deps_def sample_pull_deps_def sample_prov_deps_def get pair_comp_def)
qed

lemma sample_ingress_runs:
  assumes "goes_on p"
  shows "\<exists>p'. makeBOPIngress sample_lw p = Some (p', Inr ()) \<and> goes_on p'" "\<exists>p'. makeMocktitlementsIngress sample_lw p = Some (p', Inr ()) \<and> goes_on p'"
    "\<exists>p'. makeAuthIngress sample_lw p = Some (p', Inr ()) \<and> goes_on p'" "\<exists>p'. makeKeycloakImportSecretRealm sample_lw o' pw p = Some (p', Inr ()) \<and> goes_on p'"
proof -
  obtain c where c: "prov_Cache p = Some c" using assms(1) by blast
  with assms show "\<exists>p'. makeBOPIngress sample_lw p = Some (p', Inr ()) \<and> goes_on p'" "\<exists>p'. makeMocktitlementsIngress sample_lw p = Some (p', Inr ()) \<and> goes_on p'"
    "\<exists>p'. makeAuthIngress sample_lw p = Some (p', Inr ()) \<and> goes_on p'" "\<exists>p'. makeKeycloakImportSecretRealm sample_lw o' pw p = Some (p', Inr ()) \<and> goes_on p'"
    by (simp_all add: makeBOPIngress_def makeMocktitlementsIngress_def makeAuthIngress_def makeKeycloakImportSecretRealm_def Let_def op_oks with_resource_def cache_Create_def cache_Update_def cached_def sample_lw_def quiet_resource_def marked_ingress_def pair_ingress_def)
qed

lemma sample_makers_run:
  "\<exists>made. makeKeycloak sample_makers e (EnvObject env) [(WebKeycloakService, ServiceObj y), (WebKeycloakDeployment, DeploymentObj x)] u n = Some (Inr made)"
  "\<exists>made. makeBOP sample_makers e (EnvObject env) [(WebBOPService, ServiceObj y), (WebBOPDeployment, DeploymentObj x)] u n = Some (Inr made)"
  "\<exists>made. makeMocktitlements sample_makers e (EnvObject env) [(WebMocktitlementsService, ServiceObj y), (WebMocktitlementsDeployment, DeploymentObj x)] u n = Some (Inr made)"
proof -
  have parse: "\<exists>r. requirements (mk_MustParse sample_makers) l q = Some r" for l q by (simp add: requirements_def quantities_def sample_makers_def)
  show "\<exists>made. makeKeycloak sample_makers e (EnvObject env) [(WebKeycloakService, ServiceObj y), (WebKeycloakDeployment, DeploymentObj x)] u n = Some (Inr made)"
    using parse [of "(''1'', ''750Mi'')" "(''100m'', ''400Mi'')"] by (auto simp: makeKeycloak_def Let_def fill_component_def the_deployment_def the_service_def)
  show "\<exists>made. makeBOP sample_makers e (EnvObject env) [(WebBOPService, ServiceObj y), (WebBOPDeployment, DeploymentObj x)] u n = Some (Inr made)"
    "\<exists>made. makeMocktitlements sample_makers e (EnvObject env) [(WebMocktitlementsService, ServiceObj y), (WebMocktitlementsDeployment, DeploymentObj x)] u n = Some (Inr made)"
    using parse [of "(''100m'', ''200Mi'')" "(''50m'', ''100Mi'')"] by (auto simp: makeBOP_def makeMocktitlements_def Let_def fill_component_def the_deployment_def the_service_def)
qed

lemma sample_lw_fields: "lw_Comp sample_lw = pair_comp web_kind" "lw_Makers sample_lw = sample_makers"
  by (simp_all add: sample_lw_def sample_web_deps_def)

lemma sample_lw_names: "env_nn lw_env ''mbop'' = sample_name WebBOPDeployment" "env_nn lw_env ''mocktitlements'' = sample_name WebMocktitlementsDeployment"
  by (simp_all add: GetNamespacedName_def sample_name_def ClowdEnvironment_zero_def ObjectMeta_zero_def)

lemma sample_mocks_run:
  assumes "goes_on p"
  shows "\<exists>p'. configureMBOP sample_lw p = Some (p', Inr ()) \<and> goes_on p'" "\<exists>p'. configureMocktitlements sample_lw p = Some (p', Inr ()) \<and> goes_on p'"
proof -
  obtain p1 dd where c: "make_component (pair_comp web_kind) [WebBOPDeployment, WebBOPService] env_object ''mbop'' (makeBOP sample_makers) False p = Some (p1, Inr ())" and p1: "goes_on p1"
    "fst (the (prov_Cache p1)) WebBOPDeployment (sample_name WebBOPDeployment) = Some (DeploymentObj dd)" "kd_NN dd = sample_name WebBOPDeployment"
    using sample_component_runs [OF mbop.component_maker_axioms _ _ _ assms sample_makers_run(2)] unfolding sample_lw_names by auto
  obtain p2 where s: "makeMBOPSecret sample_lw p1 = Some (p2, Inr ())" "goes_on p2" using sample_sidecar_runs [OF p1] unfolding makeMBOPSecret_def by blast
  obtain p3 where "makeBOPIngress sample_lw p2 = Some (p3, Inr ())" "goes_on p3" using sample_ingress_runs(1) [OF s(2)] by blast
  then show "\<exists>p'. configureMBOP sample_lw p = Some (p', Inr ()) \<and> goes_on p'" using c s(1) unfolding configureMBOP_def and_next_ok sample_lw_fields by blast
next
  obtain p1 dd where c: "make_component (pair_comp web_kind) [WebMocktitlementsDeployment, WebMocktitlementsService] env_object ''mocktitlements'' (makeMocktitlements sample_makers) False p = Some (p1, Inr ())"
    and p1: "goes_on p1" "fst (the (prov_Cache p1)) WebMocktitlementsDeployment (sample_name WebMocktitlementsDeployment) = Some (DeploymentObj dd)" "kd_NN dd = sample_name WebMocktitlementsDeployment"
    using sample_component_runs [OF mocktitlements.component_maker_axioms _ _ _ assms sample_makers_run(3)] unfolding sample_lw_names by auto
  obtain p2 where s: "makeMocktitlementsSecret sample_lw p1 = Some (p2, Inr ())" "goes_on p2" using sample_sidecar_runs [OF p1] unfolding makeMocktitlementsSecret_def by blast
  obtain p3 where "makeMocktitlementsIngress sample_lw p2 = Some (p3, Inr ())" "goes_on p3" using sample_ingress_runs(2) [OF s(2)] by blast
  then show "\<exists>p'. configureMocktitlements sample_lw p = Some (p', Inr ()) \<and> goes_on p'" using c s(1) unfolding configureMocktitlements_def and_next_ok sample_lw_fields by blast
qed

lemma sample_keycloak_runs:
  assumes "goes_on p"
  shows "\<exists>p'. configureKeycloak sample_lw p = Some (p', Inr ()) \<and> goes_on p'"
proof -
  obtain c where c: "prov_Cache p = Some c" using assms(1) by blast
  let ?nn = "env_nn lw_env ''keycloak''" and ?i = "keycloak_data lw_env ''rnd'' ''pw'' ''pw''"
  obtain p1 m where p1: "make_or_get env_object (lw_KeycloakSecret sample_lw) ?nn ?i p = Some (p1, Inr m)" "goes_on p1"
    using assms c by (simp add: make_or_get_def cached_def sample_lw_def quiet_resource_def MakeOrGetSecret_def KSecretObj_zero_def keycloak_data_def)
  then obtain c1 where "prov_Cache p1 = Some c1" by blast
  then obtain p2 where p2: "setSecretVersion sample_lw ?nn (GetKeycloakVersion lw_env) p1 = Some (p2, Inr ())" "goes_on p2"
    using p1(2) by (auto simp: setSecretVersion_def op_oks cache_Get_def cache_Update_def cached_def sample_lw_def quiet_resource_def)
  obtain p3 where p3: "make_component (pair_comp web_kind) [WebKeycloakDeployment, WebKeycloakService] env_object ''keycloak'' (makeKeycloak sample_makers) False p2 = Some (p3, Inr ())" "goes_on p3"
    using sample_component_runs [OF keycloak.component_maker_axioms _ _ _ p2(2) sample_makers_run(1)] by auto
  obtain p4 where p4: "makeKeycloakImportSecretRealm sample_lw (EnvObject lw_env) (mget m ''defaultPassword'') p3 = Some (p4, Inr ())" "goes_on p4"
    using sample_ingress_runs(4) [OF p3(2)] by blast
  obtain p5 where p5: "makeAuthIngress sample_lw p4 = Some (p5, Inr ())" "goes_on p5" using sample_ingress_runs(3) [OF p4(2)] by blast
  have "lw_Password sample_lw w = Inr ''pw''" "lw_DefaultPassword sample_lw w = Inr ''pw''" "lw_RandString sample_lw w = ''rnd''" for w by (simp_all add: sample_lw_def)
  with assms p1(1) p2(1) p3(1) p4(1) p5 show ?thesis
    unfolding configureKeycloak_def and_next_reads and_next_ok map_err_ok sample_lw_fields by auto
qed

theorem local_web_reachable_witness:
  "\<exists>p'. localweb_EnvProvide sample_lw sample_lw_provider = Some (p', Inr ())
     \<and> reachable (\<lambda>s. fst (snd s)) p' WebKeycloakDeployment WebKeycloakService (NN ''-keycloak'' '''') [(''keycloak'', 8080)]
     \<and> reachable (\<lambda>s. fst (snd s)) p' WebBOPDeployment WebBOPService (NN ''-mbop'' '''') [(''mbop'', 8090), (''auth'', 8080)]
     \<and> ingress_at (\<lambda>s k nn. snd (snd s) (marked k nn)) p' AuthIngress (NN ''-auth'' '''') ''nginx''
         [(''h-auth'', ''/'', ''Prefix'', ''-keycloak'', ''keycloak''), (''h-auth'', ''/auth/realms/redhat-external/apis/service_accounts/v1'', ''Prefix'', ''-mocktitlements'', ''auth'')]
     \<and> ingress_at (\<lambda>s k nn. snd (snd s) (marked k nn)) p' MocktitlementsIngress (NN ''-mocktitlements'' '''') ''nginx'' [(''h'', ''/api/entitlements/'', ''Prefix'', ''-mocktitlements'', ''auth'')]"
proof -
  have p0: "goes_on sample_lw_provider" by (simp add: sample_lw_provider_def sample_pair_provider_def)
  have h: "ensure_hostname sample_lw sample_lw_provider = Some (sample_lw_provider, Inr ())" by (simp add: ensure_hostname_def sample_lw_provider_def)
  obtain p1 where p1: "configureKeycloakDB sample_lw sample_lw_provider = Some (p1, Inr ())" "goes_on p1"
  proof -
    let ?nn = "NN ''keycloak-db'' (env_Namespace lw_env)"
    obtain c where "prov_Cache sample_lw_provider = Some c" using p0 by blast
    from quiet_db_runs [OF this, of ?nn "''keycloak''" "\<lambda>_ _ _. []" "[''sub'' \<mapsto> ''keycloak'']" "\<lambda>env. web_KeycloakPVC (env_Web env)"] p0 show thesis
      by (intro that [of "fst (the (configureKeycloakDB sample_lw sample_lw_provider))"]) (auto simp: configureKeycloakDB_def sample_lw_def Let_def)
  qed
  obtain p2 where p2: "configureKeycloak sample_lw p1 = Some (p2, Inr ())" "goes_on p2" using sample_keycloak_runs [OF p1(2)] by blast
  obtain p3 where p3: "configureMBOP sample_lw p2 = Some (p3, Inr ())" "goes_on p3" using sample_mocks_run(1) [OF p2(2)] by blast
  obtain p4 where p4: "configureMocktitlements sample_lw p3 = Some (p4, Inr ())" "goes_on p4" using sample_mocks_run(2) [OF p3(2)] by blast
  have "configureWebGateway sample_lw p4 = Some (p4, Inr ())"
    using p4(2) by (simp add: configureWebGateway_def ClowdEnvironment_zero_def ProvidersConfig_zero_def WebConfig_zero_def)
  with h p1(1) p2(1) p3(1) p4(1) have run: "localweb_EnvProvide sample_lw sample_lw_provider = Some (p4, Inr ())" by (auto simp: localweb_EnvProvide_def and_next_ok)
  have "makers_laws (lw_Makers sample_lw)" by (simp add: sample_lw_fields sample_makers_laws)
  note reached = local_web_reachable [OF this sample_lw_cache sample_lw_ingresses run refl refl refl refl refl]
  have "prov_Env p4 = lw_env" using p4(2) by blast
  then have "env_Name (prov_Env p4) = ''''" "env_Namespace (prov_Env p4) = ''''" "env_Hostname (prov_Env p4) = ''h''" "web_IngressClass (env_Web (prov_Env p4)) = ''''"
    by (simp_all add: ClowdEnvironment_zero_def ObjectMeta_zero_def ProvidersConfig_zero_def WebConfig_zero_def)
  from reached [unfolded this] run show ?thesis by (intro exI [of _ p4]) simp
qed

theorem gateway_routes_exact_witness:
  "\<lparr>crr_Group = ''group2'', crr_Path = ''/api/api/*'', crr_Dial = ''inv-api.ns.svc:8000''\<rparr>
     \<in> set (gwc_Routes (gateway_config lw_env [sample_web_app\<lparr>app_Spec := ClowdAppSpec_zero\<lparr>app_Deployments := [sample_web_dep]\<rparr>\<rparr>]))"
proof -
  let ?app = "sample_web_app\<lparr>app_Spec := ClowdAppSpec_zero\<lparr>app_Deployments := [sample_web_dep]\<rparr>\<rparr>"
  have "distinct (map (\<lambda>app. app_Name app @ ''-'' @ app_Namespace app) [?app])" by simp
  note exact = gateway_routes_exact [OF this, of lw_env]
  show ?thesis unfolding conjunct1 [OF exact]
    by (intro UnI2 CollectI exI [of _ ?app] exI [of _ sample_web_dep]) (simp add: sample_web_dep_def sample_web_app_def WebServices_zero_def Deployment_zero_def)
qed

text \<open>A deployment of an app in the local mode, in a cache that keeps ingresses, services and deployments.\<close>

type_synonym app_store = "(NamespacedName \<rightharpoonup> KIngress) \<times> web_store"

definition app_kinds :: "(unit \<times> app_store) WebKinds" where
  "app_kinds = quiet_kinds\<lparr>
     wk_Service := (wk_Service quiet_kinds)\<lparr>res_Update := (\<lambda>k (w, i, a, b). ((w, i, a(svc_NN k \<mapsto> k), b), None))\<rparr>,
     wk_Deployment := (wk_Deployment quiet_kinds)\<lparr>res_Update := (\<lambda>k (w, i, a, b). ((w, i, a, b(kd_NN k \<mapsto> k)), None)),
       res_Get := (\<lambda>nn (w, i, a, b). case nn of None \<Rightarrow> Inl (PlainErr ''none'') | Some n \<Rightarrow> (case b n of None \<Rightarrow> Inl (PlainErr ''none'') | Some k \<Rightarrow> Inr k))\<rparr>\<rparr>"

definition sample_lw_app :: "(unit, app_store) LocalWebDeps" where
  "sample_lw_app = \<lparr>lw_Web = sample_web_deps, lw_Kinds = app_kinds, lw_Db = sample_local_deps,
     lw_DbKinds = \<lparr>dr_Deployment = quiet_resource KDeployment_zero, dr_Service = wk_Service quiet_kinds,
       dr_PVC = quiet_resource \<lparr>pvc_ObjectMeta = ObjectMeta_zero, pvc_AccessModes = [], pvc_Storage = ''''\<rparr>, dr_Secret = quiet_resource KSecretObj_zero\<rparr>,
     lw_Comp = \<lparr>cmp_Kinds = (\<lambda>i. Inr ([''Service''], False)), cmp_New = sample_new, cmp_Create = (\<lambda>i nn k s. (s, Inr k)), cmp_Update = (\<lambda>i k s. (s, None)), cmp_Iter = (\<lambda>m. m), cmp_Stack = ''st''\<rparr>,
     lw_Get = (\<lambda>i nn s. Inl (PlainErr ''none'')),
     lw_KeycloakSecret = quiet_resource KSecretObj_zero, lw_ImportSecret = quiet_resource KSecretObj_zero, lw_Secret = quiet_resource KSecretObj_zero,
     lw_KeycloakIngress = quiet_resource KIngress_zero, lw_BOPIngress = quiet_resource KIngress_zero, lw_MocktitlementsIngress = quiet_resource KIngress_zero, lw_GatewayIngress = quiet_resource KIngress_zero,
     lw_Ingress = (quiet_resource KIngress_zero)\<lparr>res_Update := (\<lambda>k (w, i, s). ((w, i(ing_NN k \<mapsto> k), s), None))\<rparr>,
     lw_Issuer = quiet_resource \<lparr>iss_ObjectMeta = ObjectMeta_zero, iss_Spec = None\<rparr>, lw_Certificate = quiet_resource \<lparr>crt_ObjectMeta = ObjectMeta_zero, crt_Spec = None\<rparr>,
     lw_RandString = (\<lambda>w. ''rnd''), lw_RandomIdent = (\<lambda>w. ''id''), lw_Password = (\<lambda>w. Inr ''pw''), lw_DefaultPassword = (\<lambda>w. Inr ''pw''), lw_ReadFile = (\<lambda>f w. Inr ''{}''),
     lw_GetIngress = (\<lambda>w nn. Inl (PlainErr ''none'')), lw_UpdateStatus = (\<lambda>e w. (w, None)), lw_Encode = (\<lambda>c. ''{}'')\<rparr>"

lemma sample_lw_app_caches:
  "web_cache (lw_Kinds sample_lw_app) (\<lambda>s. fst (snd (snd s))) (\<lambda>s. snd (snd (snd s)))" "ingress_cache sample_lw_app (\<lambda>s. fst (snd s)) (\<lambda>s. fst (snd (snd s)))"
  by (auto simp: web_cache_def ingress_cache_def sample_lw_app_def app_kinds_def quiet_kinds_def object_cache_def leaves_alone_def quiet_resource_def split: option.splits)

definition sample_local_env :: ClowdEnvironment where
  "sample_local_env = ClowdEnvironment_zero\<lparr>env_Spec := (env_Spec ClowdEnvironment_zero)\<lparr>env_Providers := ProvidersConfig_zero\<lparr>pv_Web := WebConfig_zero\<lparr>web_Port := 8000, web_Mode := ''local''\<rparr>\<rparr>\<rparr>,
     env_Status := (env_Status ClowdEnvironment_zero)\<lparr>est_Hostname := ''h''\<rparr>\<rparr>"

definition sample_lw_app_provider :: "(unit, app_store) Provider" where
  "sample_lw_app_provider = \<lparr>prov_World = (), prov_Env = sample_local_env, prov_Cache = Some (Map.empty, Map.empty, [NN ''inv-api'' ''ns'' \<mapsto> sample_web_deployment]),
     prov_Config = Some AppConfig_zero, prov_HashCache = []\<rparr>"

lemma sample_local_flags: "\<not> any_tls (tls_flags sample_web_dep sample_local_env)" "\<not> IsTLSConfiguredForEnv (web_TLS (env_Web sample_local_env))"
  by (simp_all add: any_tls_def tls_flags_def Let_def IsPublicTLSEnabled_def IsPrivateTLSEnabled_def IsTLSConfiguredForEnv_def sample_local_env_def WebConfig_zero_def TLS_zero_def)

lemma sample_lw_app_runs: "\<exists>p'. localweb_step sample_lw_app sample_web_app sample_web_dep sample_lw_app_provider = Some (p', Inr ())"
proof -
  have named: "kd_ObjectMeta sample_web_deployment = ObjectMeta_zero\<lparr>om_Name := ''inv-api'', om_Namespace := ''ns''\<rparr>" "pt_Containers (kd_Template sample_web_deployment) = [Container_zero\<lparr>ct_Name := ''inv-api''\<rparr>]"
    by (simp_all add: sample_web_deployment_def)
  obtain p1 a b dd where p1: "makeService (lw_Web sample_lw_app) (lw_Kinds sample_lw_app) sample_web_app sample_web_dep sample_lw_app_provider = Some (p1, Inr ())"
    "prov_Cache p1 = Some (Map.empty, a, b)" "b (NN ''inv-api'' ''ns'') = Some dd" "prov_Env p1 = sample_local_env"
    by (simp add: makeService_def Let_def op_oks sample_web_names sample_lw_app_provider_def sample_local_flags cache_Create_def cache_Update_def cache_Get_def cached_def sample_lw_app_def app_kinds_def
        quiet_kinds_def quiet_resource_def set_first_ports_def named)
  have "is_web sample_web_dep" by (simp add: is_web_def sample_web_dep_def)
  with p1 obtain p2 i where p2: "createIngress sample_lw_app sample_web_app sample_web_dep p1 = Some (p2, Inr ())" "prov_Cache p2 = Some (i, a, b)" "prov_Env p2 = sample_local_env"
    by (auto simp: createIngress_def op_oks with_resource_def cache_Create_def cache_Update_def cached_def sample_lw_app_def quiet_resource_def)
  from p2(2,3) p1(3) have "\<exists>p'. deployment_secret sample_lw_app sample_web_app sample_web_dep p2 = Some (p', Inr ())"
    by (simp add: deployment_secret_def Let_def op_oks sample_web_names sample_local_flags data_hash_def cache_Create_def cache_Update_def cache_Get_def cached_def sample_lw_app_def app_kinds_def
        quiet_kinds_def quiet_resource_def sample_local_deps_def sample_db_deps_def sample_pull_deps_def sample_prov_deps_def)
  with p1(1) p2(1) show ?thesis unfolding localweb_step_def and_next_ok by blast
qed

theorem deployment_ingress_routed_witness:
  "\<exists>p' s ing. localweb_step sample_lw_app sample_web_app sample_web_dep sample_lw_app_provider = Some (p', Inr ())
     \<and> fst (snd (the (prov_Cache p'))) (NN ''inv-api'' ''ns'') = Some s \<and> fst (the (prov_Cache p')) (NN ''inv-api'' ''ns'') = Some ing
     \<and> ingress_routes ing = [(''h'', ''/api/inv-api/'', ''Prefix'', ''inv-api'', ''auth'')]"
proof -
  obtain p' where run: "localweb_step sample_lw_app sample_web_app sample_web_dep sample_lw_app_provider = Some (p', Inr ())" using sample_lw_app_runs by blast
  have laws: "makers_laws (lw_Makers sample_lw_app)" by (simp add: sample_lw_app_def sample_web_deps_def sample_makers_laws)
  have "dep_Web sample_web_dep \<or> pub_Enabled (ws_Public (dep_WebServices sample_web_dep))" "web_Mode (env_Web (prov_Env sample_lw_app_provider)) = ''local''"
    by (simp_all add: sample_web_dep_def sample_lw_app_provider_def sample_local_env_def)
  moreover have "''inv-api'' = app_Name sample_web_app @ ''-'' @ dep_Name sample_web_dep" "NN ''inv-api'' ''ns'' = NN ''inv-api'' (app_Namespace sample_web_app)"
    using sample_web_names by (simp_all add: app_GetDeploymentNamespacedName_def)
  ultimately have routed: "\<exists>s ing. prov_recorded (\<lambda>s. fst (snd (snd s))) p' (NN ''inv-api'' ''ns'') = Some s \<and> prov_recorded (\<lambda>s. fst (snd s)) p' (NN ''inv-api'' ''ns'') = Some ing
      \<and> ingress_routes ing = map (\<lambda>path. (env_Hostname (prov_Env sample_lw_app_provider), path, ''Prefix'', ''inv-api'', ''auth''))
         (case pub_APIPaths (ws_Public (dep_WebServices sample_web_dep)) of
            Some paths \<Rightarrow> paths
          | None \<Rightarrow> [''/api/'' @ (if pub_APIPath (ws_Public (dep_WebServices sample_web_dep)) = '''' then ''inv-api'' else pub_APIPath (ws_Public (dep_WebServices sample_web_dep))) @ ''/''])"
    using deployment_ingress_routed [OF laws sample_lw_app_caches _ _ run refl] by blast
  then show ?thesis using run
    by (auto simp: sample_lw_app_provider_def sample_local_env_def sample_web_dep_def WebServices_zero_def)
qed

end
