(* ===== verification/Spec2Isabelle.thy ===== *)
theory Spec2Isabelle
  imports Dependencies Config_Hash Env_Reconcile Event_Handlers Cji_Reconcile Kafka_Strimzi Sidecars Autoscaler Metrics Web_Local
begin

text \<open>
  Clowder is a Kubernetes operator. A \<open>ClowdEnvironment\<close> says how the services of an environment are provided (databases,
  Kafka, web access, secrets), a \<open>ClowdApp\<close> says what an app needs, and a \<open>ClowdJobInvocation\<close> runs jobs of an app once. The
  operator's reconcilers turn them into Kubernetes objects: for every resource they run a fixed sequence of steps, the most
  important of which runs the registered providers in order. A provider puts objects into a resource cache and writes its
  part of the configuration of the app; after the last provider the cache is applied to the cluster.

  \<^bold>\<open>The theories\<close>, bottom up. Source paths are below \<open>src/controllers/cloud.redhat.com/\<close> unless given in full.

  \<^item> \<open>Clowder_Prelude\<close>: strings, association lists, sorting as a specification, the result of a step, collections of simplification rules.
  \<^item> \<open>Clowd_Errors\<close> (\<open>errors/errors.go\<close>): the error type with its causes, the requeue flag and missing dependencies.
  \<^item> \<open>Kube_Types\<close>, \<open>Crd_Types\<close>, \<open>Crd_Env\<close>, \<open>App_Config\<close> and \<open>Clowder_Config\<close>: the records. The Kubernetes objects with the fields the sources
    use, the custom resources and their methods (\<open>src/apis/cloud.redhat.com/v1alpha1/*_types.go\<close>), the configuration an app gets
    (\<open>config/types.go\<close>) and the operator's own (\<open>clowderconfig/config.go\<close>).
  \<^item> \<open>Sizing\<close> and \<open>Prov_Utils\<close> (\<open>providers/sizing\<close>, \<open>providers/utils/utils.go\<close>): the size tables and the helpers of the providers.
  \<^item> \<open>Dependencies\<close> (\<open>providers/dependencies\<close>): how the names an app depends on become endpoints. Which dependencies are reported missing,
    what is written for the others, the V2 map as a refinement of the V1 list, and when nothing panics.
  \<^item> \<open>Hash_Cache\<close> (\<open>hashcache/hashcache.go\<close>): the cache of hashes of config maps and secrets and of who uses them. Its
    laws are the locale \<open>tracked_objects\<close>, interpreted on the model.
  \<^item> \<open>Provider_Framework\<close> (\<open>providers/providers.go\<close>): the registry, the object and secret helpers.
  \<^item> \<open>Config_Hash\<close> (\<open>providers/confighash\<close>): the hash over the configuration and everything it refers to.
  \<^item> \<open>Resource_Status\<close> (\<open>status.go\<close>): counting of ready objects, conditions.
  \<^item> \<open>Reconcile_Core\<close>, \<open>App_Reconcile\<close>, \<open>Env_Reconcile\<close> (\<open>metrics.go\<close>, \<open>clowdapp_*.go\<close>, \<open>clowdenvironment_*.go\<close>): the two reconcilers, step by
    step, the process-wide sets, the lock. What success guarantees, what a failure leaves behind, invariants of all runs.
  \<^item> \<open>Event_Handlers\<close> (\<open>filters.go\<close>, \<open>handlers.go\<close>): which events enqueue which resources.
  \<^item> \<open>Workloads\<close> and \<open>Iqe\<close> (\<open>providers/deployment\<close>, \<open>cronjob\<close>, \<open>job\<close>, \<open>iqe\<close>): the deployments, cron jobs, jobs and test pods.
  \<^item> \<open>Cji_Reconcile\<close> (\<open>clowdjobinvocation_controller.go\<close>): when the jobs of an invocation are applied, and when it is complete.
  \<^item> \<open>Provider_Ops\<close>: the operations a provider is written in (below), their equations, triples and the facts about the objects that are recorded.
  \<^item> \<open>Service_Accounts\<close> (\<open>providers/serviceaccount\<close>, \<open>pullsecrets\<close>), \<open>Database\<close> (\<open>providers/database\<close>), \<open>Kafka_Topics\<close>, \<open>Kafka_Brokers\<close>, \<open>Kafka_Cyndi\<close>
    and \<open>Kafka_Strimzi\<close> (\<open>providers/kafka\<close>): accounts and pull secrets, databases, topics and the users that may use them.
  \<^item> \<open>Sidecars\<close> (\<open>src/apis/cloud.redhat.com/v1alpha1/clowdapp_webhook.go\<close>, \<open>pod_mutator.go\<close>, \<open>providers/sidecar\<close>): what the webhook admits, the sidecars the providers add,
    the pods that are mutated. \<open>Autoscaler\<close> (\<open>providers/autoscaler\<close>): the scaled objects of the deployments.
  \<^item> \<open>Components\<close> (\<open>CachedMakeComponent\<close> of \<open>providers/providers.go\<close>): a component is a deployment, a service and sometimes a volume claim that a function of the provider
    fills. The locale \<open>component_maker\<close> states what such a function promises; proved once in it: after a successful run deployment and service are recorded and the service
    selects the pods and leads to their ports. Every provider below interprets it on its own functions.
  \<^item> \<open>Object_Store\<close>, \<open>In_Memory_Db\<close>, \<open>Feature_Flags\<close>, \<open>Reverse_Proxy\<close> (\<open>providers/objectstore\<close>, \<open>inmemorydb\<close>, \<open>featureflags\<close>, \<open>reverseproxy\<close>): that what was deployed is what the
    configuration of the app names, that requested buckets exist, and which secret an existing service is taken from.
  \<^item> \<open>Web_Service\<close> (\<open>providers/web/impl.go\<close>, \<open>default.go\<close>, \<open>caddy_reverse_proxy.go\<close>): the service of a deployment, its ports and the TLS sidecar in front of them.
    \<open>Web_Local\<close> (\<open>providers/web/local.go\<close>, \<open>resources_*.go\<close>, \<open>caddy_gateway_config.go\<close>): Keycloak, the mock services, the gateway and the ingresses of the local mode.
  \<^item> \<open>Small_Providers\<close> (\<open>providers/logging\<close>, \<open>namespace\<close>, \<open>servicemesh\<close>) and \<open>Metrics\<close> (\<open>providers/metrics\<close>): logging, labels of namespaces, annotations for the mesh, the port
    for metrics, its monitors, Prometheus and its gateway.

  \<^bold>\<open>State and effects.\<close> A Go structure is a record, a nil pointer \<open>None\<close>, a Go map a map, or an association list where the order of iteration
  shows. A function that may fail returns a sum; one that may panic (a nil dereference, an index out of range) returns an option, and \<open>None\<close> is the
  panic. A reconciler is a record with the resource, the cluster, the cache and the process-wide sets; a step takes and returns it with a
  verdict, and the loop runs the list of steps. A provider is an operation on the record \<open>Provider\<close>: it may change the cluster, the cache,
  the configuration and the hash cache, end with an error, or panic.

  \<^bold>\<open>What is a parameter.\<close> Code that is not part of the repository: the client, the resource cache and the label helpers of
  \<open>rhc-osdk-utils\<close>, the conditions helpers of \<open>cluster-api\<close>, JSON, hashing, sorting and the order of map iteration, random strings, SQL and HTTP. They
  are fields of the records \<open>Deps\<close>, \<open>CjiDeps\<close>, \<open>ProvDeps\<close>, \<open>KafkaDeps\<close>, \<open>DbDeps\<close>, \<open>CyndiDeps\<close>, \<open>StrimziDeps\<close>, \<open>CompDeps\<close>, \<open>ObjMakers\<close>, \<open>MinioDeps\<close>, \<open>RedisDeps\<close>, \<open>FFDeps\<close>, \<open>WebDeps\<close>,
  \<open>LocalWebDeps\<close>, \<open>NsDeps\<close> and \<open>MetricsDeps\<close> or arguments. What a theorem needs of them is a named hypothesis (\<open>object_cache\<close>: what is updated is recorded under its name;
  \<open>leaves_alone\<close>: an update of one kind keeps the others; \<open>component_cache\<close>, \<open>web_cache\<close>, \<open>local_web_cache\<close>, \<open>ingress_cache\<close>, \<open>metrics_cache\<close> and \<open>gateway_cache\<close>, the two for the
  kinds of one provider; \<open>makers_laws\<close>: names, labels and ports of what \<open>rhc-osdk-utils\<close> makes; \<open>bucket_store\<close>, \<open>ns_client\<close>, \<open>labeler_names\<close>, \<open>client_names\<close>, \<open>int_max_law\<close>,
  \<open>go_iteration\<close>, \<open>is_sort_of\<close>), and every such theorem has an example with concrete functions in which the hypotheses hold. The configurations of Caddy are kept as data; writing
  them as JSON is a parameter.

  \<^bold>\<open>Loops and bounds.\<close> All loops run over lists and are structural. The wait for the cached invocation in \<open>status.go\<close> polls until a deadline; it is a
  loop over a given number of ticks, and the liveness theorem holds for any number that lets the cache answer once. Sizes and counts are
  integers; the conversions of topic counts to 32 bits are written out and the theorems ask for counts in range.

  \<^bold>\<open>Not modelled.\<close> Scheme registration, controller setup with its watches and rate limits, logging and the start of the process
  have no state of their own. Deep copies and the types of \<open>providers/metrics/subscriptions\<close> are generated. Mutexes are not modelled: an operation of the
  hash cache or of the lock is one step. The web server that serves the state of the operator (\<open>api.go\<close>) only reads it. All providers are modelled; of a provider for mode \<open>none\<close> that does
  nothing there is only the case of its choice.
\<close>

end
